(* ===== verification/Prelude.thy ===== *)
theory Prelude
  imports Main "HOL-Library.Word"
begin

text \<open>
  Shared vocabulary of the development: the machine types of the C sources, the named
  collections of facts, little- and big-endian byte access (the macros of
  \<^verbatim>\<open>net80211/ieee80211_priv.h\<close>), the 12-bit sequence-number arithmetic of the
  Block Ack code (\<^verbatim>\<open>SEQ_LT\<close>) and generic lemmas on lists that several components use.
\<close>

unbundle bit_operations_syntax

section \<open>Machine types\<close>

type_synonym u8 = "8 word"
type_synonym u16 = "16 word"
type_synonym u32 = "32 word"
type_synonym u64 = "64 word"

text \<open>A packet buffer is the list of its bytes; a byte range of a frame is a byte list.\<close>

type_synonym mbuf = "u8 list"

text \<open>Collections: facts that turn word operations into arithmetic on \<open>nat\<close>, and
  definitions of the header-file constants.\<close>

named_theorems word_nat
named_theorems c_const

section \<open>Flag tests\<close>

text \<open>The C idiom \<open>x & flag\<close> used as a truth value.\<close>

definition has_flag :: "'a::len word \<Rightarrow> 'a word \<Rightarrow> bool" where
  "has_flag x f \<longleftrightarrow> x AND f \<noteq> 0"

lemma has_flag_or_self: "f \<noteq> 0 \<Longrightarrow> has_flag (x OR f) f"
proof -
  have "(x OR f) AND f = f" by (rule bit_eqI) (auto simp: bit_simps)
  then show "f \<noteq> 0 \<Longrightarrow> has_flag (x OR f) f" by (simp add: has_flag_def)
qed

lemma has_flag_or: "f AND g = 0 \<Longrightarrow> has_flag (x OR f) g = has_flag x g"
  by (simp add: has_flag_def bit.conj_disj_distrib2)

lemma has_flag_and_not:
  assumes "f AND g = 0"
  shows "has_flag (x AND NOT f) g = has_flag x g"
proof -
  have "\<not> (bit f n \<and> bit g n)" for n
    using arg_cong [OF assms, of "\<lambda>w. bit w n"] by (simp add: bit_and_iff)
  then have "(x AND NOT f) AND g = x AND g" by (auto intro!: bit_eqI simp: bit_simps)
  then show ?thesis by (simp add: has_flag_def)
qed

lemma has_flag_cleared [simp]: "\<not> has_flag (x AND NOT f) f"
  by (simp add: has_flag_def and.assoc)

lemma unat_ucast_le: "unat (ucast (x :: 'a::len word) :: 'b::len word) \<le> unat x"
  by (simp add: unsigned_ucast_eq take_bit_nat_less_eq_self)

lemma unat_drop_bit: "unat (drop_bit n (x :: 'a::len word)) = unat x div 2 ^ n"
proof -
  have "unat (drop_bit n x) = drop_bit n (take_bit (len_of TYPE('a)) (unat x))"
    by (rule unsigned_drop_bit_eq)
  also have "take_bit (len_of TYPE('a)) (unat x) = unat x" by (simp add: take_bit_nat_eq_self unsigned_less)
  finally show ?thesis by (simp add: drop_bit_eq_div)
qed

section \<open>Byte access\<close>

definition byte_at :: "u8 list \<Rightarrow> nat \<Rightarrow> u8" where
  "byte_at p i = (if i < length p then p ! i else 0)"

definition LE_READ_2 :: "u8 list \<Rightarrow> u16" where
  "LE_READ_2 p = ucast (byte_at p 0) OR push_bit 8 (ucast (byte_at p 1))"

definition LE_WRITE_2 :: "u16 \<Rightarrow> u8 list" where
  "LE_WRITE_2 v = [ucast v, ucast (drop_bit 8 v)]"

definition BE_READ_2 :: "u8 list \<Rightarrow> u16" where
  "BE_READ_2 p = push_bit 8 (ucast (byte_at p 0)) OR ucast (byte_at p 1)"

lemma byte_at_Cons [simp]:
  "byte_at (x # xs) 0 = x"
  "byte_at (x # xs) (Suc n) = byte_at xs n"
  by (auto simp: byte_at_def)

lemma byte_at_drop: "byte_at (drop k p) i = byte_at p (k + i)"
  by (auto simp: byte_at_def)

lemma LE_WRITE_2_length [simp]: "length (LE_WRITE_2 v) = 2"
  by (simp add: LE_WRITE_2_def)

lemma LE_READ_2_append: "2 \<le> length xs \<Longrightarrow> LE_READ_2 (xs @ ys) = LE_READ_2 xs"
  by (cases xs; cases "tl xs") (auto simp: LE_READ_2_def byte_at_def)

lemma LE_READ_WRITE_2 [simp]: "LE_READ_2 (LE_WRITE_2 v @ rest) = v"
  unfolding LE_READ_2_def LE_WRITE_2_def
  by (rule bit_word_eqI)
    (auto simp: bit_or_iff bit_push_bit_iff bit_ucast_iff bit_drop_bit_eq byte_at_def)

lemma LE_READ_WRITE_2' [simp]: "LE_READ_2 (LE_WRITE_2 v) = v"
  using LE_READ_WRITE_2 [of v "[]"] by simp

section \<open>Twelve-bit sequence numbers\<close>

text \<open>\<open>(a - b) & 0xfff\<close> on 16-bit values, and the comparison macro
  \<^verbatim>\<open>SEQ_LT\<close> of \<^verbatim>\<open>ieee80211_priv.h\<close>.\<close>

definition sub12 :: "u16 \<Rightarrow> u16 \<Rightarrow> u16" where
  "sub12 a b = (a - b) AND 0xfff"

definition SEQ_LT :: "u16 \<Rightarrow> u16 \<Rightarrow> bool" where
  "SEQ_LT a b \<longleftrightarrow> sub12 a b > 2048"

lemma unat_and_fff [word_nat]: "unat ((x::u16) AND 0xfff) = unat x mod 4096"
proof -
  have m: "(0xfff::u16) = mask 12" by (simp add: mask_eq_exp_minus_1)
  have "x AND 0xfff = x mod 2 ^ 12"
    by (simp only: m take_bit_eq_mask [symmetric] take_bit_eq_mod)
  then show ?thesis by (simp add: unat_mod)
qed

lemma unat_mod64 [word_nat]: "unat ((x::u16) mod 64) = unat x mod 64"
  by (simp add: unat_mod)

lemma unat_plus16 [word_nat]: "unat ((a::u16) + b) = (unat a + unat b) mod 65536"
  by (simp add: unat_word_ariths)

text \<open>Distance of \<open>a\<close> ahead of \<open>b\<close> modulo 4096, on naturals.\<close>

definition dist12 :: "nat \<Rightarrow> nat \<Rightarrow> nat" where
  "dist12 a b = (a + (4096 - b mod 4096)) mod 4096"

lemma dist12_lt [simp]: "dist12 a b < 4096"
  by (simp add: dist12_def)

lemma dist12_int: "int (dist12 a b) = (int a - int b) mod 4096"
proof -
  have "int (dist12 a b) = (int a + (4096 - int b mod 4096)) mod 4096"
    by (simp add: dist12_def zmod_int of_nat_diff less_imp_le add_diff_eq)
  also have "\<dots> = (4096 + (int a - int b mod 4096)) mod 4096"
    by (rule arg_cong [where f = "\<lambda>x. x mod 4096"]) simp
  also have "\<dots> = (int a - int b mod 4096) mod 4096" by (rule mod_add_self1)
  also have "\<dots> = (int a - int b) mod 4096" by (rule mod_diff_right_eq)
  finally show ?thesis .
qed

lemma dist12_self [simp]: "dist12 a a = 0"
  using dist12_int [of a a] by simp

lemma unat_sub12 [word_nat]: "unat (sub12 a b) = dist12 (unat a) (unat b)"
proof -
  have "int (unat (sub12 a b)) = uint (a - b) mod 4096"
    by (simp add: sub12_def unat_and_fff zmod_int)
  also have "\<dots> = (uint a - uint b) mod 4096"
    by (simp add: uint_word_ariths mod_mod_cancel)
  also have "\<dots> = int (dist12 (unat a) (unat b))"
    by (simp add: dist12_int)
  finally show ?thesis by linarith
qed

lemma SEQ_LT_dist: "SEQ_LT a b \<longleftrightarrow> 2048 < dist12 (unat a) (unat b)"
  by (simp add: SEQ_LT_def word_less_nat_alt unat_sub12)

lemma dist12_add_left: "k < 4096 \<Longrightarrow> dist12 ((b + k) mod 4096) b = k"
proof -
  assume k: "k < 4096"
  have "int (dist12 ((b + k) mod 4096) b) = int k"
    using k by (simp add: dist12_int zmod_int mod_simps)
  then show ?thesis by linarith
qed

lemma dist12_add: "(b + dist12 a b) mod 4096 = a mod 4096"
proof -
  have "int ((b + dist12 a b) mod 4096) = int (a mod 4096)"
    by (simp add: zmod_int dist12_int mod_simps)
  then show ?thesis by linarith
qed

lemma dist12_shift: "dist12 ((a + k) mod 4096) ((b + k) mod 4096) = dist12 a b"
proof -
  have "int (dist12 ((a + k) mod 4096) ((b + k) mod 4096)) = int (dist12 a b)"
    by (simp add: dist12_int zmod_int mod_simps)
  then show ?thesis by linarith
qed

section \<open>Lists of optional entries\<close>

text \<open>The values present in a list of slots, in order.\<close>

definition somes :: "'a option list \<Rightarrow> 'a list" where
  "somes xs = List.map_filter id xs"

lemma somes_simps [simp]:
  "somes [] = []"
  "somes (None # xs) = somes xs"
  "somes (Some x # xs) = x # somes xs"
  by (simp_all add: somes_def List.map_filter_def)

lemma somes_append [simp]: "somes (xs @ ys) = somes xs @ somes ys"
  by (simp add: somes_def List.map_filter_def)

lemma somes_replicate_None [simp]: "somes (replicate n None) = []"
  by (induction n) auto

lemma set_somes: "x \<in> set (somes xs) \<longleftrightarrow> Some x \<in> set xs"
  by (induction xs) (auto split: option.splits simp: somes_def List.map_filter_def)

lemma somes_take_drop: "somes (take n xs) @ somes (drop n xs) = somes xs"
  by (metis append_take_drop_id somes_append)

lemma length_somes: "length (somes xs) \<le> length xs"
  by (simp add: somes_def List.map_filter_def)

text \<open>Shifting a list of slots left by \<open>n\<close>, padding with empty slots.\<close>

definition shift_slots :: "nat \<Rightarrow> 'a option list \<Rightarrow> 'a option list" where
  "shift_slots n xs = drop n xs @ replicate (min n (length xs)) None"

lemma length_shift_slots [simp]: "length (shift_slots n xs) = length xs"
  by (simp add: shift_slots_def)

lemma shift_slots_0 [simp]: "shift_slots 0 xs = xs"
  by (simp add: shift_slots_def)

lemma shift_slots_nth:
  "i < length xs \<Longrightarrow> shift_slots n xs ! i = (if i + n < length xs then xs ! (i + n) else None)"
  by (auto simp: shift_slots_def nth_append add.commute intro!: nth_replicate)

lemma shift_slots_shift: "shift_slots a (shift_slots b xs) = shift_slots (a + b) xs"
  by (rule nth_equalityI) (auto simp: shift_slots_nth add.assoc)

lemma shift_slots_Cons: "shift_slots (Suc n) (x # xs) = shift_slots n (xs @ [None])"
  by (rule nth_equalityI) (auto simp: shift_slots_nth nth_append nth_Cons split: nat.splits)

lemma set_shift_slots: "set (shift_slots n xs) \<subseteq> insert None (set xs)"
  by (auto simp: shift_slots_def dest: in_set_dropD)

lemma somes_shift_slots: "somes (shift_slots n xs) = somes (drop n xs)"
  by (simp add: shift_slots_def)

section \<open>Encoders and decoders\<close>

text \<open>The contract between a builder and a parser: what is built from a value in the domain is
  read back as the view a receiver has of that value.\<close>

locale codec =
  fixes dom :: "'a \<Rightarrow> bool" and enc :: "'a \<Rightarrow> 'b" and dec :: "'b \<Rightarrow> 'c" and view :: "'a \<Rightarrow> 'c"
  assumes dec_enc: "dom x \<Longrightarrow> dec (enc x) = view x"
begin

lemma enc_view: "dom x \<Longrightarrow> dom y \<Longrightarrow> enc x = enc y \<Longrightarrow> view x = view y"
  by (metis dec_enc)

lemma image_views: "(\<And>x. x \<in> S \<Longrightarrow> dom x) \<Longrightarrow> dec ` enc ` S = view ` S"
  by (force simp: dec_enc)

end

end
