(* ===== verification/Timeout.thy ===== *)
theory Timeout
  imports Prelude "HOL-Library.Signed_Division"
begin

text \<open>
  The timers of net80211: \<^verbatim>\<open>net80211/timeout.c\<close> on top of \<^verbatim>\<open>CTimeout.cpp\<close>.
  A \<^verbatim>\<open>CTimeout *\<close> is an option, \<open>None\<close> being the NULL pointer of a timer that was never
  set.  A set timer records the software flag \<^verbatim>\<open>isPending\<close> and whether the IOKit timer
  event source is armed, with its delay in milliseconds; the two differ after
  \<open>timeout_set\<close> on a running timer, which clears the flag only.  The callback is fixed per
  timer field by the code that sets it, so it is not part of the state.  Creation of the
  IOKit event source is taken to succeed.
\<close>

record ctimeout =
  isPending :: bool
  armed :: "int option"

type_synonym ctimer = "ctimeout option"

definition timeout_set :: "ctimer \<Rightarrow> ctimer" where
  "timeout_set t = (case t of
      None \<Rightarrow> Some \<lparr>isPending = False, armed = None\<rparr>
    | Some c \<Rightarrow> Some (c\<lparr>isPending := False\<rparr>))"

definition timeout_add_msec :: "ctimer \<Rightarrow> int \<Rightarrow> ctimer" where
  "timeout_add_msec t ms = (case t of
      None \<Rightarrow> None
    | Some c \<Rightarrow> Some (c\<lparr>isPending := True, armed := Some ms\<rparr>))"

definition timeout_add_sec :: "ctimer \<Rightarrow> int \<Rightarrow> ctimer" where
  "timeout_add_sec t secs = timeout_add_msec t (secs * 1000)"

definition timeout_add_usec :: "ctimer \<Rightarrow> int \<Rightarrow> ctimer" where
  "timeout_add_usec t usecs = timeout_add_msec t (usecs sdiv 1000)"

definition timeout_del :: "ctimer \<Rightarrow> ctimer" where
  "timeout_del t = (case t of
      None \<Rightarrow> None
    | Some c \<Rightarrow> if isPending c then Some (c\<lparr>isPending := False, armed := None\<rparr>) else Some c)"

definition timeout_free :: "ctimer \<Rightarrow> ctimer" where
  "timeout_free t = None"

definition timeout_pending :: "ctimer \<Rightarrow> bool" where
  "timeout_pending t \<longleftrightarrow> (case t of None \<Rightarrow> False | Some c \<Rightarrow> isPending c)"

definition timeout_initialized :: "ctimer \<Rightarrow> bool" where
  "timeout_initialized t \<longleftrightarrow> t \<noteq> None"

text \<open>\<^verbatim>\<open>CTimeout::timeoutOccurred\<close> up to the call of \<^verbatim>\<open>to_func\<close>: the event source has
  fired, the flag is cleared.\<close>

definition timeoutOccurred :: "ctimer \<Rightarrow> ctimer" where
  "timeoutOccurred t = (case t of
      None \<Rightarrow> None
    | Some c \<Rightarrow> Some (c\<lparr>isPending := False, armed := None\<rparr>))"

named_theorems timeout_defs

declare timeout_set_def [timeout_defs] timeout_add_msec_def [timeout_defs]
  timeout_add_sec_def [timeout_defs] timeout_add_usec_def [timeout_defs]
  timeout_del_def [timeout_defs] timeout_free_def [timeout_defs]
  timeout_pending_def [timeout_defs] timeout_initialized_def [timeout_defs]
  timeoutOccurred_def [timeout_defs]

lemma timeout_pending_simps [simp]:
  "\<not> timeout_pending None"
  "\<not> timeout_pending (timeout_set t)"
  "\<not> timeout_pending (timeout_del t)"
  "\<not> timeout_pending (timeout_free t)"
  "\<not> timeout_pending (timeoutOccurred t)"
  "timeout_pending (timeout_add_msec t ms) \<longleftrightarrow> timeout_initialized t"
  "timeout_pending (timeout_add_usec t ms) \<longleftrightarrow> timeout_initialized t"
  "timeout_pending (timeout_add_sec t ms) \<longleftrightarrow> timeout_initialized t"
  by (auto simp: timeout_defs split: option.splits)

lemma timeout_initialized_simps [simp]:
  "timeout_initialized (timeout_set t)"
  "timeout_initialized (timeout_del t) \<longleftrightarrow> timeout_initialized t"
  "timeout_initialized (timeout_add_msec t ms) \<longleftrightarrow> timeout_initialized t"
  "timeout_initialized (timeout_add_usec t ms) \<longleftrightarrow> timeout_initialized t"
  "timeout_initialized (timeout_add_sec t ms) \<longleftrightarrow> timeout_initialized t"
  "timeout_initialized (timeoutOccurred t) \<longleftrightarrow> timeout_initialized t"
  by (auto simp: timeout_defs split: option.splits)

text \<open>A flagged timer is armed: kept by every operation; the converse fails after
  \<open>timeout_set\<close> on a running timer.\<close>

definition timer_ok :: "ctimer \<Rightarrow> bool" where
  "timer_ok t \<longleftrightarrow> (case t of None \<Rightarrow> True | Some c \<Rightarrow> isPending c \<longrightarrow> armed c \<noteq> None)"

lemma timer_ok_ops [simp]:
  "timer_ok t \<Longrightarrow> timer_ok (timeout_set t)"
  "timer_ok (timeout_add_msec t ms)"
  "timer_ok t \<Longrightarrow> timer_ok (timeout_del t)"
  "timer_ok (timeoutOccurred t)"
  by (auto simp: timer_ok_def timeout_defs split: option.splits)

end
