(* ===== verification/Reorder.thy ===== *)
theory Reorder
  imports Timeout "HOL-Library.Multiset"
begin

text \<open>
  The receive reordering buffer of an HT-immediate Block Ack agreement
  (\<^verbatim>\<open>net80211/ieee80211_input.c\<close>, \<^verbatim>\<open>ieee80211_input_ba\<close> to \<^verbatim>\<open>ieee80211_ba_move_window\<close>).
  The C code keeps a circular array of 64 slots with a head index; the abstract view of a
  record is the list of slots from the head on.  Every operation advances the window by some
  number of positions, handing up what it passes over: this is the relation \<open>advanced\<close>, on
  which all the component's proofs rest.
\<close>

section \<open>Data\<close>

record rxinfo =
  rxi_flags :: u32
  rxi_tstamp :: u32
  rxi_rssi :: "32 word"
  rxi_chan :: u8

definition IEEE80211_RXI_HWDEC :: u32 where [c_const]: "IEEE80211_RXI_HWDEC = 1"
definition IEEE80211_RXI_AMPDU_DONE :: u32 where [c_const]: "IEEE80211_RXI_AMPDU_DONE = 2"
definition IEEE80211_RXI_HWDEC_SAME_PN :: u32 where [c_const]: "IEEE80211_RXI_HWDEC_SAME_PN = 4"
definition IEEE80211_RXI_SAME_SEQ :: u32 where [c_const]: "IEEE80211_RXI_SAME_SEQ = 8"

datatype ba_state = BA_INIT | BA_REQUESTED | BA_AGREED

abbreviation IEEE80211_BA_MAX_WINSZ :: nat where "IEEE80211_BA_MAX_WINSZ \<equiv> 64"
abbreviation IEEE80211_BA_GAP_TIMEOUT :: int where "IEEE80211_BA_GAP_TIMEOUT \<equiv> 300"
abbreviation IEEE80211_BA_MAX_WINMISS :: int where "IEEE80211_BA_MAX_WINMISS \<equiv> 8"

text \<open>A slot of the buffer (\<^verbatim>\<open>struct ieee80211_ba_buf\<close>): empty when its \<^verbatim>\<open>m\<close> is NULL; the
  metadata of an empty slot is never read.\<close>

type_synonym ba_slot = "(mbuf \<times> rxinfo) option"

record rx_ba =
  ba_buf :: "ba_slot list option"
  ba_to :: ctimer
  ba_timeout_val :: int
  ba_state :: ba_state
  ba_params :: u16
  ba_winstart :: u16
  ba_winend :: u16
  ba_winsize :: u16
  ba_head :: u16
  ba_gap_to :: ctimer
  ba_gapwait :: int
  ba_winmiss :: int
  ba_missedsn :: u16
  ba_token :: u8

text \<open>The counters of \<^verbatim>\<open>ic_stats\<close> that the Block Ack code touches, and what the code does to
  the rest of the system: the calls of \<^verbatim>\<open>ieee80211_inputm\<close> for released frames, in order,
  and the buffers given to \<^verbatim>\<open>mbuf_freem\<close>.\<close>

record ba_stats =
  is_ht_rx_ba_agreements :: u32
  is_ht_tx_ba_agreements :: u32
  is_ht_rx_frame_below_ba_winstart :: u32
  is_ht_rx_frame_above_ba_winend :: u32
  is_ht_rx_ba_window_slide :: u32
  is_ht_rx_ba_window_jump :: u32
  is_ht_rx_ba_no_buf :: u32
  is_ht_rx_ba_frame_lost :: u32
  is_ht_rx_ba_window_gap_timeout :: u32
  is_ht_rx_ba_timeout :: u32
  is_ht_tx_ba_timeout :: u32
  is_pbac_errs :: u32

record rxctx =
  rx_stats :: ba_stats
  inputErrors :: u32
  rx_up :: "(mbuf \<times> rxinfo) list"
  rx_freed :: "mbuf list"

text \<open>Sequence number of the frame in a buffer: bytes 22 and 23 of the 802.11 header.\<close>

definition frame_seq :: "mbuf \<Rightarrow> u16" where
  "frame_seq m = drop_bit 4 (LE_READ_2 (drop 22 m))"

lemma frame_seq_lt: "unat (frame_seq m) < 4096"
proof -
  have "unat (frame_seq m) = unat (LE_READ_2 (drop 22 m)) div 16"
    by (simp add: frame_seq_def drop_bit_eq_div unat_div)
  moreover have "unat (LE_READ_2 (drop 22 m)) < 65536"
    using unsigned_less [of "LE_READ_2 (drop 22 m)", where ?'a = nat] by simp
  ultimately show ?thesis by simp
qed

section \<open>Operations\<close>

definition bump :: "(ba_stats \<Rightarrow> ba_stats) \<Rightarrow> rxctx \<Rightarrow> rxctx" where
  "bump f cx = cx\<lparr>rx_stats := f (rx_stats cx)\<rparr>"

definition input_error :: "rxctx \<Rightarrow> rxctx" where
  "input_error cx = cx\<lparr>inputErrors := inputErrors cx + 1\<rparr>"

definition mbuf_freem :: "mbuf \<Rightarrow> rxctx \<Rightarrow> rxctx" where
  "mbuf_freem m cx = cx\<lparr>rx_freed := rx_freed cx @ [m]\<rparr>"

definition inputm :: "mbuf \<Rightarrow> rxinfo \<Rightarrow> rxctx \<Rightarrow> rxctx" where
  "inputm m rxi cx = cx\<lparr>rx_up := rx_up cx @ [(m, rxi)]\<rparr>"

text \<open>Slot access.  The array has 64 slots whenever it is allocated, and every index the code
  forms is below 64 (\<open>rx_ba_core\<close>); reads elsewhere are given the value of an empty slot.\<close>

definition slot_at :: "rx_ba \<Rightarrow> nat \<Rightarrow> ba_slot" where
  "slot_at ba i = (case ba_buf ba of None \<Rightarrow> None | Some b \<Rightarrow> if i < length b then b ! i else None)"

definition set_slot :: "nat \<Rightarrow> ba_slot \<Rightarrow> rx_ba \<Rightarrow> rx_ba" where
  "set_slot i v ba = ba\<lparr>ba_buf := map_option (\<lambda>b. b[i := v]) (ba_buf ba)\<rparr>"

abbreviation head_slot :: "rx_ba \<Rightarrow> ba_slot" where
  "head_slot ba \<equiv> slot_at ba (unat (ba_head ba))"

definition take_head :: "rx_ba \<Rightarrow> rx_ba" where
  "take_head ba = (set_slot (unat (ba_head ba)) None ba)\<lparr>ba_gapwait := ba_gapwait ba - 1\<rparr>"

definition next_head :: "rx_ba \<Rightarrow> rx_ba" where
  "next_head ba = ba\<lparr>ba_head := (ba_head ba + 1) mod 64\<rparr>"

definition next_winstart :: "rx_ba \<Rightarrow> rx_ba" where
  "next_winstart ba = ba\<lparr>ba_winstart := (ba_winstart ba + 1) AND 0xfff\<rparr>"

definition set_winend :: "rx_ba \<Rightarrow> rx_ba" where
  "set_winend ba = ba\<lparr>ba_winend := (ba_winstart ba + ba_winsize ba - 1) AND 0xfff\<rparr>"

text \<open>\<^verbatim>\<open>ieee80211_input_ba_flush\<close>: the \<^verbatim>\<open>while\<close> loop, then the window end and the gap timer.
  The loop ends because every round empties a slot.\<close>

function input_ba_flush_loop :: "rx_ba \<Rightarrow> rxctx \<Rightarrow> rx_ba \<times> rxctx" where
  "input_ba_flush_loop ba cx = (case head_slot ba of
      None \<Rightarrow> (ba, cx)
    | Some (m, rxi) \<Rightarrow>
        input_ba_flush_loop (next_winstart (next_head (take_head ba))) (inputm m rxi cx))"
  by pat_completeness auto

definition occupied :: "rx_ba \<Rightarrow> nat" where
  "occupied ba = (case ba_buf ba of None \<Rightarrow> 0 | Some b \<Rightarrow> length (somes b))"

lemma length_somes_update_None:
  "i < length b \<Longrightarrow> b ! i = Some x \<Longrightarrow> Suc (length (somes (b[i := None]))) = length (somes b)"
proof (induction b arbitrary: i)
  case (Cons a b)
  then show ?case by (cases i; cases a) auto
qed simp

termination input_ba_flush_loop
proof (relation "measure (\<lambda>(ba, _). occupied ba)", simp)
  fix ba :: rx_ba and cx :: rxctx and v m rxi
  assume h: "head_slot ba = Some v" and "(m, rxi) = v"
  then obtain b where b: "ba_buf ba = Some b" "unat (ba_head ba) < length b"
      "b ! unat (ba_head ba) = Some v"
    by (auto simp: slot_at_def split: option.splits if_splits)
  then show "((next_winstart (next_head (take_head ba)), inputm m rxi cx), ba, cx)
      \<in> measure (\<lambda>(ba, _). occupied ba)"
    using length_somes_update_None [OF b(2,3)]
    by (simp add: occupied_def next_winstart_def next_head_def take_head_def set_slot_def)
qed

declare input_ba_flush_loop.simps [simp del]

definition input_ba_flush :: "rx_ba \<Rightarrow> rxctx \<Rightarrow> rx_ba \<times> rxctx" where
  "input_ba_flush ba cx =
    (if head_slot ba = None then (ba, cx)
     else let (ba, cx) = input_ba_flush_loop ba cx;
              ba = set_winend ba;
              ba = (if timeout_pending (ba_gap_to ba)
                    then ba\<lparr>ba_gap_to := timeout_del (ba_gap_to ba)\<rparr> else ba);
              ba = (if ba_gapwait ba \<noteq> 0
                    then ba\<lparr>ba_gap_to := timeout_add_msec (ba_gap_to ba) IEEE80211_BA_GAP_TIMEOUT\<rparr>
                    else ba)
          in (ba, cx))"

text \<open>\<^verbatim>\<open>ieee80211_input_ba_seq\<close>: at most \<^verbatim>\<open>ba_winsize\<close> rounds, the first argument counting the
  rounds left.\<close>

fun input_ba_seq_loop :: "nat \<Rightarrow> u16 \<Rightarrow> rx_ba \<Rightarrow> rxctx \<Rightarrow> rx_ba \<times> rxctx" where
  "input_ba_seq_loop 0 max_seq ba cx = (ba, cx)"
| "input_ba_seq_loop (Suc n) max_seq ba cx = (case head_slot ba of
      Some (m, rxi) \<Rightarrow>
        if \<not> SEQ_LT (frame_seq m) max_seq then (ba, cx)
        else input_ba_seq_loop n max_seq (next_winstart (next_head (take_head ba))) (inputm m rxi cx)
    | None \<Rightarrow>
        input_ba_seq_loop n max_seq (next_winstart (next_head ba))
          (bump (is_ht_rx_ba_frame_lost_update (\<lambda>c. c + 1)) cx))"

definition input_ba_seq :: "u16 \<Rightarrow> rx_ba \<Rightarrow> rxctx \<Rightarrow> rx_ba \<times> rxctx" where
  "input_ba_seq max_seq ba cx =
    (let (ba, cx) = input_ba_seq_loop (unat (ba_winsize ba)) max_seq ba cx in (set_winend ba, cx))"

text \<open>\<^verbatim>\<open>ieee80211_input_ba_gap_skip\<close> with its result, the number of positions skipped.\<close>

fun gap_skip_loop :: "nat \<Rightarrow> rx_ba \<Rightarrow> nat \<Rightarrow> rx_ba \<times> nat" where
  "gap_skip_loop 0 ba skipped = (ba, skipped)"
| "gap_skip_loop (Suc n) ba skipped =
    (if head_slot ba = None then gap_skip_loop n (next_winstart (next_head ba)) (Suc skipped)
     else (ba, skipped))"

definition input_ba_gap_skip :: "rx_ba \<Rightarrow> rx_ba \<times> nat" where
  "input_ba_gap_skip ba =
    (let (ba, skipped) = gap_skip_loop (unat (ba_winsize ba)) ba 0
     in (if skipped > 0 then set_winend ba else ba, skipped))"

definition input_ba_gap_timeout :: "rx_ba \<Rightarrow> rxctx \<Rightarrow> rx_ba \<times> rxctx" where
  "input_ba_gap_timeout ba cx =
    (let cx = bump (is_ht_rx_ba_window_gap_timeout_update (\<lambda>c. c + 1)) cx;
         (ba, skipped) = input_ba_gap_skip ba;
         cx = bump (is_ht_rx_ba_frame_lost_update (\<lambda>c. c + of_nat skipped)) cx
     in if skipped \<noteq> 0 then input_ba_flush ba cx else (ba, cx))"

text \<open>\<^verbatim>\<open>ieee80211_ba_move_window\<close>: the loop moves the head only; \<^verbatim>\<open>ba_winstart\<close> jumps after it.\<close>

fun move_window_loop :: "nat \<Rightarrow> rx_ba \<Rightarrow> rxctx \<Rightarrow> rx_ba \<times> rxctx" where
  "move_window_loop 0 ba cx = (ba, cx)"
| "move_window_loop (Suc n) ba cx = (case head_slot ba of
      Some (m, rxi) \<Rightarrow> move_window_loop n (next_head (take_head ba)) (inputm m rxi cx)
    | None \<Rightarrow> move_window_loop n (next_head ba)
        (bump (is_ht_rx_ba_frame_lost_update (\<lambda>c. c + 1)) cx))"

definition ba_move_window :: "u16 \<Rightarrow> rx_ba \<Rightarrow> rxctx \<Rightarrow> rx_ba \<times> rxctx" where
  "ba_move_window ssn ba cx =
    (let count = unat (sub12 ssn (ba_winstart ba));
         count = (if count > unat (ba_winsize ba) then unat (ba_winsize ba) else count);
         (ba, cx) = move_window_loop count ba cx;
         ba = set_winend (ba\<lparr>ba_winstart := ssn\<rparr>)
     in input_ba_flush ba cx)"

text \<open>\<^verbatim>\<open>ieee80211_input_ba\<close>.  Its last part, the store of the frame, is a definition of its
  own because two paths reach it.\<close>

definition arm_gap :: "rx_ba \<Rightarrow> rx_ba" where
  "arm_gap ba = (if head_slot ba = None \<and> ba_gapwait ba = 1
     then ba\<lparr>ba_gap_to := timeout_add_msec (ba_gap_to ba) IEEE80211_BA_GAP_TIMEOUT\<rparr> else ba)"

definition input_ba_store :: "mbuf \<Rightarrow> rxinfo \<Rightarrow> rx_ba \<Rightarrow> rxctx \<Rightarrow> rx_ba \<times> rxctx" where
  "input_ba_store m rxi ba cx =
    (let sn = frame_seq m;
         ba = ba\<lparr>ba_winmiss := 0, ba_missedsn := 0\<rparr>;
         idx = unat (sub12 sn (ba_winstart ba));
         idx = (unat (ba_head ba) + idx) mod IEEE80211_BA_MAX_WINSZ
     in if slot_at ba idx \<noteq> None
        then (ba, mbuf_freem m (bump (is_ht_rx_ba_no_buf_update (\<lambda>c. c + 1)) (input_error cx)))
        else
          let rxi = rxi\<lparr>rxi_flags := rxi_flags rxi OR IEEE80211_RXI_AMPDU_DONE\<rparr>;
              ba = set_slot idx (Some (m, rxi)) ba;
              ba = arm_gap (ba\<lparr>ba_gapwait := ba_gapwait ba + 1\<rparr>)
          in input_ba_flush ba cx)"

definition ba_rearm :: "rx_ba \<Rightarrow> rx_ba" where
  "ba_rearm ba = (if ba_timeout_val ba \<noteq> 0
     then ba\<lparr>ba_to := timeout_add_usec (ba_to ba) (ba_timeout_val ba)\<rparr> else ba)"

definition input_ba :: "mbuf \<Rightarrow> rxinfo \<Rightarrow> rx_ba \<Rightarrow> rxctx \<Rightarrow> rx_ba \<times> rxctx" where
  "input_ba m rxi ba cx =
    (let sn = frame_seq m; ba = ba_rearm ba
     in if SEQ_LT sn (ba_winstart ba)
        then (ba, mbuf_freem m (bump (is_ht_rx_frame_below_ba_winstart_update (\<lambda>c. c + 1)) cx))
        else if ba_buf ba = None
        then (ba, mbuf_freem m (bump (is_ht_rx_ba_no_buf_update (\<lambda>c. c + 1)) (input_error cx)))
        else if SEQ_LT (ba_winend ba) sn
        then
          let cx = bump (is_ht_rx_frame_above_ba_winend_update (\<lambda>c. c + 1)) cx;
              count = sub12 sn (ba_winend ba)
          in if unat count > unat (ba_winsize ba)
             then
               if ba_winmiss ba < IEEE80211_BA_MAX_WINMISS
               then
                 (ba\<lparr>ba_winmiss := (if ba_missedsn ba = (sn - 1) AND 0xfff then ba_winmiss ba + 1 else 0),
                     ba_missedsn := sn\<rparr>,
                  mbuf_freem m (input_error cx))
               else
                 let cx = bump (is_ht_rx_ba_window_jump_update (\<lambda>c. c + 1)) cx;
                     (ba, cx) = ba_move_window sn (ba\<lparr>ba_winmiss := 0, ba_missedsn := 0\<rparr>) cx
                 in input_ba_store m rxi ba cx
             else
               let cx = bump (is_ht_rx_ba_window_slide_update (\<lambda>c. c + 1)) cx;
                   (ba, cx) = input_ba_seq ((ba_winstart ba + count) AND 0xfff) ba cx;
                   (ba, cx) = input_ba_flush ba cx
               in input_ba_store m rxi ba cx
        else input_ba_store m rxi ba cx)"

end
