(* ===== verification/BlockAck.thy ===== *)
theory BlockAck
  imports Reorder
begin

text \<open>
  Management of Block Ack agreements: the ADDBA/DELBA/SA-Query action frames and the BlockAckReq
  (\<^verbatim>\<open>ieee80211_input.c\<close>), the requests, inactivity timers and teardown
  (\<^verbatim>\<open>ieee80211_proto.c\<close>, \<^verbatim>\<open>ieee80211_node.c\<close>), and the frames built for them
  (\<^verbatim>\<open>ieee80211_output.c\<close>).  Every handler maps the pair of the node and the part of
  \<^verbatim>\<open>struct ieee80211com\<close> it uses to the pair afterwards.  What leaves the component (action
  frames handed to \<^verbatim>\<open>ic_send_mgmt\<close>, driver notifications) is recorded in \<open>ic_out\<close>.
  The driver hooks and the allocator are parameters, the record \<open>hooks\<close>.
\<close>

section \<open>State\<close>

datatype ieee80211_state = S_INIT | S_SCAN | S_AUTH | S_ASSOC | S_RUN

datatype ieee80211_opmode = M_STA | M_IBSS | M_HOSTAP | M_AHDEMO | M_MONITOR

record tx_ba =
  tba_to :: ctimer
  tba_timeout_val :: int
  tba_state :: ba_state
  tba_params :: u16
  tba_winstart :: u16
  tba_winend :: u16
  tba_winsize :: u16
  tba_token :: u8
  tba_bitmap :: u64

record ba_node =
  ni_rx_ba :: "rx_ba list"
  ni_tx_ba :: "tx_ba list"
  ni_flags :: u32
  ni_rsncaps :: u16
  ni_port_valid :: bool
  ni_qos_txseqs :: "u16 list"
  ni_addba_req_to :: "ctimer list"
  ni_addba_req_intval :: "int list"
  ni_sa_query_trid :: u16
  ni_sa_query_to :: ctimer

datatype ba_event =
    SendAction u8 u8 u32
  | AmpduRxStart u8
  | AmpduRxStop u8
  | AmpduTxStart u8
  | AmpduTxStop u8

record ba_com =
  ic_state :: ieee80211_state
  ic_opmode :: ieee80211_opmode
  ic_flags :: u32
  ic_xflags :: u32
  ic_caps :: u32
  ic_htcaps :: u16
  ic_tid_noack :: u16
  ic_dialog_token :: u8
  ic_cx :: rxctx
  ic_out :: "ba_event list"

type_synonym ba_sys = "ba_node \<times> ba_com"

text \<open>Code outside this component: the driver entry points with the error they return
  (\<open>None\<close> for a NULL pointer; whether the stop hooks are set), and whether the allocation of
  a reordering buffer succeeds.\<close>

record hooks =
  ampdu_rx_start :: "(ba_sys \<Rightarrow> u8 \<Rightarrow> int) option"
  ampdu_tx_start :: "(ba_sys \<Rightarrow> u8 \<Rightarrow> int) option"
  ampdu_rx_stop :: bool
  ampdu_tx_stop :: bool
  malloc_ok :: "ba_sys \<Rightarrow> bool"

abbreviation (input) NUM_TID :: nat where "NUM_TID \<equiv> 16"

text \<open>Constants of \<^verbatim>\<open>ieee80211.h\<close>, \<^verbatim>\<open>ieee80211_var.h\<close> and \<^verbatim>\<open>ieee80211_node.h\<close>.\<close>

abbreviation (input) CATEG_BA :: u8 where "CATEG_BA \<equiv> 3"
abbreviation (input) CATEG_SA_QUERY :: u8 where "CATEG_SA_QUERY \<equiv> 8"
abbreviation (input) ACTION_ADDBA_REQ :: u8 where "ACTION_ADDBA_REQ \<equiv> 0"
abbreviation (input) ACTION_ADDBA_RESP :: u8 where "ACTION_ADDBA_RESP \<equiv> 1"
abbreviation (input) ACTION_DELBA :: u8 where "ACTION_DELBA \<equiv> 2"
abbreviation (input) ACTION_SA_QUERY_REQ :: u8 where "ACTION_SA_QUERY_REQ \<equiv> 0"
abbreviation (input) ACTION_SA_QUERY_RESP :: u8 where "ACTION_SA_QUERY_RESP \<equiv> 1"
abbreviation (input) ADDBA_AMSDU :: u16 where "ADDBA_AMSDU \<equiv> 1"
abbreviation (input) ADDBA_BA_POLICY :: u16 where "ADDBA_BA_POLICY \<equiv> 2"
abbreviation (input) DELBA_INITIATOR :: u16 where "DELBA_INITIATOR \<equiv> 0x800"
abbreviation (input) BA_MULTI_TID :: u16 where "BA_MULTI_TID \<equiv> 2"
abbreviation (input) DUR_TU :: int where "DUR_TU \<equiv> 1024"
abbreviation (input) STATUS_SUCCESS :: u16 where "STATUS_SUCCESS \<equiv> 0"
abbreviation (input) STATUS_REFUSED :: u16 where "STATUS_REFUSED \<equiv> 37"
abbreviation (input) REASON_SETUP_REQUIRED :: u16 where "REASON_SETUP_REQUIRED \<equiv> 38"
abbreviation (input) REASON_TIMEOUT :: u16 where "REASON_TIMEOUT \<equiv> 39"
abbreviation (input) REASON_AUTH_LEAVE :: u16 where "REASON_AUTH_LEAVE \<equiv> 3"
abbreviation (input) ADDBA_REQ_INTVAL_MAX :: int where "ADDBA_REQ_INTVAL_MAX \<equiv> 30"
abbreviation (input) NODE_MFP :: u32 where "NODE_MFP \<equiv> 0x80"
abbreviation (input) NODE_HT :: u32 where "NODE_HT \<equiv> 0x400"
abbreviation (input) NODE_SA_QUERY :: u32 where "NODE_SA_QUERY \<equiv> 0x800"
abbreviation (input) RSNCAP_PBAC :: u16 where "RSNCAP_PBAC \<equiv> 0x1000"
abbreviation (input) HTCAP_DELAYEDBA :: u16 where "HTCAP_DELAYEDBA \<equiv> 0x400"
abbreviation (input) F_RSNON :: u32 where "F_RSNON \<equiv> 0x200000"
abbreviation (input) F_PBAR :: u32 where "F_PBAR \<equiv> 0x04000000"
abbreviation (input) F_BGSCAN :: u32 where "F_BGSCAN \<equiv> 0x08000000"
abbreviation (input) F_DISABLE_BG_AUTO_CONNECT :: u32 where "F_DISABLE_BG_AUTO_CONNECT \<equiv> 0x40000000"
abbreviation (input) F_TX_MGMT_ONLY :: u32 where "F_TX_MGMT_ONLY \<equiv> 1"
abbreviation (input) C_AMSDU_IN_AMPDU :: u32 where "C_AMSDU_IN_AMPDU \<equiv> 0x20000"
abbreviation (input) C_TX_AMPDU_SETUP_IN_HW :: u32 where "C_TX_AMPDU_SETUP_IN_HW \<equiv> 0x40000"
abbreviation (input) EBUSY :: int where "EBUSY \<equiv> 16"

section \<open>Access\<close>

definition the_rx_ba :: "ba_node \<Rightarrow> u8 \<Rightarrow> rx_ba" where
  "the_rx_ba ni tid = ni_rx_ba ni ! unat tid"

definition the_tx_ba :: "ba_node \<Rightarrow> u8 \<Rightarrow> tx_ba" where
  "the_tx_ba ni tid = ni_tx_ba ni ! unat tid"

definition put_rx_ba :: "u8 \<Rightarrow> rx_ba \<Rightarrow> ba_node \<Rightarrow> ba_node" where
  "put_rx_ba tid ba ni = ni\<lparr>ni_rx_ba := (ni_rx_ba ni)[unat tid := ba]\<rparr>"

definition put_tx_ba :: "u8 \<Rightarrow> tx_ba \<Rightarrow> ba_node \<Rightarrow> ba_node" where
  "put_tx_ba tid ba ni = ni\<lparr>ni_tx_ba := (ni_tx_ba ni)[unat tid := ba]\<rparr>"

definition emit :: "ba_event \<Rightarrow> ba_com \<Rightarrow> ba_com" where
  "emit e ic = ic\<lparr>ic_out := ic_out ic @ [e]\<rparr>"

definition ba_stat :: "(ba_stats \<Rightarrow> ba_stats) \<Rightarrow> ba_com \<Rightarrow> ba_com" where
  "ba_stat f ic = ic\<lparr>ic_cx := bump f (ic_cx ic)\<rparr>"

text \<open>The packed argument of \<^verbatim>\<open>IEEE80211_SEND_ACTION\<close>: a status or reason code, then a dialog
  token or direction, then the TID.\<close>

definition action_arg :: "u16 \<Rightarrow> u8 \<Rightarrow> u8 \<Rightarrow> u32" where
  "action_arg code b tid = push_bit 16 (ucast code) OR push_bit 8 (ucast b) OR ucast tid"

definition send_ba :: "u8 \<Rightarrow> u32 \<Rightarrow> ba_com \<Rightarrow> ba_com" where
  "send_ba action arg = emit (SendAction CATEG_BA action arg)"

definition node_pbac :: "ba_node \<Rightarrow> bool" where
  "node_pbac ni \<longleftrightarrow> has_flag (ni_flags ni) NODE_MFP \<and> has_flag (ni_rsncaps ni) RSNCAP_PBAC"

section \<open>ADDBA requests from the peer\<close>

definition addba_req_accept :: "u8 \<Rightarrow> ba_sys \<Rightarrow> ba_sys" where
  "addba_req_accept tid = (\<lambda>(ni, ic).
    (let ba = (the_rx_ba ni tid)\<lparr>ba_state := BA_AGREED\<rparr>;
         ic = ba_stat (is_ht_rx_ba_agreements_update (\<lambda>c. c + 1)) ic;
         ba = ba_rearm ba
     in (put_rx_ba tid ba ni,
         send_ba ACTION_ADDBA_RESP (action_arg STATUS_SUCCESS (ba_token ba) tid) ic)))"

definition addba_req_refuse :: "u8 \<Rightarrow> ba_sys \<Rightarrow> ba_sys" where
  "addba_req_refuse tid = (\<lambda>(ni, ic).
    (let ba = (the_rx_ba ni tid)\<lparr>ba_buf := None, ba_state := BA_INIT\<rparr>
     in (put_rx_ba tid ba ni,
         send_ba ACTION_ADDBA_RESP (action_arg STATUS_REFUSED (ba_token ba) tid) ic)))"

text \<open>Moving the window inside the state of the component (the calls of
  \<^verbatim>\<open>ieee80211_ba_move_window\<close>).\<close>

definition rx_move_window :: "u8 \<Rightarrow> u16 \<Rightarrow> ba_sys \<Rightarrow> ba_sys" where
  "rx_move_window tid ssn = (\<lambda>(ni, ic).
    (let (ba, cx) = ba_move_window ssn (the_rx_ba ni tid) (ic_cx ic)
     in (put_rx_ba tid ba ni, ic\<lparr>ic_cx := cx\<rparr>)))"

text \<open>The record of a new agreement, up to the allocation of the buffer.\<close>

definition rx_ba_params :: "bool \<Rightarrow> u16 \<Rightarrow> u16 \<Rightarrow> u8 \<Rightarrow> u16" where
  "rx_ba_params amsdu params winsize tid =
    (let pars = (params AND ADDBA_BA_POLICY) OR (push_bit 6 winsize OR push_bit 2 (ucast tid))
     in if amsdu then pars OR ADDBA_AMSDU else pars)"

definition rx_ba_setup :: "ba_com \<Rightarrow> u8 \<Rightarrow> u8 \<Rightarrow> u16 \<Rightarrow> u16 \<Rightarrow> u16 \<Rightarrow> rx_ba \<Rightarrow> rx_ba" where
  "rx_ba_setup ic tid token params timeout ssn ba =
    (let bufsz = drop_bit 6 (params AND 0xffc0);
         winsize = (if bufsz = 0 \<or> bufsz > 64 then 64 else bufsz);
         pars = rx_ba_params (has_flag (ic_caps ic) C_AMSDU_IN_AMPDU) params winsize tid
     in ba\<lparr>ba_state := BA_REQUESTED, ba_timeout_val := uint timeout * DUR_TU, ba_token := token,
           ba_to := timeout_set (ba_to ba), ba_gap_to := timeout_set (ba_gap_to ba),
           ba_gapwait := 0, ba_winsize := winsize, ba_params := pars,
           ba_winstart := ssn, ba_winend := (ssn + winsize - 1) AND 0xfff\<rparr>)"

definition recv_addba_req :: "hooks \<Rightarrow> mbuf \<Rightarrow> ba_sys \<Rightarrow> ba_sys" where
  "recv_addba_req H m = (\<lambda>(ni, ic).
    if ic_state ic \<noteq> S_RUN \<or> (has_flag (ic_flags ic) F_RSNON \<and> \<not> ni_port_valid ni) then (ni, ic)
    else if \<not> has_flag (ni_flags ni) NODE_HT then (ni, ic)
    else if length m < 24 + 9 then (ni, ic)
    else
      let frm = drop 24 m;
          token = byte_at frm 2;
          params = LE_READ_2 (drop 3 frm);
          tid = ucast (drop_bit 2 (params AND 0x3c)) :: u8;
          timeout = LE_READ_2 (drop 5 frm);
          ssn = drop_bit 4 (LE_READ_2 (drop 7 frm));
          ba = the_rx_ba ni tid;
          refuse = send_ba ACTION_ADDBA_RESP (action_arg STATUS_REFUSED token tid)
      in if ba_state ba = BA_REQUESTED then (ni, ic)
         else if has_flag (ic_flags ic) F_BGSCAN \<and> \<not> has_flag (ic_flags ic) F_DISABLE_BG_AUTO_CONNECT
              \<and> has_flag (ic_xflags ic) F_TX_MGMT_ONLY then (ni, ic)
         else if ba_state ba = BA_AGREED
         then
           let ba = ba_rearm ba; ni = put_rx_ba tid ba ni
           in if \<not> node_pbac ni then (ni, ic)
              else if SEQ_LT (ba_winstart ba) ssn then rx_move_window tid ssn (ni, ic)
              else (ni, ic)
         else if has_flag (ic_flags ic) F_PBAR \<and> \<not> node_pbac ni then (ni, refuse ic)
         else if has_flag (ic_tid_noack ic) (push_bit (unat tid) 1) then (ni, refuse ic)
         else if \<not> has_flag (ic_htcaps ic) HTCAP_DELAYEDBA \<and> \<not> has_flag params ADDBA_BA_POLICY
         then (ni, refuse ic)
         else
           let ba = rx_ba_setup ic tid token params timeout ssn ba
           in if \<not> malloc_ok H (ni, ic)
              then (put_rx_ba tid (ba\<lparr>ba_buf := None\<rparr>) ni, refuse ic)
              else
                let ba = ba\<lparr>ba_buf := Some (replicate IEEE80211_BA_MAX_WINSZ None), ba_head := 0\<rparr>;
                    ni = put_rx_ba tid ba ni;
                    err = (case ampdu_rx_start H of None \<Rightarrow> 0 | Some f \<Rightarrow> f (ni, ic) tid);
                    ic = (if ampdu_rx_start H = None then ic else emit (AmpduRxStart tid) ic)
                in if err = EBUSY then (ni, ic)
                   else if err \<noteq> 0 then addba_req_refuse tid (ni, ic)
                   else addba_req_accept tid (ni, ic))"

section \<open>ADDBA responses from the peer\<close>

definition addba_resp_accept :: "u8 \<Rightarrow> ba_sys \<Rightarrow> ba_sys" where
  "addba_resp_accept tid = (\<lambda>(ni, ic).
    (let ba = (the_tx_ba ni tid)\<lparr>tba_state := BA_AGREED\<rparr>;
         ic = ba_stat (is_ht_tx_ba_agreements_update (\<lambda>c. c + 1)) ic;
         ni = ni\<lparr>ni_qos_txseqs := (ni_qos_txseqs ni)[unat tid := tba_winstart ba],
                 ni_addba_req_intval := (ni_addba_req_intval ni)[unat tid := 1]\<rparr>;
         ba = (if tba_timeout_val ba \<noteq> 0
               then ba\<lparr>tba_to := timeout_add_usec (tba_to ba) (tba_timeout_val ba)\<rparr> else ba)
     in (put_tx_ba tid ba ni, ic)))"

definition addba_resp_refuse :: "u8 \<Rightarrow> ba_sys \<Rightarrow> ba_sys" where
  "addba_resp_refuse tid = (\<lambda>(ni, ic).
    (put_tx_ba tid ((the_tx_ba ni tid)\<lparr>tba_state := BA_INIT\<rparr>) ni, ic))"

definition bump_intval :: "u8 \<Rightarrow> ba_node \<Rightarrow> ba_node" where
  "bump_intval tid ni =
    (let v = ni_addba_req_intval ni ! unat tid
     in if v < ADDBA_REQ_INTVAL_MAX
        then ni\<lparr>ni_addba_req_intval := (ni_addba_req_intval ni)[unat tid := v + 1]\<rparr> else ni)"

definition recv_addba_resp :: "hooks \<Rightarrow> mbuf \<Rightarrow> ba_sys \<Rightarrow> ba_sys" where
  "recv_addba_resp H m = (\<lambda>(ni, ic).
    if length m < 24 + 9 then (ni, ic)
    else
      let frm = drop 24 m;
          token = byte_at frm 2;
          status = LE_READ_2 (drop 3 frm);
          params = LE_READ_2 (drop 5 frm);
          tid = ucast (drop_bit 2 params AND 0xf) :: u8;
          ba = the_tx_ba ni tid
      in if tba_state ba \<noteq> BA_REQUESTED then (ni, ic)
         else if token \<noteq> tba_token ba then (ni, ic)
         else
           let ni = put_tx_ba tid (ba\<lparr>tba_to := timeout_del (tba_to ba)\<rparr>) ni
           in if status \<noteq> STATUS_SUCCESS
              then
                let (ni, ic) = addba_resp_refuse tid (bump_intval tid ni, ic)
                in (ni, send_ba ACTION_DELBA (action_arg REASON_SETUP_REQUIRED 1 tid) ic)
              else
                let err = (case ampdu_tx_start H of None \<Rightarrow> 0 | Some f \<Rightarrow> f (ni, ic) tid);
                    ic = (if ampdu_tx_start H = None then ic else emit (AmpduTxStart tid) ic)
                in if err = EBUSY then (ni, ic)
                   else if err \<noteq> 0 then addba_resp_refuse tid (ni, ic)
                   else addba_resp_accept tid (ni, ic))"

section \<open>DELBA and teardown\<close>

text \<open>The end of a receive agreement: the timers stop, the frames still buffered are freed.\<close>

definition rx_ba_release :: "rx_ba \<Rightarrow> rxctx \<Rightarrow> rx_ba \<times> rxctx" where
  "rx_ba_release ba cx =
    (let ba = ba\<lparr>ba_to := timeout_del (ba_to ba), ba_gap_to := timeout_del (ba_gap_to ba)\<rparr>
     in case ba_buf ba of
          None \<Rightarrow> (ba, cx)
        | Some b \<Rightarrow> (ba\<lparr>ba_buf := None\<rparr>, cx\<lparr>rx_freed := rx_freed cx @ map fst (somes b)\<rparr>))"

definition notify_stop :: "bool \<Rightarrow> ba_event \<Rightarrow> ba_com \<Rightarrow> ba_com" where
  "notify_stop hook e ic = (if hook then emit e ic else ic)"

definition recv_delba :: "hooks \<Rightarrow> mbuf \<Rightarrow> ba_sys \<Rightarrow> ba_sys" where
  "recv_delba H m = (\<lambda>(ni, ic).
    if length m < 24 + 6 then (ni, ic)
    else
      let frm = drop 24 m;
          params = LE_READ_2 (drop 2 frm);
          tid = ucast (drop_bit 12 params) :: u8
      in if has_flag params DELBA_INITIATOR
         then
           let ba = the_rx_ba ni tid
           in if ba_state ba \<noteq> BA_AGREED then (ni, ic)
              else
                let ic = notify_stop (ampdu_rx_stop H) (AmpduRxStop tid) ic;
                    (ba, cx) = rx_ba_release (ba\<lparr>ba_state := BA_INIT, ba_gapwait := 0\<rparr>) (ic_cx ic)
                in (put_rx_ba tid ba ni, ic\<lparr>ic_cx := cx\<rparr>)
         else
           let ba = the_tx_ba ni tid
           in if tba_state ba \<noteq> BA_AGREED then (ni, ic)
              else
                (put_tx_ba tid (ba\<lparr>tba_state := BA_INIT, tba_to := timeout_del (tba_to ba)\<rparr>) ni,
                 notify_stop (ampdu_tx_stop H) (AmpduTxStop tid) ic))"

definition delba_request :: "hooks \<Rightarrow> u16 \<Rightarrow> u8 \<Rightarrow> u8 \<Rightarrow> ba_sys \<Rightarrow> ba_sys" where
  "delba_request H reason dir tid = (\<lambda>(ni, ic).
    (let ic = (if reason \<noteq> 0 then send_ba ACTION_DELBA (action_arg reason dir tid) ic else ic)
     in if dir \<noteq> 0
        then
          let ba = the_tx_ba ni tid;
              ic = notify_stop (ampdu_tx_stop H) (AmpduTxStop tid) ic
          in (put_tx_ba tid (ba\<lparr>tba_state := BA_INIT, tba_to := timeout_del (tba_to ba)\<rparr>) ni, ic)
        else
          let ic = notify_stop (ampdu_rx_stop H) (AmpduRxStop tid) ic;
              (ba, cx) = rx_ba_release ((the_rx_ba ni tid)\<lparr>ba_state := BA_INIT\<rparr>) (ic_cx ic)
          in (put_rx_ba tid ba ni, ic\<lparr>ic_cx := cx\<rparr>)))"

definition tx_ba_timeout :: "hooks \<Rightarrow> u8 \<Rightarrow> ba_sys \<Rightarrow> ba_sys" where
  "tx_ba_timeout H tid = (\<lambda>(ni, ic).
    (let ba = the_tx_ba ni tid
     in case tba_state ba of
          BA_REQUESTED \<Rightarrow>
            (bump_intval tid (put_tx_ba tid (ba\<lparr>tba_state := BA_INIT\<rparr>) ni),
             send_ba ACTION_DELBA (action_arg REASON_SETUP_REQUIRED 1 tid) ic)
        | BA_AGREED \<Rightarrow>
            delba_request H REASON_TIMEOUT 1 tid
              (ni, ba_stat (is_ht_tx_ba_timeout_update (\<lambda>c. c + 1)) ic)
        | BA_INIT \<Rightarrow> (ni, ic)))"

definition rx_ba_timeout :: "hooks \<Rightarrow> u8 \<Rightarrow> ba_sys \<Rightarrow> ba_sys" where
  "rx_ba_timeout H tid = (\<lambda>(ni, ic).
    delba_request H REASON_TIMEOUT 0 tid (ni, ba_stat (is_ht_rx_ba_timeout_update (\<lambda>c. c + 1)) ic))"

text \<open>The gap timer's callback on the agreement of one TID.\<close>

definition rx_gap_timeout :: "u8 \<Rightarrow> ba_sys \<Rightarrow> ba_sys" where
  "rx_gap_timeout tid = (\<lambda>(ni, ic).
    (let (ba, cx) = input_ba_gap_timeout (the_rx_ba ni tid) (ic_cx ic)
     in (put_rx_ba tid ba ni, ic\<lparr>ic_cx := cx\<rparr>)))"

text \<open>A data frame of an agreed TID going through the reordering buffer (the call of
  \<^verbatim>\<open>ieee80211_input_ba\<close>).\<close>

definition rx_ba_data :: "mbuf \<Rightarrow> rxinfo \<Rightarrow> u8 \<Rightarrow> ba_sys \<Rightarrow> ba_sys" where
  "rx_ba_data m rxi tid = (\<lambda>(ni, ic).
    (let (ba, cx) = input_ba m rxi (the_rx_ba ni tid) (ic_cx ic)
     in (put_rx_ba tid ba ni, ic\<lparr>ic_cx := cx\<rparr>)))"

section \<open>Requests\<close>

definition tx_ba_setup :: "ba_com \<Rightarrow> u16 \<Rightarrow> u8 \<Rightarrow> tx_ba \<Rightarrow> tx_ba" where
  "tx_ba_setup ic ssn tid ba =
    (let winsize = of_nat IEEE80211_BA_MAX_WINSZ :: u16;
         pars = push_bit 6 winsize OR push_bit 2 (ucast tid) :: u16;
         pars = (if has_flag (ic_caps ic) C_AMSDU_IN_AMPDU then pars OR ADDBA_AMSDU else pars);
         pars = (if \<not> has_flag (ic_htcaps ic) HTCAP_DELAYEDBA then pars OR ADDBA_BA_POLICY else pars)
     in ba\<lparr>tba_state := BA_REQUESTED, tba_token := ic_dialog_token ic,
           tba_timeout_val := 0, tba_to := timeout_set (tba_to ba),
           tba_winsize := winsize, tba_winstart := ssn,
           tba_winend := (ssn + winsize - 1) AND 0xfff, tba_params := pars\<rparr>)"

definition addba_request :: "hooks \<Rightarrow> u16 \<Rightarrow> u8 \<Rightarrow> ba_sys \<Rightarrow> ba_sys \<times> int" where
  "addba_request H ssn tid = (\<lambda>(ni, ic).
    (let ba = the_tx_ba ni tid
     in if tba_state ba \<noteq> BA_INIT then ((ni, ic), EBUSY)
        else
          let ba = tx_ba_setup ic ssn tid ba;
              ic = ic\<lparr>ic_dialog_token := ic_dialog_token ic + 1\<rparr>;
              ni = put_tx_ba tid ba ni
          in case (if has_flag (ic_caps ic) C_TX_AMPDU_SETUP_IN_HW then ampdu_tx_start H else None) of
               Some f \<Rightarrow>
                 let err = f (ni, ic) tid;
                     ic = emit (AmpduTxStart tid) ic
                 in (if err \<noteq> 0 \<and> err \<noteq> EBUSY then addba_resp_refuse tid (ni, ic)
                     else if err = 0 then addba_resp_accept tid (ni, ic)
                     else (ni, ic), err)
             | None \<Rightarrow>
                 ((put_tx_ba tid (ba\<lparr>tba_to := timeout_add_sec (tba_to ba) 1\<rparr>) ni,
                   send_ba ACTION_ADDBA_REQ (ucast tid) ic), 0)))"

definition stop_ampdu_tx :: "hooks \<Rightarrow> int \<Rightarrow> ba_sys \<Rightarrow> ba_sys" where
  "stop_ampdu_tx H mgt s =
    foldl (\<lambda>(ni, ic) tid.
        if tba_state (the_tx_ba ni tid) \<noteq> BA_AGREED then (ni, ic)
        else delba_request H
               (if has_flag (ic_caps ic) C_TX_AMPDU_SETUP_IN_HW \<or> mgt = -1 then 0 else REASON_AUTH_LEAVE)
               1 tid (ni, ic))
      s (map of_nat [0..<NUM_TID])"

text \<open>\<^verbatim>\<open>ieee80211_ba_del\<close> and \<^verbatim>\<open>ieee80211_ba_free\<close>; only the timers of the four access
  categories exist among the ADDBA request timers.\<close>

definition del_if_pending :: "ctimer \<Rightarrow> ctimer" where
  "del_if_pending t = (if timeout_pending t then timeout_del t else t)"

definition ba_del :: "ba_node \<Rightarrow> ba_node" where
  "ba_del ni = ni\<lparr>
     ni_rx_ba := map (\<lambda>ba. if ba_state ba \<noteq> BA_INIT
         then ba\<lparr>ba_to := del_if_pending (ba_to ba), ba_gap_to := del_if_pending (ba_gap_to ba),
                 ba_state := BA_INIT\<rparr> else ba) (ni_rx_ba ni),
     ni_tx_ba := map (\<lambda>ba. if tba_state ba \<noteq> BA_INIT
         then ba\<lparr>tba_to := del_if_pending (tba_to ba), tba_state := BA_INIT\<rparr> else ba) (ni_tx_ba ni),
     ni_addba_req_to := map timeout_del (take 4 (ni_addba_req_to ni)) @ drop 4 (ni_addba_req_to ni)\<rparr>"

definition ba_free :: "ba_node \<Rightarrow> ba_node" where
  "ba_free ni = ni\<lparr>
     ni_rx_ba := map (\<lambda>ba. ba\<lparr>ba_to := timeout_free (ba_to ba), ba_gap_to := timeout_free (ba_gap_to ba)\<rparr>) (ni_rx_ba ni),
     ni_tx_ba := map (\<lambda>ba. ba\<lparr>tba_to := timeout_free (tba_to ba)\<rparr>) (ni_tx_ba ni),
     ni_addba_req_to := map timeout_free (take 4 (ni_addba_req_to ni)) @ drop 4 (ni_addba_req_to ni)\<rparr>"

definition node_trigger_addba_req :: "u8 \<Rightarrow> ba_node \<Rightarrow> ba_node" where
  "node_trigger_addba_req tid ni =
    (if tba_state (the_tx_ba ni tid) = BA_INIT \<and> \<not> timeout_pending (ni_addba_req_to ni ! unat tid)
     then ni\<lparr>ni_addba_req_to := (ni_addba_req_to ni)
               [unat tid := timeout_add_sec (ni_addba_req_to ni ! unat tid) (ni_addba_req_intval ni ! unat tid)]\<rparr>
     else ni)"

definition node_addba_request :: "hooks \<Rightarrow> u8 \<Rightarrow> ba_sys \<Rightarrow> ba_sys" where
  "node_addba_request H tid s = fst (addba_request H (ni_qos_txseqs (fst s) ! unat tid) tid s)"

section \<open>SA Query\<close>

definition recv_sa_query_req :: "mbuf \<Rightarrow> ba_sys \<Rightarrow> ba_sys" where
  "recv_sa_query_req m = (\<lambda>(ni, ic).
    if ic_opmode ic \<noteq> M_STA \<or> \<not> has_flag (ni_flags ni) NODE_MFP then (ni, ic)
    else if length m < 24 + 4 then (ni, ic)
    else (ni\<lparr>ni_sa_query_trid := LE_READ_2 (drop 2 (drop 24 m))\<rparr>,
          emit (SendAction CATEG_SA_QUERY ACTION_SA_QUERY_RESP 0) ic))"

definition recv_sa_query_resp :: "mbuf \<Rightarrow> ba_sys \<Rightarrow> ba_sys" where
  "recv_sa_query_resp m = (\<lambda>(ni, ic).
    if \<not> has_flag (ni_flags ni) NODE_SA_QUERY then (ni, ic)
    else if length m < 24 + 4 then (ni, ic)
    else if ni_sa_query_trid ni \<noteq> LE_READ_2 (drop 2 (drop 24 m)) then (ni, ic)
    else (ni\<lparr>ni_sa_query_to := timeout_del (ni_sa_query_to ni),
             ni_flags := ni_flags ni AND NOT NODE_SA_QUERY\<rparr>, ic))"

section \<open>Dispatch of action frames, and BlockAckReq\<close>

definition recv_action :: "hooks \<Rightarrow> mbuf \<Rightarrow> ba_sys \<Rightarrow> ba_sys" where
  "recv_action H m s =
    (if length m < 24 + 2 then s
     else
       let frm = drop 24 m; categ = byte_at frm 0; action = byte_at frm 1
       in if categ = CATEG_BA
          then if action = ACTION_ADDBA_REQ then recv_addba_req H m s
               else if action = ACTION_ADDBA_RESP then recv_addba_resp H m s
               else if action = ACTION_DELBA then recv_delba H m s
               else s
          else if categ = CATEG_SA_QUERY
          then if action = ACTION_SA_QUERY_REQ then recv_sa_query_req m s
               else if action = ACTION_SA_QUERY_RESP then recv_sa_query_resp m s
               else s
          else s)"

definition bar_tid :: "u8 \<Rightarrow> u16 \<Rightarrow> ba_sys \<Rightarrow> ba_sys" where
  "bar_tid tid ssn = (\<lambda>(ni, ic).
    (let ba = the_rx_ba ni tid
     in if ba_state ba \<noteq> BA_AGREED
        then (ni, send_ba ACTION_DELBA (action_arg REASON_SETUP_REQUIRED 0 tid) ic)
        else if node_pbac ni
        then (ni, if SEQ_LT ssn (ba_winstart ba) \<or> SEQ_LT (ba_winend ba) ssn
                  then ba_stat (is_pbac_errs_update (\<lambda>c. c + 1)) ic else ic)
        else
          let ba = ba_rearm ba; ni = put_rx_ba tid ba ni
          in if SEQ_LT (ba_winstart ba) ssn then rx_move_window tid ssn (ni, ic) else (ni, ic)))"

text \<open>The loop over the records of a Multi-TID BlockAckReq, \<open>n\<close> of them left.\<close>

fun mtbar_loop :: "nat \<Rightarrow> u8 list \<Rightarrow> ba_sys \<Rightarrow> ba_sys" where
  "mtbar_loop 0 frm s = s"
| "mtbar_loop (Suc n) frm s =
    mtbar_loop n (drop 4 frm)
      (bar_tid (ucast (drop_bit 12 (LE_READ_2 frm))) (drop_bit 4 (LE_READ_2 (drop 2 frm))) s)"

definition recv_bar :: "mbuf \<Rightarrow> ba_sys \<Rightarrow> ba_sys" where
  "recv_bar m s =
    (if \<not> has_flag (ni_flags (fst s)) NODE_HT then s
     else if length m < 16 + 4 then s
     else
       let frm = drop 16 m; ctl = LE_READ_2 frm; tid = ucast (drop_bit 12 ctl) :: u8
       in if has_flag ctl BA_MULTI_TID
          then let ntids = unat tid + 1
               in if length m < 16 + 2 + 4 * ntids then s else mtbar_loop ntids (drop 2 frm) s
          else bar_tid tid (drop_bit 4 (LE_READ_2 (drop 2 frm))) s)"

section \<open>Frames sent\<close>

text \<open>The bodies built by \<^verbatim>\<open>ieee80211_output.c\<close>; \<open>getmgmt_ok\<close> says whether an mbuf was to be had.\<close>

definition get_addba_req :: "bool \<Rightarrow> ba_node \<Rightarrow> u8 \<Rightarrow> u8 list option" where
  "get_addba_req getmgmt_ok ni tid =
    (if \<not> getmgmt_ok then None
     else let ba = the_tx_ba ni tid
          in Some ([CATEG_BA, ACTION_ADDBA_REQ, tba_token ba] @ LE_WRITE_2 (tba_params ba) @
                   LE_WRITE_2 (of_int (tba_timeout_val ba sdiv DUR_TU)) @
                   LE_WRITE_2 (push_bit 4 (tba_winstart ba))))"

definition get_addba_resp :: "bool \<Rightarrow> ba_node \<Rightarrow> u8 \<Rightarrow> u8 \<Rightarrow> u16 \<Rightarrow> u8 list option" where
  "get_addba_resp getmgmt_ok ni tid token status =
    (if \<not> getmgmt_ok then None
     else let ba = the_rx_ba ni tid;
              params = (if status = 0 then ba_params ba else push_bit 2 (ucast tid))
          in Some ([CATEG_BA, ACTION_ADDBA_RESP, token] @ LE_WRITE_2 status @ LE_WRITE_2 params @
                   (if status = 0 then LE_WRITE_2 (of_int (ba_timeout_val ba sdiv DUR_TU))
                    else LE_WRITE_2 0)))"

definition get_delba :: "bool \<Rightarrow> u8 \<Rightarrow> u8 \<Rightarrow> u16 \<Rightarrow> u8 list option" where
  "get_delba getmgmt_ok tid dir reason =
    (if \<not> getmgmt_ok then None
     else let params = push_bit 12 (ucast tid);
              params = (if dir \<noteq> 0 then params OR DELBA_INITIATOR else params)
          in Some ([CATEG_BA, ACTION_DELBA] @ LE_WRITE_2 params @ LE_WRITE_2 reason))"

definition get_sa_query :: "bool \<Rightarrow> ba_node \<Rightarrow> u8 \<Rightarrow> u8 list option" where
  "get_sa_query getmgmt_ok ni action =
    (if \<not> getmgmt_ok then None
     else Some ([CATEG_SA_QUERY, action] @ LE_WRITE_2 (ni_sa_query_trid ni)))"

definition get_action :: "bool \<Rightarrow> ba_node \<Rightarrow> u8 \<Rightarrow> u8 \<Rightarrow> u32 \<Rightarrow> u8 list option" where
  "get_action ok ni categ action arg =
    (if categ = CATEG_BA then
       if action = ACTION_ADDBA_REQ then get_addba_req ok ni (ucast (arg AND 0xffff))
       else if action = ACTION_ADDBA_RESP
       then get_addba_resp ok ni (ucast (arg AND 0xff)) (ucast (drop_bit 8 arg)) (ucast (drop_bit 16 arg))
       else if action = ACTION_DELBA
       then get_delba ok (ucast (arg AND 0xff)) (ucast (drop_bit 8 arg)) (ucast (drop_bit 16 arg))
       else None
     else if categ = CATEG_SA_QUERY then
       if action = ACTION_SA_QUERY_REQ \<or> action = ACTION_SA_QUERY_RESP then get_sa_query ok ni action
       else None
     else None)"

section \<open>The transmit window\<close>

text \<open>The window of frames sent, with the bitmap of acknowledged ones.  The sequence counter of
  the loops advances \<open>mod 0xfff\<close>, as written in the source.  A shift of the \<^verbatim>\<open>int\<close> 1 by 31 or
  more is undefined in C, \<open>None\<close> here; \<^verbatim>\<open>_KASSERT\<close> is taken to be compiled out.\<close>

definition seq_succ :: "u16 \<Rightarrow> u16" where
  "seq_succ s = (s + 1) mod 0xfff"

lemma drop_bit1_less: "bm \<noteq> 0 \<Longrightarrow> unat (drop_bit 1 (bm :: u64)) < unat bm"
proof -
  assume "bm \<noteq> 0"
  then have "0 < unat bm" by (simp add: unat_gt_0)
  moreover have "unat (drop_bit 1 bm) = unat bm div 2"
    by (simp add: drop_bit_eq_div unat_div)
  ultimately show ?thesis by simp
qed

function tx_window_loop :: "u16 \<Rightarrow> u16 \<Rightarrow> u64 \<Rightarrow> u64" where
  "tx_window_loop ssn s bm =
    (if SEQ_LT s ssn \<and> bm \<noteq> 0 then tx_window_loop ssn (seq_succ s) (drop_bit 1 bm) else bm)"
  by pat_completeness auto
termination
  by (relation "measure (\<lambda>(_, _, bm). unat bm)") (simp_all add: drop_bit1_less [simplified])

declare tx_window_loop.simps [simp del]

definition output_ba_move_window :: "u8 \<Rightarrow> u16 \<Rightarrow> ba_node \<Rightarrow> ba_node" where
  "output_ba_move_window tid ssn ni =
    (let ba = the_tx_ba ni tid;
         bm = tx_window_loop ssn (tba_winstart ba) (tba_bitmap ba);
         start = ssn AND 0xfff
     in put_tx_ba tid (ba\<lparr>tba_bitmap := bm, tba_winstart := start,
                          tba_winend := (start + tba_winsize ba - 1) AND 0xfff\<rparr>) ni)"

function first_unacked_loop :: "u16 \<Rightarrow> u16 \<Rightarrow> u64 \<Rightarrow> bool \<Rightarrow> u16 \<times> bool" where
  "first_unacked_loop ssn s bm moved =
    (if bm \<noteq> 0 \<and> SEQ_LT s ssn
     then if bm AND 1 = 0 then (s, moved)
          else first_unacked_loop ssn (seq_succ s) (drop_bit 1 bm) True
     else (s, moved))"
  by pat_completeness auto
termination
  by (relation "measure (\<lambda>(_, _, bm, _). unat bm)") (simp_all add: drop_bit1_less [simplified])

declare first_unacked_loop.simps [simp del]

definition output_ba_move_window_to_first_unacked :: "u8 \<Rightarrow> u16 \<Rightarrow> ba_node \<Rightarrow> ba_node" where
  "output_ba_move_window_to_first_unacked tid ssn ni =
    (let ba = the_tx_ba ni tid;
         (s, can_move_window) = first_unacked_loop ssn (tba_winstart ba) (tba_bitmap ba) False
     in if can_move_window then output_ba_move_window tid s ni else ni)"

partial_function (option) record_ack_loop :: "u16 \<Rightarrow> u16 \<Rightarrow> nat \<Rightarrow> nat option" where
  "record_ack_loop ssn s i =
    (if SEQ_LT s ssn then record_ack_loop ssn (seq_succ s) (Suc i) else Some i)"

definition output_ba_record_ack :: "u8 \<Rightarrow> u16 \<Rightarrow> ba_node \<Rightarrow> ba_node option" where
  "output_ba_record_ack tid ssn ni =
    (let ba = the_tx_ba ni tid
     in case record_ack_loop ssn (tba_winstart ba) 0 of
               None \<Rightarrow> None
             | Some i \<Rightarrow>
                 if i < unat (tba_winsize ba)
                 then if i < 31
                      then Some (put_tx_ba tid (ba\<lparr>tba_bitmap := tba_bitmap ba OR push_bit i 1\<rparr>) ni)
                      else None
                 else Some ni)"

end
