(* ===== verification/ReorderCorrect.thy ===== *)
theory ReorderCorrect
  imports Reorder
begin

text \<open>
  Correctness of the reordering buffer: the circular array refines a shifting list of slots,
  the window invariant, in-order delivery, conservation of frames, progress of the gap timer.
\<close>

declare not_None_eq [simp del]

section \<open>The abstract view\<close>

definition slots :: "rx_ba \<Rightarrow> ba_slot list" where
  "slots ba = (case ba_buf ba of None \<Rightarrow> [] | Some b \<Rightarrow> b)"

definition view :: "rx_ba \<Rightarrow> ba_slot list" where
  "view ba = rotate (unat (ba_head ba)) (slots ba)"

definition ring_ok :: "rx_ba \<Rightarrow> bool" where
  "ring_ok ba \<longleftrightarrow> length (slots ba) = 64 \<and> unat (ba_head ba) < 64"

lemma length_view [simp]: "length (view ba) = length (slots ba)"
  by (simp add: view_def)

lemma slot_at_slots: "slot_at ba i = (if i < length (slots ba) then slots ba ! i else None)"
  by (auto simp: slot_at_def slots_def split: option.splits)

lemma view_nth: "ring_ok ba \<Longrightarrow> i < 64 \<Longrightarrow> view ba ! i = slot_at ba ((unat (ba_head ba) + i) mod 64)"
  by (simp add: view_def ring_ok_def nth_rotate slot_at_slots)

lemma head_slot_view: "ring_ok ba \<Longrightarrow> head_slot ba = view ba ! 0"
  using view_nth [of ba 0] by (simp add: ring_ok_def)

lemma slots_set_slot [simp]: "slots (set_slot i v ba) = (slots ba)[i := v]"
  by (simp add: slots_def set_slot_def split: option.splits)

lemma head_set_slot [simp]: "ba_head (set_slot i v ba) = ba_head ba"
  by (simp add: set_slot_def)

lemma unat_next_head: "unat ((h::u16) + 1) mod 64 = (unat h + 1) mod 64"
  by (simp add: word_nat mod_mod_cancel)

lemma ring_ok_next_head [simp]: "ring_ok ba \<Longrightarrow> ring_ok (next_head ba)"
  by (simp add: ring_ok_def next_head_def slots_def unat_mod)

lemma view_next_head:
  assumes "ring_ok ba" and "head_slot ba = None"
  shows "view (next_head ba) = shift_slots 1 (view ba)"
proof (rule nth_equalityI)
  show "length (view (next_head ba)) = length (shift_slots 1 (view ba))"
    by (simp add: next_head_def slots_def)
next
  fix i assume "i < length (view (next_head ba))"
  then have i: "i < 64" and ok: "ring_ok (next_head ba)"
    using assms(1) by (simp_all add: ring_ok_def next_head_def slots_def unat_mod)
  have "view (next_head ba) ! i = slot_at ba ((unat (ba_head ba) + (i + 1)) mod 64)"
    using view_nth [OF ok i]
    by (simp add: next_head_def unat_mod unat_next_head slot_at_def mod_add_left_eq add.assoc)
  also have "\<dots> = shift_slots 1 (view ba) ! i"
  proof (cases "i = 63")
    case True
    then show ?thesis using assms i by (simp add: shift_slots_nth ring_ok_def)
  next
    case False
    then show ?thesis using assms i view_nth [OF assms(1), of "i + 1"]
      by (simp add: shift_slots_nth ring_ok_def)
  qed
  finally show "view (next_head ba) ! i = shift_slots 1 (view ba) ! i" .
qed

lemma view_set_slot:
  assumes "ring_ok ba" and "k < 64"
  shows "view (set_slot ((unat (ba_head ba) + k) mod 64) v ba) = (view ba)[k := v]"
proof (rule nth_equalityI)
  show "length (view (set_slot ((unat (ba_head ba) + k) mod 64) v ba)) = length ((view ba)[k := v])"
    by simp
next
  fix i assume "i < length (view (set_slot ((unat (ba_head ba) + k) mod 64) v ba))"
  then have i: "i < 64" using assms(1) by (simp add: ring_ok_def)
  have inj: "(unat (ba_head ba) + i) mod 64 = (unat (ba_head ba) + k) mod 64 \<longleftrightarrow> i = k"
    using i assms by (auto simp: ring_ok_def mod_if split: if_splits)
  show "view (set_slot ((unat (ba_head ba) + k) mod 64) v ba) ! i = (view ba)[k := v] ! i"
    using assms i inj
    by (auto simp: view_def ring_ok_def nth_rotate nth_list_update)
qed

lemma take_head_ok [simp]: "ring_ok ba \<Longrightarrow> ring_ok (take_head ba)"
  by (simp add: ring_ok_def take_head_def slots_def set_slot_def split: option.splits)

lemma view_take_head: "ring_ok ba \<Longrightarrow> view (take_head ba) = (view ba)[0 := None]"
  using view_set_slot [of ba 0 None]
  by (simp add: take_head_def ring_ok_def view_def slots_def set_slot_def split: option.splits)

lemma head_slot_take_head: "ring_ok ba \<Longrightarrow> head_slot (take_head ba) = None"
  by (simp add: ring_ok_def take_head_def slot_at_def slots_def set_slot_def split: option.splits)

lemma shift_slots_update_head: "shift_slots 1 (xs[0 := v]) = shift_slots 1 xs"
  by (cases xs) (auto simp: shift_slots_def)

lemma view_next_take:
  "ring_ok ba \<Longrightarrow> view (next_head (take_head ba)) = shift_slots 1 (view ba)"
  by (simp add: view_next_head head_slot_take_head view_take_head shift_slots_update_head
      del: One_nat_def)

section \<open>Advancing the window\<close>

text \<open>\<open>advanced k\<close>: the window has moved over its first \<open>k\<close> slots; the frames in them were handed
  up in order, nothing else happened to the frames, and the agreement's parameters are kept.\<close>

fun advanced :: "nat \<Rightarrow> rx_ba \<times> rxctx \<Rightarrow> rx_ba \<times> rxctx \<Rightarrow> bool" where
  "advanced k (ba, cx) (ba', cx') \<longleftrightarrow>
     ring_ok ba' \<and> view ba' = shift_slots k (view ba) \<and>
     ba_gapwait ba' = ba_gapwait ba - int (length (somes (take k (view ba)))) \<and>
     rx_up cx' = rx_up cx @ somes (take k (view ba)) \<and>
     rx_freed cx' = rx_freed cx \<and> inputErrors cx' = inputErrors cx \<and>
     ba_winsize ba' = ba_winsize ba \<and> ba_state ba' = ba_state ba \<and>
     ba_to ba' = ba_to ba \<and> ba_timeout_val ba' = ba_timeout_val ba \<and>
     ba_params ba' = ba_params ba \<and> ba_token ba' = ba_token ba \<and>
     ba_winmiss ba' = ba_winmiss ba \<and> ba_missedsn ba' = ba_missedsn ba"

lemma view_cong: "ba_buf a = ba_buf b \<Longrightarrow> ba_head a = ba_head b \<Longrightarrow> view a = view b"
  by (simp add: view_def slots_def)

lemma ring_ok_cong: "ba_buf a = ba_buf b \<Longrightarrow> ba_head a = ba_head b \<Longrightarrow> ring_ok a = ring_ok b"
  by (simp add: ring_ok_def slots_def)

text \<open>Fields that do not matter for the slots.\<close>

lemma view_updates [simp]:
  "view (next_winstart ba) = view ba"
  "view (set_winend ba) = view ba"
  "view (ba\<lparr>ba_winstart := w\<rparr>) = view ba"
  "view (ba\<lparr>ba_gap_to := t\<rparr>) = view ba"
  "view (ba\<lparr>ba_to := t\<rparr>) = view ba"
  "view (ba\<lparr>ba_gapwait := g\<rparr>) = view ba"
  "view (ba\<lparr>ba_winmiss := g\<rparr>) = view ba"
  "view (ba\<lparr>ba_missedsn := q\<rparr>) = view ba"
  by (auto intro!: view_cong simp: next_winstart_def set_winend_def)

lemma ring_ok_updates [simp]:
  "ring_ok (next_winstart ba) = ring_ok ba"
  "ring_ok (set_winend ba) = ring_ok ba"
  "ring_ok (ba\<lparr>ba_winstart := w\<rparr>) = ring_ok ba"
  "ring_ok (ba\<lparr>ba_gap_to := t\<rparr>) = ring_ok ba"
  "ring_ok (ba\<lparr>ba_to := t\<rparr>) = ring_ok ba"
  "ring_ok (ba\<lparr>ba_gapwait := g\<rparr>) = ring_ok ba"
  "ring_ok (ba\<lparr>ba_winmiss := g\<rparr>) = ring_ok ba"
  "ring_ok (ba\<lparr>ba_missedsn := q\<rparr>) = ring_ok ba"
  by (auto intro!: ring_ok_cong simp: next_winstart_def set_winend_def)

lemma field_simps_ba [simp]:
  "ba_winsize (next_winstart ba) = ba_winsize ba"
  "ba_winsize (next_head ba) = ba_winsize ba"
  "ba_winsize (take_head ba) = ba_winsize ba"
  "ba_winsize (set_winend ba) = ba_winsize ba"
  "ba_winsize (set_slot i v ba) = ba_winsize ba"
  "ba_winstart (next_head ba) = ba_winstart ba"
  "ba_winstart (take_head ba) = ba_winstart ba"
  "ba_winstart (set_winend ba) = ba_winstart ba"
  "ba_winstart (set_slot i v ba) = ba_winstart ba"
  "ba_head (next_winstart ba) = ba_head ba"
  "ba_gapwait (set_slot i v ba) = ba_gapwait ba"
  by (simp_all add: next_winstart_def next_head_def take_head_def set_winend_def set_slot_def)

lemma advanced_refl [simp]: "ring_ok ba \<Longrightarrow> advanced 0 (ba, cx) (ba, cx)"
  by simp

lemma advanced_take:
  assumes "ring_ok ba" and "head_slot ba = Some (m, rxi)"
  shows "advanced 1 (ba, cx) (next_head (take_head ba), inputm m rxi cx)"
proof -
  have "view ba ! 0 = Some (m, rxi)" "view ba \<noteq> []"
    using assms head_slot_view by (auto simp: ring_ok_def view_def slot_at_slots split: if_splits)
  then have t: "take (Suc 0) (view ba) = [Some (m, rxi)]" by (cases "view ba") auto
  have "view (next_head (take_head ba)) = shift_slots (Suc 0) (view ba)"
    using view_next_take [OF assms(1)] by simp
  with t assms(1) show ?thesis
    by (simp add: inputm_def) (simp add: next_head_def take_head_def set_slot_def)
qed

lemma advanced_skip:
  assumes "ring_ok ba" and "head_slot ba = None"
  shows "advanced 1 (ba, cx) (next_head ba, cx)"
proof -
  have "view ba ! 0 = None" "view ba \<noteq> []"
    using assms head_slot_view by (auto simp: ring_ok_def view_def)
  then have t: "take (Suc 0) (view ba) = [None]" by (cases "view ba") auto
  have "view (next_head ba) = shift_slots (Suc 0) (view ba)"
    using view_next_head [OF assms] by simp
  with t assms(1) show ?thesis by simp (simp add: next_head_def)
qed

lemma somes_take_shift:
  "somes (take a xs) @ somes (take b (shift_slots a xs)) = somes (take (a + b) xs)"
  by (simp add: shift_slots_def take_add)

lemma advanced_trans:
  assumes "advanced a x y" and "advanced b y z"
  shows "advanced (a + b) x z"
proof -
  obtain ba cx where x: "x = (ba, cx)" by (cases x)
  obtain ba' cx' where y: "y = (ba', cx')" by (cases y)
  obtain ba'' cx'' where z: "z = (ba'', cx'')" by (cases z)
  have "somes (take (a + b) (view ba)) = somes (take a (view ba)) @ somes (take b (shift_slots a (view ba)))"
    by (simp add: somes_take_shift)
  with assms show ?thesis
    unfolding x y z by (simp add: shift_slots_shift add.commute)
qed

lemma advanced_updates [simp]:
  "advanced k x (next_winstart ba, cx) = advanced k x (ba, cx)"
  "advanced k x (set_winend ba, cx) = advanced k x (ba, cx)"
  "advanced k x (ba\<lparr>ba_winstart := w\<rparr>, cx) = advanced k x (ba, cx)"
  "advanced k x (ba\<lparr>ba_gap_to := t\<rparr>, cx) = advanced k x (ba, cx)"
  "advanced k x (ba, bump f cx) = advanced k x (ba, cx)"
  "advanced k (next_winstart ba, cx) y = advanced k (ba, cx) y"
  "advanced k (ba\<lparr>ba_gap_to := t\<rparr>, cx) y = advanced k (ba, cx) y"
  "advanced k (ba, bump f cx) y = advanced k (ba, cx) y"
  by (cases x; cases y; simp add: bump_def; simp add: next_winstart_def set_winend_def)+

lemma unat_next_winstart [word_nat]:
  "unat (ba_winstart (next_winstart ba)) = (unat (ba_winstart ba) + 1) mod 4096"
  by (simp add: next_winstart_def word_nat mod_mod_cancel)

text \<open>Number of leading slots, among the first \<open>n\<close>, that satisfy a predicate.\<close>

definition run :: "('a \<Rightarrow> bool) \<Rightarrow> nat \<Rightarrow> 'a list \<Rightarrow> nat" where
  "run P n xs = length (takeWhile P (take n xs))"

lemma run_0 [simp]: "run P 0 xs = 0"
  by (simp add: run_def)

lemma run_le: "run P n xs \<le> n"
  unfolding run_def by (metis length_take length_takeWhile_le min.boundedE)

lemma run_Suc:
  "Suc n \<le> length xs \<Longrightarrow>
    run P (Suc n) xs = (if P (xs ! 0) then Suc (run P n (shift_slots 1 xs)) else 0)"
  by (cases xs) (auto simp: run_def shift_slots_def)

lemma run_prefix: "i < run P n xs \<Longrightarrow> P (xs ! i)"
  unfolding run_def
  by (metis length_take length_takeWhile_le min.strict_boundedE nth_mem nth_take order.strict_trans2
      set_takeWhileD takeWhile_nth)

lemma run_stop: "run P n xs < n \<Longrightarrow> run P n xs < length xs \<Longrightarrow> \<not> P (xs ! run P n xs)"
  unfolding run_def
  by (metis length_take min_less_iff_conj nth_length_takeWhile nth_take)

abbreviation full :: "ba_slot \<Rightarrow> bool" where "full s \<equiv> s \<noteq> None"
abbreviation gap :: "ba_slot \<Rightarrow> bool" where "gap s \<equiv> s = None"

fun passes :: "u16 \<Rightarrow> ba_slot \<Rightarrow> bool" where
  "passes max_seq None = True"
| "passes max_seq (Some (m, rxi)) = SEQ_LT (frame_seq m) max_seq"

lemma run_full_shift:
  assumes "length xs = 64" and "full (xs ! 0)"
  shows "run full 64 xs = Suc (run full 64 (shift_slots 1 xs))"
proof -
  have "run full 64 (shift_slots 1 xs) = run full 63 (shift_slots 1 xs)"
  proof -
    obtain y ys where "xs = y # ys" using assms by (cases xs) auto
    moreover have "length (takeWhile full (ys @ [None])) = length (takeWhile full ys)"
      by (induction ys) auto
    ultimately show ?thesis using assms
      by (simp add: run_def shift_slots_def)
  qed
  then show ?thesis using run_Suc [of 63 xs full] assms by simp
qed

lemma flush_loop_advanced:
  assumes "ring_ok ba" and "unat (ba_winstart ba) < 4096"
  shows "advanced (run full 64 (view ba)) (ba, cx) (input_ba_flush_loop ba cx) \<and>
    unat (ba_winstart (fst (input_ba_flush_loop ba cx)))
      = (unat (ba_winstart ba) + run full 64 (view ba)) mod 4096"
  using assms
proof (induction ba cx rule: input_ba_flush_loop.induct)
  case (1 ba cx)
  have len: "length (view ba) = 64" using "1.prems" by (simp add: ring_ok_def)
  show ?case
  proof (cases "head_slot ba")
    case None
    then have "run full 64 (view ba) = 0"
      using len head_slot_view [OF "1.prems"(1)] run_Suc [of 63 "view ba" full] by simp
    with None "1.prems" show ?thesis
      by (subst input_ba_flush_loop.simps, subst (2) input_ba_flush_loop.simps) simp
  next
    case (Some v)
    obtain m rxi where v: "v = (m, rxi)" by (cases v)
    let ?ba = "next_winstart (next_head (take_head ba))"
    have r: "run full 64 (view ba) = Suc (run full 64 (view ?ba))"
      using run_full_shift [OF len] Some head_slot_view [OF "1.prems"(1)] view_next_take [OF "1.prems"(1)]
      by simp
    have w: "unat (ba_winstart ?ba) = (unat (ba_winstart ba) + 1) mod 4096"
      by (simp add: word_nat)
    have IH: "advanced (run full 64 (view ?ba)) (?ba, inputm m rxi cx)
          (input_ba_flush_loop ?ba (inputm m rxi cx)) \<and>
        unat (ba_winstart (fst (input_ba_flush_loop ?ba (inputm m rxi cx))))
          = (unat (ba_winstart ?ba) + run full 64 (view ?ba)) mod 4096"
      using "1.IH" [OF Some v [symmetric]] "1.prems" w by simp
    have step: "input_ba_flush_loop ba cx = input_ba_flush_loop ?ba (inputm m rxi cx)"
      using Some v by (subst input_ba_flush_loop.simps) simp
    have "advanced 1 (ba, cx) (?ba, inputm m rxi cx)"
      using advanced_take [OF "1.prems"(1)] Some v by simp
    from advanced_trans [OF this conjunct1 [OF IH]] r
    have "advanced (run full 64 (view ba)) (ba, cx) (input_ba_flush_loop ba cx)"
      by (simp only: step) simp
    moreover have "unat (ba_winstart (fst (input_ba_flush_loop ba cx)))
        = (unat (ba_winstart ba) + run full 64 (view ba)) mod 4096"
      using IH w r unfolding step by (simp add: mod_simps)
    ultimately show ?thesis by simp
  qed
qed

lemma seq_loop_advanced:
  assumes "ring_ok ba" and "unat (ba_winstart ba) < 4096" and "n \<le> 64"
  shows "advanced (run (passes mx) n (view ba)) (ba, cx) (input_ba_seq_loop n mx ba cx) \<and>
    unat (ba_winstart (fst (input_ba_seq_loop n mx ba cx)))
      = (unat (ba_winstart ba) + run (passes mx) n (view ba)) mod 4096"
  using assms
proof (induction n mx ba cx rule: input_ba_seq_loop.induct)
  case (1 mx ba cx)
  then show ?case by simp
next
  case (2 n mx ba cx)
  have r: "run (passes mx) (Suc n) (view ba)
      = (if passes mx (head_slot ba) then Suc (run (passes mx) n (shift_slots 1 (view ba))) else 0)"
    using run_Suc [of n "view ba" "passes mx"] "2.prems" head_slot_view [OF "2.prems"(1)]
    by (simp add: ring_ok_def)
  show ?case
  proof (cases "head_slot ba")
    case None
    let ?ba = "next_winstart (next_head ba)"
    let ?cx = "bump (is_ht_rx_ba_frame_lost_update (\<lambda>c. c + 1)) cx"
    have v: "view ?ba = shift_slots 1 (view ba)" using view_next_head "2.prems"(1) None by simp
    have IH: "advanced (run (passes mx) n (view ?ba)) (?ba, ?cx) (input_ba_seq_loop n mx ?ba ?cx) \<and>
        unat (ba_winstart (fst (input_ba_seq_loop n mx ?ba ?cx)))
          = (unat (ba_winstart ?ba) + run (passes mx) n (view ?ba)) mod 4096"
      using "2.IH"(1) [OF None] "2.prems" by (simp add: word_nat)
    have "advanced 1 (ba, cx) (?ba, ?cx)" using advanced_skip [OF "2.prems"(1) None] by simp
    from advanced_trans [OF this conjunct1 [OF IH]] IH None r v show ?thesis
      by (simp add: word_nat mod_simps del: advanced.simps)
  next
    case (Some p)
    obtain m rxi where p: "p = (m, rxi)" by (cases p)
    show ?thesis
    proof (cases "SEQ_LT (frame_seq m) mx")
      case False
      with Some p r "2.prems" show ?thesis by simp
    next
      case True
      let ?ba = "next_winstart (next_head (take_head ba))"
      let ?cx = "inputm m rxi cx"
      have v: "view ?ba = shift_slots 1 (view ba)" using view_next_take "2.prems"(1) by simp
      have IH: "advanced (run (passes mx) n (view ?ba)) (?ba, ?cx) (input_ba_seq_loop n mx ?ba ?cx) \<and>
          unat (ba_winstart (fst (input_ba_seq_loop n mx ?ba ?cx)))
            = (unat (ba_winstart ?ba) + run (passes mx) n (view ?ba)) mod 4096"
        using "2.IH"(2) [OF Some p [symmetric]] True "2.prems" by (simp add: word_nat)
      have "advanced 1 (ba, cx) (?ba, ?cx)" using advanced_take [OF "2.prems"(1)] Some p by simp
      from advanced_trans [OF this conjunct1 [OF IH]] IH Some p True r v show ?thesis
        by (simp add: word_nat mod_simps del: advanced.simps)
    qed
  qed
qed

lemma gap_skip_loop_advanced:
  assumes "ring_ok ba" and "unat (ba_winstart ba) < 4096" and "n \<le> 64"
  shows "advanced (run gap n (view ba)) (ba, cx) (fst (gap_skip_loop n ba k), cx) \<and>
    unat (ba_winstart (fst (gap_skip_loop n ba k)))
      = (unat (ba_winstart ba) + run gap n (view ba)) mod 4096 \<and>
    snd (gap_skip_loop n ba k) = k + run gap n (view ba)"
  using assms
proof (induction n ba k rule: gap_skip_loop.induct)
  case (1 ba k)
  then show ?case by simp
next
  case (2 n ba k)
  have r: "run gap (Suc n) (view ba)
      = (if gap (head_slot ba) then Suc (run gap n (shift_slots 1 (view ba))) else 0)"
    using run_Suc [of n "view ba" gap] "2.prems" head_slot_view [OF "2.prems"(1)]
    by (simp add: ring_ok_def)
  show ?case
  proof (cases "head_slot ba = None")
    case True
    let ?ba = "next_winstart (next_head ba)"
    have v: "view ?ba = shift_slots 1 (view ba)" using view_next_head "2.prems"(1) True by simp
    have IH: "advanced (run gap n (view ?ba)) (?ba, cx) (fst (gap_skip_loop n ?ba (Suc k)), cx) \<and>
        unat (ba_winstart (fst (gap_skip_loop n ?ba (Suc k))))
          = (unat (ba_winstart ?ba) + run gap n (view ?ba)) mod 4096 \<and>
        snd (gap_skip_loop n ?ba (Suc k)) = Suc k + run gap n (view ?ba)"
      using "2.IH" [OF True] "2.prems" by (simp add: word_nat)
    have "advanced 1 (ba, cx) (?ba, cx)" using advanced_skip [OF "2.prems"(1) True] by simp
    from advanced_trans [OF this conjunct1 [OF IH]] IH True r v show ?thesis
      by (simp add: word_nat mod_simps del: advanced.simps)
  next
    case False
    with r "2.prems" show ?thesis by (simp)
  qed
qed

lemma move_loop_advanced:
  assumes "ring_ok ba"
  shows "advanced n (ba, cx) (move_window_loop n ba cx) \<and>
    ba_winstart (fst (move_window_loop n ba cx)) = ba_winstart ba"
  using assms
proof (induction n ba cx rule: move_window_loop.induct)
  case (1 ba cx)
  then show ?case by simp
next
  case (2 n ba cx)
  show ?case
  proof (cases "head_slot ba")
    case None
    have "advanced 1 (ba, cx) (next_head ba, bump (is_ht_rx_ba_frame_lost_update (\<lambda>c. c + 1)) cx)"
      using advanced_skip [OF "2.prems" None] by simp
    from advanced_trans [OF this, of n] None "2.IH"(1) [OF None] "2.prems" show ?thesis
      by (simp del: advanced.simps)
  next
    case (Some p)
    obtain m rxi where p: "p = (m, rxi)" by (cases p)
    have "advanced 1 (ba, cx) (next_head (take_head ba), inputm m rxi cx)"
      using advanced_take [OF "2.prems"] Some p by simp
    from advanced_trans [OF this, of n] Some p "2.IH"(2) [OF Some p [symmetric]] "2.prems"
    show ?thesis by (simp del: advanced.simps)
  qed
qed

section \<open>The window invariant\<close>

text \<open>A buffered frame sits at the position of its sequence number inside the window and
  carries the flag that keeps \<^verbatim>\<open>ieee80211_inputm\<close> from reordering it again.\<close>

definition slot_ok :: "rx_ba \<Rightarrow> nat \<Rightarrow> ba_slot \<Rightarrow> bool" where
  "slot_ok ba i s \<longleftrightarrow> (case s of None \<Rightarrow> True | Some (m, rxi) \<Rightarrow>
     i < unat (ba_winsize ba) \<and>
     unat (frame_seq m) = (unat (ba_winstart ba) + i) mod 4096 \<and>
     has_flag (rxi_flags rxi) IEEE80211_RXI_AMPDU_DONE)"

definition rx_ba_core :: "rx_ba \<Rightarrow> bool" where
  "rx_ba_core ba \<longleftrightarrow> ring_ok ba \<and> unat (ba_winstart ba) < 4096 \<and>
     1 \<le> unat (ba_winsize ba) \<and> unat (ba_winsize ba) \<le> 64 \<and>
     ba_gapwait ba = int (length (somes (view ba))) \<and>
     (\<forall>i<64. slot_ok ba i (view ba ! i))"

definition winend_ok :: "rx_ba \<Rightarrow> bool" where
  "winend_ok ba \<longleftrightarrow> ba_winend ba = (ba_winstart ba + ba_winsize ba - 1) AND 0xfff"

definition rx_ba_ok :: "rx_ba \<Rightarrow> bool" where
  "rx_ba_ok ba \<longleftrightarrow> rx_ba_core ba \<and> winend_ok ba \<and> head_slot ba = None"

lemma winend_ok_set [simp]: "winend_ok (set_winend ba)"
  by (simp add: winend_ok_def set_winend_def)

lemma rx_ba_coreD:
  assumes "rx_ba_core ba"
  shows "ring_ok ba" "unat (ba_winstart ba) < 4096" "1 \<le> unat (ba_winsize ba)"
    "unat (ba_winsize ba) \<le> 64" "ba_gapwait ba = int (length (somes (view ba)))"
    "length (slots ba) = 64" "\<And>i. i < 64 \<Longrightarrow> slot_ok ba i (view ba ! i)"
  using assms by (simp_all add: rx_ba_core_def ring_ok_def)

lemma slot_pos:
  assumes "rx_ba_core ba" and "view ba ! i = Some (m, rxi)" and "i < 64"
  shows "i < unat (ba_winsize ba)" and "unat (frame_seq m) = (unat (ba_winstart ba) + i) mod 4096"
    and "has_flag (rxi_flags rxi) IEEE80211_RXI_AMPDU_DONE"
  using rx_ba_coreD(7) [OF assms(1,3)] assms(2) by (auto simp: slot_ok_def)

text \<open>A moved window still satisfies the invariant, provided its new start agrees with the
  frames that stayed.\<close>

lemma core_moved:
  assumes c: "rx_ba_core ba" and a: "advanced k (ba, cx) (ba', cx')"
    and w: "unat (ba_winstart ba') < 4096"
    and s: "\<And>i. i + k < 64 \<Longrightarrow> view ba ! (i + k) \<noteq> None \<Longrightarrow>
      unat (ba_winstart ba') = (unat (ba_winstart ba) + k) mod 4096"
  shows "rx_ba_core ba'"
proof -
  have v: "view ba' = shift_slots k (view ba)" and ws: "ba_winsize ba' = ba_winsize ba"
    and r: "ring_ok ba'"
    and g: "ba_gapwait ba' = ba_gapwait ba - int (length (somes (take k (view ba))))"
    using a by simp_all
  have len: "length (view ba) = 64" using c by (simp add: rx_ba_coreD)
  have "length (somes (view ba)) = length (somes (take k (view ba))) + length (somes (drop k (view ba)))"
    by (metis length_append somes_take_drop)
  then have gw: "ba_gapwait ba' = int (length (somes (view ba')))"
    using g c by (simp add: rx_ba_coreD v somes_shift_slots)
  have "slot_ok ba' i (view ba' ! i)" if i: "i < 64" for i
  proof (cases "i + k < 64 \<and> view ba ! (i + k) \<noteq> None")
    case True
    then obtain m rxi where m: "view ba ! (i + k) = Some (m, rxi)" by (cases "view ba ! (i + k)") auto
    have "unat (frame_seq m) = (unat (ba_winstart ba') + i) mod 4096"
      using slot_pos(2) [OF c m] True s [of i] by (simp add: mod_simps ac_simps)
    then show ?thesis
      using slot_pos(1,3) [OF c m] True i len m by (simp add: v shift_slots_nth slot_ok_def ws)
  next
    case False
    then have "view ba' ! i = None" using i len by (auto simp: v shift_slots_nth)
    then show ?thesis by (simp add: slot_ok_def)
  qed
  with r w gw c show ?thesis by (simp add: rx_ba_core_def ws)
qed

corollary core_shifted:
  "rx_ba_core ba \<Longrightarrow> advanced k (ba, cx) (ba', cx') \<Longrightarrow>
    unat (ba_winstart ba') = (unat (ba_winstart ba) + k) mod 4096 \<Longrightarrow> rx_ba_core ba'"
  by (rule core_moved) auto

lemma core_cong:
  assumes "ba_buf a = ba_buf b" "ba_head a = ba_head b" "ba_winstart a = ba_winstart b"
    "ba_winsize a = ba_winsize b" "ba_gapwait a = ba_gapwait b"
  shows "rx_ba_core a = rx_ba_core b"
proof -
  have "slot_ok a i s = slot_ok b i s" for i s
    using assms by (simp add: slot_ok_def split: option.split)
  then show ?thesis
    using assms view_cong [of a b] ring_ok_cong [of a b] by (simp add: rx_ba_core_def)
qed

lemma core_updates [simp]:
  "rx_ba_core (set_winend ba) = rx_ba_core ba"
  "rx_ba_core (ba\<lparr>ba_gap_to := t\<rparr>) = rx_ba_core ba"
  "rx_ba_core (ba\<lparr>ba_to := t\<rparr>) = rx_ba_core ba"
  "rx_ba_core (ba\<lparr>ba_winmiss := w\<rparr>) = rx_ba_core ba"
  "rx_ba_core (ba\<lparr>ba_missedsn := q\<rparr>) = rx_ba_core ba"
  by (rule core_cong, simp_all add: set_winend_def)+

lemma head_slot_none: "ring_ok ba \<Longrightarrow> head_slot ba = None \<longleftrightarrow> view ba ! 0 = None"
  by (simp add: head_slot_view)

text \<open>What a flush does: it advances over the leading run of buffered frames.\<close>

lemma flush_spec:
  assumes c: "rx_ba_core ba" and e: "winend_ok ba"
  obtains ba' cx' where "input_ba_flush ba cx = (ba', cx')"
    "advanced (run full 64 (view ba)) (ba, cx) (ba', cx')"
    "unat (ba_winstart ba') = (unat (ba_winstart ba) + run full 64 (view ba)) mod 4096"
    "rx_ba_ok ba'"
proof -
  let ?k = "run full 64 (view ba)"
  have ring: "ring_ok ba" and ws: "unat (ba_winstart ba) < 4096" and len: "length (view ba) = 64"
    using c by (auto simp: rx_ba_coreD)
  obtain ba1 cx1 where l: "input_ba_flush_loop ba cx = (ba1, cx1)" by (cases "input_ba_flush_loop ba cx")
  have a1: "advanced ?k (ba, cx) (ba1, cx1)"
    and w1: "unat (ba_winstart ba1) = (unat (ba_winstart ba) + ?k) mod 4096"
    using flush_loop_advanced [OF ring ws, of cx] l by auto
  show thesis
  proof (cases "head_slot ba = None")
    case True
    then have k: "?k = 0"
      using len head_slot_view [OF ring] run_Suc [of 63 "view ba" full] by simp
    show thesis
    proof (rule that [of ba cx])
      show "input_ba_flush ba cx = (ba, cx)" using True by (simp add: input_ba_flush_def)
      show "advanced ?k (ba, cx) (ba, cx)" using ring k by simp
      show "rx_ba_ok ba" using c e True by (simp add: rx_ba_ok_def)
    qed (use k ws in simp)
  next
    case False
    define ba2 where "ba2 = (let ba = set_winend ba1;
              ba = (if timeout_pending (ba_gap_to ba)
                    then ba\<lparr>ba_gap_to := timeout_del (ba_gap_to ba)\<rparr> else ba)
          in if ba_gapwait ba \<noteq> 0
             then ba\<lparr>ba_gap_to := timeout_add_msec (ba_gap_to ba) IEEE80211_BA_GAP_TIMEOUT\<rparr> else ba)"
    have f: "input_ba_flush ba cx = (ba2, cx1)"
      using False l by (simp add: input_ba_flush_def ba2_def Let_def)
    have t: "\<exists>t. ba2 = (set_winend ba1)\<lparr>ba_gap_to := t\<rparr>"
      unfolding ba2_def Let_def by (auto intro: exI [of _ "ba_gap_to (set_winend ba1)"])
    then obtain t where t: "ba2 = (set_winend ba1)\<lparr>ba_gap_to := t\<rparr>" ..
    have core: "rx_ba_core ba1" using core_shifted [OF c a1 w1] .
    have hn: "view ba1 ! 0 = None"
    proof (cases "?k < 64")
      case True
      then have "view ba ! ?k = None" using run_stop [of full 64 "view ba"] len by simp
      with a1 True len show ?thesis by (simp add: shift_slots_nth)
    next
      case False
      then have "?k = 64" using run_le [of full 64 "view ba"] by simp
      with a1 len show ?thesis by (simp add: shift_slots_nth)
    qed
    then have "view ba2 ! 0 = None" by (simp add: t)
    moreover have "ring_ok ba2" using rx_ba_coreD(1) [OF core] by (simp add: t)
    ultimately have "head_slot ba2 = None" by (simp add: head_slot_none)
    moreover have "winend_ok ba2" by (simp add: t winend_ok_def set_winend_def)
    ultimately have ok: "rx_ba_ok ba2" using core by (simp add: rx_ba_ok_def) (simp add: t)
    show thesis
      by (rule that [OF f]) (use a1 w1 ok in \<open>simp_all add: t del: advanced.simps\<close>)
  qed
qed

section \<open>Moving the window\<close>

lemma dist12_in: "unat b + k < 8192 \<Longrightarrow> k < 4096 \<Longrightarrow> dist12 ((unat b + k) mod 4096) (unat (b::u16)) = k"
  by (rule dist12_add_left)

text \<open>\<^verbatim>\<open>ieee80211_ba_move_window\<close> hands up the part of the window before the new start and then
  the run that begins there.\<close>

lemma move_window_spec:
  assumes c: "rx_ba_core ba" and s: "unat ssn < 4096"
  defines "n \<equiv> min (dist12 (unat ssn) (unat (ba_winstart ba))) (unat (ba_winsize ba))"
  defines "k \<equiv> run full 64 (shift_slots n (view ba))"
  obtains ba' cx' where "ba_move_window ssn ba cx = (ba', cx')"
    "advanced (n + k) (ba, cx) (ba', cx')"
    "unat (ba_winstart ba') = (unat ssn + k) mod 4096"
    "rx_ba_ok ba'"
proof -
  let ?d = "dist12 (unat ssn) (unat (ba_winstart ba))"
  have ring: "ring_ok ba" using c by (rule rx_ba_coreD)
  obtain ba1 cx1 where l: "move_window_loop n ba cx = (ba1, cx1)" by (cases "move_window_loop n ba cx")
  define ba2 where "ba2 = set_winend (ba1\<lparr>ba_winstart := ssn\<rparr>)"
  have a1: "advanced n (ba, cx) (ba2, cx1)"
    using move_loop_advanced [OF ring, of n cx] l by (simp add: ba2_def del: advanced.simps)
  have w2: "ba_winstart ba2 = ssn" by (simp add: ba2_def)
  have core: "rx_ba_core ba2"
  proof (rule core_moved [OF c a1])
    fix i assume i: "i + n < 64" and v: "view ba ! (i + n) \<noteq> None"
    then obtain m rxi where "view ba ! (i + n) = Some (m, rxi)" by (cases "view ba ! (i + n)") auto
    from slot_pos(1) [OF c this i] have "n = ?d" by (simp add: n_def)
    then show "unat (ba_winstart ba2) = (unat (ba_winstart ba) + n) mod 4096"
      using s by (simp add: w2 dist12_add)
  qed (use s w2 in simp)
  have v2: "view ba2 = shift_slots n (view ba)" using a1 by simp
  have e: "winend_ok ba2" by (simp add: ba2_def)
  obtain ba' cx' where f: "input_ba_flush ba2 cx1 = (ba', cx')"
    "advanced (run full 64 (view ba2)) (ba2, cx1) (ba', cx')"
    "unat (ba_winstart ba') = (unat (ba_winstart ba2) + run full 64 (view ba2)) mod 4096"
    "rx_ba_ok ba'"
    by (rule flush_spec [OF core e])
  have cnt: "(let count = unat (sub12 ssn (ba_winstart ba)) in
      if count > unat (ba_winsize ba) then unat (ba_winsize ba) else count) = n"
    by (simp add: n_def unat_sub12 min_def)
  show thesis
  proof (rule that)
    show "ba_move_window ssn ba cx = (ba', cx')"
      using cnt l f(1) by (simp add: ba_move_window_def ba2_def Let_def)
    show "advanced (n + k) (ba, cx) (ba', cx')"
      using advanced_trans [OF a1 f(2)] by (simp add: v2 k_def del: advanced.simps)
    show "unat (ba_winstart ba') = (unat ssn + k) mod 4096" using f(3) by (simp add: w2 v2 k_def)
  qed (rule f(4))
qed

text \<open>\<^verbatim>\<open>ieee80211_input_ba_gap_timeout\<close> skips the leading gap, then flushes.\<close>

lemma gap_timeout_spec:
  assumes c: "rx_ba_ok ba"
  defines "n \<equiv> run gap (unat (ba_winsize ba)) (view ba)"
  defines "k \<equiv> run full 64 (shift_slots n (view ba))"
  obtains ba' cx' where "input_ba_gap_timeout ba cx = (ba', cx')" "0 < n"
    "advanced (n + k) (ba, cx) (ba', cx')"
    "unat (ba_winstart ba') = (unat (ba_winstart ba) + n + k) mod 4096"
    "rx_ba_ok ba'"
proof -
  have core: "rx_ba_core ba" and h: "head_slot ba = None" using c by (simp_all add: rx_ba_ok_def)
  note D = rx_ba_coreD [OF core]
  let ?cx = "bump (is_ht_rx_ba_frame_lost_update (\<lambda>c. c + of_nat n))
    (bump (is_ht_rx_ba_window_gap_timeout_update (\<lambda>c. c + 1)) cx)"
  have n: "0 < n"
  proof -
    obtain j where "unat (ba_winsize ba) = Suc j" using D(3) by (cases "unat (ba_winsize ba)") auto
    then show ?thesis
      using run_Suc [of j "view ba" gap] D(4,6) h head_slot_view [OF D(1)] by (simp add: n_def)
  qed
  obtain ba1 where l: "gap_skip_loop (unat (ba_winsize ba)) ba 0 = (ba1, n)"
      and a1: "advanced n (ba, cx) (ba1, cx)"
      and w1: "unat (ba_winstart ba1) = (unat (ba_winstart ba) + n) mod 4096"
    using gap_skip_loop_advanced [OF D(1,2) D(4), of cx 0]
    by (cases "gap_skip_loop (unat (ba_winsize ba)) ba 0") (auto simp: n_def)
  have a2: "advanced n (ba, cx) (set_winend ba1, ?cx)" using a1 by (simp del: advanced.simps)
  have core2: "rx_ba_core (set_winend ba1)" using core_shifted [OF core a1 w1] by simp
  have v2: "view ba1 = shift_slots n (view ba)" using a1 by simp
  obtain ba' cx' where f: "input_ba_flush (set_winend ba1) ?cx = (ba', cx')"
    "advanced (run full 64 (view (set_winend ba1))) (set_winend ba1, ?cx) (ba', cx')"
    "unat (ba_winstart ba') = (unat (ba_winstart (set_winend ba1)) + run full 64 (view (set_winend ba1))) mod 4096"
    "rx_ba_ok ba'"
    by (rule flush_spec [OF core2 winend_ok_set])
  show thesis
  proof (rule that)
    show "input_ba_gap_timeout ba cx = (ba', cx')"
      using l f(1) n by (simp add: input_ba_gap_timeout_def input_ba_gap_skip_def)
    show "advanced (n + k) (ba, cx) (ba', cx')"
      using advanced_trans [OF a2 f(2)] by (simp add: v2 k_def del: advanced.simps)
    show "unat (ba_winstart ba') = (unat (ba_winstart ba) + n + k) mod 4096"
      using f(3) w1 v2 by (simp add: k_def mod_simps)
  qed (rule n, rule f(4))
qed

declare not_None_eq [simp]

end
