(* ===== verification/ReorderProps.thy ===== *)
theory ReorderProps
  imports ReorderCorrect
begin

text \<open>
  What \<^verbatim>\<open>ieee80211_input_ba\<close> does to one received MPDU, in terms of the abstract view, and
  the properties of the reordering buffer that follow.
\<close>

declare not_None_eq [simp del]

definition flag_done :: "rxinfo \<Rightarrow> rxinfo" where
  "flag_done rxi = rxi\<lparr>rxi_flags := rxi_flags rxi OR IEEE80211_RXI_AMPDU_DONE\<rparr>"

lemma flag_done_flag [simp]: "has_flag (rxi_flags (flag_done rxi)) IEEE80211_RXI_AMPDU_DONE"
  by (simp add: flag_done_def has_flag_or_self c_const)

text \<open>Offset of a frame from the start of the window.\<close>

definition offset :: "rx_ba \<Rightarrow> mbuf \<Rightarrow> nat" where
  "offset ba m = dist12 (unat (frame_seq m)) (unat (ba_winstart ba))"

text \<open>The one input outside the window that the bounds check lets through: with a window of
  one frame, a sequence number exactly half the number space ahead is neither below the start
  nor above the end for \<^verbatim>\<open>SEQ_LT\<close>.\<close>

definition half_space :: "rx_ba \<Rightarrow> mbuf \<Rightarrow> bool" where
  "half_space ba m \<longleftrightarrow> ba_winsize ba = 1 \<and> offset ba m = 2048"

lemma slot_at_miss [simp]: "slot_at (ba\<lparr>ba_winmiss := a, ba_missedsn := q\<rparr>) i = slot_at ba i"
  by (simp add: slot_at_def)

section \<open>Storing a frame\<close>

lemma somes_update:
  "i < length xs \<Longrightarrow> xs ! i = None \<Longrightarrow> mset (somes (xs[i := Some x])) = add_mset x (mset (somes xs))"
proof (induction xs arbitrary: i)
  case (Cons a xs)
  then show ?case by (cases i; cases a) auto
qed simp

lemma length_somes_update:
  "i < length xs \<Longrightarrow> xs ! i = None \<Longrightarrow> length (somes (xs[i := Some x])) = Suc (length (somes xs))"
  by (metis somes_update size_add_mset size_mset)

lemma store_spec:
  fixes rxi :: rxinfo and cx :: rxctx
  assumes c: "rx_ba_core ba" and e: "winend_ok ba"
    and d: "offset ba m < unat (ba_winsize ba)" and free: "view ba ! offset ba m = None"
  defines "v \<equiv> (view ba)[offset ba m := Some (m, flag_done rxi)]"
  obtains ba' cx' where "input_ba_store m rxi ba cx = (ba', cx')"
    "view ba' = shift_slots (run full 64 v) v"
    "rx_up cx' = rx_up cx @ somes (take (run full 64 v) v)" "rx_freed cx' = rx_freed cx"
    "unat (ba_winstart ba') = (unat (ba_winstart ba) + run full 64 v) mod 4096"
    "rx_ba_ok ba'" "ba_winsize ba' = ba_winsize ba"
proof -
  note D = rx_ba_coreD [OF c]
  have d64: "offset ba m < 64" using d D(4) by simp
  let ?idx = "(unat (ba_head ba) + offset ba m) mod 64"
  have at: "slot_at ba ?idx = None" using free view_nth [OF D(1) d64] by simp
  define b1 where "b1 = set_slot ?idx (Some (m, flag_done rxi)) (ba\<lparr>ba_winmiss := 0, ba_missedsn := 0\<rparr>)"
  define b2 where "b2 = b1\<lparr>ba_gapwait := ba_gapwait b1 + 1\<rparr>"
  define b3 where "b3 = arm_gap b2"
  obtain t where b3t: "b3 = b2\<lparr>ba_gap_to := t\<rparr>"
    by (cases "head_slot b2 = None \<and> ba_gapwait b2 = 1")
      (auto simp: b3_def arm_gap_def intro: that [of "ba_gap_to b2"])
  have run: "input_ba_store m rxi ba cx = input_ba_flush b3 cx"
    using at by (simp add: input_ba_store_def b1_def b2_def b3_def flag_done_def unat_sub12 offset_def
        Let_def)
  have vb1: "view b1 = v"
    using view_set_slot [of "ba\<lparr>ba_winmiss := 0, ba_missedsn := 0\<rparr>" "offset ba m" "Some (m, flag_done rxi)"]
      D(1) d64 by (simp add: b1_def v_def)
  have v3: "view b3 = v" by (simp add: b3t b2_def vb1)
  have s3: "slots b3 = (slots ba)[?idx := Some (m, flag_done rxi)]"
    by (simp add: b3t b2_def b1_def slots_def set_slot_def split: option.split)
  have f3: "ba_winstart b3 = ba_winstart ba" "ba_winsize b3 = ba_winsize ba" "ba_head b3 = ba_head ba"
      "ba_winend b3 = ba_winend ba" "ba_gapwait b3 = ba_gapwait ba + 1"
    by (simp_all add: b3t b2_def b1_def) (simp_all add: set_slot_def)
  have ring3: "ring_ok b3" using D(1) by (simp add: ring_ok_def s3 f3)
  have sq: "unat (frame_seq m) = (unat (ba_winstart ba) + offset ba m) mod 4096"
    using frame_seq_lt [of m] by (simp add: offset_def dist12_add)
  have "slot_ok b3 i (v ! i)" if i: "i < 64" for i
  proof (cases "i = offset ba m")
    case True
    then show ?thesis using d d64 D(6) sq by (simp add: v_def slot_ok_def f3)
  next
    case False
    then show ?thesis using D(7) [OF i] by (simp add: v_def slot_ok_def f3 split: option.splits prod.splits)
  qed
  moreover have "length (somes v) = Suc (length (somes (view ba)))"
    unfolding v_def using free d64 D(6) by (simp add: length_somes_update)
  ultimately have core3: "rx_ba_core b3"
    using D ring3 by (simp add: rx_ba_core_def f3 v3)
  have e3: "winend_ok b3" using e by (simp add: winend_ok_def f3)
  obtain ba' cx' where f: "input_ba_flush b3 cx = (ba', cx')"
    "advanced (run full 64 (view b3)) (b3, cx) (ba', cx')"
    "unat (ba_winstart ba') = (unat (ba_winstart b3) + run full 64 (view b3)) mod 4096"
    "rx_ba_ok ba'"
    by (rule flush_spec [OF core3 e3])
  show thesis
    by (rule that [of ba' cx']) (use run f in \<open>simp_all add: v3 f3\<close>)
qed

lemma store_occupied:
  assumes c: "rx_ba_core ba" and d: "offset ba m < 64" and occ: "view ba ! offset ba m \<noteq> None"
  shows "input_ba_store m rxi ba cx = (ba\<lparr>ba_winmiss := 0, ba_missedsn := 0\<rparr>,
    mbuf_freem m (bump (is_ht_rx_ba_no_buf_update (\<lambda>c. c + 1)) (input_error cx)))"
proof -
  have "slot_at ba ((unat (ba_head ba) + offset ba m) mod 64) \<noteq> None"
    using occ view_nth [OF rx_ba_coreD(1) [OF c] d] by simp
  then show ?thesis
    by (simp add: input_ba_store_def Let_def unat_sub12 offset_def)
qed

section \<open>Window arithmetic\<close>

lemma winend_unat:
  assumes "rx_ba_core ba" and "winend_ok ba"
  shows "unat (ba_winend ba) = (unat (ba_winstart ba) + unat (ba_winsize ba) - 1) mod 4096"
proof -
  note D = rx_ba_coreD [OF assms(1)]
  have "unat (ba_winstart ba + ba_winsize ba) = unat (ba_winstart ba) + unat (ba_winsize ba)"
    using D by (simp add: unat_plus16)
  then have "unat (ba_winstart ba + ba_winsize ba - 1) = unat (ba_winstart ba) + unat (ba_winsize ba) - 1"
    using D by (subst unat_sub) (auto simp: word_le_nat_alt)
  then show ?thesis using assms(2) by (simp add: winend_ok_def unat_and_fff)
qed

lemma ends_arith:
  fixes s w f e :: nat
  assumes "int e = (int s + int w - 1) mod 4096"
  shows "int (dist12 e f) = (int w - 1 - int (dist12 f s)) mod 4096"
    and "int (dist12 f e) = (int (dist12 f s) + 1 - int w) mod 4096"
proof -
  have "(int w - 1 - (int f - int s) mod 4096) mod 4096 = (int w - 1 - (int f - int s)) mod 4096"
    by (rule mod_diff_right_eq)
  moreover have "((int s + int w - 1) mod 4096 - int f) mod 4096 = (int s + int w - 1 - int f) mod 4096"
    by (rule mod_diff_left_eq)
  ultimately show "int (dist12 e f) = (int w - 1 - int (dist12 f s)) mod 4096"
    by (simp only: dist12_int assms) (simp add: algebra_simps)
  have "((int f - int s) mod 4096 + (1 - int w)) mod 4096 = (int f - int s + (1 - int w)) mod 4096"
    by (rule mod_add_left_eq)
  moreover have "(int f - (int s + int w - 1) mod 4096) mod 4096 = (int f - (int s + int w - 1)) mod 4096"
    by (rule mod_diff_right_eq)
  ultimately show "int (dist12 f e) = (int (dist12 f s) + 1 - int w) mod 4096"
    by (simp only: dist12_int assms) (simp add: algebra_simps)
qed

lemma win_arith:
  fixes d w :: nat
  shows "w \<le> d \<Longrightarrow> d \<le> 2048 \<Longrightarrow> 1 \<le> w \<Longrightarrow> (int w - 1 - int d) mod 4096 = int w - 1 - int d + 4096"
    and "d < w \<Longrightarrow> w \<le> 64 \<Longrightarrow> (int w - 1 - int d) mod 4096 = int w - 1 - int d"
    and "w \<le> d \<Longrightarrow> d \<le> 2048 \<Longrightarrow> 1 \<le> w \<Longrightarrow> (int d + 1 - int w) mod 4096 = int d + 1 - int w"
proof -
  assume "w \<le> d" "d \<le> 2048" "1 \<le> w"
  then have "(int w - 1 - int d + 4096) mod 4096 = int w - 1 - int d + 4096"
    by (intro mod_pos_pos_trivial) auto
  then show "(int w - 1 - int d) mod 4096 = int w - 1 - int d + 4096" by (simp only: mod_add_self2)
qed (intro mod_pos_pos_trivial; simp)+

lemma dist12_ends:
  assumes "rx_ba_core ba" and "winend_ok ba"
  shows "int (dist12 (unat (ba_winend ba)) (unat (frame_seq m)))
      = (int (unat (ba_winsize ba)) - 1 - int (offset ba m)) mod 4096"
    and "int (dist12 (unat (frame_seq m)) (unat (ba_winend ba)))
      = (int (offset ba m) + 1 - int (unat (ba_winsize ba))) mod 4096"
proof -
  have "int (unat (ba_winend ba))
      = int ((unat (ba_winstart ba) + unat (ba_winsize ba) - 1) mod 4096)"
    by (simp only: winend_unat [OF assms])
  also have "\<dots> = (int (unat (ba_winstart ba)) + int (unat (ba_winsize ba)) - 1) mod 4096"
    using rx_ba_coreD(3) [OF assms(1)] by (simp only: of_nat_mod of_nat_diff) simp
  finally have w: "int (unat (ba_winend ba))
      = (int (unat (ba_winstart ba)) + int (unat (ba_winsize ba)) - 1) mod 4096" .
  show "int (dist12 (unat (ba_winend ba)) (unat (frame_seq m)))
      = (int (unat (ba_winsize ba)) - 1 - int (offset ba m)) mod 4096"
    unfolding offset_def by (rule ends_arith(1) [OF w])
  show "int (dist12 (unat (frame_seq m)) (unat (ba_winend ba)))
      = (int (offset ba m) + 1 - int (unat (ba_winsize ba))) mod 4096"
    unfolding offset_def by (rule ends_arith(2) [OF w])
qed

lemma in_window:
  assumes "rx_ba_core ba" "winend_ok ba" "\<not> half_space ba m"
    and "\<not> SEQ_LT (frame_seq m) (ba_winstart ba)" and "\<not> SEQ_LT (ba_winend ba) (frame_seq m)"
  shows "offset ba m < unat (ba_winsize ba)"
proof (rule ccontr)
  note D = rx_ba_coreD [OF assms(1)]
  assume n: "\<not> offset ba m < unat (ba_winsize ba)"
  have le: "offset ba m \<le> 2048" using assms(4) by (simp add: SEQ_LT_dist offset_def)
  have "int (dist12 (unat (ba_winend ba)) (unat (frame_seq m)))
      = int (unat (ba_winsize ba)) - 1 - int (offset ba m) + 4096"
    unfolding dist12_ends(1) [OF assms(1,2)]
    by (rule win_arith(1)) (use n le D(3) in auto)
  moreover have "dist12 (unat (ba_winend ba)) (unat (frame_seq m)) \<le> 2048"
    using assms(5) by (simp add: SEQ_LT_dist)
  ultimately have "offset ba m = 2048 \<and> unat (ba_winsize ba) = 1"
    using le D(3) by linarith
  with assms(3) show False by (simp add: half_space_def word_unat_eq_iff)
qed

lemma above_window:
  assumes "rx_ba_core ba" "winend_ok ba"
    and "\<not> SEQ_LT (frame_seq m) (ba_winstart ba)" and "SEQ_LT (ba_winend ba) (frame_seq m)"
  shows "unat (ba_winsize ba) \<le> offset ba m"
    and "unat (sub12 (frame_seq m) (ba_winend ba)) = offset ba m + 1 - unat (ba_winsize ba)"
    and "offset ba m \<le> 2048"
proof -
  note D = rx_ba_coreD [OF assms(1)]
  show le: "offset ba m \<le> 2048" using assms(3) by (simp add: SEQ_LT_dist offset_def)
  show ge: "unat (ba_winsize ba) \<le> offset ba m"
  proof (rule ccontr)
    assume "\<not> unat (ba_winsize ba) \<le> offset ba m"
    then have "int (dist12 (unat (ba_winend ba)) (unat (frame_seq m)))
        = int (unat (ba_winsize ba)) - 1 - int (offset ba m)"
      unfolding dist12_ends(1) [OF assms(1,2)]
      by (intro win_arith(2)) (use D(4) in auto)
    moreover have "2048 < dist12 (unat (ba_winend ba)) (unat (frame_seq m))"
      using assms(4) by (simp add: SEQ_LT_dist)
    ultimately show False using D(4) by linarith
  qed
  have "int (dist12 (unat (frame_seq m)) (unat (ba_winend ba)))
      = int (offset ba m) + 1 - int (unat (ba_winsize ba))"
    unfolding dist12_ends(2) [OF assms(1,2)]
    by (rule win_arith(3)) (use ge le D(3) in auto)
  then show "unat (sub12 (frame_seq m) (ba_winend ba)) = offset ba m + 1 - unat (ba_winsize ba)"
    unfolding unat_sub12 using ge by linarith
qed

section \<open>The outcome of one received MPDU\<close>

definition dropped :: "rx_ba \<Rightarrow> rxctx \<Rightarrow> mbuf \<Rightarrow> rx_ba \<Rightarrow> rxctx \<Rightarrow> bool" where
  "dropped ba cx m ba' cx' \<longleftrightarrow> view ba' = view ba \<and> ba_winstart ba' = ba_winstart ba \<and>
     rx_up cx' = rx_up cx \<and> rx_freed cx' = rx_freed cx @ [m]"

text \<open>The window moves over \<open>n\<close> slots while its start moves by \<open>K\<close>, the frame is stored at
  position \<open>i\<close>, and the run that now begins the window is handed up.\<close>

definition stored :: "rx_ba \<Rightarrow> rxctx \<Rightarrow> mbuf \<Rightarrow> rxinfo \<Rightarrow> nat \<Rightarrow> nat \<Rightarrow> nat \<Rightarrow> rx_ba \<Rightarrow> rxctx \<Rightarrow> bool" where
  "stored ba cx m rxi n K i ba' cx' \<longleftrightarrow>
     (let v1 = shift_slots n (view ba); v2 = v1[i := Some (m, flag_done rxi)]; k = run full 64 v2
      in i < 64 \<and> v1 ! i = None \<and> n \<le> K \<and> K + i = offset ba m \<and> offset ba m \<le> 2048 \<and>
         (\<forall>j<64. n \<le> j \<longrightarrow> view ba ! j \<noteq> None \<longrightarrow> n = K) \<and>
         view ba' = shift_slots k v2 \<and>
         rx_up cx' = rx_up cx @ somes (take n (view ba)) @ somes (take k v2) \<and>
         rx_freed cx' = rx_freed cx \<and>
         unat (ba_winstart ba') = (unat (ba_winstart ba) + K + k) mod 4096)"

lemma stored_cong:
  "view a = view b \<Longrightarrow> ba_winstart a = ba_winstart b \<Longrightarrow> rx_up c = rx_up d \<Longrightarrow> rx_freed c = rx_freed d \<Longrightarrow>
    stored a c m rxi n K i ba' cx' = stored b d m rxi n K i ba' cx'"
  by (simp add: stored_def offset_def)

lemma dist12_sub: "k \<le> dist12 a b \<Longrightarrow> dist12 a ((b + k) mod 4096) = dist12 a b - k"
proof -
  assume k: "k \<le> dist12 a b"
  have "int (dist12 a ((b + k) mod 4096)) = (int a - int (b + k)) mod 4096"
    by (simp only: dist12_int of_nat_mod of_nat_numeral) (rule mod_diff_right_eq)
  also have "\<dots> = ((int a - int b) mod 4096 - int k) mod 4096"
    by (simp add: mod_diff_left_eq algebra_simps)
  also have "\<dots> = (int (dist12 a b) - int k) mod 4096" by (simp add: dist12_int)
  also have "\<dots> = int (dist12 a b) - int k"
    using k dist12_lt [of a b] by (intro mod_pos_pos_trivial) linarith+
  finally show ?thesis using k by linarith
qed

lemma moved_store:
  assumes a: "advanced n (ba, cx) (ba1, cx1)" and c1: "rx_ba_core ba1" and e1: "winend_ok ba1"
    and w1: "unat (ba_winstart ba1) = (unat (ba_winstart ba) + K) mod 4096"
    and nK: "n \<le> K" "K \<le> offset ba m" "offset ba m \<le> 2048"
    and i: "offset ba m - K < unat (ba_winsize ba)"
    and free: "view ba1 ! (offset ba m - K) = None"
    and rest: "\<And>j. j < 64 \<Longrightarrow> n \<le> j \<Longrightarrow> view ba ! j \<noteq> None \<Longrightarrow> n = K"
    and r: "input_ba_store m rxi ba1 cx1 = (ba', cx')"
  shows "rx_ba_ok ba' \<and> ba_winsize ba' = ba_winsize ba \<and>
    stored ba cx m rxi n K (offset ba m - K) ba' cx'"
proof -
  have o1: "offset ba1 m = offset ba m - K"
    using dist12_sub [of K] nK(2) by (simp add: offset_def w1)
  have ws: "ba_winsize ba1 = ba_winsize ba" and v1: "view ba1 = shift_slots n (view ba)"
    and u1: "rx_up cx1 = rx_up cx @ somes (take n (view ba))" and f1: "rx_freed cx1 = rx_freed cx"
    using a by simp_all
  define v where "v = (view ba1)[offset ba1 m := Some (m, flag_done rxi)]"
  obtain ba2 cx2 where s: "input_ba_store m rxi ba1 cx1 = (ba2, cx2)"
    "view ba2 = shift_slots (run full 64 v) v"
    "rx_up cx2 = rx_up cx1 @ somes (take (run full 64 v) v)" "rx_freed cx2 = rx_freed cx1"
    "unat (ba_winstart ba2) = (unat (ba_winstart ba1) + run full 64 v) mod 4096"
    "rx_ba_ok ba2" "ba_winsize ba2 = ba_winsize ba1"
    unfolding v_def using store_spec [OF c1 e1, of m rxi cx1 thesis] i free o1 ws by simp
  have i64: "offset ba m - K < 64" using i rx_ba_coreD(4) [OF c1] ws by simp
  have v: "(shift_slots n (view ba))[offset ba m - K := Some (m, flag_done rxi)] = v"
    by (simp add: v_def v1 o1)
  have eq: "ba2 = ba'" "cx2 = cx'" using s(1) r by simp_all
  have "shift_slots n (view ba) ! (offset ba m - K) = None" using free by (simp add: v1)
  moreover have "rx_up cx' = rx_up cx @ somes (take n (view ba)) @ somes (take (run full 64 v) v)"
    using s(3) by (simp add: u1 eq)
  moreover have "unat (ba_winstart ba') = (unat (ba_winstart ba) + K + run full 64 v) mod 4096"
    using s(5) by (simp add: w1 mod_simps eq)
  moreover have "\<forall>j<64. n \<le> j \<longrightarrow> view ba ! j \<noteq> None \<longrightarrow> n = K" using rest by blast
  moreover have "view ba' = shift_slots (run full 64 v) v" using s(2) by (simp only: eq)
  moreover have "rx_freed cx' = rx_freed cx" using s(4) by (simp only: f1 eq)
  moreover have "K + (offset ba m - K) = offset ba m" using nK(2) by simp
  ultimately have "stored ba cx m rxi n K (offset ba m - K) ba' cx'"
    unfolding stored_def Let_def v using nK(1,3) i64 by (intro conjI)
  with s r ws show ?thesis by simp
qed

lemma slide_move:
  assumes c: "rx_ba_core ba" and d: "unat (ba_winsize ba) \<le> offset ba m"
    and n: "unat n = offset ba m + 1 - unat (ba_winsize ba)" "unat n \<le> unat (ba_winsize ba)"
  obtains ba1 cx1 ba2 cx2 K where
    "input_ba_seq ((ba_winstart ba + n) AND 0xfff) ba cx = (ba1, cx1)"
    "input_ba_flush ba1 cx1 = (ba2, cx2)"
    "advanced K (ba, cx) (ba2, cx2)" "rx_ba_ok ba2"
    "unat (ba_winstart ba2) = (unat (ba_winstart ba) + K) mod 4096"
    "K \<le> unat (ba_winsize ba)" "offset ba m - K < unat (ba_winsize ba)"
proof -
  note D = rx_ba_coreD [OF c]
  let ?mx = "(ba_winstart ba + n) AND 0xfff"
  let ?w = "unat (ba_winsize ba)"
  define n1 where "n1 = run (passes ?mx) ?w (view ba)"
  define n2 where "n2 = run full 64 (shift_slots n1 (view ba))"
  have mx: "unat ?mx = (unat (ba_winstart ba) + unat n) mod 4096"
    by (simp add: unat_and_fff unat_plus16 mod_mod_cancel)
  have n1w: "n1 \<le> ?w" unfolding n1_def by (rule run_le)
  have n1n: "unat n \<le> n1"
  proof (rule ccontr)
    assume "\<not> unat n \<le> n1"
    then have lt: "n1 < unat n" "n1 < ?w" "n1 < 64" using n(2) D(4) by auto
    have np: "\<not> passes ?mx (view ba ! n1)"
      unfolding n1_def by (rule run_stop) (use lt D in \<open>simp_all add: n1_def\<close>)
    then obtain m' rxi' where m': "view ba ! n1 = Some (m', rxi')"
      by (cases "view ba ! n1") auto
    have "int (dist12 (unat (frame_seq m')) (unat ?mx)) = (int n1 - int (unat n)) mod 4096"
      unfolding mx slot_pos(2) [OF c m' lt(3)]
      by (simp only: dist12_int of_nat_mod of_nat_numeral mod_diff_eq) simp
    also have "\<dots> = (int n1 - int (unat n) + 4096) mod 4096" by (simp only: mod_add_self2)
    also have "\<dots> = int n1 - int (unat n) + 4096"
      using lt n(2) D(4) by (intro mod_pos_pos_trivial) linarith+
    finally have "2048 < dist12 (unat (frame_seq m')) (unat ?mx)"
      using n(2) D(4) by linarith
    with np m' show False by (simp add: SEQ_LT_dist)
  qed
  obtain b1 cx1 where l: "input_ba_seq_loop ?w ?mx ba cx = (b1, cx1)"
    by (cases "input_ba_seq_loop ?w ?mx ba cx")
  have a1: "advanced n1 (ba, cx) (b1, cx1)"
    and w1: "unat (ba_winstart b1) = (unat (ba_winstart ba) + n1) mod 4096"
    using seq_loop_advanced [OF D(1,2) D(4), of ?mx cx] l by (auto simp: n1_def)
  have core1: "rx_ba_core (set_winend b1)" using core_shifted [OF c a1 w1] by simp
  have v1: "view b1 = shift_slots n1 (view ba)" using a1 by simp
  obtain ba2 cx2 where f: "input_ba_flush (set_winend b1) cx1 = (ba2, cx2)"
    "advanced (run full 64 (view (set_winend b1))) (set_winend b1, cx1) (ba2, cx2)"
    "unat (ba_winstart ba2) = (unat (ba_winstart (set_winend b1)) + run full 64 (view (set_winend b1))) mod 4096"
    "rx_ba_ok ba2"
    by (rule flush_spec [OF core1 winend_ok_set])
  have "n1 + n2 \<le> ?w"
  proof (rule ccontr)
    assume h: "\<not> n1 + n2 \<le> ?w"
    then have "?w - n1 < run full 64 (shift_slots n1 (view ba))" using n1w unfolding n2_def by linarith
    from run_prefix [OF this] have "shift_slots n1 (view ba) ! (?w - n1) \<noteq> None" .
    moreover have "?w - n1 < 64" using D(3,4) n1n n(1) d by linarith
    ultimately have v: "view ba ! ?w \<noteq> None" "?w < 64"
      using n1w D(6) by (auto simp: shift_slots_nth split: if_splits)
    then obtain m' rxi' where "view ba ! ?w = Some (m', rxi')" by (cases "view ba ! ?w") auto
    from slot_pos(1) [OF c this v(2)] show False by simp
  qed
  moreover have "advanced (n1 + n2) (ba, cx) (ba2, cx2)"
    using advanced_trans [of n1 "(ba, cx)" "(set_winend b1, cx1)"] a1 f(2)
    by (simp add: v1 n2_def del: advanced.simps)
  moreover have "input_ba_seq ?mx ba cx = (set_winend b1, cx1)" using l by (simp add: input_ba_seq_def)
  moreover have "unat (ba_winstart ba2) = (unat (ba_winstart ba) + (n1 + n2)) mod 4096"
    using f(3) by (simp add: w1 v1 n2_def mod_simps add.assoc)
  moreover have "offset ba m - (n1 + n2) < ?w" using n1n n(1) d D(3) by linarith
  ultimately show thesis using that [of "set_winend b1" cx1 ba2 cx2 "n1 + n2"] f(1,4) by blast
qed

lemma rearm_updates [simp]:
  "view (ba_rearm ba) = view ba" "ba_winstart (ba_rearm ba) = ba_winstart ba"
  "ba_winsize (ba_rearm ba) = ba_winsize ba" "ba_winend (ba_rearm ba) = ba_winend ba"
  "rx_ba_core (ba_rearm ba) = rx_ba_core ba" "winend_ok (ba_rearm ba) = winend_ok ba"
  "ba_winmiss (ba_rearm ba) = ba_winmiss ba" "ba_missedsn (ba_rearm ba) = ba_missedsn ba"
  "ba_buf (ba_rearm ba) = ba_buf ba" "slot_at (ba_rearm ba) = slot_at ba"
  "ba_head (ba_rearm ba) = ba_head ba" "offset (ba_rearm ba) m = offset ba m"
  "ring_ok (ba_rearm ba) = ring_ok ba" "ba_state (ba_rearm ba) = ba_state ba"
  by (simp_all add: ba_rearm_def winend_ok_def slot_at_def offset_def fun_eq_iff)

lemma buf_some: "ring_ok ba \<Longrightarrow> ba_buf ba \<noteq> None"
  by (auto simp: ring_ok_def slots_def split: option.splits)

lemma rx_ba_ok_miss [simp]:
  "rx_ba_ok (ba\<lparr>ba_winmiss := a, ba_missedsn := q\<rparr>) = rx_ba_ok ba"
  by (simp add: rx_ba_ok_def winend_ok_def)

lemma rx_ba_ok_rearm [simp]: "rx_ba_ok (ba_rearm ba) = rx_ba_ok ba"
  by (simp add: rx_ba_ok_def)

lemma jump_move:
  assumes c: "rx_ba_core ba" and d: "unat (ba_winsize ba) \<le> offset ba m" "offset ba m \<le> 2048"
  obtains ba1 cx1 where "ba_move_window (frame_seq m) ba cx = (ba1, cx1)"
    "advanced (unat (ba_winsize ba)) (ba, cx) (ba1, cx1)" "rx_ba_ok ba1"
    "unat (ba_winstart ba1) = (unat (ba_winstart ba) + offset ba m) mod 4096"
proof -
  note D = rx_ba_coreD [OF c]
  let ?w = "unat (ba_winsize ba)"
  have n: "min (dist12 (unat (frame_seq m)) (unat (ba_winstart ba))) ?w = ?w"
    using d(1) by (simp add: offset_def)
  have "shift_slots ?w (view ba) ! 0 = None"
  proof (cases "?w < 64 \<and> view ba ! ?w \<noteq> None")
    case True
    then obtain m' rxi' where "view ba ! ?w = Some (m', rxi')" by (cases "view ba ! ?w") auto
    from slot_pos(1) [OF c this] True show ?thesis by simp
  qed (use D(6) in \<open>auto simp: shift_slots_nth\<close>)
  then have k: "run full 64 (shift_slots ?w (view ba)) = 0"
    using run_Suc [of 63 "shift_slots ?w (view ba)" full] D(6) by simp
  have sq: "unat (frame_seq m) mod 4096 = (unat (ba_winstart ba) + offset ba m) mod 4096"
    by (simp add: offset_def dist12_add)
  show thesis
    by (rule move_window_spec [OF c frame_seq_lt, of m cx]) (use that n k sq in simp)
qed

lemma input_ba_outcome:
  assumes ok: "rx_ba_ok ba" and h: "\<not> half_space ba m"
    and r: "input_ba m rxi ba cx = (ba', cx')"
  shows "rx_ba_ok ba' \<and> ba_winsize ba' = ba_winsize ba \<and>
    (dropped ba cx m ba' cx' \<or> (\<exists>n K i. stored ba cx m rxi n K i ba' cx'))"
proof -
  have c: "rx_ba_core ba" and e: "winend_ok ba" using ok by (simp_all add: rx_ba_ok_def)
  note D = rx_ba_coreD [OF c]
  let ?b = "ba_rearm ba" and ?sn = "frame_seq m" and ?w = "unat (ba_winsize ba)"
  have c0: "rx_ba_core ?b" and e0: "winend_ok ?b" using c e by simp_all
  note u = r [unfolded input_ba_def Let_def, simplified rearm_updates]
  consider (below) "SEQ_LT ?sn (ba_winstart ba)"
    | (inside) "\<not> SEQ_LT ?sn (ba_winstart ba)" "\<not> SEQ_LT (ba_winend ba) ?sn"
    | (above) "\<not> SEQ_LT ?sn (ba_winstart ba)" "SEQ_LT (ba_winend ba) ?sn" by blast
  then show ?thesis
  proof cases
    case below
    with u ok show ?thesis by (auto simp: dropped_def mbuf_freem_def bump_def)
  next
    case inside
    have d: "offset ba m < ?w" using in_window [OF c e h inside] .
    have s: "input_ba_store m rxi ?b cx = (ba', cx')" using u inside buf_some [OF D(1)] by simp
    show ?thesis
    proof (cases "view ba ! offset ba m = None")
      case True
      have "rx_ba_ok ba' \<and> ba_winsize ba' = ba_winsize ?b \<and> stored ?b cx m rxi 0 0 (offset ?b m - 0) ba' cx'"
        by (rule moved_store [OF _ c0 e0])
          (use True d s inside D in \<open>auto simp: SEQ_LT_dist offset_def\<close>)
      moreover have "stored ?b cx m rxi n K i ba' cx' = stored ba cx m rxi n K i ba' cx'" for n K i
        by (rule stored_cong) simp_all
      ultimately show ?thesis by auto
    next
      case False
      from store_occupied [OF c0, of m rxi cx] False d D(4) s ok show ?thesis
        by (auto simp: dropped_def mbuf_freem_def bump_def input_error_def)
    qed
  next
    case above
    note A = above_window [OF c e above]
    let ?cx = "bump (is_ht_rx_frame_above_ba_winend_update (\<lambda>c. c + 1)) cx"
    show ?thesis
    proof (cases "unat (sub12 ?sn (ba_winend ba)) > ?w")
      case far: True
      show ?thesis
      proof (cases "ba_winmiss ba < 8")
        case True
        with u above far buf_some [OF D(1)] ok show ?thesis
          by (auto simp: dropped_def mbuf_freem_def bump_def input_error_def)
      next
        case False
        let ?b1 = "?b\<lparr>ba_winmiss := 0, ba_missedsn := 0\<rparr>"
        let ?cx1 = "bump (is_ht_rx_ba_window_jump_update (\<lambda>c. c + 1)) ?cx"
        have o1: "offset ?b1 m = offset ba m" by (simp add: offset_def)
        obtain ba1 cx1 where M: "ba_move_window ?sn ?b1 ?cx1 = (ba1, cx1)"
            "advanced ?w (?b1, ?cx1) (ba1, cx1)" "rx_ba_ok ba1"
            "unat (ba_winstart ba1) = (unat (ba_winstart ba) + offset ba m) mod 4096"
          using jump_move [of ?b1 m ?cx1 thesis] c A o1 by simp
        have s: "input_ba_store m rxi ba1 cx1 = (ba', cx')"
          using u above far False buf_some [OF D(1)] M(1) by simp
        have ok1: "rx_ba_core ba1" "winend_ok ba1" "view ba1 ! 0 = None"
          using M(3) by (auto simp: rx_ba_ok_def head_slot_none dest: rx_ba_coreD)
        have tail: "view ba ! j = None" if "j < 64" "?w \<le> j" for j
        proof (cases "view ba ! j")
          case (Some p)
          obtain m' rxi' where "p = (m', rxi')" by (cases p)
          with slot_pos(1) [OF c _ that(1)] Some that(2) show ?thesis by fastforce
        qed
        have "rx_ba_ok ba' \<and> ba_winsize ba' = ba_winsize ?b1 \<and>
            stored ?b1 ?cx1 m rxi ?w (offset ba m) (offset ?b1 m - offset ba m) ba' cx'"
        proof (rule moved_store [OF M(2) ok1(1,2) _ A(1) _ _ _ _ _ s])
          show "unat (ba_winstart ba1) = (unat (ba_winstart ?b1) + offset ba m) mod 4096"
            using M(4) by simp
          show "offset ?b1 m - offset ba m < unat (ba_winsize ?b1)" using D(3) o1 by simp
          show "view ba1 ! (offset ?b1 m - offset ba m) = None" using ok1(3) o1 by simp
          show "\<And>j. j < 64 \<Longrightarrow> ?w \<le> j \<Longrightarrow> view ?b1 ! j \<noteq> None \<Longrightarrow> ?w = offset ba m"
            using tail by simp
        qed (use o1 A in simp_all)
        moreover have "stored ?b1 ?cx1 m rxi n K i ba' cx' = stored ba cx m rxi n K i ba' cx'" for n K i
          by (rule stored_cong) (simp_all add: bump_def)
        ultimately show ?thesis by auto
      qed
    next
      case False
      let ?cx1 = "bump (is_ht_rx_ba_window_slide_update (\<lambda>c. c + 1)) ?cx"
      obtain ba1 cx1 ba2 cx2 K where M:
        "input_ba_seq ((ba_winstart ba + sub12 ?sn (ba_winend ba)) AND 0xfff) ?b ?cx1 = (ba1, cx1)"
        "input_ba_flush ba1 cx1 = (ba2, cx2)"
        "advanced K (?b, ?cx1) (ba2, cx2)" "rx_ba_ok ba2"
        "unat (ba_winstart ba2) = (unat (ba_winstart ba) + K) mod 4096"
        "K \<le> ?w" "offset ba m - K < ?w"
        using slide_move [OF c0, of m "sub12 ?sn (ba_winend ba)" ?cx1 thesis] A False by simp
      have s: "input_ba_store m rxi ba2 cx2 = (ba', cx')"
        using u above False buf_some [OF D(1)] M(1,2) by simp
      have v2: "view ba2 = shift_slots K (view ba)" using M(3) by simp
      have none: "view ba2 ! (offset ba m - K) = None"
      proof (cases "offset ba m < 64 \<and> view ba ! offset ba m \<noteq> None")
        case True
        then obtain m' rxi' where "view ba ! offset ba m = Some (m', rxi')"
          by (cases "view ba ! offset ba m") auto
        from slot_pos(1) [OF c this] True A(1) show ?thesis by simp
      qed (use M(6,7) A(1) D(4,6) in \<open>auto simp: v2 shift_slots_nth\<close>)
      have "rx_ba_ok ba' \<and> ba_winsize ba' = ba_winsize ?b \<and>
          stored ?b ?cx1 m rxi K K (offset ?b m - K) ba' cx'"
        by (rule moved_store [OF M(3) _ _ _ _ _ _ _ _ _ s])
          (use M A none in \<open>auto simp: rx_ba_ok_def\<close>)
      moreover have "stored ?b ?cx1 m rxi n K i ba' cx' = stored ba cx m rxi n K i ba' cx'" for n K i
        by (rule stored_cong) (simp_all add: bump_def)
      ultimately show ?thesis by auto
    qed
  qed
qed

section \<open>Order of delivery\<close>

text \<open>If the value at position \<open>i\<close> of a slot list is measured as \<open>c + i\<close>, the values present are
  strictly increasing and lie between \<open>c\<close> and \<open>c + length\<close>.\<close>

lemma somes_increasing:
  assumes "\<And>i x. i < length xs \<Longrightarrow> xs ! i = Some x \<Longrightarrow> f x = c + i"
  shows "sorted_wrt (<) (map f (somes xs)) \<and> (\<forall>x\<in>set (somes xs). c \<le> f x \<and> f x < c + length xs)"
  using assms
proof (induction xs rule: rev_induct)
  case (snoc a xs)
  have "\<And>i x. i < length xs \<Longrightarrow> xs ! i = Some x \<Longrightarrow> f x = c + i"
    using snoc.prems by (metis length_append less_Suc_eq nth_append plus_1_eq_Suc trans_less_add1 add.commute
        length_Cons list.size(3))
  then have IH: "sorted_wrt (<) (map f (somes xs))" "\<forall>x\<in>set (somes xs). c \<le> f x \<and> f x < c + length xs"
    using snoc.IH by blast+
  show ?case
  proof (cases a)
    case None
    with IH show ?thesis by auto
  next
    case (Some x)
    then have "f x = c + length xs" using snoc.prems [of "length xs" x] by simp
    with IH Some show ?thesis by (auto simp: sorted_wrt_append)
  qed
qed simp

definition slot_offset :: "rx_ba \<Rightarrow> mbuf \<times> rxinfo \<Rightarrow> nat" where
  "slot_offset ba p = offset ba (fst p)"

lemma view_offset:
  "rx_ba_core ba \<Longrightarrow> i < 64 \<Longrightarrow> view ba ! i = Some p \<Longrightarrow> slot_offset ba p = i"
  using slot_pos(2) [of ba i "fst p" "snd p"]
  by (simp add: slot_offset_def offset_def dist12_add_left)

text \<open>Both batches of a stored frame: what the window moved over, then the run it completes.\<close>

lemma stored_increasing:
  assumes c: "rx_ba_core ba" and s: "stored ba cx m rxi n K i ba' cx'"
  obtains d where "rx_up cx' = rx_up cx @ d" "sorted_wrt (<) (map (slot_offset ba) d)"
    "\<And>p. p \<in> set d \<Longrightarrow> slot_offset ba p < K + run full 64 ((shift_slots n (view ba))[i := Some (m, flag_done rxi)])"
    "\<And>p. p \<in> set d \<Longrightarrow> has_flag (rxi_flags (snd p)) IEEE80211_RXI_AMPDU_DONE"
proof -
  note D = rx_ba_coreD [OF c]
  define v2 where "v2 = (shift_slots n (view ba))[i := Some (m, flag_done rxi)]"
  define k where "k = run full 64 v2"
  have S: "i < 64" "n \<le> K" "K + i = offset ba m" "\<forall>j<64. n \<le> j \<longrightarrow> view ba ! j \<noteq> None \<longrightarrow> n = K"
    "rx_up cx' = rx_up cx @ somes (take n (view ba)) @ somes (take k v2)"
    using s by (simp_all add: stored_def Let_def v2_def k_def)
  have p1: "slot_offset ba p = 0 + j" if "j < length (take n (view ba))" "take n (view ba) ! j = Some p" for j p
    using that view_offset [OF c, of j p] D(6) by simp
  have p2: "slot_offset ba p = K + j" if j: "j < length (take k v2)" "take k v2 ! j = Some p" for j p
  proof (cases "j = i")
    case True
    then show ?thesis using j S(1,3) D(6) by (auto simp: v2_def slot_offset_def)
  next
    case False
    then have "j + n < 64" "view ba ! (j + n) = Some p"
      using j D(6) by (auto simp: v2_def shift_slots_nth split: if_splits)
    moreover from this have "n = K" using S(4) [rule_format, of "j + n"] by simp
    ultimately show ?thesis using view_offset [OF c, of "j + n" p] by simp
  qed
  note I1 = somes_increasing [of "take n (view ba)" "slot_offset ba" 0, OF p1]
  note I2 = somes_increasing [of "take k v2" "slot_offset ba" K, OF p2]
  have fl: "has_flag (rxi_flags (snd p)) IEEE80211_RXI_AMPDU_DONE"
    if "p \<in> set (somes (take n (view ba)) @ somes (take k v2))" for p
  proof -
    from that have "Some p \<in> set (view ba) \<or> Some p \<in> set v2"
      by (auto simp: set_somes dest: in_set_takeD)
    moreover have "set v2 \<subseteq> insert (Some (m, flag_done rxi)) (insert None (set (view ba)))"
      unfolding v2_def using set_shift_slots [of n "view ba"]
        set_update_subset_insert [of "shift_slots n (view ba)" i "Some (m, flag_done rxi)"] by blast
    ultimately have "Some p \<in> set (view ba) \<or> p = (m, flag_done rxi)" by auto
    then show ?thesis
    proof
      assume "Some p \<in> set (view ba)"
      then obtain j where "j < 64" "view ba ! j = Some (fst p, snd p)" using D(6) by (auto simp: in_set_conv_nth)
      then show ?thesis using slot_pos(3) [OF c] by blast
    qed simp
  qed
  show thesis
  proof (rule that [OF S(5)])
    show "sorted_wrt (<) (map (slot_offset ba) (somes (take n (view ba)) @ somes (take k v2)))"
      using I1 I2 S(2) by (fastforce simp: sorted_wrt_append)
    fix p assume "p \<in> set (somes (take n (view ba)) @ somes (take k v2))"
    then show "slot_offset ba p < K + run full 64 ((shift_slots n (view ba))[i := Some (m, flag_done rxi)])"
      using I1 I2 S(2) by (fastforce simp: v2_def [symmetric] k_def)
  qed (rule fl)
qed

section \<open>Properties\<close>

definition buffered :: "rx_ba \<Rightarrow> mbuf list" where
  "buffered ba = map fst (somes (view ba))"

text \<open>All frames known to the receive path: handed up, freed, or still buffered.\<close>

definition all_frames :: "rx_ba \<Rightarrow> rxctx \<Rightarrow> mbuf multiset" where
  "all_frames ba cx = mset (map fst (rx_up cx)) + mset (rx_freed cx) + mset (buffered ba)"

lemma all_frames_simps [simp]: "all_frames ba (bump f cx) = all_frames ba cx"
  by (simp add: all_frames_def bump_def)

lemma advanced_all_frames:
  "advanced k (ba, cx) (ba', cx') \<Longrightarrow> all_frames ba' cx' = all_frames ba cx"
proof -
  assume a: "advanced k (ba, cx) (ba', cx')"
  have "mset (map fst (somes (view ba)))
      = mset (map fst (somes (take k (view ba)))) + mset (map fst (somes (drop k (view ba))))"
    by (metis map_append mset_append somes_take_drop)
  then show ?thesis using a by (simp add: all_frames_def buffered_def somes_shift_slots)
qed

lemma stored_all_frames:
  assumes c: "rx_ba_core ba" and s: "stored ba cx m rxi n K i ba' cx'"
  shows "all_frames ba' cx' = all_frames ba cx + {#m#}"
proof -
  let ?v1 = "shift_slots n (view ba)"
  let ?v2 = "?v1[i := Some (m, flag_done rxi)]"
  let ?k = "run full 64 ?v2"
  have S: "i < 64" "?v1 ! i = None" "view ba' = shift_slots ?k ?v2" "rx_freed cx' = rx_freed cx"
    "rx_up cx' = rx_up cx @ somes (take n (view ba)) @ somes (take ?k ?v2)"
    using s by (simp_all add: stored_def Let_def)
  have "mset (somes (take ?k ?v2)) + mset (somes (drop ?k ?v2)) = mset (somes ?v2)"
    by (metis mset_append somes_take_drop)
  also have "\<dots> = add_mset (m, flag_done rxi) (mset (somes (drop n (view ba))))"
    using somes_update [of i ?v1] S(1,2) rx_ba_coreD(6) [OF c] by (simp add: somes_shift_slots)
  finally have v: "mset (somes (take n (view ba))) + (mset (somes (take ?k ?v2)) + mset (somes (drop ?k ?v2)))
      = add_mset (m, flag_done rxi) (mset (somes (view ba)))"
    by (metis add_mset_add_single mset_append somes_take_drop union_assoc)
  have "mset (map fst (somes (take n (view ba)))) + (mset (map fst (somes (take ?k ?v2)))
      + mset (map fst (somes (drop ?k ?v2)))) = add_mset m (mset (map fst (somes (view ba))))"
    using arg_cong [OF v, of "image_mset fst"] by simp
  then show ?thesis
    by (simp add: all_frames_def buffered_def S(3-5) somes_shift_slots)
qed

section \<open>The frame half the number space ahead of a window of one\<close>

text \<open>A window with nothing buffered satisfies the invariant.\<close>

lemma empty_view_ok:
  assumes "ring_ok ba" and "view ba = replicate 64 None" and "ba_gapwait ba = 0"
    and "winend_ok ba" and "1 \<le> unat (ba_winsize ba)" and "unat (ba_winsize ba) \<le> 64"
    and "unat (ba_winstart ba) < 4096"
  shows "rx_ba_ok ba"
  using assms by (simp add: rx_ba_ok_def rx_ba_core_def slot_ok_def head_slot_view)

lemma half_space_outcome:
  assumes "rx_ba_ok ba" and "half_space ba m" and "input_ba m rxi ba cx = (ba', cx')"
  shows "rx_ba_ok ba' \<and> ba_winsize ba' = ba_winsize ba \<and> view ba = replicate 64 None \<and>
    view ba' = replicate 64 None \<and> rx_freed cx' = rx_freed cx \<and>
    rx_up cx' = rx_up cx @ [(m, flag_done rxi)] \<and>
    unat (ba_winstart ba') = (unat (ba_winstart ba) + 1) mod 4096"
proof -
  have c: "rx_ba_core ba" and e: "winend_ok ba" using assms(1) by (simp_all add: rx_ba_ok_def)
  note D = rx_ba_coreD [OF c]
  have w: "unat (ba_winsize ba) = 1" and off: "offset ba m = 2048"
    using assms(2) by (simp_all add: half_space_def)
  have none: "view ba ! j = None" if "j < 64" for j
  proof (cases "view ba ! j")
    case (Some p)
    from slot_pos(1) [OF c, of j "fst p" "snd p"] Some that w have "j = 0" by simp
    then show ?thesis using assms(1) D(1) by (simp add: rx_ba_ok_def head_slot_none)
  qed
  let ?b = "ba_rearm ba\<lparr>ba_winmiss := 0, ba_missedsn := 0\<rparr>"
  let ?h = "unat (ba_head ba)"
  define b2 where "b2 = (set_slot ?h (Some (m, flag_done rxi)) ?b)\<lparr>ba_gapwait := 1\<rparr>"
  have idx: "(?h + 2048) mod 64 = ?h"
    using mod_mult_self2 [of ?h 64 32] D(1) by (simp add: ring_ok_def)
  have sl: "slots b2 = (slots ba)[?h := Some (m, flag_done rxi)]"
    by (simp add: b2_def slots_def set_slot_def ba_rearm_def split: option.split)
  have hd2: "ba_head b2 = ba_head ba" by (simp add: b2_def ba_rearm_def)
  have h2: "head_slot b2 = Some (m, flag_done rxi)" "ring_ok b2"
    using D(1) sl by (auto simp: b2_def slot_at_slots ring_ok_def ba_rearm_def)
  have v2: "view b2 = (view ba)[0 := Some (m, flag_done rxi)]"
    using view_set_slot [OF D(1), of 0 "Some (m, flag_done rxi)"] D(1) hd2 by (simp add: view_def sl ring_ok_def)
  have "int (dist12 (unat (ba_winend ba)) (unat (frame_seq m))) = 2048"
    unfolding dist12_ends(1) [OF c e] by (simp add: w off)
  then have "\<not> SEQ_LT (ba_winend ba) (frame_seq m)" "\<not> SEQ_LT (frame_seq m) (ba_winstart ba)"
    using off by (simp_all add: SEQ_LT_dist offset_def)
  then have s: "input_ba_store m rxi (ba_rearm ba) cx = (ba', cx')"
    using assms(3) buf_some [OF D(1)] by (simp add: input_ba_def)
  have at: "slot_at ba ?h = None" using assms(1) by (simp add: rx_ba_ok_def)
  have v: "view ba = replicate 64 None" using none D(6) by (intro nth_equalityI) auto
  then have g: "ba_gapwait (ba_rearm ba) = 0" using D(5) by (simp add: ba_rearm_def)
  have "input_ba_flush b2 cx = (ba', cx')"
    using s at g h2(1) off idx
    by (simp add: input_ba_store_def Let_def unat_sub12 offset_def arm_gap_def b2_def flag_done_def)
  moreover have nop: "\<exists>t. x = x\<lparr>ba_gap_to := t\<rparr>" for x :: rx_ba
    by (rule exI [of _ "ba_gap_to x"]) simp
  ultimately have fl: "cx' = snd (input_ba_flush_loop b2 cx)"
      "\<exists>t. ba' = (set_winend (fst (input_ba_flush_loop b2 cx)))\<lparr>ba_gap_to := t\<rparr>"
    using h2(1)
    by (auto simp: input_ba_flush_def Let_def split: prod.splits if_splits intro: nop)
  have r: "run full 64 (view b2) = 1"
    using run_full_shift [of "view b2"] run_Suc [of 63 "shift_slots 1 (view b2)" full] none [of 1] D(6)
    by (simp add: v2 shift_slots_nth)
  have t: "take 1 (view b2) = [Some (m, flag_done rxi)]"
    using D(6) by (cases "view ba") (auto simp: v2 dest: arg_cong [of _ _ length])
  obtain b3 cx3 where L: "input_ba_flush_loop b2 cx = (b3, cx3)" by (cases "input_ba_flush_loop b2 cx")
  have A: "advanced 1 (b2, cx) (b3, cx3)"
    and ws: "unat (ba_winstart b3) = (unat (ba_winstart ba) + 1) mod 4096"
    using flush_loop_advanced [OF h2(2), of cx] D(2) r L by (simp_all add: b2_def del: advanced.simps)
  from fl(2) L obtain t' where b': "ba' = (set_winend b3)\<lparr>ba_gap_to := t'\<rparr>" by auto
  have v3: "view b3 = replicate 64 None"
    using A D(6) by (intro nth_equalityI) (auto simp: v2 shift_slots_nth none)
  have sz: "ba_winsize b3 = ba_winsize ba" "ba_gapwait b3 = 0" "ring_ok b3"
    using A t by (simp_all add: b2_def)
  have vb: "view ba' = replicate 64 None" "ring_ok ba'" using v3 sz by (simp_all add: b')
  have fb: "ba_gapwait ba' = 0" "ba_winsize ba' = ba_winsize ba" "ba_winstart ba' = ba_winstart b3"
      "winend_ok ba'"
    using sz by (simp_all add: b' set_winend_def winend_ok_def)
  have "rx_ba_ok ba'"
    by (rule empty_view_ok) (use vb fb D ws in simp_all)
  then show ?thesis
    using A t fl(1) L v vb fb ws by simp
qed

lemma input_ba_window:
  assumes "rx_ba_ok ba"
  shows "rx_ba_ok (fst (input_ba m rxi ba cx))"
proof (cases "half_space ba m")
  case True
  from half_space_outcome [OF assms True surjective_pairing] show ?thesis by simp
next
  case False
  from input_ba_outcome [OF assms False surjective_pairing] show ?thesis by simp
qed

text \<open>C9. The window invariant (ring of 64 slots, every buffered frame at the position of its
  sequence number, the gap counter counting the buffered frames, the window end consistent, no
  deliverable frame held back) is preserved when an MPDU is received.\<close>

theorem input_ba_preserves_window:
  assumes "rx_ba_ok ba"
  shows "rx_ba_ok (fst (input_ba m rxi ba cx))"
  by (rule input_ba_window [OF assms])

text \<open>C10. No MPDU is lost or duplicated by the reordering buffer: what was handed up, freed and
  buffered before, plus the new frame, is what is handed up, freed and buffered after.\<close>

theorem input_ba_conserves_frames:
  assumes "rx_ba_ok ba" and "input_ba m rxi ba cx = (ba', cx')"
  shows "all_frames ba' cx' = all_frames ba cx + {#m#}"
proof (cases "half_space ba m")
  case True
  from half_space_outcome [OF assms(1) True assms(2)] show ?thesis
    by (simp add: all_frames_def buffered_def)
next
  case False
  have c: "rx_ba_core ba" using assms(1) by (simp add: rx_ba_ok_def)
  from input_ba_outcome [OF assms(1) False assms(2)] have "dropped ba cx m ba' cx' \<or> (\<exists>n K i. stored ba cx m rxi n K i ba' cx')"
    by simp
  then show ?thesis
    using stored_all_frames [OF c] by (auto simp: dropped_def all_frames_def buffered_def)
qed

text \<open>C11. Frames are handed up in sequence order: one call hands up a batch whose offsets from the
  old window start strictly increase, and every frame of the batch carries the flag that stops
  \<^verbatim>\<open>ieee80211_inputm\<close> from reordering it again.  The frames of the batch all lie before the new window
  start, except in one case, where the batch is the new frame alone: the frame that is exactly half the
  number space ahead of a window of size one takes the place of the expected frame (C14).\<close>

theorem input_ba_in_order:
  assumes "rx_ba_ok ba" and "input_ba m rxi ba cx = (ba', cx')"
  shows "\<exists>d. rx_up cx' = rx_up cx @ d \<and>
    sorted_wrt (<) (map (slot_offset ba) d) \<and>
    (\<forall>p\<in>set d. has_flag (rxi_flags (snd p)) IEEE80211_RXI_AMPDU_DONE) \<and>
    (if half_space ba m then d = [(m, flag_done rxi)]
     else \<forall>p\<in>set d. slot_offset ba p < dist12 (unat (ba_winstart ba')) (unat (ba_winstart ba)))"
proof (cases "half_space ba m")
  case True
  have "has_flag (rxi_flags (flag_done rxi)) IEEE80211_RXI_AMPDU_DONE" by simp
  then show ?thesis
    using half_space_outcome [OF assms(1) True assms(2)] True by (intro exI [of _ "[(m, flag_done rxi)]"]) simp
next
  case False
  have c: "rx_ba_core ba" using assms(1) by (simp add: rx_ba_ok_def)
  from input_ba_outcome [OF assms(1) False assms(2)] consider "dropped ba cx m ba' cx'"
    | n K i where "stored ba cx m rxi n K i ba' cx'" by blast
  then show ?thesis
  proof cases
    case 1
    then show ?thesis by (intro exI [of _ "[]"]) (simp add: dropped_def False)
  next
    case (2 n K i)
    let ?k = "run full 64 ((shift_slots n (view ba))[i := Some (m, flag_done rxi)])"
    have w: "unat (ba_winstart ba') = (unat (ba_winstart ba) + (K + ?k)) mod 4096" "K \<le> 2048"
      using 2 by (simp_all add: stored_def Let_def add.assoc)
    have "dist12 (unat (ba_winstart ba')) (unat (ba_winstart ba)) = K + ?k"
      unfolding w(1) by (rule dist12_add_left) (use w(2) run_le [of full 64 "(shift_slots n (view ba))[i := Some (m, flag_done rxi)]"] in linarith)
    moreover obtain d where "rx_up cx' = rx_up cx @ d" "sorted_wrt (<) (map (slot_offset ba) d)"
        "\<And>p. p \<in> set d \<Longrightarrow> slot_offset ba p < K + ?k"
        "\<And>p. p \<in> set d \<Longrightarrow> has_flag (rxi_flags (snd p)) IEEE80211_RXI_AMPDU_DONE"
      by (rule stored_increasing [OF c 2]) blast
    ultimately show ?thesis by (intro exI [of _ d]) (simp add: False)
  qed
qed

text \<open>C12. The gap timer always makes progress: when it fires, it hands up a first part of the waiting frames,
  in their order, and the rest stays buffered; when frames are waiting, that part has at least one frame.
  Nothing is freed, and the window still satisfies its invariant.\<close>

theorem gap_timeout_progress:
  assumes "rx_ba_ok ba" and "input_ba_gap_timeout ba cx = (ba', cx')"
  shows "rx_ba_ok ba' \<and> all_frames ba' cx' = all_frames ba cx \<and>
    (buffered ba \<noteq> [] \<longrightarrow> length (buffered ba') < length (buffered ba)) \<and> rx_freed cx' = rx_freed cx \<and>
    (\<exists>d. rx_up cx' = rx_up cx @ d \<and> buffered ba = map fst d @ buffered ba' \<and> (buffered ba \<noteq> [] \<longrightarrow> d \<noteq> []))"
proof -
  have c: "rx_ba_core ba" using assms(1) by (simp add: rx_ba_ok_def)
  note D = rx_ba_coreD [OF c]
  define n where "n = run gap (unat (ba_winsize ba)) (view ba)"
  define k where "k = run full 64 (shift_slots n (view ba))"
  have G: "advanced (n + k) (ba, cx) (ba', cx')" "rx_ba_ok ba'"
    by (rule gap_timeout_spec [OF assms(1), of cx], use assms(2) in \<open>simp add: n_def k_def\<close>)+
  have less: "length (buffered ba') < length (buffered ba)" if b: "buffered ba \<noteq> []"
  proof -
    obtain p where "Some p \<in> set (view ba)"
      using b by (cases "somes (view ba)") (auto simp: buffered_def set_somes [symmetric])
    then obtain j where j: "j < 64" "view ba ! j = Some p" using D(6) by (auto simp: in_set_conv_nth)
    then have jw: "j < unat (ba_winsize ba)" using slot_pos(1) [OF c, of j "fst p" "snd p"] by simp
    have nj: "n \<le> j"
    proof (rule ccontr)
      assume "\<not> n \<le> j"
      then have "view ba ! j = None"
        using run_prefix [of j gap "unat (ba_winsize ba)" "view ba"] by (simp add: n_def)
      with j show False by simp
    qed
    then have nn: "view ba ! n \<noteq> None"
      using run_stop [of gap "unat (ba_winsize ba)" "view ba"] jw j(1) D(6) by (simp add: n_def)
    then have "0 < k"
      using run_full_shift [of "shift_slots n (view ba)"] nj j(1) D(6)
      by (simp add: k_def shift_slots_nth)
    then have mem: "n < length (take (n + k) (view ba))" using nj j(1) D(6) by simp
    obtain q where q: "view ba ! n = Some q" using nn by (cases "view ba ! n") auto
    have "Some q \<in> set (take (n + k) (view ba))"
      unfolding in_set_conv_nth using mem q by (intro exI [of _ n]) simp
    then have "somes (take (n + k) (view ba)) \<noteq> []" by (auto simp: set_somes [symmetric])
    moreover have "length (somes (view ba))
        = length (somes (take (n + k) (view ba))) + length (somes (drop (n + k) (view ba)))"
      by (metis length_append somes_take_drop)
    ultimately show ?thesis using G(1) by (simp add: buffered_def somes_shift_slots)
  qed
  have d: "buffered ba = map fst (somes (take (n + k) (view ba))) @ buffered ba'"
    using G(1) somes_take_drop [of "n + k" "view ba"]
    by (simp add: buffered_def somes_shift_slots map_append [symmetric] del: map_append)
  have ne: "buffered ba \<noteq> [] \<longrightarrow> somes (take (n + k) (view ba)) \<noteq> []"
  proof
    assume b: "buffered ba \<noteq> []"
    have "buffered ba' \<noteq> buffered ba" using less [OF b] by auto
    then show "somes (take (n + k) (view ba)) \<noteq> []" using d by (metis append_Nil list.map(1))
  qed
  have "rx_up cx' = rx_up cx @ somes (take (n + k) (view ba))" "rx_freed cx' = rx_freed cx" using G(1) by simp_all
  with d ne have "\<exists>d. rx_up cx' = rx_up cx @ d \<and> buffered ba = map fst d @ buffered ba' \<and> (buffered ba \<noteq> [] \<longrightarrow> d \<noteq> [])"
    by blast
  with G(2) less \<open>rx_freed cx' = rx_freed cx\<close> advanced_all_frames [OF G(1)] show ?thesis by simp
qed

text \<open>A BlockAckReq that moves the window to \<open>ssn\<close> hands up, in order, exactly the buffered
  frames before \<open>ssn\<close> and the complete run that starts there; the new window starts behind that
  run and satisfies the invariant.\<close>

theorem move_window_releases:
  assumes "rx_ba_core ba" and "unat ssn < 4096" and "ba_move_window ssn ba cx = (ba', cx')"
  defines "n \<equiv> min (dist12 (unat ssn) (unat (ba_winstart ba))) (unat (ba_winsize ba))"
  defines "k \<equiv> run full 64 (shift_slots n (view ba))"
  shows "rx_ba_ok ba' \<and> rx_up cx' = rx_up cx @ somes (take (n + k) (view ba)) \<and>
    rx_freed cx' = rx_freed cx \<and> view ba' = shift_slots (n + k) (view ba) \<and>
    unat (ba_winstart ba') = (unat ssn + k) mod 4096"
  unfolding k_def n_def
  by (rule move_window_spec [OF assms(1,2), of cx]) (use assms(3) in simp)

text \<open>The contract of the buffer for frames that need no window movement, over the abstract state
  (window start, slots from the start on): the new state, the frames handed up, the frames freed.\<close>

definition spec_receive :: "mbuf \<Rightarrow> rxinfo \<Rightarrow> nat \<times> ba_slot list \<Rightarrow>
    (nat \<times> ba_slot list) \<times> (mbuf \<times> rxinfo) list \<times> mbuf list" where
  "spec_receive m rxi = (\<lambda>(s, ws).
     let d = dist12 (unat (frame_seq m)) s
     in if 2048 < d \<or> ws ! d \<noteq> None then ((s, ws), [], [m])
        else let ws = ws[d := Some (m, flag_done rxi)]; k = run full 64 ws
             in (((s + k) mod 4096, shift_slots k ws), somes (take k ws), []))"

text \<open>C13. Refinement: for a frame inside or behind the window, the circular buffer with its word
  arithmetic computes exactly the contract on the list of slots.\<close>

theorem input_ba_refines_spec:
  assumes "rx_ba_ok ba" and "offset ba m < unat (ba_winsize ba) \<or> 2048 < offset ba m"
    and "input_ba m rxi ba cx = (ba', cx')"
  shows "(((unat (ba_winstart ba'), view ba'), drop (length (rx_up cx)) (rx_up cx'),
      drop (length (rx_freed cx)) (rx_freed cx')) = spec_receive m rxi (unat (ba_winstart ba), view ba))"
proof -
  have c: "rx_ba_core ba" and e: "winend_ok ba" using assms(1) by (simp_all add: rx_ba_ok_def)
  note D = rx_ba_coreD [OF c]
  let ?b = "ba_rearm ba"
  show ?thesis
  proof (cases "2048 < offset ba m")
    case True
    then show ?thesis using assms(3)
      by (auto simp: input_ba_def SEQ_LT_dist offset_def spec_receive_def Let_def mbuf_freem_def bump_def)
  next
    case False
    with assms(2) have d: "offset ba m < unat (ba_winsize ba)" by simp
    then have d64: "offset ba m < 64" using D(4) by simp
    have "int (dist12 (unat (ba_winend ba)) (unat (frame_seq m))) = int (unat (ba_winsize ba)) - 1 - int (offset ba m)"
      unfolding dist12_ends(1) [OF c e] by (rule win_arith(2)) (use d D(4) in auto)
    then have "dist12 (unat (ba_winend ba)) (unat (frame_seq m)) \<le> 2048" using D(4) by linarith
    then have s: "input_ba_store m rxi ?b cx = (ba', cx')"
      using assms(3) False buf_some [OF D(1)] by (simp add: input_ba_def SEQ_LT_dist offset_def)
    show ?thesis
    proof (cases "view ba ! offset ba m = None")
      case True
      have "\<not> 2048 < dist12 (unat (frame_seq m)) (unat (ba_winstart ba))" using False by (simp add: offset_def)
      then show ?thesis
        using store_spec [of ?b m rxi cx ?thesis] c e d True s
        by (simp add: spec_receive_def Let_def offset_def)
    next
      case occ: False
      from store_occupied [of ?b m rxi cx] c d64 occ s show ?thesis
        by (auto simp: spec_receive_def Let_def offset_def mbuf_freem_def bump_def input_error_def)
    qed
  qed
qed

text \<open>A frame too far ahead of the window (more than a whole window beyond its end) never moves
  the window on its own: until nine such frames have been seen it is freed and only the miss
  counter changes, counting up exactly when the sequence numbers are consecutive.\<close>

theorem far_ahead_frame_discarded:
  assumes "rx_ba_ok ba" and "2 * unat (ba_winsize ba) \<le> offset ba m" and "offset ba m \<le> 2048"
    and "1 < unat (ba_winsize ba)" and "ba_winmiss ba < 8"
    and "input_ba m rxi ba cx = (ba', cx')"
  shows "view ba' = view ba \<and> ba_winstart ba' = ba_winstart ba \<and> rx_up cx' = rx_up cx \<and>
    rx_freed cx' = rx_freed cx @ [m] \<and> inputErrors cx' = inputErrors cx + 1 \<and>
    ba_missedsn ba' = frame_seq m \<and>
    ba_winmiss ba' = (if ba_missedsn ba = (frame_seq m - 1) AND 0xfff then ba_winmiss ba + 1 else 0)"
proof -
  have c: "rx_ba_core ba" and e: "winend_ok ba" using assms(1) by (simp_all add: rx_ba_ok_def)
  note D = rx_ba_coreD [OF c]
  have a: "\<not> SEQ_LT (frame_seq m) (ba_winstart ba)" using assms(3) by (simp add: SEQ_LT_dist offset_def)
  have b: "SEQ_LT (ba_winend ba) (frame_seq m)"
  proof (rule ccontr)
    assume "\<not> ?thesis"
    then have "offset ba m < unat (ba_winsize ba)"
      using in_window [OF c e _ a] assms(4) by (simp add: half_space_def word_unat_eq_iff)
    with assms(2) show False by simp
  qed
  have "unat (ba_winsize ba) < unat (sub12 (frame_seq m) (ba_winend ba))"
    using above_window(2) [OF c e a b] assms(2) by simp
  with assms(5,6) a b buf_some [OF D(1)] show ?thesis
    by (auto simp: input_ba_def Let_def mbuf_freem_def bump_def input_error_def)
qed

text \<open>C14. The window check has a hole for a window of one frame: a frame exactly half the number
  space ahead is handed up in the place of the expected frame, and the expected frame is then
  dropped as lying behind the window.\<close>

theorem half_space_frame_replaces_expected:
  assumes "rx_ba_ok ba" and "half_space ba m" and "input_ba m rxi ba cx = (ba', cx')"
    and "offset ba m0 = 0"
  shows "rx_up cx' = rx_up cx @ [(m, flag_done rxi)] \<and>
    (\<forall>rxi0. rx_up (snd (input_ba m0 rxi0 ba' cx')) = rx_up cx' \<and>
      rx_freed (snd (input_ba m0 rxi0 ba' cx')) = rx_freed cx' @ [m0])"
proof -
  have D: "unat (ba_winstart ba) < 4096" using assms(1) by (simp add: rx_ba_ok_def rx_ba_coreD)
  have up: "rx_up cx' = rx_up cx @ [(m, flag_done rxi)]"
      and ws: "unat (ba_winstart ba') = (unat (ba_winstart ba) + 1) mod 4096"
    using half_space_outcome [OF assms(1-3)] by simp_all
  have "dist12 (unat (frame_seq m0)) (unat (ba_winstart ba')) = 4095"
  proof -
    have "unat (frame_seq m0) = unat (ba_winstart ba)"
      using assms(4) dist12_add [of "unat (ba_winstart ba)" "unat (frame_seq m0)"] frame_seq_lt [of m0] D
      by (simp add: offset_def)
    then have "int (dist12 (unat (frame_seq m0)) (unat (ba_winstart ba')))
        = (int (unat (ba_winstart ba)) - int ((unat (ba_winstart ba) + 1) mod 4096)) mod 4096"
      by (simp only: dist12_int ws)
    also have "\<dots> = (int (unat (ba_winstart ba)) - int (unat (ba_winstart ba) + 1)) mod 4096"
      by (simp only: of_nat_mod of_nat_numeral mod_diff_right_eq)
    finally show ?thesis by simp
  qed
  then have "SEQ_LT (frame_seq m0) (ba_winstart ba')" by (simp add: SEQ_LT_dist)
  then show ?thesis using up by (auto simp: input_ba_def Let_def mbuf_freem_def bump_def)
qed

declare not_None_eq [simp]

section \<open>Witnesses\<close>

lemma empty_window_ok:
  assumes "ba_buf ba = Some (replicate 64 None)" and "unat (ba_head ba) < 64" and "ba_gapwait ba = 0"
    and "winend_ok ba" and "1 \<le> unat (ba_winsize ba)" and "unat (ba_winsize ba) \<le> 64"
    and "unat (ba_winstart ba) < 4096"
  shows "rx_ba_ok ba"
proof -
  have s: "slots ba = replicate 64 None" using assms(1) by (simp add: slots_def)
  then have v: "view ba = replicate 64 None"
    by (intro nth_equalityI) (auto simp: view_def nth_rotate)
  show ?thesis
    by (rule empty_view_ok [OF _ v]) (use assms s in \<open>simp_all add: ring_ok_def\<close>)
qed

definition demo_ctx :: rxctx where
  "demo_ctx = \<lparr>rx_stats = \<lparr>is_ht_rx_ba_agreements = 0, is_ht_tx_ba_agreements = 0,
     is_ht_rx_frame_below_ba_winstart = 0, is_ht_rx_frame_above_ba_winend = 0,
     is_ht_rx_ba_window_slide = 0, is_ht_rx_ba_window_jump = 0, is_ht_rx_ba_no_buf = 0,
     is_ht_rx_ba_frame_lost = 0, is_ht_rx_ba_window_gap_timeout = 0, is_ht_rx_ba_timeout = 0,
     is_ht_tx_ba_timeout = 0, is_pbac_errs = 0\<rparr>, inputErrors = 0, rx_up = [], rx_freed = []\<rparr>"

definition demo_window :: "u16 \<Rightarrow> u16 \<Rightarrow> rx_ba" where
  "demo_window ssn sz = set_winend \<lparr>ba_buf = Some (replicate 64 None), ba_to = Some \<lparr>isPending = False, armed = None\<rparr>,
     ba_timeout_val = 0, ba_state = BA_AGREED, ba_params = 0, ba_winstart = ssn, ba_winend = 0,
     ba_winsize = sz, ba_head = 0, ba_gap_to = Some \<lparr>isPending = False, armed = None\<rparr>, ba_gapwait = 0,
     ba_winmiss = 0, ba_missedsn = 0, ba_token = 0\<rparr>"

definition demo_frame :: "u16 \<Rightarrow> mbuf" where
  "demo_frame sn = replicate 22 0 @ LE_WRITE_2 (push_bit 4 sn)"

definition demo_info :: rxinfo where
  "demo_info = \<lparr>rxi_flags = 0, rxi_tstamp = 0, rxi_rssi = 0, rxi_chan = 1\<rparr>"

text \<open>The window of the second example holds the frame two positions behind its start.\<close>

definition demo_waiting :: rx_ba where
  "demo_waiting = fst (input_ba (demo_frame 1) demo_info (demo_window 4095 8) demo_ctx)"

lemma demo_window_ok: "rx_ba_ok (demo_window 4095 8)" "rx_ba_ok (demo_window 4095 1)"
  by (auto intro!: empty_window_ok simp: demo_window_def) (simp_all add: set_winend_def)

lemma demo_not_half: "\<not> half_space (demo_window 4095 8) (demo_frame sn)"
  by (simp add: half_space_def demo_window_def set_winend_def)

lemma demo_waiting_ok: "rx_ba_ok demo_waiting"
  using input_ba_outcome [OF demo_window_ok(1) demo_not_half surjective_pairing]
  by (simp add: demo_waiting_def)

lemma demo_waiting_buffered: "buffered demo_waiting = [demo_frame 1]"
  by code_simp

theorem input_ba_preserves_window_witness:
  "rx_ba_ok (fst (input_ba (demo_frame 1) demo_info (demo_window 4095 8) demo_ctx))"
  by (rule input_ba_preserves_window [OF demo_window_ok(1)])

theorem input_ba_conserves_frames_witness:
  "all_frames (fst (input_ba (demo_frame 1) demo_info (demo_window 4095 8) demo_ctx))
     (snd (input_ba (demo_frame 1) demo_info (demo_window 4095 8) demo_ctx))
   = all_frames (demo_window 4095 8) demo_ctx + {#demo_frame 1#}"
  by (rule input_ba_conserves_frames [OF demo_window_ok(1) surjective_pairing])

theorem input_ba_in_order_witness:
  "\<exists>d. rx_up (snd (input_ba (demo_frame 4095) demo_info demo_waiting demo_ctx)) = rx_up demo_ctx @ d \<and>
     sorted_wrt (<) (map (slot_offset demo_waiting) d)"
  using input_ba_in_order [OF demo_waiting_ok surjective_pairing] by blast

theorem gap_timeout_progress_witness:
  "\<exists>p. rx_up (snd (input_ba_gap_timeout demo_waiting demo_ctx)) = rx_up demo_ctx @ [p] \<and> fst p = demo_frame 1"
proof -
  obtain d where d: "rx_up (snd (input_ba_gap_timeout demo_waiting demo_ctx)) = rx_up demo_ctx @ d"
    "buffered demo_waiting = map fst d @ buffered (fst (input_ba_gap_timeout demo_waiting demo_ctx))" "d \<noteq> []"
    using gap_timeout_progress [OF demo_waiting_ok surjective_pairing [of "input_ba_gap_timeout demo_waiting demo_ctx"]]
      demo_waiting_buffered by auto
  then obtain p where "d = [p]" "fst p = demo_frame 1" by (cases d) (auto simp: demo_waiting_buffered)
  then show ?thesis using d(1) by blast
qed

theorem move_window_releases_witness:
  "rx_ba_ok (fst (ba_move_window 0 demo_waiting demo_ctx))"
  using move_window_releases [OF _ _ surjective_pairing, of demo_waiting 0] demo_waiting_ok
  by (simp add: rx_ba_ok_def)

theorem input_ba_refines_spec_witness:
  "snd (snd (spec_receive (demo_frame 1) demo_info
     (unat (ba_winstart (demo_window 4095 8)), view (demo_window 4095 8)))) =
   drop (length (rx_freed demo_ctx))
     (rx_freed (snd (input_ba (demo_frame 1) demo_info (demo_window 4095 8) demo_ctx)))"
proof -
  have "offset (demo_window 4095 8) (demo_frame 1) < unat (ba_winsize (demo_window 4095 8))" by code_simp
  then show ?thesis
    using input_ba_refines_spec [OF demo_window_ok(1) _ surjective_pairing, of "demo_frame 1"]
    by (metis snd_conv)
qed

theorem far_ahead_frame_discarded_witness:
  "rx_freed (snd (input_ba (demo_frame 99) demo_info (demo_window 4095 8) demo_ctx)) = [demo_frame 99]"
proof -
  have "2 * unat (ba_winsize (demo_window 4095 8)) \<le> offset (demo_window 4095 8) (demo_frame 99)"
    and "offset (demo_window 4095 8) (demo_frame 99) \<le> 2048"
    and "1 < unat (ba_winsize (demo_window 4095 8))" and "ba_winmiss (demo_window 4095 8) < 8" by code_simp+
  then show ?thesis
    using far_ahead_frame_discarded [OF demo_window_ok(1) _ _ _ _ surjective_pairing, of "demo_frame 99" demo_info demo_ctx]
    by (simp add: demo_ctx_def)
qed

theorem half_space_frame_replaces_expected_witness:
  "rx_up (snd (input_ba (demo_frame 2047) demo_info (demo_window 4095 1) demo_ctx))
   = [(demo_frame 2047, flag_done demo_info)]"
proof -
  have "half_space (demo_window 4095 1) (demo_frame 2047)"
    and "offset (demo_window 4095 1) (demo_frame 4095) = 0" by code_simp+
  then show ?thesis
    using half_space_frame_replaces_expected [OF demo_window_ok(2) _ surjective_pairing, of "demo_frame 2047"
        "demo_frame 4095" demo_info demo_ctx]
    by (simp add: demo_ctx_def)
qed

end
