(* ===== verification/ReorderTimers.thy ===== *)
theory ReorderTimers
  imports ReorderProps
begin

text \<open>
  The timers of a receive agreement: while frames wait in the reordering buffer the gap timer
  runs, so no frame waits for ever, and the software flag of each timer agrees with the
  IOKit timer behind it.
\<close>

declare not_None_eq [simp del]

definition timer_exact :: "ctimer \<Rightarrow> bool" where
  "timer_exact t \<longleftrightarrow> (case t of None \<Rightarrow> True | Some c \<Rightarrow> isPending c \<longleftrightarrow> armed c \<noteq> None)"

lemma timer_exact_ops [simp]:
  "timer_exact None"
  "timer_exact (timeout_add_msec t ms)"
  "timer_exact (timeout_add_usec t ms)"
  "timer_exact (timeout_add_sec t ms)"
  "timer_exact (timeoutOccurred t)"
  "timer_exact (timeout_free t)"
  "timer_exact t \<Longrightarrow> timer_exact (timeout_del t)"
  "timer_exact t \<Longrightarrow> \<not> timeout_pending t \<Longrightarrow> timer_exact (timeout_set t)"
  by (auto simp: timer_exact_def timeout_defs split: option.splits)

definition gap_armed :: "rx_ba \<Rightarrow> bool" where
  "gap_armed ba \<longleftrightarrow> timeout_initialized (ba_gap_to ba) \<and>
     (ba_gapwait ba \<noteq> 0 \<longrightarrow> timeout_pending (ba_gap_to ba))"

definition timers_ok :: "rx_ba \<Rightarrow> bool" where
  "timers_ok ba \<longleftrightarrow> timer_exact (ba_to ba) \<and> timer_exact (ba_gap_to ba) \<and> gap_armed ba"

text \<open>Operations that leave both timers alone.\<close>

definition same_timers :: "rx_ba \<Rightarrow> rx_ba \<Rightarrow> bool" where
  "same_timers a b \<longleftrightarrow> ba_to a = ba_to b \<and> ba_gap_to a = ba_gap_to b"

lemma same_timers_step [simp]:
  "same_timers (next_winstart ba) b = same_timers ba b"
  "same_timers (next_head ba) b = same_timers ba b"
  "same_timers (take_head ba) b = same_timers ba b"
  "same_timers (set_winend ba) b = same_timers ba b"
  "same_timers (set_slot i v ba) b = same_timers ba b"
  "same_timers (ba\<lparr>ba_winstart := w\<rparr>) b = same_timers ba b"
  "same_timers (ba\<lparr>ba_gapwait := g\<rparr>) b = same_timers ba b"
  "same_timers (ba\<lparr>ba_winmiss := g\<rparr>) b = same_timers ba b"
  "same_timers (ba\<lparr>ba_missedsn := q\<rparr>) b = same_timers ba b"
  "same_timers ba ba"
  by (simp_all add: same_timers_def next_winstart_def next_head_def take_head_def set_winend_def set_slot_def)

lemma flush_loop_timers: "same_timers (fst (input_ba_flush_loop ba cx)) ba"
proof (induction ba cx rule: input_ba_flush_loop.induct)
  case (1 ba cx)
  then show ?case
    by (cases "head_slot ba")
      (auto simp: input_ba_flush_loop.simps [of ba cx] same_timers_def next_winstart_def next_head_def
        take_head_def set_slot_def)
qed

lemma seq_loop_timers: "same_timers (fst (input_ba_seq_loop n mx ba cx)) ba"
  by (induction n mx ba cx rule: input_ba_seq_loop.induct)
    (auto simp: same_timers_def next_winstart_def next_head_def take_head_def set_slot_def split: option.split)

lemma gap_skip_timers: "same_timers (fst (gap_skip_loop n ba k)) ba"
  by (induction n ba k rule: gap_skip_loop.induct)
    (auto simp: same_timers_def next_winstart_def next_head_def)

lemma move_loop_timers: "same_timers (fst (move_window_loop n ba cx)) ba"
  by (induction n ba cx rule: move_window_loop.induct)
    (auto simp: same_timers_def next_head_def take_head_def set_slot_def split: option.split)

lemma slot_at_updates [simp]:
  "slot_at (ba\<lparr>ba_gapwait := g\<rparr>) i = slot_at ba i"
  "slot_at (ba\<lparr>ba_gap_to := t\<rparr>) i = slot_at ba i"
  by (simp_all add: slot_at_def)

text \<open>A move of the window over some slots cannot create waiting frames.\<close>

lemma advanced_gapwait:
  assumes "rx_ba_core ba" and "advanced k (ba, cx) (ba', cx')" and "ba_gapwait ba = 0"
  shows "ba_gapwait ba' = 0"
proof -
  have "length (somes (view ba)) = 0" using rx_ba_coreD(5) [OF assms(1)] assms(3) by simp
  then have "length (somes (take k (view ba))) = 0"
    using somes_take_drop [of k "view ba"] by (metis append_is_Nil_conv length_0_conv)
  then show ?thesis using assms(2,3) by simp
qed

lemma timers_ok_move:
  assumes "timers_ok ba" and "same_timers ba' ba" and "ba_gapwait ba = 0 \<Longrightarrow> ba_gapwait ba' = 0"
  shows "timers_ok ba'"
  using assms by (auto simp: timers_ok_def same_timers_def gap_armed_def)

text \<open>A flush leaves the gap timer running exactly as needed, whatever it was before, unless the
  window begins with a gap and nothing happens.\<close>

lemma flush_timers:
  assumes "timer_exact (ba_to ba)" and "timer_exact (ba_gap_to ba)"
    and "timeout_initialized (ba_gap_to ba)" and "head_slot ba = None \<Longrightarrow> gap_armed ba"
  shows "timers_ok (fst (input_ba_flush ba cx))"
proof (cases "head_slot ba = None")
  case True
  then show ?thesis using assms by (simp add: input_ba_flush_def timers_ok_def)
next
  case False
  obtain b c where l: "input_ba_flush_loop ba cx = (b, c)" by (cases "input_ba_flush_loop ba cx")
  then have "ba_to b = ba_to ba" "ba_gap_to b = ba_gap_to ba"
    using flush_loop_timers [of ba cx] by (simp_all add: same_timers_def)
  then show ?thesis
    using False l assms(1-3)
    by (simp add: input_ba_flush_def Let_def timers_ok_def gap_armed_def set_winend_def)
qed

lemma seq_timers:
  assumes "timers_ok ba" and c: "rx_ba_core ba"
  shows "timers_ok (fst (input_ba_seq mx ba cx))"
proof -
  note D = rx_ba_coreD [OF c]
  obtain b c' where l: "input_ba_seq_loop (unat (ba_winsize ba)) mx ba cx = (b, c')"
    by (cases "input_ba_seq_loop (unat (ba_winsize ba)) mx ba cx")
  have a: "advanced (run (passes mx) (unat (ba_winsize ba)) (view ba)) (ba, cx) (b, c')"
    using seq_loop_advanced [OF D(1,2,4), of mx cx] l by simp
  have "same_timers b ba" using seq_loop_timers [of "unat (ba_winsize ba)" mx ba cx] l by simp
  then have "same_timers (set_winend b) ba" by simp
  moreover have "ba_gapwait ba = 0 \<Longrightarrow> ba_gapwait (set_winend b) = 0"
    using advanced_gapwait [OF assms(2) a] by (simp add: set_winend_def)
  ultimately show ?thesis using timers_ok_move [OF assms(1)] l by (simp add: input_ba_seq_def)
qed

lemma move_window_timers:
  assumes t: "timers_ok ba" and c: "rx_ba_core ba"
  shows "timers_ok (fst (ba_move_window ssn ba cx))"
proof -
  define n where "n = (let count = unat (sub12 ssn (ba_winstart ba))
    in if count > unat (ba_winsize ba) then unat (ba_winsize ba) else count)"
  obtain b c' where l: "move_window_loop n ba cx = (b, c')" by (cases "move_window_loop n ba cx")
  let ?b = "set_winend (b\<lparr>ba_winstart := ssn\<rparr>)"
  have a: "advanced n (ba, cx) (b, c')"
    using move_loop_advanced [OF rx_ba_coreD(1) [OF c], of n cx] l by simp
  have "same_timers b ba" using move_loop_timers [of n ba cx] l by simp
  then have "same_timers ?b ba" by simp
  moreover have "ba_gapwait ba = 0 \<Longrightarrow> ba_gapwait ?b = 0"
    using advanced_gapwait [OF c a] by (simp add: set_winend_def)
  ultimately have "timers_ok ?b" using timers_ok_move [OF t] by simp
  then have "timers_ok (fst (input_ba_flush ?b c'))"
    by (intro flush_timers) (simp_all add: timers_ok_def gap_armed_def)
  moreover have "fst (ba_move_window ssn ba cx) = fst (input_ba_flush ?b c')"
    using l by (simp add: ba_move_window_def n_def Let_def split: if_splits)
  ultimately show ?thesis by simp
qed

lemma store_timers:
  assumes t: "timers_ok ba"
  shows "timers_ok (fst (input_ba_store m rxi ba cx))"
proof -
  let ?b = "ba\<lparr>ba_winmiss := 0, ba_missedsn := 0\<rparr>"
  let ?i = "(unat (ba_head ba) + unat (sub12 (frame_seq m) (ba_winstart ba))) mod 64"
  have b: "timers_ok ?b" using t by (simp add: timers_ok_def gap_armed_def)
  show ?thesis
  proof (cases "slot_at ?b ?i = None")
    case False
    then show ?thesis using b by (simp add: input_ba_store_def Let_def)
  next
    case True
    define b2 where "b2 = set_slot ?i (Some (m, flag_done rxi)) ?b"
    define b3 where "b3 = arm_gap (b2\<lparr>ba_gapwait := ba_gapwait b2 + 1\<rparr>)"
    have s: "same_timers b2 ba" "ba_gapwait b2 = ba_gapwait ba" by (simp_all add: b2_def)
    have i: "timer_exact (ba_to b3)" "timer_exact (ba_gap_to b3)" "timeout_initialized (ba_gap_to b3)"
      using t s by (auto simp: b3_def arm_gap_def timers_ok_def gap_armed_def same_timers_def)
    have "head_slot b3 = None \<Longrightarrow> gap_armed b3"
      using t s
      by (auto simp: b3_def arm_gap_def timers_ok_def gap_armed_def same_timers_def)
    then have "timers_ok (fst (input_ba_flush b3 cx))" by (rule flush_timers [OF i])
    moreover have "input_ba_store m rxi ba cx = input_ba_flush b3 cx"
      using True by (simp add: input_ba_store_def Let_def b3_def b2_def flag_done_def)
    ultimately show ?thesis by simp
  qed
qed

lemma rearm_timers [simp]: "timers_ok ba \<Longrightarrow> timers_ok (ba_rearm ba)"
  by (simp add: ba_rearm_def timers_ok_def gap_armed_def)

lemma timers_ok_miss [simp]:
  "timers_ok (ba\<lparr>ba_winmiss := a, ba_missedsn := q\<rparr>) = timers_ok ba"
  by (simp add: timers_ok_def gap_armed_def)

lemma input_ba_timers:
  assumes t: "timers_ok ba" and ok: "rx_ba_ok ba"
  shows "timers_ok (fst (input_ba m rxi ba cx))"
proof -
  let ?b = "ba_rearm ba"
  have c: "rx_ba_core ?b" "rx_ba_core (?b\<lparr>ba_winmiss := 0, ba_missedsn := 0\<rparr>)" and tb: "timers_ok ?b"
    using ok t by (simp_all add: rx_ba_ok_def)
  have flush: "timers_ok b \<Longrightarrow> timers_ok (fst (input_ba_flush b c))" for b c
    by (rule flush_timers) (simp_all add: timers_ok_def gap_armed_def)
  show ?thesis
    using tb t move_window_timers [OF _ c(2)] seq_timers [OF tb c(1)] flush store_timers
    by (auto simp: input_ba_def Let_def case_prod_beta)
qed

lemma gap_timeout_timers:
  assumes ok: "rx_ba_ok ba" and t: "timers_ok ba"
  shows "timers_ok (fst (input_ba_gap_timeout (ba\<lparr>ba_gap_to := timeoutOccurred (ba_gap_to ba)\<rparr>) cx))"
proof -
  let ?ba = "ba\<lparr>ba_gap_to := timeoutOccurred (ba_gap_to ba)\<rparr>"
  define cx1 where "cx1 = bump (is_ht_rx_ba_window_gap_timeout_update (\<lambda>c. c + 1)) cx"
  have c0: "rx_ba_core ba" and c: "rx_ba_core ?ba" using ok by (simp_all add: rx_ba_ok_def)
  note D = rx_ba_coreD [OF c0]
  let ?n = "run gap (unat (ba_winsize ba)) (view ba)"
  obtain b where l: "gap_skip_loop (unat (ba_winsize ?ba)) ?ba 0 = (b, ?n)"
    and a: "advanced ?n (?ba, cx) (b, cx)"
    using gap_skip_loop_advanced [of ?ba "unat (ba_winsize ba)" cx 0] D(1,2,4)
    by (cases "gap_skip_loop (unat (ba_winsize ?ba)) ?ba 0") auto
  have n: "0 < ?n"
  proof -
    obtain j where "unat (ba_winsize ba) = Suc j" using D(3) by (cases "unat (ba_winsize ba)") auto
    then show ?thesis
      using run_Suc [of j "view ba" gap] D(4,6) ok head_slot_view [of ba] D(1) by (simp add: rx_ba_ok_def)
  qed
  have s: "same_timers b ?ba" using gap_skip_timers [of "unat (ba_winsize ?ba)" ?ba 0] l by simp
  define b2 where "b2 = set_winend b"
  have hs: "gap_armed b2" if h: "head_slot b2 = None"
  proof -
    have ring: "ring_ok b2" and v: "view b2 = shift_slots ?n (view ba)" using a by (simp_all add: b2_def)
    have "ba_gapwait b = 0"
    proof (cases "?n < unat (ba_winsize ba)")
      case True
      then have "\<not> gap (view ba ! ?n)" using run_stop [of gap "unat (ba_winsize ba)" "view ba"] D(4,6) by simp
      then show ?thesis
        using h head_slot_view [OF ring] v True D(4,6) by (simp add: shift_slots_nth)
    next
      case False
      then have nn: "?n = unat (ba_winsize ba)" using run_le [of gap "unat (ba_winsize ba)" "view ba"] by simp
      have "view ba ! i = None" if "i < 64" for i
      proof (cases "i < unat (ba_winsize ba)")
        case True
        then show ?thesis using run_prefix [of i gap "unat (ba_winsize ba)" "view ba"] nn by simp
      next
        case False
        then show ?thesis
          using slot_pos(1) [of ba i] that ok by (cases "view ba ! i") (auto simp: rx_ba_ok_def)
      qed
      then have "view ba = replicate 64 None" using D(6) by (intro nth_equalityI) auto
      then show ?thesis using D(5) advanced_gapwait [OF c a] by simp
    qed
    then show ?thesis
      using s t by (auto simp: gap_armed_def b2_def set_winend_def same_timers_def timers_ok_def)
  qed
  have "timers_ok (fst (input_ba_flush b2 c))" for c
    by (rule flush_timers [OF _ _ _ hs])
      (use s t in \<open>auto simp: b2_def same_timers_def timers_ok_def gap_armed_def set_winend_def\<close>)
  then show ?thesis
    using l n by (simp add: input_ba_gap_timeout_def input_ba_gap_skip_def b2_def)
qed

section \<open>The agreement itself is untouched\<close>

lemma flush_loop_state: "ba_state (fst (input_ba_flush_loop ba cx)) = ba_state ba"
proof (induction ba cx rule: input_ba_flush_loop.induct)
  case (1 ba cx)
  then show ?case
    by (cases "head_slot ba")
      (auto simp: input_ba_flush_loop.simps [of ba cx] next_winstart_def next_head_def take_head_def set_slot_def)
qed

lemma seq_loop_state: "ba_state (fst (input_ba_seq_loop n mx ba cx)) = ba_state ba"
  by (induction n mx ba cx rule: input_ba_seq_loop.induct)
    (auto simp: next_winstart_def next_head_def take_head_def set_slot_def split: option.split)

lemma gap_skip_state: "ba_state (fst (gap_skip_loop n ba k)) = ba_state ba"
  by (induction n ba k rule: gap_skip_loop.induct) (auto simp: next_winstart_def next_head_def)

lemma move_loop_state: "ba_state (fst (move_window_loop n ba cx)) = ba_state ba"
  by (induction n ba cx rule: move_window_loop.induct)
    (auto simp: next_head_def take_head_def set_slot_def split: option.split)

lemma flush_state [simp]: "ba_state (fst (input_ba_flush ba cx)) = ba_state ba"
  using flush_loop_state [of ba cx]
  by (auto simp: input_ba_flush_def Let_def case_prod_beta set_winend_def)

lemma seq_state [simp]: "ba_state (fst (input_ba_seq mx ba cx)) = ba_state ba"
  using seq_loop_state [of "unat (ba_winsize ba)" mx ba cx]
  by (simp add: input_ba_seq_def case_prod_beta set_winend_def)

lemma move_window_state [simp]: "ba_state (fst (ba_move_window ssn ba cx)) = ba_state ba"
  by (simp add: ba_move_window_def Let_def case_prod_beta set_winend_def move_loop_state)

lemma store_state [simp]: "ba_state (fst (input_ba_store m rxi ba cx)) = ba_state ba"
  by (simp add: input_ba_store_def Let_def arm_gap_def set_slot_def)

lemma rearm_state [simp]: "ba_state (ba_rearm ba) = ba_state ba"
  by (simp add: ba_rearm_def)

lemma input_ba_state [simp]: "ba_state (fst (input_ba m rxi ba cx)) = ba_state ba"
  by (simp add: input_ba_def Let_def case_prod_beta)

lemma gap_timeout_state [simp]: "ba_state (fst (input_ba_gap_timeout ba cx)) = ba_state ba"
  using gap_skip_state [of "unat (ba_winsize ba)" ba 0]
  by (simp add: input_ba_gap_timeout_def input_ba_gap_skip_def Let_def case_prod_beta set_winend_def)

declare not_None_eq [simp]

end
