(* ===== verification/BlockAckProps.thy ===== *)
theory BlockAckProps
  imports BlockAck ReorderTimers
begin

text \<open>
  Block Ack agreements as a state machine: the step relation \<open>ba_step\<close> of the handlers and timers
  of one node, its invariant by rule induction, and the functional properties of the handlers.
\<close>

declare not_None_eq [simp del]

section \<open>Invariant of one agreement\<close>

definition quiet :: "rx_ba \<Rightarrow> bool" where
  "quiet ba \<longleftrightarrow> \<not> timeout_pending (ba_to ba) \<and> \<not> timeout_pending (ba_gap_to ba)"

definition live :: "rx_ba \<Rightarrow> bool" where
  "live ba \<longleftrightarrow> rx_ba_ok ba \<and> timers_ok ba"

text \<open>An agreement in force has a correct window with its timers; one that waits for the driver
  has one as well, or no buffer and no gap timer when the allocation failed; one that does not
  exist has no running timer.\<close>

definition rx_agree_ok :: "rx_ba \<Rightarrow> bool" where
  "rx_agree_ok ba \<longleftrightarrow> timer_exact (ba_to ba) \<and> timer_exact (ba_gap_to ba) \<and>
     (case ba_state ba of
        BA_INIT \<Rightarrow> quiet ba
      | BA_REQUESTED \<Rightarrow> live ba \<or> ba_buf ba = None \<and> \<not> timeout_pending (ba_gap_to ba)
      | BA_AGREED \<Rightarrow> live ba)"

definition tx_agree_ok :: "tx_ba \<Rightarrow> bool" where
  "tx_agree_ok ba \<longleftrightarrow> timer_exact (tba_to ba) \<and>
     (tba_state ba = BA_INIT \<longrightarrow> \<not> timeout_pending (tba_to ba)) \<and>
     (tba_state ba \<noteq> BA_INIT \<longrightarrow> tba_winsize ba = 64 \<and> tba_timeout_val ba = 0 \<and>
        tba_winend ba = (tba_winstart ba + tba_winsize ba - 1) AND 0xfff)"

definition node_ok :: "ba_node \<Rightarrow> bool" where
  "node_ok ni \<longleftrightarrow> length (ni_rx_ba ni) = NUM_TID \<and> length (ni_tx_ba ni) = NUM_TID \<and>
     (\<forall>ba\<in>set (ni_rx_ba ni). rx_agree_ok ba) \<and> (\<forall>ba\<in>set (ni_tx_ba ni). tx_agree_ok ba)"

lemma node_ok_rx: "node_ok ni \<Longrightarrow> unat tid < NUM_TID \<Longrightarrow> rx_agree_ok (the_rx_ba ni tid)"
  by (simp add: node_ok_def the_rx_ba_def)

lemma node_ok_tx: "node_ok ni \<Longrightarrow> unat tid < NUM_TID \<Longrightarrow> tx_agree_ok (the_tx_ba ni tid)"
  by (simp add: node_ok_def the_tx_ba_def)

lemma node_ok_put_rx [simp]: "node_ok ni \<Longrightarrow> rx_agree_ok ba \<Longrightarrow> node_ok (put_rx_ba tid ba ni)"
  using set_update_subset_insert [of "ni_rx_ba ni" "unat tid" ba]
  by (auto simp: node_ok_def put_rx_ba_def)

lemma node_ok_put_tx [simp]: "node_ok ni \<Longrightarrow> tx_agree_ok ba \<Longrightarrow> node_ok (put_tx_ba tid ba ni)"
  using set_update_subset_insert [of "ni_tx_ba ni" "unat tid" ba]
  by (auto simp: node_ok_def put_tx_ba_def)

lemma node_ok_updates [simp]:
  "node_ok (ni\<lparr>ni_qos_txseqs := q\<rparr>) = node_ok ni"
  "node_ok (ni\<lparr>ni_addba_req_intval := v\<rparr>) = node_ok ni"
  "node_ok (ni\<lparr>ni_addba_req_to := t\<rparr>) = node_ok ni"
  "node_ok (ni\<lparr>ni_sa_query_trid := i\<rparr>) = node_ok ni"
  "node_ok (ni\<lparr>ni_sa_query_to := to, ni_flags := f\<rparr>) = node_ok ni"
  "node_ok (bump_intval tid ni) = node_ok ni"
  by (simp_all add: node_ok_def bump_intval_def Let_def)

lemma the_put_rx [simp]:
  "node_ok ni \<Longrightarrow> unat tid < NUM_TID \<Longrightarrow> the_rx_ba (put_rx_ba tid ba ni) tid = ba"
  by (simp add: node_ok_def the_rx_ba_def put_rx_ba_def)

lemma the_put_tx [simp]:
  "node_ok ni \<Longrightarrow> unat tid < NUM_TID \<Longrightarrow> the_tx_ba (put_tx_ba tid ba ni) tid = ba"
  by (simp add: node_ok_def the_tx_ba_def put_tx_ba_def)

lemma the_tx_bump [simp]: "the_tx_ba (bump_intval tid ni) tid' = the_tx_ba ni tid'"
  by (simp add: the_tx_ba_def bump_intval_def Let_def)

lemma the_put_other [simp]:
  "the_rx_ba (put_tx_ba tid' b ni) tid = the_rx_ba ni tid"
  "the_tx_ba (put_rx_ba tid' b' ni) tid = the_tx_ba ni tid"
  "tid \<noteq> tid' \<Longrightarrow> the_rx_ba (put_rx_ba tid' b' ni) tid = the_rx_ba ni tid"
  "tid \<noteq> tid' \<Longrightarrow> the_tx_ba (put_tx_ba tid' b ni) tid = the_tx_ba ni tid"
  by (simp_all add: the_rx_ba_def the_tx_ba_def put_rx_ba_def put_tx_ba_def word_unat_eq_iff)

section \<open>The agreement operations keep it\<close>

lemma rx_ba_ok_cong:
  assumes "ba_buf a = ba_buf b" "ba_head a = ba_head b" "ba_winstart a = ba_winstart b"
    "ba_winsize a = ba_winsize b" "ba_winend a = ba_winend b" "ba_gapwait a = ba_gapwait b"
  shows "rx_ba_ok a = rx_ba_ok b"
  using core_cong [of a b] assms by (simp add: rx_ba_ok_def winend_ok_def slot_at_def)

lemma rx_ba_ok_updates [simp]:
  "rx_ba_ok (ba\<lparr>ba_state := s\<rparr>) = rx_ba_ok ba"
  "rx_ba_ok (ba\<lparr>ba_to := t\<rparr>) = rx_ba_ok ba"
  "rx_ba_ok (ba\<lparr>ba_gap_to := t\<rparr>) = rx_ba_ok ba"
  by (rule rx_ba_ok_cong, simp_all)+

lemma timers_ok_updates [simp]:
  "timers_ok (ba\<lparr>ba_state := s\<rparr>) = timers_ok ba"
  by (simp add: timers_ok_def gap_armed_def)

lemma live_updates [simp]:
  "live (ba\<lparr>ba_state := s\<rparr>) = live ba"
  "live ba \<Longrightarrow> live (ba_rearm ba)"
  by (simp_all add: live_def)

lemma live_buf: "live ba \<Longrightarrow> ba_buf ba \<noteq> None"
  using buf_some [of ba] by (simp add: live_def rx_ba_ok_def rx_ba_coreD(1))

lemma agreed_live: "rx_agree_ok ba \<Longrightarrow> ba_state ba = BA_AGREED \<Longrightarrow> live ba"
  by (simp add: rx_agree_ok_def)

lemma buffer_live: "rx_agree_ok ba \<Longrightarrow> ba_state ba \<noteq> BA_INIT \<Longrightarrow> ba_buf ba \<noteq> None \<Longrightarrow> live ba"
  by (cases "ba_state ba") (auto simp: rx_agree_ok_def)

lemma live_agree_ok: "live ba \<Longrightarrow> ba_state ba \<noteq> BA_INIT \<Longrightarrow> rx_agree_ok ba"
  by (cases "ba_state ba") (auto simp: rx_agree_ok_def live_def timers_ok_def)

lemma accept_agree_ok:
  "rx_agree_ok ba \<Longrightarrow> ba_state ba = BA_REQUESTED \<Longrightarrow> ba_buf ba \<noteq> None \<Longrightarrow>
    rx_agree_ok (ba_rearm (ba\<lparr>ba_state := BA_AGREED\<rparr>))"
  by (rule live_agree_ok) (auto simp: buffer_live)

lemma rearm_agree_ok:
  "rx_agree_ok ba \<Longrightarrow> ba_state ba = BA_AGREED \<Longrightarrow> rx_agree_ok (ba_rearm ba)"
  by (rule live_agree_ok) (auto simp: agreed_live)

lemma refuse_agree_ok:
  "rx_agree_ok ba \<Longrightarrow> quiet ba \<Longrightarrow> rx_agree_ok (ba\<lparr>ba_buf := None, ba_state := BA_INIT\<rparr>)"
  by (simp add: rx_agree_ok_def quiet_def)

lemma release_agree_ok:
  assumes "rx_agree_ok ba"
  shows "rx_agree_ok (fst (rx_ba_release (ba\<lparr>ba_state := BA_INIT\<rparr>) cx))"
    and "rx_agree_ok (fst (rx_ba_release (ba\<lparr>ba_state := BA_INIT, ba_gapwait := 0\<rparr>) cx))"
  using assms by (auto simp: rx_ba_release_def rx_agree_ok_def quiet_def Let_def split: option.split)

lemma input_no_buf: "ba_buf ba = None \<Longrightarrow> fst (input_ba m rxi ba cx) = ba_rearm ba"
  by (simp add: input_ba_def Let_def ba_rearm_def)

lemma input_agree_ok:
  assumes "rx_agree_ok ba" and "ba_state ba \<noteq> BA_INIT"
  shows "rx_agree_ok (fst (input_ba m rxi ba cx))"
proof (cases "ba_buf ba = None")
  case True
  then have "ba_state ba = BA_REQUESTED" using assms live_buf by (cases "ba_state ba") (auto simp: rx_agree_ok_def)
  then show ?thesis
    using True assms(1) live_buf [of ba] by (simp add: input_no_buf rx_agree_ok_def) (auto simp: ba_rearm_def)
next
  case False
  then have "live ba" using buffer_live [OF assms] by simp
  then have "live (fst (input_ba m rxi ba cx))"
    using input_ba_window [of ba m rxi cx] input_ba_timers [of ba m rxi cx] by (simp add: live_def)
  then show ?thesis using live_agree_ok assms(2) by simp
qed

lemma gap_agree_ok:
  assumes "live ba" and "ba_state ba \<noteq> BA_INIT"
  shows "rx_agree_ok (fst (input_ba_gap_timeout (ba\<lparr>ba_gap_to := timeoutOccurred (ba_gap_to ba)\<rparr>) cx))"
proof (rule live_agree_ok)
  let ?ba = "ba\<lparr>ba_gap_to := timeoutOccurred (ba_gap_to ba)\<rparr>"
  have ok: "rx_ba_ok ba" "timers_ok ba" using assms(1) by (simp_all add: live_def)
  then have "rx_ba_ok ?ba" by simp
  then obtain b c where "input_ba_gap_timeout ?ba cx = (b, c)" "rx_ba_ok b"
    by (rule gap_timeout_spec [of ?ba cx])
  then show "live (fst (input_ba_gap_timeout ?ba cx))"
    using gap_timeout_timers [OF ok, of cx] by (simp add: live_def)
qed (use assms in simp)

lemma move_agree_ok:
  assumes "rx_agree_ok ba" and "ba_state ba = BA_AGREED" and "unat ssn < 4096"
  shows "rx_agree_ok (fst (ba_move_window ssn ba cx))"
proof (rule live_agree_ok)
  have ok: "rx_ba_core ba" "timers_ok ba" using agreed_live [OF assms(1,2)] by (simp_all add: live_def rx_ba_ok_def)
  obtain b c where "ba_move_window ssn ba cx = (b, c)" "rx_ba_ok b"
    by (rule move_window_spec [OF ok(1) assms(3), of cx])
  then show "live (fst (ba_move_window ssn ba cx))"
    using move_window_timers [OF ok(2,1), of ssn cx] by (simp add: live_def)
qed (use assms in simp)

section \<open>TIDs read from frames\<close>

lemma tid_mask_lt: "unat (ucast (drop_bit 2 ((p::u16) AND 0x3c)) :: u8) < NUM_TID"
proof -
  have "drop_bit 2 (p AND 0x3c) = drop_bit 2 p AND 0xf" by (simp add: drop_bit_and)
  then have "drop_bit 2 (p AND 0x3c) \<le> 0xf" by (simp add: word_and_le1)
  then have "unat (drop_bit 2 (p AND 0x3c)) < 16" by (simp add: word_le_nat_alt)
  then show ?thesis by (rule le_less_trans [OF unat_ucast_le])
qed

lemma tid_and_lt: "unat (ucast ((p::u16) AND 0xf) :: u8) < NUM_TID"
proof -
  have "p AND 0xf \<le> 0xf" by (simp add: word_and_le1)
  then have "unat (p AND 0xf) < 16" by (simp add: word_le_nat_alt)
  then show ?thesis by (rule le_less_trans [OF unat_ucast_le])
qed

lemma unat_drop_bit16: "unat (drop_bit n (p::u16)) < 2 ^ (16 - n)" if "n \<le> 16"
proof -
  have "unat p < 2 ^ (16 - n) * 2 ^ n"
    using unsigned_less [of p, where ?'a = nat] that by (simp flip: power_add)
  then show ?thesis by (simp add: unat_drop_bit less_mult_imp_div_less)
qed

lemma tid_top_lt: "unat (ucast (drop_bit 12 (p::u16)) :: u8) < NUM_TID"
  using unat_drop_bit16 [of 12 p] le_less_trans [OF unat_ucast_le] by simp

lemma ssn_lt: "unat (drop_bit 4 (p::u16)) < 4096"
  using unat_drop_bit16 [of 4 p] by simp

section \<open>The handlers keep the invariant of the node\<close>

lemma setup_live:
  assumes "unat ssn < 4096" and "quiet ba" and "timer_exact (ba_to ba)" and "timer_exact (ba_gap_to ba)"
  shows "live ((rx_ba_setup ic tid token params timeout ssn ba)
      \<lparr>ba_buf := Some (replicate IEEE80211_BA_MAX_WINSZ None), ba_head := 0\<rparr>)"
proof -
  have w: "1 \<le> unat w" "unat w \<le> 64" if "w \<noteq> 0" "\<not> 64 < w" for w :: u16
    using that by (auto simp: word_less_nat_alt unat_gt_0 Suc_le_eq)
  show ?thesis unfolding live_def
  proof
    show "rx_ba_ok ((rx_ba_setup ic tid token params timeout ssn ba)
      \<lparr>ba_buf := Some (replicate IEEE80211_BA_MAX_WINSZ None), ba_head := 0\<rparr>)"
      by (rule empty_window_ok) (use assms(1) w in \<open>simp_all add: rx_ba_setup_def winend_ok_def Let_def\<close>)
    show "timers_ok ((rx_ba_setup ic tid token params timeout ssn ba)
      \<lparr>ba_buf := Some (replicate IEEE80211_BA_MAX_WINSZ None), ba_head := 0\<rparr>)"
      using assms(2-4) by (simp add: rx_ba_setup_def timers_ok_def gap_armed_def Let_def quiet_def)
  qed
qed

lemma init_quiet:
  "rx_agree_ok ba \<Longrightarrow> ba_state ba = BA_INIT \<Longrightarrow> quiet ba \<and> timer_exact (ba_to ba) \<and> timer_exact (ba_gap_to ba)"
  by (simp add: rx_agree_ok_def)

lemma setup_state [simp]: "ba_state (rx_ba_setup ic tid token params timeout ssn ba) = BA_REQUESTED"
  by (simp add: rx_ba_setup_def Let_def)

lemma setup_fail_agree_ok:
  "rx_agree_ok ba \<Longrightarrow> ba_state ba = BA_INIT \<Longrightarrow>
    rx_agree_ok ((rx_ba_setup ic tid token params timeout ssn ba)\<lparr>ba_buf := None\<rparr>)"
  by (simp add: rx_agree_ok_def rx_ba_setup_def Let_def quiet_def)

lemma setup_quiet:
  "quiet ((rx_ba_setup ic tid token params timeout ssn ba)\<lparr>ba_buf := b, ba_head := h\<rparr>)"
  by (simp add: rx_ba_setup_def Let_def quiet_def)

text \<open>The driver's verdict on an agreement that waits for it.\<close>

lemma req_accept_ok:
  assumes "node_ok ni" and "unat tid < NUM_TID" and "ba_state (the_rx_ba ni tid) = BA_REQUESTED"
    and "ba_buf (the_rx_ba ni tid) \<noteq> None"
  shows "node_ok (fst (addba_req_accept tid (ni, ic)))"
  using assms accept_agree_ok [OF node_ok_rx] by (simp add: addba_req_accept_def Let_def)

lemma req_refuse_ok:
  assumes "node_ok ni" and "unat tid < NUM_TID" and "quiet (the_rx_ba ni tid)"
  shows "node_ok (fst (addba_req_refuse tid (ni, ic)))"
  using assms refuse_agree_ok [OF node_ok_rx] by (simp add: addba_req_refuse_def Let_def)

lemma rx_move_ok:
  assumes "node_ok ni" and "unat tid < NUM_TID" and "ba_state (the_rx_ba ni tid) = BA_AGREED"
    and "unat ssn < 4096"
  shows "node_ok (fst (rx_move_window tid ssn (ni, ic)))"
  using assms move_agree_ok [OF node_ok_rx] by (simp add: rx_move_window_def case_prod_beta)

lemma recv_addba_req_ok:
  assumes ok: "node_ok ni"
  shows "node_ok (fst (recv_addba_req H m (ni, ic)))"
proof -
  let ?frm = "drop 24 m"
  let ?params = "LE_READ_2 (drop 3 ?frm)"
  let ?tid = "ucast (drop_bit 2 (?params AND 0x3c)) :: u8"
  let ?ssn = "drop_bit 4 (LE_READ_2 (drop 7 ?frm))"
  let ?ba = "the_rx_ba ni ?tid"
  note t = tid_mask_lt [of ?params] and s = ssn_lt [of "LE_READ_2 (drop 7 ?frm)"]
  note a = node_ok_rx [OF ok t]
  let ?set = "rx_ba_setup ic ?tid (byte_at ?frm 2) ?params (LE_READ_2 (drop 5 ?frm)) ?ssn ?ba"
  let ?new = "?set\<lparr>ba_buf := Some (replicate IEEE80211_BA_MAX_WINSZ None), ba_head := 0\<rparr>"
  show ?thesis
  proof (cases "ba_state ?ba")
    case BA_INIT
    note q = init_quiet [OF a BA_INIT]
    have l: "rx_agree_ok ?new" using live_agree_ok [OF setup_live [OF s]] q by simp
    have n: "node_ok (put_rx_ba ?tid ?new ni)" using ok l by simp
    have acc: "node_ok (fst (addba_req_accept ?tid (put_rx_ba ?tid ?new ni, c)))" for c
      by (rule req_accept_ok [OF n t]) (use ok t in simp_all)
    have ref: "node_ok (fst (addba_req_refuse ?tid (put_rx_ba ?tid ?new ni, c)))" for c
      by (rule req_refuse_ok [OF n t]) (use ok t setup_quiet in simp_all)
    show ?thesis
      using ok BA_INIT acc ref n setup_fail_agree_ok [OF a BA_INIT]
      by (simp add: recv_addba_req_def Let_def)
  next
    case BA_REQUESTED
    then show ?thesis using ok by (simp add: recv_addba_req_def Let_def)
  next
    case BA_AGREED
    have n: "node_ok (put_rx_ba ?tid (ba_rearm ?ba) ni)" using ok rearm_agree_ok [OF a BA_AGREED] by simp
    have mv: "node_ok (fst (rx_move_window ?tid ?ssn (put_rx_ba ?tid (ba_rearm ?ba) ni, ic)))"
      by (rule rx_move_ok [OF n t _ s]) (use ok t BA_AGREED in simp)
    show ?thesis using ok BA_AGREED n mv by (simp add: recv_addba_req_def Let_def)
  qed
qed

lemma recv_addba_resp_ok:
  assumes ok: "node_ok ni"
  shows "node_ok (fst (recv_addba_resp H m (ni, ic)))"
proof -
  let ?tid = "ucast (drop_bit 2 (LE_READ_2 (drop 5 (drop 24 m))) AND 0xf) :: u8"
  note t = tid_and_lt [of "drop_bit 2 (LE_READ_2 (drop 5 (drop 24 m)))"]
  note a = node_ok_tx [OF ok t]
  show ?thesis
  proof (cases "tba_state (the_tx_ba ni ?tid) = BA_REQUESTED")
    case True
    then have "tx_agree_ok ((the_tx_ba ni ?tid)\<lparr>tba_to := timeout_del (tba_to (the_tx_ba ni ?tid))\<rparr>)"
      and "tx_agree_ok ((the_tx_ba ni ?tid)\<lparr>tba_to := timeout_del (tba_to (the_tx_ba ni ?tid)), tba_state := BA_INIT\<rparr>)"
      and "tx_agree_ok ((the_tx_ba ni ?tid)\<lparr>tba_to := timeout_del (tba_to (the_tx_ba ni ?tid)), tba_state := BA_AGREED\<rparr>)"
      and "tba_timeout_val (the_tx_ba ni ?tid) = 0"
      using a by (simp_all add: tx_agree_ok_def)
    then show ?thesis
      using ok t True
      by (simp add: recv_addba_resp_def Let_def addba_resp_refuse_def addba_resp_accept_def
          case_prod_beta)
  next
    case False
    then show ?thesis using ok by (simp add: recv_addba_resp_def Let_def)
  qed
qed

lemma recv_delba_ok:
  assumes ok: "node_ok ni"
  shows "node_ok (fst (recv_delba H m (ni, ic)))"
proof -
  let ?tid = "ucast (drop_bit 12 (LE_READ_2 (drop 2 (drop 24 m)))) :: u8"
  note t = tid_top_lt [of "LE_READ_2 (drop 2 (drop 24 m))"]
  show ?thesis
    using ok release_agree_ok(2) [OF node_ok_rx [OF ok t]] node_ok_tx [OF ok t]
    by (simp add: recv_delba_def Let_def case_prod_beta tx_agree_ok_def)
qed

lemma delba_request_ok:
  assumes ok: "node_ok ni" and t: "unat tid < NUM_TID"
  shows "node_ok (fst (delba_request H reason dir tid (ni, ic)))"
  using ok release_agree_ok(1) [OF node_ok_rx [OF ok t]] node_ok_tx [OF ok t]
  by (simp add: delba_request_def Let_def case_prod_beta tx_agree_ok_def)

lemma sa_query_ok:
  "node_ok ni \<Longrightarrow> node_ok (fst (recv_sa_query_req m (ni, ic)))"
  "node_ok ni \<Longrightarrow> node_ok (fst (recv_sa_query_resp m (ni, ic)))"
  by (simp_all add: recv_sa_query_req_def recv_sa_query_resp_def)

lemma recv_action_ok: "node_ok (fst s) \<Longrightarrow> node_ok (fst (recv_action H m s))"
  by (cases s)
    (simp add: recv_action_def Let_def recv_addba_req_ok recv_addba_resp_ok recv_delba_ok sa_query_ok)

lemma bar_tid_ok:
  assumes ok: "node_ok (fst s)" and t: "unat tid < NUM_TID" and q: "unat ssn < 4096"
  shows "node_ok (fst (bar_tid tid ssn s))"
proof -
  obtain ni ic where s: "s = (ni, ic)" by (cases s)
  show ?thesis
  proof (cases "ba_state (the_rx_ba ni tid) = BA_AGREED")
    case True
    have n: "node_ok (put_rx_ba tid (ba_rearm (the_rx_ba ni tid)) ni)"
      using ok rearm_agree_ok [OF node_ok_rx [OF _ t] True] by (simp add: s)
    have "node_ok (fst (rx_move_window tid ssn (put_rx_ba tid (ba_rearm (the_rx_ba ni tid)) ni, ic)))"
      by (rule rx_move_ok [OF n t _ q]) (use ok t True in \<open>simp add: s\<close>)
    with n ok show ?thesis by (simp add: bar_tid_def Let_def s)
  next
    case False
    then show ?thesis using ok by (simp add: bar_tid_def Let_def s)
  qed
qed

lemma mtbar_loop_ok: "node_ok (fst s) \<Longrightarrow> node_ok (fst (mtbar_loop n frm s))"
  by (induction n frm s rule: mtbar_loop.induct) (simp_all add: bar_tid_ok tid_top_lt ssn_lt)

lemma recv_bar_ok: "node_ok (fst s) \<Longrightarrow> node_ok (fst (recv_bar m s))"
  by (simp add: recv_bar_def Let_def mtbar_loop_ok bar_tid_ok tid_top_lt ssn_lt)

lemma rx_ba_data_ok:
  assumes "node_ok ni" and "unat tid < NUM_TID" and "ba_state (the_rx_ba ni tid) \<noteq> BA_INIT"
  shows "node_ok (fst (rx_ba_data m rxi tid (ni, ic)))"
  using assms input_agree_ok [OF node_ok_rx] by (simp add: rx_ba_data_def case_prod_beta)

lemma setup_tx_agree_ok:
  assumes "tx_agree_ok ba" and "tba_state ba = BA_INIT"
  shows "tx_agree_ok (tx_ba_setup ic ssn tid ba)"
    and "tx_agree_ok ((tx_ba_setup ic ssn tid ba)\<lparr>tba_to := timeout_add_sec (tba_to (tx_ba_setup ic ssn tid ba)) v\<rparr>)"
    and "tx_agree_ok ((tx_ba_setup ic ssn tid ba)\<lparr>tba_state := s\<rparr>)"
    and "tba_timeout_val (tx_ba_setup ic ssn tid ba) = 0"
  using assms by (simp_all add: tx_ba_setup_def tx_agree_ok_def Let_def)

lemma addba_request_ok:
  assumes ok: "node_ok ni" and t: "unat tid < NUM_TID"
  shows "node_ok (fst (fst (addba_request H ssn tid (ni, ic))))"
proof (cases "tba_state (the_tx_ba ni tid) = BA_INIT")
  case True
  note a = setup_tx_agree_ok [OF node_ok_tx [OF ok t] True]
  show ?thesis
    using ok t True a
    by (simp add: addba_request_def Let_def addba_resp_refuse_def addba_resp_accept_def split: option.split)
next
  case False
  then show ?thesis using ok by (simp add: addba_request_def Let_def)
qed

lemma stop_ampdu_tx_ok: "node_ok (fst s) \<Longrightarrow> node_ok (fst (stop_ampdu_tx H mgt s))"
proof -
  have "node_ok (fst (foldl (\<lambda>(ni, ic) tid. if tba_state (the_tx_ba ni tid) \<noteq> BA_AGREED then (ni, ic)
        else delba_request H (f ic) 1 tid (ni, ic)) s ts))"
    if "node_ok (fst s)" "\<forall>tid\<in>set ts. unat tid < NUM_TID" for ts f and s :: ba_sys
    using that
  proof (induction ts arbitrary: s)
    case (Cons t ts)
    obtain ni ic where s: "s = (ni, ic)" by (cases s)
    show ?case
      using Cons.prems Cons.IH [of s] Cons.IH [of "delba_request H (f ic) 1 t s"]
      by (simp add: s delba_request_ok)
  qed simp
  then show "node_ok (fst s) \<Longrightarrow> node_ok (fst (stop_ampdu_tx H mgt s))"
    unfolding stop_ampdu_tx_def by (auto simp: unat_of_nat)
qed

lemma del_if_pending_simps [simp]:
  "\<not> timeout_pending (del_if_pending t)"
  "timer_exact t \<Longrightarrow> timer_exact (del_if_pending t)"
  by (simp_all add: del_if_pending_def)

lemma del_rx_agree_ok:
  "rx_agree_ok ba \<Longrightarrow> rx_agree_ok (ba\<lparr>ba_to := del_if_pending (ba_to ba),
      ba_gap_to := del_if_pending (ba_gap_to ba), ba_state := BA_INIT\<rparr>)"
  by (simp add: rx_agree_ok_def quiet_def)

lemma del_tx_agree_ok:
  "tx_agree_ok ba \<Longrightarrow> tx_agree_ok (ba\<lparr>tba_to := del_if_pending (tba_to ba), tba_state := BA_INIT\<rparr>)"
  by (simp add: tx_agree_ok_def)

lemma ba_del_ok: "node_ok ni \<Longrightarrow> node_ok (ba_del ni)"
  by (auto simp: node_ok_def ba_del_def del_rx_agree_ok del_tx_agree_ok)

lemma ba_del_init:
  "ba \<in> set (ni_rx_ba (ba_del ni)) \<Longrightarrow> ba_state ba = BA_INIT"
  "tb \<in> set (ni_tx_ba (ba_del ni)) \<Longrightarrow> tba_state tb = BA_INIT"
  by (auto simp: ba_del_def split: if_splits)

lemma ba_free_ok:
  "node_ok ni \<Longrightarrow> \<forall>ba\<in>set (ni_rx_ba ni). ba_state ba = BA_INIT \<Longrightarrow>
    \<forall>ba\<in>set (ni_tx_ba ni). tba_state ba = BA_INIT \<Longrightarrow> node_ok (ba_free ni)"
  by (auto simp: node_ok_def ba_free_def rx_agree_ok_def tx_agree_ok_def quiet_def)

section \<open>The step relation\<close>

text \<open>The events of one node: frames from the peer, data frames of a TID with an agreement, the
  timers (which run their callback after IOKit fired them), requests from the upper layers and
  the driver, the driver's verdict on an agreement, and teardown.  A driver refuses a receive
  agreement only while no timer of it runs; \<open>refuse_while_buffering\<close> below shows what
  happens otherwise.  A transmit verdict comes when the response timer is not running, since the
  driver is called after the response or sets the agreement up itself.  \<open>env\<close> is everything else
  that changes the state of the node and of the device.\<close>

definition fires :: "ctimer \<Rightarrow> bool" where
  "fires t \<longleftrightarrow> (case t of None \<Rightarrow> False | Some c \<Rightarrow> armed c \<noteq> None)"

inductive ba_step :: "hooks \<Rightarrow> ba_sys \<Rightarrow> ba_sys \<Rightarrow> bool" for H where
  action: "ba_step H s (recv_action H m s)"
| bar: "ba_step H s (recv_bar m s)"
| data: "unat tid < NUM_TID \<Longrightarrow> ba_state (the_rx_ba ni tid) \<noteq> BA_INIT \<Longrightarrow>
    ba_step H (ni, ic) (rx_ba_data m rxi tid (ni, ic))"
| gap_timer: "unat tid < NUM_TID \<Longrightarrow> fires (ba_gap_to (the_rx_ba ni tid)) \<Longrightarrow>
    ba_step H (ni, ic) (rx_gap_timeout tid (put_rx_ba tid
      ((the_rx_ba ni tid)\<lparr>ba_gap_to := timeoutOccurred (ba_gap_to (the_rx_ba ni tid))\<rparr>) ni, ic))"
| rx_timer: "unat tid < NUM_TID \<Longrightarrow> fires (ba_to (the_rx_ba ni tid)) \<Longrightarrow>
    ba_step H (ni, ic) (rx_ba_timeout H tid (put_rx_ba tid
      ((the_rx_ba ni tid)\<lparr>ba_to := timeoutOccurred (ba_to (the_rx_ba ni tid))\<rparr>) ni, ic))"
| tx_timer: "unat tid < NUM_TID \<Longrightarrow> fires (tba_to (the_tx_ba ni tid)) \<Longrightarrow>
    ba_step H (ni, ic) (tx_ba_timeout H tid (put_tx_ba tid
      ((the_tx_ba ni tid)\<lparr>tba_to := timeoutOccurred (tba_to (the_tx_ba ni tid))\<rparr>) ni, ic))"
| request: "unat tid < NUM_TID \<Longrightarrow> ba_step H s (fst (addba_request H ssn tid s))"
| delete: "unat tid < NUM_TID \<Longrightarrow> ba_step H s (delba_request H reason dir tid s)"
| rx_accept: "unat tid < NUM_TID \<Longrightarrow> ba_state (the_rx_ba ni tid) = BA_REQUESTED \<Longrightarrow>
    ba_buf (the_rx_ba ni tid) \<noteq> None \<Longrightarrow> ba_step H (ni, ic) (addba_req_accept tid (ni, ic))"
| rx_refuse: "unat tid < NUM_TID \<Longrightarrow> ba_state (the_rx_ba ni tid) = BA_REQUESTED \<Longrightarrow>
    quiet (the_rx_ba ni tid) \<Longrightarrow> ba_step H (ni, ic) (addba_req_refuse tid (ni, ic))"
| tx_accept: "unat tid < NUM_TID \<Longrightarrow> tba_state (the_tx_ba ni tid) = BA_REQUESTED \<Longrightarrow>
    \<not> timeout_pending (tba_to (the_tx_ba ni tid)) \<Longrightarrow> ba_step H (ni, ic) (addba_resp_accept tid (ni, ic))"
| tx_refuse: "unat tid < NUM_TID \<Longrightarrow> tba_state (the_tx_ba ni tid) = BA_REQUESTED \<Longrightarrow>
    \<not> timeout_pending (tba_to (the_tx_ba ni tid)) \<Longrightarrow> ba_step H (ni, ic) (addba_resp_refuse tid (ni, ic))"
| stop: "ba_step H s (stop_ampdu_tx H mgt s)"
| del: "ba_step H (ni, ic) (ba_del ni, ic)"
| free: "ba_step H (ni, ic) (ba_free (ba_del ni), ic)"
| env: "ni_rx_ba ni' = ni_rx_ba ni \<Longrightarrow> ni_tx_ba ni' = ni_tx_ba ni \<Longrightarrow> ba_step H (ni, ic) (ni', ic')"

inductive_cases ba_stepE: "ba_step H s s'"

definition node_init :: "ba_node \<Rightarrow> bool" where
  "node_init ni \<longleftrightarrow> length (ni_rx_ba ni) = NUM_TID \<and> length (ni_tx_ba ni) = NUM_TID \<and>
     (\<forall>ba\<in>set (ni_rx_ba ni). ba_state ba = BA_INIT \<and> ba_to ba = None \<and> ba_gap_to ba = None) \<and>
     (\<forall>ba\<in>set (ni_tx_ba ni). tba_state ba = BA_INIT \<and> tba_to ba = None)"

inductive ba_reachable :: "hooks \<Rightarrow> ba_sys \<Rightarrow> bool" for H where
  init: "node_init ni \<Longrightarrow> ba_reachable H (ni, ic)"
| step: "ba_reachable H s \<Longrightarrow> ba_step H s s' \<Longrightarrow> ba_reachable H s'"

lemma fires_pending: "timer_exact t \<Longrightarrow> fires t = timeout_pending t"
  by (auto simp: timer_exact_def fires_def timeout_pending_def split: option.split)

lemma fired_rx_agree_ok:
  "rx_agree_ok ba \<Longrightarrow> rx_agree_ok (ba\<lparr>ba_to := timeoutOccurred (ba_to ba)\<rparr>)"
  by (cases "ba_state ba") (auto simp: rx_agree_ok_def quiet_def live_def timers_ok_def gap_armed_def)

lemma gap_fires_live:
  assumes "rx_agree_ok ba" and "fires (ba_gap_to ba)"
  shows "live ba \<and> ba_state ba \<noteq> BA_INIT"
proof -
  have "timeout_pending (ba_gap_to ba)" using assms by (simp add: rx_agree_ok_def fires_pending)
  then show ?thesis using assms(1) by (cases "ba_state ba") (auto simp: rx_agree_ok_def quiet_def)
qed

lemma ba_step_ok: "ba_step H s s' \<Longrightarrow> node_ok (fst s) \<Longrightarrow> node_ok (fst s')"
proof (induction rule: ba_step.induct)
  case (gap_timer tid ni ic)
  then have ok: "node_ok ni" by simp
  note g = gap_fires_live [OF node_ok_rx [OF ok gap_timer.hyps(1)] gap_timer.hyps(2)]
  have l: "length (ni_rx_ba ni) = NUM_TID" using ok by (simp add: node_ok_def)
  have eq: "put_rx_ba tid b (put_rx_ba tid a ni) = put_rx_ba tid b ni"
    "the_rx_ba (put_rx_ba tid a ni) tid = a" for a b
    using l gap_timer.hyps(1) by (simp_all add: put_rx_ba_def the_rx_ba_def)
  show ?case
    using ok gap_agree_ok g by (simp add: rx_gap_timeout_def case_prod_beta eq)
next
  case (rx_timer tid ni ic)
  then have "node_ok (put_rx_ba tid ((the_rx_ba ni tid)\<lparr>ba_to := timeoutOccurred (ba_to (the_rx_ba ni tid))\<rparr>) ni)"
    by (simp add: fired_rx_agree_ok node_ok_rx)
  then show ?case using rx_timer.hyps by (simp add: rx_ba_timeout_def delba_request_ok)
next
  case (tx_timer tid ni ic)
  then have a: "tx_agree_ok (the_tx_ba ni tid)" by (simp add: node_ok_tx)
  then have "node_ok (put_tx_ba tid ((the_tx_ba ni tid)\<lparr>tba_to := timeoutOccurred (tba_to (the_tx_ba ni tid))\<rparr>) ni)"
    using tx_timer by (simp add: tx_agree_ok_def)
  moreover have "tx_agree_ok ((the_tx_ba ni tid)\<lparr>tba_to := timeoutOccurred (tba_to (the_tx_ba ni tid)),
      tba_state := BA_INIT\<rparr>)"
    using a by (simp add: tx_agree_ok_def)
  ultimately show ?case
    using tx_timer by (simp add: tx_ba_timeout_def Let_def delba_request_ok split: ba_state.split)
next
  case (tx_accept tid ni ic)
  then show ?case
    using node_ok_tx [of ni tid] by (simp add: addba_resp_accept_def Let_def tx_agree_ok_def)
next
  case (tx_refuse tid ni ic)
  then show ?case
    using node_ok_tx [of ni tid] by (simp add: addba_resp_refuse_def Let_def tx_agree_ok_def)
next
  case (request tid s ssn)
  then show ?case by (cases s) (simp add: addba_request_ok)
next
  case (delete tid s reason dir)
  then show ?case by (cases s) (simp add: delba_request_ok)
next
  case (free ni ic)
  then show ?case by (simp add: ba_free_ok ba_del_ok ba_del_init)
next
  case (env ni' ni ic ic')
  then show ?case by (simp add: node_ok_def)
qed (simp_all add: recv_action_ok recv_bar_ok rx_ba_data_ok req_accept_ok req_refuse_ok stop_ampdu_tx_ok ba_del_ok)

lemma ba_reachable_ok: "ba_reachable H s \<Longrightarrow> node_ok (fst s)"
proof (induction rule: ba_reachable.induct)
  case (init ni ic)
  then show ?case by (auto simp: node_init_def node_ok_def rx_agree_ok_def tx_agree_ok_def quiet_def)
qed (rule ba_step_ok)

section \<open>Properties of reachable states\<close>

text \<open>C15. In every reachable state an agreement in force has a correct window, and while frames
  wait in its buffer the gap timer is pending and IOKit will fire it: no frame waits for ever.\<close>

theorem waiting_frames_have_timer:
  assumes "ba_reachable H s" and "unat tid < NUM_TID"
    and "ba_state (the_rx_ba (fst s) tid) = BA_AGREED"
  shows "rx_ba_ok (the_rx_ba (fst s) tid) \<and>
    (buffered (the_rx_ba (fst s) tid) \<noteq> [] \<longrightarrow>
       timeout_pending (ba_gap_to (the_rx_ba (fst s) tid)) \<and> fires (ba_gap_to (the_rx_ba (fst s) tid)))"
proof -
  let ?ba = "the_rx_ba (fst s) tid"
  have l: "live ?ba"
    by (rule agreed_live [OF node_ok_rx [OF ba_reachable_ok [OF assms(1)] assms(2)] assms(3)])
  then have c: "rx_ba_core ?ba" by (simp add: live_def rx_ba_ok_def)
  have "buffered ?ba \<noteq> [] \<Longrightarrow> ba_gapwait ?ba \<noteq> 0"
    using rx_ba_coreD(5) [OF c] by (simp add: buffered_def)
  then show ?thesis using l by (auto simp: live_def timers_ok_def gap_armed_def fires_pending)
qed

text \<open>Whenever the gap timer of an agreement can fire, its reordering buffer is allocated, so
  the callback never reads through a NULL \<^verbatim>\<open>ba_buf\<close>.\<close>

theorem gap_timer_finds_buffer:
  assumes "ba_reachable H s" and "unat tid < NUM_TID" and "fires (ba_gap_to (the_rx_ba (fst s) tid))"
  shows "ba_state (the_rx_ba (fst s) tid) \<noteq> BA_INIT \<and>
    (\<exists>b. ba_buf (the_rx_ba (fst s) tid) = Some b \<and> length b = IEEE80211_BA_MAX_WINSZ)"
proof -
  let ?ba = "the_rx_ba (fst s) tid"
  have l: "live ?ba \<and> ba_state ?ba \<noteq> BA_INIT"
    by (rule gap_fires_live [OF node_ok_rx [OF ba_reachable_ok [OF assms(1)] assms(2)] assms(3)])
  then have r: "ring_ok ?ba" by (simp add: live_def rx_ba_ok_def rx_ba_coreD(1))
  then obtain b where "ba_buf ?ba = Some b" using buf_some [OF r] by (cases "ba_buf ?ba") auto
  with l r show ?thesis by (simp add: ring_ok_def slots_def)
qed

text \<open>A driver that refuses an agreement after frames were already buffered for it (data
  frames of a TID are reordered as soon as its agreement is requested) leaves the gap timer
  running over a freed buffer.\<close>

theorem refuse_while_buffering:
  assumes "node_ok ni" and "unat tid < NUM_TID" and "ba_state (the_rx_ba ni tid) = BA_REQUESTED"
    and "buffered (the_rx_ba ni tid) \<noteq> []"
  shows "ba_buf (the_rx_ba (fst (addba_req_refuse tid (ni, ic))) tid) = None \<and>
    fires (ba_gap_to (the_rx_ba (fst (addba_req_refuse tid (ni, ic))) tid)) \<and>
    rx_freed (ic_cx (snd (addba_req_refuse tid (ni, ic)))) = rx_freed (ic_cx ic)"
proof -
  let ?ba = "the_rx_ba ni tid"
  have a: "rx_agree_ok ?ba" by (rule node_ok_rx [OF assms(1,2)])
  have "ba_buf ?ba \<noteq> None"
    using assms(4) by (cases "ba_buf ?ba") (simp_all add: buffered_def view_def slots_def)
  then have l: "live ?ba" using buffer_live [OF a] assms(3) by simp
  then have "rx_ba_core ?ba" by (simp add: live_def rx_ba_ok_def)
  then have "ba_gapwait ?ba \<noteq> 0"
    using rx_ba_coreD(5) [of ?ba] assms(4) by (simp add: buffered_def)
  then have "fires (ba_gap_to ?ba)" using l by (simp add: live_def timers_ok_def gap_armed_def fires_pending)
  moreover have len: "unat tid < length (ni_rx_ba ni)" using assms(1,2) by (simp add: node_ok_def)
  ultimately show ?thesis
    by (simp add: addba_req_refuse_def Let_def the_rx_ba_def put_rx_ba_def send_ba_def emit_def)
qed

text \<open>The TID an ADDBA request names.\<close>

definition addba_tid :: "mbuf \<Rightarrow> u8" where
  "addba_tid m = ucast (drop_bit 2 (LE_READ_2 (drop 3 (drop 24 m)) AND 0x3c))"

text \<open>The checks a request passes before the agreement is set up.\<close>

definition rx_ready :: "mbuf \<Rightarrow> ba_sys \<Rightarrow> bool" where
  "rx_ready m = (\<lambda>(ni, ic).
     ic_state ic = S_RUN \<and> (has_flag (ic_flags ic) F_RSNON \<longrightarrow> ni_port_valid ni) \<and>
     has_flag (ni_flags ni) NODE_HT \<and> 24 + 9 \<le> length m \<and>
     ba_state (the_rx_ba ni (addba_tid m)) = BA_INIT \<and>
     \<not> (has_flag (ic_flags ic) F_BGSCAN \<and> \<not> has_flag (ic_flags ic) F_DISABLE_BG_AUTO_CONNECT
        \<and> has_flag (ic_xflags ic) F_TX_MGMT_ONLY) \<and>
     (has_flag (ic_flags ic) F_PBAR \<longrightarrow> node_pbac ni) \<and>
     \<not> has_flag (ic_tid_noack ic) (push_bit (unat (addba_tid m)) 1) \<and>
     (has_flag (ic_htcaps ic) HTCAP_DELAYEDBA \<or>
      has_flag (LE_READ_2 (drop 3 (drop 24 m))) ADDBA_BA_POLICY))"

lemma recv_addba_req_ready:
  assumes "rx_ready m (ni, ic)"
  defines "tid \<equiv> addba_tid m"
  defines "ba \<equiv> rx_ba_setup ic tid (byte_at (drop 24 m) 2) (LE_READ_2 (drop 3 (drop 24 m)))
      (LE_READ_2 (drop 5 (drop 24 m))) (drop_bit 4 (LE_READ_2 (drop 7 (drop 24 m)))) (the_rx_ba ni tid)"
  defines "new \<equiv> put_rx_ba tid (ba\<lparr>ba_buf := Some (replicate IEEE80211_BA_MAX_WINSZ None), ba_head := 0\<rparr>) ni"
  shows "recv_addba_req H m (ni, ic) =
    (if \<not> malloc_ok H (ni, ic)
     then (put_rx_ba tid (ba\<lparr>ba_buf := None\<rparr>) ni,
           send_ba ACTION_ADDBA_RESP (action_arg STATUS_REFUSED (byte_at (drop 24 m) 2) tid) ic)
     else case ampdu_rx_start H of
            None \<Rightarrow> addba_req_accept tid (new, ic)
          | Some f \<Rightarrow>
              let ic' = emit (AmpduRxStart tid) ic
              in if f (new, ic) tid = EBUSY then (new, ic')
                 else if f (new, ic) tid \<noteq> 0 then addba_req_refuse tid (new, ic')
                 else addba_req_accept tid (new, ic'))"
proof -
  have g: "(ic_state ic \<noteq> S_RUN \<or> has_flag (ic_flags ic) F_RSNON \<and> \<not> ni_port_valid ni) = False"
    "(\<not> has_flag (ni_flags ni) NODE_HT) = False" "(length m < 24 + 9) = False"
    "(ba_state (the_rx_ba ni (addba_tid m)) = BA_REQUESTED) = False"
    "(ba_state (the_rx_ba ni (addba_tid m)) = BA_AGREED) = False"
    "(has_flag (ic_flags ic) F_BGSCAN \<and> \<not> has_flag (ic_flags ic) F_DISABLE_BG_AUTO_CONNECT
        \<and> has_flag (ic_xflags ic) F_TX_MGMT_ONLY) = False"
    "(has_flag (ic_flags ic) F_PBAR \<and> \<not> node_pbac ni) = False"
    "has_flag (ic_tid_noack ic) (push_bit (unat (addba_tid m)) 1) = False"
    "(\<not> has_flag (ic_htcaps ic) HTCAP_DELAYEDBA \<and>
        \<not> has_flag (LE_READ_2 (drop 3 (drop 24 m))) ADDBA_BA_POLICY) = False"
    using assms(1) unfolding rx_ready_def prod.case by (simp_all del: drop_drop)
  show ?thesis
    unfolding tid_def ba_def new_def recv_addba_req_def Let_def prod.case addba_tid_def [symmetric] g if_False
    by (cases "ampdu_rx_start H") simp_all
qed

text \<open>When the reordering buffer cannot be allocated, the request is refused but the
  agreement stays in the requested state, and every later ADDBA request for the TID is ignored.\<close>

theorem failed_allocation_blocks_tid:
  assumes "node_ok ni" and "rx_ready m (ni, ic)" and "\<not> malloc_ok H (ni, ic)"
    and "recv_addba_req H m (ni, ic) = (ni', ic')" and "addba_tid m' = addba_tid m"
  shows "ba_state (the_rx_ba ni' (addba_tid m)) = BA_REQUESTED \<and>
    ba_buf (the_rx_ba ni' (addba_tid m)) = None \<and>
    ic_out ic' = ic_out ic @ [SendAction CATEG_BA ACTION_ADDBA_RESP
      (action_arg STATUS_REFUSED (byte_at (drop 24 m) 2) (addba_tid m))] \<and>
    (\<forall>H' ic''. recv_addba_req H' m' (ni', ic'') = (ni', ic''))"
proof -
  have t: "unat (addba_tid m) < NUM_TID" unfolding addba_tid_def by (rule tid_mask_lt)
  have e: "ucast (drop_bit 2 (LE_READ_2 (drop 3 (drop 24 m')) AND 0x3c)) = addba_tid m"
    using assms(5) by (simp add: addba_tid_def)
  have r: "ba_state (the_rx_ba ni' (addba_tid m)) = BA_REQUESTED"
      "ba_buf (the_rx_ba ni' (addba_tid m)) = None" "ic' = send_ba ACTION_ADDBA_RESP
      (action_arg STATUS_REFUSED (byte_at (drop 24 m) 2) (addba_tid m)) ic"
    using assms(1,3,4) recv_addba_req_ready [OF assms(2), of H] t by auto
  have "recv_addba_req H' m' (ni', ic'') = (ni', ic'')" for H' ic''
    using r(1) unfolding recv_addba_req_def Let_def by (simp only: e) simp
  with r show ?thesis by (simp add: send_ba_def emit_def)
qed

text \<open>A DELBA from the originator of an agreement ends it: the frames still buffered are
  freed in window order up to rotation (as a multiset, exactly the buffered ones), nothing is
  handed up, both timers stop, and every other agreement is untouched.\<close>

theorem delba_releases_agreement:
  assumes "node_ok ni" and "24 + 6 \<le> length m"
    and "has_flag (LE_READ_2 (drop 2 (drop 24 m))) DELBA_INITIATOR"
    and "tid = ucast (drop_bit 12 (LE_READ_2 (drop 2 (drop 24 m))))"
    and "ba_state (the_rx_ba ni tid) = BA_AGREED"
    and "recv_delba H m (ni, ic) = (ni', ic')"
  shows "ba_state (the_rx_ba ni' tid) = BA_INIT \<and> ba_buf (the_rx_ba ni' tid) = None \<and>
    \<not> fires (ba_to (the_rx_ba ni' tid)) \<and> \<not> fires (ba_gap_to (the_rx_ba ni' tid)) \<and>
    rx_up (ic_cx ic') = rx_up (ic_cx ic) \<and>
    mset (rx_freed (ic_cx ic')) = mset (rx_freed (ic_cx ic)) + mset (buffered (the_rx_ba ni tid)) \<and>
    (\<forall>t. t \<noteq> tid \<longrightarrow> the_rx_ba ni' t = the_rx_ba ni t) \<and> ni_tx_ba ni' = ni_tx_ba ni"
proof -
  let ?ba = "the_rx_ba ni tid"
  have t: "unat tid < NUM_TID" unfolding assms(4) by (rule tid_top_lt)
  have a: "rx_agree_ok ?ba" by (rule node_ok_rx [OF assms(1) t])
  then have "live ?ba" using agreed_live assms(5) by simp
  then obtain b where b: "ba_buf ?ba = Some b" using live_buf by (cases "ba_buf ?ba") auto
  have ms: "mset (buffered ?ba) = mset (map fst (somes b))"
  proof -
    have "somes (view ?ba) = somes (drop (n mod length b) b) @ somes (take (n mod length b) b)"
      if "n = unat (ba_head ?ba)" for n
      using that b by (simp add: view_def slots_def rotate_drop_take somes_append)
    moreover have "mset (somes (drop k b)) + mset (somes (take k b)) = mset (somes b)" for k
      by (metis mset_append somes_take_drop union_commute)
    ultimately have "mset (somes (view ?ba)) = mset (somes b)" by simp
    then show ?thesis by (simp add: buffered_def)
  qed
  let ?rel = "rx_ba_release (?ba\<lparr>ba_state := BA_INIT, ba_gapwait := 0\<rparr>)
      (ic_cx (notify_stop (ampdu_rx_stop H) (AmpduRxStop tid) ic))"
  have "ni' = put_rx_ba tid (fst ?rel) ni"
      "ic' = (notify_stop (ampdu_rx_stop H) (AmpduRxStop tid) ic)\<lparr>ic_cx := snd ?rel\<rparr>"
    using assms(2-6) by (auto simp: recv_delba_def Let_def case_prod_beta)
  then show ?thesis
    using assms(1) t b a ms
    by (auto simp: rx_ba_release_def Let_def notify_stop_def emit_def fires_pending rx_agree_ok_def
        put_rx_ba_def the_rx_ba_def node_ok_def word_unat_eq_iff)
qed

lemma bar_tid_protected:
  "node_pbac (fst s) \<Longrightarrow> fst (bar_tid tid ssn s) = fst s \<and>
    rx_up (ic_cx (snd (bar_tid tid ssn s))) = rx_up (ic_cx (snd s)) \<and>
    rx_freed (ic_cx (snd (bar_tid tid ssn s))) = rx_freed (ic_cx (snd s))"
  by (cases s) (simp add: bar_tid_def Let_def send_ba_def emit_def ba_stat_def bump_def)

lemma mtbar_protected:
  "node_pbac (fst s) \<Longrightarrow> fst (mtbar_loop n frm s) = fst s \<and>
    rx_up (ic_cx (snd (mtbar_loop n frm s))) = rx_up (ic_cx (snd s)) \<and>
    rx_freed (ic_cx (snd (mtbar_loop n frm s))) = rx_freed (ic_cx (snd s))"
  by (induction n frm s rule: mtbar_loop.induct) (simp_all add: bar_tid_protected)

text \<open>On a protected Block Ack agreement a BlockAckReq never touches the node: no window moves
  and nothing is handed up or freed, whatever the frame says.\<close>

theorem protected_bar_ignored:
  assumes "node_pbac (fst s)"
  shows "fst (recv_bar m s) = fst s \<and>
    rx_up (ic_cx (snd (recv_bar m s))) = rx_up (ic_cx (snd s)) \<and>
    rx_freed (ic_cx (snd (recv_bar m s))) = rx_freed (ic_cx (snd s))"
  using assms mtbar_protected bar_tid_protected by (simp add: recv_bar_def Let_def)

section \<open>Witnesses\<close>

definition demo_node :: ba_node where
  "demo_node = \<lparr>
     ni_rx_ba = replicate 16 \<lparr>ba_buf = None, ba_to = None, ba_timeout_val = 0, ba_state = BA_INIT,
       ba_params = 0, ba_winstart = 0, ba_winend = 0, ba_winsize = 0, ba_head = 0, ba_gap_to = None,
       ba_gapwait = 0, ba_winmiss = 0, ba_missedsn = 0, ba_token = 0\<rparr>,
     ni_tx_ba = replicate 16 \<lparr>tba_to = None, tba_timeout_val = 0, tba_state = BA_INIT, tba_params = 0,
       tba_winstart = 0, tba_winend = 0, tba_winsize = 0, tba_token = 0, tba_bitmap = 0\<rparr>,
     ni_flags = NODE_HT, ni_rsncaps = 0, ni_port_valid = True, ni_qos_txseqs = replicate 16 0,
     ni_addba_req_to = replicate 16 None, ni_addba_req_intval = replicate 16 1,
     ni_sa_query_trid = 0, ni_sa_query_to = None\<rparr>"

definition demo_com :: ba_com where
  "demo_com = \<lparr>ic_state = S_RUN, ic_opmode = M_STA, ic_flags = 0, ic_xflags = 0, ic_caps = 0, ic_htcaps = 0,
     ic_tid_noack = 0, ic_dialog_token = 7, ic_cx = demo_ctx, ic_out = []\<rparr>"

definition demo_hooks :: "bool \<Rightarrow> (ba_sys \<Rightarrow> u8 \<Rightarrow> int) option \<Rightarrow> hooks" where
  "demo_hooks mem start = \<lparr>ampdu_rx_start = start, ampdu_tx_start = None, ampdu_rx_stop = True,
     ampdu_tx_stop = True, malloc_ok = (\<lambda>s. mem)\<rparr>"

text \<open>An ADDBA request for TID 0, a window of eight frames, starting at 4095; an out-of-order
  data frame; a DELBA from the originator.\<close>

definition demo_addba :: mbuf where
  "demo_addba = replicate 24 0 @ [3, 0, 9] @ LE_WRITE_2 0x202 @ LE_WRITE_2 0 @ LE_WRITE_2 0xfff0"

definition demo_delba :: mbuf where
  "demo_delba = replicate 24 0 @ [3, 2] @ LE_WRITE_2 0x800 @ LE_WRITE_2 39"

definition demo_agreed :: "(ba_sys \<Rightarrow> u8 \<Rightarrow> int) option \<Rightarrow> ba_sys" where
  "demo_agreed start = rx_ba_data (demo_frame 1) demo_info 0
     (recv_action (demo_hooks True start) demo_addba (demo_node, demo_com))"

lemma demo_agreed_reachable:
  assumes "ba_state (the_rx_ba (fst (recv_action (demo_hooks True start) demo_addba (demo_node, demo_com))) 0) \<noteq> BA_INIT"
  shows "ba_reachable (demo_hooks True start) (demo_agreed start)"
proof -
  let ?s = "recv_action (demo_hooks True start) demo_addba (demo_node, demo_com)"
  have "ba_reachable (demo_hooks True start) (demo_node, demo_com)"
    by (rule ba_reachable.init) (simp add: node_init_def demo_node_def)
  then have "ba_reachable (demo_hooks True start) ?s"
    by (rule ba_reachable.step) (rule ba_step.action)
  moreover have "ba_step (demo_hooks True start) (fst ?s, snd ?s) (demo_agreed start)"
    unfolding demo_agreed_def using ba_step.data [of 0 "fst ?s" "demo_hooks True start" "snd ?s"] assms by simp
  ultimately show ?thesis by (metis ba_reachable.step surjective_pairing)
qed

lemma demo_states:
  "ba_state (the_rx_ba (fst (recv_action (demo_hooks True None) demo_addba (demo_node, demo_com))) 0) = BA_AGREED"
  "ba_state (the_rx_ba (fst (demo_agreed None)) 0) = BA_AGREED"
  "buffered (the_rx_ba (fst (demo_agreed None)) 0) = [demo_frame 1]"
  "timeout_pending (ba_gap_to (the_rx_ba (fst (demo_agreed None)) 0))"
  "ba_state (the_rx_ba (fst (recv_action (demo_hooks True (Some (\<lambda>_ _. EBUSY))) demo_addba (demo_node, demo_com))) 0) = BA_REQUESTED"
  "ba_state (the_rx_ba (fst (demo_agreed (Some (\<lambda>_ _. EBUSY)))) 0) = BA_REQUESTED"
  "buffered (the_rx_ba (fst (demo_agreed (Some (\<lambda>_ _. EBUSY)))) 0) = [demo_frame 1]"
  by code_simp+

lemma demo_reachable:
  "ba_reachable (demo_hooks True None) (demo_agreed None)"
  "node_ok (fst (demo_agreed None))"
  "node_ok (fst (demo_agreed (Some (\<lambda>_ _. EBUSY))))"
proof -
  show r: "ba_reachable (demo_hooks True None) (demo_agreed None)"
    by (rule demo_agreed_reachable) (simp add: demo_states)
  show "node_ok (fst (demo_agreed None))" by (rule ba_reachable_ok [OF r])
  show "node_ok (fst (demo_agreed (Some (\<lambda>_ _. EBUSY))))"
    by (rule ba_reachable_ok, rule demo_agreed_reachable) (simp add: demo_states)
qed

theorem waiting_frames_have_timer_witness:
  "fires (ba_gap_to (the_rx_ba (fst (demo_agreed None)) 0))"
  using waiting_frames_have_timer [OF demo_reachable(1), of 0] demo_states by simp

theorem gap_timer_finds_buffer_witness:
  "\<exists>b. ba_buf (the_rx_ba (fst (demo_agreed None)) 0) = Some b"
proof -
  have "fires (ba_gap_to (the_rx_ba (fst (demo_agreed None)) 0))" by code_simp
  then show ?thesis using gap_timer_finds_buffer [OF demo_reachable(1), of 0] by auto
qed

theorem refuse_while_buffering_witness:
  "ba_buf (the_rx_ba (fst (addba_req_refuse 0 (demo_agreed (Some (\<lambda>_ _. EBUSY))))) 0) = None"
  using refuse_while_buffering [of "fst (demo_agreed (Some (\<lambda>_ _. EBUSY)))" 0 "snd (demo_agreed (Some (\<lambda>_ _. EBUSY)))"]
    demo_reachable(3) demo_states by simp

lemma demo_node_ok: "node_ok demo_node"
  by (simp add: node_ok_def demo_node_def rx_agree_ok_def tx_agree_ok_def quiet_def)

theorem failed_allocation_blocks_tid_witness:
  "recv_addba_req (demo_hooks True None) demo_addba (recv_addba_req (demo_hooks False None) demo_addba (demo_node, demo_com))
   = recv_addba_req (demo_hooks False None) demo_addba (demo_node, demo_com)"
proof -
  let ?s = "recv_addba_req (demo_hooks False None) demo_addba (demo_node, demo_com)"
  have r: "rx_ready demo_addba (demo_node, demo_com)" by code_simp
  have "\<not> malloc_ok (demo_hooks False None) (demo_node, demo_com)" by (simp add: demo_hooks_def)
  from failed_allocation_blocks_tid [OF demo_node_ok r this surjective_pairing refl]
  have "recv_addba_req (demo_hooks True None) demo_addba (fst ?s, snd ?s) = (fst ?s, snd ?s)" by blast
  then show ?thesis by simp
qed

theorem delba_releases_agreement_witness:
  "rx_freed (ic_cx (snd (recv_delba (demo_hooks True None) demo_delba (demo_agreed None)))) = [demo_frame 1]"
proof -
  let ?s = "demo_agreed None"
  have f: "24 + 6 \<le> length demo_delba" "has_flag (LE_READ_2 (drop 2 (drop 24 demo_delba))) DELBA_INITIATOR"
    "0 = (ucast (drop_bit 12 (LE_READ_2 (drop 2 (drop 24 demo_delba)))) :: u8)"
    "rx_freed (ic_cx (snd ?s)) = []" by code_simp+
  have "mset (rx_freed (ic_cx (snd (recv_delba (demo_hooks True None) demo_delba (fst ?s, snd ?s))))) = mset [demo_frame 1]"
    using delba_releases_agreement [OF demo_reachable(2) f(1-3) demo_states(2) surjective_pairing,
        of "demo_hooks True None" "snd ?s"] f(4) demo_states(3) by simp
  then show ?thesis by simp
qed

theorem protected_bar_ignored_witness:
  "fst (recv_bar demo_delba (demo_node\<lparr>ni_flags := NODE_MFP, ni_rsncaps := RSNCAP_PBAC\<rparr>, demo_com))
   = demo_node\<lparr>ni_flags := NODE_MFP, ni_rsncaps := RSNCAP_PBAC\<rparr>"
  using protected_bar_ignored [of "(demo_node\<lparr>ni_flags := NODE_MFP, ni_rsncaps := RSNCAP_PBAC\<rparr>, demo_com)"]
  by (simp add: node_pbac_def has_flag_def)

end
