(* ===== verification/BlockAckFrames.thy ===== *)
theory BlockAckFrames
  imports BlockAckProps
begin

text \<open>
  The ADDBA exchange between two stations running this code: the frames one side builds
  (\<^verbatim>\<open>ieee80211_get_action\<close>) are read back by the handlers of the other
  (\<^verbatim>\<open>ieee80211_recv_action\<close>) as what was meant.
\<close>

section \<open>Packed fields\<close>

lemma tid_exhaust:
  assumes "unat (tid :: u8) < NUM_TID" and "list_all (\<lambda>n. P (of_nat n)) [0..<16]"
  shows "P tid"
proof -
  have "\<forall>n\<in>{0..<16}. P (of_nat n)" using assms(2) by (simp add: list_all_iff)
  then have "P (of_nat (unat tid))" by (rule bspec) (use assms(1) in simp)
  then show ?thesis by simp
qed

text \<open>The parameter field of a request and of its response.\<close>

definition params_of :: "bool \<Rightarrow> bool \<Rightarrow> u8 \<Rightarrow> u16" where
  "params_of amsdu policy tid =
    (let p = push_bit 6 64 OR push_bit 2 (ucast tid);
         p = (if amsdu then p OR ADDBA_AMSDU else p)
     in if policy then p OR ADDBA_BA_POLICY else p)"

lemma params_of_fields:
  assumes "unat tid < NUM_TID"
  shows "(ucast (drop_bit 2 (params_of a p tid AND 0x3c)) :: u8) = tid \<and>
    (ucast (drop_bit 2 (params_of a p tid) AND 0xf) :: u8) = tid \<and>
    drop_bit 6 (params_of a p tid AND 0xffc0) = 64 \<and>
    (has_flag (params_of a p tid) ADDBA_BA_POLICY \<longleftrightarrow> p) \<and>
    (has_flag (params_of a p tid) ADDBA_AMSDU \<longleftrightarrow> a)"
  by (rule tid_exhaust [OF assms], cases a; cases p; simp only:; code_simp)

lemma arg_fields:
  "ucast (action_arg c b tid AND 0xff) = tid"
  "ucast (drop_bit 8 (action_arg c b tid)) = b"
  "ucast (drop_bit 16 (action_arg c b tid)) = c"
proof -
  have "x AND 0xff = take_bit 8 x" for x :: u32 by (simp add: take_bit_eq_mask mask_eq_exp_minus_1)
  then show "ucast (action_arg c b tid AND 0xff) = tid"
    by (intro bit_word_eqI) (auto simp: action_arg_def bit_simps)
  show "ucast (drop_bit 8 (action_arg c b tid)) = b"
    by (rule bit_word_eqI) (auto simp: action_arg_def bit_simps dest: bit_imp_le_length)
  show "ucast (drop_bit 16 (action_arg c b tid)) = c"
    by (rule bit_word_eqI) (auto simp: action_arg_def bit_simps dest: bit_imp_le_length)
qed

lemma ssn_field: "unat ssn < 4096 \<Longrightarrow> drop_bit 4 (push_bit 4 ssn :: u16) = ssn"
  by (rule word_unat_eq_iff [THEN iffD2])
    (simp add: unat_drop_bit push_bit_eq_mult unat_word_ariths)

section \<open>The exchange\<close>

lemma LE_READ_2_bytes: "LE_READ_2 (ucast x # ucast (drop_bit 8 x) # xs) = x"
  using LE_READ_WRITE_2 [of x xs] by (simp add: LE_WRITE_2_def)

lemma read_fields:
  assumes "length h = 24"
  shows "byte_at (drop 24 (h @ a # b # c # xs)) 2 = c"
    and "byte_at (drop 24 (h @ a # b # xs)) 0 = a" and "byte_at (drop 24 (h @ a # b # xs)) 1 = b"
    and "LE_READ_2 (drop 3 (drop 24 (h @ a # b # c # LE_WRITE_2 x @ xs))) = x"
    and "LE_READ_2 (drop 5 (drop 24 (h @ a # b # c # LE_WRITE_2 x @ LE_WRITE_2 y @ xs))) = y"
    and "LE_READ_2 (drop 7 (drop 24 (h @ a # b # c # LE_WRITE_2 x @ LE_WRITE_2 y @ LE_WRITE_2 z @ xs))) = z"
  using assms by (simp_all add: LE_WRITE_2_def [of x] LE_WRITE_2_def [of y] byte_at_def numeral_2_eq_2 LE_READ_2_bytes)

text \<open>What the recipient must be ready for, apart from the frame.\<close>

definition recipient_ready :: "hooks \<Rightarrow> u8 \<Rightarrow> ba_sys \<Rightarrow> bool" where
  "recipient_ready H tid = (\<lambda>(ni, ic).
     node_ok ni \<and> ic_state ic = S_RUN \<and> (has_flag (ic_flags ic) F_RSNON \<longrightarrow> ni_port_valid ni) \<and>
     has_flag (ni_flags ni) NODE_HT \<and> ba_state (the_rx_ba ni tid) = BA_INIT \<and>
     \<not> has_flag (ic_flags ic) F_BGSCAN \<and> \<not> has_flag (ic_flags ic) F_PBAR \<and>
     \<not> has_flag (ic_tid_noack ic) (push_bit (unat tid) 1) \<and>
     ampdu_rx_start H = None \<and> malloc_ok H (ni, ic))"

definition originator_ready :: "hooks \<Rightarrow> u8 \<Rightarrow> ba_sys \<Rightarrow> bool" where
  "originator_ready H tid = (\<lambda>(ni, ic).
     node_ok ni \<and> tba_state (the_tx_ba ni tid) = BA_INIT \<and>
     \<not> has_flag (ic_caps ic) C_TX_AMPDU_SETUP_IN_HW \<and> \<not> has_flag (ic_htcaps ic) HTCAP_DELAYEDBA \<and>
     ampdu_tx_start H = None)"

lemma request_params:
  "tba_params (tx_ba_setup ic ssn tid ba)
   = params_of (has_flag (ic_caps ic) C_AMSDU_IN_AMPDU) (\<not> has_flag (ic_htcaps ic) HTCAP_DELAYEDBA) tid"
  by (simp add: tx_ba_setup_def params_of_def Let_def)

lemma response_params:
  assumes "unat tid < NUM_TID"
  shows "ba_params (rx_ba_setup ic tid token (params_of a True tid) timeout ssn ba)
    = params_of (has_flag (ic_caps ic) C_AMSDU_IN_AMPDU) True tid"
    and "ba_winsize (rx_ba_setup ic tid token (params_of a True tid) timeout ssn ba) = 64"
proof -
  have p: "rx_ba_params c (params_of a True tid) 64 tid = params_of c True tid" for c
    by (rule tid_exhaust [OF assms], cases a; cases c; simp only:; code_simp)
  then show "ba_params (rx_ba_setup ic tid token (params_of a True tid) timeout ssn ba)
    = params_of (has_flag (ic_caps ic) C_AMSDU_IN_AMPDU) True tid"
    using params_of_fields [OF assms, of a True] by (simp add: rx_ba_setup_def Let_def)
  show "ba_winsize (rx_ba_setup ic tid token (params_of a True tid) timeout ssn ba) = 64"
    using params_of_fields [OF assms, of a True] by (simp add: rx_ba_setup_def Let_def)
qed

text \<open>The request, as the recipient reads it.\<close>

lemma request_sent:
  assumes "originator_ready H tid (ni, ic)" and "unat tid < NUM_TID"
    and "addba_request H ssn tid (ni, ic) = ((ni', ic'), err)"
  shows "err = 0 \<and> ic_out ic' = ic_out ic @ [SendAction CATEG_BA ACTION_ADDBA_REQ (ucast tid)] \<and>
    node_ok ni' \<and> tba_state (the_tx_ba ni' tid) = BA_REQUESTED \<and> tba_winstart (the_tx_ba ni' tid) = ssn \<and>
    tba_winsize (the_tx_ba ni' tid) = 64 \<and> tba_timeout_val (the_tx_ba ni' tid) = 0 \<and>
    tba_token (the_tx_ba ni' tid) = ic_dialog_token ic \<and>
    tba_params (the_tx_ba ni' tid) = params_of (has_flag (ic_caps ic) C_AMSDU_IN_AMPDU) True tid"
proof -
  have ok: "node_ok ni'" using addba_request_ok [of ni tid H ssn ic] assms by (simp add: originator_ready_def)
  have s: "tba_state (the_tx_ba ni tid) = BA_INIT" "node_ok ni" using assms(1) by (simp_all add: originator_ready_def)
  let ?ba = "tx_ba_setup ic ssn tid (the_tx_ba ni tid)"
  have n: "node_ok (put_tx_ba tid ?ba ni)"
    using setup_tx_agree_ok(1) [OF node_ok_tx [OF s(2) assms(2)] s(1)] s(2) by simp
  have "ni' = put_tx_ba tid (?ba\<lparr>tba_to := timeout_add_sec (tba_to ?ba) 1\<rparr>) (put_tx_ba tid ?ba ni)"
    "ic' = send_ba ACTION_ADDBA_REQ (ucast tid) (ic\<lparr>ic_dialog_token := ic_dialog_token ic + 1\<rparr>)" "err = 0"
    using assms(1,3) by (auto simp: addba_request_def Let_def originator_ready_def)
  then show ?thesis
    using ok n assms(1,2) request_params [of ic ssn tid "the_tx_ba ni tid"]
    by (simp add: originator_ready_def send_ba_def emit_def) (simp add: tx_ba_setup_def Let_def)
qed

text \<open>The ADDBA exchange: a request for \<open>tid\<close> starting at \<open>ssn\<close>, sent by one station and received
  by another that is ready for it, leaves the recipient with an agreed, empty and correct window of
  64 frames starting at \<open>ssn\<close>; its response, received by the originator, completes the agreement
  there with the same start of the window.\<close>

theorem addba_exchange:
  assumes "originator_ready HI tid (nI, icI)" and "recipient_ready HR tid (nR, icR)"
    and "unat tid < NUM_TID" and "unat ssn < 4096" and "length h = 24" and "length h' = 24"
    and "addba_request HI ssn tid (nI, icI) = ((nI1, icI1), err)"
    and "last (ic_out icI1) = SendAction c a arg" and "get_action True nI1 c a arg = Some f"
    and "recv_action HR (h @ f) (nR, icR) = (nR1, icR1)"
    and "last (ic_out icR1) = SendAction c' a' arg'" and "get_action True nR1 c' a' arg' = Some f'"
    and "recv_action HI (h' @ f') (nI1, icI1) = (nI2, icI2)"
  shows "ba_state (the_rx_ba nR1 tid) = BA_AGREED \<and> rx_ba_ok (the_rx_ba nR1 tid) \<and>
    ba_winstart (the_rx_ba nR1 tid) = ssn \<and> ba_winsize (the_rx_ba nR1 tid) = 64 \<and>
    buffered (the_rx_ba nR1 tid) = [] \<and>
    tba_state (the_tx_ba nI2 tid) = BA_AGREED \<and> tba_winstart (the_tx_ba nI2 tid) = ssn \<and>
    ni_qos_txseqs nI2 = (ni_qos_txseqs nI1)[unat tid := ssn]"
proof -
  let ?P = "params_of (has_flag (ic_caps icI) C_AMSDU_IN_AMPDU) True tid"
  let ?k = "ic_dialog_token icI"
  note R = request_sent [OF assms(1,3,7)]
  have t8: "(ucast (ucast tid :: u32) :: u8) = tid" and u: "(ucast ((ucast tid :: u32) AND 0xffff) :: u8) = tid"
    by (rule tid_exhaust [OF assms(3)], code_simp)+
  have f: "f = CATEG_BA # ACTION_ADDBA_REQ # ?k # LE_WRITE_2 ?P @ LE_WRITE_2 0 @ LE_WRITE_2 (push_bit 4 ssn)"
    using assms(8,9) R by (auto simp: get_action_def get_addba_req_def Let_def u)
  note F = read_fields [OF assms(5), of CATEG_BA ACTION_ADDBA_REQ] 
  note P = params_of_fields [OF assms(3), of "has_flag (ic_caps icI) C_AMSDU_IN_AMPDU" True]
  let ?m = "h @ f"
  have fields: "byte_at (drop 24 ?m) 0 = CATEG_BA" "byte_at (drop 24 ?m) 1 = ACTION_ADDBA_REQ"
    "byte_at (drop 24 ?m) 2 = ?k" "LE_READ_2 (drop 3 (drop 24 ?m)) = ?P"
    "LE_READ_2 (drop 5 (drop 24 ?m)) = 0" "LE_READ_2 (drop 7 (drop 24 ?m)) = push_bit 4 ssn"
    using F(1-3) F(4) F(5) F(6) [where xs = "[]"] by (simp_all add: f del: drop_append drop_drop)
  have tid: "addba_tid ?m = tid" using P fields(4) by (simp add: addba_tid_def del: drop_append drop_drop)
  have len: "length ?m = 33" using assms(5) by (simp add: f)
  have ready: "rx_ready ?m (nR, icR)"
    using assms(2) P fields(4) tid len
    by (simp add: rx_ready_def recipient_ready_def del: drop_append drop_drop)
  define ba where "ba = rx_ba_setup icR tid ?k ?P 0 ssn (the_rx_ba nR tid)"
  define new where "new = ba\<lparr>ba_buf := Some (replicate IEEE80211_BA_MAX_WINSZ None), ba_head := 0\<rparr>"
  have nR: "node_ok nR" and qR: "rx_agree_ok (the_rx_ba nR tid)" "ba_state (the_rx_ba nR tid) = BA_INIT"
    using assms(2,3) node_ok_rx by (auto simp: recipient_ready_def)
  have l: "live new"
    unfolding new_def ba_def using setup_live [OF assms(4)] init_quiet [OF qR] by simp
  have s: "recv_action HR ?m (nR, icR) = addba_req_accept tid (put_rx_ba tid new nR, icR)"
    using recv_addba_req_ready [OF ready, of HR] assms(2) fields len tid ssn_field [OF assms(4)]
    by (simp add: recv_action_def Let_def recipient_ready_def ba_def new_def del: drop_append drop_drop)
  have v: "ba_timeout_val ba = 0" "ba_winstart ba = ssn" "ba_token ba = ?k" "ba_winsize ba = 64"
    "ba_params ba = params_of (has_flag (ic_caps icR) C_AMSDU_IN_AMPDU) True tid"
    using response_params [OF assms(3)] by (simp_all add: ba_def) (simp_all add: rx_ba_setup_def Let_def)
  have n1: "node_ok (put_rx_ba tid new nR)"
    using nR live_agree_ok [OF l] by (simp add: new_def ba_def)
  have b1: "the_rx_ba nR1 tid = new\<lparr>ba_state := BA_AGREED\<rparr>"
    and e1: "ic_out icR1 = ic_out icR @ [SendAction CATEG_BA ACTION_ADDBA_RESP (action_arg STATUS_SUCCESS ?k tid)]"
    using assms(10) s v n1 nR assms(3)
    by (auto simp: addba_req_accept_def Let_def ba_rearm_def new_def send_ba_def emit_def ba_stat_def)
  have f': "f' = CATEG_BA # ACTION_ADDBA_RESP # ?k # LE_WRITE_2 0 @
      LE_WRITE_2 (params_of (has_flag (ic_caps icR) C_AMSDU_IN_AMPDU) True tid) @ LE_WRITE_2 0"
    using assms(11,12) e1 b1 v by (auto simp: get_action_def arg_fields get_addba_resp_def Let_def new_def)
  let ?m' = "h' @ f'"
  have fields': "byte_at (drop 24 ?m') 0 = CATEG_BA" "byte_at (drop 24 ?m') 1 = ACTION_ADDBA_RESP"
    "byte_at (drop 24 ?m') 2 = ?k" "LE_READ_2 (drop 3 (drop 24 ?m')) = 0"
    "LE_READ_2 (drop 5 (drop 24 ?m')) = params_of (has_flag (ic_caps icR) C_AMSDU_IN_AMPDU) True tid"
    using read_fields [OF assms(6), of CATEG_BA ACTION_ADDBA_RESP] by (simp_all add: f' del: drop_append drop_drop)
  have len': "length ?m' = 33" using assms(6) by (simp add: f')
  let ?tb = "the_tx_ba nI1 tid"
  have n2: "node_ok (put_tx_ba tid (?tb\<lparr>tba_to := timeout_del (tba_to ?tb)\<rparr>) nI1)"
    using R node_ok_tx [of nI1 tid] assms(3) by (simp add: tx_agree_ok_def)
  have "recv_action HI ?m' (nI1, icI1)
      = addba_resp_accept tid (put_tx_ba tid (?tb\<lparr>tba_to := timeout_del (tba_to ?tb)\<rparr>) nI1, icI1)"
    using fields' len' R assms(1) params_of_fields [OF assms(3), of "has_flag (ic_caps icR) C_AMSDU_IN_AMPDU" True]
    by (simp add: recv_action_def recv_addba_resp_def Let_def originator_ready_def del: drop_append drop_drop)
  then have "the_tx_ba nI2 tid = ?tb\<lparr>tba_to := timeout_del (tba_to ?tb), tba_state := BA_AGREED\<rparr>"
    "ni_qos_txseqs nI2 = (ni_qos_txseqs nI1)[unat tid := ssn]"
    using assms(3,13) R n2
    by (auto simp: addba_resp_accept_def Let_def put_tx_ba_def the_tx_ba_def node_ok_def)
  moreover have "buffered new = []"
    by (simp add: buffered_def view_def slots_def new_def)
  ultimately show ?thesis
    using R b1 l v by (simp add: live_def) (simp add: new_def buffered_def view_def slots_def)
qed

definition demo_requested :: ba_sys where
  "demo_requested = fst (addba_request (demo_hooks True None) 5 0 (demo_node, demo_com))"

definition demo_req_body :: "u8 list" where
  "demo_req_body = [3, 0, 7] @ LE_WRITE_2 0x1002 @ LE_WRITE_2 0 @ LE_WRITE_2 0x50"

definition demo_received :: ba_sys where
  "demo_received = recv_action (demo_hooks True None) (replicate 24 0 @ demo_req_body) (demo_node, demo_com)"

definition demo_resp_body :: "u8 list" where
  "demo_resp_body = [3, 1, 7] @ LE_WRITE_2 0 @ LE_WRITE_2 0x1002 @ LE_WRITE_2 0"

theorem addba_exchange_witness:
  "tba_state (the_tx_ba (fst (recv_action (demo_hooks True None) (replicate 24 0 @ demo_resp_body) demo_requested)) 0)
   = BA_AGREED"
proof -
  have e: "last (ic_out (snd demo_requested)) = SendAction CATEG_BA ACTION_ADDBA_REQ 0"
    "get_action True (fst demo_requested) CATEG_BA ACTION_ADDBA_REQ 0 = Some demo_req_body"
    "last (ic_out (snd demo_received)) = SendAction CATEG_BA ACTION_ADDBA_RESP (action_arg STATUS_SUCCESS 7 0)"
    "get_action True (fst demo_received) CATEG_BA ACTION_ADDBA_RESP (action_arg STATUS_SUCCESS 7 0)
      = Some demo_resp_body"
    by code_simp+
  have o: "originator_ready (demo_hooks True None) 0 (demo_node, demo_com)"
    using demo_node_ok by (simp add: originator_ready_def) code_simp
  have r: "recipient_ready (demo_hooks True None) 0 (demo_node, demo_com)"
    using demo_node_ok by (simp add: recipient_ready_def) code_simp
  have q: "addba_request (demo_hooks True None) 5 0 (demo_node, demo_com)
      = ((fst demo_requested, snd demo_requested), snd (addba_request (demo_hooks True None) 5 0 (demo_node, demo_com)))"
    by (simp add: demo_requested_def)
  have v: "recv_action (demo_hooks True None) (replicate 24 0 @ demo_req_body) (demo_node, demo_com)
      = (fst demo_received, snd demo_received)" by (simp add: demo_received_def)
  show ?thesis
    using addba_exchange [OF o r _ _ _ _ q e(1,2) v e(3,4) surjective_pairing, of "replicate 24 0"] by simp
qed

end
