(* ===== verification/Amsdu.thy ===== *)
theory Amsdu
  imports BlockAck
begin

text \<open>
  Decapsulation of aggregated MSDUs (\<^verbatim>\<open>ieee80211_amsdu_decap\<close> and
  \<^verbatim>\<open>ieee80211_amsdu_decap_validate\<close> of \<^verbatim>\<open>net80211/ieee80211_input.c\<close>).  An mbuf chain is
  the list of its bytes: \<^verbatim>\<open>mbuf_adj\<close> drops bytes at the front, \<^verbatim>\<open>mbuf_split\<close> cuts the list.
  Whether \<^verbatim>\<open>mbuf_pullup\<close> and \<^verbatim>\<open>mbuf_split\<close> can allocate in the k-th round of the loop is
  given by the functions \<open>pull\<close> and \<open>split\<close>.
\<close>

abbreviation (input) ETHER_HDR_LEN :: nat where "ETHER_HDR_LEN \<equiv> 14"
abbreviation (input) LLC_SNAPFRAMELEN :: nat where "LLC_SNAPFRAMELEN \<equiv> 8"

definition ether_dhost :: "u8 list \<Rightarrow> u8 list" where
  "ether_dhost m = take 6 m"

definition ether_shost :: "u8 list \<Rightarrow> u8 list" where
  "ether_shost m = take 6 (drop 6 m)"

text \<open>The fields read from \<^verbatim>\<open>ieee80211com\<close> and from the node.\<close>

record amsdu_ctx =
  am_opmode :: ieee80211_opmode
  am_myaddr :: "u8 list"
  am_macaddr :: "u8 list"

definition llc_hdr_mac :: "u8 list" where
  "llc_hdr_mac = [0xaa, 0xaa, 3, 0, 0, 0]"

text \<open>The C function returns 1 to reject; the model returns \<open>True\<close>.\<close>

definition amsdu_decap_validate :: "amsdu_ctx \<Rightarrow> u8 list \<Rightarrow> bool" where
  "amsdu_decap_validate cx m =
     (if ether_dhost m = llc_hdr_mac then True
      else case am_opmode cx of
        M_HOSTAP \<Rightarrow> am_macaddr cx \<noteq> ether_shost m
      | M_STA \<Rightarrow> am_myaddr cx \<noteq> ether_dhost m
      | _ \<Rightarrow> False)"

text \<open>The LLC/SNAP header behind the A-MSDU subframe header, and its removal: the type field of
  the SNAP header becomes the Ethernet type and the eight LLC bytes go.\<close>

definition is_llc_snap :: "u8 list \<Rightarrow> bool" where
  "is_llc_snap m \<longleftrightarrow> take 6 (drop 14 m) = llc_hdr_mac"

definition strip_llc :: "u8 list \<Rightarrow> u8 list" where
  "strip_llc m = take 12 m @ take 2 (drop 20 m) @ drop 22 m"

definition subframe_len :: "u8 list \<Rightarrow> nat" where
  "subframe_len m = unat (BE_READ_2 (drop 12 m))"

definition pad4 :: "nat \<Rightarrow> nat" where
  "pad4 len = (len + 3) div 4 * 4 - len"

datatype amsdu_result = Dropped | Delivered "mbuf list"

text \<open>The loop: \<open>k\<close> counts the rounds, \<open>acc\<close> is the list of subframes so far.\<close>

lemma length_strip_llc: "22 \<le> length m \<Longrightarrow> length (strip_llc m) = length m - 8"
  by (simp add: strip_llc_def)

function amsdu_loop ::
  "amsdu_ctx \<Rightarrow> (nat \<Rightarrow> bool) \<Rightarrow> (nat \<Rightarrow> bool) \<Rightarrow> nat \<Rightarrow> mbuf \<Rightarrow> mbuf list \<Rightarrow> amsdu_result" where
  "amsdu_loop cx pull split k m acc =
     (if length m < ETHER_HDR_LEN + LLC_SNAPFRAMELEN then Delivered acc
      else if \<not> pull k then Delivered acc
      else let len = subframe_len m in
      if len < LLC_SNAPFRAMELEN then Dropped
      else let (m', len') = (if is_llc_snap m then (strip_llc m, len - LLC_SNAPFRAMELEN)
                             else (m, len));
               len'' = len' + ETHER_HDR_LEN in
      if length m' < len'' then Dropped
      else if \<not> split k then Dropped
      else if amsdu_decap_validate cx (take len'' m') then Dropped
      else amsdu_loop cx pull split (k + 1) (drop (pad4 len'') (drop len'' m'))
             (acc @ [take len'' m']))"
  by pat_completeness auto
termination
  by (relation "measure (\<lambda>(cx, pull, split, k, m, acc). length m)")
    (auto simp: length_strip_llc split: if_splits)

text \<open>The subframes are handed to \<^verbatim>\<open>ieee80211_enqueue_data\<close> in order, with the multicast flag
  of the 802.11 header.\<close>

definition amsdu_decap ::
  "amsdu_ctx \<Rightarrow> (nat \<Rightarrow> bool) \<Rightarrow> (nat \<Rightarrow> bool) \<Rightarrow> mbuf \<Rightarrow> nat \<Rightarrow> (mbuf \<times> bool) list option" where
  "amsdu_decap cx pull split m hdrlen =
     (let mcast = bit (byte_at m 4) 0 in
      case amsdu_loop cx pull split 0 (drop hdrlen m) [] of
        Dropped \<Rightarrow> None
      | Delivered ms \<Rightarrow> Some (map (\<lambda>f. (f, mcast)) ms))"

declare amsdu_loop.simps [simp del]

section \<open>Sender and receiver addresses\<close>

definition amsdu_convert :: "mbuf \<Rightarrow> mbuf \<times> nat" where
  "amsdu_convert m =
     (if is_llc_snap m then (strip_llc m, subframe_len m - LLC_SNAPFRAMELEN + ETHER_HDR_LEN)
      else (m, subframe_len m + ETHER_HDR_LEN))"

text \<open>One round of the loop either ends it or hands on a shorter chain and one checked subframe.\<close>

lemma amsdu_loop_round:
  assumes "amsdu_loop cx pull split k m acc = Delivered ms"
  obtains "ms = acc"
  | f m' where "amsdu_loop cx pull split (k + 1) m' (acc @ [f]) = Delivered ms"
      "\<not> amsdu_decap_validate cx f" "length m' < length m"
proof (cases "ms = acc")
  case False
  obtain m1 len where c: "amsdu_convert m = (m1, len)" by fastforce
  let ?m' = "drop (pad4 len) (drop len m1)"
  have r: "(if length m < ETHER_HDR_LEN + LLC_SNAPFRAMELEN then Delivered acc
      else if \<not> pull k then Delivered acc
      else if subframe_len m < LLC_SNAPFRAMELEN then Dropped
      else if length m1 < len then Dropped
      else if \<not> split k then Dropped
      else if amsdu_decap_validate cx (take len m1) then Dropped
      else amsdu_loop cx pull split (k + 1) ?m' (acc @ [take len m1])) = Delivered ms"
    using assms c unfolding amsdu_loop.simps [of cx pull split k m acc]
    by (simp add: Let_def amsdu_convert_def split: if_splits)
  then have big: "\<not> length m < ETHER_HDR_LEN + LLC_SNAPFRAMELEN"
    using False by (simp split: if_splits)
  then have "length m1 \<le> length m" "0 < len"
    using c by (auto simp: amsdu_convert_def length_strip_llc split: if_splits)
  moreover have "len \<le> length m1" using r False by (simp split: if_splits)
  moreover have "\<not> amsdu_decap_validate cx (take len m1)" using r False by (simp split: if_splits)
  moreover have "amsdu_loop cx pull split (k + 1) ?m' (acc @ [take len m1]) = Delivered ms"
    using r False by (simp split: if_splits)
  ultimately show ?thesis using that(2) [of ?m' "take len m1"] by simp
qed (use that in blast)

lemma amsdu_loop_checked:
  "amsdu_loop cx pull split k m acc = Delivered ms \<Longrightarrow>
   \<forall>f \<in> set acc. \<not> amsdu_decap_validate cx f \<Longrightarrow> \<forall>f \<in> set ms. \<not> amsdu_decap_validate cx f"
proof (induction "length m" arbitrary: k m acc rule: less_induct)
  case less
  from less.prems(1) show ?case
  proof (cases rule: amsdu_loop_round)
    case 1
    then show ?thesis using less.prems(2) by simp
  next
    case (2 f m')
    have "\<forall>g \<in> set (acc @ [f]). \<not> amsdu_decap_validate cx g"
      using less.prems(2) 2(2) by simp
    then show ?thesis by (rule less.hyps [OF 2(3) 2(1)])
  qed
qed

text \<open>Every subframe handed up passes the address checks: it is not addressed to the MAC
  address that looks like an LLC header, in station mode it is addressed to the station itself,
  and in host access point mode it comes from the node that sent the aggregate.\<close>

theorem amsdu_addresses:
  assumes "amsdu_decap cx pull split m hdrlen = Some fs" and "(f, mcast) \<in> set fs"
  shows "ether_dhost f \<noteq> llc_hdr_mac \<and>
    (am_opmode cx = M_STA \<longrightarrow> ether_dhost f = am_myaddr cx) \<and>
    (am_opmode cx = M_HOSTAP \<longrightarrow> ether_shost f = am_macaddr cx)"
proof -
  obtain ms where "amsdu_loop cx pull split 0 (drop hdrlen m) [] = Delivered ms" "f \<in> set ms"
    using assms by (auto simp: amsdu_decap_def Let_def split: amsdu_result.splits)
  then have "\<not> amsdu_decap_validate cx f" using amsdu_loop_checked by force
  then show ?thesis by (auto simp: amsdu_decap_validate_def split: if_splits)
qed

section \<open>Round trip\<close>

text \<open>The A-MSDU of a list of Ethernet frames as the standard describes it: a subframe header with
  the length, LLC/SNAP, the payload, and padding to a multiple of four between subframes.\<close>

definition BE_WRITE_2 :: "u16 \<Rightarrow> u8 list" where
  "BE_WRITE_2 v = [ucast (drop_bit 8 v), ucast v]"

definition amsdu_subframe :: "mbuf \<Rightarrow> u8 list" where
  "amsdu_subframe f = take 12 f @ BE_WRITE_2 (of_nat (length f - 6)) @ llc_hdr_mac @ drop 12 f"

fun amsdu_encap :: "mbuf list \<Rightarrow> u8 list" where
  "amsdu_encap [] = []"
| "amsdu_encap (f # fs) = amsdu_subframe f
     @ (if fs = [] then [] else replicate (pad4 (length f)) 0 @ amsdu_encap fs)"

definition msdu_ok :: "amsdu_ctx \<Rightarrow> mbuf \<Rightarrow> bool" where
  "msdu_ok cx f \<longleftrightarrow> 14 \<le> length f \<and> length f < 65536 \<and> \<not> amsdu_decap_validate cx f"

lemma BE_READ_WRITE_2: "BE_READ_2 (BE_WRITE_2 v @ rest) = v"
  unfolding BE_READ_2_def BE_WRITE_2_def
  by (rule bit_word_eqI)
    (auto simp: bit_or_iff bit_push_bit_iff bit_ucast_iff bit_drop_bit_eq byte_at_def)

lemma subframe_facts:
  assumes "14 \<le> length f" "length f < 65536"
  shows "length (amsdu_subframe f) = length f + 8"
    and "subframe_len (amsdu_subframe f @ rest) = length f - 6"
    and "is_llc_snap (amsdu_subframe f @ rest)"
    and "strip_llc (amsdu_subframe f @ rest) = f @ rest"
proof -
  have l: "length (take 12 f) = 12" using assms by simp
  have lb: "length (BE_WRITE_2 v) = 2" "length llc_hdr_mac = 6" for v
    by (simp_all add: BE_WRITE_2_def llc_hdr_mac_def)
  show "length (amsdu_subframe f) = length f + 8"
    using assms by (simp add: amsdu_subframe_def lb)
  have u: "unat (of_nat n :: u16) = n" if "n < 65536" for n
    using that by (simp add: unat_of_nat)
  have "unat (of_nat (length f - 6) :: u16) = length f - 6"
    by (rule u) (use assms in simp)
  then show "subframe_len (amsdu_subframe f @ rest) = length f - 6"
    using l by (simp add: subframe_len_def amsdu_subframe_def BE_READ_WRITE_2)
  show "is_llc_snap (amsdu_subframe f @ rest)"
    using l by (simp add: is_llc_snap_def amsdu_subframe_def lb)
  have a: "take 12 f @ drop 12 f = f" by simp
  have "take 12 f @ take 2 (drop 12 f) @ drop 14 f = f"
    using append_take_drop_id [of 2 "drop 12 f"] a by simp
  then show "strip_llc (amsdu_subframe f @ rest) = f @ rest"
    using l assms by (simp add: strip_llc_def amsdu_subframe_def lb)
qed

lemma amsdu_loop_subframe:
  assumes ok: "msdu_ok cx f" and all: "\<And>k. pull k" "\<And>k. split k"
  shows "amsdu_loop cx pull split k (amsdu_subframe f @ rest) acc
    = amsdu_loop cx pull split (k + 1) (drop (pad4 (length f)) rest) (acc @ [f])"
proof -
  have f: "14 \<le> length f" "length f < 65536" using ok by (auto simp: msdu_ok_def)
  note facts = subframe_facts [OF f]
  have "length f - 6 - 8 + 14 = length f" "\<not> length f - 6 < 8" using f by auto
  then show ?thesis
    using f ok all by (subst amsdu_loop.simps) (simp add: Let_def facts msdu_ok_def)
qed

lemma amsdu_loop_encap:
  assumes all: "\<And>k. pull k" "\<And>k. split k"
  shows "\<forall>f \<in> set fs. msdu_ok cx f \<Longrightarrow>
    amsdu_loop cx pull split k (amsdu_encap fs) acc = Delivered (acc @ fs)"
proof (induction fs arbitrary: k acc)
  case Nil
  show ?case by (subst amsdu_loop.simps) simp
next
  case (Cons f fs)
  have f: "msdu_ok cx f" using Cons.prems by simp
  note step = amsdu_loop_subframe [OF f all]
  show ?case
  proof (cases "fs = []")
    case True
    have "amsdu_loop cx pull split (k + 1) [] (acc @ [f]) = Delivered (acc @ [f])"
      by (subst amsdu_loop.simps) simp
    then show ?thesis using step [where k = k and rest = "[]" and acc = acc] True by simp
  next
    case False
    have "amsdu_loop cx pull split (k + 1) (amsdu_encap fs) (acc @ [f])
        = Delivered ((acc @ [f]) @ fs)"
      by (rule Cons.IH) (use Cons.prems in simp)
    then show ?thesis
      using step [where k = k and acc = acc
        and rest = "replicate (pad4 (length f)) 0 @ amsdu_encap fs"] False by simp
  qed
qed

text \<open>C18. Round trip.  An aggregate of Ethernet frames that pass the address checks is taken
  apart into exactly these frames, in order, each with the multicast flag of the receiver
  address of the 802.11 header, provided that the allocations succeed.\<close>

theorem amsdu_roundtrip:
  assumes "\<forall>f \<in> set fs. msdu_ok cx f" and "\<forall>k. pull k \<and> split k"
    and "length hdr = hdrlen" and "4 < hdrlen"
  shows "amsdu_decap cx pull split (hdr @ amsdu_encap fs) hdrlen
    = Some (map (\<lambda>f. (f, bit (hdr ! 4) 0)) fs)"
proof -
  have "amsdu_loop cx pull split 0 (drop hdrlen (hdr @ amsdu_encap fs)) [] = Delivered fs"
    using amsdu_loop_encap [of pull split fs cx 0 "[]"] assms by simp
  moreover have "byte_at (hdr @ amsdu_encap fs) 4 = hdr ! 4"
    using assms by (simp add: byte_at_def nth_append)
  ultimately show ?thesis by (simp add: amsdu_decap_def Let_def)
qed

definition demo_amsdu :: amsdu_ctx where
  "demo_amsdu = \<lparr>am_opmode = M_STA, am_myaddr = [2, 0, 0, 0, 0, 7],
     am_macaddr = [2, 0, 0, 0, 0, 1]\<rparr>"

definition demo_msdu :: mbuf where
  "demo_msdu = [2, 0, 0, 0, 0, 7, 2, 0, 0, 0, 0, 9, 8, 0, 0x45]"

lemma demo_msdu_ok: "msdu_ok demo_amsdu demo_msdu"
  by (simp add: msdu_ok_def demo_msdu_def demo_amsdu_def amsdu_decap_validate_def
      ether_dhost_def llc_hdr_mac_def)

theorem amsdu_roundtrip_witness:
  "amsdu_decap demo_amsdu (\<lambda>_. True) (\<lambda>_. True)
      (replicate 26 2 @ amsdu_encap [demo_msdu, demo_msdu]) 26
    = Some [(demo_msdu, False), (demo_msdu, False)]"
  using amsdu_roundtrip [of "[demo_msdu, demo_msdu]" demo_amsdu "\<lambda>_. True" "\<lambda>_. True"
      "replicate 26 2" 26]
  by (simp add: demo_msdu_ok)

theorem amsdu_addresses_witness:
  "\<exists>fs. amsdu_decap demo_amsdu (\<lambda>_. True) (\<lambda>_. True)
      (replicate 26 2 @ amsdu_encap [demo_msdu]) 26 = Some fs
    \<and> (demo_msdu, False) \<in> set fs \<and> ether_dhost demo_msdu = am_myaddr demo_amsdu"
proof -
  let ?m = "replicate 26 (2 :: u8) @ amsdu_encap [demo_msdu]"
  have "amsdu_loop demo_amsdu (\<lambda>_. True) (\<lambda>_. True) 0 (drop 26 ?m) [] = Delivered [demo_msdu]"
    using amsdu_loop_encap [of "\<lambda>_. True" "\<lambda>_. True" "[demo_msdu]" demo_amsdu 0 "[]"] demo_msdu_ok
    by simp
  then have d: "amsdu_decap demo_amsdu (\<lambda>_. True) (\<lambda>_. True) ?m 26 = Some [(demo_msdu, False)]"
    by (simp add: amsdu_decap_def byte_at_def nth_append)
  have "am_opmode demo_amsdu = M_STA" by (simp add: demo_amsdu_def)
  then have "ether_dhost demo_msdu = am_myaddr demo_amsdu"
    using amsdu_addresses [OF d, of demo_msdu False] by simp
  then show ?thesis using d by auto
qed

end
