(* ===== verification/InfoElem.thy ===== *)
theory InfoElem
  imports BlockAck
begin

text \<open>
  Information elements (\<^verbatim>\<open>net80211/ieee80211_input.c\<close>,
  \<^verbatim>\<open>net80211/ieee80211_crypto.h\<close>): the cipher and AKM bit sets, the parsers of the
  RSN, WPA, EDCA and WMM elements, and the copies kept of elements.  A parser gets the bytes
  starting at the C pointer; the list may go on behind the element, as the frame does, and
  the cursor \<open>frm\<close> and the end \<open>efrm\<close> of the code are offsets into it.
\<close>

section \<open>Ciphers and key management suites\<close>

abbreviation (input) CIPHER_NONE :: u32 where "CIPHER_NONE \<equiv> 0"
abbreviation (input) CIPHER_USEGROUP :: u32 where "CIPHER_USEGROUP \<equiv> 1"
abbreviation (input) CIPHER_WEP40 :: u32 where "CIPHER_WEP40 \<equiv> 2"
abbreviation (input) CIPHER_TKIP :: u32 where "CIPHER_TKIP \<equiv> 4"
abbreviation (input) CIPHER_CCMP :: u32 where "CIPHER_CCMP \<equiv> 8"
abbreviation (input) CIPHER_WEP104 :: u32 where "CIPHER_WEP104 \<equiv> 0x10"
abbreviation (input) CIPHER_BIP :: u32 where "CIPHER_BIP \<equiv> 0x20"

abbreviation (input) AKM_NONE :: u32 where "AKM_NONE \<equiv> 0"
abbreviation (input) AKM_8021X :: u32 where "AKM_8021X \<equiv> 1"
abbreviation (input) AKM_PSK :: u32 where "AKM_PSK \<equiv> 2"
abbreviation (input) AKM_SHA256_8021X :: u32 where "AKM_SHA256_8021X \<equiv> 4"
abbreviation (input) AKM_SHA256_PSK :: u32 where "AKM_SHA256_PSK \<equiv> 8"

definition is_8021x_akm :: "u32 \<Rightarrow> bool" where
  "is_8021x_akm akm \<longleftrightarrow> akm = AKM_8021X \<or> akm = AKM_SHA256_8021X"

definition is_sha256_akm :: "u32 \<Rightarrow> bool" where
  "is_sha256_akm akm \<longleftrightarrow> akm = AKM_SHA256_8021X \<or> akm = AKM_SHA256_PSK"

abbreviation (input) STATUS_IE_INVALID :: u16 where "STATUS_IE_INVALID \<equiv> 40"
abbreviation (input) STATUS_BAD_GROUP_CIPHER :: u16 where "STATUS_BAD_GROUP_CIPHER \<equiv> 41"
abbreviation (input) STATUS_BAD_PAIRWISE_CIPHER :: u16 where "STATUS_BAD_PAIRWISE_CIPHER \<equiv> 42"
abbreviation (input) STATUS_RSN_IE_VER_UNSUP :: u16 where "STATUS_RSN_IE_VER_UNSUP \<equiv> 44"
abbreviation (input) REASON_IE_INVALID :: u16 where "REASON_IE_INVALID \<equiv> 13"

definition IEEE80211_OUI :: "u8 list" where "IEEE80211_OUI = [0x00, 0x0f, 0xac]"
definition MICROSOFT_OUI :: "u8 list" where "MICROSOFT_OUI = [0x00, 0x50, 0xf2]"

text \<open>The bytes of \<open>p\<close> from offset \<open>i\<close> on, \<open>n\<close> of them.\<close>

definition bytes_at :: "u8 list \<Rightarrow> nat \<Rightarrow> nat \<Rightarrow> u8 list" where
  "bytes_at p i n = map (\<lambda>k. byte_at p (i + k)) [0..<n]"

lemma length_bytes_at [simp]: "length (bytes_at p i n) = n"
  by (simp add: bytes_at_def)

lemma byte_at_append [simp]: "byte_at (pre @ p) (length pre + i) = byte_at p i"
  by (simp add: byte_at_def)

lemma bytes_at_append: "bytes_at (pre @ p) (length pre + i) n = bytes_at p i n"
  by (simp add: bytes_at_def add.assoc)

lemma bytes_at_append_0: "length pre = i \<Longrightarrow> bytes_at (pre @ p) i n = bytes_at p 0 n"
  using bytes_at_append [of pre p 0] by simp

lemma bytes_at_eq_take: "n \<le> length p \<Longrightarrow> bytes_at p 0 n = take n p"
  by (rule nth_equalityI) (auto simp: bytes_at_def byte_at_def)

lemma bytes_at_take: "length xs = n \<Longrightarrow> bytes_at (xs @ p) 0 n = xs"
  by (simp add: bytes_at_eq_take)

definition parse_rsn_cipher :: "u8 list \<Rightarrow> u32" where
  "parse_rsn_cipher selector =
     (let t = byte_at selector 3 in
      if take 3 selector = MICROSOFT_OUI then
        (if t = 0 then CIPHER_USEGROUP else if t = 1 then CIPHER_WEP40
         else if t = 2 then CIPHER_TKIP else if t = 4 then CIPHER_CCMP
         else if t = 5 then CIPHER_WEP104 else CIPHER_NONE)
      else if take 3 selector = IEEE80211_OUI then
        (if t = 0 then CIPHER_USEGROUP else if t = 1 then CIPHER_WEP40
         else if t = 2 then CIPHER_TKIP else if t = 4 then CIPHER_CCMP
         else if t = 5 then CIPHER_WEP104 else if t = 6 then CIPHER_BIP else CIPHER_NONE)
      else CIPHER_NONE)"

definition parse_rsn_akm :: "u8 list \<Rightarrow> u32" where
  "parse_rsn_akm selector =
     (let t = byte_at selector 3 in
      if take 3 selector = MICROSOFT_OUI then
        (if t = 1 then AKM_8021X else if t = 2 then AKM_PSK else AKM_NONE)
      else if take 3 selector = IEEE80211_OUI then
        (if t = 1 then AKM_8021X else if t = 2 then AKM_PSK
         else if t = 5 then AKM_SHA256_8021X else if t = 6 then AKM_SHA256_PSK else AKM_NONE)
      else AKM_NONE)"

section \<open>The RSN element\<close>

record rsnparams =
  rsn_nakms :: u16
  rsn_akms :: u32
  rsn_nciphers :: u16
  rsn_ciphers :: u32
  rsn_groupcipher :: u32
  rsn_groupmgmtcipher :: u32
  rsn_caps :: u16
  rsn_npmkids :: u8
  rsn_pmkids :: "u8 list"

abbreviation (input) PMKID_LEN :: nat where "PMKID_LEN \<equiv> 16"

text \<open>The loops over the suite lists: \<open>n\<close> selectors from offset \<open>i\<close>.\<close>

fun or_suites :: "(u8 list \<Rightarrow> u32) \<Rightarrow> u8 list \<Rightarrow> nat \<Rightarrow> nat \<Rightarrow> u32 \<Rightarrow> u32" where
  "or_suites parse p i 0 acc = acc"
| "or_suites parse p i (Suc n) acc = or_suites parse p (i + 4) n (acc OR parse (bytes_at p i 4))"

definition read_le2 :: "u8 list \<Rightarrow> nat \<Rightarrow> u16" where
  "read_le2 p i = LE_READ_2 (bytes_at p i 2)"

definition parse_rsn_groupmgmt :: "u8 list \<Rightarrow> nat \<Rightarrow> nat \<Rightarrow> rsnparams \<Rightarrow> u16 \<times> rsnparams" where
  "parse_rsn_groupmgmt p frm efrm rsn =
     (if frm + 4 > efrm then (0, rsn)
      else let rsn = rsn\<lparr>rsn_groupmgmtcipher := parse_rsn_cipher (bytes_at p frm 4)\<rparr> in
      if rsn_groupmgmtcipher rsn \<noteq> CIPHER_BIP then (STATUS_BAD_GROUP_CIPHER, rsn)
      else (STATUS_SUCCESS, rsn))"

text \<open>The PMKID count is stored in the 8-bit field \<open>rsn_npmkids\<close>, and the variable \<open>s\<close> that
  the code goes on with gets the stored value.\<close>

definition parse_rsn_pmkids :: "u8 list \<Rightarrow> nat \<Rightarrow> nat \<Rightarrow> rsnparams \<Rightarrow> u16 \<times> rsnparams" where
  "parse_rsn_pmkids p frm efrm rsn =
     (if frm + 2 > efrm then (0, rsn)
      else let rsn = rsn\<lparr>rsn_npmkids := ucast (read_le2 p frm)\<rparr>;
               s = unat (rsn_npmkids rsn); frm = frm + 2 in
      if frm + s * PMKID_LEN > efrm then (STATUS_IE_INVALID, rsn)
      else if s \<noteq> 0
      then parse_rsn_groupmgmt p (frm + s * PMKID_LEN) efrm
             (rsn\<lparr>rsn_pmkids := bytes_at p frm (s * PMKID_LEN)\<rparr>)
      else parse_rsn_groupmgmt p frm efrm rsn)"

definition parse_rsn_caps :: "u8 list \<Rightarrow> nat \<Rightarrow> nat \<Rightarrow> rsnparams \<Rightarrow> u16 \<times> rsnparams" where
  "parse_rsn_caps p frm efrm rsn =
     (if frm + 2 > efrm then (0, rsn)
      else parse_rsn_pmkids p (frm + 2) efrm (rsn\<lparr>rsn_caps := read_le2 p frm\<rparr>))"

definition parse_rsn_akms :: "u8 list \<Rightarrow> nat \<Rightarrow> nat \<Rightarrow> rsnparams \<Rightarrow> u16 \<times> rsnparams" where
  "parse_rsn_akms p frm efrm rsn =
     (if frm + 2 > efrm then (0, rsn)
      else let rsn = rsn\<lparr>rsn_nakms := read_le2 p frm\<rparr>;
               n = unat (rsn_nakms rsn); frm = frm + 2 in
      if frm + n * 4 > efrm then (STATUS_IE_INVALID, rsn)
      else parse_rsn_caps p (frm + n * 4) efrm
             (rsn\<lparr>rsn_akms := or_suites parse_rsn_akm p frm n AKM_NONE\<rparr>))"

definition bad_usegroup :: "rsnparams \<Rightarrow> bool" where
  "bad_usegroup rsn \<longleftrightarrow> has_flag (rsn_ciphers rsn) CIPHER_USEGROUP \<and>
     (rsn_ciphers rsn \<noteq> CIPHER_USEGROUP \<or> rsn_groupcipher rsn = CIPHER_CCMP)"

definition parse_rsn_pairwise :: "u8 list \<Rightarrow> nat \<Rightarrow> nat \<Rightarrow> rsnparams \<Rightarrow> u16 \<times> rsnparams" where
  "parse_rsn_pairwise p frm efrm rsn =
     (if frm + 2 > efrm then (0, rsn)
      else let rsn = rsn\<lparr>rsn_nciphers := read_le2 p frm\<rparr>;
               m = unat (rsn_nciphers rsn); frm = frm + 2 in
      if frm + m * 4 > efrm then (STATUS_IE_INVALID, rsn)
      else let rsn = rsn\<lparr>rsn_ciphers := or_suites parse_rsn_cipher p frm m CIPHER_NONE\<rparr> in
      if bad_usegroup rsn then (STATUS_BAD_PAIRWISE_CIPHER, rsn)
      else parse_rsn_akms p (frm + m * 4) efrm rsn)"

definition rsn_defaults :: "rsnparams \<Rightarrow> rsnparams" where
  "rsn_defaults rsn = rsn\<lparr>rsn_groupcipher := CIPHER_CCMP, rsn_nciphers := 1,
     rsn_ciphers := CIPHER_CCMP, rsn_groupmgmtcipher := CIPHER_BIP, rsn_nakms := 1,
     rsn_akms := AKM_8021X, rsn_caps := 0, rsn_npmkids := 0\<rparr>"

definition parse_rsn_body :: "u8 list \<Rightarrow> nat \<Rightarrow> rsnparams \<Rightarrow> u16 \<times> rsnparams" where
  "parse_rsn_body p len rsn =
     (if read_le2 p 0 \<noteq> 1 then (STATUS_RSN_IE_VER_UNSUP, rsn)
      else let rsn = rsn_defaults rsn in
      if 2 + 4 > len then (0, rsn)
      else let rsn = rsn\<lparr>rsn_groupcipher := parse_rsn_cipher (bytes_at p 2 4)\<rparr> in
      if rsn_groupcipher rsn \<in> {CIPHER_NONE, CIPHER_USEGROUP, CIPHER_BIP}
      then (STATUS_BAD_GROUP_CIPHER, rsn)
      else parse_rsn_pairwise p 6 len rsn)"

text \<open>\<open>too_small\<close> is the counter \<^verbatim>\<open>is_rx_elem_toosmall\<close>.\<close>

definition parse_rsn :: "u8 list \<Rightarrow> rsnparams \<Rightarrow> nat \<Rightarrow> (u16 \<times> rsnparams) \<times> nat" where
  "parse_rsn frm rsn too_small =
     (if byte_at frm 1 < 2 then ((STATUS_IE_INVALID, rsn), too_small + 1)
      else (parse_rsn_body (drop 2 frm) (unat (byte_at frm 1)) rsn, too_small))"

definition parse_wpa :: "u8 list \<Rightarrow> rsnparams \<Rightarrow> nat \<Rightarrow> (u16 \<times> rsnparams) \<times> nat" where
  "parse_wpa frm rsn too_small =
     (if byte_at frm 1 < 6 then ((STATUS_IE_INVALID, rsn), too_small + 1)
      else (parse_rsn_body (drop 6 frm) (unat (byte_at frm 1) - 4) rsn, too_small))"

section \<open>EDCA and WMM parameters\<close>

record edca_ac_params =
  ac_ecwmin :: u8
  ac_ecwmax :: u8
  ac_aifsn :: u8
  ac_txoplimit :: u16
  ac_acm :: u8

abbreviation (input) EDCA_NUM_AC :: nat where "EDCA_NUM_AC \<equiv> 4"

record edca_com =
  ic_edca_updtcount :: u32
  ic_edca_ac :: "edca_ac_params list"
  edca_qos :: bool
  edca_too_small :: nat
  edca_updates :: nat

text \<open>\<open>edca_qos\<close> says that \<^verbatim>\<open>IEEE80211_F_QOS\<close> is set and the driver installed
  \<open>ic_updateedca\<close>; \<open>edca_updates\<close> counts the calls of that hook.\<close>

definition edca_record :: "u8 list \<Rightarrow> edca_ac_params" where
  "edca_record frm = \<lparr>
     ac_ecwmin = byte_at frm 1 AND 0xf,
     ac_ecwmax = drop_bit 4 (byte_at frm 1),
     ac_aifsn = byte_at frm 0 AND 0xf,
     ac_txoplimit = LE_READ_2 (drop 2 frm),
     ac_acm = drop_bit 4 (byte_at frm 0) AND 1\<rparr>"

definition parse_edca_params_body :: "u8 list \<Rightarrow> edca_com \<Rightarrow> u16 \<times> edca_com" where
  "parse_edca_params_body frm ic =
     (let updtcount = ucast (byte_at frm 0 AND 0xf) in
      if updtcount = ic_edca_updtcount ic then (0, ic)
      else let ic = ic\<lparr>ic_edca_updtcount := updtcount,
                       ic_edca_ac := map (\<lambda>aci. edca_record (drop (2 + 4 * aci) frm))
                                       [0..<EDCA_NUM_AC]\<rparr> in
        (0, if edca_qos ic then ic\<lparr>edca_updates := edca_updates ic + 1\<rparr> else ic))"

definition parse_edca_params :: "u8 list \<Rightarrow> edca_com \<Rightarrow> u16 \<times> edca_com" where
  "parse_edca_params frm ic =
     (if byte_at frm 1 < 18
      then (REASON_IE_INVALID, ic\<lparr>edca_too_small := edca_too_small ic + 1\<rparr>)
      else parse_edca_params_body (drop 2 frm) ic)"

definition parse_wmm_params :: "u8 list \<Rightarrow> edca_com \<Rightarrow> u16 \<times> edca_com" where
  "parse_wmm_params frm ic =
     (if byte_at frm 1 < 24
      then (REASON_IE_INVALID, ic\<lparr>edca_too_small := edca_too_small ic + 1\<rparr>)
      else parse_edca_params_body (drop 8 frm) ic)"

section \<open>Saved copies of elements\<close>

text \<open>\<open>*ie\<close> is \<open>None\<close> for the null pointer; \<open>alloc\<close> says whether \<^verbatim>\<open>malloc\<close> succeeds when it is
  called.  The result is the error code and the new value of \<open>*ie\<close>.\<close>

abbreviation (input) ENOMEM :: int where "ENOMEM \<equiv> 12"

definition save_ie :: "bool \<Rightarrow> u8 list \<Rightarrow> u8 list option \<Rightarrow> int \<times> u8 list option" where
  "save_ie alloc frm ie =
     (let olen = (case ie of None \<Rightarrow> 0 | Some e \<Rightarrow> 2 + unat (byte_at e 1));
          len = 2 + unat (byte_at frm 1) in
      if (ie = None \<or> olen \<noteq> len) \<and> \<not> alloc then (ENOMEM, None)
      else (0, Some (bytes_at frm 0 len)))"

definition save_ie_tlv ::
  "bool \<Rightarrow> u8 list \<Rightarrow> u8 list option \<Rightarrow> u32 \<Rightarrow> u32 \<Rightarrow> int \<times> u8 list option \<times> u32" where
  "save_ie_tlv alloc frm ie accept_len len =
     (if (ie = None \<or> accept_len \<noteq> len) \<and> \<not> alloc then (ENOMEM, None, accept_len)
      else (0, Some (bytes_at frm 0 (unat len)), len))"

end
