(* ===== verification/CryptoPrims.thy ===== *)
theory CryptoPrims
  imports Prelude
begin

text \<open>
  The constructions of \<^verbatim>\<open>openbsd/crypto\<close> that the key management uses: HMAC
  (\<^verbatim>\<open>hmac.c\<close>), AES-CMAC (\<^verbatim>\<open>cmac.c\<close>), ARC4 (\<^verbatim>\<open>arc4.c\<close>) and AES Key Wrap
  (\<^verbatim>\<open>key_wrap.c\<close>).  The hash functions and the AES block cipher below them are
  arguments: a hash maps the bytes fed to its context to the digest, a block cipher under a key
  maps a block to a block.
\<close>

section \<open>HMAC\<close>

type_synonym hashf = "u8 list \<Rightarrow> u8 list"

text \<open>A context holds the bytes given to the inner hash so far and the stored key.\<close>

record hmac_ctx =
  hx_inner :: "u8 list"
  hx_key :: "u8 list"

definition hmac_pad :: "nat \<Rightarrow> u8 \<Rightarrow> u8 list \<Rightarrow> u8 list" where
  "hmac_pad block c key = map (\<lambda>b. b XOR c) (key @ replicate (block - length key) 0)"

definition hmac_init :: "hashf \<Rightarrow> nat \<Rightarrow> u8 list \<Rightarrow> hmac_ctx" where
  "hmac_init H block key =
     (let k = (if length key > block then H key else key)
      in \<lparr>hx_inner = hmac_pad block 0x36 k, hx_key = k\<rparr>)"

definition hmac_update :: "u8 list \<Rightarrow> hmac_ctx \<Rightarrow> hmac_ctx" where
  "hmac_update data ctx = ctx\<lparr>hx_inner := hx_inner ctx @ data\<rparr>"

definition hmac_final :: "hashf \<Rightarrow> nat \<Rightarrow> hmac_ctx \<Rightarrow> u8 list" where
  "hmac_final H block ctx = H (hmac_pad block 0x5c (hx_key ctx) @ H (hx_inner ctx))"

abbreviation (input) HMAC_BLOCK_LENGTH :: nat where "HMAC_BLOCK_LENGTH \<equiv> 64"

definition HMAC_MD5_Init :: "hashf \<Rightarrow> u8 list \<Rightarrow> hmac_ctx" where
  "HMAC_MD5_Init md5 key = hmac_init md5 HMAC_BLOCK_LENGTH key"
definition HMAC_MD5_Final :: "hashf \<Rightarrow> hmac_ctx \<Rightarrow> u8 list" where
  "HMAC_MD5_Final md5 ctx = hmac_final md5 HMAC_BLOCK_LENGTH ctx"
definition HMAC_SHA1_Init :: "hashf \<Rightarrow> u8 list \<Rightarrow> hmac_ctx" where
  "HMAC_SHA1_Init sha1 key = hmac_init sha1 HMAC_BLOCK_LENGTH key"
definition HMAC_SHA1_Final :: "hashf \<Rightarrow> hmac_ctx \<Rightarrow> u8 list" where
  "HMAC_SHA1_Final sha1 ctx = hmac_final sha1 HMAC_BLOCK_LENGTH ctx"
definition HMAC_SHA256_Init :: "hashf \<Rightarrow> u8 list \<Rightarrow> hmac_ctx" where
  "HMAC_SHA256_Init sha256 key = hmac_init sha256 HMAC_BLOCK_LENGTH key"
definition HMAC_SHA256_Final :: "hashf \<Rightarrow> hmac_ctx \<Rightarrow> u8 list" where
  "HMAC_SHA256_Final sha256 ctx = hmac_final sha256 HMAC_BLOCK_LENGTH ctx"

text \<open>The function that RFC 2104 defines.\<close>

definition hmac :: "hashf \<Rightarrow> u8 list \<Rightarrow> u8 list \<Rightarrow> u8 list" where
  "hmac H key msg =
     (let k = (if length key > HMAC_BLOCK_LENGTH then H key else key)
      in H (hmac_pad HMAC_BLOCK_LENGTH 0x5c k @ H (hmac_pad HMAC_BLOCK_LENGTH 0x36 k @ msg)))"

lemma hmac_update_update [simp]: "hmac_update b (hmac_update a ctx) = hmac_update (a @ b) ctx"
  by (simp add: hmac_update_def)

lemma hmac_streaming:
  "hmac_final H HMAC_BLOCK_LENGTH (hmac_update msg (hmac_init H HMAC_BLOCK_LENGTH key)) = hmac H key msg"
  by (simp add: hmac_final_def hmac_update_def hmac_init_def hmac_def Let_def)

lemmas HMAC_defs = HMAC_MD5_Init_def HMAC_MD5_Final_def HMAC_SHA1_Init_def HMAC_SHA1_Final_def
  HMAC_SHA256_Init_def HMAC_SHA256_Final_def

section \<open>AES-CMAC\<close>

definition xor_bytes :: "u8 list \<Rightarrow> u8 list \<Rightarrow> u8 list" where
  "xor_bytes v r = map2 (\<lambda>a b. a XOR b) v r"

text \<open>\<open>cm_M_last\<close> is the used part of the C array \<open>M_last\<close>; \<open>M_n\<close> is its length.\<close>

record cmac_ctx =
  cm_X :: "u8 list"
  cm_M_last :: "u8 list"

definition AES_CMAC_Init :: cmac_ctx where
  "AES_CMAC_Init = \<lparr>cm_X = replicate 16 0, cm_M_last = []\<rparr>"

text \<open>The loop over the blocks that are not the last: the new \<open>X\<close> and what is kept.\<close>

function cmac_loop :: "hashf \<Rightarrow> u8 list \<Rightarrow> u8 list \<Rightarrow> u8 list \<times> u8 list" where
  "cmac_loop E X data =
     (if length data > 16 then cmac_loop E (E (xor_bytes (take 16 data) X)) (drop 16 data)
      else (X, data))"
  by pat_completeness auto
termination
  by (relation "measure (\<lambda>(E, X, data). length data)") auto

definition cmac_save :: "u8 list \<times> u8 list \<Rightarrow> cmac_ctx" where
  "cmac_save r = \<lparr>cm_X = fst r, cm_M_last = snd r\<rparr>"

definition AES_CMAC_Update :: "hashf \<Rightarrow> u8 list \<Rightarrow> cmac_ctx \<Rightarrow> cmac_ctx" where
  "AES_CMAC_Update E data ctx =
     (if cm_M_last ctx \<noteq> [] then
        (let mlen = min (16 - length (cm_M_last ctx)) (length data);
             last = cm_M_last ctx @ take mlen data in
         if length last < 16 \<or> length data = mlen then ctx\<lparr>cm_M_last := last\<rparr>
         else cmac_save (cmac_loop E (E (xor_bytes last (cm_X ctx))) (drop mlen data)))
      else cmac_save (cmac_loop E (cm_X ctx) data))"

definition lshift16 :: "u8 list \<Rightarrow> u8 list" where
  "lshift16 v = map (\<lambda>i. push_bit 1 (v ! i) OR drop_bit 7 (v ! (i + 1))) [0..<15]
     @ [push_bit 1 (v ! 15)]"

definition cmac_subkey :: "u8 list \<Rightarrow> u8 list" where
  "cmac_subkey k =
     (if bit (k ! 0) 7 then (lshift16 k)[15 := (lshift16 k) ! 15 XOR 0x87] else lshift16 k)"

definition AES_CMAC_Final :: "hashf \<Rightarrow> cmac_ctx \<Rightarrow> u8 list" where
  "AES_CMAC_Final E ctx =
     (let K1 = cmac_subkey (E (replicate 16 0)); m = cm_M_last ctx;
          last = (if length m = 16 then xor_bytes K1 m
                  else xor_bytes (cmac_subkey K1) (m @ [0x80] @ replicate (15 - length m) 0))
      in E (xor_bytes last (cm_X ctx)))"

definition aes_cmac :: "hashf \<Rightarrow> u8 list \<Rightarrow> u8 list" where
  "aes_cmac E msg = AES_CMAC_Final E (AES_CMAC_Update E msg AES_CMAC_Init)"

declare cmac_loop.simps [simp del]

lemma cmac_loop_last: "length (snd (cmac_loop E X data)) \<le> 16"
  by (induction E X data rule: cmac_loop.induct) (subst cmac_loop.simps, simp)

lemma cmac_loop_append:
  "cmac_loop E (fst (cmac_loop E X a)) (snd (cmac_loop E X a) @ b) = cmac_loop E X (a @ b)"
proof (induction E X a rule: cmac_loop.induct)
  case (1 E X a)
  show ?case
  proof (cases "length a > 16")
    case True
    have "cmac_loop E X (a @ b) = cmac_loop E (E (xor_bytes (take 16 a) X)) (drop 16 a @ b)"
      using True by (subst cmac_loop.simps) simp
    moreover have "cmac_loop E X a = cmac_loop E (E (xor_bytes (take 16 a) X)) (drop 16 a)"
      using True by (subst cmac_loop.simps) simp
    ultimately show ?thesis using "1.IH" [OF True] by simp
  next
    case False
    then have "cmac_loop E X a = (X, a)" by (subst cmac_loop.simps) simp
    then show ?thesis by simp
  qed
qed

lemma cmac_update_loop:
  assumes "length (cm_M_last ctx) \<le> 16"
  shows "AES_CMAC_Update E d ctx = cmac_save (cmac_loop E (cm_X ctx) (cm_M_last ctx @ d))"
proof (cases "cm_M_last ctx = []")
  case True
  then show ?thesis by (simp add: AES_CMAC_Update_def)
next
  case False
  let ?m = "cm_M_last ctx" and ?n = "min (16 - length (cm_M_last ctx)) (length d)"
  show ?thesis
  proof (cases "length (?m @ d) \<le> 16")
    case True
    then have "?n = length d" by simp
    moreover have "cmac_loop E (cm_X ctx) (?m @ d) = (cm_X ctx, ?m @ d)"
      using True by (subst cmac_loop.simps) simp
    ultimately show ?thesis using False by (simp add: AES_CMAC_Update_def cmac_save_def Let_def)
  next
    case big: False
    then have n: "?n = 16 - length ?m" "?n < length d" using assms by auto
    have "cmac_loop E (cm_X ctx) (?m @ d)
        = cmac_loop E (E (xor_bytes (?m @ take ?n d) (cm_X ctx))) (drop ?n d)"
      using big n assms by (subst cmac_loop.simps) simp
    then show ?thesis using False n assms by (simp add: AES_CMAC_Update_def Let_def)
  qed
qed

text \<open>Feeding a message in two parts is feeding it at once.\<close>

lemma cmac_update_append:
  assumes "length (cm_M_last ctx) \<le> 16"
  shows "AES_CMAC_Update E b (AES_CMAC_Update E a ctx) = AES_CMAC_Update E (a @ b) ctx"
proof -
  let ?r = "cmac_loop E (cm_X ctx) (cm_M_last ctx @ a)"
  have "AES_CMAC_Update E b (cmac_save ?r) = cmac_save (cmac_loop E (fst ?r) (snd ?r @ b))"
    using cmac_loop_last by (subst cmac_update_loop) (simp_all add: cmac_save_def)
  then show ?thesis by (simp add: cmac_update_loop [OF assms] cmac_loop_append)
qed

section \<open>ARC4\<close>

abbreviation (input) RC4STATE :: nat where "RC4STATE \<equiv> 256"

record rc4_ctx =
  rc4_x :: u8
  rc4_y :: u8
  rc4_state :: "u8 list"

definition rc4_swap :: "u8 \<Rightarrow> u8 \<Rightarrow> u8 list \<Rightarrow> u8 list" where
  "rc4_swap x y st = st[unat x := st ! unat y, unat y := st ! unat x]"

text \<open>The key set-up: \<open>n\<close> of the 256 rounds are left.\<close>

fun rc4_setup_loop :: "nat \<Rightarrow> u8 list \<Rightarrow> u8 \<Rightarrow> u8 \<Rightarrow> u8 list \<Rightarrow> u8 list" where
  "rc4_setup_loop 0 key x y st = st"
| "rc4_setup_loop (Suc n) key x y st =
     (let i = of_nat (RC4STATE - Suc n); y = key ! unat x + st ! unat i + y
      in rc4_setup_loop n key (of_nat ((unat x + 1) mod length key)) y (rc4_swap i y st))"

definition rc4_keysetup :: "u8 list \<Rightarrow> rc4_ctx" where
  "rc4_keysetup key = \<lparr>rc4_x = 0, rc4_y = 0,
     rc4_state = rc4_setup_loop RC4STATE key 0 0 (map of_nat [0..<RC4STATE])\<rparr>"

definition rc4_step :: "rc4_ctx \<Rightarrow> rc4_ctx" where
  "rc4_step ctx =
     (let x = rc4_x ctx + 1; y = rc4_state ctx ! unat x + rc4_y ctx
      in \<lparr>rc4_x = x, rc4_y = y, rc4_state = rc4_swap x y (rc4_state ctx)\<rparr>)"

definition rc4_out :: "rc4_ctx \<Rightarrow> u8" where
  "rc4_out ctx = rc4_state ctx !
     unat (rc4_state ctx ! unat (rc4_x ctx) + rc4_state ctx ! unat (rc4_y ctx))"

fun rc4_crypt :: "rc4_ctx \<Rightarrow> u8 list \<Rightarrow> u8 list" where
  "rc4_crypt ctx [] = []"
| "rc4_crypt ctx (b # bs) = (let ctx = rc4_step ctx in (b XOR rc4_out ctx) # rc4_crypt ctx bs)"

fun rc4_getbytes :: "rc4_ctx \<Rightarrow> nat \<Rightarrow> u8 list" where
  "rc4_getbytes ctx 0 = []"
| "rc4_getbytes ctx (Suc n) = (let ctx = rc4_step ctx in rc4_out ctx # rc4_getbytes ctx n)"

fun rc4_skip :: "rc4_ctx \<Rightarrow> nat \<Rightarrow> rc4_ctx" where
  "rc4_skip ctx 0 = ctx"
| "rc4_skip ctx (Suc n) = rc4_skip (rc4_step ctx) n"

lemma rc4_crypt_stream: "rc4_crypt ctx d = xor_bytes d (rc4_getbytes ctx (length d))"
  by (induction ctx d rule: rc4_crypt.induct) (auto simp: xor_bytes_def Let_def)

lemma rc4_crypt_crypt: "rc4_crypt ctx (rc4_crypt ctx d) = d"
  by (induction ctx d rule: rc4_crypt.induct) (auto simp: Let_def xor.assoc)

lemma rc4_crypt_length [simp]: "length (rc4_crypt ctx d) = length d"
  by (induction ctx d rule: rc4_crypt.induct) (auto simp: Let_def)

section \<open>AES Key Wrap\<close>

definition be64 :: "u64 \<Rightarrow> u8 list" where
  "be64 t = map (\<lambda>i. ucast (drop_bit (56 - 8 * i) t)) [0..<8]"

definition wrap_IV :: "u8 list" where
  "wrap_IV = replicate 8 0xa6"

text \<open>One pass of the inner loop over the registers \<open>R[1..n]\<close>, with the step counter \<open>t\<close>.\<close>

fun wrap_pass :: "hashf \<Rightarrow> u64 \<Rightarrow> u8 list \<Rightarrow> u8 list list \<Rightarrow> u8 list \<times> u8 list list" where
  "wrap_pass E t A [] = (A, [])"
| "wrap_pass E t A (r # rs) =
     (let B = E (A @ r); A = xor_bytes (take 8 B) (be64 t);
          (A', rs') = wrap_pass E (t + 1) A rs
      in (A', drop 8 B # rs'))"

text \<open>\<open>j\<close> passes are left; each uses as many step numbers as there are registers.\<close>

fun wrap_passes :: "nat \<Rightarrow> hashf \<Rightarrow> u64 \<Rightarrow> u8 list \<Rightarrow> u8 list list \<Rightarrow> u8 list \<times> u8 list list" where
  "wrap_passes 0 E t A rs = (A, rs)"
| "wrap_passes (Suc j) E t A rs =
     (let (A, rs') = wrap_pass E t A rs in wrap_passes j E (t + of_nat (length rs)) A rs')"

fun blocks8 :: "nat \<Rightarrow> u8 list \<Rightarrow> u8 list list" where
  "blocks8 0 p = []"
| "blocks8 (Suc n) p = take 8 p # blocks8 n (drop 8 p)"

definition aes_key_wrap :: "hashf \<Rightarrow> u8 list \<Rightarrow> nat \<Rightarrow> u8 list" where
  "aes_key_wrap E P n =
     (let (A, rs) = wrap_passes 6 E 1 wrap_IV (blocks8 n P) in A @ concat rs)"

text \<open>The inverse pass goes from the last register to the first, so it runs over the reversed
  list and counts \<open>t\<close> down.\<close>

fun unwrap_pass :: "hashf \<Rightarrow> u64 \<Rightarrow> u8 list \<Rightarrow> u8 list list \<Rightarrow> u8 list \<times> u8 list list" where
  "unwrap_pass D t A [] = (A, [])"
| "unwrap_pass D t A (r # rs) =
     (let B = D (xor_bytes A (be64 t) @ r);
          (A', rs') = unwrap_pass D (t - 1) (take 8 B) rs
      in (A', drop 8 B # rs'))"

fun unwrap_passes :: "nat \<Rightarrow> hashf \<Rightarrow> u64 \<Rightarrow> u8 list \<Rightarrow> u8 list list \<Rightarrow> u8 list \<times> u8 list list" where
  "unwrap_passes 0 D t A rs = (A, rs)"
| "unwrap_passes (Suc j) D t A rs =
     (let (A, rs') = unwrap_pass D t A (rev rs)
      in unwrap_passes j D (t - of_nat (length rs)) A (rev rs'))"

text \<open>The result of \<open>timingsafe_bcmp\<close> (\<open>True\<close>: the integrity check failed) and the plain text.\<close>

definition aes_key_unwrap :: "hashf \<Rightarrow> u8 list \<Rightarrow> nat \<Rightarrow> bool \<times> u8 list" where
  "aes_key_unwrap D C n =
     (let (A, rs) = unwrap_passes 6 D (of_nat (6 * n)) (take 8 C) (blocks8 n (drop 8 C))
      in (A \<noteq> wrap_IV, concat rs))"

text \<open>What the round trip needs of the block cipher: blocks of 16 bytes, and decryption inverts
  encryption.\<close>

definition cipher_pair :: "hashf \<Rightarrow> hashf \<Rightarrow> bool" where
  "cipher_pair E D \<longleftrightarrow> (\<forall>b. length b = 16 \<longrightarrow> length (E b) = 16 \<and> D (E b) = b)"

lemma xor_bytes_length [simp]: "length (xor_bytes a b) = min (length a) (length b)"
  by (simp add: xor_bytes_def)

lemma be64_length [simp]: "length (be64 t) = 8"
  by (simp add: be64_def)

lemma xor_bytes_twice: "length a = length b \<Longrightarrow> xor_bytes (xor_bytes a b) b = a"
  by (rule nth_equalityI) (auto simp: xor_bytes_def xor.assoc)

definition regs_ok :: "u8 list list \<Rightarrow> bool" where
  "regs_ok rs \<longleftrightarrow> (\<forall>r \<in> set rs. length r = 8)"

lemma wrap_pass_shape:
  assumes "cipher_pair E D" "length A = 8" "regs_ok rs" "wrap_pass E t A rs = (A', rs')"
  shows "length A' = 8 \<and> regs_ok rs' \<and> length rs' = length rs"
  using assms
proof (induction E t A rs arbitrary: A' rs' rule: wrap_pass.induct)
  case (2 E t A r rs)
  let ?B = "E (A @ r)"
  have B: "length ?B = 16" using "2.prems" by (simp add: cipher_pair_def regs_ok_def)
  obtain A2 rs2 where w: "wrap_pass E (t + 1) (xor_bytes (take 8 ?B) (be64 t)) rs = (A2, rs2)"
    by fastforce
  have "length A2 = 8 \<and> regs_ok rs2 \<and> length rs2 = length rs"
    by (rule "2.IH") (use w "2.prems" B in \<open>auto simp: regs_ok_def\<close>)
  then show ?case using "2.prems" w B by (auto simp: regs_ok_def)
qed (auto simp: regs_ok_def)

lemma unwrap_pass_append:
  "unwrap_pass D t A (xs @ ys) =
     (let (A1, xs1) = unwrap_pass D t A xs; (A2, ys1) = unwrap_pass D (t - of_nat (length xs)) A1 ys
      in (A2, xs1 @ ys1))"
  by (induction D t A xs rule: unwrap_pass.induct)
    (auto simp: Let_def diff_diff_eq split: prod.splits)

text \<open>An unwrapping pass undoes a wrapping pass.\<close>

lemma unwrap_wrap_pass:
  assumes "cipher_pair E D" "length A = 8" "regs_ok rs" "wrap_pass E t A rs = (A', rs')"
  shows "unwrap_pass D (t + of_nat (length rs) - 1) A' (rev rs') = (A, rev rs)"
  using assms
proof (induction E t A rs arbitrary: A' rs' rule: wrap_pass.induct)
  case (2 E t A r rs)
  let ?B = "E (A @ r)" and ?A1 = "xor_bytes (take 8 (E (A @ r))) (be64 t)"
  have ok: "length r = 8" "regs_ok rs" using "2.prems" by (auto simp: regs_ok_def)
  have B: "length ?B = 16" "D ?B = A @ r"
    using "2.prems" ok by (auto simp: cipher_pair_def)
  obtain A2 rs2 where w: "wrap_pass E (t + 1) ?A1 rs = (A2, rs2)" by fastforce
  have out: "A' = A2" "rs' = drop 8 ?B # rs2" using "2.prems"(4) w by (auto simp: Let_def)
  have l: "length rs2 = length rs"
    using wrap_pass_shape [OF "2.prems"(1) _ ok(2) w] B by simp
  have "unwrap_pass D (t + 1 + of_nat (length rs) - 1) A2 (rev rs2) = (?A1, rev rs)"
    by (rule "2.IH") (use w "2.prems" B ok in auto)
  then have ih: "unwrap_pass D (t + of_nat (length rs)) A2 (rev rs2) = (?A1, rev rs)" by simp
  have "xor_bytes ?A1 (be64 t) = take 8 ?B" using B by (intro xor_bytes_twice) simp
  then have "unwrap_pass D t ?A1 [drop 8 ?B] = (A, [r])"
    using B "2.prems"(2) by (simp add: Let_def)
  then show ?case
    using ih l out by (simp add: unwrap_pass_append Let_def)
qed simp

lemma wrap_pass_length: "length (snd (wrap_pass E t A rs)) = length rs"
  by (induction E t A rs rule: wrap_pass.induct) (auto simp: Let_def split: prod.splits)

lemma wrap_passes_length: "length (snd (wrap_passes j E t A rs)) = length rs"
  by (induction j E t A rs rule: wrap_passes.induct)
    (auto simp: Let_def split: prod.splits, metis snd_conv wrap_pass_length)

lemma wrap_passes_shape:
  assumes c: "cipher_pair E D" and "length A = 8" "regs_ok rs" "wrap_passes j E t A rs = (A', rs')"
  shows "length A' = 8 \<and> regs_ok rs'"
  using assms(2-)
proof (induction j arbitrary: t A rs)
  case (Suc j)
  obtain A1 rs1 where w: "wrap_pass E t A rs = (A1, rs1)" by fastforce
  have "length A1 = 8 \<and> regs_ok rs1"
    using wrap_pass_shape [OF c Suc.prems(1,2) w] by blast
  then show ?case using Suc.IH [of A1 rs1] Suc.prems(3) w by simp
qed simp

text \<open>The passes seen from the last one.\<close>

lemma wrap_passes_last:
  "wrap_passes (Suc j) E t A rs =
    (let (A1, rs1) = wrap_passes j E t A rs in wrap_pass E (t + of_nat (j * length rs)) A1 rs1)"
proof (induction j arbitrary: t A rs)
  case (Suc j)
  obtain A1 rs1 where w: "wrap_pass E t A rs = (A1, rs1)" by fastforce
  have l: "length rs1 = length rs" using wrap_pass_length [of E t A rs] w by simp
  have "wrap_passes (Suc (Suc j)) E t A rs = wrap_passes (Suc j) E (t + of_nat (length rs)) A1 rs1"
    using w by simp
  also have "\<dots> = (let (A2, rs2) = wrap_passes j E (t + of_nat (length rs)) A1 rs1
      in wrap_pass E (t + of_nat (length rs) + of_nat (j * length rs1)) A2 rs2)"
    by (rule Suc.IH)
  finally show ?case using w l by (simp add: algebra_simps)
qed (simp split: prod.splits)

lemma unwrap_wrap_passes:
  assumes c: "cipher_pair E D" and ok: "length A = 8" "regs_ok rs"
  shows "wrap_passes j E t A rs = (A', rs') \<Longrightarrow>
    unwrap_passes j D (t + of_nat (j * length rs) - 1) A' rs' = (A, rs)"
proof (induction j arbitrary: A' rs')
  case (Suc j)
  obtain A1 rs1 where w: "wrap_passes j E t A rs = (A1, rs1)" by fastforce
  have p: "wrap_pass E (t + of_nat (j * length rs)) A1 rs1 = (A', rs')"
    using Suc.prems w by (simp only: wrap_passes_last) simp
  have s: "length A1 = 8" "regs_ok rs1" using wrap_passes_shape [OF c ok w] by auto
  have l: "length rs1 = length rs" using wrap_passes_length [of j E t A rs] w by simp
  have l': "length rs' = length rs" using wrap_pass_length [of E _ A1 rs1] p l by (metis snd_conv)
  have t: "t + of_nat (Suc j * length rs) - 1
      = t + of_nat (j * length rs) + of_nat (length rs1) - 1" using l by (simp add: algebra_simps)
  have "unwrap_pass D (t + of_nat (Suc j * length rs) - 1) A' (rev rs') = (A1, rev rs1)"
    unfolding t by (rule unwrap_wrap_pass [OF c s p])
  moreover have "t + of_nat (Suc j * length rs) - 1 - of_nat (length rs')
      = t + of_nat (j * length rs) - 1" using l' by (simp add: algebra_simps)
  moreover have "unwrap_pass D T A' (rev rs') = (A1, rev rs1) \<Longrightarrow>
      unwrap_passes (Suc j) D T A' rs' = unwrap_passes j D (T - of_nat (length rs')) A1 rs1" for T
    by simp
  ultimately show ?case using Suc.IH [OF w] by (simp only:)
qed simp

lemma length_blocks8 [simp]: "length (blocks8 n p) = n"
  by (induction n p rule: blocks8.induct) auto

lemma blocks8_regs: "length p = 8 * n \<Longrightarrow> regs_ok (blocks8 n p)"
  by (induction n p rule: blocks8.induct) (auto simp: regs_ok_def)

lemma concat_blocks8: "length p = 8 * n \<Longrightarrow> concat (blocks8 n p) = p"
  by (induction n p rule: blocks8.induct) auto

lemma blocks8_concat: "regs_ok rs \<Longrightarrow> blocks8 (length rs) (concat rs) = rs"
  by (induction rs) (auto simp: regs_ok_def)

lemma length_regs: "regs_ok rs \<Longrightarrow> length (concat rs) = 8 * length rs"
  by (induction rs) (auto simp: regs_ok_def)

lemma aes_key_wrap_length:
  assumes "cipher_pair E D" "length P = 8 * n"
  shows "length (aes_key_wrap E P n) = 8 * n + 8"
proof -
  obtain A rs where w: "wrap_passes 6 E 1 wrap_IV (blocks8 n P) = (A, rs)" by fastforce
  have s: "length A = 8 \<and> regs_ok rs"
    by (rule wrap_passes_shape [OF assms(1) _ blocks8_regs [OF assms(2)] w]) (simp add: wrap_IV_def)
  moreover have "length rs = n"
    using wrap_passes_length [of 6 E 1 wrap_IV "blocks8 n P"] w by simp
  ultimately show ?thesis using w length_regs [of rs] by (simp add: aes_key_wrap_def)
qed

text \<open>Key wrap round trip: unwrapping passes the integrity check and returns the plain text.\<close>

text \<open>The code of a block cipher on blocks of 16 bytes is a block.\<close>

lemma cmac_loop_length:
  "cipher_pair E D \<Longrightarrow> length X = 16 \<Longrightarrow> length (fst (cmac_loop E X data)) = 16"
proof (induction E X data rule: cmac_loop.induct)
  case (1 E X data)
  then show ?case by (subst cmac_loop.simps) (auto simp: cipher_pair_def)
qed

lemma cmac_subkey_length [simp]: "length (cmac_subkey k) = 16"
  by (simp add: cmac_subkey_def lshift16_def)

lemma aes_cmac_length:
  assumes "cipher_pair E D"
  shows "length (aes_cmac E msg) = 16"
proof -
  let ?c = "AES_CMAC_Update E msg AES_CMAC_Init"
  have c: "?c = cmac_save (cmac_loop E (replicate 16 0) msg)"
    by (simp add: cmac_update_loop AES_CMAC_Init_def)
  have "length (cm_X ?c) = 16" using cmac_loop_length [OF assms] by (simp add: c cmac_save_def)
  moreover have "length (cm_M_last ?c) \<le> 16" using cmac_loop_last by (simp add: c cmac_save_def)
  ultimately show ?thesis
    using assms by (auto simp: aes_cmac_def AES_CMAC_Final_def Let_def cipher_pair_def)
qed

lemma aes_key_unwrap_wrap:
  assumes c: "cipher_pair E D" and p: "length P = 8 * n"
  shows "aes_key_unwrap D (aes_key_wrap E P n) n = (False, P)"
proof -
  obtain A rs where w: "wrap_passes 6 E 1 wrap_IV (blocks8 n P) = (A, rs)" by fastforce
  have iv: "length wrap_IV = 8" by (simp add: wrap_IV_def)
  have s: "length A = 8" "regs_ok rs"
    using wrap_passes_shape [OF c iv blocks8_regs [OF p] w] by auto
  have l: "length rs = n"
    using wrap_passes_length [of 6 E 1 wrap_IV "blocks8 n P"] w by simp
  have u: "unwrap_passes 6 D (of_nat (6 * n)) A rs = (wrap_IV, blocks8 n P)"
    using unwrap_wrap_passes [OF c iv blocks8_regs [OF p] w] by simp
  have "aes_key_wrap E P n = A @ concat rs" using w by (simp add: aes_key_wrap_def)
  then show ?thesis
    using s u blocks8_concat [OF s(2)] l concat_blocks8 [OF p] by (simp add: aes_key_unwrap_def)
qed

text \<open>C19. AES Key Wrap round trip.  For a block cipher whose decryption inverts its encryption,
  unwrapping what was wrapped passes the integrity check and gives back the plain text.\<close>

theorem key_wrap_roundtrip:
  assumes "cipher_pair E D" and "length P = 8 * n"
  shows "aes_key_unwrap D (aes_key_wrap E P n) n = (False, P)
    \<and> length (aes_key_wrap E P n) = 8 * n + 8"
  using aes_key_unwrap_wrap [OF assms] aes_key_wrap_length [OF assms] by simp

theorem key_wrap_roundtrip_witness:
  "aes_key_unwrap rev (aes_key_wrap rev [1, 2, 3, 4, 5, 6, 7, 8, 9, 10, 11, 12, 13, 14, 15, 16] 2) 2
    = (False, [1, 2, 3, 4, 5, 6, 7, 8, 9, 10, 11, 12, 13, 14, 15, 16])"
  using key_wrap_roundtrip [of rev rev "[1, 2, 3, 4, 5, 6, 7, 8, 9, 10, 11, 12, 13, 14, 15, 16]" 2]
  by (simp add: cipher_pair_def)

text \<open>AES-CMAC does not depend on how the message is cut: feeding it in two parts gives the
  same code as feeding it at once, for every block cipher.\<close>

theorem cmac_streaming:
  "AES_CMAC_Final E (AES_CMAC_Update E b (AES_CMAC_Update E a AES_CMAC_Init)) = aes_cmac E (a @ b)"
  by (simp add: aes_cmac_def cmac_update_append AES_CMAC_Init_def)

end
