(* ===== verification/KeyMgmt.thy ===== *)
theory KeyMgmt
  imports InfoElem CryptoPrims
begin

text \<open>
  Keys and key derivation (\<^verbatim>\<open>net80211/ieee80211_crypto.c\<close>): the software keys, the choice of
  the key of a frame, the pseudo-random functions, the pairwise key hierarchy, the MIC and the
  encryption of EAPOL-Key frames, and the PMKSA cache.  The hash functions and AES are the
  record \<open>prims\<close>.
\<close>

record prims =
  pr_md5 :: hashf
  pr_sha1 :: hashf
  pr_sha256 :: hashf
  pr_aes_enc :: "u8 list \<Rightarrow> hashf"
  pr_aes_dec :: "u8 list \<Rightarrow> hashf"

section \<open>Keys\<close>

abbreviation (input) KEY_GROUP :: u32 where "KEY_GROUP \<equiv> 1"
abbreviation (input) KEY_TX :: u32 where "KEY_TX \<equiv> 2"
abbreviation (input) KEY_IGTK :: u32 where "KEY_IGTK \<equiv> 4"
abbreviation (input) KEY_SWCRYPTO :: u32 where "KEY_SWCRYPTO \<equiv> 0x80"
abbreviation (input) GROUP_NKID :: nat where "GROUP_NKID \<equiv> 6"
abbreviation (input) PMK_LEN :: nat where "PMK_LEN \<equiv> 32"
abbreviation (input) EINVAL :: int where "EINVAL \<equiv> 22"

text \<open>The software context behind \<open>k_priv\<close>: WEP keeps the next IV; TKIP keeps pointers to the two
  Michael keys, as offsets into \<open>k_key\<close>, and the two cached TTAKs; CCMP and BIP keep the expanded
  AES key, here the key itself.  \<^verbatim>\<open>malloc\<close> clears the memory it returns.\<close>

record tkip_ctx =
  tk_txmic :: nat
  tk_rxmic :: nat
  tk_txttak :: "16 word list"
  tk_rxttak :: "16 word list"
  tk_txttak_ok :: bool
  tk_rxttak_ok :: bool

datatype key_ctx = Wep_Ctx u32 | Tkip_Ctx tkip_ctx | Ccmp_Ctx "u8 list" | Bip_Ctx "u8 list"

record iee_key =
  k_id :: u8
  k_cipher :: u32
  k_flags :: u32
  k_len :: nat
  k_rsc :: "u64 list"
  k_mgmt_rsc :: u64
  k_tsc :: u64
  k_key :: "u8 list"
  k_priv :: "key_ctx option"

definition zero_key :: iee_key where
  "zero_key = \<lparr>k_id = 0, k_cipher = CIPHER_NONE, k_flags = 0, k_len = 0, k_rsc = replicate 16 0,
     k_mgmt_rsc = 0, k_tsc = 0, k_key = replicate 32 0, k_priv = None\<rparr>"

text \<open>\<open>memcpy(k->k_key, p, n)\<close> into the zeroed array of 32 bytes.\<close>

definition key_bytes32 :: "u8 list \<Rightarrow> nat \<Rightarrow> u8 list" where
  "key_bytes32 p n = bytes_at p 0 n @ replicate (32 - n) 0"

definition cipher_keylen :: "u32 \<Rightarrow> nat" where
  "cipher_keylen cipher =
     (if cipher = CIPHER_WEP40 then 5 else if cipher = CIPHER_TKIP then 32
      else if cipher = CIPHER_CCMP then 16 else if cipher = CIPHER_WEP104 then 13
      else if cipher = CIPHER_BIP then 16 else 0)"

text \<open>The per-cipher set-up functions; \<open>alloc\<close> says whether \<^verbatim>\<open>malloc\<close> succeeds, \<open>apple\<close> is the
  build option \<^verbatim>\<open>USE_APPLE_SUPPLICANT\<close>.\<close>

definition wep_set_key :: "bool \<Rightarrow> iee_key \<Rightarrow> int \<times> iee_key" where
  "wep_set_key alloc k = (if alloc then (0, k\<lparr>k_priv := Some (Wep_Ctx 0)\<rparr>) else (ENOMEM, k))"

definition tkip_set_key :: "bool \<Rightarrow> bool \<Rightarrow> ieee80211_opmode \<Rightarrow> iee_key \<Rightarrow> int \<times> iee_key" where
  "tkip_set_key alloc apple opmode k =
     (if \<not> alloc then (ENOMEM, k)
      else let ap = opmode = M_HOSTAP \<or> apple in
        (0, k\<lparr>k_priv := Some (Tkip_Ctx \<lparr>tk_txmic = (if ap then 16 else 24), tk_rxmic = (if ap then 24 else 16),
              tk_txttak = replicate 5 0, tk_rxttak = replicate 5 0, tk_txttak_ok = False,
              tk_rxttak_ok = False\<rparr>)\<rparr>))"

definition ccmp_set_key :: "bool \<Rightarrow> iee_key \<Rightarrow> int \<times> iee_key" where
  "ccmp_set_key alloc k =
     (if alloc then (0, k\<lparr>k_priv := Some (Ccmp_Ctx (bytes_at (k_key k) 0 16))\<rparr>) else (ENOMEM, k))"

definition bip_set_key :: "bool \<Rightarrow> iee_key \<Rightarrow> int \<times> iee_key" where
  "bip_set_key alloc k =
     (if alloc then (0, k\<lparr>k_priv := Some (Bip_Ctx (bytes_at (k_key k) 0 16))\<rparr>) else (ENOMEM, k))"

definition set_key :: "bool \<Rightarrow> bool \<Rightarrow> ieee80211_opmode \<Rightarrow> iee_key \<Rightarrow> int \<times> iee_key" where
  "set_key alloc apple opmode k =
     (let c = k_cipher k;
          (error, k) = (if c = CIPHER_WEP40 \<or> c = CIPHER_WEP104 then wep_set_key alloc k
                        else if c = CIPHER_TKIP then tkip_set_key alloc apple opmode k
                        else if c = CIPHER_CCMP then ccmp_set_key alloc k
                        else if c = CIPHER_BIP then bip_set_key alloc k
                        else (EINVAL, k))
      in (error, if error = 0 then k\<lparr>k_flags := k_flags k OR KEY_SWCRYPTO\<rparr> else k))"

text \<open>Deleting a key frees the context of a known cipher and clears the key; the result is the
  cleared key and the contexts freed.\<close>

definition known_cipher :: "u32 \<Rightarrow> bool" where
  "known_cipher c \<longleftrightarrow> c \<in> {CIPHER_WEP40, CIPHER_WEP104, CIPHER_TKIP, CIPHER_CCMP, CIPHER_BIP}"

definition delete_key :: "iee_key \<Rightarrow> iee_key \<times> key_ctx list" where
  "delete_key k = (zero_key, if known_cipher (k_cipher k) then
      (case k_priv k of None \<Rightarrow> [] | Some c \<Rightarrow> [c]) else [])"

definition clear_groupkeys :: "iee_key list \<Rightarrow> iee_key list \<times> key_ctx list" where
  "clear_groupkeys ks =
     (map (\<lambda>_. zero_key) ks,
      concat (map (\<lambda>k. if k_cipher k \<noteq> CIPHER_NONE then snd (delete_key k) else []) ks))"

section \<open>Choice of the key\<close>

text \<open>A key is the pairwise key of the node or an entry of \<open>ic_nw_keys\<close>.\<close>

datatype key_ref = Pairwise_Key | Nw_Key nat

record keysel =
  ks_rsnon :: bool
  ks_rsncipher :: u32
  ks_mfp :: bool
  ks_igtk_kid :: nat
  ks_def_txkey :: nat

definition is_mcast :: "mbuf \<Rightarrow> bool" where
  "is_mcast wh \<longleftrightarrow> bit (byte_at wh 4) 0"

definition uses_pairwise :: "keysel \<Rightarrow> mbuf \<Rightarrow> bool" where
  "uses_pairwise s wh \<longleftrightarrow> ks_rsnon s \<and> \<not> is_mcast wh \<and> ks_rsncipher s \<noteq> CIPHER_USEGROUP"

definition get_txkey :: "keysel \<Rightarrow> mbuf \<Rightarrow> key_ref" where
  "get_txkey s wh =
     (if uses_pairwise s wh then Pairwise_Key
      else Nw_Key (if ks_mfp s then ks_igtk_kid s else ks_def_txkey s))"

text \<open>\<^verbatim>\<open>ieee80211_get_hdrlen\<close> and the header predicates of \<^verbatim>\<open>ieee80211.h\<close>.\<close>

definition fc0_type :: "mbuf \<Rightarrow> u8" where
  "fc0_type wh = byte_at wh 0 AND 0x0c"

definition has_addr4 :: "mbuf \<Rightarrow> bool" where
  "has_addr4 wh \<longleftrightarrow> byte_at wh 1 AND 3 = 3"

definition has_qos :: "mbuf \<Rightarrow> bool" where
  "has_qos wh \<longleftrightarrow> byte_at wh 0 AND (0x0c OR 0x80) = (0x08 OR 0x80)"

definition has_htc :: "mbuf \<Rightarrow> bool" where
  "has_htc wh \<longleftrightarrow> has_flag (byte_at wh 1) 0x80 \<and> (has_qos wh \<or> fc0_type wh = 0)"

definition get_hdrlen :: "mbuf \<Rightarrow> nat" where
  "get_hdrlen wh = 24 + (if has_addr4 wh then 6 else 0) + (if has_qos wh then 2 else 0)
     + (if has_htc wh then 4 else 0)"

abbreviation (input) MMIE_LEN :: nat where "MMIE_LEN \<equiv> 18"

definition get_rxkey :: "keysel \<Rightarrow> mbuf \<Rightarrow> key_ref option" where
  "get_rxkey s m =
     (if uses_pairwise s m then Some Pairwise_Key
      else if \<not> is_mcast m \<or> fc0_type m \<noteq> 0 then
        (let hdrlen = get_hdrlen m in
         if length m < hdrlen + 4 then None
         else Some (Nw_Key (unat (drop_bit 6 (byte_at m (hdrlen + 3))))))
      else if length m < 24 + MMIE_LEN then None
      else let mmie = drop (length m - MMIE_LEN) m in
        if byte_at mmie 0 \<noteq> 76 \<or> byte_at mmie 1 \<noteq> 16 then None
        else let kid = LE_READ_2 (drop 2 mmie) in
          if kid \<noteq> 4 \<and> kid \<noteq> 5 then None else Some (Nw_Key (unat kid)))"

definition key_of :: "iee_key \<Rightarrow> iee_key list \<Rightarrow> key_ref \<Rightarrow> iee_key" where
  "key_of pk nw r = (case r of Pairwise_Key \<Rightarrow> pk | Nw_Key i \<Rightarrow> nw ! i)"

section \<open>Pseudo-random functions\<close>

text \<open>The digest lengths are those of SHA-1 and SHA-256; the last block is truncated.\<close>

abbreviation (input) SHA1_DIGEST_LENGTH :: nat where "SHA1_DIGEST_LENGTH \<equiv> 20"
abbreviation (input) SHA256_DIGEST_LENGTH :: nat where "SHA256_DIGEST_LENGTH \<equiv> 32"

function prf_loop :: "prims \<Rightarrow> u8 list \<Rightarrow> u8 list \<Rightarrow> u8 list \<Rightarrow> u8 \<Rightarrow> nat \<Rightarrow> u8 list" where
  "prf_loop pr key label cntx cntr len =
     (if len = 0 then []
      else let digest = HMAC_SHA1_Final (pr_sha1 pr) (hmac_update [cntr] (hmac_update cntx
                          (hmac_update label (HMAC_SHA1_Init (pr_sha1 pr) key)))) in
        if len < SHA1_DIGEST_LENGTH then take len digest
        else digest @ prf_loop pr key label cntx (cntr + 1) (len - SHA1_DIGEST_LENGTH))"
  by pat_completeness auto
termination
  by (relation "measure (\<lambda>(pr, key, label, cntx, cntr, len). len)") auto

definition ieee80211_prf :: "prims \<Rightarrow> u8 list \<Rightarrow> u8 list \<Rightarrow> u8 list \<Rightarrow> nat \<Rightarrow> u8 list" where
  "ieee80211_prf pr key label cntx len = prf_loop pr key label cntx 0 len"

function kdf_loop :: "prims \<Rightarrow> u8 list \<Rightarrow> u8 list \<Rightarrow> u8 list \<Rightarrow> u16 \<Rightarrow> u16 \<Rightarrow> nat \<Rightarrow> u8 list" where
  "kdf_loop pr key label cntx bits i len =
     (if len = 0 then []
      else let digest = HMAC_SHA256_Final (pr_sha256 pr) (hmac_update (LE_WRITE_2 bits)
                          (hmac_update cntx (hmac_update label (hmac_update (LE_WRITE_2 i)
                             (HMAC_SHA256_Init (pr_sha256 pr) key))))) in
        if len < SHA256_DIGEST_LENGTH then take len digest
        else digest @ kdf_loop pr key label cntx bits (i + 1) (len - SHA256_DIGEST_LENGTH))"
  by pat_completeness auto
termination
  by (relation "measure (\<lambda>(pr, key, label, cntx, bits, i, len). len)") auto

definition ieee80211_kdf :: "prims \<Rightarrow> u8 list \<Rightarrow> u8 list \<Rightarrow> u8 list \<Rightarrow> nat \<Rightarrow> u8 list" where
  "ieee80211_kdf pr key label cntx len = kdf_loop pr key label cntx (of_nat (len * 8)) 1 len"

declare prf_loop.simps [simp del] kdf_loop.simps [simp del]

section \<open>The pairwise key hierarchy\<close>

record ptk =
  ptk_kck :: "u8 list"
  ptk_kek :: "u8 list"
  ptk_tk :: "u8 list"

text \<open>\<^verbatim>\<open>memcmp\<close> is negative.\<close>

fun memcmp_lt :: "u8 list \<Rightarrow> u8 list \<Rightarrow> bool" where
  "memcmp_lt (a # as) (b # bs) = (a < b \<or> a = b \<and> memcmp_lt as bs)"
| "memcmp_lt _ _ = False"

text \<open>The string literal with its terminating zero: 23 bytes.\<close>

definition ptk_label :: "u8 list" where
  "ptk_label = [0x50, 0x61, 0x69, 0x72, 0x77, 0x69, 0x73, 0x65, 0x20, 0x6b, 0x65, 0x79, 0x20,
     0x65, 0x78, 0x70, 0x61, 0x6e, 0x73, 0x69, 0x6f, 0x6e, 0x00]"

definition min_max :: "u8 list \<Rightarrow> u8 list \<Rightarrow> u8 list" where
  "min_max a b = (if memcmp_lt a b then a @ b else b @ a)"

definition derive_ptk ::
  "prims \<Rightarrow> u32 \<Rightarrow> u8 list \<Rightarrow> u8 list \<Rightarrow> u8 list \<Rightarrow> u8 list \<Rightarrow> u8 list \<Rightarrow> ptk" where
  "derive_ptk pr akm pmk aa spa anonce snonce =
     (let buf = min_max aa spa @ min_max anonce snonce;
          out = (if is_sha256_akm akm then ieee80211_kdf pr pmk ptk_label buf 64
                 else ieee80211_prf pr pmk ptk_label buf 64)
      in \<lparr>ptk_kck = take 16 out, ptk_kek = take 16 (drop 16 out), ptk_tk = take 32 (drop 32 out)\<rparr>)"

definition pmk_name :: "u8 list" where
  "pmk_name = [0x50, 0x4d, 0x4b, 0x20, 0x4e, 0x61, 0x6d, 0x65]"

definition pmkid_sha1 :: "prims \<Rightarrow> u8 list \<Rightarrow> u8 list \<Rightarrow> u8 list \<Rightarrow> u8 list" where
  "pmkid_sha1 pr pmk aa spa = take PMKID_LEN (HMAC_SHA1_Final (pr_sha1 pr) (hmac_update spa
     (hmac_update aa (hmac_update pmk_name (HMAC_SHA1_Init (pr_sha1 pr) pmk)))))"

definition pmkid_sha256 :: "prims \<Rightarrow> u8 list \<Rightarrow> u8 list \<Rightarrow> u8 list \<Rightarrow> u8 list" where
  "pmkid_sha256 pr pmk aa spa = take PMKID_LEN (HMAC_SHA256_Final (pr_sha256 pr) (hmac_update spa
     (hmac_update aa (hmac_update pmk_name (HMAC_SHA256_Init (pr_sha256 pr) pmk)))))"

definition derive_pmkid :: "prims \<Rightarrow> u32 \<Rightarrow> u8 list \<Rightarrow> u8 list \<Rightarrow> u8 list \<Rightarrow> u8 list" where
  "derive_pmkid pr akm pmk aa spa =
     (if is_sha256_akm akm then pmkid_sha256 pr pmk aa spa else pmkid_sha1 pr pmk aa spa)"

section \<open>EAPOL-Key frames\<close>

text \<open>An EAPOL-Key frame: the fields of \<^verbatim>\<open>struct ieee80211_eapol_key\<close>, multi-byte ones as
  the value that \<^verbatim>\<open>BE_READ\<close> gives, and the bytes behind the header.\<close>

record eapol_key =
  ek_version :: u8
  ek_type :: u8
  ek_len :: u16
  ek_desc :: u8
  ek_info :: u16
  ek_keylen :: u16
  ek_replaycnt :: u64
  ek_nonce :: "u8 list"
  ek_iv :: "u8 list"
  ek_rsc :: "u8 list"
  ek_reserved :: "u8 list"
  ek_mic :: "u8 list"
  ek_paylen :: u16
  ek_data :: "u8 list"

abbreviation (input) EAPOL_HDR :: nat where "EAPOL_HDR \<equiv> 99"
abbreviation (input) KEY_VERSION_MASK :: u16 where "KEY_VERSION_MASK \<equiv> 7"
abbreviation (input) KEY_DESC_V1 :: u16 where "KEY_DESC_V1 \<equiv> 1"
abbreviation (input) KEY_DESC_V2 :: u16 where "KEY_DESC_V2 \<equiv> 2"
abbreviation (input) KEY_DESC_V3 :: u16 where "KEY_DESC_V3 \<equiv> 3"

definition be16 :: "u16 \<Rightarrow> u8 list" where
  "be16 v = [ucast (drop_bit 8 v), ucast v]"

text \<open>The frame in memory, and the frame read from memory.\<close>

definition eapol_bytes :: "eapol_key \<Rightarrow> u8 list" where
  "eapol_bytes k = [ek_version k, ek_type k] @ be16 (ek_len k) @ [ek_desc k] @ be16 (ek_info k)
     @ be16 (ek_keylen k) @ be64 (ek_replaycnt k) @ ek_nonce k @ ek_iv k @ ek_rsc k
     @ ek_reserved k @ ek_mic k @ be16 (ek_paylen k) @ ek_data k"

definition BE_READ_8 :: "u8 list \<Rightarrow> u64" where
  "BE_READ_8 p = push_bit 56 (ucast (byte_at p 0)) OR push_bit 48 (ucast (byte_at p 1))
     OR push_bit 40 (ucast (byte_at p 2)) OR push_bit 32 (ucast (byte_at p 3))
     OR push_bit 24 (ucast (byte_at p 4)) OR push_bit 16 (ucast (byte_at p 5))
     OR push_bit 8 (ucast (byte_at p 6)) OR ucast (byte_at p 7)"

definition eapol_parse :: "u8 list \<Rightarrow> eapol_key" where
  "eapol_parse p = \<lparr>ek_version = byte_at p 0, ek_type = byte_at p 1,
     ek_len = BE_READ_2 (drop 2 p), ek_desc = byte_at p 4, ek_info = BE_READ_2 (drop 5 p),
     ek_keylen = BE_READ_2 (drop 7 p), ek_replaycnt = BE_READ_8 (drop 9 p),
     ek_nonce = bytes_at p 17 32, ek_iv = bytes_at p 49 16, ek_rsc = bytes_at p 65 8,
     ek_reserved = bytes_at p 73 8, ek_mic = bytes_at p 81 16, ek_paylen = BE_READ_2 (drop 97 p),
     ek_data = drop EAPOL_HDR p\<rparr>"

text \<open>The MIC covers \<open>len + 4\<close> bytes from the start of the frame.\<close>

definition eapol_key_mic :: "prims \<Rightarrow> eapol_key \<Rightarrow> u8 list \<Rightarrow> eapol_key" where
  "eapol_key_mic pr k kck =
     (let msg = take (unat (ek_len k) + 4) (eapol_bytes k);
          v = ek_info k AND KEY_VERSION_MASK in
      if v = KEY_DESC_V1 then k\<lparr>ek_mic :=
        HMAC_MD5_Final (pr_md5 pr) (hmac_update msg (HMAC_MD5_Init (pr_md5 pr) kck))\<rparr>
      else if v = KEY_DESC_V2 then k\<lparr>ek_mic :=
        take 16 (HMAC_SHA1_Final (pr_sha1 pr) (hmac_update msg (HMAC_SHA1_Init (pr_sha1 pr) kck)))\<rparr>
      else if v = KEY_DESC_V3 then k\<lparr>ek_mic := aes_cmac (pr_aes_enc pr kck) msg\<rparr>
      else k)"

text \<open>The check recomputes the MIC with the field zeroed; the result is \<open>True\<close> when it differs,
  and the frame with the recomputed MIC.\<close>

definition eapol_key_check_mic :: "prims \<Rightarrow> eapol_key \<Rightarrow> u8 list \<Rightarrow> bool \<times> eapol_key" where
  "eapol_key_check_mic pr k kck =
     (let k' = eapol_key_mic pr (k\<lparr>ek_mic := replicate 16 0\<rparr>) kck
      in (ek_mic k' \<noteq> ek_mic k, k'))"

text \<open>The key counter of 32 bytes, incremented as a big-endian number.\<close>

fun incr_le :: "u8 list \<Rightarrow> u8 list" where
  "incr_le [] = []"
| "incr_le (b # bs) = (if b + 1 = 0 then 0 # incr_le bs else (b + 1) # bs)"

definition incr_globalcnt :: "u8 list \<Rightarrow> u8 list" where
  "incr_globalcnt cntr = rev (incr_le (rev cntr))"

definition rc4_eapol :: "u8 list \<Rightarrow> u8 list \<Rightarrow> u8 list \<Rightarrow> u8 list" where
  "rc4_eapol iv kek data = rc4_crypt (rc4_skip (rc4_keysetup (take 16 iv @ take 16 kek)) RC4STATE) data"

text \<open>The padding in front of AES Key Wrap, from length \<open>len\<close> on.\<close>

definition wrap_padding :: "nat \<Rightarrow> u8 list" where
  "wrap_padding len =
     (if len < 16 \<or> len mod 8 \<noteq> 0
      then let n = (if len < 16 then 16 - len else 8 - len mod 8) in 221 # replicate (n - 1) 0
      else [])"

definition eapol_key_encrypt ::
  "prims \<Rightarrow> u8 list \<Rightarrow> eapol_key \<Rightarrow> u8 list \<Rightarrow> u8 list \<times> eapol_key" where
  "eapol_key_encrypt pr cntr k kek =
     (let len = unat (ek_paylen k); v = ek_info k AND KEY_VERSION_MASK;
          data = take len (ek_data k) in
      if v = KEY_DESC_V1 then
        (let iv = bytes_at cntr 16 16
         in (incr_globalcnt cntr, k\<lparr>ek_iv := iv, ek_data := rc4_eapol iv kek data\<rparr>))
      else if v = KEY_DESC_V2 \<or> v = KEY_DESC_V3 then
        (let plain = data @ wrap_padding len; n = length plain div 8;
             wrapped = aes_key_wrap (pr_aes_enc pr (take 16 kek)) plain n;
             len = of_nat (length plain + 8)
         in (cntr, k\<lparr>ek_data := wrapped, ek_paylen := len, ek_len := of_nat EAPOL_HDR + len - 4\<rparr>))
      else (cntr, k))"

text \<open>Decryption in place; \<open>True\<close> is failure.  Unwrapping writes all but the last eight bytes of
  the key data, which keep the end of the cipher text.\<close>

definition eapol_key_decrypt :: "prims \<Rightarrow> eapol_key \<Rightarrow> u8 list \<Rightarrow> bool \<times> eapol_key" where
  "eapol_key_decrypt pr k kek =
     (let len = unat (ek_paylen k); v = ek_info k AND KEY_VERSION_MASK; data = ek_data k in
      if v = KEY_DESC_V1 then
        (False, k\<lparr>ek_data := rc4_eapol (ek_iv k) kek (bytes_at data 0 len) @ drop len data\<rparr>)
      else if v = KEY_DESC_V2 \<or> v = KEY_DESC_V3 then
        (if len < 16 + 8 \<or> len mod 8 \<noteq> 0 then (True, k)
         else let n = (len - 8) div 8;
                  (bad, p) = aes_key_unwrap (pr_aes_dec pr (take 16 kek)) (bytes_at data 0 len) n
           in (bad, k\<lparr>ek_data := p @ drop (n * 8) data\<rparr>))
      else (True, k))"

section \<open>The PMKSA cache\<close>

record pmksa =
  pmk_akm :: u32
  pmk_lifetime :: u32
  pmk_pmkid :: "u8 list"
  pmk_macaddr :: "u8 list"
  pmk_key :: "u8 list"

definition pmk_match :: "u32 \<Rightarrow> u8 list \<Rightarrow> pmksa \<Rightarrow> bool" where
  "pmk_match akm macaddr p \<longleftrightarrow> pmk_akm p = akm \<and> pmk_macaddr p = macaddr"

definition pmk_fill ::
  "prims \<Rightarrow> ieee80211_opmode \<Rightarrow> u8 list \<Rightarrow> u8 list \<Rightarrow> u8 list \<Rightarrow> u32 \<Rightarrow> pmksa \<Rightarrow> pmksa" where
  "pmk_fill pr opmode myaddr macaddr key lifetime p =
     p\<lparr>pmk_key := key, pmk_lifetime := lifetime,
       pmk_pmkid := (if opmode = M_HOSTAP then derive_pmkid pr (pmk_akm p) key myaddr macaddr
                     else derive_pmkid pr (pmk_akm p) key macaddr myaddr)\<rparr>"

text \<open>The first entry of the (station, AKM) pair is overwritten; without one, a new entry goes to
  the end of the queue if \<open>alloc\<close>.\<close>

fun pmksa_update :: "(pmksa \<Rightarrow> bool) \<Rightarrow> (pmksa \<Rightarrow> pmksa) \<Rightarrow> pmksa list \<Rightarrow> pmksa list option" where
  "pmksa_update P f [] = None"
| "pmksa_update P f (p # ps) = (if P p then Some (f p # ps) else map_option ((#) p) (pmksa_update P f ps))"

definition pmksa_add ::
  "bool \<Rightarrow> prims \<Rightarrow> ieee80211_opmode \<Rightarrow> u8 list \<Rightarrow> u32 \<Rightarrow> u8 list \<Rightarrow> u8 list \<Rightarrow> u32 \<Rightarrow> pmksa list
    \<Rightarrow> pmksa list" where
  "pmksa_add alloc pr opmode myaddr akm macaddr key lifetime cache =
     (let fill = pmk_fill pr opmode myaddr macaddr key lifetime in
      case pmksa_update (pmk_match akm macaddr) fill cache of
        Some c \<Rightarrow> c
      | None \<Rightarrow> if alloc then cache @ [fill \<lparr>pmk_akm = akm, pmk_lifetime = 0, pmk_pmkid = [],
                                          pmk_macaddr = macaddr, pmk_key = []\<rparr>] else cache)"

fun pmksa_find :: "u32 \<Rightarrow> u8 list \<Rightarrow> u8 list option \<Rightarrow> pmksa list \<Rightarrow> pmksa option" where
  "pmksa_find akm macaddr pmkid [] = None"
| "pmksa_find akm macaddr pmkid (p # ps) =
     (if pmk_match akm macaddr p \<and> (pmkid = None \<or> pmkid = Some (pmk_pmkid p)) then Some p
      else pmksa_find akm macaddr pmkid ps)"

section \<open>Attaching and detaching\<close>

record crypto_com =
  cc_caps :: u32
  cc_pmksa :: "pmksa list"
  cc_rsnprotos :: u32
  cc_rsnakms :: u32
  cc_rsnciphers :: u32
  cc_rsngroupcipher :: u32
  cc_rsngroupmgmtcipher :: u32
  cc_nw_keys :: "iee_key list"
  cc_psk :: "u8 list"
  cc_micfail_to :: ctimer

abbreviation (input) C_RSN :: u32 where "C_RSN \<equiv> 0x1000"

definition crypto_attach :: "crypto_com \<Rightarrow> crypto_com" where
  "crypto_attach ic =
     (let ic = ic\<lparr>cc_pmksa := []\<rparr>;
          ic = (if has_flag (cc_caps ic) C_RSN
                then ic\<lparr>cc_rsnprotos := 1, cc_rsnakms := AKM_PSK, cc_rsnciphers := CIPHER_CCMP,
                        cc_rsngroupcipher := CIPHER_CCMP, cc_rsngroupmgmtcipher := CIPHER_BIP\<rparr>
                else ic)
      in ic\<lparr>cc_micfail_to := timeout_set (cc_micfail_to ic)\<rparr>)"

definition crypto_detach :: "crypto_com \<Rightarrow> crypto_com" where
  "crypto_detach ic = ic\<lparr>cc_pmksa := [], cc_nw_keys := fst (clear_groupkeys (cc_nw_keys ic)),
     cc_psk := replicate PMK_LEN 0,
     cc_micfail_to := timeout_free (timeout_del (cc_micfail_to ic))\<rparr>"

end
