(* ===== verification/MgmtFrames.thy ===== *)
theory MgmtFrames
  imports InfoElem
begin

text \<open>
  Building management frames (\<^verbatim>\<open>net80211/ieee80211_output.c\<close>): the information elements
  and the probe, authentication, association, deauthentication and disassociation frames.
  A C function \<open>ieee80211_add_x(frm, ...)\<close> is the list of bytes it writes at \<open>frm\<close>; the
  pointer it returns is \<open>frm\<close> plus the length of that list.
\<close>

section \<open>Constants\<close>

abbreviation (input) RATE_SIZE :: nat where "RATE_SIZE \<equiv> 8"
abbreviation (input) RATE_MAXSIZE :: nat where "RATE_MAXSIZE \<equiv> 15"
abbreviation (input) MCLBYTES :: nat where "MCLBYTES \<equiv> 2048"
abbreviation (input) ADDR_LEN :: nat where "ADDR_LEN \<equiv> 6"
abbreviation (input) F_WEPON :: u32 where "F_WEPON \<equiv> 0x100"
abbreviation (input) F_SHSLOT :: u32 where "F_SHSLOT \<equiv> 0x20000"
abbreviation (input) F_SHPREAMBLE :: u32 where "F_SHPREAMBLE \<equiv> 0x40000"
abbreviation (input) F_QOS :: u32 where "F_QOS \<equiv> 0x80000"
abbreviation (input) F_USEPROT :: u32 where "F_USEPROT \<equiv> 0x100000"
abbreviation (input) F_MFPR :: u32 where "F_MFPR \<equiv> 0x01000000"
abbreviation (input) F_HTON :: u32 where "F_HTON \<equiv> 0x02000000"
abbreviation (input) F_VHTON :: u32 where "F_VHTON \<equiv> 0x20000000"
abbreviation (input) F_HEON :: u32 where "F_HEON \<equiv> 0x80000000"
abbreviation (input) C_SHSLOT :: u32 where "C_SHSLOT \<equiv> 0x80"
abbreviation (input) C_MFP :: u32 where "C_MFP \<equiv> 0x2000"
abbreviation (input) NODE_QOS :: u32 where "NODE_QOS \<equiv> 2"
abbreviation (input) NODE_PMKID :: u32 where "NODE_PMKID \<equiv> 0x200"
abbreviation (input) PROTO_RSN :: u32 where "PROTO_RSN \<equiv> 1"
abbreviation (input) PROTO_WPA :: u32 where "PROTO_WPA \<equiv> 2"
abbreviation (input) CAPINFO_ESS :: u16 where "CAPINFO_ESS \<equiv> 1"
abbreviation (input) CAPINFO_IBSS :: u16 where "CAPINFO_IBSS \<equiv> 2"
abbreviation (input) CAPINFO_PRIVACY :: u16 where "CAPINFO_PRIVACY \<equiv> 0x10"
abbreviation (input) CAPINFO_SHORT_PREAMBLE :: u16 where "CAPINFO_SHORT_PREAMBLE \<equiv> 0x20"
abbreviation (input) CAPINFO_SHORT_SLOTTIME :: u16 where "CAPINFO_SHORT_SLOTTIME \<equiv> 0x400"
abbreviation (input) RSNCAP_PTKSA_RCNT_MASK :: u16 where "RSNCAP_PTKSA_RCNT_MASK \<equiv> 0xc"
abbreviation (input) RSNCAP_GTKSA_RCNT_MASK :: u16 where "RSNCAP_GTKSA_RCNT_MASK \<equiv> 0x30"
abbreviation (input) RSNCAP_MFPR :: u16 where "RSNCAP_MFPR \<equiv> 0x40"
abbreviation (input) RSNCAP_MFPC :: u16 where "RSNCAP_MFPC \<equiv> 0x80"
abbreviation (input) RSNIE_MAXLEN :: nat where
  "RSNIE_MAXLEN \<equiv> 2 + 4 + 2 + 4 * 2 + 2 + 4 * 4 + 2 + 2 + 16 * 1 + 4"
abbreviation (input) WPAIE_MAXLEN :: nat where
  "WPAIE_MAXLEN \<equiv> 4 + 2 + 4 + 2 + 4 * 2 + 2 + 4 * 2"
abbreviation (input) CHAN_OFDM :: u32 where "CHAN_OFDM \<equiv> 0x40"
abbreviation (input) CHAN_2GHZ :: u32 where "CHAN_2GHZ \<equiv> 0x80"
abbreviation (input) CHAN_5GHZ :: u32 where "CHAN_5GHZ \<equiv> 0x100"
abbreviation (input) CHAN_DYN :: u32 where "CHAN_DYN \<equiv> 0x400"

abbreviation (input) MODE_AUTO :: nat where "MODE_AUTO \<equiv> 0"
abbreviation (input) MODE_11A :: nat where "MODE_11A \<equiv> 1"
abbreviation (input) MODE_11B :: nat where "MODE_11B \<equiv> 2"
abbreviation (input) MODE_11G :: nat where "MODE_11G \<equiv> 3"
abbreviation (input) MODE_11N :: nat where "MODE_11N \<equiv> 4"
abbreviation (input) MODE_11AC :: nat where "MODE_11AC \<equiv> 5"
abbreviation (input) MODE_11AX :: nat where "MODE_11AX \<equiv> 6"

section \<open>State\<close>

text \<open>\<open>ch_ieee\<close> is the channel number, the index of the channel in \<open>ic_channels\<close>.\<close>

record channel =
  ch_ieee :: u8
  ch_flags :: u32

record rateset =
  rs_nrates :: u8
  rs_rates :: "u8 list"

text \<open>The fields of \<^verbatim>\<open>struct ieee80211_node\<close> that the builders read; \<open>mn_chan\<close> points to a
  channel of the table.\<close>

record mgmt_node =
  mn_chan :: channel
  mn_essid :: "u8 list"
  mn_esslen :: u8
  mn_rates :: rateset
  mn_bssid :: "u8 list"
  mn_intval :: u16
  mn_flags :: u32
  mn_associd :: u16
  mn_rsnprotos :: u32
  mn_rsngroupcipher :: u32
  mn_rsnciphers :: u32
  mn_rsnakms :: u32
  mn_rsncaps :: u16
  mn_pmkid :: "u8 list"
  mn_htcaps :: u16
  mn_htop0 :: u8
  mn_htop1 :: u16
  mn_htop2 :: u16

text \<open>The fields of \<^verbatim>\<open>struct ieee80211com\<close>.  \<open>mc_nonerpsta\<close> is the number of associated
  non-ERP stations that \<^verbatim>\<open>ieee80211_iterate_nodes\<close> counts.\<close>

record mgmt_com =
  mc_opmode :: ieee80211_opmode
  mc_flags :: u32
  mc_caps :: u32
  mc_curmode :: nat
  mc_modecaps :: u32
  mc_bss :: mgmt_node
  mc_des_essid :: "u8 list"
  mc_des_esslen :: nat
  mc_sup_rates :: "nat \<Rightarrow> rateset"
  mc_lintval :: u16
  mc_tim_bitmap :: "u8 list"
  mc_dtim_count :: u32
  mc_dtim_period :: u32
  mc_tim_mcast_pending :: bool
  mc_nonerpsta :: nat
  mc_rsngroupmgmtcipher :: u32
  mc_rsn_ie_override :: "u8 list"
  mc_htcaps :: u16
  mc_ampdu_params :: u8
  mc_sup_mcs :: "u8 list"
  mc_max_rxrate :: u16
  mc_tx_mcs_set :: u8
  mc_htxcaps :: u16
  mc_txbfcaps :: u32
  mc_aselcaps :: u8
  mc_vhtcaps :: u32
  mc_vht_rx_mcs_map :: u16
  mc_vht_rx_highest :: u16
  mc_vht_tx_mcs_map :: u16
  mc_vht_tx_highest :: u16
  mc_he_mac_cap_info :: "u8 list"
  mc_he_phy_cap_info :: "u8 list"
  mc_he_mcs_nss_supp :: "u8 list"
  mc_ppe_thres :: "u8 list"

definition is_chan_2ghz :: "channel \<Rightarrow> bool" where
  "is_chan_2ghz c \<longleftrightarrow> has_flag (ch_flags c) CHAN_2GHZ"

text \<open>\<^verbatim>\<open>ieee80211_chan2mode\<close>; \<open>None\<close> is \<^verbatim>\<open>IEEE80211_CHAN_ANYC\<close>.\<close>

definition chan_mode :: "nat \<Rightarrow> u32 \<Rightarrow> u32 option \<Rightarrow> nat" where
  "chan_mode m modecaps chan_flags =
     (if m = MODE_11A \<or> m = MODE_11B \<or> m = MODE_11G then m
      else case chan_flags of
        None \<Rightarrow>
          if m = MODE_AUTO \<or> m = MODE_11N then
            (if has_flag modecaps (push_bit MODE_11A 1) then MODE_11A
             else if has_flag modecaps (push_bit MODE_11G 1) then MODE_11G
             else MODE_11B)
          else if m = MODE_11AC \<or> m = MODE_11AX then MODE_11A
          else m
      | Some f \<Rightarrow>
          if has_flag f CHAN_5GHZ then MODE_11A
          else if has_flag f (CHAN_OFDM OR CHAN_DYN) then MODE_11G
          else MODE_11B)"

definition chan2mode :: "mgmt_com \<Rightarrow> channel option \<Rightarrow> nat" where
  "chan2mode ic chan = chan_mode (mc_curmode ic) (mc_modecaps ic) (map_option ch_flags chan)"

section \<open>EDCA tables\<close>

definition ac :: "u8 \<Rightarrow> u8 \<Rightarrow> u8 \<Rightarrow> u16 \<Rightarrow> edca_ac_params" where
  "ac cwmin cwmax aifsn txop = \<lparr>ac_ecwmin = cwmin, ac_ecwmax = cwmax, ac_aifsn = aifsn,
     ac_txoplimit = txop, ac_acm = 0\<rparr>"

text \<open>The rows of a mode in the order of the array index: best effort 0, background 1, video 2,
  voice 3.  The modes without an initialiser (AUTO, 11AX) are zero.\<close>

definition edca_table :: "nat \<Rightarrow> edca_ac_params list" where
  "edca_table mode =
     (if mode = MODE_11B then [ac 5 10 3 0, ac 5 10 7 0, ac 4 5 2 188, ac 3 4 2 102]
      else if mode \<in> {MODE_11A, MODE_11G, MODE_11N, MODE_11AC}
      then [ac 4 10 3 0, ac 4 10 7 0, ac 3 4 2 94, ac 2 3 2 47]
      else [ac 0 0 0 0, ac 0 0 0 0, ac 0 0 0 0, ac 0 0 0 0])"

definition qap_edca_table :: "nat \<Rightarrow> edca_ac_params list" where
  "qap_edca_table mode =
     (if mode = MODE_11B then [ac 5 7 3 0, ac 5 10 7 0, ac 4 5 1 188, ac 3 4 1 102]
      else if mode \<in> {MODE_11A, MODE_11G, MODE_11N, MODE_11AC}
      then [ac 4 6 3 0, ac 4 10 7 0, ac 3 4 1 94, ac 2 3 1 47]
      else [ac 0 0 0 0, ac 0 0 0 0, ac 0 0 0 0, ac 0 0 0 0])"

section \<open>Information elements\<close>

definition LE_WRITE_4 :: "u32 \<Rightarrow> u8 list" where
  "LE_WRITE_4 v = [ucast v, ucast (drop_bit 8 v), ucast (drop_bit 16 v), ucast (drop_bit 24 v)]"

definition add_capinfo :: "mgmt_com \<Rightarrow> mgmt_node \<Rightarrow> u8 list" where
  "add_capinfo ic ni =
     (let capinfo = (if mc_opmode ic = M_IBSS then CAPINFO_IBSS
                     else if mc_opmode ic = M_HOSTAP then CAPINFO_ESS else 0);
          capinfo = (if mc_opmode ic = M_HOSTAP \<and> has_flag (mc_flags ic) (F_WEPON OR F_RSNON)
                     then capinfo OR CAPINFO_PRIVACY else capinfo);
          capinfo = (if has_flag (mc_flags ic) F_SHPREAMBLE \<and> is_chan_2ghz (mn_chan ni)
                     then capinfo OR CAPINFO_SHORT_PREAMBLE else capinfo);
          capinfo = (if has_flag (mc_flags ic) F_SHSLOT
                     then capinfo OR CAPINFO_SHORT_SLOTTIME else capinfo)
      in LE_WRITE_2 capinfo)"

definition add_ssid :: "u8 list \<Rightarrow> nat \<Rightarrow> u8 list" where
  "add_ssid ssid len = [0, of_nat len] @ bytes_at ssid 0 len"

definition add_rates :: "rateset \<Rightarrow> u8 list" where
  "add_rates rs =
     (let nrates = min (unat (rs_nrates rs)) RATE_SIZE
      in [1, of_nat nrates] @ bytes_at (rs_rates rs) 0 nrates)"

definition add_xrates :: "rateset \<Rightarrow> u8 list" where
  "add_xrates rs =
     (let nrates = unat (rs_nrates rs) - RATE_SIZE
      in [50, of_nat nrates] @ bytes_at (rs_rates rs) RATE_SIZE nrates)"

definition add_ds_params :: "mgmt_node \<Rightarrow> u8 list" where
  "add_ds_params ni = [3, 1, ch_ieee (mn_chan ni)]"

text \<open>The traffic indication map.  The search for the last non-zero octet starts at
  \<open>ic_tim_len - 1\<close>, which is not an octet when the map is empty; that case is \<open>None\<close>.\<close>

fun first_nonzero :: "u8 list \<Rightarrow> nat" where
  "first_nonzero [] = 0"
| "first_nonzero (x # xs) = (if x = 0 then Suc (first_nonzero xs) else 0)"

fun last_nonzero :: "u8 list \<Rightarrow> nat \<Rightarrow> nat" where
  "last_nonzero bitmap 0 = 0"
| "last_nonzero bitmap (Suc i) =
     (if byte_at bitmap (Suc i) = 0 then last_nonzero bitmap i else Suc i)"

definition add_tim :: "mgmt_com \<Rightarrow> u8 list option" where
  "add_tim ic =
     (let bitmap = mc_tim_bitmap ic; tim_len = length bitmap; i = first_nonzero bitmap;
          offset = (if i < tim_len then i - i mod 2 else 0);
          j = last_nonzero bitmap (tim_len - 1); len = j - offset + 1;
          control = (of_nat offset :: u8) OR
            (if mc_dtim_count ic = 0 \<and> mc_tim_mcast_pending ic then 1 else 0)
      in if tim_len = 0 then None
         else Some ([5, of_nat (len + 3), ucast (mc_dtim_count ic), ucast (mc_dtim_period ic),
                     control] @ bytes_at bitmap offset len))"

definition add_ibss_params :: "u8 list" where
  "add_ibss_params = [6, 2] @ LE_WRITE_2 0"

definition edca_ac_bytes :: "nat \<Rightarrow> edca_ac_params \<Rightarrow> u8 list" where
  "edca_ac_bytes aci p =
     [push_bit 5 (of_nat aci) OR push_bit 4 (ac_acm p AND 1) OR (ac_aifsn p AND 0xf),
      push_bit 4 (ac_ecwmax p) OR (ac_ecwmin p AND 0xf)] @ LE_WRITE_2 (ac_txoplimit p)"

definition edca_records :: "edca_ac_params list \<Rightarrow> u8 list" where
  "edca_records edca = concat (map (\<lambda>aci. edca_ac_bytes aci (edca ! aci)) [0..<EDCA_NUM_AC])"

definition add_edca_params :: "mgmt_com \<Rightarrow> u8 list" where
  "add_edca_params ic = [12, 18, 0, 0] @ edca_records (edca_table (mc_curmode ic))"

definition add_wme_param :: "mgmt_com \<Rightarrow> u8 list" where
  "add_wme_param ic = [221, 24] @ MICROSOFT_OUI @ [2, 1, 1, 0, 0]
     @ edca_records (edca_table (mc_curmode ic))"

definition add_wme_info :: "u8 list" where
  "add_wme_info = [221, 7, 0x00, 0x50, 0xf2, 2, 0, 1, 0]"

definition add_erp :: "mgmt_com \<Rightarrow> u8 list" where
  "add_erp ic =
     (let erp = (if mc_nonerpsta ic \<noteq> 0 then 1 else 0);
          erp = (if has_flag (mc_flags ic) F_USEPROT then erp OR 2 else erp);
          erp = (if \<not> has_flag (mc_flags ic) F_SHPREAMBLE then erp OR 4 else erp)
      in [42, 1, erp])"

definition add_qos_capability :: "u8 list" where
  "add_qos_capability = [46, 1, 0]"

section \<open>RSN and WPA elements\<close>

text \<open>\<open>None\<close> is the \<^verbatim>\<open>panic\<close> on a group cipher the stack cannot have negotiated.\<close>

definition group_suite :: "u32 \<Rightarrow> u8 option" where
  "group_suite c =
     (if c = CIPHER_WEP40 then Some 1 else if c = CIPHER_TKIP then Some 2
      else if c = CIPHER_CCMP then Some 4 else if c = CIPHER_WEP104 then Some 5 else None)"

definition pairwise_suites :: "u32 \<Rightarrow> u8 list" where
  "pairwise_suites ciphers =
     (if has_flag ciphers CIPHER_USEGROUP then [0] else [])
     @ (if has_flag ciphers CIPHER_TKIP then [2] else [])
     @ (if has_flag ciphers CIPHER_CCMP then [4] else [])"

definition akm_suites :: "bool \<Rightarrow> u32 \<Rightarrow> u8 list" where
  "akm_suites wpa akms =
     (if has_flag akms AKM_8021X then [1] else [])
     @ (if has_flag akms AKM_PSK then [2] else [])
     @ (if \<not> wpa \<and> has_flag akms AKM_SHA256_8021X then [5] else [])
     @ (if \<not> wpa \<and> has_flag akms AKM_SHA256_PSK then [6] else [])"

text \<open>A suite list: its count and a selector for each suite type.\<close>

definition suite_list :: "u8 list \<Rightarrow> u8 list \<Rightarrow> u8 list" where
  "suite_list oui ts = LE_WRITE_2 (of_nat (length ts)) @ concat (map (\<lambda>t. oui @ [t]) ts)"

definition rsncaps_of :: "mgmt_com \<Rightarrow> mgmt_node \<Rightarrow> u16" where
  "rsncaps_of ic ni =
     (let caps = mn_rsncaps ni AND (RSNCAP_PTKSA_RCNT_MASK OR RSNCAP_GTKSA_RCNT_MASK);
          caps = (if has_flag (mc_caps ic) C_MFP
                  then (if has_flag (mc_flags ic) F_MFPR
                        then caps OR RSNCAP_MFPC OR RSNCAP_MFPR else caps OR RSNCAP_MFPC)
                  else caps)
      in if has_flag (mc_flags ic) F_PBAR then caps OR RSNCAP_PBAC else caps)"

definition rsn_pmkid_list :: "mgmt_com \<Rightarrow> mgmt_node \<Rightarrow> u8 list" where
  "rsn_pmkid_list ic ni =
     (if has_flag (mn_flags ni) NODE_PMKID then LE_WRITE_2 1 @ bytes_at (mn_pmkid ni) 0 PMKID_LEN
      else [])"

definition add_rsn_body :: "mgmt_com \<Rightarrow> mgmt_node \<Rightarrow> bool \<Rightarrow> u8 list option" where
  "add_rsn_body ic ni wpa =
     (let oui = (if wpa then MICROSOFT_OUI else IEEE80211_OUI) in
      case group_suite (mn_rsngroupcipher ni) of None \<Rightarrow> None
      | Some g \<Rightarrow>
        let frm = LE_WRITE_2 1 @ oui @ [g] @ suite_list oui (pairwise_suites (mn_rsnciphers ni))
                  @ suite_list oui (akm_suites wpa (mn_rsnakms ni)) in
        if wpa then Some frm
        else let frm = frm @ LE_WRITE_2 (rsncaps_of ic ni) @ rsn_pmkid_list ic ni in
        if \<not> has_flag (mc_caps ic) C_MFP then Some frm
        else let frm = (if has_flag (mn_flags ni) NODE_PMKID then frm else frm @ LE_WRITE_2 0) in
        if mc_rsngroupmgmtcipher ic = CIPHER_BIP then Some (frm @ oui @ [6]) else None)"

text \<open>The length field is the pointer difference, truncated to one byte.\<close>

definition add_rsn :: "mgmt_com \<Rightarrow> mgmt_node \<Rightarrow> u8 list option" where
  "add_rsn ic ni =
     map_option (\<lambda>body. [48, of_nat (length body)] @ body) (add_rsn_body ic ni False)"

definition add_wpa :: "mgmt_com \<Rightarrow> mgmt_node \<Rightarrow> u8 list option" where
  "add_wpa ic ni =
     map_option (\<lambda>body. [221, of_nat (4 + length body)] @ MICROSOFT_OUI @ [1] @ body)
       (add_rsn_body ic ni True)"

section \<open>HT, VHT and HE elements\<close>

definition ht_caps_body :: "mgmt_com \<Rightarrow> u16 \<Rightarrow> u8 list" where
  "ht_caps_body ic cap = LE_WRITE_2 cap @ [mc_ampdu_params ic] @ bytes_at (mc_sup_mcs ic) 0 10
     @ LE_WRITE_2 (mc_max_rxrate ic AND 0x3ff) @ [mc_tx_mcs_set ic] @ [0, 0, 0]
     @ LE_WRITE_2 (mc_htxcaps ic) @ LE_WRITE_4 (mc_txbfcaps ic) @ [mc_aselcaps ic]"

definition add_htcaps :: "mgmt_com \<Rightarrow> u8 list" where
  "add_htcaps ic = [45, 26] @ ht_caps_body ic (mc_htcaps ic)"

text \<open>\<^verbatim>\<open>ieee80211_add_ht_ie\<close>: 40 MHz operation is advertised only when the secondary channel
  of the BSS is one the local channel supports.\<close>

definition add_ht_ie :: "mgmt_com \<Rightarrow> mgmt_node \<Rightarrow> u8 list" where
  "add_ht_ie ic ni =
     (let cap = mn_htcaps ni OR mc_htcaps ic; sco = mn_htop0 ni AND 3;
          flags = ch_flags (mn_chan ni);
          cap = (if sco = 1 \<and> \<not> has_flag flags 0x20000 \<or> sco = 3 \<and> \<not> has_flag flags 0x40000
                 then cap AND NOT 0x2 AND NOT 0x40 else cap)
      in [45, 26] @ ht_caps_body ic cap)"

definition add_vhtcaps :: "mgmt_com \<Rightarrow> u8 list" where
  "add_vhtcaps ic = [191, 12] @ LE_WRITE_4 (mc_vhtcaps ic) @ LE_WRITE_2 (mc_vht_rx_mcs_map ic)
     @ LE_WRITE_2 (mc_vht_rx_highest ic) @ LE_WRITE_2 (mc_vht_tx_mcs_map ic)
     @ LE_WRITE_2 (mc_vht_tx_highest ic)"

definition hweight8 :: "u32 \<Rightarrow> u32" where
  "hweight8 w =
     (let res = w - (drop_bit 1 w AND 0x55);
          res = (res AND 0x33) + (drop_bit 2 res AND 0x33)
      in (res + drop_bit 4 res) AND 0x0F)"

definition he_mcs_nss_size :: "u8 list \<Rightarrow> u8" where
  "he_mcs_nss_size phy_cap_info =
     4 + (if has_flag (byte_at phy_cap_info 0) 0x08 then 4 else 0)
       + (if has_flag (byte_at phy_cap_info 0) 0x10 then 4 else 0)"

definition ppe_present :: "u8 list \<Rightarrow> bool" where
  "ppe_present phy_cap_info \<longleftrightarrow> has_flag (byte_at phy_cap_info 6) 0x80"

text \<open>The size of the PPE thresholds, computed in \<^verbatim>\<open>uint8_t\<close> as in
  \<^verbatim>\<open>ieee80211_he_ppe_size\<close> and again in \<^verbatim>\<open>ieee80211_add_hecaps\<close>.\<close>

definition ppe_bytes :: "u8 \<Rightarrow> u8" where
  "ppe_bytes hdr =
     (let n = ucast (hweight8 (ucast (hdr AND 0x78)));
          n = n * (1 + (hdr AND 7));
          n = n * 3 * 2 + 7
      in (n + 7) div 8)"

definition he_ppe_size :: "u8 \<Rightarrow> u8 list \<Rightarrow> u8" where
  "he_ppe_size hdr phy_cap_info = (if ppe_present phy_cap_info then ppe_bytes hdr else 0)"

text \<open>The length byte is only written when PPE thresholds are present; \<open>stale\<close> is what the
  buffer held at its place.\<close>

definition add_hecaps :: "u8 \<Rightarrow> mgmt_com \<Rightarrow> u8 list" where
  "add_hecaps stale ic =
     (let phy = mc_he_phy_cap_info ic;
          body = [35] @ bytes_at (mc_he_mac_cap_info ic) 0 6 @ bytes_at phy 0 11
                 @ bytes_at (mc_he_mcs_nss_supp ic) 0 (unat (he_mcs_nss_size phy)) in
      if \<not> ppe_present phy then [255, stale] @ body
      else let body = body @ bytes_at (mc_ppe_thres ic) 0 (unat (ppe_bytes (byte_at (mc_ppe_thres ic) 0)))
        in [255, of_nat (length body)] @ body)"

definition add_htop :: "mgmt_com \<Rightarrow> u8 list" where
  "add_htop ic = [61, 22, ch_ieee (mn_chan (mc_bss ic)), mn_htop0 (mc_bss ic)]
     @ LE_WRITE_2 (mn_htop1 (mc_bss ic)) @ LE_WRITE_2 (mn_htop2 (mc_bss ic)) @ replicate 16 0"

definition add_tie :: "u8 \<Rightarrow> u32 \<Rightarrow> u8 list" where
  "add_tie type value = [56, 5, type] @ LE_WRITE_4 value"

section \<open>Frames\<close>

text \<open>\<^verbatim>\<open>ieee80211_getmgmt\<close> reserves a frame body of \<open>pktlen\<close> bytes behind the 802.11
  header; \<open>alloc\<close> says whether the mbuf allocations succeed.  A frame is the body, or the
  way the function ends without one.\<close>

datatype mgmt_error = PANIC | NOMEM

type_synonym mgmt_frame = "mgmt_error + u8 list"

definition getmgmt :: "bool \<Rightarrow> nat \<Rightarrow> mgmt_error option" where
  "getmgmt alloc pktlen =
     (if pktlen + 24 > MCLBYTES then Some PANIC else if \<not> alloc then Some NOMEM else None)"

definition rates_len :: "rateset \<Rightarrow> nat" where
  "rates_len rs = 2 + min (unat (rs_nrates rs)) RATE_SIZE +
     (if RATE_SIZE < unat (rs_nrates rs) then 2 + (unat (rs_nrates rs) - RATE_SIZE) else 0)"

definition opt_bytes :: "bool \<Rightarrow> u8 list \<Rightarrow> u8 list" where
  "opt_bytes b xs = (if b then xs else [])"

definition xrates_if :: "rateset \<Rightarrow> u8 list" where
  "xrates_if rs = opt_bytes (RATE_SIZE < unat (rs_nrates rs)) (add_xrates rs)"

definition ic_flag :: "mgmt_com \<Rightarrow> u32 \<Rightarrow> bool" where
  "ic_flag ic f = has_flag (mc_flags ic) f"

definition probe_req_room :: "mgmt_com \<Rightarrow> rateset \<Rightarrow> nat" where
  "probe_req_room ic rs = 2 + mc_des_esslen ic + rates_len rs
     + (if ic_flag ic F_HTON then 28 + 9 else 0) + (if ic_flag ic F_VHTON then 14 else 0)"

definition get_probe_req :: "bool \<Rightarrow> mgmt_com \<Rightarrow> mgmt_node \<Rightarrow> mgmt_frame" where
  "get_probe_req alloc ic ni =
     (let rs = mc_sup_rates ic (chan2mode ic (Some (mn_chan ni))) in
      case getmgmt alloc (probe_req_room ic rs) of Some e \<Rightarrow> Inl e
      | None \<Rightarrow> Inr (add_ssid (mc_des_essid ic) (mc_des_esslen ic) @ add_rates rs @ xrates_if rs
          @ opt_bytes (ic_flag ic F_HTON) (add_htcaps ic @ add_wme_info)
          @ opt_bytes (ic_flag ic F_VHTON) (add_vhtcaps ic)))"

text \<open>The RSN and WPA elements of a frame; \<open>None\<close> is the panic in the element.\<close>

definition sends_rsn :: "mgmt_com \<Rightarrow> mgmt_node \<Rightarrow> bool" where
  "sends_rsn ic ni \<longleftrightarrow> ic_flag ic F_RSNON \<and> has_flag (mn_rsnprotos ni) PROTO_RSN"

definition sends_wpa :: "mgmt_com \<Rightarrow> mgmt_node \<Rightarrow> bool" where
  "sends_wpa ic ni \<longleftrightarrow> ic_flag ic F_RSNON \<and> has_flag (mn_rsnprotos ni) PROTO_WPA"

definition opt_elem :: "bool \<Rightarrow> u8 list option \<Rightarrow> u8 list option" where
  "opt_elem b e = (if b then e else Some [])"

definition probe_resp_room :: "mgmt_com \<Rightarrow> mgmt_node \<Rightarrow> rateset \<Rightarrow> nat" where
  "probe_resp_room ic ni rs = 8 + 2 + 2 + 2 + unat (mn_esslen ni) + rates_len rs + (2 + 1)
     + (if mc_opmode ic = M_IBSS then 2 + 2 else 0)
     + (if mc_curmode ic = MODE_11G then 2 + 1 else 0)
     + (if sends_rsn ic (mc_bss ic) then 2 + RSNIE_MAXLEN else 0)
     + (if ic_flag ic F_QOS then 2 + 18 else 0)
     + (if sends_wpa ic (mc_bss ic) then 2 + WPAIE_MAXLEN else 0)
     + (if ic_flag ic F_HTON then 28 + 24 + 26 else 0)"

definition get_probe_resp :: "bool \<Rightarrow> mgmt_com \<Rightarrow> mgmt_node \<Rightarrow> mgmt_frame" where
  "get_probe_resp alloc ic ni =
     (let bss = mc_bss ic; rs = mn_rates bss in
      case getmgmt alloc (probe_resp_room ic ni rs) of Some e \<Rightarrow> Inl e
      | None \<Rightarrow>
        (case (opt_elem (sends_rsn ic bss) (add_rsn ic bss),
               opt_elem (sends_wpa ic bss) (add_wpa ic bss)) of
           (Some rsn, Some wpa) \<Rightarrow>
             Inr (replicate 8 0 @ LE_WRITE_2 (mn_intval bss) @ add_capinfo ic ni
               @ add_ssid (mn_essid bss) (unat (mn_esslen bss)) @ add_rates rs @ add_ds_params ni
               @ opt_bytes (mc_opmode ic = M_IBSS) add_ibss_params
               @ opt_bytes (mc_curmode ic = MODE_11G) (add_erp ic)
               @ xrates_if rs @ rsn
               @ opt_bytes (ic_flag ic F_QOS) (add_edca_params ic) @ wpa
               @ opt_bytes (ic_flag ic F_HTON) (add_htcaps ic @ add_htop ic @ add_wme_param ic))
         | _ \<Rightarrow> Inl PANIC))"

definition get_auth :: "bool \<Rightarrow> u16 \<Rightarrow> u16 \<Rightarrow> mgmt_frame" where
  "get_auth alloc status seq =
     (if \<not> alloc then Inl NOMEM
      else Inr (LE_WRITE_2 0 @ LE_WRITE_2 seq @ LE_WRITE_2 status))"

definition get_deauth :: "bool \<Rightarrow> u16 \<Rightarrow> mgmt_frame" where
  "get_deauth alloc reason = (if \<not> alloc then Inl NOMEM else Inr (LE_WRITE_2 reason))"

definition get_disassoc :: "bool \<Rightarrow> u16 \<Rightarrow> mgmt_frame" where
  "get_disassoc alloc reason = (if \<not> alloc then Inl NOMEM else Inr (LE_WRITE_2 reason))"

text \<open>The (re)association request.  \<open>apple\<close> is the build option \<^verbatim>\<open>USE_APPLE_SUPPLICANT\<close>, with
  which an element set by the system replaces the generated RSN or WPA element; \<open>reassoc\<close> says
  that the subtype is a reassociation request; \<open>stale\<close> is handed to \<open>add_hecaps\<close>.\<close>

definition rsn_elem :: "bool \<Rightarrow> mgmt_com \<Rightarrow> u8 list option \<Rightarrow> u8 list option" where
  "rsn_elem apple ic e =
     (let ovr = mc_rsn_ie_override ic in
      if apple \<and> 0 < byte_at ovr 1 then Some (bytes_at ovr 0 (2 + unat (byte_at ovr 1))) else e)"

definition assoc_req_room :: "mgmt_com \<Rightarrow> mgmt_node \<Rightarrow> bool \<Rightarrow> nat" where
  "assoc_req_room ic ni reassoc = 2 + 2 + (if reassoc then ADDR_LEN else 0)
     + 2 + unat (mn_esslen ni) + rates_len (mn_rates ni)
     + (if sends_rsn ic ni then 2 + RSNIE_MAXLEN else 0)
     + (if has_flag (mn_flags ni) NODE_QOS then 2 + 1 else 0)
     + (if sends_wpa ic ni then 2 + WPAIE_MAXLEN else 0)
     + (if ic_flag ic F_HTON then 28 + 9 else 0)
     + (if ic_flag ic F_VHTON then 14 + 2 else 0)
     + (if ic_flag ic F_HEON then 17 + 2 + 1 + 12 + 25 else 0)"

definition assoc_capinfo :: "mgmt_com \<Rightarrow> mgmt_node \<Rightarrow> u16" where
  "assoc_capinfo ic ni =
     (let capinfo = CAPINFO_ESS;
          capinfo = (if ic_flag ic F_WEPON then capinfo OR CAPINFO_PRIVACY else capinfo);
          capinfo = (if ic_flag ic F_SHPREAMBLE \<and> is_chan_2ghz (mn_chan ni)
                     then capinfo OR CAPINFO_SHORT_PREAMBLE else capinfo)
      in if has_flag (mc_caps ic) C_SHSLOT then capinfo OR CAPINFO_SHORT_SLOTTIME else capinfo)"

definition get_assoc_req ::
  "bool \<Rightarrow> bool \<Rightarrow> u8 \<Rightarrow> mgmt_com \<Rightarrow> mgmt_node \<Rightarrow> bool \<Rightarrow> mgmt_frame" where
  "get_assoc_req alloc apple stale ic ni reassoc =
     (let rs = mn_rates ni in
      case getmgmt alloc (assoc_req_room ic ni reassoc) of Some e \<Rightarrow> Inl e
      | None \<Rightarrow>
        (case (opt_elem (sends_rsn ic ni) (rsn_elem apple ic (add_rsn ic ni)),
               opt_elem (sends_wpa ic ni) (rsn_elem apple ic (add_wpa ic ni))) of
           (Some rsn, Some wpa) \<Rightarrow>
             Inr (LE_WRITE_2 (assoc_capinfo ic ni) @ LE_WRITE_2 (mc_lintval ic)
               @ opt_bytes reassoc (bytes_at (mn_bssid (mc_bss ic)) 0 ADDR_LEN)
               @ add_ssid (mn_essid ni) (unat (mn_esslen ni)) @ add_rates rs @ xrates_if rs
               @ rsn @ opt_bytes (has_flag (mn_flags ni) NODE_QOS) add_qos_capability @ wpa
               @ opt_bytes (ic_flag ic F_HTON) (add_htcaps ic @ add_wme_info)
               @ opt_bytes (ic_flag ic F_VHTON) (add_vhtcaps ic)
               @ opt_bytes (ic_flag ic F_HEON) (add_hecaps stale ic))
         | _ \<Rightarrow> Inl PANIC))"

abbreviation (input) STATUS_TRY_AGAIN_LATER :: u16 where "STATUS_TRY_AGAIN_LATER \<equiv> 30"

definition assoc_resp_room :: "mgmt_com \<Rightarrow> mgmt_node \<Rightarrow> u16 \<Rightarrow> nat" where
  "assoc_resp_room ic ni status = 2 + 2 + 2 + rates_len (mn_rates ni)
     + (if has_flag (mn_flags ni) NODE_QOS then 2 + 18 else 0)
     + (if status = STATUS_TRY_AGAIN_LATER then 2 + 7 else 0)
     + (if ic_flag ic F_HTON then 28 + 24 + 26 else 0)"

definition get_assoc_resp :: "bool \<Rightarrow> mgmt_com \<Rightarrow> mgmt_node \<Rightarrow> u16 \<Rightarrow> mgmt_frame" where
  "get_assoc_resp alloc ic ni status =
     (let rs = mn_rates ni in
      case getmgmt alloc (assoc_resp_room ic ni status) of Some e \<Rightarrow> Inl e
      | None \<Rightarrow>
        Inr (add_capinfo ic ni @ LE_WRITE_2 status
          @ LE_WRITE_2 (if status = STATUS_SUCCESS then mn_associd ni else 0)
          @ add_rates rs @ xrates_if rs
          @ opt_bytes (has_flag (mn_flags ni) NODE_QOS) (add_edca_params ic)
          @ opt_bytes (has_flag (mn_flags ni) NODE_MFP \<and> status = STATUS_TRY_AGAIN_LATER)
              (add_tie 3 1000)
          @ opt_bytes (ic_flag ic F_HTON) (add_htcaps ic @ add_htop ic @ add_wme_param ic)))"

end
