(* ===== verification/Pae.thy ===== *)
theory Pae
  imports KeyMgmt MgmtFrames
begin

text \<open>
  The port access entity, shared part: the RSN state of a node and of the interface, the frames it
  sends (\<^verbatim>\<open>ieee80211_send_eapol_key\<close> and the key data encapsulations of
  \<^verbatim>\<open>net80211/ieee80211_pae_output.c\<close>) and the walk over received key data
  (\<^verbatim>\<open>net80211/ieee80211_pae_input.c\<close>).
\<close>

section \<open>Constants\<close>

abbreviation (input) EAPOL_KEY_PAIRWISE :: u16 where "EAPOL_KEY_PAIRWISE \<equiv> 0x8"
abbreviation (input) EAPOL_KEY_INSTALL :: u16 where "EAPOL_KEY_INSTALL \<equiv> 0x40"
abbreviation (input) EAPOL_KEY_KEYACK :: u16 where "EAPOL_KEY_KEYACK \<equiv> 0x80"
abbreviation (input) EAPOL_KEY_KEYMIC :: u16 where "EAPOL_KEY_KEYMIC \<equiv> 0x100"
abbreviation (input) EAPOL_KEY_SECURE :: u16 where "EAPOL_KEY_SECURE \<equiv> 0x200"
abbreviation (input) EAPOL_KEY_ERROR :: u16 where "EAPOL_KEY_ERROR \<equiv> 0x400"
abbreviation (input) EAPOL_KEY_REQUEST :: u16 where "EAPOL_KEY_REQUEST \<equiv> 0x800"
abbreviation (input) EAPOL_KEY_ENCRYPTED :: u16 where "EAPOL_KEY_ENCRYPTED \<equiv> 0x1000"
abbreviation (input) EAPOL_KEY_WPA_TX :: u16 where "EAPOL_KEY_WPA_TX \<equiv> EAPOL_KEY_INSTALL"
abbreviation (input) EAPOL_VERSION :: u8 where "EAPOL_VERSION \<equiv> 1"
abbreviation (input) EAPOL_KEY :: u8 where "EAPOL_KEY \<equiv> 3"
abbreviation (input) EAPOL_KEY_DESC_IEEE80211 :: u8 where "EAPOL_KEY_DESC_IEEE80211 \<equiv> 2"
abbreviation (input) EAPOL_KEY_DESC_WPA :: u8 where "EAPOL_KEY_DESC_WPA \<equiv> 254"
abbreviation (input) KDE_GTK :: u8 where "KDE_GTK \<equiv> 1"
abbreviation (input) KDE_PMKID :: u8 where "KDE_PMKID \<equiv> 4"
abbreviation (input) KDE_IGTK :: u8 where "KDE_IGTK \<equiv> 9"
abbreviation (input) ELEMID_RSN :: u8 where "ELEMID_RSN \<equiv> 48"
abbreviation (input) ELEMID_VENDOR :: u8 where "ELEMID_VENDOR \<equiv> 221"
abbreviation (input) NODE_REKEY :: u32 where "NODE_REKEY \<equiv> 0x4"
abbreviation (input) NODE_RXPROT :: u32 where "NODE_RXPROT \<equiv> 0x8"
abbreviation (input) NODE_TXRXPROT :: u32 where "NODE_TXRXPROT \<equiv> 0x18"
abbreviation (input) NODE_MFP :: u32 where "NODE_MFP \<equiv> 0x80"
abbreviation (input) NODE_PMK :: u32 where "NODE_PMK \<equiv> 0x100"
abbreviation (input) NODE_RSN_NEW_PTK :: u32 where "NODE_RSN_NEW_PTK \<equiv> 0x2000"
abbreviation (input) REASON_AUTH_LEAVE :: u16 where "REASON_AUTH_LEAVE \<equiv> 3"
abbreviation (input) REASON_ASSOC_TOOMANY :: u16 where "REASON_ASSOC_TOOMANY \<equiv> 5"
abbreviation (input) REASON_MIC_FAILURE :: u16 where "REASON_MIC_FAILURE \<equiv> 14"
abbreviation (input) REASON_4WAY_TIMEOUT :: u16 where "REASON_4WAY_TIMEOUT \<equiv> 15"
abbreviation (input) REASON_GROUP_TIMEOUT :: u16 where "REASON_GROUP_TIMEOUT \<equiv> 16"
abbreviation (input) REASON_RSN_DIFFERENT_IE :: u16 where "REASON_RSN_DIFFERENT_IE \<equiv> 17"
abbreviation (input) REASON_BAD_PAIRWISE_CIPHER :: u16 where "REASON_BAD_PAIRWISE_CIPHER \<equiv> 19"
abbreviation (input) EBUSY :: int where "EBUSY \<equiv> 16"

section \<open>State\<close>

datatype rsna_state = RSNA_INITIALIZE | RSNA_AUTHENTICATION | RSNA_AUTHENTICATION_2 | RSNA_INITPMK
  | RSNA_INITPSK | RSNA_PTKSTART | RSNA_PTKCALCNEGOTIATING | RSNA_PTKCALCNEGOTIATING_2
  | RSNA_PTKINITNEGOTIATING | RSNA_PTKINITDONE | RSNA_DISCONNECT | RSNA_DISCONNECTED

datatype rsna_gstate = RSNA_IDLE | RSNA_REKEYNEGOTIATING | RSNA_REKEYESTABLISHED | RSNA_KEYERROR

datatype supp_state = SUPP_INITIALIZE | SUPP_PTKSTART | SUPP_PTKNEGOTIATING | SUPP_PTKDONE

datatype sta_state = STA_CACHE | STA_BSS | STA_AUTH | STA_ASSOC | STA_COLLECT

datatype link_state = LINK_UNKNOWN | LINK_DOWN | LINK_UP

text \<open>The RSN fields of \<^verbatim>\<open>struct ieee80211_node\<close> and \<^verbatim>\<open>struct ieee80211com\<close>, added to those
  the element builders read.\<close>

record pae_node = mgmt_node +
  pn_macaddr :: "u8 list"
  pn_state :: sta_state
  pn_rsncipher :: u32
  pn_rsngroupmgmtcipher :: u32
  pn_nonce :: "u8 list"
  pn_pmk :: "u8 list"
  pn_ptk :: ptk
  pn_replaycnt :: u64
  pn_replaycnt_ok :: bool
  pn_reqreplaycnt :: u64
  pn_reqreplaycnt_ok :: bool
  pn_rsnie :: "u8 list option"
  pn_pairwise_key :: iee_key
  pn_rsn_state :: rsna_state
  pn_rsn_gstate :: rsna_gstate
  pn_rsn_supp_state :: supp_state
  pn_rsn_retries :: u32
  pn_key_count :: u8
  pn_port_valid :: bool
  pn_assoc_fail :: u32
  pn_eapol_to :: ctimer

record pae_com = mgmt_com +
  pc_myaddr :: "u8 list"
  pc_psk :: "u8 list"
  pc_nonce :: "u8 list"
  pc_globalcnt :: "u8 list"
  pc_pmksa :: "pmksa list"
  pc_nw_keys :: "iee_key list"
  pc_def_txkey :: nat
  pc_igtk_kid :: nat
  pc_rsnciphers :: u32
  pc_rsngroupcipher :: u32
  pc_bss_groupmgmtcipher :: u32
  pc_link_state :: link_state
  pc_event_handler :: bool
  pc_rsn_timeout :: ctimer
  pc_tkip_micfail :: int
  pc_tkip_micfail_last_tsc :: u64
  pc_tkip_micfail_to :: ctimer

text \<open>The outcome of the driver's \<^verbatim>\<open>ic_set_key\<close>.\<close>

datatype set_key_result = Key_Ok | Key_Busy | Key_Fail

definition set_key_result :: "int \<Rightarrow> set_key_result" where
  "set_key_result err = (if err = 0 then Key_Ok else if err = EBUSY then Key_Busy else Key_Fail)"

text \<open>What a handler does besides changing the state, in order: frames handed to the send queue,
  keys handed to the driver's \<^verbatim>\<open>ic_set_key\<close> and \<^verbatim>\<open>ic_delete_key\<close>, deauthentication frames, the call of
  \<^verbatim>\<open>ieee80211_new_state\<close> with the scan state, changes of the link, the completion event, the
  rest of \<^verbatim>\<open>ieee80211_node_leave\<close>, statistics.\<close>

datatype pae_stat = Rx_Eapol_Key | Rx_Eapol_Replay | Rx_Eapol_Badmic | Rx_Nombuf | Rx_Remmicfail
  | Rx_Elem_Toosmall

datatype pae_event = Ev_Tx "u8 list" | Ev_SetKey iee_key set_key_result | Ev_DeleteKey iee_key | Ev_Deauth u16 | Ev_Scan
  | Ev_Link link_state | Ev_Handshake_Done | Ev_Leave | Ev_Stat pae_stat

text \<open>\<open>p_ni\<close> is the node a handler works on, \<open>p_others\<close> are the other nodes of the tree.\<close>

record pae =
  p_ni :: pae_node
  p_ic :: pae_com
  p_others :: "pae_node list"
  p_log :: "pae_event list"

text \<open>The surroundings of one call: the primitives, the driver's \<^verbatim>\<open>ic_set_key\<close> (error code and
  the key as the driver leaves it) and \<^verbatim>\<open>ic_delete_key\<close>, the outcomes of the allocation of an mbuf, of
  \<^verbatim>\<open>mbuf_prepend\<close>, \<^verbatim>\<open>mbuf_pullup\<close> to a length (true: needed and failed) and \<^verbatim>\<open>ifq_enqueue\<close>, fresh random bytes, the
  kernel clock and its rate, and the build option \<^verbatim>\<open>USE_APPLE_SUPPLICANT\<close>.\<close>

record pae_hooks =
  hk_prims :: prims
  hk_set_key :: "iee_key \<Rightarrow> int \<times> iee_key"
  hk_alloc :: bool
  hk_prepend :: bool
  hk_delete_key :: "iee_key \<Rightarrow> iee_key"
  hk_pullup :: "nat \<Rightarrow> bool"
  hk_enqueue :: int
  hk_random :: "u8 list"
  hk_ticks :: int
  hk_hz :: int
  hk_apple :: bool

definition emit :: "pae_event \<Rightarrow> pae \<Rightarrow> pae" where
  "emit e s = s\<lparr>p_log := p_log s @ [e]\<rparr>"

definition opmode :: "pae \<Rightarrow> ieee80211_opmode" where
  "opmode s = mc_opmode (p_ic s)"

definition set_flags :: "u32 \<Rightarrow> pae \<Rightarrow> pae" where
  "set_flags f s = s\<lparr>p_ni := (p_ni s)\<lparr>mn_flags := mn_flags (p_ni s) OR f\<rparr>\<rparr>"

definition clear_flags :: "u32 \<Rightarrow> pae \<Rightarrow> pae" where
  "clear_flags f s = s\<lparr>p_ni := (p_ni s)\<lparr>mn_flags := mn_flags (p_ni s) AND NOT f\<rparr>\<rparr>"

definition set_link_state :: "link_state \<Rightarrow> pae \<Rightarrow> pae" where
  "set_link_state nstate s =
     (let l = (case opmode s of M_IBSS \<Rightarrow> LINK_UNKNOWN | M_HOSTAP \<Rightarrow> LINK_UNKNOWN
               | M_MONITOR \<Rightarrow> LINK_DOWN | _ \<Rightarrow> nstate)
      in if l \<noteq> pc_link_state (p_ic s)
         then emit (Ev_Link l) (s\<lparr>p_ic := (p_ic s)\<lparr>pc_link_state := l\<rparr>\<rparr>) else s)"

text \<open>The driver's \<^verbatim>\<open>ic_set_key\<close> on the pairwise key and on a group key slot.\<close>

definition install_pairwise :: "pae_hooks \<Rightarrow> iee_key \<Rightarrow> pae \<Rightarrow> set_key_result \<times> pae" where
  "install_pairwise H k s =
     (let (err, k') = hk_set_key H k
      in (set_key_result err, emit (Ev_SetKey k (set_key_result err)) (s\<lparr>p_ni := (p_ni s)\<lparr>pn_pairwise_key := k'\<rparr>\<rparr>)))"

definition install_group :: "pae_hooks \<Rightarrow> nat \<Rightarrow> iee_key \<Rightarrow> pae \<Rightarrow> set_key_result \<times> pae" where
  "install_group H kid k s =
     (let (err, k') = hk_set_key H k
      in (set_key_result err, emit (Ev_SetKey k (set_key_result err))
            (s\<lparr>p_ic := (p_ic s)\<lparr>pc_nw_keys := (pc_nw_keys (p_ic s))[kid := k']\<rparr>\<rparr>)))"

section \<open>Sending EAPOL-Key frames\<close>

definition LE_READ_6 :: "u8 list \<Rightarrow> u64" where
  "LE_READ_6 p = push_bit 40 (ucast (byte_at p 5)) OR push_bit 32 (ucast (byte_at p 4))
     OR push_bit 24 (ucast (byte_at p 3)) OR push_bit 16 (ucast (byte_at p 2))
     OR push_bit 8 (ucast (byte_at p 1)) OR ucast (byte_at p 0)"

definition LE_WRITE_6 :: "u64 \<Rightarrow> u8 list" where
  "LE_WRITE_6 v = [ucast v, ucast (drop_bit 8 v), ucast (drop_bit 16 v), ucast (drop_bit 24 v),
     ucast (drop_bit 32 v), ucast (drop_bit 40 v)]"

text \<open>\<^verbatim>\<open>memset(key, 0, sizeof(*key))\<close>; the \<^verbatim>\<open>NULL\<close> key of a frame without MIC and
  encryption.\<close>

definition zero_frame :: eapol_key where
  "zero_frame = \<lparr>ek_version = 0, ek_type = 0, ek_len = 0, ek_desc = 0, ek_info = 0, ek_keylen = 0,
     ek_replaycnt = 0, ek_nonce = replicate 32 0, ek_iv = replicate 16 0, ek_rsc = replicate 8 0,
     ek_reserved = replicate 8 0, ek_mic = replicate 16 0, ek_paylen = 0, ek_data = []\<rparr>"

definition no_ptk :: ptk where
  "no_ptk = \<lparr>ptk_kck = [], ptk_kek = [], ptk_tk = []\<rparr>"

text \<open>\<^verbatim>\<open>ieee80211_get_eapol_key\<close>: \<open>None\<close> is the panic on a frame that does not fit a cluster,
  otherwise whether there is an mbuf.\<close>

definition get_eapol_key :: "pae_hooks \<Rightarrow> nat \<Rightarrow> bool option" where
  "get_eapol_key H pktlen = (if pktlen + 24 + 8 + EAPOL_HDR > MCLBYTES then None else Some (hk_alloc H))"

definition desc_version :: "pae_node \<Rightarrow> u16" where
  "desc_version ni =
     (if is_sha256_akm (mn_rsnakms ni) then KEY_DESC_V3
      else if pn_rsncipher ni = CIPHER_CCMP \<or> mn_rsngroupcipher ni = CIPHER_CCMP then KEY_DESC_V2
      else KEY_DESC_V1)"

text \<open>The header fields, filled in from the node and the length of the frame.\<close>

definition eapol_header :: "pae_node \<Rightarrow> eapol_key \<Rightarrow> eapol_key" where
  "eapol_header ni k =
     (let len = EAPOL_HDR + length (ek_data k)
      in k\<lparr>ek_version := EAPOL_VERSION, ek_type := EAPOL_KEY,
           ek_desc := (if mn_rsnprotos ni = PROTO_RSN then EAPOL_KEY_DESC_IEEE80211
                       else EAPOL_KEY_DESC_WPA),
           ek_info := ek_info k OR desc_version ni,
           ek_paylen := of_nat (len - EAPOL_HDR), ek_len := of_nat (len - 4)\<rparr>)"

text \<open>Encryption of the key data; for WPA the bit that asks for it is cleared first.\<close>

definition eapol_seal :: "pae_hooks \<Rightarrow> pae_node \<Rightarrow> u8 list \<Rightarrow> eapol_key \<Rightarrow> ptk \<Rightarrow> u8 list \<times> eapol_key" where
  "eapol_seal H ni cntr k ptk =
     (if has_flag (ek_info k) EAPOL_KEY_ENCRYPTED
      then let k = (if mn_rsnprotos ni = PROTO_WPA
                    then k\<lparr>ek_info := ek_info k AND NOT EAPOL_KEY_ENCRYPTED\<rparr> else k)
           in eapol_key_encrypt (hk_prims H) cntr k (ptk_kek ptk)
      else (cntr, k))"

definition eapol_sign :: "pae_hooks \<Rightarrow> eapol_key \<Rightarrow> ptk \<Rightarrow> eapol_key" where
  "eapol_sign H k ptk =
     (if has_flag (ek_info k) EAPOL_KEY_KEYMIC then eapol_key_mic (hk_prims H) k (ptk_kck ptk) else k)"

definition ether_frame :: "pae \<Rightarrow> eapol_key \<Rightarrow> u8 list" where
  "ether_frame s k = bytes_at (pn_macaddr (p_ni s)) 0 6 @ bytes_at (pc_myaddr (p_ic s)) 0 6
     @ [0x88, 0x8e] @ take (4 + unat (ek_len k)) (eapol_bytes k)"

definition send_eapol_key :: "pae_hooks \<Rightarrow> eapol_key \<Rightarrow> ptk \<Rightarrow> pae \<Rightarrow> int \<times> pae" where
  "send_eapol_key H key ptk s =
     (if \<not> hk_prepend H then (ENOMEM, s)
      else let ni = p_ni s;
               (cntr, k) = eapol_seal H ni (pc_globalcnt (p_ic s)) (eapol_header ni key) ptk;
               k = eapol_sign H k ptk;
               s = s\<lparr>p_ic := (p_ic s)\<lparr>pc_globalcnt := cntr\<rparr>\<rparr>;
               s = (if has_flag (ek_info k) EAPOL_KEY_KEYACK
                    then s\<lparr>p_ni := ni\<lparr>pn_eapol_to := timeout_add_msec (pn_eapol_to ni) 100\<rparr>\<rparr> else s)
           in if hk_enqueue H \<noteq> 0 then (hk_enqueue H, s)
              else (0, emit (Ev_Tx (ether_frame s k)) s))"

text \<open>The common start of the senders: an mbuf for \<open>n\<close> bytes of key data, or an error.\<close>

definition with_eapol_key ::
  "pae_hooks \<Rightarrow> nat \<Rightarrow> (pae \<Rightarrow> (int \<times> pae) option) \<Rightarrow> pae \<Rightarrow> (int \<times> pae) option" where
  "with_eapol_key H n send s =
     (case get_eapol_key H n of None \<Rightarrow> None
      | Some ok \<Rightarrow> if ok then send s else Some (ENOMEM, s))"

section \<open>Key data encapsulations\<close>

definition gtk_kde :: "pae_node \<Rightarrow> iee_key \<Rightarrow> u8 list" where
  "gtk_kde ni k = [ELEMID_VENDOR, of_nat (6 + k_len k)] @ IEEE80211_OUI
     @ [KDE_GTK, (k_id k AND 3) OR (if pn_rsncipher ni = CIPHER_USEGROUP then 4 else 0), 0]
     @ bytes_at (k_key k) 0 (k_len k)"

definition pmkid_kde :: "u8 list \<Rightarrow> u8 list" where
  "pmkid_kde pmkid = [ELEMID_VENDOR, 20] @ IEEE80211_OUI @ [KDE_PMKID] @ bytes_at pmkid 0 PMKID_LEN"

definition igtk_kde :: "iee_key \<Rightarrow> u8 list" where
  "igtk_kde k = [ELEMID_VENDOR, 4 + 24] @ IEEE80211_OUI @ [KDE_IGTK]
     @ LE_WRITE_2 (ucast (k_id k)) @ LE_WRITE_6 (k_tsc k) @ bytes_at (k_key k) 0 16"

text \<open>The walk over received key data: the elements in order, each as the bytes from its first
  one on; it stops at an element that is longer than what the length field leaves.\<close>

function kde_elems :: "u8 list \<Rightarrow> nat \<Rightarrow> u8 list list" where
  "kde_elems frm n =
     (if n < 2 then []
      else let l = 2 + unat (byte_at frm 1)
           in if n < l then [] else frm # kde_elems (drop l frm) (n - l))"
  by pat_completeness auto
termination
  by (relation "measure snd") auto

declare kde_elems.simps [simp del]

definition key_elems :: "eapol_key \<Rightarrow> u8 list list" where
  "key_elems key = kde_elems (ek_data key) (unat (ek_paylen key))"

definition is_kde :: "u8 \<Rightarrow> u8 list \<Rightarrow> bool" where
  "is_kde t frm \<longleftrightarrow> byte_at frm 0 = ELEMID_VENDOR \<and> 4 \<le> byte_at frm 1 \<and>
     bytes_at frm 2 3 = IEEE80211_OUI \<and> byte_at frm 5 = t"

definition is_wpa_elem :: "u8 list \<Rightarrow> bool" where
  "is_wpa_elem frm \<longleftrightarrow> byte_at frm 0 = ELEMID_VENDOR \<and> 4 \<le> byte_at frm 1 \<and>
     bytes_at frm 2 3 = MICROSOFT_OUI \<and> byte_at frm 5 = 1"

text \<open>The last element with a property: what the loops keep in a pointer.\<close>

definition last_elem :: "(u8 list \<Rightarrow> bool) \<Rightarrow> u8 list list \<Rightarrow> u8 list option" where
  "last_elem P es = fold (\<lambda>e a. if P e then Some e else a) es None"

text \<open>The counter of a frame is not newer than the last one.\<close>

definition replayed :: "eapol_key \<Rightarrow> pae \<Rightarrow> bool" where
  "replayed key s \<longleftrightarrow> ek_replaycnt key \<le> pn_replaycnt (p_ni s)"

definition must_update_group_key :: "iee_key \<Rightarrow> u8 list \<Rightarrow> nat \<Rightarrow> bool" where
  "must_update_group_key k gtk len \<longleftrightarrow>
     k_cipher k = CIPHER_NONE \<or> k_len k \<noteq> len \<or> bytes_at (k_key k) 0 len \<noteq> bytes_at gtk 0 len"

text \<open>The MIC check of a received frame against the installed key confirmation key.\<close>

definition bad_mic :: "pae_hooks \<Rightarrow> eapol_key \<Rightarrow> pae \<Rightarrow> bool" where
  "bad_mic H key s = fst (eapol_key_check_mic (hk_prims H) key (ptk_kck (pn_ptk (p_ni s))))"

text \<open>Deauthentication by a station, which then scans.\<close>

definition supp_deauth :: "u16 \<Rightarrow> pae \<Rightarrow> pae" where
  "supp_deauth reason s = emit Ev_Scan (emit (Ev_Deauth reason) s)"

end
