(* ===== verification/Supplicant.thy ===== *)
theory Supplicant
  imports Pae
begin

text \<open>
  The supplicant: the messages a station receives and sends in the 4-way handshake and in the group
  key handshakes (\<^verbatim>\<open>ieee80211_pae_input.c\<close>, \<^verbatim>\<open>ieee80211_pae_output.c\<close>).  A handler maps the
  state to the state afterwards; \<open>None\<close> is a panic.
\<close>

section \<open>Messages sent\<close>

text \<open>The element of the association request, repeated in message 2.\<close>

definition msg2_ie :: "pae_hooks \<Rightarrow> pae \<Rightarrow> u8 list option" where
  "msg2_ie H s =
     (let ic = mgmt_com.truncate (p_ic s); ni = mgmt_node.truncate (p_ni s)
      in rsn_elem (hk_apple H) ic
           (if mn_rsnprotos ni = PROTO_WPA then add_wpa ic ni else add_rsn ic ni))"

definition wpa_keylen :: "pae_node \<Rightarrow> u16" where
  "wpa_keylen ni =
     (if mn_rsnprotos ni = PROTO_WPA then of_nat (cipher_keylen (pn_rsncipher ni)) else 0)"

definition send_4way_msg2 :: "pae_hooks \<Rightarrow> u64 \<Rightarrow> ptk \<Rightarrow> pae \<Rightarrow> (int \<times> pae) option" where
  "send_4way_msg2 H replaycnt tptk s =
     (let s = s\<lparr>p_ni := (p_ni s)\<lparr>pn_rsn_supp_state := SUPP_PTKNEGOTIATING\<rparr>\<rparr>; ni = p_ni s
      in with_eapol_key H
           (if mn_rsnprotos ni = PROTO_WPA then 2 + WPAIE_MAXLEN else 2 + RSNIE_MAXLEN)
           (\<lambda>s. case msg2_ie H s of None \<Rightarrow> None
              | Some ie \<Rightarrow> Some (send_eapol_key H
                  (zero_frame\<lparr>ek_info := EAPOL_KEY_PAIRWISE OR EAPOL_KEY_KEYMIC,
                              ek_replaycnt := replaycnt, ek_nonce := pc_nonce (p_ic s),
                              ek_keylen := wpa_keylen ni, ek_data := ie\<rparr>) tptk s)) s)"

definition send_4way_msg4 :: "pae_hooks \<Rightarrow> pae \<Rightarrow> (int \<times> pae) option" where
  "send_4way_msg4 H s =
     (let s = s\<lparr>p_ni := (p_ni s)\<lparr>pn_rsn_supp_state := SUPP_PTKDONE\<rparr>\<rparr>; ni = p_ni s;
          info = EAPOL_KEY_PAIRWISE OR EAPOL_KEY_KEYMIC
      in with_eapol_key H 0
           (\<lambda>s. Some (send_eapol_key H
              (zero_frame\<lparr>ek_replaycnt := pn_replaycnt ni, ek_keylen := wpa_keylen ni,
                 ek_info := (if mn_rsnprotos ni = PROTO_WPA then info
                             else info OR EAPOL_KEY_SECURE)\<rparr>) (pn_ptk ni) s)) s)"

text \<open>The key is used for WPA only; the caller for RSN passes \<^verbatim>\<open>NULL\<close>.\<close>

definition send_group_msg2 :: "pae_hooks \<Rightarrow> iee_key option \<Rightarrow> pae \<Rightarrow> (int \<times> pae) option" where
  "send_group_msg2 H k s =
     (let ni = p_ni s; info = EAPOL_KEY_KEYMIC OR EAPOL_KEY_SECURE;
          key = zero_frame\<lparr>ek_replaycnt := pn_replaycnt ni\<rparr>
      in with_eapol_key H 0
           (\<lambda>s. if mn_rsnprotos ni = PROTO_WPA
                then (case k of None \<Rightarrow> None
                      | Some k \<Rightarrow> Some (send_eapol_key H
                          (key\<lparr>ek_keylen := of_nat (k_len k),
                               ek_info := info OR push_bit 4 (ucast (k_id k AND 3))\<rparr>) (pn_ptk ni) s))
                else Some (send_eapol_key H (key\<lparr>ek_info := info\<rparr>) (pn_ptk ni) s)) s)"

definition send_eapol_key_req :: "pae_hooks \<Rightarrow> u16 \<Rightarrow> u64 \<Rightarrow> pae \<Rightarrow> (int \<times> pae) option" where
  "send_eapol_key_req H info tsc s =
     with_eapol_key H 0
       (\<lambda>s. let ni = p_ni s; info = info OR EAPOL_KEY_REQUEST;
                s = s\<lparr>p_ni := ni\<lparr>pn_reqreplaycnt := pn_reqreplaycnt ni + 1\<rparr>\<rparr>
            in Some (send_eapol_key H
                 (zero_frame\<lparr>ek_info := info,
                    ek_rsc := (if has_flag info EAPOL_KEY_ERROR then LE_WRITE_6 tsc @ [0, 0]
                               else replicate 8 0),
                    ek_replaycnt := pn_reqreplaycnt ni\<rparr>) (pn_ptk ni) s)) s"

section \<open>Message 1 of the 4-way handshake\<close>

text \<open>The PMK: from the cache for 802.1X, by identifier when there is one; otherwise the
  pre-shared key, unless it is all zero.\<close>

definition msg1_pmkid :: "eapol_key \<Rightarrow> u8 list option" where
  "msg1_pmkid key = last_elem (is_kde KDE_PMKID) (key_elems key)"

definition msg1_pmk :: "u8 list option \<Rightarrow> pae \<Rightarrow> u8 list option" where
  "msg1_pmk pmkid s =
     (let ni = p_ni s; ic = p_ic s in
      if is_8021x_akm (mn_rsnakms ni)
      then map_option pmk_key (pmksa_find (mn_rsnakms ni) (pn_macaddr ni)
             (map_option (\<lambda>e. bytes_at e 6 PMKID_LEN) pmkid) (pc_pmksa ic))
      else if list_ex (\<lambda>b. b \<noteq> 0) (pc_psk ic) then Some (pc_psk ic) else None)"

definition msg1_ptk :: "pae_hooks \<Rightarrow> pae \<Rightarrow> ptk" where
  "msg1_ptk H s = derive_ptk (hk_prims H) (mn_rsnakms (p_ni s)) (pn_pmk (p_ni s))
     (pn_macaddr (p_ni s)) (pc_myaddr (p_ic s)) (pn_nonce (p_ni s)) (pc_nonce (p_ic s))"

text \<open>What message 1 stores: PMK, ANonce, a fresh SNonce, and that a new PTK is expected.\<close>

definition msg1_accept :: "pae_hooks \<Rightarrow> eapol_key \<Rightarrow> u8 list \<Rightarrow> pae \<Rightarrow> pae" where
  "msg1_accept H key pmk s =
     (let s = set_flags NODE_PMK (s\<lparr>p_ni := (p_ni s)\<lparr>pn_pmk := pmk, pn_nonce := ek_nonce key\<rparr>\<rparr>);
          s = s\<lparr>p_ic := (p_ic s)\<lparr>pc_nonce := hk_random H\<rparr>\<rparr>
      in set_flags NODE_RSN_NEW_PTK s)"

definition recv_4way_msg1 :: "pae_hooks \<Rightarrow> eapol_key \<Rightarrow> pae \<Rightarrow> pae option" where
  "recv_4way_msg1 H key s =
     (let ni = p_ni s; pmkid = msg1_pmkid key in
      if opmode s \<noteq> M_STA \<and> opmode s \<noteq> M_IBSS then Some s
      else if pn_rsn_supp_state ni = SUPP_INITIALIZE then Some s
      else if pn_replaycnt_ok ni \<and> replayed key s then Some (emit (Ev_Stat Rx_Eapol_Replay) s)
      else if (case pmkid of None \<Rightarrow> False | Some e \<Rightarrow> byte_at e 1 \<noteq> 4 + 16) then Some s
      else case msg1_pmk pmkid s of
        None \<Rightarrow> Some s
      | Some pmk \<Rightarrow>
          let s = msg1_accept H key pmk s
          in map_option snd (send_4way_msg2 H (ek_replaycnt key) (msg1_ptk H s) s))"

section \<open>Installing keys\<close>

text \<open>Keys mapped from key data: the GTK encapsulation, the IGTK encapsulation, the PTK.\<close>

definition gtk_key :: "u8 \<Rightarrow> u32 \<Rightarrow> bool \<Rightarrow> u8 list \<Rightarrow> nat \<Rightarrow> u8 list \<Rightarrow> iee_key" where
  "gtk_key kid cipher tx rsc len gtk = zero_key\<lparr>k_id := kid, k_cipher := cipher,
     k_flags := (if tx then KEY_GROUP OR KEY_TX else KEY_GROUP),
     k_rsc := (replicate 16 0)[0 := LE_READ_6 rsc], k_len := len, k_key := key_bytes32 gtk len\<rparr>"

definition igtk_key :: "u16 \<Rightarrow> u32 \<Rightarrow> u8 list \<Rightarrow> iee_key" where
  "igtk_key kid cipher igtk = zero_key\<lparr>k_id := ucast kid, k_cipher := cipher, k_flags := KEY_IGTK,
     k_mgmt_rsc := LE_READ_6 (drop 8 igtk), k_len := 16, k_key := key_bytes32 (drop 14 igtk) 16\<rparr>"

definition ptk_key :: "pae_node \<Rightarrow> u64 \<Rightarrow> iee_key" where
  "ptk_key ni prsc = zero_key\<lparr>k_cipher := pn_rsncipher ni, k_rsc := (replicate 16 0)[0 := prsc],
     k_len := cipher_keylen (pn_rsncipher ni),
     k_key := key_bytes32 (ptk_tk (pn_ptk ni)) (cipher_keylen (pn_rsncipher ni))\<rparr>"

definition install_gtk ::
  "pae_hooks \<Rightarrow> u8 \<Rightarrow> bool \<Rightarrow> u8 list \<Rightarrow> nat \<Rightarrow> u8 list \<Rightarrow> pae \<Rightarrow> set_key_result \<times> pae" where
  "install_gtk H kid tx rsc len gtk s =
     (if must_update_group_key (pc_nw_keys (p_ic s) ! unat kid) gtk len
      then install_group H (unat kid)
             (gtk_key kid (mn_rsngroupcipher (p_ni s)) tx rsc len gtk) s
      else (Key_Ok, s))"

definition install_igtk :: "pae_hooks \<Rightarrow> u8 list \<Rightarrow> pae \<Rightarrow> set_key_result \<times> pae" where
  "install_igtk H igtk s =
     (let kid = LE_READ_2 (drop 6 igtk) in
      if byte_at igtk 1 \<noteq> 4 + 24 then (Key_Fail, s)
      else if kid \<noteq> 4 \<and> kid \<noteq> 5 then (Key_Fail, s)
      else if must_update_group_key (pc_nw_keys (p_ic s) ! unat kid) (drop 14 igtk) 16
      then install_group H (unat kid) (igtk_key kid (pn_rsngroupmgmtcipher (p_ni s)) igtk) s
      else (Key_Ok, s))"

text \<open>The key id and the Tx bit of a GTK encapsulation.\<close>

definition kde_kid :: "u8 list \<Rightarrow> u8" where
  "kde_kid gtk = byte_at gtk 6 AND 3"

definition kde_tx :: "u8 list \<Rightarrow> bool" where
  "kde_tx gtk \<longleftrightarrow> has_flag (byte_at gtk 6) 4"

section \<open>Message 3 of the 4-way handshake\<close>

text \<open>What the walk over the key data of message 3 collects.\<close>

record msg3_ies =
  m3_rsnie1 :: "u8 list option"
  m3_rsnie2 :: "u8 list option"
  m3_gtk :: "u8 list option"
  m3_igtk :: "u8 list option"

definition msg3_elem :: "pae_node \<Rightarrow> u8 list \<Rightarrow> msg3_ies \<Rightarrow> msg3_ies" where
  "msg3_elem ni e a =
     (if byte_at e 0 = ELEMID_RSN then
        (if mn_rsnprotos ni \<noteq> PROTO_RSN then a
         else if m3_rsnie1 a = None then a\<lparr>m3_rsnie1 := Some e\<rparr>
         else if m3_rsnie2 a = None then a\<lparr>m3_rsnie2 := Some e\<rparr> else a)
      else if is_kde KDE_GTK e then a\<lparr>m3_gtk := Some e\<rparr>
      else if is_kde KDE_IGTK e \<and> has_flag (mn_flags ni) NODE_MFP then a\<lparr>m3_igtk := Some e\<rparr>
      else if is_wpa_elem e \<and> mn_rsnprotos ni = PROTO_WPA then a\<lparr>m3_rsnie1 := Some e\<rparr>
      else a)"

definition msg3_ies_of :: "pae_node \<Rightarrow> eapol_key \<Rightarrow> msg3_ies" where
  "msg3_ies_of ni key = fold (msg3_elem ni) (key_elems key)
     \<lparr>m3_rsnie1 = None, m3_rsnie2 = None, m3_gtk = None, m3_igtk = None\<rparr>"

text \<open>The element differs from the one of the beacon (message 3) or association request
  (message 2).\<close>

definition different_ie :: "pae_node \<Rightarrow> u8 list \<Rightarrow> bool" where
  "different_ie ni e \<longleftrightarrow>
     (case pn_rsnie ni of None \<Rightarrow> True
      | Some ie \<Rightarrow> byte_at e 1 \<noteq> byte_at ie 1 \<or>
          bytes_at e 0 (2 + unat (byte_at e 1)) \<noteq> bytes_at ie 0 (2 + unat (byte_at e 1)))"

text \<open>The second RSN element replaces the pairwise cipher; \<open>None\<close> is the refusal.  The parser
  overwrites every field of its result that is read here.\<close>

definition no_rsn :: rsnparams where
  "no_rsn = \<lparr>rsn_nakms = 0, rsn_akms = 0, rsn_nciphers = 0, rsn_ciphers = 0, rsn_groupcipher = 0,
     rsn_groupmgmtcipher = 0, rsn_caps = 0, rsn_npmkids = 0, rsn_pmkids = []\<rparr>"

definition second_rsnie :: "u8 list \<Rightarrow> pae \<Rightarrow> pae option" where
  "second_rsnie e s =
     (let ((status, rsn), too_small) = parse_rsn e no_rsn 0;
          s = (if too_small = 0 then s else emit (Ev_Stat Rx_Elem_Toosmall) s) in
      if status \<noteq> 0 then Some s
      else if rsn_akms rsn \<noteq> mn_rsnakms (p_ni s) \<or> rsn_groupcipher rsn \<noteq> mn_rsngroupcipher (p_ni s)
        \<or> rsn_nciphers rsn \<noteq> 1 \<or> \<not> has_flag (rsn_ciphers rsn) (pc_rsnciphers (p_ic s))
      then None
      else Some (s\<lparr>p_ni := (p_ni s)\<lparr>mn_rsnciphers := rsn_ciphers rsn,
                                    pn_rsncipher := rsn_ciphers rsn\<rparr>\<rparr>))"

text \<open>Steps of the second half, after message 4 is sent.  The result is whether to deauthenticate,
  and whether the driver deferred a key.\<close>

definition msg3_install_ptk ::
  "pae_hooks \<Rightarrow> eapol_key \<Rightarrow> msg3_ies \<Rightarrow> pae \<Rightarrow> set_key_result \<times> pae" where
  "msg3_install_ptk H key ies s =
     (let ni = p_ni s in
      if pn_rsncipher ni \<noteq> CIPHER_USEGROUP \<and> has_flag (mn_flags ni) NODE_RSN_NEW_PTK
      then if ek_keylen key \<noteq> of_nat (cipher_keylen (pn_rsncipher ni)) then (Key_Fail, s)
           else let prsc = (if m3_gtk ies = None then LE_READ_6 (ek_rsc key) else 0);
                    (r, s) = install_pairwise H (ptk_key ni prsc) s
                in if r = Key_Fail then (r, s)
                   else (r, set_flags NODE_RXPROT (clear_flags NODE_TXRXPROT
                              (clear_flags NODE_RSN_NEW_PTK s)))
      else (Key_Ok, s))"

definition msg3_install_gtk ::
  "pae_hooks \<Rightarrow> eapol_key \<Rightarrow> msg3_ies \<Rightarrow> pae \<Rightarrow> set_key_result \<times> pae" where
  "msg3_install_gtk H key ies s =
     (case m3_gtk ies of None \<Rightarrow> (Key_Ok, s)
      | Some gtk \<Rightarrow>
          let keylen = cipher_keylen (mn_rsngroupcipher (p_ni s)) in
          if unat (byte_at gtk 1) \<noteq> 6 + keylen then (Key_Fail, s)
          else install_gtk H (kde_kid gtk) (kde_tx gtk) (ek_rsc key) keylen (drop 8 gtk) s)"

definition msg3_install_igtk :: "pae_hooks \<Rightarrow> msg3_ies \<Rightarrow> pae \<Rightarrow> set_key_result \<times> pae" where
  "msg3_install_igtk H ies s =
     (case m3_igtk ies of None \<Rightarrow> (Key_Ok, s) | Some igtk \<Rightarrow> install_igtk H igtk s)"

text \<open>In IBSS mode the port opens when the handshakes of both directions are done.\<close>

definition count_key :: "pae \<Rightarrow> bool \<times> pae" where
  "count_key s =
     (if opmode s \<noteq> M_IBSS then (True, s)
      else let n = pn_key_count (p_ni s) + 1
           in (n = 2, s\<lparr>p_ni := (p_ni s)\<lparr>pn_key_count := n\<rparr>\<rparr>))"

definition open_port :: "pae \<Rightarrow> pae" where
  "open_port s = set_link_state LINK_UP (s\<lparr>p_ni := (p_ni s)\<lparr>pn_port_valid := True\<rparr>\<rparr>)"

definition clear_assoc_fail :: "pae \<Rightarrow> pae" where
  "clear_assoc_fail s = s\<lparr>p_ni := (p_ni s)\<lparr>pn_assoc_fail := 0\<rparr>\<rparr>"

definition msg3_open_port :: "bool \<Rightarrow> pae \<Rightarrow> pae" where
  "msg3_open_port deferlink s =
     (let was_port_valid = pn_port_valid (p_ni s);
          s = (if deferlink then s
               else let s = open_port s
                    in if \<not> was_port_valid \<and> pc_event_handler (p_ic s)
                       then emit Ev_Handshake_Done s else s);
          s = clear_assoc_fail s
      in if opmode s = M_STA
         then s\<lparr>p_ic := (p_ic s)\<lparr>pc_rsngroupcipher := mn_rsngroupcipher (p_ni s)\<rparr>\<rparr> else s)"

definition msg3_finish :: "u16 \<Rightarrow> bool \<Rightarrow> pae \<Rightarrow> pae" where
  "msg3_finish info deferlink s =
     (let s = (if has_flag info EAPOL_KEY_INSTALL then set_flags NODE_TXRXPROT s else s) in
      if has_flag info EAPOL_KEY_SECURE
      then let (done, s) = count_key (set_flags NODE_TXRXPROT s)
           in if done then msg3_open_port deferlink s else s
      else s)"

definition msg3_install :: "pae_hooks \<Rightarrow> eapol_key \<Rightarrow> msg3_ies \<Rightarrow> pae \<Rightarrow> pae" where
  "msg3_install H key ies s =
     (let (r1, s) = msg3_install_ptk H key ies s in
      if r1 = Key_Fail then supp_deauth REASON_AUTH_LEAVE s
      else let (r2, s) = msg3_install_gtk H key ies s in
      if r2 = Key_Fail then supp_deauth REASON_AUTH_LEAVE s
      else let (r3, s) = msg3_install_igtk H ies s in
      if r3 = Key_Fail then supp_deauth REASON_AUTH_LEAVE s
      else msg3_finish (ek_info key) (r1 = Key_Busy \<or> r2 = Key_Busy \<or> r3 = Key_Busy) s)"

text \<open>The silent refusals between the parse and the installation.\<close>

definition msg3_malformed :: "pae_node \<Rightarrow> u16 \<Rightarrow> msg3_ies \<Rightarrow> bool" where
  "msg3_malformed ni info ies \<longleftrightarrow>
     m3_rsnie1 ies = None
     \<or> m3_gtk ies \<noteq> None \<and> \<not> has_flag info EAPOL_KEY_ENCRYPTED
     \<or> m3_igtk ies \<noteq> None \<and> m3_gtk ies = None
     \<or> pn_rsncipher ni \<noteq> CIPHER_USEGROUP \<and> \<not> has_flag info EAPOL_KEY_INSTALL"

definition msg3_second :: "msg3_ies \<Rightarrow> pae \<Rightarrow> pae option" where
  "msg3_second ies s = (case m3_rsnie2 ies of None \<Rightarrow> Some s | Some e \<Rightarrow> second_rsnie e s)"

definition msg3_process :: "pae_hooks \<Rightarrow> eapol_key \<Rightarrow> pae \<Rightarrow> pae option" where
  "msg3_process H key s =
     (let ies = msg3_ies_of (p_ni s) key in
      if msg3_malformed (p_ni s) (ek_info key) ies then Some s
      else if (case m3_rsnie1 ies of None \<Rightarrow> False | Some e \<Rightarrow> different_ie (p_ni s) e)
      then Some (supp_deauth REASON_RSN_DIFFERENT_IE s)
      else case msg3_second ies s of
        None \<Rightarrow> Some (supp_deauth REASON_BAD_PAIRWISE_CIPHER s)
      | Some s \<Rightarrow>
          let s = s\<lparr>p_ni := (p_ni s)\<lparr>pn_replaycnt := ek_replaycnt key, pn_replaycnt_ok := True\<rparr>\<rparr> in
          case send_4way_msg4 H s of
            None \<Rightarrow> None
          | Some (err, s) \<Rightarrow> Some (if err \<noteq> 0 then s else msg3_install H key ies s))"

text \<open>The checks before the MIC; \<open>Some\<close> is the state to return with at once.\<close>

definition msg3_refused :: "eapol_key \<Rightarrow> pae \<Rightarrow> pae option" where
  "msg3_refused key s =
     (let ni = p_ni s in
      if opmode s \<noteq> M_STA \<and> opmode s \<noteq> M_IBSS then Some s
      else if pn_rsn_supp_state ni \<noteq> SUPP_PTKNEGOTIATING \<and> pn_rsn_supp_state ni \<noteq> SUPP_PTKDONE
      then Some s
      else if pn_replaycnt_ok ni \<and> replayed key s then Some (emit (Ev_Stat Rx_Eapol_Replay) s)
      else if \<not> has_flag (mn_flags ni) NODE_PMK then Some s
      else if ek_nonce key \<noteq> pn_nonce ni then Some s
      else None)"

definition msg3_ptk :: "pae_hooks \<Rightarrow> eapol_key \<Rightarrow> pae \<Rightarrow> ptk" where
  "msg3_ptk H key s = derive_ptk (hk_prims H) (mn_rsnakms (p_ni s)) (pn_pmk (p_ni s))
     (pn_macaddr (p_ni s)) (pc_myaddr (p_ic s)) (ek_nonce key) (pc_nonce (p_ic s))"

definition msg3_decrypt :: "pae_hooks \<Rightarrow> eapol_key \<Rightarrow> ptk \<Rightarrow> bool \<times> eapol_key" where
  "msg3_decrypt H key tptk =
     (if has_flag (ek_info key) EAPOL_KEY_ENCRYPTED
      then eapol_key_decrypt (hk_prims H) key (ptk_kek tptk) else (False, key))"

definition recv_4way_msg3 :: "pae_hooks \<Rightarrow> eapol_key \<Rightarrow> pae \<Rightarrow> pae option" where
  "recv_4way_msg3 H key s =
     (case msg3_refused key s of Some s \<Rightarrow> Some s
      | None \<Rightarrow>
          let tptk = msg3_ptk H key s;
              (bad, key) = eapol_key_check_mic (hk_prims H) key (ptk_kck tptk) in
          if bad then Some (emit (Ev_Stat Rx_Eapol_Badmic) s)
          else let s = s\<lparr>p_ni := (p_ni s)\<lparr>pn_ptk := tptk\<rparr>\<rparr>;
                   (fail, key) = msg3_decrypt H key tptk
               in if fail then Some s else msg3_process H key s)"

section \<open>Group key handshakes\<close>

text \<open>The common start of both: the state, the counter and the MIC.  \<open>Some\<close> is the state to
  return with at once.\<close>

definition group_msg1_refused :: "pae_hooks \<Rightarrow> eapol_key \<Rightarrow> pae \<Rightarrow> pae option" where
  "group_msg1_refused H key s =
     (if opmode s \<noteq> M_STA \<and> opmode s \<noteq> M_IBSS then Some s
      else if pn_rsn_supp_state (p_ni s) \<noteq> SUPP_PTKDONE then Some s
      else if replayed key s then Some (emit (Ev_Stat Rx_Eapol_Replay) s)
      else if bad_mic H key s then Some (emit (Ev_Stat Rx_Eapol_Badmic) s)
      else None)"

text \<open>The common end: the port, the counter and message 2.\<close>

definition group_msg1_done :: "pae_hooks \<Rightarrow> eapol_key \<Rightarrow> iee_key option \<Rightarrow> pae \<Rightarrow> pae option" where
  "group_msg1_done H key k s =
     (let s = (if has_flag (ek_info key) EAPOL_KEY_SECURE
               then let (done, s) = count_key s
                    in if done then clear_assoc_fail (open_port s) else s
               else s);
          s = s\<lparr>p_ni := (p_ni s)\<lparr>pn_replaycnt := ek_replaycnt key\<rparr>\<rparr>
      in map_option snd (send_group_msg2 H k s))"

definition rsn_group_install :: "pae_hooks \<Rightarrow> eapol_key \<Rightarrow> pae \<Rightarrow> pae option" where
  "rsn_group_install H key s =
     (let es = key_elems key; gtk = last_elem (is_kde KDE_GTK) es;
          igtk = (if has_flag (mn_flags (p_ni s)) NODE_MFP then last_elem (is_kde KDE_IGTK) es else None);
          keylen = cipher_keylen (mn_rsngroupcipher (p_ni s)) in
      case gtk of None \<Rightarrow> Some s
      | Some gtk \<Rightarrow>
          if unat (byte_at gtk 1) \<noteq> 6 + keylen then Some s
          else let (r, s) = install_gtk H (kde_kid gtk) (kde_tx gtk) (ek_rsc key) keylen (drop 8 gtk) s in
          if r = Key_Fail then Some (supp_deauth REASON_AUTH_LEAVE s)
          else let (r, s) = (case igtk of None \<Rightarrow> (Key_Ok, s) | Some igtk \<Rightarrow> install_igtk H igtk s) in
          if r = Key_Fail then Some (supp_deauth REASON_AUTH_LEAVE s)
          else group_msg1_done H key None s)"

definition recv_rsn_group_msg1 :: "pae_hooks \<Rightarrow> eapol_key \<Rightarrow> pae \<Rightarrow> pae option" where
  "recv_rsn_group_msg1 H key s =
     (case group_msg1_refused H key s of Some s \<Rightarrow> Some s
      | None \<Rightarrow>
          if \<not> has_flag (ek_info key) EAPOL_KEY_ENCRYPTED then Some s
          else let (fail, key) = eapol_key_decrypt (hk_prims H) key (ptk_kek (pn_ptk (p_ni s)))
               in if fail then Some s else rsn_group_install H key s)"

definition wpa_group_install :: "pae_hooks \<Rightarrow> eapol_key \<Rightarrow> pae \<Rightarrow> pae option" where
  "wpa_group_install H key s =
     (let keylen = cipher_keylen (mn_rsngroupcipher (p_ni s)); info = ek_info key;
          kid = ucast (drop_bit 4 info AND 3) in
      if ek_keylen key \<noteq> of_nat keylen then Some s
      else if unat (ek_paylen key) < keylen then Some s
      else let (r, s) = install_gtk H kid (has_flag info EAPOL_KEY_WPA_TX) (ek_rsc key) keylen
                          (ek_data key) s in
      if r = Key_Fail then Some (supp_deauth REASON_AUTH_LEAVE s)
      else group_msg1_done H key (Some (pc_nw_keys (p_ic s) ! unat kid)) s)"

definition recv_wpa_group_msg1 :: "pae_hooks \<Rightarrow> eapol_key \<Rightarrow> pae \<Rightarrow> pae option" where
  "recv_wpa_group_msg1 H key s =
     (case group_msg1_refused H key s of Some s \<Rightarrow> Some s
      | None \<Rightarrow>
          let (fail, key) = eapol_key_decrypt (hk_prims H) key (ptk_kek (pn_ptk (p_ni s)))
          in if fail then Some s else wpa_group_install H key s)"

end
