(* ===== verification/Authenticator.thy ===== *)
theory Authenticator
  imports Supplicant
begin

text \<open>
  The authenticator: the messages an access point sends and receives in the 4-way and group key
  handshakes, retransmission, EAPOL-Key requests (\<^verbatim>\<open>ieee80211_pae_input.c\<close>,
  \<^verbatim>\<open>ieee80211_pae_output.c\<close>), the change of the group key (\<^verbatim>\<open>ieee80211_proto.c\<close>), the RSN
  part of a leaving station (\<^verbatim>\<open>ieee80211_node.c\<close>) and the TKIP countermeasures
  (\<^verbatim>\<open>ieee80211_crypto_tkip.c\<close>).
\<close>

section \<open>Changing the group key\<close>

text \<open>\<^verbatim>\<open>ieee80211_count_rekeysta\<close> over the tree.  It is called when the node at hand is not
  rekeying any more, so the other nodes are those counted.\<close>

definition is_rekeysta :: "pae_node \<Rightarrow> bool" where
  "is_rekeysta ni \<longleftrightarrow> mn_associd ni \<noteq> 0 \<and> pn_state ni \<noteq> STA_COLLECT \<and> has_flag (mn_flags ni) NODE_REKEY"

definition count_rekeysta :: "pae_node list \<Rightarrow> nat" where
  "count_rekeysta nodes = length (filter is_rekeysta nodes)"

definition next_gtk_kid :: "pae_com \<Rightarrow> nat" where
  "next_gtk_kid ic = (if pc_def_txkey ic = 1 then 2 else 1)"

definition next_igtk_kid :: "pae_com \<Rightarrow> nat" where
  "next_igtk_kid ic = (if pc_igtk_kid ic = 4 then 5 else 4)"

definition setkeysdone :: "pae_hooks \<Rightarrow> pae \<Rightarrow> pae" where
  "setkeysdone H s =
     (let kid = next_gtk_kid (p_ic s);
          (r, s) = install_group H kid (pc_nw_keys (p_ic s) ! kid) s;
          s = (if r = Key_Fail then s else s\<lparr>p_ic := (p_ic s)\<lparr>pc_def_txkey := kid\<rparr>\<rparr>) in
      if has_flag (mc_caps (p_ic s)) C_MFP
      then let kid = next_igtk_kid (p_ic s);
               (r, s) = install_group H kid (pc_nw_keys (p_ic s) ! kid) s
           in if r = Key_Fail then s else s\<lparr>p_ic := (p_ic s)\<lparr>pc_igtk_kid := kid\<rparr>\<rparr>
      else s)"

text \<open>The end of a station's rekeying: the last one completes the change.\<close>

definition rekey_finished :: "pae_hooks \<Rightarrow> pae \<Rightarrow> pae" where
  "rekey_finished H s =
     (if has_flag (mn_flags (p_ni s)) NODE_REKEY
      then let s = clear_flags NODE_REKEY s
           in if count_rekeysta (p_others s) = 0 then setkeysdone H s else s
      else s)"

section \<open>A leaving station\<close>

text \<open>\<^verbatim>\<open>ieee80211_node_leave\<close>; the parts for power save, HT, VHT and 11g and the driver's hook
  are the event; the SA Query timer stopped here is not part of the state.  \<open>None\<close> is the panic
  outside access point mode.\<close>

definition node_leave_rsn :: "pae_hooks \<Rightarrow> pae \<Rightarrow> pae" where
  "node_leave_rsn H s =
     (let s = rekey_finished H (s\<lparr>p_ni := (p_ni s)\<lparr>pn_rsn_state := RSNA_INITIALIZE\<rparr>\<rparr>);
          s = clear_flags NODE_TXRXPROT (clear_flags NODE_PMK s); ni = p_ni s
      in emit (Ev_DeleteKey (pn_pairwise_key ni))
           (s\<lparr>p_ni := ni\<lparr>pn_rsn_gstate := RSNA_IDLE, pn_eapol_to := timeout_del (pn_eapol_to ni),
              pn_rsn_retries := 0, pn_port_valid := False,
              pn_pairwise_key := hk_delete_key H (pn_pairwise_key ni)\<rparr>\<rparr>))"

definition node_leave :: "pae_hooks \<Rightarrow> pae \<Rightarrow> pae option" where
  "node_leave H s =
     (if opmode s \<noteq> M_HOSTAP then None
      else if pn_state (p_ni s) = STA_COLLECT then Some s
      else let collect = (\<lambda>s. s\<lparr>p_ni := (p_ni s)\<lparr>pn_state := STA_COLLECT\<rparr>\<rparr>) in
        if mn_associd (p_ni s) = 0 then Some (collect s)
        else Some (collect (emit Ev_Leave
               (if has_flag (mc_flags (p_ic s)) F_RSNON then node_leave_rsn H s else s))))"

text \<open>Deauthentication by the access point.\<close>

definition auth_deauth :: "pae_hooks \<Rightarrow> u16 \<Rightarrow> pae \<Rightarrow> pae option" where
  "auth_deauth H reason s = node_leave H (emit (Ev_Deauth reason) s)"

section \<open>Messages sent\<close>

text \<open>The retry counter in front of a message: after three tries the station is dropped.\<close>

definition with_retry ::
  "pae_hooks \<Rightarrow> u16 \<Rightarrow> (pae \<Rightarrow> (int \<times> pae) option) \<Rightarrow> pae \<Rightarrow> (int \<times> pae) option" where
  "with_retry H reason send s =
     (let n = pn_rsn_retries (p_ni s) + 1; s = s\<lparr>p_ni := (p_ni s)\<lparr>pn_rsn_retries := n\<rparr>\<rparr> in
      if 3 < n then map_option (\<lambda>s. (0, s)) (auth_deauth H reason s) else send s)"

definition next_replaycnt :: "pae \<Rightarrow> pae" where
  "next_replaycnt s = s\<lparr>p_ni := (p_ni s)\<lparr>pn_replaycnt := pn_replaycnt (p_ni s) + 1\<rparr>\<rparr>"

definition send_4way_msg1 :: "pae_hooks \<Rightarrow> pae \<Rightarrow> (int \<times> pae) option" where
  "send_4way_msg1 H s =
     with_retry H REASON_4WAY_TIMEOUT
       (\<lambda>s. with_eapol_key H (if mn_rsnprotos (p_ni s) = PROTO_RSN then 2 + 20 else 0)
         (\<lambda>s. let s = next_replaycnt s; ni = p_ni s in
              Some (send_eapol_key H
                (zero_frame\<lparr>ek_info := EAPOL_KEY_PAIRWISE OR EAPOL_KEY_KEYACK, ek_nonce := pn_nonce ni,
                   ek_keylen := of_nat (cipher_keylen (pn_rsncipher ni)),
                   ek_data := (if mn_rsnprotos ni = PROTO_RSN \<and> is_8021x_akm (mn_rsnakms ni)
                               then pmkid_kde (mn_pmkid ni) else []),
                   ek_replaycnt := pn_replaycnt ni\<rparr>) no_ptk s)) s)
       (s\<lparr>p_ni := (p_ni s)\<lparr>pn_rsn_state := RSNA_PTKSTART\<rparr>\<rparr>)"

text \<open>The key data of message 3: the element of the beacon, and for RSN the group keys.\<close>

definition msg3_data :: "pae \<Rightarrow> u8 list option" where
  "msg3_data s =
     (let ni = p_ni s; ic = p_ic s; mc = mgmt_com.truncate ic in
      if mn_rsnprotos ni = PROTO_RSN
      then map_option (\<lambda>ie. ie @ gtk_kde ni (pc_nw_keys ic ! pc_def_txkey ic)
             @ (if has_flag (mn_flags ni) NODE_MFP
                then igtk_kde (pc_nw_keys ic ! pc_igtk_kid ic) else [])) (add_rsn mc (mc_bss mc))
      else add_wpa mc (mc_bss mc))"

definition msg3_room :: "pae \<Rightarrow> nat" where
  "msg3_room s =
     (let ni = p_ni s; ic = p_ic s; igtk = (if has_flag (mn_flags ni) NODE_MFP then 2 + 28 else 0) in
      if mn_rsnprotos ni = PROTO_RSN
      then 2 + RSNIE_MAXLEN + 2 + 6 + k_len (pc_nw_keys ic ! pc_def_txkey ic) + 15 + igtk
      else 2 + WPAIE_MAXLEN + igtk)"

definition msg3_info :: "pae_node \<Rightarrow> u16" where
  "msg3_info ni =
     (EAPOL_KEY_PAIRWISE OR EAPOL_KEY_KEYACK OR EAPOL_KEY_KEYMIC)
     OR (if pn_rsncipher ni \<noteq> CIPHER_USEGROUP then EAPOL_KEY_INSTALL else 0)
     OR (if mn_rsnprotos ni = PROTO_RSN then EAPOL_KEY_ENCRYPTED OR EAPOL_KEY_SECURE else 0)"

definition key_rsc :: "iee_key \<Rightarrow> u8 list" where
  "key_rsc k = LE_WRITE_6 (k_tsc k) @ [0, 0]"

definition send_4way_msg3 :: "pae_hooks \<Rightarrow> pae \<Rightarrow> (int \<times> pae) option" where
  "send_4way_msg3 H s =
     with_retry H REASON_4WAY_TIMEOUT
       (\<lambda>s. with_eapol_key H (msg3_room s)
         (\<lambda>s. let s = next_replaycnt s; ni = p_ni s in
              case msg3_data s of None \<Rightarrow> None
              | Some data \<Rightarrow> Some (send_eapol_key H
                (zero_frame\<lparr>ek_info := msg3_info ni, ek_nonce := pn_nonce ni,
                   ek_replaycnt := pn_replaycnt ni,
                   ek_keylen := of_nat (cipher_keylen (pn_rsncipher ni)),
                   ek_rsc := (if mn_rsnprotos ni = PROTO_RSN
                              then key_rsc (pc_nw_keys (p_ic s) ! pc_def_txkey (p_ic s))
                              else replicate 8 0),
                   ek_data := data\<rparr>) (pn_ptk ni) s)) s)
       (s\<lparr>p_ni := (p_ni s)\<lparr>pn_rsn_state := RSNA_PTKINITNEGOTIATING\<rparr>\<rparr>)"

text \<open>The group key of message 1: during a change the next one.\<close>

definition group_kid :: "pae \<Rightarrow> nat" where
  "group_kid s = (if has_flag (mn_flags (p_ni s)) NODE_REKEY then next_gtk_kid (p_ic s)
                  else pc_def_txkey (p_ic s))"

definition group_igtk_kid :: "pae \<Rightarrow> nat" where
  "group_igtk_kid s = (if has_flag (mn_flags (p_ni s)) NODE_REKEY then next_igtk_kid (p_ic s)
                       else pc_igtk_kid (p_ic s))"

definition group_msg1_frame :: "pae \<Rightarrow> eapol_key" where
  "group_msg1_frame s =
     (let ni = p_ni s; k = pc_nw_keys (p_ic s) ! group_kid s;
          info = EAPOL_KEY_KEYACK OR EAPOL_KEY_KEYMIC OR EAPOL_KEY_SECURE OR EAPOL_KEY_ENCRYPTED;
          key = zero_frame\<lparr>ek_replaycnt := pn_replaycnt ni, ek_rsc := key_rsc k\<rparr> in
      if mn_rsnprotos ni = PROTO_WPA
      then key\<lparr>ek_keylen := of_nat (k_len k), ek_data := bytes_at (k_key k) 0 (k_len k),
               ek_info := info OR push_bit 4 (ucast (k_id k AND 3))
                 OR (if pn_rsncipher ni = CIPHER_USEGROUP then EAPOL_KEY_WPA_TX else 0)\<rparr>
      else key\<lparr>ek_info := info,
               ek_data := gtk_kde ni k @ (if has_flag (mn_flags ni) NODE_MFP
                 then igtk_kde (pc_nw_keys (p_ic s) ! group_igtk_kid s) else [])\<rparr>)"

definition send_group_msg1 :: "pae_hooks \<Rightarrow> pae \<Rightarrow> (int \<times> pae) option" where
  "send_group_msg1 H s =
     with_retry H REASON_GROUP_TIMEOUT
       (\<lambda>s. let klen = k_len (pc_nw_keys (p_ic s) ! group_kid s) in
         with_eapol_key H
           ((if mn_rsnprotos (p_ni s) = PROTO_WPA then klen else 2 + 6 + klen)
            + (if has_flag (mn_flags (p_ni s)) NODE_MFP then 2 + 28 else 0) + 15)
         (\<lambda>s. let s = next_replaycnt s
              in Some (send_eapol_key H (group_msg1_frame s) (pn_ptk (p_ni s)) s)) s)
       (s\<lparr>p_ni := (p_ni s)\<lparr>pn_rsn_gstate := RSNA_REKEYNEGOTIATING\<rparr>\<rparr>)"

text \<open>No answer in time.\<close>

definition eapol_timeout :: "pae_hooks \<Rightarrow> pae \<Rightarrow> pae option" where
  "eapol_timeout H s =
     (let st = pn_rsn_state (p_ni s);
          s1 = (if st = RSNA_PTKSTART \<or> st = RSNA_PTKCALCNEGOTIATING
                then map_option snd (send_4way_msg1 H s)
                else if st = RSNA_PTKINITNEGOTIATING then map_option snd (send_4way_msg3 H s)
                else Some s)
      in case s1 of None \<Rightarrow> None
         | Some s \<Rightarrow> if pn_rsn_gstate (p_ni s) = RSNA_REKEYNEGOTIATING
                     then map_option snd (send_group_msg1 H s) else Some s)"

section \<open>Messages received\<close>

definition recv_4way_msg2 :: "pae_hooks \<Rightarrow> eapol_key \<Rightarrow> u8 list \<Rightarrow> pae \<Rightarrow> pae option" where
  "recv_4way_msg2 H key rsnie s =
     (let ni = p_ni s in
      if opmode s \<noteq> M_HOSTAP \<and> opmode s \<noteq> M_IBSS then Some s
      else if pn_rsn_state ni \<noteq> RSNA_PTKSTART \<and> pn_rsn_state ni \<noteq> RSNA_PTKCALCNEGOTIATING
      then Some s
      else let s = s\<lparr>p_ni := ni\<lparr>pn_rsn_state := RSNA_PTKCALCNEGOTIATING\<rparr>\<rparr>;
               tptk = derive_ptk (hk_prims H) (mn_rsnakms ni) (pn_pmk ni) (pc_myaddr (p_ic s))
                        (pn_macaddr ni) (pn_nonce ni) (ek_nonce key) in
      if fst (eapol_key_check_mic (hk_prims H) key (ptk_kck tptk))
      then Some (emit (Ev_Stat Rx_Eapol_Badmic) s)
      else let s = s\<lparr>p_ni := (p_ni s)\<lparr>pn_eapol_to := timeout_del (pn_eapol_to ni),
                       pn_rsn_state := RSNA_PTKCALCNEGOTIATING_2, pn_rsn_retries := 0,
                       pn_ptk := tptk\<rparr>\<rparr> in
      if different_ie ni rsnie then auth_deauth H REASON_RSN_DIFFERENT_IE s
      else map_option snd (send_4way_msg3 H s))"

definition msg4_install :: "pae_hooks \<Rightarrow> pae \<Rightarrow> set_key_result \<times> pae" where
  "msg4_install H s =
     (if pn_rsncipher (p_ni s) \<noteq> CIPHER_USEGROUP
      then let (r, s) = install_pairwise H (ptk_key (p_ni s) 0) s
           in (r, if r = Key_Fail then s else set_flags NODE_TXRXPROT s)
      else (Key_Ok, s))"

definition recv_4way_msg4 :: "pae_hooks \<Rightarrow> eapol_key \<Rightarrow> pae \<Rightarrow> pae option" where
  "recv_4way_msg4 H key s =
     (let ni = p_ni s in
      if opmode s \<noteq> M_HOSTAP \<and> opmode s \<noteq> M_IBSS then Some s
      else if pn_rsn_state ni \<noteq> RSNA_PTKINITNEGOTIATING then Some s
      else if bad_mic H key s then Some (emit (Ev_Stat Rx_Eapol_Badmic) s)
      else let s = s\<lparr>p_ni := ni\<lparr>pn_eapol_to := timeout_del (pn_eapol_to ni),
                       pn_rsn_state := RSNA_PTKINITDONE, pn_rsn_retries := 0\<rparr>\<rparr>;
               (r, s) = msg4_install H s in
      if r = Key_Fail then auth_deauth H REASON_ASSOC_TOOMANY s
      else let (done, s) = count_key s;
               s = (if done then s\<lparr>p_ni := (p_ni s)\<lparr>pn_port_valid := True\<rparr>\<rparr> else s)
           in if mn_rsnprotos (p_ni s) = PROTO_WPA then map_option snd (send_group_msg1 H s)
              else Some (s\<lparr>p_ni := (p_ni s)\<lparr>pn_rsn_gstate := RSNA_IDLE\<rparr>\<rparr>))"

definition recv_4way_msg2or4 :: "pae_hooks \<Rightarrow> eapol_key \<Rightarrow> pae \<Rightarrow> pae option" where
  "recv_4way_msg2or4 H key s =
     (if ek_replaycnt key \<noteq> pn_replaycnt (p_ni s) then Some (emit (Ev_Stat Rx_Eapol_Replay) s)
      else case last_elem (\<lambda>e. byte_at e 0 = ELEMID_RSN \<or> is_wpa_elem e) (key_elems key) of
             Some rsnie \<Rightarrow> recv_4way_msg2 H key rsnie s
           | None \<Rightarrow> recv_4way_msg4 H key s)"

definition recv_group_msg2 :: "pae_hooks \<Rightarrow> eapol_key \<Rightarrow> pae \<Rightarrow> pae" where
  "recv_group_msg2 H key s =
     (let ni = p_ni s in
      if opmode s \<noteq> M_HOSTAP \<and> opmode s \<noteq> M_IBSS then s
      else if pn_rsn_gstate ni \<noteq> RSNA_REKEYNEGOTIATING then s
      else if ek_replaycnt key \<noteq> pn_replaycnt ni then emit (Ev_Stat Rx_Eapol_Replay) s
      else if bad_mic H key s then emit (Ev_Stat Rx_Eapol_Badmic) s
      else let s = rekey_finished H (s\<lparr>p_ni := ni\<lparr>pn_eapol_to := timeout_del (pn_eapol_to ni),
                                         pn_rsn_gstate := RSNA_REKEYESTABLISHED\<rparr>\<rparr>);
               s = set_flags NODE_TXRXPROT s
           in s\<lparr>p_ni := (p_ni s)\<lparr>pn_rsn_gstate := RSNA_IDLE, pn_rsn_retries := 0\<rparr>\<rparr>)"

section \<open>Starting the handshakes\<close>

text \<open>\<^verbatim>\<open>ieee80211_keyrun\<close>.  In station mode \<open>p_ni\<close> is \<^verbatim>\<open>ic_bss\<close>; otherwise it is the node
  of the address, if \<open>found\<close> in the tree, and the supplicant state of \<^verbatim>\<open>ic_bss\<close> is not part of
  the state.  \<open>running\<close> is the test of \<^verbatim>\<open>ic_state\<close>.\<close>

abbreviation (input) ENETDOWN :: int where "ENETDOWN \<equiv> 50"

definition keyrun :: "pae_hooks \<Rightarrow> bool \<Rightarrow> bool \<Rightarrow> pae \<Rightarrow> (int \<times> pae) option" where
  "keyrun H running found s =
     (let ni = p_ni s in
      if \<not> running \<or> \<not> has_flag (mc_flags (p_ic s)) F_RSNON then Some (ENETDOWN, s)
      else if opmode s = M_STA then Some (0, s\<lparr>p_ni := ni\<lparr>pn_rsn_supp_state := SUPP_PTKSTART\<rparr>\<rparr>)
      else if \<not> found then Some (EINVAL, s)
      else if pn_state ni \<noteq> STA_ASSOC \<or> pn_rsn_state ni \<noteq> RSNA_AUTHENTICATION_2 then Some (EINVAL, s)
      else let s = s\<lparr>p_ni := ni\<lparr>pn_rsn_state := RSNA_INITPMK\<rparr>\<rparr> in
        case pmksa_find (mn_rsnakms ni) (pn_macaddr ni) None (pc_pmksa (p_ic s)) of
          None \<Rightarrow> map_option (\<lambda>s. (EINVAL, s)) (auth_deauth H REASON_AUTH_LEAVE s)
        | Some p \<Rightarrow> send_4way_msg1 H (set_flags NODE_PMK
            (s\<lparr>p_ni := (p_ni s)\<lparr>pn_pmk := pmk_key p, mn_pmkid := pmk_pmkid p\<rparr>\<rparr>)))"

text \<open>A new group key in the slot that is not in use, then a handshake with every idle associated
  station; the change completes at once when there is none.  \<open>gtk\<close> and \<open>igtk\<close> are the random
  bytes drawn for the keys.\<close>

definition new_group_keys :: "u8 list \<Rightarrow> u8 list \<Rightarrow> pae_com \<Rightarrow> pae_com" where
  "new_group_keys gtk igtk ic =
     (let kid = next_gtk_kid ic; cipher = mn_rsngroupcipher (mc_bss ic); len = cipher_keylen cipher;
          k = zero_key\<lparr>k_id := of_nat kid, k_cipher := cipher, k_flags := KEY_GROUP OR KEY_TX,
                k_len := len, k_key := key_bytes32 gtk len\<rparr>;
          ic = ic\<lparr>pc_nw_keys := (pc_nw_keys ic)[kid := k]\<rparr> in
      if has_flag (mc_caps ic) C_MFP
      then let kid = next_igtk_kid ic;
               k = zero_key\<lparr>k_id := of_nat kid, k_cipher := pc_bss_groupmgmtcipher ic,
                     k_flags := KEY_IGTK OR KEY_TX, k_len := 16, k_key := key_bytes32 igtk 16\<rparr>
           in ic\<lparr>pc_nw_keys := (pc_nw_keys ic)[kid := k]\<rparr>
      else ic)"

definition node_gtk_rekey :: "pae_hooks \<Rightarrow> pae \<Rightarrow> pae option" where
  "node_gtk_rekey H s =
     (if pn_state (p_ni s) \<noteq> STA_ASSOC \<or> pn_rsn_gstate (p_ni s) \<noteq> RSNA_IDLE then Some s
      else case send_group_msg1 H (set_flags NODE_REKEY s) of
             None \<Rightarrow> None
           | Some (err, s) \<Rightarrow> Some (if err \<noteq> 0 then clear_flags NODE_REKEY s else s))"

text \<open>\<^verbatim>\<open>ieee80211_iterate_nodes\<close>: \<open>f\<close> on each node in turn, with the others around it.\<close>

fun iterate_nodes ::
  "(pae \<Rightarrow> pae option) \<Rightarrow> pae_node list \<Rightarrow> pae_node list \<Rightarrow> pae \<Rightarrow> (pae_node list \<times> pae) option" where
  "iterate_nodes f visited [] s = Some (visited, s)"
| "iterate_nodes f visited (ni # nodes) s =
     (case f (s\<lparr>p_ni := ni, p_others := visited @ nodes\<rparr>) of None \<Rightarrow> None
      | Some s \<Rightarrow> iterate_nodes f (visited @ [p_ni s]) nodes s)"

text \<open>\<^verbatim>\<open>ieee80211_setkeys\<close> and the timer that calls it.  The tree is \<open>p_others\<close>; \<open>p_ni\<close> is
  not in it.\<close>

definition setkeys :: "pae_hooks \<Rightarrow> u8 list \<Rightarrow> u8 list \<Rightarrow> pae \<Rightarrow> pae option" where
  "setkeys H gtk igtk s =
     (case iterate_nodes (node_gtk_rekey H) [] (p_others s)
             (s\<lparr>p_ic := new_group_keys gtk igtk (p_ic s)\<rparr>) of
        None \<Rightarrow> None
      | Some (nodes, s') \<Rightarrow>
          let s' = s'\<lparr>p_ni := p_ni s, p_others := nodes\<rparr>
          in Some (if count_rekeysta nodes = 0 then setkeysdone H s' else s'))"

definition gtk_rekey_timeout :: "pae_hooks \<Rightarrow> u8 list \<Rightarrow> u8 list \<Rightarrow> pae \<Rightarrow> pae option" where
  "gtk_rekey_timeout H gtk igtk s =
     map_option (\<lambda>s. s\<lparr>p_ic := (p_ic s)\<lparr>pc_rsn_timeout := timeout_add_sec (pc_rsn_timeout (p_ic s)) 3600\<rparr>\<rparr>)
       (setkeys H gtk igtk s)"

section \<open>TKIP countermeasures\<close>

abbreviation (input) F_COUNTERM :: u32 where "F_COUNTERM \<equiv> 0x00800000"

definition tkip_deauth :: "pae_hooks \<Rightarrow> pae \<Rightarrow> pae option" where
  "tkip_deauth H s =
     (if pn_state (p_ni s) = STA_ASSOC \<and> (mn_rsngroupcipher (mc_bss (p_ic s)) = CIPHER_TKIP
           \<or> pn_rsncipher (p_ni s) = CIPHER_TKIP)
      then auth_deauth H REASON_MIC_FAILURE s else Some s)"

definition record_micfail :: "pae_hooks \<Rightarrow> u64 \<Rightarrow> pae \<Rightarrow> pae" where
  "record_micfail H tsc s =
     s\<lparr>p_ic := (p_ic s)\<lparr>pc_tkip_micfail := hk_ticks H, pc_tkip_micfail_last_tsc := tsc\<rparr>\<rparr>"

text \<open>In access point mode: the flag and its timer (\<open>sec\<close> is the random delay), the stations
  using TKIP deauthenticated, a change of the group key in one second.  The tree is \<open>p_ni\<close>
  followed by \<open>p_others\<close>.\<close>

definition hostap_countermeasures :: "pae_hooks \<Rightarrow> int \<Rightarrow> pae \<Rightarrow> pae option" where
  "hostap_countermeasures H sec s =
     (let ic = p_ic s;
          s = s\<lparr>p_ic := ic\<lparr>mc_flags := mc_flags ic OR F_COUNTERM,
                           pc_tkip_micfail_to := timeout_add_sec (pc_tkip_micfail_to ic) sec\<rparr>\<rparr> in
      case iterate_nodes (tkip_deauth H) [] (p_ni s # p_others s) s of
        None \<Rightarrow> None
      | Some (nodes, s) \<Rightarrow>
          Some (s\<lparr>p_ni := hd nodes, p_others := tl nodes,
                  p_ic := (p_ic s)\<lparr>pc_rsn_timeout := timeout_add_sec (pc_rsn_timeout (p_ic s)) 1\<rparr>\<rparr>))"

text \<open>In station mode, with \<open>p_ni\<close> the access point: two failure reports, deauthentication,
  and a new scan.\<close>

definition sta_countermeasures :: "pae_hooks \<Rightarrow> u64 \<Rightarrow> pae \<Rightarrow> pae option" where
  "sta_countermeasures H tsc s =
     (let info = EAPOL_KEY_KEYMIC OR EAPOL_KEY_ERROR OR EAPOL_KEY_SECURE in
      case send_eapol_key_req H info (pc_tkip_micfail_last_tsc (p_ic s)) s of None \<Rightarrow> None
      | Some (_, s) \<Rightarrow>
        case send_eapol_key_req H info tsc s of None \<Rightarrow> None
        | Some (_, s) \<Rightarrow> Some (supp_deauth REASON_MIC_FAILURE s))"

definition michael_mic_failure :: "pae_hooks \<Rightarrow> int \<Rightarrow> u64 \<Rightarrow> pae \<Rightarrow> pae option" where
  "michael_mic_failure H sec tsc s =
     (let ic = p_ic s in
      if has_flag (mc_flags ic) F_COUNTERM then Some s
      else if pc_tkip_micfail ic = 0 \<or> hk_ticks H - (pc_tkip_micfail ic + 60 * hk_hz H) \<ge> 0
      then Some (record_micfail H tsc s)
      else map_option (record_micfail H tsc)
        (case opmode s of M_HOSTAP \<Rightarrow> hostap_countermeasures H sec s
         | M_STA \<Rightarrow> sta_countermeasures H tsc s
         | _ \<Rightarrow> Some s))"

definition michael_mic_failure_timeout :: "pae \<Rightarrow> pae" where
  "michael_mic_failure_timeout s =
     s\<lparr>p_ic := (p_ic s)\<lparr>mc_flags := mc_flags (p_ic s) AND NOT F_COUNTERM\<rparr>\<rparr>"

text \<open>An EAPOL-Key request.\<close>

definition recv_eapol_key_req :: "pae_hooks \<Rightarrow> int \<Rightarrow> eapol_key \<Rightarrow> pae \<Rightarrow> pae option" where
  "recv_eapol_key_req H sec key s =
     (let ni = p_ni s; info = ek_info key in
      if opmode s \<noteq> M_HOSTAP \<and> opmode s \<noteq> M_IBSS then Some s
      else if pn_rsn_state ni \<noteq> RSNA_PTKINITDONE then Some s
      else if pn_reqreplaycnt_ok ni \<and> ek_replaycnt key \<le> pn_reqreplaycnt ni
      then Some (emit (Ev_Stat Rx_Eapol_Replay) s)
      else if \<not> has_flag info EAPOL_KEY_KEYMIC \<or> bad_mic H key s
      then Some (emit (Ev_Stat Rx_Eapol_Badmic) s)
      else let s = s\<lparr>p_ni := ni\<lparr>pn_reqreplaycnt := ek_replaycnt key, pn_reqreplaycnt_ok := True\<rparr>\<rparr> in
      if has_flag info EAPOL_KEY_ERROR
      then if mn_rsngroupcipher (mc_bss (p_ic s)) \<noteq> CIPHER_TKIP \<and> pn_rsncipher ni \<noteq> CIPHER_TKIP
           then Some s
           else michael_mic_failure H sec (LE_READ_6 (ek_rsc key)) (emit (Ev_Stat Rx_Remmicfail) s)
      else Some s)"

end
