(* ===== verification/PaeInput.thy ===== *)
theory PaeInput
  imports Authenticator
begin

text \<open>
  \<^verbatim>\<open>ieee80211_eapol_key_input\<close>: the checks on a received EAPOL frame and the choice of the
  handler.
\<close>

text \<open>The checks on a frame \<open>m\<close> behind its Ethernet header, with the frame as read from memory
  when they pass.  The comparison of the key data length is unsigned in 64 bits.\<close>

definition wrong_desc :: "pae_node \<Rightarrow> eapol_key \<Rightarrow> bool" where
  "wrong_desc ni key \<longleftrightarrow>
     mn_rsnprotos ni = PROTO_RSN \<and> ek_desc key \<noteq> EAPOL_KEY_DESC_IEEE80211
     \<or> mn_rsnprotos ni = PROTO_WPA \<and> ek_desc key \<noteq> EAPOL_KEY_DESC_WPA"

definition wrong_length :: "nat \<Rightarrow> eapol_key \<Rightarrow> bool" where
  "wrong_length m_len key \<longleftrightarrow>
     (let totlen = 4 + unat (ek_len key) in
      m_len < totlen \<or> MCLBYTES < totlen
      \<or> of_nat totlen - of_nat EAPOL_HDR < (ucast (ek_paylen key) :: u64))"

definition wrong_version :: "pae_node \<Rightarrow> eapol_key \<Rightarrow> bool" where
  "wrong_version ni key \<longleftrightarrow>
     (let desc = ek_info key AND KEY_VERSION_MASK in
      desc < KEY_DESC_V1 \<or> KEY_DESC_V3 < desc
      \<or> (if is_sha256_akm (mn_rsnakms ni) then desc \<noteq> KEY_DESC_V3
         else (pn_rsncipher ni = CIPHER_CCMP \<or> mn_rsngroupcipher ni = CIPHER_CCMP)
              \<and> desc \<noteq> KEY_DESC_V2))"

text \<open>The message type from the flags (802.11-2007, 8.5.3.7).\<close>

definition eapol_dispatch :: "pae_hooks \<Rightarrow> int \<Rightarrow> eapol_key \<Rightarrow> pae \<Rightarrow> pae option" where
  "eapol_dispatch H sec key s =
     (let info = ek_info key in
      if has_flag info EAPOL_KEY_REQUEST then recv_eapol_key_req H sec key s
      else if has_flag info EAPOL_KEY_PAIRWISE then
        (if has_flag info EAPOL_KEY_KEYMIC then
           (if has_flag info EAPOL_KEY_KEYACK then recv_4way_msg3 H key s
            else recv_4way_msg2or4 H key s)
         else if has_flag info EAPOL_KEY_KEYACK then recv_4way_msg1 H key s
         else Some s)
      else if \<not> has_flag info EAPOL_KEY_KEYMIC then Some s
      else if has_flag info EAPOL_KEY_KEYACK then
        (if ek_desc key = EAPOL_KEY_DESC_WPA then recv_wpa_group_msg1 H key s
         else recv_rsn_group_msg1 H key s)
      else Some (recv_group_msg2 H key s))"

definition eapol_key_input :: "pae_hooks \<Rightarrow> int \<Rightarrow> mbuf \<Rightarrow> pae \<Rightarrow> pae option" where
  "eapol_key_input H sec m s =
     (let frame = drop 14 m; key = eapol_parse frame; ni = p_ni s;
          s' = emit (Ev_Stat Rx_Eapol_Key) s in
      if bit (byte_at m 0) 0 then Some s
      else if length frame < EAPOL_HDR then Some s
      else if hk_pullup H EAPOL_HDR then Some (emit (Ev_Stat Rx_Nombuf) s)
      else if ek_type key \<noteq> EAPOL_KEY then Some s
      else if wrong_desc ni key \<or> wrong_length (length frame) key \<or> wrong_version ni key then Some s'
      else if hk_pullup H (4 + unat (ek_len key)) then Some (emit (Ev_Stat Rx_Nombuf) s')
      else eapol_dispatch H sec key s')"

end
