(* ===== verification/SuppProps.thy ===== *)
theory SuppProps
  imports PaeInput
begin

text \<open>
  Properties of the supplicant: what each handler may change, the use of the replay counter, when
  keys are installed, and what a frame must prove before it changes anything.
\<close>

section \<open>What sending changes\<close>

text \<open>The state without what sending a frame touches: the retransmission timer, the global
  counter, and the frames in the log.\<close>

fun is_tx :: "pae_event \<Rightarrow> bool" where
  "is_tx (Ev_Tx f) = True"
| "is_tx _ = False"

definition core :: "pae \<Rightarrow> pae" where
  "core s = s\<lparr>p_ni := (p_ni s)\<lparr>pn_eapol_to := None\<rparr>, p_ic := (p_ic s)\<lparr>pc_globalcnt := []\<rparr>,
     p_log := filter (\<lambda>e. \<not> is_tx e) (p_log s)\<rparr>"

lemma core_send [simp]: "core (snd (send_eapol_key H k ptk s)) = core s"
  by (cases "eapol_seal H (p_ni s) (pc_globalcnt (p_ic s)) (eapol_header (p_ni s) k) ptk")
    (simp add: send_eapol_key_def core_def emit_def Let_def)

lemma core_sent: "send_eapol_key H k ptk s = (e, s') \<Longrightarrow> core s' = core s"
  using core_send [of H k ptk s] by simp

lemma with_eapol_key_core:
  assumes "with_eapol_key H n send s = Some (e, s')"
    and "\<And>e s'. send s = Some (e, s') \<Longrightarrow> core s' = core s"
  shows "core s' = core s"
  using assms by (auto simp: with_eapol_key_def split: option.splits if_splits)

lemma send_4way_msg2_core:
  "send_4way_msg2 H rc t s = Some (e, s') \<Longrightarrow>
     core s' = core (s\<lparr>p_ni := (p_ni s)\<lparr>pn_rsn_supp_state := SUPP_PTKNEGOTIATING\<rparr>\<rparr>)"
  unfolding send_4way_msg2_def Let_def
  by (erule with_eapol_key_core) (auto split: option.splits intro: core_sent)

lemma send_4way_msg4_core:
  "send_4way_msg4 H s = Some (e, s') \<Longrightarrow>
     core s' = core (s\<lparr>p_ni := (p_ni s)\<lparr>pn_rsn_supp_state := SUPP_PTKDONE\<rparr>\<rparr>)"
  unfolding send_4way_msg4_def Let_def
  by (erule with_eapol_key_core) (auto intro: core_sent)

lemma send_group_msg2_core:
  "send_group_msg2 H k s = Some (e, s') \<Longrightarrow> core s' = core s"
  unfolding send_group_msg2_def Let_def
  by (erule with_eapol_key_core) (auto split: option.splits if_splits intro: core_sent)

section \<open>The handlers by cases\<close>

text \<open>What a handler that returns has done.  Every property below goes through these rules.\<close>

definition note_replaycnt :: "eapol_key \<Rightarrow> pae \<Rightarrow> pae" where
  "note_replaycnt key s =
     s\<lparr>p_ni := (p_ni s)\<lparr>pn_replaycnt := ek_replaycnt key, pn_replaycnt_ok := True\<rparr>\<rparr>"

lemma msg1_cases:
  assumes "recv_4way_msg1 H key s = Some s'"
  obtains (refused) "s' = s"
  | (replay) "s' = emit (Ev_Stat Rx_Eapol_Replay) s"
  | (accepted) pmk e where "pn_replaycnt_ok (p_ni s) \<longrightarrow> \<not> replayed key s"
      "send_4way_msg2 H (ek_replaycnt key) (msg1_ptk H (msg1_accept H key pmk s))
         (msg1_accept H key pmk s) = Some (e, s')"
  using assms that
  by (auto simp: recv_4way_msg1_def Let_def split: if_splits option.splits)

lemma msg3_process_cases:
  assumes "msg3_process H key s = Some s'"
  obtains (refused) "s' = s"
  | (deauth) reason where "s' = supp_deauth reason s"
  | (accepted) s1 e s2 where "msg3_second (msg3_ies_of (p_ni s) key) s = Some s1"
      "send_4way_msg4 H (note_replaycnt key s1) = Some (e, s2)"
      "s' = (if e \<noteq> 0 then s2 else msg3_install H key (msg3_ies_of (p_ni s) key) s2)"
  using assms
  by (simp add: msg3_process_def Let_def note_replaycnt_def split: if_split_asm option.split_asm prod.split_asm)
    (blast intro: that(1) that(2) that(3) sym)+

definition note_ptk :: "pae_hooks \<Rightarrow> eapol_key \<Rightarrow> pae \<Rightarrow> pae" where
  "note_ptk H key s = s\<lparr>p_ni := (p_ni s)\<lparr>pn_ptk := msg3_ptk H key s\<rparr>\<rparr>"

definition mic_ok :: "pae_hooks \<Rightarrow> eapol_key \<Rightarrow> u8 list \<Rightarrow> bool" where
  "mic_ok H key kck \<longleftrightarrow> \<not> fst (eapol_key_check_mic (hk_prims H) key kck)"

lemma check_mic_fields:
  "eapol_key_check_mic pr key kck = (b, key') \<Longrightarrow>
     ek_replaycnt key' = ek_replaycnt key \<and> ek_info key' = ek_info key"
  by (auto simp: eapol_key_check_mic_def eapol_key_mic_def Let_def)

lemma decrypt_fields:
  "eapol_key_decrypt pr key kek = (b, key') \<Longrightarrow>
     ek_replaycnt key' = ek_replaycnt key \<and> ek_info key' = ek_info key"
  by (auto simp: eapol_key_decrypt_def Let_def split: prod.splits if_splits)

lemma msg3_decrypt_fields:
  "msg3_decrypt H key t = (b, key') \<Longrightarrow>
     ek_replaycnt key' = ek_replaycnt key \<and> ek_info key' = ek_info key"
  by (auto simp: msg3_decrypt_def dest: decrypt_fields split: if_splits)

lemma msg3_refused_cases:
  assumes "msg3_refused key s = Some s'"
  obtains "s' = s" | st where "s' = emit (Ev_Stat st) s"
  using assms by (auto simp: msg3_refused_def Let_def split: if_splits)

lemma msg3_accepted:
  assumes "msg3_refused key s = None"
  shows "pn_replaycnt_ok (p_ni s) \<longrightarrow> \<not> replayed key s" "ek_nonce key = pn_nonce (p_ni s)"
    "pn_rsn_supp_state (p_ni s) \<in> {SUPP_PTKNEGOTIATING, SUPP_PTKDONE}"
  using assms by (auto simp: msg3_refused_def Let_def split: if_splits)

lemma msg3_cases:
  assumes "recv_4way_msg3 H key s = Some s'"
  obtains (refused) "s' = s"
  | (stat) st where "s' = emit (Ev_Stat st) s"
  | (not_decrypted) "msg3_refused key s = None" "mic_ok H key (ptk_kck (msg3_ptk H key s))"
      "s' = note_ptk H key s"
  | (verified) key' where "msg3_refused key s = None"
      "mic_ok H key (ptk_kck (msg3_ptk H key s))" "ek_replaycnt key' = ek_replaycnt key"
      "ek_info key' = ek_info key" "msg3_process H key' (note_ptk H key s) = Some s'"
proof (cases "msg3_refused key s")
  case (Some t)
  then have "s' = t" using assms by (simp add: recv_4way_msg3_def)
  with Some show ?thesis using msg3_refused_cases [of key s s'] that(1,2) by blast
next
  case None
  let ?t = "msg3_ptk H key s"
  obtain bad key1 where c: "eapol_key_check_mic (hk_prims H) key (ptk_kck ?t) = (bad, key1)" by fastforce
  obtain fail key2 where d: "msg3_decrypt H key1 ?t = (fail, key2)" by fastforce
  have f: "ek_replaycnt key2 = ek_replaycnt key" "ek_info key2 = ek_info key"
    using check_mic_fields [OF c] msg3_decrypt_fields [OF d] by auto
  have "s' = emit (Ev_Stat Rx_Eapol_Badmic) s \<and> bad \<or> \<not> bad \<and> (s' = note_ptk H key s \<or>
      msg3_process H key2 (note_ptk H key s) = Some s')"
    using assms unfolding recv_4way_msg3_def None Let_def c d note_ptk_def
    by (auto simp: d split: if_splits)
  moreover have "mic_ok H key (ptk_kck ?t) \<longleftrightarrow> \<not> bad" by (simp add: mic_ok_def c)
  ultimately show ?thesis using that(2) that(3) that(4) [OF None _ f] None by blast
qed

lemma group_refused_cases:
  assumes "group_msg1_refused H key s = Some s'"
  obtains "s' = s" | st where "s' = emit (Ev_Stat st) s"
  using assms by (auto simp: group_msg1_refused_def split: if_splits)

lemma group_accepted:
  assumes "group_msg1_refused H key s = None"
  shows "\<not> replayed key s" "mic_ok H key (ptk_kck (pn_ptk (p_ni s)))"
    "pn_rsn_supp_state (p_ni s) = SUPP_PTKDONE"
  using assms by (auto simp: group_msg1_refused_def bad_mic_def mic_ok_def split: if_splits)

text \<open>Both group key handshakes.\<close>

lemma rsn_group_cases:
  assumes "recv_rsn_group_msg1 H key s = Some s'"
  obtains (refused) "s' = s"
  | (stat) st where "s' = emit (Ev_Stat st) s"
  | (verified) key' where "group_msg1_refused H key s = None"
      "ek_replaycnt key' = ek_replaycnt key" "rsn_group_install H key' s = Some s'"
proof (cases "group_msg1_refused H key s")
  case (Some t)
  then have "s' = t" using assms by (simp add: recv_rsn_group_msg1_def)
  with Some show ?thesis using group_refused_cases [of H key s s'] that(1,2) by blast
next
  case None
  obtain fail key2 where d: "eapol_key_decrypt (hk_prims H) key (ptk_kek (pn_ptk (p_ni s))) = (fail, key2)"
    by fastforce
  have "s' = s \<or> rsn_group_install H key2 s = Some s'"
    using assms by (auto simp: recv_rsn_group_msg1_def None d split: if_splits)
  then show ?thesis using that(1) that(3) [OF None] decrypt_fields [OF d] by blast
qed

lemma wpa_group_cases:
  assumes "recv_wpa_group_msg1 H key s = Some s'"
  obtains (refused) "s' = s"
  | (stat) st where "s' = emit (Ev_Stat st) s"
  | (verified) key' where "group_msg1_refused H key s = None"
      "ek_replaycnt key' = ek_replaycnt key" "wpa_group_install H key' s = Some s'"
proof (cases "group_msg1_refused H key s")
  case (Some t)
  then have "s' = t" using assms by (simp add: recv_wpa_group_msg1_def)
  with Some show ?thesis using group_refused_cases [of H key s s'] that(1,2) by blast
next
  case None
  obtain fail key2 where d: "eapol_key_decrypt (hk_prims H) key (ptk_kek (pn_ptk (p_ni s))) = (fail, key2)"
    by fastforce
  have "s' = s \<or> wpa_group_install H key2 s = Some s'"
    using assms by (auto simp: recv_wpa_group_msg1_def None d split: if_splits)
  then show ?thesis using that(1) that(3) [OF None] decrypt_fields [OF d] by blast
qed

text \<open>The installation steps of the two.\<close>

text \<open>The optional IGTK step of the group handshake.\<close>

definition opt_igtk :: "pae_hooks \<Rightarrow> u8 list option \<Rightarrow> pae \<Rightarrow> set_key_result \<times> pae" where
  "opt_igtk H igtk s = (case igtk of None \<Rightarrow> (Key_Ok, s) | Some igtk \<Rightarrow> install_igtk H igtk s)"

lemma rsn_install_cases:
  assumes "rsn_group_install H key s = Some s'"
  obtains (refused) "s' = s"
  | (gtk_failed) kid tx rsc len gtk s1 where "install_gtk H kid tx rsc len gtk s = (Key_Fail, s1)"
      "s' = supp_deauth REASON_AUTH_LEAVE s1"
  | (igtk_failed) kid tx rsc len gtk r s1 igtk s2 where
      "install_gtk H kid tx rsc len gtk s = (r, s1)" "r \<noteq> Key_Fail"
      "opt_igtk H igtk s1 = (Key_Fail, s2)" "s' = supp_deauth REASON_AUTH_LEAVE s2"
  | (installed) kid tx rsc len gtk r s1 igtk r2 s2 where
      "install_gtk H kid tx rsc len gtk s = (r, s1)" "r \<noteq> Key_Fail"
      "opt_igtk H igtk s1 = (r2, s2)" "r2 \<noteq> Key_Fail" "group_msg1_done H key None s2 = Some s'"
proof -
  define igtk where "igtk = (if has_flag (mn_flags (p_ni s)) NODE_MFP
    then last_elem (is_kde KDE_IGTK) (key_elems key) else None)"
  define keylen where "keylen = cipher_keylen (mn_rsngroupcipher (p_ni s))"
  note d = rsn_group_install_def Let_def igtk_def [symmetric] keylen_def [symmetric] opt_igtk_def [symmetric]
  show ?thesis
  proof (cases "last_elem (is_kde KDE_GTK) (key_elems key)")
    case None
    then show ?thesis using assms that(1) by (simp add: d)
  next
    case (Some gtk)
    obtain r1 s1 where 1: "install_gtk H (kde_kid gtk) (kde_tx gtk) (ek_rsc key) keylen (drop 8 gtk) s
        = (r1, s1)" by fastforce
    obtain r2 s2 where 2: "opt_igtk H igtk s1 = (r2, s2)" by fastforce
    have "s' = s \<or> r1 = Key_Fail \<and> s' = supp_deauth REASON_AUTH_LEAVE s1
        \<or> r1 \<noteq> Key_Fail \<and> r2 = Key_Fail \<and> s' = supp_deauth REASON_AUTH_LEAVE s2
        \<or> r1 \<noteq> Key_Fail \<and> r2 \<noteq> Key_Fail \<and> group_msg1_done H key None s2 = Some s'"
      using assms by (simp add: d Some 1 2 split: if_split_asm)
    then show ?thesis using 1 2 by (elim disjE conjE) (auto intro: that)
  qed
qed

lemma wpa_install_cases:
  assumes "wpa_group_install H key s = Some s'"
  obtains (refused) "s' = s"
  | (gtk_failed) kid tx rsc len gtk s1 where "install_gtk H kid tx rsc len gtk s = (Key_Fail, s1)"
      "s' = supp_deauth REASON_AUTH_LEAVE s1"
  | (installed) kid tx rsc len gtk r s1 k where "install_gtk H kid tx rsc len gtk s = (r, s1)"
      "r \<noteq> Key_Fail" "group_msg1_done H key (Some k) s1 = Some s'"
proof -
  define keylen where "keylen = cipher_keylen (mn_rsngroupcipher (p_ni s))"
  define kid :: u8 where "kid = ucast (drop_bit 4 (ek_info key) AND 3)"
  obtain r1 s1 where 1: "install_gtk H kid (has_flag (ek_info key) EAPOL_KEY_WPA_TX) (ek_rsc key) keylen
      (ek_data key) s = (r1, s1)" by fastforce
  have "s' = s \<or> r1 = Key_Fail \<and> s' = supp_deauth REASON_AUTH_LEAVE s1
      \<or> r1 \<noteq> Key_Fail \<and> group_msg1_done H key (Some (pc_nw_keys (p_ic s1) ! unat kid)) s1 = Some s'"
    using assms
    by (simp add: wpa_group_install_def Let_def keylen_def [symmetric] kid_def [symmetric] 1
        split: if_split_asm)
  then show ?thesis using 1 that by blast
qed

text \<open>The end of both.\<close>

definition group_port :: "eapol_key \<Rightarrow> pae \<Rightarrow> pae" where
  "group_port key s =
     (if has_flag (ek_info key) EAPOL_KEY_SECURE
      then let (done, s) = count_key s in if done then clear_assoc_fail (open_port s) else s
      else s)"

lemma group_done_cases:
  assumes "group_msg1_done H key k s = Some s'"
  obtains e where "send_group_msg2 H k ((group_port key s)\<lparr>p_ni := (p_ni (group_port key s))
    \<lparr>pn_replaycnt := ek_replaycnt key\<rparr>\<rparr>) = Some (e, s')"
  using assms by (auto simp: group_msg1_done_def Let_def group_port_def)

section \<open>Runs of a supplicant\<close>

text \<open>The messages a supplicant can receive, and runs of it: every message comes with its own
  surroundings.\<close>

datatype supp_msg = Msg1 | Msg3 | Rsn_Group1 | Wpa_Group1

fun supp_recv :: "supp_msg \<Rightarrow> pae_hooks \<Rightarrow> eapol_key \<Rightarrow> pae \<Rightarrow> pae option" where
  "supp_recv Msg1 H key s = recv_4way_msg1 H key s"
| "supp_recv Msg3 H key s = recv_4way_msg3 H key s"
| "supp_recv Rsn_Group1 H key s = recv_rsn_group_msg1 H key s"
| "supp_recv Wpa_Group1 H key s = recv_wpa_group_msg1 H key s"

inductive supp_run :: "pae \<Rightarrow> (supp_msg \<times> pae_hooks \<times> eapol_key) list \<Rightarrow> pae \<Rightarrow> bool" where
  supp_start: "supp_run s [] s"
| supp_step: "supp_run s tr s' \<Longrightarrow> supp_recv msg H key s' = Some s'' \<Longrightarrow>
    supp_run s (tr @ [(msg, H, key)]) s''"

section \<open>Installation of the pairwise key\<close>

text \<open>Successful installations of a pairwise key (the keys without group flags), and whether a
  new one is expected.\<close>

fun pairwise_event :: "pae_event \<Rightarrow> bool" where
  "pairwise_event (Ev_SetKey k r) = (k_flags k = 0 \<and> r \<noteq> Key_Fail)"
| "pairwise_event _ = False"

definition installs :: "pae \<Rightarrow> nat" where
  "installs s = length (filter pairwise_event (p_log s))"

definition expects :: "pae \<Rightarrow> bool" where
  "expects s \<longleftrightarrow> has_flag (mn_flags (p_ni s)) NODE_RSN_NEW_PTK"

definition budget :: "pae \<Rightarrow> nat" where
  "budget s = installs s + (if expects s then 1 else 0)"

lemmas budget_defs = budget_def installs_def expects_def

lemma pairwise_not_tx: "pairwise_event e \<Longrightarrow> \<not> is_tx e"
  by (cases e) auto

lemma budget_core: "budget (core s) = budget s"
proof -
  have "filter pairwise_event (filter (\<lambda>e. \<not> is_tx e) l) = filter pairwise_event l" for l
    by (induction l) (auto dest: pairwise_not_tx)
  then show ?thesis by (simp add: budget_defs core_def)
qed

lemma budget_cong: "core s' = core s \<Longrightarrow> budget s' = budget s"
  by (metis budget_core)

lemma budget_emit: "\<not> pairwise_event e \<Longrightarrow> budget (emit e s) = budget s"
  by (simp add: budget_defs emit_def)

lemma budget_flags:
  "f AND NODE_RSN_NEW_PTK = 0 \<Longrightarrow> budget (set_flags f s) = budget s"
  "f AND NODE_RSN_NEW_PTK = 0 \<Longrightarrow> budget (clear_flags f s) = budget s"
  by (simp_all add: budget_defs set_flags_def clear_flags_def has_flag_or has_flag_and_not)

lemma budget_link: "budget (set_link_state l s) = budget s"
  by (simp add: set_link_state_def Let_def budget_emit) (simp add: budget_defs)

lemma budget_install_group:
  "k_flags k \<noteq> 0 \<Longrightarrow> install_group H kid k s = (r, s') \<Longrightarrow> budget s' = budget s"
  by (auto simp: install_group_def budget_emit split: prod.splits) (simp add: budget_defs)

lemma gtk_key_flags [simp]: "k_flags (gtk_key kid cipher tx rsc len gtk) \<noteq> 0"
  by (simp add: gtk_key_def)

lemma igtk_key_flags [simp]: "k_flags (igtk_key kid cipher igtk) \<noteq> 0"
  by (simp add: igtk_key_def)

lemma budget_install_gtk: "install_gtk H kid tx rsc len gtk s = (r, s') \<Longrightarrow> budget s' = budget s"
  by (auto simp: install_gtk_def intro: budget_install_group [rotated] split: if_splits)

lemma budget_install_igtk: "install_igtk H igtk s = (r, s') \<Longrightarrow> budget s' = budget s"
  by (auto simp: install_igtk_def Let_def intro: budget_install_group [rotated] split: if_splits)

lemma clear_flags_simps:
  "mn_flags (p_ni (clear_flags f s)) = mn_flags (p_ni s) AND NOT f"
  "p_log (clear_flags f s) = p_log s"
  by (simp_all add: clear_flags_def)

lemma budget_new: "budget (clear_flags NODE_RSN_NEW_PTK s) = installs s"
  unfolding budget_def expects_def installs_def clear_flags_simps by (simp only: has_flag_cleared) simp

lemma installs_pairwise: "install_pairwise H k s = (r, s') \<Longrightarrow>
    installs s' \<le> installs s + 1 \<and> (r = Key_Fail \<longrightarrow> budget s' = budget s)"
  by (auto simp: install_pairwise_def emit_def budget_defs split: prod.splits)

lemma budget_msg3_ptk: "msg3_install_ptk H key ies s = (r, s') \<Longrightarrow> budget s' \<le> budget s"
proof -
  assume a: "msg3_install_ptk H key ies s = (r, s')"
  define prsc where "prsc = (if m3_gtk ies = None then LE_READ_6 (ek_rsc key) else 0)"
  obtain r1 s1 where i: "install_pairwise H (ptk_key (p_ni s) prsc) s = (r1, s1)" by fastforce
  have "budget (set_flags NODE_RXPROT (clear_flags NODE_TXRXPROT (clear_flags NODE_RSN_NEW_PTK s1)))
      = installs s1" by (simp add: budget_flags budget_new)
  moreover have "budget s = installs s + 1" if "has_flag (mn_flags (p_ni s)) NODE_RSN_NEW_PTK"
    using that by (simp add: budget_def expects_def)
  ultimately show ?thesis
    using a installs_pairwise [OF i]
    by (auto simp: msg3_install_ptk_def Let_def i [unfolded prsc_def] split: if_splits)
qed

lemma budget_deauth [simp]: "budget (supp_deauth reason s) = budget s"
  by (simp add: supp_deauth_def budget_emit)

lemma budget_count: "count_key s = (b, s') \<Longrightarrow> budget s' = budget s"
  by (auto simp: count_key_def Let_def budget_defs split: if_splits)

lemma budget_port [simp]: "budget (open_port s) = budget s" "budget (clear_assoc_fail s) = budget s"
  by (simp_all add: open_port_def clear_assoc_fail_def budget_link) (simp_all add: budget_defs)

lemma budget_msg3_open [simp]: "budget (msg3_open_port d s) = budget s"
proof -
  define s1 where "s1 = (if d then s else let s' = open_port s in
    if \<not> pn_port_valid (p_ni s) \<and> pc_event_handler (p_ic s') then emit Ev_Handshake_Done s' else s')"
  have "budget s1 = budget s" by (simp add: s1_def Let_def budget_emit)
  moreover have "budget (msg3_open_port d s) = budget (clear_assoc_fail s1)"
    unfolding msg3_open_port_def s1_def Let_def by (simp add: budget_defs)
  ultimately show ?thesis by simp
qed

lemma budget_msg3_finish [simp]: "budget (msg3_finish info d s) = budget s"
proof -
  define s1 where "s1 = (if has_flag info EAPOL_KEY_INSTALL then set_flags NODE_TXRXPROT s else s)"
  obtain b s2 where c: "count_key (set_flags NODE_TXRXPROT s1) = (b, s2)" by fastforce
  have "budget s2 = budget s" "budget s1 = budget s"
    using budget_count [OF c] by (auto simp: s1_def budget_flags)
  then show ?thesis unfolding msg3_finish_def s1_def [symmetric] Let_def c by simp
qed

lemma budget_msg3_gtk: "msg3_install_gtk H key ies s = (r, s') \<Longrightarrow> budget s' = budget s"
  by (auto simp: msg3_install_gtk_def Let_def intro: budget_install_gtk split: option.splits if_splits)

lemma budget_msg3_igtk: "msg3_install_igtk H ies s = (r, s') \<Longrightarrow> budget s' = budget s"
  by (auto simp: msg3_install_igtk_def intro: budget_install_igtk split: option.splits)

lemma budget_msg3_install: "budget (msg3_install H key ies s) \<le> budget s"
proof -
  obtain r1 s1 where 1: "msg3_install_ptk H key ies s = (r1, s1)" by fastforce
  obtain r2 s2 where 2: "msg3_install_gtk H key ies s1 = (r2, s2)" by fastforce
  obtain r3 s3 where 3: "msg3_install_igtk H ies s2 = (r3, s3)" by fastforce
  show ?thesis
    using budget_msg3_ptk [OF 1] budget_msg3_gtk [OF 2] budget_msg3_igtk [OF 3]
    by (simp add: msg3_install_def 1 2 3)
qed

lemma budget_msg3_second: "msg3_second ies s = Some s' \<Longrightarrow> budget s' = budget s"
  by (auto simp: msg3_second_def second_rsnie_def Let_def budget_emit split: option.splits if_splits prod.splits)
    (auto simp: budget_defs emit_def)

lemma budget_node:
  "budget (s\<lparr>p_ni := (p_ni s)\<lparr>pn_ptk := t\<rparr>\<rparr>) = budget s"
  "budget (s\<lparr>p_ni := (p_ni s)\<lparr>pn_replaycnt := c\<rparr>\<rparr>) = budget s"
  "budget (s\<lparr>p_ni := (p_ni s)\<lparr>pn_rsn_supp_state := st\<rparr>\<rparr>) = budget s"
  "budget (note_replaycnt key s) = budget s"
  "budget (note_ptk H key s) = budget s"
  by (simp_all add: budget_defs note_replaycnt_def note_ptk_def)

lemma budget_msg3_process:
  assumes "msg3_process H key s = Some s'"
  shows "budget s' \<le> budget s"
  using assms
proof (cases rule: msg3_process_cases)
  case (accepted s1 e s2)
  have "budget s2 = budget s"
    using budget_cong [OF send_4way_msg4_core [OF accepted(2)]] budget_msg3_second [OF accepted(1)]
    by (simp add: budget_node)
  then show ?thesis using accepted(3) budget_msg3_install [of H key _ s2] by auto
qed simp_all

lemma budget_msg3:
  assumes "recv_4way_msg3 H key s = Some s'"
  shows "budget s' \<le> budget s"
  using assms by (cases rule: msg3_cases) (auto simp: budget_emit budget_node dest!: budget_msg3_process)

lemma budget_msg1:
  assumes "recv_4way_msg1 H key s = Some s'"
  shows "budget s' \<le> budget s + 1"
  using assms
proof (cases rule: msg1_cases)
  case (accepted pmk e)
  have "budget s' = budget (msg1_accept H key pmk s)"
    using budget_cong [OF send_4way_msg2_core [OF accepted(2)]] by (simp add: budget_node)
  also have "\<dots> \<le> installs s + 1"
    by (simp add: budget_def installs_def msg1_accept_def set_flags_def)
  finally show ?thesis by (simp add: budget_def)
qed (simp_all add: budget_emit)

lemma budget_group_port [simp]: "budget (group_port key s) = budget s"
  by (auto simp: group_port_def dest: budget_count split: prod.splits)

lemma budget_group_done: "group_msg1_done H key k s = Some s' \<Longrightarrow> budget s' = budget s"
  by (elim group_done_cases) (auto dest!: send_group_msg2_core budget_cong simp: budget_node)

lemma budget_opt_igtk: "opt_igtk H igtk s = (r, s') \<Longrightarrow> budget s' = budget s"
  by (auto simp: opt_igtk_def intro: budget_install_igtk split: option.splits)

lemma budget_rsn_group: "rsn_group_install H key s = Some s' \<Longrightarrow> budget s' = budget s"
  by (elim rsn_install_cases)
    (auto dest!: budget_install_gtk budget_opt_igtk budget_group_done)

lemma budget_wpa_group: "wpa_group_install H key s = Some s' \<Longrightarrow> budget s' = budget s"
  by (elim wpa_install_cases) (auto dest!: budget_install_gtk budget_group_done)

lemma budget_rsn_recv: "recv_rsn_group_msg1 H key s = Some s' \<Longrightarrow> budget s' = budget s"
  by (elim rsn_group_cases) (auto simp: budget_emit dest: budget_rsn_group)

lemma budget_wpa_recv: "recv_wpa_group_msg1 H key s = Some s' \<Longrightarrow> budget s' = budget s"
  by (elim wpa_group_cases) (auto simp: budget_emit dest: budget_wpa_group)

lemma budget_recv:
  "supp_recv msg H key s = Some s' \<Longrightarrow> budget s' \<le> budget s + (if msg = Msg1 then 1 else 0)"
  by (cases msg) (auto dest: budget_msg1 budget_msg3 budget_rsn_recv budget_wpa_recv)

text \<open>C2. A pairwise key is installed at most once per message 1.  In every run of the
  supplicant, with any frames and any driver, the number of successful installations of a pairwise
  key is at most the number of first messages, plus one if a key was expected at the start: a
  retransmitted or replayed message 3 never resets the packet numbers of a key in use.\<close>

theorem pairwise_key_installed_once:
  assumes "supp_run s tr s'"
  shows "installs s' \<le> installs s + (if expects s then 1 else 0)
    + length (filter (\<lambda>(msg, _). msg = Msg1) tr)"
proof -
  have "budget s' \<le> budget s + length (filter (\<lambda>(msg, _). msg = Msg1) tr)"
    using assms by (induction) (auto dest!: budget_recv split: if_splits)
  then show ?thesis by (simp add: budget_def split: if_splits)
qed

end
