(* ===== verification/SuppGroup.thy ===== *)
theory SuppGroup
  imports SuppProps
begin

text \<open>
  The supplicant, continued: replay protection, authenticity of everything that changes keys or
  opens the port, and the installation of group keys.
\<close>

section \<open>The replay counter\<close>

lemma core_replaycnt:
  "core s' = core s \<Longrightarrow> pn_replaycnt (p_ni s') = pn_replaycnt (p_ni s)
     \<and> pn_replaycnt_ok (p_ni s') = pn_replaycnt_ok (p_ni s)"
  by (drule arg_cong [where f = "\<lambda>s. (pn_replaycnt (p_ni s), pn_replaycnt_ok (p_ni s))"])
    (simp add: core_def)

text \<open>The counter as it is seen: steps that leave it alone.\<close>

definition cnt :: "pae \<Rightarrow> u64 \<times> bool" where
  "cnt s = (pn_replaycnt (p_ni s), pn_replaycnt_ok (p_ni s))"

lemma cnt_core: "core s' = core s \<Longrightarrow> cnt s' = cnt s"
  by (drule core_replaycnt) (simp add: cnt_def)

lemma cnt_simps [simp]:
  "cnt (emit e s) = cnt s" "cnt (set_flags f s) = cnt s" "cnt (clear_flags f s) = cnt s"
  by (simp_all add: cnt_def emit_def set_flags_def clear_flags_def)

lemma cnt_simps2 [simp]:
  "cnt (supp_deauth reason s) = cnt s" "cnt (note_ptk H key s) = cnt s"
  "cnt (clear_assoc_fail s) = cnt s" 
  "cnt (s\<lparr>p_ni := (p_ni s)\<lparr>pn_rsn_supp_state := st\<rparr>\<rparr>) = cnt s"
  by (simp_all add: cnt_def emit_def supp_deauth_def note_ptk_def clear_assoc_fail_def)

lemma cnt_msg1 [simp]: "cnt (msg1_accept H key pmk s) = cnt s"
  unfolding msg1_accept_def Let_def cnt_def set_flags_def by simp

lemma cnt_open_port [simp]: "cnt (open_port s) = cnt s"
  by (simp add: open_port_def set_link_state_def Let_def) (simp add: cnt_def)

lemma cnt_installs:
  "install_pairwise H k s = (r, s') \<Longrightarrow> cnt s' = cnt s"
  "install_group H kid k s = (r, s') \<Longrightarrow> cnt s' = cnt s"
  by (auto simp: install_pairwise_def install_group_def split: prod.splits) (auto simp: cnt_def)

lemma cnt_install_gtk: "install_gtk H kid tx rsc len gtk s = (r, s') \<Longrightarrow> cnt s' = cnt s"
  by (auto simp: install_gtk_def dest: cnt_installs split: if_splits)

lemma cnt_install_igtk: "install_igtk H igtk s = (r, s') \<Longrightarrow> cnt s' = cnt s"
  by (auto simp: install_igtk_def Let_def dest: cnt_installs split: if_splits)

lemma cnt_opt_igtk: "opt_igtk H igtk s = (r, s') \<Longrightarrow> cnt s' = cnt s"
  by (auto simp: opt_igtk_def dest: cnt_install_igtk split: option.splits)

lemma cnt_count: "count_key s = (b, s') \<Longrightarrow> cnt s' = cnt s"
  by (auto simp: count_key_def Let_def cnt_def split: if_splits)

lemma cnt_group_port [simp]: "cnt (group_port key s) = cnt s"
  by (auto simp: group_port_def dest: cnt_count split: prod.splits)

lemma cnt_msg3_ptk: "msg3_install_ptk H key ies s = (r, s') \<Longrightarrow> cnt s' = cnt s"
  by (auto simp: msg3_install_ptk_def Let_def dest: cnt_installs split: if_splits prod.splits)

lemma cnt_msg3_gtk: "msg3_install_gtk H key ies s = (r, s') \<Longrightarrow> cnt s' = cnt s"
  by (auto simp: msg3_install_gtk_def Let_def dest: cnt_install_gtk split: option.splits if_splits)

lemma cnt_msg3_igtk: "msg3_install_igtk H ies s = (r, s') \<Longrightarrow> cnt s' = cnt s"
  by (auto simp: msg3_install_igtk_def dest: cnt_install_igtk split: option.splits)

lemma cnt_msg3_finish [simp]: "cnt (msg3_finish info d s) = cnt s"
proof -
  have "cnt (msg3_open_port d t) = cnt t" for t
    by (auto simp: msg3_open_port_def Let_def cnt_def)
      (use cnt_open_port in \<open>simp_all add: cnt_def emit_def clear_assoc_fail_def\<close>)
  then show ?thesis by (auto simp: msg3_finish_def Let_def dest: cnt_count split: prod.splits)
qed

lemma cnt_msg3_second: "msg3_second ies s = Some s' \<Longrightarrow> cnt s' = cnt s"
  by (auto simp: msg3_second_def second_rsnie_def Let_def split: option.splits if_splits prod.splits)
    (auto simp: cnt_def emit_def)

lemma cnt_msg3_install [simp]: "cnt (msg3_install H key ies s) = cnt s"
  by (auto simp: msg3_install_def split: prod.splits
      dest!: cnt_msg3_ptk cnt_msg3_gtk cnt_msg3_igtk)

text \<open>A frame either leaves the counter or moves it to its own, newer value.\<close>

definition cnt_step :: "eapol_key \<Rightarrow> pae \<Rightarrow> pae \<Rightarrow> bool" where
  "cnt_step key s s' \<longleftrightarrow> cnt s' = cnt s
     \<or> pn_replaycnt (p_ni s') = ek_replaycnt key
       \<and> (pn_replaycnt_ok (p_ni s) \<longrightarrow> \<not> replayed key s \<and> pn_replaycnt_ok (p_ni s'))"

lemma cnt_step_msg1:
  assumes "recv_4way_msg1 H key s = Some s'"
  shows "cnt_step key s s'"
  using assms
proof (cases rule: msg1_cases)
  case (accepted pmk e)
  then show ?thesis using cnt_core [OF send_4way_msg2_core [OF accepted(2)]]
    by (simp add: cnt_step_def)
qed (simp_all add: cnt_step_def)

lemma cnt_step_msg3:
  assumes "recv_4way_msg3 H key s = Some s'"
  shows "cnt_step key s s'"
  using assms
proof (cases rule: msg3_cases)
  case (verified key')
  show ?thesis
    using verified(5)
  proof (cases rule: msg3_process_cases)
    case (accepted s1 e s2)
    have "cnt s2 = (ek_replaycnt key, True)"
      using cnt_core [OF send_4way_msg4_core [OF accepted(2)]] verified(3)
      by (simp add: cnt_def note_replaycnt_def)
    then have "cnt s' = (ek_replaycnt key, True)" using accepted(3) by auto
    then show ?thesis using msg3_accepted(1) [OF verified(1)] by (simp add: cnt_step_def cnt_def)
  qed (simp_all add: cnt_step_def)
qed (simp_all add: cnt_step_def)

lemma cnt_group_done:
  assumes "group_msg1_done H key k s = Some s'"
  shows "cnt s' = (ek_replaycnt key, snd (cnt s))"
  using assms
proof (rule group_done_cases)
  fix e assume "send_group_msg2 H k ((group_port key s)\<lparr>p_ni := (p_ni (group_port key s))
    \<lparr>pn_replaycnt := ek_replaycnt key\<rparr>\<rparr>) = Some (e, s')"
  from cnt_core [OF send_group_msg2_core [OF this]] cnt_group_port [of key s]
  show ?thesis by (simp add: cnt_def)
qed

lemma cnt_step_group:
  assumes "group_msg1_refused H key s = None" "ek_replaycnt key' = ek_replaycnt key"
    and "rsn_group_install H key' s = Some s' \<or> wpa_group_install H key' s = Some s'"
  shows "cnt_step key s s'"
proof -
  have "cnt s' = cnt s \<or> cnt s' = (ek_replaycnt key', snd (cnt s))" using assms(3)
  proof
    assume "rsn_group_install H key' s = Some s'"
    then show ?thesis
      by (elim rsn_install_cases) (auto dest!: cnt_install_gtk cnt_opt_igtk cnt_group_done)
  next
    assume "wpa_group_install H key' s = Some s'"
    then show ?thesis
      by (elim wpa_install_cases) (auto dest!: cnt_install_gtk cnt_group_done)
  qed
  then show ?thesis using assms(2) group_accepted(1) [OF assms(1)] by (auto simp: cnt_step_def cnt_def)
qed

lemma cnt_step_recv:
  assumes "supp_recv msg H key s = Some s'"
  shows "cnt_step key s s'"
proof (cases msg)
  case Rsn_Group1
  with assms have "recv_rsn_group_msg1 H key s = Some s'" by simp
  then show ?thesis
    by (elim rsn_group_cases) (auto simp: cnt_step_def [of key s s] cnt_step_def [of key s "emit _ s"]
        intro: cnt_step_group)
next
  case Wpa_Group1
  with assms have "recv_wpa_group_msg1 H key s = Some s'" by simp
  then show ?thesis
    by (elim wpa_group_cases) (auto simp: cnt_step_def [of key s s] cnt_step_def [of key s "emit _ s"]
        intro: cnt_step_group)
qed (use assms in \<open>auto intro: cnt_step_msg1 cnt_step_msg3\<close>)

lemma replay_refused:
  assumes "pn_replaycnt_ok (p_ni s)" "replayed key s"
  shows "supp_recv msg H key s \<in> {Some s, Some (emit (Ev_Stat Rx_Eapol_Replay) s)}"
  using assms
  by (cases msg) (auto simp: recv_4way_msg1_def recv_4way_msg3_def msg3_refused_def
      recv_rsn_group_msg1_def recv_wpa_group_msg1_def group_msg1_refused_def Let_def)

lemma cnt_run:
  assumes "supp_run s tr s'" "pn_replaycnt_ok (p_ni s)"
  shows "pn_replaycnt_ok (p_ni s') \<and> pn_replaycnt (p_ni s) \<le> pn_replaycnt (p_ni s')"
  using assms
proof (induction)
  case (supp_step s tr s' msg H key s'')
  have "cnt_step key s' s''" by (rule cnt_step_recv [OF supp_step(2)])
  then show ?case using supp_step.IH supp_step.prems
    by (auto simp: cnt_step_def cnt_def replayed_def)
qed simp

text \<open>C3. Replay protection.  Once a counter has been recorded it never decreases, and from then on
  a frame that does not exceed it, whatever it claims to be and whenever it arrives, changes
  nothing but a statistic.\<close>

theorem replayed_frames_ignored:
  assumes "supp_run s tr s'" and "pn_replaycnt_ok (p_ni s)"
    and "ek_replaycnt key \<le> pn_replaycnt (p_ni s)"
  shows "pn_replaycnt (p_ni s) \<le> pn_replaycnt (p_ni s') \<and>
    supp_recv msg H key s' \<in> {Some s', Some (emit (Ev_Stat Rx_Eapol_Replay) s')}"
  using cnt_run [OF assms(1,2)] assms(3) replay_refused [of s' key msg H]
  by (auto simp: replayed_def)

section \<open>Authenticity\<close>

text \<open>The security-relevant state: keys, the port and the counter.\<close>

definition guarded :: "pae \<Rightarrow> iee_key \<times> iee_key list \<times> ptk \<times> bool \<times> u64" where
  "guarded s = (pn_pairwise_key (p_ni s), pc_nw_keys (p_ic s), pn_ptk (p_ni s),
     pn_port_valid (p_ni s), pn_replaycnt (p_ni s))"

lemma guarded_emit [simp]: "guarded (emit e s) = guarded s"
  by (simp add: guarded_def emit_def)

lemma guarded_core: "core s' = core s \<Longrightarrow> guarded s' = guarded s"
  by (drule arg_cong [where f = guarded]) (simp add: guarded_def core_def)

lemma guarded_msg1:
  assumes "recv_4way_msg1 H key s = Some s'"
  shows "guarded s' = guarded s"
  using assms
proof (cases rule: msg1_cases)
  case (accepted pmk e)
  have "guarded (t\<lparr>p_ni := (p_ni t)\<lparr>pn_rsn_supp_state := st\<rparr>\<rparr>) = guarded t" for t st
    by (simp add: guarded_def)
  moreover have "guarded (msg1_accept H key pmk s) = guarded s"
    by (simp add: guarded_def msg1_accept_def set_flags_def)
  ultimately show ?thesis using guarded_core [OF send_4way_msg2_core [OF accepted(2)]] by simp
qed simp_all

text \<open>C4. Authenticity.  Whatever frame arrives, the keys, the derived PTK, the port and the replay
  counter change only if the frame is not a message 1 and carries a MIC that verifies under the key
  confirmation key: for message 3 that of the PTK derived from the PMK, the stored ANonce and the
  own SNonce, for group messages that of the installed PTK.\<close>

theorem guarded_state_authentic:
  assumes "supp_recv msg H key s = Some s'" and "guarded s' \<noteq> guarded s"
  shows "msg \<noteq> Msg1 \<and>
    mic_ok H key (ptk_kck (if msg = Msg3 then msg3_ptk H key s else pn_ptk (p_ni s))) \<and>
    (pn_replaycnt_ok (p_ni s) \<longrightarrow> \<not> replayed key s) \<and>
    (msg = Msg3 \<longrightarrow> ek_nonce key = pn_nonce (p_ni s))"
proof (cases msg)
  case Msg1
  then show ?thesis using assms guarded_msg1 by auto
next
  case Msg3
  then have "recv_4way_msg3 H key s = Some s'" using assms by simp
  then show ?thesis
    by (cases rule: msg3_cases) (use assms Msg3 in \<open>auto dest: msg3_accepted\<close>)
next
  case Rsn_Group1
  then have "recv_rsn_group_msg1 H key s = Some s'" using assms by simp
  then show ?thesis
    by (cases rule: rsn_group_cases) (use assms Rsn_Group1 in \<open>auto dest: group_accepted\<close>)
next
  case Wpa_Group1
  then have "recv_wpa_group_msg1 H key s = Some s'" using assms by simp
  then show ?thesis
    by (cases rule: wpa_group_cases) (use assms Wpa_Group1 in \<open>auto dest: group_accepted\<close>)
qed

section \<open>Installation of group keys\<close>

text \<open>What makes a key; the group keys handed to the driver for one slot, in order.\<close>

definition material :: "iee_key \<Rightarrow> u32 \<times> nat \<times> u8 list" where
  "material k = (k_cipher k, k_len k, bytes_at (k_key k) 0 (k_len k))"

fun group_event :: "nat \<Rightarrow> pae_event \<Rightarrow> (u32 \<times> nat \<times> u8 list) option" where
  "group_event kid (Ev_SetKey k r) =
     (if k_flags k \<noteq> 0 \<and> unat (k_id k) = kid then Some (material k) else None)"
| "group_event kid _ = None"

definition group_installs :: "nat \<Rightarrow> pae \<Rightarrow> (u32 \<times> nat \<times> u8 list) list" where
  "group_installs kid s = List.map_filter (group_event kid) (p_log s)"

text \<open>Consecutive keys of a slot differ, and the last one is in the slot.\<close>

definition fresh_after :: "u32 \<times> nat \<times> u8 list \<Rightarrow> u32 \<times> nat \<times> u8 list \<Rightarrow> bool" where
  "fresh_after a b \<longleftrightarrow> a \<noteq> b \<or> fst a = CIPHER_NONE"

definition slot_inv :: "nat \<Rightarrow> pae \<Rightarrow> bool" where
  "slot_inv kid s \<longleftrightarrow> length (pc_nw_keys (p_ic s)) = GROUP_NKID \<and>
     successively fresh_after (group_installs kid s) \<and>
     (group_installs kid s \<noteq> [] \<longrightarrow> last (group_installs kid s) = material (pc_nw_keys (p_ic s) ! kid))"

text \<open>The driver keeps the material of a key it is given.\<close>

definition driver_keeps :: "pae_hooks \<Rightarrow> bool" where
  "driver_keeps H \<longleftrightarrow> (\<forall>k. material (snd (hk_set_key H k)) = material k)"

definition gview :: "nat \<Rightarrow> pae \<Rightarrow> (u32 \<times> nat \<times> u8 list) list \<times> iee_key list" where
  "gview kid s = (group_installs kid s, pc_nw_keys (p_ic s))"

lemma slot_inv_gview: "gview kid s' = gview kid s \<Longrightarrow> slot_inv kid s' = slot_inv kid s"
  by (simp add: gview_def slot_inv_def)

lemma map_filter_append: "List.map_filter f (xs @ ys) = List.map_filter f xs @ List.map_filter f ys"
  by (simp add: List.map_filter_def)

lemma map_filter_snoc:
  "List.map_filter f (xs @ [e]) = List.map_filter f xs @ (case f e of None \<Rightarrow> [] | Some x \<Rightarrow> [x])"
  by (simp add: map_filter_append) (simp add: List.map_filter_def split: option.split)

lemma gview_emit: "group_event kid e = None \<Longrightarrow> gview kid (emit e s) = gview kid s"
  by (simp add: gview_def emit_def group_installs_def map_filter_snoc)

lemma group_event_tx: "is_tx e \<Longrightarrow> group_event kid e = None"
  by (cases e) auto

lemma gview_core: "gview kid (core s) = gview kid s"
proof -
  have "List.map_filter (group_event kid) (filter (\<lambda>e. \<not> is_tx e) l) = List.map_filter (group_event kid) l"
    for l
  proof (induction l)
    case (Cons e l)
    then show ?case by (cases "is_tx e") (auto simp: group_event_tx split: option.split)
  qed simp
  then show ?thesis by (simp add: gview_def core_def group_installs_def)
qed

lemma gview_core_cong: "core s' = core s \<Longrightarrow> gview kid s' = gview kid s"
  by (metis gview_core)

lemma install_group_slot:
  assumes "driver_keeps H" "slot_inv kid s" "install_group H (unat (k_id k)) k s = (r, s')"
    and "k_flags k \<noteq> 0" "unat (k_id k) < GROUP_NKID"
    and "fresh_after (material (pc_nw_keys (p_ic s) ! unat (k_id k))) (material k)"
  shows "slot_inv kid s'"
proof -
  obtain err k' where h: "hk_set_key H k = (err, k')" by fastforce
  have m: "material k' = material k" using assms(1) h by (metis driver_keeps_def snd_conv)
  have s': "s' = emit (Ev_SetKey k r) (s\<lparr>p_ic := (p_ic s)\<lparr>pc_nw_keys :=
      (pc_nw_keys (p_ic s))[unat (k_id k) := k']\<rparr>\<rparr>)"
    using assms(3) by (auto simp: install_group_def h)
  show ?thesis
  proof (cases "unat (k_id k) = kid")
    case True
    then have "group_installs kid s' = group_installs kid s @ [material k]"
      using assms(4) by (simp add: s' emit_def group_installs_def map_filter_snoc)
    moreover have "pc_nw_keys (p_ic s') ! kid = k'" "length (pc_nw_keys (p_ic s')) = GROUP_NKID"
      using assms(2,5) True by (auto simp: s' emit_def slot_inv_def)
    ultimately show ?thesis
      using assms(2,6) True m by (auto simp: slot_inv_def successively_append_iff)
  next
    case False
    then have "group_installs kid s' = group_installs kid s"
      by (simp add: s' emit_def group_installs_def map_filter_snoc)
    then show ?thesis using assms(2) False by (simp add: slot_inv_def s' emit_def)
  qed
qed


lemma kid_bounds: "unat (kde_kid gtk) < GROUP_NKID" "unat (ucast ((x :: u16) AND 3) :: u8) < GROUP_NKID"
proof -
  have "unat (b AND 3) \<le> 3" for b :: u8
    using word_and_le1 [of b 3] by (simp add: word_le_nat_alt)
  then show "unat (kde_kid gtk) < GROUP_NKID" unfolding kde_kid_def by (rule le_less_trans) simp
  have "unat (x AND 3) \<le> 3" using word_and_le1 [of x 3] by (simp add: word_le_nat_alt)
  with unat_ucast_le [of "x AND 3"] have "unat (ucast (x AND 3) :: u8) \<le> 3" by (rule le_trans)
  then show "unat (ucast ((x :: u16) AND 3) :: u8) < GROUP_NKID" by simp
qed

lemma bytes_at_length [simp]: "length (bytes_at p i n) = n"
  by (simp add: bytes_at_def)

lemma key_bytes32_prefix: "bytes_at (key_bytes32 p n) 0 n = bytes_at p 0 n"
  by (simp add: key_bytes32_def bytes_at_take)

lemma material_keys:
  "material (gtk_key kid cipher tx rsc len gtk) = (cipher, len, bytes_at gtk 0 len)"
  "material (igtk_key kid' cipher igtk) = (cipher, 16, bytes_at (drop 14 igtk) 0 16)"
  by (simp_all add: material_def gtk_key_def igtk_key_def key_bytes32_prefix)

lemma must_update_fresh:
  "must_update_group_key k gtk len \<Longrightarrow> fresh_after (material k) (cipher, len, bytes_at gtk 0 len)"
  by (auto simp: must_update_group_key_def fresh_after_def material_def)

lemma slot_install_gtk:
  assumes "driver_keeps H" "slot_inv kid s" "install_gtk H i tx rsc len gtk s = (r, s')"
    and "unat i < GROUP_NKID"
  shows "slot_inv kid s'"
proof (cases "must_update_group_key (pc_nw_keys (p_ic s) ! unat i) gtk len")
  case True
  let ?k = "gtk_key i (mn_rsngroupcipher (p_ni s)) tx rsc len gtk"
  have "k_id ?k = i" by (simp add: gtk_key_def)
  moreover have "install_group H (unat i) ?k s = (r, s')" using assms(3) True by (simp add: install_gtk_def)
  ultimately show ?thesis
    using install_group_slot [OF assms(1,2), of ?k r s'] assms(4) must_update_fresh [OF True]
    by (simp add: material_keys)
qed (use assms in \<open>simp add: install_gtk_def\<close>)

lemma slot_install_igtk:
  assumes "driver_keeps H" "slot_inv kid s" "install_igtk H igtk s = (r, s')"
  shows "slot_inv kid s'"
proof (cases "s' = s")
  case False
  define i where "i = LE_READ_2 (drop 6 igtk)"
  let ?k = "igtk_key i (pn_rsngroupmgmtcipher (p_ni s)) igtk"
  have m: "must_update_group_key (pc_nw_keys (p_ic s) ! unat i) (drop 14 igtk) 16" and "i = 4 \<or> i = 5"
    and g: "install_group H (unat i) ?k s = (r, s')"
    using assms(3) False by (auto simp: install_igtk_def Let_def i_def split: if_splits)
  then have "unat (k_id ?k) = unat i" "unat (k_id ?k) < GROUP_NKID" by (auto simp: igtk_key_def)
  then show ?thesis
    using install_group_slot [OF assms(1,2), of ?k r s'] g must_update_fresh [OF m]
    by (simp add: material_keys)
qed (use assms in simp)

lemma gview_simps [simp]:
  "gview kid (set_flags f s) = gview kid s"
  "gview kid (clear_flags f s) = gview kid s"
  "gview kid (clear_assoc_fail s) = gview kid s"
  "gview kid (note_ptk H key s) = gview kid s"
  "gview kid (note_replaycnt key s) = gview kid s"
  "gview kid (s\<lparr>p_ni := ni\<rparr>) = gview kid s"
  by (simp_all add: gview_def group_installs_def set_flags_def clear_flags_def clear_assoc_fail_def
      note_ptk_def note_replaycnt_def)

lemma gview_open_port [simp]: "gview kid (open_port s) = gview kid s"
  by (simp add: open_port_def set_link_state_def Let_def gview_emit)
    (simp add: gview_def group_installs_def)

lemma gview_deauth [simp]: "gview kid (supp_deauth reason s) = gview kid s"
  by (simp add: supp_deauth_def gview_emit)

lemma gview_count: "count_key s = (b, s') \<Longrightarrow> gview kid s' = gview kid s"
  by (auto simp: count_key_def Let_def split: if_splits)

lemma gview_group_port [simp]: "gview kid (group_port key s) = gview kid s"
  by (auto simp: group_port_def dest: gview_count split: prod.splits)

lemma gview_pairwise: "k_flags k = 0 \<Longrightarrow> install_pairwise H k s = (r, s') \<Longrightarrow> gview kid s' = gview kid s"
  by (auto simp: install_pairwise_def gview_emit split: prod.splits)

lemma gview_msg3_ptk: "msg3_install_ptk H key ies s = (r, s') \<Longrightarrow> gview kid s' = gview kid s"
  by (auto simp: msg3_install_ptk_def Let_def ptk_key_def zero_key_def
      dest!: gview_pairwise [rotated] split: if_splits prod.splits)

lemma gview_msg3_finish [simp]: "gview kid (msg3_finish info d s) = gview kid s"
proof -
  have "gview kid (msg3_open_port d t) = gview kid t" for t
    by (auto simp: msg3_open_port_def Let_def gview_def group_installs_def)
      (use gview_open_port gview_emit in \<open>simp_all add: gview_def group_installs_def clear_assoc_fail_def\<close>)
  then show ?thesis by (auto simp: msg3_finish_def Let_def dest: gview_count split: prod.splits)
qed

lemma slot_opt_igtk:
  "driver_keeps H \<Longrightarrow> slot_inv kid s \<Longrightarrow> opt_igtk H igtk s = (r, s') \<Longrightarrow> slot_inv kid s'"
  by (auto simp: opt_igtk_def intro: slot_install_igtk split: option.splits)

lemma slot_group_done:
  assumes "slot_inv kid s" "group_msg1_done H key k s = Some s'"
  shows "slot_inv kid s'"
  using assms(2)
proof (rule group_done_cases)
  fix e assume "send_group_msg2 H k ((group_port key s)\<lparr>p_ni := (p_ni (group_port key s))
    \<lparr>pn_replaycnt := ek_replaycnt key\<rparr>\<rparr>) = Some (e, s')"
  from gview_core_cong [OF send_group_msg2_core [OF this], of kid]
  have "gview kid s' = gview kid s" by simp
  then show ?thesis using assms(1) slot_inv_gview by blast
qed

lemma slot_deauth: "slot_inv kid (supp_deauth reason s) = slot_inv kid s"
  by (rule slot_inv_gview) simp

lemma slot_stat: "slot_inv kid (emit (Ev_Stat st) s) = slot_inv kid s"
  by (rule slot_inv_gview) (simp add: gview_emit)

lemma slot_rsn_group:
  assumes "driver_keeps H" "slot_inv kid s" "rsn_group_install H key s = Some s'"
  shows "slot_inv kid s'"
proof -
  define igtk where "igtk = (if has_flag (mn_flags (p_ni s)) NODE_MFP
    then last_elem (is_kde KDE_IGTK) (key_elems key) else None)"
  define keylen where "keylen = cipher_keylen (mn_rsngroupcipher (p_ni s))"
  show ?thesis
  proof (cases "last_elem (is_kde KDE_GTK) (key_elems key)")
    case (Some gtk)
    obtain r1 s1 where 1: "install_gtk H (kde_kid gtk) (kde_tx gtk) (ek_rsc key) keylen (drop 8 gtk) s
        = (r1, s1)" by fastforce
    obtain r2 s2 where 2: "opt_igtk H igtk s1 = (r2, s2)" by fastforce
    have i1: "slot_inv kid s1" by (rule slot_install_gtk [OF assms(1,2) 1 kid_bounds(1)])
    have i2: "slot_inv kid s2" by (rule slot_opt_igtk [OF assms(1) i1 2])
    show ?thesis
      using assms(2,3) i1 i2
      by (auto simp: rsn_group_install_def Let_def igtk_def [symmetric] keylen_def [symmetric]
          opt_igtk_def [symmetric] Some 1 2 slot_deauth split: if_split_asm dest: slot_group_done)
  qed (use assms in \<open>simp add: rsn_group_install_def Let_def\<close>)
qed

lemma slot_wpa_group:
  assumes "driver_keeps H" "slot_inv kid s" "wpa_group_install H key s = Some s'"
  shows "slot_inv kid s'"
proof -
  define keylen where "keylen = cipher_keylen (mn_rsngroupcipher (p_ni s))"
  define i :: u8 where "i = ucast (drop_bit 4 (ek_info key) AND 3)"
  obtain r1 s1 where 1: "install_gtk H i (has_flag (ek_info key) EAPOL_KEY_WPA_TX) (ek_rsc key) keylen
      (ek_data key) s = (r1, s1)" by fastforce
  have "unat i < GROUP_NKID" unfolding i_def by (rule kid_bounds(2))
  from slot_install_gtk [OF assms(1,2) 1 this]
  show ?thesis
    using assms(2,3)
    by (auto simp: wpa_group_install_def Let_def keylen_def [symmetric] i_def [symmetric] 1 slot_deauth
        split: if_split_asm dest: slot_group_done)
qed

lemma slot_msg3_install:
  assumes "driver_keeps H" "slot_inv kid s"
  shows "slot_inv kid (msg3_install H key ies s)"
proof -
  obtain r1 s1 where 1: "msg3_install_ptk H key ies s = (r1, s1)" by fastforce
  obtain r2 s2 where 2: "msg3_install_gtk H key ies s1 = (r2, s2)" by fastforce
  obtain r3 s3 where 3: "msg3_install_igtk H ies s2 = (r3, s3)" by fastforce
  have i1: "slot_inv kid s1" using assms(2) slot_inv_gview [OF gview_msg3_ptk [OF 1]] by blast
  have i2: "slot_inv kid s2"
    using 2 i1 by (auto simp: msg3_install_gtk_def Let_def kid_bounds intro: slot_install_gtk [OF assms(1) i1]
        split: option.splits if_splits)
  have i3: "slot_inv kid s3"
    using 3 i2 by (auto simp: msg3_install_igtk_def intro: slot_install_igtk [OF assms(1) i2]
        split: option.splits)
  have "slot_inv kid (msg3_finish info d s3)" for info d
    using i3 slot_inv_gview [OF gview_msg3_finish] by blast
  then show ?thesis using i1 i2 i3 by (simp add: msg3_install_def 1 2 3 slot_deauth)
qed

lemma slot_msg3_process:
  assumes "driver_keeps H" "slot_inv kid s" "msg3_process H key s = Some s'"
  shows "slot_inv kid s'"
  using assms(3)
proof (cases rule: msg3_process_cases)
  case (accepted s1 e s2)
  have "gview kid s1 = gview kid s"
    using accepted(1)
    by (auto simp: msg3_second_def second_rsnie_def Let_def gview_emit split: option.splits if_splits prod.splits)
  then have "gview kid s2 = gview kid s"
    using gview_core_cong [OF send_4way_msg4_core [OF accepted(2)], of kid] by simp
  then have "slot_inv kid s2" using assms(2) slot_inv_gview by blast
  then show ?thesis using accepted(3) slot_msg3_install [OF assms(1)] by auto
qed (use assms in \<open>simp_all add: slot_deauth\<close>)

lemma slot_recv:
  assumes "driver_keeps H" "slot_inv kid s" "supp_recv msg H key s = Some s'"
  shows "slot_inv kid s'"
proof (cases msg)
  case Msg1
  then have "recv_4way_msg1 H key s = Some s'" using assms by simp
  then show ?thesis
  proof (cases rule: msg1_cases)
    case (accepted pmk e)
    have "gview kid (msg1_accept H key pmk s) = gview kid s"
      by (simp add: msg1_accept_def Let_def) (simp add: gview_def group_installs_def set_flags_def)
    then have "gview kid s' = gview kid s"
      using gview_core_cong [OF send_4way_msg2_core [OF accepted(2)], of kid] by simp
    then show ?thesis using assms(2) slot_inv_gview by blast
  qed (use assms in \<open>simp_all add: slot_stat\<close>)
next
  case Msg3
  then have "recv_4way_msg3 H key s = Some s'" using assms by simp
  then show ?thesis
  proof (cases rule: msg3_cases)
    case (verified key')
    have "slot_inv kid (note_ptk H key s)" using assms(2) slot_inv_gview by (metis gview_simps(4))
    then show ?thesis by (rule slot_msg3_process [OF assms(1) _ verified(5)])
  next
    case not_decrypted
    then show ?thesis using assms(2) slot_inv_gview by (metis gview_simps(4))
  qed (use assms in \<open>simp_all add: slot_stat\<close>)
next
  case Rsn_Group1
  then have "recv_rsn_group_msg1 H key s = Some s'" using assms by simp
  then show ?thesis
    by (cases rule: rsn_group_cases) (use assms in \<open>auto simp: slot_stat intro: slot_rsn_group\<close>)
next
  case Wpa_Group1
  then have "recv_wpa_group_msg1 H key s = Some s'" using assms by simp
  then show ?thesis
    by (cases rule: wpa_group_cases) (use assms in \<open>auto simp: slot_stat intro: slot_wpa_group\<close>)
qed

text \<open>C5. A group key is not reinstalled.  With a driver that keeps the key it is given, in every
  run from a state without installations the keys handed to the driver for one slot, one after the
  other, differ in their material, unless the group cipher is none: a repeated group key, in
  message 3 or in either group handshake, never resets the receive counter of the key in use.\<close>

theorem group_key_not_reinstalled:
  assumes "supp_run s tr s'" and "\<forall>(msg, H, key) \<in> set tr. driver_keeps H"
    and "p_log s = []" and "length (pc_nw_keys (p_ic s)) = GROUP_NKID"
  shows "successively (\<lambda>a b. a \<noteq> b \<or> fst a = CIPHER_NONE) (group_installs kid s')"
proof -
  have "slot_inv kid s'" using assms
  proof (induction)
    case (supp_start s)
    then show ?case by (simp add: slot_inv_def group_installs_def)
  next
    case (supp_step s tr s' msg H key s'')
    then show ?case by (auto intro: slot_recv)
  qed
  then have "successively fresh_after (group_installs kid s')" by (simp add: slot_inv_def)
  then show ?thesis by (simp add: fresh_after_def [abs_def])
qed

end
