(* ===== verification/KeyProps.thy ===== *)
theory KeyProps
  imports KeyMgmt
begin

text \<open>
  Properties of the key management: the derived keys, the MIC and the encryption of EAPOL-Key
  frames, the frame layout, and the PMKSA cache as a map.
\<close>

section \<open>The primitives\<close>

text \<open>The hash functions give digests of the length of the algorithm.\<close>

definition prims_ok :: "prims \<Rightarrow> bool" where
  "prims_ok pr \<longleftrightarrow> (\<forall>m. length (pr_md5 pr m) = 16) \<and>
     (\<forall>m. length (pr_sha1 pr m) = SHA1_DIGEST_LENGTH) \<and>
     (\<forall>m. length (pr_sha256 pr m) = SHA256_DIGEST_LENGTH) \<and>
     (\<forall>key. cipher_pair (pr_aes_enc pr key) (pr_aes_dec pr key))"

text \<open>Instances of the primitives and of a frame on which the theorems are applied.\<close>

definition demo_prims :: prims where
  "demo_prims = \<lparr>pr_md5 = (\<lambda>_. replicate 16 3), pr_sha1 = (\<lambda>_. replicate 20 1),
     pr_sha256 = (\<lambda>_. replicate 32 2), pr_aes_enc = (\<lambda>_. rev), pr_aes_dec = (\<lambda>_. rev)\<rparr>"

definition demo_frame :: eapol_key where
  "demo_frame = \<lparr>ek_version = 2, ek_type = 3, ek_len = 103, ek_desc = 2, ek_info = 0x138a,
     ek_keylen = 16, ek_replaycnt = 0x0102030405060708, ek_nonce = replicate 32 7,
     ek_iv = replicate 16 0, ek_rsc = replicate 8 0, ek_reserved = replicate 8 0,
     ek_mic = replicate 16 0, ek_paylen = 8, ek_data = [1, 2, 3, 4, 5, 6, 7, 8]\<rparr>"

lemma demo_prims_ok: "prims_ok demo_prims"
  by (simp add: prims_ok_def demo_prims_def cipher_pair_def)

section \<open>Derived keys\<close>

lemma memcmp_total: "length a = length b \<Longrightarrow> \<not> memcmp_lt a b \<Longrightarrow> \<not> memcmp_lt b a \<Longrightarrow> a = b"
  by (induction a b rule: list_induct2) auto

lemma memcmp_asym: "memcmp_lt a b \<Longrightarrow> \<not> memcmp_lt b a"
  by (induction a b rule: memcmp_lt.induct) auto

lemma min_max_comm: "length a = length b \<Longrightarrow> min_max a b = min_max b a"
  using memcmp_total [of a b] memcmp_asym [of a b] by (auto simp: min_max_def)

text \<open>The two sides of the 4-way handshake derive the same pairwise key, whichever of the
  addresses and nonces is their own.\<close>

theorem derive_ptk_symmetric:
  assumes "length aa = length spa" and "length anonce = length snonce"
  shows "derive_ptk pr akm pmk aa spa anonce snonce = derive_ptk pr akm pmk spa aa snonce anonce"
  using assms by (simp add: derive_ptk_def min_max_comm [of aa] min_max_comm [of anonce])

theorem derive_ptk_symmetric_witness:
  "derive_ptk demo_prims AKM_PSK [5] [1, 2, 3, 4, 5, 6] [6, 5, 4, 3, 2, 1] [9] [7]
    = derive_ptk demo_prims AKM_PSK [5] [6, 5, 4, 3, 2, 1] [1, 2, 3, 4, 5, 6] [7] [9]
   \<and> min_max [9] [7] = [7, 9]"
  using derive_ptk_symmetric [of "[1, 2, 3, 4, 5, 6]" "[6, 5, 4, 3, 2, 1]" "[9]" "[7]"]
  by (simp add: min_max_def)

lemma hmac_length:
  "prims_ok pr \<Longrightarrow> length (HMAC_SHA1_Final (pr_sha1 pr) ctx) = SHA1_DIGEST_LENGTH"
  "prims_ok pr \<Longrightarrow> length (HMAC_SHA256_Final (pr_sha256 pr) ctx) = SHA256_DIGEST_LENGTH"
  by (simp_all add: prims_ok_def HMAC_defs hmac_final_def)

lemma prf_length: "prims_ok pr \<Longrightarrow> length (prf_loop pr key label cntx c len) = len"
proof (induction pr key label cntx c len rule: prf_loop.induct)
  case (1 pr key label cntx c len)
  show ?case
    using "1.IH" "1.prems" by (subst prf_loop.simps) (simp add: Let_def hmac_length)
qed

lemma kdf_length: "prims_ok pr \<Longrightarrow> length (kdf_loop pr key label cntx bits i len) = len"
proof (induction pr key label cntx bits i len rule: kdf_loop.induct)
  case (1 pr key label cntx bits i len)
  show ?case
    using "1.IH" "1.prems" by (subst kdf_loop.simps) (simp add: Let_def hmac_length)
qed

text \<open>Key lengths: both derivation functions give as many bytes as were asked for, so the
  pairwise key splits into KCK, KEK and TK of 16, 16 and 32 bytes, and no cipher uses more of the
  TK than there is.\<close>

theorem derived_key_lengths:
  assumes "prims_ok pr"
  shows "length (ieee80211_prf pr key label cntx len) = len \<and>
    length (ieee80211_kdf pr key label cntx len) = len \<and>
    length (ptk_kck (derive_ptk pr akm pmk aa spa an sn)) = 16 \<and>
    length (ptk_kek (derive_ptk pr akm pmk aa spa an sn)) = 16 \<and>
    length (ptk_tk (derive_ptk pr akm pmk aa spa an sn)) = 32 \<and>
    cipher_keylen cipher \<le> 32"
  using assms
  by (simp add: ieee80211_prf_def ieee80211_kdf_def prf_length kdf_length derive_ptk_def Let_def
      cipher_keylen_def)

theorem derived_key_lengths_witness:
  "length (ieee80211_kdf demo_prims [1] [2] [3] 47) = 47"
  using derived_key_lengths [OF demo_prims_ok, where len = 47] by blast

section \<open>Frame layout\<close>

definition eapol_ok :: "eapol_key \<Rightarrow> bool" where
  "eapol_ok k \<longleftrightarrow> length (ek_nonce k) = 32 \<and> length (ek_iv k) = 16 \<and> length (ek_rsc k) = 8 \<and>
     length (ek_reserved k) = 8 \<and> length (ek_mic k) = 16"

lemma be16_read: "BE_READ_2 (be16 v @ rest) = v"
  unfolding BE_READ_2_def be16_def
  by (rule bit_word_eqI)
    (auto simp: bit_or_iff bit_push_bit_iff bit_ucast_iff bit_drop_bit_eq byte_at_def)

lemma be16_length [simp]: "length (be16 v) = 2"
  by (simp add: be16_def)

text \<open>One byte of a word, at its place.\<close>

lemma bit_byte_at_place:
  assumes "n < 64"
  shows "bit (push_bit k (ucast (ucast (drop_bit k v) :: u8)) :: u64) n
    \<longleftrightarrow> k \<le> n \<and> n < k + 8 \<and> bit (v :: u64) n"
  using assms by (auto simp: bit_simps)

lemma be64_read: "BE_READ_8 (be64 v @ rest) = v"
proof (rule bit_word_eqI)
  fix n assume "n < LENGTH(64)"
  then have n: "n < 64" by simp
  have b: "byte_at (be64 v @ rest) i = ucast (drop_bit (56 - 8 * i) v)" if "i < 8" for i
    using that by (simp add: byte_at_def be64_def nth_append)
  have e: "BE_READ_8 (be64 v @ rest) =
      push_bit 56 (ucast (ucast (drop_bit 56 v) :: u8)) OR push_bit 48 (ucast (ucast (drop_bit 48 v) :: u8))
      OR push_bit 40 (ucast (ucast (drop_bit 40 v) :: u8)) OR push_bit 32 (ucast (ucast (drop_bit 32 v) :: u8))
      OR push_bit 24 (ucast (ucast (drop_bit 24 v) :: u8)) OR push_bit 16 (ucast (ucast (drop_bit 16 v) :: u8))
      OR push_bit 8 (ucast (ucast (drop_bit 8 v) :: u8)) OR push_bit 0 (ucast (ucast (drop_bit 0 v) :: u8))"
    unfolding BE_READ_8_def by (simp add: b)
  have "(56 \<le> n \<and> n < 56 + 8) \<or> (48 \<le> n \<and> n < 48 + 8) \<or> (40 \<le> n \<and> n < 40 + 8)
      \<or> (32 \<le> n \<and> n < 32 + 8) \<or> (24 \<le> n \<and> n < 24 + 8) \<or> (16 \<le> n \<and> n < 16 + 8)
      \<or> (8 \<le> n \<and> n < 8 + 8) \<or> (0 \<le> n \<and> n < 0 + 8)" using n by linarith
  then show "bit (BE_READ_8 (be64 v @ rest)) n = bit v n"
    unfolding e bit_or_iff bit_byte_at_place [OF n] by blast
qed

lemma bytes_at_drop: "bytes_at p i n = bytes_at (drop i p) 0 n"
  by (simp add: bytes_at_def byte_at_drop)

lemma eapol_parse_bytes:
  assumes "eapol_ok k"
  shows "eapol_parse (eapol_bytes k) = k"
proof -
  have l: "length (ek_nonce k) = 32" "length (ek_iv k) = 16" "length (ek_rsc k) = 8"
    "length (ek_reserved k) = 8" "length (ek_mic k) = 16"
    using assms by (auto simp: eapol_ok_def)
  have d: "byte_at (eapol_bytes k) 4 = ek_desc k"
    by (simp add: eapol_bytes_def be16_def byte_at_def)
  show ?thesis
    unfolding eapol_parse_def bytes_at_drop [of _ 17] bytes_at_drop [of _ 49]
      bytes_at_drop [of _ 65] bytes_at_drop [of _ 73] bytes_at_drop [of _ 81] d
    by (simp add: eapol_bytes_def l be16_read be64_read bytes_at_take)
qed

interpretation eapol_frame: codec eapol_ok eapol_bytes eapol_parse "\<lambda>k. k"
  by unfold_locales (rule eapol_parse_bytes)

text \<open>Frame layout round trip.  The fields of an EAPOL-Key frame written to memory and read
  back with the big-endian accessors are the same fields, the key data being what follows the
  99 bytes of the header; so different frames differ on the air.\<close>

theorem eapol_layout_roundtrip:
  assumes "eapol_ok k" and "eapol_ok k'"
  shows "eapol_parse (eapol_bytes k) = k \<and> (eapol_bytes k = eapol_bytes k' \<longrightarrow> k = k')"
  using eapol_frame.dec_enc [OF assms(1)] eapol_frame.enc_view [OF assms] by blast

theorem eapol_layout_roundtrip_witness: "eapol_parse (eapol_bytes demo_frame) = demo_frame"
  using eapol_layout_roundtrip [of demo_frame demo_frame]
  by (simp add: eapol_ok_def demo_frame_def)

section \<open>MIC and encryption of EAPOL-Key frames\<close>

lemma mic_only: "eapol_key_mic pr k kck = k\<lparr>ek_mic := ek_mic (eapol_key_mic pr k kck)\<rparr>"
  by (simp add: eapol_key_mic_def Let_def)

lemma check_own_mic:
  assumes "ek_mic k = replicate 16 0"
  shows "eapol_key_check_mic pr (eapol_key_mic pr k kck) kck = (False, eapol_key_mic pr k kck)"
proof -
  obtain m where m: "eapol_key_mic pr k kck = k\<lparr>ek_mic := m\<rparr>" using mic_only by blast
  have "k\<lparr>ek_mic := m\<rparr>\<lparr>ek_mic := replicate 16 0\<rparr> = k" using assms by (cases k) simp
  then show ?thesis unfolding eapol_key_check_mic_def Let_def by (simp only: m) simp
qed

text \<open>MIC.  A frame with a zeroed MIC field to which the sender adds the MIC passes the
  check under the same key confirmation key, and the check leaves it as it was.\<close>

theorem mic_check_accepts:
  assumes "ek_mic k = replicate 16 0"
  shows "eapol_key_check_mic pr (eapol_key_mic pr k kck) kck
    = (False, eapol_key_mic pr k kck)"
  by (rule check_own_mic [OF assms])

theorem mic_check_accepts_witness:
  "fst (eapol_key_check_mic demo_prims (eapol_key_mic demo_prims demo_frame [1, 2]) [1, 2]) = False
   \<and> ek_mic (eapol_key_mic demo_prims demo_frame [1, 2]) = replicate 16 1"
  using mic_check_accepts [of demo_frame demo_prims "[1, 2]"]
  by (simp add: demo_frame_def demo_prims_def eapol_key_mic_def Let_def HMAC_defs hmac_final_def)

text \<open>The padded plain text that AES Key Wrap gets is a whole number of blocks.\<close>

lemma wrap_padding_mod: "(len + length (wrap_padding len)) mod 8 = 0 \<and>
    16 \<le> len + length (wrap_padding len) \<and> length (wrap_padding len) \<le> 16"
proof -
  have "(len + (8 - len mod 8)) mod 8 = 0"
    by (metis add.commute add_diff_inverse_nat mod_add_right_eq mod_self mod_less_divisor
        nat_less_le not_less zero_less_numeral)
  then show ?thesis
    by (auto simp: wrap_padding_def Let_def)
qed

lemma rc4_eapol_twice: "rc4_eapol iv kek (rc4_eapol iv kek d) = d"
  by (simp add: rc4_eapol_def rc4_crypt_crypt)

lemma rc4_eapol_length [simp]: "length (rc4_eapol iv kek d) = length d"
  by (simp add: rc4_eapol_def)

lemma bytes_at_all: "bytes_at p 0 (length p) = p"
  by (simp add: bytes_at_eq_take)

text \<open>The two kinds of descriptor, each with its round trip.\<close>

lemma decrypt_encrypt_v1:
  assumes v: "ek_info k AND KEY_VERSION_MASK = KEY_DESC_V1"
    and len: "unat (ek_paylen k) = length (ek_data k)"
    and e: "eapol_key_encrypt pr cntr k kek = (cntr', k')"
  shows "eapol_key_decrypt pr k' kek = (False, k'\<lparr>ek_data := ek_data k\<rparr>)"
proof -
  have k': "k' = k\<lparr>ek_iv := bytes_at cntr 16 16,
      ek_data := rc4_eapol (bytes_at cntr 16 16) kek (ek_data k)\<rparr>"
    using e v len by (auto simp: eapol_key_encrypt_def Let_def)
  have "bytes_at (ek_data k') 0 (length (ek_data k)) = ek_data k'"
    using bytes_at_all [of "ek_data k'"] by (simp add: k')
  then show ?thesis using v len by (simp add: eapol_key_decrypt_def Let_def k' rc4_eapol_twice)
qed

lemma decrypt_encrypt_wrap:
  assumes pr: "prims_ok pr" and v: "ek_info k AND KEY_VERSION_MASK \<in> {KEY_DESC_V2, KEY_DESC_V3}"
    and len: "unat (ek_paylen k) = length (ek_data k)" "length (ek_data k) < 65000"
    and e: "eapol_key_encrypt pr cntr k kek = (cntr', k')"
  defines "plain \<equiv> ek_data k @ wrap_padding (length (ek_data k))"
  shows "length (ek_data k') = length plain + 8 \<and> unat (ek_paylen k') = length plain + 8 \<and>
    eapol_key_decrypt pr k' kek
      = (False, k'\<lparr>ek_data := plain @ drop (length plain) (ek_data k')\<rparr>)"
proof -
  let ?E = "pr_aes_enc pr (take 16 kek)" and ?D = "pr_aes_dec pr (take 16 kek)"
  let ?n = "length plain div 8" and ?w = "aes_key_wrap (pr_aes_enc pr (take 16 kek)) plain (length plain div 8)"
  have c: "cipher_pair ?E ?D" using pr by (simp add: prims_ok_def)
  have m: "length plain mod 8 = 0" "16 \<le> length plain"
    and le: "length (wrap_padding (length (ek_data k))) \<le> 16"
    using wrap_padding_mod [of "length (ek_data k)"] by (auto simp: plain_def)
  have n: "length plain = 8 * ?n" using m(1) by presburger
  have w: "length ?w = length plain + 8" using aes_key_wrap_length [OF c n] n by simp
  have v': "ek_info k AND KEY_VERSION_MASK \<noteq> KEY_DESC_V1" using v by auto
  have k': "k' = k\<lparr>ek_data := ?w, ek_paylen := of_nat (length plain + 8),
      ek_len := of_nat EAPOL_HDR + of_nat (length plain + 8) - 4\<rparr>"
    using e v v' len unfolding eapol_key_encrypt_def Let_def plain_def by auto
  have "length plain + 8 < 65536" using len(2) le by (simp add: plain_def)
  then have u: "unat (of_nat (length plain + 8) :: u16) = length plain + 8"
    by (simp only: unat_of_nat) simp
  have b: "bytes_at ?w 0 (length plain + 8) = ?w" using bytes_at_all [of ?w] w by simp
  have "aes_key_unwrap ?D ?w ?n = (False, plain)" by (rule aes_key_unwrap_wrap [OF c n])
  then have "eapol_key_decrypt pr k' kek = (False, k'\<lparr>ek_data := plain @ drop (?n * 8) ?w\<rparr>)"
    using v v' m u b w unfolding eapol_key_decrypt_def k' Let_def
    by (auto simp del: of_nat_add)
  moreover have "?n * 8 = length plain" using n by simp
  moreover have "ek_data k' = ?w" "unat (ek_paylen k') = length plain + 8"
    using u by (simp_all add: k' del: of_nat_add)
  ultimately show ?thesis using w by simp
qed

text \<open>Encryption of the key data.  Under the same key encryption key, decryption succeeds and
  gives back the key data: alone for ARC4; followed, for AES Key Wrap, by the padding and by the
  last eight bytes of the cipher text, which the length field still counts.\<close>

theorem eapol_data_roundtrip:
  assumes "prims_ok pr" and "ek_info k AND KEY_VERSION_MASK \<in> {KEY_DESC_V1, KEY_DESC_V2, KEY_DESC_V3}"
    and "unat (ek_paylen k) = length (ek_data k)" and "length (ek_data k) < 65000"
    and "eapol_key_encrypt pr cntr k kek = (cntr', k')"
  shows "\<exists>rest. eapol_key_decrypt pr k' kek = (False, k'\<lparr>ek_data := ek_data k @ rest\<rparr>) \<and>
    (if ek_info k AND KEY_VERSION_MASK = KEY_DESC_V1 then rest = []
     else unat (ek_paylen k') = length (ek_data k @ rest) \<and>
       rest = wrap_padding (length (ek_data k))
         @ drop (length (ek_data k') - 8) (ek_data k'))"
proof (cases "ek_info k AND KEY_VERSION_MASK = KEY_DESC_V1")
  case True
  then show ?thesis using decrypt_encrypt_v1 [OF True assms(3,5)] by simp
next
  case False
  then have v: "ek_info k AND KEY_VERSION_MASK \<in> {KEY_DESC_V2, KEY_DESC_V3}" using assms(2) by auto
  show ?thesis using decrypt_encrypt_wrap [OF assms(1) v assms(3-5)] False by simp
qed

theorem eapol_data_roundtrip_witness:
  "\<exists>rest. eapol_key_decrypt demo_prims
      (snd (eapol_key_encrypt demo_prims (replicate 32 0) demo_frame (replicate 16 1)))
      (replicate 16 1)
    = (False, (snd (eapol_key_encrypt demo_prims (replicate 32 0) demo_frame (replicate 16 1)))
        \<lparr>ek_data := [1, 2, 3, 4, 5, 6, 7, 8] @ rest\<rparr>)"
  using eapol_data_roundtrip [OF demo_prims_ok, of demo_frame "replicate 32 0" "replicate 16 1",
      OF _ _ _ surjective_pairing]
  by (auto simp: demo_frame_def)

section \<open>The global key counter\<close>

text \<open>The value of a little-endian byte string.\<close>

fun le_val :: "u8 list \<Rightarrow> nat" where
  "le_val [] = 0"
| "le_val (b # bs) = unat b + 256 * le_val bs"

lemma incr_le_length [simp]: "length (incr_le bs) = length bs"
  by (induction bs) auto

lemma unat_less_256: "unat (b :: u8) < 256"
  using unsigned_less [of b] by simp

lemma le_val_bound: "le_val bs < 256 ^ length bs"
proof (induction bs)
  case (Cons b bs)
  have "unat b < 256" by (rule unat_less_256)
  then show ?case using Cons.IH by simp
qed simp

lemma incr_le_val: "le_val (incr_le bs) = (le_val bs + 1) mod 256 ^ length bs"
proof (induction bs)
  case (Cons b bs)
  have lt: "unat b < 256" by (rule unat_less_256)
  show ?case
  proof (cases "b + 1 = 0")
    case True
    then have "unat b = 255" using lt unat_word_ariths(1) [of b 1]
      by (cases "unat b = 255") simp_all
    then have "(le_val (b # bs) + 1) mod 256 ^ length (b # bs)
        = (256 * (le_val bs + 1)) mod (256 * 256 ^ length bs)" by simp
    then show ?thesis using Cons.IH True by (simp add: mult_mod_right)
  next
    case False
    then have u: "unat (b + 1) = unat b + 1" using unatSuc [of b] by (simp add: add.commute)
    have "le_val ((b + 1) # bs) < 256 ^ length ((b + 1) # bs)" by (rule le_val_bound)
    then show ?thesis using False by (simp add: u)
  qed
qed simp

text \<open>The global key counter.  The carry loop adds one to the counter read as a big-endian
  number of 256 bits: the nonce halves drawn from it do not repeat before it wraps.\<close>

theorem globalcnt_increment:
  "le_val (rev (incr_globalcnt cntr)) = (le_val (rev cntr) + 1) mod 256 ^ length cntr \<and>
   length (incr_globalcnt cntr) = length cntr"
  using incr_le_val [of "rev cntr"] by (simp add: incr_globalcnt_def)

section \<open>The PMKSA cache\<close>

text \<open>The interface the handshake uses: what is found after an addition.\<close>

locale pmk_cache =
  fixes add :: "'k \<Rightarrow> 'v \<Rightarrow> 'c \<Rightarrow> 'c" and find :: "'k \<Rightarrow> 'c \<Rightarrow> 'v option"
  assumes find_add: "find k (add k v c) = Some v"
    and find_other: "j \<noteq> k \<Longrightarrow> find j (add k v c) = find j c"
begin

lemma find_adds:
  "find j (fold (\<lambda>(k, v). add k v) kvs c) = (case map_of (rev kvs) j of Some v \<Rightarrow> Some v | None \<Rightarrow> find j c)"
proof (induction kvs rule: rev_induct)
  case (snoc kv kvs)
  obtain k v where kv: "kv = (k, v)" by (cases kv)
  show ?case using snoc.IH by (cases "j = k") (auto simp: kv find_add find_other)
qed simp

lemma add_overwrites: "find j (add k v (add k w c)) = find j (add k v c)"
  by (cases "j = k") (simp_all add: find_add find_other)

end

lemma pmksa_update_None: "pmksa_update P f c = None \<longleftrightarrow> (\<forall>p \<in> set c. \<not> P p)"
  by (induction c) auto

lemma pmk_fill_match [simp]:
  "pmk_match akm mac (pmk_fill pr om my m key lt p) = pmk_match akm mac p"
  by (simp add: pmk_match_def pmk_fill_def)

lemma find_append: "pmksa_find akm mac pid (c @ d)
    = (case pmksa_find akm mac pid c of Some p \<Rightarrow> Some p | None \<Rightarrow> pmksa_find akm mac pid d)"
  by (induction c) auto

lemma find_None: "\<forall>p \<in> set c. \<not> pmk_match akm mac p \<Longrightarrow> pmksa_find akm mac pid c = None"
  by (induction c) auto

lemma find_update:
  "pmksa_update (pmk_match akm mac) (pmk_fill pr om my mac key lt) c = Some c' \<Longrightarrow>
     \<exists>p. pmksa_find akm mac None c' = Some p \<and> pmk_key p = key"
proof (induction c arbitrary: c')
  case (Cons p c)
  show ?case
  proof (cases "pmk_match akm mac p")
    case True
    then show ?thesis using Cons.prems by (auto simp: pmk_fill_def pmk_match_def)
  next
    case False
    then show ?thesis using Cons by auto
  qed
qed simp

lemma pmk_fill_fields [simp]:
  "pmk_akm (pmk_fill pr om my m key lt p) = pmk_akm p"
  "pmk_macaddr (pmk_fill pr om my m key lt p) = pmk_macaddr p"
  "pmk_key (pmk_fill pr om my m key lt p) = key"
  by (simp_all add: pmk_fill_def)

lemma find_update_other:
  "pmksa_update (pmk_match akm mac) (pmk_fill pr om my m key lt) c = Some c' \<Longrightarrow>
     (akm', mac') \<noteq> (akm, mac) \<Longrightarrow> pmksa_find akm' mac' pid c' = pmksa_find akm' mac' pid c"
proof (induction c arbitrary: c')
  case (Cons p c)
  show ?case
  proof (cases "pmk_match akm mac p")
    case True
    then have "\<not> pmk_match akm' mac' p" "c' = pmk_fill pr om my m key lt p # c"
      using Cons.prems by (auto simp: pmk_match_def)
    then show ?thesis by simp
  next
    case False
    then obtain d where "pmksa_update (pmk_match akm mac) (pmk_fill pr om my m key lt) c = Some d"
        "c' = p # d" using Cons.prems(1) by auto
    with Cons.IH [OF this(1) Cons.prems(2)] show ?thesis by auto
  qed
qed simp

text \<open>The cache as a map from (AKM, address) to keys.\<close>

definition cache_key :: "u32 \<times> u8 list \<Rightarrow> pmksa list \<Rightarrow> u8 list option" where
  "cache_key k c = map_option pmk_key (pmksa_find (fst k) (snd k) None c)"

definition cache_add :: "prims \<Rightarrow> ieee80211_opmode \<Rightarrow> u8 list \<Rightarrow> u32 \<Rightarrow> u32 \<times> u8 list \<Rightarrow> u8 list
    \<Rightarrow> pmksa list \<Rightarrow> pmksa list" where
  "cache_add pr opmode myaddr lifetime k key c =
     pmksa_add True pr opmode myaddr (fst k) (snd k) key lifetime c"

interpretation pmk: pmk_cache "cache_add pr opmode myaddr lifetime" cache_key
  for pr opmode myaddr lifetime
proof
  fix k key c
  show "cache_key k (cache_add pr opmode myaddr lifetime k key c) = Some key"
  proof (cases "pmksa_update (pmk_match (fst k) (snd k))
                  (pmk_fill pr opmode myaddr (snd k) key lifetime) c")
    case None
    then have "pmksa_find (fst k) (snd k) None c = None"
      by (intro find_None) (simp add: pmksa_update_None)
    with None show ?thesis
      by (simp add: cache_key_def cache_add_def pmksa_add_def find_append pmk_match_def)
  next
    case (Some c')
    from find_update [OF Some] obtain p
      where "pmksa_find (fst k) (snd k) None c' = Some p" "pmk_key p = key" by blast
    with Some show ?thesis by (simp add: cache_key_def cache_add_def pmksa_add_def)
  qed
next
  fix j k key c
  assume j: "(j :: u32 \<times> u8 list) \<noteq> k"
  then have ne: "(fst j, snd j) \<noteq> (fst k, snd k)" by simp
  show "cache_key j (cache_add pr opmode myaddr lifetime k key c) = cache_key j c"
  proof (cases "pmksa_update (pmk_match (fst k) (snd k))
                  (pmk_fill pr opmode myaddr (snd k) key lifetime) c")
    case None
    then show ?thesis using ne
      by (auto simp: cache_key_def cache_add_def pmksa_add_def find_append pmk_match_def prod_eq_iff
          split: option.split)
  next
    case (Some c')
    then show ?thesis using find_update_other [OF Some ne]
      by (simp add: cache_key_def cache_add_def pmksa_add_def)
  qed
qed

text \<open>The PMKSA cache is a map.  After any sequence of additions, the key found for a station
  and AKM is the last one added for that pair, and the key from before when there was none.\<close>

theorem pmksa_last_added:
  "map_option pmk_key (pmksa_find akm mac None
     (fold (\<lambda>((a, m), key). pmksa_add True pr opmode myaddr a m key lifetime) adds cache))
   = (case map_of (rev adds) (akm, mac) of
        Some key \<Rightarrow> Some key | None \<Rightarrow> map_option pmk_key (pmksa_find akm mac None cache))"
proof -
  have "(\<lambda>((a, m), key). pmksa_add True pr opmode myaddr a m key lifetime)
      = (\<lambda>(k, v). cache_add pr opmode myaddr lifetime k v)"
    by (auto simp: cache_add_def fun_eq_iff)
  then show ?thesis
    using pmk.find_adds [of "(akm, mac)" pr opmode myaddr lifetime adds cache]
    by (auto simp: cache_key_def split: option.splits)
qed

text \<open>The identifiers of the cache are those of its keys.\<close>

definition pmk_id_ok :: "prims \<Rightarrow> ieee80211_opmode \<Rightarrow> u8 list \<Rightarrow> pmksa \<Rightarrow> bool" where
  "pmk_id_ok pr opmode myaddr p \<longleftrightarrow> pmk_pmkid p =
     (if opmode = M_HOSTAP then derive_pmkid pr (pmk_akm p) (pmk_key p) myaddr (pmk_macaddr p)
      else derive_pmkid pr (pmk_akm p) (pmk_key p) (pmk_macaddr p) myaddr)"

definition pmksa_ids_ok :: "prims \<Rightarrow> ieee80211_opmode \<Rightarrow> u8 list \<Rightarrow> pmksa list \<Rightarrow> bool" where
  "pmksa_ids_ok pr opmode myaddr cache \<longleftrightarrow> list_all (pmk_id_ok pr opmode myaddr) cache"

lemma pmk_fill_id: "pmk_macaddr p = mac \<Longrightarrow> pmk_id_ok pr om my (pmk_fill pr om my mac key lt p)"
  by (simp add: pmk_id_ok_def pmk_fill_def)

lemma ids_ok_update:
  "pmksa_update (pmk_match akm mac) (pmk_fill pr om my mac key lt) c = Some c' \<Longrightarrow>
     pmksa_ids_ok pr om my c \<Longrightarrow> pmksa_ids_ok pr om my c'"
proof (induction c arbitrary: c')
  case (Cons p c)
  show ?case
  proof (cases "pmk_match akm mac p")
    case True
    then show ?thesis using Cons.prems by (auto simp: pmksa_ids_ok_def pmk_match_def pmk_fill_id)
  next
    case False
    then obtain d where "pmksa_update (pmk_match akm mac) (pmk_fill pr om my mac key lt) c = Some d"
        "c' = p # d" using Cons.prems(1) by auto
    with Cons.IH [OF this(1)] Cons.prems(2) show ?thesis by (simp add: pmksa_ids_ok_def)
  qed
qed simp

lemma ids_ok_add:
  "pmksa_ids_ok pr om my c \<Longrightarrow> pmksa_ids_ok pr om my (pmksa_add alloc pr om my akm mac key lt c)"
  using ids_ok_update [of akm mac pr om my key lt c]
  by (auto simp: pmksa_add_def Let_def pmksa_ids_ok_def pmk_fill_id split: option.split)

lemma find_sound: "pmksa_find akm mac (Some pid) c = Some p \<Longrightarrow>
    p \<in> set c \<and> pmk_pmkid p = pid \<and> pmk_akm p = akm \<and> pmk_macaddr p = mac"
  by (induction c) (auto simp: pmk_match_def split: if_splits)

text \<open>Soundness of the lookup by identifier.  Every addition, also one whose allocation fails,
  keeps each identifier that of its key, so a key a station finds by PMKID is one whose PMKID it
  is.\<close>

theorem pmksa_find_by_id:
  assumes "pmksa_ids_ok pr opmode myaddr cache"
    and "pmksa_find akm mac (Some pmkid)
      (pmksa_add alloc pr opmode myaddr a m key lifetime cache) = Some p"
  shows "pmksa_ids_ok pr opmode myaddr (pmksa_add alloc pr opmode myaddr a m key lifetime cache) \<and>
    pmk_macaddr p = mac \<and> pmk_akm p = akm \<and>
    pmkid = (if opmode = M_HOSTAP then derive_pmkid pr akm (pmk_key p) myaddr mac
             else derive_pmkid pr akm (pmk_key p) mac myaddr)"
  using ids_ok_add [OF assms(1), of alloc a m key lifetime] find_sound [OF assms(2)]
  by (auto simp: pmksa_ids_ok_def list_all_iff pmk_id_ok_def)

theorem pmksa_find_by_id_witness:
  "\<exists>p. pmksa_find AKM_8021X [1, 1, 1, 1, 1, 1] (Some (replicate 16 1))
      (pmksa_add True demo_prims M_STA [2, 2, 2, 2, 2, 2] AKM_8021X [1, 1, 1, 1, 1, 1]
         (replicate 32 9) 0 []) = Some p \<and>
    replicate 16 1 = derive_pmkid demo_prims AKM_8021X (pmk_key p) [1, 1, 1, 1, 1, 1] [2, 2, 2, 2, 2, 2]"
proof -
  have id: "derive_pmkid demo_prims AKM_8021X key m my = replicate 16 1" for key m my
    by (simp add: derive_pmkid_def is_sha256_akm_def pmkid_sha1_def demo_prims_def HMAC_defs
        hmac_final_def)
  have "pmksa_ids_ok demo_prims M_STA [2, 2, 2, 2, 2, 2] []" by (simp add: pmksa_ids_ok_def)
  moreover obtain p where "pmksa_find AKM_8021X [1, 1, 1, 1, 1, 1] (Some (replicate 16 1))
      (pmksa_add True demo_prims M_STA [2, 2, 2, 2, 2, 2] AKM_8021X [1, 1, 1, 1, 1, 1]
         (replicate 32 9) 0 []) = Some p"
    by (simp add: pmksa_add_def Let_def pmk_match_def pmk_fill_def id)
  ultimately show ?thesis using pmksa_find_by_id by force
qed

end
