(* ===== verification/MgmtProps.thy ===== *)
theory MgmtProps
  imports MgmtFrames
begin

text \<open>
  Properties of the information elements and of the management frames: the space a frame
  needs, the round trips between the builders and the parsers, and what the parsers read.
\<close>

section \<open>Reading behind a prefix\<close>

lemma read_le2_append: "read_le2 (pre @ p) (length pre + i) = read_le2 p i"
  by (simp add: read_le2_def bytes_at_append)

lemma read_le2_WRITE [simp]: "read_le2 (LE_WRITE_2 v @ p) 0 = v"
  by (simp add: read_le2_def bytes_at_take)

lemma or_suites_append:
  "or_suites parse (pre @ p) (length pre + i) n acc = or_suites parse p i n acc"
  by (induction n arbitrary: i acc) (auto simp: bytes_at_append add.assoc)

text \<open>Each parser stage, run behind a prefix, is the same stage on the rest.\<close>

lemma parse_rsn_groupmgmt_append:
  "parse_rsn_groupmgmt (pre @ p) (length pre + i) (length pre + e) rsn
   = parse_rsn_groupmgmt p i e rsn"
  by (simp add: parse_rsn_groupmgmt_def bytes_at_append add.assoc)

lemma parse_rsn_pmkids_append:
  "parse_rsn_pmkids (pre @ p) (length pre + i) (length pre + e) rsn
   = parse_rsn_pmkids p i e rsn"
  by (simp add: parse_rsn_pmkids_def read_le2_append bytes_at_append
      parse_rsn_groupmgmt_append add.assoc Let_def del: add_2_eq_Suc add_2_eq_Suc')

lemma parse_rsn_caps_append:
  "parse_rsn_caps (pre @ p) (length pre + i) (length pre + e) rsn = parse_rsn_caps p i e rsn"
  by (simp add: parse_rsn_caps_def read_le2_append parse_rsn_pmkids_append add.assoc
      del: add_2_eq_Suc add_2_eq_Suc')

lemma parse_rsn_akms_append:
  "parse_rsn_akms (pre @ p) (length pre + i) (length pre + e) rsn = parse_rsn_akms p i e rsn"
  by (simp add: parse_rsn_akms_def read_le2_append parse_rsn_caps_append or_suites_append
      add.assoc Let_def del: add_2_eq_Suc add_2_eq_Suc')

lemma parse_rsn_pairwise_append:
  "parse_rsn_pairwise (pre @ p) (length pre + i) (length pre + e) rsn
   = parse_rsn_pairwise p i e rsn"
  by (simp add: parse_rsn_pairwise_def read_le2_append parse_rsn_akms_append or_suites_append
      add.assoc Let_def del: add_2_eq_Suc add_2_eq_Suc')

lemmas parse_append = parse_rsn_groupmgmt_append parse_rsn_pmkids_append parse_rsn_caps_append
  parse_rsn_akms_append parse_rsn_pairwise_append

section \<open>The suite lists\<close>

lemma and_single: "c AND 1 = (if has_flag c 1 then 1 else (0::u32))"
  "c AND 2 = (if has_flag c 2 then 2 else (0::u32))"
  "c AND 4 = (if has_flag c 4 then 4 else (0::u32))"
  "c AND 8 = (if has_flag c 8 then 8 else (0::u32))"
proof -
  have *: "c AND push_bit k 1 = (if has_flag c (push_bit k 1) then push_bit k 1 else 0)" for k
  proof (cases "has_flag c (push_bit k 1)")
    case True
    then have "bit c k"
      by (simp add: has_flag_def and_exp_eq_0_iff_not_bit)
    then have "c AND push_bit k 1 = push_bit k 1"
      by (intro bit_word_eqI) (auto simp: bit_simps)
    then show ?thesis using True by simp
  qed (simp add: has_flag_def)
  show "c AND 1 = (if has_flag c 1 then 1 else (0::u32))" using * [of 0] by simp
  show "c AND 2 = (if has_flag c 2 then 2 else (0::u32))" using * [of 1] by simp
  show "c AND 4 = (if has_flag c 4 then 4 else (0::u32))" using * [of 2] by simp
  show "c AND 8 = (if has_flag c 8 then 8 else (0::u32))" using * [of 3] by simp
qed

lemma and_split_d: "(c::u32) AND 0xd = (c AND 1) OR (c AND 4) OR (c AND 8)"
  by (simp only: bit.conj_disj_distrib [symmetric]) simp

lemma and_split_3: "(c::u32) AND 3 = (c AND 1) OR (c AND 2)"
  by (simp only: bit.conj_disj_distrib [symmetric]) simp

lemma and_split_f: "(c::u32) AND 0xf = (c AND 1) OR (c AND 2) OR (c AND 4) OR (c AND 8)"
  by (simp only: bit.conj_disj_distrib [symmetric]) simp

text \<open>A list of selectors is read back as the disjunction of what each stands for.\<close>

lemma or_suites_list:
  assumes oui: "length oui = 3"
  shows "or_suites parse (concat (map (\<lambda>t. oui @ [t]) ts) @ rest) 0 (length ts) acc
    = fold (\<lambda>t a. a OR parse (oui @ [t])) ts acc"
proof (induction ts arbitrary: acc)
  case Nil
  show ?case by simp
next
  case (Cons t ts)
  let ?p = "concat (map (\<lambda>t. oui @ [t]) ts) @ rest"
  have "or_suites parse ((oui @ [t]) @ ?p) (length (oui @ [t]) + 0) (length ts) a
      = or_suites parse ?p 0 (length ts) a" for a
    by (rule or_suites_append)
  then have "or_suites parse ((oui @ [t]) @ ?p) 4 (length ts) a = or_suites parse ?p 0 (length ts) a"
    for a using oui by simp
  moreover have "bytes_at ((oui @ [t]) @ ?p) 0 4 = oui @ [t]"
    by (rule bytes_at_take) (simp add: oui)
  ultimately show ?case by (simp add: Cons.IH)
qed

lemma oui_length [simp]: "length IEEE80211_OUI = 3" "length MICROSOFT_OUI = 3"
  by (simp_all add: IEEE80211_OUI_def MICROSOFT_OUI_def)

lemma pairwise_read:
  "oui \<in> {IEEE80211_OUI, MICROSOFT_OUI} \<Longrightarrow>
   fold (\<lambda>t a. a OR parse_rsn_cipher (oui @ [t])) (pairwise_suites c) 0 = c AND 0xd"
  by (auto simp: pairwise_suites_def and_split_d and_single parse_rsn_cipher_def byte_at_def
      IEEE80211_OUI_def MICROSOFT_OUI_def)

lemma akm_read_rsn:
  "fold (\<lambda>t a. a OR parse_rsn_akm (IEEE80211_OUI @ [t])) (akm_suites False c) 0 = c AND 0xf"
  by (auto simp: akm_suites_def and_split_f and_single parse_rsn_akm_def byte_at_def
      IEEE80211_OUI_def MICROSOFT_OUI_def)

lemma akm_read_wpa:
  "fold (\<lambda>t a. a OR parse_rsn_akm (MICROSOFT_OUI @ [t])) (akm_suites True c) 0 = c AND 3"
  by (auto simp: akm_suites_def and_split_3 and_single parse_rsn_akm_def byte_at_def
      IEEE80211_OUI_def MICROSOFT_OUI_def)

lemma pairwise_le: "length (pairwise_suites c) \<le> 3"
  by (simp add: pairwise_suites_def)

lemma akm_le: "length (akm_suites wpa c) \<le> (if wpa then 2 else 4)"
  by (simp add: akm_suites_def)

lemma length_selectors: "length oui = 3 \<Longrightarrow> length (concat (map (\<lambda>t. oui @ [t]) ts)) = 4 * length ts"
  by (induction ts) auto

lemma length_suite_list: "length oui = 3 \<Longrightarrow> length (suite_list oui ts) = 2 + 4 * length ts"
  by (simp add: suite_list_def length_selectors)

section \<open>The stages on what the builders write\<close>

lemma unat_u8: "n < 256 \<Longrightarrow> unat (of_nat n :: u8) = n"
  by (simp add: unat_of_nat)

lemma unat_small: "n \<le> 4 \<Longrightarrow> unat (of_nat n :: u16) = n"
  by (simp add: unat_of_nat)

lemma parse_suite_list:
  assumes oui: "length oui = 3" and ts: "length ts \<le> 4"
  shows "read_le2 (suite_list oui ts @ rest) 0 = of_nat (length ts)"
    and "or_suites parse (suite_list oui ts @ rest) 2 (length ts) 0
      = fold (\<lambda>t a. a OR parse (oui @ [t])) ts 0"
proof -
  show "read_le2 (suite_list oui ts @ rest) 0 = of_nat (length ts)"
    by (simp add: suite_list_def)
  have "or_suites parse (LE_WRITE_2 (of_nat (length ts)) @ (concat (map (\<lambda>t. oui @ [t]) ts) @ rest))
      (length (LE_WRITE_2 (of_nat (length ts))) + 0) (length ts) 0
      = fold (\<lambda>t a. a OR parse (oui @ [t])) ts 0"
    by (simp only: or_suites_append or_suites_list [OF oui])
  then show "or_suites parse (suite_list oui ts @ rest) 2 (length ts) 0
      = fold (\<lambda>t a. a OR parse (oui @ [t])) ts 0"
    by (simp add: suite_list_def)
qed

lemma parse_akms_list:
  assumes oui: "length oui = 3" and ts: "length ts \<le> 4"
  shows "parse_rsn_akms (suite_list oui ts @ rest) 0 (2 + 4 * length ts + e) rsn
    = parse_rsn_caps rest 0 e (rsn\<lparr>rsn_nakms := of_nat (length ts),
        rsn_akms := fold (\<lambda>t a. a OR parse_rsn_akm (oui @ [t])) ts 0\<rparr>)"
proof -
  let ?p = "suite_list oui ts @ rest"
  have len: "length (suite_list oui ts) = 2 + 4 * length ts" by (rule length_suite_list [OF oui])
  have "parse_rsn_caps ?p (length (suite_list oui ts) + 0) (length (suite_list oui ts) + e) r
      = parse_rsn_caps rest 0 e r" for r by (rule parse_rsn_caps_append)
  then have "parse_rsn_caps ?p (2 + length ts * 4) (2 + 4 * length ts + e) r
      = parse_rsn_caps rest 0 e r" for r using len by (simp add: mult.commute)
  then show ?thesis
    by (simp add: parse_rsn_akms_def parse_suite_list [OF oui ts] unat_small [OF ts] Let_def
        del: add_2_eq_Suc add_2_eq_Suc')
qed

lemma parse_pairwise_list:
  assumes oui: "length oui = 3" and ts: "length ts \<le> 4"
    and ok: "\<not> bad_usegroup (rsn\<lparr>rsn_nciphers := of_nat (length ts),
        rsn_ciphers := fold (\<lambda>t a. a OR parse_rsn_cipher (oui @ [t])) ts 0\<rparr>)"
  shows "parse_rsn_pairwise (suite_list oui ts @ rest) 0 (2 + 4 * length ts + e) rsn
    = parse_rsn_akms rest 0 e (rsn\<lparr>rsn_nciphers := of_nat (length ts),
        rsn_ciphers := fold (\<lambda>t a. a OR parse_rsn_cipher (oui @ [t])) ts 0\<rparr>)"
proof -
  let ?p = "suite_list oui ts @ rest"
  have len: "length (suite_list oui ts) = 2 + 4 * length ts" by (rule length_suite_list [OF oui])
  have "parse_rsn_akms ?p (length (suite_list oui ts) + 0) (length (suite_list oui ts) + e) r
      = parse_rsn_akms rest 0 e r" for r by (rule parse_rsn_akms_append)
  then have "parse_rsn_akms ?p (2 + length ts * 4) (2 + 4 * length ts + e) r
      = parse_rsn_akms rest 0 e r" for r using len by (simp add: mult.commute)
  then show ?thesis using ok
    by (simp add: parse_rsn_pairwise_def parse_suite_list [OF oui ts] unat_small [OF ts] Let_def
        del: add_2_eq_Suc add_2_eq_Suc')
qed

lemma parse_caps_write:
  "parse_rsn_caps (LE_WRITE_2 v @ rest) 0 (2 + e) rsn
   = parse_rsn_pmkids rest 0 e (rsn\<lparr>rsn_caps := v\<rparr>)"
proof -
  have "parse_rsn_pmkids (LE_WRITE_2 v @ rest) (length (LE_WRITE_2 v) + 0)
      (length (LE_WRITE_2 v) + e) r = parse_rsn_pmkids rest 0 e r" for r
    by (rule parse_rsn_pmkids_append)
  then show ?thesis
    by (simp add: parse_rsn_caps_def del: add_2_eq_Suc add_2_eq_Suc')
qed

text \<open>The group cipher selectors and back.\<close>

lemma group_suite_read:
  "group_suite c = Some g \<Longrightarrow> oui \<in> {IEEE80211_OUI, MICROSOFT_OUI} \<Longrightarrow>
   parse_rsn_cipher (oui @ [g]) = c"
  by (auto simp: group_suite_def parse_rsn_cipher_def byte_at_def IEEE80211_OUI_def
      MICROSOFT_OUI_def split: if_splits)

lemma group_suite_valid: "group_suite c = Some g \<Longrightarrow> c \<notin> {CIPHER_NONE, CIPHER_USEGROUP, CIPHER_BIP}"
  by (auto simp: group_suite_def)

lemma parse_body_write:
  assumes g: "group_suite c = Some g" and oui: "oui \<in> {IEEE80211_OUI, MICROSOFT_OUI}"
  shows "parse_rsn_body ((LE_WRITE_2 1 @ oui @ [g]) @ rest) (6 + e) rsn
    = parse_rsn_pairwise rest 0 e ((rsn_defaults rsn)\<lparr>rsn_groupcipher := c\<rparr>)"
proof -
  have len: "length oui = 3" using oui by auto
  let ?pre = "LE_WRITE_2 1 @ oui @ [g]"
  have v: "read_le2 (?pre @ rest) 0 = 1" by simp
  have "bytes_at (LE_WRITE_2 1 @ (oui @ [g]) @ rest) 2 4 = bytes_at ((oui @ [g]) @ rest) 0 4"
    by (rule bytes_at_append_0) simp
  also have "\<dots> = oui @ [g]" by (rule bytes_at_take) (simp add: len)
  finally have b: "bytes_at (?pre @ rest) 2 4 = oui @ [g]" by simp
  have "parse_rsn_pairwise (?pre @ rest) (length ?pre + 0) (length ?pre + e) r
      = parse_rsn_pairwise rest 0 e r" for r by (rule parse_rsn_pairwise_append)
  then have p: "parse_rsn_pairwise (?pre @ rest) 6 (6 + e) r = parse_rsn_pairwise rest 0 e r" for r
    using len by simp
  show ?thesis
    unfolding parse_rsn_body_def Let_def v b group_suite_read [OF g oui]
    using group_suite_valid [OF g] p by simp
qed

text \<open>The end of the element: PMKID list and group management cipher.\<close>

definition rsn_tail :: "mgmt_com \<Rightarrow> mgmt_node \<Rightarrow> u8 list" where
  "rsn_tail ic ni = rsn_pmkid_list ic ni
     @ (if has_flag (mc_caps ic) C_MFP
        then (if has_flag (mn_flags ni) NODE_PMKID then [] else LE_WRITE_2 0) @ IEEE80211_OUI @ [6]
        else [])"

definition pmkid_params :: "mgmt_node \<Rightarrow> rsnparams \<Rightarrow> rsnparams" where
  "pmkid_params ni rsn =
     (if has_flag (mn_flags ni) NODE_PMKID
      then rsn\<lparr>rsn_npmkids := 1, rsn_pmkids := bytes_at (mn_pmkid ni) 0 PMKID_LEN\<rparr>
      else rsn\<lparr>rsn_npmkids := 0\<rparr>)"

lemma bip_read: "parse_rsn_cipher (IEEE80211_OUI @ [6]) = CIPHER_BIP"
  by (simp add: parse_rsn_cipher_def byte_at_def IEEE80211_OUI_def MICROSOFT_OUI_def)

lemma parse_groupmgmt_write:
  assumes "rsn_groupmgmtcipher rsn = CIPHER_BIP"
  shows "parse_rsn_groupmgmt ((IEEE80211_OUI @ [6]) @ post) 0 4 rsn = (0, rsn)"
proof -
  have b: "bytes_at ((IEEE80211_OUI @ [6]) @ post) 0 4 = IEEE80211_OUI @ [6]"
    by (rule bytes_at_take) simp
  show ?thesis using assms unfolding parse_rsn_groupmgmt_def b bip_read by simp
qed

lemma parse_pmkids_zero:
  "parse_rsn_pmkids (LE_WRITE_2 0 @ rest) 0 (2 + e) rsn
   = parse_rsn_groupmgmt rest 0 e (rsn\<lparr>rsn_npmkids := 0\<rparr>)"
proof -
  have "parse_rsn_groupmgmt (LE_WRITE_2 0 @ rest) (length (LE_WRITE_2 0) + 0)
      (length (LE_WRITE_2 0) + e) r = parse_rsn_groupmgmt rest 0 e r" for r
    by (rule parse_rsn_groupmgmt_append)
  then show ?thesis by (simp add: parse_rsn_pmkids_def del: add_2_eq_Suc add_2_eq_Suc')
qed

lemma parse_pmkids_one:
  assumes "length k = PMKID_LEN"
  shows "parse_rsn_pmkids ((LE_WRITE_2 1 @ k) @ rest) 0 (18 + e) rsn
   = parse_rsn_groupmgmt rest 0 e (rsn\<lparr>rsn_npmkids := 1, rsn_pmkids := k\<rparr>)"
proof -
  let ?pre = "LE_WRITE_2 1 @ k"
  have "parse_rsn_groupmgmt (?pre @ rest) (length ?pre + 0) (length ?pre + e) r
      = parse_rsn_groupmgmt rest 0 e r" for r
    by (rule parse_rsn_groupmgmt_append)
  then have p: "parse_rsn_groupmgmt (?pre @ rest) 18 (18 + e) r = parse_rsn_groupmgmt rest 0 e r"
    for r using assms by simp
  have "bytes_at (LE_WRITE_2 1 @ (k @ rest)) 2 16 = bytes_at (k @ rest) 0 16"
    by (rule bytes_at_append_0) simp
  then have k: "bytes_at (LE_WRITE_2 1 @ k @ rest) 2 16 = k"
    using bytes_at_take [OF assms] by simp
  show ?thesis using p k
    by (simp add: parse_rsn_pmkids_def Let_def del: add_2_eq_Suc add_2_eq_Suc')
qed

lemma parse_tail_write:
  assumes bip: "rsn_groupmgmtcipher rsn = CIPHER_BIP" and z: "rsn_npmkids rsn = 0"
  shows "parse_rsn_pmkids (rsn_tail ic ni @ post) 0 (length (rsn_tail ic ni)) rsn
    = (0, pmkid_params ni rsn)"
proof (cases "has_flag (mn_flags ni) NODE_PMKID")
  case True
  let ?k = "bytes_at (mn_pmkid ni) 0 PMKID_LEN"
  let ?m = "if has_flag (mc_caps ic) C_MFP then IEEE80211_OUI @ [6] else []"
  have t: "rsn_tail ic ni = (LE_WRITE_2 1 @ ?k) @ ?m"
    using True by (simp add: rsn_tail_def rsn_pmkid_list_def)
  have "parse_rsn_pmkids ((LE_WRITE_2 1 @ ?k) @ (?m @ post)) 0 (18 + length ?m) rsn
      = parse_rsn_groupmgmt (?m @ post) 0 (length ?m) (pmkid_params ni rsn)"
    using True by (subst parse_pmkids_one) (simp_all add: pmkid_params_def)
  also have "\<dots> = (0, pmkid_params ni rsn)"
    using True bip parse_groupmgmt_write [of "pmkid_params ni rsn" post]
    by (simp add: pmkid_params_def) (simp add: parse_rsn_groupmgmt_def)
  finally show ?thesis by (simp add: t)
next
  case False
  show ?thesis
  proof (cases "has_flag (mc_caps ic) C_MFP")
    case True
    have t: "rsn_tail ic ni = LE_WRITE_2 0 @ IEEE80211_OUI @ [6]"
      using True False by (simp add: rsn_tail_def rsn_pmkid_list_def)
    have "parse_rsn_pmkids (LE_WRITE_2 0 @ ((IEEE80211_OUI @ [6]) @ post)) 0 (2 + 4) rsn
        = (0, pmkid_params ni rsn)"
      unfolding parse_pmkids_zero using False bip
      by (subst parse_groupmgmt_write) (simp_all add: pmkid_params_def)
    then show ?thesis by (simp add: t)
  next
    case nomfp: False
    have t: "rsn_tail ic ni = []"
      using nomfp False by (simp add: rsn_tail_def rsn_pmkid_list_def)
    show ?thesis using False z by (simp add: t parse_rsn_pmkids_def pmkid_params_def)
  qed
qed

section \<open>Round trips\<close>

text \<open>What a receiver should know of the sender's element.\<close>

definition suites_params :: "mgmt_node \<Rightarrow> bool \<Rightarrow> rsnparams \<Rightarrow> rsnparams" where
  "suites_params ni wpa rsn = (rsn_defaults rsn)\<lparr>rsn_groupcipher := mn_rsngroupcipher ni,
     rsn_nciphers := of_nat (length (pairwise_suites (mn_rsnciphers ni))),
     rsn_ciphers := mn_rsnciphers ni AND 0xd,
     rsn_nakms := of_nat (length (akm_suites wpa (mn_rsnakms ni))),
     rsn_akms := mn_rsnakms ni AND (if wpa then 3 else 0xf)\<rparr>"

definition rsn_params_of :: "mgmt_com \<Rightarrow> mgmt_node \<Rightarrow> rsnparams \<Rightarrow> rsnparams" where
  "rsn_params_of ic ni rsn =
     pmkid_params ni ((suites_params ni False rsn)\<lparr>rsn_caps := rsncaps_of ic ni\<rparr>)"

definition usegroup_ok :: "mgmt_node \<Rightarrow> bool" where
  "usegroup_ok ni \<longleftrightarrow> (has_flag (mn_rsnciphers ni) CIPHER_USEGROUP \<longrightarrow>
     mn_rsnciphers ni AND 0xd = CIPHER_USEGROUP \<and> mn_rsngroupcipher ni \<noteq> CIPHER_CCMP)"

lemma usegroup_and: "has_flag (c AND 0xd) 1 \<longleftrightarrow> has_flag (c::u32) 1"
  by (simp add: has_flag_def and.assoc)

text \<open>Version, group cipher, pairwise ciphers and AKMs, as both elements have them.\<close>

lemma parse_suites_write:
  assumes g: "group_suite (mn_rsngroupcipher ni) = Some g" and ok: "usegroup_ok ni"
    and oui: "oui = (if wpa then MICROSOFT_OUI else IEEE80211_OUI)"
    and frm: "frm = LE_WRITE_2 1 @ oui @ [g] @ suite_list oui (pairwise_suites (mn_rsnciphers ni))
      @ suite_list oui (akm_suites wpa (mn_rsnakms ni))"
  shows "parse_rsn_body (frm @ rest) (length frm + e) rsn
    = parse_rsn_caps rest 0 e (suites_params ni wpa rsn)"
proof -
  let ?pw = "pairwise_suites (mn_rsnciphers ni)" and ?ak = "akm_suites wpa (mn_rsnakms ni)"
  have o2: "oui \<in> {IEEE80211_OUI, MICROSOFT_OUI}" using oui by simp
  have len: "length oui = 3" using o2 by auto
  have pl: "length ?pw \<le> 4" using pairwise_le [of "mn_rsnciphers ni"] by simp
  have al: "length ?ak \<le> 4" using akm_le [of wpa "mn_rsnakms ni"] by (auto split: if_splits)
  have akms: "fold (\<lambda>t a. a OR parse_rsn_akm (oui @ [t])) ?ak 0
      = mn_rsnakms ni AND (if wpa then 3 else 0xf)"
    using oui akm_read_rsn akm_read_wpa by simp
  let ?r0 = "(rsn_defaults rsn)\<lparr>rsn_groupcipher := mn_rsngroupcipher ni\<rparr>"
  let ?r1 = "?r0\<lparr>rsn_nciphers := of_nat (length ?pw), rsn_ciphers := mn_rsnciphers ni AND 0xd\<rparr>"
  have nb: "\<not> bad_usegroup ?r1" using ok by (auto simp: bad_usegroup_def usegroup_and usegroup_ok_def)
  let ?s = "suite_list oui ?pw @ suite_list oui ?ak @ rest"
  have "length frm + e = 6 + (2 + 4 * length ?pw + (2 + 4 * length ?ak + e))"
    using len by (simp add: frm length_suite_list)
  then have "parse_rsn_body (frm @ rest) (length frm + e) rsn
      = parse_rsn_body ((LE_WRITE_2 1 @ oui @ [g]) @ ?s)
          (6 + (2 + 4 * length ?pw + (2 + 4 * length ?ak + e))) rsn"
    by (simp only:) (simp add: frm)
  also have "\<dots> = parse_rsn_pairwise ?s 0 (2 + 4 * length ?pw + (2 + 4 * length ?ak + e)) ?r0"
    by (rule parse_body_write [OF g o2])
  also have "\<dots> = parse_rsn_akms (suite_list oui ?ak @ rest) 0 (2 + 4 * length ?ak + e) ?r1"
    using nb by (subst parse_pairwise_list [OF len pl]) (simp_all add: pairwise_read [OF o2])
  also have "\<dots> = parse_rsn_caps rest 0 e
      (?r1\<lparr>rsn_nakms := of_nat (length ?ak), rsn_akms := mn_rsnakms ni AND (if wpa then 3 else 0xf)\<rparr>)"
    by (subst parse_akms_list [OF len al]) (simp only: akms)
  finally show ?thesis by (simp add: suites_params_def)
qed

lemma add_rsn_body_rsn:
  assumes "add_rsn_body ic ni False = Some b"
  obtains g where "group_suite (mn_rsngroupcipher ni) = Some g"
    "b = (LE_WRITE_2 1 @ IEEE80211_OUI @ [g]
        @ suite_list IEEE80211_OUI (pairwise_suites (mn_rsnciphers ni))
        @ suite_list IEEE80211_OUI (akm_suites False (mn_rsnakms ni)))
        @ LE_WRITE_2 (rsncaps_of ic ni) @ rsn_tail ic ni"
  using assms
  by (simp add: add_rsn_body_def rsn_tail_def rsn_pmkid_list_def Let_def
      split: option.splits if_splits)

lemma add_rsn_body_wpa:
  assumes "add_rsn_body ic ni True = Some b"
  obtains g where "group_suite (mn_rsngroupcipher ni) = Some g"
    "b = LE_WRITE_2 1 @ MICROSOFT_OUI @ [g]
        @ suite_list MICROSOFT_OUI (pairwise_suites (mn_rsnciphers ni))
        @ suite_list MICROSOFT_OUI (akm_suites True (mn_rsnakms ni))"
  using assms by (auto simp: add_rsn_body_def Let_def split: option.splits)

lemma rsn_tail_length: "length (rsn_tail ic ni) \<le> 22"
  by (simp add: rsn_tail_def rsn_pmkid_list_def)

lemma rsn_body_length:
  assumes "add_rsn_body ic ni wpa = Some b"
  shows "length b \<le> (if wpa then 18 + 4 * length (pairwise_suites (mn_rsnciphers ni))
      else 50 + 4 * length (pairwise_suites (mn_rsnciphers ni)))"
proof (cases wpa)
  case True
  have ba: "add_rsn_body ic ni True = Some b" using assms True by simp
  obtain g where "b = LE_WRITE_2 1 @ MICROSOFT_OUI @ [g]
      @ suite_list MICROSOFT_OUI (pairwise_suites (mn_rsnciphers ni))
      @ suite_list MICROSOFT_OUI (akm_suites True (mn_rsnakms ni))"
    using add_rsn_body_wpa [OF ba] by blast
  then show ?thesis using True akm_le [of True "mn_rsnakms ni"] by (simp add: length_suite_list)
next
  case False
  have ba: "add_rsn_body ic ni False = Some b" using assms False by simp
  obtain g where "b = (LE_WRITE_2 1 @ IEEE80211_OUI @ [g]
      @ suite_list IEEE80211_OUI (pairwise_suites (mn_rsnciphers ni))
      @ suite_list IEEE80211_OUI (akm_suites False (mn_rsnakms ni)))
      @ LE_WRITE_2 (rsncaps_of ic ni) @ rsn_tail ic ni"
    using add_rsn_body_rsn [OF ba] by blast
  then show ?thesis using False akm_le [of False "mn_rsnakms ni"] rsn_tail_length [of ic ni]
    by (simp add: length_suite_list)
qed

lemma rsn_body_small: "add_rsn_body ic ni wpa = Some b \<Longrightarrow> length b \<le> 62"
  using rsn_body_length [of ic ni wpa b] pairwise_le [of "mn_rsnciphers ni"]
  by (auto split: if_splits)

text \<open>C16. RSN round trip.  Whatever element the stack builds, its own parser reads back: the
  group cipher, the pairwise and AKM sets restricted to the suites that have a selector, the
  capabilities, the PMKID, and the group management cipher, whatever follows in the frame.  Left out are the
  configurations that the parser refuses by design (\<open>usegroup_ok\<close>): the use of the group cipher for pairwise
  frames together with another pairwise cipher or with the group cipher CCMP.\<close>

theorem rsn_roundtrip:
  assumes e: "add_rsn ic ni = Some frm" and ok: "usegroup_ok ni"
  shows "parse_rsn (frm @ post) rsn n = ((STATUS_SUCCESS, rsn_params_of ic ni rsn), n)"
proof -
  obtain b where ba: "add_rsn_body ic ni False = Some b" and f: "frm = [48, of_nat (length b)] @ b"
    using e by (auto simp: add_rsn_def)
  obtain g where g: "group_suite (mn_rsngroupcipher ni) = Some g"
    and b: "b = (LE_WRITE_2 1 @ IEEE80211_OUI @ [g]
        @ suite_list IEEE80211_OUI (pairwise_suites (mn_rsnciphers ni))
        @ suite_list IEEE80211_OUI (akm_suites False (mn_rsnakms ni)))
        @ LE_WRITE_2 (rsncaps_of ic ni) @ rsn_tail ic ni"
    using add_rsn_body_rsn [OF ba] by blast
  let ?h = "LE_WRITE_2 1 @ IEEE80211_OUI @ [g]
        @ suite_list IEEE80211_OUI (pairwise_suites (mn_rsnciphers ni))
        @ suite_list IEEE80211_OUI (akm_suites False (mn_rsnakms ni))"
  let ?c = "LE_WRITE_2 (rsncaps_of ic ni)" and ?s = "suites_params ni False rsn"
  have len: "unat (byte_at frm 1) = length b"
    using rsn_body_small [OF ba] by (simp add: f unat_of_nat)
  have b2: "b @ post = ?h @ (?c @ (rsn_tail ic ni @ post))"
    "length b = length ?h + (2 + length (rsn_tail ic ni))" by (simp_all add: b)
  have "parse_rsn_body (b @ post) (length b) rsn
      = parse_rsn_caps (?c @ (rsn_tail ic ni @ post)) 0 (2 + length (rsn_tail ic ni)) ?s"
    unfolding b2 by (rule parse_suites_write [OF g ok]) simp_all
  also have "\<dots> = parse_rsn_pmkids (rsn_tail ic ni @ post) 0 (length (rsn_tail ic ni))
      (?s\<lparr>rsn_caps := rsncaps_of ic ni\<rparr>)" by (rule parse_caps_write)
  also have "\<dots> = (0, rsn_params_of ic ni rsn)"
    unfolding rsn_params_of_def
    by (rule parse_tail_write) (simp_all add: suites_params_def rsn_defaults_def)
  finally have p: "parse_rsn_body (b @ post) (length b) rsn = (0, rsn_params_of ic ni rsn)" .
  have two: "\<not> byte_at frm 1 < 2" using len by (simp add: word_less_nat_alt b)
  have "parse_rsn_body (drop 2 (frm @ post)) (unat (byte_at frm 1)) rsn = (0, rsn_params_of ic ni rsn)"
    unfolding len using p by (simp add: f)
  moreover have "byte_at (frm @ post) 1 = byte_at frm 1" by (simp add: f)
  ultimately show ?thesis using two by (simp add: parse_rsn_def)
qed

text \<open>WPA round trip.  The vendor element for WPA carries the group cipher, the pairwise
  ciphers and the two AKMs WPA knows, and its parser reads back exactly these.\<close>

theorem wpa_roundtrip:
  assumes e: "add_wpa ic ni = Some frm" and ok: "usegroup_ok ni"
  shows "parse_wpa (frm @ post) rsn n = ((STATUS_SUCCESS, suites_params ni True rsn), n)"
proof -
  obtain b where ba: "add_rsn_body ic ni True = Some b"
    and f: "frm = [221, of_nat (4 + length b)] @ MICROSOFT_OUI @ [1] @ b"
    using e by (auto simp: add_wpa_def)
  obtain g where g: "group_suite (mn_rsngroupcipher ni) = Some g"
    and b: "b = LE_WRITE_2 1 @ MICROSOFT_OUI @ [g]
        @ suite_list MICROSOFT_OUI (pairwise_suites (mn_rsnciphers ni))
        @ suite_list MICROSOFT_OUI (akm_suites True (mn_rsnakms ni))"
    using add_rsn_body_wpa [OF ba] by blast
  have "byte_at frm 1 = of_nat (4 + length b)" by (simp add: f)
  then have len: "unat (byte_at frm 1) = 4 + length b"
    using rsn_body_small [OF ba] unat_u8 [of "4 + length b"] by (simp only:)
  have "parse_rsn_body (b @ post) (length b + 0) rsn
      = parse_rsn_caps post 0 0 (suites_params ni True rsn)"
    by (rule parse_suites_write [OF g ok _ b]) simp
  then have p: "parse_rsn_body (b @ post) (length b) rsn = (0, suites_params ni True rsn)"
    by (simp add: parse_rsn_caps_def)
  have six: "\<not> byte_at frm 1 < 6" using len by (simp add: word_less_nat_alt b)
  have "drop 6 (frm @ post) = b @ post" by (simp add: f MICROSOFT_OUI_def)
  then have "parse_rsn_body (drop 6 (frm @ post)) (unat (byte_at frm 1) - 4) rsn
      = (0, suites_params ni True rsn)" using p len by simp
  moreover have "byte_at (frm @ post) 1 = byte_at frm 1" by (simp add: f)
  ultimately show ?thesis using six by (simp add: parse_wpa_def)
qed

text \<open>EDCA round trip.  For every mode, the AC parameter records of the EDCA element and of
  the WMM element, parsed by a station whose update count differs from the one sent (zero), give
  back the four rows of the sender's table, and the driver hook runs once.\<close>

theorem edca_roundtrip:
  assumes "ic_edca_updtcount st \<noteq> 0"
  shows "parse_edca_params (add_edca_params ic @ post) st
      = (0, st\<lparr>ic_edca_updtcount := 0, ic_edca_ac := edca_table (mc_curmode ic),
            edca_updates := edca_updates st + (if edca_qos st then 1 else 0)\<rparr>)
    \<and> parse_wmm_params (add_wme_param ic @ post) st
      = (0, st\<lparr>ic_edca_updtcount := 0, ic_edca_ac := edca_table (mc_curmode ic),
            edca_updates := edca_updates st + (if edca_qos st then 1 else 0)\<rparr>)"
proof -
  have t: "length (edca_table m) = 4 \<and> (\<forall>p \<in> set (edca_table m).
      ac_ecwmin p < 16 \<and> ac_ecwmax p < 16 \<and> ac_aifsn p < 16 \<and> ac_acm p = 0)" for m
    by (simp add: edca_table_def ac_def)
  have body: "parse_edca_params_body ([0, 0] @ edca_records (edca_table m) @ post) st
      = (0, st\<lparr>ic_edca_updtcount := 0, ic_edca_ac := edca_table m,
            edca_updates := edca_updates st + (if edca_qos st then 1 else 0)\<rparr>)" for m
    using assms
    by (simp add: parse_edca_params_body_def edca_records_def edca_ac_bytes_def edca_record_def
        upt_rec edca_table_def ac_def LE_WRITE_2_def LE_READ_2_def byte_at_def)
  have m: "length MICROSOFT_OUI = 3" by simp
  show ?thesis
    using body [of "mc_curmode ic"]
    by (simp add: parse_edca_params_def parse_wmm_params_def add_edca_params_def
        add_wme_param_def MICROSOFT_OUI_def byte_at_def)
qed

section \<open>What the RSN parser reads\<close>

text \<open>\<open>p\<close> and \<open>q\<close> have the same first \<open>e\<close> bytes.\<close>

definition agree :: "nat \<Rightarrow> u8 list \<Rightarrow> u8 list \<Rightarrow> bool" where
  "agree e p q \<longleftrightarrow> (\<forall>k<e. byte_at p k = byte_at q k)"

lemma agree_bytes: "agree e p q \<Longrightarrow> i + n \<le> e \<Longrightarrow> bytes_at p i n = bytes_at q i n"
  by (simp add: agree_def bytes_at_def)

lemma agree_read: "agree e p q \<Longrightarrow> i + 2 \<le> e \<Longrightarrow> read_le2 p i = read_le2 q i"
  by (simp add: read_le2_def agree_bytes)

lemma agree_suites:
  "agree e p q \<Longrightarrow> i + n * 4 \<le> e \<Longrightarrow> or_suites parse p i n acc = or_suites parse q i n acc"
  by (induction n arbitrary: i acc) (auto simp: agree_bytes)

lemma agree_groupmgmt:
  "agree e p q \<Longrightarrow> parse_rsn_groupmgmt p i e rsn = parse_rsn_groupmgmt q i e rsn"
  by (simp add: parse_rsn_groupmgmt_def agree_bytes [of e p q i 4])

lemma agree_pmkids: "agree e p q \<Longrightarrow> parse_rsn_pmkids p i e rsn = parse_rsn_pmkids q i e rsn"
  by (simp add: parse_rsn_pmkids_def Let_def agree_read [of e p q i] agree_groupmgmt [of e p q]
      agree_bytes [of e p q])

lemma agree_caps: "agree e p q \<Longrightarrow> parse_rsn_caps p i e rsn = parse_rsn_caps q i e rsn"
  by (simp add: parse_rsn_caps_def agree_read [of e p q i] agree_pmkids [of e p q])

lemma agree_akms: "agree e p q \<Longrightarrow> parse_rsn_akms p i e rsn = parse_rsn_akms q i e rsn"
  by (simp add: parse_rsn_akms_def Let_def agree_read [of e p q i] agree_caps [of e p q]
      agree_suites [of e p q])

lemma agree_pairwise: "agree e p q \<Longrightarrow> parse_rsn_pairwise p i e rsn = parse_rsn_pairwise q i e rsn"
  by (simp add: parse_rsn_pairwise_def Let_def agree_read [of e p q i] agree_akms [of e p q]
      agree_suites [of e p q])

lemma agree_body:
  "agree e p q \<Longrightarrow> 2 \<le> e \<Longrightarrow> parse_rsn_body p e rsn = parse_rsn_body q e rsn"
  by (simp add: parse_rsn_body_def Let_def agree_read [of e p q 0] agree_pairwise [of e p q]
      agree_bytes [of e p q 2 4])

text \<open>The parsers of the RSN and WPA elements read no byte behind the element: two frames
  that agree up to its end give the same result.\<close>

theorem parse_rsn_in_bounds:
  assumes "agree (2 + unat (byte_at p 1)) p q" and "byte_at p 1 = byte_at q 1"
  shows "parse_rsn p rsn n = parse_rsn q rsn n \<and> parse_wpa p rsn n = parse_wpa q rsn n"
proof -
  let ?l = "unat (byte_at p 1)"
  have d: "agree (2 + ?l - k) (drop k p) (drop k q)" for k
    using assms(1) by (auto simp: agree_def byte_at_drop)
  have "parse_rsn_body (drop 2 p) ?l rsn = parse_rsn_body (drop 2 q) ?l rsn" if "\<not> byte_at p 1 < 2"
    using that d [of 2] by (intro agree_body) (auto simp: word_less_nat_alt)
  moreover have "parse_rsn_body (drop 6 p) (?l - 4) rsn = parse_rsn_body (drop 6 q) (?l - 4) rsn"
    if "\<not> byte_at p 1 < 6"
    using that d [of 6] by (intro agree_body) (auto simp: word_less_nat_alt)
  ultimately show ?thesis using assms(2) by (simp add: parse_rsn_def parse_wpa_def)
qed

text \<open>The PMKID count is truncated to eight bits: an element that announces a multiple of
  256 PMKIDs and contains none is accepted, although its list does not fit into it.\<close>

theorem pmkid_count_truncated:
  assumes "unat v mod 256 = 0"
  shows "parse_rsn_caps (LE_WRITE_2 caps @ LE_WRITE_2 v @ (IEEE80211_OUI @ [6]) @ post) 0 8 rsn
    = (STATUS_SUCCESS, rsn\<lparr>rsn_caps := caps, rsn_npmkids := 0, rsn_groupmgmtcipher := CIPHER_BIP\<rparr>)"
proof -
  let ?r = "rsn\<lparr>rsn_caps := caps, rsn_npmkids := 0\<rparr>" and ?t = "(IEEE80211_OUI @ [6]) @ post"
  have "unat (ucast v :: u8) = 0" using assms by (simp add: unsigned_ucast_eq take_bit_eq_mod)
  then have v: "ucast v = (0::u8)" by (simp only: unsigned_eq_0_iff)
  have "parse_rsn_caps (LE_WRITE_2 caps @ (LE_WRITE_2 v @ ?t)) 0 (2 + 6) rsn
      = parse_rsn_pmkids (LE_WRITE_2 v @ ?t) 0 6 (rsn\<lparr>rsn_caps := caps\<rparr>)"
    by (rule parse_caps_write)
  also have "\<dots> = parse_rsn_groupmgmt (LE_WRITE_2 v @ ?t) 2 6 ?r"
    by (simp add: parse_rsn_pmkids_def v del: add_2_eq_Suc add_2_eq_Suc')
  also have "\<dots> = parse_rsn_groupmgmt ?t 0 4 ?r"
    using parse_rsn_groupmgmt_append [of "LE_WRITE_2 v" ?t 0 4] by simp
  also have "\<dots> = (0, ?r\<lparr>rsn_groupmgmtcipher := CIPHER_BIP\<rparr>)"
    using bytes_at_take [of "IEEE80211_OUI @ [6]" 4 post]
    by (simp add: parse_rsn_groupmgmt_def bip_read)
  finally show ?thesis by simp
qed

section \<open>Space for a frame\<close>

named_theorems frame_len

lemma length_rates: "length (add_rates rs) + length (xrates_if rs) = rates_len rs"
  by (simp add: add_rates_def xrates_if_def opt_bytes_def add_xrates_def rates_len_def Let_def)

lemma length_ssid [frame_len]: "length (add_ssid essid n) = 2 + n"
  by (simp add: add_ssid_def)

lemma length_ht_body: "length (ht_caps_body ic cap) = 26"
  by (simp add: ht_caps_body_def LE_WRITE_4_def)

lemma length_htcaps [frame_len]: "length (add_htcaps ic) = 28"
  by (simp add: add_htcaps_def length_ht_body)

lemma length_vhtcaps [frame_len]: "length (add_vhtcaps ic) = 14"
  by (simp add: add_vhtcaps_def LE_WRITE_4_def)

lemma length_wme_info [frame_len]: "length add_wme_info = 9"
  by (simp add: add_wme_info_def)

lemma length_qos_capability [frame_len]: "length add_qos_capability = 3"
  by (simp add: add_qos_capability_def)

lemma length_edca_records: "length (edca_records edca) = 16"
  by (simp add: edca_records_def edca_ac_bytes_def upt_rec)

lemma length_edca_params [frame_len]: "length (add_edca_params ic) = 20"
  by (simp add: add_edca_params_def length_edca_records)

lemma length_wme_param [frame_len]: "length (add_wme_param ic) = 26"
  by (simp add: add_wme_param_def length_edca_records)

lemma length_htop [frame_len]: "length (add_htop ic) = 24"
  by (simp add: add_htop_def)

lemma length_tie [frame_len]: "length (add_tie t v) = 7"
  by (simp add: add_tie_def LE_WRITE_4_def)

lemma length_capinfo [frame_len]: "length (add_capinfo ic ni) = 2"
  by (simp add: add_capinfo_def)

lemma length_small_elems [frame_len]:
  "length (add_ds_params ni) = 3" "length add_ibss_params = 4" "length (add_erp ic) = 3"
  by (simp_all add: add_ds_params_def add_ibss_params_def add_erp_def)

lemma length_opt_bytes: "length (opt_bytes b xs) = (if b then length xs else 0)"
  by (simp add: opt_bytes_def)

lemma length_rsn:
  assumes "opt_elem (sends_rsn ic ni) (add_rsn ic ni) = Some e"
    and "length (pairwise_suites (mn_rsnciphers ni)) \<le> 2"
  shows "length e \<le> (if sends_rsn ic ni then 2 + RSNIE_MAXLEN else 0)"
  using assms rsn_body_length [of ic ni False]
  by (fastforce simp: opt_elem_def add_rsn_def split: if_splits)

lemma length_wpa:
  assumes "opt_elem (sends_wpa ic ni) (add_wpa ic ni) = Some e"
    and "length (pairwise_suites (mn_rsnciphers ni)) \<le> 2"
  shows "length e \<le> (if sends_wpa ic ni then 2 + WPAIE_MAXLEN else 0)"
  using assms rsn_body_length [of ic ni True]
  by (fastforce simp: opt_elem_def add_wpa_def split: if_splits)

text \<open>The size of the PPE thresholds, computed in eight bits, never exceeds its array.\<close>

lemma and_push_bit: "x AND push_bit k m = push_bit k (drop_bit k x AND (m :: 'a::len word))"
  by (rule bit_word_eqI) (auto simp: bit_simps)

lemma hweight8_ru: "hweight8 (ucast (hdr AND 0x78 :: u8)) \<le> 4"
proof -
  let ?n = "unat (drop_bit 3 hdr AND 0xf)"
  have "drop_bit 3 hdr AND 0xf \<le> (0xf :: u8)" by (rule word_and_le1)
  then have n: "?n < 16" by (simp add: word_le_nat_alt)
  have "hdr AND 0x78 = push_bit 3 (drop_bit 3 hdr AND 0xf)"
    using and_push_bit [of hdr 3 "0xf"] by simp
  then have e: "hdr AND 0x78 = push_bit 3 (of_nat ?n)" by simp
  have all: "\<forall>n \<in> set [0..<16]. hweight8 (ucast (push_bit 3 (of_nat n) :: u8)) \<le> 4"
    by code_simp
  have "hweight8 (ucast (push_bit 3 (of_nat ?n) :: u8)) \<le> 4"
    by (rule bspec [OF all]) (use n in simp)
  then show ?thesis by (simp only: e [symmetric])
qed

lemma ppe_bytes_le: "unat (ppe_bytes hdr) \<le> 25"
proof -
  let ?h = "unat (hweight8 (ucast (hdr AND 0x78 :: u8)))" and ?s = "unat (hdr AND 7)"
  have h: "?h < 5" using hweight8_ru [of hdr] by (simp add: word_le_nat_alt)
  have "hdr AND 7 \<le> 7" by (rule word_and_le1)
  then have s: "?s < 8" by (simp add: word_le_nat_alt)
  have w: "ucast (hweight8 (ucast (hdr AND 0x78 :: u8))) = (of_nat ?h :: u8)"
    by simp
  have v: "hdr AND 7 = of_nat ?s" by simp
  have all: "\<forall>h \<in> set [0..<5]. \<forall>s \<in> set [0..<8].
      unat ((of_nat h * (1 + of_nat s) * 3 * 2 + 7 + 7) div 8 :: u8) \<le> 25"
    by code_simp
  have "unat ((of_nat ?h * (1 + of_nat ?s) * 3 * 2 + 7 + 7) div 8 :: u8) \<le> 25"
    by (rule bspec [OF bspec [OF all]]) (use h s in simp_all)
  then show ?thesis unfolding ppe_bytes_def Let_def w by (subst v)
qed

lemma length_hecaps: "length (add_hecaps stale ic) \<le> 17 + 2 + 1 + 12 + 25"
proof -
  have "unat (he_mcs_nss_size (mc_he_phy_cap_info ic)) \<le> 12" by (simp add: he_mcs_nss_size_def)
  moreover have "length (add_hecaps stale ic) = 20 + unat (he_mcs_nss_size (mc_he_phy_cap_info ic))
      + (if ppe_present (mc_he_phy_cap_info ic)
         then unat (ppe_bytes (byte_at (mc_ppe_thres ic) 0)) else 0)"
    by (simp add: add_hecaps_def Let_def)
  ultimately show ?thesis using ppe_bytes_le [of "byte_at (mc_ppe_thres ic) 0"] by simp
qed

text \<open>C17. The body of an association request fits into the space that is reserved for it, under two
  conditions: the node has at most two of the three pairwise suites (the space reckons with two), and where
  the system supplies the RSN and WPA elements (\<^verbatim>\<open>USE_APPLE_SUPPLICANT\<close>), its element has at most
  RSNIE_MAXLEN bytes when it goes out as the RSN element and at most WPAIE_MAXLEN bytes when it goes out as the WPA
  element.  The code checks neither; \<open>assoc_req_override_overruns\<close> shows that a longer element
  does overrun the space.\<close>

theorem assoc_req_fits:
  assumes "get_assoc_req alloc apple stale ic ni reassoc = Inr frm"
    and "length (pairwise_suites (mn_rsnciphers ni)) \<le> 2"
    and "\<lbrakk>apple; sends_rsn ic ni\<rbrakk> \<Longrightarrow> unat (byte_at (mc_rsn_ie_override ic) 1) \<le> RSNIE_MAXLEN"
    and "\<lbrakk>apple; sends_wpa ic ni\<rbrakk> \<Longrightarrow> unat (byte_at (mc_rsn_ie_override ic) 1) \<le> WPAIE_MAXLEN"
  shows "length frm \<le> assoc_req_room ic ni reassoc"
proof -
  obtain rsn wpa where r: "opt_elem (sends_rsn ic ni) (rsn_elem apple ic (add_rsn ic ni)) = Some rsn"
    and w: "opt_elem (sends_wpa ic ni) (rsn_elem apple ic (add_wpa ic ni)) = Some wpa"
    and f: "frm = LE_WRITE_2 (assoc_capinfo ic ni) @ LE_WRITE_2 (mc_lintval ic)
               @ opt_bytes reassoc (bytes_at (mn_bssid (mc_bss ic)) 0 ADDR_LEN)
               @ add_ssid (mn_essid ni) (unat (mn_esslen ni)) @ add_rates (mn_rates ni)
               @ xrates_if (mn_rates ni)
               @ rsn @ opt_bytes (has_flag (mn_flags ni) NODE_QOS) add_qos_capability @ wpa
               @ opt_bytes (ic_flag ic F_HTON) (add_htcaps ic @ add_wme_info)
               @ opt_bytes (ic_flag ic F_VHTON) (add_vhtcaps ic)
               @ opt_bytes (ic_flag ic F_HEON) (add_hecaps stale ic)"
    using assms(1) by (auto simp: get_assoc_req_def Let_def split: option.splits)
  have "length rsn \<le> (if sends_rsn ic ni then 2 + RSNIE_MAXLEN else 0)"
    using r assms(2,3) length_rsn [of ic ni rsn]
    by (auto simp: rsn_elem_def opt_elem_def Let_def split: if_splits)
  moreover have "length wpa \<le> (if sends_wpa ic ni then 2 + WPAIE_MAXLEN else 0)"
    using w assms(2,4) length_wpa [of ic ni wpa]
    by (auto simp: rsn_elem_def opt_elem_def Let_def split: if_splits)
  moreover have "length (opt_bytes (ic_flag ic F_HEON) (add_hecaps stale ic))
      \<le> (if ic_flag ic F_HEON then 17 + 2 + 1 + 12 + 25 else 0)"
    using length_hecaps [of stale ic] by (simp add: length_opt_bytes)
  moreover have "length (opt_bytes (ic_flag ic F_VHTON) (add_vhtcaps ic))
      \<le> (if ic_flag ic F_VHTON then 14 + 2 else 0)"
    by (simp add: length_opt_bytes frame_len)
  moreover have "length (opt_bytes (ic_flag ic F_HTON) (add_htcaps ic @ add_wme_info))
      = (if ic_flag ic F_HTON then 28 + 9 else 0)"
    "length (opt_bytes (has_flag (mn_flags ni) NODE_QOS) add_qos_capability)
      = (if has_flag (mn_flags ni) NODE_QOS then 2 + 1 else 0)"
    "length (opt_bytes reassoc (bytes_at (mn_bssid (mc_bss ic)) 0 ADDR_LEN))
      = (if reassoc then ADDR_LEN else 0)"
    by (simp_all add: length_opt_bytes frame_len)
  moreover note length_rates [of "mn_rates ni"] length_ssid [of "mn_essid ni" "unat (mn_esslen ni)"]
  ultimately show ?thesis
    unfolding f assoc_req_room_def length_append LE_WRITE_2_length by linarith
qed

text \<open>The bound on the element of the system is needed: a longer one overruns the reserved space.\<close>

theorem assoc_req_override_overruns:
  assumes "get_assoc_req alloc True stale ic ni reassoc = Inr frm"
    and "sends_rsn ic ni" and "RSNIE_MAXLEN < unat (byte_at (mc_rsn_ie_override ic) 1)"
    and "\<not> sends_wpa ic ni" and "\<not> ic_flag ic F_VHTON" and "\<not> ic_flag ic F_HEON"
  shows "assoc_req_room ic ni reassoc < length frm"
proof -
  let ?o = "mc_rsn_ie_override ic"
  have o: "0 < byte_at ?o 1" using assms(3) by (simp add: word_less_nat_alt)
  have "frm = LE_WRITE_2 (assoc_capinfo ic ni) @ LE_WRITE_2 (mc_lintval ic)
               @ opt_bytes reassoc (bytes_at (mn_bssid (mc_bss ic)) 0 ADDR_LEN)
               @ add_ssid (mn_essid ni) (unat (mn_esslen ni)) @ add_rates (mn_rates ni)
               @ xrates_if (mn_rates ni) @ bytes_at ?o 0 (2 + unat (byte_at ?o 1))
               @ opt_bytes (has_flag (mn_flags ni) NODE_QOS) add_qos_capability
               @ opt_bytes (ic_flag ic F_HTON) (add_htcaps ic @ add_wme_info)"
    using assms o
    by (simp add: get_assoc_req_def Let_def opt_elem_def rsn_elem_def opt_bytes_def [of False]
        split: option.splits)
  moreover note length_rates [of "mn_rates ni"]
  ultimately show ?thesis
    using assms by (simp add: assoc_req_room_def length_opt_bytes frame_len)
qed

lemma length_ht_elems:
  "length (opt_bytes b (add_htcaps ic @ add_wme_info)) = (if b then 28 + 9 else 0)"
  "length (opt_bytes b (add_htcaps ic @ add_htop ic @ add_wme_param ic))
    = (if b then 28 + 24 + 26 else 0)"
  by (simp_all add: length_opt_bytes frame_len)

lemma probe_req_fits:
  assumes "get_probe_req alloc ic ni = Inr frm"
  shows "length frm \<le> probe_req_room ic (mc_sup_rates ic (chan2mode ic (Some (mn_chan ni))))"
proof -
  let ?rs = "mc_sup_rates ic (chan2mode ic (Some (mn_chan ni)))"
  have f: "frm = add_ssid (mc_des_essid ic) (mc_des_esslen ic) @ add_rates ?rs @ xrates_if ?rs
      @ opt_bytes (ic_flag ic F_HTON) (add_htcaps ic @ add_wme_info)
      @ opt_bytes (ic_flag ic F_VHTON) (add_vhtcaps ic)"
    using assms by (auto simp: get_probe_req_def Let_def split: option.splits)
  have "length (opt_bytes (ic_flag ic F_VHTON) (add_vhtcaps ic))
      = (if ic_flag ic F_VHTON then 14 else 0)" by (simp add: length_opt_bytes frame_len)
  moreover note length_rates [of ?rs] length_ssid [of "mc_des_essid ic" "mc_des_esslen ic"]
    length_ht_elems(1) [of "ic_flag ic F_HTON" ic]
  ultimately show ?thesis unfolding f probe_req_room_def length_append by linarith
qed

lemma assoc_resp_fits:
  assumes "get_assoc_resp alloc ic ni status = Inr frm"
  shows "length frm \<le> assoc_resp_room ic ni status"
proof -
  let ?rs = "mn_rates ni" and ?q = "has_flag (mn_flags ni) NODE_QOS"
    and ?t = "has_flag (mn_flags ni) NODE_MFP \<and> status = STATUS_TRY_AGAIN_LATER"
  have f: "frm = add_capinfo ic ni @ LE_WRITE_2 status
          @ LE_WRITE_2 (if status = STATUS_SUCCESS then mn_associd ni else 0)
          @ add_rates ?rs @ xrates_if ?rs @ opt_bytes ?q (add_edca_params ic)
          @ opt_bytes ?t (add_tie 3 1000)
          @ opt_bytes (ic_flag ic F_HTON) (add_htcaps ic @ add_htop ic @ add_wme_param ic)"
    using assms by (auto simp: get_assoc_resp_def Let_def split: option.splits)
  have "length (opt_bytes ?t (add_tie 3 1000))
      \<le> (if status = STATUS_TRY_AGAIN_LATER then 2 + 7 else 0)"
    "length (opt_bytes ?q (add_edca_params ic)) = (if ?q then 2 + 18 else 0)"
    by (simp_all add: length_opt_bytes frame_len)
  moreover note length_rates [of ?rs] length_ht_elems(2) [of "ic_flag ic F_HTON" ic]
    length_capinfo [of ic ni]
  ultimately show ?thesis
    unfolding f assoc_resp_room_def length_append LE_WRITE_2_length by linarith
qed

lemma probe_resp_fits:
  assumes "get_probe_resp alloc ic ni = Inr frm"
    and "length (pairwise_suites (mn_rsnciphers (mc_bss ic))) \<le> 2"
    and "mn_esslen (mc_bss ic) \<le> mn_esslen ni"
  shows "length frm \<le> probe_resp_room ic ni (mn_rates (mc_bss ic))"
proof -
  let ?bss = "mc_bss ic" and ?rs = "mn_rates (mc_bss ic)"
  obtain rsn wpa where r: "opt_elem (sends_rsn ic ?bss) (add_rsn ic ?bss) = Some rsn"
    and w: "opt_elem (sends_wpa ic ?bss) (add_wpa ic ?bss) = Some wpa"
    and f: "frm = replicate 8 0 @ LE_WRITE_2 (mn_intval ?bss) @ add_capinfo ic ni
               @ add_ssid (mn_essid ?bss) (unat (mn_esslen ?bss)) @ add_rates ?rs @ add_ds_params ni
               @ opt_bytes (mc_opmode ic = M_IBSS) add_ibss_params
               @ opt_bytes (mc_curmode ic = MODE_11G) (add_erp ic)
               @ xrates_if ?rs @ rsn
               @ opt_bytes (ic_flag ic F_QOS) (add_edca_params ic) @ wpa
               @ opt_bytes (ic_flag ic F_HTON) (add_htcaps ic @ add_htop ic @ add_wme_param ic)"
    using assms(1) by (auto simp: get_probe_resp_def Let_def split: option.splits)
  have "length (opt_bytes (mc_opmode ic = M_IBSS) add_ibss_params)
      = (if mc_opmode ic = M_IBSS then 2 + 2 else 0)"
    "length (opt_bytes (mc_curmode ic = MODE_11G) (add_erp ic))
      = (if mc_curmode ic = MODE_11G then 2 + 1 else 0)"
    "length (opt_bytes (ic_flag ic F_QOS) (add_edca_params ic))
      = (if ic_flag ic F_QOS then 2 + 18 else 0)"
    by (simp_all add: length_opt_bytes frame_len)
  moreover have "unat (mn_esslen ?bss) \<le> unat (mn_esslen ni)"
    using assms(3) by (simp add: word_le_nat_alt)
  moreover note length_rsn [OF r assms(2)] length_wpa [OF w assms(2)] length_rates [of ?rs]
    length_ssid [of "mn_essid ?bss" "unat (mn_esslen ?bss)"] length_capinfo [of ic ni]
    length_small_elems(1) [of ni] length_ht_elems(2) [of "ic_flag ic F_HTON" ic]
  ultimately show ?thesis
    unfolding f probe_resp_room_def length_append LE_WRITE_2_length length_replicate by linarith
qed

text \<open>The other frames with a computed size fit into their reserved space: probe requests
  and association responses always, a probe response when the BSS has at most two pairwise
  suites and its SSID is not longer than that of the node the space is computed from.\<close>

theorem mgmt_frames_fit:
  "(get_probe_req alloc ic ni = Inr frm \<longrightarrow>
      length frm \<le> probe_req_room ic (mc_sup_rates ic (chan2mode ic (Some (mn_chan ni))))) \<and>
   (get_assoc_resp alloc ic ni status = Inr frm \<longrightarrow> length frm \<le> assoc_resp_room ic ni status) \<and>
   (get_probe_resp alloc ic ni = Inr frm \<and> length (pairwise_suites (mn_rsnciphers (mc_bss ic))) \<le> 2
      \<and> mn_esslen (mc_bss ic) \<le> mn_esslen ni
      \<longrightarrow> length frm \<le> probe_resp_room ic ni (mn_rates (mc_bss ic)))"
  using probe_req_fits assoc_resp_fits probe_resp_fits by blast

text \<open>The HE capabilities element: with PPE thresholds its length field is the number of
  bytes that follow; without them the function returns before it writes the field, which then
  holds whatever the buffer held.\<close>

theorem hecaps_length_field:
  "unat (byte_at (add_hecaps stale ic) 1)
     = (if ppe_present (mc_he_phy_cap_info ic) then length (add_hecaps stale ic) - 2
        else unat stale)"
proof (cases "ppe_present (mc_he_phy_cap_info ic)")
  case True
  let ?b = "[35] @ bytes_at (mc_he_mac_cap_info ic) 0 6 @ bytes_at (mc_he_phy_cap_info ic) 0 11
      @ bytes_at (mc_he_mcs_nss_supp ic) 0 (unat (he_mcs_nss_size (mc_he_phy_cap_info ic)))
      @ bytes_at (mc_ppe_thres ic) 0 (unat (ppe_bytes (byte_at (mc_ppe_thres ic) 0)))"
  have e: "add_hecaps stale ic = [255, of_nat (length ?b)] @ ?b"
    using True by (simp add: add_hecaps_def Let_def)
  then have "length ?b \<le> 55" using length_hecaps [of stale ic] by simp
  then have "unat (of_nat (length ?b) :: u8) = length ?b" by (intro unat_u8) simp
  then show ?thesis using True unfolding e by (simp only: if_True length_append) simp
next
  case False
  then show ?thesis by (simp add: add_hecaps_def Let_def)
qed

section \<open>Witnesses\<close>

definition demo_rates :: rateset where
  "demo_rates = \<lparr>rs_nrates = 12,
     rs_rates = [0x82, 0x84, 0x8b, 0x96, 12, 18, 24, 36, 48, 72, 96, 108, 0, 0, 0]\<rparr>"

definition demo_mn :: mgmt_node where
  "demo_mn = \<lparr>mn_chan = \<lparr>ch_ieee = 6, ch_flags = CHAN_2GHZ OR CHAN_DYN\<rparr>,
     mn_essid = [0x68, 0x6f, 0x6d, 0x65], mn_esslen = 4, mn_rates = demo_rates,
     mn_bssid = [2, 0, 0, 0, 0, 1], mn_intval = 100, mn_flags = NODE_QOS OR NODE_PMKID,
     mn_associd = 0xc001, mn_rsnprotos = PROTO_RSN, mn_rsngroupcipher = CIPHER_CCMP,
     mn_rsnciphers = CIPHER_CCMP, mn_rsnakms = AKM_PSK OR AKM_SHA256_PSK, mn_rsncaps = 0,
     mn_pmkid = replicate 16 7, mn_htcaps = 0, mn_htop0 = 0, mn_htop1 = 0, mn_htop2 = 0\<rparr>"

definition demo_mc :: mgmt_com where
  "demo_mc = \<lparr>mc_opmode = M_STA, mc_flags = F_RSNON OR F_HTON, mc_caps = C_MFP,
     mc_curmode = MODE_11G, mc_modecaps = 0, mc_bss = demo_mn, mc_des_essid = [0x68],
     mc_des_esslen = 1, mc_sup_rates = (\<lambda>_. demo_rates), mc_lintval = 10, mc_tim_bitmap = [0],
     mc_dtim_count = 0, mc_dtim_period = 1, mc_tim_mcast_pending = False, mc_nonerpsta = 0,
     mc_rsngroupmgmtcipher = CIPHER_BIP, mc_rsn_ie_override = 48 # 60 # replicate 255 0,
     mc_htcaps = 0x2c,
     mc_ampdu_params = 3, mc_sup_mcs = [0xff, 0xff, 0, 0, 0, 0, 0, 0, 0, 0], mc_max_rxrate = 300,
     mc_tx_mcs_set = 1, mc_htxcaps = 0, mc_txbfcaps = 0, mc_aselcaps = 0, mc_vhtcaps = 0,
     mc_vht_rx_mcs_map = 0, mc_vht_rx_highest = 0, mc_vht_tx_mcs_map = 0, mc_vht_tx_highest = 0,
     mc_he_mac_cap_info = replicate 6 0, mc_he_phy_cap_info = replicate 11 0,
     mc_he_mcs_nss_supp = replicate 12 0, mc_ppe_thres = replicate 25 0\<rparr>"

definition demo_rsn :: rsnparams where
  "demo_rsn = \<lparr>rsn_nakms = 0, rsn_akms = 0, rsn_nciphers = 0, rsn_ciphers = 0,
     rsn_groupcipher = 0, rsn_groupmgmtcipher = 0, rsn_caps = 0, rsn_npmkids = 0,
     rsn_pmkids = []\<rparr>"

lemma demo_rsn_elem: "add_rsn demo_mc demo_mn = Some (the (add_rsn demo_mc demo_mn))"
  by (simp add: add_rsn_def add_rsn_body_def demo_mn_def demo_mc_def group_suite_def Let_def)

lemma demo_wpa_elem: "add_wpa demo_mc demo_mn = Some (the (add_wpa demo_mc demo_mn))"
  by (simp add: add_wpa_def add_rsn_body_def demo_mn_def demo_mc_def group_suite_def Let_def)

lemma demo_usegroup: "usegroup_ok demo_mn"
  by (simp add: usegroup_ok_def demo_mn_def has_flag_def)

theorem rsn_roundtrip_witness:
  "parse_rsn (the (add_rsn demo_mc demo_mn) @ [0xdd, 0]) demo_rsn 0
    = ((STATUS_SUCCESS, rsn_params_of demo_mc demo_mn demo_rsn), 0)"
  by (rule rsn_roundtrip [OF demo_rsn_elem demo_usegroup])

theorem wpa_roundtrip_witness:
  "parse_wpa (the (add_wpa demo_mc demo_mn) @ [0xdd, 0]) demo_rsn 0
    = ((STATUS_SUCCESS, suites_params demo_mn True demo_rsn), 0)"
  by (rule wpa_roundtrip [OF demo_wpa_elem demo_usegroup])

definition demo_edca :: edca_com where
  "demo_edca = \<lparr>ic_edca_updtcount = 3, ic_edca_ac = [], edca_qos = True, edca_too_small = 0,
     edca_updates = 0\<rparr>"

theorem edca_roundtrip_witness:
  "snd (parse_edca_params (add_edca_params demo_mc @ []) demo_edca)
    = demo_edca\<lparr>ic_edca_updtcount := 0, ic_edca_ac := edca_table MODE_11G, edca_updates := 1\<rparr>"
  using edca_roundtrip [of demo_edca demo_mc "[]"] by (simp add: demo_edca_def demo_mc_def)

theorem parse_rsn_in_bounds_witness:
  "parse_rsn [48, 2, 1, 0, 5] demo_rsn 0 = parse_rsn [48, 2, 1, 0, 9, 9] demo_rsn 0"
proof -
  have "byte_at [48, 2, 1, 0, 5] k = byte_at [48, 2, 1, 0, 9, 9] k" if "k < 4" for k
  proof -
    have "k = 0 \<or> k = 1 \<or> k = 2 \<or> k = 3" using that by arith
    then show ?thesis by (auto simp: byte_at_def)
  qed
  then have "agree (2 + unat (byte_at [48, 2, 1, 0, 5] 1)) [48, 2, 1, 0, 5] [48, 2, 1, 0, 9, 9]"
    by (simp add: agree_def)
  then show ?thesis
    using parse_rsn_in_bounds [of "[48, 2, 1, 0, 5]" "[48, 2, 1, 0, 9, 9]" demo_rsn 0] by simp
qed

theorem pmkid_count_truncated_witness:
  "fst (parse_rsn_caps (LE_WRITE_2 0 @ LE_WRITE_2 0x200 @ (IEEE80211_OUI @ [6]) @ []) 0 8 demo_rsn)
    = STATUS_SUCCESS"
  using pmkid_count_truncated [of "0x200" 0 "[]" demo_rsn] by simp

lemma demo_pairwise: "length (pairwise_suites (mn_rsnciphers demo_mn)) \<le> 2"
  by (simp add: demo_mn_def pairwise_suites_def has_flag_def)

lemma demo_sends: "sends_rsn demo_mc demo_mn" "\<not> sends_wpa demo_mc demo_mn"
  "\<not> ic_flag demo_mc F_VHTON" "\<not> ic_flag demo_mc F_HEON"
  by (simp_all add: sends_rsn_def sends_wpa_def ic_flag_def demo_mn_def demo_mc_def has_flag_def)

lemma demo_room: "assoc_req_room demo_mc demo_mn False \<le> 200"
  by (simp add: assoc_req_room_def demo_sends rates_len_def demo_mn_def demo_rates_def)

lemma demo_assoc: "\<exists>frm. get_assoc_req True apple 0 demo_mc demo_mn False = Inr frm"
proof -
  obtain e where e: "add_rsn demo_mc demo_mn = Some e" using demo_rsn_elem by blast
  show ?thesis
    using demo_room e
    by (auto simp: get_assoc_req_def getmgmt_def opt_elem_def demo_sends Let_def rsn_elem_def)
qed

theorem assoc_req_fits_witness:
  "\<exists>frm. get_assoc_req True False 0 demo_mc demo_mn False = Inr frm
    \<and> length frm \<le> assoc_req_room demo_mc demo_mn False"
  using demo_assoc [of False] assoc_req_fits [of True False 0 demo_mc demo_mn False] demo_pairwise
  by blast

theorem assoc_req_override_overruns_witness:
  "\<exists>frm. get_assoc_req True True 0 demo_mc demo_mn False = Inr frm
    \<and> assoc_req_room demo_mc demo_mn False < length frm"
proof -
  have "RSNIE_MAXLEN < unat (byte_at (mc_rsn_ie_override demo_mc) 1)" by (simp add: demo_mc_def)
  then show ?thesis
    using demo_assoc [of True] demo_sends
      assoc_req_override_overruns [of True 0 demo_mc demo_mn False] by blast
qed

theorem mgmt_frames_fit_witness:
  "\<exists>frm. get_assoc_resp True demo_mc demo_mn 0 = Inr frm
    \<and> length frm \<le> assoc_resp_room demo_mc demo_mn 0"
proof -
  have "assoc_resp_room demo_mc demo_mn 0 \<le> 200"
    by (simp add: assoc_resp_room_def rates_len_def demo_mn_def demo_rates_def)
  then obtain frm where f: "get_assoc_resp True demo_mc demo_mn 0 = Inr frm"
    by (auto simp: get_assoc_resp_def getmgmt_def Let_def)
  have "length frm \<le> assoc_resp_room demo_mc demo_mn 0"
    using mgmt_frames_fit [of True demo_mc demo_mn frm 0] f by blast
  then show ?thesis using f by blast
qed

end
