(* ===== verification/Handshake.thy ===== *)
theory Handshake
  imports SuppGroup KeyProps MgmtProps
begin

text \<open>
  The 4-way handshake between two stations that run this code: an access point as authenticator and
  a station as supplicant.  Each message sent is followed from the sender's record over the bytes
  on the air to what the receiver does with it.
\<close>

section \<open>A frame from the sender to the receiver\<close>

text \<open>What \<open>send_eapol_key\<close> puts on the air for \<open>key\<close>, as a record.\<close>

definition on_air :: "pae_hooks \<Rightarrow> pae \<Rightarrow> eapol_key \<Rightarrow> ptk \<Rightarrow> eapol_key" where
  "on_air H s key ptk = eapol_sign H
     (snd (eapol_seal H (p_ni s) (pc_globalcnt (p_ic s)) (eapol_header (p_ni s) key) ptk)) ptk"

definition sends :: "pae_hooks \<Rightarrow> bool" where
  "sends H \<longleftrightarrow> hk_alloc H \<and> hk_prepend H \<and> hk_enqueue H = 0"

text \<open>The state after sending: the timer, the counter and the log.\<close>

definition after_tx :: "ctimer \<Rightarrow> u8 list \<Rightarrow> u8 list \<Rightarrow> pae \<Rightarrow> pae" where
  "after_tx to cntr f s = s\<lparr>p_ni := (p_ni s)\<lparr>pn_eapol_to := to\<rparr>,
     p_ic := (p_ic s)\<lparr>pc_globalcnt := cntr\<rparr>, p_log := p_log s @ [Ev_Tx f]\<rparr>"

lemma send_on_air:
  assumes "sends H"
  obtains to cntr where "send_eapol_key H key ptk s
    = (0, after_tx to cntr (ether_frame s (on_air H s key ptk)) s)"
proof -
  obtain cntr k where c: "eapol_seal H (p_ni s) (pc_globalcnt (p_ic s)) (eapol_header (p_ni s) key) ptk
      = (cntr, k)" by fastforce
  let ?k = "eapol_sign H k ptk"
  have "send_eapol_key H key ptk s = (0, after_tx
      (if has_flag (ek_info ?k) EAPOL_KEY_KEYACK then timeout_add_msec (pn_eapol_to (p_ni s)) 100
       else pn_eapol_to (p_ni s)) cntr (ether_frame s (on_air H s key ptk)) s)"
    using assms
    by (simp add: send_eapol_key_def sends_def on_air_def c Let_def emit_def ether_frame_def after_tx_def)
  then show ?thesis using that by blast
qed

text \<open>A frame as it must be to survive the way: the arrays of the right lengths and the length
  fields those of the data.\<close>

definition frame_ok :: "eapol_key \<Rightarrow> bool" where
  "frame_ok k \<longleftrightarrow> eapol_ok k \<and> 4 + unat (ek_len k) = EAPOL_HDR + length (ek_data k) \<and>
     unat (ek_paylen k) = length (ek_data k)"

lemma eapol_bytes_length: "eapol_ok k \<Longrightarrow> length (eapol_bytes k) = EAPOL_HDR + length (ek_data k)"
  by (simp add: eapol_ok_def eapol_bytes_def)

text \<open>The receiver skips the Ethernet header.\<close>

lemma ether_frame_parse:
  assumes "frame_ok k"
  shows "eapol_parse (drop 14 (ether_frame s k)) = k"
proof -
  have "length (bytes_at (pn_macaddr (p_ni s)) 0 6 @ bytes_at (pc_myaddr (p_ic s)) 0 6 @ [0x88, 0x8e]) = 14"
    by simp
  then have "drop 14 (ether_frame s k) = take (4 + unat (ek_len k)) (eapol_bytes k)"
    by (simp add: ether_frame_def)
  also have "\<dots> = eapol_bytes k" using assms by (simp add: frame_ok_def eapol_bytes_length)
  finally show ?thesis using assms eapol_parse_bytes by (simp add: frame_ok_def)
qed

text \<open>What the senders fill in: the flags above the version, no MIC yet, short key data.\<close>

definition draft_ok :: "eapol_key \<Rightarrow> bool" where
  "draft_ok k \<longleftrightarrow> eapol_ok k \<and> ek_mic k = replicate 16 0 \<and> ek_info k AND KEY_VERSION_MASK = 0 \<and>
     length (ek_data k) < 1900"

lemma desc_version_cases: "desc_version ni \<in> {KEY_DESC_V1, KEY_DESC_V2, KEY_DESC_V3}"
  by (simp add: desc_version_def)

lemma header_fields:
  assumes "draft_ok k"
  shows "frame_ok (eapol_header ni k)" "ek_mic (eapol_header ni k) = replicate 16 0"
    "ek_info (eapol_header ni k) AND KEY_VERSION_MASK = desc_version ni"
    "ek_data (eapol_header ni k) = ek_data k"
proof -
  have u: "unat (of_nat n :: u16) = n" if "n < 65536" for n
    using that by (simp add: unat_of_nat)
  have u95: "unat (95 + of_nat n :: u16) = 95 + n" if "n < 1900" for n
    using u [of "95 + n"] that by simp
  show "frame_ok (eapol_header ni k)" "ek_mic (eapol_header ni k) = replicate 16 0"
    "ek_data (eapol_header ni k) = ek_data k"
    using assms by (auto simp: draft_ok_def eapol_header_def Let_def frame_ok_def eapol_ok_def u u95)
  have "(ek_info k OR v) AND KEY_VERSION_MASK = v" if "v \<in> {KEY_DESC_V1, KEY_DESC_V2, KEY_DESC_V3}" for v
    using that assms by (auto simp: draft_ok_def bit.conj_disj_distrib2)
  then show "ek_info (eapol_header ni k) AND KEY_VERSION_MASK = desc_version ni"
    using desc_version_cases [of ni] by (simp add: eapol_header_def Let_def)
qed

text \<open>Signing changes the MIC only, and the receiver's check passes.\<close>

lemma mic_length:
  assumes "prims_ok pr" "ek_info k AND KEY_VERSION_MASK \<in> {KEY_DESC_V1, KEY_DESC_V2, KEY_DESC_V3}"
  shows "length (ek_mic (eapol_key_mic pr k kck)) = 16"
proof -
  have "length (HMAC_MD5_Final (pr_md5 pr) c) = 16" for c
    using assms(1) by (simp add: prims_ok_def HMAC_defs hmac_final_def)
  moreover have "length (HMAC_SHA1_Final (pr_sha1 pr) c) = 20" for c
    using hmac_length(1) [OF assms(1)] by simp
  moreover have "length (aes_cmac (pr_aes_enc pr kck) m) = 16" for m
    using assms(1) by (intro aes_cmac_length [of _ "pr_aes_dec pr kck"]) (simp add: prims_ok_def)
  ultimately show ?thesis using assms(2) by (auto simp: eapol_key_mic_def Let_def)
qed

lemma sign_ok:
  assumes "prims_ok (hk_prims H)" "frame_ok k" "ek_mic k = replicate 16 0"
    and "ek_info k AND KEY_VERSION_MASK \<in> {KEY_DESC_V1, KEY_DESC_V2, KEY_DESC_V3}"
  obtains m where "eapol_sign H k ptk = k\<lparr>ek_mic := m\<rparr>" "frame_ok (k\<lparr>ek_mic := m\<rparr>)"
    "has_flag (ek_info k) EAPOL_KEY_KEYMIC \<longrightarrow>
       eapol_key_check_mic (hk_prims H) (k\<lparr>ek_mic := m\<rparr>) (ptk_kck ptk) = (False, k\<lparr>ek_mic := m\<rparr>)"
proof (cases "has_flag (ek_info k) EAPOL_KEY_KEYMIC")
  case True
  let ?k = "eapol_key_mic (hk_prims H) k (ptk_kck ptk)"
  have e: "?k = k\<lparr>ek_mic := ek_mic ?k\<rparr>" by (rule mic_only)
  have "frame_ok (k\<lparr>ek_mic := ek_mic ?k\<rparr>)"
    using assms(2) mic_length [OF assms(1,4)] by (simp add: frame_ok_def eapol_ok_def)
  moreover have "eapol_key_check_mic (hk_prims H) ?k (ptk_kck ptk) = (False, ?k)"
    by (rule check_own_mic [OF assms(3)])
  moreover have "eapol_sign H k ptk = k\<lparr>ek_mic := ek_mic ?k\<rparr>" using True e by (simp add: eapol_sign_def)
  ultimately show ?thesis using that e by metis
next
  case False
  have "k\<lparr>ek_mic := ek_mic k\<rparr> = k" by simp
  with False show ?thesis using that [of "ek_mic k"] assms(2) by (simp add: eapol_sign_def)
qed

text \<open>A frame without encryption.\<close>

lemma on_air_plain:
  assumes "prims_ok (hk_prims H)" "draft_ok key" "\<not> has_flag (ek_info (eapol_header (p_ni s) key)) EAPOL_KEY_ENCRYPTED"
  obtains m where "on_air H s key ptk = (eapol_header (p_ni s) key)\<lparr>ek_mic := m\<rparr>"
    "frame_ok (on_air H s key ptk)"
    "has_flag (ek_info (eapol_header (p_ni s) key)) EAPOL_KEY_KEYMIC \<longrightarrow>
       eapol_key_check_mic (hk_prims H) (on_air H s key ptk) (ptk_kck ptk) = (False, on_air H s key ptk)"
proof -
  let ?h = "eapol_header (p_ni s) key"
  have v: "ek_info ?h AND KEY_VERSION_MASK \<in> {KEY_DESC_V1, KEY_DESC_V2, KEY_DESC_V3}"
    using header_fields(3) [OF assms(2)] desc_version_cases by simp
  have "on_air H s key ptk = eapol_sign H ?h ptk"
    using assms(3) by (simp add: on_air_def eapol_seal_def)
  with sign_ok [OF assms(1) header_fields(1,2) [OF assms(2)] v] show ?thesis using that by metis
qed

lemma decrypt_mic:
  "eapol_key_decrypt pr (k\<lparr>ek_mic := m\<rparr>) kek
    = (fst (eapol_key_decrypt pr k kek), (snd (eapol_key_decrypt pr k kek))\<lparr>ek_mic := m\<rparr>)"
  by (simp add: eapol_key_decrypt_def Let_def split: prod.split)

text \<open>What AES Key Wrap leaves behind the key data at the receiver.\<close>

definition wrapped_tail :: "prims \<Rightarrow> u8 list \<Rightarrow> u8 list \<Rightarrow> u8 list" where
  "wrapped_tail pr kek data =
     (let p = data @ wrap_padding (length data)
      in wrap_padding (length data)
         @ drop (length p) (aes_key_wrap (pr_aes_enc pr (take 16 kek)) p (length p div 8)))"

text \<open>A frame with encryption, under RSN: the receiver gets the key data and the bytes behind.\<close>

lemma on_air_sealed:
  assumes "prims_ok (hk_prims H)" "draft_ok key" "mn_rsnprotos (p_ni s) \<noteq> PROTO_WPA"
    and "has_flag (ek_info (eapol_header (p_ni s) key)) EAPOL_KEY_ENCRYPTED"
    and "has_flag (ek_info (eapol_header (p_ni s) key)) EAPOL_KEY_KEYMIC"
  obtains k rest where "frame_ok (on_air H s key ptk)"
    "eapol_key_check_mic (hk_prims H) (on_air H s key ptk) (ptk_kck ptk) = (False, on_air H s key ptk)"
    "ek_info (on_air H s key ptk) = ek_info (eapol_header (p_ni s) key)"
    "ek_replaycnt (on_air H s key ptk) = ek_replaycnt key"
    "ek_nonce (on_air H s key ptk) = ek_nonce key"
    "eapol_key_decrypt (hk_prims H) (on_air H s key ptk) (ptk_kek ptk) = (False, k)"
    "ek_data k = ek_data key @ rest" "unat (ek_paylen k) = length (ek_data k)"
    "ek_keylen k = ek_keylen key" "ek_rsc k = ek_rsc key" "ek_info k = ek_info (eapol_header (p_ni s) key)"
    "ek_replaycnt k = ek_replaycnt key" "ek_type (on_air H s key ptk) = EAPOL_KEY"
    "ek_desc (on_air H s key ptk) = ek_desc (eapol_header (p_ni s) key)"
    "length (ek_data (on_air H s key ptk)) < 1940"
    "rest = (if desc_version (p_ni s) = KEY_DESC_V1 then []
             else wrapped_tail (hk_prims H) (ptk_kek ptk) (ek_data key))"
proof -
  let ?h = "eapol_header (p_ni s) key" and ?pr = "hk_prims H" and ?kek = "ptk_kek ptk"
  have hf: "frame_ok ?h" "ek_mic ?h = replicate 16 0"
    "ek_info ?h AND KEY_VERSION_MASK = desc_version (p_ni s)" "ek_data ?h = ek_data key"
    "ek_keylen ?h = ek_keylen key" "ek_rsc ?h = ek_rsc key" "ek_replaycnt ?h = ek_replaycnt key"
    "ek_nonce ?h = ek_nonce key"
    using header_fields [OF assms(2)] by (simp_all add: eapol_header_def Let_def)
  obtain cntr e where e: "eapol_key_encrypt ?pr (pc_globalcnt (p_ic s)) ?h ?kek = (cntr, e)" by fastforce
  have len: "unat (ek_paylen ?h) = length (ek_data ?h)" "length (ek_data ?h) < 65000"
    using hf(1,4) assms(2) by (auto simp: frame_ok_def draft_ok_def)
  have ef: "ek_mic e = ek_mic ?h" "ek_info e = ek_info ?h" "ek_keylen e = ek_keylen ?h" "ek_rsc e = ek_rsc ?h"
    "ek_type e = ek_type ?h" "ek_desc e = ek_desc ?h"
    "ek_nonce e = ek_nonce ?h" "ek_reserved e = ek_reserved ?h" "ek_replaycnt e = ek_replaycnt ?h"
    using e by (auto simp: eapol_key_encrypt_def Let_def split: if_splits)
  obtain rest where d: "eapol_key_decrypt ?pr e ?kek = (False, e\<lparr>ek_data := ek_data ?h @ rest\<rparr>)"
    and r: "unat (ek_paylen e) = length (ek_data ?h @ rest)" "frame_ok e"
    and r1: "rest = (if desc_version (p_ni s) = KEY_DESC_V1 then []
             else wrapped_tail ?pr ?kek (ek_data key))" and r2: "length (ek_data e) < 1940"
  proof (cases "desc_version (p_ni s) = KEY_DESC_V1")
    case True
    then have v: "ek_info ?h AND KEY_VERSION_MASK = KEY_DESC_V1" using hf(3) by simp
    have "frame_ok e" "unat (ek_paylen e) = length (ek_data ?h)" "length (ek_data e) = length (ek_data ?h)"
      using e v len hf(1) by (auto simp: eapol_key_encrypt_def Let_def frame_ok_def eapol_ok_def)
    moreover have "length (ek_data ?h) < 1940" using assms(2) hf(4) by (simp add: draft_ok_def)
    ultimately have "frame_ok e" "unat (ek_paylen e) = length (ek_data ?h)" "length (ek_data e) < 1940"
      by simp_all
    then show ?thesis using that [of "[]"] decrypt_encrypt_v1 [OF v len(1) e] True by simp
  next
    case False
    then have v: "ek_info ?h AND KEY_VERSION_MASK \<in> {KEY_DESC_V2, KEY_DESC_V3}"
      using hf(3) desc_version_cases [of "p_ni s"] by auto
    let ?p = "ek_data ?h @ wrap_padding (length (ek_data ?h))"
    have w: "length (ek_data e) = length ?p + 8" "unat (ek_paylen e) = length ?p + 8"
      "eapol_key_decrypt ?pr e ?kek = (False, e\<lparr>ek_data := ?p @ drop (length ?p) (ek_data e)\<rparr>)"
      using decrypt_encrypt_wrap [OF assms(1) v len e] by auto
    have "ek_len e = of_nat EAPOL_HDR + of_nat (length ?p + 8) - 4" "ek_iv e = ek_iv ?h"
      using e v len by (auto simp: eapol_key_encrypt_def Let_def split: if_splits)
    moreover have p: "length ?p < 1920"
      using wrap_padding_mod [of "length (ek_data ?h)"] assms(2) hf(4) by (auto simp: draft_ok_def)
    then have "unat (of_nat (95 + (length ?p + 8)) :: u16) = 95 + (length ?p + 8)"
      by (simp only: unat_of_nat) simp
    ultimately have "frame_ok e"
      using w hf(1) ef by (simp add: frame_ok_def eapol_ok_def algebra_simps)
    moreover have "ek_data e = aes_key_wrap (pr_aes_enc ?pr (take 16 ?kek)) ?p (length ?p div 8)"
      using e v len by (auto simp: eapol_key_encrypt_def Let_def)
    then have t: "wrap_padding (length (ek_data ?h)) @ drop (length ?p) (ek_data e)
        = wrapped_tail ?pr ?kek (ek_data key)"
      using hf(4) by (simp add: wrapped_tail_def Let_def)
    moreover have "length (wrapped_tail ?pr ?kek (ek_data key)) = length (wrap_padding (length (ek_data ?h))) + 8"
      using arg_cong [OF t, of length] w(1) by simp
    ultimately show ?thesis
      using that [of "wrap_padding (length (ek_data ?h)) @ drop (length ?p) (ek_data e)"] w False p by simp
  qed
  have v: "ek_info e AND KEY_VERSION_MASK \<in> {KEY_DESC_V1, KEY_DESC_V2, KEY_DESC_V3}"
    using ef(2) hf(3) desc_version_cases by simp
  have air: "on_air H s key ptk = eapol_sign H e ptk"
    using assms(3,4) e by (simp add: on_air_def eapol_seal_def)
  have mic0: "ek_mic e = replicate 16 0" using ef(1) hf(2) by simp
  obtain m where m: "eapol_sign H e ptk = e\<lparr>ek_mic := m\<rparr>" "frame_ok (e\<lparr>ek_mic := m\<rparr>)"
    "eapol_key_check_mic ?pr (e\<lparr>ek_mic := m\<rparr>) (ptk_kck ptk) = (False, e\<lparr>ek_mic := m\<rparr>)"
    using sign_ok [OF assms(1) r(2) mic0 v, of ptk] assms(5) ef(2) by auto
  have "eapol_key_decrypt ?pr (e\<lparr>ek_mic := m\<rparr>) ?kek
      = (False, e\<lparr>ek_data := ek_data ?h @ rest, ek_mic := m\<rparr>)"
    using d by (simp add: decrypt_mic)
  then show ?thesis
    using that [of "e\<lparr>ek_data := ek_data ?h @ rest, ek_mic := m\<rparr>" rest] m r(1) r1 r2 air ef hf
    by (simp add: eapol_header_def Let_def)
qed

end
