(* ===== verification/Agreement.thy ===== *)
theory Agreement
  imports Handshake
begin

text \<open>
  The 4-way handshake run between an access point and a station: both end with the same pairwise
  key, the station holds the group key of the access point, and the ports are open.
\<close>

section \<open>Receiving a frame\<close>

lemma wrong_length_ok:
  assumes "frame_ok k" "length (ek_data k) < 1940"
  shows "\<not> wrong_length (EAPOL_HDR + length (ek_data k)) k"
proof -
  have "(ucast (ek_paylen k) :: u64) = of_nat (unat (ek_paylen k))" by (simp add: unsigned_ucast_eq)
  moreover have "4 + unat (ek_len k) = 99 + length (ek_data k)" "unat (ek_paylen k) = length (ek_data k)"
    using assms(1) by (simp_all add: frame_ok_def)
  ultimately show ?thesis using assms(2) by (simp add: wrong_length_def Let_def)
qed

lemma right_version:
  assumes "ek_info k AND KEY_VERSION_MASK = desc_version ni"
    and "mn_rsnakms ni' = mn_rsnakms ni" "pn_rsncipher ni' = pn_rsncipher ni"
      "mn_rsngroupcipher ni' = mn_rsngroupcipher ni"
  shows "\<not> wrong_version ni' k"
  using assms by (simp add: wrong_version_def Let_def desc_version_def)

lemma ether_frame_length:
  assumes "frame_ok k"
  shows "length (drop 14 (ether_frame s k)) = EAPOL_HDR + length (ek_data k)"
proof -
  have "length (bytes_at (pn_macaddr (p_ni s)) 0 6 @ bytes_at (pc_myaddr (p_ic s)) 0 6 @ [0x88, 0x8e]) = 14"
    by simp
  then have "drop 14 (ether_frame s k) = take (4 + unat (ek_len k)) (eapol_bytes k)"
    by (simp add: ether_frame_def)
  then show ?thesis using assms by (simp add: frame_ok_def eapol_bytes_length)
qed

lemma input_dispatch:
  assumes "frame_ok k" "length (ek_data k) < 1940" "ek_type k = EAPOL_KEY"
    and "\<not> bit (byte_at (pn_macaddr (p_ni s)) 0) 0" "\<forall>n. \<not> hk_pullup H n"
    and "\<not> wrong_desc (p_ni t) k" "\<not> wrong_version (p_ni t) k"
  shows "eapol_key_input H sec (ether_frame s k) t = eapol_dispatch H sec k (emit (Ev_Stat Rx_Eapol_Key) t)"
proof -
  have "byte_at (ether_frame s k) 0 = byte_at (pn_macaddr (p_ni s)) 0"
    by (simp add: ether_frame_def byte_at_def nth_append) (simp add: bytes_at_def byte_at_def)
  moreover have "\<not> wrong_length (length (drop 14 (ether_frame s k))) k"
    using wrong_length_ok [OF assms(1,2)] ether_frame_length [OF assms(1)] by simp
  ultimately show ?thesis
    using assms ether_frame_parse [OF assms(1), of s] ether_frame_length [OF assms(1), of s]
    unfolding eapol_key_input_def Let_def by simp
qed

section \<open>The walk over key data\<close>

lemma kde_elems_cons:
  assumes "length x = 2 + unat (byte_at x 1)"
  shows "kde_elems (x @ y) (length x + m) = (x @ y) # kde_elems y m"
proof -
  have "byte_at (x @ y) 1 = byte_at x 1" using assms by (simp add: byte_at_def nth_append)
  then show ?thesis using assms by (subst kde_elems.simps) (simp add: Let_def)
qed

lemma bytes_at_3: "bytes_at p i 3 = [byte_at p i, byte_at p (i + 1), byte_at p (i + 2)]"
  by (simp add: bytes_at_def numeral_3_eq_3 upt_conv_Cons)

lemma gtk_kde_shape:
  assumes "k_len k \<le> 32"
  shows "length (gtk_kde ni k) = 8 + k_len k" "byte_at (gtk_kde ni k @ y) 1 = of_nat (6 + k_len k)"
    "unat (of_nat (6 + k_len k) :: u8) = 6 + k_len k"
    "is_kde KDE_GTK (gtk_kde ni k @ y)" "byte_at (gtk_kde ni k @ y) 0 \<noteq> ELEMID_RSN"
    "kde_kid (gtk_kde ni k @ y) = k_id k AND 3"
    "bytes_at (drop 8 (gtk_kde ni k @ y)) 0 (k_len k) = bytes_at (k_key k) 0 (k_len k)"
proof -
  show u: "unat (of_nat (6 + k_len k) :: u8) = 6 + k_len k"
    using assms by (simp only: unat_of_nat) simp
  show "length (gtk_kde ni k) = 8 + k_len k" by (simp add: gtk_kde_def IEEE80211_OUI_def)
  show "byte_at (gtk_kde ni k @ y) 1 = of_nat (6 + k_len k)" by (simp add: gtk_kde_def byte_at_def)
  have "4 \<le> (of_nat (6 + k_len k) :: u8)" using u by (simp add: word_le_nat_alt)
  then show "is_kde KDE_GTK (gtk_kde ni k @ y)"
    by (simp add: is_kde_def gtk_kde_def bytes_at_3 byte_at_def IEEE80211_OUI_def)
  show "byte_at (gtk_kde ni k @ y) 0 \<noteq> ELEMID_RSN" by (simp add: gtk_kde_def)
  show "kde_kid (gtk_kde ni k @ y) = k_id k AND 3"
    by (simp add: kde_kid_def gtk_kde_def IEEE80211_OUI_def byte_at_def bit.conj_disj_distrib2 and.assoc)
  show "bytes_at (drop 8 (gtk_kde ni k @ y)) 0 (k_len k) = bytes_at (k_key k) 0 (k_len k)"
    by (simp add: gtk_kde_def IEEE80211_OUI_def bytes_at_eq_take)
qed


section \<open>Message 1\<close>

lemma desc_flag [simp]:
  "has_flag (i OR desc_version ni) EAPOL_KEY_PAIRWISE = has_flag i EAPOL_KEY_PAIRWISE"
  "has_flag (i OR desc_version ni) EAPOL_KEY_INSTALL = has_flag i EAPOL_KEY_INSTALL"
  "has_flag (i OR desc_version ni) EAPOL_KEY_KEYACK = has_flag i EAPOL_KEY_KEYACK"
  "has_flag (i OR desc_version ni) EAPOL_KEY_KEYMIC = has_flag i EAPOL_KEY_KEYMIC"
  "has_flag (i OR desc_version ni) EAPOL_KEY_SECURE = has_flag i EAPOL_KEY_SECURE"
  "has_flag (i OR desc_version ni) EAPOL_KEY_REQUEST = has_flag i EAPOL_KEY_REQUEST"
  "has_flag (i OR desc_version ni) EAPOL_KEY_ENCRYPTED = has_flag i EAPOL_KEY_ENCRYPTED"
  using desc_version_cases [of ni] by (auto simp: has_flag_or)

lemma header_simps:
  "ek_type (eapol_header ni k) = EAPOL_KEY" "ek_nonce (eapol_header ni k) = ek_nonce k"
  "ek_replaycnt (eapol_header ni k) = ek_replaycnt k" "ek_keylen (eapol_header ni k) = ek_keylen k"
  "ek_rsc (eapol_header ni k) = ek_rsc k" "ek_info (eapol_header ni k) = ek_info k OR desc_version ni"
  "mn_rsnprotos ni = PROTO_RSN \<Longrightarrow> ek_desc (eapol_header ni k) = EAPOL_KEY_DESC_IEEE80211"
  by (simp_all add: eapol_header_def Let_def)

lemma rsn_desc: "mn_rsnprotos ni = PROTO_RSN \<Longrightarrow> ek_desc k = EAPOL_KEY_DESC_IEEE80211 \<Longrightarrow> \<not> wrong_desc ni k"
  by (simp add: wrong_desc_def)

definition msg1_frame :: "pae \<Rightarrow> eapol_key" where
  "msg1_frame s = (let ni = p_ni s in
     zero_frame\<lparr>ek_info := EAPOL_KEY_PAIRWISE OR EAPOL_KEY_KEYACK, ek_nonce := pn_nonce ni,
       ek_keylen := of_nat (cipher_keylen (pn_rsncipher ni)),
       ek_data := (if is_8021x_akm (mn_rsnakms ni) then pmkid_kde (mn_pmkid ni) else []),
       ek_replaycnt := pn_replaycnt ni\<rparr>)"

lemma pmkid_kde_shape:
  "length (pmkid_kde p) = 22" "kde_elems (pmkid_kde p) 22 = [pmkid_kde p]"
  "is_kde KDE_PMKID (pmkid_kde p)" "byte_at (pmkid_kde p) 1 = 20"
proof -
  show l: "length (pmkid_kde p) = 22" "byte_at (pmkid_kde p) 1 = 20"
    by (simp_all add: pmkid_kde_def IEEE80211_OUI_def byte_at_def)
  have "kde_elems (pmkid_kde p @ []) (length (pmkid_kde p) + 0) = (pmkid_kde p @ []) # kde_elems [] 0"
    by (rule kde_elems_cons) (simp only: l, simp)
  then show "kde_elems (pmkid_kde p) 22 = [pmkid_kde p]" by (simp add: l kde_elems.simps)
  show "is_kde KDE_PMKID (pmkid_kde p)"
    by (simp add: is_kde_def pmkid_kde_def bytes_at_3 byte_at_def IEEE80211_OUI_def)
qed

lemma msg1_sent:
  assumes "sends HA" "mn_rsnprotos (p_ni a) = PROTO_RSN" "pn_rsn_retries (p_ni a) = 0"
  defines "s \<equiv> next_replaycnt (a\<lparr>p_ni := (p_ni a)\<lparr>pn_rsn_state := RSNA_PTKSTART, pn_rsn_retries := 1\<rparr>\<rparr>)"
  obtains to cntr where
    "send_4way_msg1 HA a = Some (0, after_tx to cntr (ether_frame s (on_air HA s (msg1_frame s) no_ptk)) s)"
proof -
  obtain to cntr where tx: "send_eapol_key HA (msg1_frame s) no_ptk s
      = (0, after_tx to cntr (ether_frame s (on_air HA s (msg1_frame s) no_ptk)) s)"
    by (rule send_on_air [OF assms(1)])
  have "send_4way_msg1 HA a = Some (send_eapol_key HA (msg1_frame s) no_ptk s)"
    using assms(1-3)
    by (simp add: send_4way_msg1_def with_retry_def with_eapol_key_def get_eapol_key_def sends_def s_def
        next_replaycnt_def msg1_frame_def Let_def)
  with tx show ?thesis using that by simp
qed

text \<open>The station on message 1: what it stores, and message 2.\<close>

definition msg2_frame :: "eapol_key \<Rightarrow> u8 list \<Rightarrow> u8 list \<Rightarrow> eapol_key" where
  "msg2_frame key snonce ie = zero_frame\<lparr>ek_info := EAPOL_KEY_PAIRWISE OR EAPOL_KEY_KEYMIC,
     ek_replaycnt := ek_replaycnt key, ek_nonce := snonce, ek_data := ie\<rparr>"

lemma truncate_simps:
  "mgmt_node.truncate (n\<lparr>mn_flags := x\<rparr>) = (mgmt_node.truncate n)\<lparr>mn_flags := x\<rparr>"
  "mgmt_node.truncate (n\<lparr>pn_pmk := u\<rparr>) = mgmt_node.truncate n"
  "mgmt_node.truncate (n\<lparr>pn_nonce := v\<rparr>) = mgmt_node.truncate n"
  "mgmt_node.truncate (n\<lparr>pn_rsn_supp_state := w\<rparr>) = mgmt_node.truncate n"
  "mgmt_com.truncate (c\<lparr>pc_nonce := v\<rparr>) = mgmt_com.truncate c"
  by (cases n; cases c; simp add: mgmt_node.truncate_def mgmt_com.truncate_def)+

lemma msg2_ie_cong:
  assumes "mgmt_com.truncate (p_ic s') = mgmt_com.truncate (p_ic s)"
    and n: "mgmt_node.truncate (p_ni s') = (mgmt_node.truncate (p_ni s))
      \<lparr>mn_flags := mn_flags (mgmt_node.truncate (p_ni s)) OR f\<rparr>" and "f AND NODE_PMKID = 0"
  shows "msg2_ie H s' = msg2_ie H s"
proof -
  have "add_rsn ic (ni\<lparr>mn_flags := mn_flags ni OR f\<rparr>) = add_rsn ic ni"
    "add_wpa ic (ni\<lparr>mn_flags := mn_flags ni OR f\<rparr>) = add_wpa ic ni" for ic and ni :: mgmt_node
    using assms(3)
    by (simp_all add: add_rsn_def add_wpa_def add_rsn_body_def rsncaps_of_def rsn_pmkid_list_def has_flag_or
        Let_def cong: option.case_cong)
  then show ?thesis by (simp add: msg2_ie_def Let_def assms(1) n)
qed

definition msg1_stored :: "pae_hooks \<Rightarrow> eapol_key \<Rightarrow> u8 list \<Rightarrow> pae \<Rightarrow> pae" where
  "msg1_stored H key pmk s = (msg1_accept H key pmk s)
     \<lparr>p_ni := (p_ni (msg1_accept H key pmk s))\<lparr>pn_rsn_supp_state := SUPP_PTKNEGOTIATING\<rparr>\<rparr>"

lemma msg1_stored_simps:
  "mn_rsnprotos (p_ni (msg1_stored H key pmk s)) = mn_rsnprotos (p_ni s)"
  "mn_rsnakms (p_ni (msg1_stored H key pmk s)) = mn_rsnakms (p_ni s)"
  "mn_rsngroupcipher (p_ni (msg1_stored H key pmk s)) = mn_rsngroupcipher (p_ni s)"
  "pn_rsncipher (p_ni (msg1_stored H key pmk s)) = pn_rsncipher (p_ni s)"
  "pn_macaddr (p_ni (msg1_stored H key pmk s)) = pn_macaddr (p_ni s)"
  "pn_pmk (p_ni (msg1_stored H key pmk s)) = pmk"
  "pn_nonce (p_ni (msg1_stored H key pmk s)) = ek_nonce key"
  "pn_replaycnt (p_ni (msg1_stored H key pmk s)) = pn_replaycnt (p_ni s)"
  "pn_replaycnt_ok (p_ni (msg1_stored H key pmk s)) = pn_replaycnt_ok (p_ni s)"
  "pn_rsnie (p_ni (msg1_stored H key pmk s)) = pn_rsnie (p_ni s)"
  "pn_port_valid (p_ni (msg1_stored H key pmk s)) = pn_port_valid (p_ni s)"
  "pn_rsn_supp_state (p_ni (msg1_stored H key pmk s)) = SUPP_PTKNEGOTIATING"
  "mn_flags (p_ni (msg1_stored H key pmk s)) = mn_flags (p_ni s) OR (NODE_PMK OR NODE_RSN_NEW_PTK)"
  "pc_nonce (p_ic (msg1_stored H key pmk s)) = hk_random H"
  "pc_myaddr (p_ic (msg1_stored H key pmk s)) = pc_myaddr (p_ic s)"
  "pc_nw_keys (p_ic (msg1_stored H key pmk s)) = pc_nw_keys (p_ic s)"
  "mc_opmode (p_ic (msg1_stored H key pmk s)) = mc_opmode (p_ic s)"
  "p_log (msg1_stored H key pmk s) = p_log s"
  by (simp_all add: msg1_stored_def msg1_accept_def Let_def set_flags_def or.assoc)

lemma msg1_received:
  assumes "sends HB" "mc_opmode (p_ic b) = M_STA" "pn_rsn_supp_state (p_ni b) \<noteq> SUPP_INITIALIZE"
    and "pn_replaycnt_ok (p_ni b) \<longrightarrow> \<not> replayed key b" "mn_rsnprotos (p_ni b) = PROTO_RSN"
    and "case msg1_pmkid key of None \<Rightarrow> True | Some e \<Rightarrow> byte_at e 1 = 20"
    and "msg1_pmk (msg1_pmkid key) b = Some pmk" "msg2_ie HB b = Some ie"
  defines "t \<equiv> msg1_stored HB key pmk b"
  obtains to cntr where "recv_4way_msg1 HB key b = Some (after_tx to cntr
    (ether_frame t (on_air HB t (msg2_frame key (hk_random HB) ie) (msg1_ptk HB t))) t)"
proof -
  let ?s = "msg1_accept HB key pmk b" and ?f = "msg2_frame key (hk_random HB) ie"
  obtain to cntr where tx: "send_eapol_key HB ?f (msg1_ptk HB t) t
      = (0, after_tx to cntr (ether_frame t (on_air HB t ?f (msg1_ptk HB t))) t)"
    by (rule send_on_air [OF assms(1)])
  have "mgmt_node.truncate (p_ni t) = (mgmt_node.truncate (p_ni b))
      \<lparr>mn_flags := mn_flags (mgmt_node.truncate (p_ni b)) OR (NODE_PMK OR NODE_RSN_NEW_PTK)\<rparr>"
    "mgmt_com.truncate (p_ic t) = mgmt_com.truncate (p_ic b)"
  proof -
    have "mn_flags (mgmt_node.truncate n) = mn_flags n" for n :: pae_node
      by (cases n) (simp add: mgmt_node.truncate_def)
    then show "mgmt_node.truncate (p_ni t) = (mgmt_node.truncate (p_ni b))
      \<lparr>mn_flags := mn_flags (mgmt_node.truncate (p_ni b)) OR (NODE_PMK OR NODE_RSN_NEW_PTK)\<rparr>"
      by (simp add: t_def msg1_stored_def msg1_accept_def Let_def set_flags_def truncate_simps or.assoc)
    show "mgmt_com.truncate (p_ic t) = mgmt_com.truncate (p_ic b)"
      by (simp add: t_def msg1_stored_def msg1_accept_def Let_def set_flags_def truncate_simps)
  qed
  from msg2_ie_cong [OF this(2,1)] have ie: "msg2_ie HB t = Some ie" using assms(8) by simp
  have "msg1_ptk HB ?s = msg1_ptk HB t" by (simp add: msg1_ptk_def t_def msg1_stored_def)
  moreover have "send_4way_msg2 HB (ek_replaycnt key) p ?s = Some (send_eapol_key HB ?f p t)" for p
  proof -
    have "?f = zero_frame\<lparr>ek_info := EAPOL_KEY_PAIRWISE OR EAPOL_KEY_KEYMIC,
        ek_replaycnt := ek_replaycnt key, ek_nonce := pc_nonce (p_ic t), ek_keylen := 0, ek_data := ie\<rparr>"
      by (simp add: msg2_frame_def t_def msg1_stored_simps zero_frame_def)
    then show ?thesis
      using assms(1,5) ie
      by (simp add: send_4way_msg2_def with_eapol_key_def get_eapol_key_def sends_def Let_def wpa_keylen_def
          t_def msg1_stored_def [symmetric] msg1_stored_simps)
  qed
  ultimately have "recv_4way_msg1 HB key b = Some (snd (send_eapol_key HB ?f (msg1_ptk HB t) t))"
    using assms(2-4,6,7) by (auto simp: recv_4way_msg1_def Let_def opmode_def split: option.splits)
  with tx show ?thesis using that by simp
qed

section \<open>Message 2\<close>

definition rsn_elem_ok :: "u8 list \<Rightarrow> bool" where
  "rsn_elem_ok ie \<longleftrightarrow> byte_at ie 0 = ELEMID_RSN \<and> length ie = 2 + unat (byte_at ie 1)"

lemma add_rsn_ok:
  assumes "add_rsn ic ni = Some ie"
  shows "rsn_elem_ok ie" "length ie \<le> 64"
proof -
  obtain body where b: "add_rsn_body ic ni False = Some body" "ie = [48, of_nat (length body)] @ body"
    using assms by (auto simp: add_rsn_def)
  then have "length body \<le> 62" by (simp add: rsn_body_small)
  then show "rsn_elem_ok ie" "length ie \<le> 64"
    by (auto simp: rsn_elem_ok_def b(2) byte_at_def unat_of_nat)
qed

lemma kde_elems_single:
  assumes "length e = 2 + unat (byte_at e 1)"
  shows "kde_elems e (length e) = [e]"
  using kde_elems_cons [OF assms, of "[]" 0] by (simp add: kde_elems.simps)

lemma kde_elems_rsn:
  assumes "rsn_elem_ok e"
  shows "kde_elems (e @ y) (length e + m) = (e @ y) # kde_elems y m"
  by (rule kde_elems_cons) (use assms in \<open>simp add: rsn_elem_ok_def\<close>)

definition group_key :: "pae \<Rightarrow> iee_key" where
  "group_key s = pc_nw_keys (p_ic s) ! pc_def_txkey (p_ic s)"

definition msg3_frame :: "pae \<Rightarrow> u8 list \<Rightarrow> eapol_key" where
  "msg3_frame s ie = (let ni = p_ni s in
     zero_frame\<lparr>ek_info := msg3_info ni, ek_nonce := pn_nonce ni, ek_replaycnt := pn_replaycnt ni,
       ek_keylen := of_nat (cipher_keylen (pn_rsncipher ni)), ek_rsc := key_rsc (group_key s),
       ek_data := ie @ gtk_kde ni (group_key s)\<rparr>)"

definition beacon_rsn :: "pae \<Rightarrow> u8 list option" where
  "beacon_rsn s = add_rsn (mgmt_com.truncate (p_ic s)) (mc_bss (mgmt_com.truncate (p_ic s)))"

text \<open>The authenticator's PTK for the nonce of message 2, and its state when it sends message 3.\<close>

definition auth_ptk :: "pae_hooks \<Rightarrow> u8 list \<Rightarrow> pae \<Rightarrow> ptk" where
  "auth_ptk H snonce s = derive_ptk (hk_prims H) (mn_rsnakms (p_ni s)) (pn_pmk (p_ni s))
     (pc_myaddr (p_ic s)) (pn_macaddr (p_ni s)) (pn_nonce (p_ni s)) snonce"

definition msg2_stored :: "pae_hooks \<Rightarrow> u8 list \<Rightarrow> pae \<Rightarrow> pae" where
  "msg2_stored H snonce s = next_replaycnt (s\<lparr>p_ni := (p_ni s)\<lparr>pn_eapol_to := timeout_del (pn_eapol_to (p_ni s)),
     pn_ptk := auth_ptk H snonce s, pn_rsn_state := RSNA_PTKINITNEGOTIATING, pn_rsn_retries := 1\<rparr>\<rparr>)"

lemma msg2_received:
  assumes "sends HA" "mc_opmode (p_ic a) = M_HOSTAP" "pn_rsn_state (p_ni a) = RSNA_PTKSTART"
    and "ek_replaycnt key = pn_replaycnt (p_ni a)" "ek_data key = ie" "unat (ek_paylen key) = length ie"
    and "rsn_elem_ok ie" "pn_rsnie (p_ni a) = Some ie" "mn_rsnprotos (p_ni a) = PROTO_RSN"
    and "\<not> fst (eapol_key_check_mic (hk_prims HA) key (ptk_kck (auth_ptk HA (ek_nonce key) a)))"
    and "beacon_rsn a = Some ie3" "\<not> has_flag (mn_flags (p_ni a)) NODE_MFP" "k_len (group_key a) \<le> 32"
  defines "t \<equiv> msg2_stored HA (ek_nonce key) a"
  obtains to cntr where "recv_4way_msg2or4 HA key a = Some (after_tx to cntr
    (ether_frame t (on_air HA t (msg3_frame t ie3) (pn_ptk (p_ni t)))) t)"
proof -
  let ?f = "msg3_frame t ie3" and ?p = "auth_ptk HA (ek_nonce key) a"
  obtain to cntr where tx: "send_eapol_key HA ?f (pn_ptk (p_ni t)) t
      = (0, after_tx to cntr (ether_frame t (on_air HA t ?f (pn_ptk (p_ni t)))) t)"
    by (rule send_on_air [OF assms(1)])
  have "key_elems key = [ie]"
    using assms(5-7) kde_elems_single [of ie] by (simp add: key_elems_def rsn_elem_ok_def)
  then have "last_elem (\<lambda>e. byte_at e 0 = ELEMID_RSN \<or> is_wpa_elem e) (key_elems key) = Some ie"
    using assms(7) by (simp add: last_elem_def rsn_elem_ok_def)
  then have 1: "recv_4way_msg2or4 HA key a = recv_4way_msg2 HA key ie a"
    using assms(4) by (simp add: recv_4way_msg2or4_def)
  have d: "\<not> different_ie (p_ni a) ie" using assms(8) by (simp add: different_ie_def)
  let ?s = "a\<lparr>p_ni := (p_ni a)\<lparr>pn_eapol_to := timeout_del (pn_eapol_to (p_ni a)),
     pn_rsn_state := RSNA_PTKCALCNEGOTIATING_2, pn_rsn_retries := 0, pn_ptk := ?p\<rparr>\<rparr>"
  have 2: "recv_4way_msg2 HA key ie a = map_option snd (send_4way_msg3 HA ?s)"
    using assms(2,3,10) d by (simp add: recv_4way_msg2_def Let_def opmode_def auth_ptk_def)
  have "send_4way_msg3 HA ?s = Some (send_eapol_key HA ?f (pn_ptk (p_ni t)) t)"
    using assms(1,9,11-13)
    by (simp add: send_4way_msg3_def with_retry_def with_eapol_key_def get_eapol_key_def sends_def
        msg3_room_def msg3_data_def t_def msg2_stored_def next_replaycnt_def msg3_frame_def Let_def
        beacon_rsn_def group_key_def)
  with 1 2 tx show ?thesis using that by simp
qed

section \<open>Message 3\<close>

text \<open>The last frame a station sent.\<close>

definition last_tx :: "pae \<Rightarrow> u8 list option" where
  "last_tx s = fold (\<lambda>e a. case e of Ev_Tx f \<Rightarrow> Some f | _ \<Rightarrow> a) (p_log s) None"

lemma last_tx_simps [simp]:
  "last_tx (emit (Ev_Tx f) s) = Some f" "\<not> is_tx e \<Longrightarrow> last_tx (emit e s) = last_tx s"
  "last_tx (after_tx to cntr f s) = Some f"
  "last_tx (s\<lparr>p_ni := ni\<rparr>) = last_tx s" "last_tx (s\<lparr>p_ic := ic\<rparr>) = last_tx s"
  by (auto simp: last_tx_def emit_def after_tx_def split: pae_event.splits)

text \<open>Bytes behind the key data in which the walk finds nothing.\<close>

definition quiet :: "u8 list \<Rightarrow> bool" where
  "quiet rest \<longleftrightarrow> list_all (\<lambda>e. byte_at e 0 \<noteq> ELEMID_RSN \<and> \<not> is_kde KDE_GTK e \<and> \<not> is_kde KDE_IGTK e)
     (kde_elems rest (length rest))"

lemma quiet_fold:
  assumes "mn_rsnprotos ni = PROTO_RSN"
    and "list_all (\<lambda>e. byte_at e 0 \<noteq> ELEMID_RSN \<and> \<not> is_kde KDE_GTK e \<and> \<not> is_kde KDE_IGTK e) es"
  shows "fold (msg3_elem ni) es a = a"
  using assms(2) by (induction es) (auto simp: msg3_elem_def assms(1))

lemma msg3_ies:
  assumes "mn_rsnprotos ni = PROTO_RSN" "rsn_elem_ok ie" "k_len g \<le> 32" "quiet rest"
    and "ek_data k = (ie @ gtk_kde ni' g) @ rest" "unat (ek_paylen k) = length (ek_data k)"
  shows "msg3_ies_of ni k = \<lparr>m3_rsnie1 = Some (ie @ gtk_kde ni' g @ rest), m3_rsnie2 = None,
    m3_gtk = Some (gtk_kde ni' g @ rest), m3_igtk = None\<rparr>"
proof -
  note g = gtk_kde_shape [OF assms(3)]
  have l: "length (gtk_kde ni' g) = 2 + unat (byte_at (gtk_kde ni' g) 1)"
    using g(1) [of ni'] g(2) [of ni' "[]"] g(3) by simp
  have "key_elems k = kde_elems (ie @ gtk_kde ni' g @ rest) (length ie + (length (gtk_kde ni' g) + length rest))"
    using assms(5,6) by (simp add: key_elems_def add.assoc)
  also have "\<dots> = (ie @ gtk_kde ni' g @ rest) # (gtk_kde ni' g @ rest) # kde_elems rest (length rest)"
    using kde_elems_cons [OF l] by (simp add: kde_elems_rsn [OF assms(2)])
  finally have e: "key_elems k = \<dots>" .
  have "byte_at (ie @ y) 0 = ELEMID_RSN" for y
    using assms(2) by (auto simp: rsn_elem_ok_def byte_at_def nth_append)
  then show ?thesis
    using assms(1,4) g(4,5) by (simp add: msg3_ies_of_def e msg3_elem_def quiet_def quiet_fold)
qed

lemma same_ie:
  assumes "rsn_elem_ok ie" "pn_rsnie ni = Some ie"
  shows "\<not> different_ie ni (ie @ y)"
proof -
  have "byte_at (ie @ y) 1 = byte_at ie 1" using assms(1) by (simp add: rsn_elem_ok_def byte_at_def nth_append)
  moreover have "bytes_at (ie @ y) 0 (length ie) = bytes_at ie 0 (length ie)"
    by (simp add: bytes_at_eq_take)
  ultimately show ?thesis using assms by (simp add: different_ie_def rsn_elem_ok_def)
qed

text \<open>A driver that accepts every key and keeps it.\<close>

definition driver_ok :: "pae_hooks \<Rightarrow> bool" where
  "driver_ok H \<longleftrightarrow> driver_keeps H \<and> (\<forall>k. fst (hk_set_key H k) = 0)"

lemma driver_ok_key:
  assumes "driver_ok H"
  obtains k' where "hk_set_key H k = (0, k')" "material k' = material k"
  using assms by (metis driver_ok_def driver_keeps_def prod.collapse)

text \<open>The length and the bytes of a key.\<close>

definition keeps :: "iee_key \<Rightarrow> nat \<Rightarrow> u8 list \<Rightarrow> bool" where
  "keeps k len bs \<longleftrightarrow> k_len k = len \<and> bytes_at (k_key k) 0 len = bs"

lemma install_gtk_ok:
  assumes "driver_ok H" "unat kid < length (pc_nw_keys (p_ic s))"
  obtains s' ks where "install_gtk H kid tx rsc len gtk s = (Key_Ok, s')" "p_ni s' = p_ni s"
    "p_ic s' = (p_ic s)\<lparr>pc_nw_keys := ks\<rparr>" "last_tx s' = last_tx s"
    "keeps (ks ! unat kid) len (bytes_at gtk 0 len)"
proof (cases "must_update_group_key (pc_nw_keys (p_ic s) ! unat kid) gtk len")
  case True
  let ?k = "gtk_key kid (mn_rsngroupcipher (p_ni s)) tx rsc len gtk"
  obtain k' where k': "hk_set_key H ?k = (0, k')" "material k' = material ?k"
    by (rule driver_ok_key [OF assms(1)])
  have "keeps k' len (bytes_at gtk 0 len)" using k'(2) by (auto simp: material_keys) (auto simp: material_def keeps_def)
  then show ?thesis
    using that [of _ "(pc_nw_keys (p_ic s))[unat kid := k']"] True assms(2) k'(1)
    by (simp add: install_gtk_def install_group_def set_key_result_def) (simp add: emit_def)
next
  case False
  then have "keeps (pc_nw_keys (p_ic s) ! unat kid) len (bytes_at gtk 0 len)"
    by (auto simp: must_update_group_key_def keeps_def)
  then show ?thesis using that [of s "pc_nw_keys (p_ic s)"] False by (simp add: install_gtk_def)
qed

text \<open>What opening the port leaves alone.\<close>

definition kept :: "pae \<Rightarrow> ptk \<times> supp_state \<times> iee_key \<times> u64 \<times> iee_key list \<times> u8 list option \<times> ieee80211_opmode" where
  "kept s = (pn_ptk (p_ni s), pn_rsn_supp_state (p_ni s), pn_pairwise_key (p_ni s), pn_replaycnt (p_ni s),
     pc_nw_keys (p_ic s), last_tx s, mc_opmode (p_ic s))"

lemma kept_simps [simp]:
  "kept (set_flags f s) = kept s" "kept (clear_assoc_fail s) = kept s" "\<not> is_tx e \<Longrightarrow> kept (emit e s) = kept s"
  "kept (s\<lparr>p_ic := (p_ic s)\<lparr>pc_rsngroupcipher := c\<rparr>\<rparr>) = kept s"
  "kept (s\<lparr>p_ic := (p_ic s)\<lparr>pc_link_state := l\<rparr>\<rparr>) = kept s"
  "kept (s\<lparr>p_ni := (p_ni s)\<lparr>pn_port_valid := v\<rparr>\<rparr>) = kept s"
  by (simp_all add: kept_def set_flags_def clear_assoc_fail_def) (simp add: emit_def)

lemma port_simps [simp]:
  "pn_port_valid (p_ni (emit e s)) = pn_port_valid (p_ni s)"
  "pn_port_valid (p_ni (clear_assoc_fail s)) = pn_port_valid (p_ni s)"
  by (simp_all add: emit_def clear_assoc_fail_def)

lemma kept_link [simp]:
  "kept (set_link_state l s) = kept s" "pn_port_valid (p_ni (set_link_state l s)) = pn_port_valid (p_ni s)"
  by (simp_all add: set_link_state_def Let_def)

lemma kept_open_port [simp]: "kept (open_port s) = kept s" "pn_port_valid (p_ni (open_port s))"
  by (simp_all add: open_port_def)

lemma msg3_open_port_ok:
  "kept (msg3_open_port False s) = kept s" "pn_port_valid (p_ni (msg3_open_port False s))"
  by (simp_all add: msg3_open_port_def Let_def)

lemma msg3_finish_ok:
  assumes "mc_opmode (p_ic s) = M_STA" "has_flag info EAPOL_KEY_SECURE"
  shows "kept (msg3_finish info False s) = kept s" "pn_port_valid (p_ni (msg3_finish info False s))"
proof -
  define t where "t = set_flags NODE_TXRXPROT (if has_flag info EAPOL_KEY_INSTALL then set_flags NODE_TXRXPROT s else s)"
  have k: "kept t = kept s" by (simp add: t_def)
  then have "opmode t = M_STA" using assms(1) by (simp add: kept_def opmode_def)
  then have "count_key t = (True, t)" by (simp add: count_key_def)
  then have "msg3_finish info False s = msg3_open_port False t"
    using assms(2) by (simp add: msg3_finish_def t_def)
  then show "kept (msg3_finish info False s) = kept s" "pn_port_valid (p_ni (msg3_finish info False s))"
    using k by (simp_all add: msg3_open_port_ok)
qed

text \<open>The installation of the keys of message 3.\<close>

lemma msg3_install_ok:
  assumes "driver_ok H" "mc_opmode (p_ic s) = M_STA" "pn_rsncipher (p_ni s) \<noteq> CIPHER_USEGROUP"
    and "has_flag (mn_flags (p_ni s)) NODE_RSN_NEW_PTK" "length (pc_nw_keys (p_ic s)) = GROUP_NKID"
    and "ek_keylen k = of_nat (cipher_keylen (pn_rsncipher (p_ni s)))" "has_flag (ek_info k) EAPOL_KEY_SECURE"
    and "m3_gtk ies = Some g" "m3_igtk ies = None"
    and "unat (byte_at g 1) = 6 + cipher_keylen (mn_rsngroupcipher (p_ni s))"
  defines "s' \<equiv> msg3_install H k ies s"
  shows "pn_port_valid (p_ni s') \<and> pn_ptk (p_ni s') = pn_ptk (p_ni s) \<and>
    pn_rsn_supp_state (p_ni s') = pn_rsn_supp_state (p_ni s) \<and>
    material (pn_pairwise_key (p_ni s')) = material (ptk_key (p_ni s) 0) \<and>
    keeps (pc_nw_keys (p_ic s') ! unat (kde_kid g)) (cipher_keylen (mn_rsngroupcipher (p_ni s)))
      (bytes_at (drop 8 g) 0 (cipher_keylen (mn_rsngroupcipher (p_ni s)))) \<and> last_tx s' = last_tx s"
proof -
  let ?k = "ptk_key (p_ni s) 0" and ?len = "cipher_keylen (mn_rsngroupcipher (p_ni s))"
  obtain k' where k': "hk_set_key H ?k = (0, k')" "material k' = material ?k"
    by (rule driver_ok_key [OF assms(1)])
  define t where "t = set_flags NODE_RXPROT (clear_flags NODE_TXRXPROT (clear_flags NODE_RSN_NEW_PTK
    (emit (Ev_SetKey ?k Key_Ok) (s\<lparr>p_ni := (p_ni s)\<lparr>pn_pairwise_key := k'\<rparr>\<rparr>))))"
  have t: "msg3_install_ptk H k ies s = (Key_Ok, t)"
    using assms(3,4,6,8) k'(1)
    by (simp add: msg3_install_ptk_def Let_def install_pairwise_def set_key_result_def t_def)
  have tf: "pc_nw_keys (p_ic t) = pc_nw_keys (p_ic s)" "mc_opmode (p_ic t) = M_STA"
    "mn_rsngroupcipher (p_ni t) = mn_rsngroupcipher (p_ni s)" "pn_pairwise_key (p_ni t) = k'"
    "pn_ptk (p_ni t) = pn_ptk (p_ni s)" "pn_rsn_supp_state (p_ni t) = pn_rsn_supp_state (p_ni s)"
    "last_tx t = last_tx s"
    using assms(2) by (simp_all add: t_def set_flags_def clear_flags_def emit_def last_tx_def)
  have "unat (kde_kid g) < length (pc_nw_keys (p_ic t))" using kid_bounds(1) assms(5) tf(1) by simp
  then obtain u ks where u: "install_gtk H (kde_kid g) (kde_tx g) (ek_rsc k) ?len (drop 8 g) t = (Key_Ok, u)"
    "p_ni u = p_ni t" "p_ic u = (p_ic t)\<lparr>pc_nw_keys := ks\<rparr>" "last_tx u = last_tx t"
    "keeps (ks ! unat (kde_kid g)) ?len (bytes_at (drop 8 g) 0 ?len)"
    by (rule install_gtk_ok [OF assms(1)])
  have "s' = msg3_finish (ek_info k) False u"
    using assms(8-10) by (simp add: s'_def msg3_install_def t msg3_install_gtk_def tf u(1)
        msg3_install_igtk_def Let_def)
  moreover have "mc_opmode (p_ic u) = M_STA" using u(3) tf(2) by simp
  ultimately have "kept s' = kept u" "pn_port_valid (p_ni s')"
    using msg3_finish_ok [of u "ek_info k"] assms(7) by simp_all
  then show ?thesis using u tf k'(2) by (simp add: kept_def)
qed

definition msg4_frame :: "pae \<Rightarrow> eapol_key" where
  "msg4_frame s = zero_frame\<lparr>ek_replaycnt := pn_replaycnt (p_ni s), ek_keylen := 0,
     ek_info := EAPOL_KEY_PAIRWISE OR EAPOL_KEY_KEYMIC OR EAPOL_KEY_SECURE\<rparr>"

lemma msg4_sent:
  assumes "sends HB" "mn_rsnprotos (p_ni b) = PROTO_RSN"
  defines "t \<equiv> b\<lparr>p_ni := (p_ni b)\<lparr>pn_rsn_supp_state := SUPP_PTKDONE\<rparr>\<rparr>"
  obtains to cntr where "send_4way_msg4 HB b
    = Some (0, after_tx to cntr (ether_frame t (on_air HB t (msg4_frame t) (pn_ptk (p_ni t)))) t)"
proof -
  obtain to cntr where tx: "send_eapol_key HB (msg4_frame t) (pn_ptk (p_ni t)) t
      = (0, after_tx to cntr (ether_frame t (on_air HB t (msg4_frame t) (pn_ptk (p_ni t)))) t)"
    by (rule send_on_air [OF assms(1)])
  have "send_4way_msg4 HB b = Some (send_eapol_key HB (msg4_frame t) (pn_ptk (p_ni t)) t)"
    using assms(1,2)
    by (simp add: send_4way_msg4_def with_eapol_key_def get_eapol_key_def sends_def Let_def wpa_keylen_def
        t_def msg4_frame_def)
  with tx show ?thesis using that by simp
qed

definition msg3_stored :: "pae_hooks \<Rightarrow> eapol_key \<Rightarrow> pae \<Rightarrow> pae" where
  "msg3_stored H key s = s\<lparr>p_ni := (p_ni s)\<lparr>pn_ptk := msg3_ptk H key s, pn_replaycnt := ek_replaycnt key,
     pn_replaycnt_ok := True, pn_rsn_supp_state := SUPP_PTKDONE\<rparr>\<rparr>"

lemma msg3_received:
  assumes "sends HB" "driver_ok HB" "mc_opmode (p_ic b) = M_STA"
    and "pn_rsn_supp_state (p_ni b) = SUPP_PTKNEGOTIATING" "pn_replaycnt_ok (p_ni b) \<longrightarrow> \<not> replayed key b"
    and "has_flag (mn_flags (p_ni b)) NODE_PMK" "has_flag (mn_flags (p_ni b)) NODE_RSN_NEW_PTK"
    and "ek_nonce key = pn_nonce (p_ni b)" "mn_rsnprotos (p_ni b) = PROTO_RSN"
    and "pn_rsncipher (p_ni b) \<noteq> CIPHER_USEGROUP" "length (pc_nw_keys (p_ic b)) = GROUP_NKID"
    and mic: "eapol_key_check_mic (hk_prims HB) key (ptk_kck (msg3_ptk HB key b)) = (False, key)"
    and dec: "eapol_key_decrypt (hk_prims HB) key (ptk_kek (msg3_ptk HB key b)) = (False, k)"
    and k: "ek_info k = ek_info key" "ek_replaycnt k = ek_replaycnt key"
      "ek_data k = (ie @ gtk_kde ni' g) @ rest" "unat (ek_paylen k) = length (ek_data k)"
      "ek_keylen k = of_nat (cipher_keylen (pn_rsncipher (p_ni b)))"
    and flags: "has_flag (ek_info key) EAPOL_KEY_ENCRYPTED" "has_flag (ek_info key) EAPOL_KEY_INSTALL"
      "has_flag (ek_info key) EAPOL_KEY_SECURE"
    and "rsn_elem_ok ie" "pn_rsnie (p_ni b) = Some ie"
    and klen: "k_len g = cipher_keylen (mn_rsngroupcipher (p_ni b))"
    and "quiet rest"
  defines "t \<equiv> msg3_stored HB key b"
  obtains b' where "recv_4way_msg3 HB key b = Some b'" "pn_port_valid (p_ni b')"
    "pn_ptk (p_ni b') = msg3_ptk HB key b" "pn_rsn_supp_state (p_ni b') = SUPP_PTKDONE"
    "material (pn_pairwise_key (p_ni b')) = material (ptk_key (p_ni t) 0)"
    "keeps (pc_nw_keys (p_ic b') ! unat (k_id g AND 3)) (k_len g) (bytes_at (k_key g) 0 (k_len g))"
    "last_tx b' = Some (ether_frame t (on_air HB t (msg4_frame t) (pn_ptk (p_ni t))))"
proof -
  have len: "k_len g \<le> 32" using klen by (simp add: cipher_keylen_def)
  note g = gtk_kde_shape [OF len]
  let ?b = "note_ptk HB key b" and ?g = "gtk_kde ni' g @ rest"
  let ?ies = "\<lparr>m3_rsnie1 = Some (ie @ ?g), m3_rsnie2 = None, m3_gtk = Some ?g, m3_igtk = None\<rparr>"
  have ies: "msg3_ies_of (p_ni ?b) k = ?ies"
    by (rule msg3_ies) (use assms len in \<open>simp_all add: note_ptk_def\<close>)
  have d: "\<not> different_ie (p_ni ?b) (ie @ ?g)"
    by (rule same_ie) (use assms in \<open>simp_all add: note_ptk_def\<close>)
  have t: "t = (note_replaycnt k ?b)\<lparr>p_ni := (p_ni (note_replaycnt k ?b))\<lparr>pn_rsn_supp_state := SUPP_PTKDONE\<rparr>\<rparr>"
    by (simp add: t_def msg3_stored_def note_replaycnt_def note_ptk_def k(2))
  obtain to cntr where tx: "send_4way_msg4 HB (note_replaycnt k ?b)
      = Some (0, after_tx to cntr (ether_frame t (on_air HB t (msg4_frame t) (pn_ptk (p_ni t)))) t)"
    using msg4_sent [OF assms(1), of "note_replaycnt k ?b"] assms(9) unfolding t [symmetric]
    by (auto simp: note_replaycnt_def note_ptk_def)
  let ?t = "after_tx to cntr (ether_frame t (on_air HB t (msg4_frame t) (pn_ptk (p_ni t)))) t"
  have "msg3_refused key b = None"
    using assms(3-8) by (auto simp: msg3_refused_def Let_def opmode_def)
  then have "recv_4way_msg3 HB key b = msg3_process HB k ?b"
    using flags(1) by (simp add: recv_4way_msg3_def mic msg3_decrypt_def dec note_ptk_def)
  also have "\<dots> = Some (msg3_install HB k ?ies ?t)"
    using flags(1,2) d tx k(1)
    by (simp add: msg3_process_def ies Let_def msg3_malformed_def msg3_second_def note_replaycnt_def)
  finally have run: "recv_4way_msg3 HB key b = Some (msg3_install HB k ?ies ?t)" .
  have tf: "mc_opmode (p_ic t) = M_STA" "pn_rsncipher (p_ni t) = pn_rsncipher (p_ni b)"
    "mn_flags (p_ni t) = mn_flags (p_ni b)" "pc_nw_keys (p_ic t) = pc_nw_keys (p_ic b)"
    "mn_rsngroupcipher (p_ni t) = mn_rsngroupcipher (p_ni b)" "pn_ptk (p_ni t) = msg3_ptk HB key b"
    "pn_rsn_supp_state (p_ni t) = SUPP_PTKDONE"
    using assms(3) by (simp_all add: t_def msg3_stored_def)
  have "pn_port_valid (p_ni (msg3_install HB k ?ies ?t)) \<and>
    pn_ptk (p_ni (msg3_install HB k ?ies ?t)) = pn_ptk (p_ni ?t) \<and>
    pn_rsn_supp_state (p_ni (msg3_install HB k ?ies ?t)) = pn_rsn_supp_state (p_ni ?t) \<and>
    material (pn_pairwise_key (p_ni (msg3_install HB k ?ies ?t))) = material (ptk_key (p_ni ?t) 0) \<and>
    keeps (pc_nw_keys (p_ic (msg3_install HB k ?ies ?t)) ! unat (kde_kid ?g))
      (cipher_keylen (mn_rsngroupcipher (p_ni ?t)))
      (bytes_at (drop 8 ?g) 0 (cipher_keylen (mn_rsngroupcipher (p_ni ?t)))) \<and>
    last_tx (msg3_install HB k ?ies ?t) = last_tx ?t"
    by (rule msg3_install_ok) (use assms(2,7,10,11) klen tf k flags g(2,3) in \<open>simp_all add: after_tx_def\<close>)
  moreover have "material (ptk_key (p_ni ?t) 0) = material (ptk_key (p_ni t) 0)"
    by (simp add: after_tx_def ptk_key_def)
  moreover have "kde_kid ?g = k_id g AND 3" using g(6) by simp
  ultimately show ?thesis
    using that [OF run] tf klen g(7) [of ni' rest] last_tx_simps(3) by (simp add: after_tx_def)
qed

section \<open>Message 4\<close>

lemma msg4_received:
  assumes "driver_ok HA" "mc_opmode (p_ic a) = M_HOSTAP" "pn_rsn_state (p_ni a) = RSNA_PTKINITNEGOTIATING"
    and "ek_replaycnt key = pn_replaycnt (p_ni a)" "ek_paylen key = 0" "mn_rsnprotos (p_ni a) = PROTO_RSN"
    and "\<not> fst (eapol_key_check_mic (hk_prims HA) key (ptk_kck (pn_ptk (p_ni a))))"
    and "pn_rsncipher (p_ni a) \<noteq> CIPHER_USEGROUP"
  obtains a' where "recv_4way_msg2or4 HA key a = Some a'" "pn_port_valid (p_ni a')"
    "pn_ptk (p_ni a') = pn_ptk (p_ni a)" "pn_rsn_state (p_ni a') = RSNA_PTKINITDONE"
    "material (pn_pairwise_key (p_ni a')) = material (ptk_key (p_ni a) 0)"
proof -
  let ?s = "a\<lparr>p_ni := (p_ni a)\<lparr>pn_eapol_to := timeout_del (pn_eapol_to (p_ni a)),
    pn_rsn_state := RSNA_PTKINITDONE, pn_rsn_retries := 0\<rparr>\<rparr>"
  obtain k' where k': "hk_set_key HA (ptk_key (p_ni ?s) 0) = (0, k')"
    "material k' = material (ptk_key (p_ni ?s) 0)"
    by (rule driver_ok_key [OF assms(1)])
  have "key_elems key = []" using assms(5) by (simp add: key_elems_def kde_elems.simps)
  then have "recv_4way_msg2or4 HA key a = recv_4way_msg4 HA key a"
    using assms(4) by (simp add: recv_4way_msg2or4_def last_elem_def)
  moreover have "material (ptk_key (p_ni ?s) 0) = material (ptk_key (p_ni a) 0)"
    by (simp add: ptk_key_def)
  ultimately show ?thesis
    using that k' assms(2,3,6-8)
    by (simp add: recv_4way_msg4_def opmode_def Let_def bad_mic_def msg4_install_def install_pairwise_def
        set_key_result_def count_key_def emit_def set_flags_def)
qed

section \<open>The handshake\<close>

definition deliver :: "pae_hooks \<Rightarrow> int \<Rightarrow> pae \<Rightarrow> pae \<Rightarrow> pae option" where
  "deliver H sec s t = (case last_tx s of None \<Rightarrow> None | Some f \<Rightarrow> eapol_key_input H sec f t)"

definition handshake :: "pae_hooks \<Rightarrow> pae_hooks \<Rightarrow> int \<Rightarrow> pae \<Rightarrow> pae \<Rightarrow> (pae \<times> pae) option" where
  "handshake HA HB sec a b =
     (case send_4way_msg1 HA a of None \<Rightarrow> None | Some (_, a) \<Rightarrow>
      case deliver HB sec a b of None \<Rightarrow> None | Some b \<Rightarrow>
      case deliver HA sec b a of None \<Rightarrow> None | Some a \<Rightarrow>
      case deliver HB sec a b of None \<Rightarrow> None | Some b \<Rightarrow>
      case deliver HA sec b a of None \<Rightarrow> None | Some a \<Rightarrow> Some (a, b))"

text \<open>Conditions on the two sides: memory, queue, driver and primitives work; the access point and
  the station are set up for RSN with a pairwise cipher; they know each other's address, element
  and PMK, and use the same ciphers.\<close>

definition works :: "pae_hooks \<Rightarrow> bool" where
  "works H \<longleftrightarrow> sends H \<and> driver_ok H \<and> prims_ok (hk_prims H) \<and> (\<forall>n. \<not> hk_pullup H n)"

definition rsn_node :: "pae_node \<Rightarrow> bool" where
  "rsn_node ni \<longleftrightarrow> mn_rsnprotos ni = PROTO_RSN \<and> pn_rsncipher ni \<noteq> CIPHER_USEGROUP \<and>
     \<not> bit (byte_at (pn_macaddr ni) 0) 0"

definition ap_ready :: "pae \<Rightarrow> bool" where
  "ap_ready a \<longleftrightarrow> mc_opmode (p_ic a) = M_HOSTAP \<and> rsn_node (p_ni a) \<and> pn_rsn_retries (p_ni a) = 0 \<and>
     length (pn_nonce (p_ni a)) = 32 \<and> \<not> has_flag (mn_flags (p_ni a)) NODE_MFP \<and>
     k_len (group_key a) = cipher_keylen (mn_rsngroupcipher (p_ni a)) \<and>
     unat (pn_replaycnt (p_ni a)) + 2 < 2 ^ 64"

definition sta_ready :: "pae_hooks \<Rightarrow> pae \<Rightarrow> bool" where
  "sta_ready HB b \<longleftrightarrow> mc_opmode (p_ic b) = M_STA \<and> rsn_node (p_ni b) \<and>
     pn_rsn_supp_state (p_ni b) \<noteq> SUPP_INITIALIZE \<and> length (pc_nw_keys (p_ic b)) = GROUP_NKID \<and>
     length (hk_random HB) = 32"

definition linked :: "pae_hooks \<Rightarrow> pae \<Rightarrow> pae \<Rightarrow> bool" where
  "linked HB a b \<longleftrightarrow>
     pn_macaddr (p_ni a) = pc_myaddr (p_ic b) \<and> pn_macaddr (p_ni b) = pc_myaddr (p_ic a) \<and>
     mn_rsnakms (p_ni b) = mn_rsnakms (p_ni a) \<and> pn_rsncipher (p_ni b) = pn_rsncipher (p_ni a) \<and>
     mn_rsngroupcipher (p_ni b) = mn_rsngroupcipher (p_ni a) \<and>
     (pn_replaycnt_ok (p_ni b) \<longrightarrow> pn_replaycnt (p_ni b) \<le> pn_replaycnt (p_ni a)) \<and>
     msg1_pmk (if is_8021x_akm (mn_rsnakms (p_ni a)) then Some (pmkid_kde (mn_pmkid (p_ni a))) else None) b
       = Some (pn_pmk (p_ni a)) \<and>
     pn_rsnie (p_ni a) = msg2_ie HB b \<and> pn_rsnie (p_ni b) = beacon_rsn a \<and>
     pn_rsnie (p_ni b) \<noteq> None \<and> (case pn_rsnie (p_ni a) of None \<Rightarrow> False | Some ie \<Rightarrow> rsn_elem_ok ie)"

text \<open>What AES Key Wrap leaves behind the key data of message 3 must not look like an element.\<close>

definition quiet_msg3 :: "pae_hooks \<Rightarrow> pae_hooks \<Rightarrow> pae \<Rightarrow> bool" where
  "quiet_msg3 HA HB a \<longleftrightarrow> desc_version (p_ni a) = KEY_DESC_V1 \<or>
     quiet (wrapped_tail (hk_prims HA) (ptk_kek (auth_ptk HA (hk_random HB) a))
       (the (beacon_rsn a) @ gtk_kde (p_ni a) (group_key a)))"

lemma arrives:
  assumes "works H" "last_tx x = Some (ether_frame s k)" "frame_ok k" "length (ek_data k) < 1940"
    and "ek_type k = EAPOL_KEY" "ek_desc k = EAPOL_KEY_DESC_IEEE80211"
    and "ek_info k AND KEY_VERSION_MASK = desc_version (p_ni s)"
    and "rsn_node (p_ni s)" "mn_rsnprotos (p_ni t) = PROTO_RSN" "mn_rsnakms (p_ni t) = mn_rsnakms (p_ni s)"
      "pn_rsncipher (p_ni t) = pn_rsncipher (p_ni s)" "mn_rsngroupcipher (p_ni t) = mn_rsngroupcipher (p_ni s)"
  shows "deliver H sec x t = eapol_dispatch H sec k (emit (Ev_Stat Rx_Eapol_Key) t)"
proof -
  have "\<not> wrong_version (p_ni t) k" by (rule right_version [OF assms(7,10-12)])
  moreover have "\<not> wrong_desc (p_ni t) k" using assms(6,9) by (simp add: wrong_desc_def)
  ultimately show ?thesis
    using input_dispatch [OF assms(3-5)] assms(1,2,8) by (simp add: deliver_def works_def rsn_node_def)
qed

lemma draft_simps:
  "length n = 32 \<Longrightarrow> draft_ok (zero_frame\<lparr>ek_info := i, ek_nonce := n, ek_keylen := l, ek_data := d, ek_replaycnt := c\<rparr>)
     = (i AND KEY_VERSION_MASK = 0 \<and> length d < 1900)"
  "length n = 32 \<Longrightarrow> draft_ok (zero_frame\<lparr>ek_info := i, ek_replaycnt := c, ek_nonce := n, ek_data := d\<rparr>)
     = (i AND KEY_VERSION_MASK = 0 \<and> length d < 1900)"
  "draft_ok (zero_frame\<lparr>ek_replaycnt := c, ek_keylen := l, ek_info := i\<rparr>)
     = (i AND KEY_VERSION_MASK = 0)"
  by (auto simp: draft_ok_def eapol_ok_def zero_frame_def)

lemma add_one_less:
  assumes "unat (c :: u64) + 2 < 2 ^ 64"
  shows "x \<le> c \<Longrightarrow> x < c + 1" "x \<le> c \<Longrightarrow> x < c + 2"
proof -
  have "unat (c + 1) = unat c + 1" "unat (c + 2) = unat c + 2"
    using assms by (simp_all add: unat_word_ariths)
  then show "x \<le> c \<Longrightarrow> x < c + 1" "x \<le> c \<Longrightarrow> x < c + 2"
    by (simp_all add: word_less_nat_alt word_le_nat_alt)
qed

text \<open>Message 1 reaches the station, which answers.\<close>

lemma step1:
  assumes "works HA" "works HB" "ap_ready a" "sta_ready HB b" "linked HB a b"
  obtains a1 b1 k2 to to' cntr cntr' s2 ie where
    "send_4way_msg1 HA a = Some (0, a1)" "deliver HB sec a1 b = Some b1"
    "p_ni a1 = (p_ni a)\<lparr>pn_rsn_state := RSNA_PTKSTART, pn_rsn_retries := 1,
       pn_replaycnt := pn_replaycnt (p_ni a) + 1, pn_eapol_to := to\<rparr>"
    "p_ic a1 = (p_ic a)\<lparr>pc_globalcnt := cntr\<rparr>"
    "p_ni b1 = (p_ni b)\<lparr>pn_pmk := pn_pmk (p_ni a), pn_nonce := pn_nonce (p_ni a),
       mn_flags := mn_flags (p_ni b) OR (NODE_PMK OR NODE_RSN_NEW_PTK),
       pn_rsn_supp_state := SUPP_PTKNEGOTIATING, pn_eapol_to := to'\<rparr>"
    "p_ic b1 = (p_ic b)\<lparr>pc_nonce := hk_random HB, pc_globalcnt := cntr'\<rparr>"
    "p_ni s2 = (p_ni b)\<lparr>pn_pmk := pn_pmk (p_ni a), pn_nonce := pn_nonce (p_ni a),
       mn_flags := mn_flags (p_ni b) OR (NODE_PMK OR NODE_RSN_NEW_PTK),
       pn_rsn_supp_state := SUPP_PTKNEGOTIATING\<rparr>"
    "last_tx b1 = Some (ether_frame s2 k2)" "pn_rsnie (p_ni a) = Some ie"
    "k2 = on_air HB s2 (zero_frame\<lparr>ek_info := EAPOL_KEY_PAIRWISE OR EAPOL_KEY_KEYMIC,
       ek_replaycnt := pn_replaycnt (p_ni a) + 1, ek_nonce := hk_random HB, ek_data := ie\<rparr>)
       (msg1_ptk HB b1)"
proof -
  define s where "s = next_replaycnt (a\<lparr>p_ni := (p_ni a)\<lparr>pn_rsn_state := RSNA_PTKSTART, pn_rsn_retries := 1\<rparr>\<rparr>)"
  define k where "k = on_air HA s (msg1_frame s) no_ptk"
  have s: "p_ni s = (p_ni a)\<lparr>pn_rsn_state := RSNA_PTKSTART, pn_rsn_retries := 1,
      pn_replaycnt := pn_replaycnt (p_ni a) + 1\<rparr>" "p_ic s = p_ic a"
    by (simp_all add: s_def next_replaycnt_def)
  have r: "rsn_node (p_ni a)" "rsn_node (p_ni b)" using assms by (auto simp: ap_ready_def sta_ready_def)
  then have rs: "mn_rsnprotos (p_ni a) = PROTO_RSN" "mn_rsnprotos (p_ni b) = PROTO_RSN" "rsn_node (p_ni s)"
    by (simp_all add: rsn_node_def s)
  obtain to cntr where send: "send_4way_msg1 HA a = Some (0, after_tx to cntr (ether_frame s k) s)"
    using msg1_sent [of HA a] assms(1,3) rs by (auto simp: works_def ap_ready_def s_def k_def)
  define a1 where "a1 = after_tx to cntr (ether_frame s k) s"
  have d: "draft_ok (msg1_frame s)"
    using assms(3) pmkid_kde_shape(1) by (simp add: msg1_frame_def Let_def draft_simps s ap_ready_def)
  have info: "ek_info (msg1_frame s) = 0x88" by (simp add: msg1_frame_def Let_def)
  have enc: "\<not> has_flag (ek_info (eapol_header (p_ni s) (msg1_frame s))) EAPOL_KEY_ENCRYPTED"
    by (simp only: header_simps desc_flag info) (simp add: has_flag_def)
  obtain m where m: "k = (eapol_header (p_ni s) (msg1_frame s))\<lparr>ek_mic := m\<rparr>" "frame_ok k"
    using on_air_plain [OF _ d enc] assms(1) unfolding k_def works_def by blast
  have kf: "ek_data k = (if is_8021x_akm (mn_rsnakms (p_ni a)) then pmkid_kde (mn_pmkid (p_ni a)) else [])"
    "ek_nonce k = pn_nonce (p_ni a)" "ek_replaycnt k = pn_replaycnt (p_ni a) + 1"
    "ek_type k = EAPOL_KEY" "ek_desc k = EAPOL_KEY_DESC_IEEE80211" "ek_info k = 0x88 OR desc_version (p_ni s)"
    "ek_info k AND KEY_VERSION_MASK = desc_version (p_ni s)"
    using rs(1) header_fields(3,4) [OF d, of "p_ni s"]
    by (simp_all add: m(1) header_simps info s) (simp_all add: msg1_frame_def Let_def s)
  define b0 where "b0 = emit (Ev_Stat Rx_Eapol_Key) b"
  have b0: "p_ni b0 = p_ni b" "p_ic b0 = p_ic b" by (simp_all add: b0_def emit_def)
  have "deliver HB sec a1 b = eapol_dispatch HB sec k b0"
    unfolding a1_def b0_def
    by (rule arrives [OF assms(2) last_tx_simps(3) m(2)])
      (use assms(5) rs kf pmkid_kde_shape(1) in \<open>auto simp: linked_def s\<close>)
  also have "\<dots> = recv_4way_msg1 HB k b0"
    by (simp only: eapol_dispatch_def Let_def kf(6) desc_flag) (simp add: has_flag_def)
  finally have del: "deliver HB sec a1 b = recv_4way_msg1 HB k b0" .
  have pm: "msg1_pmkid k = (if is_8021x_akm (mn_rsnakms (p_ni a)) then Some (pmkid_kde (mn_pmkid (p_ni a))) else None)"
  proof -
    have "key_elems k = kde_elems (ek_data k) (length (ek_data k))"
      using m(2) by (simp add: key_elems_def frame_ok_def)
    then show ?thesis
      using pmkid_kde_shape by (simp add: msg1_pmkid_def kf(1) last_elem_def kde_elems.simps [of "[]"])
  qed
  obtain ie where ie: "pn_rsnie (p_ni a) = Some ie" "msg2_ie HB b = Some ie"
    using assms(5) by (auto simp: linked_def split: option.splits)
  have ie0: "msg2_ie HB b0 = Some ie" using ie(2) b0 by (simp add: msg2_ie_def)
  have re: "pn_replaycnt_ok (p_ni b0) \<longrightarrow> \<not> replayed k b0"
    using assms(3,5) b0 kf(3) by (auto simp: linked_def ap_ready_def replayed_def not_le add_one_less)
  define s2 where "s2 = msg1_stored HB k (pn_pmk (p_ni a)) b0"
  define k2 where "k2 = on_air HB s2 (msg2_frame k (hk_random HB) ie) (msg1_ptk HB s2)"
  have pmk: "msg1_pmk (msg1_pmkid k) b0 = Some (pn_pmk (p_ni a))"
    using assms(5) b0 by (simp add: pm linked_def msg1_pmk_def)
  have pv: "case msg1_pmkid k of None \<Rightarrow> True | Some e \<Rightarrow> byte_at e 1 = 20"
    using pmkid_kde_shape(4) by (simp add: pm)
  obtain to' cntr' where run: "recv_4way_msg1 HB k b0 = Some (after_tx to' cntr' (ether_frame s2 k2) s2)"
    using msg1_received [OF _ _ _ re _ pv pmk ie0] assms(2,4) rs b0
    unfolding s2_def k2_def works_def sta_ready_def by auto
  define b1 where "b1 = after_tx to' cntr' (ether_frame s2 k2) s2"
  have s2: "p_ni s2 = (p_ni b)\<lparr>pn_pmk := pn_pmk (p_ni a), pn_nonce := pn_nonce (p_ni a),
       mn_flags := mn_flags (p_ni b) OR (NODE_PMK OR NODE_RSN_NEW_PTK),
       pn_rsn_supp_state := SUPP_PTKNEGOTIATING\<rparr>" "p_ic s2 = (p_ic b)\<lparr>pc_nonce := hk_random HB\<rparr>"
    by (simp_all add: s2_def msg1_stored_def msg1_accept_def Let_def set_flags_def b0 kf(2) or.assoc)
  show ?thesis
  proof (rule that)
    show "send_4way_msg1 HA a = Some (0, a1)" using send by (simp add: a1_def)
    show "deliver HB sec a1 b = Some b1" using del run by (simp add: b1_def)
    show "p_ni a1 = (p_ni a)\<lparr>pn_rsn_state := RSNA_PTKSTART, pn_rsn_retries := 1,
       pn_replaycnt := pn_replaycnt (p_ni a) + 1, pn_eapol_to := to\<rparr>"
      "p_ic a1 = (p_ic a)\<lparr>pc_globalcnt := cntr\<rparr>" by (simp_all add: a1_def after_tx_def s)
    show "p_ni b1 = (p_ni b)\<lparr>pn_pmk := pn_pmk (p_ni a), pn_nonce := pn_nonce (p_ni a),
       mn_flags := mn_flags (p_ni b) OR (NODE_PMK OR NODE_RSN_NEW_PTK),
       pn_rsn_supp_state := SUPP_PTKNEGOTIATING, pn_eapol_to := to'\<rparr>"
      "p_ic b1 = (p_ic b)\<lparr>pc_nonce := hk_random HB, pc_globalcnt := cntr'\<rparr>"
      by (simp_all add: b1_def after_tx_def s2)
    show "last_tx b1 = Some (ether_frame s2 k2)" by (simp add: b1_def)
    show "k2 = on_air HB s2 (zero_frame\<lparr>ek_info := EAPOL_KEY_PAIRWISE OR EAPOL_KEY_KEYMIC,
       ek_replaycnt := pn_replaycnt (p_ni a) + 1, ek_nonce := hk_random HB, ek_data := ie\<rparr>)
       (msg1_ptk HB b1)"
      by (simp add: k2_def msg2_frame_def kf(3) msg1_ptk_def b1_def after_tx_def)
  qed (use s2 ie in simp_all)
qed

text \<open>Message 2 reaches the access point, which derives the PTK and sends message 3.\<close>

lemma sent_plain:
  fixes ptk :: ptk
  assumes "prims_ok (hk_prims H)" "draft_ok f" "\<not> has_flag (ek_info f) EAPOL_KEY_ENCRYPTED"
    and "has_flag (ek_info f) EAPOL_KEY_KEYMIC" "mn_rsnprotos (p_ni s) = PROTO_RSN"
  defines "k \<equiv> on_air H s f ptk"
  shows "frame_ok k" "ek_data k = ek_data f" "unat (ek_paylen k) = length (ek_data f)"
    "ek_nonce k = ek_nonce f" "ek_replaycnt k = ek_replaycnt f" "ek_type k = EAPOL_KEY"
    "ek_desc k = EAPOL_KEY_DESC_IEEE80211" "ek_info k = ek_info f OR desc_version (p_ni s)"
    "ek_info k AND KEY_VERSION_MASK = desc_version (p_ni s)"
    "\<not> fst (eapol_key_check_mic (hk_prims H) k (ptk_kck ptk))"
proof -
  have "\<not> has_flag (ek_info (eapol_header (p_ni s) f)) EAPOL_KEY_ENCRYPTED"
    "has_flag (ek_info (eapol_header (p_ni s) f)) EAPOL_KEY_KEYMIC"
    using assms(3,4) by (simp_all only: header_simps desc_flag not_False_eq_True)
  then obtain m where m: "k = (eapol_header (p_ni s) f)\<lparr>ek_mic := m\<rparr>" "frame_ok k"
    "eapol_key_check_mic (hk_prims H) k (ptk_kck ptk) = (False, k)"
    using on_air_plain [OF assms(1,2), of s ptk] unfolding k_def by blast
  show "frame_ok k" "\<not> fst (eapol_key_check_mic (hk_prims H) k (ptk_kck ptk))" using m by simp_all
  then show "ek_data k = ek_data f" "unat (ek_paylen k) = length (ek_data f)"
    using header_fields(4) [OF assms(2), of "p_ni s"] by (simp_all add: m(1) frame_ok_def)
  show "ek_nonce k = ek_nonce f" "ek_replaycnt k = ek_replaycnt f" "ek_type k = EAPOL_KEY"
    "ek_desc k = EAPOL_KEY_DESC_IEEE80211" "ek_info k = ek_info f OR desc_version (p_ni s)"
    "ek_info k AND KEY_VERSION_MASK = desc_version (p_ni s)"
    using assms(5) header_fields(3) [OF assms(2), of "p_ni s"] by (simp_all add: m(1) header_simps)
qed

lemma step2:
  assumes "works HA" "hk_prims HB = hk_prims HA" "ap_ready a" "sta_ready HB b" "linked HB a b"
    and a1: "p_ni a1 = (p_ni a)\<lparr>pn_rsn_state := RSNA_PTKSTART, pn_rsn_retries := 1,
       pn_replaycnt := pn_replaycnt (p_ni a) + 1, pn_eapol_to := to\<rparr>"
      "p_ic a1 = (p_ic a)\<lparr>pc_globalcnt := cntr\<rparr>"
    and s2: "p_ni s2 = (p_ni b)\<lparr>pn_pmk := pn_pmk (p_ni a), pn_nonce := pn_nonce (p_ni a),
       mn_flags := mn_flags (p_ni b) OR (NODE_PMK OR NODE_RSN_NEW_PTK),
       pn_rsn_supp_state := SUPP_PTKNEGOTIATING\<rparr>"
    and last: "last_tx b1 = Some (ether_frame s2 k2)" and ie: "pn_rsnie (p_ni a) = Some ie"
    and k2: "k2 = on_air HB s2 (zero_frame\<lparr>ek_info := EAPOL_KEY_PAIRWISE OR EAPOL_KEY_KEYMIC,
       ek_replaycnt := pn_replaycnt (p_ni a) + 1, ek_nonce := hk_random HB, ek_data := ie\<rparr>) ptk"
    and ptk: "ptk = auth_ptk HA (hk_random HB) a" and ie3: "beacon_rsn a = Some ie3"
  obtains a2 s3 to'' cntr'' where "deliver HA sec b1 a1 = Some a2"
    "last_tx a2 = Some (ether_frame s3 (on_air HA s3 (msg3_frame s3 ie3) ptk))"
    "p_ni s3 = (p_ni a)\<lparr>pn_eapol_to := timeout_del to, pn_ptk := ptk,
       pn_rsn_state := RSNA_PTKINITNEGOTIATING, pn_rsn_retries := 1, pn_replaycnt := pn_replaycnt (p_ni a) + 2\<rparr>"
    "p_ic s3 = (p_ic a)\<lparr>pc_globalcnt := cntr\<rparr>"
    "p_ni a2 = (p_ni s3)\<lparr>pn_eapol_to := to''\<rparr>" "p_ic a2 = (p_ic s3)\<lparr>pc_globalcnt := cntr''\<rparr>"
proof -
  let ?f = "zero_frame\<lparr>ek_info := EAPOL_KEY_PAIRWISE OR EAPOL_KEY_KEYMIC,
       ek_replaycnt := pn_replaycnt (p_ni a) + 1, ek_nonce := hk_random HB, ek_data := ie\<rparr>"
  have re: "rsn_elem_ok ie" using assms(5) ie by (simp add: linked_def)
  have "length ie < 1900" using re unsigned_less [of "byte_at ie 1", where 'a = nat] by (simp add: rsn_elem_ok_def)
  then have d: "draft_ok ?f" using assms(4) by (simp add: draft_simps sta_ready_def)
  have n: "rsn_node (p_ni b)" "rsn_node (p_ni a)" using assms(3,4) by (simp_all add: ap_ready_def sta_ready_def)
  then have rs: "rsn_node (p_ni s2)" "mn_rsnprotos (p_ni s2) = PROTO_RSN" "mn_rsnprotos (p_ni a1) = PROTO_RSN"
    by (simp_all add: s2 a1 rsn_node_def)
  have fl: "\<not> has_flag (ek_info ?f) EAPOL_KEY_ENCRYPTED" "has_flag (ek_info ?f) EAPOL_KEY_KEYMIC"
    by (simp_all add: has_flag_def)
  have "prims_ok (hk_prims HB)" using assms(1,2) by (simp add: works_def)
  note k = sent_plain [OF this d fl rs(2), of ptk, folded k2]
  define a0 where "a0 = emit (Ev_Stat Rx_Eapol_Key) a1"
  have a0: "p_ni a0 = p_ni a1" "p_ic a0 = p_ic a1" by (simp_all add: a0_def emit_def)
  have "deliver HA sec b1 a1 = eapol_dispatch HA sec k2 a0"
    unfolding a0_def
    by (rule arrives [OF assms(1) last k(1)])
      (use k rs \<open>length ie < 1900\<close> assms(5) in \<open>simp_all add: s2 a1 linked_def\<close>)
  also have "\<dots> = recv_4way_msg2or4 HA k2 a0"
    by (simp only: eapol_dispatch_def Let_def k(8) desc_flag) (simp add: has_flag_def)
  finally have del: "deliver HA sec b1 a1 = recv_4way_msg2or4 HA k2 a0" .
  have ap: "auth_ptk HA (ek_nonce k2) a0 = ptk" by (simp add: ptk auth_ptk_def a0 a1 k(4))
  define s3 where "s3 = msg2_stored HA (ek_nonce k2) a0"
  have s3: "p_ni s3 = (p_ni a)\<lparr>pn_eapol_to := timeout_del to, pn_ptk := ptk,
       pn_rsn_state := RSNA_PTKINITNEGOTIATING, pn_rsn_retries := 1, pn_replaycnt := pn_replaycnt (p_ni a) + 2\<rparr>"
    "p_ic s3 = (p_ic a)\<lparr>pc_globalcnt := cntr\<rparr>"
    by (simp_all add: s3_def msg2_stored_def next_replaycnt_def ap a0 a1 add.assoc)
  have tr: "mgmt_com.truncate ((p_ic a)\<lparr>pc_globalcnt := cntr\<rparr>) = mgmt_com.truncate (p_ic a)"
    by (cases "p_ic a") (simp add: mgmt_com.truncate_def)
  obtain to'' cntr'' where "recv_4way_msg2or4 HA k2 a0 = Some (after_tx to'' cntr''
      (ether_frame s3 (on_air HA s3 (msg3_frame s3 ie3) (pn_ptk (p_ni s3)))) s3)"
  proof (rule msg2_received [of HA a0 k2 ie ie3])
    show "\<not> fst (eapol_key_check_mic (hk_prims HA) k2 (ptk_kck (auth_ptk HA (ek_nonce k2) a0)))"
      using k(10) assms(2) by (simp add: ap)
    show "beacon_rsn a0 = Some ie3" using ie3 by (simp add: beacon_rsn_def a0 a1 tr)
    show "k_len (group_key a0) \<le> 32"
      using assms(3) by (simp add: group_key_def a0 a1 ap_ready_def cipher_keylen_def)
  qed (use that assms(1,3) k re ie n in \<open>auto simp: works_def ap_ready_def a0 a1 rsn_node_def s3_def\<close>)
  then have "deliver HA sec b1 a1 = Some (after_tx to'' cntr''
      (ether_frame s3 (on_air HA s3 (msg3_frame s3 ie3) ptk)) s3)" by (simp only: del s3) simp
  then show ?thesis by (rule that [OF _ last_tx_simps(3) s3]) (simp_all add: after_tx_def)
qed

text \<open>Message 3 reaches the station, which sends message 4 and installs the keys.\<close>

lemma msg3_draft:
  assumes "rsn_node (p_ni s)" "length (pn_nonce (p_ni s)) = 32" "k_len (group_key s) \<le> 32" "length ie \<le> 64"
  shows "draft_ok (msg3_frame s ie)" "ek_info (msg3_frame s ie) = 0x13c8"
proof -
  have i: "msg3_info (p_ni s) = 0x13c8" using assms(1) by (simp add: msg3_info_def rsn_node_def)
  then show "ek_info (msg3_frame s ie) = 0x13c8" by (simp add: msg3_frame_def Let_def)
  have "length (key_rsc (group_key s)) = 8" by (simp add: key_rsc_def LE_WRITE_6_def)
  moreover have "length (ie @ gtk_kde (p_ni s) (group_key s)) < 1900"
    using assms(3,4) gtk_kde_shape(1) [OF assms(3)] by simp
  ultimately show "draft_ok (msg3_frame s ie)"
    using assms(2) i by (simp add: msg3_frame_def Let_def draft_ok_def eapol_ok_def zero_frame_def)
qed

lemma step3:
  assumes "works HA" "works HB" "hk_prims HB = hk_prims HA" "ap_ready a" "sta_ready HB b" "linked HB a b"
    and b1: "p_ni b1 = (p_ni b)\<lparr>pn_pmk := pn_pmk (p_ni a), pn_nonce := pn_nonce (p_ni a),
       mn_flags := mn_flags (p_ni b) OR (NODE_PMK OR NODE_RSN_NEW_PTK),
       pn_rsn_supp_state := SUPP_PTKNEGOTIATING, pn_eapol_to := to'\<rparr>"
      "p_ic b1 = (p_ic b)\<lparr>pc_nonce := hk_random HB, pc_globalcnt := cntr'\<rparr>"
    and last: "last_tx a2 = Some (ether_frame s3 (on_air HA s3 (msg3_frame s3 ie3) ptk))"
    and s3: "p_ni s3 = (p_ni a)\<lparr>pn_eapol_to := to, pn_ptk := ptk,
       pn_rsn_state := RSNA_PTKINITNEGOTIATING, pn_rsn_retries := 1, pn_replaycnt := pn_replaycnt (p_ni a) + 2\<rparr>"
      "p_ic s3 = (p_ic a)\<lparr>pc_globalcnt := cntr\<rparr>"
    and ptk: "ptk = auth_ptk HA (hk_random HB) a" and ie3: "beacon_rsn a = Some ie3"
    and quiet: "quiet_msg3 HA HB a"
  obtains b2 t where "deliver HB sec a2 b1 = Some b2" "pn_port_valid (p_ni b2)" "pn_ptk (p_ni b2) = ptk"
    "pn_rsn_supp_state (p_ni b2) = SUPP_PTKDONE"
    "material (pn_pairwise_key (p_ni b2)) = material (ptk_key ((p_ni a)\<lparr>pn_ptk := ptk\<rparr>) 0)"
    "keeps (pc_nw_keys (p_ic b2) ! unat (k_id (group_key a) AND 3)) (k_len (group_key a))
       (bytes_at (k_key (group_key a)) 0 (k_len (group_key a)))"
    "last_tx b2 = Some (ether_frame t (on_air HB t (msg4_frame t) ptk))"
    "rsn_node (p_ni t)" "pn_replaycnt (p_ni t) = pn_replaycnt (p_ni a) + 2"
    "mn_rsnakms (p_ni t) = mn_rsnakms (p_ni a)" "pn_rsncipher (p_ni t) = pn_rsncipher (p_ni a)"
    "mn_rsngroupcipher (p_ni t) = mn_rsngroupcipher (p_ni a)"
proof -
  define f where "f = msg3_frame s3 ie3"
  define k3 where "k3 = on_air HA s3 f ptk"
  have n: "rsn_node (p_ni a)" "rsn_node (p_ni b)" using assms(4,5) by (simp_all add: ap_ready_def sta_ready_def)
  then have rs: "rsn_node (p_ni s3)" "mn_rsnprotos (p_ni s3) \<noteq> PROTO_WPA" "mn_rsnprotos (p_ni b1) = PROTO_RSN"
    by (simp_all add: s3 b1 rsn_node_def)
  have ie: "rsn_elem_ok ie3" "length ie3 \<le> 64" using add_rsn_ok ie3 by (auto simp: beacon_rsn_def)
  have gk: "group_key s3 = group_key a" by (simp add: group_key_def s3)
  have gl: "k_len (group_key a) = cipher_keylen (mn_rsngroupcipher (p_ni b1))" "k_len (group_key a) \<le> 32"
    using assms(4,6) by (simp_all add: ap_ready_def linked_def b1) (simp add: cipher_keylen_def)
  have d: "draft_ok f" "ek_info f = 0x13c8"
    using msg3_draft [OF rs(1)] assms(4) gl(2) ie(2) by (simp_all add: f_def gk) (simp_all add: s3 ap_ready_def)
  have fl: "has_flag (ek_info (eapol_header (p_ni s3) f)) EAPOL_KEY_ENCRYPTED"
    "has_flag (ek_info (eapol_header (p_ni s3) f)) EAPOL_KEY_KEYMIC"
    by (simp only: header_simps desc_flag d(2), simp add: has_flag_def)+
  have pr: "prims_ok (hk_prims HA)" using assms(1) by (simp add: works_def)
  obtain k rest where o: "frame_ok k3"
    "eapol_key_check_mic (hk_prims HA) k3 (ptk_kck ptk) = (False, k3)"
    "ek_info k3 = 0x13c8 OR desc_version (p_ni s3)" "ek_replaycnt k3 = ek_replaycnt f" "ek_nonce k3 = ek_nonce f"
    "eapol_key_decrypt (hk_prims HA) k3 (ptk_kek ptk) = (False, k)"
    "ek_data k = ek_data f @ rest" "unat (ek_paylen k) = length (ek_data k)"
    "ek_keylen k = ek_keylen f" "ek_info k = ek_info k3" "ek_replaycnt k = ek_replaycnt f"
    "ek_type k3 = EAPOL_KEY" "ek_desc k3 = ek_desc (eapol_header (p_ni s3) f)"
    "length (ek_data k3) < 1940"
    "rest = (if desc_version (p_ni s3) = KEY_DESC_V1 then []
             else wrapped_tail (hk_prims HA) (ptk_kek ptk) (ek_data f))"
    by (rule on_air_sealed [OF pr d(1) rs(2) fl, of ptk, folded k3_def]) (simp add: header_simps d(2))
  have fd: "ek_data f = ie3 @ gtk_kde (p_ni a) (group_key a)" "ek_nonce f = pn_nonce (p_ni a)"
    "ek_replaycnt f = pn_replaycnt (p_ni a) + 2" "ek_keylen f = of_nat (cipher_keylen (pn_rsncipher (p_ni a)))"
    by (simp_all add: f_def msg3_frame_def Let_def gk s3 gtk_kde_def)
  have dv: "desc_version (p_ni s3) = desc_version (p_ni a)" by (simp add: s3 desc_version_def)
  have "quiet []" by (simp add: quiet_def kde_elems.simps)
  then have q: "quiet rest" using quiet ie3 by (auto simp: quiet_msg3_def o(15) dv fd(1) ptk)
  define b0 where "b0 = emit (Ev_Stat Rx_Eapol_Key) b1"
  have b0: "p_ni b0 = p_ni b1" "p_ic b0 = p_ic b1" by (simp_all add: b0_def emit_def)
  have "ek_info k3 AND KEY_VERSION_MASK = desc_version (p_ni s3)"
    using header_fields(3) [OF d(1), of "p_ni s3"] by (simp add: o(3) header_simps d(2))
  moreover have "ek_desc k3 = EAPOL_KEY_DESC_IEEE80211" using rs(1) by (simp add: o(13) header_simps rsn_node_def)
  ultimately have "deliver HB sec a2 b1 = eapol_dispatch HB sec k3 b0"
    unfolding b0_def
    by (intro arrives [OF assms(2) last [folded f_def, folded k3_def] o(1,14,12)])
      (use rs assms(6) in \<open>simp_all add: s3 b1 linked_def\<close>)
  also have "\<dots> = recv_4way_msg3 HB k3 b0"
    by (simp only: eapol_dispatch_def Let_def o(3) desc_flag) (simp add: has_flag_def)
  finally have del: "deliver HB sec a2 b1 = recv_4way_msg3 HB k3 b0" .
  have bp: "msg3_ptk HB k3 b0 = ptk"
    using assms(3,6) by (simp add: msg3_ptk_def b0 b1 ptk auth_ptk_def linked_def o(5) fd(2))
  define t where "t = msg3_stored HB k3 b0"
  have re: "pn_replaycnt_ok (p_ni b0) \<longrightarrow> \<not> replayed k3 b0"
    using assms(4,6) by (auto simp: linked_def ap_ready_def replayed_def not_le add_one_less b0 b1 o(4) fd(3))
  have nf: "has_flag (mn_flags (p_ni b0)) NODE_PMK" "has_flag (mn_flags (p_ni b0)) NODE_RSN_NEW_PTK"
    by (simp_all add: b0 b1 has_flag_def bit.conj_disj_distrib2)
  have ki: "has_flag (ek_info k3) EAPOL_KEY_ENCRYPTED" "has_flag (ek_info k3) EAPOL_KEY_INSTALL"
    "has_flag (ek_info k3) EAPOL_KEY_SECURE"
    by (simp only: o(3) desc_flag, simp add: has_flag_def)+
  obtain b2 where b2: "recv_4way_msg3 HB k3 b0 = Some b2" "pn_port_valid (p_ni b2)"
    "pn_ptk (p_ni b2) = msg3_ptk HB k3 b0" "pn_rsn_supp_state (p_ni b2) = SUPP_PTKDONE"
    "material (pn_pairwise_key (p_ni b2)) = material (ptk_key (p_ni t) 0)"
    "keeps (pc_nw_keys (p_ic b2) ! unat (k_id (group_key a) AND 3)) (k_len (group_key a))
       (bytes_at (k_key (group_key a)) 0 (k_len (group_key a)))"
    "last_tx b2 = Some (ether_frame t (on_air HB t (msg4_frame t) (pn_ptk (p_ni t))))"
    unfolding t_def
  proof (rule msg3_received [OF _ _ _ _ re nf _ _ _ _ _ _ _ _ o(7) [unfolded fd(1)] o(8) _ ki ie(1) _ _ q])
    show "eapol_key_check_mic (hk_prims HB) k3 (ptk_kck (msg3_ptk HB k3 b0)) = (False, k3)"
      "eapol_key_decrypt (hk_prims HB) k3 (ptk_kek (msg3_ptk HB k3 b0)) = (False, k)"
      using o(2,6) assms(3) by (simp_all add: bp)
  qed (use assms(2,5,6) rs n o fd ie3 gl in \<open>simp_all add: works_def sta_ready_def linked_def b0 b1 rsn_node_def\<close>)
  have tf: "p_ni t = (p_ni b0)\<lparr>pn_ptk := ptk, pn_replaycnt := pn_replaycnt (p_ni a) + 2,
     pn_replaycnt_ok := True, pn_rsn_supp_state := SUPP_PTKDONE\<rparr>"
    by (simp add: t_def msg3_stored_def bp o(4) fd(3))
  show ?thesis
    by (rule that [OF del [unfolded b2(1)], of t])
      (use b2 bp assms(6) n in \<open>simp_all add: tf b0 b1 linked_def rsn_node_def ptk_key_def\<close>)
qed

text \<open>Message 4 reaches the access point.\<close>

lemma step4:
  assumes "works HA" "hk_prims HB = hk_prims HA" "ap_ready a"
    and s3: "p_ni s3 = (p_ni a)\<lparr>pn_eapol_to := to, pn_ptk := ptk,
       pn_rsn_state := RSNA_PTKINITNEGOTIATING, pn_rsn_retries := 1, pn_replaycnt := pn_replaycnt (p_ni a) + 2\<rparr>"
      "p_ic s3 = (p_ic a)\<lparr>pc_globalcnt := cntr\<rparr>"
    and a2: "p_ni a2 = (p_ni s3)\<lparr>pn_eapol_to := to2\<rparr>" "p_ic a2 = (p_ic s3)\<lparr>pc_globalcnt := cntr2\<rparr>"
    and last: "last_tx b2 = Some (ether_frame t (on_air HB t (msg4_frame t) ptk))"
    and t: "rsn_node (p_ni t)" "pn_replaycnt (p_ni t) = pn_replaycnt (p_ni a) + 2"
      "mn_rsnakms (p_ni t) = mn_rsnakms (p_ni a)" "pn_rsncipher (p_ni t) = pn_rsncipher (p_ni a)"
      "mn_rsngroupcipher (p_ni t) = mn_rsngroupcipher (p_ni a)"
  obtains a3 where "deliver HA sec b2 a2 = Some a3" "pn_port_valid (p_ni a3)" "pn_ptk (p_ni a3) = ptk"
    "pn_rsn_state (p_ni a3) = RSNA_PTKINITDONE"
    "material (pn_pairwise_key (p_ni a3)) = material (ptk_key ((p_ni a)\<lparr>pn_ptk := ptk\<rparr>) 0)"
proof -
  define k where "k = on_air HB t (msg4_frame t) ptk"
  have info: "ek_info (msg4_frame t) = 0x308" by (simp add: msg4_frame_def)
  have fl: "\<not> has_flag (ek_info (msg4_frame t)) EAPOL_KEY_ENCRYPTED" "has_flag (ek_info (msg4_frame t)) EAPOL_KEY_KEYMIC"
    by (simp_all add: info has_flag_def)
  have d: "draft_ok (msg4_frame t)" by (simp add: msg4_frame_def draft_simps)
  have n: "rsn_node (p_ni a)" "mn_rsnprotos (p_ni t) = PROTO_RSN"
    using assms(3) t(1) by (simp_all add: ap_ready_def rsn_node_def)
  have "prims_ok (hk_prims HB)" using assms(1,2) by (simp add: works_def)
  note k = sent_plain [OF this d fl n(2), of ptk, folded k_def]
  have kd: "ek_data (msg4_frame t) = []" "ek_replaycnt (msg4_frame t) = pn_replaycnt (p_ni t)"
    by (simp_all add: msg4_frame_def zero_frame_def)
  define a0 where "a0 = emit (Ev_Stat Rx_Eapol_Key) a2"
  have a0: "p_ni a0 = p_ni a2" "p_ic a0 = p_ic a2" by (simp_all add: a0_def emit_def)
  have "deliver HA sec b2 a2 = eapol_dispatch HA sec k a0"
    unfolding a0_def
    by (rule arrives [OF assms(1) last [folded k_def] k(1)])
      (use k t n in \<open>simp_all add: a2 s3 kd rsn_node_def\<close>)
  also have "\<dots> = recv_4way_msg2or4 HA k a0"
    by (simp only: eapol_dispatch_def Let_def k(8) desc_flag info) (simp add: has_flag_def)
  finally have del: "deliver HA sec b2 a2 = recv_4way_msg2or4 HA k a0" .
  have pt: "material (ptk_key (p_ni a0) 0) = material (ptk_key ((p_ni a)\<lparr>pn_ptk := ptk\<rparr>) 0)"
    by (simp add: ptk_key_def a0 a2 s3)
  have "ek_paylen k = 0" using k(3) by (simp add: kd unat_eq_0)
  then obtain a3 where "recv_4way_msg2or4 HA k a0 = Some a3" "pn_port_valid (p_ni a3)"
    "pn_ptk (p_ni a3) = pn_ptk (p_ni a0)" "pn_rsn_state (p_ni a3) = RSNA_PTKINITDONE"
    "material (pn_pairwise_key (p_ni a3)) = material (ptk_key (p_ni a0) 0)"
    using msg4_received [of HA a0 k] assms(1-3) k(5,10) n t(2) kd(2)
    by (auto simp: works_def ap_ready_def rsn_node_def a0 a2 s3)
  then show ?thesis using that del pt by (simp add: a0 a2 s3)
qed

text \<open>C1. The 4-way handshake agrees.  An access point and a station that run this code, share the
  PMK and know each other's address and element, exchange the four messages as the code sends them,
  byte for byte: both end with the same PTK, computed from the PMK, both addresses and both nonces,
  with the same pairwise key given to the driver, with the port open, and the station holds the
  group key of the access point in the slot of its key id.  The drivers accept keys and there is
  memory; the bytes that AES Key Wrap leaves behind the key data of message 3 must not happen to
  look like an element.\<close>

theorem four_way_handshake_agrees:
  assumes "works HA" "works HB" "hk_prims HB = hk_prims HA" "ap_ready a" "sta_ready HB b" "linked HB a b"
    and "quiet_msg3 HA HB a"
  shows "\<exists>a' b'. handshake HA HB sec a b = Some (a', b') \<and>
    pn_ptk (p_ni a') = auth_ptk HA (hk_random HB) a \<and> pn_ptk (p_ni b') = pn_ptk (p_ni a') \<and>
    material (pn_pairwise_key (p_ni b')) = material (pn_pairwise_key (p_ni a')) \<and>
    keeps (pc_nw_keys (p_ic b') ! unat (k_id (group_key a) AND 3)) (k_len (group_key a))
      (bytes_at (k_key (group_key a)) 0 (k_len (group_key a))) \<and>
    pn_port_valid (p_ni a') \<and> pn_port_valid (p_ni b') \<and>
    pn_rsn_state (p_ni a') = RSNA_PTKINITDONE \<and> pn_rsn_supp_state (p_ni b') = SUPP_PTKDONE"
proof -
  obtain ie3 where ie3: "beacon_rsn a = Some ie3"
    using assms(6) by (cases "beacon_rsn a") (auto simp: linked_def)
  obtain a1 b1 k2 to to' cntr cntr' s2 ie where 1: "send_4way_msg1 HA a = Some (0, a1)"
    "deliver HB sec a1 b = Some b1"
    and a1: "p_ni a1 = (p_ni a)\<lparr>pn_rsn_state := RSNA_PTKSTART, pn_rsn_retries := 1,
       pn_replaycnt := pn_replaycnt (p_ni a) + 1, pn_eapol_to := to\<rparr>" "p_ic a1 = (p_ic a)\<lparr>pc_globalcnt := cntr\<rparr>"
    and b1: "p_ni b1 = (p_ni b)\<lparr>pn_pmk := pn_pmk (p_ni a), pn_nonce := pn_nonce (p_ni a),
       mn_flags := mn_flags (p_ni b) OR (NODE_PMK OR NODE_RSN_NEW_PTK),
       pn_rsn_supp_state := SUPP_PTKNEGOTIATING, pn_eapol_to := to'\<rparr>"
      "p_ic b1 = (p_ic b)\<lparr>pc_nonce := hk_random HB, pc_globalcnt := cntr'\<rparr>"
    and s2: "p_ni s2 = (p_ni b)\<lparr>pn_pmk := pn_pmk (p_ni a), pn_nonce := pn_nonce (p_ni a),
       mn_flags := mn_flags (p_ni b) OR (NODE_PMK OR NODE_RSN_NEW_PTK), pn_rsn_supp_state := SUPP_PTKNEGOTIATING\<rparr>"
    and l1: "last_tx b1 = Some (ether_frame s2 k2)" and ie: "pn_rsnie (p_ni a) = Some ie"
    and k2: "k2 = on_air HB s2 (zero_frame\<lparr>ek_info := EAPOL_KEY_PAIRWISE OR EAPOL_KEY_KEYMIC,
       ek_replaycnt := pn_replaycnt (p_ni a) + 1, ek_nonce := hk_random HB, ek_data := ie\<rparr>) (msg1_ptk HB b1)"
    by (rule step1 [OF assms(1,2,4-6)])
  define ptk where "ptk = auth_ptk HA (hk_random HB) a"
  have ptk1: "msg1_ptk HB b1 = ptk"
    using assms(3,6) by (simp add: msg1_ptk_def b1 ptk_def auth_ptk_def linked_def)
  obtain a2 s3 to2 cntr2 where 2: "deliver HA sec b1 a1 = Some a2"
    and l2: "last_tx a2 = Some (ether_frame s3 (on_air HA s3 (msg3_frame s3 ie3) ptk))"
    and s3: "p_ni s3 = (p_ni a)\<lparr>pn_eapol_to := timeout_del to, pn_ptk := ptk,
       pn_rsn_state := RSNA_PTKINITNEGOTIATING, pn_rsn_retries := 1, pn_replaycnt := pn_replaycnt (p_ni a) + 2\<rparr>"
      "p_ic s3 = (p_ic a)\<lparr>pc_globalcnt := cntr\<rparr>"
    and a2: "p_ni a2 = (p_ni s3)\<lparr>pn_eapol_to := to2\<rparr>" "p_ic a2 = (p_ic s3)\<lparr>pc_globalcnt := cntr2\<rparr>"
    by (rule step2 [OF assms(1,3-6) a1 s2 l1 ie k2 [unfolded ptk1] ptk_def ie3])
  obtain b2 t where 3: "deliver HB sec a2 b1 = Some b2" and b2: "pn_port_valid (p_ni b2)" "pn_ptk (p_ni b2) = ptk"
    "pn_rsn_supp_state (p_ni b2) = SUPP_PTKDONE"
    "material (pn_pairwise_key (p_ni b2)) = material (ptk_key ((p_ni a)\<lparr>pn_ptk := ptk\<rparr>) 0)"
    "keeps (pc_nw_keys (p_ic b2) ! unat (k_id (group_key a) AND 3)) (k_len (group_key a))
       (bytes_at (k_key (group_key a)) 0 (k_len (group_key a)))"
    "last_tx b2 = Some (ether_frame t (on_air HB t (msg4_frame t) ptk))"
    and t: "rsn_node (p_ni t)" "pn_replaycnt (p_ni t) = pn_replaycnt (p_ni a) + 2"
    "mn_rsnakms (p_ni t) = mn_rsnakms (p_ni a)" "pn_rsncipher (p_ni t) = pn_rsncipher (p_ni a)"
    "mn_rsngroupcipher (p_ni t) = mn_rsngroupcipher (p_ni a)"
    by (rule step3 [OF assms(1-6) b1 l2 s3 ptk_def ie3 assms(7)])
  obtain a3 where 4: "deliver HA sec b2 a2 = Some a3" and a3: "pn_port_valid (p_ni a3)" "pn_ptk (p_ni a3) = ptk"
    "pn_rsn_state (p_ni a3) = RSNA_PTKINITDONE"
    "material (pn_pairwise_key (p_ni a3)) = material (ptk_key ((p_ni a)\<lparr>pn_ptk := ptk\<rparr>) 0)"
    by (rule step4 [OF assms(1,3,4) s3 a2 b2(6) t])
  have "handshake HA HB sec a b = Some (a3, b2)" using 1 2 3 4 by (simp add: handshake_def)
  then show ?thesis using a3 b2 by (simp add: ptk_def)
qed

end
