(* ===== verification/SuppDemo.thy ===== *)
theory SuppDemo
  imports Agreement
begin

text \<open>
  The properties of the supplicant on a concrete station: it waits for message 3 of a WPA
  handshake with TKIP, and the frame that arrives carries the element of the beacon and a MIC that
  verifies.  Then the 4-way handshake between an access point and a station with CCMP, and the
  length check of received frames.
\<close>

definition demo_sta_node :: pae_node where
  "demo_sta_node = mgmt_node.extend
     (demo_mn\<lparr>mn_rsnprotos := PROTO_WPA, mn_rsngroupcipher := CIPHER_TKIP, mn_rsnciphers := CIPHER_TKIP,
        mn_rsnakms := AKM_PSK, mn_flags := NODE_PMK OR NODE_RSN_NEW_PTK\<rparr>)
     (pae_node.fields [2, 0, 0, 0, 0, 1] STA_BSS CIPHER_TKIP 0 (replicate 32 7) (replicate 32 5) no_ptk
        3 True 0 False (Some [221, 6, 0, 0x50, 0xf2, 1, 1, 0]) zero_key RSNA_INITIALIZE RSNA_IDLE
        SUPP_PTKNEGOTIATING 0 0 False 0 None)"

definition demo_sta_com :: pae_com where
  "demo_sta_com = mgmt_com.extend demo_mc
     (pae_com.fields [2, 0, 0, 0, 0, 2] (replicate 32 5) (replicate 32 9) (replicate 32 0) []
        (replicate 6 zero_key) 1 4 CIPHER_TKIP CIPHER_TKIP 0 LINK_DOWN True None 0 0 None)"

definition demo_sta :: pae where
  "demo_sta = \<lparr>p_ni = demo_sta_node, p_ic = demo_sta_com, p_others = [], p_log = []\<rparr>"

definition demo_hooks :: pae_hooks where
  "demo_hooks = \<lparr>hk_prims = demo_prims, hk_set_key = (\<lambda>k. (0, k)), hk_alloc = True, hk_prepend = True,
     hk_delete_key = (\<lambda>_. zero_key), hk_pullup = (\<lambda>_. False), hk_enqueue = 0,
     hk_random = replicate 32 9, hk_ticks = 0, hk_hz = 100, hk_apple = False\<rparr>"

definition demo_msg3 :: eapol_key where
  "demo_msg3 = zero_frame\<lparr>ek_version := 1, ek_type := 3, ek_len := 103, ek_desc := EAPOL_KEY_DESC_WPA,
     ek_info := 0x3c9, ek_keylen := 32, ek_replaycnt := 4, ek_nonce := replicate 32 7,
     ek_mic := replicate 16 3, ek_paylen := 8, ek_data := [221, 6, 0, 0x50, 0xf2, 1, 1, 0]\<rparr>"

lemmas demo_defs = demo_sta_def demo_sta_node_def demo_sta_com_def demo_hooks_def demo_msg3_def
  mgmt_node.defs mgmt_com.defs pae_node.defs pae_com.defs demo_mn_def demo_mc_def zero_frame_def

lemma demo_mic: "eapol_key_check_mic demo_prims demo_msg3 kck = (False, demo_msg3)"
  by (simp add: eapol_key_check_mic_def eapol_key_mic_def demo_msg3_def zero_frame_def demo_prims_def
      HMAC_defs hmac_final_def Let_def)

definition wpa_ie :: "u8 list" where
  "wpa_ie = [221, 6, 0, 0x50, 0xf2, 1, 1, 0]"

lemma wpa_ie_simps: "kde_elems wpa_ie 8 = [wpa_ie]" "is_wpa_elem wpa_ie" "\<not> is_kde t wpa_ie"
  "byte_at wpa_ie 0 = 221"
proof -
  show "kde_elems wpa_ie 8 = [wpa_ie]" "is_wpa_elem wpa_ie" "byte_at wpa_ie 0 = 221" by code_simp+
  have "bytes_at wpa_ie 2 3 \<noteq> IEEE80211_OUI" by code_simp
  then show "\<not> is_kde t wpa_ie" by (simp add: is_kde_def)
qed

lemma demo_elems: "msg3_ies_of ni demo_msg3
  = \<lparr>m3_rsnie1 = (if mn_rsnprotos ni = PROTO_WPA then Some wpa_ie else None),
     m3_rsnie2 = None, m3_gtk = None, m3_igtk = None\<rparr>"
proof -
  have "key_elems demo_msg3 = [wpa_ie]"
    using wpa_ie_simps(1) by (simp add: key_elems_def demo_msg3_def zero_frame_def wpa_ie_def)
  then show ?thesis by (simp add: msg3_ies_of_def msg3_elem_def wpa_ie_simps)
qed

lemma demo_refused: "msg3_refused demo_msg3 demo_sta = None"
  by (simp add: msg3_refused_def Let_def demo_defs opmode_def replayed_def has_flag_def)

definition demo_noted :: pae where
  "demo_noted = note_ptk demo_hooks demo_msg3 demo_sta"

lemma demo_process:
  "recv_4way_msg3 demo_hooks demo_msg3 demo_sta = msg3_process demo_hooks demo_msg3 demo_noted"
proof -
  have "hk_prims demo_hooks = demo_prims" by (simp add: demo_hooks_def)
  moreover have "\<not> has_flag (ek_info demo_msg3) EAPOL_KEY_ENCRYPTED"
    by (simp add: demo_msg3_def has_flag_def)
  ultimately show ?thesis
    by (simp add: recv_4way_msg3_def demo_refused demo_mic msg3_decrypt_def demo_noted_def note_ptk_def)
qed

lemma demo_noted_simps [simp]:
  "mn_rsnprotos (p_ni demo_noted) = PROTO_WPA" "pn_rsncipher (p_ni demo_noted) = CIPHER_TKIP"
  "mn_rsngroupcipher (p_ni demo_noted) = CIPHER_TKIP"
  "has_flag (mn_flags (p_ni demo_noted)) NODE_RSN_NEW_PTK"
  "pn_rsnie (p_ni demo_noted) = Some wpa_ie" "mc_opmode (p_ic demo_noted) = M_STA"
  "p_log demo_noted = []" "pn_port_valid (p_ni demo_noted) = False"
  "pc_link_state (p_ic demo_noted) = LINK_DOWN" "pc_event_handler (p_ic demo_noted)"
  "pc_nw_keys (p_ic demo_noted) = replicate 6 zero_key"
  "pn_ptk (p_ni demo_noted) = msg3_ptk demo_hooks demo_msg3 demo_sta"
  by (simp_all add: demo_noted_def note_ptk_def demo_defs wpa_ie_def has_flag_def)

lemma demo_recv:
  obtains s' where "recv_4way_msg3 demo_hooks demo_msg3 demo_sta = Some s'"
    "installs s' = 1" "pn_port_valid (p_ni s')" "pc_nw_keys (p_ic s') = replicate 6 zero_key"
    "pn_replaycnt (p_ni s') = 4" "pn_replaycnt_ok (p_ni s')"
proof -
  have snd: "sends demo_hooks" by (simp add: sends_def demo_hooks_def)
  have info: "ek_info demo_msg3 = 0x3c9" "ek_replaycnt demo_msg3 = 4" "ek_keylen demo_msg3 = 32"
    by (simp_all add: demo_msg3_def)
  have diff: "\<not> different_ie (p_ni demo_noted) wpa_ie" by (simp add: different_ie_def)
  have set: "hk_set_key demo_hooks k = (0, k)" for k by (simp add: demo_hooks_def)
  define t where "t = (note_replaycnt demo_msg3 demo_noted)
    \<lparr>p_ni := (p_ni (note_replaycnt demo_msg3 demo_noted))\<lparr>pn_rsn_supp_state := SUPP_PTKDONE\<rparr>\<rparr>"
  obtain key to cntr where tx: "send_4way_msg4 demo_hooks (note_replaycnt demo_msg3 demo_noted)
      = Some (0, after_tx to cntr (ether_frame t key) t)"
  proof -
    obtain key where "send_4way_msg4 demo_hooks (note_replaycnt demo_msg3 demo_noted)
        = Some (send_eapol_key demo_hooks key (pn_ptk (p_ni demo_noted)) t)"
      by (simp add: send_4way_msg4_def with_eapol_key_def get_eapol_key_def demo_hooks_def t_def
          note_replaycnt_def Let_def)
    then show ?thesis using that send_on_air [OF snd, of key "pn_ptk (p_ni demo_noted)" t] by metis
  qed
  let ?t = "after_tx to cntr (ether_frame t key) t"
  let ?ies = "\<lparr>m3_rsnie1 = Some wpa_ie, m3_rsnie2 = None, m3_gtk = None, m3_igtk = None\<rparr>"
  have run: "recv_4way_msg3 demo_hooks demo_msg3 demo_sta = Some (msg3_install demo_hooks demo_msg3 ?ies ?t)"
    using tx by (simp add: demo_process msg3_process_def demo_elems Let_def msg3_malformed_def info
        has_flag_def diff msg3_second_def note_replaycnt_def)
  have tl: "p_log t = []" "mn_rsnprotos (p_ni t) = PROTO_WPA" "pn_rsncipher (p_ni t) = CIPHER_TKIP"
    "has_flag (mn_flags (p_ni t)) NODE_RSN_NEW_PTK" "mc_opmode (p_ic t) = M_STA"
    "pn_port_valid (p_ni t) = False" "pc_link_state (p_ic t) = LINK_DOWN"
    "pc_nw_keys (p_ic t) = replicate 6 zero_key" "pn_replaycnt (p_ni t) = 4" "pn_replaycnt_ok (p_ni t)"
    by (simp_all add: t_def note_replaycnt_def info)
  have k: "k_flags (ptk_key ni prsc) = 0" for ni prsc by (simp add: ptk_key_def zero_key_def)
  show ?thesis
    by (rule that [OF run])
      (simp_all add: msg3_install_def msg3_install_ptk_def Let_def msg3_install_gtk_def msg3_install_igtk_def
        msg3_finish_def count_key_def opmode_def msg3_open_port_def open_port_def set_link_state_def
        install_pairwise_def set set_key_result_def after_tx_def tl info installs_def emit_def
        set_flags_def clear_flags_def clear_assoc_fail_def cipher_keylen_def k has_flag_def
        tl(4) [unfolded has_flag_def])
qed

lemma demo_run:
  obtains s' where "supp_run demo_sta [(Msg3, demo_hooks, demo_msg3)] s'"
    "supp_recv Msg3 demo_hooks demo_msg3 demo_sta = Some s'" "installs s' = 1" "pn_port_valid (p_ni s')"
    "pc_nw_keys (p_ic s') = replicate 6 zero_key" "pn_replaycnt (p_ni s') = 4"
proof -
  obtain s' where s': "recv_4way_msg3 demo_hooks demo_msg3 demo_sta = Some s'" "installs s' = 1"
    "pn_port_valid (p_ni s')" "pc_nw_keys (p_ic s') = replicate 6 zero_key" "pn_replaycnt (p_ni s') = 4"
    by (rule demo_recv)
  moreover have "supp_run demo_sta ([] @ [(Msg3, demo_hooks, demo_msg3)]) s'"
    by (rule supp_run.supp_step [OF supp_start]) (simp add: s')
  ultimately show ?thesis using that by simp
qed

lemma demo_start: "installs demo_sta = 0" "p_log demo_sta = []" "pn_replaycnt_ok (p_ni demo_sta)"
  "pn_replaycnt (p_ni demo_sta) = 3" "length (pc_nw_keys (p_ic demo_sta)) = GROUP_NKID"
  "\<not> pn_port_valid (p_ni demo_sta)" "expects demo_sta"
  by (simp_all add: demo_defs installs_def expects_def has_flag_def)

theorem pairwise_key_installed_once_witness:
  "\<exists>s'. supp_run demo_sta [(Msg3, demo_hooks, demo_msg3)] s' \<and> installs s' = 1 \<and> installs s' \<le> 1"
proof -
  obtain s' where "supp_run demo_sta [(Msg3, demo_hooks, demo_msg3)] s'" "installs s' = 1"
    by (rule demo_run)
  then show ?thesis using pairwise_key_installed_once [of demo_sta _ s'] demo_start by fastforce
qed

theorem replayed_frames_ignored_witness:
  "\<exists>s'. supp_run demo_sta [(Msg3, demo_hooks, demo_msg3)] s' \<and>
     supp_recv Msg3 demo_hooks (demo_msg3\<lparr>ek_replaycnt := 2\<rparr>) s'
       \<in> {Some s', Some (emit (Ev_Stat Rx_Eapol_Replay) s')}"
proof -
  obtain s' where s': "supp_run demo_sta [(Msg3, demo_hooks, demo_msg3)] s'" by (rule demo_run)
  have "ek_replaycnt (demo_msg3\<lparr>ek_replaycnt := 2\<rparr>) \<le> pn_replaycnt (p_ni demo_sta)"
    by (simp add: demo_start)
  from replayed_frames_ignored [OF s' demo_start(3) this, of Msg3 demo_hooks] s' show ?thesis by blast
qed

theorem guarded_state_authentic_witness:
  "\<exists>s'. supp_recv Msg3 demo_hooks demo_msg3 demo_sta = Some s' \<and> guarded s' \<noteq> guarded demo_sta \<and>
     mic_ok demo_hooks demo_msg3 (ptk_kck (msg3_ptk demo_hooks demo_msg3 demo_sta))"
proof -
  obtain s' where s': "supp_recv Msg3 demo_hooks demo_msg3 demo_sta = Some s'" "pn_port_valid (p_ni s')"
    by (rule demo_run)
  then have "guarded s' \<noteq> guarded demo_sta" using demo_start(6) by (simp add: guarded_def)
  with guarded_state_authentic [OF s'(1)] s' show ?thesis by auto
qed

theorem group_key_not_reinstalled_witness:
  "\<exists>s'. supp_run demo_sta [(Msg3, demo_hooks, demo_msg3)] s' \<and>
     successively (\<lambda>a b. a \<noteq> b \<or> fst a = CIPHER_NONE) (group_installs 1 s')"
proof -
  obtain s' where s': "supp_run demo_sta [(Msg3, demo_hooks, demo_msg3)] s'" by (rule demo_run)
  have "driver_keeps demo_hooks" by (simp add: driver_keeps_def demo_hooks_def)
  with group_key_not_reinstalled [OF s' _ demo_start(2,5), of 1] s' show ?thesis by auto
qed

section \<open>A handshake\<close>

text \<open>An access point and a station with CCMP, on the primitives of the other examples.\<close>

definition demo_rsn_node :: mgmt_node where
  "demo_rsn_node = demo_mn\<lparr>mn_rsnakms := AKM_PSK, mn_flags := 0\<rparr>"

definition demo_gtk :: iee_key where
  "demo_gtk = zero_key\<lparr>k_id := 1, k_cipher := CIPHER_CCMP, k_flags := KEY_GROUP OR KEY_TX, k_len := 16,
     k_key := replicate 32 9\<rparr>"

definition demo_com :: "ieee80211_opmode \<Rightarrow> u8 list \<Rightarrow> pae_com" where
  "demo_com m addr = mgmt_com.extend (demo_mc\<lparr>mc_opmode := m, mc_bss := demo_rsn_node, mc_caps := 0\<rparr>)
     (pae_com.fields addr (replicate 32 5) (replicate 32 0) (replicate 32 0) []
        [zero_key, demo_gtk, zero_key, zero_key, zero_key, zero_key] 1 4 CIPHER_CCMP CIPHER_CCMP 0
        LINK_DOWN True None 0 0 None)"

definition demo_peer :: "u8 list \<Rightarrow> u8 list option \<Rightarrow> pae_node" where
  "demo_peer addr ie = mgmt_node.extend demo_rsn_node
     (pae_node.fields addr STA_ASSOC CIPHER_CCMP 0 (replicate 32 7) (replicate 32 5) no_ptk 0 False 0 False
        ie zero_key RSNA_INITPMK RSNA_IDLE SUPP_PTKSTART 0 0 False 0 None)"

definition demo_beacon :: "u8 list" where
  "demo_beacon = [48, 20, 1, 0, 0, 0x0f, 0xac, 4, 1, 0, 0, 0x0f, 0xac, 4, 1, 0, 0, 0x0f, 0xac, 2, 0, 0]"

definition demo_ap :: pae where
  "demo_ap = \<lparr>p_ni = demo_peer [2, 0, 0, 0, 0, 2] (Some demo_beacon),
     p_ic = demo_com M_HOSTAP [2, 0, 0, 0, 0, 1], p_others = [], p_log = []\<rparr>"

definition demo_client :: pae where
  "demo_client = \<lparr>p_ni = demo_peer [2, 0, 0, 0, 0, 1] (Some demo_beacon),
     p_ic = (demo_com M_STA [2, 0, 0, 0, 0, 2])\<lparr>pc_nw_keys := replicate 6 zero_key\<rparr>, p_others = [], p_log = []\<rparr>"

lemma demo_rsn_beacon: "add_rsn (demo_mc\<lparr>mc_opmode := m, mc_bss := demo_rsn_node, mc_caps := 0\<rparr>) demo_rsn_node
    = Some demo_beacon"
  by (simp add: add_rsn_def add_rsn_body_def demo_rsn_node_def demo_mn_def demo_mc_def group_suite_def Let_def
      demo_beacon_def suite_list_def pairwise_suites_def akm_suites_def rsncaps_of_def rsn_pmkid_list_def
      has_flag_def LE_WRITE_2_def IEEE80211_OUI_def)

lemmas demo_ap_defs = demo_ap_def demo_client_def demo_peer_def demo_com_def demo_rsn_node_def demo_hooks_def
  mgmt_node.defs mgmt_com.defs pae_node.defs pae_com.defs demo_mn_def demo_mc_def

lemma demo_works: "works demo_hooks"
  using demo_prims_ok by (simp add: works_def sends_def driver_ok_def driver_keeps_def demo_hooks_def)

lemma demo_group_key: "group_key demo_ap = demo_gtk" "k_len demo_gtk = 16" "k_id demo_gtk = 1"
  "k_key demo_gtk = replicate 32 9"
  by (simp_all add: group_key_def demo_ap_def demo_com_def mgmt_com.defs pae_com.defs demo_gtk_def)

lemma demo_truncate: "mgmt_com.truncate (demo_com m addr) = demo_mc\<lparr>mc_opmode := m, mc_bss := demo_rsn_node, mc_caps := 0\<rparr>"
  "mgmt_com.truncate ((demo_com m addr)\<lparr>pc_nw_keys := ks\<rparr>) = demo_mc\<lparr>mc_opmode := m, mc_bss := demo_rsn_node, mc_caps := 0\<rparr>"
  "mgmt_node.truncate (demo_peer addr ie) = demo_rsn_node"
  by (simp_all add: demo_com_def demo_peer_def mgmt_com.defs pae_com.defs mgmt_node.defs pae_node.defs)

lemma demo_ies: "beacon_rsn demo_ap = Some demo_beacon" "msg2_ie demo_hooks demo_client = Some demo_beacon"
  using demo_rsn_beacon
  by (simp_all add: beacon_rsn_def msg2_ie_def demo_ap_def demo_client_def demo_truncate rsn_elem_def
      demo_hooks_def) (simp add: demo_rsn_node_def demo_mn_def)

lemma demo_ap_ready: "ap_ready demo_ap"
  by (simp add: ap_ready_def demo_group_key) (simp add: demo_ap_defs rsn_node_def byte_at_def cipher_keylen_def has_flag_def)

lemma demo_sta_ready: "sta_ready demo_hooks demo_client"
  by (simp add: sta_ready_def demo_ap_defs rsn_node_def byte_at_def)

lemma demo_linked: "linked demo_hooks demo_ap demo_client"
proof -
  have "rsn_elem_ok demo_beacon" by (simp add: rsn_elem_ok_def demo_beacon_def byte_at_def)
  then show ?thesis
    by (simp add: linked_def demo_ies) (simp add: demo_ap_defs msg1_pmk_def is_8021x_akm_def list_ex_iff)
qed

lemma demo_quiet: "quiet_msg3 demo_hooks demo_hooks demo_ap"
proof -
  have "quiet (wrapped_tail demo_prims kek (demo_beacon @ gtk_kde ni demo_gtk))" if "pn_rsncipher ni = CIPHER_CCMP" for kek ni
  proof -
    let ?d = "demo_beacon @ [221, 22, 0, 0x0f, 0xac, 1, 1, 0] @ replicate 16 9"
    have "gtk_kde ni demo_gtk = [221, 22, 0, 0x0f, 0xac, 1, 1, 0] @ replicate 16 9"
      using that by (simp add: gtk_kde_def demo_group_key IEEE80211_OUI_def bytes_at_eq_take)
    moreover have "quiet (wrap_padding (length ?d)
        @ drop (length (?d @ wrap_padding (length ?d))) (aes_key_wrap rev (?d @ wrap_padding (length ?d))
            (length (?d @ wrap_padding (length ?d)) div 8)))"
      by code_simp
    ultimately show ?thesis by (simp add: wrapped_tail_def Let_def demo_prims_def)
  qed
  moreover have "pn_rsncipher (p_ni demo_ap) = CIPHER_CCMP" by (simp add: demo_ap_defs)
  ultimately show ?thesis by (simp add: quiet_msg3_def demo_ies demo_group_key demo_hooks_def)
qed

theorem four_way_handshake_agrees_witness:
  "\<exists>a' b'. handshake demo_hooks demo_hooks 60 demo_ap demo_client = Some (a', b') \<and>
    pn_ptk (p_ni b') = pn_ptk (p_ni a') \<and> keeps (pc_nw_keys (p_ic b') ! 1) 16 (replicate 16 9)"
  using four_way_handshake_agrees [OF demo_works demo_works refl demo_ap_ready demo_sta_ready demo_linked demo_quiet, of 60]
  by (auto simp: demo_group_key bytes_at_eq_take)

section \<open>The length check of received frames\<close>

text \<open>The check of the key data length.  For a packet body of at least 95 bytes it accepts exactly
  the key data that fits into the body; for a shorter body the unsigned difference wraps around and
  any key data length passes.\<close>

theorem key_data_length_check:
  assumes "4 + unat (ek_len key) \<le> m_len" and "4 + unat (ek_len key) \<le> MCLBYTES"
  shows "wrong_length m_len key \<longleftrightarrow> 95 \<le> unat (ek_len key) \<and> unat (ek_len key) - 95 < unat (ek_paylen key)"
proof -
  have p: "(ucast (ek_paylen key) :: u64) = of_nat (unat (ek_paylen key))" by (simp add: unsigned_ucast_eq)
  have up: "unat (ek_paylen key) < 65536" using unsigned_less [of "ek_paylen key", where 'a = nat] by simp
  then have pn: "unat (ucast (ek_paylen key) :: u64) = unat (ek_paylen key)"
    unfolding p by (simp only: unat_of_nat) simp
  show ?thesis
  proof (cases "95 \<le> unat (ek_len key)")
    case True
    then have "(of_nat (4 + unat (ek_len key)) - of_nat EAPOL_HDR :: u64) = of_nat (unat (ek_len key) - 95)"
      by (simp add: of_nat_diff)
    moreover have "unat (of_nat (unat (ek_len key) - 95) :: u64) = unat (ek_len key) - 95"
      using assms(2) by (simp only: unat_of_nat) simp
    ultimately show ?thesis using True assms pn by (simp add: wrong_length_def Let_def word_less_nat_alt)
  next
    case False
    let ?t = "4 + unat (ek_len key)" and ?n = "2 ^ 64 + (4 + unat (ek_len key)) - 99 :: nat"
    have "(of_nat ?n :: u64) = of_nat (2 ^ 64 + ?t) - of_nat EAPOL_HDR" by (rule of_nat_diff) simp
    also have "\<dots> = of_nat ?t - of_nat EAPOL_HDR" by simp
    finally have d: "(of_nat ?t - of_nat EAPOL_HDR :: u64) = of_nat ?n" ..
    have "unat (of_nat ?n :: u64) = ?n" using False by (simp only: unat_of_nat) simp
    then show ?thesis
      using False assms up pn unfolding wrong_length_def Let_def d word_less_nat_alt by simp
  qed
qed

theorem key_data_length_check_witness:
  "\<not> wrong_length 200 (demo_frame\<lparr>ek_len := 10, ek_paylen := 60000\<rparr>)"
  using key_data_length_check [of "demo_frame\<lparr>ek_len := 10, ek_paylen := 60000\<rparr>" 200] by simp

end
