(* ===== verification/Ccmp.thy ===== *)
theory Ccmp
  imports KeyMgmt
begin

text \<open>
  CCMP in software (\<^verbatim>\<open>net80211/ieee80211_crypto_ccmp.c\<close>).  A frame is the bytes of its mbuf chain,
  which the loops of the code visit in order; the header is contiguous and complete.  The block
  cipher \<open>E\<close> is AES under the key of the context.
\<close>

section \<open>Shared by the ciphers\<close>

text \<open>Why a frame is dropped; the counters of the statistics have these names.\<close>

datatype crypt_error = Tx_Nombuf | Rx_Nombuf_Drop | Too_Short | No_ExtIV | Ccmp_Replay | Ccmp_Dec_Err
  | Tkip_Replay | Tkip_Icv_Err | Local_Micfail u64 | Wep_Decrypt_Crc | Cmac_Replay | Cmac_Icv_Err
  | No_Key | Bad_Ctx | Panic

text \<open>The outcome of the allocation of the first mbuf and of the later ones, and a random number.\<close>

record crypt_env =
  ce_first :: bool
  ce_rest :: bool
  ce_random :: u32

type_synonym crypt_result = "(crypt_error + mbuf) \<times> iee_key"

abbreviation (input) FC1_PROTECTED :: u8 where "FC1_PROTECTED \<equiv> 0x40"
abbreviation (input) WEP_EXTIV :: u8 where "WEP_EXTIV \<equiv> 0x20"

definition get_qos :: "mbuf \<Rightarrow> u16" where
  "get_qos wh = LE_READ_2 (drop (if has_addr4 wh then 30 else 24) wh)"

definition qos_tid :: "mbuf \<Rightarrow> u8" where
  "qos_tid wh = (if has_qos wh then ucast (get_qos wh AND 0x0f) else 0)"

text \<open>The header of the clear frame: the protected bit is cleared.\<close>

definition clear_protected :: "mbuf \<Rightarrow> mbuf" where
  "clear_protected h = h[1 := byte_at h 1 AND NOT FC1_PROTECTED]"

section \<open>CCM\<close>

abbreviation (input) CCMP_HDRLEN :: nat where "CCMP_HDRLEN \<equiv> 8"
abbreviation (input) CCMP_MICLEN :: nat where "CCMP_MICLEN \<equiv> 8"

definition ccmp_aad :: "mbuf \<Rightarrow> u8 list" where
  "ccmp_aad wh =
     (let fc0 = byte_at wh 0; fc1 = byte_at wh 1 AND NOT (0x08 OR 0x10 OR 0x20)
      in [if fc0_type wh = 0x08 then fc0 AND (NOT 0xf0 OR 0x80) else fc0,
          if has_qos wh then fc1 AND NOT 0x80 else fc1]
         @ bytes_at wh 4 6 @ bytes_at wh 10 6 @ bytes_at wh 16 6 @ [byte_at wh 22 AND NOT 0xf0, 0]
         @ (if has_addr4 wh then bytes_at wh 24 6 else [])
         @ (if has_qos wh then [qos_tid wh, 0] else []))"

definition pn_bytes :: "u64 \<Rightarrow> u8 list" where
  "pn_bytes pn = [ucast (drop_bit 40 pn), ucast (drop_bit 32 pn), ucast (drop_bit 24 pn),
     ucast (drop_bit 16 pn), ucast (drop_bit 8 pn), ucast pn]"

definition ccmp_nonce :: "mbuf \<Rightarrow> u64 \<Rightarrow> u8 list" where
  "ccmp_nonce wh pn = [if fc0_type wh = 0 then qos_tid wh OR 0x10 else qos_tid wh]
     @ bytes_at wh 10 6 @ pn_bytes pn"

text \<open>The two authentication blocks, the first MIC block and \<open>S_0\<close>; the result is \<open>b\<close>, \<open>a\<close>, \<open>s0\<close>.\<close>

definition ccmp_auth :: "mbuf \<Rightarrow> u8 list" where
  "ccmp_auth wh = (let aad = ccmp_aad wh; la = length aad
     in [of_nat (la div 256), of_nat la] @ aad @ replicate (30 - la) 0)"

definition ccmp_phase1 :: "hashf \<Rightarrow> mbuf \<Rightarrow> u64 \<Rightarrow> nat \<Rightarrow> u8 list \<times> u8 list \<times> u8 list" where
  "ccmp_phase1 E wh pn lm =
     (let auth = ccmp_auth wh; nonce = ccmp_nonce wh pn;
          b = E ([89] @ nonce @ [of_nat (lm div 256), of_nat lm]);
          b = E (xor_bytes b (take 16 auth));
          b = E (xor_bytes b (drop 16 auth));
          a = [1] @ nonce @ [0, 0]
      in (b, a, E a))"

definition set_ctr :: "u8 list \<Rightarrow> u16 \<Rightarrow> u8 list" where
  "set_ctr a ctr = a[14 := ucast (drop_bit 8 ctr), 15 := ucast ctr]"

text \<open>The loop over the body: \<open>j\<close> is the position in the block.  The MIC is computed over the clear
  text, which is the input when encrypting and the output when decrypting.\<close>

fun ccmp_loop ::
  "bool \<Rightarrow> hashf \<Rightarrow> u8 list \<Rightarrow> u16 \<Rightarrow> nat \<Rightarrow> u8 list \<Rightarrow> u8 list \<Rightarrow> u8 list \<Rightarrow> u8 list \<times> u8 list" where
  "ccmp_loop decr E a ctr j b s [] = (if j \<noteq> 0 then E b else b, [])"
| "ccmp_loop decr E a ctr j b s (x # xs) =
     (let y = x XOR s ! j; b = b[j := b ! j XOR (if decr then y else x)]; j = j + 1;
          (b, ys) = (if j < 16 then ccmp_loop decr E a ctr j b s xs
                     else ccmp_loop decr E a (ctr + 1) 0 (E b) (E (set_ctr a (ctr + 1))) xs)
      in (b, y # ys))"

text \<open>The body with its MIC: \<open>T XOR S_0\<close>, of which eight bytes are used.\<close>

definition ccmp_body :: "bool \<Rightarrow> hashf \<Rightarrow> mbuf \<Rightarrow> u64 \<Rightarrow> u8 list \<Rightarrow> u8 list \<times> u8 list" where
  "ccmp_body decr E wh pn body =
     (let (b, a, s0) = ccmp_phase1 E wh pn (length body);
          (b, out) = ccmp_loop decr E a 1 0 b (E (set_ctr a 1)) body
      in (out, take CCMP_MICLEN (xor_bytes b s0)))"

definition ccmp_hdr :: "iee_key \<Rightarrow> u8 list" where
  "ccmp_hdr k = (let tsc = k_tsc k in
     [ucast tsc, ucast (drop_bit 8 tsc), 0, push_bit 6 (k_id k) OR WEP_EXTIV,
      ucast (drop_bit 16 tsc), ucast (drop_bit 24 tsc), ucast (drop_bit 32 tsc), ucast (drop_bit 40 tsc)])"

definition ccmp_encrypt :: "crypt_env \<Rightarrow> hashf \<Rightarrow> mbuf \<Rightarrow> iee_key \<Rightarrow> crypt_result" where
  "ccmp_encrypt env E m0 k =
     (if \<not> ce_first env then (Inl Tx_Nombuf, k)
      else let hdrlen = get_hdrlen m0; k = k\<lparr>k_tsc := k_tsc k + 1\<rparr>;
               (out, mic) = ccmp_body False E m0 (k_tsc k) (drop hdrlen m0)
           in if \<not> ce_rest env then (Inl Tx_Nombuf, k)
              else (Inr (take hdrlen m0 @ ccmp_hdr k @ out @ mic), k))"

text \<open>The packet number of a received frame and the counter it is checked against: the counter
  \<open>Some tid\<close> of data, or the one of management frames.\<close>

definition get_rsc :: "nat option \<Rightarrow> iee_key \<Rightarrow> u64" where
  "get_rsc r k = (case r of None \<Rightarrow> k_mgmt_rsc k | Some tid \<Rightarrow> k_rsc k ! tid)"

definition set_rsc :: "nat option \<Rightarrow> u64 \<Rightarrow> iee_key \<Rightarrow> iee_key" where
  "set_rsc r pn k = (case r of None \<Rightarrow> k\<lparr>k_mgmt_rsc := pn\<rparr> | Some tid \<Rightarrow> k\<lparr>k_rsc := (k_rsc k)[tid := pn]\<rparr>)"

definition read_pn :: "u8 \<Rightarrow> u8 \<Rightarrow> u8 list \<Rightarrow> u64" where
  "read_pn b0 b1 ivp = ucast b0 OR push_bit 8 (ucast b1) OR push_bit 16 (ucast (byte_at ivp 4))
     OR push_bit 24 (ucast (byte_at ivp 5)) OR push_bit 32 (ucast (byte_at ivp 6))
     OR push_bit 40 (ucast (byte_at ivp 7))"

definition ccmp_get_pn :: "mbuf \<Rightarrow> (u64 \<times> nat option) option" where
  "ccmp_get_pn m =
     (let hdrlen = get_hdrlen m; ivp = drop hdrlen m in
      if length m < hdrlen + CCMP_HDRLEN then None
      else if \<not> has_flag (byte_at ivp 3) WEP_EXTIV then None
      else Some (read_pn (byte_at ivp 0) (byte_at ivp 1) ivp,
                 if fc0_type m = 0x08 then Some (unat (qos_tid m)) else None))"

definition ccmp_decrypt :: "crypt_env \<Rightarrow> hashf \<Rightarrow> mbuf \<Rightarrow> iee_key \<Rightarrow> crypt_result" where
  "ccmp_decrypt env E m0 k =
     (let hdrlen = get_hdrlen m0 in
      if length m0 < hdrlen + CCMP_HDRLEN + CCMP_MICLEN then (Inl Too_Short, k)
      else case ccmp_get_pn m0 of None \<Rightarrow> (Inl No_ExtIV, k)
      | Some (pn, rsc) \<Rightarrow>
        if pn \<le> get_rsc rsc k then (Inl Ccmp_Replay, k)
        else if \<not> ce_first env then (Inl Rx_Nombuf_Drop, k)
        else let left = length m0 - (hdrlen + CCMP_HDRLEN + CCMP_MICLEN);
                 body = take left (drop (hdrlen + CCMP_HDRLEN) m0);
                 (out, mic) = ccmp_body True E m0 pn body;
                 mic0 = drop (length m0 - CCMP_MICLEN) m0 in
          if \<not> ce_rest env then (Inl Rx_Nombuf_Drop, k)
          else if mic0 \<noteq> mic then (Inl Ccmp_Dec_Err, k)
          else (Inr (clear_protected (take hdrlen m0) @ out), set_rsc rsc pn k))"

end
