(* ===== verification/WepTkip.thy ===== *)
theory WepTkip
  imports Ccmp
begin

text \<open>
  WEP and TKIP in software (\<^verbatim>\<open>net80211/ieee80211_crypto_wep.c\<close>,
  \<^verbatim>\<open>net80211/ieee80211_crypto_tkip.c\<close>), with the CRC of \<^verbatim>\<open>ieee80211_var.h\<close> and the Michael MIC of
  \<^verbatim>\<open>crypto/michael.c\<close>.
\<close>

section \<open>CRC-32\<close>

definition crctab :: "u32 list" where
  "crctab = [0x00000000, 0x1db71064, 0x3b6e20c8, 0x26d930ac, 0x76dc4190, 0x6b6b51f4, 0x4db26158,
     0x5005713c, 0xedb88320, 0xf00f9344, 0xd6d6a3e8, 0xcb61b38c, 0x9b64c2b0, 0x86d3d2d4, 0xa00ae278,
     0xbdbdf21c]"

definition crc_nibble :: "u32 \<Rightarrow> u32" where
  "crc_nibble crc = drop_bit 4 crc XOR crctab ! unat (crc AND 0xf)"

definition ether_crc32_le_update :: "u32 \<Rightarrow> u8 list \<Rightarrow> u32" where
  "ether_crc32_le_update crc buf = fold (\<lambda>b crc. crc_nibble (crc_nibble (crc XOR ucast b))) buf crc"

definition le32 :: "u32 \<Rightarrow> u8 list" where
  "le32 v = [ucast v, ucast (drop_bit 8 v), ucast (drop_bit 16 v), ucast (drop_bit 24 v)]"

section \<open>WEP\<close>

abbreviation (input) WEP_HDRLEN :: nat where "WEP_HDRLEN \<equiv> 4"
abbreviation (input) WEP_CRCLEN :: nat where "WEP_CRCLEN \<equiv> 4"

text \<open>The IV of the next frame: weak ones are skipped.\<close>

definition wep_select_iv :: "u32 \<Rightarrow> u32" where
  "wep_select_iv iv = (if 0x03ff00 \<le> iv \<and> iv AND 0xf8ff00 = 0x00ff00 then iv + 0x000100 else iv)"

definition wep_keysetup :: "u8 list \<Rightarrow> iee_key \<Rightarrow> rc4_ctx" where
  "wep_keysetup iv k = rc4_keysetup (iv @ bytes_at (k_key k) 0 (k_len k))"

definition wep_encrypt :: "crypt_env \<Rightarrow> u32 \<Rightarrow> mbuf \<Rightarrow> iee_key \<Rightarrow> crypt_result" where
  "wep_encrypt env ctx_iv m0 k =
     (if \<not> ce_first env then (Inl Tx_Nombuf, k)
      else let hdrlen = get_hdrlen m0; body = drop hdrlen m0;
               iv = wep_select_iv (if ctx_iv \<noteq> 0 then ctx_iv else ce_random env);
               k = k\<lparr>k_priv := Some (Wep_Ctx (iv + 1))\<rparr>;
               ivp = [ucast iv, ucast (drop_bit 8 iv), ucast (drop_bit 16 iv)];
               rc4 = wep_keysetup ivp k;
               crc = NOT (ether_crc32_le_update (NOT 0) body)
           in if \<not> ce_rest env then (Inl Tx_Nombuf, k)
              else (Inr (take hdrlen m0 @ ivp @ [push_bit 6 (k_id k)] @ rc4_crypt rc4 body
                      @ rc4_crypt (rc4_skip rc4 (length body)) (le32 crc)), k))"

definition wep_decrypt :: "crypt_env \<Rightarrow> mbuf \<Rightarrow> iee_key \<Rightarrow> crypt_result" where
  "wep_decrypt env m0 k =
     (let hdrlen = get_hdrlen m0 in
      if length m0 < hdrlen + WEP_HDRLEN + WEP_CRCLEN then (Inl Too_Short, k)
      else if \<not> ce_first env \<or> \<not> ce_rest env then (Inl Rx_Nombuf_Drop, k)
      else let rc4 = wep_keysetup (bytes_at (drop hdrlen m0) 0 3) k;
               left = length m0 - (hdrlen + WEP_HDRLEN + WEP_CRCLEN);
               body = rc4_crypt rc4 (take left (drop (hdrlen + WEP_HDRLEN) m0));
               icv = rc4_crypt (rc4_skip rc4 left) (drop (length m0 - WEP_CRCLEN) m0);
               crc = NOT (ether_crc32_le_update (NOT 0) body)
           in if le32 crc \<noteq> icv then (Inl Wep_Decrypt_Crc, k)
              else (Inr (clear_protected (take hdrlen m0) @ body), k))"

section \<open>The Michael MIC\<close>

record michael_ctx =
  mi_l :: u32
  mi_r :: u32
  mi_state :: u32
  mi_count :: nat

definition rol32 :: "nat \<Rightarrow> u32 \<Rightarrow> u32" where
  "rol32 n x = push_bit n x OR drop_bit (32 - n) x"

definition ror32 :: "nat \<Rightarrow> u32 \<Rightarrow> u32" where
  "ror32 n x = drop_bit n x OR push_bit (32 - n) x"

definition xswap :: "u32 \<Rightarrow> u32" where
  "xswap x = drop_bit 8 (x AND 0xff00ff00) OR push_bit 8 (x AND 0x00ff00ff)"

definition michael_block :: "u32 \<Rightarrow> u32 \<Rightarrow> u32 \<times> u32" where
  "michael_block l r =
     (let r = r XOR rol32 17 l; l = l + r; r = r XOR xswap l; l = l + r;
          r = r XOR rol32 3 l; l = l + r; r = r XOR ror32 2 l; l = l + r
      in (l, r))"

definition michael_byte :: "u8 \<Rightarrow> michael_ctx \<Rightarrow> michael_ctx" where
  "michael_byte d ctx =
     (let state = mi_state ctx OR push_bit (8 * mi_count ctx) (ucast d); n = mi_count ctx + 1 in
      if 4 \<le> n
      then let (l, r) = michael_block (mi_l ctx XOR state) (mi_r ctx)
           in \<lparr>mi_l = l, mi_r = r, mi_state = 0, mi_count = 0\<rparr>
      else ctx\<lparr>mi_state := state, mi_count := n\<rparr>)"

definition michael_update :: "u8 list \<Rightarrow> michael_ctx \<Rightarrow> michael_ctx" where
  "michael_update data ctx = fold michael_byte data ctx"

definition getle32 :: "u8 list \<Rightarrow> u32" where
  "getle32 p = ucast (byte_at p 0) OR push_bit 8 (ucast (byte_at p 1))
     OR push_bit 16 (ucast (byte_at p 2)) OR push_bit 24 (ucast (byte_at p 3))"

definition michael_key :: "u8 list \<Rightarrow> michael_ctx" where
  "michael_key key = \<lparr>mi_l = getle32 key, mi_r = getle32 (drop 4 key), mi_state = 0, mi_count = 0\<rparr>"

definition michael_final :: "michael_ctx \<Rightarrow> u8 list" where
  "michael_final ctx = (let ctx = michael_update [0x5a, 0, 0, 0, 0, 0, 0, 0] ctx in le32 (mi_l ctx) @ le32 (mi_r ctx))"

text \<open>The pseudo-header and the MIC over the bytes from \<open>off\<close> on.\<close>

definition tkip_frame :: "mbuf \<Rightarrow> u8 list" where
  "tkip_frame wh =
     (let dir = byte_at wh 1 AND 3;
          da = (if dir = 0 \<or> dir = 2 then bytes_at wh 4 6 else bytes_at wh 16 6);
          sa = (if dir = 0 \<or> dir = 1 then bytes_at wh 10 6 else if dir = 2 then bytes_at wh 16 6
                else bytes_at wh 24 6)
      in da @ sa @ [qos_tid wh, 0, 0, 0])"

definition tkip_mic :: "mbuf \<Rightarrow> nat \<Rightarrow> u8 list \<Rightarrow> u8 list" where
  "tkip_mic m off key =
     michael_final (michael_update (drop off m) (michael_update (tkip_frame m) (michael_key key)))"

section \<open>TKIP key mixing\<close>

definition Sbox :: "u16 list" where
  "Sbox =
    [0xc6a5, 0xf884, 0xee99, 0xf68d, 0xff0d, 0xd6bd, 0xdeb1, 0x9154,
     0x6050, 0x0203, 0xcea9, 0x567d, 0xe719, 0xb562, 0x4de6, 0xec9a,
     0x8f45, 0x1f9d, 0x8940, 0xfa87, 0xef15, 0xb2eb, 0x8ec9, 0xfb0b,
     0x41ec, 0xb367, 0x5ffd, 0x45ea, 0x23bf, 0x53f7, 0xe496, 0x9b5b,
     0x75c2, 0xe11c, 0x3dae, 0x4c6a, 0x6c5a, 0x7e41, 0xf502, 0x834f,
     0x685c, 0x51f4, 0xd134, 0xf908, 0xe293, 0xab73, 0x6253, 0x2a3f,
     0x080c, 0x9552, 0x4665, 0x9d5e, 0x3028, 0x37a1, 0x0a0f, 0x2fb5,
     0x0e09, 0x2436, 0x1b9b, 0xdf3d, 0xcd26, 0x4e69, 0x7fcd, 0xea9f,
     0x121b, 0x1d9e, 0x5874, 0x342e, 0x362d, 0xdcb2, 0xb4ee, 0x5bfb,
     0xa4f6, 0x764d, 0xb761, 0x7dce, 0x527b, 0xdd3e, 0x5e71, 0x1397,
     0xa6f5, 0xb968, 0x0000, 0xc12c, 0x4060, 0xe31f, 0x79c8, 0xb6ed,
     0xd4be, 0x8d46, 0x67d9, 0x724b, 0x94de, 0x98d4, 0xb0e8, 0x854a,
     0xbb6b, 0xc52a, 0x4fe5, 0xed16, 0x86c5, 0x9ad7, 0x6655, 0x1194,
     0x8acf, 0xe910, 0x0406, 0xfe81, 0xa0f0, 0x7844, 0x25ba, 0x4be3,
     0xa2f3, 0x5dfe, 0x80c0, 0x058a, 0x3fad, 0x21bc, 0x7048, 0xf104,
     0x63df, 0x77c1, 0xaf75, 0x4263, 0x2030, 0xe51a, 0xfd0e, 0xbf6d,
     0x814c, 0x1814, 0x2635, 0xc32f, 0xbee1, 0x35a2, 0x88cc, 0x2e39,
     0x9357, 0x55f2, 0xfc82, 0x7a47, 0xc8ac, 0xbae7, 0x322b, 0xe695,
     0xc0a0, 0x1998, 0x9ed1, 0xa37f, 0x4466, 0x547e, 0x3bab, 0x0b83,
     0x8cca, 0xc729, 0x6bd3, 0x283c, 0xa779, 0xbce2, 0x161d, 0xad76,
     0xdb3b, 0x6456, 0x744e, 0x141e, 0x92db, 0x0c0a, 0x486c, 0xb8e4,
     0x9f5d, 0xbd6e, 0x43ef, 0xc4a6, 0x39a8, 0x31a4, 0xd337, 0xf28b,
     0xd532, 0x8b43, 0x6e59, 0xdab7, 0x018c, 0xb164, 0x9cd2, 0x49e0,
     0xd8b4, 0xacfa, 0xf307, 0xcf25, 0xcaaf, 0xf48e, 0x47e9, 0x1018,
     0x6fd5, 0xf088, 0x4a6f, 0x5c72, 0x3824, 0x57f1, 0x73c7, 0x9751,
     0xcb23, 0xa17c, 0xe89c, 0x3e21, 0x96dd, 0x61dc, 0x0d86, 0x0f85,
     0xe090, 0x7c42, 0x71c4, 0xccaa, 0x90d8, 0x0605, 0xf701, 0x1c12,
     0xc2a3, 0x6a5f, 0xaef9, 0x69d0, 0x1791, 0x9958, 0x3a27, 0x27b9,
     0xd938, 0xeb13, 0x2bb3, 0x2233, 0xd2bb, 0xa970, 0x0789, 0x33a7,
     0x2db6, 0x3c22, 0x1592, 0xc920, 0x8749, 0xaaff, 0x5078, 0xa57a,
     0x038f, 0x59f8, 0x0980, 0x1a17, 0x65da, 0xd731, 0x84c6, 0xd0b8,
     0x82c3, 0x29b0, 0x5a77, 0x1e11, 0x7bcb, 0xa8fc, 0x6dd6, 0x2c3a]"

definition swap16 :: "u16 \<Rightarrow> u16" where
  "swap16 x = push_bit 8 x OR drop_bit 8 x"

definition S16 :: "u16 \<Rightarrow> u16" where
  "S16 v = Sbox ! unat (v AND 0xff) XOR swap16 (Sbox ! unat (drop_bit 8 v AND 0xff))"

definition Mk16 :: "u8 \<Rightarrow> u8 \<Rightarrow> u16" where
  "Mk16 hi lo = ucast lo XOR push_bit 8 (ucast hi)"

definition TK16 :: "u8 list \<Rightarrow> nat \<Rightarrow> u16" where
  "TK16 tk n = Mk16 (byte_at tk (2 * n + 1)) (byte_at tk (2 * n))"

definition RotR1 :: "u16 \<Rightarrow> u16" where
  "RotR1 v = (drop_bit 1 v AND 0x7fff) XOR push_bit 15 (v AND 1)"

text \<open>One round of phase 1.  The words are updated in order, each from the one before it.\<close>

definition phase1_round :: "u8 list \<Rightarrow> nat \<Rightarrow> u16 list \<Rightarrow> u16 list" where
  "phase1_round tk i p =
     (let e = i mod 2;
          p0 = p ! 0 + S16 (p ! 4 XOR TK16 tk (e + 0));
          p1 = p ! 1 + S16 (p0 XOR TK16 tk (e + 2));
          p2 = p ! 2 + S16 (p1 XOR TK16 tk (e + 4));
          p3 = p ! 3 + S16 (p2 XOR TK16 tk (e + 6));
          p4 = p ! 4 + S16 (p3 XOR TK16 tk (e + 0))
      in [p0, p1, p2, p3, p4 + of_nat i])"

definition Phase1 :: "u8 list \<Rightarrow> u8 list \<Rightarrow> u32 \<Rightarrow> u16 list" where
  "Phase1 tk ta iv32 =
     fold (phase1_round tk) [0..<8]
       [ucast iv32, ucast (drop_bit 16 iv32), Mk16 (byte_at ta 1) (byte_at ta 0),
        Mk16 (byte_at ta 3) (byte_at ta 2), Mk16 (byte_at ta 5) (byte_at ta 4)]"

definition Phase2 :: "u8 list \<Rightarrow> u16 list \<Rightarrow> u16 \<Rightarrow> u8 list" where
  "Phase2 tk p1k iv16 =
     (let p5 = p1k ! 4 + iv16;
          p0 = p1k ! 0 + S16 (p5 XOR TK16 tk 0);
          p1 = p1k ! 1 + S16 (p0 XOR TK16 tk 1);
          p2 = p1k ! 2 + S16 (p1 XOR TK16 tk 2);
          p3 = p1k ! 3 + S16 (p2 XOR TK16 tk 3);
          p4 = p1k ! 4 + S16 (p3 XOR TK16 tk 4);
          p5 = p5 + S16 (p4 XOR TK16 tk 5);
          p0 = p0 + RotR1 (p5 XOR TK16 tk 6);
          p1 = p1 + RotR1 (p0 XOR TK16 tk 7);
          p2 = p2 + RotR1 p1;
          p3 = p3 + RotR1 p2;
          p4 = p4 + RotR1 p3;
          p5 = p5 + RotR1 p4;
          hi = ucast (drop_bit 8 iv16) :: u8
      in [hi, (hi OR 0x20) AND 0x7f, ucast iv16, ucast (drop_bit 1 (p5 XOR TK16 tk 0))]
         @ concat (map LE_WRITE_2 [p0, p1, p2, p3, p4, p5]))"

section \<open>TKIP\<close>

abbreviation (input) TKIP_HDRLEN :: nat where "TKIP_HDRLEN \<equiv> 8"
abbreviation (input) TKIP_MICLEN :: nat where "TKIP_MICLEN \<equiv> 8"
abbreviation (input) TKIP_TAILLEN :: nat where "TKIP_TAILLEN \<equiv> 12"
abbreviation (input) TKIP_OVHD :: nat where "TKIP_OVHD \<equiv> 20"

definition tkip_hdr :: "iee_key \<Rightarrow> u8 list" where
  "tkip_hdr k = (let tsc = k_tsc k; b0 = ucast (drop_bit 8 tsc) :: u8 in
     [b0, (b0 OR 0x20) AND 0x7f, ucast tsc, push_bit 6 (k_id k) OR WEP_EXTIV,
      ucast (drop_bit 16 tsc), ucast (drop_bit 24 tsc), ucast (drop_bit 32 tsc), ucast (drop_bit 40 tsc)])"

text \<open>The transmit TTAK, computed again when the low 16 bits of the counter wrap.\<close>

definition tx_ttak :: "mbuf \<Rightarrow> iee_key \<Rightarrow> tkip_ctx \<Rightarrow> tkip_ctx" where
  "tx_ttak wh k ctx =
     (if \<not> tk_txttak_ok ctx \<or> k_tsc k AND 0xffff = 0
      then ctx\<lparr>tk_txttak := Phase1 (k_key k) (bytes_at wh 10 6) (ucast (drop_bit 16 (k_tsc k))),
               tk_txttak_ok := True\<rparr>
      else ctx)"

definition tkip_encrypt :: "crypt_env \<Rightarrow> tkip_ctx \<Rightarrow> mbuf \<Rightarrow> iee_key \<Rightarrow> crypt_result" where
  "tkip_encrypt env ctx m0 k =
     (if \<not> ce_first env then (Inl Tx_Nombuf, k)
      else let hdrlen = get_hdrlen m0; body = drop hdrlen m0; k = k\<lparr>k_tsc := k_tsc k + 1\<rparr>;
               ctx = tx_ttak m0 k ctx; k = k\<lparr>k_priv := Some (Tkip_Ctx ctx)\<rparr>;
               rc4 = rc4_keysetup (Phase2 (k_key k) (tk_txttak ctx) (ucast (k_tsc k AND 0xffff)));
               mic = tkip_mic m0 hdrlen (drop (tk_txmic ctx) (k_key k));
               crc = NOT (ether_crc32_le_update (ether_crc32_le_update (NOT 0) body) mic)
           in if \<not> ce_rest env then (Inl Tx_Nombuf, k)
              else (Inr (take hdrlen m0 @ tkip_hdr k @ rc4_crypt rc4 body
                      @ rc4_crypt (rc4_skip rc4 (length body)) mic
                      @ rc4_crypt (rc4_skip rc4 (length body + TKIP_MICLEN)) (le32 crc)), k))"

definition tkip_get_tsc :: "mbuf \<Rightarrow> (u64 \<times> nat) option" where
  "tkip_get_tsc m =
     (let hdrlen = get_hdrlen m; ivp = drop hdrlen m in
      if length m < hdrlen + TKIP_HDRLEN then None
      else if \<not> has_flag (byte_at ivp 3) WEP_EXTIV then None
      else Some (read_pn (byte_at ivp 2) (byte_at ivp 0) ivp, unat (qos_tid m)))"

text \<open>The receive TTAK: one cache for all priorities, used when the high part of the counter is
  that of the last frame of the same priority.\<close>

definition rx_ttak :: "mbuf \<Rightarrow> u64 \<Rightarrow> u64 \<Rightarrow> iee_key \<Rightarrow> tkip_ctx \<Rightarrow> tkip_ctx" where
  "rx_ttak wh tsc prsc k ctx =
     (if \<not> tk_rxttak_ok ctx \<or> drop_bit 16 tsc \<noteq> drop_bit 16 prsc
      then ctx\<lparr>tk_rxttak_ok := False,
               tk_rxttak := Phase1 (k_key k) (bytes_at wh 10 6) (ucast (drop_bit 16 tsc))\<rparr>
      else ctx)"

definition tkip_decrypt :: "crypt_env \<Rightarrow> tkip_ctx \<Rightarrow> mbuf \<Rightarrow> iee_key \<Rightarrow> crypt_result" where
  "tkip_decrypt env ctx m0 k =
     (let hdrlen = get_hdrlen m0 in
      if length m0 < hdrlen + TKIP_OVHD then (Inl Too_Short, k)
      else case tkip_get_tsc m0 of None \<Rightarrow> (Inl No_ExtIV, k)
      | Some (tsc, tid) \<Rightarrow>
        if tsc \<le> k_rsc k ! tid then (Inl Tkip_Replay, k)
        else if \<not> ce_first env then (Inl Rx_Nombuf_Drop, k)
        else let ctx = rx_ttak m0 tsc (k_rsc k ! tid) k ctx; k = k\<lparr>k_priv := Some (Tkip_Ctx ctx)\<rparr>;
                 rc4 = rc4_keysetup (Phase2 (k_key k) (tk_rxttak ctx) (ucast (tsc AND 0xffff)));
                 left = length m0 - (hdrlen + TKIP_OVHD);
                 body = rc4_crypt rc4 (take left (drop (hdrlen + TKIP_HDRLEN) m0));
                 n0 = clear_protected (take hdrlen m0) @ body;
                 buf = rc4_crypt (rc4_skip rc4 left) (drop (length m0 - TKIP_TAILLEN) m0);
                 mic0 = take TKIP_MICLEN buf;
                 crc = NOT (ether_crc32_le_update (ether_crc32_le_update (NOT 0) body) mic0) in
          if \<not> ce_rest env then (Inl Rx_Nombuf_Drop, k)
          else if le32 crc \<noteq> drop TKIP_MICLEN buf then (Inl Tkip_Icv_Err, k)
          else if mic0 \<noteq> tkip_mic n0 hdrlen (drop (tk_rxmic ctx) (k_key k)) then (Inl (Local_Micfail tsc), k)
          else (Inr n0, k\<lparr>k_rsc := (k_rsc k)[tid := tsc],
                          k_priv := Some (Tkip_Ctx (ctx\<lparr>tk_rxttak_ok := True\<rparr>))\<rparr>))"

end
