(* ===== verification/Bip.thy ===== *)
theory Bip
  imports WepTkip Pae
begin

text \<open>
  BIP, the integrity protection of group management frames
  (\<^verbatim>\<open>net80211/ieee80211_crypto_bip.c\<close>).  Management frames are contiguous.
\<close>

definition bip_aad :: "mbuf \<Rightarrow> u8 list" where
  "bip_aad wh = [byte_at wh 0, byte_at wh 1 AND NOT (0x08 OR 0x10 OR 0x20)]
     @ bytes_at wh 4 6 @ bytes_at wh 10 6 @ bytes_at wh 16 6"

text \<open>The MAC over the pseudo-header and the frame behind its header, in progress.\<close>

definition bip_mac :: "hashf \<Rightarrow> mbuf \<Rightarrow> cmac_ctx" where
  "bip_mac E m = AES_CMAC_Update E (drop 24 m) (AES_CMAC_Update E (bip_aad m) AES_CMAC_Init)"

definition mmie_head :: "iee_key \<Rightarrow> u8 list" where
  "mmie_head k = [76, 16] @ LE_WRITE_2 (ucast (k_id k)) @ LE_WRITE_6 (k_tsc k)"

definition bip_encap :: "crypt_env \<Rightarrow> hashf \<Rightarrow> mbuf \<Rightarrow> iee_key \<Rightarrow> crypt_result" where
  "bip_encap env E m0 k =
     (let m0 = clear_protected m0; ctx = bip_mac E m0 in
      if \<not> ce_first env then (Inl Tx_Nombuf, k)
      else let mic = AES_CMAC_Final E (AES_CMAC_Update E (mmie_head k @ replicate 8 0) ctx)
           in (Inr (m0 @ mmie_head k @ take 8 mic), k\<lparr>k_tsc := k_tsc k + 1\<rparr>))"

definition bip_ipn :: "mbuf \<Rightarrow> u64" where
  "bip_ipn m = LE_READ_6 (drop (length m - MMIE_LEN + 4) m)"

definition bip_decap :: "hashf \<Rightarrow> mbuf \<Rightarrow> iee_key \<Rightarrow> crypt_result" where
  "bip_decap E m0 k =
     (let ipn = bip_ipn m0 in
      if ipn \<le> k_mgmt_rsc k then (Inl Cmac_Replay, k)
      else let mic0 = drop (length m0 - 8) m0;
               masked = take (length m0 - 8) m0 @ replicate 8 0;
               mic = AES_CMAC_Final E (bip_mac E masked) in
        if take 8 mic \<noteq> mic0 then (Inl Cmac_Icv_Err, k)
        else (Inr (take (length m0 - MMIE_LEN) m0), k\<lparr>k_mgmt_rsc := ipn\<rparr>))"

end
