(* ===== verification/Ciphers.thy ===== *)
theory Ciphers
  imports Bip
begin

text \<open>
  The dispatch over the ciphers: \<^verbatim>\<open>ieee80211_encrypt\<close> and \<^verbatim>\<open>ieee80211_decrypt\<close> of
  \<^verbatim>\<open>net80211/ieee80211_crypto.c\<close>.
\<close>

text \<open>\<open>Bad_Ctx\<close>: a cipher function reads a context that is null or of another cipher.\<close>

definition encrypt :: "crypt_env \<Rightarrow> prims \<Rightarrow> mbuf \<Rightarrow> iee_key \<Rightarrow> crypt_result" where
  "encrypt env pr m0 k =
     (if \<not> has_flag (k_flags k) KEY_SWCRYPTO then (Inl No_Key, k)
      else let c = k_cipher k in
        if c = CIPHER_WEP40 \<or> c = CIPHER_WEP104
        then (case k_priv k of Some (Wep_Ctx iv) \<Rightarrow> wep_encrypt env iv m0 k | _ \<Rightarrow> (Inl Bad_Ctx, k))
        else if c = CIPHER_TKIP
        then (case k_priv k of Some (Tkip_Ctx ctx) \<Rightarrow> tkip_encrypt env ctx m0 k | _ \<Rightarrow> (Inl Bad_Ctx, k))
        else if c = CIPHER_CCMP
        then (case k_priv k of Some (Ccmp_Ctx aes) \<Rightarrow> ccmp_encrypt env (pr_aes_enc pr aes) m0 k
              | _ \<Rightarrow> (Inl Bad_Ctx, k))
        else if c = CIPHER_BIP
        then (case k_priv k of Some (Bip_Ctx aes) \<Rightarrow> bip_encap env (pr_aes_enc pr aes) m0 k
              | _ \<Rightarrow> (Inl Bad_Ctx, k))
        else (Inl Panic, k))"

text \<open>The decryption of a frame under the key that was chosen for it.\<close>

definition key_decrypt :: "crypt_env \<Rightarrow> prims \<Rightarrow> mbuf \<Rightarrow> iee_key \<Rightarrow> crypt_result" where
  "key_decrypt env pr m0 k =
     (if \<not> has_flag (k_flags k) KEY_SWCRYPTO then (Inl No_Key, k)
      else let c = k_cipher k in
        if c = CIPHER_WEP40 \<or> c = CIPHER_WEP104
        then (case k_priv k of Some (Wep_Ctx iv) \<Rightarrow> wep_decrypt env m0 k | _ \<Rightarrow> (Inl Bad_Ctx, k))
        else if c = CIPHER_TKIP
        then (case k_priv k of Some (Tkip_Ctx ctx) \<Rightarrow> tkip_decrypt env ctx m0 k | _ \<Rightarrow> (Inl Bad_Ctx, k))
        else if c = CIPHER_CCMP
        then (case k_priv k of Some (Ccmp_Ctx aes) \<Rightarrow> ccmp_decrypt env (pr_aes_enc pr aes) m0 k
              | _ \<Rightarrow> (Inl Bad_Ctx, k))
        else if c = CIPHER_BIP
        then (case k_priv k of Some (Bip_Ctx aes) \<Rightarrow> bip_decap (pr_aes_enc pr aes) m0 k
              | _ \<Rightarrow> (Inl Bad_Ctx, k))
        else (Inl No_Key, k))"

type_synonym keys = "iee_key \<times> iee_key list"

definition put_key :: "key_ref \<Rightarrow> iee_key \<Rightarrow> keys \<Rightarrow> keys" where
  "put_key r k ks = (case r of Pairwise_Key \<Rightarrow> (k, snd ks) | Nw_Key i \<Rightarrow> (fst ks, (snd ks)[i := k]))"

definition decrypt :: "crypt_env \<Rightarrow> prims \<Rightarrow> keysel \<Rightarrow> keys \<Rightarrow> mbuf \<Rightarrow> (crypt_error + mbuf) \<times> keys" where
  "decrypt env pr s ks m0 =
     (case get_rxkey s m0 of None \<Rightarrow> (Inl No_Key, ks)
      | Some r \<Rightarrow> let (res, k) = key_decrypt env pr m0 (key_of (fst ks) (snd ks) r)
                  in (res, put_key r k ks))"

end
