(* ===== verification/CipherProps.thy ===== *)
theory CipherProps
  imports Ciphers KeyProps MgmtProps
begin

text \<open>
  What the ciphers do together: a frame that one end sealed is opened by the other, and numbers
  of accepted frames increase.
\<close>

section \<open>Headers\<close>

text \<open>\<open>f\<close> starts with the complete header of \<open>m\<close>.\<close>

definition same_hdr :: "mbuf \<Rightarrow> mbuf \<Rightarrow> bool" where
  "same_hdr m f \<longleftrightarrow> agree (get_hdrlen m) m f"

lemma hdrlen_ge: "24 \<le> get_hdrlen m" "has_addr4 m \<Longrightarrow> 30 \<le> get_hdrlen m"
  "has_qos m \<Longrightarrow> 26 \<le> get_hdrlen m" "has_addr4 m \<Longrightarrow> has_qos m \<Longrightarrow> 32 \<le> get_hdrlen m"
  by (simp_all add: get_hdrlen_def)

lemma same_hdr_byte: "same_hdr m f \<Longrightarrow> i < get_hdrlen m \<Longrightarrow> byte_at f i = byte_at m i"
  by (simp add: same_hdr_def agree_def)

lemma same_hdr_bytes: "same_hdr m f \<Longrightarrow> i + n \<le> get_hdrlen m \<Longrightarrow> bytes_at f i n = bytes_at m i n"
  by (simp add: bytes_at_def same_hdr_byte)

lemma same_hdr_flags:
  assumes "same_hdr m f"
  shows "byte_at f 0 = byte_at m 0" "byte_at f 1 = byte_at m 1" "byte_at f 22 = byte_at m 22"
    "fc0_type f = fc0_type m" "has_addr4 f = has_addr4 m" "has_qos f = has_qos m"
    "get_hdrlen f = get_hdrlen m" "bytes_at f 4 6 = bytes_at m 4 6"
    "bytes_at f 10 6 = bytes_at m 10 6" "bytes_at f 16 6 = bytes_at m 16 6"
proof -
  note h = hdrlen_ge(1) [of m]
  show b: "byte_at f 0 = byte_at m 0" "byte_at f 1 = byte_at m 1" "byte_at f 22 = byte_at m 22"
    using h by (auto intro: same_hdr_byte [OF assms])
  show "fc0_type f = fc0_type m" "has_addr4 f = has_addr4 m" "has_qos f = has_qos m"
    "get_hdrlen f = get_hdrlen m"
    by (simp_all add: fc0_type_def has_addr4_def has_qos_def get_hdrlen_def has_htc_def b b(2) [simplified])
  show "bytes_at f 4 6 = bytes_at m 4 6" "bytes_at f 10 6 = bytes_at m 10 6"
    "bytes_at f 16 6 = bytes_at m 16 6"
    using h by (auto intro!: same_hdr_bytes [OF assms])
qed

lemma same_hdr_addr4: "same_hdr m f \<Longrightarrow> has_addr4 m \<Longrightarrow> bytes_at f 24 6 = bytes_at m 24 6"
  using hdrlen_ge(2) [of m] by (simp add: same_hdr_bytes)

lemma same_hdr_tid:
  assumes "same_hdr m f"
  shows "qos_tid f = qos_tid m"
proof (cases "has_qos m")
  case True
  define o1 where "o1 = (if has_addr4 m then 30 else 24 :: nat)"
  have o1: "o1 + 1 < get_hdrlen m" using hdrlen_ge(3,4) [of m] True by (auto simp: o1_def)
  have "get_qos f = get_qos m"
    using same_hdr_byte [OF assms, of o1] same_hdr_byte [OF assms, of "o1 + 1"] o1
    by (simp add: get_qos_def LE_READ_2_def byte_at_drop same_hdr_flags [OF assms] o1_def [symmetric])
  then show ?thesis by (simp add: qos_tid_def same_hdr_flags [OF assms])
qed (simp add: qos_tid_def same_hdr_flags [OF assms])

lemmas same_hdr_simps = same_hdr_flags same_hdr_tid

lemma same_hdr_take: "get_hdrlen m \<le> length m \<Longrightarrow> same_hdr m (take (get_hdrlen m) m @ rest)"
  by (auto simp: same_hdr_def agree_def byte_at_def nth_append)

lemma clear_protected_take:
  "2 \<le> h \<Longrightarrow> h \<le> length m \<Longrightarrow> clear_protected (take h m) @ drop h m = clear_protected m"
  by (rule nth_equalityI)
    (auto simp: clear_protected_def byte_at_def nth_append nth_list_update)

section \<open>CCMP\<close>

lemma ccmp_loop_length [simp]: "length (snd (ccmp_loop d E a ctr j b s xs)) = length xs"
  by (induction d E a ctr j b s xs rule: ccmp_loop.induct) (auto simp: Let_def split: prod.splits)

lemma ccmp_loop_inverse:
  "ccmp_loop True E a ctr j b s (snd (ccmp_loop False E a ctr j b s xs))
     = (fst (ccmp_loop False E a ctr j b s xs), xs)"
proof (induction xs arbitrary: ctr j b s)
  case (Cons x xs)
  show ?case
    by (cases "j + 1 < 16")
      (simp_all add: Let_def case_prod_beta Cons.IH xor.assoc)
qed simp

lemma ccmp_body_inverse:
  assumes "ccmp_body False E m pn body = (out, mic)" "same_hdr m f"
  shows "ccmp_body True E f pn out = (body, mic)"
proof -
  have aad: "ccmp_aad f = ccmp_aad m"
    using assms(2) by (simp add: ccmp_aad_def same_hdr_simps same_hdr_flags(2) [simplified] same_hdr_addr4 Let_def)
  have l: "length out = length body"
    using assms(1) by (auto simp: ccmp_body_def Let_def case_prod_beta)
  have "ccmp_phase1 E f pn (length out) = ccmp_phase1 E m pn (length body)"
    by (simp add: ccmp_phase1_def ccmp_auth_def aad ccmp_nonce_def same_hdr_simps [OF assms(2)] l)
  then show ?thesis
    using assms(1) by (auto simp: ccmp_body_def Let_def case_prod_beta ccmp_loop_inverse)
qed

text \<open>A block cipher gives blocks of 16 bytes; then the MIC has eight.\<close>

definition block_fun :: "hashf \<Rightarrow> bool" where
  "block_fun E \<longleftrightarrow> (\<forall>b. length b = 16 \<longrightarrow> length (E b) = 16)"

lemma ccmp_loop_block:
  "block_fun E \<Longrightarrow> length b = 16 \<Longrightarrow> length (fst (ccmp_loop d E a ctr j b s xs)) = 16"
proof (induction xs arbitrary: ctr j b s)
  case (Cons x xs)
  then show ?case by (simp add: Let_def case_prod_beta block_fun_def)
qed (simp add: block_fun_def)

lemma ccmp_aad_length: "length (ccmp_aad m) \<le> 30"
  by (simp add: ccmp_aad_def Let_def)

lemma ccmp_nonce_length: "length (ccmp_nonce m pn) = 13"
  by (simp add: ccmp_nonce_def pn_bytes_def)

lemma ccmp_body_mic:
  assumes "block_fun E" "ccmp_body d E m pn body = (out, mic)"
  shows "length out = length body \<and> length mic = 8"
proof -
  have "length (ccmp_auth m) = 32" using ccmp_aad_length [of m] by (simp add: ccmp_auth_def Let_def)
  then have "length (fst (ccmp_phase1 E m pn n)) = 16" "length (snd (snd (ccmp_phase1 E m pn n))) = 16" for n
    using assms(1) by (simp_all add: ccmp_phase1_def Let_def block_fun_def ccmp_nonce_length)
  then show ?thesis
    using assms ccmp_loop_block [OF assms(1)] by (auto simp: ccmp_body_def Let_def case_prod_beta)
qed

section \<open>Packet numbers\<close>

definition pn48 :: "u64 \<Rightarrow> bool" where
  "pn48 v \<longleftrightarrow> v < 2 ^ 48"

lemma pn48_bit: "pn48 v \<Longrightarrow> bit v n \<Longrightarrow> n < 48"
  using less_mask_eq [of v 48] by (metis pn48_def bit_and_iff bit_mask_iff mask_eq_exp_minus_1)

definition place :: "nat \<Rightarrow> u64 \<Rightarrow> u64" where
  "place k v = push_bit k (ucast (ucast (drop_bit k v) :: u8))"

lemma places_join:
  assumes "pn48 v"
  shows "place 0 v OR place 8 v OR place 16 v OR place 24 v OR place 32 v OR place 40 v = v"
proof (rule bit_word_eqI)
  fix n assume "n < LENGTH(64)"
  then have n: "n < 64" by simp
  have "bit v n \<Longrightarrow> n < 48" using assms by (rule pn48_bit)
  then show "bit (place 0 v OR place 8 v OR place 16 v OR place 24 v OR place 32 v OR place 40 v) n = bit v n"
    unfolding place_def bit_or_iff bit_byte_at_place [OF n] by auto
qed

lemma read_pn_places:
  assumes "pn48 v" "byte_at ivp 4 = ucast (drop_bit 16 v)" "byte_at ivp 5 = ucast (drop_bit 24 v)"
    "byte_at ivp 6 = ucast (drop_bit 32 v)" "byte_at ivp 7 = ucast (drop_bit 40 v)"
  shows "read_pn (ucast v) (ucast (drop_bit 8 v)) ivp = v"
  using places_join [OF assms(1)] by (simp add: read_pn_def place_def assms ac_simps)

lemma LE_READ_WRITE_6: "pn48 v \<Longrightarrow> LE_READ_6 (LE_WRITE_6 v @ rest) = v"
  using places_join [of v]
  by (simp add: LE_READ_6_def LE_WRITE_6_def place_def byte_at_def or.commute or.left_commute or.assoc)

lemma read_ccmp_hdr:
  assumes "pn48 (k_tsc k)" "ivp = ccmp_hdr k @ rest"
  shows "read_pn (byte_at ivp 0) (byte_at ivp 1) ivp = k_tsc k"
  using read_pn_places [OF assms(1), of ivp]
  by (simp add: assms(2) ccmp_hdr_def byte_at_def Let_def)

lemma read_tkip_hdr:
  assumes "pn48 (k_tsc k)" "ivp = tkip_hdr k @ rest"
  shows "read_pn (byte_at ivp 2) (byte_at ivp 0) ivp = k_tsc k"
  using read_pn_places [OF assms(1), of ivp]
  by (simp add: assms(2) tkip_hdr_def byte_at_def Let_def)

lemma hdr_ext:
  "has_flag (byte_at (ccmp_hdr k @ rest) 3) WEP_EXTIV" "has_flag (byte_at (tkip_hdr k @ rest) 3) WEP_EXTIV"
  by (simp_all add: ccmp_hdr_def tkip_hdr_def byte_at_def Let_def has_flag_or_self)

lemma hdr_length [simp]: "length (ccmp_hdr k) = 8" "length (tkip_hdr k) = 8"
  by (simp_all add: ccmp_hdr_def tkip_hdr_def Let_def)

section \<open>Round trips\<close>

text \<open>What is needed of the receiver's counter.\<close>

definition rsc_ref :: "mbuf \<Rightarrow> nat option" where
  "rsc_ref m = (if fc0_type m = 0x08 then Some (unat (qos_tid m)) else None)"

lemma ccmp_roundtrip:
  assumes enc: "ccmp_encrypt env E m kt = (Inr f, kt')" and h: "get_hdrlen m \<le> length m"
    and pn: "pn48 (k_tsc kt')" "get_rsc (rsc_ref m) kr < k_tsc kt'"
    and env: "ce_first env'" "ce_rest env'" and blk: "block_fun E"
  shows "ccmp_decrypt env' E f kr = (Inr (clear_protected m), set_rsc (rsc_ref m) (k_tsc kt') kr)"
proof -
  define hl where "hl = get_hdrlen m"
  obtain out mic where b: "ccmp_body False E m (k_tsc kt') (drop hl m) = (out, mic)" by fastforce
  have f: "f = take hl m @ ccmp_hdr kt' @ out @ mic"
    using enc b by (auto simp: ccmp_encrypt_def Let_def hl_def case_prod_beta split: if_splits)
  have same: "same_hdr m f" unfolding f hl_def by (rule same_hdr_take [OF h])
  have l: "length (take hl m) = hl" "2 \<le> hl" using h hdrlen_ge(1) [of m] by (auto simp: hl_def)
  note len = ccmp_body_mic [OF blk b]
  have drop1: "drop hl f = ccmp_hdr kt' @ out @ mic" using l by (simp add: f)
  have drop2: "drop (hl + 8) f = out @ mic" "drop (length f - 8) f = mic" using l len by (simp_all add: f)
  have "ccmp_get_pn f = Some (k_tsc kt', rsc_ref m)"
    using read_ccmp_hdr [OF pn(1) drop1] hdr_ext(1) [of kt' "out @ mic"] l
    by (simp add: ccmp_get_pn_def same_hdr_simps [OF same] hl_def [symmetric] drop1 Let_def rsc_ref_def del: drop_append)
       (simp add: f)
  moreover have "ccmp_body True E f (k_tsc kt') out = (drop hl m, mic)"
    by (rule ccmp_body_inverse [OF b same])
  moreover have "clear_protected (take hl f) @ drop hl m = clear_protected m"
    using clear_protected_take [of hl m] l h by (simp add: f hl_def)
  ultimately show ?thesis
    using env pn(2) len l
    by (simp add: ccmp_decrypt_def same_hdr_simps [OF same] hl_def [symmetric] drop2 Let_def)
       (use h in \<open>simp add: f hl_def\<close>)
qed


lemma rc4_crypt_append:
  "rc4_crypt ctx (a @ b) = rc4_crypt ctx a @ rc4_crypt (rc4_skip ctx (length a)) b"
  by (induction a arbitrary: ctx) (auto simp: Let_def)

lemma rc4_skip_add: "rc4_skip ctx (a + b) = rc4_skip (rc4_skip ctx a) b"
  by (induction ctx a rule: rc4_skip.induct) auto

lemma le32_length [simp]: "length (le32 v) = 4"
  by (simp add: le32_def)

lemma wep_roundtrip:
  assumes enc: "wep_encrypt env iv m kt = (Inr f, kt')" and h: "get_hdrlen m \<le> length m"
    and key: "k_key kr = k_key kt" "k_len kr = k_len kt" and env: "ce_first env'" "ce_rest env'"
  shows "wep_decrypt env' f kr = (Inr (clear_protected m), kr)"
proof -
  define hl where "hl = get_hdrlen m"
  define iv' where "iv' = wep_select_iv (if iv \<noteq> 0 then iv else ce_random env)"
  define ivp :: "u8 list" where "ivp = [ucast iv', ucast (drop_bit 8 iv'), ucast (drop_bit 16 iv')]"
  define rc4 where "rc4 = wep_keysetup ivp kr"
  define icv where "icv = le32 (NOT (ether_crc32_le_update (NOT 0) (drop hl m)))"
  define n where "n = length (drop hl m)"
  have f: "f = take hl m @ ivp @ [push_bit 6 (k_id kt)] @ rc4_crypt rc4 (drop hl m) @ rc4_crypt (rc4_skip rc4 n) icv"
    using enc key by (auto simp: wep_encrypt_def Let_def hl_def iv'_def ivp_def rc4_def icv_def n_def
        wep_keysetup_def split: if_splits)
  have same: "same_hdr m f" unfolding f hl_def by (rule same_hdr_take [OF h])
  have l: "length (take hl m) = hl" "2 \<le> hl" "length ivp = 3" "length icv = 4"
    using h hdrlen_ge(1) [of m] by (auto simp: hl_def ivp_def icv_def)
  have parts: "bytes_at (drop hl f) 0 3 = ivp" "drop (hl + 4) f = rc4_crypt rc4 (drop hl m) @ rc4_crypt (rc4_skip rc4 n) icv"
    "drop (length f - 4) f = rc4_crypt (rc4_skip rc4 n) icv" "length f - (hl + 4 + 4) = n"
    "take hl f = take hl m"
    using l h by (simp_all add: f bytes_at_take n_def hl_def Suc_diff_le)
  have "clear_protected (take hl f) @ drop hl m = clear_protected m"
    using clear_protected_take [of hl m] l h by (simp add: f hl_def)
  then show ?thesis
    using env l unfolding wep_decrypt_def same_hdr_simps [OF same] hl_def [symmetric] Let_def parts rc4_def [symmetric]
    by (simp add: n_def rc4_crypt_crypt icv_def) (use h in \<open>simp add: f icv_def hl_def\<close>)
qed


lemma byte_at_clear: "byte_at (clear_protected m) i = (if i = 1 \<and> 1 < length m then byte_at m 1 AND NOT 0x40 else byte_at m i)"
  by (auto simp: clear_protected_def byte_at_def nth_list_update)

lemma dir_clear: "byte_at (clear_protected m) 1 AND 3 = byte_at m 1 AND 3"
proof -
  have "(x AND NOT 0x40) AND 3 = x AND (3 :: u8)" for x by (simp add: and.assoc)
  then show ?thesis by (simp only: byte_at_clear) simp
qed

lemma bytes_at_clear: "2 \<le> i \<Longrightarrow> bytes_at (clear_protected m) i n = bytes_at m i n"
  by (simp add: bytes_at_def byte_at_clear)

lemma qos_tid_clear: "qos_tid (clear_protected m) = qos_tid m"
proof -
  have q: "has_qos (clear_protected m) = has_qos m" "has_addr4 (clear_protected m) = has_addr4 m"
    by (simp_all only: has_qos_def has_addr4_def dir_clear) (simp add: byte_at_clear)
  show ?thesis by (simp add: qos_tid_def q get_qos_def LE_READ_2_def byte_at_drop byte_at_clear)
qed

lemma tkip_mic_clear:
  assumes "2 \<le> off"
  shows "tkip_mic (clear_protected m) off key = tkip_mic m off key"
proof -
  have "drop off (clear_protected m) = drop off m" using assms by (simp add: clear_protected_def)
  moreover have "tkip_frame (clear_protected m) = tkip_frame m"
    by (simp add: tkip_frame_def dir_clear [unfolded One_nat_def] qos_tid_clear bytes_at_clear Let_def)
  ultimately show ?thesis by (simp add: tkip_mic_def)
qed

lemma michael_final_length: "length (tkip_mic m off key) = 8"
  by (simp add: tkip_mic_def michael_final_def Let_def)

text \<open>A cached TTAK belongs to the high part of the counter.\<close>

definition ttak :: "mbuf \<Rightarrow> u64 \<Rightarrow> iee_key \<Rightarrow> u16 list" where
  "ttak m tsc k = Phase1 (k_key k) (bytes_at m 10 6) (ucast (drop_bit 16 tsc))"

definition tx_cache_ok :: "mbuf \<Rightarrow> iee_key \<Rightarrow> tkip_ctx \<Rightarrow> bool" where
  "tx_cache_ok m k ctx \<longleftrightarrow> (tk_txttak_ok ctx \<longrightarrow> tk_txttak ctx = ttak m (k_tsc k) k)"

definition rx_cache_ok :: "mbuf \<Rightarrow> iee_key \<Rightarrow> tkip_ctx \<Rightarrow> bool" where
  "rx_cache_ok m k ctx \<longleftrightarrow>
     (tk_rxttak_ok ctx \<longrightarrow> tk_rxttak ctx = ttak m (k_rsc k ! unat (qos_tid m)) k)"

lemma high_part_step: "(t + 1) AND 0xffff \<noteq> 0 \<Longrightarrow> drop_bit 16 (t + 1) = drop_bit 16 (t :: u64)"
proof -
  assume a: "(t + 1) AND 0xffff \<noteq> 0"
  have m: "unat ((x :: u64) AND 0xffff) = unat x mod 65536" for x
  proof -
    have "(0xffff :: u64) = mask 16" by (simp add: mask_eq_exp_minus_1)
    then have "x AND 0xffff = x mod 2 ^ 16" by (simp only: take_bit_eq_mask [symmetric] take_bit_eq_mod)
    then show ?thesis by (simp add: unat_mod)
  qed
  have "t + 1 \<noteq> 0" using a by auto
  then have s: "unat (t + 1) = Suc (unat t)" using unatSuc [of t] by (simp add: add.commute)
  have "Suc (unat t) mod 65536 \<noteq> 0" using a m [of "t + 1"] s by (metis unsigned_0 word_unat_eq_iff)
  then have "unat (drop_bit 16 (t + 1)) = unat (drop_bit 16 t)" by (simp add: unat_drop_bit s div_Suc)
  then show ?thesis by (simp add: word_unat_eq_iff)
qed

lemma tx_ttak_correct:
  assumes "tx_cache_ok m k ctx" "k' = k\<lparr>k_tsc := k_tsc k + 1\<rparr>"
  shows "tk_txttak (tx_ttak m k' ctx) = ttak m (k_tsc k') k'"
  using assms high_part_step [of "k_tsc k"] by (auto simp: tx_ttak_def tx_cache_ok_def ttak_def)

text \<open>It is enough that the cached key is right for the number in question when it is reused.\<close>

definition rx_cache_fits :: "mbuf \<Rightarrow> u64 \<Rightarrow> iee_key \<Rightarrow> tkip_ctx \<Rightarrow> bool" where
  "rx_cache_fits m tsc k ctx \<longleftrightarrow>
     (tk_rxttak_ok ctx \<and> drop_bit 16 tsc = drop_bit 16 (k_rsc k ! unat (qos_tid m)) \<longrightarrow> tk_rxttak ctx = ttak m tsc k)"

lemma rx_ttak_fits:
  assumes "rx_cache_fits m tsc k ctx"
  shows "tk_rxttak (rx_ttak m tsc (k_rsc k ! unat (qos_tid m)) k ctx) = ttak m tsc k"
  using assms by (auto simp: rx_ttak_def rx_cache_fits_def ttak_def)

lemma rx_ttak_correct:
  assumes "rx_cache_ok m k ctx"
  shows "tk_rxttak (rx_ttak m tsc (k_rsc k ! unat (qos_tid m)) k ctx) = ttak m tsc k"
  using assms by (auto simp: rx_ttak_def rx_cache_ok_def ttak_def)

lemma tx_ttak_fields [simp]: "tk_txmic (tx_ttak m k ctx) = tk_txmic ctx" "tk_rxmic (tx_ttak m k ctx) = tk_rxmic ctx"
  by (simp_all add: tx_ttak_def)

lemma rx_ttak_fields [simp]: "tk_rxmic (rx_ttak m a b k ctx) = tk_rxmic ctx"
  by (simp add: rx_ttak_def)


lemma qos_tid_lt: "unat (qos_tid m) < 16"
proof -
  have "unat ((x :: u16) AND 0x0f) < 16" for x
    using word_and_le1 [of x "0x0f"] by (auto simp: word_le_nat_alt and.commute dest: le_less_trans)
  moreover have "unat (qos_tid m) \<le> unat (get_qos m AND 0x0f)"
    by (auto simp: qos_tid_def intro: unat_ucast_le)
  ultimately show ?thesis by (meson le_less_trans)
qed

lemma tkip_roundtrip:
  assumes enc: "tkip_encrypt env ct m kt = (Inr f, kt')" and h: "get_hdrlen m \<le> length m"
    and pn: "pn48 (k_tsc kt')" "k_rsc kr ! unat (qos_tid m) < k_tsc kt'"
    and key: "k_key kr = k_key kt" and mic: "tk_rxmic cr = tk_txmic ct"
    and cache: "tx_cache_ok m kt ct" "rx_cache_fits m (k_tsc kt') kr cr" and env: "ce_first env'" "ce_rest env'"
  shows "\<exists>cr'. tkip_decrypt env' cr f kr = (Inr (clear_protected m),
      kr\<lparr>k_rsc := (k_rsc kr)[unat (qos_tid m) := k_tsc kt'], k_priv := Some (Tkip_Ctx cr')\<rparr>)
    \<and> tk_rxttak cr' = ttak m (k_tsc kt') kr
    \<and> tk_rxmic cr' = tk_rxmic cr \<and> tk_rxttak_ok cr'"
proof -
  define hl where "hl = get_hdrlen m"
  define tsc where "tsc = k_tsc kt'"
  define rc4 where "rc4 = rc4_keysetup (Phase2 (k_key kr) (ttak m tsc kr) (ucast (tsc AND 0xffff)))"
  define mc where "mc = tkip_mic m hl (drop (tk_rxmic cr) (k_key kr))"
  define icv where "icv = le32 (NOT (ether_crc32_le_update (ether_crc32_le_update (NOT 0) (drop hl m)) mc))"
  define n where "n = length (drop hl m)"
  define ctx where "ctx = rx_ttak m tsc (k_rsc kr ! unat (qos_tid m)) kr cr"
  have tsc: "tsc = k_tsc kt + 1" using enc by (auto simp: tkip_encrypt_def Let_def tsc_def split: if_splits)
  have tx: "tk_txttak (tx_ttak m (kt\<lparr>k_tsc := k_tsc kt + 1\<rparr>) ct) = ttak m tsc kr"
    using tx_ttak_correct [OF cache(1) refl] key by (simp add: ttak_def tsc)
  have f: "f = take hl m @ tkip_hdr kt' @ rc4_crypt rc4 (drop hl m) @ rc4_crypt (rc4_skip rc4 n) (mc @ icv)"
    using enc tx key mic
    by (auto simp: tkip_encrypt_def Let_def hl_def rc4_def icv_def mc_def n_def tkip_hdr_def rc4_crypt_append
        rc4_skip_add michael_final_length tsc split: if_splits)
  have same: "same_hdr m f" unfolding f hl_def by (rule same_hdr_take [OF h])
  have l: "length (take hl m) = hl" "2 \<le> hl" "length icv = 4" "length mc = 8" "length m = hl + n"
    "length (drop hl m) = n"
    using h hdrlen_ge(1) [of m] by (auto simp: hl_def icv_def mc_def n_def michael_final_length)
  have len: "length f = hl + 20 + n" using l by (simp add: f)
  have drop1: "drop hl f = tkip_hdr kt' @ rc4_crypt rc4 (drop hl m) @ rc4_crypt (rc4_skip rc4 n) (mc @ icv)"
    using l by (simp add: f)
  have parts: "drop (hl + 8) f = rc4_crypt rc4 (drop hl m) @ rc4_crypt (rc4_skip rc4 n) (mc @ icv)"
    "drop (length f - 12) f = rc4_crypt (rc4_skip rc4 n) (mc @ icv)" "length f - (hl + 20) = n"
    "take hl f = take hl m"
    using l by (simp_all add: len) (simp_all add: f)
  have get: "tkip_get_tsc f = Some (tsc, unat (qos_tid m))"
  proof -
    have "has_flag (byte_at (drop hl f) 3) 0x20" unfolding drop1 by (rule hdr_ext(2))
    moreover have "\<not> length f < hl + 8" by (simp add: len)
    ultimately show ?thesis
      unfolding tkip_get_tsc_def same_hdr_simps [OF same] hl_def [symmetric] Let_def
      by (simp only: if_False if_True not_True_eq_False read_tkip_hdr [OF pn(1) drop1] tsc_def)
  qed
  have ctx: "rx_ttak f tsc (k_rsc kr ! unat (qos_tid m)) kr cr = ctx"
    by (simp add: rx_ttak_def ctx_def same_hdr_simps [OF same])
  have rx: "tk_rxttak ctx = ttak m tsc kr" unfolding ctx_def by (rule rx_ttak_fits) (use cache(2) in \<open>simp add: tsc_def\<close>)
  have clear: "clear_protected (take hl m) @ drop hl m = clear_protected m"
    using clear_protected_take [of hl m] l by simp
  have body: "rc4_crypt rc4 (take n (drop (hl + 8) f)) = drop hl m"
    using l by (simp add: parts rc4_crypt_crypt)
  have tail: "rc4_crypt (rc4_skip rc4 n) (drop (8 + (hl + n)) f) = mc @ icv"
    using parts(2) len by (simp add: rc4_crypt_crypt add.commute)
  have mic': "tkip_mic (clear_protected m) hl (drop (tk_rxmic ctx) (k_key kr)) = mc"
    using tkip_mic_clear [OF l(2)] by (simp only: mc_def ctx_def rx_ttak_fields)
  have icv': "le32 (NOT (ether_crc32_le_update (ether_crc32_le_update (- 1) (drop hl m)) mc)) = icv"
    by (simp add: icv_def)
  have "tkip_decrypt env' cr f kr = (Inr (clear_protected m),
      kr\<lparr>k_rsc := (k_rsc kr)[unat (qos_tid m) := tsc], k_priv := Some (Tkip_Ctx (ctx\<lparr>tk_rxttak_ok := True\<rparr>))\<rparr>)"
    using env pn(2) [folded tsc_def] len l
    unfolding tkip_decrypt_def same_hdr_simps [OF same] hl_def [symmetric] Let_def get option.case prod.case ctx
    parts(3,4) by (simp add: rx rc4_def [symmetric] tail body clear mic' icv')
  then show ?thesis
    by (rule_tac x = "ctx\<lparr>tk_rxttak_ok := True\<rparr>" in exI) (use rx in \<open>simp add: tsc_def ctx_def\<close>)
qed


lemma LE_WRITE_6_length [simp]: "length (LE_WRITE_6 v) = 6"
  by (simp add: LE_WRITE_6_def)

lemma mmie_head_length [simp]: "length (mmie_head k) = 10"
  by (simp add: mmie_head_def)

lemma cmac_update_short: "length (cm_M_last (AES_CMAC_Update E d AES_CMAC_Init)) \<le> 16"
  using cmac_loop_last by (simp add: cmac_update_loop AES_CMAC_Init_def cmac_save_def)

lemma bip_mac_append:
  "AES_CMAC_Update E d (bip_mac E m) = AES_CMAC_Update E (bip_aad m @ drop 24 m @ d) AES_CMAC_Init"
proof -
  have "bip_mac E m = AES_CMAC_Update E (bip_aad m @ drop 24 m) AES_CMAC_Init"
    unfolding bip_mac_def by (rule cmac_update_append) (simp add: AES_CMAC_Init_def)
  then show ?thesis
    using cmac_update_append [of AES_CMAC_Init E d "bip_aad m @ drop 24 m"] by (simp add: AES_CMAC_Init_def)
qed

lemma bip_aad_prefix: "24 \<le> length m \<Longrightarrow> bip_aad (m @ x) = bip_aad m"
  by (auto simp: bip_aad_def bytes_at_def byte_at_def nth_append)

lemma bip_encap_ipn:
  assumes enc: "bip_encap env E m k = (Inr f, k')" and pn: "pn48 (k_tsc k)" and E: "cipher_pair E D"
  shows "bip_ipn f = k_tsc k"
proof -
  obtain cm d where f: "f = (cm @ mmie_head k) @ take 8 (aes_cmac E d)"
    using enc by (auto simp: bip_encap_def Let_def bip_mac_append aes_cmac_def split: if_splits)
  have "length (take 8 (aes_cmac E d)) = 8" using aes_cmac_length [OF E] by simp
  then have "drop (length f - 18 + 4) f = LE_WRITE_6 (k_tsc k) @ take 8 (aes_cmac E d)"
    by (simp add: f mmie_head_def LE_WRITE_2_def)
  then show ?thesis by (simp add: bip_ipn_def LE_READ_WRITE_6 [OF pn])
qed

lemma bip_roundtrip:
  assumes enc: "bip_encap env E m kt = (Inr f, kt')" and h: "24 \<le> length m"
    and pn: "pn48 (k_tsc kt)" "k_mgmt_rsc kr < k_tsc kt" and E: "cipher_pair E D"
  shows "bip_decap E f kr = (Inr (clear_protected m), kr\<lparr>k_mgmt_rsc := k_tsc kt\<rparr>)"
proof -
  define cm where "cm = clear_protected m"
  define mic where "mic = aes_cmac E (bip_aad cm @ drop 24 cm @ mmie_head kt @ replicate 8 0)"
  have mic: "length (take 8 mic) = 8" using aes_cmac_length [OF E] by (simp add: mic_def)
  have cm: "24 \<le> length cm" using h by (simp add: cm_def clear_protected_def)
  have f: "f = (cm @ mmie_head kt) @ take 8 mic"
    using enc by (auto simp: bip_encap_def Let_def cm_def mic_def bip_mac_append aes_cmac_def split: if_splits)
  note ipn = bip_encap_ipn [OF enc pn(1) E]
  have masked: "take (length f - 8) f @ replicate 8 0 = cm @ mmie_head kt @ replicate 8 0"
    "drop (length f - 8) f = take 8 mic" "take (length f - 18) f = cm"
    using mic by (simp_all add: f)
  have "bip_mac E (cm @ d) = AES_CMAC_Update E (bip_aad cm @ drop 24 cm @ d) AES_CMAC_Init" for d
    using cm bip_mac_append [of E "[]" "cm @ d"] cmac_update_append [of AES_CMAC_Init E "[]"]
    by (simp add: bip_aad_prefix bip_mac_def AES_CMAC_Init_def cmac_update_append)
  then have "AES_CMAC_Final E (bip_mac E (cm @ mmie_head kt @ replicate 8 0)) = mic"
    by (simp add: mic_def aes_cmac_def)
  then show ?thesis
    using pn(2) unfolding bip_decap_def Let_def ipn masked by (simp add: cm_def)
qed

end
