(* ===== verification/CipherStream.thy ===== *)
theory CipherStream
  imports CipherProps
begin

text \<open>
  Two ends with the same key: the frames that one seals, the other opens.
\<close>

section \<open>Two ends in step\<close>

text \<open>The contexts of the two ends.  TKIP caches a key for one transmitter address: the sender the one for its
  counter, the receiver the one for the highest number it accepted in any priority.\<close>

definition ctx_in_step :: "u8 list \<Rightarrow> iee_key \<Rightarrow> iee_key \<Rightarrow> bool" where
  "ctx_in_step ta kt kr \<longleftrightarrow>
     (case (k_priv kt, k_priv kr) of
        (Some (Wep_Ctx _), Some (Wep_Ctx _)) \<Rightarrow> k_cipher kt \<in> {CIPHER_WEP40, CIPHER_WEP104}
      | (Some (Tkip_Ctx ct), Some (Tkip_Ctx cr)) \<Rightarrow> k_cipher kt = CIPHER_TKIP \<and> tk_rxmic cr = tk_txmic ct \<and>
          (tk_txttak_ok ct \<longrightarrow> tk_txttak ct = Phase1 (k_key kt) ta (ucast (drop_bit 16 (k_tsc kt)))) \<and>
          (tk_rxttak_ok cr \<longrightarrow> tk_rxttak cr = Phase1 (k_key kr) ta (ucast (drop_bit 16 (Max (set (k_rsc kr))))))
      | (Some (Ccmp_Ctx a), Some (Ccmp_Ctx b)) \<Rightarrow> k_cipher kt = CIPHER_CCMP \<and> a = b
      | (Some (Bip_Ctx a), Some (Bip_Ctx b)) \<Rightarrow> k_cipher kt = CIPHER_BIP \<and> a = b
      | _ \<Rightarrow> False)"

text \<open>Two ends that hold the same key: no receive counter is above the transmit counter.\<close>

definition keys_agree :: "u8 list \<Rightarrow> iee_key \<Rightarrow> iee_key \<Rightarrow> bool" where
  "keys_agree ta kt kr \<longleftrightarrow>
     has_flag (k_flags kt) KEY_SWCRYPTO \<and> has_flag (k_flags kr) KEY_SWCRYPTO \<and>
     k_cipher kr = k_cipher kt \<and> k_key kr = k_key kt \<and> k_len kr = k_len kt \<and>
     length (k_rsc kr) = 16 \<and> (\<forall>r \<in> set (k_rsc kr). r \<le> k_tsc kt) \<and> k_mgmt_rsc kr \<le> k_tsc kt \<and>
     ctx_in_step ta kt kr"

text \<open>BIP uses a number before it increments it, the other ciphers after.  When the receiver has the transmit counter
  of a BIP key as already used, which is the state after a key exchange, the next frame looks like a replay.\<close>

definition first_refused :: "iee_key \<Rightarrow> iee_key \<Rightarrow> bool" where
  "first_refused kt kr \<longleftrightarrow> k_cipher kt = CIPHER_BIP \<and> k_mgmt_rsc kr = k_tsc kt"

definition in_step :: "u8 list \<Rightarrow> iee_key \<Rightarrow> iee_key \<Rightarrow> bool" where
  "in_step ta kt kr \<longleftrightarrow> keys_agree ta kt kr \<and> \<not> first_refused kt kr"

text \<open>What a frame must have: a complete header and, for TKIP, the transmitter address of the contexts.\<close>

definition sealable :: "u8 list \<Rightarrow> u32 \<Rightarrow> mbuf \<Rightarrow> bool" where
  "sealable ta cipher m \<longleftrightarrow> get_hdrlen m \<le> length m \<and> (cipher = CIPHER_TKIP \<longrightarrow> bytes_at m 10 6 = ta)"

lemmas step_defs = in_step_def keys_agree_def first_refused_def ctx_in_step_def

definition mem_ok :: "crypt_env \<Rightarrow> bool" where
  "mem_ok env \<longleftrightarrow> ce_first env \<and> ce_rest env"

text \<open>One end seals frames in turn and the other opens what arrives.\<close>

fun stream :: "crypt_env \<Rightarrow> prims \<Rightarrow> iee_key \<Rightarrow> iee_key \<Rightarrow> mbuf list \<Rightarrow> (crypt_error + mbuf) list" where
  "stream env pr kt kr [] = []"
| "stream env pr kt kr (m # ms) =
     (case encrypt env pr m kt of
        (Inl e, kt) \<Rightarrow> Inl e # stream env pr kt kr ms
      | (Inr f, kt) \<Rightarrow> let (res, kr) = key_decrypt env pr f kr in res # stream env pr kt kr ms)"

lemma succ_less: "unat (t :: u64) + 1 < 2 ^ 48 \<Longrightarrow> t < t + 1 \<and> pn48 (t + 1) \<and> unat (t + 1) = unat t + 1"
proof -
  assume a: "unat t + 1 < 2 ^ 48"
  then have "unat (t + 1) = unat t + 1"
    by (simp add: unat_word_ariths)
  then show ?thesis using a by (simp add: pn48_def word_less_nat_alt)
qed

lemma in_step_cases:
  "in_step ta kt kr \<Longrightarrow>
     (\<And>iv iv'. k_cipher kt \<in> {CIPHER_WEP40, CIPHER_WEP104} \<Longrightarrow> k_priv kt = Some (Wep_Ctx iv)
        \<Longrightarrow> k_priv kr = Some (Wep_Ctx iv') \<Longrightarrow> P) \<Longrightarrow>
     (\<And>ct cr. k_cipher kt = CIPHER_TKIP \<Longrightarrow> k_priv kt = Some (Tkip_Ctx ct)
        \<Longrightarrow> k_priv kr = Some (Tkip_Ctx cr) \<Longrightarrow> P) \<Longrightarrow>
     (\<And>a. k_cipher kt = CIPHER_CCMP \<Longrightarrow> k_priv kt = Some (Ccmp_Ctx a)
        \<Longrightarrow> k_priv kr = Some (Ccmp_Ctx a) \<Longrightarrow> P) \<Longrightarrow>
     (\<And>a. k_cipher kt = CIPHER_BIP \<Longrightarrow> k_priv kt = Some (Bip_Ctx a)
        \<Longrightarrow> k_priv kr = Some (Bip_Ctx a) \<Longrightarrow> k_mgmt_rsc kr < k_tsc kt \<Longrightarrow> P) \<Longrightarrow> P"
  by (auto simp: step_defs split: option.splits key_ctx.splits)

definition step_ok :: "crypt_env \<Rightarrow> prims \<Rightarrow> u8 list \<Rightarrow> iee_key \<Rightarrow> iee_key \<Rightarrow> mbuf \<Rightarrow> bool" where
  "step_ok env pr ta kt kr m \<longleftrightarrow> (\<exists>f kt' kr'. encrypt env pr m kt = (Inr f, kt') \<and>
     key_decrypt env pr f kr = (Inr (clear_protected m), kr') \<and> in_step ta kt' kr' \<and>
     k_cipher kt' = k_cipher kt \<and> unat (k_tsc kt') \<le> unat (k_tsc kt) + 1)"

lemma wep_step:
  assumes i: "in_step ta kt kr" "sealable ta (k_cipher kt) m" "mem_ok env"
    and c: "k_cipher kt \<in> {CIPHER_WEP40, CIPHER_WEP104}" "k_priv kt = Some (Wep_Ctx iv)"
      "k_priv kr = Some (Wep_Ctx iv')"
  shows "step_ok env pr ta kt kr m"
proof -
  obtain f kt' where e: "wep_encrypt env iv m kt = (Inr f, kt')"
    using i(3) by (simp add: wep_encrypt_def mem_ok_def Let_def)
  have "wep_decrypt env f kr = (Inr (clear_protected m), kr)"
    using i by (intro wep_roundtrip [OF e]) (auto simp: step_defs sealable_def mem_ok_def)
  moreover have "\<exists>v. kt' = kt\<lparr>k_priv := Some (Wep_Ctx v)\<rparr>"
    using e by (auto simp: wep_encrypt_def Let_def split: if_splits)
  ultimately show ?thesis
    unfolding step_ok_def using e i(1) c
    by (intro exI [of _ f] exI [of _ kt'] exI [of _ kr])
      (auto simp: encrypt_def key_decrypt_def step_defs)
qed


lemma prims_cipher: "prims_ok pr \<Longrightarrow> cipher_pair (pr_aes_enc pr a) (pr_aes_dec pr a)"
  by (simp add: prims_ok_def)

lemma cipher_block_fun: "cipher_pair E D \<Longrightarrow> block_fun E"
  by (simp add: cipher_pair_def block_fun_def)

lemma nth_le_set: "\<forall>r \<in> set xs. r \<le> (t :: u64) \<Longrightarrow> i < length xs \<Longrightarrow> xs ! i \<le> t"
  by simp

lemma set_upd_le: "\<forall>r \<in> set xs. r \<le> (t :: u64) \<Longrightarrow> t \<le> u \<Longrightarrow> \<forall>r \<in> set (xs[i := u]). r \<le> u"
proof
  fix r assume a: "\<forall>r \<in> set xs. r \<le> t" "t \<le> u" and r: "r \<in> set (xs[i := u])"
  from r have "r = u \<or> r \<in> set xs" using set_update_subset_insert [of xs i u] by blast
  then show "r \<le> u" using a by auto
qed

lemma ccmp_step:
  assumes i: "in_step ta kt kr" "sealable ta (k_cipher kt) m" "mem_ok env" "prims_ok pr"
    and t: "unat (k_tsc kt) + 1 < 2 ^ 48"
    and c: "k_cipher kt = CIPHER_CCMP" "k_priv kt = Some (Ccmp_Ctx a)" "k_priv kr = Some (Ccmp_Ctx a)"
  shows "step_ok env pr ta kt kr m"
proof -
  let ?kt = "kt\<lparr>k_tsc := k_tsc kt + 1\<rparr>" and ?E = "pr_aes_enc pr a"
  note t1 = succ_less [OF t]
  obtain f where e: "ccmp_encrypt env ?E m kt = (Inr f, ?kt)"
    using i(3) by (auto simp: ccmp_encrypt_def mem_ok_def Let_def case_prod_beta)
  have "get_rsc (rsc_ref m) kr \<le> k_tsc kt"
    using i(1) qos_tid_lt [of m] by (auto simp: get_rsc_def rsc_ref_def step_defs)
  then have "ccmp_decrypt env ?E f kr = (Inr (clear_protected m), set_rsc (rsc_ref m) (k_tsc ?kt) kr)"
    using i t1 cipher_block_fun [OF prims_cipher [OF i(4)]]
    by (intro ccmp_roundtrip [OF e]) (auto simp: sealable_def mem_ok_def)
  moreover have "in_step ta ?kt (set_rsc (rsc_ref m) (k_tsc ?kt) kr)"
    using i(1) c t1 set_upd_le [of "k_rsc kr" "k_tsc kt" "k_tsc kt + 1"]
    by (auto simp: step_defs set_rsc_def rsc_ref_def)
  ultimately show ?thesis
    unfolding step_ok_def using e i(1) c t1
    by (intro exI [of _ f] exI [of _ ?kt] exI [of _ "set_rsc (rsc_ref m) (k_tsc ?kt) kr"])
      (auto simp: encrypt_def key_decrypt_def step_defs)
qed

lemma bip_step:
  assumes i: "in_step ta kt kr" "sealable ta (k_cipher kt) m" "mem_ok env" "prims_ok pr"
    and t: "unat (k_tsc kt) + 1 < 2 ^ 48"
    and c: "k_cipher kt = CIPHER_BIP" "k_priv kt = Some (Bip_Ctx a)" "k_priv kr = Some (Bip_Ctx a)"
      "k_mgmt_rsc kr < k_tsc kt"
  shows "step_ok env pr ta kt kr m"
proof -
  let ?kt = "kt\<lparr>k_tsc := k_tsc kt + 1\<rparr>" and ?kr = "kr\<lparr>k_mgmt_rsc := k_tsc kt\<rparr>"
  note t1 = succ_less [OF t]
  have p: "pn48 (k_tsc kt)" using t by (simp add: pn48_def word_less_nat_alt)
  obtain f where e: "bip_encap env (pr_aes_enc pr a) m kt = (Inr f, ?kt)"
    using i(3) by (simp add: bip_encap_def mem_ok_def Let_def)
  have "24 \<le> length m" using i(2) hdrlen_ge(1) [of m] by (simp add: sealable_def)
  then have "bip_decap (pr_aes_enc pr a) f kr = (Inr (clear_protected m), ?kr)"
    by (rule bip_roundtrip [OF e _ p c(4) prims_cipher [OF i(4)]])
  moreover have "in_step ta ?kt ?kr"
    using i(1) c t1 by (auto simp: step_defs)
  ultimately show ?thesis
    unfolding step_ok_def using e i(1) c t1
    by (intro exI [of _ f] exI [of _ ?kt] exI [of _ ?kr]) (auto simp: encrypt_def key_decrypt_def step_defs)
qed


lemma drop_bit_word_mono: "x \<le> y \<Longrightarrow> drop_bit n x \<le> drop_bit n (y :: u64)"
  by (simp add: word_le_nat_alt unat_drop_bit div_le_mono)

lemma same_high_part:
  assumes "r \<in> set xs" "\<forall>x \<in> set xs. x \<le> t" "drop_bit 16 r = drop_bit 16 (t :: u64)"
  shows "drop_bit 16 (Max (set xs)) = drop_bit 16 t"
proof (rule antisym)
  show "drop_bit 16 (Max (set xs)) \<le> drop_bit 16 t"
    using assms(1,2) by (intro drop_bit_word_mono) (metis List.finite_set Max_in empty_iff)
  show "drop_bit 16 t \<le> drop_bit 16 (Max (set xs))"
    unfolding assms(3) [symmetric] using assms(1) by (intro drop_bit_word_mono) simp
qed

lemma Max_list_update:
  assumes "\<forall>x \<in> set xs. x \<le> (t :: u64)" "i < length xs"
  shows "Max (set (xs[i := t])) = t"
proof (rule Max_eqI)
  show "t \<in> set (xs[i := t])" by (rule set_update_memI [OF assms(2)])
  show "y \<le> t" if "y \<in> set (xs[i := t])" for y using set_upd_le [of xs t t i] assms(1) that by simp
qed simp

lemma tkip_step:
  assumes i: "in_step ta kt kr" "sealable ta (k_cipher kt) m" "mem_ok env"
    and t: "unat (k_tsc kt) + 1 < 2 ^ 48"
    and c: "k_cipher kt = CIPHER_TKIP" "k_priv kt = Some (Tkip_Ctx ct)" "k_priv kr = Some (Tkip_Ctx cr)"
  shows "step_ok env pr ta kt kr m"
proof -
  define tid where "tid = unat (qos_tid m)"
  let ?t = "k_tsc kt + 1" and ?rsc = "(k_rsc kr)[tid := k_tsc kt + 1]"
  define kt0 where "kt0 = kt\<lparr>k_tsc := ?t\<rparr>"
  define ct' where "ct' = tx_ttak m kt0 ct"
  define kt' where "kt' = kt0\<lparr>k_priv := Some (Tkip_Ctx ct')\<rparr>"
  note t1 = succ_less [OF t]
  have m: "bytes_at m 10 6 = ta" "unat (qos_tid m) = tid" "get_hdrlen m \<le> length m" "tid < 16"
    using i(2) c(1) qos_tid_lt [of m] by (auto simp: sealable_def tid_def)
  have k: "k_key kr = k_key kt" "length (k_rsc kr) = 16" "tk_rxmic cr = tk_txmic ct"
    "k_rsc kr ! tid \<le> k_tsc kt" "k_tsc kt' = ?t"
    using i(1) c m(4) by (auto simp: step_defs kt'_def kt0_def)
  have le: "\<forall>r \<in> set (k_rsc kr). r \<le> ?t" using i(1) t1 by (auto simp: step_defs)
  have cache: "tx_cache_ok m kt ct" using i(1) c m by (auto simp: step_defs tx_cache_ok_def ttak_def)
  have "rx_cache_fits m (k_tsc kt') kr cr"
    unfolding rx_cache_fits_def m(2) k(5)
  proof safe
    assume a: "tk_rxttak_ok cr" "drop_bit 16 ?t = drop_bit 16 (k_rsc kr ! tid)"
    have "drop_bit 16 (Max (set (k_rsc kr))) = drop_bit 16 ?t"
      by (rule same_high_part [OF _ le a(2) [symmetric]]) (use m(4) k(2) in simp)
    then show "tk_rxttak cr = ttak m ?t kr" using i(1) a(1) c m(1) by (simp add: step_defs ttak_def)
  qed
  note cache = cache this
  obtain f where e: "tkip_encrypt env ct m kt = (Inr f, kt')"
    using i(3) by (simp add: tkip_encrypt_def mem_ok_def Let_def kt'_def ct'_def kt0_def)
  obtain cr' where d: "tkip_decrypt env cr f kr =
      (Inr (clear_protected m), kr\<lparr>k_rsc := ?rsc, k_priv := Some (Tkip_Ctx cr')\<rparr>)"
    and r: "tk_rxttak cr' = ttak m ?t kr" "tk_rxmic cr' = tk_rxmic cr"
  proof -
    have "pn48 (k_tsc kt')" "k_rsc kr ! unat (qos_tid m) < k_tsc kt'" "ce_first env" "ce_rest env"
      using i(3) t1 k(4,5) m(2) by (auto simp: mem_ok_def)
    from tkip_roundtrip [OF e m(3) this(1,2) k(1,3) cache this(3,4)] that show thesis
      unfolding m(2) k(5) by blast
  qed
  have tx: "tk_txttak ct' = Phase1 (k_key kt) ta (ucast (drop_bit 16 ?t))"
    using tx_ttak_correct [OF cache(1) kt0_def] m by (simp add: ct'_def ttak_def kt0_def)
  let ?kr = "kr\<lparr>k_rsc := ?rsc, k_priv := Some (Tkip_Ctx cr')\<rparr>"
  have mx: "Max (set ?rsc) = ?t" by (rule Max_list_update [OF le]) (use m(4) k(2) in simp)
  have le': "\<forall>r \<in> set ?rsc. r \<le> ?t" by (rule set_upd_le [OF le order_refl])
  have f': "k_flags kt' = k_flags kt" "k_cipher kt' = k_cipher kt" "k_key kt' = k_key kt" "k_len kt' = k_len kt"
    "k_tsc kt' = ?t" "k_priv kt' = Some (Tkip_Ctx ct')" "tk_txmic ct' = tk_txmic ct"
    by (simp_all add: kt'_def kt0_def ct'_def)
  have cx: "ctx_in_step ta kt' ?kr"
    using tx r(2) k(1,3) m(1) c(1) by (simp add: ctx_in_step_def f' mx r(1) ttak_def)
  have old: "has_flag (k_flags kt) KEY_SWCRYPTO" "has_flag (k_flags kr) KEY_SWCRYPTO" "k_cipher kr = k_cipher kt"
    "k_len kr = k_len kt" "k_mgmt_rsc kr \<le> ?t"
    using i(1) t1 by (auto simp: step_defs)
  have "in_step ta kt' ?kr"
    unfolding in_step_def keys_agree_def first_refused_def using old k(1,2) cx le' c(1) by (simp add: f')
  then show ?thesis
    unfolding step_ok_def using e d t1 old(1,2,3) c
    by (intro exI [of _ f] exI [of _ kt'] exI [of _ ?kr]) (simp add: encrypt_def key_decrypt_def f')
qed

lemma seal_open_step:
  assumes "in_step ta kt kr" "sealable ta (k_cipher kt) m" "mem_ok env" "prims_ok pr"
    "unat (k_tsc kt) + 1 < 2 ^ 48"
  shows "step_ok env pr ta kt kr m"
proof -
  from assms(1) show ?thesis
    by (rule in_step_cases)
      (rule wep_step tkip_step ccmp_step bip_step; (rule assms)?; assumption?)+
qed

lemma stream_opens:
  assumes "prims_ok pr" "mem_ok env"
  shows "in_step ta kt kr \<Longrightarrow> \<forall>m \<in> set ms. sealable ta (k_cipher kt) m
    \<Longrightarrow> unat (k_tsc kt) + length ms < 2 ^ 48
    \<Longrightarrow> stream env pr kt kr ms = map (\<lambda>m. Inr (clear_protected m)) ms"
proof (induction ms arbitrary: kt kr)
  case (Cons m ms)
  have "step_ok env pr ta kt kr m"
    using Cons.prems assms by (intro seal_open_step) auto
  then obtain f kt' kr' where s: "encrypt env pr m kt = (Inr f, kt')"
    "key_decrypt env pr f kr = (Inr (clear_protected m), kr')" "in_step ta kt' kr'"
    "k_cipher kt' = k_cipher kt" "unat (k_tsc kt') \<le> unat (k_tsc kt) + 1"
    by (auto simp: step_ok_def)
  then show ?case using Cons.IH [OF s(3)] Cons.prems by simp
qed simp


lemma bip_first_refused:
  assumes a: "keys_agree ta kt kr" "first_refused kt kr" and e: "mem_ok env" "prims_ok pr"
    and t: "unat (k_tsc kt) + 1 < 2 ^ 48"
  shows "\<exists>f kt'. encrypt env pr m kt = (Inr f, kt') \<and> key_decrypt env pr f kr = (Inl Cmac_Replay, kr) \<and>
    in_step ta kt' kr \<and> k_cipher kt' = k_cipher kt \<and> unat (k_tsc kt') = unat (k_tsc kt) + 1"
proof -
  let ?kt = "kt\<lparr>k_tsc := k_tsc kt + 1\<rparr>"
  note t1 = succ_less [OF t]
  obtain x where c: "k_cipher kt = CIPHER_BIP" "k_priv kt = Some (Bip_Ctx x)" "k_priv kr = Some (Bip_Ctx x)"
    using a by (auto simp: step_defs split: option.splits key_ctx.splits)
  have p: "pn48 (k_tsc kt)" using t by (simp add: pn48_def word_less_nat_alt)
  obtain f where f: "bip_encap env (pr_aes_enc pr x) m kt = (Inr f, ?kt)"
    using e(1) by (simp add: bip_encap_def mem_ok_def Let_def)
  have "bip_ipn f = k_tsc kt" by (rule bip_encap_ipn [OF f p prims_cipher [OF e(2)]])
  then have "bip_decap (pr_aes_enc pr x) f kr = (Inl Cmac_Replay, kr)"
    using a(2) by (simp add: bip_decap_def first_refused_def Let_def)
  moreover have "in_step ta ?kt kr" using a c t1 by (auto simp: step_defs)
  ultimately show ?thesis
    using f a(1) c t1 by (intro exI [of _ f] exI [of _ ?kt]) (auto simp: encrypt_def key_decrypt_def keys_agree_def)
qed

text \<open>What the other end has: all frames, or all but the first.\<close>

definition opened_stream :: "iee_key \<Rightarrow> iee_key \<Rightarrow> mbuf list \<Rightarrow> (crypt_error + mbuf) list" where
  "opened_stream kt kr ms =
     (if first_refused kt kr
      then map (\<lambda>m. Inl Cmac_Replay) (take 1 ms) @ map (\<lambda>m. Inr (clear_protected m)) (drop 1 ms)
      else map (\<lambda>m. Inr (clear_protected m)) ms)"

lemma stream_outcome:
  assumes "prims_ok pr" "mem_ok env" "keys_agree ta kt kr" "\<forall>m \<in> set ms. sealable ta (k_cipher kt) m"
    "unat (k_tsc kt) + length ms < 2 ^ 48"
  shows "stream env pr kt kr ms = opened_stream kt kr ms"
proof (cases "first_refused kt kr")
  case False
  then show ?thesis using stream_opens [OF assms(1,2) _ assms(4,5)] assms(3) by (simp add: in_step_def opened_stream_def)
next
  case True
  show ?thesis
  proof (cases ms)
    case (Cons m xs)
    have "unat (k_tsc kt) + 1 < 2 ^ 48" using assms(5) Cons by simp
    from bip_first_refused [OF assms(3) True assms(2,1) this] obtain f kt' where
      f: "encrypt env pr m kt = (Inr f, kt')" "key_decrypt env pr f kr = (Inl Cmac_Replay, kr)" "in_step ta kt' kr"
        "k_cipher kt' = k_cipher kt" "unat (k_tsc kt') = unat (k_tsc kt) + 1"
      by blast
    have "stream env pr kt' kr xs = map (\<lambda>m. Inr (clear_protected m)) xs"
      by (rule stream_opens [OF assms(1,2) f(3)]) (use assms(4,5) f Cons in auto)
    then show ?thesis using f True Cons by (simp add: opened_stream_def)
  qed (simp add: opened_stream_def)
qed

end
