(* ===== verification/CipherReplay.thy ===== *)
theory CipherReplay
  imports CipherStream Supplicant
begin

text \<open>
  Replay protection of the software ciphers, and two places where it does not work as meant.
\<close>

section \<open>Accepted numbers\<close>

text \<open>The packet number of a frame under a key, and the counter it is checked against.\<close>

definition frame_number :: "iee_key \<Rightarrow> mbuf \<Rightarrow> (u64 \<times> nat option) option" where
  "frame_number k m =
     (if k_cipher k = CIPHER_TKIP then map_option (\<lambda>(tsc, tid). (tsc, Some tid)) (tkip_get_tsc m)
      else if k_cipher k = CIPHER_CCMP then ccmp_get_pn m
      else if k_cipher k = CIPHER_BIP then Some (bip_ipn m, None) else None)"

definition counts :: "iee_key \<Rightarrow> bool" where
  "counts k \<longleftrightarrow> k_cipher k \<in> {CIPHER_TKIP, CIPHER_CCMP, CIPHER_BIP} \<and> length (k_rsc k) = 16"

definition valid_counter :: "nat option \<Rightarrow> bool" where
  "valid_counter c \<longleftrightarrow> (case c of None \<Rightarrow> True | Some i \<Rightarrow> i < 16)"

lemma ccmp_get_pn_valid: "ccmp_get_pn m = Some (pn, c) \<Longrightarrow> valid_counter c"
  using qos_tid_lt [of m] by (auto simp: ccmp_get_pn_def Let_def valid_counter_def split: if_splits)

lemma tkip_get_tsc_valid: "tkip_get_tsc m = Some (pn, i) \<Longrightarrow> i < 16"
  using qos_tid_lt [of m] by (auto simp: tkip_get_tsc_def Let_def split: if_splits)

lemma get_set_rsc:
  "length (k_rsc k) = 16 \<Longrightarrow> valid_counter c
    \<Longrightarrow> get_rsc c' (set_rsc c pn k) = (if c' = c then pn else get_rsc c' k)"
  by (auto simp: get_rsc_def set_rsc_def valid_counter_def nth_list_update split: option.splits)

lemma ccmp_decrypt_cases:
  "ccmp_decrypt env E m k = (res, k') \<Longrightarrow>
     (\<exists>e. res = Inl e \<and> k' = k) \<or>
     (\<exists>n pn c. res = Inr n \<and> ccmp_get_pn m = Some (pn, c) \<and> get_rsc c k < pn \<and> k' = set_rsc c pn k)"
  by (auto simp: ccmp_decrypt_def Let_def case_prod_beta split: if_splits option.splits prod.splits)

lemma tkip_decrypt_cases:
  "tkip_decrypt env ctx m k = (res, k') \<Longrightarrow>
     (\<exists>e p. res = Inl e \<and> (k' = k \<or> k' = k\<lparr>k_priv := p\<rparr>)) \<or>
     (\<exists>n pn i p. res = Inr n \<and> tkip_get_tsc m = Some (pn, i) \<and> k_rsc k ! i < pn \<and>
        k' = (set_rsc (Some i) pn k)\<lparr>k_priv := p\<rparr>)"
  by (auto simp: tkip_decrypt_def Let_def set_rsc_def split: if_splits option.splits prod.splits)

lemma bip_decap_cases:
  "bip_decap E m k = (res, k') \<Longrightarrow>
     (\<exists>e. res = Inl e \<and> k' = k) \<or>
     (\<exists>n. res = Inr n \<and> get_rsc None k < bip_ipn m \<and> k' = set_rsc None (bip_ipn m) k)"
  by (auto simp: bip_decap_def Let_def get_rsc_def set_rsc_def split: if_splits)

definition same_counters :: "iee_key \<Rightarrow> iee_key \<Rightarrow> bool" where
  "same_counters k k' \<longleftrightarrow> k_cipher k' = k_cipher k \<and> k_rsc k' = k_rsc k \<and> k_mgmt_rsc k' = k_mgmt_rsc k"

lemma key_decrypt_cases:
  assumes "key_decrypt env pr m k = (res, k')" "counts k"
  shows "(\<exists>e. res = Inl e \<and> same_counters k k') \<or>
    (\<exists>n pn c. res = Inr n \<and> frame_number k m = Some (pn, c) \<and> valid_counter c \<and> get_rsc c k < pn \<and>
       same_counters (set_rsc c pn k) k')"
proof -
  consider "k' = k \<and> (\<exists>e. res = Inl e)"
    | ctx where "k_cipher k = CIPHER_TKIP" "tkip_decrypt env ctx m k = (res, k')"
    | E where "k_cipher k = CIPHER_CCMP" "ccmp_decrypt env E m k = (res, k')"
    | E where "k_cipher k = CIPHER_BIP" "bip_decap E m k = (res, k')"
    using assms by (auto simp: key_decrypt_def counts_def Let_def split: if_splits option.splits key_ctx.splits)
  then show ?thesis
  proof cases
    case 1
    then show ?thesis by (auto simp: same_counters_def)
  next
    case 2
    then show ?thesis using tkip_decrypt_cases [OF 2(2)] tkip_get_tsc_valid [of m]
      by (auto simp: same_counters_def frame_number_def valid_counter_def get_rsc_def)
  next
    case 3
    then show ?thesis using ccmp_decrypt_cases [OF 3(2)] ccmp_get_pn_valid [of m]
      by (fastforce simp: same_counters_def frame_number_def)
  next
    case 4
    then show ?thesis using bip_decap_cases [OF 4(2)]
      by (auto simp: same_counters_def frame_number_def valid_counter_def)
  qed
qed

text \<open>The numbers of the frames accepted in a run, each with its counter.\<close>

fun accepted :: "prims \<Rightarrow> (crypt_env \<times> mbuf) list \<Rightarrow> iee_key \<Rightarrow> (u64 \<times> nat option) list" where
  "accepted pr [] k = []"
| "accepted pr ((env, m) # fs) k =
     (case key_decrypt env pr m k of
        (Inl _, k') \<Rightarrow> accepted pr fs k'
      | (Inr _, k') \<Rightarrow> (case frame_number k m of None \<Rightarrow> [] | Some a \<Rightarrow> [a]) @ accepted pr fs k')"

definition numbers :: "nat option \<Rightarrow> (u64 \<times> nat option) list \<Rightarrow> u64 list" where
  "numbers c as = map fst (filter (\<lambda>a. snd a = c) as)"

lemma numbers_simps [simp]:
  "numbers c [] = []" "numbers c ((pn, d) # as) = (if d = c then pn # numbers c as else numbers c as)"
  by (simp_all add: numbers_def)

lemma same_counters_get: "same_counters k k' \<Longrightarrow> get_rsc c k' = get_rsc c k"
  by (auto simp: same_counters_def get_rsc_def split: option.splits)

lemma same_counters_counts: "same_counters k k' \<Longrightarrow> counts k' = counts k"
  by (simp add: same_counters_def counts_def)

lemma set_rsc_counts [simp]: "counts (set_rsc c pn k) = counts k"
  by (auto simp: set_rsc_def counts_def split: option.splits)

text \<open>C7. In any run of received frames under a TKIP, CCMP or BIP key, genuine or not and with any
  allocation failures, the packet numbers of the accepted frames that are checked against the same
  counter strictly increase and exceed the counter at the start: no frame is accepted twice.\<close>

theorem accepted_numbers_increase:
  assumes "counts k"
  shows "sorted_wrt (<) (get_rsc c k # numbers c (accepted pr fs k))"
  using assms
proof (induction fs arbitrary: k)
  case (Cons f fs)
  obtain env m where f: "f = (env, m)" by fastforce
  obtain res k' where d: "key_decrypt env pr m k = (res, k')" by fastforce
  from key_decrypt_cases [OF d Cons.prems] show ?case
  proof (elim disjE exE conjE)
    fix e assume r: "res = Inl e" "same_counters k k'"
    then show ?thesis
      using Cons.IH [of k'] Cons.prems d f same_counters_get [OF r(2)] same_counters_counts [OF r(2)] by simp
  next
    fix n pn c' assume r: "res = Inr n" "frame_number k m = Some (pn, c')" "valid_counter c'"
      "get_rsc c' k < pn" "same_counters (set_rsc c' pn k) k'"
    have "get_rsc c k' = (if c = c' then pn else get_rsc c k)"
      using Cons.prems r by (simp add: same_counters_get [OF r(5)] get_set_rsc counts_def)
    then show ?thesis
      using Cons.IH [of k'] Cons.prems d f r same_counters_counts [OF r(5)]
      by (auto split: if_splits)
  qed
qed simp


definition demo_env :: crypt_env where
  "demo_env = \<lparr>ce_first = True, ce_rest = True, ce_random = 7\<rparr>"

definition demo_sw_key :: "u32 \<Rightarrow> u64 \<Rightarrow> key_ctx \<Rightarrow> iee_key" where
  "demo_sw_key cipher tsc ctx = zero_key\<lparr>k_cipher := cipher, k_flags := KEY_SWCRYPTO, k_len := 16,
     k_key := replicate 32 9, k_tsc := tsc, k_priv := Some ctx\<rparr>"

definition demo_data :: "u8 \<Rightarrow> mbuf" where
  "demo_data x = [0x88, 0x41] @ replicate 22 1 @ [5, 0] @ [x, 2, 3]"

theorem accepted_numbers_increase_witness:
  "sorted_wrt (<) (get_rsc None (demo_sw_key CIPHER_BIP 0 (Bip_Ctx [9]))
     # numbers None (accepted demo_prims [(demo_env, demo_data 1), (demo_env, demo_data 2)]
         (demo_sw_key CIPHER_BIP 0 (Bip_Ctx [9]))))"
  by (rule accepted_numbers_increase) (simp add: counts_def demo_sw_key_def zero_key_def)

text \<open>C6. Two ends hold the same WEP, TKIP, CCMP or BIP key in software, with no receive counter above the transmit counter
  (\<^const>\<open>keys_agree\<close>), and memory is available: of the frames that one end seals in turn, complete
  frames of any priorities and, under TKIP, of one transmitter address, the other end opens every one to the frame as it
  was, with the protected bit cleared.  There is one exception: when the receiver has the transmit counter of
  a BIP key as already used, which is the state after a key exchange, the first frame is refused as a replay
  and all others are opened.  The transmit counter must stay below its 48 bits, and the primitives are as
  documented (\<^const>\<open>prims_ok\<close>: lengths of digests, decryption of AES blocks inverts encryption).\<close>

theorem sealed_stream_opens:
  assumes "prims_ok pr" "mem_ok env" "keys_agree ta kt kr"
    "\<forall>m \<in> set ms. sealable ta (k_cipher kt) m" "unat (k_tsc kt) + length ms < 2 ^ 48"
  shows "stream env pr kt kr ms =
    (if first_refused kt kr
     then map (\<lambda>m. Inl Cmac_Replay) (take 1 ms) @ map (\<lambda>m. Inr (clear_protected m)) (drop 1 ms)
     else map (\<lambda>m. Inr (clear_protected m)) ms)"
  using stream_outcome [OF assms] by (simp only: opened_stream_def)

lemma demo_data_hdrlen: "get_hdrlen (demo_data x) = 26"
  by (simp add: get_hdrlen_def has_addr4_def has_qos_def has_htc_def fc0_type_def demo_data_def has_flag_def)

theorem sealed_stream_opens_witness:
  "stream demo_env demo_prims (demo_sw_key CIPHER_CCMP 4 (Ccmp_Ctx [9])) (demo_sw_key CIPHER_CCMP 0 (Ccmp_Ctx [9]))
     [demo_data 7, demo_data 8] = [Inr (clear_protected (demo_data 7)), Inr (clear_protected (demo_data 8))] \<and>
   stream demo_env demo_prims (demo_sw_key CIPHER_BIP 0 (Bip_Ctx [9])) (demo_sw_key CIPHER_BIP 0 (Bip_Ctx [9]))
     [demo_data 7, demo_data 8] = [Inl Cmac_Replay, Inr (clear_protected (demo_data 8))]"
proof
  note defs = mem_ok_def demo_env_def step_defs demo_sw_key_def zero_key_def has_flag_def sealable_def
  have "stream demo_env demo_prims (demo_sw_key CIPHER_CCMP 4 (Ccmp_Ctx [9])) (demo_sw_key CIPHER_CCMP 0 (Ccmp_Ctx [9]))
     [demo_data 7, demo_data 8] = map (\<lambda>m. Inr (clear_protected m)) [demo_data 7, demo_data 8]"
    by (subst sealed_stream_opens [OF demo_prims_ok, where ta = "[]"])
      (simp_all add: defs demo_data_hdrlen, simp_all add: demo_data_def)
  then show "stream demo_env demo_prims (demo_sw_key CIPHER_CCMP 4 (Ccmp_Ctx [9])) (demo_sw_key CIPHER_CCMP 0 (Ccmp_Ctx [9]))
     [demo_data 7, demo_data 8] = [Inr (clear_protected (demo_data 7)), Inr (clear_protected (demo_data 8))]" by simp
  show "stream demo_env demo_prims (demo_sw_key CIPHER_BIP 0 (Bip_Ctx [9])) (demo_sw_key CIPHER_BIP 0 (Bip_Ctx [9]))
     [demo_data 7, demo_data 8] = [Inl Cmac_Replay, Inr (clear_protected (demo_data 8))]"
    by (subst sealed_stream_opens [OF demo_prims_ok, where ta = "[]"])
      (simp_all add: defs demo_data_hdrlen, simp_all add: demo_data_def)
qed

section \<open>Contexts\<close>

text \<open>A key marked for software encryption has the context of its cipher.\<close>

definition ctx_ok :: "iee_key \<Rightarrow> bool" where
  "ctx_ok k \<longleftrightarrow> (has_flag (k_flags k) KEY_SWCRYPTO \<longrightarrow> (case k_priv k of
      Some (Wep_Ctx _) \<Rightarrow> k_cipher k \<in> {CIPHER_WEP40, CIPHER_WEP104}
    | Some (Tkip_Ctx _) \<Rightarrow> k_cipher k = CIPHER_TKIP
    | Some (Ccmp_Ctx _) \<Rightarrow> k_cipher k = CIPHER_CCMP
    | Some (Bip_Ctx _) \<Rightarrow> k_cipher k = CIPHER_BIP
    | None \<Rightarrow> False))"

datatype key_use = Seal crypt_env mbuf | Open crypt_env mbuf

definition use_key :: "prims \<Rightarrow> key_use \<Rightarrow> iee_key \<Rightarrow> iee_key" where
  "use_key pr u k = snd (case u of Seal env m \<Rightarrow> encrypt env pr m k | Open env m \<Rightarrow> key_decrypt env pr m k)"

lemma set_key_ctx_ok:
  "set_key alloc apple om k = (err, k') \<Longrightarrow> \<not> has_flag (k_flags k) KEY_SWCRYPTO \<Longrightarrow> ctx_ok k'"
  by (auto simp: set_key_def ctx_ok_def wep_set_key_def tkip_set_key_def ccmp_set_key_def bip_set_key_def Let_def
      split: if_splits)

lemma ctx_ok_cases:
  "ctx_ok k \<Longrightarrow> has_flag (k_flags k) KEY_SWCRYPTO \<Longrightarrow>
     (\<exists>iv. k_cipher k \<in> {CIPHER_WEP40, CIPHER_WEP104} \<and> k_priv k = Some (Wep_Ctx iv)) \<or>
     (\<exists>c. k_cipher k = CIPHER_TKIP \<and> k_priv k = Some (Tkip_Ctx c)) \<or>
     (\<exists>a. k_cipher k = CIPHER_CCMP \<and> k_priv k = Some (Ccmp_Ctx a)) \<or>
     (\<exists>a. k_cipher k = CIPHER_BIP \<and> k_priv k = Some (Bip_Ctx a))"
  by (auto simp: ctx_ok_def split: option.splits key_ctx.splits)

lemma encrypt_ctx:
  assumes "ctx_ok k"
  shows "fst (encrypt env pr m k) \<notin> {Inl Bad_Ctx, Inl Panic} \<and> ctx_ok (snd (encrypt env pr m k))"
proof (cases "has_flag (k_flags k) KEY_SWCRYPTO")
  case True
  from ctx_ok_cases [OF assms True] show ?thesis
    by (elim disjE exE conjE)
      (auto simp: encrypt_def True ctx_ok_def wep_encrypt_def tkip_encrypt_def ccmp_encrypt_def bip_encap_def
        Let_def case_prod_beta)
qed (use assms in \<open>simp add: encrypt_def ctx_ok_def\<close>)

lemma key_decrypt_ctx:
  assumes "ctx_ok k"
  shows "fst (key_decrypt env pr m k) \<notin> {Inl Bad_Ctx, Inl Panic} \<and> ctx_ok (snd (key_decrypt env pr m k))"
proof (cases "has_flag (k_flags k) KEY_SWCRYPTO")
  case True
  from ctx_ok_cases [OF assms True] show ?thesis
    by (elim disjE exE conjE)
      (auto simp: key_decrypt_def True ctx_ok_def wep_decrypt_def tkip_decrypt_def ccmp_decrypt_def bip_decap_def
        set_rsc_def Let_def case_prod_beta split: option.splits prod.splits)
qed (use assms in \<open>simp add: key_decrypt_def ctx_ok_def\<close>)

lemma use_key_ctx: "ctx_ok k \<Longrightarrow> ctx_ok (fold (use_key pr) us k)"
  by (induction us arbitrary: k)
    (auto simp: use_key_def encrypt_ctx key_decrypt_ctx split: key_use.splits)

text \<open>C8. A key set up by \<^verbatim>\<open>ieee80211_set_key\<close>, successfully or not, keeps the context of its cipher
  under any sequence of encryptions and decryptions: no cipher function ever reads a null context or
  the one of another cipher, and the invalid-cipher panic is not reached.\<close>

theorem software_key_typed:
  assumes "set_key alloc apple om k = (err, k0)" "\<not> has_flag (k_flags k) KEY_SWCRYPTO"
  shows "ctx_ok (fold (use_key pr) us k0) \<and>
    fst (encrypt env pr m (fold (use_key pr) us k0)) \<notin> {Inl Bad_Ctx, Inl Panic} \<and>
    fst (key_decrypt env pr m (fold (use_key pr) us k0)) \<notin> {Inl Bad_Ctx, Inl Panic}"
  using use_key_ctx [OF set_key_ctx_ok [OF assms]] encrypt_ctx key_decrypt_ctx by blast

theorem software_key_typed_witness:
  "ctx_ok (fold (use_key demo_prims) [Seal demo_env (demo_data 3), Open demo_env (demo_data 4)]
     (snd (set_key True False M_STA (zero_key\<lparr>k_cipher := CIPHER_CCMP\<rparr>))))"
proof -
  have "\<not> has_flag (k_flags (zero_key\<lparr>k_cipher := CIPHER_CCMP\<rparr>)) KEY_SWCRYPTO"
    by (simp add: zero_key_def has_flag_def)
  from software_key_typed [OF surjective_pairing this] show ?thesis by blast
qed

section \<open>Management frames after a key exchange\<close>

lemma igtk_key_ipn: "pn48 (k_tsc k) \<Longrightarrow> k_mgmt_rsc (igtk_key kid cipher (igtk_kde k)) = k_tsc k"
  by (simp add: igtk_key_def igtk_kde_def IEEE80211_OUI_def LE_WRITE_2_def LE_READ_WRITE_6)

text \<open>A station that installs the integrity key from the key data of the access point takes the
  packet number in it as already used, and the access point uses it for the next frame, because it
  increments the number after use: the first protected management frame after the exchange is
  refused as a replay, the second is accepted.\<close>

theorem igtk_first_frame_refused:
  assumes "cipher_pair E D" "24 \<le> length m" "unat (k_tsc k) + 1 < 2 ^ 48"
    "bip_encap env E m k = (Inr f, k1)" "bip_encap env E m k1 = (Inr g, k2)"
    "sta = igtk_key kid cipher (igtk_kde k)"
  shows "bip_decap E f sta = (Inl Cmac_Replay, sta) \<and>
    bip_decap E g sta = (Inr (clear_protected m), sta\<lparr>k_mgmt_rsc := k_tsc k1\<rparr>)"
proof -
  note t = succ_less [OF assms(3)]
  have p: "pn48 (k_tsc k)" using assms(3) by (simp add: pn48_def word_less_nat_alt)
  have k1: "k_tsc k1 = k_tsc k + 1" using assms(4) by (auto simp: bip_encap_def Let_def split: if_splits)
  have sta: "k_mgmt_rsc sta = k_tsc k" using assms(6) igtk_key_ipn [OF p] by simp
  have "bip_ipn f = k_tsc k" by (rule bip_encap_ipn [OF assms(4) p assms(1)])
  then have "bip_decap E f sta = (Inl Cmac_Replay, sta)" by (simp add: bip_decap_def sta Let_def)
  moreover have "bip_decap E g sta = (Inr (clear_protected m), sta\<lparr>k_mgmt_rsc := k_tsc k1\<rparr>)"
    using t k1 sta by (intro bip_roundtrip [OF assms(5,2) _ _ assms(1)]) simp_all
  ultimately show ?thesis ..
qed

definition demo_igtk :: iee_key where
  "demo_igtk = demo_sw_key CIPHER_BIP 41 (Bip_Ctx [9])"

definition demo_mgmt :: mbuf where
  "demo_mgmt = [0xc0, 0] @ replicate 22 1 @ [7, 0]"

theorem igtk_first_frame_refused_witness:
  "\<exists>f g. bip_decap rev f (igtk_key 4 CIPHER_BIP (igtk_kde demo_igtk))
      = (Inl Cmac_Replay, igtk_key 4 CIPHER_BIP (igtk_kde demo_igtk))
    \<and> fst (bip_decap rev g (igtk_key 4 CIPHER_BIP (igtk_kde demo_igtk))) = Inr demo_mgmt"
proof -
  let ?k1 = "demo_igtk\<lparr>k_tsc := 42\<rparr>"
  obtain f where f: "bip_encap demo_env rev demo_mgmt demo_igtk = (Inr f, ?k1)"
    by (simp add: bip_encap_def demo_env_def Let_def demo_igtk_def demo_sw_key_def)
  obtain g where g: "bip_encap demo_env rev demo_mgmt ?k1 = (Inr g, demo_igtk\<lparr>k_tsc := 43\<rparr>)"
    by (simp add: bip_encap_def demo_env_def Let_def demo_igtk_def demo_sw_key_def)
  let ?sta = "igtk_key 4 CIPHER_BIP (igtk_kde demo_igtk)"
  have "bip_decap rev f ?sta = (Inl Cmac_Replay, ?sta) \<and>
      bip_decap rev g ?sta = (Inr (clear_protected demo_mgmt), ?sta\<lparr>k_mgmt_rsc := k_tsc ?k1\<rparr>)"
    by (rule igtk_first_frame_refused [OF _ _ _ f g refl])
      (auto simp: cipher_pair_def demo_mgmt_def demo_igtk_def demo_sw_key_def)
  moreover have "clear_protected demo_mgmt = demo_mgmt" by (simp add: clear_protected_def demo_mgmt_def)
  ultimately show ?thesis by (intro exI [of _ f] exI [of _ g]) simp
qed

section \<open>The TKIP receive cache\<close>

text \<open>TKIP caches one receive TTAK for all priorities, but decides by the counter of the
  priority of the frame whether the cache is current.  After a frame with number \<open>t1\<close> of one
  priority, a frame \<open>m2\<close> with number \<open>t2\<close> of another priority, whose high part is the one last seen
  for that priority, is decrypted with the TTAK of \<open>t1\<close>, not that of \<open>t2\<close> with which it was sealed.\<close>

theorem tkip_stale_ttak:
  assumes "tkip_decrypt env ctx m1 k = (Inr n, k1)" "rx_cache_ok m1 k ctx"
    "tkip_get_tsc m1 = Some (t1, i)" "k_priv k1 = Some (Tkip_Ctx ctx1)" "j \<noteq> i"
    "drop_bit 16 t2 = drop_bit 16 (k_rsc k ! j)"
  shows "tk_rxttak (rx_ttak m2 t2 (k_rsc k1 ! j) k1 ctx1) = ttak m1 t1 k"
proof -
  have i: "i = unat (qos_tid m1)" using assms(3) by (auto simp: tkip_get_tsc_def Let_def split: if_splits)
  have "ctx1 = rx_ttak m1 t1 (k_rsc k ! i) k ctx\<lparr>tk_rxttak_ok := True\<rparr>" "k_rsc k1 ! j = k_rsc k ! j"
    using assms by (auto simp: tkip_decrypt_def Let_def split: if_splits option.splits prod.splits)
  then show ?thesis
    using rx_ttak_correct [OF assms(2), of t1] assms(6) i by (simp add: rx_ttak_def)
qed


definition demo_tkip :: "u64 \<Rightarrow> iee_key" where
  "demo_tkip tsc = demo_sw_key CIPHER_TKIP tsc (Tkip_Ctx \<lparr>tk_txmic = 16, tk_rxmic = 16,
     tk_txttak = [], tk_rxttak = [], tk_txttak_ok = False, tk_rxttak_ok = False\<rparr>)"

lemma rsc_upd_inj: "k\<lparr>k_rsc := a, k_priv := p\<rparr> = k\<lparr>k_rsc := b, k_priv := q\<rparr> \<Longrightarrow> a = b"
  by (drule arg_cong [where f = k_rsc]) simp

theorem tkip_stale_ttak_witness:
  "\<exists>ctx f n k1 ctx1 j. tkip_decrypt demo_env ctx f (demo_tkip 0) = (Inr n, k1) \<and>
     k_priv k1 = Some (Tkip_Ctx ctx1) \<and> k_rsc k1 ! j = 0 \<and>
     tk_rxttak (rx_ttak (demo_data 1) 5 (k_rsc k1 ! j) k1 ctx1) = ttak f 0x20000 (demo_tkip 0)"
proof -
  define ctx where "ctx = \<lparr>tk_txmic = 16, tk_rxmic = 16, tk_txttak = [], tk_rxttak = [],
     tk_txttak_ok = False, tk_rxttak_ok = False\<rparr>"
  let ?m = "demo_data 7" and ?k = "demo_tkip 0"
  obtain f kt where e: "tkip_encrypt demo_env ctx ?m (demo_tkip 0x1ffff) = (Inr f, kt)" "k_tsc kt = 0x20000"
    by (simp add: tkip_encrypt_def demo_env_def Let_def demo_tkip_def demo_sw_key_def)
  have tid: "qos_tid ?m = 5" "get_hdrlen ?m = 26"
    by (simp_all add: qos_tid_def get_hdrlen_def has_addr4_def has_qos_def has_htc_def fc0_type_def demo_data_def
        has_flag_def get_qos_def LE_READ_2_def byte_at_def)
  obtain c where d: "tkip_decrypt demo_env ctx f ?k =
      (Inr (clear_protected ?m), ?k\<lparr>k_rsc := (k_rsc ?k)[5 := 0x20000], k_priv := Some (Tkip_Ctx c)\<rparr>)"
  proof -
    have "\<exists>c. tkip_decrypt demo_env ctx f ?k = (Inr (clear_protected ?m),
        ?k\<lparr>k_rsc := (k_rsc ?k)[unat (qos_tid ?m) := k_tsc kt], k_priv := Some (Tkip_Ctx c)\<rparr>)"
      using tkip_roundtrip [OF e(1), of ?k ctx demo_env] tid e(2)
      by (auto simp: demo_tkip_def demo_sw_key_def zero_key_def pn48_def tx_cache_ok_def rx_cache_fits_def
          ctx_def demo_env_def demo_data_def)
    then show thesis using that by (auto simp: tid e(2))
  qed
  have rsc: "k_rsc ?k = replicate 16 0" by (simp add: demo_tkip_def demo_sw_key_def zero_key_def)
  obtain t i where g: "tkip_get_tsc f = Some (t, i)" "(k_rsc ?k)[5 := 0x20000] = (k_rsc ?k)[i := t]" "i < 16"
    using tkip_decrypt_cases [OF d] tkip_get_tsc_valid [of f] by (auto simp: set_rsc_def dest: rsc_upd_inj)
  have "(k_rsc ?k)[i := t] ! 5 = 0x20000" unfolding g(2) [symmetric] by (simp add: rsc)
  then have i: "i = 5" "t = 0x20000" using g(3) by (cases "i = 5"; simp add: rsc)+
  define k1 where "k1 = ?k\<lparr>k_rsc := (k_rsc ?k)[5 := 0x20000], k_priv := Some (Tkip_Ctx c)\<rparr>"
  have k1: "k_priv k1 = Some (Tkip_Ctx c)" "k_rsc k1 ! 3 = 0" by (simp_all add: k1_def rsc)
  note d' = d [folded k1_def]
  have "tk_rxttak (rx_ttak (demo_data 1) 5 (k_rsc k1 ! 3) k1 c) = ttak f t ?k"
    by (rule tkip_stale_ttak [OF d' _ g(1) k1(1)]) (simp_all add: rx_cache_ok_def ctx_def i rsc)
  then have "tkip_decrypt demo_env ctx f ?k = (Inr (clear_protected ?m), k1) \<and>
      k_priv k1 = Some (Tkip_Ctx c) \<and> k_rsc k1 ! 3 = 0 \<and>
      tk_rxttak (rx_ttak (demo_data 1) 5 (k_rsc k1 ! 3) k1 c) = ttak f 0x20000 ?k"
    using d' k1 i(2) by simp
  then show ?thesis by blast
qed

end
