(* ===== verification/Rates.thy ===== *)
theory Rates
  imports MgmtFrames
begin

text \<open>
  Rate negotiation: \<^verbatim>\<open>ieee80211_fix_rate\<close> (\<^verbatim>\<open>net80211/ieee80211_proto.c\<close>) and
  \<^verbatim>\<open>ieee80211_setup_rates\<close> (\<^verbatim>\<open>net80211/ieee80211_node.c\<close>).  The array of rates is kept as its
  used part and the rest, so that the number of rates is the length of the used part.
\<close>

abbreviation (input) RATE_BASIC :: u8 where "RATE_BASIC \<equiv> 0x80"
abbreviation (input) RATE_MAXSIZE :: nat where "RATE_MAXSIZE \<equiv> 15"

definition RV :: "u8 \<Rightarrow> u8" where
  "RV v = v AND 0x7f"

definition used_rates :: "rateset \<Rightarrow> u8 list" where
  "used_rates rs = take (unat (rs_nrates rs)) (rs_rates rs)"

text \<open>The flags of the caller.\<close>

record rate_flags =
  do_sort :: bool
  do_frate :: bool
  do_nego :: bool
  do_del :: bool

text \<open>The variables of the loop.\<close>

record fix_state =
  fx_used :: "u8 list"
  fx_tail :: "u8 list"
  fx_ok :: u8
  fx_bad :: u8
  fx_fixed :: u8
  fx_error :: nat

text \<open>The inner loop brings the least of the rates from \<open>i\<close> on to \<open>i\<close>.\<close>

definition sort_step :: "nat \<Rightarrow> u8 list \<Rightarrow> u8 list" where
  "sort_step i rs = fold (\<lambda>j rs. if RV (rs ! i) > RV (rs ! j) then rs[i := rs ! j, j := rs ! i] else rs)
     [i + 1..<length rs] rs"

text \<open>\<open>fixed\<close> is the index of the fixed rate; \<open>srs\<close> are the rates of the mode.\<close>

definition rate_step ::
  "rate_flags \<Rightarrow> rateset \<Rightarrow> nat \<Rightarrow> bool \<Rightarrow> nat \<Rightarrow> fix_state \<Rightarrow> bool \<times> fix_state" where
  "rate_step fl srs fixed hostap i s =
     (let used = (if do_sort fl then sort_step i (fx_used s) else fx_used s);
          r = RV (used ! i);
          s = s\<lparr>fx_bad := r,
                fx_fixed := (if do_frate fl \<and> r = RV (rs_rates srs ! fixed) then r else fx_fixed s)\<rparr>
      in if do_nego fl
         then case List.find (\<lambda>q. r = RV q) (used_rates srs) of
                Some q \<Rightarrow> (False, s\<lparr>fx_used := used[i := q]\<rparr>)
              | None \<Rightarrow> (True, s\<lparr>fx_used := used,
                    fx_error := (if hostap \<and> has_flag (used ! i) RATE_BASIC then fx_error s + 1 else fx_error s)\<rparr>)
         else (False, s\<lparr>fx_used := used\<rparr>))"

definition delete_rate :: "nat \<Rightarrow> fix_state \<Rightarrow> fix_state" where
  "delete_rate i s =
     s\<lparr>fx_used := take i (fx_used s) @ drop (i + 1) (fx_used s), fx_tail := 0 # fx_tail s\<rparr>"

lemma sort_step_length [simp]: "length (sort_step i rs) = length rs"
proof -
  have "length (fold (\<lambda>j rs. if RV (rs ! i) > RV (rs ! j) then rs[i := rs ! j, j := rs ! i] else rs) js rs)
      = length rs" for js
    by (induction js arbitrary: rs) auto
  then show ?thesis by (simp add: sort_step_def)
qed

lemma rate_step_length [simp]:
  "length (fx_used (snd (rate_step fl srs fixed hostap i s))) = length (fx_used s)"
  by (simp add: rate_step_def Let_def split: option.splits)

function fix_loop :: "rate_flags \<Rightarrow> rateset \<Rightarrow> nat \<Rightarrow> bool \<Rightarrow> nat \<Rightarrow> fix_state \<Rightarrow> fix_state" where
  "fix_loop fl srs fixed hostap i s =
     (if i < length (fx_used s)
      then let (ignore, s) = rate_step fl srs fixed hostap i s in
        if do_del fl \<and> ignore then fix_loop fl srs fixed hostap i (delete_rate i s)
        else fix_loop fl srs fixed hostap (i + 1) (if ignore then s else s\<lparr>fx_ok := fx_used s ! i\<rparr>)
      else s)"
  by pat_completeness auto
termination
proof (relation "measure (\<lambda>(fl, srs, fixed, hostap, i, s). length (fx_used s) - i)", goal_cases)
  case (2 fl srs fixed hostap i s x ignore s')
  then have "length (fx_used s') = length (fx_used s)"
    using rate_step_length [of fl srs fixed hostap i s] by (metis snd_conv)
  then show ?case using 2 by (simp add: delete_rate_def)
next
  case (3 fl srs fixed hostap i s x ignore s')
  then have "length (fx_used s') = length (fx_used s)"
    using rate_step_length [of fl srs fixed hostap i s] by (metis snd_conv)
  then show ?case using 3 by simp
qed simp

declare fix_loop.simps [simp del]

text \<open>\<open>fixed_rate\<close> is \<open>ic_fixed_rate\<close>; \<open>None\<close> is -1.  The result is the rate and the rates kept.\<close>

definition fix_rate ::
  "rate_flags \<Rightarrow> rateset \<Rightarrow> nat option \<Rightarrow> bool \<Rightarrow> u8 list \<Rightarrow> u8 list \<Rightarrow> u8 \<times> u8 list \<times> u8 list" where
  "fix_rate fl srs fixed_rate hostap used tail =
     (let fl = (if fixed_rate = None then fl\<lparr>do_frate := False\<rparr> else fl);
          fixed = (case fixed_rate of None \<Rightarrow> 0 | Some i \<Rightarrow> i);
          s = fix_loop fl srs fixed hostap 0
            \<lparr>fx_used = used, fx_tail = tail, fx_ok = 0, fx_bad = 0, fx_fixed = 0, fx_error = 0\<rparr>
      in (if fx_ok s = 0 \<or> fx_error s \<noteq> 0 \<or> do_frate fl \<and> fx_fixed s = 0 then fx_bad s OR RATE_BASIC
          else RV (fx_ok s), fx_used s, fx_tail s))"

text \<open>The rates of the two elements; the callers have checked that the first has at most 15.  The
  second result says that the extended rates were cut.\<close>

definition rates_of_elems :: "u8 list \<Rightarrow> u8 list option \<Rightarrow> u8 list \<times> bool" where
  "rates_of_elems rates xrates =
     (let n = unat (byte_at rates 1); rs = bytes_at rates 2 n in
      case xrates of None \<Rightarrow> (rs, False)
      | Some x \<Rightarrow> let nx = unat (byte_at x 1); cut = n + nx > RATE_MAXSIZE;
                     nx = (if cut then RATE_MAXSIZE - n else nx)
                 in (rs @ bytes_at x 2 nx, cut))"

definition setup_rates ::
  "rate_flags \<Rightarrow> rateset \<Rightarrow> nat option \<Rightarrow> bool \<Rightarrow> u8 list \<Rightarrow> u8 list option \<Rightarrow> u8 \<times> rateset \<times> bool" where
  "setup_rates fl srs fixed_rate hostap rates xrates =
     (let (used, cut) = rates_of_elems rates xrates;
          (r, used, tail) = fix_rate fl srs fixed_rate hostap used (replicate (RATE_MAXSIZE - length used) 0)
      in (r, \<lparr>rs_nrates = of_nat (length used), rs_rates = used @ tail\<rparr>, cut))"

end
