(* ===== verification/RateProps.thy ===== *)
theory RateProps
  imports Rates "HOL-Library.Multiset"
begin

text \<open>
  What the negotiation of rates computes: the common rates in increasing order, written as the
  interface writes them, and the highest of them.
\<close>

section \<open>One pass of the sort\<close>

fun pass :: "u8 \<Rightarrow> u8 list \<Rightarrow> u8 \<times> u8 list" where
  "pass x [] = (x, [])"
| "pass x (y # ys) = (if RV x > RV y then let (m, zs) = pass y ys in (m, x # zs)
     else let (m, zs) = pass x ys in (m, y # zs))"

lemma upt_Suc_first: "[a..<a + Suc n] = a # [Suc a..<Suc a + n]"
  by (simp add: upt_conv_Cons)

lemma pass_fold:
  "fold (\<lambda>j rs. if RV (rs ! length p) > RV (rs ! j) then rs[length p := rs ! j, j := rs ! length p] else rs)
     [length p + 1 + length q ..< length p + 1 + length q + length ys] (p @ x # q @ ys)
   = p @ fst (pass x ys) # q @ snd (pass x ys)"
proof (induction ys arbitrary: x q)
  case (Cons y ys)
  have u: "[length p + 1 + length q ..< length p + 1 + length q + length (y # ys)]
      = (length p + 1 + length q) # [length p + 1 + length (q @ [z]) ..< length p + 1 + length (q @ [z]) + length ys]"
    for z :: u8
    using upt_Suc_first [of "length p + 1 + length q" "length ys"] by simp
  have nth: "(p @ x # q @ y # ys) ! length p = x" "(p @ x # q @ y # ys) ! (length p + 1 + length q) = y"
    by (simp_all add: nth_append)
  have upd: "(p @ x # q @ y # ys)[length p := y, length p + 1 + length q := x] = p @ y # (q @ [x]) @ ys"
    by (simp add: list_update_append)
  show ?case
  proof (cases "RV x > RV y")
    case True
    then show ?thesis
      using Cons.IH [where x = y and q = "q @ [x]"] by (simp only: u [of x] fold_Cons comp_apply nth if_True upd) (simp add: case_prod_beta)
  next
    case False
    then show ?thesis
      using Cons.IH [where x = x and q = "q @ [y]"] by (simp only: u [of y] fold_Cons comp_apply nth if_False) (simp add: case_prod_beta)
  qed
qed simp

lemma sort_step_pass: "sort_step (length p) (p @ x # xs) = p @ fst (pass x xs) # snd (pass x xs)"
  using pass_fold [of p "[]" xs x] by (simp add: sort_step_def)

lemma pass_min: "\<forall>z \<in> set (snd (pass x xs)). RV (fst (pass x xs)) \<le> RV z"
proof -
  have "RV (fst (pass x xs)) \<le> RV x \<and> (\<forall>z \<in> set (snd (pass x xs)). RV (fst (pass x xs)) \<le> RV z)"
    by (induction x xs rule: pass.induct) (auto simp: case_prod_beta not_less)
  then show ?thesis ..
qed

lemma pass_mset: "mset (fst (pass x xs) # snd (pass x xs)) = mset (x # xs)"
  by (induction x xs rule: pass.induct) (auto simp: case_prod_beta add_mset_commute)

lemma pass_length [simp]: "length (snd (pass x xs)) = length xs"
  by (induction x xs rule: pass.induct) (auto simp: case_prod_beta)

lemma sort_pass: "sort (map RV (x # xs)) = RV (fst (pass x xs)) # sort (map RV (snd (pass x xs)))"
proof (rule properties_for_sort)
  have "mset (map RV (x # xs)) = image_mset RV (mset (fst (pass x xs) # snd (pass x xs)))"
    by (simp only: pass_mset mset_map)
  then show "mset (RV (fst (pass x xs)) # sort (map RV (snd (pass x xs)))) = mset (map RV (x # xs))" by simp
  show "sorted (RV (fst (pass x xs)) # sort (map RV (snd (pass x xs))))" using pass_min by auto
qed

section \<open>The loop\<close>

text \<open>The common rates as the interface writes them.\<close>

definition negotiated :: "rateset \<Rightarrow> u8 list \<Rightarrow> u8 list" where
  "negotiated srs rs = List.map_filter (\<lambda>r. List.find (\<lambda>q. r = RV q) (used_rates srs)) (sort (map RV rs))"

lemma negotiated_Nil [simp]: "negotiated srs [] = []"
  by (simp add: negotiated_def List.map_filter_def)

lemma negotiated_Cons:
  "negotiated srs (x # xs) =
     (case List.find (\<lambda>q. RV (fst (pass x xs)) = RV q) (used_rates srs) of
        None \<Rightarrow> negotiated srs (snd (pass x xs))
      | Some q \<Rightarrow> q # negotiated srs (snd (pass x xs)))"
  by (simp only: negotiated_def sort_pass) (simp add: List.map_filter_def split: option.split)

text \<open>The flags that every caller but one gives.\<close>

definition full_nego :: "rate_flags \<Rightarrow> bool" where
  "full_nego fl \<longleftrightarrow> do_sort fl \<and> do_nego fl \<and> do_del fl"

lemma fix_loop_negotiated:
  assumes "full_nego fl" "i = length p" "fx_used s = p @ xs"
  shows "fx_used (fix_loop fl srs fixed False i s) = p @ negotiated srs xs \<and>
    length (fx_used (fix_loop fl srs fixed False i s)) + length (fx_tail (fix_loop fl srs fixed False i s))
      = length (fx_used s) + length (fx_tail s) \<and>
    fx_ok (fix_loop fl srs fixed False i s) = (if negotiated srs xs = [] then fx_ok s else last (negotiated srs xs)) \<and>
    fx_error (fix_loop fl srs fixed False i s) = fx_error s"
  using assms
proof (induction xs arbitrary: i p s rule: length_induct)
  case (1 xs)
  show ?case
  proof (cases xs)
    case Nil
    then show ?thesis using "1.prems" by (subst (1 2 3 4 5) fix_loop.simps) simp
  next
    case (Cons x ys)
    define m where "m = fst (pass x ys)"
    define zs where "zs = snd (pass x ys)"
    have l: "length zs < length xs" using Cons by (simp add: zs_def)
    have srt: "sort_step i (fx_used s) = p @ m # zs"
      using "1.prems" Cons by (simp add: sort_step_pass m_def zs_def)
    define s1 where "s1 = s\<lparr>fx_bad := RV m,
        fx_fixed := (if do_frate fl \<and> RV m = RV (rs_rates srs ! fixed) then RV m else fx_fixed s)\<rparr>"
    have step: "rate_step fl srs fixed False i s =
        (case List.find (\<lambda>q. RV m = RV q) (used_rates srs) of
           Some q \<Rightarrow> (False, s1\<lparr>fx_used := p @ q # zs\<rparr>) | None \<Rightarrow> (True, s1\<lparr>fx_used := p @ m # zs\<rparr>))"
    proof -
      have i: "(p @ m # zs) ! i = m" "(p @ m # zs)[i := q] = p @ q # zs" for q
        using "1.prems"(2) by (simp_all add: list_update_append)
      show ?thesis
        using "1.prems"(1) by (simp add: rate_step_def srt i s1_def full_nego_def Let_def split: option.split)
    qed
    have il: "i < length (fx_used s)" using "1.prems" Cons by simp
    show ?thesis
    proof (cases "List.find (\<lambda>q. RV m = RV q) (used_rates srs)")
      case None
      define s2 where "s2 = delete_rate i (s1\<lparr>fx_used := p @ m # zs\<rparr>)"
      have s2: "fx_used s2 = p @ zs" "fx_tail s2 = 0 # fx_tail s" "fx_ok s2 = fx_ok s" "fx_error s2 = fx_error s"
        using "1.prems" by (simp_all add: s2_def delete_rate_def s1_def)
      have e: "fix_loop fl srs fixed False i s = fix_loop fl srs fixed False i s2"
        using il "1.prems"(1) by (subst fix_loop.simps) (simp add: step None s2_def full_nego_def)
      have n: "negotiated srs xs = negotiated srs zs" using None by (simp add: Cons negotiated_Cons m_def zs_def)
      show ?thesis
        unfolding e n using "1.IH" [rule_format, OF l "1.prems"(1,2) s2(1)] s2 "1.prems" Cons
        by (auto simp: zs_def)
    next
      case (Some q)
      define s2 where "s2 = s1\<lparr>fx_used := p @ q # zs, fx_ok := q\<rparr>"
      have s2: "fx_used s2 = (p @ [q]) @ zs" "fx_tail s2 = fx_tail s" "fx_ok s2 = q" "fx_error s2 = fx_error s"
        by (simp_all add: s2_def s1_def)
      have e: "fix_loop fl srs fixed False i s = fix_loop fl srs fixed False (i + 1) s2"
      proof -
        have "(p @ q # zs) ! i = q" using "1.prems"(2) by simp
        then show ?thesis
          using il "1.prems"(1) by (subst fix_loop.simps) (simp add: step Some s2_def full_nego_def s1_def)
      qed
      have n: "negotiated srs xs = q # negotiated srs zs" using Some by (simp add: Cons negotiated_Cons m_def zs_def)
      have il2: "i + 1 = length (p @ [q])" using "1.prems" by simp
      show ?thesis
        unfolding e n using "1.IH" [rule_format, OF l "1.prems"(1) il2 s2(1)] s2 "1.prems" Cons
        by (auto simp: zs_def)
    qed
  qed
qed


lemma RV_RV [simp]: "RV (RV v) = RV v"
  by (simp add: RV_def and.assoc)

lemma RV_flag: "\<not> has_flag (RV v) RATE_BASIC"
  by (simp add: RV_def has_flag_def and.assoc)

lemma find_RV: "List.find (\<lambda>q. r = RV q) qs = Some q \<Longrightarrow> RV q = r \<and> q \<in> set qs"
  by (auto simp: find_Some_iff)

lemma RV_negotiated:
  "map RV (negotiated srs rs) = filter (\<lambda>r. r \<in> RV ` set (used_rates srs)) (sort (map RV rs))"
proof -
  have "map RV (List.map_filter (\<lambda>r. List.find (\<lambda>q. r = RV q) qs) vs) = filter (\<lambda>r. r \<in> RV ` set qs) vs" for qs vs
  proof (induction vs)
    case (Cons v vs)
    show ?case
    proof (cases "List.find (\<lambda>q. v = RV q) qs")
      case None
      then have "v \<notin> RV ` set qs" by (auto simp: find_None_iff)
      then show ?thesis using Cons None by (simp add: List.map_filter_def)
    next
      case (Some q)
      then have "RV q = v" "v \<in> RV ` set qs" using find_RV [OF Some] by auto
      then show ?thesis using Cons Some by (simp add: List.map_filter_def)
    qed
  qed (simp add: List.map_filter_def)
  then show ?thesis by (simp add: negotiated_def)
qed

lemma negotiated_max: "q \<in> set (negotiated srs rs) \<Longrightarrow> RV q \<le> RV (last (negotiated srs rs))"
proof -
  assume q: "q \<in> set (negotiated srs rs)"
  have "sorted (map RV (negotiated srs rs))" unfolding RV_negotiated by (rule sorted_filter [where f = id, simplified]) simp
  then have "sorted (map RV (butlast (negotiated srs rs)) @ [RV (last (negotiated srs rs))])"
    using q by (metis append_butlast_last_id empty_iff empty_set list.simps(8,9) map_append)
  then show ?thesis
    using q by (cases "negotiated srs rs" rule: rev_cases) (auto simp: sorted_append)
qed

text \<open>C20. Negotiation by a station without a fixed rate: the rates kept are those that occur among
  the rates of the mode, in increasing order, as the mode writes them, with its basic bits; no slot of
  the array is lost; the result is the highest common rate, or a value with the basic bit if there is
  none.\<close>

theorem rates_negotiated:
  assumes "full_nego fl" "fix_rate fl srs None False used tail = (r, used', tail')"
  shows "used' = negotiated srs used \<and>
    map RV used' = filter (\<lambda>r. r \<in> RV ` set (used_rates srs)) (sort (map RV used)) \<and>
    length used' + length tail' = length used + length tail \<and>
    (if used' = [] \<or> last used' = 0 then has_flag r RATE_BASIC
     else \<not> has_flag r RATE_BASIC \<and> r = RV (last used') \<and> (\<forall>q \<in> set used'. RV q \<le> r))"
proof -
  define s0 where "s0 = \<lparr>fx_used = used, fx_tail = tail, fx_ok = 0, fx_bad = 0, fx_fixed = 0, fx_error = 0\<rparr>"
  have fl: "full_nego (fl\<lparr>do_frate := False\<rparr>)" using assms(1) by (simp add: full_nego_def)
  note inv = fix_loop_negotiated [OF fl, of 0 "[]" s0 used srs 0]
  have r: "r = (if fx_ok (fix_loop (fl\<lparr>do_frate := False\<rparr>) srs 0 False 0 s0) = 0 then
      fx_bad (fix_loop (fl\<lparr>do_frate := False\<rparr>) srs 0 False 0 s0) OR RATE_BASIC
      else RV (fx_ok (fix_loop (fl\<lparr>do_frate := False\<rparr>) srs 0 False 0 s0)))"
    and u: "used' = negotiated srs used" "length used' + length tail' = length used + length tail"
    using assms(2) inv by (auto simp: fix_rate_def s0_def Let_def)
  have ok: "fx_ok (fix_loop (fl\<lparr>do_frate := False\<rparr>) srs 0 False 0 s0)
      = (if used' = [] then 0 else last used')"
    using inv u by (simp add: s0_def)
  show ?thesis
  proof (intro conjI)
    show "if used' = [] \<or> last used' = 0 then has_flag r RATE_BASIC
      else \<not> has_flag r RATE_BASIC \<and> r = RV (last used') \<and> (\<forall>q \<in> set used'. RV q \<le> r)"
      using negotiated_max [of _ srs used] by (auto simp: r ok u(1) RV_flag has_flag_or_self)
  qed (use u RV_negotiated in simp_all)
qed

theorem rates_negotiated_witness:
  "fst (snd (fix_rate \<lparr>do_sort = True, do_frate = False, do_nego = True, do_del = True\<rparr>
      \<lparr>rs_nrates = 3, rs_rates = [0x82, 0x84, 0x0b]\<rparr> None False [0x0b, 0x16, 0x02] [])) = [0x82, 0x0b]"
proof -
  let ?fl = "\<lparr>do_sort = True, do_frate = False, do_nego = True, do_del = True\<rparr>"
    and ?srs = "\<lparr>rs_nrates = 3, rs_rates = [0x82, 0x84, 0x0b]\<rparr>"
  have "full_nego ?fl" by (simp add: full_nego_def)
  from rates_negotiated [OF this, of ?srs "[0x0b, 0x16, 0x02]" "[]"]
  have "fst (snd (fix_rate ?fl ?srs None False [0x0b, 0x16, 0x02] [])) = negotiated ?srs [0x0b, 0x16, 0x02]"
    by (metis prod.collapse)
  then show ?thesis by (simp add: negotiated_def RV_def used_rates_def List.map_filter_def)
qed

end
