(* ===== verification/RateAdapt.thy ===== *)
theory RateAdapt
  imports Rates
begin

text \<open>
  Rate adaptation: AMRR (\<^verbatim>\<open>net80211/ieee80211_amrr.c\<close>) and the adaptation by received signal
  strength (\<^verbatim>\<open>net80211/ieee80211_rssadapt.c\<close>).
\<close>

section \<open>AMRR\<close>

record amrr =
  amrr_min_success_threshold :: u32
  amrr_max_success_threshold :: u32

record amrr_node =
  amn_success :: u32
  amn_recovery :: u32
  amn_success_threshold :: u32
  amn_txcnt :: u32
  amn_retrycnt :: u32

definition is_success :: "amrr_node \<Rightarrow> bool" where
  "is_success amn \<longleftrightarrow> amn_retrycnt amn < amn_txcnt amn div 10"

definition is_failure :: "amrr_node \<Rightarrow> bool" where
  "is_failure amn \<longleftrightarrow> amn_retrycnt amn > amn_txcnt amn div 3"

definition is_enough :: "amrr_node \<Rightarrow> bool" where
  "is_enough amn \<longleftrightarrow> amn_txcnt amn > 10"

definition reset_cnt :: "amrr_node \<Rightarrow> amrr_node" where
  "reset_cnt amn = amn\<lparr>amn_txcnt := 0, amn_retrycnt := 0\<rparr>"

definition amrr_node_init :: "amrr \<Rightarrow> amrr_node \<Rightarrow> amrr_node" where
  "amrr_node_init amrr amn = amn\<lparr>amn_success := 0, amn_recovery := 0, amn_txcnt := 0, amn_retrycnt := 0,
     amn_success_threshold := amrr_min_success_threshold amrr\<rparr>"

text \<open>The threshold after a failure: doubled when the last change was an increase.\<close>

definition new_threshold :: "amrr \<Rightarrow> amrr_node \<Rightarrow> u32" where
  "new_threshold amrr amn =
     (if amn_recovery amn \<noteq> 0
      then let t = amn_success_threshold amn * 2
           in if t > amrr_max_success_threshold amrr then amrr_max_success_threshold amrr else t
      else amrr_min_success_threshold amrr)"

text \<open>\<open>txrate\<close> is the \<^verbatim>\<open>int\<close> index of the rate, \<open>nrates\<close> the number of rates.\<close>

definition amrr_change :: "amrr \<Rightarrow> nat \<Rightarrow> int \<Rightarrow> amrr_node \<Rightarrow> bool \<times> int \<times> amrr_node" where
  "amrr_change amrr nrates txrate amn =
     (if is_success amn \<and> is_enough amn
      then let amn = amn\<lparr>amn_success := amn_success amn + 1\<rparr> in
        if amn_success amn \<ge> amn_success_threshold amn \<and> txrate \<noteq> int nrates - 1
        then (True, txrate + 1, amn\<lparr>amn_recovery := 1, amn_success := 0\<rparr>)
        else (False, txrate, amn\<lparr>amn_recovery := 0\<rparr>)
      else if is_failure amn
      then let amn = amn\<lparr>amn_success := 0\<rparr> in
        if txrate \<noteq> 0
        then (True, txrate - 1, amn\<lparr>amn_success_threshold := new_threshold amrr amn, amn_recovery := 0\<rparr>)
        else (False, txrate, amn\<lparr>amn_recovery := 0\<rparr>)
      else (False, txrate, amn))"

definition amrr_choose :: "amrr \<Rightarrow> nat \<Rightarrow> int \<Rightarrow> amrr_node \<Rightarrow> int \<times> amrr_node" where
  "amrr_choose amrr nrates txrate amn =
     (let (need_change, txrate, amn) = amrr_change amrr nrates txrate amn
      in (txrate, if is_enough amn \<or> need_change then reset_cnt amn else amn))"

text \<open>A driver counts transmissions and retries between two choices.\<close>

datatype amrr_event = Tx_Report u32 u32 | Choose

fun amrr_step :: "amrr \<Rightarrow> nat \<Rightarrow> amrr_event \<Rightarrow> int \<times> amrr_node \<Rightarrow> int \<times> amrr_node" where
  "amrr_step amrr n (Tx_Report tx retry) (r, amn) =
     (r, amn\<lparr>amn_txcnt := amn_txcnt amn + tx, amn_retrycnt := amn_retrycnt amn + retry\<rparr>)"
| "amrr_step amrr n Choose (r, amn) = amrr_choose amrr n r amn"

definition amrr_ok :: "amrr \<Rightarrow> nat \<Rightarrow> int \<times> amrr_node \<Rightarrow> bool" where
  "amrr_ok amrr n s \<longleftrightarrow> 0 \<le> fst s \<and> fst s < int n \<and>
     amrr_min_success_threshold amrr \<le> amn_success_threshold (snd s) \<and>
     amn_success_threshold (snd s) \<le> amrr_max_success_threshold amrr"

text \<open>Settings a driver can give.\<close>

definition amrr_settings :: "amrr \<Rightarrow> bool" where
  "amrr_settings amrr \<longleftrightarrow> amrr_min_success_threshold amrr \<le> amrr_max_success_threshold amrr \<and>
     amrr_max_success_threshold amrr < 0x80000000"

lemma double_ge: "(t :: u32) \<le> m \<Longrightarrow> m < 0x80000000 \<Longrightarrow> t \<le> t * 2"
proof -
  assume a: "t \<le> m" "m < 0x80000000"
  then have "t < 0x80000000" by simp
  then have "unat t < 0x80000000" by (simp add: word_less_nat_alt)
  then show ?thesis by (simp add: word_le_nat_alt unat_word_ariths)
qed

lemma new_threshold_bounds:
  assumes "amrr_settings amrr" "amrr_min_success_threshold amrr \<le> amn_success_threshold amn"
    "amn_success_threshold amn \<le> amrr_max_success_threshold amrr"
  shows "amrr_min_success_threshold amrr \<le> new_threshold amrr amn \<and>
    new_threshold amrr amn \<le> amrr_max_success_threshold amrr"
  using assms double_ge [of "amn_success_threshold amn" "amrr_max_success_threshold amrr"]
  by (auto simp: new_threshold_def Let_def amrr_settings_def intro: order_trans)

lemma amrr_choose_ok:
  assumes "amrr_settings amrr" "amrr_ok amrr n (r, amn)"
  shows "amrr_ok amrr n (amrr_choose amrr n r amn)"
  using assms new_threshold_bounds [OF assms(1)]
  by (auto simp: amrr_choose_def amrr_change_def amrr_ok_def reset_cnt_def Let_def)

text \<open>C21. AMRR, in any sequence of transmission reports and choices: the rate stays an index of the
  rate set and the success threshold stays within the configured bounds; a choice moves the rate by
  at most one step, up only when fewer than a tenth of more than ten transmissions were retried and
  down only when more than a third were.\<close>

theorem amrr_invariant:
  assumes "amrr_settings amrr" "amrr_ok amrr n s"
  shows "amrr_ok amrr n (fold (amrr_step amrr n) es s) \<and>
    (\<forall>r amn r' amn'. amrr_choose amrr n r amn = (r', amn') \<longrightarrow>
       (r' = r \<or> (r' = r + 1 \<and> is_success amn \<and> is_enough amn) \<or> (r' = r - 1 \<and> is_failure amn)))"
proof
  show "amrr_ok amrr n (fold (amrr_step amrr n) es s)"
    using assms(2)
  proof (induction es arbitrary: s)
    case (Cons e es)
    obtain r amn where s: "s = (r, amn)" by fastforce
    have "amrr_ok amrr n (amrr_step amrr n e s)"
      using Cons.prems amrr_choose_ok [OF assms(1)] by (cases e) (auto simp: s amrr_ok_def)
    then show ?case using Cons.IH by simp
  qed simp
  show "\<forall>r amn r' amn'. amrr_choose amrr n r amn = (r', amn') \<longrightarrow>
       (r' = r \<or> (r' = r + 1 \<and> is_success amn \<and> is_enough amn) \<or> (r' = r - 1 \<and> is_failure amn))"
    by (auto simp: amrr_choose_def amrr_change_def Let_def split: if_splits)
qed

theorem amrr_invariant_witness:
  "amrr_ok \<lparr>amrr_min_success_threshold = 1, amrr_max_success_threshold = 15\<rparr> 12
     (fold (amrr_step \<lparr>amrr_min_success_threshold = 1, amrr_max_success_threshold = 15\<rparr> 12)
        [Tx_Report 20 1, Choose, Tx_Report 9 8, Choose]
        (3, \<lparr>amn_success = 0, amn_recovery = 0, amn_success_threshold = 1, amn_txcnt = 0, amn_retrycnt = 0\<rparr>))"
proof -
  let ?a = "\<lparr>amrr_min_success_threshold = 1, amrr_max_success_threshold = 15\<rparr>"
    and ?s = "(3, \<lparr>amn_success = 0, amn_recovery = 0, amn_success_threshold = 1, amn_txcnt = 0, amn_retrycnt = 0\<rparr>)"
  have "amrr_settings ?a" "amrr_ok ?a 12 ?s" by (simp_all add: amrr_settings_def amrr_ok_def)
  from amrr_invariant [OF this] show ?thesis by blast
qed

section \<open>Adaptation by signal strength\<close>

abbreviation (input) RSSADAPT_BKTS :: nat where "RSSADAPT_BKTS \<equiv> 3"
abbreviation (input) RATE_SIZE :: nat where "RATE_SIZE \<equiv> 8"

text \<open>The thresholds: three rows of eight.  A frame time is in microseconds.\<close>

record rssadapt =
  ra_avg_rssi :: u16
  ra_nfail :: u32
  ra_nok :: u32
  ra_pktrate :: u32
  ra_rate_thresh :: "u16 list list"
  ra_raise_interval :: "u64 \<times> u64"

definition interpolate :: "u32 \<Rightarrow> u32 \<Rightarrow> u32 \<Rightarrow> u32 \<Rightarrow> u32" where
  "interpolate denom old_weight old new = (old_weight * old + (denom - old_weight) * new) div denom"

text \<open>The bucket of a frame of \<open>len\<close> bytes: the first whose bound is not exceeded, or the last.\<close>

fun bucket_loop :: "nat \<Rightarrow> nat \<Rightarrow> u32 \<Rightarrow> u32 \<Rightarrow> nat" where
  "bucket_loop 0 i lim len = i - 1"
| "bucket_loop (Suc n) i lim len = (if len \<le> lim then i else bucket_loop n (i + 1) (push_bit 3 lim) len)"

definition bucket :: "u32 \<Rightarrow> nat" where
  "bucket len = bucket_loop RSSADAPT_BKTS 0 128 len"

text \<open>A row has eight entries; \<open>None\<close>: the code reads behind the row.\<close>

definition thresh :: "rssadapt \<Rightarrow> nat \<Rightarrow> nat \<Rightarrow> u16 option" where
  "thresh ra b i = (if i < RATE_SIZE then Some (ra_rate_thresh ra ! b ! i) else None)"

text \<open>The loop from \<open>i - 1\<close> down; \<open>prev\<close> is the value of \<open>rateidx\<close> so far.\<close>

fun choose_loop :: "rssadapt \<Rightarrow> nat \<Rightarrow> u8 list \<Rightarrow> u8 \<Rightarrow> bool \<Rightarrow> nat \<Rightarrow> nat \<Rightarrow> nat option" where
  "choose_loop ra b rates flags no_adapt 0 prev = Some prev"
| "choose_loop ra b rates flags no_adapt (Suc i) prev =
     (if rates ! i AND flags \<noteq> flags then choose_loop ra b rates flags no_adapt i i
      else if no_adapt then Some i
      else case thresh ra b i of None \<Rightarrow> None
      | Some t \<Rightarrow> if t < ra_avg_rssi ra then Some i else choose_loop ra b rates flags no_adapt i i)"

definition rssadapt_choose :: "rssadapt \<Rightarrow> rateset \<Rightarrow> mbuf \<Rightarrow> u32 \<Rightarrow> nat option \<Rightarrow> bool \<Rightarrow> nat option" where
  "rssadapt_choose ra rs wh len fixed_rate no_adapt =
     (let flags = (if byte_at wh 0 AND 0x0c = 0x04 then RATE_BASIC else 0); b = bucket len in
      case fixed_rate of
        None \<Rightarrow> choose_loop ra b (rs_rates rs) flags no_adapt (unat (rs_nrates rs)) 0
      | Some f \<Rightarrow>
          if rs_rates rs ! f AND flags = flags then Some f
          else choose_loop ra b (rs_rates rs) (flags OR RATE_BASIC) no_adapt f 0)"

definition rssadapt_updatestats :: "rssadapt \<Rightarrow> rssadapt" where
  "rssadapt_updatestats ra =
     (let rate = (ra_pktrate ra + 10 * (ra_nfail ra + ra_nok ra)) div 2;
          interval = max 100000 (10000000 div ucast (max 1 (10 * rate)) :: u64)
      in ra\<lparr>ra_pktrate := rate, ra_nfail := 0, ra_nok := 0,
            ra_raise_interval := (interval div 1000000, interval mod 1000000)\<rparr>)"

definition rssadapt_input :: "u32 \<Rightarrow> rssadapt \<Rightarrow> rssadapt" where
  "rssadapt_input rssi ra =
     ra\<lparr>ra_avg_rssi := ucast (interpolate 8 4 (ucast (ra_avg_rssi ra)) (push_bit 8 rssi))\<rparr>"

definition rssadapt_lower_rate :: "nat \<Rightarrow> u32 \<Rightarrow> nat \<Rightarrow> u8 \<Rightarrow> rssadapt \<Rightarrow> rssadapt option" where
  "rssadapt_lower_rate nrates len rateidx rssi ra =
     (let ra = ra\<lparr>ra_nfail := ra_nfail ra + 1\<rparr>; b = bucket len in
      if rateidx \<ge> nrates then Some ra
      else map_option (\<lambda>t. ra\<lparr>ra_rate_thresh := (ra_rate_thresh ra)[b := (ra_rate_thresh ra ! b)[rateidx :=
             ucast (interpolate 8 4 (ucast t) (push_bit 8 (ucast rssi)))]]\<rparr>) (thresh ra b rateidx))"

text \<open>\<open>due\<close> is the result of \<^verbatim>\<open>ratecheck\<close>.\<close>

definition rssadapt_raise_rate :: "bool \<Rightarrow> nat \<Rightarrow> u32 \<Rightarrow> nat \<Rightarrow> rssadapt \<Rightarrow> rssadapt option" where
  "rssadapt_raise_rate due nrates len rateidx ra =
     (let ra = ra\<lparr>ra_nok := ra_nok ra + 1\<rparr>; b = bucket len in
      if \<not> due then Some ra
      else if rateidx + 1 \<ge> nrates then Some ra
      else case thresh ra b (rateidx + 1) of None \<Rightarrow> None
      | Some oldthr \<Rightarrow> case thresh ra b rateidx of None \<Rightarrow> None
      | Some t \<Rightarrow>
          if oldthr > t
          then let newthr = (if t = 0 then ra_avg_rssi ra else t)
               in Some (ra\<lparr>ra_rate_thresh := (ra_rate_thresh ra)[b := (ra_rate_thresh ra ! b)[rateidx + 1 :=
                    ucast (interpolate 16 15 (ucast oldthr) (ucast newthr))]]\<rparr>)
          else Some ra)"


lemma bucket_lt: "bucket len < RSSADAPT_BKTS"
  by (simp add: bucket_def numeral_3_eq_3)

lemma choose_loop_range:
  "n \<le> RATE_SIZE \<Longrightarrow> prev < m \<Longrightarrow> n \<le> m \<Longrightarrow> \<exists>i. choose_loop ra b rates flags no_adapt n prev = Some i \<and> i < m"
  by (induction n arbitrary: prev) (auto simp: thresh_def)

lemma choose_loop_sound:
  "choose_loop ra b rates flags False n prev = Some i \<Longrightarrow>
     rates ! i AND flags = flags \<and> ra_rate_thresh ra ! b ! i < ra_avg_rssi ra \<or> i = 0 \<or> n = 0 \<and> i = prev"
proof (induction n arbitrary: prev)
  case (Suc n)
  show ?case using Suc.prems Suc.IH [of n] by (auto simp: thresh_def split: if_splits option.splits)
qed simp

text \<open>Choice by signal strength with a rate set of at most eight rates: the result is an index of
  the set; unless it is the lowest, the rate may carry the frame and its threshold is below the
  average.  With a larger set, as every 802.11g set is, and no rate fixed, the choice for a data frame
  reads behind the row of thresholds.\<close>

theorem rssadapt_choice:
  assumes "byte_at wh 0 AND 0x0c \<noteq> 0x04"
  shows "(0 < unat (rs_nrates rs) \<and> unat (rs_nrates rs) \<le> RATE_SIZE \<longrightarrow>
      (\<exists>i. rssadapt_choose ra rs wh len None False = Some i \<and> i < unat (rs_nrates rs) \<and>
         (i = 0 \<or> ra_rate_thresh ra ! bucket len ! i < ra_avg_rssi ra))) \<and>
    (RATE_SIZE < unat (rs_nrates rs) \<longrightarrow> rssadapt_choose ra rs wh len None False = None)"
proof (intro conjI impI)
  assume a: "0 < unat (rs_nrates rs) \<and> unat (rs_nrates rs) \<le> RATE_SIZE"
  then obtain i where i: "rssadapt_choose ra rs wh len None False = Some i" "i < unat (rs_nrates rs)"
    using choose_loop_range [of "unat (rs_nrates rs)" 0 "unat (rs_nrates rs)" ra "bucket len" "rs_rates rs" 0 False]
      assms
    by (auto simp: rssadapt_choose_def Let_def)
  moreover have "i = 0 \<or> ra_rate_thresh ra ! bucket len ! i < ra_avg_rssi ra"
    using i(1) choose_loop_sound [of ra "bucket len" "rs_rates rs" _ "unat (rs_nrates rs)" 0 i]
    by (auto simp: rssadapt_choose_def Let_def)
  ultimately show "\<exists>i. rssadapt_choose ra rs wh len None False = Some i \<and> i < unat (rs_nrates rs) \<and>
      (i = 0 \<or> ra_rate_thresh ra ! bucket len ! i < ra_avg_rssi ra)" by blast
next
  assume "RATE_SIZE < unat (rs_nrates rs)"
  then obtain n where "unat (rs_nrates rs) = Suc n" "RATE_SIZE \<le> n" by (cases "unat (rs_nrates rs)") auto
  then show "rssadapt_choose ra rs wh len None False = None"
    using assms by (simp add: rssadapt_choose_def thresh_def Let_def)
qed

theorem rssadapt_choice_witness:
  "rssadapt_choose \<lparr>ra_avg_rssi = 9, ra_nfail = 0, ra_nok = 0, ra_pktrate = 0, ra_rate_thresh = [],
     ra_raise_interval = (0, 0)\<rparr> \<lparr>rs_nrates = 12, rs_rates = []\<rparr> [0x08] 100 None False = None"
  using rssadapt_choice [of "[0x08]" "\<lparr>rs_nrates = 12, rs_rates = []\<rparr>"] by simp

end
