(* ===== verification/Nodes.thy ===== *)
theory Nodes
  imports Pae Rates
begin

text \<open>
  The node cache (\<^verbatim>\<open>net80211/ieee80211_node.c\<close>): the tree of known stations and access points and
  the node \<open>ic_bss\<close> of the current network.  The red-black tree is the list of its nodes in
  ascending order of their MAC addresses; a channel pointer is the index in \<open>ic_channels\<close>, which is
  the IEEE channel number, and \<open>None\<close> is \<^verbatim>\<open>IEEE80211_CHAN_ANYC\<close>.
\<close>

section \<open>State\<close>

abbreviation (input) CHAN_MAX :: nat where "CHAN_MAX \<equiv> 255"
abbreviation (input) NWID_LEN :: nat where "NWID_LEN \<equiv> 32"
abbreviation (input) INACT_SCAN :: int where "INACT_SCAN \<equiv> 10"
abbreviation (input) INACT_MAX :: int where "INACT_MAX \<equiv> 60"
abbreviation (input) TRANS_WAIT :: int where "TRANS_WAIT \<equiv> 5"
abbreviation (input) REASON_AUTH_EXPIRE :: u32 where "REASON_AUTH_EXPIRE \<equiv> 2"
abbreviation (input) NODE_HTCAP :: u32 where "NODE_HTCAP \<equiv> 0x20000"
abbreviation (input) HTOP1_PROT_MASK :: u16 where "HTOP1_PROT_MASK \<equiv> 3"
abbreviation (input) HTPROT_NONE :: u16 where "HTPROT_NONE \<equiv> 0"
abbreviation (input) HTPROT_NONMEMBER :: u16 where "HTPROT_NONMEMBER \<equiv> 1"
abbreviation (input) HTPROT_NONHT_MIXED :: u16 where "HTPROT_NONHT_MIXED \<equiv> 3"

text \<open>Management frame subtypes, as they are in the first byte of a frame.\<close>

abbreviation (input) ST_ASSOC_REQ :: u8 where "ST_ASSOC_REQ \<equiv> 0x00"
abbreviation (input) ST_ASSOC_RESP :: u8 where "ST_ASSOC_RESP \<equiv> 0x10"
abbreviation (input) ST_REASSOC_REQ :: u8 where "ST_REASSOC_REQ \<equiv> 0x20"
abbreviation (input) ST_PROBE_REQ :: u8 where "ST_PROBE_REQ \<equiv> 0x40"
abbreviation (input) ST_DISASSOC :: u8 where "ST_DISASSOC \<equiv> 0xa0"
abbreviation (input) ST_AUTH :: u8 where "ST_AUTH \<equiv> 0xb0"
abbreviation (input) ST_DEAUTH :: u8 where "ST_DEAUTH \<equiv> 0xc0"

text \<open>The HT, VHT and HE fields of \<^verbatim>\<open>struct ieee80211_node\<close>; \<open>hn_chw\<close> is the negotiated channel
  width of \<^verbatim>\<open>enum ieee80211_chan_width\<close>.\<close>

record ht_node =
  hn_htcaps :: u16
  hn_ampdu_param :: u8
  hn_rxmcs :: "u8 list"
  hn_max_rxrate :: u16
  hn_tx_mcs_set :: u8
  hn_htxcaps :: u16
  hn_txbfcaps :: u32
  hn_aselcaps :: u8
  hn_primary_chan :: u8
  hn_htop0 :: u8
  hn_htop1 :: u16
  hn_htop2 :: u16
  hn_basic_mcs :: "u8 list"
  hn_chw :: nat
  hn_vhtcaps :: u32
  hn_vht_basicmcs :: u16
  hn_vht_rx_mcs_map :: u16
  hn_vht_rx_highest :: u16
  hn_vht_tx_mcs_map :: u16
  hn_vht_tx_highest :: u16
  hn_vht_chan1 :: u8
  hn_vht_chan2 :: u8
  hn_vht_chanwidth :: u8
  hn_he_mac_cap :: "u8 list"
  hn_he_phy_cap :: "u8 list"
  hn_he_mcs_nss :: "u8 list"
  hn_ppe_thres :: "u8 list"
  hn_he_oper_params :: u32
  hn_he_oper_nss_set :: u16
  hn_he_optional :: "u8 list"
  hn_rx_nss :: u8

definition zero_ht :: ht_node where
  "zero_ht = \<lparr>hn_htcaps = 0, hn_ampdu_param = 0, hn_rxmcs = replicate 10 0, hn_max_rxrate = 0,
     hn_tx_mcs_set = 0, hn_htxcaps = 0, hn_txbfcaps = 0, hn_aselcaps = 0, hn_primary_chan = 0,
     hn_htop0 = 0, hn_htop1 = 0, hn_htop2 = 0, hn_basic_mcs = replicate 16 0, hn_chw = 0,
     hn_vhtcaps = 0, hn_vht_basicmcs = 0, hn_vht_rx_mcs_map = 0, hn_vht_rx_highest = 0,
     hn_vht_tx_mcs_map = 0, hn_vht_tx_highest = 0, hn_vht_chan1 = 0, hn_vht_chan2 = 0,
     hn_vht_chanwidth = 0, hn_he_mac_cap = replicate 6 0, hn_he_phy_cap = replicate 11 0,
     hn_he_mcs_nss = replicate 12 0, hn_ppe_thres = replicate 25 0, hn_he_oper_params = 0,
     hn_he_oper_nss_set = 0, hn_he_optional = replicate 8 0, hn_rx_nss = 0\<rparr>"

text \<open>The fields of \<^verbatim>\<open>struct ieee80211_node\<close> that the cache, the scan and the station's state
  machine use.  \<open>bn_unref_cb\<close> says that \<open>ni_unref_cb\<close> is \<^verbatim>\<open>ieee80211_node_switch_bss\<close>, the only
  callback the stack installs; \<open>bn_unref_arg\<close> holds the addresses of the current and of the
  selected access point.\<close>

record bnode =
  bn_refcnt :: u32
  bn_scangen :: u32
  bn_rstamp :: u32
  bn_rssi :: u8
  bn_macaddr :: "u8 list"
  bn_bssid :: "u8 list"
  bn_tstamp :: "u8 list"
  bn_intval :: u16
  bn_capinfo :: u16
  bn_esslen :: nat
  bn_essid :: "u8 list"
  bn_rates :: rateset
  bn_chan :: "nat option"
  bn_erp :: u8
  bn_savedq :: "mbuf list"
  bn_supp_state :: supp_state
  bn_rsnprotos :: u32
  bn_rsnakms :: u32
  bn_rsnciphers :: u32
  bn_rsngroupcipher :: u32
  bn_rsngroupmgmtcipher :: u32
  bn_rsncaps :: u16
  bn_rsncipher :: u32
  bn_pmkid :: "u8 list"
  bn_replaycnt_ok :: bool
  bn_rsnie :: "u8 list option"
  bn_rsnie_tlv :: "u8 list option"
  bn_pairwise_key :: iee_key
  bn_port_valid :: bool
  bn_ht :: ht_node
  bn_associd :: u16
  bn_fails :: int
  bn_assoc_fail :: u32
  bn_inact :: int
  bn_txrate :: nat
  bn_state :: sta_state
  bn_flags :: u32
  bn_unref_cb :: bool
  bn_unref_arg :: "(u8 list \<times> u8 list) option"

text \<open>What \<^verbatim>\<open>malloc\<close> returns: it clears the memory.\<close>

definition zero_node :: bnode where
  "zero_node = \<lparr>bn_refcnt = 0, bn_scangen = 0, bn_rstamp = 0, bn_rssi = 0, bn_macaddr = replicate 6 0,
     bn_bssid = replicate 6 0, bn_tstamp = replicate 8 0, bn_intval = 0, bn_capinfo = 0,
     bn_esslen = 0, bn_essid = replicate 32 0, bn_rates = \<lparr>rs_nrates = 0, rs_rates = replicate 15 0\<rparr>,
     bn_chan = None, bn_erp = 0, bn_savedq = [], bn_supp_state = SUPP_INITIALIZE, bn_rsnprotos = 0,
     bn_rsnakms = 0, bn_rsnciphers = 0, bn_rsngroupcipher = 0, bn_rsngroupmgmtcipher = 0,
     bn_rsncaps = 0, bn_rsncipher = 0, bn_pmkid = replicate 16 0, bn_replaycnt_ok = False,
     bn_rsnie = None, bn_rsnie_tlv = None, bn_pairwise_key = zero_key, bn_port_valid = False,
     bn_ht = zero_ht, bn_associd = 0, bn_fails = 0, bn_assoc_fail = 0, bn_inact = 0,
     bn_txrate = 0, bn_state = STA_CACHE, bn_flags = 0, bn_unref_cb = False, bn_unref_arg = None\<rparr>"

text \<open>An entry of the list of networks to join.\<close>

record ess =
  ess_len :: nat
  ess_essid :: "u8 list"
  ess_flags :: u32
  ess_nw_keys :: "iee_key list"
  ess_def_txkey :: nat
  ess_psk :: "u8 list"
  ess_rsnprotos :: u32
  ess_rsnakms :: u32
  ess_rsnciphers :: u32
  ess_rsngroupcipher :: u32

text \<open>What the operations do besides changing the state, in order.  \<open>Ev_Mgmt\<close> is a frame handed to
  \<^verbatim>\<open>ic_send_mgmt\<close> (address of the node, subtype, argument); \<open>Ev_Stop_Ampdu\<close> and \<open>Ev_Ba_Del\<close> are the
  calls of \<^verbatim>\<open>ieee80211_stop_ampdu_tx\<close> and \<^verbatim>\<open>ieee80211_ba_del\<close> on \<open>ic_bss\<close>, \<open>Ev_Leave\<close> is the part of
  \<^verbatim>\<open>ieee80211_node_leave\<close> that other components carry out.\<close>

datatype mlme_stat = St_Node_Timeout | St_Nodealloc | St_Scan_Active | St_Scan_Passive | St_Bad_Auth
  | St_Auth_Fail | St_Auth_Unsupported | St_Mgtdiscard | St_Elem_Toosmall | St_Assoc_Norate
  | St_Deauth | St_Disassoc | St_Tx_Nombuf | St_Rstoobig | St_Nego_No_Mandatory_Mcs
  | St_Nego_No_Basic_Mcs | St_Nego_Bad_Crypto

datatype mlme_event = Ev_Mgmt "u8 list" u8 u32 | Ev_Link link_state | Ev_Stop_Ampdu "u8 option" | Ev_Ba_Del
  | Ev_Leave "u8 list" | Ev_Set_Tim u16 | Ev_Freed "u8 list" | Ev_Stat mlme_stat | Ev_Scan_Done
  | Ev_Set_Key iee_key | Ev_Delete_Key iee_key | Ev_If_Start | Ev_Reassoc_Fail u32 | Ev_Reassoc_Ok
  | Ev_Assoc_Done | Ev_Deauthed | Ev_Purge_Queues | Ev_Update_Prot | Ev_Update_Edca | Ev_Update_Slot
  | Ev_New_Auth "u8 list" | Ev_Released "u8 list"

text \<open>The fields of \<^verbatim>\<open>struct ieee80211com\<close>.  The bitmaps of channels are predicates on the channel
  number; \<open>m_media_auto\<close> says that the media selected has automatic mode.\<close>

record mlme =
  m_opmode :: ieee80211_opmode
  m_state :: ieee80211_state
  m_flags :: u32
  m_xflags :: u32
  m_userflags :: u32
  m_caps :: u32
  m_modecaps :: u16
  m_curmode :: nat
  m_media_auto :: bool
  m_running :: bool
  m_link :: link_state
  m_myaddr :: "u8 list"
  m_sup_rates :: "nat \<Rightarrow> rateset"
  m_chan_freq :: "nat \<Rightarrow> u16"
  m_chan_flags :: "nat \<Rightarrow> u32"
  m_chan_center1 :: "nat \<Rightarrow> u16"
  m_chan_center2 :: "nat \<Rightarrow> u16"
  m_chan_active :: "nat \<Rightarrow> bool"
  m_chan_scan :: "nat \<Rightarrow> bool"
  m_scan_count :: u8
  m_bss :: bnode
  m_ibss_chan :: "nat option"
  m_fixed_rate :: "nat option"
  m_scangen :: u32
  m_max_rssi :: u8
  m_tree :: "bnode list"
  m_nnodes :: int
  m_max_nnodes :: int
  m_aid_bitmap :: "nat \<Rightarrow> bool"
  m_lintval :: u16
  m_bmissthres :: int
  m_mgt_timer :: int
  m_bgscan_fail :: u32
  m_bgscan_to :: ctimer
  m_rsn_to :: ctimer
  m_inact_to :: ctimer
  m_node_cache_to :: ctimer
  m_des_esslen :: nat
  m_des_essid :: "u8 list"
  m_des_chan :: "nat option"
  m_des_bssid :: "u8 list"
  m_deauth_reason :: u16
  m_assoc_status :: u16
  m_nw_keys :: "iee_key list"
  m_def_txkey :: nat
  m_igtk_kid :: nat
  m_globalcnt :: "u8 list"
  m_psk :: "u8 list"
  m_pmksa :: "pmksa list"
  m_rsnprotos :: u32
  m_rsnakms :: u32
  m_rsnciphers :: u32
  m_rsngroupcipher :: u32
  m_rsngroupmgmtcipher :: u32
  m_protmode :: nat
  m_edca_ac :: "edca_ac_params list"
  m_edca_updtcount :: u32
  m_htcaps :: u16
  m_vhtcaps :: u32
  m_sup_mcs :: "u8 list"
  m_vht_tx_mcs_map :: u16
  m_vht_rx_mcs_map :: u16
  m_ess :: "ess list"
  m_reassoc_owner :: bool
  m_log :: "mlme_event list"

text \<open>Sending a frame can fail when there is no mbuf for it and when \<^verbatim>\<open>mbuf_prepend\<close> fails.\<close>

datatype send_outcome = Sent | No_Mbuf | No_Prepend

text \<open>The surroundings: which driver hooks are set, the outcome of sending a frame, whether
  an allocation succeeds, a random number and random bytes, the driver's \<^verbatim>\<open>ic_set_key\<close> and
  \<^verbatim>\<open>ic_delete_key\<close> (the key as they leave it), the result of \<^verbatim>\<open>ic_newauth\<close> when it is set, and the
  build options \<^verbatim>\<open>USE_APPLE_SUPPLICANT\<close> and \<^verbatim>\<open>IO80211FAMILY_V2\<close>.\<close>

record mlme_hooks =
  mh_send :: "u8 list \<Rightarrow> u8 \<Rightarrow> send_outcome"
  mh_alloc :: bool
  mh_save_ie :: bool
  mh_random :: nat
  mh_random_bytes :: "nat \<Rightarrow> u8 list"
  mh_set_key :: "iee_key \<Rightarrow> iee_key"
  mh_delete_key :: "iee_key \<Rightarrow> iee_key"
  mh_newauth :: "int option"
  mh_set_tim :: bool
  mh_event_handler :: bool
  mh_updateprot :: bool
  mh_updateedca :: bool
  mh_updateslot :: bool
  mh_apple :: bool
  mh_family_v2 :: bool

definition log_ev :: "mlme_event \<Rightarrow> mlme \<Rightarrow> mlme" where
  "log_ev e s = s\<lparr>m_log := m_log s @ [e]\<rparr>"

definition log_if :: "bool \<Rightarrow> mlme_event \<Rightarrow> mlme \<Rightarrow> mlme" where
  "log_if b e s = (if b then log_ev e s else s)"

definition m_flag :: "mlme \<Rightarrow> u32 \<Rightarrow> bool" where
  "m_flag s f \<longleftrightarrow> has_flag (m_flags s) f"

definition m_set_flags :: "u32 \<Rightarrow> mlme \<Rightarrow> mlme" where
  "m_set_flags f s = s\<lparr>m_flags := m_flags s OR f\<rparr>"

definition m_clear_flags :: "u32 \<Rightarrow> mlme \<Rightarrow> mlme" where
  "m_clear_flags f s = s\<lparr>m_flags := m_flags s AND NOT f\<rparr>"

section \<open>The tree\<close>

definition find_node :: "mlme \<Rightarrow> u8 list \<Rightarrow> bnode option" where
  "find_node s a = List.find (\<lambda>n. bn_macaddr n = a) (m_tree s)"

fun tree_insert :: "bnode \<Rightarrow> bnode list \<Rightarrow> bnode list" where
  "tree_insert n [] = [n]"
| "tree_insert n (x # xs) =
     (if memcmp_lt (bn_macaddr n) (bn_macaddr x) then n # x # xs
      else if memcmp_lt (bn_macaddr x) (bn_macaddr n) then x # tree_insert n xs else x # xs)"

definition tree_remove :: "u8 list \<Rightarrow> bnode list \<Rightarrow> bnode list" where
  "tree_remove a t = filter (\<lambda>n. bn_macaddr n \<noteq> a) t"

definition tree_update :: "u8 list \<Rightarrow> (bnode \<Rightarrow> bnode) \<Rightarrow> bnode list \<Rightarrow> bnode list" where
  "tree_update a f t = map (\<lambda>n. if bn_macaddr n = a then f n else n) t"

text \<open>A node pointer: \<open>ic_bss\<close> or a node of the tree.\<close>

datatype node_ref = Bss | Peer "u8 list"

definition node_at :: "mlme \<Rightarrow> node_ref \<Rightarrow> bnode option" where
  "node_at s r = (case r of Bss \<Rightarrow> Some (m_bss s) | Peer a \<Rightarrow> find_node s a)"

definition upd_node :: "node_ref \<Rightarrow> (bnode \<Rightarrow> bnode) \<Rightarrow> mlme \<Rightarrow> mlme" where
  "upd_node r f s =
     (case r of Bss \<Rightarrow> s\<lparr>m_bss := f (m_bss s)\<rparr> | Peer a \<Rightarrow> s\<lparr>m_tree := tree_update a f (m_tree s)\<rparr>)"

definition upd_ht :: "(ht_node \<Rightarrow> ht_node) \<Rightarrow> bnode \<Rightarrow> bnode" where
  "upd_ht f n = n\<lparr>bn_ht := f (bn_ht n)\<rparr>"

definition the_node :: "mlme \<Rightarrow> node_ref \<Rightarrow> bnode" where
  "the_node s r = (case node_at s r of Some n \<Rightarrow> n | None \<Rightarrow> zero_node)"

section \<open>Freeing nodes\<close>

text \<open>\<^verbatim>\<open>ieee80211_node_cleanup\<close>; the Block Ack records are those of the component Block Ack.\<close>

definition node_cleanup :: "bnode \<Rightarrow> bnode" where
  "node_cleanup n =
     n\<lparr>bn_savedq := [], bn_rsnie := None,
       bn_rsnie_tlv := (if bn_rsnie_tlv n = Some [] then Some [] else None), bn_unref_arg := None\<rparr>"

text \<open>\<^verbatim>\<open>ieee80211_node_copy\<close>; the elements are copied when there is memory for them.\<close>

definition node_copy :: "mlme_hooks \<Rightarrow> bnode \<Rightarrow> bnode" where
  "node_copy H src =
     src\<lparr>bn_savedq := [],
       bn_rsnie := (case bn_rsnie src of None \<Rightarrow> None | Some e \<Rightarrow> snd (save_ie (mh_save_ie H) e None)),
       bn_rsnie_tlv := (case bn_rsnie_tlv src of None \<Rightarrow> None
          | Some e \<Rightarrow> fst (snd (save_ie_tlv (mh_save_ie H) e None 0 (of_nat (length e)))))\<rparr>"

definition free_node :: "mlme_hooks \<Rightarrow> u8 list \<Rightarrow> mlme \<Rightarrow> mlme" where
  "free_node H a s =
     (case find_node s a of None \<Rightarrow> s
      | Some n \<Rightarrow>
          let s = s\<lparr>m_tree := tree_remove a (m_tree s), m_nnodes := m_nnodes s - 1,
                    m_aid_bitmap := (m_aid_bitmap s)(unat (bn_associd n AND NOT 0xc000) := False)\<rparr>
          in log_ev (Ev_Freed a) (log_if (bn_savedq n \<noteq> [] \<and> mh_set_tim H) (Ev_Set_Tim (bn_associd n)) s))"

definition cstr :: "u8 list \<Rightarrow> u8 list" where
  "cstr p = takeWhile (\<lambda>c. c \<noteq> 0) (take NWID_LEN p)"

definition same_bss :: "bnode \<Rightarrow> bnode \<Rightarrow> bool" where
  "same_bss a b \<longleftrightarrow> bn_bssid a = bn_bssid b \<and> cstr (bn_essid a) = cstr (bn_essid b)"

text \<open>The loops over the tree read the next node before they free one, so they visit the nodes that
  are in the tree at the start.\<close>

definition free_where :: "mlme_hooks \<Rightarrow> (bnode \<Rightarrow> bool) \<Rightarrow> mlme \<Rightarrow> mlme" where
  "free_where H P s = fold (\<lambda>n s. if P n then free_node H (bn_macaddr n) s else s) (m_tree s) s"

definition free_allnodes :: "mlme_hooks \<Rightarrow> bool \<Rightarrow> mlme \<Rightarrow> mlme" where
  "free_allnodes H clear_ic_bss s =
     (let s = free_where H (\<lambda>n. clear_ic_bss \<or> \<not> same_bss (m_bss s) n) s
      in if clear_ic_bss then log_ev Ev_Ba_Del (upd_node Bss node_cleanup s) else s)"

definition clean_cached :: "mlme_hooks \<Rightarrow> mlme \<Rightarrow> mlme" where
  "clean_cached H s = free_where H (\<lambda>n. bn_state n = STA_CACHE) s"

definition clean_sta_bss_node :: "mlme \<Rightarrow> mlme" where
  "clean_sta_bss_node s =
     s\<lparr>m_tree := map (\<lambda>n. if bn_state n = STA_BSS \<and> bn_bssid (m_bss s) \<noteq> bn_bssid n
                          then n\<lparr>bn_state := STA_CACHE\<rparr> else n) (m_tree s)\<rparr>"

definition clean_inactive_step :: "mlme_hooks \<Rightarrow> u32 \<Rightarrow> int \<Rightarrow> bnode \<Rightarrow> mlme \<Rightarrow> mlme" where
  "clean_inactive_step H gen inact_max n s =
     (if bn_scangen n = gen then s
      else let s = upd_node (Peer (bn_macaddr n)) (\<lambda>n. n\<lparr>bn_scangen := gen\<rparr>) s
           in if 0 < bn_refcnt n \<or> bn_inact n < inact_max then s
              else log_ev (Ev_Stat St_Node_Timeout) (free_node H (bn_macaddr n) s))"

definition clean_inactive_nodes :: "mlme_hooks \<Rightarrow> int \<Rightarrow> mlme \<Rightarrow> mlme" where
  "clean_inactive_nodes H inact_max s =
     fold (clean_inactive_step H (m_scangen s) inact_max) (m_tree s) (s\<lparr>m_scangen := m_scangen s + 1\<rparr>)"

section \<open>Sending\<close>

definition mgmt_timer :: "ieee80211_opmode \<Rightarrow> u8 \<Rightarrow> int" where
  "mgmt_timer om type =
     (if type = ST_PROBE_REQ \<or> type = ST_ASSOC_REQ \<or> type = ST_REASSOC_REQ \<or> type = ST_AUTH \<and> om = M_STA
      then TRANS_WAIT else 0)"

text \<open>The reference of a frame that could not be sent is given back.  When it was the only one, a
  node that only waits to be freed is freed; the callback of the node is recorded.\<close>

definition unref_failed :: "mlme_hooks \<Rightarrow> node_ref \<Rightarrow> mlme \<Rightarrow> mlme" where
  "unref_failed H r s =
     (let n = the_node s r in
      if bn_refcnt n = 0
      then let s = log_if (bn_unref_cb n) (Ev_Released (bn_macaddr n))
                     (upd_node r (\<lambda>n. if bn_unref_cb n then n\<lparr>bn_unref_cb := False, bn_unref_arg := None\<rparr> else n) s)
           in if bn_state n = STA_COLLECT then (case r of Bss \<Rightarrow> s | Peer a \<Rightarrow> free_node H a s) else s
      else s)"

definition send_mgmt :: "mlme_hooks \<Rightarrow> node_ref \<Rightarrow> u8 \<Rightarrow> u32 \<Rightarrow> mlme \<Rightarrow> int \<times> mlme" where
  "send_mgmt H r type arg s =
     (let a = bn_macaddr (the_node s r) in
      case mh_send H a type of
        Sent \<Rightarrow>
          let s = log_ev (Ev_Mgmt a type arg) (upd_node r (\<lambda>n. n\<lparr>bn_refcnt := bn_refcnt n + 1, bn_inact := 0\<rparr>) s);
              timer = mgmt_timer (m_opmode s) type
          in (0, if timer \<noteq> 0 then s\<lparr>m_mgt_timer := timer\<rparr> else s)
      | No_Mbuf \<Rightarrow> (ENOMEM, unref_failed H r (log_ev (Ev_Stat St_Tx_Nombuf) s))
      | No_Prepend \<Rightarrow> (ENOMEM, unref_failed H r (upd_node r (\<lambda>n. n\<lparr>bn_inact := 0\<rparr>) s)))"

section \<open>Making room and new nodes\<close>

text \<open>The counters of \<^verbatim>\<open>ieee80211_clean_nodes\<close>: stations without HT, those of them associated.\<close>

definition node_leave_cache :: "u8 list \<Rightarrow> mlme \<Rightarrow> mlme" where
  "node_leave_cache a s =
     log_ev (Ev_Leave a) (upd_node (Peer a) (\<lambda>n. n\<lparr>bn_state := STA_COLLECT\<rparr>) s)"

text \<open>The conditions under which a node of an access point or an ad hoc network stays.\<close>

definition node_stays :: "mlme \<Rightarrow> bool \<Rightarrow> bnode \<Rightarrow> bool" where
  "node_stays s cache_timeout n \<longleftrightarrow>
     (m_opmode s = M_HOSTAP \<or> m_opmode s = M_IBSS) \<and> m_state s = S_RUN \<and>
     (if cache_timeout
      then bn_state n \<noteq> STA_COLLECT \<and> (bn_state n = STA_ASSOC \<or> bn_inact n < INACT_MAX)
      else m_opmode s = M_HOSTAP \<and>
             (bn_state n = STA_ASSOC \<and> bn_inact n < INACT_MAX \<or> bn_state n = STA_AUTH \<and> bn_inact n = 0) \<or>
           m_opmode s = M_IBSS \<and> bn_state n \<noteq> STA_COLLECT \<and> bn_state n \<noteq> STA_CACHE \<and>
             bn_inact n < INACT_MAX)"

definition evict_node :: "mlme_hooks \<Rightarrow> bnode \<Rightarrow> mlme \<Rightarrow> mlme" where
  "evict_node H n s =
     (let a = bn_macaddr n in
      log_ev (Ev_Stat St_Node_Timeout)
        (if m_opmode s = M_HOSTAP \<and> (bn_state n = STA_AUTH \<or> bn_state n = STA_ASSOC)
         then node_leave_cache a (snd (send_mgmt H (Peer a) ST_DEAUTH REASON_AUTH_EXPIRE s))
         else free_node H a s))"

definition count_nonht :: "mlme \<Rightarrow> bool \<Rightarrow> bnode \<Rightarrow> int \<times> int" where
  "count_nonht s cache_timeout n =
     (if m_flag s F_HTON \<and> cache_timeout \<and> \<not> has_flag (bn_flags n) NODE_HTCAP
      then (1, if bn_state n = STA_ASSOC then 1 else 0) else (0, 0))"

fun clean_nodes_loop ::
  "mlme_hooks \<Rightarrow> bool \<Rightarrow> u32 \<Rightarrow> bnode list \<Rightarrow> mlme \<Rightarrow> int \<Rightarrow> int \<Rightarrow> mlme \<times> int \<times> int" where
  "clean_nodes_loop H ct gen [] s nonht nonhtassoc = (s, nonht, nonhtassoc)"
| "clean_nodes_loop H ct gen (n # ns) s nonht nonhtassoc =
     (if \<not> ct \<and> m_nnodes s < m_max_nnodes s then (s, nonht, nonhtassoc)
      else if bn_scangen n = gen then clean_nodes_loop H ct gen ns s nonht nonhtassoc
      else let (d, da) = count_nonht s ct n;
               s = upd_node (Peer (bn_macaddr n)) (\<lambda>n. n\<lparr>bn_scangen := gen\<rparr>) s
           in if 0 < bn_refcnt n \<or> node_stays s ct n
              then clean_nodes_loop H ct gen ns s (nonht + d) (nonhtassoc + da)
              else clean_nodes_loop H ct gen ns (evict_node H n s) nonht nonhtassoc)"

definition update_htprot :: "mlme_hooks \<Rightarrow> int \<Rightarrow> int \<Rightarrow> mlme \<Rightarrow> mlme" where
  "update_htprot H nonht nonhtassoc s =
     (let htop1 = hn_htop1 (bn_ht (m_bss s));
          htprot = (if nonht \<noteq> 0 then if nonhtassoc \<noteq> 0 then HTPROT_NONHT_MIXED else HTPROT_NONMEMBER
                    else HTPROT_NONE);
          protmode = (if nonht \<noteq> 0 then 1 else 0)
      in if htop1 AND HTOP1_PROT_MASK \<noteq> htprot
         then log_if (mh_updateprot H) Ev_Update_Prot
                ((upd_node Bss (upd_ht (\<lambda>h. h\<lparr>hn_htop1 := (htop1 AND NOT HTOP1_PROT_MASK) OR htprot\<rparr>)) s)
                   \<lparr>m_protmode := protmode\<rparr>)
         else s)"

definition clean_nodes :: "mlme_hooks \<Rightarrow> bool \<Rightarrow> mlme \<Rightarrow> mlme" where
  "clean_nodes H cache_timeout s =
     (let (s', nonht, nonhtassoc) = clean_nodes_loop H cache_timeout (m_scangen s) (m_tree s)
            (s\<lparr>m_scangen := m_scangen s + 1\<rparr>) 0 0
      in if m_flag s' F_HTON \<and> cache_timeout then update_htprot H nonht nonhtassoc s' else s')"

text \<open>The helper says whether there is a new node.\<close>

definition alloc_node_helper :: "mlme_hooks \<Rightarrow> mlme \<Rightarrow> bool \<times> mlme" where
  "alloc_node_helper H s =
     (let s = (if m_max_nnodes s \<le> m_nnodes s then clean_nodes H False s else s)
      in (\<not> m_max_nnodes s \<le> m_nnodes s \<and> mh_alloc H, s))"

definition setup_node :: "bnode \<Rightarrow> u8 list \<Rightarrow> mlme \<Rightarrow> mlme" where
  "setup_node n a s =
     s\<lparr>m_tree := tree_insert (n\<lparr>bn_macaddr := a, bn_savedq := [], bn_state := STA_CACHE\<rparr>) (m_tree s),
       m_nnodes := m_nnodes s + 1\<rparr>"

definition alloc_node :: "mlme_hooks \<Rightarrow> u8 list \<Rightarrow> mlme \<Rightarrow> bool \<times> mlme" where
  "alloc_node H a s =
     (let (ok, s) = alloc_node_helper H s
      in (ok, if ok then setup_node zero_node a s else log_ev (Ev_Stat St_Nodealloc) s))"

definition dup_bss :: "mlme_hooks \<Rightarrow> u8 list \<Rightarrow> mlme \<Rightarrow> bool \<times> mlme" where
  "dup_bss H a s =
     (let (ok, s) = alloc_node_helper H s
      in (ok, if ok then setup_node (zero_node\<lparr>bn_bssid := bn_bssid (m_bss s), bn_chan := bn_chan (m_bss s)\<rparr>) a s
              else log_ev (Ev_Stat St_Nodealloc) s))"

section \<open>Timers\<close>

definition node_raise_inact :: "mlme \<Rightarrow> mlme" where
  "node_raise_inact s =
     s\<lparr>m_tree := map (\<lambda>n. if bn_refcnt n = 0 \<and> bn_inact n < INACT_SCAN then n\<lparr>bn_inact := bn_inact n + 1\<rparr>
                          else n) (m_tree s)\<rparr>"

definition inact_timeout :: "mlme \<Rightarrow> mlme" where
  "inact_timeout s =
     s\<lparr>m_tree := map (\<lambda>n. if \<not> 0 < bn_refcnt n \<and> bn_inact n < INACT_MAX then n\<lparr>bn_inact := bn_inact n + 1\<rparr>
                          else n) (m_tree s),
       m_inact_to := timeout_add_sec (m_inact_to s) 5\<rparr>"

definition node_cache_timeout :: "mlme_hooks \<Rightarrow> mlme \<Rightarrow> mlme" where
  "node_cache_timeout H s =
     (let s = clean_nodes H True s in s\<lparr>m_node_cache_to := timeout_add_sec (m_node_cache_to s) 30\<rparr>)"

end
