(* ===== verification/Scan.thy ===== *)
theory Scan
  imports Nodes
begin

text \<open>
  Channels and modes of a scan (\<^verbatim>\<open>ieee80211_setmode\<close>, \<^verbatim>\<open>ieee80211_next_mode\<close> and
  \<^verbatim>\<open>ieee80211_reset_scan\<close>), the list of networks to join, and the choice of an access point
  (\<^verbatim>\<open>ieee80211_match_bss\<close>, \<^verbatim>\<open>ieee80211_node_choose_bss\<close>, \<^verbatim>\<open>ieee80211_switch_ess\<close>).
\<close>

abbreviation (input) F_ASCAN :: u32 where "F_ASCAN \<equiv> 0x1"
abbreviation (input) F_SIBSS :: u32 where "F_SIBSS \<equiv> 0x2"
abbreviation (input) F_IBSSON :: u32 where "F_IBSSON \<equiv> 0x200"
abbreviation (input) F_DESBSSID :: u32 where "F_DESBSSID \<equiv> 0x800"
abbreviation (input) F_PSK :: u32 where "F_PSK \<equiv> 0x400000"
abbreviation (input) F_COUNTERM :: u32 where "F_COUNTERM \<equiv> 0x800000"
abbreviation (input) F_BGSCAN :: u32 where "F_BGSCAN \<equiv> 0x8000000"
abbreviation (input) F_AUTO_JOIN :: u32 where "F_AUTO_JOIN \<equiv> 0x10000000"
abbreviation (input) F_DISABLE_BG_AUTO_CONNECT :: u32 where "F_DISABLE_BG_AUTO_CONNECT \<equiv> 0x40000000"
abbreviation (input) C_SHPREAMBLE :: u32 where "C_SHPREAMBLE \<equiv> 0x100"
abbreviation (input) C_SCANALLBAND :: u32 where "C_SCANALLBAND \<equiv> 0x8000"
abbreviation (input) CHAN_PASSIVE :: u32 where "CHAN_PASSIVE \<equiv> 0x200"
abbreviation (input) NODE_VHTCAP :: u32 where "NODE_VHTCAP \<equiv> 0x40000"
abbreviation (input) NODE_PMKID :: u32 where "NODE_PMKID \<equiv> 0x200"
abbreviation (input) ASSOCFAIL_CHAN :: u32 where "ASSOCFAIL_CHAN \<equiv> 0x01"
abbreviation (input) ASSOCFAIL_IBSS :: u32 where "ASSOCFAIL_IBSS \<equiv> 0x02"
abbreviation (input) ASSOCFAIL_PRIVACY :: u32 where "ASSOCFAIL_PRIVACY \<equiv> 0x04"
abbreviation (input) ASSOCFAIL_BASIC_RATE :: u32 where "ASSOCFAIL_BASIC_RATE \<equiv> 0x08"
abbreviation (input) ASSOCFAIL_ESSID :: u32 where "ASSOCFAIL_ESSID \<equiv> 0x10"
abbreviation (input) ASSOCFAIL_BSSID :: u32 where "ASSOCFAIL_BSSID \<equiv> 0x20"
abbreviation (input) ASSOCFAIL_WPA_PROTO :: u32 where "ASSOCFAIL_WPA_PROTO \<equiv> 0x40"
abbreviation (input) ASSOCFAIL_WPA_KEY :: u32 where "ASSOCFAIL_WPA_KEY \<equiv> 0x80"
abbreviation (input) WEP_NKID :: nat where "WEP_NKID \<equiv> 4"
abbreviation (input) CHAN_HT :: u32 where "CHAN_HT \<equiv> 0x70000"
abbreviation (input) CHAN_VHT_HT :: u32 where "CHAN_VHT_HT \<equiv> 0x3f070000"

section \<open>Channels and modes\<close>

definition chan2ieee :: "nat option \<Rightarrow> nat" where
  "chan2ieee c = (case c of Some i \<Rightarrow> i | None \<Rightarrow> 0xffff)"

definition chan_is :: "mlme \<Rightarrow> u32 \<Rightarrow> nat option \<Rightarrow> bool" where
  "chan_is s f c = (case c of Some i \<Rightarrow> has_flag (m_chan_flags s i) f | None \<Rightarrow> False)"

definition m_chan2mode :: "mlme \<Rightarrow> nat option \<Rightarrow> nat" where
  "m_chan2mode s c = chan_mode (m_curmode s) (ucast (m_modecaps s)) (map_option (m_chan_flags s) c)"

definition set_shortslottime :: "mlme_hooks \<Rightarrow> bool \<Rightarrow> mlme \<Rightarrow> mlme" where
  "set_shortslottime H on s =
     log_if (mh_updateslot H) Ev_Update_Slot (if on then m_set_flags F_SHSLOT s else m_clear_flags F_SHSLOT s)"

definition reset_erp :: "mlme_hooks \<Rightarrow> mlme \<Rightarrow> mlme" where
  "reset_erp H s =
     (let s = m_clear_flags F_USEPROT s;
          m = m_curmode s;
          c5 = chan_is s CHAN_5GHZ (m_ibss_chan s);
          c2 = chan_is s CHAN_2GHZ (m_ibss_chan s);
          s = set_shortslottime H (m = MODE_11A \<or> m = MODE_11N \<and> c5 \<or>
                (m = MODE_11G \<or> m = MODE_11N \<and> c2) \<and> m_opmode s = M_HOSTAP \<and> has_flag (m_caps s) C_SHSLOT) s
      in if m = MODE_11A \<or> m = MODE_11N \<and> c5 \<or> has_flag (m_caps s) C_SHPREAMBLE
         then m_set_flags F_SHPREAMBLE s else m_clear_flags F_SHPREAMBLE s)"

definition reset_scan :: "mlme \<Rightarrow> mlme" where
  "reset_scan s =
     (let s = s\<lparr>m_chan_scan := m_chan_active s\<rparr>
      in if bn_chan (m_bss s) = None then upd_node Bss (\<lambda>n. n\<lparr>bn_chan := Some CHAN_MAX\<rparr>) s else s)"

definition mode_chanflags :: "nat \<Rightarrow> u32" where
  "mode_chanflags m = [0, 0x140, 0xa0, 0xc0, CHAN_HT, CHAN_VHT_HT, CHAN_VHT_HT] ! m"

definition in_mode :: "mlme \<Rightarrow> nat \<Rightarrow> nat \<Rightarrow> bool" where
  "in_mode s m i \<longleftrightarrow>
     (if m = MODE_AUTO then m_chan_flags s i \<noteq> 0 else m_chan_flags s i AND mode_chanflags m \<noteq> 0)"

definition chan_range :: "nat list" where
  "chan_range = [0..<CHAN_MAX + 1]"

text \<open>\<open>None\<close> is a panic; otherwise the error and the new state.\<close>

definition setmode :: "mlme_hooks \<Rightarrow> nat \<Rightarrow> mlme \<Rightarrow> (int \<times> mlme) option" where
  "setmode H m s =
     (if m_modecaps s AND push_bit m 1 = 0 then Some (EINVAL, s)
      else if 7 \<le> m then None
      else if List.find (in_mode s m) chan_range = None then Some (EINVAL, s)
      else
        let act = (\<lambda>i. i \<le> CHAN_MAX \<and> in_mode s m i);
            s = s\<lparr>m_chan_active := act\<rparr>;
            s = (if m_ibss_chan s = None \<or> \<not> act (chan2ieee (m_ibss_chan s))
                 then (case List.find act chan_range of None \<Rightarrow> s | Some i \<Rightarrow> s\<lparr>m_ibss_chan := Some i\<rparr>)
                 else s)
        in if m_ibss_chan s = None \<or> \<not> act (chan2ieee (m_ibss_chan s)) then None
           else Some (0, reset_erp H ((reset_scan s)\<lparr>m_curmode := m\<rparr>)))"

function next_mode_loop :: "u16 \<Rightarrow> nat \<Rightarrow> nat" where
  "next_mode_loop caps m =
     (if 7 < m then m
      else if m = MODE_11N \<or> m = MODE_11AC \<or> m = MODE_11AX then next_mode_loop caps (m + 1)
      else if m = 7 then MODE_AUTO
      else if caps AND push_bit m 1 \<noteq> 0 then m
      else next_mode_loop caps (m + 1))"
  by pat_completeness auto
termination
  by (relation "measure (\<lambda>(_, m). 8 - m)") auto

declare next_mode_loop.simps [simp del]

definition next_mode :: "mlme_hooks \<Rightarrow> mlme \<Rightarrow> (nat \<times> mlme) option" where
  "next_mode H s =
     (if \<not> m_media_auto s then Some (MODE_AUTO, s)
      else if has_flag (m_caps s) C_SCANALLBAND
      then map_option (\<lambda>(_, s). (m_curmode s, s)) (setmode H MODE_AUTO s)
      else let m = next_mode_loop (m_modecaps s) (m_curmode s + 1)
           in if m \<noteq> m_curmode s then map_option (\<lambda>(_, s). (m_curmode s, s)) (setmode H m s)
              else Some (m_curmode s, s))"

section \<open>The networks to join\<close>

definition get_ess :: "mlme \<Rightarrow> u8 list \<Rightarrow> nat \<Rightarrow> ess option" where
  "get_ess s nwid n = List.find (\<lambda>e. n = ess_len e \<and> bytes_at (ess_essid e) 0 n = bytes_at nwid 0 n) (m_ess s)"

definition node_supports_ht :: "bnode \<Rightarrow> bool" where
  "node_supports_ht n \<longleftrightarrow> has_flag (bn_flags n) NODE_HTCAP \<and> byte_at (hn_rxmcs (bn_ht n)) 0 \<noteq> 0"

definition node_supports_vht :: "bnode \<Rightarrow> bool" where
  "node_supports_vht n \<longleftrightarrow> has_flag (bn_flags n) NODE_VHTCAP"

text \<open>The thresholds in percent, when the driver scales the signal, or in dBm as a byte.\<close>

definition min_5ghz_rssi :: "mlme \<Rightarrow> u8" where
  "min_5ghz_rssi s = (if m_max_rssi s \<noteq> 0 then 40 else 186)"

definition ess_adjust_rssi :: "mlme \<Rightarrow> bnode \<Rightarrow> u8" where
  "ess_adjust_rssi s n =
     (let rssi = bn_rssi n in
      if chan_is s CHAN_2GHZ (bn_chan n)
      then let p = (if m_max_rssi s \<noteq> 0 then of_nat (5 * unat (m_max_rssi s) div 100) else 8)
           in if p \<le> rssi then rssi - p else rssi
      else rssi)"

definition ess_calculate_score :: "mlme \<Rightarrow> bnode \<Rightarrow> int" where
  "ess_calculate_score s n =
     (if get_ess s (bn_essid n) (bn_esslen n) \<noteq> None then 32 else 0) +
     (if has_flag (bn_rsnprotos n) PROTO_RSN then 16 else 0) +
     (if has_flag (bn_rsnprotos n) PROTO_WPA then 8 else 0) +
     (if has_flag (bn_capinfo n) CAPINFO_PRIVACY then 4 else 0) +
     (if chan_is s CHAN_5GHZ (bn_chan n) \<and> min_5ghz_rssi s < bn_rssi n then 2 else 0) +
     (if node_supports_ht n then 1 else 0) + (if node_supports_vht n then 1 else 0) +
     (if bn_fails n = 0 then 21 else 0)"

definition ess_is_better :: "mlme \<Rightarrow> bnode \<Rightarrow> bnode \<Rightarrow> bool" where
  "ess_is_better s cur can \<longleftrightarrow>
     ess_calculate_score s cur <
     ess_calculate_score s can + (if ess_adjust_rssi s cur < ess_adjust_rssi s can then 1 else 0)"

text \<open>The reason why a node does not belong to an entry; \<open>None\<close> when it does.\<close>

definition match_ess :: "ess \<Rightarrow> bnode \<Rightarrow> u32 option" where
  "match_ess e n =
     (let privacy = has_flag (bn_capinfo n) CAPINFO_PRIVACY;
          f = ess_flags e in
      if ess_len e \<noteq> 0 \<and> (ess_len e \<noteq> bn_esslen n \<or>
           bytes_at (ess_essid e) 0 (ess_len e) \<noteq> bytes_at (bn_essid n) 0 (ess_len e)) then Some ASSOCFAIL_ESSID
      else if f AND (F_PSK OR F_RSNON) \<noteq> 0 \<and>
           (has_flag (bn_rsnprotos n) PROTO_RSN \<and> \<not> has_flag (ess_rsnprotos e) PROTO_RSN \<or>
            has_flag (bn_rsnprotos n) PROTO_WPA \<and> \<not> has_flag (ess_rsnprotos e) PROTO_WPA)
        then Some ASSOCFAIL_WPA_PROTO
      else if f AND (F_PSK OR F_RSNON) = 0 \<and> (if has_flag f F_WEPON then \<not> privacy else privacy)
        then Some ASSOCFAIL_PRIVACY
      else if ess_len e = 0 \<and> privacy then Some ASSOCFAIL_PRIVACY
      else None)"

text \<open>The first entry a node belongs to; the node collects the reasons of the others.\<close>

fun match_first :: "ess list \<Rightarrow> bnode \<Rightarrow> ess option \<times> bnode" where
  "match_first [] n = (None, n)"
| "match_first (e # es) n =
     (case match_ess e n of None \<Rightarrow> (Some e, n)
      | Some f \<Rightarrow> match_first es (n\<lparr>bn_assoc_fail := bn_assoc_fail n OR f\<rparr>))"

definition drv_delete_key :: "mlme_hooks \<Rightarrow> nat \<Rightarrow> mlme \<Rightarrow> mlme" where
  "drv_delete_key H i s =
     (let k = m_nw_keys s ! i
      in log_ev (Ev_Delete_Key k) (s\<lparr>m_nw_keys := (m_nw_keys s)[i := mh_delete_key H k]\<rparr>))"

definition drv_set_key :: "mlme_hooks \<Rightarrow> nat \<Rightarrow> iee_key \<Rightarrow> mlme \<Rightarrow> mlme" where
  "drv_set_key H i k s = log_ev (Ev_Set_Key k) (s\<lparr>m_nw_keys := (m_nw_keys s)[i := mh_set_key H k]\<rparr>)"

definition delete_if_set :: "mlme_hooks \<Rightarrow> nat \<Rightarrow> mlme \<Rightarrow> mlme" where
  "delete_if_set H i s = (if k_cipher (m_nw_keys s ! i) \<noteq> CIPHER_NONE then drv_delete_key H i s else s)"

definition disable_wep :: "mlme_hooks \<Rightarrow> mlme \<Rightarrow> mlme" where
  "disable_wep H s =
     m_clear_flags F_WEPON
       (fold (\<lambda>i s. let s = delete_if_set H i s in s\<lparr>m_nw_keys := (m_nw_keys s)[i := zero_key]\<rparr>) [0..<WEP_NKID] s)"

definition disable_rsn :: "mlme \<Rightarrow> mlme" where
  "disable_rsn s =
     (m_clear_flags (F_PSK OR F_RSNON) s)
       \<lparr>m_psk := replicate 32 0, m_rsnprotos := 0, m_rsnakms := 0, m_rsnciphers := 0, m_rsngroupcipher := 0\<rparr>"

definition set_wep_key :: "mlme_hooks \<Rightarrow> ess \<Rightarrow> nat \<Rightarrow> mlme \<Rightarrow> mlme" where
  "set_wep_key H e i s = drv_set_key H i (ess_nw_keys e ! i) (delete_if_set H i s)"

definition set_ess :: "mlme_hooks \<Rightarrow> ess \<Rightarrow> bnode \<Rightarrow> mlme \<Rightarrow> mlme" where
  "set_ess H e n s =
     (let s = s\<lparr>m_des_esslen := bn_esslen n,
                m_des_essid := bytes_at (bn_essid n) 0 (bn_esslen n) @ replicate (NWID_LEN - bn_esslen n) 0\<rparr>;
          s = disable_rsn (disable_wep H s)
      in if has_flag (ess_flags e) F_RSNON
         then let s = m_set_flags F_RSNON
                (s\<lparr>m_psk := ess_psk e, m_rsnprotos := ess_rsnprotos e, m_rsnakms := ess_rsnakms e,
                   m_rsnciphers := ess_rsnciphers e, m_rsngroupcipher := ess_rsngroupcipher e\<rparr>)
              in if has_flag (ess_flags e) F_PSK then m_set_flags F_PSK s else s
         else if has_flag (ess_flags e) F_WEPON
         then m_set_flags F_WEPON
                ((fold (set_wep_key H e) [0..<WEP_NKID] s)\<lparr>m_def_txkey := ess_def_txkey e\<rparr>)
         else s)"

definition deselect_ess :: "mlme_hooks \<Rightarrow> mlme \<Rightarrow> mlme" where
  "deselect_ess H s =
     disable_rsn (disable_wep H (s\<lparr>m_des_esslen := 0, m_des_essid := replicate NWID_LEN 0\<rparr>))"

end
