(* ===== verification/Select.thy ===== *)
theory Select
  imports Scan
begin

text \<open>
  The choice of an access point among the nodes of the cache: \<^verbatim>\<open>ieee80211_match_bss\<close>,
  \<^verbatim>\<open>ieee80211_node_choose_bss\<close>, \<^verbatim>\<open>ieee80211_switch_ess\<close>, and \<^verbatim>\<open>ieee80211_choose_rsnparams\<close>
  (\<^verbatim>\<open>net80211/ieee80211_node.c\<close>).  A pointer to a node of the tree is its MAC address.
\<close>

section \<open>Matching\<close>

definition fixed_nego :: rate_flags where
  "fixed_nego = \<lparr>do_sort = False, do_frate = False, do_nego = True, do_del = False\<rparr>"

definition all_rate_flags :: rate_flags where
  "all_rate_flags = \<lparr>do_sort = True, do_frate = True, do_nego = True, do_del = True\<rparr>"

text \<open>\<^verbatim>\<open>ieee80211_fix_rate\<close> on a node: the rate and the node with its rates replaced.\<close>

definition node_fix_rate :: "mlme \<Rightarrow> rate_flags \<Rightarrow> bnode \<Rightarrow> u8 \<times> bnode" where
  "node_fix_rate s fl n =
     (let rs = bn_rates n;
          (r, used, tail) = fix_rate fl (m_sup_rates s (m_chan2mode s (bn_chan n))) (m_fixed_rate s)
            (m_opmode s = M_HOSTAP) (used_rates rs) (drop (unat (rs_nrates rs)) (rs_rates rs))
      in (r, n\<lparr>bn_rates := \<lparr>rs_nrates = of_nat (length used), rs_rates = used @ tail\<rparr>\<rparr>))"

definition flag_if :: "bool \<Rightarrow> u32 \<Rightarrow> u32" where
  "flag_if b f = (if b then f else 0)"

definition match_chan :: "mlme \<Rightarrow> bnode \<Rightarrow> u32" where
  "match_chan s n =
     flag_if (\<not> m_flag s F_BGSCAN \<and> \<not> m_chan_active s (chan2ieee (bn_chan n))) ASSOCFAIL_CHAN
     OR flag_if (m_des_chan s \<noteq> None \<and> bn_chan n \<noteq> m_des_chan s) ASSOCFAIL_CHAN"

definition match_caps :: "mlme \<Rightarrow> bnode \<Rightarrow> u32" where
  "match_caps s n =
     flag_if (\<not> has_flag (bn_capinfo n) (if m_opmode s = M_IBSS then CAPINFO_IBSS else CAPINFO_ESS)) ASSOCFAIL_IBSS
     OR flag_if ((m_flags s AND (F_WEPON OR F_RSNON) \<noteq> 0) \<noteq> has_flag (bn_capinfo n) CAPINFO_PRIVACY)
          ASSOCFAIL_PRIVACY"

definition match_names :: "mlme \<Rightarrow> bnode \<Rightarrow> u32" where
  "match_names s n =
     flag_if (m_des_esslen s \<noteq> 0 \<and> (bn_esslen n \<noteq> m_des_esslen s \<or>
         bytes_at (bn_essid n) 0 (m_des_esslen s) \<noteq> bytes_at (m_des_essid s) 0 (m_des_esslen s))) ASSOCFAIL_ESSID
     OR flag_if (m_flag s F_DESBSSID \<and> m_des_bssid s \<noteq> bn_bssid n) ASSOCFAIL_BSSID"

definition rsn_mismatch :: "mlme \<Rightarrow> bnode \<Rightarrow> bool" where
  "rsn_mismatch s n \<longleftrightarrow>
     bn_rsnprotos n AND m_rsnprotos s = 0 \<or>
     bn_rsnakms n AND m_rsnakms s = 0 \<or>
     bn_rsnakms n AND m_rsnakms s AND NOT (AKM_PSK OR AKM_SHA256_PSK) = 0 \<and> \<not> m_flag s F_PSK \<or>
     bn_rsngroupcipher n \<notin> {CIPHER_WEP40, CIPHER_TKIP, CIPHER_CCMP, CIPHER_WEP104} \<or>
     bn_rsnciphers n AND m_rsnciphers s = 0 \<or>
     has_flag (bn_rsncaps n) RSNCAP_MFPC \<and> bn_rsngroupmgmtcipher n \<noteq> CIPHER_BIP \<or>
     \<not> has_flag (m_caps s) C_MFP \<and> has_flag (bn_rsncaps n) RSNCAP_MFPR \<or>
     has_flag (m_caps s) C_MFP \<and> m_flag s F_MFPR \<and> \<not> has_flag (bn_rsncaps n) RSNCAP_MFPC"

definition match_fail :: "mlme \<Rightarrow> bnode \<Rightarrow> u32" where
  "match_fail s n =
     match_chan s n OR match_caps s n OR
     flag_if (has_flag (fst (node_fix_rate s fixed_nego n)) RATE_BASIC) ASSOCFAIL_BASIC_RATE OR
     match_names s n OR
     flag_if (m_flag s F_RSNON \<and> rsn_mismatch s n) ASSOCFAIL_WPA_PROTO"

definition match_bss :: "u8 list \<Rightarrow> bool \<Rightarrow> mlme \<Rightarrow> u32 \<times> mlme" where
  "match_bss a bgscan s =
     (if m_flag s F_AUTO_JOIN \<and> m_des_esslen s = 0 then (0, s)
      else
        let n = the_node s (Peer a);
            fail = match_fail s n;
            ours = fail AND ASSOCFAIL_ESSID = 0;
            n = snd (node_fix_rate s fixed_nego n);
            n = (if \<not> bgscan \<or> ours then n\<lparr>bn_assoc_fail := fail\<rparr> else n);
            s = upd_node (Peer a) (\<lambda>_. n) s
        in (fail, if ours then upd_node Bss (\<lambda>b. b\<lparr>bn_assoc_fail := bn_assoc_fail n\<rparr>) s else s))"

definition node_checkrssi :: "mlme \<Rightarrow> bnode \<Rightarrow> bool" where
  "node_checkrssi s n \<longleftrightarrow>
     (if bn_chan n = None then False
      else let g2 = chan_is s CHAN_2GHZ (bn_chan n) in
        if m_max_rssi s \<noteq> 0
        then unat (bn_rssi n) * 100 div unat (m_max_rssi s) \<ge> (if g2 then 50 else 40)
        else bn_rssi n \<ge> (if g2 then 196 else 186))"

section \<open>Choosing\<close>

text \<open>The pointers of the loop: the current access point, the best node, the best per band.\<close>

record choice =
  ch_cur :: "u8 list option"
  ch_sel :: "u8 list option"
  ch_sel2 :: "u8 list option"
  ch_sel5 :: "u8 list option"

definition better :: "mlme \<Rightarrow> u8 list option \<Rightarrow> bnode \<Rightarrow> bool" where
  "better s sel n \<longleftrightarrow> (case sel of None \<Rightarrow> True | Some a \<Rightarrow> bn_rssi (the_node s (Peer a)) < bn_rssi n)"

definition choose_update :: "mlme \<Rightarrow> bnode \<Rightarrow> choice \<Rightarrow> choice" where
  "choose_update s n c =
     (let a = Some (bn_macaddr n) in
      if has_flag (m_caps s) C_SCANALLBAND
      then if chan_is s CHAN_2GHZ (bn_chan n) \<and> better s (ch_sel2 c) n then c\<lparr>ch_sel2 := a\<rparr>
           else if chan_is s CHAN_5GHZ (bn_chan n) \<and> better s (ch_sel5 c) n then c\<lparr>ch_sel5 := a\<rparr>
           else c
      else if better s (ch_sel c) n then c\<lparr>ch_sel := a\<rparr> else c)"

text \<open>One node of the loop; a node that failed before is skipped, and given up the third time.\<close>

definition choose_step :: "mlme_hooks \<Rightarrow> bool \<Rightarrow> bnode \<Rightarrow> mlme \<times> choice \<Rightarrow> mlme \<times> choice" where
  "choose_step H bgscan n = (\<lambda>(s, c).
     if bn_fails n \<noteq> 0
     then (if bn_fails n > 2 then free_node H (bn_macaddr n) s
           else upd_node (Peer (bn_macaddr n)) (\<lambda>n. n\<lparr>bn_fails := bn_fails n + 1\<rparr>) s, c)
     else
       let c = (if bn_macaddr (m_bss s) = bn_macaddr n then c\<lparr>ch_cur := Some (bn_macaddr n)\<rparr> else c);
           (fail, s) = match_bss (bn_macaddr n) bgscan s
       in (s, if fail \<noteq> 0 then c else choose_update s n c))"

definition choose_final :: "mlme \<Rightarrow> choice \<Rightarrow> u8 list option" where
  "choose_final s c =
     (case ch_sel5 c of
        Some a5 \<Rightarrow>
          if node_checkrssi s (the_node s (Peer a5)) then Some a5
          else (case ch_sel2 c of
                  Some a2 \<Rightarrow> if bn_rssi (the_node s (Peer a2)) \<le> bn_rssi (the_node s (Peer a5)) then Some a5
                             else Some a2
                | None \<Rightarrow> Some a5)
      | None \<Rightarrow> (case ch_sel2 c of Some a2 \<Rightarrow> Some a2 | None \<Rightarrow> ch_sel c))"

text \<open>The result is the node selected, the current access point and the new state.\<close>

definition choose_bss :: "mlme_hooks \<Rightarrow> bool \<Rightarrow> mlme \<Rightarrow> u8 list option \<times> u8 list option \<times> mlme" where
  "choose_bss H bgscan s =
     (let (s, c) = fold (choose_step H bgscan) (m_tree s)
            (s, \<lparr>ch_cur = None, ch_sel = None, ch_sel2 = None, ch_sel5 = None\<rparr>)
      in (choose_final s c, ch_cur c, s))"

section \<open>Switching to another network\<close>

text \<open>The loop over the tree: the first result says that a network was set and the search ended.\<close>

fun switch_loop ::
  "mlme_hooks \<Rightarrow> bnode list \<Rightarrow> (ess \<times> bnode) option \<Rightarrow> mlme \<Rightarrow> bool \<times> (ess \<times> bnode) option \<times> mlme" where
  "switch_loop H [] sel s = (False, sel, s)"
| "switch_loop H (n # ns) sel s =
     (if m_flag s F_DESBSSID \<and> m_des_bssid s \<noteq> bn_bssid n then switch_loop H ns sel s
      else let (e, n) = match_first (m_ess s) n;
               s = upd_node (Peer (bn_macaddr n)) (\<lambda>_. n) s
           in case e of
                None \<Rightarrow> switch_loop H ns sel s
              | Some e \<Rightarrow>
                  if \<not> m_flag s F_AUTO_JOIN
                  then if m_des_esslen s = bn_esslen n \<and>
                          bytes_at (m_des_essid s) 0 (bn_esslen n) = bytes_at (bn_essid n) 0 (bn_esslen n) \<and>
                          0 < bn_esslen n
                       then (True, sel, set_ess H e n s)
                       else switch_loop H ns sel s
                  else switch_loop H ns
                         (case sel of None \<Rightarrow> Some (e, n)
                          | Some (e', n') \<Rightarrow> if ess_is_better s n' n then Some (e, n) else sel) s)"

definition switch_ess :: "mlme_hooks \<Rightarrow> mlme \<Rightarrow> mlme" where
  "switch_ess H s =
     (if \<not> m_running s then s
      else let (done, sel, s) = switch_loop H (m_tree s) None s in
        if done then s
        else case sel of
          None \<Rightarrow> s
        | Some (e, n) \<Rightarrow>
            if bn_esslen n = m_des_esslen s \<and>
               bytes_at (m_des_essid s) 0 NWID_LEN = bytes_at (bn_essid n) 0 NWID_LEN then s
            else set_ess H e n s)"

section \<open>RSN parameters\<close>

definition choose_akm :: "mlme \<Rightarrow> u32 \<Rightarrow> u32" where
  "choose_akm s akms =
     (if m_flag s F_PSK \<and> akms AND (AKM_PSK OR AKM_SHA256_PSK) \<noteq> 0
      then if has_flag akms AKM_SHA256_PSK then AKM_SHA256_PSK else AKM_PSK
      else if has_flag akms AKM_SHA256_8021X then AKM_SHA256_8021X else AKM_8021X)"

definition choose_pmkid :: "mlme \<Rightarrow> bool \<Rightarrow> bnode \<Rightarrow> bnode" where
  "choose_pmkid s psk n =
     (if psk \<or> bn_rsnprotos n \<noteq> PROTO_RSN then n
      else case pmksa_find (bn_rsnakms n) (bn_macaddr n) None (m_pmksa s) of
             None \<Rightarrow> n
           | Some p \<Rightarrow> n\<lparr>bn_pmkid := pmk_pmkid p, bn_flags := bn_flags n OR NODE_PMKID\<rparr>)"

definition choose_rsnparams :: "mlme \<Rightarrow> bnode \<Rightarrow> bnode" where
  "choose_rsnparams s n =
     (let akms = bn_rsnakms n AND m_rsnakms s;
          psk = m_flag s F_PSK \<and> akms AND (AKM_PSK OR AKM_SHA256_PSK) \<noteq> 0;
          n = n\<lparr>bn_rsnprotos := (if has_flag (bn_rsnprotos n AND m_rsnprotos s) PROTO_RSN then PROTO_RSN
                                  else PROTO_WPA),
                bn_rsnakms := choose_akm s akms\<rparr>;
          n = choose_pmkid s psk n;
          cipher = (if has_flag (bn_rsnciphers n AND m_rsnciphers s) CIPHER_CCMP then CIPHER_CCMP
                    else CIPHER_TKIP);
          n = n\<lparr>bn_rsnciphers := cipher, bn_rsncipher := cipher\<rparr>
      in if has_flag (m_caps s) C_MFP \<and> has_flag (bn_rsncaps n) RSNCAP_MFPC
         then n\<lparr>bn_flags := bn_flags n OR NODE_MFP\<rparr> else n)"

end
