(* ===== verification/Mlme.thy ===== *)
theory Mlme
  imports Select
begin

text \<open>
  The state machine of the interface: \<^verbatim>\<open>ieee80211_newstate\<close> (\<^verbatim>\<open>net80211/ieee80211_proto.c\<close>) with
  the scan and the join of a network (\<^verbatim>\<open>net80211/ieee80211_node.c\<close>).  These functions call each
  other, and every such call is the last thing they do; so each is a step that ends or names the
  next call, and \<open>run\<close> carries the calls out.  \<^verbatim>\<open>ic_newstate\<close> is the function of the stack, which
  \<^verbatim>\<open>ieee80211_proto_attach\<close> installs.
\<close>

abbreviation (input) F_TX_MGMT_ONLY :: u32 where "F_TX_MGMT_ONLY \<equiv> 1"
abbreviation (input) REASON_ASSOC_LEAVE :: u32 where "REASON_ASSOC_LEAVE \<equiv> 8"
abbreviation (input) BGSCAN_FAIL_MAX :: u32 where "BGSCAN_FAIL_MAX \<equiv> 360"
abbreviation (input) ECANCELED :: u32 where "ECANCELED \<equiv> 89"
abbreviation (input) NODE_TXPROT :: u32 where "NODE_TXPROT \<equiv> 0x10"
abbreviation (input) NODE_HT :: u32 where "NODE_HT \<equiv> 0x400"
abbreviation (input) NODE_VHT :: u32 where "NODE_VHT \<equiv> 0x10000"
abbreviation (input) NODE_HE :: u32 where "NODE_HE \<equiv> 0x200000"
abbreviation (input) HTOP1_NONGF_STA :: u16 where "HTOP1_NONGF_STA \<equiv> 4"

text \<open>Calls; \<open>None\<close> as the argument of \<^verbatim>\<open>ieee80211_new_state\<close> is -1.\<close>

datatype mcall = New_State ieee80211_state "u8 option" | Begin_Scan | Next_Scan | End_Scan
  | Create_Ibss "nat option" | Join_Bss "u8 list" bool | Switch_Bss "(u8 list \<times> u8 list) option"

datatype outcome = Done mlme | Call mcall mlme | Panicked

definition with_mode :: "mlme_hooks \<Rightarrow> nat \<Rightarrow> mlme \<Rightarrow> (mlme \<Rightarrow> outcome) \<Rightarrow> outcome" where
  "with_mode H m s k = (case setmode H m s of None \<Rightarrow> Panicked | Some (_, s) \<Rightarrow> k s)"

definition m_set_link_state :: "link_state \<Rightarrow> mlme \<Rightarrow> mlme" where
  "m_set_link_state l s =
     (let l = (case m_opmode s of M_IBSS \<Rightarrow> LINK_UNKNOWN | M_HOSTAP \<Rightarrow> LINK_UNKNOWN
               | M_MONITOR \<Rightarrow> LINK_DOWN | _ \<Rightarrow> l)
      in if l \<noteq> m_link s then log_ev (Ev_Link l) (s\<lparr>m_link := l\<rparr>) else s)"

definition m_clear_groupkeys :: "mlme_hooks \<Rightarrow> mlme \<Rightarrow> mlme" where
  "m_clear_groupkeys H s =
     fold (\<lambda>i s. let s = delete_if_set H i s in s\<lparr>m_nw_keys := (m_nw_keys s)[i := zero_key]\<rparr>) [0..<GROUP_NKID] s"

definition set_beacon_miss_threshold :: "mlme \<Rightarrow> mlme" where
  "set_beacon_miss_threshold s =
     (let intval = uint (bn_intval (m_bss s));
          btimeout = max (min (30 * intval) (30 * (1024 div 10))) (2 * intval)
      in if 0 < intval then s\<lparr>m_bmissthres := btimeout div intval\<rparr> else s)"

definition bump_fails :: "bnode \<Rightarrow> bnode" where
  "bump_fails n = n\<lparr>bn_fails := bn_fails n + 1\<rparr>"

definition check_wpa_supplicant_failure :: "node_ref \<Rightarrow> mlme \<Rightarrow> mlme" where
  "check_wpa_supplicant_failure r s =
     (if m_opmode s \<noteq> M_STA \<and> m_opmode s \<noteq> M_IBSS \<or> bn_supp_state (the_node s r) \<noteq> SUPP_PTKNEGOTIATING then s
      else let s = upd_node r (\<lambda>n. n\<lparr>bn_assoc_fail := bn_assoc_fail n OR ASSOCFAIL_WPA_KEY\<rparr>) s
           in if r \<noteq> Bss then s
              else upd_node (Peer (bn_macaddr (m_bss s)))
                     (\<lambda>n. n\<lparr>bn_assoc_fail := bn_assoc_fail n OR bn_assoc_fail (m_bss s)\<rparr>) s)"

section \<open>The state transitions\<close>

text \<open>The start of every transition, and the reset of the supplicant and of the group keys.\<close>

definition enter_state :: "ieee80211_state \<Rightarrow> mlme \<Rightarrow> mlme" where
  "enter_state nstate s =
     (let s = m_set_link_state LINK_DOWN (s\<lparr>m_state := nstate\<rparr>)
      in s\<lparr>m_xflags := m_xflags s AND NOT F_TX_MGMT_ONLY\<rparr>)"

definition reset_rsn :: "mlme_hooks \<Rightarrow> mlme \<Rightarrow> mlme" where
  "reset_rsn H s =
     (let s = upd_node Bss (\<lambda>n. n\<lparr>bn_supp_state := SUPP_INITIALIZE\<rparr>) s
      in if m_flag s F_RSNON then m_clear_groupkeys H s else s)"

definition stop_bgscan :: "mlme \<Rightarrow> mlme" where
  "stop_bgscan s = s\<lparr>m_bgscan_to := timeout_del (m_bgscan_to s), m_bgscan_fail := 0\<rparr>"

definition send_bss :: "mlme_hooks \<Rightarrow> u8 \<Rightarrow> u32 \<Rightarrow> mlme \<Rightarrow> mlme" where
  "send_bss H type arg s = snd (send_mgmt H Bss type arg s)"

definition leave_run :: "mlme_hooks \<Rightarrow> u8 option \<Rightarrow> mlme \<Rightarrow> mlme" where
  "leave_run H mgt s =
     (let s = log_ev Ev_Ba_Del (log_ev (Ev_Stop_Ampdu mgt) s)
      in if m_opmode s = M_STA then send_bss H ST_DISASSOC REASON_ASSOC_LEAVE s else s)"

definition leave_assoc :: "mlme_hooks \<Rightarrow> mlme \<Rightarrow> mlme" where
  "leave_assoc H s = (if m_opmode s = M_STA then send_bss H ST_DEAUTH (ucast REASON_AUTH_LEAVE) s else s)"

definition init_cleanup :: "mlme_hooks \<Rightarrow> mlme \<Rightarrow> mlme" where
  "init_cleanup H s =
     (let s = (if m_opmode s = M_HOSTAP then s\<lparr>m_rsn_to := timeout_del (m_rsn_to s)\<rparr> else s);
          s = (stop_bgscan (log_ev Ev_Ba_Del s))\<lparr>m_mgt_timer := 0\<rparr>
      in free_allnodes H True (log_ev Ev_Purge_Queues s))"

definition init_done :: "mlme_hooks \<Rightarrow> mlme \<Rightarrow> outcome" where
  "init_done H s =
     (let s = upd_node Bss (\<lambda>n. n\<lparr>bn_supp_state := SUPP_INITIALIZE, bn_assoc_fail := 0\<rparr>) s
      in Done (if m_flag s F_RSNON then m_clear_groupkeys H s else s))"

text \<open>An access point that leaves the state crashes after its frames to the stations: their loop
  runs over the variable that held \<open>ic_bss\<close>, which is a null pointer when the clean-up reads through
  it.\<close>

definition to_init :: "mlme_hooks \<Rightarrow> ieee80211_state \<Rightarrow> u8 option \<Rightarrow> mlme \<Rightarrow> outcome" where
  "to_init H ostate mgt s =
     (let s = log_if (mgt = None) (Ev_Reassoc_Fail ECANCELED) s;
          leaving = mgt \<noteq> None \<and> (ostate = S_RUN \<or> ostate = S_ASSOC)
      in if ostate = S_INIT then init_done H s
         else if leaving \<and> m_opmode s = M_HOSTAP then Panicked
         else
           let s = (if leaving \<and> ostate = S_RUN then leave_run H mgt s else s);
               s = (if leaving then leave_assoc H s else s)
           in init_done H (init_cleanup H s))"

definition to_scan :: "mlme_hooks \<Rightarrow> ieee80211_state \<Rightarrow> u8 option \<Rightarrow> mlme \<Rightarrow> outcome" where
  "to_scan H ostate mgt s =
     (let s = m_clear_flags F_SIBSS s;
          rates = m_sup_rates s (m_chan2mode s (bn_chan (m_bss s)));
          s = upd_node Bss (\<lambda>n. n\<lparr>bn_rstamp := 0, bn_macaddr := replicate 6 0xff, bn_bssid := replicate 6 0xff,
                bn_rates := rates, bn_associd := 0\<rparr>) s;
          s = reset_rsn H s
      in case ostate of
           S_INIT \<Rightarrow> if m_opmode s = M_HOSTAP \<and> m_des_chan s \<noteq> None then Call (Create_Ibss (m_des_chan s)) s
                     else Call Begin_Scan s
         | S_SCAN \<Rightarrow> Done (if m_flag s F_ASCAN then send_bss H ST_PROBE_REQ 0 s else s)
         | _ \<Rightarrow>
             let s = (if ostate = S_RUN
                      then free_allnodes H True (log_ev (Ev_Stop_Ampdu mgt) (stop_bgscan s)) else s)
             in Call Begin_Scan (upd_node (Peer (bn_macaddr (m_bss s))) bump_fails s))"

definition to_auth :: "mlme_hooks \<Rightarrow> ieee80211_state \<Rightarrow> u8 option \<Rightarrow> mlme \<Rightarrow> outcome" where
  "to_auth H ostate mgt s =
     (let s = clean_sta_bss_node s;
          s = (if ostate = S_RUN then check_wpa_supplicant_failure Bss s else s);
          s = reset_rsn H s
      in Done (case ostate of
           S_INIT \<Rightarrow> s
         | S_SCAN \<Rightarrow> send_bss H ST_AUTH 1 s
         | S_AUTH \<Rightarrow> if mgt = Some ST_AUTH \<and> m_opmode s = M_STA then send_bss H ST_AUTH 1 s else s
         | S_ASSOC \<Rightarrow> if mgt = Some ST_AUTH \<and> m_opmode s = M_STA then send_bss H ST_AUTH 1 s else s
         | S_RUN \<Rightarrow>
             let s = log_ev Ev_Ba_Del (log_ev (Ev_Stop_Ampdu mgt) (stop_bgscan s))
             in if mgt = Some ST_AUTH then (send_bss H ST_AUTH 2 s)\<lparr>m_state := S_RUN\<rparr>
                else if mgt = Some ST_DEAUTH then send_bss H ST_AUTH 1 s else s))"

definition to_assoc :: "mlme_hooks \<Rightarrow> ieee80211_state \<Rightarrow> u8 option \<Rightarrow> mlme \<Rightarrow> outcome" where
  "to_assoc H ostate mgt s =
     Done (case ostate of
         S_AUTH \<Rightarrow> send_bss H ST_ASSOC_REQ 0 s
       | S_RUN \<Rightarrow> send_bss H ST_ASSOC_REQ 1 (log_ev Ev_Ba_Del (log_ev (Ev_Stop_Ampdu mgt) s))
       | _ \<Rightarrow> s)"

definition link_at_run :: "mlme_hooks \<Rightarrow> mlme \<Rightarrow> bool" where
  "link_at_run H s \<longleftrightarrow>
     mh_apple H \<or> mh_family_v2 H \<and> is_8021x_akm (bn_rsnakms (m_bss s)) \<or> \<not> m_flag s F_RSNON"

definition to_run :: "mlme_hooks \<Rightarrow> ieee80211_state \<Rightarrow> mlme \<Rightarrow> outcome" where
  "to_run H ostate s =
     (if ostate = S_SCAN \<or> ostate = S_ASSOC
      then if unat (rs_nrates (bn_rates (m_bss s))) \<le> bn_txrate (m_bss s) then Panicked
           else
             let s = (if link_at_run H s
                      then upd_node Bss (\<lambda>n. n\<lparr>bn_assoc_fail := 0\<rparr>) (m_set_link_state LINK_UP s) else s);
                 s = upd_node Bss (\<lambda>n. n\<lparr>bn_fails := 0\<rparr>) s;
                 s = upd_node (Peer (bn_macaddr (m_bss s))) (\<lambda>n. n\<lparr>bn_fails := 0\<rparr>) s
             in Done (log_ev Ev_If_Start (set_beacon_miss_threshold (s\<lparr>m_mgt_timer := 0\<rparr>)))
      else Done s)"

definition newstate :: "mlme_hooks \<Rightarrow> ieee80211_state \<Rightarrow> u8 option \<Rightarrow> mlme \<Rightarrow> outcome" where
  "newstate H nstate mgt s =
     (let ostate = m_state s;
          s = enter_state nstate s
      in case nstate of
           S_INIT \<Rightarrow> to_init H ostate mgt s
         | S_SCAN \<Rightarrow> to_scan H ostate mgt s
         | S_AUTH \<Rightarrow> to_auth H ostate mgt s
         | S_ASSOC \<Rightarrow> to_assoc H ostate mgt s
         | S_RUN \<Rightarrow> to_run H ostate s)"

section \<open>Scanning\<close>

definition begin_scan :: "mlme_hooks \<Rightarrow> mlme \<Rightarrow> outcome" where
  "begin_scan H s =
     (let s = (if m_opmode s \<noteq> M_HOSTAP then log_ev (Ev_Stat St_Scan_Active) (m_set_flags F_ASCAN s)
               else log_ev (Ev_Stat St_Scan_Passive) s);
          s = (if m_opmode s = M_STA then node_raise_inact (log_ev Ev_Ba_Del (upd_node Bss node_cleanup s)) else s);
          s = (if m_media_auto s then s\<lparr>m_curmode := MODE_AUTO\<rparr> else s)
      in with_mode H (m_curmode s) s (\<lambda>s. Call Next_Scan (s\<lparr>m_scan_count := 0\<rparr>)))"

definition scannable :: "mlme \<Rightarrow> nat \<Rightarrow> bool" where
  "scannable s i \<longleftrightarrow> m_chan_scan s i \<and> (\<not> m_flag s F_ASCAN \<or> \<not> has_flag (m_chan_flags s i) CHAN_PASSIVE)"

text \<open>The channels in the order of the search, the current one last.\<close>

definition scan_order :: "nat \<Rightarrow> nat list" where
  "scan_order c = [c + 1..<CHAN_MAX + 1] @ [0..<c + 1]"

definition next_scan :: "mlme \<Rightarrow> outcome" where
  "next_scan s =
     (case bn_chan (m_bss s) of
        None \<Rightarrow> Panicked
      | Some c \<Rightarrow>
          (case List.find (scannable s) (scan_order c) of
             None \<Rightarrow> Call End_Scan s
           | Some i \<Rightarrow>
               Call (New_State S_SCAN None)
                 (upd_node Bss (\<lambda>n. n\<lparr>bn_chan := Some i\<rparr>) (s\<lparr>m_chan_scan := (m_chan_scan s)(i := False)\<rparr>))))"

text \<open>The channel of a new access point: an active one without a node, otherwise a random one.\<close>

definition hostap_channel :: "mlme_hooks \<Rightarrow> mlme \<Rightarrow> nat" where
  "hostap_channel H s =
     (let occupied = (\<lambda>i. \<exists>n\<in>set (m_tree s). chan2ieee (bn_chan n) = i) in
      case List.find (\<lambda>i. m_chan_active s i \<and> \<not> occupied i) [0..<CHAN_MAX] of
        Some i \<Rightarrow> i
      | None \<Rightarrow> let act = filter (m_chan_active s) [0..<CHAN_MAX]; k = mh_random H mod 4
                in if k < length act then act ! k else CHAN_MAX)"

definition scan_notfound :: "mlme_hooks \<Rightarrow> mlme \<Rightarrow> outcome" where
  "scan_notfound H s =
     (if m_opmode s = M_IBSS \<and> m_flag s F_IBSSON \<and> m_des_esslen s \<noteq> 0
      then Call (Create_Ibss (m_ibss_chan s)) s
      else if m_state s \<noteq> S_RUN
      then case next_mode H (reset_scan s) of
             None \<Rightarrow> Panicked
           | Some (m, s) \<Rightarrow>
               Call Next_Scan (if m = MODE_AUTO \<or> has_flag (m_caps s) C_SCANALLBAND
                               then s\<lparr>m_scan_count := m_scan_count s + 1\<rparr> else s)
      else Done s)"

definition end_mode :: "mlme \<Rightarrow> nat" where
  "end_mode s =
     (let f = bn_flags (m_bss s) in
      if has_flag f NODE_HE then MODE_11AX else if has_flag f NODE_VHT then MODE_11AC
      else if has_flag f NODE_HT then MODE_11N else m_chan2mode s (bn_chan (m_bss s)))"

text \<open>The end of a background scan of a station that may roam.\<close>

definition roam_to :: "mlme_hooks \<Rightarrow> u8 list \<Rightarrow> u8 list \<Rightarrow> mlme \<Rightarrow> outcome" where
  "roam_to H cur sel s =
     (if sel = cur
      then with_mode H (end_mode s)
             (m_clear_flags F_BGSCAN
               (if m_bgscan_fail s < BGSCAN_FAIL_MAX then s\<lparr>m_bgscan_fail := m_bgscan_fail s + 1\<rparr> else s)) Done
      else if \<not> mh_alloc H then Done (m_clear_flags F_BGSCAN s)
      else
        let s = log_ev (Ev_Stop_Ampdu (Some ST_DEAUTH)) (s\<lparr>m_bgscan_fail := 0\<rparr>);
            (err, s) = send_mgmt H Bss ST_DEAUTH (ucast REASON_AUTH_LEAVE) s
        in if err \<noteq> 0 then Done (m_clear_flags F_BGSCAN s)
           else Done (upd_node Bss (\<lambda>n. n\<lparr>bn_unref_cb := True, bn_unref_arg := Some (cur, sel)\<rparr>)
                        (s\<lparr>m_xflags := m_xflags s OR F_TX_MGMT_ONLY\<rparr>)))"

definition bgscanning :: "mlme \<Rightarrow> bool" where
  "bgscanning s \<longleftrightarrow> m_flag s F_BGSCAN \<and> m_opmode s = M_STA \<and> m_state s = S_RUN"

definition roamscanning :: "mlme \<Rightarrow> bool" where
  "roamscanning s \<longleftrightarrow> bgscanning s \<and> \<not> m_flag s F_DISABLE_BG_AUTO_CONNECT"

definition scan_choose :: "mlme_hooks \<Rightarrow> bool \<Rightarrow> bool \<Rightarrow> mlme \<Rightarrow> outcome" where
  "scan_choose H bgscan roamscan s =
     (let (sel, cur, s) = choose_bss H bgscan s in
      if bgscan
      then let s = m_clear_flags F_DISABLE_BG_AUTO_CONNECT s in
           if \<not> roamscan then Done (m_clear_flags F_BGSCAN s)
           else case (sel, cur) of
                  (Some sel, Some cur) \<Rightarrow> roam_to H cur sel s
                | _ \<Rightarrow> scan_notfound H (m_clear_flags F_BGSCAN s)
      else case sel of None \<Rightarrow> scan_notfound H s | Some a \<Rightarrow> Call (Join_Bss a False) s)"

definition end_scan :: "mlme_hooks \<Rightarrow> mlme \<Rightarrow> outcome" where
  "end_scan H s =
     (let bgscan = bgscanning s;
          roamscan = roamscanning s;
          s = log_if (mh_event_handler H) Ev_Scan_Done s;
          s = (if m_scan_count s \<noteq> 0 then m_clear_flags F_ASCAN s else s);
          s = (if m_opmode s = M_STA then clean_inactive_nodes H INACT_SCAN s else s)
      in if m_opmode s = M_HOSTAP then Call (Create_Ibss (Some (hostap_channel H s))) s
         else if m_tree s = [] then scan_notfound H s
         else
           let s = (if \<not> bgscan \<and> m_opmode s = M_STA then switch_ess H s else s)
           in if m_flag s F_AUTO_JOIN \<and> m_des_esslen s = 0 then Done s
              else scan_choose H bgscan roamscan s)"

section \<open>Joining and creating a network\<close>

text \<open>The keys of a new network.\<close>

definition new_group_key :: "mlme_hooks \<Rightarrow> u32 \<Rightarrow> nat \<Rightarrow> u32 \<Rightarrow> nat \<Rightarrow> iee_key" where
  "new_group_key H cipher kid fl len =
     zero_key\<lparr>k_id := of_nat kid, k_cipher := cipher, k_flags := fl, k_len := len,
       k_key := mh_random_bytes H len @ replicate (32 - len) 0\<rparr>"

definition ibss_rsn :: "mlme_hooks \<Rightarrow> mlme \<Rightarrow> mlme" where
  "ibss_rsn H s =
     (let mfp = has_flag (m_caps s) C_MFP;
          s = s\<lparr>m_globalcnt := mh_random_bytes H 32\<rparr>;
          s = upd_node Bss (\<lambda>n. n\<lparr>bn_rsnprotos := m_rsnprotos s, bn_rsnakms := m_rsnakms s,
                bn_rsnciphers := m_rsnciphers s, bn_rsngroupcipher := m_rsngroupcipher s,
                bn_rsngroupmgmtcipher := m_rsngroupmgmtcipher s,
                bn_rsncaps := (if mfp then RSNCAP_MFPC OR (if m_flag s F_MFPR then RSNCAP_MFPR else 0) else 0)\<rparr>) s;
          s = m_clear_flags F_COUNTERM (s\<lparr>m_def_txkey := 1\<rparr>);
          c = bn_rsngroupcipher (m_bss s);
          s = drv_set_key H 1 (new_group_key H c 1 (KEY_GROUP OR KEY_TX) (cipher_keylen c)) s;
          s = (if mfp
               then drv_set_key H 4 (new_group_key H (bn_rsngroupmgmtcipher (m_bss s)) 4 (KEY_IGTK OR KEY_TX) 16)
                      (s\<lparr>m_igtk_kid := 4\<rparr>) else s);
          s = upd_node Bss (\<lambda>n. n\<lparr>bn_port_valid := True, bn_flags := bn_flags n OR NODE_TXPROT\<rparr>) s
      in s\<lparr>m_rsn_to := timeout_add_sec (m_rsn_to s) 3600\<rparr>)"

definition ibss_bssid :: "mlme \<Rightarrow> u8 list" where
  "ibss_bssid s =
     (if m_opmode s \<noteq> M_IBSS then m_myaddr s
      else if m_flag s F_DESBSSID then m_des_bssid s
      else (m_myaddr s)[0 := m_myaddr s ! 0 OR 2])"

definition ibss_ht :: "mlme_hooks \<Rightarrow> mlme \<Rightarrow> mlme" where
  "ibss_ht H s =
     (let s = upd_node Bss (upd_ht (\<lambda>h. h\<lparr>hn_htop1 := HTPROT_NONE OR HTOP1_NONGF_STA\<rparr>)) (s\<lparr>m_protmode := 0\<rparr>);
          s = log_if (mh_updateprot H) Ev_Update_Prot s
      in log_if (mh_updateedca H) Ev_Update_Edca (s\<lparr>m_edca_ac := qap_edca_table (m_curmode s)\<rparr>))"

definition create_ibss :: "mlme_hooks \<Rightarrow> nat option \<Rightarrow> mlme \<Rightarrow> outcome" where
  "create_ibss H chan s =
     (let s = m_set_flags F_SIBSS s;
          rates = m_sup_rates s (m_chan2mode s chan);
          s = upd_node Bss (\<lambda>n. n\<lparr>bn_rstamp := 0, bn_rssi := 0, bn_macaddr := m_myaddr s, bn_bssid := ibss_bssid s,
                bn_tstamp := replicate 8 0, bn_intval := m_lintval s,
                bn_capinfo := CAPINFO_IBSS OR (if m_flag s F_WEPON then CAPINFO_PRIVACY else 0),
                bn_esslen := m_des_esslen s,
                bn_essid := bytes_at (m_des_essid s) 0 (m_des_esslen s) @ drop (m_des_esslen s) (bn_essid n),
                bn_rates := rates, bn_chan := chan, bn_txrate := 0\<rparr>) s;
          s = (if m_flag s F_HTON then ibss_ht H s else s);
          s = (if m_flag s F_RSNON then ibss_rsn H s else s)
      in Call (New_State S_RUN None)
           (s\<lparr>m_inact_to := timeout_add_sec (m_inact_to s) 5,
              m_node_cache_to := timeout_add_sec (m_node_cache_to s) 30\<rparr>))"

definition same_network :: "mlme \<Rightarrow> bnode \<Rightarrow> bool" where
  "same_network s sel \<longleftrightarrow>
     bn_macaddr (m_bss s) = bn_macaddr sel \<or>
     0 < m_des_esslen s \<and> m_des_esslen s = bn_esslen sel \<and>
       bytes_at (m_des_essid s) 0 (bn_esslen sel) = bytes_at (bn_essid sel) 0 (bn_esslen sel)"

definition join_copy :: "mlme_hooks \<Rightarrow> u8 list \<Rightarrow> mlme \<Rightarrow> mlme" where
  "join_copy H a s =
     (let sel = the_node s (Peer a);
          fail = (if same_network s sel then bn_assoc_fail (m_bss s) else 0);
          bss = node_copy H sel;
          s = log_ev Ev_Ba_Del (s\<lparr>m_bss := bss\<lparr>bn_assoc_fail := bn_assoc_fail bss OR fail\<rparr>\<rparr>);
          s = s\<lparr>m_curmode := m_chan2mode s (bn_chan (m_bss s))\<rparr>;
          s = (if m_opmode s = M_STA then s\<lparr>m_bss := snd (node_fix_rate s all_rate_flags (m_bss s))\<rparr> else s);
          s = (if m_flag s F_RSNON then s\<lparr>m_bss := choose_rsnparams s (m_bss s)\<rparr>
               else if m_flag s F_WEPON then upd_node Bss (\<lambda>n. n\<lparr>bn_rsncipher := CIPHER_USEGROUP\<rparr>) s else s)
      in upd_node (Peer a) (\<lambda>n. n\<lparr>bn_state := STA_BSS\<rparr>) s)"

definition join_mgt :: "bool \<Rightarrow> mlme \<Rightarrow> u8 option" where
  "join_mgt force_reauth s =
     (if force_reauth \<or> roamscanning s then Some ST_DEAUTH
      else if m_opmode s = M_STA \<and> m_state s = S_AUTH then Some ST_AUTH else None)"

definition join_start :: "mlme_hooks \<Rightarrow> u8 list \<Rightarrow> bool \<Rightarrow> mlme \<Rightarrow> outcome" where
  "join_start H a force_reauth s =
     (let s = join_copy H a s in
      if m_opmode s = M_IBSS
      then let s = s\<lparr>m_bss := snd (node_fix_rate s (all_rate_flags\<lparr>do_sort := False\<rparr>) (m_bss s))\<rparr>
           in Call (New_State (if rs_nrates (bn_rates (m_bss s)) = 0 then S_SCAN else S_RUN) None) s
      else Call (New_State S_AUTH (join_mgt force_reauth s))
             (m_clear_flags F_BGSCAN (s\<lparr>m_bgscan_to := timeout_del (m_bgscan_to s)\<rparr>)))"

definition join_bss :: "mlme_hooks \<Rightarrow> u8 list \<Rightarrow> bool \<Rightarrow> mlme \<Rightarrow> outcome" where
  "join_bss H a force_reauth s =
     (let m = m_chan2mode s (bn_chan (the_node s (Peer a)))
      in if m \<noteq> m_curmode s then with_mode H m s (join_start H a force_reauth) else join_start H a force_reauth s)"

text \<open>\<^verbatim>\<open>ieee80211_node_switch_bss\<close>.  With a null argument the first search reads through it as soon
  as the tree has a node.\<close>

definition switch_bss :: "mlme_hooks \<Rightarrow> (u8 list \<times> u8 list) option \<Rightarrow> mlme \<Rightarrow> outcome" where
  "switch_bss H arg s =
     (if \<not> m_flag s F_BGSCAN then Done s
      else let s = s\<lparr>m_xflags := m_xflags s AND NOT F_TX_MGMT_ONLY\<rparr> in
        case arg of
          None \<Rightarrow> if m_tree s \<noteq> [] then Panicked else Call (New_State S_SCAN None) (m_clear_flags F_BGSCAN s)
        | Some (cur, sel) \<Rightarrow>
            if find_node s sel = None \<or> find_node s cur = None
            then Call (New_State S_SCAN None) (m_clear_flags F_BGSCAN s)
            else Call (Join_Bss sel False) (upd_node (Peer cur) (\<lambda>n. n\<lparr>bn_state := STA_CACHE\<rparr>) s))"

section \<open>Running the calls\<close>

definition mlme_step :: "mlme_hooks \<Rightarrow> mcall \<Rightarrow> mlme \<Rightarrow> outcome" where
  "mlme_step H c s =
     (case c of
        New_State nstate mgt \<Rightarrow> newstate H nstate mgt s
      | Begin_Scan \<Rightarrow> begin_scan H s
      | Next_Scan \<Rightarrow> next_scan s
      | End_Scan \<Rightarrow> end_scan H s
      | Create_Ibss chan \<Rightarrow> create_ibss H chan s
      | Join_Bss a force_reauth \<Rightarrow> join_bss H a force_reauth s
      | Switch_Bss arg \<Rightarrow> switch_bss H arg s)"

text \<open>The result of a call; \<open>None\<close> when the calls go on forever.\<close>

partial_function (option) run :: "mlme_hooks \<Rightarrow> outcome \<Rightarrow> outcome option" where
  "run H r = (case r of Call c s \<Rightarrow> run H (mlme_step H c s) | Done s \<Rightarrow> Some (Done s) | Panicked \<Rightarrow> Some Panicked)"

declare run.simps [code]

end
