(* ===== verification/HtSetup.thy ===== *)
theory HtSetup
  imports Scan
begin

text \<open>
  The HT, VHT and HE elements of a peer (\<^verbatim>\<open>ieee80211_setup_htcaps\<close> to \<^verbatim>\<open>ieee80211_setup_heop\<close> in
  \<^verbatim>\<open>net80211/ieee80211_node.c\<close>) and what is negotiated from them (\<^verbatim>\<open>ieee80211_ht_negotiate\<close> to
  \<^verbatim>\<open>ieee80211_sta_set_rx_nss\<close> in \<^verbatim>\<open>net80211/ieee80211_proto.c\<close>).  An element is the list of the
  bytes from its first one to the end of the frame.
\<close>

abbreviation (input) HTCAP_LDPC :: u16 where "HTCAP_LDPC \<equiv> 0x1"
abbreviation (input) HTCAP_CBW20_40 :: u16 where "HTCAP_CBW20_40 \<equiv> 0x2"
abbreviation (input) HTCAP_GF :: u16 where "HTCAP_GF \<equiv> 0x10"
abbreviation (input) HTCAP_SGI20 :: u16 where "HTCAP_SGI20 \<equiv> 0x20"
abbreviation (input) HTCAP_SGI40 :: u16 where "HTCAP_SGI40 \<equiv> 0x40"
abbreviation (input) HTCAP_TXSTBC :: u16 where "HTCAP_TXSTBC \<equiv> 0x80"
abbreviation (input) HTCAP_RXSTBC_MASK :: u16 where "HTCAP_RXSTBC_MASK \<equiv> 0x300"
abbreviation (input) HTCAP_DSSSCCK40 :: u16 where "HTCAP_DSSSCCK40 \<equiv> 0x1000"
abbreviation (input) HTCAP_40INTOLERANT :: u16 where "HTCAP_40INTOLERANT \<equiv> 0x4000"
abbreviation (input) NODE_HT_SGI20 :: u32 where "NODE_HT_SGI20 \<equiv> 0x4000"
abbreviation (input) NODE_HT_SGI40 :: u32 where "NODE_HT_SGI40 \<equiv> 0x8000"
abbreviation (input) NODE_HT :: u32 where "NODE_HT \<equiv> 0x400"
abbreviation (input) NODE_VHT :: u32 where "NODE_VHT \<equiv> 0x10000"
abbreviation (input) NODE_VHT_SGI80 :: u32 where "NODE_VHT_SGI80 \<equiv> 0x80000"
abbreviation (input) NODE_VHT_SGI160 :: u32 where "NODE_VHT_SGI160 \<equiv> 0x100000"
abbreviation (input) NODE_HE :: u32 where "NODE_HE \<equiv> 0x200000"
abbreviation (input) F_NOVHT :: u32 where "F_NOVHT \<equiv> 0x10"
abbreviation (input) F_NOHT40 :: u32 where "F_NOHT40 \<equiv> 0x20"
abbreviation (input) CHAN_HT40 :: u32 where "CHAN_HT40 \<equiv> 0x60000"
abbreviation (input) WIDTH_20 :: nat where "WIDTH_20 \<equiv> 1"
abbreviation (input) WIDTH_40 :: nat where "WIDTH_40 \<equiv> 2"
abbreviation (input) WIDTH_80 :: nat where "WIDTH_80 \<equiv> 3"
abbreviation (input) WIDTH_80P80 :: nat where "WIDTH_80P80 \<equiv> 4"
abbreviation (input) WIDTH_160 :: nat where "WIDTH_160 \<equiv> 5"
abbreviation (input) C_VHT_EXT_NSS_BW :: u32 where "C_VHT_EXT_NSS_BW \<equiv> 0x80000"
abbreviation (input) EXT_NSS_BW_MASK :: u32 where "EXT_NSS_BW_MASK \<equiv> 0xc0000000"
abbreviation (input) CHAN_WIDTH_MASK :: u32 where "CHAN_WIDTH_MASK \<equiv> 0xc"
abbreviation (input) MCS_NOT_SUPPORTED :: u16 where "MCS_NOT_SUPPORTED \<equiv> 3"

section \<open>HT elements\<close>

definition LE_READ_4 :: "u8 list \<Rightarrow> u32" where
  "LE_READ_4 p = ucast (byte_at p 0) OR push_bit 8 (ucast (byte_at p 1))
     OR push_bit 16 (ucast (byte_at p 2)) OR push_bit 24 (ucast (byte_at p 3))"

text \<open>The peer's capabilities without those the interface lacks; \<open>own\<close> is \<open>ic_htcaps\<close>.\<close>

definition limit_htcaps :: "u16 \<Rightarrow> u16 \<Rightarrow> u16" where
  "limit_htcaps own peer =
     (let c = peer AND (own OR NOT (HTCAP_CBW20_40 OR HTCAP_SGI40 OR HTCAP_SGI20 OR HTCAP_GF OR HTCAP_LDPC
                                    OR HTCAP_DSSSCCK40));
          c = (if own AND HTCAP_TXSTBC = 0 then c AND NOT HTCAP_RXSTBC_MASK else c)
      in if own AND HTCAP_RXSTBC_MASK = 0 then c AND NOT HTCAP_TXSTBC else c)"

definition setup_htcaps :: "mlme \<Rightarrow> u8 list \<Rightarrow> u8 \<Rightarrow> bnode \<Rightarrow> bnode" where
  "setup_htcaps s p len n =
     (if len \<noteq> 26 then n
      else
        let mcs = bytes_at p 3 10;
            rate = LE_READ_2 (drop 13 p) AND 0x3ff
        in (upd_ht (\<lambda>h. h\<lparr>hn_htcaps := limit_htcaps (m_htcaps s) (LE_READ_2 p),
                hn_ampdu_param := byte_at p 2,
                hn_rxmcs := mcs[9 := mcs ! 9 AND 0x1f],
                hn_max_rxrate := (if rate < 1024 then rate else hn_max_rxrate h),
                hn_tx_mcs_set := byte_at p 15,
                hn_htxcaps := LE_READ_2 (drop 19 p),
                hn_txbfcaps := LE_READ_4 (drop 21 p),
                hn_aselcaps := byte_at p 25\<rparr>) n)\<lparr>bn_flags := bn_flags n OR NODE_HTCAP\<rparr>)"

definition clear_htcaps :: "bnode \<Rightarrow> bnode" where
  "clear_htcaps n =
     (upd_ht (\<lambda>h. h\<lparr>hn_htcaps := 0, hn_ampdu_param := 0, hn_rxmcs := replicate 10 0, hn_max_rxrate := 0,
        hn_tx_mcs_set := 0, hn_htxcaps := 0, hn_txbfcaps := 0, hn_aselcaps := 0\<rparr>) n)
       \<lparr>bn_flags := bn_flags n AND NOT (NODE_HT OR NODE_HT_SGI20 OR NODE_HT_SGI40 OR NODE_HTCAP)\<rparr>"

definition setup_htop :: "u8 list \<Rightarrow> u8 \<Rightarrow> bool \<Rightarrow> bnode \<Rightarrow> bnode" where
  "setup_htop p len isprobe n =
     (if len \<noteq> 22 then n
      else upd_ht (\<lambda>h. h\<lparr>hn_primary_chan := byte_at p 0, hn_htop0 := byte_at p 1,
             hn_htop1 := LE_READ_2 (drop 2 p), hn_htop2 := LE_READ_2 (drop 3 p),
             hn_basic_mcs := (if isprobe then bytes_at p 6 16 else hn_basic_mcs h)\<rparr>) n)"

section \<open>VHT elements\<close>

text \<open>\<open>op\<close> is the whole element, as in the code; its length byte is not looked at.\<close>

definition setup_vhtopmode :: "u8 list \<Rightarrow> bnode \<Rightarrow> bnode" where
  "setup_vhtopmode op = upd_ht (\<lambda>h. h\<lparr>hn_vht_basicmcs := LE_READ_2 (drop 5 op),
     hn_vht_chan1 := byte_at op 3, hn_vht_chan2 := byte_at op 4, hn_vht_chanwidth := byte_at op 2\<rparr>)"

text \<open>The macros \<open>MS\<close> and \<open>SM\<close>: a field of the capabilities, given by its mask and its shift.\<close>

definition fget :: "u32 \<Rightarrow> nat \<Rightarrow> u32 \<Rightarrow> u32" where
  "fget fm sh v = drop_bit sh (v AND fm)"

definition fput :: "u32 \<Rightarrow> nat \<Rightarrow> u32 \<Rightarrow> u32" where
  "fput fm sh v = push_bit sh v AND fm"

definition fmin :: "u32 \<Rightarrow> nat \<Rightarrow> u32 \<Rightarrow> u32 \<Rightarrow> u32" where
  "fmin fm sh own peer = fput fm sh (min (fget fm sh own) (fget fm sh peer))"

definition fmax :: "u32 \<Rightarrow> nat \<Rightarrow> u32 \<Rightarrow> u32 \<Rightarrow> u32" where
  "fmax fm sh own peer = fput fm sh (max (fget fm sh own) (fget fm sh peer))"

definition keep_if :: "bool \<Rightarrow> u32 \<Rightarrow> u32" where
  "keep_if b v = (if b then v else 0)"

definition vht_width :: "u32 \<Rightarrow> u32 \<Rightarrow> u32" where
  "vht_width own peer =
     (let v = fget CHAN_WIDTH_MASK 2 peer;
          v = (if v = 2 \<and> own AND 8 = 0 then 1 else v);
          v = (if v = 1 \<and> own AND 4 = 0 then 0 else v)
      in fput CHAN_WIDTH_MASK 2 (min (fget CHAN_WIDTH_MASK 2 own) v))"

text \<open>STBC; the transmit bit goes when nothing is received with STBC.\<close>

definition vht_stbc :: "u16 \<Rightarrow> u32 \<Rightarrow> u32 \<Rightarrow> u32" where
  "vht_stbc htcaps own peer =
     (let tx = keep_if (htcaps AND HTCAP_TXSTBC \<noteq> 0)
            (min (fget 0x80 7 own) (if fget 0x700 8 peer \<noteq> 0 then 1 else 0));
          rx = keep_if (htcaps AND HTCAP_RXSTBC_MASK \<noteq> 0) (min (fget 0x700 8 own) (fget 0x80 7 peer))
      in (if rx = 0 then 0 else fput 0x80 7 tx) OR fput 0x700 8 rx)"

text \<open>Beamforming; the multi-user bit is merged into the single-user one, as the code does.\<close>

definition vht_beamforming :: "u32 \<Rightarrow> u32 \<Rightarrow> u32" where
  "vht_beamforming own peer =
     (let former = fmin 0x800 11 own peer;
          formee = fmin 0x1000 12 own peer;
          sts = keep_if (formee \<noteq> 0) (fmin 0xe000 13 own peer);
          dims = keep_if (former \<noteq> 0) (fmin 0x70000 16 own peer);
          mu = keep_if (former \<noteq> 0) (fput 0x800 11 (min (fget 0x80000 19 own) (fget 0x80000 19 peer)))
      in former OR formee OR sts OR dims OR mu)"

definition limit_vhtcaps :: "u32 \<Rightarrow> u16 \<Rightarrow> u32 \<Rightarrow> u32 \<Rightarrow> u32" where
  "limit_vhtcaps caps htcaps own peer =
     (let htc = fmin 0x400000 22 own peer in
      fmin 0x3 0 own peer OR vht_width own peer OR fmin 0x10 4 own peer OR fmin 0x20 5 own peer
      OR fmin 0x40 6 own peer OR vht_stbc htcaps own peer OR vht_beamforming own peer
      OR fmin 0x200000 21 own peer OR htc OR fmin 0x3800000 23 own peer
      OR keep_if (htc \<noteq> 0) (fmin 0xc000000 26 own peer)
      OR fmax 0x10000000 28 own peer OR fmax 0x20000000 29 own peer
      OR keep_if (has_flag caps C_VHT_EXT_NSS_BW) EXT_NSS_BW_MASK)"

text \<open>The two bits of a number of spatial streams in an MCS map.\<close>

definition mcs_get :: "u16 \<Rightarrow> nat \<Rightarrow> u16" where
  "mcs_get m i = drop_bit (2 * i) m AND 3"

definition mcs_put :: "nat \<Rightarrow> u16 \<Rightarrow> u16 \<Rightarrow> u16" where
  "mcs_put i v m = (m AND NOT (push_bit (2 * i) 3)) OR push_bit (2 * i) v"

definition mcs_limit :: "u16 \<Rightarrow> u16 \<Rightarrow> u16" where
  "mcs_limit own peer =
     (if peer \<noteq> MCS_NOT_SUPPORTED
      then if own = MCS_NOT_SUPPORTED then MCS_NOT_SUPPORTED else if own < peer then own else peer
      else peer)"

definition limit_mcs_map :: "u16 \<Rightarrow> u16 \<Rightarrow> u16" where
  "limit_mcs_map own peer =
     fold (\<lambda>i m. mcs_put i (mcs_limit (mcs_get own i) (mcs_get m i)) m) [0..<8] peer"

definition setup_vhtcaps :: "mlme \<Rightarrow> u8 list \<Rightarrow> bnode \<Rightarrow> bnode" where
  "setup_vhtcaps s ie n =
     (let tx_highest = LE_READ_2 (drop 12 ie) in
      (upd_ht (\<lambda>h. h\<lparr>
         hn_vhtcaps := limit_vhtcaps (m_caps s) (m_htcaps s) (m_vhtcaps s) (LE_READ_4 (drop 2 ie)),
         hn_vht_rx_mcs_map := limit_mcs_map (m_vht_tx_mcs_map s) (LE_READ_2 (drop 6 ie)),
         hn_vht_rx_highest := LE_READ_2 (drop 8 ie),
         hn_vht_tx_mcs_map := limit_mcs_map (m_vht_rx_mcs_map s) (LE_READ_2 (drop 10 ie)),
         hn_vht_tx_highest := (if has_flag (m_caps s) C_VHT_EXT_NSS_BW then tx_highest
                               else tx_highest AND NOT 0x2000)\<rparr>) n)\<lparr>bn_flags := bn_flags n OR NODE_VHTCAP\<rparr>)"

definition clear_vhtcaps :: "bnode \<Rightarrow> bnode" where
  "clear_vhtcaps n =
     (upd_ht (\<lambda>h. h\<lparr>hn_vhtcaps := 0, hn_vht_rx_mcs_map := 0, hn_vht_rx_highest := 0,
        hn_vht_tx_mcs_map := 0, hn_vht_tx_highest := 0\<rparr>) n)
       \<lparr>bn_flags := bn_flags n AND NOT (NODE_VHT OR NODE_VHT_SGI80 OR NODE_VHT_SGI160 OR NODE_VHTCAP)\<rparr>"

section \<open>HE elements\<close>

text \<open>\<open>p\<close> is what follows the extension ID and \<open>len\<close> the length of the caller.\<close>

definition overwrite :: "u8 list \<Rightarrow> u8 list \<Rightarrow> u8 list" where
  "overwrite old new = new @ drop (length new) old"

definition setup_hecaps :: "u8 list \<Rightarrow> u8 \<Rightarrow> bnode \<Rightarrow> bnode" where
  "setup_hecaps p len n =
     (let phy = bytes_at p 6 11;
          nss = unat (he_mcs_nss_size phy);
          ppe = unat (he_ppe_size (byte_at p (17 + nss)) phy)
      in if unat len < 17 + nss + ppe then n
         else upd_ht (\<lambda>h. h\<lparr>hn_he_mac_cap := bytes_at p 0 6, hn_he_phy_cap := phy,
                hn_he_mcs_nss := overwrite (hn_he_mcs_nss h) (bytes_at p 17 nss),
                hn_ppe_thres := (if ppe_present phy then overwrite (hn_ppe_thres h) (bytes_at p (17 + nss) ppe)
                                 else hn_ppe_thres h)\<rparr>) n)"

definition setup_heop :: "u8 list \<Rightarrow> u8 \<Rightarrow> bnode \<Rightarrow> bnode" where
  "setup_heop p len = upd_ht (\<lambda>h. h\<lparr>hn_he_oper_params := LE_READ_4 p,
     hn_he_oper_nss_set := LE_READ_2 (drop 4 p),
     hn_he_optional := (if 6 < len then overwrite (replicate 8 0) (bytes_at p 6 (min 8 (unat len - 6)))
                        else replicate 8 0)\<rparr>)"

section \<open>Negotiation\<close>

definition ieee2mhz :: "nat \<Rightarrow> u32 \<Rightarrow> nat" where
  "ieee2mhz c fl =
     (if has_flag fl CHAN_2GHZ
      then if c = 14 then 2484 else if c < 14 then 2407 + c * 5 else 2512 + (c - 15) * 20
      else if has_flag fl CHAN_5GHZ then 5000 + c * 5
      else if c = 14 then 2484 else if c < 14 then 2407 + c * 5
      else if c < 27 then 2512 + (c - 15) * 20 else 5000 + c * 5)"

definition set_center1 :: "nat option \<Rightarrow> u16 \<Rightarrow> mlme \<Rightarrow> mlme" where
  "set_center1 c v s = (case c of None \<Rightarrow> s | Some i \<Rightarrow> s\<lparr>m_chan_center1 := (m_chan_center1 s)(i := v)\<rparr>)"

definition set_center2 :: "nat option \<Rightarrow> u16 \<Rightarrow> mlme \<Rightarrow> mlme" where
  "set_center2 c v s = (case c of None \<Rightarrow> s | Some i \<Rightarrow> s\<lparr>m_chan_center2 := (m_chan_center2 s)(i := v)\<rparr>)"

definition chan_freq :: "mlme \<Rightarrow> nat option \<Rightarrow> u16" where
  "chan_freq s c = (case c of None \<Rightarrow> 0 | Some i \<Rightarrow> m_chan_freq s i)"

definition chan_flags_of :: "mlme \<Rightarrow> nat option \<Rightarrow> u32" where
  "chan_flags_of s c = (case c of None \<Rightarrow> 0 | Some i \<Rightarrow> m_chan_flags s i)"

definition node_set_chw :: "nat \<Rightarrow> bnode \<Rightarrow> bnode" where
  "node_set_chw w = upd_ht (\<lambda>h. h\<lparr>hn_chw := w\<rparr>)"

definition node_clear_flags :: "u32 \<Rightarrow> bnode \<Rightarrow> bnode" where
  "node_clear_flags f n = n\<lparr>bn_flags := bn_flags n AND NOT f\<rparr>"

definition node_set_flags :: "u32 \<Rightarrow> bnode \<Rightarrow> bnode" where
  "node_set_flags f n = n\<lparr>bn_flags := bn_flags n OR f\<rparr>"

definition node_set_flags_if :: "bool \<Rightarrow> u32 \<Rightarrow> bnode \<Rightarrow> bnode" where
  "node_set_flags_if b f n = (if b then node_set_flags f n else n)"

definition wants_40mhz :: "mlme \<Rightarrow> bnode \<Rightarrow> bool" where
  "wants_40mhz s n \<longleftrightarrow>
     (let h = bn_ht n; sco = hn_htop0 h AND 3 in
      \<not> ((has_flag (m_htcaps s) HTCAP_40INTOLERANT \<or> has_flag (hn_htcaps h) HTCAP_40INTOLERANT \<or>
          has_flag (m_userflags s) F_NOHT40) \<and> chan_is s CHAN_2GHZ (bn_chan n)) \<and>
      has_flag (hn_htcaps h) HTCAP_CBW20_40 \<and> chan_flags_of s (bn_chan n) AND CHAN_HT40 \<noteq> 0 \<and>
      has_flag (m_htcaps s) HTCAP_CBW20_40 \<and> (sco = 1 \<or> sco = 3))"

definition ht_negotiate_chw :: "mlme \<times> bnode \<Rightarrow> mlme \<times> bnode" where
  "ht_negotiate_chw = (\<lambda>(s, n).
     let c = bn_chan n; f = chan_freq s c in
     if c = None then (s, n)
     else if wants_40mhz s n
     then (set_center1 c (if hn_htop0 (bn_ht n) AND 3 = 1 then f + 10 else f - 10) s, node_set_chw WIDTH_40 n)
     else (set_center1 c f s, node_set_chw WIDTH_20 n))"

definition bit_set :: "u8 list \<Rightarrow> nat \<Rightarrow> bool" where
  "bit_set p i \<longleftrightarrow> bit (byte_at p (i div 8)) (i mod 8)"

text \<open>The group cipher and TKIP are not allowed with HT and VHT.\<close>

definition nego_bad_crypto :: "mlme \<Rightarrow> bnode \<Rightarrow> bool" where
  "nego_bad_crypto s n \<longleftrightarrow>
     m_flag s F_WEPON \<or>
     m_flag s F_RSNON \<and> (has_flag (bn_rsnciphers n) CIPHER_USEGROUP \<or> has_flag (bn_rsnciphers n) CIPHER_TKIP)"

definition supports_sgi20 :: "bnode \<Rightarrow> bool" where
  "supports_sgi20 n \<longleftrightarrow> node_supports_ht n \<and> has_flag (hn_htcaps (bn_ht n)) HTCAP_SGI20"

definition supports_sgi40 :: "bnode \<Rightarrow> bool" where
  "supports_sgi40 n \<longleftrightarrow> node_supports_ht n \<and> has_flag (hn_htcaps (bn_ht n)) HTCAP_SGI40"

definition lacks_basic_mcs :: "mlme \<Rightarrow> bnode \<Rightarrow> bool" where
  "lacks_basic_mcs s n \<longleftrightarrow>
     m_opmode s = M_STA \<and> (\<exists>i\<in>set [0..<77]. bit_set (hn_basic_mcs (bn_ht n)) i \<and> \<not> bit_set (m_sup_mcs s) i)"

definition ht_negotiate :: "mlme \<times> bnode \<Rightarrow> mlme \<times> bnode" where
  "ht_negotiate = (\<lambda>(s, n).
     let n = node_set_chw WIDTH_20 (node_clear_flags (NODE_HT OR NODE_HT_SGI20 OR NODE_HT_SGI40) n);
         s = set_center1 (bn_chan n) (chan_freq s (bn_chan n)) s
     in if m_modecaps s AND push_bit MODE_11N 1 = 0 \<or> \<not> m_flag s F_HTON then (s, n)
        else if \<not> node_supports_ht n then (log_ev (Ev_Stat St_Nego_No_Mandatory_Mcs) s, n)
        else if lacks_basic_mcs s n then (log_ev (Ev_Stat St_Nego_No_Basic_Mcs) s, n)
        else if nego_bad_crypto s n then (log_ev (Ev_Stat St_Nego_Bad_Crypto) s, n)
        else
          let n = node_set_flags_if (supports_sgi20 n) NODE_HT_SGI20 (node_set_flags NODE_HT n);
              (s, n) = ht_negotiate_chw (s, n)
          in (s, node_set_flags_if (hn_chw (bn_ht n) = WIDTH_40 \<and> supports_sgi40 n) NODE_HT_SGI40 n))"

text \<open>The centre of the second segment; the flags say whether 160 and 80+80 MHz may be used.\<close>

definition second_segment :: "u32 \<Rightarrow> u32 \<Rightarrow> nat \<Rightarrow> nat \<Rightarrow> bool \<Rightarrow> bool \<Rightarrow> nat \<times> bool \<times> bool" where
  "second_segment chwidth ext ccfs1 ccfs2 s160 s80_80 =
     (let k = push_bit 4 chwidth OR ext in
      if k = 0x01 then (ccfs2, s160, False)
      else if k = 0x02 \<or> k = 0x03 then (ccfs2, s160, s80_80)
      else if k = 0x10 then (ccfs1, s160, s80_80)
      else if k = 0x11 \<or> k = 0x12 then (if ccfs1 = 0 then ccfs2 else ccfs1, s160, s80_80)
      else if k = 0x13 \<or> k = 0x20 \<or> k = 0x23 then (ccfs1, s160, s80_80)
      else (0, False, False))"

text \<open>The width from an operation element: its width field and the two segments.  \<open>None\<close> is a
  width the code does not know.\<close>

definition operating_width :: "u8 \<Rightarrow> u8 \<Rightarrow> u8 \<Rightarrow> mlme \<times> bnode \<Rightarrow> (mlme \<times> bnode) option" where
  "operating_width width seg0 seg1 = (\<lambda>(s, n).
     let v = hn_vhtcaps (bn_ht n); c = bn_chan n;
         ext = fget EXT_NSS_BW_MASK 30 v;
         s160 = v AND (CHAN_WIDTH_MASK OR EXT_NSS_BW_MASK) \<noteq> 0;
         s80_80 = has_flag v 8 \<or> has_flag v 4 \<and> v AND EXT_NSS_BW_MASK \<noteq> 0 \<or> 1 < ext;
         ccf0 = unat seg0;
         (ccf1, s160, s80_80) = second_segment (fget CHAN_WIDTH_MASK 2 v)
            (if has_flag (m_caps s) C_VHT_EXT_NSS_BW then ext else 0) (unat seg1)
            (unat (drop_bit 5 (hn_htop1 (bn_ht n) AND 0x1fe0))) s160 s80_80;
         cf0 = of_nat (ieee2mhz ccf0 (chan_flags_of s c));
         cf1 = of_nat (ieee2mhz ccf1 (chan_flags_of s c));
         diff = (if ccf0 \<le> ccf1 then ccf1 - ccf0 else ccf0 - ccf1)
     in if width = 3 then Some (set_center2 c cf1 (set_center1 c cf0 s), node_set_chw WIDTH_80P80 n)
        else if width = 2 then Some (set_center1 c cf0 s, node_set_chw WIDTH_160 n)
        else if width = 1
        then if ccf1 \<noteq> 0 \<and> diff = 8 \<and> s160 then Some (set_center1 c cf1 s, node_set_chw WIDTH_160 n)
             else if ccf1 \<noteq> 0 \<and> 8 < diff \<and> s80_80
             then Some (set_center2 c cf1 (set_center1 c cf0 s), node_set_chw WIDTH_80P80 n)
             else Some (set_center1 c cf0 s, node_set_chw WIDTH_80 n)
        else if width = 0 then Some (s, n)
        else None)"

definition vht_negotiate :: "mlme \<times> bnode \<Rightarrow> mlme \<times> bnode" where
  "vht_negotiate = (\<lambda>(s, n).
     let n = node_clear_flags (NODE_VHT OR NODE_VHT_SGI80 OR NODE_VHT_SGI160) n
     in if m_modecaps s AND push_bit MODE_11AC 1 = 0 \<or> has_flag (m_userflags s) F_NOVHT \<or>
           \<not> m_flag s F_VHTON \<or> \<not> chan_is s CHAN_5GHZ (bn_chan n) then (s, n)
        else if \<not> node_supports_vht n then (log_ev (Ev_Stat St_Nego_No_Mandatory_Mcs) s, n)
        else if nego_bad_crypto s n then (log_ev (Ev_Stat St_Nego_Bad_Crypto) s, n)
        else case operating_width (hn_vht_chanwidth (bn_ht n)) (hn_vht_chan1 (bn_ht n)) (hn_vht_chan2 (bn_ht n)) (s, n) of
               None \<Rightarrow> (s, n)
             | Some (s, n) \<Rightarrow>
                 (s, node_set_flags_if (has_flag (hn_vhtcaps (bn_ht n)) 0x40) NODE_VHT_SGI160
                       (node_set_flags_if (has_flag (hn_vhtcaps (bn_ht n)) 0x20) NODE_VHT_SGI80
                         (node_set_flags NODE_VHT n))))"

definition he_negotiate :: "mlme \<times> bnode \<Rightarrow> mlme \<times> bnode" where
  "he_negotiate = (\<lambda>(s, n).
     let n = node_clear_flags NODE_HE n
     in if m_modecaps s AND push_bit MODE_11AX 1 = 0 \<or> \<not> m_flag s F_HEON then (s, n)
        else
          let n = node_set_flags NODE_HE n; op = hn_he_optional (bn_ht n)
          in if hn_he_oper_params (bn_ht n) AND 0x4000 = 0 then (s, n)
             else case operating_width (byte_at op 0) (byte_at op 1) (byte_at op 2) (s, n) of
                    None \<Rightarrow> (s, n) | Some r \<Rightarrow> r)"

text \<open>The number of streams of an MCS map: the highest one that is supported.\<close>

definition map_streams :: "u16 \<Rightarrow> u8" where
  "map_streams m = (case List.find (\<lambda>i. mcs_get m i \<noteq> 3) (rev [0..<8]) of None \<Rightarrow> 0 | Some i \<Rightarrow> of_nat (i + 1))"

definition sta_set_rx_nss :: "bnode \<Rightarrow> bnode" where
  "sta_set_rx_nss n =
     (let h = bn_ht n;
          r80 = map_streams (LE_READ_2 (hn_he_mcs_nss h));
          r160 = map_streams (LE_READ_2 (drop 4 (hn_he_mcs_nss h)));
          he = (if has_flag (bn_flags n) NODE_HE
                then if has_flag (byte_at (hn_he_phy_cap h) 0) 8 then min r80 r160 else r80 else 0);
          ht = (if has_flag (bn_flags n) NODE_HT
                then of_nat (length (filter (\<lambda>i. byte_at (hn_rxmcs h) i \<noteq> 0) [0..<4])) else 0);
          vht = (if has_flag (bn_flags n) NODE_VHT then map_streams (hn_vht_rx_mcs_map h) else 0)
      in upd_ht (\<lambda>h. h\<lparr>hn_rx_nss := max 1 (max he (max vht ht))\<rparr>) n)"

end
