(* ===== verification/MlmeInput.thy ===== *)
theory MlmeInput
  imports Mlme HtSetup Reorder
begin

text \<open>
  The events that drive the state machine of the interface: received authentication, association
  response, deauthentication and disassociation frames (\<^verbatim>\<open>net80211/ieee80211_input.c\<close>,
  \<^verbatim>\<open>ieee80211_auth_open\<close> of \<^verbatim>\<open>net80211/ieee80211_proto.c\<close>), the management timer
  (\<^verbatim>\<open>ieee80211_watchdog\<close>) and the release of a node.
\<close>

abbreviation (input) AUTH_OPEN_REQUEST :: u16 where "AUTH_OPEN_REQUEST \<equiv> 1"
abbreviation (input) AUTH_OPEN_RESPONSE :: u16 where "AUTH_OPEN_RESPONSE \<equiv> 2"
abbreviation (input) REASON_UNSPECIFIED :: u16 where "REASON_UNSPECIFIED \<equiv> 1"
abbreviation (input) STATUS_ALG :: u32 where "STATUS_ALG \<equiv> 13"
abbreviation (input) F_STAYAUTH :: u32 where "F_STAYAUTH \<equiv> 4"
abbreviation (input) ETIMEDOUT :: u32 where "ETIMEDOUT \<equiv> 60"
abbreviation (input) ERP_USE_PROTECTION :: u8 where "ERP_USE_PROTECTION \<equiv> 2"
abbreviation (input) FRAME_HDR :: nat where "FRAME_HDR \<equiv> 24"

definition frame_body :: "mbuf \<Rightarrow> u8 list" where
  "frame_body m = drop FRAME_HDR m"

definition frame_subtype :: "mbuf \<Rightarrow> u8" where
  "frame_subtype m = byte_at m 0 AND 0xf0"

definition frame_addr2 :: "mbuf \<Rightarrow> u8 list" where
  "frame_addr2 m = bytes_at m 10 6"

section \<open>Trying another access point\<close>

text \<open>The 32 bytes from the MAC address of a node on, as the compiler lays the structure out: the
  addresses, the time stamp, a byte of padding, the beacon interval, the capabilities, the length
  of the network name and the start of the name.\<close>

definition node_bytes32 :: "bnode \<Rightarrow> u8 list" where
  "node_bytes32 n = bytes_at (bn_macaddr n) 0 6 @ bytes_at (bn_bssid n) 0 6 @ bytes_at (bn_tstamp n) 0 8 @ [0]
     @ LE_WRITE_2 (bn_intval n) @ LE_WRITE_2 (bn_capinfo n) @ [of_nat (bn_esslen n)] @ bytes_at (bn_essid n) 0 6"

definition try_choose :: "mlme_hooks \<Rightarrow> mlme \<Rightarrow> outcome" where
  "try_choose H s =
     (let (sel, cur, s) = choose_bss H False s in
      case sel of
        None \<Rightarrow> Done s
      | Some a \<Rightarrow> if node_bytes32 (the_node s (Peer a)) = node_bytes32 (m_bss s) then Done s
                  else Call (Join_Bss a False) s)"

definition try_another_bss :: "mlme_hooks \<Rightarrow> mlme \<Rightarrow> outcome" where
  "try_another_bss H s =
     (let s = upd_node (Peer (bn_macaddr (m_bss s))) (\<lambda>n. n\<lparr>bn_fails := bn_fails n + 1, bn_state := STA_CACHE\<rparr>) s
      in if has_flag (m_caps s) C_SCANALLBAND then with_mode H MODE_AUTO s (try_choose H) else try_choose H s)"

section \<open>Authentication frames\<close>

definition map_done :: "(mlme \<Rightarrow> mlme) \<Rightarrow> outcome \<Rightarrow> outcome" where
  "map_done f r = (case r of Done s \<Rightarrow> Done (f s) | r \<Rightarrow> r)"

definition auth_open_confirm :: "mlme_hooks \<Rightarrow> node_ref \<Rightarrow> u16 \<Rightarrow> mlme \<Rightarrow> mlme" where
  "auth_open_confirm H r seq s =
     upd_node r (\<lambda>n. n\<lparr>bn_state := STA_AUTH\<rparr>) (snd (send_mgmt H r ST_AUTH (ucast seq + 1) s))"

text \<open>The node of the station that asks an access point for authentication; \<open>None\<close> when there is no
  room for it.\<close>

definition auth_station :: "mlme_hooks \<Rightarrow> mbuf \<Rightarrow> node_ref \<Rightarrow> rxinfo \<Rightarrow> mlme \<Rightarrow> node_ref option \<times> mlme" where
  "auth_station H m r rxi s =
     (if r \<noteq> Bss then (Some r, s)
      else
        let a = frame_addr2 m;
            (ok, s) = (if find_node s a \<noteq> None then (True, s) else alloc_node H a s)
        in if \<not> ok then (None, s)
           else (Some (Peer a), upd_node (Peer a) (\<lambda>n. n\<lparr>bn_bssid := bn_bssid (m_bss s),
                   bn_rssi := ucast (rxi_rssi rxi), bn_rstamp := rxi_tstamp rxi, bn_chan := bn_chan (m_bss s)\<rparr>) s))"

definition auth_open_hostap :: "mlme_hooks \<Rightarrow> mbuf \<Rightarrow> node_ref \<Rightarrow> rxinfo \<Rightarrow> u16 \<Rightarrow> mlme \<Rightarrow> mlme" where
  "auth_open_hostap H m r rxi seq s =
     (case auth_station H m r rxi s of
        (None, s) \<Rightarrow> s
      | (Some r, s) \<Rightarrow>
          (case mh_newauth H of
             None \<Rightarrow> auth_open_confirm H r seq s
           | Some e \<Rightarrow> let s = log_ev (Ev_New_Auth (bn_macaddr (the_node s r))) s
                       in if e \<noteq> 0 then s else auth_open_confirm H r seq s))"

text \<open>The statistics of a failed authentication are recorded before the call they follow.\<close>

definition auth_open_sta :: "mlme_hooks \<Rightarrow> mbuf \<Rightarrow> node_ref \<Rightarrow> u16 \<Rightarrow> u16 \<Rightarrow> mlme \<Rightarrow> outcome" where
  "auth_open_sta H m r seq status s =
     (if m_state s \<noteq> S_AUTH \<or> seq \<noteq> AUTH_OPEN_RESPONSE then Done (log_ev (Ev_Stat St_Bad_Auth) s)
      else
        let s = (if m_flag s F_RSNON
                 then log_ev (Ev_Delete_Key (bn_pairwise_key (m_bss s)))
                        (upd_node Bss (\<lambda>n. n\<lparr>bn_replaycnt_ok := False,
                           bn_pairwise_key := mh_delete_key H (bn_pairwise_key n), bn_port_valid := False,
                           bn_flags := bn_flags n AND NOT NODE_TXRXPROT\<rparr>) s)
                 else s)
        in if status \<noteq> 0
           then let s = log_ev (Ev_Stat St_Auth_Fail) s
                in if r \<noteq> Bss then Done (upd_node r bump_fails s) else try_another_bss H s
           else Call (New_State S_ASSOC (Some (frame_subtype m))) s)"

definition auth_open ::
  "mlme_hooks \<Rightarrow> mbuf \<Rightarrow> node_ref \<Rightarrow> rxinfo \<Rightarrow> u16 \<Rightarrow> u16 \<Rightarrow> mlme \<Rightarrow> outcome" where
  "auth_open H m r rxi seq status s =
     (let bad = m_state s \<noteq> S_RUN \<or> seq \<noteq> AUTH_OPEN_REQUEST in
      case m_opmode s of
        M_IBSS \<Rightarrow>
          if bad then Done (log_ev (Ev_Stat St_Bad_Auth) s)
          else map_done (\<lambda>s. if m_flag s F_RSNON then upd_node r (\<lambda>n. n\<lparr>bn_supp_state := SUPP_PTKSTART\<rparr>) s else s)
                 (newstate H S_AUTH (Some (frame_subtype m)) s)
      | M_HOSTAP \<Rightarrow>
          Done (if bad then log_ev (Ev_Stat St_Bad_Auth) s else auth_open_hostap H m r rxi seq s)
      | M_STA \<Rightarrow> auth_open_sta H m r seq status s
      | _ \<Rightarrow> Done s)"

definition recv_auth :: "mlme_hooks \<Rightarrow> mbuf \<Rightarrow> node_ref \<Rightarrow> rxinfo \<Rightarrow> mlme \<Rightarrow> outcome" where
  "recv_auth H m r rxi s =
     (if length m < FRAME_HDR + 6 then Done s
      else
        let frm = frame_body m;
            seq = LE_READ_2 (drop 2 frm)
        in if LE_READ_2 frm \<noteq> 0
           then let s = log_ev (Ev_Stat St_Auth_Unsupported) s
                in Done (if m_opmode s = M_HOSTAP
                         then snd (send_mgmt H r ST_AUTH (push_bit 16 STATUS_ALG OR ((ucast seq + 1) AND 0xfff)) s)
                         else s)
           else auth_open H m r rxi seq (LE_READ_2 (drop 4 frm))
                  (s\<lparr>m_deauth_reason := REASON_UNSPECIFIED, m_assoc_status := 0xffff\<rparr>))"

section \<open>Association responses\<close>

text \<open>The elements of a frame, each with the bytes that follow it; the flag says that the walk
  stopped at an element that is longer than the frame.\<close>

function frame_ies :: "u8 list \<Rightarrow> u8 list list \<times> bool" where
  "frame_ies frm =
     (if length frm < 2 then ([], False)
      else let n = 2 + unat (frm ! 1) in
        if length frm < n then ([], True)
        else let (es, e) = frame_ies (drop n frm) in (frm # es, e))"
  by pat_completeness auto
termination
  by (relation "measure length") auto

declare frame_ies.simps [simp del]

record assoc_ies =
  ai_rates :: "u8 list option"
  ai_xrates :: "u8 list option"
  ai_edca :: "u8 list option"
  ai_wmm :: "u8 list option"
  ai_htcaps :: "u8 list option"
  ai_htop :: "u8 list option"
  ai_vhtcap :: "u8 list option"
  ai_vhtop :: "u8 list option"
  ai_hecap :: "u8 list option"
  ai_heop :: "u8 list option"
  ai_small :: nat

definition no_ies :: assoc_ies where
  "no_ies = \<lparr>ai_rates = None, ai_xrates = None, ai_edca = None, ai_wmm = None, ai_htcaps = None,
     ai_htop = None, ai_vhtcap = None, ai_vhtop = None, ai_hecap = None, ai_heop = None, ai_small = 0\<rparr>"

definition assoc_ie :: "u8 list \<Rightarrow> assoc_ies \<Rightarrow> assoc_ies" where
  "assoc_ie f a =
     (let t = byte_at f 0 in
      if t = 1 then a\<lparr>ai_rates := Some f\<rparr>
      else if t = 50 then a\<lparr>ai_xrates := Some f\<rparr>
      else if t = 12 then a\<lparr>ai_edca := Some f\<rparr>
      else if t = 45 then a\<lparr>ai_htcaps := Some f\<rparr>
      else if t = 61 then a\<lparr>ai_htop := Some f\<rparr>
      else if t = 191 then a\<lparr>ai_vhtcap := Some f\<rparr>
      else if t = 192 then a\<lparr>ai_vhtop := Some f\<rparr>
      else if t = ELEMID_VENDOR
      then if byte_at f 1 < 4 then a\<lparr>ai_small := ai_small a + 1\<rparr>
           else if bytes_at f 2 3 = MICROSOFT_OUI \<and> 5 \<le> byte_at f 1 \<and> byte_at f 5 = 2 \<and> byte_at f 6 = 1
           then a\<lparr>ai_wmm := Some f\<rparr> else a
      else if t = 255
      then if byte_at f 2 = 35 then a\<lparr>ai_hecap := Some f\<rparr>
           else if byte_at f 2 = 36 then a\<lparr>ai_heop := Some f\<rparr> else a
      else a)"

definition assoc_ies_of :: "u8 list \<Rightarrow> assoc_ies" where
  "assoc_ies_of frm =
     (let (es, e) = frame_ies frm; a = fold assoc_ie es no_ies
      in if e then a\<lparr>ai_small := ai_small a + 1\<rparr> else a)"

definition log_times :: "nat \<Rightarrow> mlme_event \<Rightarrow> mlme \<Rightarrow> mlme" where
  "log_times k e s = (log_ev e ^^ k) s"

text \<open>A parser of EDCA parameters on the fields of the interface.\<close>

definition with_edca :: "mlme_hooks \<Rightarrow> (edca_com \<Rightarrow> u16 \<times> edca_com) \<Rightarrow> mlme \<Rightarrow> bool \<times> mlme" where
  "with_edca H parse s =
     (let (e, c) = parse \<lparr>ic_edca_updtcount = m_edca_updtcount s, ic_edca_ac = m_edca_ac s,
            edca_qos = m_flag s F_QOS \<and> mh_updateedca H, edca_too_small = 0, edca_updates = 0\<rparr>
      in (e = 0, log_times (edca_updates c) Ev_Update_Edca (log_times (edca_too_small c) (Ev_Stat St_Elem_Toosmall)
            (s\<lparr>m_edca_updtcount := ic_edca_updtcount c, m_edca_ac := ic_edca_ac c\<rparr>))))"

definition assoc_edca :: "mlme_hooks \<Rightarrow> node_ref \<Rightarrow> assoc_ies \<Rightarrow> mlme \<Rightarrow> mlme" where
  "assoc_edca H r a s =
     (if ai_edca a = None \<and> ai_wmm a = None then s
      else
        let s = s\<lparr>m_edca_updtcount := - 1\<rparr>;
            (ok, s) = (case ai_edca a of None \<Rightarrow> (False, s) | Some e \<Rightarrow> with_edca H (parse_edca_params e) s);
            (ok, s) = (case ai_wmm a of
                         None \<Rightarrow> (ok, s) | Some w \<Rightarrow> if ok then (ok, s) else with_edca H (parse_wmm_params w) s)
        in upd_node r (\<lambda>n. n\<lparr>bn_flags := (if ok then bn_flags n OR NODE_QOS else bn_flags n AND NOT NODE_QOS)\<rparr>) s)"

definition opt_apply :: "('a \<Rightarrow> 'b \<Rightarrow> 'b) \<Rightarrow> 'a option \<Rightarrow> 'b \<Rightarrow> 'b" where
  "opt_apply f x y = (case x of None \<Rightarrow> y | Some v \<Rightarrow> f v y)"

definition assoc_elements :: "mlme \<Rightarrow> assoc_ies \<Rightarrow> bnode \<Rightarrow> bnode" where
  "assoc_elements s a n =
     (let n = opt_apply (\<lambda>e. setup_htcaps s (drop 2 e) (byte_at e 1)) (ai_htcaps a) n;
          n = opt_apply (\<lambda>e. setup_htop (drop 2 e) (byte_at e 1) False) (ai_htop a) n;
          n = (case (ai_vhtcap a, ai_vhtop a) of
                 (Some c, Some p) \<Rightarrow> setup_vhtopmode p (setup_vhtcaps s c n) | _ \<Rightarrow> n)
      in case (ai_hecap a, ai_heop a) of
           (Some c, Some p) \<Rightarrow> setup_heop (drop 3 p) (byte_at p 1 - 1) (setup_hecaps (drop 3 c) (byte_at c 1 - 1) n)
         | _ \<Rightarrow> n)"

definition assoc_negotiate :: "node_ref \<Rightarrow> assoc_ies \<Rightarrow> mlme \<Rightarrow> mlme" where
  "assoc_negotiate r a s =
     (let n = assoc_elements s a (the_node s r);
          (s, n) = vht_negotiate (ht_negotiate (s, n));
          (s, n) = (if ai_hecap a \<noteq> None \<and> ai_heop a \<noteq> None then he_negotiate (s, n) else (s, n))
      in upd_node r (\<lambda>_. n) s)"

definition assoc_mode :: "mlme \<Rightarrow> node_ref \<Rightarrow> nat" where
  "assoc_mode s r =
     (let n = the_node s r; f = bn_flags n in
      if has_flag f NODE_HE then MODE_11AX else if has_flag f NODE_VHT then MODE_11AC
      else if has_flag f NODE_HT then MODE_11N else m_chan2mode s (bn_chan n))"

text \<open>What is configured once the mode is set.\<close>

definition assoc_configure :: "mlme_hooks \<Rightarrow> node_ref \<Rightarrow> mlme \<Rightarrow> mlme" where
  "assoc_configure H r s =
     (let s = reset_erp H (upd_node r sta_set_rx_nss s);
          n = the_node s r;
          m = m_curmode s;
          s = (if m = MODE_11A \<or> has_flag (bn_capinfo n) CAPINFO_SHORT_PREAMBLE
               then m_set_flags F_SHPREAMBLE s else m_clear_flags F_SHPREAMBLE s);
          s = set_shortslottime H (m = MODE_11A \<or> has_flag (bn_capinfo n) CAPINFO_SHORT_SLOTTIME) s;
          s = (if (m = MODE_11G \<or> m = MODE_11N \<and> chan_is s CHAN_2GHZ (bn_chan n)) \<and>
                  has_flag (bn_erp n) ERP_USE_PROTECTION
               then m_set_flags F_USEPROT s else m_clear_flags F_USEPROT s)
      in if m_flag s F_RSNON then upd_node r (\<lambda>n. n\<lparr>bn_supp_state := SUPP_PTKSTART\<rparr>) s
         else if m_flag s F_WEPON then upd_node r (node_set_flags NODE_TXRXPROT) s else s)"

definition assoc_setup :: "mlme_hooks \<Rightarrow> node_ref \<Rightarrow> u16 \<Rightarrow> u16 \<Rightarrow> assoc_ies \<Rightarrow> u8 list \<Rightarrow> mlme \<Rightarrow> outcome" where
  "assoc_setup H r capinfo associd a rates s =
     (let n = the_node s r;
          (rate, rs, cut) = setup_rates all_rate_flags (m_sup_rates s (m_chan2mode s (bn_chan n)))
             (m_fixed_rate s) (m_opmode s = M_HOSTAP) rates (ai_xrates a);
          s = log_if cut (Ev_Stat St_Rstoobig) (upd_node r (\<lambda>n. n\<lparr>bn_rates := rs\<rparr>) s)
      in if has_flag rate RATE_BASIC then Done (log_ev (Ev_Stat St_Assoc_Norate) s)
         else
           let s = upd_node r (\<lambda>n. n\<lparr>bn_capinfo := capinfo, bn_associd := associd\<rparr>) s;
               s = assoc_negotiate r a (assoc_edca H r a s)
           in with_mode H (assoc_mode s r) s
                (\<lambda>s. Call (New_State S_RUN (Some ST_ASSOC_RESP)) (assoc_configure H r s)))"

text \<open>A reassociation with the network the interface runs in, asked for by the host.\<close>

definition same_bss_reassoc :: "bool \<Rightarrow> node_ref \<Rightarrow> mlme \<Rightarrow> bool" where
  "same_bss_reassoc reassoc r s \<longleftrightarrow>
     m_opmode s = M_STA \<and> reassoc \<and> m_state s = S_RUN \<and> m_reassoc_owner s \<and> r = Bss"

definition restart_rsn :: "mlme_hooks \<Rightarrow> node_ref \<Rightarrow> u16 \<Rightarrow> mlme \<Rightarrow> mlme" where
  "restart_rsn H r associd s =
     log_ev (Ev_Delete_Key (bn_pairwise_key (the_node s r)))
       (upd_node r (\<lambda>n. n\<lparr>bn_supp_state := SUPP_PTKSTART, bn_replaycnt_ok := False,
          bn_pairwise_key := mh_delete_key H (bn_pairwise_key n), bn_port_valid := False, bn_associd := associd,
          bn_flags := bn_flags n AND NOT NODE_TXRXPROT\<rparr>) s)"

definition recv_assoc_resp :: "mlme_hooks \<Rightarrow> mbuf \<Rightarrow> node_ref \<Rightarrow> bool \<Rightarrow> mlme \<Rightarrow> outcome" where
  "recv_assoc_resp H m r reassoc s =
     (let same = same_bss_reassoc reassoc r s in
      if m_opmode s \<noteq> M_STA \<or> m_state s \<noteq> S_ASSOC \<and> \<not> same then Done (log_ev (Ev_Stat St_Mgtdiscard) s)
      else if length m < FRAME_HDR + 6 then Done s
      else
        let frm = frame_body m;
            status = LE_READ_2 (drop 2 frm);
            associd = LE_READ_2 (drop 4 frm);
            s = s\<lparr>m_assoc_status := status\<rparr>
        in if status \<noteq> 0
           then let s = log_if reassoc (Ev_Reassoc_Fail (ucast status)) s;
                    s = (if r \<noteq> Bss then upd_node r bump_fails s else s)
                in Done (log_ev (Ev_Stat St_Auth_Fail) s)
           else
             let s = log_if reassoc Ev_Reassoc_Ok (log_if (mh_event_handler H) Ev_Assoc_Done s)
             in if same then Done (restart_rsn H r associd s)
                else
                  let a = assoc_ies_of (drop 6 frm);
                      s = log_times (ai_small a) (Ev_Stat St_Elem_Toosmall) s
                  in case ai_rates a of
                       None \<Rightarrow> Done s
                     | Some rates \<Rightarrow>
                         if RATE_MAXSIZE < unat (byte_at rates 1) then Done s
                         else assoc_setup H r (LE_READ_2 frm) associd a rates s)"

section \<open>Deauthentication and disassociation\<close>

definition recv_deauth :: "mlme_hooks \<Rightarrow> mbuf \<Rightarrow> node_ref \<Rightarrow> mlme \<Rightarrow> outcome" where
  "recv_deauth H m r s =
     (if length m < FRAME_HDR + 2 then Done s
      else
        let s = s\<lparr>m_deauth_reason := LE_READ_2 (frame_body m)\<rparr>;
            s = log_ev (Ev_Stat St_Deauth) (log_if (mh_event_handler H) Ev_Deauthed s);
            stay = has_flag (m_userflags s) F_STAYAUTH
        in case m_opmode s of
             M_STA \<Rightarrow>
               if roamscanning s \<or> stay \<and> m_state s \<noteq> S_INIT \<and> m_state s \<noteq> S_SCAN then Done s
               else Call (New_State S_AUTH (Some ST_DEAUTH)) s
           | M_HOSTAP \<Rightarrow>
               Done (case r of
                   Bss \<Rightarrow> s
                 | Peer a \<Rightarrow> let st = bn_state (the_node s r)
                            in if stay \<and> (st = STA_AUTH \<or> st = STA_ASSOC) then s else node_leave_cache a s)
           | _ \<Rightarrow> Done s)"

definition recv_disassoc :: "mlme_hooks \<Rightarrow> mbuf \<Rightarrow> node_ref \<Rightarrow> mlme \<Rightarrow> outcome" where
  "recv_disassoc H m r s =
     (if length m < FRAME_HDR + 2 then Done s
      else
        let s = log_ev (Ev_Stat St_Disassoc) s
        in case m_opmode s of
             M_STA \<Rightarrow> if roamscanning s then Done s else Call (New_State S_ASSOC (Some ST_DISASSOC)) s
           | M_HOSTAP \<Rightarrow> Done (case r of Bss \<Rightarrow> s | Peer a \<Rightarrow> node_leave_cache a s)
           | _ \<Rightarrow> Done s)"

section \<open>The management timer and the release of a node\<close>

definition watchdog_expired :: "mlme_hooks \<Rightarrow> mlme \<Rightarrow> outcome" where
  "watchdog_expired H s =
     (let s = log_ev (Ev_Reassoc_Fail ETIMEDOUT) s in
      if m_opmode s = M_STA \<and> (m_state s = S_AUTH \<or> m_state s = S_ASSOC)
      then
        let a = bn_macaddr (m_bss s);
            s = upd_node (Peer a) bump_fails s
        in case find_node s a of
             Some n \<Rightarrow>
               if m_state s = S_AUTH \<and> bn_fails n < 3 then Call (Join_Bss a False) s
               else Call (New_State S_SCAN None) (if m_flag s F_AUTO_JOIN then deselect_ess H s else s)
           | None \<Rightarrow> Call (New_State S_SCAN None) (if m_flag s F_AUTO_JOIN then deselect_ess H s else s)
      else Call (New_State S_SCAN None) s)"

definition watchdog :: "mlme_hooks \<Rightarrow> mlme \<Rightarrow> outcome" where
  "watchdog H s =
     (if m_mgt_timer s = 0 then Done s
      else let s = s\<lparr>m_mgt_timer := m_mgt_timer s - 1\<rparr>
           in if m_mgt_timer s = 0 then watchdog_expired H s else Done s)"

text \<open>The callback is cleared before it is called, since nothing in it reads or sets it.\<close>

definition release_node :: "mlme_hooks \<Rightarrow> node_ref \<Rightarrow> mlme \<Rightarrow> outcome" where
  "release_node H r s =
     (let s = upd_node r (\<lambda>n. n\<lparr>bn_refcnt := bn_refcnt n - 1\<rparr>) s;
          n = the_node s r
      in if bn_refcnt n \<noteq> 0 then Done s
         else if bn_unref_cb n
         then Call (Switch_Bss (bn_unref_arg n)) (upd_node r (\<lambda>n. n\<lparr>bn_unref_cb := False, bn_unref_arg := None\<rparr>) s)
         else Done (case r of Bss \<Rightarrow> s | Peer a \<Rightarrow> if bn_state n = STA_COLLECT then free_node H a s else s))"

section \<open>One event\<close>

datatype mlme_input = In_Auth mbuf node_ref rxinfo | In_Assoc_Resp mbuf node_ref bool | In_Deauth mbuf node_ref
  | In_Disassoc mbuf node_ref | In_Watchdog | In_Release node_ref | In_Call mcall

definition mlme_input :: "mlme_hooks \<Rightarrow> mlme_input \<Rightarrow> mlme \<Rightarrow> outcome" where
  "mlme_input H i s =
     (case i of
        In_Auth m r rxi \<Rightarrow> recv_auth H m r rxi s
      | In_Assoc_Resp m r reassoc \<Rightarrow> recv_assoc_resp H m r reassoc s
      | In_Deauth m r \<Rightarrow> recv_deauth H m r s
      | In_Disassoc m r \<Rightarrow> recv_disassoc H m r s
      | In_Watchdog \<Rightarrow> watchdog H s
      | In_Release r \<Rightarrow> release_node H r s
      | In_Call c \<Rightarrow> Call c s)"

end
