(* ===== verification/NodeProps.thy ===== *)
theory NodeProps
  imports Select KeyProps
begin

text \<open>
  The node cache: the tree stays sorted and its size is counted, the cache does not outgrow its
  bound, and freeing nodes is the deletion of keys from a map.
\<close>

named_theorems cache "operations that keep the cache invariant"

section \<open>The order of addresses\<close>

lemma memcmp_trans: "memcmp_lt a b \<Longrightarrow> memcmp_lt b c \<Longrightarrow> memcmp_lt a c"
proof (induction a b arbitrary: c rule: memcmp_lt.induct)
  case (1 x xs y ys)
  from 1(3) obtain z zs where c: "c = z # zs"
    by (cases c) auto
  show ?case
    using 1(1) [of zs] 1(2,3) unfolding c by (auto dest: order.strict_trans)
qed auto

lemma memcmp_irrefl [simp]: "\<not> memcmp_lt a a"
  using memcmp_asym by blast

section \<open>The invariant\<close>

definition macs :: "mlme \<Rightarrow> u8 list list" where
  "macs s = map bn_macaddr (m_tree s)"

definition cache_ok :: "mlme \<Rightarrow> bool" where
  "cache_ok s \<longleftrightarrow> sorted_wrt memcmp_lt (macs s) \<and> (\<forall>a\<in>set (macs s). length a = 6) \<and>
     m_nnodes s = int (length (m_tree s))"

lemma cache_ok_cong: "macs s' = macs s \<Longrightarrow> m_nnodes s' = m_nnodes s \<Longrightarrow> cache_ok s' = cache_ok s"
  unfolding cache_ok_def macs_def by (metis length_map)

lemma sorted_distinct: "sorted_wrt memcmp_lt xs \<Longrightarrow> distinct xs"
  by (induction xs) auto

lemma cache_distinct: "cache_ok s \<Longrightarrow> distinct (macs s)"
  by (simp add: cache_ok_def sorted_distinct)

text \<open>The part of the state the invariant is about, for the operations that leave it alone.\<close>

definition cache_view :: "mlme \<Rightarrow> u8 list list \<times> int \<times> int" where
  "cache_view s = (macs s, m_nnodes s, m_max_nnodes s)"

lemma cache_viewD: "cache_view s' = cache_view s \<Longrightarrow> cache_ok s' = cache_ok s"
  by (rule cache_ok_cong) (simp_all add: cache_view_def)

lemma view_log_ev [simp]: "cache_view (log_ev e s) = cache_view s"
  by (simp add: log_ev_def cache_view_def macs_def)

lemma view_log_if [simp]: "cache_view (log_if b e s) = cache_view s"
  by (simp add: log_if_def)

lemma view_flags [simp]: "cache_view (m_set_flags f s) = cache_view s" "cache_view (m_clear_flags f s) = cache_view s"
  by (simp_all add: m_set_flags_def m_clear_flags_def cache_view_def macs_def)

lemma view_upd_bss [simp]: "cache_view (upd_node Bss f s) = cache_view s"
  by (simp add: upd_node_def cache_view_def macs_def)

lemma macs_tree_update:
  "(\<And>n. n \<in> set t \<Longrightarrow> bn_macaddr n = a \<Longrightarrow> bn_macaddr (f n) = a) \<Longrightarrow>
   map bn_macaddr (tree_update a f t) = map bn_macaddr t"
  by (simp add: tree_update_def)

lemma view_upd_peer:
  "(\<And>n. bn_macaddr n = a \<Longrightarrow> bn_macaddr (f n) = a) \<Longrightarrow> cache_view (upd_node (Peer a) f s) = cache_view s"
  by (simp add: upd_node_def cache_view_def macs_def macs_tree_update)

lemma view_upd_node: "(\<And>n. bn_macaddr (f n) = bn_macaddr n) \<Longrightarrow> cache_view (upd_node r f s) = cache_view s"
  by (cases r) (simp_all add: view_upd_peer)

section \<open>Finding, adding and freeing\<close>

lemma find_node_mac: "find_node s a = Some n \<Longrightarrow> bn_macaddr n = a"
  by (auto simp: find_node_def find_Some_iff)

lemma find_node_in: "find_node s a = Some n \<Longrightarrow> n \<in> set (m_tree s)"
  by (auto simp: find_node_def find_Some_iff)

lemma find_node_None: "find_node s a = None \<longleftrightarrow> a \<notin> set (macs s)"
  by (auto simp: find_node_def find_None_iff macs_def)

lemma find_distinct:
  "distinct (map f xs) \<Longrightarrow> x \<in> set xs \<Longrightarrow> List.find (\<lambda>y. f y = f x) xs = Some x"
  by (induction xs) force+

lemma find_node_Some:
  assumes "cache_ok s" "n \<in> set (m_tree s)"
  shows "find_node s (bn_macaddr n) = Some n"
  using find_distinct [of bn_macaddr "m_tree s" n] cache_distinct [OF assms(1)] assms(2)
  by (simp add: find_node_def macs_def)

lemma tree_insert_set:
  "set (tree_insert n t) \<subseteq> insert n (set t)"
  "bn_macaddr n \<notin> bn_macaddr ` set t \<Longrightarrow> (\<And>x. x \<in> set t \<Longrightarrow> length (bn_macaddr x) = length (bn_macaddr n)) \<Longrightarrow>
   set (tree_insert n t) = insert n (set t) \<and> length (tree_insert n t) = Suc (length t)"
proof -
  show "set (tree_insert n t) \<subseteq> insert n (set t)"
    by (induction t) auto
  show "set (tree_insert n t) = insert n (set t) \<and> length (tree_insert n t) = Suc (length t)"
    if "bn_macaddr n \<notin> bn_macaddr ` set t"
      "\<And>x. x \<in> set t \<Longrightarrow> length (bn_macaddr x) = length (bn_macaddr n)"
    using that
  proof (induction t)
    case (Cons x t)
    have "memcmp_lt (bn_macaddr n) (bn_macaddr x) \<or> memcmp_lt (bn_macaddr x) (bn_macaddr n)"
      using memcmp_total [of "bn_macaddr n" "bn_macaddr x"] Cons.prems by force
    then show ?case
      using Cons memcmp_asym by auto
  qed simp
qed

lemma tree_insert_sorted:
  "sorted_wrt (\<lambda>x y. memcmp_lt (bn_macaddr x) (bn_macaddr y)) t \<Longrightarrow>
   sorted_wrt (\<lambda>x y. memcmp_lt (bn_macaddr x) (bn_macaddr y)) (tree_insert n t)"
proof (induction t)
  case (Cons x t)
  show ?case
    using Cons tree_insert_set(1) [of n t] by (auto dest: memcmp_trans)
qed simp

definition fresh_node :: "bnode \<Rightarrow> bnode" where
  "fresh_node n = n\<lparr>bn_savedq := [], bn_state := STA_CACHE\<rparr>"

definition add_node :: "bnode \<Rightarrow> mlme \<Rightarrow> mlme" where
  "add_node n s = setup_node n (bn_macaddr n) s"

lemma fresh_mac [simp]: "bn_macaddr (fresh_node n) = bn_macaddr n"
  by (simp add: fresh_node_def)

lemma setup_node_add: "setup_node n a s = add_node (n\<lparr>bn_macaddr := a\<rparr>) s"
  by (simp add: add_node_def setup_node_def)

lemma add_node_tree: "m_tree (add_node n s) = tree_insert (fresh_node n) (m_tree s)"
  by (simp add: add_node_def setup_node_def fresh_node_def)

lemma add_node_ok:
  assumes "cache_ok s" "find_node s (bn_macaddr n) = None" "length (bn_macaddr n) = 6"
  shows "cache_ok (add_node n s)"
proof -
  let ?n = "fresh_node n"
  have notin: "bn_macaddr ?n \<notin> bn_macaddr ` set (m_tree s)"
    using assms(2) by (simp add: find_node_None macs_def)
  have len: "\<And>x. x \<in> set (m_tree s) \<Longrightarrow> length (bn_macaddr x) = length (bn_macaddr ?n)"
    using assms by (auto simp: cache_ok_def macs_def)
  have "sorted_wrt memcmp_lt (macs (add_node n s))"
    using assms(1) tree_insert_sorted [of "m_tree s" ?n]
    by (simp add: cache_ok_def macs_def add_node_tree sorted_wrt_map)
  moreover have "set (m_tree (add_node n s)) = insert ?n (set (m_tree s))"
    "length (m_tree (add_node n s)) = Suc (length (m_tree s))"
    using tree_insert_set(2) [OF notin len] by (simp_all add: add_node_tree)
  moreover have "m_nnodes (add_node n s) = m_nnodes s + 1"
    by (simp add: add_node_def setup_node_def)
  ultimately show ?thesis
    using assms by (auto simp: cache_ok_def macs_def)
qed

lemma add_node_find:
  assumes "cache_ok s" "find_node s (bn_macaddr n) = None" "length (bn_macaddr n) = 6"
  shows "find_node (add_node n s) a = (if a = bn_macaddr n then Some (fresh_node n) else find_node s a)"
proof -
  let ?n = "fresh_node n"
  have notin: "bn_macaddr ?n \<notin> bn_macaddr ` set (m_tree s)"
    using assms(2) by (simp add: find_node_None macs_def)
  have len: "\<And>x. x \<in> set (m_tree s) \<Longrightarrow> length (bn_macaddr x) = length (bn_macaddr ?n)"
    using assms by (auto simp: cache_ok_def macs_def)
  have set: "set (m_tree (add_node n s)) = insert ?n (set (m_tree s))"
    using tree_insert_set(2) [OF notin len] by (simp add: add_node_tree)
  show ?thesis
  proof (cases "a = bn_macaddr n")
    case True
    then show ?thesis
      using find_node_Some [OF add_node_ok [OF assms], of ?n] set by simp
  next
    case False
    show ?thesis
    proof (cases "find_node s a")
      case None
      then have "find_node (add_node n s) a = None"
        using False set by (auto simp: find_node_None macs_def)
      then show ?thesis
        using None False by simp
    next
      case (Some m)
      then have "m \<in> set (m_tree (add_node n s))"
        using set find_node_in by blast
      then show ?thesis
        using find_node_Some [OF add_node_ok [OF assms], of m] find_node_mac [OF Some] Some False by simp
    qed
  qed
qed

lemma free_node_macs: "macs (free_node H a s) = filter (\<lambda>b. b \<noteq> a) (macs s)"
proof (cases "find_node s a")
  case None
  then have "a \<notin> set (macs s)"
    by (simp add: find_node_None)
  then have "filter (\<lambda>b. b \<noteq> a) (macs s) = macs s"
    by (auto simp: filter_id_conv)
  then show ?thesis
    using None by (simp add: free_node_def)
next
  case (Some n)
  then show ?thesis
    by (simp add: free_node_def Let_def macs_def log_ev_def log_if_def tree_remove_def filter_map comp_def)
qed

lemma free_node_max [simp]: "m_max_nnodes (free_node H a s) = m_max_nnodes s"
  by (simp add: free_node_def Let_def log_ev_def log_if_def split: option.split)

lemma free_node_nnodes:
  "m_nnodes (free_node H a s) = (if find_node s a = None then m_nnodes s else m_nnodes s - 1)"
  by (auto simp: free_node_def Let_def log_ev_def log_if_def split: option.split)

lemma free_node_ok [cache]: "cache_ok s \<Longrightarrow> cache_ok (free_node H a s)"
proof -
  assume ok: "cache_ok s"
  have "length (m_tree (free_node H a s)) = length (macs (free_node H a s))"
    by (simp add: macs_def)
  also have "int \<dots> = (if find_node s a = None then m_nnodes s else m_nnodes s - 1)"
  proof (cases "find_node s a = None")
    case True
    then have "filter (\<lambda>b. b \<noteq> a) (macs s) = macs s"
      by (auto simp: find_node_None filter_id_conv)
    moreover have "m_nnodes s = int (length (macs s))"
      using ok by (simp add: cache_ok_def macs_def)
    ultimately show ?thesis
      using True by (simp add: free_node_macs)
  next
    case False
    then have "a \<in> set (macs s)"
      by (simp add: find_node_None)
    then have "length (filter (\<lambda>b. b \<noteq> a) (macs s)) = length (macs s) - 1" "macs s \<noteq> []"
      using distinct_remove1_removeAll [OF cache_distinct [OF ok], of a] length_remove1 [of a "macs s"]
      by (auto simp: removeAll_filter_not_eq eq_commute)
    then have "int (length (filter (\<lambda>b. b \<noteq> a) (macs s))) = int (length (macs s)) - 1"
      by (cases "macs s") simp_all
    moreover have "m_nnodes s = int (length (macs s))"
      using ok by (simp add: cache_ok_def macs_def)
    ultimately show ?thesis
      using False by (simp add: free_node_macs)
  qed
  finally show ?thesis
    using ok by (simp add: cache_ok_def free_node_macs free_node_nnodes sorted_wrt_filter)
qed

lemma free_node_find:
  "find_node (free_node H a s) b = (if b = a then None else find_node s b)"
proof (cases "find_node s a")
  case None
  then show ?thesis by (simp add: free_node_def)
next
  case (Some n)
  have "List.find (\<lambda>n. bn_macaddr n = b) (tree_remove a t)
      = (if b = a then None else List.find (\<lambda>n. bn_macaddr n = b) t)" for t
    by (induction t) (auto simp: tree_remove_def)
  then have "List.find (\<lambda>n. bn_macaddr n = b) (tree_remove a (m_tree s))
      = (if b = a then None else List.find (\<lambda>n. bn_macaddr n = b) (m_tree s))"
    by blast
  then show ?thesis
    using Some by (auto simp: free_node_def Let_def find_node_def log_ev_def log_if_def)
qed

section \<open>The cache as a map\<close>

text \<open>What the users of a table of nodes rely on: a new node is found under its key, a deleted key
  is not, and nothing else changes.\<close>

locale node_table =
  fixes lookup :: "'s \<Rightarrow> 'k \<Rightarrow> 'n option"
    and insert' :: "'n \<Rightarrow> 's \<Rightarrow> 's"
    and delete :: "'k \<Rightarrow> 's \<Rightarrow> 's"
    and key :: "'n \<Rightarrow> 'k"
    and fresh :: "'n \<Rightarrow> 'n"
    and valid :: "'k \<Rightarrow> bool"
    and inv :: "'s \<Rightarrow> bool"
  assumes lookup_insert: "inv s \<Longrightarrow> lookup s (key n) = None \<Longrightarrow> valid (key n) \<Longrightarrow>
      lookup (insert' n s) k = (if k = key n then Some (fresh n) else lookup s k)"
    and inv_insert: "inv s \<Longrightarrow> lookup s (key n) = None \<Longrightarrow> valid (key n) \<Longrightarrow> inv (insert' n s)"
    and lookup_delete: "lookup (delete k s) k' = (if k' = k then None else lookup s k')"
    and inv_delete: "inv s \<Longrightarrow> inv (delete k s)"
begin

definition deletes :: "'k list \<Rightarrow> 's \<Rightarrow> 's" where
  "deletes ks s = fold delete ks s"

lemma lookup_deletes: "lookup (deletes ks s) k = (if k \<in> set ks then None else lookup s k)"
  unfolding deletes_def by (induction ks arbitrary: s) (auto simp: lookup_delete)

lemma inv_deletes: "inv s \<Longrightarrow> inv (deletes ks s)"
  unfolding deletes_def by (induction ks arbitrary: s) (auto simp: inv_delete)

lemma reinsert:
  assumes "inv s" "valid (key n)"
  shows "lookup (insert' n (delete (key n) s)) k = (if k = key n then Some (fresh n) else lookup s k)"
  using assms lookup_insert [of "delete (key n) s" n k] by (simp add: lookup_delete inv_delete)

end

interpretation nt: node_table find_node add_node "free_node H" bn_macaddr fresh_node "\<lambda>a. length a = 6" cache_ok
  for H
  by unfold_locales (simp_all add: add_node_find add_node_ok free_node_find free_node_ok)

section \<open>The loops over the cache\<close>

lemma free_where_deletes:
  "free_where H P s = nt.deletes H (map bn_macaddr (filter P (m_tree s))) s"
proof -
  have "fold (\<lambda>n s. if P n then free_node H (bn_macaddr n) s else s) ns s
      = fold (free_node H) (map bn_macaddr (filter P ns)) s" for ns
    by (induction ns arbitrary: s) auto
  then show ?thesis
    by (simp add: free_where_def nt.deletes_def)
qed

lemma free_where_ok [cache]: "cache_ok s \<Longrightarrow> cache_ok (free_where H P s)"
  by (simp add: free_where_deletes nt.inv_deletes)

lemma free_where_find:
  assumes "cache_ok s"
  shows "find_node (free_where H P s) a
    = (case find_node s a of Some n \<Rightarrow> if P n then None else Some n | None \<Rightarrow> None)"
proof (cases "find_node s a")
  case None
  then show ?thesis
    by (simp add: free_where_deletes nt.lookup_deletes)
next
  case (Some n)
  have "m = n" if "m \<in> set (m_tree s)" "bn_macaddr m = a" for m
    using find_node_Some [OF assms that(1)] that(2) Some by simp
  then have "a \<in> bn_macaddr ` {m \<in> set (m_tree s). P m} \<longleftrightarrow> P n"
    using find_node_in [OF Some] find_node_mac [OF Some] by blast
  then show ?thesis
    using Some by (simp add: free_where_deletes nt.lookup_deletes)
qed

text \<open>The operations that do not add nodes.\<close>

definition shrinks :: "mlme \<Rightarrow> mlme \<Rightarrow> bool" where
  "shrinks s s' \<longleftrightarrow> (cache_ok s \<longrightarrow> cache_ok s') \<and> m_max_nnodes s' = m_max_nnodes s \<and>
     m_nnodes s' \<le> m_nnodes s \<and> set (macs s') \<subseteq> set (macs s)"

lemma shrinks_refl [simp]: "shrinks s s"
  by (simp add: shrinks_def)

lemma shrinks_trans: "shrinks s t \<Longrightarrow> shrinks t u \<Longrightarrow> shrinks s u"
  unfolding shrinks_def by auto

lemma shrinks_view: "cache_view t = cache_view s \<Longrightarrow> shrinks s t"
  using cache_viewD [of t s] by (simp add: shrinks_def cache_view_def)

lemma shrinks_view_left: "cache_view t = cache_view s \<Longrightarrow> shrinks t u \<Longrightarrow> shrinks s u"
  by (rule shrinks_trans [OF shrinks_view])

lemma shrinks_view_right: "shrinks s t \<Longrightarrow> cache_view u = cache_view t \<Longrightarrow> shrinks s u"
  by (rule shrinks_trans [OF _ shrinks_view])

lemma shrinks_log [simp]: "shrinks s (log_ev e t) = shrinks s t" "shrinks s (log_if b e t) = shrinks s t"
  "shrinks s (m_set_flags f t) = shrinks s t" "shrinks s (m_clear_flags f t) = shrinks s t"
  "shrinks s (upd_node Bss g t) = shrinks s t"
  by (metis shrinks_view_right view_log_ev, metis shrinks_view_right view_log_if,
      metis shrinks_view_right view_flags(1), metis shrinks_view_right view_flags(2),
      metis shrinks_view_right view_upd_bss)

lemma shrinks_upd: "shrinks s t \<Longrightarrow> (\<And>n. bn_macaddr (f n) = bn_macaddr n) \<Longrightarrow> shrinks s (upd_node r f t)"
  by (erule shrinks_view_right) (rule view_upd_node)

lemma shrinks_upd_peer:
  "shrinks s t \<Longrightarrow> (\<And>n. bn_macaddr n = a \<Longrightarrow> bn_macaddr (f n) = a) \<Longrightarrow> shrinks s (upd_node (Peer a) f t)"
  by (erule shrinks_view_right) (rule view_upd_peer)

lemma shrinks_fold: "(\<And>x t. shrinks s t \<Longrightarrow> shrinks s (f x t)) \<Longrightarrow> shrinks s t \<Longrightarrow> shrinks s (fold f xs t)"
  by (induction xs arbitrary: t) auto

lemma shrinks_free_node [cache]: "shrinks s t \<Longrightarrow> shrinks s (free_node H a t)"
proof (erule shrinks_trans)
  show "shrinks t (free_node H a t)"
    by (auto simp: shrinks_def free_node_ok free_node_nnodes free_node_macs)
qed

lemma shrinks_free_where [cache]: "shrinks s t \<Longrightarrow> shrinks s (free_where H P t)"
  unfolding free_where_def by (rule shrinks_fold) (auto intro: cache)

lemma shrinks_free_allnodes [cache]: "shrinks s t \<Longrightarrow> shrinks s (free_allnodes H b t)"
  by (auto simp: free_allnodes_def Let_def intro: cache)

lemma shrinks_clean_cached [cache]: "shrinks s t \<Longrightarrow> shrinks s (clean_cached H t)"
  by (auto simp: clean_cached_def intro: cache)

lemma tree_map_view:
  assumes "\<And>n. bn_macaddr (f n) = bn_macaddr n"
  shows "cache_view (s\<lparr>m_tree := map f (m_tree s)\<rparr>) = cache_view s"
  using assms by (simp add: cache_view_def macs_def comp_def)

lemma view_clean_sta_bss_node [simp]: "cache_view (clean_sta_bss_node s) = cache_view s"
  unfolding clean_sta_bss_node_def by (rule tree_map_view) simp

lemma view_node_raise_inact [simp]: "cache_view (node_raise_inact s) = cache_view s"
  unfolding node_raise_inact_def by (rule tree_map_view) simp

lemma view_inact_timeout [simp]: "cache_view (inact_timeout s) = cache_view s"
  by (simp add: inact_timeout_def cache_view_def macs_def comp_def if_distrib cong: if_cong)

lemma shrinks_clean_inactive_step: "shrinks s t \<Longrightarrow> shrinks s (clean_inactive_step H gen k n t)"
  by (auto simp: clean_inactive_step_def Let_def intro!: cache shrinks_upd)

lemma shrinks_clean_inactive [cache]: "shrinks s t \<Longrightarrow> shrinks s (clean_inactive_nodes H k t)"
  unfolding clean_inactive_nodes_def
  by (rule shrinks_fold [OF shrinks_clean_inactive_step])
    (auto elim!: shrinks_view_right simp: cache_view_def macs_def)

lemma shrinks_set_timer [simp]: "shrinks s (t\<lparr>m_mgt_timer := v\<rparr>) = shrinks s t"
  "shrinks s (t\<lparr>m_protmode := p\<rparr>) = shrinks s t"
  by (simp_all add: shrinks_def cache_ok_def macs_def)

lemma shrinks_unref_failed [cache]: "shrinks s t \<Longrightarrow> shrinks s (unref_failed H r t)"
  by (auto simp: unref_failed_def Let_def split: node_ref.splits intro!: cache shrinks_upd)

lemma shrinks_send_mgmt [cache]: "shrinks s t \<Longrightarrow> shrinks s (snd (send_mgmt H r type arg t))"
  by (auto simp: send_mgmt_def Let_def split: send_outcome.splits intro!: cache shrinks_upd)

lemma shrinks_leave [cache]: "shrinks s t \<Longrightarrow> shrinks s (node_leave_cache a t)"
  by (auto simp: node_leave_cache_def intro!: shrinks_upd)

lemma shrinks_evict [cache]: "shrinks s t \<Longrightarrow> shrinks s (evict_node H n t)"
  by (auto simp: evict_node_def Let_def intro!: cache)

lemma shrinks_clean_loop: "shrinks s t \<Longrightarrow> shrinks s (fst (clean_nodes_loop H ct gen ns t a b))"
proof (induction ns arbitrary: t a b)
  case (Cons n ns)
  have "shrinks s (upd_node (Peer (bn_macaddr n)) (\<lambda>n. n\<lparr>bn_scangen := gen\<rparr>) t)"
    by (rule shrinks_upd [OF Cons.prems]) simp
  then show ?case
    using Cons shrinks_evict [of s _ H n] by (auto simp: Let_def split: prod.splits)
qed simp

lemma shrinks_clean_nodes [cache]: "shrinks s t \<Longrightarrow> shrinks s (clean_nodes H ct t)"
proof -
  assume a: "shrinks s t"
  have "shrinks s (t\<lparr>m_scangen := m_scangen t + 1\<rparr>)"
    using a by (simp add: shrinks_def cache_ok_def macs_def)
  then have "shrinks s (fst (clean_nodes_loop H ct (m_scangen t) (m_tree t) (t\<lparr>m_scangen := m_scangen t + 1\<rparr>) 0 0))"
    by (rule shrinks_clean_loop)
  moreover have "shrinks s u \<Longrightarrow> shrinks s (update_htprot H x y u)" for x y u
    by (simp add: update_htprot_def Let_def)
  ultimately show ?thesis
    by (auto simp: clean_nodes_def Let_def split: prod.splits)
qed

lemma shrinks_set_node:
  assumes "shrinks s t" "find_node t a \<noteq> None \<Longrightarrow> bn_macaddr n = a"
  shows "shrinks s (upd_node (Peer a) (\<lambda>_. n) t)"
proof (cases "find_node t a")
  case None
  then have "tree_update a (\<lambda>_. n) (m_tree t) = m_tree t"
    by (auto simp: find_node_None macs_def tree_update_def intro!: map_idI)
  then show ?thesis
    using assms(1) by (simp add: upd_node_def)
next
  case (Some m)
  then show ?thesis
    using assms by (simp add: shrinks_upd_peer)
qed

lemma shrinks_match_bss [cache]: "shrinks s t \<Longrightarrow> shrinks s (snd (match_bss a b t))"
  by (auto simp: match_bss_def Let_def the_node_def node_at_def node_fix_rate_def split: prod.splits
      dest: find_node_mac intro!: shrinks_set_node)

lemma shrinks_choose_step: "shrinks s (fst st) \<Longrightarrow> shrinks s (fst (choose_step H b n st))"
  using shrinks_match_bss [of s "fst st"]
  by (auto simp: choose_step_def Let_def split: prod.splits intro!: cache shrinks_upd) (metis snd_conv)

lemma shrinks_choose_bss [cache]: "shrinks s t \<Longrightarrow> shrinks s (snd (snd (choose_bss H b t)))"
proof -
  assume a: "shrinks s t"
  have "shrinks s (fst (fold (choose_step H b) ns (t, c)))" for ns c
  proof -
    have "shrinks s (fst st) \<Longrightarrow> shrinks s (fst (fold (choose_step H b) ns st))" for st
      by (induction ns arbitrary: st) (simp_all add: shrinks_choose_step)
    then show ?thesis using a by simp
  qed
  then show ?thesis
    by (simp add: choose_bss_def split: prod.splits) (metis fst_conv)
qed

lemma view_keys [simp]:
  "cache_view (s\<lparr>m_nw_keys := x\<rparr>) = cache_view s" "cache_view (s\<lparr>m_def_txkey := d\<rparr>) = cache_view s"
  "cache_view (s\<lparr>m_des_essid := i, m_des_esslen := l\<rparr>) = cache_view s"
  "cache_view (s\<lparr>m_des_esslen := l, m_des_essid := i\<rparr>) = cache_view s"
  "cache_view (s\<lparr>m_psk := p, m_rsnprotos := q, m_rsnakms := a, m_rsnciphers := c, m_rsngroupcipher := g\<rparr>)
     = cache_view s"
  by (simp_all add: cache_view_def macs_def)

lemma view_fold: "(\<And>x t. cache_view (f x t) = cache_view t) \<Longrightarrow> cache_view (fold f xs s) = cache_view s"
  by (induction xs arbitrary: s) auto

lemma view_drv_keys [simp]: "cache_view (delete_if_set H i s) = cache_view s" "cache_view (drv_set_key H i k s) = cache_view s"
  by (simp_all add: delete_if_set_def drv_delete_key_def drv_set_key_def Let_def)

lemma view_disable [simp]: "cache_view (disable_wep H s) = cache_view s" "cache_view (disable_rsn s) = cache_view s"
  by (simp_all add: disable_wep_def disable_rsn_def Let_def view_fold)

lemma view_set_ess [simp]: "cache_view (set_ess H e n s) = cache_view s"
  by (simp add: set_ess_def Let_def set_wep_key_def view_fold)

lemma match_first_mac [simp]: "bn_macaddr (snd (match_first es n)) = bn_macaddr n"
  by (induction es arbitrary: n) (auto split: option.splits)

lemma shrinks_switch_loop: "shrinks s t \<Longrightarrow> shrinks s (snd (snd (switch_loop H ns sel t)))"
proof (induction ns arbitrary: sel t)
  case (Cons n ns)
  obtain e n' where m: "match_first (m_ess t) n = (e, n')"
    by fastforce
  have "bn_macaddr n' = bn_macaddr n"
    using match_first_mac [of "m_ess t" n] m by simp
  then have u: "shrinks s (upd_node (Peer (bn_macaddr n')) (\<lambda>_. n') t)"
    by (intro shrinks_set_node [OF Cons.prems]) simp
  then have "shrinks s (set_ess H x n' (upd_node (Peer (bn_macaddr n')) (\<lambda>_. n') t))" for x
    by (rule shrinks_view_right) simp
  then show ?case
    using Cons u m by (auto simp: Let_def split: option.splits)
qed simp

lemma shrinks_switch_ess [cache]: "shrinks s t \<Longrightarrow> shrinks s (switch_ess H t)"
  using shrinks_switch_loop [of s t H "m_tree t" None]
  by (auto simp: switch_ess_def Let_def split: prod.splits option.splits intro: shrinks_view_right)

section \<open>A station with two access points\<close>

text \<open>The state of the witnesses: a station in the state SCAN that knows two access points of the network
  \<^verbatim>\<open>ab\<close>, on channels 1 and 36.\<close>

definition demo_ap :: "u8 list \<Rightarrow> nat \<Rightarrow> u8 \<Rightarrow> bnode" where
  "demo_ap a c rssi = zero_node\<lparr>bn_rssi := rssi, bn_macaddr := a, bn_bssid := a, bn_capinfo := CAPINFO_ESS,
     bn_esslen := 2, bn_essid := [0x61, 0x62] @ replicate 30 0,
     bn_rates := \<lparr>rs_nrates = 1, rs_rates = 0x8c # replicate 14 0\<rparr>, bn_chan := Some c\<rparr>"

definition demo_ap1 :: bnode where
  "demo_ap1 = demo_ap [2, 0, 0, 0, 0, 1] 1 200"

definition demo_ap2 :: bnode where
  "demo_ap2 = demo_ap [2, 0, 0, 0, 0, 2] 36 190"

definition demo_flags :: "nat \<Rightarrow> u32" where
  "demo_flags i = (if i = 1 then 0xc0 else if i = 36 then 0x140 else 0)"

definition demo_mlme :: mlme where
  "demo_mlme = \<lparr>m_opmode = M_STA, m_state = S_SCAN, m_flags = 0, m_xflags = 0, m_userflags = 0,
     m_caps = C_SCANALLBAND, m_modecaps = 1, m_curmode = MODE_AUTO, m_media_auto = True, m_running = True,
     m_link = LINK_DOWN, m_myaddr = [2, 0, 0, 0, 0, 9],
     m_sup_rates = (\<lambda>_. \<lparr>rs_nrates = 1, rs_rates = 0x0c # replicate 14 0\<rparr>),
     m_chan_freq = (\<lambda>i. if i = 1 then 2412 else if i = 36 then 5180 else 0), m_chan_flags = demo_flags,
     m_chan_center1 = (\<lambda>_. 0), m_chan_center2 = (\<lambda>_. 0), m_chan_active = (\<lambda>i. demo_flags i \<noteq> 0),
     m_chan_scan = (\<lambda>_. False), m_scan_count = 0, m_bss = zero_node\<lparr>bn_chan := Some 255\<rparr>,
     m_ibss_chan = Some 1, m_fixed_rate = None, m_scangen = 1, m_max_rssi = 0, m_tree = [demo_ap1, demo_ap2],
     m_nnodes = 2, m_max_nnodes = 400, m_aid_bitmap = (\<lambda>_. False), m_lintval = 100, m_bmissthres = 7,
     m_mgt_timer = 0, m_bgscan_fail = 0, m_bgscan_to = None, m_rsn_to = None, m_inact_to = None,
     m_node_cache_to = None, m_des_esslen = 2, m_des_essid = [0x61, 0x62] @ replicate 30 0,
     m_des_chan = None, m_des_bssid = replicate 6 0, m_deauth_reason = 0, m_assoc_status = 0,
     m_nw_keys = replicate 6 zero_key, m_def_txkey = 0, m_igtk_kid = 0, m_globalcnt = replicate 32 0,
     m_psk = replicate 32 0, m_pmksa = [], m_rsnprotos = 0, m_rsnakms = 0, m_rsnciphers = 0,
     m_rsngroupcipher = 0, m_rsngroupmgmtcipher = 0, m_protmode = 0, m_edca_ac = [], m_edca_updtcount = 0,
     m_htcaps = 0, m_vhtcaps = 0, m_sup_mcs = replicate 10 0, m_vht_tx_mcs_map = 0, m_vht_rx_mcs_map = 0,
     m_ess = [], m_reassoc_owner = False, m_log = []\<rparr>"

definition demo_hk :: mlme_hooks where
  "demo_hk = \<lparr>mh_send = (\<lambda>_ _. Sent), mh_alloc = True, mh_save_ie = True, mh_random = 0,
     mh_random_bytes = (\<lambda>k. replicate k 0), mh_set_key = (\<lambda>k. k), mh_delete_key = (\<lambda>k. k), mh_newauth = None,
     mh_set_tim = False, mh_event_handler = True, mh_updateprot = True, mh_updateedca = True,
     mh_updateslot = True, mh_apple = False, mh_family_v2 = False\<rparr>"

section \<open>Operations of the cache\<close>

datatype node_op = Op_Alloc "u8 list" | Op_Dup "u8 list" | Op_Free "u8 list" | Op_Free_All bool
  | Op_Clean_Cached | Op_Clean_Inactive int | Op_Clean bool | Op_Age | Op_Choose bool | Op_Switch
  | Op_Send node_ref u8 u32

definition node_op :: "mlme_hooks \<Rightarrow> node_op \<Rightarrow> mlme \<Rightarrow> mlme" where
  "node_op H op s =
     (case op of
        Op_Alloc a \<Rightarrow> snd (alloc_node H a s)
      | Op_Dup a \<Rightarrow> snd (dup_bss H a s)
      | Op_Free a \<Rightarrow> free_node H a s
      | Op_Free_All b \<Rightarrow> free_allnodes H b s
      | Op_Clean_Cached \<Rightarrow> clean_cached H s
      | Op_Clean_Inactive k \<Rightarrow> clean_inactive_nodes H k s
      | Op_Clean ct \<Rightarrow> clean_nodes H ct s
      | Op_Age \<Rightarrow> inact_timeout (node_raise_inact s)
      | Op_Choose b \<Rightarrow> snd (snd (choose_bss H b s))
      | Op_Switch \<Rightarrow> switch_ess H s
      | Op_Send r type arg \<Rightarrow> snd (send_mgmt H r type arg s))"

text \<open>The address a node is added under; the callers have searched for it before.\<close>

definition new_address :: "node_op \<Rightarrow> u8 list option" where
  "new_address op = (case op of Op_Alloc a \<Rightarrow> Some a | Op_Dup a \<Rightarrow> Some a | _ \<Rightarrow> None)"

definition cache_bounded :: "mlme \<Rightarrow> bool" where
  "cache_bounded s \<longleftrightarrow> cache_ok s \<and> m_nnodes s \<le> m_max_nnodes s"

lemma shrinks_bounded: "shrinks s t \<Longrightarrow> cache_bounded s \<Longrightarrow> cache_bounded t"
  by (auto simp: shrinks_def cache_bounded_def)

lemma helper_shrinks: "shrinks s (snd (alloc_node_helper H s))"
  by (auto simp: alloc_node_helper_def Let_def intro: cache)

lemma helper_room: "fst (alloc_node_helper H s) \<Longrightarrow> m_nnodes (snd (alloc_node_helper H s)) < m_max_nnodes (snd (alloc_node_helper H s))"
  by (auto simp: alloc_node_helper_def Let_def)

lemma add_after_helper:
  assumes "cache_bounded s" "find_node s a = None" "length a = 6" "fst (alloc_node_helper H s)"
  shows "cache_bounded (setup_node n a (snd (alloc_node_helper H s)))"
proof -
  let ?t = "snd (alloc_node_helper H s)"
  have "cache_bounded ?t"
    using helper_shrinks assms(1) by (rule shrinks_bounded)
  moreover have "find_node ?t a = None"
    using assms(2) helper_shrinks [of s H] by (auto simp: find_node_None shrinks_def)
  ultimately show ?thesis
    using add_node_ok [of ?t "n\<lparr>bn_macaddr := a\<rparr>"] helper_room [OF assms(4)] assms(3)
    by (auto simp: cache_bounded_def setup_node_add) (simp add: add_node_def setup_node_def)
qed

text \<open>C28. The node cache keeps its invariant: after any operation on it (allocation of a node,
  also when the cache is full, freeing, ageing, the search for an access point, the switch to another
  network, sending a frame) the tree is sorted by address without duplicates, the counter of nodes is
  the number of nodes of the tree, and the cache is not larger than its bound.\<close>

theorem node_cache_invariant:
  assumes "cache_bounded s"
    and "\<And>a. new_address op = Some a \<Longrightarrow> find_node s a = None \<and> length a = 6"
  shows "cache_bounded (node_op H op s)"
proof -
  have alloc: "cache_bounded (snd (alloc_node H a s))" if "find_node s a = None \<and> length a = 6" for a
    using add_after_helper [OF assms(1), of a H] shrinks_bounded [OF helper_shrinks assms(1), of H] that
    by (auto simp: alloc_node_def split: prod.splits)
      (metis shrinks_bounded shrinks_log(1) shrinks_refl)
  have dup: "cache_bounded (snd (dup_bss H a s))" if "find_node s a = None \<and> length a = 6" for a
    using add_after_helper [OF assms(1), of a H] shrinks_bounded [OF helper_shrinks assms(1), of H] that
    by (auto simp: dup_bss_def split: prod.splits)
      (metis shrinks_bounded shrinks_log(1) shrinks_refl)
  have "shrinks s (inact_timeout (node_raise_inact s))"
    by (rule shrinks_view) simp
  then show ?thesis
    using alloc dup assms(2)
    by (cases op) (auto simp: node_op_def new_address_def intro!: cache shrinks_bounded [OF _ assms(1)])
qed

theorem node_cache_invariant_witness:
  "cache_bounded (node_op demo_hk (Op_Alloc [2, 0, 0, 0, 0, 3]) demo_mlme)"
proof (rule node_cache_invariant)
  show "cache_bounded demo_mlme"
    by code_simp
  show "find_node demo_mlme a = None \<and> length a = 6" if "new_address (Op_Alloc [2, 0, 0, 0, 0, 3]) = Some a" for a
  proof -
    have "a = [2, 0, 0, 0, 0, 3]"
      using that by (simp add: new_address_def)
    moreover have "find_node demo_mlme [2, 0, 0, 0, 0, 3] = None"
      by code_simp
    ultimately show ?thesis by simp
  qed
qed

end
