(* ===== verification/SelectProps.thy ===== *)
theory SelectProps
  imports NodeProps
begin

text \<open>
  The choice of an access point: \<^verbatim>\<open>ieee80211_node_choose_bss\<close> computes the best candidate of a plain
  reference definition, what it selects is what the host asked for, and the RSN parameters chosen for
  it are supported by both sides.
\<close>

section \<open>What the loop leaves alone\<close>

text \<open>The state without the nodes, the counters and the log.\<close>

definition conf :: "mlme \<Rightarrow> mlme" where
  "conf s = s\<lparr>m_bss := zero_node, m_tree := [], m_nnodes := 0, m_aid_bitmap := (\<lambda>_. False), m_log := []\<rparr>"

lemma conf_log [simp]: "conf (log_ev e s) = conf s" "conf (log_if b e s) = conf s"
  by (simp_all add: log_ev_def log_if_def conf_def)

lemma conf_upd_node [simp]: "conf (upd_node r f s) = conf s"
  by (cases r) (simp_all add: upd_node_def conf_def)

lemma conf_free_node [simp]: "conf (free_node H a s) = conf s"
  by (simp add: free_node_def Let_def split: option.split) (simp add: conf_def)

lemma conf_fields:
  assumes "conf t = conf s"
  shows "m_flags t = m_flags s" "m_caps t = m_caps s" "m_des_esslen t = m_des_esslen s"
    "m_chan_flags t = m_chan_flags s" "m_max_rssi t = m_max_rssi s"
  using arg_cong [OF assms, of m_flags] arg_cong [OF assms, of m_caps] arg_cong [OF assms, of m_des_esslen]
    arg_cong [OF assms, of m_chan_flags] arg_cong [OF assms, of m_max_rssi]
  by (simp_all add: conf_def)

lemma match_fail_conf: "match_fail (conf s) n = match_fail s n"
  by (simp add: match_fail_def match_chan_def match_caps_def match_names_def rsn_mismatch_def node_fix_rate_def
      m_chan2mode_def m_flag_def conf_def)

lemma match_fail_cong: "conf t = conf s \<Longrightarrow> match_fail t n = match_fail s n"
  by (metis match_fail_conf)

lemma chan_is_cong: "conf t = conf s \<Longrightarrow> chan_is t f c = chan_is s f c"
  using conf_fields(4) [of t s] by (simp add: chan_is_def split: option.split)

section \<open>The reference definition\<close>

definition acceptable :: "mlme \<Rightarrow> bnode \<Rightarrow> bool" where
  "acceptable s n \<longleftrightarrow> m_flag s F_AUTO_JOIN \<and> m_des_esslen s = 0 \<or> match_fail s n = 0"

definition candidates :: "mlme \<Rightarrow> bnode list" where
  "candidates s = filter (\<lambda>n. bn_fails n = 0 \<and> acceptable s n) (m_tree s)"

text \<open>The first node with the strongest signal.\<close>

definition stronger :: "bnode \<Rightarrow> bnode option \<Rightarrow> bnode option" where
  "stronger n b = (case b of None \<Rightarrow> Some n | Some m \<Rightarrow> if bn_rssi m < bn_rssi n then Some n else b)"

definition strongest :: "bnode list \<Rightarrow> bnode option" where
  "strongest ns = fold stronger ns None"

definition on_band :: "mlme \<Rightarrow> u32 \<Rightarrow> bnode list \<Rightarrow> bnode list" where
  "on_band s f ns = filter (\<lambda>n. chan_is s f (bn_chan n)) ns"

definition pick_band :: "mlme \<Rightarrow> bnode option \<Rightarrow> bnode option \<Rightarrow> bnode option" where
  "pick_band s n2 n5 =
     (case n5 of None \<Rightarrow> n2
      | Some n \<Rightarrow> if node_checkrssi s n then Some n
                 else (case n2 of None \<Rightarrow> Some n | Some m \<Rightarrow> if bn_rssi m \<le> bn_rssi n then Some n else Some m))"

definition pick :: "mlme \<Rightarrow> bnode option" where
  "pick s =
     (if has_flag (m_caps s) C_SCANALLBAND
      then pick_band s (strongest (on_band s CHAN_2GHZ (candidates s))) (strongest (on_band s CHAN_5GHZ (candidates s)))
      else strongest (candidates s))"

section \<open>The loop\<close>

text \<open>The nodes behind the pointers of the loop.\<close>

type_synonym selected = "bnode option \<times> bnode option \<times> bnode option"

definition sel_update :: "mlme \<Rightarrow> bnode \<Rightarrow> selected \<Rightarrow> selected" where
  "sel_update s n = (\<lambda>(x, x2, x5).
     if bn_fails n = 0 \<and> acceptable s n
     then if has_flag (m_caps s) C_SCANALLBAND
          then if chan_is s CHAN_2GHZ (bn_chan n) then (x, stronger n x2, x5)
               else if chan_is s CHAN_5GHZ (bn_chan n) then (x, x2, stronger n x5) else (x, x2, x5)
          else (stronger n x, x2, x5)
     else (x, x2, x5))"

definition same_signal :: "mlme \<Rightarrow> bnode \<Rightarrow> bool" where
  "same_signal t n \<longleftrightarrow>
     (\<exists>k. find_node t (bn_macaddr n) = Some k \<and> bn_rssi k = bn_rssi n \<and> bn_chan k = bn_chan n)"

definition sel_ok :: "mlme \<Rightarrow> mlme \<Rightarrow> choice \<Rightarrow> selected \<Rightarrow> bool" where
  "sel_ok s t c = (\<lambda>(x, x2, x5).
     conf t = conf s \<and> ch_sel c = map_option bn_macaddr x \<and> ch_sel2 c = map_option bn_macaddr x2 \<and>
     ch_sel5 c = map_option bn_macaddr x5 \<and>
     (\<forall>m \<in> set_option x \<union> set_option x2 \<union> set_option x5. same_signal t m))"

lemma find_upd_node_other: "b \<noteq> a \<Longrightarrow> (\<And>n. bn_macaddr n = a \<Longrightarrow> bn_macaddr (f n) = a) \<Longrightarrow>
    find_node (upd_node (Peer a) f t) b = find_node t b"
proof -
  assume "b \<noteq> a" and f: "\<And>n. bn_macaddr n = a \<Longrightarrow> bn_macaddr (f n) = a"
  then have "List.find (\<lambda>n. bn_macaddr n = b) (tree_update a f ns) = List.find (\<lambda>n. bn_macaddr n = b) ns" for ns
    by (induction ns) (auto simp: tree_update_def)
  then show ?thesis
    by (simp add: find_node_def upd_node_def)
qed

lemma find_upd_node:
  assumes "\<And>n. bn_macaddr n = a \<Longrightarrow> bn_macaddr (f n) = a"
  shows "find_node (upd_node (Peer a) f t) b = (if b = a then map_option f (find_node t a) else find_node t b)"
proof (cases "b = a")
  case True
  have "List.find (\<lambda>n. bn_macaddr n = a) (tree_update a f ns) = map_option f (List.find (\<lambda>n. bn_macaddr n = a) ns)" for ns
    using assms by (induction ns) (auto simp: tree_update_def)
  then show ?thesis
    using True by (simp add: find_node_def upd_node_def)
qed (simp add: find_upd_node_other assms)

lemma find_upd_bss [simp]: "find_node (upd_node Bss f t) a = find_node t a"
  by (simp add: find_node_def upd_node_def)

lemma find_const:
  "find_node (upd_node (Peer (bn_macaddr n)) (\<lambda>_. n) t) b
    = (if b = bn_macaddr n then map_option (\<lambda>_. n) (find_node t b) else find_node t b)"
  by (subst find_upd_node) simp_all

lemma match_bss_result:
  assumes "find_node t (bn_macaddr n) = Some n"
  shows "(fst (match_bss (bn_macaddr n) bg t) = 0) = acceptable t n"
    and "b \<noteq> bn_macaddr n \<Longrightarrow> find_node (snd (match_bss (bn_macaddr n) bg t)) b = find_node t b"
    and "same_signal (snd (match_bss (bn_macaddr n) bg t)) n"
    and "conf (snd (match_bss (bn_macaddr n) bg t)) = conf t"
proof -
  have n: "the_node t (Peer (bn_macaddr n)) = n"
    using assms by (simp add: the_node_def node_at_def)
  define fl where "fl = match_fail t n"
  define k where "k = (let k = snd (node_fix_rate t fixed_nego n)
    in if \<not> bg \<or> fl AND ASSOCFAIL_ESSID = 0 then k\<lparr>bn_assoc_fail := fl\<rparr> else k)"
  have k: "bn_macaddr k = bn_macaddr n" "bn_rssi k = bn_rssi n" "bn_chan k = bn_chan n"
    by (simp_all add: k_def Let_def node_fix_rate_def split: prod.split)
  define u where "u = upd_node (Peer (bn_macaddr n)) (\<lambda>_. k) t"
  have m: "match_bss (bn_macaddr n) bg t
      = (if m_flag t F_AUTO_JOIN \<and> m_des_esslen t = 0 then (0, t)
         else (fl, if fl AND ASSOCFAIL_ESSID = 0
                   then upd_node Bss (\<lambda>b. b\<lparr>bn_assoc_fail := bn_assoc_fail k\<rparr>) u else u))"
    unfolding match_bss_def n fl_def [symmetric] k_def u_def Let_def ..
  have u: "find_node u b = (if b = bn_macaddr n then Some k else find_node t b)" for b
    using find_const [of k t b] assms unfolding u_def k(1) by simp
  show "(fst (match_bss (bn_macaddr n) bg t) = 0) = acceptable t n"
    by (auto simp: m acceptable_def fl_def)
  show "b \<noteq> bn_macaddr n \<Longrightarrow> find_node (snd (match_bss (bn_macaddr n) bg t)) b = find_node t b"
    by (simp add: m u)
  show "same_signal (snd (match_bss (bn_macaddr n) bg t)) n"
    using assms by (simp add: m u same_signal_def k)
  show "conf (snd (match_bss (bn_macaddr n) bg t)) = conf t"
    by (simp add: m u_def)
qed

lemma acceptable_cong: "conf t = conf s \<Longrightarrow> acceptable t n = acceptable s n"
  using conf_fields(1,3) [of t s] match_fail_cong [of t s n] by (simp add: acceptable_def m_flag_def)

lemma better_signal:
  assumes "\<forall>m \<in> set_option x. same_signal t m"
  shows "better t (map_option bn_macaddr x) n \<longleftrightarrow> (case x of None \<Rightarrow> True | Some m \<Rightarrow> bn_rssi m < bn_rssi n)"
  using assms by (cases x) (auto simp: better_def same_signal_def the_node_def node_at_def)

lemma same_signal_other:
  "same_signal t m \<Longrightarrow> (find_node t' (bn_macaddr m) = find_node t (bn_macaddr m)) \<Longrightarrow> same_signal t' m"
  by (simp add: same_signal_def)

lemma choose_step_find:
  assumes "find_node t (bn_macaddr n) = Some n" "b \<noteq> bn_macaddr n"
  shows "find_node (fst (choose_step H bg n (t, c))) b = find_node t b"
proof -
  obtain f t' where m: "match_bss (bn_macaddr n) bg t = (f, t')"
    by fastforce
  show ?thesis
    using match_bss_result(2) [OF assms(1), of b bg] assms(2) m
    by (simp add: choose_step_def Let_def free_node_find find_upd_node_other)
qed

text \<open>The step in which the node is matched, on the pointers and on the nodes behind them.\<close>

lemma choose_update_sel:
  assumes "conf t = conf s" "\<forall>m \<in> set_option x. same_signal t m" "\<forall>m \<in> set_option x2. same_signal t m"
    "\<forall>m \<in> set_option x5. same_signal t m"
    and c: "ch_sel c = map_option bn_macaddr x" "ch_sel2 c = map_option bn_macaddr x2"
      "ch_sel5 c = map_option bn_macaddr x5"
    and n: "bn_fails n = 0" "acceptable s n"
    and bands: "\<not> (chan_is s CHAN_2GHZ (bn_chan n) \<and> chan_is s CHAN_5GHZ (bn_chan n))"
    and y: "sel_update s n (x, x2, x5) = (y, y2, y5)"
  shows "ch_sel (choose_update t n c) = map_option bn_macaddr y"
    "ch_sel2 (choose_update t n c) = map_option bn_macaddr y2"
    "ch_sel5 (choose_update t n c) = map_option bn_macaddr y5"
proof -
  have s: "map_option bn_macaddr (stronger n z) = (if better t (map_option bn_macaddr z) n then Some (bn_macaddr n)
      else map_option bn_macaddr z)" if "\<forall>m \<in> set_option z. same_signal t m" for z
    using better_signal [OF that, of n] by (cases z) (simp_all add: stronger_def)
  have *: "m_caps t = m_caps s" "chan_is t g k = chan_is s g k" for g k
    using conf_fields(2) [OF assms(1)] chan_is_cong [OF assms(1)] by blast+
  show "ch_sel (choose_update t n c) = map_option bn_macaddr y"
    "ch_sel2 (choose_update t n c) = map_option bn_macaddr y2"
    "ch_sel5 (choose_update t n c) = map_option bn_macaddr y5"
    using y n bands
    by (auto simp: sel_update_def choose_update_def Let_def * c s [OF assms(2)] s [OF assms(3)] s [OF assms(4)]
        split: if_splits)
qed

definition upset :: "selected \<Rightarrow> bnode set" where
  "upset = (\<lambda>(x, x2, x5). set_option x \<union> set_option x2 \<union> set_option x5)"

lemma sel_update_upset: "upset (sel_update s n xs) \<subseteq> insert n (upset xs)"
  by (cases xs) (auto simp: sel_update_def upset_def stronger_def split: option.splits if_splits)

lemma choose_step_sel:
  assumes ok: "sel_ok s t c xs" and n: "find_node t (bn_macaddr n) = Some n"
    and new: "\<forall>m \<in> upset xs. bn_macaddr m \<noteq> bn_macaddr n"
    and bands: "\<not> (chan_is s CHAN_2GHZ (bn_chan n) \<and> chan_is s CHAN_5GHZ (bn_chan n))"
  shows "sel_ok s (fst (choose_step H bg n (t, c))) (snd (choose_step H bg n (t, c))) (sel_update s n xs)"
proof -
  obtain x x2 x5 where xs: "xs = (x, x2, x5)"
    by (cases xs)
  have conf: "conf t = conf s"
    using ok by (simp add: sel_ok_def xs)
  have keep: "same_signal (fst (choose_step H bg n (t, c))) m" if "m \<in> upset xs" for m
  proof -
    have "same_signal t m"
      using ok that by (auto simp: sel_ok_def upset_def xs)
    then show ?thesis
      using new that choose_step_find [OF n, of "bn_macaddr m"] by (metis same_signal_other)
  qed
  show ?thesis
  proof (cases "bn_fails n = 0")
    case False
    then have "sel_update s n xs = xs"
      by (simp add: sel_update_def xs)
    moreover have "snd (choose_step H bg n (t, c)) = c" "conf (fst (choose_step H bg n (t, c))) = conf t"
      using False by (simp_all add: choose_step_def)
    ultimately show ?thesis
      using ok keep conf by (auto simp: sel_ok_def xs upset_def)
  next
    case True
    obtain f t' where m: "match_bss (bn_macaddr n) bg t = (f, t')"
      by fastforce
    note r = match_bss_result [OF n, where bg = bg, unfolded m fst_conv snd_conv]
    have acc: "(f = 0) = acceptable s n" and conf': "conf t' = conf s"
      using r(1,4) conf acceptable_cong [OF conf] by auto
    define c' where "c' = (if bn_macaddr (m_bss t) = bn_macaddr n then c\<lparr>ch_cur := Some (bn_macaddr n)\<rparr> else c)"
    have step: "choose_step H bg n (t, c) = (t', if acceptable s n then choose_update t' n c' else c')"
      using True m acc by (simp add: choose_step_def Let_def c'_def)
    have sel: "ch_sel c' = map_option bn_macaddr x" "ch_sel2 c' = map_option bn_macaddr x2"
      "ch_sel5 c' = map_option bn_macaddr x5"
      using ok by (simp_all add: sel_ok_def xs c'_def)
    have sig: "\<forall>m \<in> set_option x. same_signal t' m" "\<forall>m \<in> set_option x2. same_signal t' m"
      "\<forall>m \<in> set_option x5. same_signal t' m"
      using keep by (auto simp: step upset_def xs)
    obtain y y2 y5 where y: "sel_update s n (x, x2, x5) = (y, y2, y5)"
      by (cases "sel_update s n (x, x2, x5)")
    have new_sig: "\<forall>m \<in> upset (y, y2, y5). same_signal t' m"
      using sel_update_upset [of s n "(x, x2, x5)"] keep r(3) by (auto simp: y xs step)
    show ?thesis
    proof (cases "acceptable s n")
      case False
      then show ?thesis
        using sel sig conf' by (auto simp: sel_ok_def step xs sel_update_def)
    next
      case acceptable: True
      show ?thesis
        using choose_update_sel [OF conf' sig sel True acceptable bands y] conf' new_sig acceptable
        by (auto simp: sel_ok_def step xs y upset_def)
    qed
  qed
qed

lemma choose_loop_sel:
  assumes "sel_ok s t c xs" "\<forall>n \<in> set ns. find_node t (bn_macaddr n) = Some n"
    "distinct (map bn_macaddr ns)" "\<forall>m \<in> upset xs. \<forall>n \<in> set ns. bn_macaddr m \<noteq> bn_macaddr n"
    and "\<forall>n \<in> set ns. \<not> (chan_is s CHAN_2GHZ (bn_chan n) \<and> chan_is s CHAN_5GHZ (bn_chan n))"
  shows "sel_ok s (fst (fold (choose_step H bg) ns (t, c))) (snd (fold (choose_step H bg) ns (t, c)))
      (fold (sel_update s) ns xs)"
  using assms
proof (induction ns arbitrary: t c xs)
  case (Cons n ns)
  obtain t' c' where st: "choose_step H bg n (t, c) = (t', c')"
    by fastforce
  have n: "find_node t (bn_macaddr n) = Some n"
    using Cons.prems(2) by simp
  have "sel_ok s t' c' (sel_update s n xs)"
    using choose_step_sel [OF Cons.prems(1) n, of H bg] Cons.prems(4,5) st by simp
  moreover have "find_node t' (bn_macaddr k) = Some k" if "k \<in> set ns" for k
  proof -
    have "bn_macaddr k \<noteq> bn_macaddr n"
      using Cons.prems(3) that by (metis distinct.simps(2) list.simps(9) imageI list.set_map)
    moreover have "find_node t (bn_macaddr k) = Some k"
      using Cons.prems(2) that by (meson list.set_intros(2))
    ultimately show ?thesis
      using choose_step_find [OF n, of "bn_macaddr k" H bg c] st by simp
  qed
  moreover have "\<forall>m \<in> upset (sel_update s n xs). \<forall>k \<in> set ns. bn_macaddr m \<noteq> bn_macaddr k"
    using sel_update_upset [of s n xs] Cons.prems(3,4) by fastforce
  ultimately have "sel_ok s (fst (fold (choose_step H bg) ns (t', c'))) (snd (fold (choose_step H bg) ns (t', c')))
      (fold (sel_update s) ns (sel_update s n xs))"
    using Cons.prems(3,5) by (intro Cons.IH) auto
  then show ?case
    by (simp only: fold_simps comp_apply st)
qed simp

text \<open>The three pointers of the loop, by band.\<close>

lemma sel_update_fold:
  assumes "\<forall>n \<in> set ns. \<not> (chan_is s CHAN_2GHZ (bn_chan n) \<and> chan_is s CHAN_5GHZ (bn_chan n))"
  shows "fold (sel_update s) ns (x, x2, x5) =
    (let cs = filter (\<lambda>n. bn_fails n = 0 \<and> acceptable s n) ns in
     if has_flag (m_caps s) C_SCANALLBAND
     then (x, fold stronger (on_band s CHAN_2GHZ cs) x2, fold stronger (on_band s CHAN_5GHZ cs) x5)
     else (fold stronger cs x, x2, x5))"
  using assms
  by (induction ns arbitrary: x x2 x5) (auto simp: sel_update_def on_band_def Let_def)

section \<open>The access point chosen\<close>

lemma node_checkrssi_cong:
  "conf t = conf s \<Longrightarrow> bn_rssi k = bn_rssi n \<Longrightarrow> bn_chan k = bn_chan n \<Longrightarrow>
   node_checkrssi t k = node_checkrssi s n"
  using conf_fields(5) [of t s] chan_is_cong [of t s] by (simp add: node_checkrssi_def)

lemma choose_final_pick:
  assumes "conf t = conf s" "ch_sel c = map_option bn_macaddr x" "ch_sel2 c = map_option bn_macaddr x2"
    "ch_sel5 c = map_option bn_macaddr x5"
    "\<forall>m \<in> set_option x2. same_signal t m" "\<forall>m \<in> set_option x5. same_signal t m"
  shows "choose_final t c
    = map_option bn_macaddr (case (x2, x5) of (None, None) \<Rightarrow> x | _ \<Rightarrow> pick_band s x2 x5)"
proof -
  have k: "bn_rssi (the_node t (Peer (bn_macaddr m))) = bn_rssi m \<and>
      node_checkrssi t (the_node t (Peer (bn_macaddr m))) = node_checkrssi s m" if sig: "same_signal t m" for m
  proof -
    obtain k where k: "find_node t (bn_macaddr m) = Some k" "bn_rssi k = bn_rssi m" "bn_chan k = bn_chan m"
      using sig by (auto simp: same_signal_def)
    then show ?thesis
      using node_checkrssi_cong [OF assms(1) k(2,3)] by (simp add: the_node_def node_at_def)
  qed
  show ?thesis
    using assms(5,6) k by (cases x2; cases x5) (simp_all add: choose_final_def assms(2-4) pick_band_def)
qed

lemma pick_band_None [simp]: "pick_band s None None = None"
  by (simp add: pick_band_def)

lemma choose_bss_pick:
  assumes "cache_ok s"
    and "\<forall>n \<in> set (m_tree s). \<not> (chan_is s CHAN_2GHZ (bn_chan n) \<and> chan_is s CHAN_5GHZ (bn_chan n))"
  shows "fst (choose_bss H bg s) = map_option bn_macaddr (pick s)"
proof -
  let ?c = "\<lparr>ch_cur = None, ch_sel = None, ch_sel2 = None, ch_sel5 = None\<rparr>"
  obtain t c where st: "fold (choose_step H bg) (m_tree s) (s, ?c) = (t, c)"
    by fastforce
  define xs where "xs = fold (sel_update s) (m_tree s) (None, None, None)"
  have "sel_ok s s ?c (None, None, None)" "upset (None, None, None) = {}"
    by (simp_all add: sel_ok_def upset_def)
  moreover have "distinct (map bn_macaddr (m_tree s))"
    using cache_distinct [OF assms(1)] by (simp add: macs_def)
  ultimately have ok: "sel_ok s t c xs"
    using choose_loop_sel [of s s ?c "(None, None, None)" "m_tree s" H bg] find_node_Some [OF assms(1)] assms(2) st
    by (simp add: xs_def)
  have xs: "xs = (if has_flag (m_caps s) C_SCANALLBAND
      then (None, strongest (on_band s CHAN_2GHZ (candidates s)), strongest (on_band s CHAN_5GHZ (candidates s)))
      else (strongest (candidates s), None, None))"
    unfolding xs_def by (subst sel_update_fold [OF assms(2)]) (simp add: Let_def candidates_def strongest_def)
  obtain x x2 x5 where x: "xs = (x, x2, x5)"
    by (cases xs)
  have "choose_final t c
      = map_option bn_macaddr (case (x2, x5) of (None, None) \<Rightarrow> x | _ \<Rightarrow> pick_band s x2 x5)"
    by (rule choose_final_pick) (use ok in \<open>auto simp: sel_ok_def x\<close>)
  moreover have "(case (x2, x5) of (None, None) \<Rightarrow> x | _ \<Rightarrow> pick_band s x2 x5) = pick s"
    using xs x by (auto simp: pick_def split: option.splits if_splits)
  ultimately show ?thesis
    by (simp add: choose_bss_def st)
qed

lemma strongest_in: "fold stronger ns b = Some n \<Longrightarrow> n \<in> set ns \<or> b = Some n"
  by (induction ns arbitrary: b) (force simp: stronger_def split: option.splits if_splits)+

lemma strongest_max:
  assumes "fold stronger ns b = Some n"
  shows "\<forall>m \<in> set ns \<union> set_option b. bn_rssi m \<le> bn_rssi n"
  using assms
proof (induction ns arbitrary: b)
  case (Cons k ns)
  then have "\<forall>m \<in> set ns \<union> set_option (stronger k b). bn_rssi m \<le> bn_rssi n"
    by simp
  then show ?case
    by (auto simp: stronger_def split: option.splits if_splits)
qed simp

lemma strongest_none: "fold stronger ns b = None \<longleftrightarrow> ns = [] \<and> b = None"
  by (induction ns arbitrary: b) (auto simp: stronger_def split: option.splits)

lemma pick_candidate: "pick s = Some n \<Longrightarrow> n \<in> set (candidates s)"
  by (auto simp: pick_def pick_band_def strongest_def on_band_def dest!: strongest_in
      split: if_splits option.splits)

section \<open>Properties\<close>

text \<open>C25. The loop over the node cache chooses the access point of its specification: among the nodes
  that match and have not failed, the first with the strongest signal; when the adapter scans both bands,
  the strongest of the 5 GHz band, unless its signal is below the threshold and one of the 2 GHz band is
  stronger.  The nodes that the loop ages, drops and rewrites on its way do not change the choice.\<close>

theorem choose_bss_spec:
  assumes "cache_ok s"
    and "\<forall>n \<in> set (m_tree s). \<not> (chan_is s CHAN_2GHZ (bn_chan n) \<and> chan_is s CHAN_5GHZ (bn_chan n))"
  shows "fst (choose_bss H bg s) = map_option bn_macaddr (pick s)"
  using assms by (rule choose_bss_pick)

lemma demo_ready: "cache_ok demo_mlme"
  "\<forall>n \<in> set (m_tree demo_mlme).
     \<not> (chan_is demo_mlme CHAN_2GHZ (bn_chan n) \<and> chan_is demo_mlme CHAN_5GHZ (bn_chan n))"
  by code_simp+

theorem choose_bss_spec_witness: "fst (choose_bss demo_hk False demo_mlme) = Some [2, 0, 0, 0, 0, 2]"
proof -
  have "map_option bn_macaddr (pick demo_mlme) = Some [2, 0, 0, 0, 0, 2]"
    by code_simp
  then show ?thesis
    using choose_bss_spec [OF demo_ready, of demo_hk False] by simp
qed

text \<open>What a node without a reason for failure has.\<close>

definition wanted :: "mlme \<Rightarrow> bnode \<Rightarrow> bool" where
  "wanted s n \<longleftrightarrow>
     (m_des_esslen s \<noteq> 0 \<longrightarrow> bn_esslen n = m_des_esslen s \<and>
        bytes_at (bn_essid n) 0 (m_des_esslen s) = bytes_at (m_des_essid s) 0 (m_des_esslen s)) \<and>
     (m_flag s F_DESBSSID \<longrightarrow> bn_bssid n = m_des_bssid s) \<and>
     (m_des_chan s \<noteq> None \<longrightarrow> bn_chan n = m_des_chan s) \<and>
     (m_flag s F_WEPON \<or> m_flag s F_RSNON \<longleftrightarrow> has_flag (bn_capinfo n) CAPINFO_PRIVACY) \<and>
     (m_flag s F_RSNON \<longrightarrow> bn_rsnprotos n AND m_rsnprotos s \<noteq> 0 \<and> bn_rsnakms n AND m_rsnakms s \<noteq> 0 \<and>
        bn_rsnciphers n AND m_rsnciphers s \<noteq> 0 \<and>
        (has_flag (bn_rsncaps n) RSNCAP_MFPR \<longrightarrow> has_flag (m_caps s) C_MFP) \<and>
        (m_flag s F_MFPR \<and> has_flag (m_caps s) C_MFP \<longrightarrow> has_flag (bn_rsncaps n) RSNCAP_MFPC))"

lemma or_zero: "x OR y = 0 \<longleftrightarrow> x = 0 \<and> y = (0 :: u32)"
  by (fact or_eq_0_iff)

lemma flag_if_zero: "f \<noteq> 0 \<Longrightarrow> flag_if b f = 0 \<longleftrightarrow> \<not> b"
  by (simp add: flag_if_def)

lemma flags_or: "m_flags s AND (F_WEPON OR F_RSNON) \<noteq> 0 \<longleftrightarrow> m_flag s F_WEPON \<or> m_flag s F_RSNON"
  unfolding m_flag_def has_flag_def bit.conj_disj_distrib or_zero by blast

lemma match_fail_parts:
  assumes "match_fail s n = 0"
  shows "m_des_chan s \<noteq> None \<Longrightarrow> bn_chan n = m_des_chan s"
    "m_flag s F_WEPON \<or> m_flag s F_RSNON \<longleftrightarrow> has_flag (bn_capinfo n) CAPINFO_PRIVACY"
    "m_des_esslen s \<noteq> 0 \<Longrightarrow> bn_esslen n = m_des_esslen s \<and>
       bytes_at (bn_essid n) 0 (m_des_esslen s) = bytes_at (m_des_essid s) 0 (m_des_esslen s)"
    "m_flag s F_DESBSSID \<Longrightarrow> bn_bssid n = m_des_bssid s"
    "m_flag s F_RSNON \<Longrightarrow> \<not> rsn_mismatch s n"
proof -
  have z: "match_chan s n = 0" "match_caps s n = 0" "match_names s n = 0"
    "flag_if (m_flag s F_RSNON \<and> rsn_mismatch s n) ASSOCFAIL_WPA_PROTO = 0"
    using assms unfolding match_fail_def or_zero by blast+
  show "m_des_chan s \<noteq> None \<Longrightarrow> bn_chan n = m_des_chan s"
    using z(1) unfolding match_chan_def or_zero by (simp add: flag_if_def split: if_splits)
  show "m_flag s F_WEPON \<or> m_flag s F_RSNON \<longleftrightarrow> has_flag (bn_capinfo n) CAPINFO_PRIVACY"
    using z(2) unfolding match_caps_def or_zero flags_or by (simp add: flag_if_def split: if_splits)
  show "m_des_esslen s \<noteq> 0 \<Longrightarrow> bn_esslen n = m_des_esslen s \<and>
       bytes_at (bn_essid n) 0 (m_des_esslen s) = bytes_at (m_des_essid s) 0 (m_des_esslen s)"
    "m_flag s F_DESBSSID \<Longrightarrow> bn_bssid n = m_des_bssid s"
    using z(3) unfolding match_names_def or_zero by (simp_all add: flag_if_def split: if_splits)
  show "m_flag s F_RSNON \<Longrightarrow> \<not> rsn_mismatch s n"
    using z(4) by (simp add: flag_if_def split: if_splits)
qed

lemma match_fail_wanted:
  assumes "match_fail s n = 0"
  shows "wanted s n"
  using match_fail_parts [OF assms] unfolding wanted_def rsn_mismatch_def by blast

text \<open>C26. The access point that the loop over the node cache selects is one the host asked for: a node of
  the cache that has not failed, with the network name, the BSSID and the channel of the host where they are
  set; protected exactly when WEP or RSN is on; and with RSN on, it has a protocol, a key management and a
  pairwise cipher of the host, and management frame protection where one of the two requires it.  Only when
  the host joins any network without a name are the nodes not compared.\<close>

theorem choose_bss_wanted:
  assumes "cache_ok s"
    and "\<forall>n \<in> set (m_tree s). \<not> (chan_is s CHAN_2GHZ (bn_chan n) \<and> chan_is s CHAN_5GHZ (bn_chan n))"
    and "fst (choose_bss H bg s) = Some a" "\<not> (m_flag s F_AUTO_JOIN \<and> m_des_esslen s = 0)"
  shows "\<exists>n \<in> set (m_tree s). bn_macaddr n = a \<and> bn_fails n = 0 \<and> wanted s n"
proof -
  obtain n where n: "pick s = Some n" "bn_macaddr n = a"
    using choose_bss_pick [OF assms(1,2), of H bg] assms(3) by (cases "pick s") auto
  then show ?thesis
    using pick_candidate [OF n(1)] assms(4) match_fail_wanted [of s n]
    by (auto simp: candidates_def acceptable_def)
qed

theorem choose_bss_wanted_witness:
  "\<exists>n \<in> set (m_tree demo_mlme). bn_macaddr n = [2, 0, 0, 0, 0, 2] \<and> bn_fails n = 0 \<and> wanted demo_mlme n"
proof (rule choose_bss_wanted [OF demo_ready])
  show "fst (choose_bss demo_hk False demo_mlme) = Some [2, 0, 0, 0, 0, 2]"
    unfolding choose_bss_pick [OF demo_ready, of demo_hk False] by code_simp
  show "\<not> (m_flag demo_mlme F_AUTO_JOIN \<and> m_des_esslen demo_mlme = 0)"
    by code_simp
qed

section \<open>RSN parameters\<close>

text \<open>What the host can offer: the protocols, the key managements and the ciphers of the stack.\<close>

definition rsn_configured :: "mlme \<Rightarrow> bool" where
  "rsn_configured s \<longleftrightarrow>
     m_rsnprotos s AND NOT (PROTO_RSN OR PROTO_WPA) = 0 \<and>
     m_rsnakms s AND NOT (AKM_8021X OR AKM_PSK OR AKM_SHA256_8021X OR AKM_SHA256_PSK) = 0 \<and>
     m_rsnciphers s AND NOT (CIPHER_TKIP OR CIPHER_CCMP) = 0"

lemma word_nonzero: "(w :: u32) \<noteq> 0 \<longleftrightarrow> (\<exists>i. bit w i)"
  using bit_eqI [of w 0] by auto

lemma word_within: "(y :: u32) AND NOT m = 0 \<longleftrightarrow> (\<forall>i. bit y i \<longrightarrow> bit m i)"
  using word_nonzero [of "y AND NOT m"] bit_imp_le_length [of y] by (auto simp: bit_simps)

lemma has_flag_bit: "has_flag x (f :: u32) \<longleftrightarrow> (\<exists>i. bit x i \<and> bit f i)"
  unfolding has_flag_def word_nonzero [of "x AND f"] by (metis bit_and_iff)

lemma both_flags: "has_flag (x AND y) f \<Longrightarrow> has_flag x f \<and> has_flag y (f :: u32)"
  unfolding has_flag_bit by (auto simp: bit_and_iff)

lemma other_flag:
  fixes x y :: u32
  assumes "x AND y \<noteq> 0" "y AND NOT (f OR g) = 0" "\<not> has_flag (x AND y) f"
  shows "has_flag (x AND y) g"
  using assms unfolding has_flag_bit word_nonzero word_within bit_and_iff bit_or_iff by blast

definition akm_psk :: u32 where "akm_psk = AKM_PSK OR AKM_SHA256_PSK"
definition akm_8021x :: u32 where "akm_8021x = AKM_SHA256_8021X OR AKM_8021X"

lemma split_flag: "has_flag x (f OR g) \<longleftrightarrow> has_flag x f \<or> has_flag x (g :: u32)"
  unfolding has_flag_def bit.conj_disj_distrib or_zero by blast

lemma akm_flags: "has_flag k akm_psk \<longleftrightarrow> has_flag k AKM_PSK \<or> has_flag k AKM_SHA256_PSK"
  "has_flag k akm_8021x \<longleftrightarrow> has_flag k AKM_SHA256_8021X \<or> has_flag k AKM_8021X"
  unfolding akm_psk_def akm_8021x_def split_flag by simp_all

lemma choose_akm_alt: "choose_akm s k =
    (if m_flag s F_PSK \<and> has_flag k akm_psk then if has_flag k AKM_SHA256_PSK then AKM_SHA256_PSK else AKM_PSK
     else if has_flag k AKM_SHA256_8021X then AKM_SHA256_8021X else AKM_8021X)"
  by (simp add: choose_akm_def has_flag_def akm_psk_def)

lemma choose_akm_supported:
  assumes "k \<noteq> 0" "\<forall>i. bit k i \<longrightarrow> bit akm_psk i \<or> bit akm_8021x i"
    and "m_flag s F_PSK \<or> k AND NOT akm_psk \<noteq> 0"
  shows "has_flag k (choose_akm s k)"
proof (cases "m_flag s F_PSK \<and> has_flag k akm_psk")
  case True
  then show ?thesis
    unfolding choose_akm_alt by (simp only: if_True akm_flags split: if_split) blast
next
  case False
  have "has_flag k akm_8021x"
  proof (cases "m_flag s F_PSK")
    case True
    then show ?thesis
      using False assms(1,2) unfolding has_flag_bit word_nonzero by auto
  next
    case False
    then have "\<not> (\<forall>i. bit k i \<longrightarrow> bit akm_psk i)"
      using assms(3) unfolding word_within by blast
    then show ?thesis
      using assms(2) unfolding has_flag_bit by blast
  qed
  then have "has_flag k AKM_SHA256_8021X \<or> has_flag k AKM_8021X"
    by (simp only: akm_flags)
  then show ?thesis
    unfolding choose_akm_alt using False by (simp only: if_False split: if_split) blast
qed

text \<open>C27. The RSN parameters chosen for an access point that matches are ones both sides support: the
  protocol, the key management and the cipher, each a single one; pre-shared keys are only chosen when the
  host has one; and protection of management frames is turned on when both sides are capable of it.  This
  needs a host whose own lists hold what the stack implements (the cipher list
  \<^verbatim>\<open>IEEE80211_CIPHER_USEGROUP\<close> of the configuration excluded, for which the code picks TKIP).\<close>

theorem rsn_choice_supported:
  assumes "rsn_configured s" "m_flag s F_RSNON" "match_fail s n = 0"
  defines "n' \<equiv> choose_rsnparams s n"
  shows "has_flag (m_rsnprotos s) (bn_rsnprotos n') \<and> has_flag (bn_rsnprotos n) (bn_rsnprotos n') \<and>
    has_flag (m_rsnakms s) (bn_rsnakms n') \<and> has_flag (bn_rsnakms n) (bn_rsnakms n') \<and>
    has_flag (m_rsnciphers s) (bn_rsncipher n') \<and> has_flag (bn_rsnciphers n) (bn_rsncipher n') \<and>
    bn_rsnprotos n' \<in> {PROTO_RSN, PROTO_WPA} \<and> bn_rsncipher n' \<in> {CIPHER_CCMP, CIPHER_TKIP} \<and>
    bn_rsnakms n' \<in> {AKM_8021X, AKM_PSK, AKM_SHA256_8021X, AKM_SHA256_PSK} \<and>
    (bn_rsnakms n' \<in> {AKM_PSK, AKM_SHA256_PSK} \<longrightarrow> m_flag s F_PSK) \<and>
    (has_flag (bn_flags n') NODE_MFP \<longleftrightarrow>
       has_flag (bn_flags n) NODE_MFP \<or> has_flag (m_caps s) C_MFP \<and> has_flag (bn_rsncaps n) RSNCAP_MFPC)"
proof -
  let ?k = "bn_rsnakms n AND m_rsnakms s"
  have m: "\<not> rsn_mismatch s n"
    using match_fail_parts(5) [OF assms(3,2)] .
  have proto: "has_flag (bn_rsnprotos n AND m_rsnprotos s) PROTO_RSN \<or>
      has_flag (bn_rsnprotos n AND m_rsnprotos s) PROTO_WPA"
    using m assms(1) other_flag [of "bn_rsnprotos n" "m_rsnprotos s" PROTO_RSN PROTO_WPA]
    unfolding rsn_mismatch_def rsn_configured_def by blast
  have cipher: "has_flag (bn_rsnciphers n AND m_rsnciphers s) CIPHER_CCMP \<or>
      has_flag (bn_rsnciphers n AND m_rsnciphers s) CIPHER_TKIP"
    using m assms(1) other_flag [of "bn_rsnciphers n" "m_rsnciphers s" CIPHER_TKIP CIPHER_CCMP]
    unfolding rsn_mismatch_def rsn_configured_def by blast
  have "\<forall>i. bit (m_rsnakms s) i \<longrightarrow> bit (akm_psk OR akm_8021x) i"
    using assms(1) unfolding rsn_configured_def word_within akm_psk_def akm_8021x_def
    by (simp add: bit_or_iff ac_simps)
  then have "\<forall>i. bit ?k i \<longrightarrow> bit akm_psk i \<or> bit akm_8021x i"
    unfolding bit_and_iff bit_or_iff by blast
  moreover have "?k \<noteq> 0" "m_flag s F_PSK \<or> ?k AND NOT akm_psk \<noteq> 0"
    using m unfolding rsn_mismatch_def akm_psk_def and.assoc by blast+
  ultimately have akm: "has_flag ?k (choose_akm s ?k)"
    by (intro choose_akm_supported)
  have n': "bn_rsnprotos n' = (if has_flag (bn_rsnprotos n AND m_rsnprotos s) PROTO_RSN then PROTO_RSN else PROTO_WPA)"
    "bn_rsnakms n' = choose_akm s ?k"
    "bn_rsncipher n' = (if has_flag (bn_rsnciphers n AND m_rsnciphers s) CIPHER_CCMP then CIPHER_CCMP else CIPHER_TKIP)"
    unfolding n'_def choose_rsnparams_def choose_pmkid_def Let_def by (simp_all split: option.split)
  have mfp: "has_flag (bn_flags n') NODE_MFP \<longleftrightarrow>
       has_flag (bn_flags n) NODE_MFP \<or> has_flag (m_caps s) C_MFP \<and> has_flag (bn_rsncaps n) RSNCAP_MFPC"
    unfolding n'_def choose_rsnparams_def choose_pmkid_def Let_def
    by (auto simp: split_flag has_flag_or_self has_flag_or split: option.split)
  have p: "has_flag (m_rsnprotos s) (bn_rsnprotos n') \<and> has_flag (bn_rsnprotos n) (bn_rsnprotos n') \<and>
      bn_rsnprotos n' \<in> {PROTO_RSN, PROTO_WPA}"
    unfolding n'(1) using proto both_flags [of "bn_rsnprotos n" "m_rsnprotos s"] by auto
  have c: "has_flag (m_rsnciphers s) (bn_rsncipher n') \<and> has_flag (bn_rsnciphers n) (bn_rsncipher n') \<and>
      bn_rsncipher n' \<in> {CIPHER_CCMP, CIPHER_TKIP}"
    unfolding n'(3) using cipher both_flags [of "bn_rsnciphers n" "m_rsnciphers s"] by auto
  have k: "has_flag (m_rsnakms s) (bn_rsnakms n') \<and> has_flag (bn_rsnakms n) (bn_rsnakms n')"
    unfolding n'(2) using both_flags [OF akm] by simp
  have "bn_rsnakms n' \<in> {AKM_8021X, AKM_PSK, AKM_SHA256_8021X, AKM_SHA256_PSK}"
    "bn_rsnakms n' \<in> {AKM_PSK, AKM_SHA256_PSK} \<longrightarrow> m_flag s F_PSK"
    unfolding n'(2) choose_akm_alt by (simp_all split: if_split)
  with p c k mfp show ?thesis
    by blast
qed

text \<open>A host and an access point with pre-shared keys, the access point with both protocols.\<close>

definition demo_rsn_host :: mlme where
  "demo_rsn_host = demo_mlme\<lparr>m_flags := F_RSNON OR F_PSK, m_rsnprotos := PROTO_RSN OR PROTO_WPA,
     m_rsnakms := AKM_PSK OR AKM_SHA256_PSK, m_rsnciphers := CIPHER_CCMP OR CIPHER_TKIP\<rparr>"

definition demo_rsn_ap :: bnode where
  "demo_rsn_ap = demo_ap1\<lparr>bn_capinfo := CAPINFO_ESS OR CAPINFO_PRIVACY, bn_rsnprotos := PROTO_RSN OR PROTO_WPA,
     bn_rsnakms := AKM_PSK OR AKM_8021X, bn_rsnciphers := CIPHER_CCMP, bn_rsngroupcipher := CIPHER_TKIP\<rparr>"

theorem rsn_choice_supported_witness:
  "has_flag (m_rsnakms demo_rsn_host) (bn_rsnakms (choose_rsnparams demo_rsn_host demo_rsn_ap)) \<and>
   bn_rsnakms (choose_rsnparams demo_rsn_host demo_rsn_ap) = AKM_PSK"
proof -
  have "rsn_configured demo_rsn_host" "m_flag demo_rsn_host F_RSNON" "match_fail demo_rsn_host demo_rsn_ap = 0"
    "bn_rsnakms (choose_rsnparams demo_rsn_host demo_rsn_ap) = AKM_PSK"
    by code_simp+
  then show ?thesis
    using rsn_choice_supported [of demo_rsn_host demo_rsn_ap] by blast
qed

end
