(* ===== verification/MlmeProps.thy ===== *)
theory MlmeProps
  imports MlmeInput SelectProps
begin

text \<open>
  The interface state machine: its events leave the link up only in the state RUN, and a station gets there only
  with an association response.
\<close>

section \<open>What the operations leave alone\<close>

text \<open>The operating mode, the state, the link, the capabilities and the channels.\<close>

definition core :: "mlme \<Rightarrow> ieee80211_opmode \<times> ieee80211_state \<times> link_state \<times> u32 \<times> u16 \<times> bool \<times> (nat \<Rightarrow> u32)" where
  "core s = (m_opmode s, m_state s, m_link s, m_caps s, m_modecaps s, m_media_auto s, m_chan_flags s)"

lemma coreD:
  "core t = core s \<Longrightarrow> m_opmode t = m_opmode s" "core t = core s \<Longrightarrow> m_state t = m_state s"
  "core t = core s \<Longrightarrow> m_link t = m_link s" "core t = core s \<Longrightarrow> m_caps t = m_caps s"
  "core t = core s \<Longrightarrow> m_modecaps t = m_modecaps s" "core t = core s \<Longrightarrow> m_media_auto t = m_media_auto s"
  "core t = core s \<Longrightarrow> m_chan_flags t = m_chan_flags s"
  by (simp_all add: core_def)

lemma core_log [simp]: "core (log_ev e s) = core s" "core (log_if b e s) = core s"
  by (simp_all add: log_ev_def log_if_def core_def)

lemma core_flags [simp]: "core (m_set_flags f s) = core s" "core (m_clear_flags f s) = core s"
  by (simp_all add: m_set_flags_def m_clear_flags_def core_def)

lemma core_upd_node [simp]: "core (upd_node r f s) = core s"
  by (cases r) (simp_all add: upd_node_def core_def)

lemma core_fields [simp]:
  "core (s\<lparr>m_tree := t\<rparr>) = core s" "core (s\<lparr>m_bss := b\<rparr>) = core s" "core (s\<lparr>m_nw_keys := k\<rparr>) = core s"
  "core (s\<lparr>m_mgt_timer := i\<rparr>) = core s" "core (s\<lparr>m_scangen := g\<rparr>) = core s" "core (s\<lparr>m_protmode := p\<rparr>) = core s"
  "core (s\<lparr>m_curmode := m\<rparr>) = core s" "core (s\<lparr>m_chan_scan := c\<rparr>) = core s" "core (s\<lparr>m_chan_active := c\<rparr>) = core s"
  "core (s\<lparr>m_ibss_chan := h\<rparr>) = core s" "core (s\<lparr>m_scan_count := n\<rparr>) = core s" "core (s\<lparr>m_xflags := x\<rparr>) = core s"
  "core (s\<lparr>m_bgscan_fail := y\<rparr>) = core s" "core (s\<lparr>m_bmissthres := i\<rparr>) = core s" "core (s\<lparr>m_edca_updtcount := x\<rparr>) = core s"
  "core (s\<lparr>m_def_txkey := d\<rparr>) = core s" "core (s\<lparr>m_bgscan_to := q, m_bgscan_fail := y\<rparr>) = core s"
  "core (s\<lparr>m_rsn_to := q\<rparr>) = core s" "core (s\<lparr>m_bgscan_to := q\<rparr>) = core s" "core (s\<lparr>m_edca_ac := e\<rparr>) = core s"
  "core (s\<lparr>m_globalcnt := e'\<rparr>) = core s" "core (s\<lparr>m_igtk_kid := n'\<rparr>) = core s"
  "core (s\<lparr>m_inact_to := q, m_node_cache_to := q'\<rparr>) = core s" "core (s\<lparr>m_chan_center1 := z\<rparr>) = core s"
  "core (s\<lparr>m_chan_center2 := z\<rparr>) = core s" "core (s\<lparr>m_assoc_status := w\<rparr>) = core s"
  "core (s\<lparr>m_deauth_reason := w\<rparr>) = core s" "core (s\<lparr>m_deauth_reason := w, m_assoc_status := w'\<rparr>) = core s"
  "core (s\<lparr>m_edca_updtcount := x, m_edca_ac := e\<rparr>) = core s" "core (s\<lparr>m_edca_ac := e, m_edca_updtcount := x\<rparr>) = core s"
  "core (s\<lparr>m_tree := t, m_inact_to := q\<rparr>) = core s"
  "core (s\<lparr>m_tree := t, m_nnodes := i\<rparr>) = core s"
  "core (s\<lparr>m_tree := t, m_nnodes := i, m_aid_bitmap := a\<rparr>) = core s"
  "core (s\<lparr>m_des_esslen := l, m_des_essid := es\<rparr>) = core s"
  "core (s\<lparr>m_psk := es, m_rsnprotos := x1, m_rsnakms := x2, m_rsnciphers := x3, m_rsngroupcipher := x4\<rparr>) = core s"
  by (simp_all add: core_def)

lemma core_fold: "(\<And>x t. core (f x t) = core t) \<Longrightarrow> core (fold f xs s) = core s"
  by (induction xs arbitrary: s) auto

lemma core_free [simp]: "core (free_node H a s) = core s" "core (free_where H P s) = core s"
  "core (free_allnodes H b s) = core s"
  by (simp_all add: free_node_def free_where_def free_allnodes_def Let_def core_fold split: option.split)

lemma core_clean [simp]: "core (clean_sta_bss_node s) = core s" "core (clean_inactive_nodes H k s) = core s"
  by (simp_all add: clean_sta_bss_node_def clean_inactive_nodes_def clean_inactive_step_def Let_def core_fold)

lemma core_send_frame [simp]: "core (unref_failed H r s) = core s" "core (snd (send_mgmt H r type arg s)) = core s"
  "core (send_bss H type arg s) = core s"
  by (simp_all add: unref_failed_def send_mgmt_def send_bss_def Let_def split: node_ref.split send_outcome.split)

lemma core_nodes [simp]: "core (node_leave_cache a s) = core s" "core (evict_node H n s) = core s"
  "core (update_htprot H x y s) = core s" "core (setup_node n a s) = core s"
  by (simp_all add: node_leave_cache_def evict_node_def update_htprot_def setup_node_def Let_def)

lemma core_clean_loop [simp]: "core (fst (clean_nodes_loop H ct gen ns s x y)) = core s"
proof (induction ns arbitrary: s x y)
  case (Cons n ns)
  then show ?case
    by (cases ct; cases "count_nonht s ct n") (simp_all add: Let_def)
qed simp

lemma core_clean_nodes [simp]: "core (clean_nodes H ct s) = core s"
proof -
  obtain t x y where "clean_nodes_loop H ct (m_scangen s) (m_tree s) (s\<lparr>m_scangen := m_scangen s + 1\<rparr>) 0 0 = (t, x, y)"
    using prod_cases3 by blast
  moreover from this have "core t = core s"
    using core_clean_loop [of H ct "m_scangen s" "m_tree s" "s\<lparr>m_scangen := m_scangen s + 1\<rparr>" 0 0] by simp
  ultimately show ?thesis
    by (simp add: clean_nodes_def)
qed

lemma core_alloc [simp]: "core (snd (alloc_node_helper H s)) = core s" "core (snd (alloc_node H a s)) = core s"
  by (auto simp: alloc_node_helper_def alloc_node_def Let_def split: prod.split)

lemma core_scan [simp]: "core (set_shortslottime H b s) = core s" "core (reset_erp H s) = core s"
  "core (reset_scan s) = core s" "core (node_raise_inact s) = core s"
  by (simp_all add: set_shortslottime_def reset_erp_def reset_scan_def node_raise_inact_def Let_def)

lemma core_setmode: "setmode H m s = Some (e, t) \<Longrightarrow> core t = core s"
  by (auto simp: setmode_def Let_def split: if_splits option.splits)

lemma core_next_mode: "next_mode H s = Some (m, t) \<Longrightarrow> core t = core s"
  by (auto simp: next_mode_def Let_def dest!: core_setmode split: if_splits)

lemma core_keys [simp]: "core (delete_if_set H i s) = core s" "core (drv_set_key H i k s) = core s"
  "core (disable_wep H s) = core s" "core (disable_rsn s) = core s"
  by (simp_all add: delete_if_set_def drv_delete_key_def drv_set_key_def disable_wep_def disable_rsn_def Let_def core_fold)

lemma core_ess [simp]: "core (set_ess H e n s) = core s" "core (deselect_ess H s) = core s"
  by (simp_all add: set_ess_def deselect_ess_def set_wep_key_def Let_def core_fold)

lemma core_match_bss [simp]: "core (snd (match_bss a b s)) = core s"
  by (simp add: match_bss_def Let_def)

lemma core_choose_step [simp]: "core (fst (choose_step H b n st)) = core (fst st)"
  using core_match_bss [of "bn_macaddr n" b "fst st"]
  by (auto simp: choose_step_def Let_def simp del: core_match_bss split: prod.splits)

lemma core_choose_bss [simp]: "core (snd (snd (choose_bss H b s))) = core s"
proof -
  have "core (fst (fold (choose_step H b) ns st)) = core (fst st)" for ns st
    by (induction ns arbitrary: st) simp_all
  from this [of "m_tree s" "(s, c)" for c] show ?thesis
    by (simp add: choose_bss_def split: prod.splits) (metis fst_conv)
qed

lemma core_switch_loop [simp]: "core (snd (snd (switch_loop H ns sel s))) = core s"
  by (induction ns arbitrary: sel s) (simp_all add: Let_def split: prod.split option.split)

lemma core_switch_ess [simp]: "core (switch_ess H s) = core s"
  using core_switch_loop [of H "m_tree s" None s]
  by (auto simp: switch_ess_def Let_def simp del: core_switch_loop split: prod.splits option.splits)

lemma core_mlme [simp]: "core (m_clear_groupkeys H s) = core s" "core (set_beacon_miss_threshold s) = core s"
  "core (check_wpa_supplicant_failure r s) = core s" "core (reset_rsn H s) = core s" "core (stop_bgscan s) = core s"
  "core (leave_run H mgt s) = core s" "core (leave_assoc H s) = core s" "core (init_cleanup H s) = core s"
  "core (ibss_rsn H s) = core s" "core (ibss_ht H s) = core s" "core (join_copy H a s) = core s"
  by (simp_all add: m_clear_groupkeys_def set_beacon_miss_threshold_def check_wpa_supplicant_failure_def
      reset_rsn_def stop_bgscan_def leave_run_def leave_assoc_def init_cleanup_def ibss_rsn_def ibss_ht_def
      join_copy_def Let_def core_fold)

text \<open>The state of an outcome.\<close>

definition out :: "(mlme \<Rightarrow> bool) \<Rightarrow> outcome \<Rightarrow> bool" where
  "out P r \<longleftrightarrow> (case r of Done s \<Rightarrow> P s | Call _ s \<Rightarrow> P s | Panicked \<Rightarrow> True)"

lemma out_simps [simp]: "out P (Done s) = P s" "out P (Call c s) = P s" "out P Panicked"
  by (simp_all add: out_def)

lemma out_if [simp]: "out P (if b then x else y) = (if b then out P x else out P y)"
  by simp

lemma out_mono: "out P r \<Longrightarrow> (\<And>s. P s \<Longrightarrow> Q s) \<Longrightarrow> out Q r"
  by (cases r) auto

text \<open>An outcome that leaves the core alone and, for a station, does not lead to the state RUN.\<close>

definition quiet :: "mcall \<Rightarrow> bool" where
  "quiet c \<longleftrightarrow> (case c of New_State n _ \<Rightarrow> n \<noteq> S_RUN | Create_Ibss _ \<Rightarrow> False | _ \<Rightarrow> True)"

lemma quiet_simps [simp]: "quiet (New_State n m) \<longleftrightarrow> n \<noteq> S_RUN" "\<not> quiet (Create_Ibss h)" "quiet Begin_Scan"
  "quiet Next_Scan" "quiet End_Scan" "quiet (Join_Bss a f)" "quiet (Switch_Bss arg)"
  by (simp_all add: quiet_def)

definition keeps :: "mlme \<Rightarrow> outcome \<Rightarrow> bool" where
  "keeps s r \<longleftrightarrow> (case r of Done t \<Rightarrow> core t = core s
     | Call c t \<Rightarrow> core t = core s \<and> (m_opmode s = M_STA \<longrightarrow> quiet c) | Panicked \<Rightarrow> True)"

lemma keeps_simps [simp]: "keeps s (Done t) \<longleftrightarrow> core t = core s"
  "keeps s (Call c t) \<longleftrightarrow> core t = core s \<and> (m_opmode s = M_STA \<longrightarrow> quiet c)" "keeps s Panicked"
  by (simp_all add: keeps_def)

lemma keeps_if [simp]: "keeps s (if b then x else y) = (if b then keeps s x else keeps s y)"
  by simp

lemma keeps_cong: "core t = core s \<Longrightarrow> keeps t r = keeps s r"
  using coreD(1) [of t s] by (cases r) (auto simp: keeps_def)

lemma keeps_trans: "keeps t r \<Longrightarrow> core t = core s \<Longrightarrow> keeps s r"
  using keeps_cong [of t s r] by blast

lemma keeps_mode: "(\<And>t. core t = core s \<Longrightarrow> keeps s (k t)) \<Longrightarrow> core u = core s \<Longrightarrow> keeps s (with_mode H m u k)"
  by (auto simp: with_mode_def dest: core_setmode split: option.split)

lemma keeps_out: "keeps s r \<Longrightarrow> (\<And>t. core t = core s \<Longrightarrow> P t) \<Longrightarrow> out P r"
  by (cases r) auto

lemma core_set_link: "core (m_set_link_state l s) = (m_opmode s, m_state s, m_link (m_set_link_state l s),
    m_caps s, m_modecaps s, m_media_auto s, m_chan_flags s)"
  by (simp add: m_set_link_state_def core_def log_ev_def Let_def)

section \<open>The link\<close>

definition link_ok :: "mlme \<Rightarrow> bool" where
  "link_ok s \<longleftrightarrow> (m_link s = LINK_UP \<longrightarrow> m_state s = S_RUN)"

lemma link_ok_cong: "core t = core s \<Longrightarrow> link_ok t = link_ok s"
  by (simp add: link_ok_def core_def)

lemma link_set_down [simp]: "m_link (m_set_link_state LINK_DOWN s) \<noteq> LINK_UP"
  by (auto simp: m_set_link_state_def Let_def log_ev_def split: ieee80211_opmode.split)

lemma m_state_link [simp]: "m_state (m_set_link_state l s) = m_state s"
  by (simp add: m_set_link_state_def log_ev_def Let_def)

lemmas m_opmodes = core_log [THEN coreD(1)] core_flags [THEN coreD(1)] core_clean [THEN coreD(1)]
  core_switch_ess [THEN coreD(1)] core_mlme [THEN coreD(1)]

lemmas m_states = core_log [THEN coreD(2)] core_upd_node [THEN coreD(2)] core_mlme [THEN coreD(2)]

definition down :: "mlme \<Rightarrow> bool" where
  "down s \<longleftrightarrow> m_link s \<noteq> LINK_UP"

lemma down_ok: "down s \<Longrightarrow> link_ok s"
  by (simp add: down_def link_ok_def)

lemma down_core: "core t = core s \<Longrightarrow> down t = down s"
  by (simp add: down_def core_def)

lemma enter_down [simp]: "down (enter_state n s)"
  by (simp add: enter_state_def down_def Let_def)

lemma enter_state_state [simp]: "m_state (enter_state n s) = n"
  by (simp add: enter_state_def m_set_link_state_def log_ev_def Let_def)

lemma link_newstate: "out link_ok (newstate H n mgt s)"
proof -
  let ?e = "enter_state n s"
  have c: "core t = core ?e \<Longrightarrow> link_ok t" for t
    using down_ok [of t] down_core [of t ?e] by simp
  have i: "out link_ok (init_done H t)" if "core t = core ?e" for t
    using that by (auto simp: init_done_def Let_def intro!: c)
  show ?thesis
  proof (cases n)
    case S_INIT
    then show ?thesis
      by (auto simp: newstate_def to_init_def Let_def intro!: i)
  next
    case S_SCAN
    then show ?thesis
      by (auto simp: newstate_def to_scan_def Let_def intro!: c split: ieee80211_state.split)
  next
    case S_AUTH
    moreover have "link_ok (t\<lparr>m_state := S_RUN\<rparr>)" for t
      by (simp add: link_ok_def)
    ultimately show ?thesis
      by (auto simp: newstate_def to_auth_def Let_def intro!: c split: ieee80211_state.split)
  next
    case S_ASSOC
    then show ?thesis
      by (auto simp: newstate_def to_assoc_def Let_def intro!: c split: ieee80211_state.split)
  next
    case S_RUN
    have "m_state t = S_RUN \<Longrightarrow> link_ok t" for t
      by (simp add: link_ok_def)
    then show ?thesis
      using S_RUN by (simp add: newstate_def to_run_def Let_def m_states)
  qed
qed

section \<open>The calls\<close>

lemma keeps_begin_scan: "keeps s (begin_scan H s)"
  by (auto simp: begin_scan_def Let_def intro!: keeps_mode)

lemma keeps_next_scan: "keeps s (next_scan s)"
  by (auto simp: next_scan_def split: option.split)

lemma keeps_notfound: "keeps s (scan_notfound H s)"
proof (cases "next_mode H (reset_scan s)")
  case (Some r)
  obtain m t where r: "r = (m, t)" by (cases r)
  have "core t = core s"
    using core_next_mode [of H "reset_scan s" m t] Some r by simp
  then show ?thesis
    using Some r by (auto simp: scan_notfound_def)
qed (auto simp: scan_notfound_def)

lemma keeps_roam_to: "keeps s (roam_to H cur sel s)"
proof -
  let ?s = "log_ev (Ev_Stop_Ampdu (Some ST_DEAUTH)) (s\<lparr>m_bgscan_fail := 0\<rparr>)"
  obtain e t where st: "send_mgmt H Bss ST_DEAUTH (ucast REASON_AUTH_LEAVE) ?s = (e, t)"
    by fastforce
  have "core t = core s"
    using core_send_frame(2) [of H Bss ST_DEAUTH "ucast REASON_AUTH_LEAVE" ?s] unfolding st by simp
  then show ?thesis
    using st by (auto simp: roam_to_def Let_def intro!: keeps_mode)
qed

lemma keeps_scan_choose: "keeps s (scan_choose H bg roam s)"
proof -
  obtain sel cur t where c: "choose_bss H bg s = (sel, cur, t)"
    using prod_cases3 by blast
  have "core t = core s"
    using core_choose_bss [of H bg s] c by simp
  then show ?thesis
    by (auto simp: scan_choose_def c Let_def split: option.split
        intro: keeps_trans [OF keeps_notfound] keeps_trans [OF keeps_roam_to])
qed

lemma keeps_end_scan: "keeps s (end_scan H s)"
  unfolding end_scan_def Let_def if_distrib [of m_opmode]
  by (simp add: m_opmodes keeps_trans [OF keeps_notfound] keeps_trans [OF keeps_scan_choose])

lemma core_create_ibss: "out (\<lambda>t. core t = core s) (create_ibss H c s)"
  by (simp add: create_ibss_def Let_def)

lemma keeps_join_bss: "keeps s (join_bss H a f s)"
proof -
  have "keeps s (join_start H a f t)" if "core t = core s" for t
    by (auto simp: join_start_def Let_def that coreD [OF that] m_opmodes)
  then show ?thesis
    by (auto simp: join_bss_def Let_def intro!: keeps_mode)
qed

lemma keeps_switch_bss: "keeps s (switch_bss H arg s)"
  by (auto simp: switch_bss_def Let_def split: option.split)

lemma keeps_step: "\<lbrakk>\<forall>n mgt. c \<noteq> New_State n mgt; \<forall>h. c \<noteq> Create_Ibss h\<rbrakk> \<Longrightarrow> keeps s (mlme_step H c s)"
  by (cases c) (simp_all add: mlme_step_def keeps_begin_scan keeps_next_scan keeps_end_scan keeps_join_bss
      keeps_switch_bss)

lemma link_ok_core: "link_ok s \<Longrightarrow> core t = core s \<Longrightarrow> link_ok t"
  using link_ok_cong [of t s] by blast

lemma link_step: "link_ok s \<Longrightarrow> out link_ok (mlme_step H c s)"
proof -
  assume a: "link_ok s"
  consider (state) n mgt where "c = New_State n mgt" | (ibss) h where "c = Create_Ibss h"
    | (other) "\<forall>n mgt. c \<noteq> New_State n mgt" "\<forall>h. c \<noteq> Create_Ibss h"
    by blast
  then show ?thesis
  proof cases
    case state
    then show ?thesis by (simp add: mlme_step_def link_newstate)
  next
    case ibss
    then show ?thesis
      using out_mono [OF core_create_ibss link_ok_core [OF a]] by (simp add: mlme_step_def)
  next
    case other
    then show ?thesis
      by (intro keeps_out [OF keeps_step]) (blast intro: link_ok_core [OF a])+
  qed
qed

text \<open>Induction over the calls.\<close>

lemma run_induct:
  assumes "run H r = Some r'" "Q r" "\<And>c s. Q (Call c s) \<Longrightarrow> Q (mlme_step H c s)"
  shows "Q r'"
  using assms
proof (induction rule: run.raw_induct [rotated, consumes 1, case_names step])
  case (step f H r r')
  show ?case
  proof (cases r)
    case (Call c s)
    then have "f H (mlme_step H c s) = Some r'"
      using step(2) by simp
    moreover have "Q (mlme_step H c s)"
      using step(3,4) Call by blast
    ultimately show ?thesis
      using step(1) step(4) by blast
  qed (use step in auto)
qed

lemma run_out: "run H r = Some r' \<Longrightarrow> out P r \<Longrightarrow> (\<And>c s. P s \<Longrightarrow> out P (mlme_step H c s)) \<Longrightarrow> out P r'"
  by (rule run_induct [where Q = "out P"]) auto

section \<open>Frames and timers\<close>

lemma core_log_times [simp]: "core (log_times k e s) = core s"
  unfolding log_times_def by (induction k) simp_all

lemma core_with_edca [simp]: "core (snd (with_edca H f s)) = core s"
  by (simp add: with_edca_def Let_def split: prod.split)

lemma core_assoc_edca [simp]: "core (assoc_edca H r a s) = core s"
proof -
  have e: "core t = core u" if "with_edca H f u = (b, t)" for f u b t
    using core_with_edca [of H f u] that by simp
  show ?thesis
    unfolding assoc_edca_def Let_def
    by (auto split: option.split prod.split dest!: e)
qed

lemma core_center [simp]: "core (set_center1 c v s) = core s" "core (set_center2 c v s) = core s"
  by (simp_all add: set_center1_def set_center2_def split: option.split)

lemma core_chw [simp]: "core (fst (ht_negotiate_chw sn)) = core (fst sn)"
  by (simp add: ht_negotiate_chw_def Let_def split: prod.split)

lemma core_ht [simp]: "core (fst (ht_negotiate sn)) = core (fst sn)"
proof -
  have "core t = core s" if "ht_negotiate_chw (s, n) = (t, n')" for s n t n'
    using core_chw [of "(s, n)"] that by simp
  then show ?thesis
    by (auto simp: ht_negotiate_def Let_def split: prod.split)
qed

lemma core_width: "operating_width w x y sn = Some tm \<Longrightarrow> core (fst tm) = core (fst sn)"
  by (auto simp: operating_width_def Let_def split: prod.splits if_splits)

lemma core_vht [simp]: "core (fst (vht_negotiate sn)) = core (fst sn)"
  by (auto simp: vht_negotiate_def Let_def split: prod.split option.split dest!: core_width)

lemma core_he [simp]: "core (fst (he_negotiate sn)) = core (fst sn)"
  by (auto simp: he_negotiate_def Let_def split: prod.split option.split dest!: core_width)

lemma core_assoc_negotiate [simp]: "core (assoc_negotiate r a s) = core s"
proof -
  have v: "core t = core s" if "vht_negotiate (ht_negotiate (s, n)) = (t, n')" for s n t n'
    using core_vht [of "ht_negotiate (s, n)"] that by simp
  have h: "core t = core s" if "he_negotiate (s, n) = (t, n')" for s n t n'
    using core_he [of "(s, n)"] that by simp
  show ?thesis
    unfolding assoc_negotiate_def Let_def by (auto split: prod.split dest!: v h)
qed

lemma core_assoc [simp]: "core (assoc_configure H r s) = core s" "core (restart_rsn H r i s) = core s"
  by (simp_all add: assoc_configure_def restart_rsn_def Let_def)

lemma core_auth_confirm [simp]: "core (auth_open_confirm H r seq s) = core s"
  by (simp add: auth_open_confirm_def)

lemma core_auth_station [simp]: "core (snd (auth_station H m r rxi s)) = core s"
  using core_alloc(2) [of H "frame_addr2 m" s]
  by (auto simp: auth_station_def Let_def simp del: core_alloc split: prod.split)

lemma core_auth_hostap [simp]: "core (auth_open_hostap H m r rxi seq s) = core s"
  using core_auth_station [of H m r rxi s]
  by (auto simp: auth_open_hostap_def Let_def simp del: core_auth_station split: prod.split option.split)

lemma keeps_try: "keeps s (try_another_bss H s)"
proof -
  have "keeps s (try_choose H t)" if "core t = core s" for t
  proof -
    obtain sel cur u where c: "choose_bss H False t = (sel, cur, u)"
      using prod_cases3 by blast
    then show ?thesis
      using core_choose_bss [of H False t] that by (simp add: try_choose_def split: option.split)
  qed
  then show ?thesis
    by (auto simp: try_another_bss_def Let_def intro!: keeps_mode)
qed

lemma keeps_auth_sta: "keeps s (auth_open_sta H m r seq status s)"
  by (auto simp: auth_open_sta_def Let_def intro!: keeps_trans [OF keeps_try])

lemma keeps_auth: "m_opmode s \<noteq> M_IBSS \<Longrightarrow> keeps s (auth_open H m r rxi seq status s)"
  by (cases "m_opmode s") (auto simp: auth_open_def keeps_auth_sta)

lemma keeps_recv_auth: "m_opmode s \<noteq> M_IBSS \<Longrightarrow> keeps s (recv_auth H m r rxi s)"
  by (auto simp: recv_auth_def Let_def intro!: keeps_trans [OF keeps_auth])

lemma link_recv_auth: "link_ok s \<Longrightarrow> out link_ok (recv_auth H m r rxi s)"
proof (cases "m_opmode s = M_IBSS")
  case True
  assume a: "link_ok s"
  have n: "out link_ok (map_done f (newstate H S_AUTH mgt t))" if "\<And>t. core (f t) = core t" for f mgt t
    using link_newstate [of H S_AUTH mgt t] by (cases "newstate H S_AUTH mgt t") (simp_all add: map_done_def link_ok_cong [OF that])
  show ?thesis
    using True by (auto simp: recv_auth_def auth_open_def Let_def intro!: n link_ok_core [OF a])
next
  case False
  assume "link_ok s"
  then show ?thesis
    by (intro keeps_out [OF keeps_recv_auth [OF False]]) (rule link_ok_core)
qed

lemma core_assoc_setup: "core t = core s \<Longrightarrow> out (\<lambda>u. core u = core s) (assoc_setup H r c i ies rates t)"
proof -
  assume a: "core t = core s"
  obtain rate rs cut where sr: "setup_rates all_rate_flags (m_sup_rates t (m_chan2mode t (bn_chan (the_node t r))))
      (m_fixed_rate t) (m_opmode t = M_HOSTAP) rates (ai_xrates ies) = (rate, rs, cut)"
    using prod_cases3 by blast
  show ?thesis
  proof (cases "has_flag rate RATE_BASIC")
    case True
    then show ?thesis
      unfolding assoc_setup_def Let_def sr split by (simp add: a)
  next
    case False
    have m: "out (\<lambda>u. core u = core s) (with_mode H k v f)"
      if "core v = core s" "\<And>u. core u = core s \<Longrightarrow> out (\<lambda>u. core u = core s) (f u)" for k v f
      using that by (auto simp: with_mode_def dest: core_setmode split: option.split)
    show ?thesis
      unfolding assoc_setup_def Let_def sr split if_not_P [OF False]
      by (rule m) (simp_all add: a)
  qed
qed

lemma core_recv_assoc_resp: "out (\<lambda>t. core t = core s) (recv_assoc_resp H m r re s)"
  unfolding recv_assoc_resp_def Let_def by (auto intro!: core_assoc_setup split: option.split)

lemma keeps_frames: "keeps s (recv_deauth H m r s)" "keeps s (recv_disassoc H m r s)" "keeps s (watchdog H s)"
  "keeps s (release_node H r s)"
  by (auto simp: recv_deauth_def recv_disassoc_def watchdog_def watchdog_expired_def release_node_def Let_def
      split: ieee80211_opmode.split node_ref.split option.split)

lemma link_input: "link_ok s \<Longrightarrow> out link_ok (mlme_input H i s)"
proof -
  assume a: "link_ok s"
  note k = keeps_out [OF _ link_ok_core [OF a]]
  show ?thesis
    using a link_recv_auth [OF a] out_mono [OF core_recv_assoc_resp link_ok_core [OF a]]
      k [OF keeps_frames(1)] k [OF keeps_frames(2)] k [OF keeps_frames(3)] k [OF keeps_frames(4)]
    by (cases i) (simp_all add: mlme_input_def)
qed

section \<open>A station that is not associated\<close>

lemma m_opmode_enter [simp]: "m_opmode (enter_state n s) = m_opmode s"
  by (simp add: enter_state_def m_set_link_state_def log_ev_def Let_def)

lemma keeps_newstate:
  assumes "n \<noteq> S_RUN" "m_state s \<noteq> S_RUN"
  shows "keeps (enter_state n s) (newstate H n mgt s)"
  using assms
  by (cases n) (auto simp: newstate_def to_init_def init_done_def to_scan_def to_auth_def to_assoc_def Let_def
      m_opmodes core_upd_node [THEN coreD(1)] split: ieee80211_state.split)

definition not_run :: "outcome \<Rightarrow> bool" where
  "not_run r \<longleftrightarrow> (case r of Done s \<Rightarrow> m_opmode s = M_STA \<and> m_state s \<noteq> S_RUN
     | Call c s \<Rightarrow> m_opmode s = M_STA \<and> m_state s \<noteq> S_RUN \<and> quiet c | Panicked \<Rightarrow> True)"

lemma keeps_not_run: "keeps s r \<Longrightarrow> m_opmode s = M_STA \<Longrightarrow> m_state s \<noteq> S_RUN \<Longrightarrow> not_run r"
  by (cases r) (auto simp: not_run_def dest: coreD)

lemma not_run_step: "not_run (Call c s) \<Longrightarrow> not_run (mlme_step H c s)"
proof -
  assume a: "not_run (Call c s)"
  show ?thesis
  proof (cases "\<exists>n mgt. c = New_State n mgt")
    case True
    then obtain n mgt where c: "c = New_State n mgt"
      by blast
    then have "keeps (enter_state n s) (newstate H n mgt s)" "n \<noteq> S_RUN"
      using a by (auto simp: not_run_def intro: keeps_newstate)
    then show ?thesis
      using a keeps_not_run by (simp add: c mlme_step_def not_run_def)
  next
    case False
    then show ?thesis
      using a by (intro keeps_not_run [OF keeps_step]) (auto simp: not_run_def)
  qed
qed

lemma quiet_input:
  assumes "m_opmode s = M_STA" "m_state s \<noteq> S_RUN" "\<forall>m r re. i \<noteq> In_Assoc_Resp m r re"
    "\<forall>c. i = In_Call c \<longrightarrow> quiet c"
  shows "keeps s (mlme_input H i s)"
  using assms keeps_frames [of s H] by (cases i) (auto simp: mlme_input_def keeps_recv_auth)

lemma assoc_resp_refused:
  assumes "m_opmode s = M_STA" "m_state s \<noteq> S_RUN"
    "\<not> (m_state s = S_ASSOC \<and> 30 \<le> length m \<and> LE_READ_2 (drop 26 m) = 0)"
  shows "keeps s (recv_assoc_resp H m r re s)"
  using assms by (auto simp: recv_assoc_resp_def Let_def same_bss_reassoc_def frame_body_def)

section \<open>Properties of the state machine\<close>

definition demo_run :: mlme where
  "demo_run = demo_mlme\<lparr>m_state := S_RUN, m_link := LINK_UP\<rparr>"

text \<open>C24. A station enters the state RUN only with an association response: when it is in another state
  and something happens after which it is in RUN, then it was in the state ASSOC and received an association
  response of full length whose status is zero (or the driver itself asked for the state RUN or for a new
  ad hoc network).  Authentication, deauthentication and disassociation frames, time-outs, scans and the
  choice of another access point never do it.\<close>

theorem run_needs_association:
  assumes "m_opmode s = M_STA" "m_state s \<noteq> S_RUN" "run H (mlme_input H i s) = Some (Done s')" "m_state s' = S_RUN"
  shows "(\<exists>m r re. i = In_Assoc_Resp m r re \<and> m_state s = S_ASSOC \<and> 30 \<le> length m \<and> LE_READ_2 (drop 26 m) = 0) \<or>
    (\<exists>mgt. i = In_Call (New_State S_RUN mgt)) \<or> (\<exists>h. i = In_Call (Create_Ibss h))"
proof (rule ccontr)
  assume n: "\<not> ?thesis"
  have "keeps s (mlme_input H i s)"
  proof (cases "\<exists>m r re. i = In_Assoc_Resp m r re")
    case True
    then show ?thesis
      using n assoc_resp_refused [OF assms(1,2)] by (auto simp: mlme_input_def)
  next
    case False
    have "quiet c" if "i = In_Call c" for c
      using n that by (cases c) auto
    then show ?thesis
      using quiet_input [OF assms(1,2)] False by blast
  qed
  then have "not_run (mlme_input H i s)"
    using assms(1,2) by (rule keeps_not_run)
  then have "not_run (Done s')"
    by (rule run_induct [OF assms(3)]) (rule not_run_step)
  then show False
    using assms(4) by (simp add: not_run_def)
qed

definition demo_assoc :: mlme where
  "demo_assoc = demo_mlme\<lparr>m_state := S_ASSOC, m_bss := demo_ap1\<rparr>"

text \<open>An association response with the capabilities, the status 0, an association id and a rate.\<close>

definition demo_response :: mbuf where
  "demo_response = replicate 24 0 @ [1, 0, 0, 0, 1, 0xc0, 1, 1, 0x8c]"

text \<open>The states on the way: with the rates and the identifiers, negotiated, configured.\<close>

definition demo_before :: mlme where
  "demo_before = log_if True Ev_Assoc_Done (demo_assoc\<lparr>m_assoc_status := 0\<rparr>)"

definition demo_rated :: mlme where
  "demo_rated = upd_node Bss (\<lambda>n. n\<lparr>bn_rates := \<lparr>rs_nrates = 1, rs_rates = 0x0c # replicate 14 0\<rparr>,
     bn_capinfo := 1, bn_associd := 0xc001\<rparr>) demo_before"

definition demo_assoc_ies :: assoc_ies where
  "demo_assoc_ies = no_ies\<lparr>ai_rates := Some [1, 1, 0x8c]\<rparr>"

definition demo_negotiated :: mlme where
  "demo_negotiated = assoc_negotiate Bss demo_assoc_ies (assoc_edca demo_hk Bss demo_assoc_ies demo_rated)"

lemma demo_assoc_ies: "assoc_ies_of (drop 6 (frame_body demo_response)) = demo_assoc_ies"
  by code_simp

lemma demo_rates: "setup_rates all_rate_flags (m_sup_rates demo_before (m_chan2mode demo_before (bn_chan (the_node demo_before Bss))))
    (m_fixed_rate demo_before) (m_opmode demo_before = M_HOSTAP) [1, 1, 0x8c] (ai_xrates demo_assoc_ies)
  = (0x0c, \<lparr>rs_nrates = 1, rs_rates = 0x0c # replicate 14 0\<rparr>, False)"
  by code_simp

lemma demo_mode: "assoc_mode demo_negotiated Bss = 3" "m_modecaps demo_negotiated = 1"
  by code_simp+

lemma demo_rates_kept: "rs_nrates (bn_rates (m_bss (enter_state S_RUN (assoc_configure demo_hk Bss demo_negotiated)))) = 1"
  "bn_txrate (m_bss (enter_state S_RUN (assoc_configure demo_hk Bss demo_negotiated))) = 0"
  "m_state (assoc_configure demo_hk Bss demo_negotiated) = S_ASSOC"
  by code_simp+

lemma demo_setmode: "setmode demo_hk (assoc_mode demo_negotiated Bss) demo_negotiated = Some (EINVAL, demo_negotiated)"
  unfolding demo_mode(1) setmode_def demo_mode(2) by simp

lemma demo_setup: "assoc_setup demo_hk Bss 1 0xc001 demo_assoc_ies [1, 1, 0x8c] demo_before
    = Call (New_State S_RUN (Some ST_ASSOC_RESP)) (assoc_configure demo_hk Bss demo_negotiated)"
proof -
  have "upd_node Bss (\<lambda>n. n\<lparr>bn_capinfo := 1, bn_associd := 0xc001\<rparr>)
      (upd_node Bss (\<lambda>n. n\<lparr>bn_rates := \<lparr>rs_nrates = 1, rs_rates = 0x0c # replicate 14 0\<rparr>\<rparr>) demo_before) = demo_rated"
    by (simp add: demo_rated_def upd_node_def)
  moreover have "\<not> has_flag (0x0c :: u8) RATE_BASIC"
    by code_simp
  ultimately show ?thesis
    unfolding assoc_setup_def Let_def demo_rates split
    by (simp add: log_if_def demo_negotiated_def [symmetric] with_mode_def demo_setmode)
qed

lemma demo_resp: "mlme_input demo_hk (In_Assoc_Resp demo_response Bss False) demo_assoc
    = assoc_setup demo_hk Bss 1 0xc001 demo_assoc_ies [1, 1, 0x8c] demo_before"
proof -
  have "m_opmode demo_assoc = M_STA" "m_state demo_assoc = S_ASSOC" "\<not> length demo_response < 30"
    "LE_READ_2 (drop 2 (frame_body demo_response)) = 0" "LE_READ_2 (drop 4 (frame_body demo_response)) = 0xc001"
    "LE_READ_2 (frame_body demo_response) = 1" "ai_rates demo_assoc_ies = Some [1, 1, 0x8c]" "ai_small demo_assoc_ies = 0"
    "mh_event_handler demo_hk"
    by code_simp+
  moreover have "same_bss_reassoc False Bss demo_assoc = False"
    by (simp add: same_bss_reassoc_def)
  ultimately show ?thesis
    by (simp add: mlme_input_def recv_assoc_resp_def Let_def demo_assoc_ies log_if_def log_times_def demo_before_def)
qed

lemma demo_associates:
  "\<exists>s'. run demo_hk (mlme_input demo_hk (In_Assoc_Resp demo_response Bss False) demo_assoc) = Some (Done s') \<and>
     m_state s' = S_RUN"
  unfolding demo_resp demo_setup
  by (simp add: run.simps mlme_step_def newstate_def to_run_def Let_def demo_rates_kept m_states)

theorem run_needs_association_witness:
  "m_state demo_assoc = S_ASSOC \<and> 30 \<le> length demo_response \<and> LE_READ_2 (drop 26 demo_response) = 0"
proof -
  let ?r = "run demo_hk (mlme_input demo_hk (In_Assoc_Resp demo_response Bss False) demo_assoc)"
  obtain s' where "?r = Some (Done s')" "m_state s' = S_RUN"
    using demo_associates by blast
  moreover have "m_opmode demo_assoc = M_STA" "m_state demo_assoc \<noteq> S_RUN"
    by code_simp+
  ultimately show ?thesis
    using run_needs_association [of demo_assoc demo_hk "In_Assoc_Resp demo_response Bss False" s'] by blast
qed

end
