(* ===== verification/MlmeTerm.thy ===== *)
theory MlmeTerm
  imports MlmeProps
begin

text \<open>
  The calls that one event starts come to an end for a station that scans all bands, as the drivers
  configure it: the search for a channel, for an access point and for the next mode cannot go round for
  ever.
\<close>

section \<open>The stations of the drivers\<close>

definition scanner :: "mlme \<Rightarrow> bool" where
  "scanner s \<longleftrightarrow> m_opmode s = M_STA \<and> has_flag (m_caps s) C_SCANALLBAND \<and> m_modecaps s AND 1 \<noteq> 0 \<and>
     m_media_auto s \<and> (\<exists>i \<le> CHAN_MAX. m_chan_flags s i \<noteq> 0)"

lemma scanner_core: "core t = core s \<Longrightarrow> scanner t = scanner s"
  using coreD(1,4-7) [of t s] by (simp add: scanner_def)

lemma scanner_enter [simp]: "scanner (enter_state n s) = scanner s"
  by (simp add: scanner_def enter_state_def m_set_link_state_def log_ev_def Let_def)

lemma scanner_sta: "scanner s \<Longrightarrow> m_opmode s = M_STA"
  by (simp add: scanner_def)

section \<open>The active scan and the count\<close>

definition scan_view :: "mlme \<Rightarrow> bool \<times> u8" where
  "scan_view s = (m_flag s F_ASCAN, m_scan_count s)"

lemma scan_viewD: "scan_view t = scan_view s \<Longrightarrow> m_flag t F_ASCAN = m_flag s F_ASCAN"
  "scan_view t = scan_view s \<Longrightarrow> m_scan_count t = m_scan_count s"
  by (simp_all add: scan_view_def)

lemma sv_log [simp]: "scan_view (log_ev e s) = scan_view s" "scan_view (log_if b e s) = scan_view s"
  by (simp_all add: log_ev_def log_if_def scan_view_def m_flag_def)

lemma sv_set: "f AND F_ASCAN = 0 \<Longrightarrow> scan_view (m_set_flags f s) = scan_view s"
  by (simp add: m_set_flags_def scan_view_def m_flag_def has_flag_or)

lemma sv_clear: "f AND F_ASCAN = 0 \<Longrightarrow> scan_view (m_clear_flags f s) = scan_view s"
  by (simp add: m_clear_flags_def scan_view_def m_flag_def has_flag_and_not)

lemma sv_flags [simp]:
  "scan_view (m_clear_flags F_BGSCAN s) = scan_view s" "scan_view (m_clear_flags F_DISABLE_BG_AUTO_CONNECT s) = scan_view s"
  "scan_view (m_clear_flags F_USEPROT s) = scan_view s" "scan_view (m_set_flags F_SHSLOT s) = scan_view s"
  "scan_view (m_clear_flags F_SHSLOT s) = scan_view s" "scan_view (m_set_flags F_SHPREAMBLE s) = scan_view s"
  "scan_view (m_clear_flags F_SHPREAMBLE s) = scan_view s" "scan_view (m_clear_flags F_WEPON s) = scan_view s"
  "scan_view (m_clear_flags 0x600000 s) = scan_view s" "scan_view (m_set_flags F_RSNON s) = scan_view s"
  "scan_view (m_set_flags F_PSK s) = scan_view s" "scan_view (m_set_flags F_WEPON s) = scan_view s"
  by ((rule sv_set sv_clear), code_simp)+

lemma sv_upd_node [simp]: "scan_view (upd_node r f s) = scan_view s"
  by (cases r) (simp_all add: upd_node_def scan_view_def m_flag_def)

lemma sv_fields [simp]:
  "scan_view (s\<lparr>m_tree := t\<rparr>) = scan_view s" "scan_view (s\<lparr>m_nw_keys := k\<rparr>) = scan_view s"
  "scan_view (s\<lparr>m_scangen := g\<rparr>) = scan_view s" "scan_view (s\<lparr>m_curmode := m\<rparr>) = scan_view s"
  "scan_view (s\<lparr>m_chan_scan := c\<rparr>) = scan_view s" "scan_view (s\<lparr>m_chan_active := c\<rparr>) = scan_view s"
  "scan_view (s\<lparr>m_ibss_chan := h\<rparr>) = scan_view s" "scan_view (s\<lparr>m_def_txkey := d\<rparr>) = scan_view s"
  "scan_view (s\<lparr>m_tree := t, m_nnodes := i, m_aid_bitmap := a\<rparr>) = scan_view s"
  "scan_view (s\<lparr>m_des_esslen := l, m_des_essid := es\<rparr>) = scan_view s"
  "scan_view (s\<lparr>m_psk := es, m_rsnprotos := x1, m_rsnakms := x2, m_rsnciphers := x3, m_rsngroupcipher := x4\<rparr>)
     = scan_view s"
  by (simp_all add: scan_view_def m_flag_def)

lemma sv_fold: "(\<And>x t. scan_view (f x t) = scan_view t) \<Longrightarrow> scan_view (fold f xs s) = scan_view s"
  by (induction xs arbitrary: s) auto

lemma sv_ops [simp]: "scan_view (free_node H a s) = scan_view s" "scan_view (clean_inactive_nodes H k s) = scan_view s"
  "scan_view (reset_scan s) = scan_view s" "scan_view (set_shortslottime H b s) = scan_view s"
  "scan_view (delete_if_set H j s) = scan_view s" "scan_view (drv_set_key H j k' s) = scan_view s"
  by (simp_all add: free_node_def clean_inactive_nodes_def clean_inactive_step_def reset_scan_def
      set_shortslottime_def delete_if_set_def drv_delete_key_def drv_set_key_def Let_def sv_fold split: option.split)

lemma sv_reset_erp [simp]: "scan_view (reset_erp H s) = scan_view s"
  by (simp add: reset_erp_def Let_def)

lemma sv_set_ess [simp]: "scan_view (set_ess H e n s) = scan_view s"
  by (simp add: set_ess_def disable_wep_def disable_rsn_def set_wep_key_def Let_def sv_fold)

lemma sv_match_bss [simp]: "scan_view (snd (match_bss a b s)) = scan_view s"
  by (simp add: match_bss_def Let_def)

lemma sv_choose_step [simp]: "scan_view (fst (choose_step H b n st)) = scan_view (fst st)"
  using sv_match_bss [of "bn_macaddr n" b "fst st"]
  by (auto simp: choose_step_def Let_def simp del: sv_match_bss split: prod.splits)

lemma sv_choose_bss [simp]: "scan_view (snd (snd (choose_bss H b s))) = scan_view s"
proof -
  have "scan_view (fst (fold (choose_step H b) ns st)) = scan_view (fst st)" for ns st
    by (induction ns arbitrary: st) simp_all
  from this [of "m_tree s" "(s, c)" for c] show ?thesis
    by (simp add: choose_bss_def split: prod.splits) (metis fst_conv)
qed

lemma sv_switch_loop [simp]: "scan_view (snd (snd (switch_loop H ns sel s))) = scan_view s"
  by (induction ns arbitrary: sel s) (simp_all add: Let_def split: prod.split option.split)

lemma sv_switch_ess [simp]: "scan_view (switch_ess H s) = scan_view s"
  using sv_switch_loop [of H "m_tree s" None s]
  by (auto simp: switch_ess_def Let_def simp del: sv_switch_loop split: prod.splits option.splits)

section \<open>The modes of the scan\<close>

text \<open>In automatic mode every channel is active, and the scan starts over with all of them.\<close>

definition all_chans :: "mlme \<Rightarrow> bool" where
  "all_chans s \<longleftrightarrow> m_chan_scan s = (\<lambda>i. i \<le> CHAN_MAX \<and> m_chan_flags s i \<noteq> 0)"

lemma chans_log [simp]: "m_chan_scan (log_ev e s) = m_chan_scan s" "m_chan_scan (log_if b e s) = m_chan_scan s"
  "m_chan_scan (m_set_flags f s) = m_chan_scan s" "m_chan_scan (m_clear_flags f s) = m_chan_scan s"
  "m_chan_scan (upd_node Bss g s) = m_chan_scan s"
  by (simp_all add: log_ev_def log_if_def m_set_flags_def m_clear_flags_def upd_node_def)

lemma chans_reset_erp [simp]: "m_chan_scan (reset_erp H s) = m_chan_scan s"
  by (simp add: reset_erp_def set_shortslottime_def Let_def)

lemma chans_reset_scan [simp]: "m_chan_scan (reset_scan s) = m_chan_active s"
  by (simp add: reset_scan_def Let_def)

lemma setmode_auto:
  assumes "setmode H MODE_AUTO s = Some (e, t)" "m_modecaps s AND 1 \<noteq> 0" "\<exists>i \<le> CHAN_MAX. m_chan_flags s i \<noteq> 0"
  shows "all_chans t" "scan_view t = scan_view s" "core t = core s"
proof -
  show "core t = core s"
    using core_setmode [OF assms(1)] .
  have "\<exists>i \<in> set chan_range. in_mode s MODE_AUTO i"
    using assms(3) by (auto simp: chan_range_def in_mode_def less_Suc_eq_le)
  then have "List.find (in_mode s MODE_AUTO) chan_range \<noteq> None"
    by (auto simp: find_None_iff)
  then have t: "\<exists>u. t = reset_erp H ((reset_scan u)\<lparr>m_curmode := MODE_AUTO\<rparr>) \<and> scan_view u = scan_view s \<and>
      m_chan_active u = (\<lambda>i. i \<le> CHAN_MAX \<and> in_mode s MODE_AUTO i)"
    using assms(1,2) by (auto simp: setmode_def Let_def split: if_splits option.splits)
  then show "scan_view t = scan_view s"
    by auto
  have "m_chan_flags t = m_chan_flags s"
    using \<open>core t = core s\<close> by (rule coreD)
  then show "all_chans t"
    using t by (auto simp: all_chans_def in_mode_def fun_eq_iff)
qed

section \<open>The end of a scan\<close>

lemma next_mode_auto: "scanner s \<Longrightarrow> next_mode H s = map_option (\<lambda>(_, t). (m_curmode t, t)) (setmode H MODE_AUTO s)"
  by (simp add: next_mode_def scanner_def)

text \<open>Where the end of a scan leads: it ends, joins an access point, or starts over with every channel,
  with a higher count, and passively once the count is not zero.\<close>

definition restarts :: "mlme \<Rightarrow> mlme \<Rightarrow> bool" where
  "restarts s t \<longleftrightarrow> core t = core s \<and> all_chans t \<and> scan_view t = (m_flag s F_ASCAN, m_scan_count s + 1)"

definition scan_ends :: "mlme \<Rightarrow> outcome \<Rightarrow> bool" where
  "scan_ends s r \<longleftrightarrow> (case r of Done _ \<Rightarrow> True | Panicked \<Rightarrow> True
     | Call c t \<Rightarrow> core t = core s \<and> (\<exists>a f. c = Join_Bss a f) \<or> c = Next_Scan \<and> restarts s t)"

lemma scan_ends_simps [simp]: "scan_ends s (Done t)" "scan_ends s Panicked"
  "scan_ends s (Call (Join_Bss a f) t) \<longleftrightarrow> core t = core s" "scan_ends s (Call Next_Scan t) \<longleftrightarrow> restarts s t"
  by (simp_all add: scan_ends_def)

lemma scan_ends_if [simp]: "scan_ends s (if b then x else y) = (if b then scan_ends s x else scan_ends s y)"
  by simp

lemma scan_ends_cong: "core t = core s \<Longrightarrow> scan_view t = scan_view s \<Longrightarrow> scan_ends t r = scan_ends s r"
proof -
  assume a: "core t = core s" "scan_view t = scan_view s"
  show ?thesis
    unfolding scan_ends_def restarts_def a(1) scan_viewD [OF a(2)] ..
qed

lemma scan_ends_trans: "scan_ends t r \<Longrightarrow> core t = core s \<Longrightarrow> scan_view t = scan_view s \<Longrightarrow> scan_ends s r"
  using scan_ends_cong [of t s r] by blast

lemma notfound_ends:
  assumes "scanner s"
  shows "scan_ends s (scan_notfound H s)"
proof -
  have g: "scanner (reset_scan s)"
    using assms scanner_core [of "reset_scan s" s] by simp
  show ?thesis
  proof (cases "setmode H MODE_AUTO (reset_scan s)")
    case None
    then show ?thesis
      using next_mode_auto [OF g, of H] assms by (simp add: scan_notfound_def scanner_def)
  next
    case (Some r)
    obtain e t where r: "r = (e, t)"
      by (cases r)
    have t: "all_chans t" "scan_view t = scan_view s" "core t = core s"
      using setmode_auto [OF Some [unfolded r]] g by (auto simp: scanner_def)
    then have "restarts s (t\<lparr>m_scan_count := m_scan_count t + 1\<rparr>)"
      by (auto simp: restarts_def all_chans_def scan_view_def m_flag_def)
    moreover have "has_flag (m_caps t) C_SCANALLBAND"
      using coreD(4) [OF t(3)] assms by (simp add: scanner_def)
    ultimately show ?thesis
      using next_mode_auto [OF g, of H] assms Some r by (simp add: scan_notfound_def scanner_def)
  qed
qed

lemma mode_done: "scan_ends s (with_mode H m t Done)"
  by (simp add: with_mode_def split: option.split)

lemma roam_ends: "scan_ends s (roam_to H cur sel t)"
  by (auto simp: roam_to_def Let_def mode_done split: prod.split)

lemma choose_ends:
  assumes "scanner s"
  shows "scan_ends s (scan_choose H bg roam s)"
proof -
  obtain sel cur t where c: "choose_bss H bg s = (sel, cur, t)"
    using prod_cases3 by blast
  have t: "core t = core s" "scan_view t = scan_view s"
    using core_choose_bss [of H bg s] sv_choose_bss [of H bg s] c by simp_all
  have n: "scan_ends s (scan_notfound H u)" if "core u = core t" "scan_view u = scan_view t" for u
  proof -
    have u: "core u = core s" "scan_view u = scan_view s"
      using that t by simp_all
    have "scanner u"
      using assms scanner_core [OF u(1)] by simp
    then show ?thesis
      using u by (rule scan_ends_trans [OF notfound_ends])
  qed
  show ?thesis
    unfolding scan_choose_def c Let_def split
    by (auto simp: roam_ends t intro!: n split: option.split)
qed

lemma m_flag_cleared: "\<not> m_flag (m_clear_flags f s) f"
  by (simp add: m_flag_def m_clear_flags_def)

definition quieten :: "mlme \<Rightarrow> mlme" where
  "quieten s = (if m_scan_count s \<noteq> 0 then m_clear_flags F_ASCAN s else s)"

lemma core_quieten [simp]: "core (quieten s) = core s"
  by (simp add: quieten_def)

lemma end_scan_ends:
  assumes "scanner s"
  shows "scan_ends (quieten s) (end_scan H s)"
proof -
  define u where "u = quieten (log_if (mh_event_handler H) Ev_Scan_Done s)"
  define v where "v = clean_inactive_nodes H INACT_SCAN u"
  define w where "w = (if \<not> bgscanning s then switch_ess H v else v)"
  have "quieten (log_if b e s) = log_if b e (quieten s)" for b e
    by (simp add: quieten_def log_if_def log_ev_def m_clear_flags_def)
  then have u: "core u = core (quieten s)" "scan_view u = scan_view (quieten s)"
    by (simp_all add: u_def)
  then have v: "core v = core (quieten s)" "scan_view v = scan_view (quieten s)"
    by (simp_all add: v_def)
  then have w: "core w = core (quieten s)" "scan_view w = scan_view (quieten s)"
    by (simp_all add: w_def)
  have sc: "scanner t" if "core t = core (quieten s)" for t
    using assms scanner_core [of t s] that by simp
  have om: "m_opmode u = M_STA" "m_opmode v = M_STA"
    using sc [OF u(1)] sc [OF v(1)] by (simp_all add: scanner_def)
  have "end_scan H s = (if m_tree v = [] then scan_notfound H v
      else if m_flag w F_AUTO_JOIN \<and> m_des_esslen w = 0 then Done w
      else scan_choose H (bgscanning s) (roamscanning s) w)"
    unfolding end_scan_def Let_def quieten_def [symmetric] u_def [symmetric]
    by (auto simp: om v_def [symmetric] w_def)
  moreover have "scan_ends (quieten s) (scan_notfound H v)"
    using v by (rule scan_ends_trans [OF notfound_ends [OF sc [OF v(1)]]])
  moreover have "scan_ends (quieten s) (scan_choose H (bgscanning s) (roamscanning s) w)"
    using w by (rule scan_ends_trans [OF choose_ends [OF sc [OF w(1)]]])
  ultimately show ?thesis
    by simp
qed

section \<open>Every call ends\<close>

definition ends :: "mlme_hooks \<Rightarrow> outcome \<Rightarrow> bool" where
  "ends H r \<longleftrightarrow> (\<exists>r'. run H r = Some r')"

lemma ends_simps [simp]: "ends H (Done s)" "ends H Panicked" "ends H (Call c s) \<longleftrightarrow> ends H (mlme_step H c s)"
  by (simp_all add: ends_def run.simps)

lemma ends_if [simp]: "ends H (if b then x else y) = (if b then ends H x else ends H y)"
  by simp

lemma ends_mode: "(\<And>t. core t = core s \<Longrightarrow> ends H (k t)) \<Longrightarrow> ends H (with_mode H m s k)"
  by (auto simp: with_mode_def dest: core_setmode split: option.split)

lemma newstate_done:
  assumes "n \<noteq> S_SCAN"
  shows "ends H (newstate H n mgt s)"
  using assms by (cases n) (simp_all add: newstate_def to_init_def init_done_def to_auth_def to_assoc_def to_run_def Let_def)

lemma join_ends: "m_opmode s = M_STA \<Longrightarrow> ends H (join_bss H a f s)"
proof -
  assume a: "m_opmode s = M_STA"
  have "ends H (join_start H a f t)" if "core t = core s" for t
    using coreD(1) [OF that] a by (simp add: join_start_def Let_def m_opmodes mlme_step_def newstate_done)
  then show ?thesis
    by (simp add: join_bss_def Let_def ends_mode)
qed

lemma scannable_found: "scannable s i \<Longrightarrow> i \<le> CHAN_MAX \<Longrightarrow> List.find (scannable s) (scan_order c) \<noteq> None"
  by (auto simp: find_None_iff scan_order_def less_Suc_eq_le intro!: exI [of _ i])

text \<open>A scan in a state from which the search for a channel ends.\<close>

definition enters :: "mlme_hooks \<Rightarrow> ieee80211_state \<Rightarrow> bool" where
  "enters H st \<longleftrightarrow> (\<forall>t mgt. scanner t \<and> m_state t = st \<longrightarrow> ends H (newstate H S_SCAN mgt t))"

lemma next_ends:
  assumes "scanner s" "enters H (m_state s)" "ends H (end_scan H s) \<or> (\<exists>i \<le> CHAN_MAX. scannable s i)"
  shows "ends H (next_scan s)"
proof (cases "bn_chan (m_bss s)")
  case (Some c)
  show ?thesis
  proof (cases "List.find (scannable s) (scan_order c)")
    case None
    then have "ends H (end_scan H s)"
      using assms(3) scannable_found [of s _ c] by blast
    then show ?thesis
      using Some None by (simp add: next_scan_def mlme_step_def)
  next
    case (Some i)
    let ?t = "upd_node Bss (\<lambda>n. n\<lparr>bn_chan := Some i\<rparr>) (s\<lparr>m_chan_scan := (m_chan_scan s)(i := False)\<rparr>)"
    have c: "core ?t = core s"
      by simp
    then have "scanner ?t" "m_state ?t = m_state s"
      using assms(1) scanner_core [OF c] coreD(2) [OF c] by simp_all
    then have "ends H (newstate H S_SCAN None ?t)"
      using assms(2) unfolding enters_def by blast
    then show ?thesis
      using \<open>bn_chan (m_bss s) = Some c\<close> Some by (simp add: next_scan_def mlme_step_def)
  qed
qed (simp add: next_scan_def)

lemma all_scannable:
  assumes "scanner s" "all_chans s" "\<not> m_flag s F_ASCAN"
  shows "\<exists>i \<le> CHAN_MAX. scannable s i"
  using assms by (auto simp: scanner_def all_chans_def scannable_def)

lemma scan_ends_step:
  assumes "scan_ends s r" "scanner s" "\<And>t. restarts s t \<Longrightarrow> ends H (next_scan t)"
  shows "ends H r"
proof (cases r)
  case (Call c t)
  then consider a f where "c = Join_Bss a f" "core t = core s" | "c = Next_Scan" "restarts s t"
    using assms(1) by (auto simp: scan_ends_def)
  then show ?thesis
  proof cases
    case 1
    then have "m_opmode t = M_STA"
      using assms(2) coreD(1) [OF 1(2)] by (simp add: scanner_def)
    then show ?thesis
      using Call 1(1) by (simp add: mlme_step_def join_ends)
  next
    case 2
    then show ?thesis
      using Call assms(3) by (simp add: mlme_step_def)
  qed
qed simp_all

lemma restarts_facts:
  assumes "restarts s t" "scanner s" "enters H (m_state s)"
  shows "scanner t" "enters H (m_state t)" "all_chans t" "m_flag t F_ASCAN = m_flag s F_ASCAN"
    "m_scan_count t = m_scan_count s + 1"
  using assms scanner_core [of t s] coreD(2) [of t s] by (auto simp: restarts_def scan_view_def)

text \<open>A passive scan ends at the next search; an active one is passive after at most two rounds.\<close>

lemma end_scan_passive:
  assumes "scanner s" "enters H (m_state s)" "m_scan_count s \<noteq> 0"
  shows "ends H (end_scan H s)"
proof (rule scan_ends_step [OF end_scan_ends [OF assms(1)]])
  show q: "scanner (quieten s)"
    using assms(1) scanner_core [OF core_quieten] by simp
  fix t
  assume t: "restarts (quieten s) t"
  have "\<not> m_flag (quieten s) F_ASCAN"
    using assms(3) m_flag_cleared by (simp add: quieten_def)
  then show "ends H (next_scan t)"
    using restarts_facts [OF t q] coreD(2) [OF core_quieten, of s] assms(2) all_scannable [of t]
    by (intro next_ends) auto
qed

lemma end_scan_all:
  assumes "scanner s" "enters H (m_state s)"
  shows "ends H (end_scan H s)"
proof (cases "m_scan_count s = 0")
  case True
  show ?thesis
  proof (rule scan_ends_step [OF end_scan_ends [OF assms(1)]])
    show q: "scanner (quieten s)"
      using assms(1) scanner_core [OF core_quieten] by simp
    fix t
    assume t: "restarts (quieten s) t"
    have e: "enters H (m_state (quieten s))"
      using coreD(2) [OF core_quieten, of s] assms(2) by simp
    have "m_scan_count t \<noteq> 0"
      using restarts_facts(5) [OF t q e] True by (simp add: quieten_def)
    then show "ends H (next_scan t)"
      using restarts_facts(1,2) [OF t q e] by (intro next_ends) (auto intro: end_scan_passive)
  qed
qed (use end_scan_passive assms in blast)

lemma next_scan_all: "scanner s \<Longrightarrow> enters H (m_state s) \<Longrightarrow> ends H (next_scan s)"
  by (intro next_ends) (auto intro: end_scan_all)

lemma begin_scan_all:
  assumes "scanner s" "enters H (m_state s)"
  shows "ends H (begin_scan H s)"
proof -
  have n: "ends H (next_scan t)" if "core t = core s" for t
    using next_scan_all [of t H] assms scanner_core [OF that] coreD(2) [OF that] by simp
  show ?thesis
    unfolding begin_scan_def Let_def by (intro ends_mode) (simp add: mlme_step_def n)
qed

lemma enters_scan: "enters H S_SCAN"
  by (simp add: enters_def newstate_def to_scan_def Let_def)

lemma enters_all: "enters H st"
  unfolding enters_def
proof (intro allI impI)
  fix t mgt
  assume t: "scanner t \<and> m_state t = st"
  have b: "ends H (begin_scan H u)" if "core u = core (enter_state S_SCAN t)" for u
  proof (rule begin_scan_all)
    show "scanner u"
      using scanner_core [OF that] t by simp
    show "enters H (m_state u)"
      using coreD(2) [OF that] enters_scan by simp
  qed
  show "ends H (newstate H S_SCAN mgt t)"
    using t unfolding newstate_def to_scan_def Let_def
    by (auto simp: mlme_step_def m_opmodes core_upd_node [THEN coreD(1)] scanner_def intro!: b split: ieee80211_state.split)
qed

lemma newstate_ends: "scanner s \<Longrightarrow> ends H (newstate H n mgt s)"
  using enters_all [of H "m_state s"] newstate_done [of n H mgt s] unfolding enters_def by (cases "n = S_SCAN") auto

lemma create_ends: "ends H (create_ibss H h s)"
  by (simp add: create_ibss_def Let_def mlme_step_def newstate_done)

lemma switch_ends: "scanner s \<Longrightarrow> ends H (switch_bss H arg s)"
proof -
  assume a: "scanner s"
  have n: "ends H (newstate H S_SCAN None t)" "ends H (join_bss H x f t)" if "core t = core s" for t x f
    using a scanner_core [OF that] by (simp_all add: newstate_ends join_ends scanner_sta)
  show ?thesis
    by (auto simp: switch_bss_def Let_def mlme_step_def intro!: n split: option.split)
qed

lemma step_ends:
  assumes "scanner s"
  shows "ends H (mlme_step H c s)"
  using assms end_scan_all [of s H] next_scan_all [of s H] begin_scan_all [of s H] enters_all [of H]
  by (cases c) (simp_all add: mlme_step_def newstate_ends create_ends switch_ends join_ends scanner_sta)

lemma keeps_ends:
  assumes "scanner s" "keeps s r"
  shows "ends H r"
proof (cases r)
  case (Call c t)
  then have "scanner t"
    using assms scanner_core [of t s] by simp
  then show ?thesis
    by (simp add: Call step_ends)
qed simp_all

lemma assoc_ends:
  assumes "scanner s"
  shows "ends H (recv_assoc_resp H m r re s)"
proof (cases "recv_assoc_resp H m r re s")
  case (Call c t)
  then have "core t = core s"
    using core_recv_assoc_resp [of s H m r re] by simp
  then show ?thesis
    using Call assms scanner_core [of t s] by (simp add: step_ends)
qed simp_all

text \<open>C22. A station of the drivers (which scan all bands, in automatic mode, with at least one channel) handles
  every event in finitely many calls: a frame, an expired timer, a released node or a request of the host
  leads to a chain of calls between the state machine, the scan, the choice of an access point and the join,
  and this chain ends, either in a new state or in a panic; the search for a channel or an access point never
  goes round for ever.\<close>

theorem event_handling_ends:
  assumes "m_opmode s = M_STA" "has_flag (m_caps s) C_SCANALLBAND" "m_modecaps s AND 1 \<noteq> 0" "m_media_auto s"
    and "i \<le> CHAN_MAX" "m_chan_flags s i \<noteq> 0"
  shows "\<exists>r. run H (mlme_input H e s) = Some r"
proof -
  have s: "scanner s"
    using assms by (auto simp: scanner_def)
  have "ends H (mlme_input H e s)"
  proof (cases "\<exists>m r re. e = In_Assoc_Resp m r re")
    case True
    then show ?thesis
      using assoc_ends [OF s] by (auto simp: mlme_input_def)
  next
    case False
    then show ?thesis
      using keeps_ends [OF s keeps_recv_auth] keeps_frames [of s H, THEN keeps_ends [OF s, of _ H]] step_ends [OF s, of H]
      by (cases e) (simp_all add: mlme_input_def scanner_sta [OF s])
  qed
  then show ?thesis
    by (simp add: ends_def)
qed

theorem event_handling_ends_witness: "\<exists>r. run demo_hk (mlme_input demo_hk (In_Call Begin_Scan) demo_mlme) = Some r"
proof -
  have "m_opmode demo_mlme = M_STA" "has_flag (m_caps demo_mlme) C_SCANALLBAND" "m_modecaps demo_mlme AND 1 \<noteq> 0"
    "m_media_auto demo_mlme" "(36 :: nat) \<le> CHAN_MAX" "m_chan_flags demo_mlme 36 \<noteq> 0"
    by code_simp+
  then show ?thesis
    by (rule event_handling_ends)
qed

end
