(* ===== verification/Receive.thy ===== *)
theory Receive
  imports MlmeInput Ciphers Amsdu
begin

text \<open>
  The receive path (\<^verbatim>\<open>ieee80211_inputm\<close>, \<^verbatim>\<open>ieee80211_input_hwdecrypt\<close>, \<^verbatim>\<open>ieee80211_decap\<close>,
  \<^verbatim>\<open>ieee80211_enqueue_data\<close> and \<^verbatim>\<open>ieee80211_recv_pspoll\<close> of \<^verbatim>\<open>net80211/ieee80211_input.c\<close>): the checks
  on a received frame, reordering, duplicate detection, decryption, decapsulation and delivery.  It puts
  the node cache, the Block Ack agreements, the software ciphers and the A-MSDU decapsulation together.
\<close>

section \<open>State\<close>

abbreviation (input) NODE_RXPROT :: u32 where "NODE_RXPROT \<equiv> 0x8"
abbreviation (input) NODE_RXMGMTPROT :: u32 where "NODE_RXMGMTPROT \<equiv> 0x20"
abbreviation (input) NODE_HT :: u32 where "NODE_HT \<equiv> 0x400"
abbreviation (input) F_NOBRIDGE :: u32 where "F_NOBRIDGE \<equiv> 2"
abbreviation (input) C_APPMGT :: u32 where "C_APPMGT \<equiv> 0x20"
abbreviation (input) FC1_MORE_FRAG :: u8 where "FC1_MORE_FRAG \<equiv> 0x04"
abbreviation (input) FC1_RETRY :: u8 where "FC1_RETRY \<equiv> 0x08"
abbreviation (input) FC1_PWR_MGT :: u8 where "FC1_PWR_MGT \<equiv> 0x10"
abbreviation (input) FC1_MORE_DATA :: u8 where "FC1_MORE_DATA \<equiv> 0x20"
abbreviation (input) TYPE_MGT :: u8 where "TYPE_MGT \<equiv> 0x00"
abbreviation (input) TYPE_CTL :: u8 where "TYPE_CTL \<equiv> 0x04"
abbreviation (input) TYPE_DATA :: u8 where "TYPE_DATA \<equiv> 0x08"
abbreviation (input) SUBTYPE_NODATA :: u8 where "SUBTYPE_NODATA \<equiv> 0x40"
abbreviation (input) ST_PROBE_RESP :: u8 where "ST_PROBE_RESP \<equiv> 0x50"
abbreviation (input) ST_BEACON :: u8 where "ST_BEACON \<equiv> 0x80"
abbreviation (input) ST_ACTION :: u8 where "ST_ACTION \<equiv> 0xd0"
abbreviation (input) ST_PS_POLL :: u8 where "ST_PS_POLL \<equiv> 0xa0"
abbreviation (input) ST_BAR :: u8 where "ST_BAR \<equiv> 0x80"
abbreviation (input) DIR_NODS :: u8 where "DIR_NODS \<equiv> 0"
abbreviation (input) DIR_TODS :: u8 where "DIR_TODS \<equiv> 1"
abbreviation (input) DIR_FROMDS :: u8 where "DIR_FROMDS \<equiv> 2"
abbreviation (input) QOS_AMSDU :: u16 where "QOS_AMSDU \<equiv> 0x80"
abbreviation (input) ACK_POLICY_MASK :: u16 where "ACK_POLICY_MASK \<equiv> 0x60"
abbreviation (input) ACK_POLICY_NORMAL :: u16 where "ACK_POLICY_NORMAL \<equiv> 0"
abbreviation (input) ACK_POLICY_BA :: u16 where "ACK_POLICY_BA \<equiv> 0x60"
abbreviation (input) REASON_NOT_AUTHED :: u32 where "REASON_NOT_AUTHED \<equiv> 6"
abbreviation (input) REASON_NOT_ASSOCED :: u32 where "REASON_NOT_ASSOCED \<equiv> 7"
abbreviation (input) ETHERTYPE_PAE :: u16 where "ETHERTYPE_PAE \<equiv> 0x888e"
abbreviation (input) FRAME_MIN :: nat where "FRAME_MIN \<equiv> 16"

text \<open>The counters of \<^verbatim>\<open>ic_stats\<close>, and what the path does with a frame, in order: \<open>Rx_Deliver\<close> puts it on
  the list for the network layer, \<open>Rx_User_Copy\<close> hands a copy to the interface, \<open>Rx_Bridge\<close> to the
  transmit queue, \<open>Rx_Eapol\<close> to \<^verbatim>\<open>ieee80211_eapol_key_input\<close>, \<open>Rx_Mgmt\<close> to \<^verbatim>\<open>ic_recv_mgmt\<close>; \<open>Rx_Resend\<close> moves a
  frame buffered for a station to the power-save queue.\<close>

datatype rx_stat = Rs_Tooshort | Rs_Badversion | Rs_Wrongbss | Rs_Notassoc | Rs_Dup | Rs_Wrongdir
  | Rs_Mcastecho | Rs_Unencrypted | Rs_Wepfail | Rs_Nowep | Rs_Ahdemo_Mgt | Rs_Mgtdiscard | Rs_Ctl
  | Rs_Unauth | Rs_Decap | Rs_Ccmp_Replays | Rs_Tkip_Replays

datatype rx_event = Rx_Deliver mbuf | Rx_User_Copy mbuf | Rx_Bridge mbuf | Rx_Eapol mbuf | Rx_Mgmt mbuf u8
  | Rx_Free mbuf | Rx_Resend mbuf | Rx_Stat rx_stat | Rx_Input_Error | Rx_Output_Error | Rx_Input_Packet
  | Rx_Set_Tim u16

text \<open>The fields of a node beyond those of \<open>bnode\<close>: the last sequence numbers, the power-save mode and
  the Block Ack part, whose fields that \<open>bnode\<close> has too are brought up to date before use.\<close>

record rxn =
  rn_rxseq :: u16
  rn_qos_rxseqs :: "u16 list"
  rn_doze :: bool
  rn_ba :: ba_node

record rxs =
  rs_m :: mlme
  rs_node :: "node_ref \<Rightarrow> rxn"
  rs_com :: ba_com
  rs_log :: "rx_event list"

text \<open>The surroundings: memory for copies of frames and for the parts of an aggregate, room in the
  transmit queue, the interface flag \<^verbatim>\<open>IFF_SIMPLEX\<close>, whether \<^verbatim>\<open>ic_bgscan_start\<close> is set, the build for a target
  of macOS 26 on, \<^verbatim>\<open>ieee80211_eapol_key_input\<close> and the driver's hook \<^verbatim>\<open>ic_recv_mgmt\<close> on the state.\<close>

record rx_env =
  re_hk :: mlme_hooks
  re_crypt :: crypt_env
  re_prims :: prims
  re_pull :: "nat \<Rightarrow> bool"
  re_split :: "nat \<Rightarrow> bool"
  re_dup :: bool
  re_enqueue :: bool
  re_simplex :: bool
  re_bgscan_start :: bool
  re_tahoe :: bool
  re_eapol :: "mbuf \<Rightarrow> node_ref \<Rightarrow> rxs \<Rightarrow> rxs"
  re_mgmt :: "mbuf \<Rightarrow> node_ref \<Rightarrow> rxinfo \<Rightarrow> u8 \<Rightarrow> rxs \<Rightarrow> rxs"

definition rx_logs :: "rx_event list \<Rightarrow> rxs \<Rightarrow> rxs" where
  "rx_logs es s = s\<lparr>rs_log := rs_log s @ es\<rparr>"

definition rx_node :: "rxs \<Rightarrow> node_ref \<Rightarrow> bnode" where
  "rx_node s r = the_node (rs_m s) r"

definition upd_m :: "(mlme \<Rightarrow> mlme) \<Rightarrow> rxs \<Rightarrow> rxs" where
  "upd_m f s = s\<lparr>rs_m := f (rs_m s)\<rparr>"

definition upd_rxn :: "node_ref \<Rightarrow> (rxn \<Rightarrow> rxn) \<Rightarrow> rxs \<Rightarrow> rxs" where
  "upd_rxn r f s = s\<lparr>rs_node := (rs_node s)(r := f (rs_node s r))\<rparr>"

text \<open>The exits of \<^verbatim>\<open>ieee80211_inputm\<close>: \<open>out\<close> frees the frame, \<open>err\<close> counts an input error before.\<close>

definition rx_out :: "rx_stat list \<Rightarrow> mbuf \<Rightarrow> rxs \<Rightarrow> rxs" where
  "rx_out st m s = rx_logs (map Rx_Stat st @ [Rx_Free m]) s"

definition rx_err :: "rx_stat list \<Rightarrow> mbuf \<Rightarrow> rxs \<Rightarrow> rxs" where
  "rx_err st m s = rx_logs (map Rx_Stat st @ [Rx_Input_Error, Rx_Free m]) s"

text \<open>An operation of the Block Ack component on a node.\<close>

definition ba_view :: "rxs \<Rightarrow> node_ref \<Rightarrow> ba_sys" where
  "ba_view s r =
     (let n = rx_node s r; m = rs_m s in
      ((rn_ba (rs_node s r))\<lparr>ni_flags := bn_flags n, ni_rsncaps := bn_rsncaps n, ni_port_valid := bn_port_valid n\<rparr>,
       (rs_com s)\<lparr>ic_state := m_state m, ic_opmode := m_opmode m, ic_flags := m_flags m, ic_xflags := m_xflags m,
          ic_caps := m_caps m, ic_htcaps := m_htcaps m\<rparr>))"

definition with_ba :: "node_ref \<Rightarrow> (ba_sys \<Rightarrow> ba_sys) \<Rightarrow> rxs \<Rightarrow> rxs" where
  "with_ba r f s =
     (let (ni, ic) = f (ba_view s r)
      in upd_rxn r (\<lambda>x. x\<lparr>rn_ba := ni\<rparr>) (s\<lparr>rs_com := ic\<rparr>))"

section \<open>Delivery\<close>

definition ether_type :: "mbuf \<Rightarrow> u16" where
  "ether_type m = BE_READ_2 (drop 12 m)"

definition ether_mcast :: "mbuf \<Rightarrow> bool" where
  "ether_mcast m \<longleftrightarrow> bit (byte_at m 0) 0"

text \<open>An EAPOL frame of an RSN network; the three builds differ in who gets it.\<close>

definition rx_pae :: "rx_env \<Rightarrow> mbuf \<Rightarrow> node_ref \<Rightarrow> rxs \<Rightarrow> rxs" where
  "rx_pae E m r s =
     (let s = rx_logs [Rx_Input_Packet] s;
          eapol = (\<lambda>s. re_eapol E m r (rx_logs [Rx_Eapol m] s));
          dot1x = is_8021x_akm (bn_rsnakms (rx_node s r))
      in if mh_apple (re_hk E)
         then (if re_tahoe E \<and> \<not> dot1x then eapol s else rx_logs [Rx_Deliver m] s)
         else eapol (if mh_family_v2 (re_hk E) \<and> dot1x \<and> re_dup E then rx_logs [Rx_User_Copy m] s else s))"

text \<open>Bridging within an access point: the frame left for the host and the state.\<close>

definition rx_enqueue :: "rx_env \<Rightarrow> mbuf \<Rightarrow> rxs \<Rightarrow> rxs" where
  "rx_enqueue E m s = rx_logs (Rx_Bridge m # (if re_enqueue E then [] else [Rx_Output_Error])) s"

definition rx_bridge :: "rx_env \<Rightarrow> bool \<Rightarrow> mbuf \<Rightarrow> rxs \<Rightarrow> mbuf option \<times> rxs" where
  "rx_bridge E mcast m s =
     (if m_opmode (rs_m s) = M_HOSTAP \<and> \<not> has_flag (m_userflags (rs_m s)) F_NOBRIDGE \<and> ether_type m \<noteq> ETHERTYPE_PAE
      then if ether_mcast m
        then (Some m, if re_dup E then rx_enqueue E m s else rx_logs [Rx_Output_Error] s)
        else if \<not> mcast \<and> (case find_node (rs_m s) (ether_dhost m) of None \<Rightarrow> False | Some n \<Rightarrow> bn_state n = STA_ASSOC)
        then (None, rx_enqueue E m s)
        else (Some m, s)
      else (Some m, s))"

definition enqueue_data :: "rx_env \<Rightarrow> mbuf \<Rightarrow> node_ref \<Rightarrow> bool \<Rightarrow> rxs \<Rightarrow> rxs" where
  "enqueue_data E m r mcast s =
     (if m_flag (rs_m s) F_RSNON \<and> \<not> bn_port_valid (rx_node s r) \<and> ether_type m \<noteq> ETHERTYPE_PAE
      then rx_out [Rs_Unauth] m s
      else case rx_bridge E mcast m s of
             (None, s) \<Rightarrow> s
           | (Some m, s) \<Rightarrow>
               if m_flag (rs_m s) F_RSNON \<and> ether_type m = ETHERTYPE_PAE then rx_pae E m r s
               else rx_logs [Rx_Deliver m] s)"

section \<open>Decapsulation\<close>

text \<open>The Ethernet addresses by the direction bits; with a SNAP header of the LLC the type is that of SNAP,
  else the length.\<close>

definition decap_addrs :: "mbuf \<Rightarrow> u8 list" where
  "decap_addrs m =
     (let d = byte_at m 1 AND 3 in
      if d = DIR_NODS then bytes_at m 4 6 @ bytes_at m 10 6
      else if d = DIR_TODS then bytes_at m 16 6 @ bytes_at m 10 6
      else if d = DIR_FROMDS then bytes_at m 4 6 @ bytes_at m 16 6
      else bytes_at m 16 6 @ bytes_at m 24 6)"

definition decap_ether :: "mbuf \<Rightarrow> nat \<Rightarrow> mbuf" where
  "decap_ether m hdrlen =
     (if bytes_at m hdrlen 6 = llc_hdr_mac
      then decap_addrs m @ bytes_at m (hdrlen + 6) 2 @ drop (hdrlen + 8) m
      else decap_addrs m @ BE_WRITE_2 (of_nat (length m - hdrlen)) @ drop hdrlen m)"

text \<open>\<^verbatim>\<open>ALIGNED_POINTER\<close> is the constant 1 in this port, so that the frame is never copied.\<close>

definition decap :: "rx_env \<Rightarrow> mbuf \<Rightarrow> node_ref \<Rightarrow> nat \<Rightarrow> rxs \<Rightarrow> rxs" where
  "decap E m r hdrlen s =
     (if length m < hdrlen + LLC_SNAPFRAMELEN then rx_logs [Rx_Stat Rs_Decap, Rx_Free m] s
      else enqueue_data E (decap_ether m hdrlen) r (is_mcast m) s)"

text \<open>An aggregate; when the decapsulation fails its rest is dropped.\<close>

definition decap_amsdu :: "rx_env \<Rightarrow> mbuf \<Rightarrow> node_ref \<Rightarrow> nat \<Rightarrow> rxs \<Rightarrow> rxs" where
  "decap_amsdu E m r hdrlen s =
     (case amsdu_decap \<lparr>am_opmode = m_opmode (rs_m s), am_myaddr = m_myaddr (rs_m s),
             am_macaddr = bn_macaddr (rx_node s r)\<rparr> (re_pull E) (re_split E) m hdrlen of
        None \<Rightarrow> rx_logs [Rx_Stat Rs_Decap, Rx_Free m] s
      | Some fs \<Rightarrow> fold (\<lambda>(f, mcast). enqueue_data E f r mcast) fs s)"

section \<open>Decryption\<close>

definition rx_keysel :: "rxs \<Rightarrow> node_ref \<Rightarrow> keysel" where
  "rx_keysel s r =
     (let n = rx_node s r; m = rs_m s in
      \<lparr>ks_rsnon = m_flag m F_RSNON, ks_rsncipher = bn_rsncipher n, ks_mfp = has_flag (bn_flags n) NODE_MFP,
       ks_igtk_kid = m_igtk_kid m, ks_def_txkey = m_def_txkey m\<rparr>)"

definition rx_keys :: "rxs \<Rightarrow> node_ref \<Rightarrow> keys" where
  "rx_keys s r = (bn_pairwise_key (rx_node s r), m_nw_keys (rs_m s))"

definition put_rx_keys :: "node_ref \<Rightarrow> keys \<Rightarrow> rxs \<Rightarrow> rxs" where
  "put_rx_keys r ks s =
     upd_m (\<lambda>m. (upd_node r (\<lambda>n. n\<lparr>bn_pairwise_key := fst ks\<rparr>) m)\<lparr>m_nw_keys := snd ks\<rparr>) s"

text \<open>Software decryption: a frame that fails has been freed.\<close>

definition rx_decrypt :: "rx_env \<Rightarrow> mbuf \<Rightarrow> node_ref \<Rightarrow> rxs \<Rightarrow> mbuf option \<times> rxs" where
  "rx_decrypt E m r s =
     (case decrypt (re_crypt E) (re_prims E) (rx_keysel s r) (rx_keys s r) m of
        (Inl _, ks) \<Rightarrow> (None, rx_logs [Rx_Free m] (put_rx_keys r ks s))
      | (Inr m', ks) \<Rightarrow> (Some m', put_rx_keys r ks s))"

text \<open>A frame that the hardware decrypted: its packet number is checked and its IV stripped, unless the
  hardware has stripped it.  A frame that fails is not freed.\<close>

definition hw_strip :: "rxinfo \<Rightarrow> rx_stat \<Rightarrow> (u64 \<times> nat option) option \<Rightarrow> mbuf \<Rightarrow> iee_key
    \<Rightarrow> rx_stat list \<times> mbuf option \<times> iee_key" where
  "hw_strip rxi st pn m k =
     (if \<not> has_flag (byte_at m 1) FC1_PROTECTED then ([], Some m, k)
      else case pn of
             None \<Rightarrow> ([], None, k)
           | Some (pn, rsc) \<Rightarrow>
               if (if has_flag (rxi_flags rxi) IEEE80211_RXI_HWDEC_SAME_PN then pn < get_rsc rsc k else pn \<le> get_rsc rsc k)
               then ([st], None, k)
               else ([], Some (clear_protected (take (get_hdrlen m) m) @ drop (get_hdrlen m + 8) m), set_rsc rsc pn k))"

definition hw_key :: "rxinfo \<Rightarrow> mbuf \<Rightarrow> iee_key \<Rightarrow> rx_stat list \<times> mbuf option \<times> iee_key" where
  "hw_key rxi m k =
     (if k_cipher k = CIPHER_CCMP then hw_strip rxi Rs_Ccmp_Replays (ccmp_get_pn m) m k
      else if k_cipher k = CIPHER_TKIP
      then hw_strip rxi Rs_Tkip_Replays (map_option (\<lambda>(pn, tid). (pn, Some tid)) (tkip_get_tsc m)) m k
      else ([], Some m, k))"

definition input_hwdecrypt :: "mbuf \<Rightarrow> node_ref \<Rightarrow> rxinfo \<Rightarrow> rxs \<Rightarrow> mbuf option \<times> rxs" where
  "input_hwdecrypt m r rxi s =
     (case get_rxkey (rx_keysel s r) m of
        None \<Rightarrow> (None, s)
      | Some ref \<Rightarrow>
          let ks = rx_keys s r;
              (st, m', k) = hw_key rxi m (key_of (fst ks) (snd ks) ref)
          in (m', rx_logs (map Rx_Stat st) (put_rx_keys r (put_key ref k ks) s)))"

definition rx_protects :: "rxs \<Rightarrow> node_ref \<Rightarrow> bool" where
  "rx_protects s r \<longleftrightarrow>
     m_flag (rs_m s) F_WEPON \<or> m_flag (rs_m s) F_RSNON \<and> has_flag (bn_flags (rx_node s r)) NODE_RXPROT"

text \<open>The clear frame, or \<open>None\<close> when it has been dropped.\<close>

definition rx_clear :: "rx_env \<Rightarrow> mbuf \<Rightarrow> node_ref \<Rightarrow> rxinfo \<Rightarrow> rxs \<Rightarrow> mbuf option \<times> rxs" where
  "rx_clear E m r rxi s =
     (let hwdec = has_flag (rxi_flags rxi) IEEE80211_RXI_HWDEC;
          protected = has_flag (byte_at m 1) FC1_PROTECTED
      in if rx_protects s r
         then if \<not> hwdec
           then if \<not> protected then (None, rx_err [Rs_Unencrypted] m s)
                else case rx_decrypt E m r s of
                       (None, s) \<Rightarrow> (None, rx_logs [Rx_Stat Rs_Wepfail, Rx_Input_Error] s)
                     | r \<Rightarrow> r
           else case input_hwdecrypt m r rxi s of
                  (None, s) \<Rightarrow> (None, rx_logs [Rx_Input_Error] s)
                | r \<Rightarrow> r
         else if protected \<or> hwdec then (None, rx_out [Rs_Nowep] m s)
         else (Some m, s))"

section \<open>Frames by type\<close>

definition rx_msdu :: "rx_env \<Rightarrow> mbuf \<Rightarrow> node_ref \<Rightarrow> rxinfo \<Rightarrow> rxs \<Rightarrow> rxs" where
  "rx_msdu E m r rxi s =
     (if frame_subtype m AND SUBTYPE_NODATA \<noteq> 0 then rx_out [] m s
      else case rx_clear E m r rxi s of
             (None, s) \<Rightarrow> s
           | (Some m', s) \<Rightarrow>
               if has_flag (bn_flags (rx_node s r)) NODE_HT \<and> has_qos m \<and> has_flag (get_qos m) QOS_AMSDU
               then decap_amsdu E m' r (get_hdrlen m) s
               else decap E m' r (get_hdrlen m) s)"

text \<open>Data for an access point from an unknown station: it is told that it is not authenticated.\<close>

definition rx_unknown :: "rx_env \<Rightarrow> mbuf \<Rightarrow> rxs \<Rightarrow> rxs" where
  "rx_unknown E m s =
     (let a = frame_addr2 m; H = re_hk E;
          (ok, t) = (if find_node (rs_m s) a \<noteq> None then (True, rs_m s) else dup_bss H a (rs_m s));
          t = (if ok then snd (send_mgmt H (Peer a) ST_DEAUTH REASON_NOT_AUTHED t) else t)
      in rx_err [Rs_Notassoc] m (s\<lparr>rs_m := t\<rparr>))"

definition rx_data :: "rx_env \<Rightarrow> mbuf \<Rightarrow> node_ref \<Rightarrow> rxinfo \<Rightarrow> rxs \<Rightarrow> rxs" where
  "rx_data E m r rxi s =
     (let dir = byte_at m 1 AND 3; M = rs_m s; bssid = bn_bssid (m_bss M); bcast = replicate 6 0xff;
          scan = (m_state M = S_SCAN)
      in case m_opmode M of
           M_STA \<Rightarrow>
             if dir \<noteq> DIR_FROMDS then rx_out [Rs_Wrongdir] m s
             else if \<not> scan \<and> frame_addr2 m \<noteq> bn_bssid (rx_node s r) then rx_out [Rs_Wrongbss] m s
             else if re_simplex E \<and> is_mcast m \<and> bytes_at m 16 6 = m_myaddr M then rx_out [Rs_Mcastecho] m s
             else rx_msdu E m r rxi s
         | M_HOSTAP \<Rightarrow>
             if dir \<noteq> DIR_TODS then rx_out [Rs_Wrongdir] m s
             else if \<not> scan \<and> bytes_at m 4 6 \<noteq> bssid \<and> bytes_at m 4 6 \<noteq> bcast then rx_out [Rs_Wrongbss] m s
             else if r = Bss then rx_unknown E m s
             else if bn_state (rx_node s r) \<noteq> STA_ASSOC
             then rx_err [Rs_Notassoc] m (upd_m (\<lambda>t. snd (send_mgmt (re_hk E) r ST_DISASSOC REASON_NOT_ASSOCED t)) s)
             else rx_msdu E m r rxi s
         | M_MONITOR \<Rightarrow> rx_out [] m s
         | _ \<Rightarrow>
             if dir \<noteq> DIR_NODS then rx_out [Rs_Wrongdir] m s
             else if \<not> scan \<and> bytes_at m 16 6 \<noteq> bssid \<and> bytes_at m 16 6 \<noteq> bcast then rx_out [Rs_Wrongbss] m s
             else rx_msdu E m r rxi s)"

definition rx_hand_mgmt :: "rx_env \<Rightarrow> mbuf \<Rightarrow> node_ref \<Rightarrow> rxinfo \<Rightarrow> u8 \<Rightarrow> rxs \<Rightarrow> rxs" where
  "rx_hand_mgmt E m r rxi subtype s =
     rx_logs [Rx_Free m] (re_mgmt E m r rxi subtype (rx_logs [Rx_Mgmt m subtype] s))"

definition rx_mgmt :: "rx_env \<Rightarrow> mbuf \<Rightarrow> node_ref \<Rightarrow> rxinfo \<Rightarrow> rxs \<Rightarrow> rxs" where
  "rx_mgmt E m r rxi s =
     (let subtype = frame_subtype m; protected = has_flag (byte_at m 1) FC1_PROTECTED in
      if byte_at m 1 AND 3 \<noteq> DIR_NODS then rx_err [Rs_Wrongdir] m s
      else if m_opmode (rs_m s) = M_AHDEMO then rx_out [Rs_Ahdemo_Mgt] m s
      else if m_state (rs_m s) = S_SCAN \<and> subtype \<noteq> ST_BEACON \<and> subtype \<noteq> ST_PROBE_RESP then rx_out [Rs_Mgtdiscard] m s
      else if has_flag (bn_flags (rx_node s r)) NODE_RXMGMTPROT
      then if subtype \<in> {ST_DISASSOC, ST_DEAUTH, ST_ACTION}
        then if \<not> is_mcast m \<and> \<not> protected then rx_out [] m s
             else case rx_decrypt E m r s of
                    (None, s) \<Rightarrow> s
                  | (Some m', s) \<Rightarrow> rx_hand_mgmt E m' r rxi subtype s
        else rx_hand_mgmt E m r rxi subtype s
      else if m_flag (rs_m s) F_RSNON \<and> protected then rx_out [] m s
      else rx_hand_mgmt E m r rxi subtype s)"

text \<open>A station in power-save mode asks for the next buffered frame.\<close>

definition recv_pspoll :: "rx_env \<Rightarrow> mbuf \<Rightarrow> node_ref \<Rightarrow> rxs \<Rightarrow> rxs" where
  "recv_pspoll E m r s =
     (let n = rx_node s r; M = rs_m s in
      if m_opmode M \<noteq> M_HOSTAP \<or> \<not> has_flag (m_caps M) C_APPMGT \<or> bn_state n \<noteq> STA_ASSOC then s
      else if length m < 16 then rx_logs [Rx_Stat Rs_Tooshort] s
      else if bytes_at m 4 6 \<noteq> bn_bssid (m_bss M) then rx_logs [Rx_Stat Rs_Wrongbss] s
      else if LE_READ_2 (drop 2 m) \<noteq> bn_associd n then s
      else case bn_savedq n of
             [] \<Rightarrow> s
           | f # q \<Rightarrow>
               let s = upd_m (upd_node r (\<lambda>n. n\<lparr>bn_savedq := q\<rparr>)) s
               in if q = [] then rx_logs [Rx_Set_Tim (bn_associd n), Rx_Resend f] s
                  else rx_logs [Rx_Resend (f[1 := byte_at f 1 OR FC1_MORE_DATA])] s)"

definition rx_ctl :: "rx_env \<Rightarrow> mbuf \<Rightarrow> node_ref \<Rightarrow> rxs \<Rightarrow> rxs" where
  "rx_ctl E m r s =
     (if frame_subtype m = ST_PS_POLL then rx_out [] m (recv_pspoll E m r s)
      else if frame_subtype m = ST_BAR then rx_out [] m (with_ba r (recv_bar m) s)
      else rx_out [Rs_Ctl] m s)"

section \<open>A received frame\<close>

definition wants_reorder :: "rxs \<Rightarrow> mbuf \<Rightarrow> node_ref \<Rightarrow> rxinfo \<Rightarrow> bool" where
  "wants_reorder s m r rxi \<longleftrightarrow>
     m_state (rs_m s) = S_RUN \<and> fc0_type m = TYPE_DATA \<and> has_qos m \<and> frame_subtype m AND SUBTYPE_NODATA = 0 \<and>
     \<not> has_flag (rxi_flags rxi) IEEE80211_RXI_AMPDU_DONE \<and> (m_opmode (rs_m s) = M_STA \<or> r \<noteq> Bss)"

text \<open>A QoS data frame before reordering; \<open>None\<close> when it is not for the reordering buffer.\<close>

definition rx_reorder :: "mbuf \<Rightarrow> node_ref \<Rightarrow> rxinfo \<Rightarrow> rxs \<Rightarrow> rxs option" where
  "rx_reorder m r rxi s =
     (let tid = qos_tid m; st = ba_state (the_rx_ba (rn_ba (rs_node s r)) tid); M = rs_m s;
          policy = get_qos m AND ACK_POLICY_MASK
      in if m_opmode M = M_HOSTAP \<and> bytes_at m 4 6 \<noteq> bn_bssid (m_bss M) then Some (rx_err [Rs_Wrongbss] m s)
         else if m_opmode M = M_HOSTAP \<and> bn_state (rx_node s r) \<noteq> STA_ASSOC then Some (rx_err [Rs_Notassoc] m s)
         else if policy = ACK_POLICY_BA \<and> st \<noteq> BA_AGREED
         then Some (rx_err [] m (with_ba r (\<lambda>(ni, ic).
                (ni, send_ba ACTION_DELBA (action_arg REASON_SETUP_REQUIRED 0 tid) ic)) s))
         else if st = BA_AGREED \<and> policy \<in> {ACK_POLICY_BA, ACK_POLICY_NORMAL} \<or> st = BA_REQUESTED \<and> policy = ACK_POLICY_NORMAL
         then Some (with_ba r (rx_ba_data m rxi tid) s)
         else None)"

definition is_fragment :: "mbuf \<Rightarrow> bool" where
  "is_fragment m \<longleftrightarrow> fc0_type m \<noteq> TYPE_CTL \<and>
     (has_flag (byte_at m 1) FC1_MORE_FRAG \<or> LE_READ_2 (drop 22 m) AND 0x0f \<noteq> 0)"

text \<open>Duplicate detection by the last sequence number of the priority, or of the frames without one.\<close>

definition last_seq :: "rxn \<Rightarrow> mbuf \<Rightarrow> u16" where
  "last_seq x m = (if has_qos m then rn_qos_rxseqs x ! unat (qos_tid m) else rn_rxseq x)"

definition is_duplicate :: "rxn \<Rightarrow> mbuf \<Rightarrow> rxinfo \<Rightarrow> bool" where
  "is_duplicate x m rxi \<longleftrightarrow>
     (if has_flag (rxi_flags rxi) IEEE80211_RXI_SAME_SEQ then frame_seq m \<noteq> last_seq x m
      else has_flag (byte_at m 1) FC1_RETRY \<and> frame_seq m = last_seq x m)"

definition record_seq :: "mbuf \<Rightarrow> rxn \<Rightarrow> rxn" where
  "record_seq m x =
     (if has_qos m then x\<lparr>rn_qos_rxseqs := (rn_qos_rxseqs x)[unat (qos_tid m) := frame_seq m]\<rparr>
      else x\<lparr>rn_rxseq := frame_seq m\<rparr>)"

text \<open>The signal of the node, and the background scan that a weak signal starts.\<close>

definition bgscan_by_rssi :: "node_ref \<Rightarrow> mlme \<Rightarrow> mlme" where
  "bgscan_by_rssi r s =
     (if node_checkrssi s (the_node s r) then s\<lparr>m_bgscan_to := timeout_del (m_bgscan_to s)\<rparr>
      else if \<not> timeout_pending (m_bgscan_to s) \<and> \<not> m_flag s F_BGSCAN \<and> \<not> m_flag s F_DESBSSID
      then s\<lparr>m_bgscan_to := timeout_add_msec (m_bgscan_to s) (sint (500 * (m_bgscan_fail s + 1)))\<rparr>
      else s)"

definition rx_signal :: "rx_env \<Rightarrow> node_ref \<Rightarrow> rxinfo \<Rightarrow> mlme \<Rightarrow> mlme" where
  "rx_signal E r rxi s =
     (if m_state s \<in> {S_INIT, S_SCAN} then s
      else let s = upd_node r (\<lambda>n. n\<lparr>bn_rstamp := rxi_tstamp rxi, bn_rssi := ucast (rxi_rssi rxi), bn_inact := 0\<rparr>) s
           in if m_state s = S_RUN \<and> re_bgscan_start E then bgscan_by_rssi r s else s)"

text \<open>Power save: a station that wakes up is sent the frames buffered for it.\<close>

definition rx_powersave :: "mbuf \<Rightarrow> node_ref \<Rightarrow> rxs \<Rightarrow> rxs" where
  "rx_powersave m r s =
     (let M = rs_m s; n = rx_node s r in
      if m_opmode M = M_HOSTAP \<and> has_flag (m_caps M) C_APPMGT \<and> bn_state n = STA_ASSOC
      then if has_flag (byte_at m 1) FC1_PWR_MGT then upd_rxn r (\<lambda>x. x\<lparr>rn_doze := True\<rparr>) s
           else if rn_doze (rs_node s r)
           then rx_logs (Rx_Set_Tim (bn_associd n) # map Rx_Resend (bn_savedq n))
                  (upd_m (upd_node r (\<lambda>n. n\<lparr>bn_savedq := []\<rparr>)) (upd_rxn r (\<lambda>x. x\<lparr>rn_doze := False\<rparr>) s))
           else s
      else s)"

definition rx_type :: "rx_env \<Rightarrow> mbuf \<Rightarrow> node_ref \<Rightarrow> rxinfo \<Rightarrow> rxs \<Rightarrow> rxs" where
  "rx_type E m r rxi s =
     (if fc0_type m = TYPE_DATA then rx_data E m r rxi s
      else if fc0_type m = TYPE_MGT then rx_mgmt E m r rxi s
      else if fc0_type m = TYPE_CTL then rx_ctl E m r s
      else rx_err [] m s)"

definition rx_frame :: "rx_env \<Rightarrow> mbuf \<Rightarrow> node_ref \<Rightarrow> rxinfo \<Rightarrow> rxs \<Rightarrow> rxs" where
  "rx_frame E m r rxi s =
     (let sequenced = fc0_type m \<noteq> TYPE_CTL \<and> m_state (rs_m s) \<noteq> S_SCAN in
      if is_fragment m then rx_err [] m s
      else if sequenced \<and> is_duplicate (rs_node s r) m rxi then rx_out [Rs_Dup] m s
      else
        let s = (if sequenced then upd_rxn r (record_seq m) s else s)
        in rx_type E m r rxi (rx_powersave m r (upd_m (rx_signal E r rxi) s)))"

definition inputm_body :: "rx_env \<Rightarrow> mbuf \<Rightarrow> node_ref \<Rightarrow> rxinfo \<Rightarrow> rxs \<Rightarrow> rxs" where
  "inputm_body E m r rxi s =
     (if m_opmode (rs_m s) = M_MONITOR then rx_out [] m s
      else if length m < FRAME_MIN then rx_out [Rs_Tooshort] m s
      else if byte_at m 0 AND 3 \<noteq> 0 then rx_err [Rs_Badversion] m s
      else if fc0_type m \<noteq> TYPE_CTL \<and> length m < get_hdrlen m then rx_err [Rs_Tooshort] m s
      else case (if wants_reorder s m r rxi then rx_reorder m r rxi s else None) of
             Some s \<Rightarrow> s
           | None \<Rightarrow> rx_frame E m r rxi s)"

text \<open>The frames that the reordering buffer lets go come back to \<^verbatim>\<open>ieee80211_inputm\<close>, marked so that they
  are not reordered again.\<close>

definition rx_released :: "rx_env \<Rightarrow> node_ref \<Rightarrow> rxs \<Rightarrow> rxs" where
  "rx_released E r s =
     (let cx = ic_cx (rs_com s)
      in fold (\<lambda>(f, rxi). inputm_body E f r rxi) (rx_up cx) (s\<lparr>rs_com := (rs_com s)\<lparr>ic_cx := cx\<lparr>rx_up := []\<rparr>\<rparr>\<rparr>))"

definition input_frame :: "rx_env \<Rightarrow> mbuf \<Rightarrow> node_ref \<Rightarrow> rxinfo \<Rightarrow> rxs \<Rightarrow> rxs" where
  "input_frame E m r rxi s = rx_released E r (inputm_body E m r rxi s)"

definition rx_gap_expired :: "rx_env \<Rightarrow> node_ref \<Rightarrow> u8 \<Rightarrow> rxs \<Rightarrow> rxs" where
  "rx_gap_expired E r tid s = rx_released E r (with_ba r (rx_gap_timeout tid) s)"

end
