(* ===== verification/ReceiveProps.thy ===== *)
theory ReceiveProps
  imports Receive SelectProps
begin

text \<open>
  What the receive path lets through: data of a station whose port is not valid, frames that do not
  decrypt and unprotected management frames go nowhere.
\<close>

section \<open>What a call adds to the log\<close>

text \<open>The events that hand a data frame on.\<close>

definition handed :: "rx_event \<Rightarrow> bool" where
  "handed e \<longleftrightarrow> (case e of Rx_Deliver f \<Rightarrow> True | Rx_User_Copy f \<Rightarrow> True | Rx_Bridge f \<Rightarrow> True | Rx_Eapol f \<Rightarrow> True
     | _ \<Rightarrow> False)"

lemma handed_simps [simp]:
  "handed (Rx_Deliver f)" "handed (Rx_User_Copy f)" "handed (Rx_Bridge f)" "handed (Rx_Eapol f)"
  "\<not> handed (Rx_Mgmt f t)" "\<not> handed (Rx_Free f)" "\<not> handed (Rx_Resend f)" "\<not> handed (Rx_Stat x)"
  "\<not> handed Rx_Input_Error" "\<not> handed Rx_Output_Error" "\<not> handed Rx_Input_Packet" "\<not> handed (Rx_Set_Tim a)"
  by (simp_all add: handed_def)

definition adds :: "rxs \<Rightarrow> rx_event list \<Rightarrow> rxs \<Rightarrow> bool" where
  "adds s es s' \<longleftrightarrow> rs_log s' = rs_log s @ es"

lemma adds_refl [simp]: "adds s [] s" "adds s [] (upd_m f s)" "adds s [] (upd_rxn r g s)"
  by (simp_all add: adds_def upd_m_def upd_rxn_def)

lemma adds_logs: "adds s es t \<Longrightarrow> adds s (es @ es') (rx_logs es' t)"
  by (simp add: adds_def rx_logs_def)

lemma adds_trans: "adds s es t \<Longrightarrow> adds t es' u \<Longrightarrow> adds s (es @ es') u"
  by (simp add: adds_def)

lemma adds_unique: "adds s es t \<Longrightarrow> adds s es' t \<longleftrightarrow> es' = es"
  by (auto simp: adds_def)

text \<open>Nothing is handed on.\<close>

definition silent :: "rxs \<Rightarrow> rxs \<Rightarrow> bool" where
  "silent s s' \<longleftrightarrow> (\<exists>es. adds s es s' \<and> (\<forall>e \<in> set es. \<not> handed e))"

lemma silentI: "adds s es s' \<Longrightarrow> \<forall>e \<in> set es. \<not> handed e \<Longrightarrow> silent s s'"
  by (auto simp: silent_def)

lemma silent_logs: "silent s t \<Longrightarrow> \<forall>e \<in> set es. \<not> handed e \<Longrightarrow> silent s (rx_logs es t)"
  unfolding silent_def by (metis Un_iff adds_logs set_append)

lemma silent_refl [simp]: "silent s s" "silent s (upd_m f s)" "silent s (upd_rxn r g s)"
  by (rule silentI [of _ "[]"]; simp)+

lemma silent_trans: "silent s t \<Longrightarrow> silent t u \<Longrightarrow> silent s u"
  unfolding silent_def by (metis Un_iff adds_trans set_append)

lemma silent_out [simp]: "silent s (rx_out st m s)" "silent s (rx_err st m s)"
  unfolding rx_out_def rx_err_def by (rule silent_logs; simp add: handed_def)+

lemma silent_upd: "silent s t \<Longrightarrow> silent s (upd_m f t)" "silent s t \<Longrightarrow> silent s (upd_rxn r g t)"
  by (auto intro: silent_trans)

lemma silent_log_eq: "rs_log t = rs_log s \<Longrightarrow> silent s t"
  by (simp add: silentI [of _ "[]"] adds_def)

lemma silent_with_ba [simp]: "silent s (with_ba r f s)"
  by (rule silent_log_eq) (simp add: with_ba_def upd_rxn_def split: prod.splits)

section \<open>What the checks leave alone\<close>

text \<open>The parts of the state that decide on protection and delivery, without and with the keys.\<close>

definition kept :: "rxs \<Rightarrow> node_ref \<Rightarrow> u32 \<times> ieee80211_opmode \<times> u8 list \<times> u32 \<times> bool \<times> u8 list" where
  "kept s r =
     (let n = rx_node s r; m = rs_m s in
      (m_flags m, m_opmode m, m_myaddr m, bn_flags n, bn_port_valid n, bn_macaddr n))"

definition guards :: "rxs \<Rightarrow> node_ref \<Rightarrow> _ \<times> u32 \<times> iee_key \<times> iee_key list \<times> nat \<times> nat" where
  "guards s r =
     (let n = rx_node s r; m = rs_m s in
      (kept s r, bn_rsncipher n, bn_pairwise_key n, m_nw_keys m, m_igtk_kid m, m_def_txkey m))"

lemma guards_rs: "rs_m s = rs_m t \<Longrightarrow> guards s r = guards t r"
  by (simp add: guards_def kept_def rx_node_def)

lemma guardsD:
  assumes "guards s r = guards t r"
  shows "kept s r = kept t r" "rx_keysel s r = rx_keysel t r" "rx_keys s r = rx_keys t r"
  using assms by (simp_all add: guards_def kept_def rx_keysel_def rx_keys_def m_flag_def Let_def)

lemma keptD:
  assumes "kept s r = kept t r"
  shows "rx_protects s r = rx_protects t r" "bn_flags (rx_node s r) = bn_flags (rx_node t r)"
    "bn_macaddr (rx_node s r) = bn_macaddr (rx_node t r)" "m_opmode (rs_m s) = m_opmode (rs_m t)"
    "m_myaddr (rs_m s) = m_myaddr (rs_m t)" "m_flag (rs_m s) F_RSNON = m_flag (rs_m t) F_RSNON"
    "bn_port_valid (rx_node s r) = bn_port_valid (rx_node t r)"
  using assms by (simp_all add: kept_def rx_protects_def m_flag_def Let_def)

lemma the_node_upd:
  assumes "\<And>n. bn_macaddr (f n) = bn_macaddr n" and "\<And>n. g (f n) = g n"
  shows "g (the_node (upd_node r f s) r) = g (the_node s r)"
proof (cases r)
  case (Peer a)
  then show ?thesis
    using find_upd_node [of a f s a] assms by (auto simp: the_node_def node_at_def split: option.splits)
qed (simp add: the_node_def node_at_def upd_node_def assms)

lemma guards_logs [simp]: "guards (rx_logs es s) r = guards s r"
  by (rule guards_rs) (simp add: rx_logs_def)

lemma guards_rxn [simp]: "guards (upd_rxn r' g s) r = guards s r"
  by (rule guards_rs) (simp add: upd_rxn_def)

lemma guards_upd_node:
  assumes "\<And>n. bn_macaddr (f n) = bn_macaddr n"
    and "\<And>n. (bn_flags (f n), bn_port_valid (f n), bn_rsncipher (f n), bn_pairwise_key (f n)) =
              (bn_flags n, bn_port_valid n, bn_rsncipher n, bn_pairwise_key n)"
  shows "guards (upd_m (upd_node r f) s) r = guards s r"
proof -
  let ?g = "\<lambda>n. (bn_macaddr n, bn_flags n, bn_port_valid n, bn_rsncipher n, bn_pairwise_key n)"
  have "?g (the_node (upd_node r f (rs_m s)) r) = ?g (the_node (rs_m s) r)"
    by (rule the_node_upd) (use assms in auto)
  then show ?thesis
    by (auto simp: guards_def kept_def upd_m_def rx_node_def upd_node_def Let_def split: node_ref.splits)
qed

lemma guards_bgscan: "guards (upd_m (\<lambda>m. bgscan_by_rssi r (f m)) s) r = guards (upd_m f s) r"
  by (auto simp: guards_def kept_def upd_m_def rx_node_def bgscan_by_rssi_def the_node_def node_at_def find_node_def
      Let_def split: node_ref.splits)

lemma guards_signal [simp]: "guards (upd_m (rx_signal E r rxi) s) r = guards s r"
proof -
  let ?f = "\<lambda>n. n\<lparr>bn_rstamp := rxi_tstamp rxi, bn_rssi := ucast (rxi_rssi rxi), bn_inact := 0\<rparr>"
  have "guards (upd_m (upd_node r ?f) s) r = guards s r"
    by (rule guards_upd_node) auto
  moreover have "upd_m (rx_signal E r rxi) s \<in>
      {s, upd_m (upd_node r ?f) s, upd_m (\<lambda>m. bgscan_by_rssi r (upd_node r ?f m)) s}"
    by (cases s) (auto simp: rx_signal_def upd_m_def Let_def)
  ultimately show ?thesis
    using guards_bgscan [of r "upd_node r ?f" s] by auto
qed

lemma guards_powersave [simp]: "guards (rx_powersave m r s) r = guards s r"
proof -
  have "guards (upd_m (upd_node r (\<lambda>n. n\<lparr>bn_savedq := []\<rparr>)) t) r = guards t r" for t
    by (rule guards_upd_node) auto
  then show ?thesis by (simp add: rx_powersave_def Let_def)
qed

lemma silent_powersave: "silent s (rx_powersave m r s)"
  by (auto simp: rx_powersave_def Let_def handed_def intro!: silent_logs silent_upd)

section \<open>The way of a data frame\<close>

lemma silent_reorder: "rx_reorder m r rxi s = Some t \<Longrightarrow> silent s t"
proof -
  have "silent s (rx_err [] m (with_ba r f s))" for f
    by (rule silent_trans [OF silent_with_ba silent_out(2)])
  then show "rx_reorder m r rxi s = Some t \<Longrightarrow> silent s t"
    by (auto simp: rx_reorder_def Let_def split: if_splits)
qed

lemma silent_unknown: "silent s (rx_unknown E m s)"
proof -
  have "silent s (rx_err [Rs_Notassoc] m (s\<lparr>rs_m := t\<rparr>))" for t
    by (rule silent_trans [OF silent_log_eq silent_out(2)]) simp
  then show ?thesis by (simp add: rx_unknown_def Let_def split: prod.splits)
qed

lemma data_cases: "silent s (rx_data E m r rxi s) \<or> rx_data E m r rxi s = rx_msdu E m r rxi s"
proof -
  have "silent s (rx_err [Rs_Notassoc] m (upd_m f s))" for f
    by (rule silent_trans [OF _ silent_out(2)]) simp
  then show ?thesis
    by (cases "m_opmode (rs_m s)") (simp_all add: rx_data_def Let_def silent_unknown)
qed

lemma body_cases:
  assumes "fc0_type m = TYPE_DATA"
  obtains "silent s (inputm_body E m r rxi s)"
  | s1 where "silent s s1" "guards s1 r = guards s r" "inputm_body E m r rxi s = rx_msdu E m r rxi s1"
proof -
  have "silent s (rx_frame E m r rxi s) \<or>
      (\<exists>s1. silent s s1 \<and> guards s1 r = guards s r \<and> rx_frame E m r rxi s = rx_msdu E m r rxi s1)"
  proof -
    define s0 where "s0 = (if fc0_type m \<noteq> TYPE_CTL \<and> m_state (rs_m s) \<noteq> S_SCAN then upd_rxn r (record_seq m) s else s)"
    define s1 where "s1 = rx_powersave m r (upd_m (rx_signal E r rxi) s0)"
    have "silent s s1" "guards s1 r = guards s r"
      unfolding s1_def s0_def by (auto intro: silent_trans [OF silent_upd(1) silent_powersave])
    moreover have "rx_frame E m r rxi s = rx_data E m r rxi s1 \<or> silent s (rx_frame E m r rxi s)"
      using assms by (auto simp: rx_frame_def Let_def rx_type_def s1_def s0_def)
    ultimately show ?thesis
      using data_cases [of s1 E m r rxi] silent_trans [of s s1 "rx_data E m r rxi s1"] by auto
  qed
  moreover have "silent s (inputm_body E m r rxi s) \<or> inputm_body E m r rxi s = rx_frame E m r rxi s"
    using silent_reorder [of m r rxi s] by (simp add: inputm_body_def split: option.splits)
  ultimately show ?thesis using that by metis
qed

text \<open>How the content of a frame was obtained.  A frame that the driver has decrypted is stripped of its IV, and has a
  packet number that is new for its key, if its cipher is CCMP or TKIP and its protected bit is still set: it exceeds
  the counter of its priority, or equals it when the driver says that the frame is part of the same aggregate.
  If the driver has cleared the bit it has stripped the frame and is trusted to have checked the number.\<close>

definition packet_number :: "iee_key \<Rightarrow> mbuf \<Rightarrow> (u64 \<times> nat option) option" where
  "packet_number k m =
     (if k_cipher k = CIPHER_CCMP then ccmp_get_pn m
      else map_option (\<lambda>(tsc, tid). (tsc, Some tid)) (tkip_get_tsc m))"

definition driver_opened :: "rxinfo \<Rightarrow> iee_key \<Rightarrow> mbuf \<Rightarrow> mbuf \<Rightarrow> bool" where
  "driver_opened rxi k m m' \<longleftrightarrow>
     (if has_flag (byte_at m 1) FC1_PROTECTED \<and> k_cipher k \<in> {CIPHER_CCMP, CIPHER_TKIP}
      then (case packet_number k m of
              None \<Rightarrow> False
            | Some (pn, c) \<Rightarrow>
                (get_rsc c k < pn \<or> has_flag (rxi_flags rxi) IEEE80211_RXI_HWDEC_SAME_PN \<and> pn = get_rsc c k) \<and>
                m' = clear_protected (take (get_hdrlen m) m) @ drop (get_hdrlen m + 8) m)
      else m' = m)"

text \<open>Frames of a node that are protected are decrypted in software or by the driver, under a key that is there for
  them; the others came in clear.\<close>

definition opened :: "rx_env \<Rightarrow> rxs \<Rightarrow> mbuf \<Rightarrow> node_ref \<Rightarrow> rxinfo \<Rightarrow> mbuf \<Rightarrow> bool" where
  "opened E s m r rxi m' \<longleftrightarrow>
     (if rx_protects s r
      then if has_flag (rxi_flags rxi) IEEE80211_RXI_HWDEC
        then (case get_rxkey (rx_keysel s r) m of
                None \<Rightarrow> False
              | Some ref \<Rightarrow> driver_opened rxi (key_of (fst (rx_keys s r)) (snd (rx_keys s r)) ref) m m')
        else has_flag (byte_at m 1) FC1_PROTECTED \<and>
             fst (decrypt (re_crypt E) (re_prims E) (rx_keysel s r) (rx_keys s r) m) = Inr m'
      else m' = m \<and> \<not> has_flag (byte_at m 1) FC1_PROTECTED \<and> \<not> has_flag (rxi_flags rxi) IEEE80211_RXI_HWDEC)"

lemma hw_key_opened: "fst (snd (hw_key rxi m k)) = Some m' \<Longrightarrow> driver_opened rxi k m m'"
  by (auto simp: hw_key_def hw_strip_def driver_opened_def packet_number_def not_less not_le
      split: if_splits option.splits)

lemma opened_cong: "guards s r = guards t r \<Longrightarrow> opened E s m r rxi m' = opened E t m r rxi m'"
  using guardsD [of s r t] keptD(1) [of s r t] by (simp add: opened_def split: option.split)

lemma kept_put_keys [simp]: "kept (put_rx_keys r ks s) r = kept s r"
proof -
  let ?f = "\<lambda>n. n\<lparr>bn_pairwise_key := fst ks\<rparr>"
  let ?g = "\<lambda>n. (bn_flags n, bn_port_valid n, bn_macaddr n)"
  have "?g (the_node (upd_node r ?f (rs_m s)) r) = ?g (the_node (rs_m s) r)"
    by (rule the_node_upd) auto
  moreover have "the_node ((upd_node r ?f (rs_m s))\<lparr>m_nw_keys := snd ks\<rparr>) r = the_node (upd_node r ?f (rs_m s)) r"
    by (simp add: the_node_def node_at_def find_node_def split: node_ref.splits)
  ultimately show ?thesis
    by (auto simp: kept_def put_rx_keys_def upd_m_def rx_node_def upd_node_def Let_def split: node_ref.splits)
qed

lemma kept_logs [simp]: "kept (rx_logs es s) r = kept s r"
  by (simp add: kept_def rx_logs_def rx_node_def)

lemma silent_put_keys [simp]: "silent s (put_rx_keys r ks s)"
  by (simp add: put_rx_keys_def)

lemma decrypt_effect:
  assumes "rx_decrypt E m r s = (x, t)"
  shows "silent s t" "kept t r = kept s r"
    "x = Some m' \<Longrightarrow> fst (decrypt (re_crypt E) (re_prims E) (rx_keysel s r) (rx_keys s r) m) = Inr m'"
  using assms by (auto simp: rx_decrypt_def handed_def split: prod.splits sum.splits intro!: silent_logs)

lemma hwdecrypt_effect:
  assumes "input_hwdecrypt m r rxi s = (x, t)"
  shows "silent s t" "kept t r = kept s r"
    "x = Some m' \<Longrightarrow> (case get_rxkey (rx_keysel s r) m of
         None \<Rightarrow> False
       | Some ref \<Rightarrow> driver_opened rxi (key_of (fst (rx_keys s r)) (snd (rx_keys s r)) ref) m m')"
  using assms by (auto simp: input_hwdecrypt_def Let_def handed_def split: option.splits prod.splits
      intro!: silent_logs hw_key_opened)

lemma clear_effect:
  assumes "rx_clear E m r rxi s = (x, t)"
  shows "silent s t" "kept t r = kept s r" "x = Some m' \<Longrightarrow> opened E s m r rxi m'"
proof -
  have "silent s t \<and> kept t r = kept s r \<and> (x = Some m' \<longrightarrow> opened E s m r rxi m')"
  proof (cases "rx_protects s r")
    case True
    show ?thesis
    proof (cases "has_flag (rxi_flags rxi) IEEE80211_RXI_HWDEC")
      case hw: True
      obtain y u where "input_hwdecrypt m r rxi s = (y, u)" by fastforce
      moreover note hwdecrypt_effect [OF this]
      ultimately show ?thesis
        using assms True hw
        by (auto simp: rx_clear_def opened_def handed_def split: option.splits intro!: silent_logs)
    next
      case False
      obtain y u where "rx_decrypt E m r s = (y, u)" by fastforce
      moreover note decrypt_effect [OF this]
      ultimately show ?thesis
        using assms True False
        by (auto simp: rx_clear_def opened_def handed_def rx_err_def split: option.splits if_splits intro!: silent_logs)
    qed
  next
    case False
    then show ?thesis
      using assms by (auto simp: rx_clear_def opened_def rx_out_def handed_def split: if_splits intro!: silent_logs)
  qed
  then show "silent s t" "kept t r = kept s r" "x = Some m' \<Longrightarrow> opened E s m r rxi m'" by auto
qed

section \<open>What is handed on\<close>

fun frame_of :: "rx_event \<Rightarrow> mbuf" where
  "frame_of (Rx_Deliver f) = f"
| "frame_of (Rx_User_Copy f) = f"
| "frame_of (Rx_Bridge f) = f"
| "frame_of (Rx_Eapol f) = f"
| "frame_of (Rx_Mgmt f t) = f"
| "frame_of (Rx_Free f) = f"
| "frame_of (Rx_Resend f) = f"
| "frame_of _ = []"

definition amsdu_of :: "rxs \<Rightarrow> node_ref \<Rightarrow> amsdu_ctx" where
  "amsdu_of s r = \<lparr>am_opmode = m_opmode (rs_m s), am_myaddr = m_myaddr (rs_m s), am_macaddr = bn_macaddr (rx_node s r)\<rparr>"

text \<open>The Ethernet frames in the clear frame \<open>m'\<close> of the received frame \<open>m\<close>.\<close>

definition msdus :: "rx_env \<Rightarrow> rxs \<Rightarrow> node_ref \<Rightarrow> mbuf \<Rightarrow> mbuf \<Rightarrow> mbuf list" where
  "msdus E s r m m' =
     (if has_flag (bn_flags (rx_node s r)) NODE_HT \<and> has_qos m \<and> has_flag (get_qos m) QOS_AMSDU
      then case amsdu_decap (amsdu_of s r) (re_pull E) (re_split E) m' (get_hdrlen m) of
             None \<Rightarrow> [] | Some fs \<Rightarrow> map fst fs
      else [decap_ether m' (get_hdrlen m)])"

lemma msdus_cong: "kept s r = kept t r \<Longrightarrow> msdus E s r m m' = msdus E t r m m'"
  using keptD [of s r t] by (simp add: msdus_def amsdu_of_def)

text \<open>The events added are all of a kind.\<close>

definition adds_only :: "(rx_event \<Rightarrow> bool) \<Rightarrow> rxs \<Rightarrow> rxs \<Rightarrow> bool" where
  "adds_only P s t \<longleftrightarrow> (\<exists>es. adds s es t \<and> (\<forall>e \<in> set es. P e))"

lemma adds_only_trans: "adds_only P s t \<Longrightarrow> adds_only P t u \<Longrightarrow> adds_only P s u"
  unfolding adds_only_def by (metis Un_iff adds_trans set_append)

lemma adds_only_logs: "\<forall>e \<in> set es. P e \<Longrightarrow> adds_only P s (rx_logs es s)"
  unfolding adds_only_def using adds_logs [of s "[]" s es] by auto

lemma adds_only_refl [simp]: "adds_only P s s"
  unfolding adds_only_def by (rule exI [of _ "[]"]) simp

lemma silent_only: "silent s t \<Longrightarrow> (\<And>e. \<not> handed e \<Longrightarrow> P e) \<Longrightarrow> adds_only P s t"
  by (auto simp: silent_def adds_only_def)

lemma adds_only_fold:
  assumes "\<And>x s. x \<in> set xs \<Longrightarrow> adds_only P s (f x s)"
  shows "adds_only P s (fold f xs s)"
  using assms
proof (induction xs arbitrary: s)
  case (Cons x xs)
  then have "adds_only P s (f x s)" "adds_only P (f x s) (fold f xs (f x s))" by auto
  then show ?case by (simp add: adds_only_trans)
qed simp

text \<open>The handler of EAPOL frames hands no data on itself.\<close>

lemma enqueue_only:
  assumes "\<And>f t. silent t (re_eapol E f r t)"
  shows "adds_only (\<lambda>e. handed e \<longrightarrow> frame_of e = f) s (enqueue_data E f r mc s)"
proof -
  let ?P = "\<lambda>e. handed e \<longrightarrow> frame_of e = f"
  have out: "adds_only ?P s (rx_out [Rs_Unauth] f s)" for s
    unfolding rx_out_def by (rule adds_only_logs) (simp add: handed_def)
  have log: "adds_only ?P s (rx_logs es s)" if "\<forall>e \<in> set es. ?P e" for s es
    using that by (rule adds_only_logs)
  have eapol: "adds_only ?P s (re_eapol E f r (rx_logs [Rx_Eapol f] s))" for s
    by (rule adds_only_trans [OF log silent_only [OF assms]]) simp_all
  have pae: "adds_only ?P s (rx_pae E f r s)" for s
    unfolding rx_pae_def Let_def
    by (rule adds_only_trans [OF log]) (auto intro!: eapol log adds_only_trans [OF log eapol])
  have bridge: "snd (rx_bridge E mc f s) = t \<Longrightarrow> adds_only ?P s t" "fst (rx_bridge E mc f s) \<in> {None, Some f}" for t
    by (auto simp: rx_bridge_def rx_enqueue_def intro!: log split: if_splits)
  show ?thesis
  proof (cases "rx_bridge E mc f s")
    case (Pair x t)
    then have "adds_only ?P s t" "x \<in> {None, Some f}"
      using bridge by auto
    moreover from this have "adds_only ?P s (rx_pae E f r t)" "adds_only ?P s (rx_logs [Rx_Deliver f] t)"
      by (auto intro: adds_only_trans [OF _ pae] adds_only_trans [OF _ log])
    ultimately show ?thesis
      using Pair out by (auto simp: enqueue_data_def)
  qed
qed

lemma msdu_only:
  assumes "\<And>f t. silent t (re_eapol E f r t)"
  shows "silent s (rx_msdu E m r rxi s) \<or>
    (\<exists>m'. opened E s m r rxi m' \<and>
       adds_only (\<lambda>e. handed e \<longrightarrow> frame_of e \<in> set (msdus E s r m m')) s (rx_msdu E m r rxi s))"
proof (cases "rx_clear E m r rxi s")
  case (Pair x t)
  note eff = clear_effect [OF Pair]
  show ?thesis
  proof (cases x)
    case None
    then show ?thesis using Pair eff by (simp add: rx_msdu_def)
  next
    case (Some m')
    let ?P = "\<lambda>e. handed e \<longrightarrow> frame_of e \<in> set (msdus E s r m m')"
    have enq: "adds_only ?P u (enqueue_data E f r mc u)" if "f \<in> set (msdus E s r m m')" for f mc u
      using enqueue_only [OF assms, of f u mc] that unfolding adds_only_def by blast
    have drop: "adds_only ?P u (rx_logs es u)" if "\<forall>e \<in> set es. \<not> handed e" for es u
      by (rule adds_only_logs) (use that in blast)
    have ms: "msdus E s r m m' = msdus E t r m m'"
      by (rule msdus_cong [OF eff(2) [symmetric]])
    have "adds_only ?P t (decap E m' r (get_hdrlen m) t)"
      if "msdus E s r m m' = [decap_ether m' (get_hdrlen m)]"
    proof -
      have "adds_only ?P t (enqueue_data E (decap_ether m' (get_hdrlen m)) r (is_mcast m') t)"
        by (rule enq) (simp add: that)
      then show ?thesis
        unfolding decap_def using drop [of "[Rx_Stat Rs_Decap, Rx_Free m']"] by auto
    qed
    moreover have "adds_only ?P t (decap_amsdu E m' r (get_hdrlen m) t)"
      if eq: "msdus E s r m m' = (case amsdu_decap (amsdu_of t r) (re_pull E) (re_split E) m' (get_hdrlen m) of
             None \<Rightarrow> [] | Some fs \<Rightarrow> map fst fs)"
    proof (cases "amsdu_decap (amsdu_of t r) (re_pull E) (re_split E) m' (get_hdrlen m)")
      case None
      then show ?thesis
        unfolding decap_amsdu_def amsdu_of_def [symmetric] by (simp add: drop)
    next
      case (Some fs)
      then have "msdus E s r m m' = map fst fs" using eq by simp
      then have "adds_only ?P u ((case x of (f, mc) \<Rightarrow> enqueue_data E f r mc) u)" if "x \<in> set fs" for x u
        using that enq [of "fst x"] by (simp add: case_prod_beta)
      then show ?thesis
        using Some unfolding decap_amsdu_def amsdu_of_def [symmetric] by simp (rule adds_only_fold)
    qed
    ultimately have "frame_subtype m AND SUBTYPE_NODATA \<noteq> 0 \<or> adds_only ?P t (rx_msdu E m r rxi s)"
      using Pair Some ms by (auto simp: rx_msdu_def msdus_def)
    moreover have "adds_only ?P s t"
      using eff(1) by (rule silent_only) blast
    moreover have "opened E s m r rxi m'"
      using eff(3) Some by simp
    moreover have "silent s (rx_msdu E m r rxi s)" if "frame_subtype m AND SUBTYPE_NODATA \<noteq> 0"
      using that by (simp add: rx_msdu_def)
    ultimately show ?thesis
      using adds_only_trans by blast
  qed
qed

section \<open>The port\<close>

text \<open>A call of \<open>inputm_body\<close> before the first EAPOL frame it hands over.\<close>

definition before_eapol :: "rx_event list \<Rightarrow> rx_event list" where
  "before_eapol es = takeWhile (\<lambda>e. \<forall>f. e \<noteq> Rx_Eapol f) es"

definition blocked :: "rxs \<Rightarrow> node_ref \<Rightarrow> bool" where
  "blocked s r \<longleftrightarrow> m_flag (rs_m s) F_RSNON \<and> \<not> bn_port_valid (rx_node s r)"

text \<open>Only EAPOL frames are handed on, until one has reached its handler.\<close>

definition shut :: "node_ref \<Rightarrow> rxs \<Rightarrow> rxs \<Rightarrow> bool" where
  "shut r s t \<longleftrightarrow>
     (\<exists>es. adds s es t \<and> (\<forall>e \<in> set (before_eapol es). handed e \<longrightarrow> ether_type (frame_of e) = ETHERTYPE_PAE) \<and>
        ((\<exists>f. Rx_Eapol f \<in> set es) \<or> blocked t r))"

lemma before_eapol_append:
  "before_eapol (es @ es') = (if \<exists>f. Rx_Eapol f \<in> set es then before_eapol es else before_eapol es @ before_eapol es')"
  by (induction es) (auto simp: before_eapol_def)

lemma before_eapol_sub: "e \<in> set (before_eapol es) \<Longrightarrow> e \<in> set es"
  by (auto simp: before_eapol_def dest: set_takeWhileD)

lemma shut_step:
  assumes "shut r s t" "\<exists>es. adds t es u" "blocked t r \<Longrightarrow> shut r t u"
  shows "shut r s u"
proof -
  from assms(1) obtain es where es: "adds s es t"
      "\<forall>e \<in> set (before_eapol es). handed e \<longrightarrow> ether_type (frame_of e) = ETHERTYPE_PAE"
      "(\<exists>f. Rx_Eapol f \<in> set es) \<or> blocked t r"
    by (auto simp: shut_def)
  show ?thesis
  proof (cases "\<exists>f. Rx_Eapol f \<in> set es")
    case True
    with assms(2) es adds_trans [OF es(1)] show ?thesis
      unfolding shut_def by (metis Un_iff before_eapol_append set_append)
  next
    case False
    with es(3) assms(3) obtain es' where es': "adds t es' u"
        "\<forall>e \<in> set (before_eapol es'). handed e \<longrightarrow> ether_type (frame_of e) = ETHERTYPE_PAE"
        "(\<exists>f. Rx_Eapol f \<in> set es') \<or> blocked u r"
      by (auto simp: shut_def)
    have "before_eapol (es @ es') = before_eapol es @ before_eapol es'"
      using False by (simp add: before_eapol_append)
    then show ?thesis
      unfolding shut_def using adds_trans [OF es(1) es'(1)] es(2) es'(2,3) by (intro exI [of _ "es @ es'"]) auto
  qed
qed

lemma shut_any: "shut r s t \<Longrightarrow> \<exists>es. adds s es t"
  by (auto simp: shut_def)

lemma shut_trans: "shut r s t \<Longrightarrow> shut r t u \<Longrightarrow> shut r s u"
  by (rule shut_step [OF _ shut_any])

lemma silent_shut: "silent s t \<Longrightarrow> blocked t r \<Longrightarrow> shut r s t"
  unfolding silent_def shut_def using before_eapol_sub by blast

lemma blocked_logs [simp]: "blocked (rx_logs es s) r = blocked s r"
  by (simp add: blocked_def rx_logs_def rx_node_def)

lemma blocked_out [simp]: "blocked (rx_out st m s) r = blocked s r"
  by (simp add: rx_out_def)

lemma blocked_kept: "kept s r = kept t r \<Longrightarrow> blocked s r = blocked t r"
  using keptD(6,7) [of s r t] by (simp add: blocked_def)

lemma shut_logs:
  "blocked s r \<Longrightarrow> \<forall>e \<in> set es. handed e \<longrightarrow> ether_type (frame_of e) = ETHERTYPE_PAE \<Longrightarrow> shut r s (rx_logs es s)"
  unfolding shut_def using adds_logs [of s "[]" s es] before_eapol_sub by (intro exI [of _ es]) auto

lemma any_simps [simp]: "\<exists>es. adds s es s" "\<exists>es. adds s es (rx_logs es' s)"
  using adds_logs [of s "[]" s es'] adds_refl(1) by blast+

lemma shut_eapol:
  assumes "\<And>f t. \<exists>es. adds t es (re_eapol E f r t)" and "blocked s r" "ether_type f = ETHERTYPE_PAE"
  shows "shut r s (re_eapol E f r (rx_logs [Rx_Eapol f] s))"
proof -
  obtain es where "adds (rx_logs [Rx_Eapol f] s) es (re_eapol E f r (rx_logs [Rx_Eapol f] s))"
    using assms(1) by blast
  moreover have "adds s [Rx_Eapol f] (rx_logs [Rx_Eapol f] s)"
    using adds_logs [of s "[]" s "[Rx_Eapol f]"] by simp
  ultimately have "adds s ([Rx_Eapol f] @ es) (re_eapol E f r (rx_logs [Rx_Eapol f] s))"
    by (blast intro: adds_trans)
  moreover have "before_eapol ([Rx_Eapol f] @ es) = []"
    by (simp add: before_eapol_def)
  ultimately show ?thesis
    unfolding shut_def by (intro exI [of _ "[Rx_Eapol f] @ es"]) auto
qed

lemma enqueue_shut:
  assumes "\<And>f t. \<exists>es. adds t es (re_eapol E f r t)" and "blocked s r"
  shows "shut r s (enqueue_data E f r mc s)"
proof (cases "ether_type f = ETHERTYPE_PAE")
  case True
  have eapol: "shut r t (re_eapol E f r (rx_logs [Rx_Eapol f] t))" if "blocked t r" for t
    using assms(1) that True by (rule shut_eapol)
  have after: "shut r t (re_eapol E f r (rx_logs [Rx_Eapol f] (rx_logs es t)))"
    if "blocked t r" "\<forall>e \<in> set es. handed e \<longrightarrow> frame_of e = f" for t es
    by (rule shut_trans [OF shut_logs eapol]) (use that True in auto)
  have logs: "shut r t (rx_logs es t)" if "blocked t r" "\<forall>e \<in> set es. handed e \<longrightarrow> frame_of e = f" for t es
    using that True by (auto intro: shut_logs)
  have "enqueue_data E f r mc s = rx_pae E f r s"
    using True assms(2) by (simp add: enqueue_data_def rx_bridge_def blocked_def)
  moreover have "rx_pae E f r s \<in> {rx_logs [Rx_Input_Packet, Rx_Deliver f] s,
      re_eapol E f r (rx_logs [Rx_Eapol f] (rx_logs [Rx_Input_Packet] s)),
      re_eapol E f r (rx_logs [Rx_Eapol f] (rx_logs [Rx_Input_Packet, Rx_User_Copy f] s))}"
    by (auto simp: rx_pae_def rx_logs_def Let_def)
  ultimately show ?thesis
    using logs [OF assms(2)] after [OF assms(2)] by auto
next
  case False
  then have "enqueue_data E f r mc s = rx_out [Rs_Unauth] f s"
    using assms(2) by (simp add: enqueue_data_def blocked_def)
  then show ?thesis using silent_shut [OF silent_out(1)] assms(2) by simp
qed

lemma enqueue_any:
  assumes "\<And>f t. \<exists>es. adds t es (re_eapol E f r t)"
  shows "\<exists>es. adds s es (enqueue_data E f r mc s)"
proof -
  have logs: "\<exists>es. adds s es t \<Longrightarrow> \<exists>es. adds s es (rx_logs es' t)" for t es'
    using adds_logs by blast
  have eapol: "\<exists>es. adds s es t \<Longrightarrow> \<exists>es. adds s es (re_eapol E f r t)" for t
    using assms adds_trans by blast
  have "\<exists>es. adds s es (snd (rx_bridge E mc f s))"
    by (auto simp: rx_bridge_def rx_enqueue_def)
  moreover have "\<exists>es. adds s es t \<Longrightarrow> \<exists>es. adds s es (rx_pae E f r t)" for t
    by (auto simp: rx_pae_def Let_def intro!: logs eapol)
  ultimately have "\<exists>es. adds s es (snd (rx_bridge E mc f s))"
      "\<exists>es. adds s es (rx_pae E f r (snd (rx_bridge E mc f s)))"
      "\<exists>es. adds s es (rx_logs [Rx_Deliver f] (snd (rx_bridge E mc f s)))"
    using logs by blast+
  moreover have "fst (rx_bridge E mc f s) \<in> {None, Some f}"
    by (simp add: rx_bridge_def)
  moreover have "\<exists>es. adds s es (rx_out [Rs_Unauth] f s)"
    by (simp add: rx_out_def)
  ultimately show ?thesis
    by (cases "rx_bridge E mc f s") (auto simp: enqueue_data_def)
qed

lemma fold_shut:
  assumes "\<And>x s. x \<in> set xs \<Longrightarrow> blocked s r \<Longrightarrow> shut r s (f x s)"
    and "\<And>x s. x \<in> set xs \<Longrightarrow> \<exists>es. adds s es (f x s)" and "blocked s r"
  shows "shut r s (fold f xs s)"
  using assms
proof (induction xs rule: rev_induct)
  case (snoc x xs)
  then have "shut r s (fold f xs s)" by simp
  then show ?case
    using shut_step snoc.prems(1,2) by (simp add: shut_step)
qed (simp add: silent_shut)

lemma msdu_shut:
  assumes "\<And>f t. \<exists>es. adds t es (re_eapol E f r t)" and "blocked s r"
  shows "shut r s (rx_msdu E m r rxi s)"
proof (cases "rx_clear E m r rxi s")
  case (Pair x t)
  note eff = clear_effect [OF Pair]
  have b: "blocked t r" and st: "shut r s t"
    using blocked_kept [OF eff(2)] silent_shut [OF eff(1)] assms(2) by auto
  note enq = enqueue_shut [OF assms(1)] enqueue_any [OF assms(1)]
  have dec: "shut r t (decap E m' r n t)" for m' n
    using enq(1) b by (auto simp: decap_def intro!: shut_logs)
  have ams: "shut r t (decap_amsdu E m' r n t)" for m' n
    using b enq by (auto simp: decap_amsdu_def intro!: shut_logs fold_shut split: option.splits)
  have "shut r s (decap E m' r n t)" "shut r s (decap_amsdu E m' r n t)" for m' n
    using shut_trans [OF st dec] shut_trans [OF st ams] by auto
  then show ?thesis
    using Pair st silent_shut [OF silent_out(1)] assms(2)
    by (auto simp: rx_msdu_def split: option.splits)
qed

section \<open>Management frames\<close>

definition no_mgmt :: "rx_event \<Rightarrow> bool" where
  "no_mgmt e \<longleftrightarrow> (\<forall>f t. e \<noteq> Rx_Mgmt f t)"

lemma no_mgmt_out: "adds_only no_mgmt s (rx_out st m s)" "adds_only no_mgmt s (rx_err st m s)"
  by (auto simp: rx_out_def rx_err_def no_mgmt_def intro!: adds_only_logs)

lemma no_mgmt_upd: "adds_only P s (upd_m f s)" "adds_only P s (upd_rxn r g s)" "adds_only P s (put_rx_keys r ks s)"
  unfolding adds_only_def put_rx_keys_def by (rule exI [of _ "[]"]; simp)+

lemma no_mgmt_powersave: "adds_only no_mgmt s (rx_powersave m r s)"
proof -
  have "adds_only no_mgmt s (rx_logs (Rx_Set_Tim a # map Rx_Resend q) (upd_m f (upd_rxn r g s)))" for a q f g
    by (rule adds_only_trans [OF adds_only_trans [OF no_mgmt_upd(2) no_mgmt_upd(1)] adds_only_logs])
      (auto simp: no_mgmt_def)
  then show ?thesis
    by (simp add: rx_powersave_def Let_def no_mgmt_upd)
qed

lemma mgmt_body:
  assumes "fc0_type m = TYPE_MGT"
  obtains "adds_only no_mgmt s (inputm_body E m r rxi s)"
  | s1 where "adds_only no_mgmt s s1" "guards s1 r = guards s r" "inputm_body E m r rxi s = rx_mgmt E m r rxi s1"
proof -
  define s0 where "s0 = (if m_state (rs_m s) \<noteq> S_SCAN then upd_rxn r (record_seq m) s else s)"
  define s1 where "s1 = rx_powersave m r (upd_m (rx_signal E r rxi) s0)"
  have s0: "adds_only no_mgmt s s0" "guards s0 r = guards s r"
    by (auto simp: s0_def no_mgmt_upd)
  have "adds_only no_mgmt s s1"
    unfolding s1_def using s0(1) no_mgmt_upd(1) no_mgmt_powersave by (rule adds_only_trans [OF adds_only_trans])
  moreover have "guards s1 r = guards s r"
    by (simp add: s1_def s0(2))
  moreover have "adds_only no_mgmt s (rx_frame E m r rxi s) \<or> rx_frame E m r rxi s = rx_mgmt E m r rxi s1"
    using assms by (auto simp: rx_frame_def Let_def rx_type_def s1_def s0_def no_mgmt_out)
  moreover have "adds_only no_mgmt s (inputm_body E m r rxi s) \<or> inputm_body E m r rxi s = rx_frame E m r rxi s"
    using assms by (simp add: inputm_body_def wants_reorder_def no_mgmt_out)
  ultimately show ?thesis using that by metis
qed

text \<open>What a protected node's frame of the three protected subtypes brings to the handler.\<close>

lemma mgmt_protected:
  assumes "has_flag (bn_flags (rx_node s r)) NODE_RXMGMTPROT" "frame_subtype m \<in> {ST_DISASSOC, ST_DEAUTH, ST_ACTION}"
    and "\<And>f t st. adds_only no_mgmt t (re_mgmt E f r rxi st t)"
  shows "adds_only (\<lambda>e. \<forall>f st. e = Rx_Mgmt f st \<longrightarrow> st = frame_subtype m \<and>
      (is_mcast m \<or> has_flag (byte_at m 1) FC1_PROTECTED) \<and>
      fst (decrypt (re_crypt E) (re_prims E) (rx_keysel s r) (rx_keys s r) m) = Inr f) s (rx_mgmt E m r rxi s)"
    (is "adds_only ?P _ _")
proof -
  have weak: "adds_only no_mgmt t u \<Longrightarrow> adds_only ?P t u" for t u
    unfolding adds_only_def no_mgmt_def by blast
  note out = weak [OF no_mgmt_out(1)] weak [OF no_mgmt_out(2)]
  obtain x t where d: "rx_decrypt E m r s = (x, t)" by fastforce
  have t: "adds_only no_mgmt s t"
    using d by (auto simp: rx_decrypt_def no_mgmt_def no_mgmt_upd split: prod.splits sum.splits
        intro!: adds_only_trans [OF no_mgmt_upd(3) adds_only_logs])
  have hand: "adds_only ?P s (rx_hand_mgmt E f r rxi (frame_subtype m) t)"
    if "x = Some f" "is_mcast m \<or> has_flag (byte_at m 1) FC1_PROTECTED" for f
  proof -
    let ?u = "rx_logs [Rx_Mgmt f (frame_subtype m)] t"
    have "adds_only ?P t ?u"
      using decrypt_effect(3) [OF d that(1)] that(2) by (intro adds_only_logs) simp
    moreover have "adds_only ?P ?u (re_mgmt E f r rxi (frame_subtype m) ?u)"
      using assms(3) by (rule weak)
    moreover have "adds_only ?P u (rx_logs [Rx_Free f] u)" for u
      by (rule adds_only_logs) simp
    ultimately show ?thesis
      unfolding rx_hand_mgmt_def using weak [OF t] adds_only_trans by blast
  qed
  have "rx_mgmt E m r rxi s \<in> {rx_err [Rs_Wrongdir] m s, rx_out [Rs_Ahdemo_Mgt] m s, rx_out [Rs_Mgtdiscard] m s,
        rx_out [] m s, t} \<or>
      (\<exists>f. x = Some f \<and> (is_mcast m \<or> has_flag (byte_at m 1) FC1_PROTECTED) \<and>
         rx_mgmt E m r rxi s = rx_hand_mgmt E f r rxi (frame_subtype m) t)"
    using assms(1,2) d by (cases x) (auto simp: rx_mgmt_def Let_def)
  then show ?thesis
    using hand weak [OF t] out by (elim disjE exE conjE insertE emptyE) simp_all
qed

section \<open>A station of an RSN network\<close>

definition rx_demo_ba :: ba_node where
  "rx_demo_ba = \<lparr>ni_rx_ba = [], ni_tx_ba = [], ni_flags = 0, ni_rsncaps = 0, ni_port_valid = False,
     ni_qos_txseqs = [], ni_addba_req_to = [], ni_addba_req_intval = [], ni_sa_query_trid = 0, ni_sa_query_to = None\<rparr>"

definition rx_demo_com :: ba_com where
  "rx_demo_com = \<lparr>ic_state = S_RUN, ic_opmode = M_STA, ic_flags = 0, ic_xflags = 0, ic_caps = 0, ic_htcaps = 0,
     ic_tid_noack = 0, ic_dialog_token = 0,
     ic_cx = \<lparr>rx_stats = ba_stats.make 0 0 0 0 0 0 0 0 0 0 0 0, inputErrors = 0, rx_up = [], rx_freed = []\<rparr>, ic_out = []\<rparr>"

definition rx_demo :: "u32 \<Rightarrow> bool \<Rightarrow> iee_key \<Rightarrow> iee_key \<Rightarrow> rxs" where
  "rx_demo fl port pk igtk =
     \<lparr>rs_m = demo_mlme\<lparr>m_state := S_RUN, m_flags := F_RSNON,
        m_bss := zero_node\<lparr>bn_chan := Some 1, bn_rsncipher := CIPHER_CCMP, bn_pairwise_key := pk, bn_port_valid := port, bn_flags := fl\<rparr>,
        m_nw_keys := [zero_key, zero_key, zero_key, zero_key, igtk, zero_key]\<rparr>,
      rs_node = (\<lambda>_. \<lparr>rn_rxseq = 0, rn_qos_rxseqs = replicate 16 0, rn_doze = False, rn_ba = rx_demo_ba\<rparr>),
      rs_com = rx_demo_com, rs_log = []\<rparr>"

definition rx_demo_env :: rx_env where
  "rx_demo_env = \<lparr>re_hk = demo_hk\<lparr>mh_apple := True\<rparr>, re_crypt = \<lparr>ce_first = True, ce_rest = True, ce_random = 0\<rparr>,
     re_prims = \<lparr>pr_md5 = (\<lambda>_. []), pr_sha1 = (\<lambda>_. []), pr_sha256 = (\<lambda>_. []),
       pr_aes_enc = (\<lambda>_ _. replicate 16 0), pr_aes_dec = (\<lambda>_ _. replicate 16 0)\<rparr>,
     re_pull = (\<lambda>_. True), re_split = (\<lambda>_. True), re_dup = True, re_enqueue = True, re_simplex = True,
     re_bgscan_start = False, re_tahoe = False, re_eapol = (\<lambda>_ _ s. s), re_mgmt = (\<lambda>_ _ _ _ s. s)\<rparr>"

definition rx_demo_info :: "u32 \<Rightarrow> rxinfo" where
  "rx_demo_info fl = \<lparr>rxi_flags = fl, rxi_tstamp = 1, rxi_rssi = 50, rxi_chan = 1\<rparr>"

text \<open>An EAPOL frame in clear, a data frame under CCMP with packet number 5, and a deauthentication to all
  stations with an integrity code.\<close>

definition rx_demo_eapol :: mbuf where
  "rx_demo_eapol = [0x08, 0x02, 0, 0, 2, 0, 0, 0, 0, 9] @ replicate 6 0 @ [2, 0, 0, 0, 0, 7, 0x10, 0,
     0xaa, 0xaa, 3, 0, 0, 0, 0x88, 0x8e, 1, 3]"

definition rx_demo_data :: mbuf where
  "rx_demo_data = [0x08, 0x42, 0, 0, 2, 0, 0, 0, 0, 9] @ replicate 6 0 @ [2, 0, 0, 0, 0, 7, 0x10, 0,
     5, 0, 0, 0x20, 0, 0, 0, 0, 0xaa, 0xaa, 3, 0, 0, 0, 8, 0, 0x45]"

definition rx_demo_deauth :: mbuf where
  "rx_demo_deauth = [0xc0, 0, 0, 0] @ replicate 6 0xff @ replicate 12 0 @ [0x10, 0, 3, 0,
     76, 16, 4, 0, 1, 0, 0, 0, 0, 0, 0, 0, 0, 0, 0, 0, 0, 0]"

section \<open>Properties\<close>

text \<open>C30. As long as the port of a node is not valid in an RSN network, a received frame of the node brings
  only EAPOL frames to the network layer, to the transmit queue of the access point or to the handler of the
  handshake; other data gets through only after an EAPOL frame of the same aggregate has reached that
  handler, which may have opened the port.\<close>

theorem port_controls_delivery:
  assumes "fc0_type m = TYPE_DATA" "m_flag (rs_m s) F_RSNON" "\<not> bn_port_valid (rx_node s r)"
    and "\<And>f t. \<exists>es. rs_log (re_eapol E f r t) = rs_log t @ es"
    and "rs_log (inputm_body E m r rxi s) = rs_log s @ es" "e \<in> set (before_eapol es)" "handed e"
  shows "ether_type (frame_of e) = ETHERTYPE_PAE"
proof -
  have eapol: "\<exists>es. adds t es (re_eapol E f r t)" for f t
    using assms(4) by (simp add: adds_def)
  have b: "blocked s r"
    using assms(2,3) by (simp add: blocked_def)
  have no: "\<not> silent s (inputm_body E m r rxi s)"
    using assms(5-7) before_eapol_sub by (auto simp: silent_def adds_def)
  from assms(1) obtain s1 where s1: "silent s s1" "guards s1 r = guards s r"
      "inputm_body E m r rxi s = rx_msdu E m r rxi s1"
    using no by (cases rule: body_cases [of m s E r rxi]) auto
  have "blocked s1 r"
    using b blocked_kept [OF guardsD(1) [OF s1(2)]] by simp
  then have "shut r s (inputm_body E m r rxi s)"
    unfolding s1(3) using shut_trans [OF silent_shut [OF s1(1)] msdu_shut [OF eapol]] by blast
  then show ?thesis
    using assms(5-7) unfolding shut_def by (auto simp: adds_def)
qed

theorem port_controls_delivery_witness:
  "ether_type (frame_of (Rx_Deliver ([2, 0, 0, 0, 0, 9, 2, 0, 0, 0, 0, 7, 0x88, 0x8e, 1, 3]))) = ETHERTYPE_PAE"
proof -
  let ?s = "rx_demo 0 False zero_key zero_key"
  let ?e = "Rx_Deliver [2, 0, 0, 0, 0, 9, 2, 0, 0, 0, 0, 7, 0x88, 0x8e, 1, 3]"
  have "fc0_type rx_demo_eapol = TYPE_DATA" "m_flag (rs_m ?s) F_RSNON" "\<not> bn_port_valid (rx_node ?s Bss)"
    by code_simp+
  moreover have "\<exists>es. rs_log (re_eapol rx_demo_env f Bss t) = rs_log t @ es" for f t
    by (simp add: rx_demo_env_def)
  moreover have "rs_log (inputm_body rx_demo_env rx_demo_eapol Bss (rx_demo_info 0) ?s) = rs_log ?s @ [Rx_Input_Packet, ?e]"
    by code_simp
  ultimately show ?thesis
    by (rule port_controls_delivery) (simp_all add: before_eapol_def)
qed

text \<open>C29. Whatever a received data frame hands on, the frame was opened for it.  When frames of the node are
  protected (WEP, or RSN with receive protection on), it decrypts in software with the protected bit set, or
  the driver has decrypted it: if the protected bit is still set and the cipher is CCMP or TKIP, its packet
  number is then new for the key (or the same again in one aggregate) and its IV is stripped; if the driver
  has cleared the bit, or under another cipher, it is taken as it came and no number is checked.  When frames of the node are not
  protected, it came in clear.  What is handed on are the Ethernet frames of its clear content and nothing
  else.  The handler of EAPOL frames hands no data on itself.\<close>

theorem received_data_opened:
  assumes "fc0_type m = TYPE_DATA" "\<And>f t. silent t (re_eapol E f r t)"
    and "rs_log (inputm_body E m r rxi s) = rs_log s @ es" "e \<in> set es" "handed e"
  shows "\<exists>m'. opened E s m r rxi m' \<and> frame_of e \<in> set (msdus E s r m m')"
proof -
  have no: "\<not> silent s (inputm_body E m r rxi s)"
    using assms(3-5) by (auto simp: silent_def adds_def)
  from assms(1) obtain s1 where s1: "silent s s1" "guards s1 r = guards s r"
      "inputm_body E m r rxi s = rx_msdu E m r rxi s1"
    using no by (cases rule: body_cases [of m s E r rxi]) auto
  then have "\<not> silent s1 (rx_msdu E m r rxi s1)"
    using no silent_trans [OF s1(1)] by auto
  then obtain m' where m': "opened E s1 m r rxi m'"
      "adds_only (\<lambda>e. handed e \<longrightarrow> frame_of e \<in> set (msdus E s1 r m m')) s1 (rx_msdu E m r rxi s1)"
    using msdu_only [OF assms(2)] by blast
  have eq: "msdus E s1 r m m' = msdus E s r m m'" "opened E s1 m r rxi m' = opened E s m r rxi m'"
    using msdus_cong [OF guardsD(1) [OF s1(2)]] opened_cong [OF s1(2)] by auto
  have "adds_only (\<lambda>e. handed e \<longrightarrow> frame_of e \<in> set (msdus E s r m m')) s s1"
    using s1(1) by (rule silent_only) blast
  from adds_only_trans [OF this] m'(2)
  have "adds_only (\<lambda>e. handed e \<longrightarrow> frame_of e \<in> set (msdus E s r m m')) s (inputm_body E m r rxi s)"
    unfolding s1(3) eq(1) .
  then have "frame_of e \<in> set (msdus E s r m m')"
    using assms(3-5) by (auto simp: adds_only_def adds_def)
  then show ?thesis using m'(1) eq(2) by blast
qed

theorem received_data_opened_witness:
  "\<exists>m'. opened rx_demo_env (rx_demo NODE_RXPROT True (zero_key\<lparr>k_cipher := CIPHER_CCMP\<rparr>) zero_key) rx_demo_data Bss
      (rx_demo_info IEEE80211_RXI_HWDEC) m' \<and>
    [2, 0, 0, 0, 0, 9, 2, 0, 0, 0, 0, 7, 8, 0, 0x45] \<in> set (msdus rx_demo_env
      (rx_demo NODE_RXPROT True (zero_key\<lparr>k_cipher := CIPHER_CCMP\<rparr>) zero_key) Bss rx_demo_data m')"
proof -
  let ?s = "rx_demo NODE_RXPROT True (zero_key\<lparr>k_cipher := CIPHER_CCMP\<rparr>) zero_key"
  let ?e = "Rx_Deliver [2, 0, 0, 0, 0, 9, 2, 0, 0, 0, 0, 7, 8, 0, 0x45]"
  have "fc0_type rx_demo_data = TYPE_DATA"
    by code_simp
  moreover have "silent t (re_eapol rx_demo_env f Bss t)" for f t
    by (simp add: rx_demo_env_def)
  moreover have "rs_log (inputm_body rx_demo_env rx_demo_data Bss (rx_demo_info IEEE80211_RXI_HWDEC) ?s) = rs_log ?s @ [?e]"
    by code_simp
  ultimately show ?thesis
    using received_data_opened [of rx_demo_data rx_demo_env Bss "rx_demo_info IEEE80211_RXI_HWDEC" ?s "[?e]" ?e] by simp
qed

text \<open>C31. When management frames of a node are protected, the hook for management frames sees a disassociation,
  deauthentication or action frame of the node only after the frame has been decrypted or, for a group
  addressed frame, its integrity code verified; a frame to a single station must have the protected bit.\<close>

theorem management_frames_authenticated:
  assumes "fc0_type m = TYPE_MGT" "has_flag (bn_flags (rx_node s r)) NODE_RXMGMTPROT"
    and "\<And>f t st. adds_only no_mgmt t (re_mgmt E f r rxi st t)"
    and "rs_log (inputm_body E m r rxi s) = rs_log s @ es" "Rx_Mgmt f st \<in> set es"
    and "frame_subtype m \<in> {ST_DISASSOC, ST_DEAUTH, ST_ACTION}"
  shows "st = frame_subtype m \<and> (is_mcast m \<or> has_flag (byte_at m 1) FC1_PROTECTED) \<and>
    fst (decrypt (re_crypt E) (re_prims E) (rx_keysel s r) (rx_keys s r) m) = Inr f"
proof -
  have no: "\<not> adds_only no_mgmt s (inputm_body E m r rxi s)"
    using assms(4,5) by (auto simp: adds_only_def adds_def no_mgmt_def)
  from assms(1) obtain s1 where s1: "adds_only no_mgmt s s1" "guards s1 r = guards s r"
      "inputm_body E m r rxi s = rx_mgmt E m r rxi s1"
    using no by (cases rule: mgmt_body [of m s E r rxi]) auto
  have "has_flag (bn_flags (rx_node s1 r)) NODE_RXMGMTPROT"
    using assms(2) keptD(2) [OF guardsD(1) [OF s1(2)]] by simp
  note mgmt_protected [OF this assms(6,3)]
  then have "adds_only (\<lambda>e. \<forall>f st. e = Rx_Mgmt f st \<longrightarrow> st = frame_subtype m \<and>
      (is_mcast m \<or> has_flag (byte_at m 1) FC1_PROTECTED) \<and>
      fst (decrypt (re_crypt E) (re_prims E) (rx_keysel s r) (rx_keys s r) m) = Inr f) s1 (rx_mgmt E m r rxi s1)"
    unfolding guardsD(2,3) [OF s1(2)] .
  moreover have "rs_log (rx_mgmt E m r rxi s1) = rs_log s @ es"
    using assms(4) s1(3) by simp
  ultimately show ?thesis
    using s1(1) assms(5) unfolding adds_only_def adds_def no_mgmt_def by fastforce
qed

theorem management_frames_authenticated_witness:
  "fst (decrypt (re_crypt rx_demo_env) (re_prims rx_demo_env)
     (rx_keysel (rx_demo NODE_RXMGMTPROT True zero_key (zero_key\<lparr>k_cipher := CIPHER_BIP, k_flags := KEY_SWCRYPTO, k_priv := Some (Bip_Ctx [])\<rparr>)) Bss)
     (rx_keys (rx_demo NODE_RXMGMTPROT True zero_key (zero_key\<lparr>k_cipher := CIPHER_BIP, k_flags := KEY_SWCRYPTO, k_priv := Some (Bip_Ctx [])\<rparr>)) Bss)
     rx_demo_deauth) = Inr (take 26 rx_demo_deauth)"
proof -
  let ?s = "rx_demo NODE_RXMGMTPROT True zero_key (zero_key\<lparr>k_cipher := CIPHER_BIP, k_flags := KEY_SWCRYPTO, k_priv := Some (Bip_Ctx [])\<rparr>)"
  let ?e = "Rx_Mgmt (take 26 rx_demo_deauth) ST_DEAUTH"
  have "fc0_type rx_demo_deauth = TYPE_MGT" "has_flag (bn_flags (rx_node ?s Bss)) NODE_RXMGMTPROT"
    "frame_subtype rx_demo_deauth \<in> {ST_DISASSOC, ST_DEAUTH, ST_ACTION}"
    by code_simp+
  moreover have "adds_only no_mgmt t (re_mgmt rx_demo_env f Bss (rx_demo_info 0) st t)" for f st t
    by (simp add: rx_demo_env_def)
  moreover have "rs_log (inputm_body rx_demo_env rx_demo_deauth Bss (rx_demo_info 0) ?s)
      = rs_log ?s @ [?e, Rx_Free (take 26 rx_demo_deauth)]"
    by code_simp
  ultimately show ?thesis
    using management_frames_authenticated [of rx_demo_deauth ?s Bss rx_demo_env "rx_demo_info 0"
        "[?e, Rx_Free (take 26 rx_demo_deauth)]" "take 26 rx_demo_deauth" ST_DEAUTH] by simp
qed

end
