(* ===== verification/RaRates.thy ===== *)
theory RaRates
  imports HtSetup
begin

text \<open>
  The rate adaptation of 802.11n and 802.11ac (\<^verbatim>\<open>net80211/ieee80211_ra.c\<close>, used by the driver iwn): the goodput
  of each MCS is measured, neighbouring rates and rate sets are probed when the channel becomes better or
  worse, and the best rate is kept.  A panic is \<open>None\<close>, and so is a loop that leaves the table of rate sets.
\<close>

section \<open>Data\<close>

abbreviation (input) RA_FP_SHIFT :: nat where "RA_FP_SHIFT \<equiv> 21"
abbreviation (input) RA_FP_1 :: u64 where "RA_FP_1 \<equiv> 0x200000"
abbreviation (input) RA_RATE_THRESHOLD :: u64 where "RA_RATE_THRESHOLD \<equiv> 0x8000"
abbreviation (input) RA_PROBING_DOWN :: u32 where "RA_PROBING_DOWN \<equiv> 1"
abbreviation (input) RA_PROBING_UP :: u32 where "RA_PROBING_UP \<equiv> 2"
abbreviation (input) RA_PROBING_INTER :: u32 where "RA_PROBING_INTER \<equiv> 4"
abbreviation (input) NODE_HE :: u32 where "NODE_HE \<equiv> 0x200000"
abbreviation (input) NODE_VHT :: u32 where "NODE_VHT \<equiv> 0x10000"
abbreviation (input) NODE_HT :: u32 where "NODE_HT \<equiv> 0x400"
abbreviation (input) TX_RX_MCS_NOT_EQUAL :: u8 where "TX_RX_MCS_NOT_EQUAL \<equiv> 2"
abbreviation (input) TX_SPATIAL_STREAMS :: u8 where "TX_SPATIAL_STREAMS \<equiv> 0x0c"

text \<open>Numbers of 64 bits are fixed point with 21 binary places.\<close>

record goodput =
  gp_measured :: u64
  gp_average :: u64
  gp_stddev :: u64
  gp_loss :: u64
  gp_pkts :: u32
  gp_fail :: u32

record ra_rate =
  rr_min :: nat
  rr_max :: nat
  rr_width :: nat
  rr_sgi :: bool
  rr_nss :: nat
  rr_index :: nat
  rr_rates :: "u32 list"

text \<open>\<open>ra_txmcs\<close> is \<^verbatim>\<open>ni_txmcs\<close> of the node.\<close>

record ra_node =
  ra_valid_probes :: u32
  ra_valid_rates :: u32
  ra_candidates :: u32
  ra_probed :: u32
  ra_probing :: u32
  ra_best :: nat
  ra_g :: "goodput list"
  ra_bw :: nat
  ra_sgi :: bool
  ra_nss :: nat
  ra_index :: nat
  ra_count :: nat
  ra_active :: "ra_rate list"
  ra_txmcs :: nat

text \<open>The fields of \<^verbatim>\<open>struct ieee80211com\<close> that the adaptation reads.\<close>

record ra_com =
  rc_curmode :: nat
  rc_tx_mcs_set :: u8
  rc_sup_mcs :: "u8 list"
  rc_vht_sup_mcs :: "u16 list"

definition zero_goodput :: goodput where
  "zero_goodput = \<lparr>gp_measured = 0, gp_average = 0, gp_stddev = 0, gp_loss = 0, gp_pkts = 0, gp_fail = 0\<rparr>"

definition zero_rate :: ra_rate where
  "zero_rate = \<lparr>rr_min = 0, rr_max = 0, rr_width = 0, rr_sgi = False, rr_nss = 0, rr_index = 0, rr_rates = []\<rparr>"

section \<open>The tables\<close>

text \<open>The rate sets of 802.11n in units of 500 kbit/s: the first MCS, short guard interval, rates.\<close>

definition std_ratesets_11n :: "(nat \<times> bool \<times> u32 list) list" where
  "std_ratesets_11n =
     [(0, False, [13, 26, 39, 52, 78, 104, 117, 130]), (0, True, [14, 29, 43, 58, 87, 116, 130, 144]),
      (8, False, [26, 52, 78, 104, 156, 208, 234, 260]), (8, True, [29, 58, 87, 116, 173, 231, 261, 289]),
      (16, False, [39, 78, 117, 156, 234, 312, 351, 390]), (16, True, [43, 87, 130, 173, 260, 347, 390, 433]),
      (24, False, [52, 104, 156, 208, 312, 416, 468, 520]), (24, True, [58, 116, 173, 231, 347, 462, 520, 578]),
      (0, False, [27, 54, 81, 108, 162, 216, 243, 270]), (0, True, [30, 60, 90, 120, 180, 240, 270, 300]),
      (8, False, [54, 108, 162, 216, 324, 432, 486, 540]), (8, True, [60, 120, 180, 240, 360, 480, 540, 600]),
      (16, False, [81, 162, 243, 324, 486, 648, 729, 810]), (16, True, [90, 180, 270, 360, 540, 720, 810, 900]),
      (24, False, [108, 216, 324, 432, 648, 864, 972, 1080]),
      (24, True, [120, 240, 360, 480, 720, 960, 1080, 1200])]"

text \<open>Those of 802.11ac: number of streams, short guard interval, rates; two of them lack a rate in the
  initialiser, whose last entry is then zero.\<close>

definition std_ratesets_11ac :: "(nat \<times> bool \<times> u32 list) list" where
  "std_ratesets_11ac =
     [(1, False, [13, 26, 39, 52, 78, 104, 117, 130, 156]), (1, True, [14, 29, 43, 58, 87, 116, 130, 144, 174]),
      (2, False, [26, 52, 78, 104, 156, 208, 234, 260, 312]), (2, True, [29, 58, 87, 116, 173, 231, 261, 289, 347]),
      (1, False, [27, 54, 81, 108, 162, 216, 243, 270, 324, 360]),
      (1, True, [30, 60, 90, 120, 180, 240, 270, 300, 360, 400]),
      (2, False, [54, 108, 162, 216, 324, 432, 486, 540, 648, 720]),
      (2, True, [60, 120, 180, 240, 360, 480, 540, 600, 720, 800]),
      (1, False, [59, 117, 176, 234, 351, 468, 527, 585, 702, 780]),
      (1, True, [65, 130, 195, 260, 390, 520, 585, 650, 780, 867]),
      (2, False, [117, 234, 351, 468, 702, 936, 1053, 1404, 1560, 0]),
      (2, True, [130, 260, 390, 520, 780, 1040, 1170, 1300, 1560, 1734]),
      (1, False, [117, 234, 351, 468, 702, 936, 1053, 1170, 1404, 1560]),
      (1, True, [130, 260, 390, 520, 780, 1040, 1170, 1300, 1560, 1734]),
      (2, False, [234, 468, 702, 936, 1404, 1872, 2106, 2340, 2808, 0]),
      (2, True, [260, 520, 780, 1040, 1560, 2080, 2340, 2600, 3120, 3464])]"

definition ht_rate_of :: "nat \<Rightarrow> nat \<times> bool \<times> u32 list \<Rightarrow> ra_rate" where
  "ht_rate_of i = (\<lambda>(lo, sgi, rates).
     \<lparr>rr_min = lo, rr_max = lo + 7, rr_width = (if 8 \<le> i then WIDTH_40 else WIDTH_20), rr_sgi = sgi,
      rr_nss = (lo + 8) div 8, rr_index = i, rr_rates = rates\<rparr>)"

definition vht_rate_of :: "nat \<Rightarrow> nat \<times> bool \<times> u32 list \<Rightarrow> ra_rate" where
  "vht_rate_of i = (\<lambda>(nss, sgi, rates).
     \<lparr>rr_min = 0, rr_max = length rates - 1, rr_width = [WIDTH_20, WIDTH_40, WIDTH_80, WIDTH_160] ! (i div 4),
      rr_sgi = sgi, rr_nss = nss, rr_index = i, rr_rates = rates\<rparr>)"

text \<open>For 802.11ax the loop reads sixteen entries of a table of eight and copies twelve rates into room for
  eleven: \<open>None\<close>.  In another mode the table stays empty.\<close>

definition build_rateset :: "nat \<Rightarrow> (nat \<times> ra_rate list) option" where
  "build_rateset mode =
     (if mode = MODE_11N then Some (16, map2 ht_rate_of [0..<16] std_ratesets_11n)
      else if mode = MODE_11AC then Some (16, map2 vht_rate_of [0..<16] std_ratesets_11ac)
      else if mode = MODE_11AX then None
      else Some (0, replicate 16 zero_rate))"

section \<open>The peer\<close>

definition is_vht :: "bnode \<Rightarrow> bool" where
  "is_vht n \<longleftrightarrow> has_flag (bn_flags n) NODE_VHT"

definition is_he :: "bnode \<Rightarrow> bool" where
  "is_he n \<longleftrightarrow> has_flag (bn_flags n) NODE_HE"

primrec stream_loop :: "(nat \<Rightarrow> bool) \<Rightarrow> nat \<Rightarrow> nat list \<Rightarrow> nat \<Rightarrow> nat" where
  "stream_loop ok limit [] k = k"
| "stream_loop ok limit (i # is) k =
     (if \<not> ok i then k else if limit \<le> k + 1 then k + 1 else stream_loop ok limit is (k + 1))"

definition support_nss :: "ra_com \<Rightarrow> bnode \<Rightarrow> nat" where
  "support_nss ic n =
     (let rx = unat (hn_rx_nss (bn_ht n)) in
      if rc_tx_mcs_set ic AND TX_RX_MCS_NOT_EQUAL = 0
      then stream_loop (\<lambda>i. \<not> ((is_vht n \<or> is_he n) \<and> rc_vht_sup_mcs ic ! i = 0) \<and> byte_at (rc_sup_mcs ic) i \<noteq> 0)
             rx [0..<4] 0
      else min (1 + unat (drop_bit 2 (rc_tx_mcs_set ic AND TX_SPATIAL_STREAMS))) rx)"

definition supports_sgi :: "bnode \<Rightarrow> bool" where
  "supports_sgi n \<longleftrightarrow>
     (let chw = hn_chw (bn_ht n); vht = has_flag (bn_flags n) NODE_VHTCAP; caps = hn_vhtcaps (bn_ht n) in
      if is_he n then False
      else if is_vht n
      then if chw = WIDTH_20 then supports_sgi20 n else if chw = WIDTH_40 then supports_sgi40 n
           else if chw = WIDTH_80 then vht \<and> has_flag caps 0x20
           else if chw \<in> {WIDTH_80P80, WIDTH_160} then vht \<and> has_flag caps 0x40 else False
      else if has_flag (bn_flags n) NODE_HT
      then if chw = WIDTH_20 then supports_sgi20 n else if chw = WIDTH_40 then supports_sgi40 n else False
      else False)"

definition ra_use_ht_sgi :: "bnode \<Rightarrow> bool" where
  "ra_use_ht_sgi n \<longleftrightarrow>
     (if hn_chw (bn_ht n) = WIDTH_40 \<and> node_supports_ht n \<and> has_flag (hn_htcaps (bn_ht n)) HTCAP_CBW20_40 \<and>
         hn_htop0 (bn_ht n) AND 0x04 \<noteq> 0
      then has_flag (bn_flags n) NODE_HT_SGI40
      else has_flag (bn_flags n) NODE_HT_SGI20)"

section \<open>Rate sets\<close>

definition rate_bit :: "nat \<Rightarrow> u32" where
  "rate_bit mcs = push_bit mcs 1"

definition in_rate :: "ra_rate \<Rightarrow> nat \<Rightarrow> bool" where
  "in_rate rs mcs \<longleftrightarrow> rr_min rs \<le> mcs \<and> mcs \<le> rr_max rs"

text \<open>The rate set of an MCS: the current one, or the nearest above or below that the peer supports.  The
  index runs over the table as long as \<^verbatim>\<open>active_rs_count\<close> says.\<close>

definition ra_get_rateset :: "ra_node \<Rightarrow> ra_com \<Rightarrow> bnode \<Rightarrow> nat \<Rightarrow> ra_rate option" where
  "ra_get_rateset ra ic n mcs =
     (let last = ra_active ra ! ra_index ra in
      if in_rate last mcs then Some last
      else List.find (\<lambda>rs. \<not> (rr_sgi rs \<and> \<not> supports_sgi n) \<and> rr_nss rs \<le> support_nss ic n \<and>
                      rr_width rs \<le> hn_chw (bn_ht n) \<and> in_rate rs mcs)
             (map ((!) (ra_active ra))
               (if rr_max last < mcs then [ra_index ra..<ra_count ra] else rev [0..<ra_index ra + 1])))"

definition fp_mul :: "u64 \<Rightarrow> u64 \<Rightarrow> u64" where
  "fp_mul a b = drop_bit RA_FP_SHIFT (a * b)"

text \<open>The rate of an MCS in Mbit/s, in fixed point.\<close>

definition ra_get_txrate :: "ra_node \<Rightarrow> ra_com \<Rightarrow> bnode \<Rightarrow> nat \<Rightarrow> u64 option" where
  "ra_get_txrate ra ic n mcs =
     (case ra_get_rateset ra ic n mcs of None \<Rightarrow> None
      | Some rs \<Rightarrow> Some (push_bit RA_FP_SHIFT (ucast (rr_rates rs ! (mcs - rr_min rs))) * 500 div 1000))"

definition valid_rate :: "ra_node \<Rightarrow> nat \<Rightarrow> bool" where
  "valid_rate ra mcs \<longleftrightarrow> ra_valid_rates ra AND rate_bit mcs \<noteq> 0"

definition lower_rate :: "ra_node \<Rightarrow> ra_rate \<Rightarrow> nat" where
  "lower_rate ra rs =
     (let tx = ra_txmcs ra in
      if tx = rr_min rs then rr_min rs
      else case List.find (\<lambda>i. valid_rate ra (i + rr_min rs) \<and> i + rr_min rs < tx) (rev [0..<length (rr_rates rs)]) of
             None \<Rightarrow> tx | Some i \<Rightarrow> i + rr_min rs)"

definition higher_rate :: "ra_node \<Rightarrow> ra_rate \<Rightarrow> nat" where
  "higher_rate ra rs =
     (let tx = ra_txmcs ra in
      if tx = rr_max rs then rr_max rs
      else case List.find (\<lambda>i. valid_rate ra (i + rr_min rs) \<and> tx < i + rr_min rs) [0..<length (rr_rates rs)] of
             None \<Rightarrow> tx | Some i \<Rightarrow> i + rr_min rs)"

definition ra_next_lower_intra_rate :: "ra_node \<Rightarrow> ra_com \<Rightarrow> bnode \<Rightarrow> nat option" where
  "ra_next_lower_intra_rate ra ic n = map_option (lower_rate ra) (ra_get_rateset ra ic n (ra_txmcs ra))"

definition ra_next_intra_rate :: "ra_node \<Rightarrow> ra_com \<Rightarrow> bnode \<Rightarrow> nat option" where
  "ra_next_intra_rate ra ic n = map_option (higher_rate ra) (ra_get_rateset ra ic n (ra_txmcs ra))"

definition probing :: "ra_node \<Rightarrow> u32 \<Rightarrow> bool" where
  "probing ra f \<longleftrightarrow> has_flag (ra_probing ra) f"

text \<open>The next rate set in the direction of the probing; \<open>Some None\<close> when there is none.
  With an empty table \<^verbatim>\<open>active_rs_count - 1\<close> wraps and the search upwards leaves the table.\<close>

definition ra_next_rateset :: "ra_node \<Rightarrow> ra_com \<Rightarrow> bnode \<Rightarrow> ra_rate option option" where
  "ra_next_rateset ra ic n =
     (case ra_get_rateset ra ic n (ra_txmcs ra) of
        None \<Rightarrow> None
      | Some rs \<Rightarrow>
          if \<not> probing ra RA_PROBING_UP \<and> \<not> probing ra RA_PROBING_DOWN then None
          else if probing ra RA_PROBING_UP \<and> ra_count ra = 0 then None
          else Some (List.find (\<lambda>x. rr_width x \<le> hn_chw (bn_ht n) \<and> rr_nss x \<le> support_nss ic n)
                 (map ((!) (ra_active ra))
                   (if probing ra RA_PROBING_UP then [rr_index rs + 1..<ra_count ra] else rev [0..<rr_index rs]))))"

definition best_step :: "ra_node \<Rightarrow> nat \<Rightarrow> u64 \<times> nat \<Rightarrow> u64 \<times> nat" where
  "best_step ra mcs = (\<lambda>(gmax, best).
     let m = gp_measured (ra_g ra ! mcs) in
     if valid_rate ra mcs \<and> gmax + RA_RATE_THRESHOLD < m then (m, mcs) else (gmax, best))"

definition ra_best_mcs_in_rateset :: "ra_node \<Rightarrow> ra_rate \<Rightarrow> nat" where
  "ra_best_mcs_in_rateset ra rs =
     snd (fold (best_step ra) (map ((+) (rr_min rs)) [0..<length (rr_rates rs)]) (0, rr_min rs))"

definition ra_best_rate :: "ra_node \<Rightarrow> nat" where
  "ra_best_rate ra = snd (fold (best_step ra) [0..<32] (gp_measured (ra_g ra ! ra_best ra), ra_best ra))"

text \<open>The lowest rate of the next set whose loss-free goodput beats the best one measured, or the highest.\<close>

definition first_better :: "ra_node \<Rightarrow> ra_rate \<Rightarrow> nat \<Rightarrow> nat" where
  "first_better ra rs best =
     (case List.find (\<lambda>i. valid_rate ra (rr_min rs + i) \<and>
              gp_measured (ra_g ra ! best) + RA_RATE_THRESHOLD < push_bit RA_FP_SHIFT (ucast (rr_rates rs ! i) * 500) div 1000)
            [0..<length (rr_rates rs)] of
        None \<Rightarrow> rr_max rs | Some i \<Rightarrow> rr_min rs + i)"

definition ra_next_mcs :: "ra_node \<Rightarrow> ra_com \<Rightarrow> bnode \<Rightarrow> nat option" where
  "ra_next_mcs ra ic n =
     (if probing ra RA_PROBING_DOWN then ra_next_lower_intra_rate ra ic n
      else if probing ra RA_PROBING_UP then ra_next_intra_rate ra ic n else None)"

definition add_candidate :: "nat \<Rightarrow> ra_node \<Rightarrow> ra_node" where
  "add_candidate mcs ra = ra\<lparr>ra_candidates := ra_candidates ra OR rate_bit mcs\<rparr>"

text \<open>Here the direction up is asked for first.\<close>

definition ra_probe_candidates :: "ra_node \<Rightarrow> ra_com \<Rightarrow> bnode \<Rightarrow> ra_node option" where
  "ra_probe_candidates ra ic n =
     (let ra = add_candidate (ra_txmcs ra) ra in
      case (if probing ra RA_PROBING_UP then ra_next_intra_rate ra ic n
            else if probing ra RA_PROBING_DOWN then ra_next_lower_intra_rate ra ic n else None) of
        None \<Rightarrow> None | Some mcs \<Rightarrow> Some (add_candidate mcs ra))"

definition ra_probe_next_rateset :: "ra_node \<Rightarrow> ra_com \<Rightarrow> bnode \<Rightarrow> ra_rate \<Rightarrow> ra_node option" where
  "ra_probe_next_rateset ra ic n rsnext =
     (case ra_get_rateset ra ic n (ra_txmcs ra) of
        None \<Rightarrow> None
      | Some rs \<Rightarrow>
          let best = ra_best_mcs_in_rateset ra rs;
              ra = ra\<lparr>ra_bw := rr_width rsnext, ra_sgi := rr_sgi rsnext, ra_nss := rr_nss rsnext,
                      ra_index := rr_index rsnext, ra_txmcs := rr_min rsnext\<rparr>
          in case (if valid_rate ra (rr_min rsnext) then Some (rr_min rsnext) else ra_next_intra_rate ra ic n) of
               None \<Rightarrow> None
             | Some mcs \<Rightarrow> ra_probe_candidates (ra\<lparr>ra_txmcs := first_better ra rsnext best\<rparr>) ic n)"

definition ra_trigger_next_rateset :: "ra_node \<Rightarrow> ra_com \<Rightarrow> bnode \<Rightarrow> ra_node option" where
  "ra_trigger_next_rateset ra ic n =
     (case ra_next_rateset ra ic n of
        None \<Rightarrow> None
      | Some None \<Rightarrow> Some (ra\<lparr>ra_probing := ra_probing ra AND NOT RA_PROBING_INTER\<rparr>)
      | Some (Some rsnext) \<Rightarrow>
          map_option (\<lambda>ra. ra\<lparr>ra_probing := ra_probing ra OR RA_PROBING_INTER\<rparr>) (ra_probe_next_rateset ra ic n rsnext))"

section \<open>Probing\<close>

definition ra_probe_clear :: "ra_node \<Rightarrow> ra_node" where
  "ra_probe_clear ra =
     ra\<lparr>ra_g := (ra_g ra)[ra_txmcs ra := (ra_g ra ! ra_txmcs ra)\<lparr>gp_pkts := 0, gp_fail := 0\<rparr>]\<rparr>"

definition ra_probe_valid :: "goodput \<Rightarrow> bool" where
  "ra_probe_valid g \<longleftrightarrow> 128 \<le> gp_pkts g \<or> 8 \<le> gp_pkts g \<and> gp_pkts g - gp_fail g < gp_pkts g div 4"

definition ra_probe_done :: "ra_node \<Rightarrow> ra_node" where
  "ra_probe_done ra = ra\<lparr>ra_valid_probes := 0, ra_candidates := 0, ra_probed := 0, ra_probing := 0\<rparr>"

definition was_probed :: "ra_node \<Rightarrow> nat \<Rightarrow> bool" where
  "was_probed ra mcs \<longleftrightarrow> ra_probed ra AND rate_bit mcs \<noteq> 0"

text \<open>The reasons for which the probing of a rate set is over, after the end of the set has been checked: the
  next rate is the same, it cannot be better than a loss-free measurement, or a better one is behind.\<close>

definition set_end :: "ra_node \<Rightarrow> ra_rate \<Rightarrow> bool" where
  "set_end ra rs \<longleftrightarrow>
     (if probing ra RA_PROBING_DOWN then ra_txmcs ra = rr_min rs \<or> was_probed ra (rr_min rs)
      else if probing ra RA_PROBING_UP then ra_txmcs ra = rr_max rs \<or> was_probed ra (rr_max rs) else False)"

definition better_behind :: "ra_node \<Rightarrow> ra_rate \<Rightarrow> bool" where
  "better_behind ra rs \<longleftrightarrow>
     (let best = ra_best_mcs_in_rateset ra rs; tx = ra_txmcs ra in
      best \<noteq> tx \<and> was_probed ra best \<and>
      (probing ra RA_PROBING_UP \<and> best < tx \<or> probing ra RA_PROBING_DOWN \<and> tx < best))"

definition ra_intra_mode_ra_finished :: "ra_node \<Rightarrow> ra_com \<Rightarrow> bnode \<Rightarrow> (bool \<times> ra_node) option" where
  "ra_intra_mode_ra_finished ra ic n =
     (let tx = ra_txmcs ra; g = ra_g ra ! tx;
          ra = ra\<lparr>ra_probed := ra_probed ra OR rate_bit tx\<rparr>;
          trigger = map_option (Pair True) (ra_trigger_next_rateset ra ic n)
      in case ra_get_rateset ra ic n tx of
           None \<Rightarrow> None
         | Some rs \<Rightarrow>
             if set_end ra rs then trigger
             else case ra_next_mcs ra ic n of
                    None \<Rightarrow> None
                  | Some next_mcs \<Rightarrow>
                      if next_mcs = tx then trigger
                      else case ra_get_txrate ra ic n next_mcs of
                             None \<Rightarrow> None
                           | Some next_rate \<Rightarrow>
                               if gp_loss g = 0 \<and> next_rate + RA_RATE_THRESHOLD \<le> gp_measured g then trigger
                               else if better_behind ra rs then trigger
                               else if ra_candidates ra AND ra_probed ra = ra_candidates ra
                               then Some (True, ra\<lparr>ra_probing := ra_probing ra AND NOT RA_PROBING_INTER\<rparr>)
                               else Some (False, ra))"

definition ra_probe_next_rate :: "ra_node \<Rightarrow> ra_com \<Rightarrow> bnode \<Rightarrow> ra_node option" where
  "ra_probe_next_rate ra ic n =
     (let ra = ra\<lparr>ra_probed := ra_probed ra OR rate_bit (ra_txmcs ra)\<rparr>
      in map_option (\<lambda>mcs. ra\<lparr>ra_txmcs := mcs\<rparr>) (ra_next_mcs ra ic n))"

end
