(* ===== verification/RaChoose.thy ===== *)
theory RaChoose
  imports RaRates
begin

text \<open>
  The entry points of \<^verbatim>\<open>net80211/ieee80211_ra.c\<close>: the rates both sides support, the statistics the driver
  reports, the choice of the next rate and the initial state for a peer.
\<close>

section \<open>The rates both sides support\<close>

text \<open>A test of a bit in an array of 16-bit words with the macro for arrays of bytes.\<close>

definition isset16 :: "u16 list \<Rightarrow> nat \<Rightarrow> bool" where
  "isset16 ws i \<longleftrightarrow> ws ! (i div 8) AND push_bit (i mod 8) 1 \<noteq> 0"

text \<open>The maximal MCS of 802.11n by the number of streams; without a stream, or with more than four, a panic.\<close>

definition ra_valid_tx_mcs :: "ra_com \<Rightarrow> bnode \<Rightarrow> nat \<Rightarrow> bool option" where
  "ra_valid_tx_mcs ic n mcs =
     (let streams = support_nss ic n; ac = is_he n \<or> is_vht n in
      if rc_tx_mcs_set ic AND TX_RX_MCS_NOT_EQUAL = 0
      then Some (if ac then isset16 (rc_vht_sup_mcs ic) mcs else bit_set (rc_sup_mcs ic) mcs)
      else if ac then Some (mcs < 9 \<and> isset16 (rc_vht_sup_mcs ic) mcs)
      else if streams < 1 \<or> 4 < streams then None
      else Some (mcs \<le> [7, 15, 23, 31] ! (streams - 1) \<and> bit_set (rc_sup_mcs ic) mcs))"

definition ra_vht_highest_rx_mcs :: "bnode \<Rightarrow> nat \<Rightarrow> u16" where
  "ra_vht_highest_rx_mcs n nss =
     drop_bit (2 * (nss - 1)) (hn_vht_rx_mcs_map (bn_ht n) AND push_bit (2 * (nss - 1)) 3)"

definition ra_valid_rx_mcs :: "bnode \<Rightarrow> nat \<Rightarrow> bool" where
  "ra_valid_rx_mcs n mcs \<longleftrightarrow>
     (if is_he n \<or> is_vht n
      then let rx = ra_vht_highest_rx_mcs n (if 1 < hn_rx_nss (bn_ht n) then 2 else 1) in
           if rx = 0 \<and> mcs = 8 then False
           else if rx = 1 \<and> mcs = 9 then False
           else \<not> (mcs = 9 \<and> hn_chw (bn_ht n) = WIDTH_20)
      else bit_set (hn_rxmcs (bn_ht n)) mcs)"

primrec valid_rates_loop :: "ra_com \<Rightarrow> bnode \<Rightarrow> nat list \<Rightarrow> u32 \<Rightarrow> u32 option" where
  "valid_rates_loop ic n [] acc = Some acc"
| "valid_rates_loop ic n (i # is) acc =
     (if \<not> ra_valid_rx_mcs n i then valid_rates_loop ic n is acc
      else case ra_valid_tx_mcs ic n i of
             None \<Rightarrow> None
           | Some ok \<Rightarrow> valid_rates_loop ic n is (if ok then acc OR rate_bit i else acc))"

definition ra_all_valid_rates :: "ra_com \<Rightarrow> bnode \<Rightarrow> u32 option" where
  "ra_all_valid_rates ic n = valid_rates_loop ic n [0..<if is_he n \<or> is_vht n then 10 else 32] 0"

section \<open>Statistics\<close>

text \<open>The error rate is computed in 32 bits before it is widened, so the shift loses the number of failures
  above 2047.\<close>

definition goodput_update :: "u32 \<Rightarrow> u64 \<Rightarrow> goodput \<Rightarrow> goodput" where
  "goodput_update sfer32 rate g =
     (let sfer = ucast sfer32;
          measured = fp_mul (RA_FP_1 - sfer) rate;
          average = fp_mul (RA_FP_1 - RA_FP_1 div 8) (gp_average g) + fp_mul (RA_FP_1 div 8) measured;
          delta = (if measured < average then average - measured else measured - average)
      in g\<lparr>gp_measured := measured, gp_average := average,
           gp_stddev := fp_mul (RA_FP_1 - RA_FP_1 div 4) (gp_stddev g) + fp_mul (RA_FP_1 div 4) delta,
           gp_loss := sfer * 100, gp_pkts := 0, gp_fail := 0\<rparr>)"

definition ra_add_stats_ht :: "ra_com \<Rightarrow> bnode \<Rightarrow> int \<Rightarrow> u32 \<Rightarrow> u32 \<Rightarrow> ra_node \<Rightarrow> ra_node option" where
  "ra_add_stats_ht ic n mcs pkts fail ra =
     (if mcs < 0 \<or> 32 \<le> mcs then Some ra
      else if pkts = 0 then Some ra
      else
        let i = nat mcs; g = ra_g ra ! i;
            g = g\<lparr>gp_pkts := gp_pkts g + pkts, gp_fail := gp_fail g + fail\<rparr>
        in if \<not> ra_probe_valid g then Some (ra\<lparr>ra_g := (ra_g ra)[i := g]\<rparr>)
           else
             let ra = ra\<lparr>ra_valid_probes := ra_valid_probes ra OR rate_bit i\<rparr>;
                 lost = (if gp_pkts g < gp_fail g then gp_pkts g else gp_fail g);
                 sfer = push_bit RA_FP_SHIFT lost div gp_pkts g
             in map_option (\<lambda>rate. ra\<lparr>ra_g := (ra_g ra)[i := goodput_update sfer rate g]\<rparr>)
                  (ra_get_txrate ra ic n i))"

section \<open>Choosing a rate\<close>

definition ra_inter_mode_ra_finished :: "ra_node \<Rightarrow> bool" where
  "ra_inter_mode_ra_finished ra \<longleftrightarrow> ra_probing ra AND RA_PROBING_INTER = 0"

definition choose_probing :: "ra_com \<Rightarrow> bnode \<Rightarrow> ra_node \<Rightarrow> ra_node option" where
  "choose_probing ic n ra =
     (if ra_valid_probes ra AND rate_bit (ra_txmcs ra) = 0 then Some ra
      else case ra_intra_mode_ra_finished (ra_probe_clear ra) ic n of
             None \<Rightarrow> None
           | Some (finished, ra) \<Rightarrow>
               if \<not> finished then ra_probe_next_rate ra ic n
               else if ra_inter_mode_ra_finished ra
               then Some (ra_probe_done (ra\<lparr>ra_best := ra_best_rate ra, ra_txmcs := ra_best_rate ra\<rparr>))
               else Some ra)"

text \<open>The start of a probe: at the end of a rate set the next one is tried.\<close>

definition start_probe :: "ra_com \<Rightarrow> bnode \<Rightarrow> u32 \<Rightarrow> bool \<Rightarrow> ra_node \<Rightarrow> ra_node option" where
  "start_probe ic n mode at_end ra =
     (let ra = ra\<lparr>ra_probed := 0, ra_probing := mode\<rparr> in
      if at_end
      then case ra_next_rateset ra ic n of
             None \<Rightarrow> None
           | Some None \<Rightarrow> Some (ra\<lparr>ra_probing := 0\<rparr>)
           | Some (Some rsnext) \<Rightarrow> ra_probe_next_rateset ra ic n rsnext
      else map_option (\<lambda>mcs. ra\<lparr>ra_candidates := rate_bit mcs, ra_txmcs := mcs\<rparr>) (ra_next_mcs ra ic n))"

definition channel_bad :: "goodput \<Rightarrow> bool" where
  "channel_bad g \<longleftrightarrow>
     drop_bit RA_FP_SHIFT (gp_measured g) = 0 \<or>
     3 * gp_stddev g \<le> gp_average g \<and> gp_measured g < gp_average g - 3 * gp_stddev g"

definition channel_good :: "goodput \<Rightarrow> bool" where
  "channel_good g \<longleftrightarrow> gp_loss g < 2 * RA_FP_1 \<or> gp_average g + 3 * gp_stddev g < gp_measured g"

definition choose_idle :: "ra_com \<Rightarrow> bnode \<Rightarrow> ra_node \<Rightarrow> ra_node option" where
  "choose_idle ic n ra =
     (let g = ra_g ra ! ra_txmcs ra in
      case ra_get_rateset ra ic n (ra_txmcs ra) of
        None \<Rightarrow> None
      | Some rs \<Rightarrow>
          if channel_bad g then start_probe ic n RA_PROBING_DOWN (ra_txmcs ra = rr_min rs) ra
          else if channel_good g then start_probe ic n RA_PROBING_UP (ra_txmcs ra = rr_max rs) ra
          else Some (ra\<lparr>ra_candidates := 0, ra_probed := 0, ra_probing := 0\<rparr>))"

definition ra_choose :: "ra_com \<Rightarrow> bnode \<Rightarrow> ra_node \<Rightarrow> ra_node option" where
  "ra_choose ic n ra =
     (case (if ra_valid_rates ra = 0 then ra_all_valid_rates ic n else Some (ra_valid_rates ra)) of
        None \<Rightarrow> None
      | Some valid \<Rightarrow>
          let ra = ra\<lparr>ra_valid_rates := valid\<rparr> in
          if ra_probing ra \<noteq> 0 then choose_probing ic n ra
          else choose_idle ic n (ra\<lparr>ra_valid_probes := 0\<rparr>))"

definition first_rateset :: "bnode \<Rightarrow> nat" where
  "first_rateset n =
     (let chw = hn_chw (bn_ht n); ht = has_flag (bn_flags n) NODE_HT in
      if chw = WIDTH_20 then 0
      else if chw = WIDTH_40 then if is_he n then 2 else if is_vht n then 4 else if ht then 8 else 0
      else if chw = WIDTH_80 then if is_he n then 4 else if is_vht n then 8 else 0
      else if chw \<in> {WIDTH_80P80, WIDTH_160} then if is_he n then 6 else if is_vht n then 12 else 0
      else 0)"

definition ra_node_init :: "ra_com \<Rightarrow> bnode \<Rightarrow> nat \<Rightarrow> ra_node option" where
  "ra_node_init ic n txmcs =
     map_option (\<lambda>(count, active).
        \<lparr>ra_valid_probes = 0, ra_valid_rates = 0, ra_candidates = 0, ra_probed = 0, ra_probing = 0, ra_best = 0,
         ra_g = replicate 32 zero_goodput, ra_bw = hn_chw (bn_ht n), ra_sgi = supports_sgi n,
         ra_nss = support_nss ic n, ra_index = first_rateset n, ra_count = count, ra_active = active,
         ra_txmcs = txmcs\<rparr>)
      (build_rateset (rc_curmode ic))"

end
