(* ===== verification/RaProps.thy ===== *)
theory RaProps
  imports RaChoose
begin

unbundle bit_operations_syntax

text \<open>
  The rate adaptation of an 802.11n peer does not panic: every MCS it works with has a rate set, because the
  rates it may use are those of the streams both sides have.
\<close>

lemma find_SomeD: "find P xs = Some x \<Longrightarrow> x \<in> set xs \<and> P x"
  by (auto simp: find_Some_iff)

section \<open>The table of 802.11n\<close>

definition ht_table :: "ra_rate list" where
  "ht_table = map2 ht_rate_of [0..<16] std_ratesets_11n"

lemma ht_table_all:
  "\<forall>j\<in>set [0..<16]. let rs = ht_table ! j in
     rr_min rs = 8 * ((j mod 8) div 2) \<and> rr_max rs = 8 * ((j mod 8) div 2) + 7 \<and>
     rr_width rs = (if 8 \<le> j then 2 else 1) \<and> rr_nss rs = Suc ((j mod 8) div 2) \<and> rr_index rs = j \<and>
     rr_sgi rs = odd j \<and> length (rr_rates rs) = 8"
  by code_simp

lemma ht_table_fields:
  assumes "j < 16"
  shows "rr_min (ht_table ! j) = 8 * ((j mod 8) div 2)" "rr_max (ht_table ! j) = 8 * ((j mod 8) div 2) + 7"
    "rr_width (ht_table ! j) = (if 8 \<le> j then 2 else 1)" "rr_nss (ht_table ! j) = Suc ((j mod 8) div 2)"
    "rr_index (ht_table ! j) = j" "rr_sgi (ht_table ! j) = odd j" "length (rr_rates (ht_table ! j)) = 8"
  using bspec [OF ht_table_all, of j] assms by (simp_all add: Let_def del: upt_rec_numeral)

lemma in_ht_rate: "j < 16 \<Longrightarrow> in_rate (ht_table ! j) mcs \<longleftrightarrow> mcs div 8 = (j mod 8) div 2"
  by (auto simp: in_rate_def ht_table_fields)

section \<open>The state of the adaptation\<close>

text \<open>A rate set and an MCS within the width and the streams of the link.\<close>

definition usable_set :: "ra_com \<Rightarrow> bnode \<Rightarrow> nat \<Rightarrow> bool" where
  "usable_set ic n j \<longleftrightarrow>
     j < 16 \<and> rr_width (ht_table ! j) \<le> hn_chw (bn_ht n) \<and> rr_nss (ht_table ! j) \<le> support_nss ic n"

definition usable_mcs :: "ra_com \<Rightarrow> bnode \<Rightarrow> nat \<Rightarrow> bool" where
  "usable_mcs ic n mcs \<longleftrightarrow> mcs div 8 < support_nss ic n"

definition ra_inv :: "ra_com \<Rightarrow> bnode \<Rightarrow> ra_node \<Rightarrow> bool" where
  "ra_inv ic n ra \<longleftrightarrow>
     ra_active ra = ht_table \<and> ra_count ra = 16 \<and> length (ra_g ra) = 32 \<and> usable_set ic n (ra_index ra) \<and>
     usable_mcs ic n (ra_txmcs ra) \<and> usable_mcs ic n (ra_best ra) \<and>
     (\<forall>mcs. valid_rate ra mcs \<longrightarrow> usable_mcs ic n mcs)"

definition ra_directed :: "ra_node \<Rightarrow> bool" where
  "ra_directed ra \<longleftrightarrow> probing ra RA_PROBING_UP \<or> probing ra RA_PROBING_DOWN"

definition ra_ok :: "ra_com \<Rightarrow> bnode \<Rightarrow> ra_node \<Rightarrow> bool" where
  "ra_ok ic n ra \<longleftrightarrow> ra_inv ic n ra \<and> (ra_probing ra = 0 \<or> ra_directed ra)"

lemma ra_inv_update [simp]:
  "ra_inv ic n (ra\<lparr>ra_valid_probes := a\<rparr>) = ra_inv ic n ra"
  "ra_inv ic n (ra\<lparr>ra_candidates := a\<rparr>) = ra_inv ic n ra"
  "ra_inv ic n (ra\<lparr>ra_probed := a\<rparr>) = ra_inv ic n ra"
  "ra_inv ic n (ra\<lparr>ra_probing := a\<rparr>) = ra_inv ic n ra"
  "ra_inv ic n (ra\<lparr>ra_g := (ra_g ra)[i := g]\<rparr>) = ra_inv ic n ra"
  by (simp_all add: ra_inv_def valid_rate_def)

lemma ra_inv_txmcs: "ra_inv ic n ra \<Longrightarrow> usable_mcs ic n mcs \<Longrightarrow> ra_inv ic n (ra\<lparr>ra_txmcs := mcs\<rparr>)"
  by (simp add: ra_inv_def valid_rate_def)

lemma ra_directed_update [simp]:
  "ra_directed (ra\<lparr>ra_valid_probes := a\<rparr>) = ra_directed ra"
  "ra_directed (ra\<lparr>ra_candidates := a\<rparr>) = ra_directed ra"
  "ra_directed (ra\<lparr>ra_probed := a\<rparr>) = ra_directed ra"
  "ra_directed (ra\<lparr>ra_txmcs := mcs\<rparr>) = ra_directed ra"
  "ra_directed (ra\<lparr>ra_g := gs\<rparr>) = ra_directed ra"
  by (simp_all add: ra_directed_def probing_def)

lemma inter_flag:
  "(p OR 4) AND 2 = p AND (2 :: u32)" "(p OR 4) AND 1 = p AND (1 :: u32)"
  "(p AND NOT 4) AND 2 = p AND (2 :: u32)" "(p AND NOT 4) AND 1 = p AND (1 :: u32)"
  by (auto intro!: bit_word_eqI simp: bit_simps)

lemma ra_directed_inter [simp]:
  "ra_directed (ra\<lparr>ra_probing := p OR RA_PROBING_INTER\<rparr>) = ra_directed (ra\<lparr>ra_probing := p\<rparr>)"
  "ra_directed (ra\<lparr>ra_probing := p AND NOT RA_PROBING_INTER\<rparr>) = ra_directed (ra\<lparr>ra_probing := p\<rparr>)"
  by (simp_all add: ra_directed_def probing_def has_flag_def inter_flag inter_flag [simplified])

lemma usable_in_set: "usable_set ic n j \<Longrightarrow> in_rate (ht_table ! j) mcs \<Longrightarrow> usable_mcs ic n mcs"
  by (auto simp: usable_set_def usable_mcs_def in_ht_rate ht_table_fields)

lemma stream_loop_le: "stream_loop ok limit is k \<le> k + length is"
proof (induction "is" arbitrary: k)
  case (Cons i "is")
  then show ?case using Cons.IH [of "Suc k"] by simp
qed simp

lemma support_nss_le: "support_nss ic n \<le> 4"
proof (cases "rc_tx_mcs_set ic AND TX_RX_MCS_NOT_EQUAL = 0")
  case True
  then show ?thesis
    using stream_loop_le [of _ _ "[0..<4]" 0] by (simp add: support_nss_def Let_def del: upt_rec_numeral)
next
  case False
  have "unat (drop_bit 2 x AND 3) \<le> 3" for x :: u8
    using word_and_le1 [of "drop_bit 2 x" 3] by (simp add: word_le_nat_alt and.commute)
  then have "unat (drop_bit 2 (x AND 0xc)) \<le> 3" for x :: u8
    by simp
  then show ?thesis using False by (simp add: support_nss_def Let_def min.coboundedI1)
qed

section \<open>Rate sets\<close>

text \<open>The set of an MCS: without the short guard interval and of the width of the current set.\<close>

lemma get_rateset_ok:
  assumes "ra_inv ic n ra" and "usable_mcs ic n mcs"
  obtains j where "usable_set ic n j" "in_rate (ht_table ! j) mcs" "ra_get_rateset ra ic n mcs = Some (ht_table ! j)"
proof -
  let ?i = "ra_index ra" and ?chw = "hn_chw (bn_ht n)"
  have i: "?i < 16" "usable_set ic n ?i" and tab: "ra_active ra = ht_table" "ra_count ra = 16"
    using assms(1) by (auto simp: ra_inv_def usable_set_def)
  have m: "mcs div 8 < 4" using assms(2) support_nss_le [of ic n] by (simp add: usable_mcs_def)
  let ?P = "\<lambda>rs. \<not> (rr_sgi rs \<and> \<not> supports_sgi n) \<and> rr_nss rs \<le> support_nss ic n \<and>
                 rr_width rs \<le> ?chw \<and> in_rate rs mcs"
  let ?is = "if rr_max (ht_table ! ?i) < mcs then [?i..<16] else rev [0..<?i + 1]"
  show ?thesis
  proof (cases "in_rate (ht_table ! ?i) mcs")
    case True
    then show ?thesis using that [of ?i] i tab by (simp add: ra_get_rateset_def)
  next
    case False
    let ?j = "8 * (?i div 8) + 2 * (mcs div 8)"
    have "?i div 8 \<le> 1" using i(1) by simp
    then have j: "?j < 16" using m by linarith
    have jm: "?j mod 8 = 2 * (mcs div 8)" using m by simp
    have jd: "8 \<le> ?j \<longleftrightarrow> 8 \<le> ?i" using m div_le_mono [of 8 ?i 8] by (cases "?i < 8") auto
    have half: "2 * (mcs div 8) mod 8 div 2 = mcs div 8" using m by simp
    have P: "?P (ht_table ! ?j)"
      using i assms(2) j jd half by (simp add: in_ht_rate jm ht_table_fields usable_set_def usable_mcs_def)
    have ne: "mcs div 8 \<noteq> (?i mod 8) div 2" using False i(1) by (simp add: in_ht_rate)
    have idx: "?i = 8 * (?i div 8) + 2 * ((?i mod 8) div 2) + (?i mod 8) mod 2" "(?i mod 8) mod 2 \<le> 1"
      and mcs_eq: "mcs = 8 * (mcs div 8) + mcs mod 8" "mcs mod 8 < 8" by simp_all
    have mem: "?j \<in> set ?is"
    proof (cases "8 * ((?i mod 8) div 2) + 7 < mcs")
      case True
      then have "(?i mod 8) div 2 < mcs div 8" using mcs_eq by linarith
      then have "?i \<le> ?j" using idx by linarith
      then show ?thesis using True i(1) j by (simp add: ht_table_fields)
    next
      case False
      then have "mcs div 8 < (?i mod 8) div 2" using mcs_eq ne by linarith
      then have "?j < ?i + 1" using idx by linarith
      then show ?thesis using False i(1) by (auto simp: ht_table_fields)
    qed
    have "find ?P (map ((!) ht_table) ?is) \<noteq> None"
      using P mem by (auto simp: find_None_iff simp del: upt_Suc)
    then obtain rs where rs: "find ?P (map ((!) ht_table) ?is) = Some rs" by blast
    then obtain j' where j': "j' \<in> set ?is" "rs = ht_table ! j'" "?P rs"
      by (auto dest!: find_SomeD simp del: upt_Suc)
    then have "j' < 16" using i(1) by (auto split: if_splits)
    moreover have "ra_get_rateset ra ic n mcs = find ?P (map ((!) ht_table) ?is)"
      using False tab by (simp add: ra_get_rateset_def Let_def)
    ultimately show ?thesis using that [of j'] j' rs by (simp add: usable_set_def)
  qed
qed

lemma lower_rate_in: "length (rr_rates rs) = Suc (rr_max rs - rr_min rs) \<Longrightarrow> in_rate rs (ra_txmcs ra) \<Longrightarrow>
    in_rate rs (lower_rate ra rs)"
  by (auto simp: lower_rate_def in_rate_def Let_def find_Some_iff rev_nth split: option.splits simp del: upt_Suc)

lemma higher_rate_in: "length (rr_rates rs) = Suc (rr_max rs - rr_min rs) \<Longrightarrow> in_rate rs (ra_txmcs ra) \<Longrightarrow>
    in_rate rs (higher_rate ra rs)"
  by (auto simp: higher_rate_def in_rate_def Let_def find_Some_iff split: option.splits simp del: upt_Suc)

lemma table_length: "j < 16 \<Longrightarrow> length (rr_rates (ht_table ! j)) = Suc (rr_max (ht_table ! j) - rr_min (ht_table ! j))"
  by (simp add: ht_table_fields)

lemma next_intra_ok:
  assumes "ra_inv ic n ra"
  obtains mcs mcs' where "ra_next_intra_rate ra ic n = Some mcs" "usable_mcs ic n mcs"
    "ra_next_lower_intra_rate ra ic n = Some mcs'" "usable_mcs ic n mcs'"
proof -
  have "usable_mcs ic n (ra_txmcs ra)" using assms by (simp add: ra_inv_def)
  then obtain j where j: "usable_set ic n j" "in_rate (ht_table ! j) (ra_txmcs ra)"
      "ra_get_rateset ra ic n (ra_txmcs ra) = Some (ht_table ! j)"
    by (rule get_rateset_ok [OF assms])
  have "length (rr_rates (ht_table ! j)) = Suc (rr_max (ht_table ! j) - rr_min (ht_table ! j))"
    using j(1) by (simp add: usable_set_def table_length)
  then show ?thesis
    using that j usable_in_set [OF j(1) lower_rate_in] usable_in_set [OF j(1) higher_rate_in]
    by (simp add: ra_next_intra_rate_def ra_next_lower_intra_rate_def)
qed

lemma next_mcs_ok:
  assumes "ra_inv ic n ra" "ra_directed ra"
  obtains mcs where "ra_next_mcs ra ic n = Some mcs" "usable_mcs ic n mcs"
  using next_intra_ok [OF assms(1)] assms(2) that
  by (metis ra_directed_def ra_next_mcs_def)

lemma next_rateset_ok:
  assumes "ra_inv ic n ra" "ra_directed ra"
  obtains "ra_next_rateset ra ic n = Some None"
    | j where "ra_next_rateset ra ic n = Some (Some (ht_table ! j))" "usable_set ic n j"
proof -
  have "usable_mcs ic n (ra_txmcs ra)" using assms by (simp add: ra_inv_def)
  then obtain j where j: "usable_set ic n j" "in_rate (ht_table ! j) (ra_txmcs ra)"
      "ra_get_rateset ra ic n (ra_txmcs ra) = Some (ht_table ! j)"
    by (rule get_rateset_ok [OF assms(1)])
  then have j16: "j < 16" by (simp add: usable_set_def)
  let ?is = "if probing ra RA_PROBING_UP then [j + 1..<16] else rev [0..<j]"
  let ?P = "\<lambda>x. rr_width x \<le> hn_chw (bn_ht n) \<and> rr_nss x \<le> support_nss ic n"
  have eq: "ra_next_rateset ra ic n = Some (find ?P (map ((!) ht_table) ?is))"
    using assms j j16 by (auto simp: ra_next_rateset_def ra_directed_def ra_inv_def ht_table_fields)
  show ?thesis
  proof (cases "find ?P (map ((!) ht_table) ?is)")
    case None then show ?thesis using that(1) eq by simp
  next
    case (Some rs)
    then have "?P rs" "rs \<in> set (map ((!) ht_table) ?is)"
      by (auto dest!: find_SomeD simp del: upt_Suc)
    then obtain i where "i \<in> set ?is" "rs = ht_table ! i" by auto
    then show ?thesis using that(2) [of i] eq Some \<open>?P rs\<close> j16 by (auto simp: usable_set_def split: if_splits)
  qed
qed

section \<open>Every operation keeps the invariant\<close>

lemma first_better_in:
  "length (rr_rates rs) = Suc (rr_max rs - rr_min rs) \<Longrightarrow> rr_min rs \<le> rr_max rs \<Longrightarrow> in_rate rs (first_better ra rs best)"
  by (auto simp: first_better_def in_rate_def simp del: upt_Suc split: option.splits dest!: find_SomeD)

lemma probe_candidates_ok:
  assumes "ra_inv ic n ra" "ra_directed ra"
  obtains ra' where "ra_probe_candidates ra ic n = Some ra'" "ra_inv ic n ra'" "ra_probing ra' = ra_probing ra"
proof -
  let ?ra = "add_candidate (ra_txmcs ra) ra"
  have "ra_inv ic n ?ra" using assms by (simp add: add_candidate_def)
  then obtain up low where next_rates: "ra_next_intra_rate ?ra ic n = Some up" "ra_next_lower_intra_rate ?ra ic n = Some low"
    by (rule next_intra_ok)
  have "ra_directed ?ra" using assms(2) by (simp add: add_candidate_def)
  then consider "probing ?ra RA_PROBING_UP" | "\<not> probing ?ra RA_PROBING_UP" "probing ?ra RA_PROBING_DOWN"
    by (auto simp: ra_directed_def)
  then show ?thesis
  proof cases
    case 1
    then show ?thesis using that [of "add_candidate up ?ra"] next_rates assms(1)
      by (simp add: ra_probe_candidates_def Let_def add_candidate_def)
  next
    case 2
    then show ?thesis using that [of "add_candidate low ?ra"] next_rates assms(1)
      by (simp add: ra_probe_candidates_def Let_def add_candidate_def)
  qed
qed

lemma probe_next_rateset_ok:
  assumes "ra_inv ic n ra" "ra_directed ra" "usable_set ic n j"
  obtains ra' where "ra_probe_next_rateset ra ic n (ht_table ! j) = Some ra'" "ra_inv ic n ra'" "ra_directed ra'"
proof -
  let ?rs = "ht_table ! j"
  have j: "j < 16" using assms(3) by (simp add: usable_set_def)
  let ?ra = "ra\<lparr>ra_bw := rr_width ?rs, ra_sgi := rr_sgi ?rs, ra_nss := rr_nss ?rs, ra_index := rr_index ?rs,
      ra_txmcs := rr_min ?rs\<rparr>"
  have tx: "usable_mcs ic n (ra_txmcs ra)" using assms by (simp add: ra_inv_def)
  obtain rs where rs: "ra_get_rateset ra ic n (ra_txmcs ra) = Some rs" by (rule get_rateset_ok [OF assms(1) tx])
  have "usable_mcs ic n (rr_min ?rs)"
    by (rule usable_in_set [OF assms(3)]) (simp add: in_rate_def ht_table_fields j)
  then have inv: "ra_inv ic n ?ra"
    using assms j by (simp add: ra_inv_def valid_rate_def ht_table_fields)
  let ?best = "first_better ?ra ?rs (ra_best_mcs_in_rateset ra rs)"
  let ?ra' = "?ra\<lparr>ra_txmcs := ?best\<rparr>"
  have "usable_mcs ic n ?best"
    by (rule usable_in_set [OF assms(3)], rule first_better_in) (simp_all add: ht_table_fields j)
  then have "ra_inv ic n ?ra'" using inv by (rule ra_inv_txmcs [rotated])
  moreover have "ra_directed ?ra'" using assms(2) by (simp add: ra_directed_def probing_def)
  ultimately obtain ra' where ra': "ra_probe_candidates ?ra' ic n = Some ra'" "ra_inv ic n ra'"
      "ra_probing ra' = ra_probing ?ra'"
    by (rule probe_candidates_ok)
  have "ra_directed ra'" using ra'(3) assms(2) by (simp add: ra_directed_def probing_def)
  moreover obtain mcs where "ra_next_intra_rate ?ra ic n = Some mcs" by (rule next_intra_ok [OF inv])
  ultimately show ?thesis
    using that ra' rs by (simp add: ra_probe_next_rateset_def Let_def)
qed

lemma trigger_ok:
  assumes "ra_inv ic n ra" "ra_directed ra"
  obtains ra' where "ra_trigger_next_rateset ra ic n = Some ra'" "ra_inv ic n ra'" "ra_directed ra'"
  using assms(1,2)
proof (cases rule: next_rateset_ok)
  case 1
  then show ?thesis
    using that [of "ra\<lparr>ra_probing := ra_probing ra AND NOT RA_PROBING_INTER\<rparr>"] assms
    by (simp add: ra_trigger_next_rateset_def ra_directed_def probing_def has_flag_def inter_flag inter_flag [simplified])
next
  case (2 j)
  obtain ra' where ra': "ra_probe_next_rateset ra ic n (ht_table ! j) = Some ra'" "ra_inv ic n ra'" "ra_directed ra'"
    by (rule probe_next_rateset_ok [OF assms 2(2)])
  then show ?thesis
    using that [of "ra'\<lparr>ra_probing := ra_probing ra' OR RA_PROBING_INTER\<rparr>"] 2(1)
    by (simp add: ra_trigger_next_rateset_def ra_directed_def probing_def has_flag_def inter_flag)
qed

lemma get_txrate_ok:
  assumes "ra_inv ic n ra" "usable_mcs ic n mcs"
  obtains rate where "ra_get_txrate ra ic n mcs = Some rate"
  by (rule get_rateset_ok [OF assms]) (simp add: ra_get_txrate_def that)

lemma intra_finished_ok:
  assumes "ra_inv ic n ra" "ra_directed ra"
  obtains b ra' where "ra_intra_mode_ra_finished ra ic n = Some (b, ra')" "ra_inv ic n ra'" "ra_directed ra'"
proof -
  let ?ra = "ra\<lparr>ra_probed := ra_probed ra OR rate_bit (ra_txmcs ra)\<rparr>"
  have inv: "ra_inv ic n ?ra" and dir: "ra_directed ?ra" using assms by simp_all
  have tx: "usable_mcs ic n (ra_txmcs ra)" using assms by (simp add: ra_inv_def)
  obtain rs where rs: "ra_get_rateset ?ra ic n (ra_txmcs ra) = Some rs" by (rule get_rateset_ok [OF inv tx])
  obtain mcs where mcs: "ra_next_mcs ?ra ic n = Some mcs" "usable_mcs ic n mcs" by (rule next_mcs_ok [OF inv dir])
  obtain rate where rate: "ra_get_txrate ?ra ic n mcs = Some rate" by (rule get_txrate_ok [OF inv mcs(2)])
  obtain ra' where ra': "ra_trigger_next_rateset ?ra ic n = Some ra'" "ra_inv ic n ra'" "ra_directed ra'"
    by (rule trigger_ok [OF inv dir])
  let ?fin = "?ra\<lparr>ra_probing := ra_probing ra AND NOT RA_PROBING_INTER\<rparr>"
  have fin: "ra_inv ic n ?fin" "ra_directed ?fin"
    using assms by (simp_all add: ra_directed_def probing_def has_flag_def inter_flag inter_flag [simplified])
  have "ra_intra_mode_ra_finished ra ic n \<in> {Some (True, ra'), Some (True, ?fin), Some (False, ?ra)}"
    by (simp add: ra_intra_mode_ra_finished_def Let_def rs mcs(1) rate ra'(1))
  then show ?thesis using that [OF _ ra'(2,3)] that [OF _ fin] that [OF _ inv dir] by blast
qed

lemma probe_next_rate_ok:
  assumes "ra_inv ic n ra" "ra_directed ra"
  obtains ra' where "ra_probe_next_rate ra ic n = Some ra'" "ra_inv ic n ra'" "ra_directed ra'"
proof -
  let ?ra = "ra\<lparr>ra_probed := ra_probed ra OR rate_bit (ra_txmcs ra)\<rparr>"
  have inv: "ra_inv ic n ?ra" and dir: "ra_directed ?ra" using assms by simp_all
  obtain mcs where mcs: "ra_next_mcs ?ra ic n = Some mcs" "usable_mcs ic n mcs" by (rule next_mcs_ok [OF inv dir])
  show ?thesis
    using that [of "?ra\<lparr>ra_txmcs := mcs\<rparr>"] mcs ra_inv_txmcs [OF inv mcs(2)] dir
    by (simp add: ra_probe_next_rate_def Let_def)
qed

section \<open>The peer\<close>

text \<open>A peer of 802.11n whose number of received streams covers the rates it receives, and a device whose
  supported rates, of at least one stream, leave no stream out.\<close>

definition ht_peer :: "ra_com \<Rightarrow> bnode \<Rightarrow> bool" where
  "ht_peer ic n \<longleftrightarrow>
     \<not> is_vht n \<and> \<not> is_he n \<and> hn_chw (bn_ht n) \<in> {1, 2} \<and> 1 \<le> hn_rx_nss (bn_ht n) \<and>
     (\<forall>mcs<32. bit_set (hn_rxmcs (bn_ht n)) mcs \<longrightarrow> mcs div 8 < unat (hn_rx_nss (bn_ht n))) \<and>
     byte_at (rc_sup_mcs ic) 0 \<noteq> 0 \<and>
     (\<forall>k<4. byte_at (rc_sup_mcs ic) k \<noteq> 0 \<longrightarrow> (\<forall>j<k. byte_at (rc_sup_mcs ic) j \<noteq> 0))"

lemma stream_loop_covers:
  "i < 4 \<Longrightarrow> i < rx \<Longrightarrow> (\<And>j. j \<le> i \<Longrightarrow> ok j) \<Longrightarrow> i < stream_loop ok rx [0..<4] 0"
  by (auto simp: eval_nat_numeral less_Suc_eq)

lemma support_nss_pos: "ht_peer ic n \<Longrightarrow> 1 \<le> support_nss ic n"
proof -
  assume peer: "ht_peer ic n"
  have "0 < unat (hn_rx_nss (bn_ht n))" using peer by (auto simp: ht_peer_def word_le_nat_alt)
  then show ?thesis
    using stream_loop_covers [of 0 "unat (hn_rx_nss (bn_ht n))"] peer
    by (auto simp: support_nss_def ht_peer_def Let_def Suc_le_eq simp del: upt_rec_numeral)
qed

lemma bit_set_byte: "bit_set p i \<Longrightarrow> byte_at p (i div 8) \<noteq> 0"
  by (auto simp: bit_set_def)

lemma valid_mcs_usable:
  assumes "ht_peer ic n" "mcs < 32" "ra_valid_rx_mcs n mcs" "ra_valid_tx_mcs ic n mcs = Some True"
  shows "usable_mcs ic n mcs"
proof (cases "rc_tx_mcs_set ic AND TX_RX_MCS_NOT_EQUAL = 0")
  case True
  have k: "mcs div 8 < 4" using assms(2) by simp
  have rx: "mcs div 8 < unat (hn_rx_nss (bn_ht n))" and sup: "byte_at (rc_sup_mcs ic) (mcs div 8) \<noteq> 0"
    using assms True by (auto simp: ht_peer_def ra_valid_rx_mcs_def ra_valid_tx_mcs_def Let_def dest: bit_set_byte)
  have "byte_at (rc_sup_mcs ic) j \<noteq> 0" if "j \<le> mcs div 8" for j
    using assms(1) k sup that by (cases "j = mcs div 8") (auto simp: ht_peer_def)
  then show ?thesis
    using stream_loop_covers [OF k rx] assms(1) True
    by (simp add: usable_mcs_def support_nss_def ht_peer_def Let_def del: upt_rec_numeral)
next
  case False
  let ?s = "support_nss ic n"
  have "1 \<le> ?s" "?s \<le> 4" using support_nss_pos [OF assms(1)] support_nss_le by auto
  then consider "?s = 1" | "?s = 2" | "?s = 3" | "?s = 4" by linarith
  then show ?thesis
    using assms False by cases (auto simp: ra_valid_tx_mcs_def ht_peer_def usable_mcs_def Let_def)
qed

lemma rate_bit_iff: "v AND rate_bit mcs \<noteq> 0 \<longleftrightarrow> bit v mcs"
  by (simp add: rate_bit_def bit_iff_and_push_bit_not_eq_0)

lemma bit_or_rate: "bit (v OR rate_bit i) mcs \<Longrightarrow> bit v mcs \<or> mcs = i"
  by (auto simp: rate_bit_def bit_simps)

lemma valid_rates_loop_ok:
  assumes "ht_peer ic n" "set is \<subseteq> {..<32}" "\<And>mcs. bit acc mcs \<Longrightarrow> usable_mcs ic n mcs"
  shows "\<exists>v. valid_rates_loop ic n is acc = Some v \<and> (\<forall>mcs. bit v mcs \<longrightarrow> usable_mcs ic n mcs)"
  using assms(2,3)
proof (induction "is" arbitrary: acc)
  case (Cons i "is")
  have i: "i < 32" using Cons.prems by simp
  have "ra_valid_tx_mcs ic n i \<noteq> None"
    using support_nss_pos [OF assms(1)] support_nss_le [of ic n] by (auto simp: ra_valid_tx_mcs_def Let_def)
  then obtain ok where ok: "ra_valid_tx_mcs ic n i = Some ok" by blast
  show ?case
  proof (cases "ra_valid_rx_mcs n i \<and> ok")
    case True
    then have "usable_mcs ic n i" using valid_mcs_usable [OF assms(1) i] ok by simp
    then have "usable_mcs ic n mcs" if "bit (acc OR rate_bit i) mcs" for mcs
      using bit_or_rate [OF that] Cons.prems(2) by auto
    then show ?thesis using Cons.IH [of "acc OR rate_bit i"] Cons.prems(1) True ok by simp
  next
    case False
    then show ?thesis using Cons.IH [of acc] Cons.prems ok by auto
  qed
qed simp

lemma all_valid_rates_ok:
  assumes "ht_peer ic n"
  obtains v where "ra_all_valid_rates ic n = Some v" "\<forall>mcs. bit v mcs \<longrightarrow> usable_mcs ic n mcs"
proof -
  have "\<exists>v. valid_rates_loop ic n [0..<32] 0 = Some v \<and> (\<forall>mcs. bit v mcs \<longrightarrow> usable_mcs ic n mcs)"
    by (rule valid_rates_loop_ok [OF assms]) auto
  then show ?thesis
    using that assms by (auto simp: ra_all_valid_rates_def ht_peer_def simp del: upt_rec_numeral)
qed

section \<open>The entry points\<close>

lemma best_step_usable:
  assumes "\<And>mcs. valid_rate ra mcs \<Longrightarrow> usable_mcs ic n mcs" "usable_mcs ic n (snd acc)"
  shows "usable_mcs ic n (snd (fold (best_step ra) mcss acc))"
  using assms(2)
proof (induction mcss arbitrary: acc)
  case (Cons m mcss)
  have "usable_mcs ic n (snd (best_step ra m acc))"
    using Cons.prems assms(1) [of m] by (auto simp: best_step_def Let_def split: prod.splits)
  then show ?case using Cons.IH by simp
qed simp

lemma choose_probing_ok:
  assumes "ra_inv ic n ra" "ra_directed ra"
  obtains ra' where "choose_probing ic n ra = Some ra'" "ra_ok ic n ra'"
proof (cases "ra_valid_probes ra AND rate_bit (ra_txmcs ra) = 0")
  case True
  then show ?thesis using that [of ra] assms by (simp add: choose_probing_def ra_ok_def)
next
  case False
  have clear: "ra_inv ic n (ra_probe_clear ra)" "ra_directed (ra_probe_clear ra)"
    using assms by (simp_all add: ra_probe_clear_def)
  obtain b ra1 where ra1: "ra_intra_mode_ra_finished (ra_probe_clear ra) ic n = Some (b, ra1)"
      "ra_inv ic n ra1" "ra_directed ra1"
    by (rule intra_finished_ok [OF clear])
  obtain ra2 where ra2: "ra_probe_next_rate ra1 ic n = Some ra2" "ra_inv ic n ra2" "ra_directed ra2"
    by (rule probe_next_rate_ok [OF ra1(2,3)])
  let ?best = "ra1\<lparr>ra_best := ra_best_rate ra1, ra_txmcs := ra_best_rate ra1\<rparr>"
  have "usable_mcs ic n (ra_best_rate ra1)"
    unfolding ra_best_rate_def by (rule best_step_usable) (use ra1(2) in \<open>auto simp: ra_inv_def\<close>)
  then have "ra_inv ic n ?best" using ra1(2) by (simp add: ra_inv_def valid_rate_def)
  then have best: "ra_ok ic n (ra_probe_done ?best)"
    by (simp add: ra_probe_done_def ra_ok_def ra_inv_def valid_rate_def)
  have "choose_probing ic n ra \<in> {Some ra2, Some (ra_probe_done ?best), Some ra1}"
    using False ra1(1) ra2(1) by (simp add: choose_probing_def)
  then show ?thesis using that best ra1(2,3) ra2(2,3) by (auto simp: ra_ok_def)
qed

lemma start_probe_ok:
  assumes "ra_inv ic n ra" "mode \<in> {RA_PROBING_DOWN, RA_PROBING_UP}"
  obtains ra' where "start_probe ic n mode e ra = Some ra'" "ra_ok ic n ra'"
proof -
  let ?ra = "ra\<lparr>ra_probed := 0, ra_probing := mode\<rparr>"
  have inv: "ra_inv ic n ?ra" using assms(1) by (simp add: ra_inv_def valid_rate_def)
  have dir: "ra_directed ?ra" using assms(2) by (auto simp: ra_directed_def probing_def has_flag_def)
  show ?thesis
  proof (cases e)
    case True
    from inv dir show ?thesis
    proof (cases rule: next_rateset_ok)
      case 1
      then show ?thesis using that [of "?ra\<lparr>ra_probing := 0\<rparr>"] True inv
        by (simp add: start_probe_def ra_ok_def Let_def ra_inv_def valid_rate_def)
    next
      case (2 j)
      then obtain ra' where "ra_probe_next_rateset ?ra ic n (ht_table ! j) = Some ra'" "ra_inv ic n ra'" "ra_directed ra'"
        by (auto elim: probe_next_rateset_ok [OF inv dir])
      then show ?thesis using that [of ra'] True 2(1) by (simp add: start_probe_def ra_ok_def)
    qed
  next
    case False
    obtain mcs where mcs: "ra_next_mcs ?ra ic n = Some mcs" "usable_mcs ic n mcs" by (rule next_mcs_ok [OF inv dir])
    let ?ra' = "?ra\<lparr>ra_candidates := rate_bit mcs, ra_txmcs := mcs\<rparr>"
    have "ra_inv ic n ?ra'" using inv mcs(2) by (simp add: ra_inv_def valid_rate_def)
    moreover have "ra_directed ?ra'" using dir by (simp add: ra_directed_def probing_def)
    ultimately show ?thesis using that [of ?ra'] False mcs(1) by (simp add: start_probe_def ra_ok_def Let_def)
  qed
qed

lemma choose_idle_ok:
  assumes "ra_inv ic n ra"
  obtains ra' where "choose_idle ic n ra = Some ra'" "ra_ok ic n ra'"
proof -
  have tx: "usable_mcs ic n (ra_txmcs ra)" using assms by (simp add: ra_inv_def)
  obtain rs where rs: "ra_get_rateset ra ic n (ra_txmcs ra) = Some rs" by (rule get_rateset_ok [OF assms tx])
  obtain d where d: "start_probe ic n RA_PROBING_DOWN (ra_txmcs ra = rr_min rs) ra = Some d" "ra_ok ic n d"
    using start_probe_ok [OF assms, of RA_PROBING_DOWN "ra_txmcs ra = rr_min rs"] by auto
  obtain u where u: "start_probe ic n RA_PROBING_UP (ra_txmcs ra = rr_max rs) ra = Some u" "ra_ok ic n u"
    using start_probe_ok [OF assms, of RA_PROBING_UP "ra_txmcs ra = rr_max rs"] by auto
  let ?same = "ra\<lparr>ra_candidates := 0, ra_probed := 0, ra_probing := 0\<rparr>"
  have "ra_ok ic n ?same" using assms by (simp add: ra_ok_def ra_inv_def valid_rate_def)
  moreover have "choose_idle ic n ra \<in> {Some d, Some u, Some ?same}"
    using rs d(1) u(1) by (simp add: choose_idle_def Let_def)
  ultimately show ?thesis using that d(2) u(2) by auto
qed

lemma choose_ok:
  assumes "ht_peer ic n" "ra_ok ic n ra"
  shows "\<exists>ra'. ra_choose ic n ra = Some ra' \<and> ra_ok ic n ra'"
proof -
  obtain all where all: "ra_all_valid_rates ic n = Some all" "\<forall>mcs. bit all mcs \<longrightarrow> usable_mcs ic n mcs"
    by (rule all_valid_rates_ok [OF assms(1)])
  let ?v = "if ra_valid_rates ra = 0 then all else ra_valid_rates ra"
  let ?ra = "ra\<lparr>ra_valid_rates := ?v\<rparr>"
  have inv: "ra_inv ic n ra" using assms(2) by (simp add: ra_ok_def)
  have "usable_mcs ic n mcs" if "bit ?v mcs" for mcs
    using that all(2) inv by (auto simp: ra_inv_def valid_rate_def rate_bit_iff split: if_splits)
  then have inv: "ra_inv ic n ?ra"
    using inv by (auto simp: ra_inv_def valid_rate_def rate_bit_iff)
  then have idle: "ra_inv ic n (?ra\<lparr>ra_valid_probes := 0\<rparr>)" by (simp only: ra_inv_update)
  have eq: "ra_choose ic n ra = (if ra_probing ra \<noteq> 0 then choose_probing ic n ?ra
      else choose_idle ic n (?ra\<lparr>ra_valid_probes := 0\<rparr>))"
    using all(1) by (simp add: ra_choose_def Let_def)
  show ?thesis
  proof (cases "ra_probing ra = 0")
    case True
    obtain ra' where "choose_idle ic n (?ra\<lparr>ra_valid_probes := 0\<rparr>) = Some ra'" "ra_ok ic n ra'"
      by (rule choose_idle_ok [OF idle])
    then show ?thesis using eq True by simp
  next
    case False
    then have "ra_directed ?ra" using assms(2) by (simp add: ra_ok_def ra_directed_def probing_def)
    then obtain ra' where "choose_probing ic n ?ra = Some ra'" "ra_ok ic n ra'"
      by (rule choose_probing_ok [OF inv])
    then show ?thesis using eq False by simp
  qed
qed

lemma add_stats_ok:
  assumes "ra_ok ic n ra" "mcs < 0 \<or> 32 \<le> mcs \<or> usable_mcs ic n (nat mcs)"
  shows "\<exists>ra'. ra_add_stats_ht ic n mcs pkts fail ra = Some ra' \<and> ra_ok ic n ra'"
proof (cases "mcs < 0 \<or> 32 \<le> mcs \<or> pkts = 0")
  case True
  then show ?thesis using assms by (auto simp: ra_add_stats_ht_def)
next
  case False
  let ?ra = "ra\<lparr>ra_valid_probes := ra_valid_probes ra OR rate_bit (nat mcs)\<rparr>"
  have inv: "ra_inv ic n ra" using assms(1) by (simp add: ra_ok_def)
  have "ra_inv ic n ?ra" using inv by simp
  moreover have "usable_mcs ic n (nat mcs)" using assms(2) False by auto
  ultimately obtain rate where rate: "ra_get_txrate ?ra ic n (nat mcs) = Some rate" by (rule get_txrate_ok)
  have ok: "ra_ok ic n (ra\<lparr>ra_g := (ra_g ra)[i := g]\<rparr>)"
    "ra_ok ic n (ra\<lparr>ra_valid_probes := v, ra_g := (ra_g ra)[i := g]\<rparr>)" for i g v
    using assms(1) by (auto simp: ra_ok_def ra_inv_def valid_rate_def ra_directed_def probing_def)
  show ?thesis using False rate ok by (auto simp: ra_add_stats_ht_def Let_def)
qed

section \<open>A driver that reports and chooses\<close>

text \<open>The calls of a driver: a report of the packets sent at a rate, and the choice of the rate.\<close>

datatype ra_event = Stats int u32 u32 | Choose

primrec ra_step :: "ra_com \<Rightarrow> bnode \<Rightarrow> ra_event \<Rightarrow> ra_node \<Rightarrow> ra_node option" where
  "ra_step ic n (Stats mcs pkts fail) ra = ra_add_stats_ht ic n mcs pkts fail ra"
| "ra_step ic n Choose ra = ra_choose ic n ra"

primrec ra_run :: "ra_com \<Rightarrow> bnode \<Rightarrow> ra_event list \<Rightarrow> ra_node \<Rightarrow> ra_node option" where
  "ra_run ic n [] ra = Some ra"
| "ra_run ic n (e # es) ra = (case ra_step ic n e ra of None \<Rightarrow> None | Some ra \<Rightarrow> ra_run ic n es ra)"

text \<open>A report of a rate the link has, or of a number that is no rate of 802.11n at all.\<close>

fun sane_event :: "ra_com \<Rightarrow> bnode \<Rightarrow> ra_event \<Rightarrow> bool" where
  "sane_event ic n (Stats mcs pkts fail) \<longleftrightarrow> mcs < 0 \<or> 32 \<le> mcs \<or> usable_mcs ic n (nat mcs)"
| "sane_event ic n Choose \<longleftrightarrow> True"

lemma ra_step_ok:
  assumes "ht_peer ic n" "ra_ok ic n ra" "sane_event ic n e"
  shows "\<exists>ra'. ra_step ic n e ra = Some ra' \<and> ra_ok ic n ra'"
  using assms choose_ok [OF assms(1,2)] add_stats_ok [OF assms(2)] by (cases e) auto

lemma ra_run_ok:
  assumes "ht_peer ic n" "ra_ok ic n ra" "\<forall>e\<in>set es. sane_event ic n e"
  shows "\<exists>ra'. ra_run ic n es ra = Some ra' \<and> ra_ok ic n ra'"
  using assms(2,3)
proof (induction es arbitrary: ra)
  case (Cons e es)
  then obtain ra1 where "ra_step ic n e ra = Some ra1" "ra_ok ic n ra1"
    using ra_step_ok [OF assms(1)] by fastforce
  then show ?case using Cons.IH [of ra1] Cons.prems by simp
qed simp

lemma node_init_ok:
  assumes "ht_peer ic n" "rc_curmode ic = MODE_11N" "usable_mcs ic n mcs"
  obtains ra where "ra_node_init ic n mcs = Some ra" "ra_ok ic n ra"
proof -
  let ?i = "first_rateset n"
  have nss: "1 \<le> support_nss ic n" using support_nss_pos [OF assms(1)] .
  have "?i \<in> {0, 8}" "?i = 8 \<longrightarrow> hn_chw (bn_ht n) = 2" "1 \<le> hn_chw (bn_ht n)"
    using assms(1) by (auto simp: first_rateset_def ht_peer_def Let_def)
  then have "usable_set ic n ?i"
    using nss by (auto simp: usable_set_def ht_table_fields)
  moreover have "usable_mcs ic n 0" using nss by (simp add: usable_mcs_def)
  ultimately show ?thesis
    using that assms by (simp add: ra_node_init_def build_rateset_def ht_table_def ra_ok_def ra_inv_def
        valid_rate_def)
qed

text \<open>C32. The rate adaptation does not panic: for a peer of 802.11n whose announced rates need no more streams
  than it receives, from the initial state and for any sequence of reports of rates that the link has (or of
  numbers that are no MCS) and of choices, every call returns and the chosen MCS is one of the streams both
  sides have, inside a rate set of the table.\<close>

theorem rate_adaptation_never_panics:
  assumes "ht_peer ic n" and "rc_curmode ic = MODE_11N" and "usable_mcs ic n mcs"
    and "\<forall>e\<in>set es. sane_event ic n e"
  shows "\<exists>ra ra'. ra_node_init ic n mcs = Some ra \<and> ra_run ic n es ra = Some ra' \<and>
           ra_txmcs ra' div 8 < support_nss ic n \<and> usable_set ic n (ra_index ra')"
proof -
  obtain ra where ra: "ra_node_init ic n mcs = Some ra" "ra_ok ic n ra" by (rule node_init_ok [OF assms(1-3)])
  then show ?thesis
    using ra_run_ok [OF assms(1) ra(2) assms(4)] by (auto simp: ra_ok_def ra_inv_def usable_mcs_def)
qed

definition ra_demo_com :: ra_com where
  "ra_demo_com = \<lparr>rc_curmode = MODE_11N, rc_tx_mcs_set = 1, rc_sup_mcs = [0xff, 0xff, 0, 0, 0, 0, 0, 0, 0, 0],
     rc_vht_sup_mcs = replicate 10 0\<rparr>"

definition ra_demo_peer :: bnode where
  "ra_demo_peer = zero_node\<lparr>bn_flags := NODE_HT, bn_ht := zero_ht\<lparr>
     hn_rxmcs := [0xff, 0xff, 0, 0, 0, 0, 0, 0, 0, 0], hn_chw := 2, hn_rx_nss := 2\<rparr>\<rparr>"

lemma ra_demo_is_ht: "ht_peer ra_demo_com ra_demo_peer"
proof -
  have rates: "\<forall>mcs\<in>set [0..<32]. bit_set (hn_rxmcs (bn_ht ra_demo_peer)) mcs \<longrightarrow> mcs div 8 < 2" by code_simp
  have sup: "\<forall>k\<in>set [0..<4]. byte_at (rc_sup_mcs ra_demo_com) k \<noteq> 0 \<longrightarrow>
      (\<forall>j\<in>set [0..<k]. byte_at (rc_sup_mcs ra_demo_com) j \<noteq> 0)" by code_simp
  have "\<not> is_vht ra_demo_peer \<and> \<not> is_he ra_demo_peer \<and> hn_chw (bn_ht ra_demo_peer) = 2 \<and>
      hn_rx_nss (bn_ht ra_demo_peer) = 2 \<and> byte_at (rc_sup_mcs ra_demo_com) 0 \<noteq> 0" by code_simp
  then show ?thesis
    using rates sup by (simp add: ht_peer_def del: upt_rec_numeral)
qed

lemma ra_demo_nss: "support_nss ra_demo_com ra_demo_peer = 2"
  by code_simp

theorem rate_adaptation_never_panics_witness:
  "\<exists>ra ra'. ra_node_init ra_demo_com ra_demo_peer 7 = Some ra \<and>
     ra_run ra_demo_com ra_demo_peer [Choose, Stats 7 200 3, Choose, Stats 8 150 150, Stats 77 1 0, Choose] ra = Some ra' \<and>
     ra_txmcs ra' div 8 < support_nss ra_demo_com ra_demo_peer \<and>
     usable_set ra_demo_com ra_demo_peer (ra_index ra')"
  by (rule rate_adaptation_never_panics [OF ra_demo_is_ht])
    (simp_all add: ra_demo_com_def [THEN arg_cong [where f = rc_curmode]] usable_mcs_def ra_demo_nss)

text \<open>C33. A report of a rate with more streams than the link has stops the machine once it makes a valid probe,
  although the function says that values of the hardware must not cause a panic.\<close>

theorem unsupported_report_panics:
  assumes "ra_ok ic n ra" and "0 \<le> mcs" and "mcs < 32" and "\<not> usable_mcs ic n (nat mcs)"
    and "gp_pkts (ra_g ra ! nat mcs) = 0" and "128 \<le> pkts"
  shows "ra_add_stats_ht ic n mcs pkts fail ra = None"
proof -
  have inv: "ra_inv ic n ra" using assms(1) by (simp add: ra_ok_def)
  have no: "\<not> (rr_nss (ht_table ! j) \<le> support_nss ic n \<and> in_rate (ht_table ! j) (nat mcs))" if "j < 16" for j
    using assms(4) that by (simp add: in_ht_rate ht_table_fields usable_mcs_def)
  have "ra_get_rateset ra' ic n (nat mcs) = None" if "ra_active ra' = ht_table" "ra_count ra' = 16"
      "ra_index ra' = ra_index ra" for ra'
  proof -
    have i: "ra_index ra < 16" "rr_nss (ht_table ! ra_index ra) \<le> support_nss ic n"
      using inv by (auto simp: ra_inv_def usable_set_def)
    then have "\<not> in_rate (ht_table ! ra_index ra) (nat mcs)" using no by blast
    moreover have "x < Suc (ra_index ra) \<Longrightarrow> rr_nss (ht_table ! x) \<le> support_nss ic n \<Longrightarrow>
        \<not> in_rate (ht_table ! x) (nat mcs)" for x
      using no [of x] i(1) by simp
    ultimately show ?thesis
      using that no by (auto simp: ra_get_rateset_def find_None_iff simp del: upt_Suc)
  qed
  then show ?thesis
    using assms inv by (auto simp: ra_add_stats_ht_def ra_get_txrate_def ra_probe_valid_def ra_inv_def Let_def)
qed

theorem unsupported_report_panics_witness:
  "\<exists>ra. ra_node_init ra_demo_com ra_demo_peer 7 = Some ra \<and>
     ra_add_stats_ht ra_demo_com ra_demo_peer 16 128 0 ra = None"
proof -
  have "usable_mcs ra_demo_com ra_demo_peer 7" by (simp add: usable_mcs_def ra_demo_nss)
  moreover have "rc_curmode ra_demo_com = MODE_11N" by code_simp
  ultimately obtain ra where ra: "ra_node_init ra_demo_com ra_demo_peer 7 = Some ra"
      "ra_ok ra_demo_com ra_demo_peer ra"
    using node_init_ok [OF ra_demo_is_ht] by blast
  then have "gp_pkts (ra_g ra ! nat 16) = 0"
    by (auto simp: ra_node_init_def zero_goodput_def)
  then show ?thesis
    using ra unsupported_report_panics [OF ra(2), of 16 128 0] by (simp add: usable_mcs_def ra_demo_nss)
qed

end
