(* ===== verification/ApStations.thy ===== *)
theory ApStations
  imports Receive Authenticator
begin

unbundle bit_operations_syntax

text \<open>
  The stations of an access point: association requests (\<^verbatim>\<open>ieee80211_recv_assoc_req\<close> of
  \<^verbatim>\<open>net80211/ieee80211_input.c\<close>), joining and leaving (\<^verbatim>\<open>ieee80211_node_join\<close>, \<^verbatim>\<open>ieee80211_node_leave\<close> and the
  functions they call in \<^verbatim>\<open>net80211/ieee80211_node.c\<close>), the SA Query procedure of an access point and the
  registration of the consumer of station events.  It puts the node cache, the receive path's Block Ack records
  and the authenticator together.
\<close>

abbreviation (input) NODE_ERP :: u32 where "NODE_ERP \<equiv> 1"
abbreviation (input) NODE_SA_QUERY_FAILED :: u32 where "NODE_SA_QUERY_FAILED \<equiv> 0x1000"
abbreviation (input) ST_REASSOC_RESP :: u8 where "ST_REASSOC_RESP \<equiv> 0x30"
abbreviation (input) PROT_NONE :: nat where "PROT_NONE \<equiv> 0"
abbreviation (input) REASON_ASSOC_NOT_AUTHED :: u32 where "REASON_ASSOC_NOT_AUTHED \<equiv> 9"
abbreviation (input) STATUS_CAPINFO :: u16 where "STATUS_CAPINFO \<equiv> 10"
abbreviation (input) STATUS_TOOMANY :: u16 where "STATUS_TOOMANY \<equiv> 17"
abbreviation (input) STATUS_BASIC_RATE :: u16 where "STATUS_BASIC_RATE \<equiv> 18"
abbreviation (input) STATUS_TRY_AGAIN_LATER :: u32 where "STATUS_TRY_AGAIN_LATER \<equiv> 30"
abbreviation (input) STATUS_MFP_POLICY :: u16 where "STATUS_MFP_POLICY \<equiv> 31"
abbreviation (input) STATUS_BAD_AKMP :: u16 where "STATUS_BAD_AKMP \<equiv> 43"
abbreviation (input) STATUS_CIPHER_REJ_POLICY :: u16 where "STATUS_CIPHER_REJ_POLICY \<equiv> 46"

section \<open>State\<close>

datatype station_event = Station_Leave | Station_Assoc | Station_Reassoc

datatype ap_stat = As_Assoc_Bss | As_Elem_Toosmall | As_Ssid_Mismatch | As_Assoc_Notauth | As_Capmismatch
  | As_Norate

datatype ap_event = Ap_Stat ap_stat | Ap_New_Assoc node_ref bool | Ap_Node_Leave node_ref
  | Ap_Station node_ref station_event | Ap_Sa_Query node_ref | Ap_Pae pae_event

text \<open>The state of the receive path with the node cache in it, the nodes' and the interface's fields for the
  authenticator (those they share with the node cache are brought up to date before use), the largest
  association identifier, the number of SA Query requests sent to a node, the protocols and AKMs that its
  element names, and the registered consumer of station events (callback and cookie).\<close>

record aps =
  as_rx :: rxs
  as_pae :: "node_ref \<Rightarrow> pae_node"
  as_ic :: pae_com
  as_max_aid :: u16
  as_sa_count :: "node_ref \<Rightarrow> int"
  as_supported :: "node_ref \<Rightarrow> u32 \<times> u32"
  as_consumer :: "(nat \<times> nat) option"
  as_log :: "ap_event list"

text \<open>The surroundings; \<open>ah_newassoc\<close> and \<open>ah_node_leave\<close> say that the driver's hooks are set.\<close>

record ap_hooks =
  ah_m :: mlme_hooks
  ah_pae :: pae_hooks
  ah_newassoc :: bool
  ah_node_leave :: bool

definition as_m :: "aps \<Rightarrow> mlme" where
  "as_m s = rs_m (as_rx s)"

definition on_m :: "(mlme \<Rightarrow> mlme) \<Rightarrow> aps \<Rightarrow> aps" where
  "on_m f s = s\<lparr>as_rx := upd_m f (as_rx s)\<rparr>"

definition on_rx :: "(rxs \<Rightarrow> rxs) \<Rightarrow> aps \<Rightarrow> aps" where
  "on_rx f s = s\<lparr>as_rx := f (as_rx s)\<rparr>"

definition ap_node :: "aps \<Rightarrow> node_ref \<Rightarrow> bnode" where
  "ap_node s r = the_node (as_m s) r"

definition on_node :: "node_ref \<Rightarrow> (bnode \<Rightarrow> bnode) \<Rightarrow> aps \<Rightarrow> aps" where
  "on_node r f = on_m (upd_node r f)"

definition ap_log :: "ap_event \<Rightarrow> aps \<Rightarrow> aps" where
  "ap_log e s = s\<lparr>as_log := as_log s @ [e]\<rparr>"

definition ap_log_if :: "bool \<Rightarrow> ap_event \<Rightarrow> aps \<Rightarrow> aps" where
  "ap_log_if b e s = (if b then ap_log e s else s)"

section \<open>The authenticator on a node of the cache\<close>

definition pae_in :: "bnode \<Rightarrow> pae_node \<Rightarrow> pae_node" where
  "pae_in n p =
     p\<lparr>mn_flags := bn_flags n, mn_associd := bn_associd n, mn_rsnprotos := bn_rsnprotos n,
       mn_rsngroupcipher := bn_rsngroupcipher n, mn_rsnciphers := bn_rsnciphers n, mn_rsnakms := bn_rsnakms n,
       mn_rsncaps := bn_rsncaps n, mn_pmkid := bn_pmkid n, pn_macaddr := bn_macaddr n, pn_state := bn_state n,
       pn_rsncipher := bn_rsncipher n, pn_rsngroupmgmtcipher := bn_rsngroupmgmtcipher n,
       pn_rsnie := bn_rsnie n, pn_pairwise_key := bn_pairwise_key n, pn_port_valid := bn_port_valid n\<rparr>"

definition pae_out :: "pae_node \<Rightarrow> bnode \<Rightarrow> bnode" where
  "pae_out p n =
     n\<lparr>bn_rsncipher := pn_rsncipher p, bn_pairwise_key := pn_pairwise_key p, bn_port_valid := pn_port_valid p,
       bn_state := pn_state p, bn_flags := mn_flags p\<rparr>"

definition pae_com_in :: "mlme \<Rightarrow> pae_com \<Rightarrow> pae_com" where
  "pae_com_in m c =
     c\<lparr>mc_opmode := m_opmode m, mc_flags := m_flags m, mc_caps := m_caps m, pc_myaddr := m_myaddr m,
       pc_psk := m_psk m, pc_globalcnt := m_globalcnt m, pc_nw_keys := m_nw_keys m,
       pc_def_txkey := m_def_txkey m, pc_igtk_kid := m_igtk_kid m\<rparr>"

definition pae_com_out :: "pae_com \<Rightarrow> mlme \<Rightarrow> mlme" where
  "pae_com_out c m =
     m\<lparr>m_nw_keys := pc_nw_keys c, m_def_txkey := pc_def_txkey c, m_igtk_kid := pc_igtk_kid c,
       m_globalcnt := pc_globalcnt c\<rparr>"

definition pae_view :: "aps \<Rightarrow> node_ref \<Rightarrow> pae" where
  "pae_view s r =
     \<lparr>p_ni = pae_in (ap_node s r) (as_pae s r), p_ic = pae_com_in (as_m s) (as_ic s),
      p_others = map (\<lambda>n. pae_in n (as_pae s (Peer (bn_macaddr n))))
        (filter (\<lambda>n. Peer (bn_macaddr n) \<noteq> r) (m_tree (as_m s))),
      p_log = []\<rparr>"

definition pae_back :: "node_ref \<Rightarrow> pae \<Rightarrow> aps \<Rightarrow> aps" where
  "pae_back r p s =
     (let s = on_m (\<lambda>m. upd_node r (pae_out (p_ni p)) (pae_com_out (p_ic p) m)) s
      in s\<lparr>as_pae := (as_pae s)(r := p_ni p), as_ic := p_ic p, as_log := as_log s @ map Ap_Pae (p_log p)\<rparr>)"

definition with_pae :: "node_ref \<Rightarrow> (pae \<Rightarrow> pae) \<Rightarrow> aps \<Rightarrow> aps" where
  "with_pae r f s = pae_back r (f (pae_view s r)) s"

section \<open>Counting stations\<close>

definition is_station :: "bnode \<Rightarrow> bool" where
  "is_station n \<longleftrightarrow> bn_associd n \<noteq> 0 \<and> bn_state n \<noteq> STA_COLLECT"

definition iserp_sta :: "bnode \<Rightarrow> bool" where
  "iserp_sta n \<longleftrightarrow>
     (\<forall>r\<in>set [2, 4, 11, 22, 12, 24, 48]. \<exists>x\<in>set (used_rates (bn_rates n)). RV x = r)"

definition count_longslotsta :: "mlme \<Rightarrow> nat" where
  "count_longslotsta m =
     length (filter (\<lambda>n. is_station n \<and> \<not> has_flag (bn_capinfo n) CAPINFO_SHORT_SLOTTIME) (m_tree m))"

definition count_nonerpsta :: "mlme \<Rightarrow> nat" where
  "count_nonerpsta m = length (filter (\<lambda>n. is_station n \<and> \<not> iserp_sta n) (m_tree m))"

definition count_pssta :: "aps \<Rightarrow> nat" where
  "count_pssta s =
     length (filter (\<lambda>n. is_station n \<and> rn_doze (rs_node (as_rx s) (Peer (bn_macaddr n)))) (m_tree (as_m s)))"

text \<open>The conditions of the access point's 2 GHz rules.\<close>

definition is_11g_bss :: "mlme \<Rightarrow> bool" where
  "is_11g_bss m \<longleftrightarrow>
     m_curmode m = MODE_11G \<or> m_curmode m = MODE_11N \<and> chan_is m CHAN_2GHZ (bn_chan (m_bss m))"

section \<open>Station events\<close>

definition apsta_event_register :: "(nat \<times> nat) option \<Rightarrow> aps \<Rightarrow> int \<times> aps" where
  "apsta_event_register cb s =
     (case cb of None \<Rightarrow> (22, s)
      | Some c \<Rightarrow> if as_consumer s \<noteq> None \<and> as_consumer s \<noteq> Some c then (EBUSY, s)
                  else (0, s\<lparr>as_consumer := Some c\<rparr>))"

definition apsta_event_unregister :: "nat \<Rightarrow> aps \<Rightarrow> aps" where
  "apsta_event_unregister arg s =
     (case as_consumer s of None \<Rightarrow> s
      | Some (cb, a) \<Rightarrow> if a \<noteq> arg then s else s\<lparr>as_consumer := None\<rparr>)"

definition apsta_event_publish :: "node_ref \<Rightarrow> station_event \<Rightarrow> aps \<Rightarrow> aps" where
  "apsta_event_publish r e s = ap_log_if (as_consumer s \<noteq> None) (Ap_Station r e) s"

section \<open>Leaving\<close>

definition node_leave_11g :: "mlme_hooks \<Rightarrow> node_ref \<Rightarrow> mlme \<Rightarrow> mlme" where
  "node_leave_11g H r m =
     (let m = (if \<not> has_flag (bn_capinfo (the_node m r)) CAPINFO_SHORT_SLOTTIME \<and> count_longslotsta m = 1 \<and>
                  has_flag (m_caps m) C_SHSLOT \<and> m_opmode m \<noteq> M_IBSS
               then set_shortslottime H True m else m)
      in if \<not> has_flag (bn_flags (the_node m r)) NODE_ERP \<and> count_nonerpsta m = 1
         then let m = m_clear_flags F_USEPROT m
              in if has_flag (m_caps m) C_SHPREAMBLE then m_set_flags F_SHPREAMBLE m else m
         else m)"

definition node_leave_ht :: "node_ref \<Rightarrow> aps \<Rightarrow> aps" where
  "node_leave_ht r s =
     on_node r clear_htcaps
       (on_rx (upd_rxn r (\<lambda>x. x\<lparr>rn_ba := (let ni = ba_free (ba_del (rn_ba x))
          in ni\<lparr>ni_rx_ba := map (\<lambda>ba. ba\<lparr>ba_buf := None\<rparr>) (ni_rx_ba ni)\<rparr>)\<rparr>)) s)"

definition stop_sa_query :: "node_ref \<Rightarrow> aps \<Rightarrow> aps" where
  "stop_sa_query r =
     on_rx (upd_rxn r (\<lambda>x. x\<lparr>rn_ba := (rn_ba x)\<lparr>ni_sa_query_to := timeout_del (ni_sa_query_to (rn_ba x))\<rparr>\<rparr>))"

definition set_node_state :: "node_ref \<Rightarrow> sta_state \<Rightarrow> aps \<Rightarrow> aps" where
  "set_node_state r st = on_node r (\<lambda>n. n\<lparr>bn_state := st\<rparr>)"

text \<open>The part of \<^verbatim>\<open>ieee80211_node_leave\<close> for an associated station.\<close>

definition leave_station :: "ap_hooks \<Rightarrow> node_ref \<Rightarrow> aps \<Rightarrow> aps" where
  "leave_station H r s =
     (let s = on_rx (upd_rxn r (\<lambda>x. x\<lparr>rn_doze := False\<rparr>)) s;
          n = ap_node s r;
          s = on_m (log_if (bn_savedq n \<noteq> [] \<and> mh_set_tim (ah_m H)) (Ev_Set_Tim (bn_associd n)))
                (on_node r (\<lambda>n. n\<lparr>bn_savedq := []\<rparr>) s);
          s = (if m_flag (as_m s) F_RSNON
               then stop_sa_query r (with_pae r (node_leave_rsn (ah_pae H)) s) else s);
          s = (if is_11g_bss (as_m s) then on_m (node_leave_11g (ah_m H) r) s else s);
          s = (if has_flag (bn_flags (ap_node s r)) NODE_HT then node_leave_ht r s else s);
          s = (if has_flag (bn_flags (ap_node s r)) NODE_VHT then on_node r clear_vhtcaps s else s);
          s = ap_log_if (ah_node_leave H) (Ap_Node_Leave r) s
      in set_node_state r STA_COLLECT (apsta_event_publish r Station_Leave s))"

text \<open>\<open>None\<close> is the panic outside access point mode.\<close>

definition ap_node_leave :: "ap_hooks \<Rightarrow> node_ref \<Rightarrow> aps \<Rightarrow> aps option" where
  "ap_node_leave H r s =
     (let n = ap_node s r in
      if m_opmode (as_m s) \<noteq> M_HOSTAP then None
      else if bn_state n = STA_COLLECT then Some s
      else if bn_associd n = 0 then Some (set_node_state r STA_COLLECT s)
      else Some (leave_station H r s))"

section \<open>Joining\<close>

definition node_join_ht :: "mlme_hooks \<Rightarrow> node_ref \<Rightarrow> mlme \<Rightarrow> mlme" where
  "node_join_ht H r m =
     (if \<not> has_flag (bn_flags (the_node m r)) NODE_HT
      then log_if (mh_updateprot H) Ev_Update_Prot
             (upd_node Bss (upd_ht (\<lambda>h. h\<lparr>hn_htop1 := (hn_htop1 h AND NOT HTOP1_PROT_MASK) OR HTPROT_NONHT_MIXED\<rparr>)) m)
      else m)"

text \<open>\<open>None\<close> is the panic of the sender of message 1.  The frame's error code is ignored.\<close>

definition join_rsn :: "pae_hooks \<Rightarrow> pae \<Rightarrow> pae option" where
  "join_rsn H p =
     (let ni = p_ni p;
          ni = ni\<lparr>mn_flags := mn_flags ni AND NOT NODE_TXRXPROT AND NOT NODE_RSN_NEW_PTK,
                  pn_rsncipher := mn_rsnciphers ni, pn_nonce := hk_random H, pn_replaycnt := - 1,
                  pn_rsn_state := RSNA_AUTHENTICATION_2, pn_rsn_retries := 0, pn_key_count := 0,
                  pn_port_valid := False\<rparr>
      in if \<not> is_8021x_akm (mn_rsnakms ni)
         then map_option snd (send_4way_msg1 H
                (p\<lparr>p_ni := ni\<lparr>mn_flags := mn_flags ni OR NODE_PMK, pn_pmk := pc_psk (p_ic p)\<rparr>\<rparr>))
         else if has_flag (mn_flags ni) NODE_PMK then map_option snd (send_4way_msg1 H (p\<lparr>p_ni := ni\<rparr>))
         else Some (p\<lparr>p_ni := ni\<rparr>))"

definition node_join_rsn :: "ap_hooks \<Rightarrow> node_ref \<Rightarrow> aps \<Rightarrow> aps option" where
  "node_join_rsn H r s = map_option (\<lambda>p. pae_back r p s) (join_rsn (ah_pae H) (pae_view s r))"

definition node_join_11g :: "mlme_hooks \<Rightarrow> node_ref \<Rightarrow> mlme \<Rightarrow> mlme" where
  "node_join_11g H r m =
     (let n = the_node m r;
          m = (if \<not> has_flag (bn_capinfo n) CAPINFO_SHORT_SLOTTIME \<and> count_longslotsta m = 1 \<and>
                  has_flag (m_caps m) C_SHSLOT
               then set_shortslottime H False m else m)
      in if \<not> iserp_sta n
         then let m = (if m_protmode m \<noteq> PROT_NONE then m_set_flags F_USEPROT m else m)
              in if \<not> has_flag (bn_capinfo n) CAPINFO_SHORT_PREAMBLE then m_clear_flags F_SHPREAMBLE m else m
         else upd_node r (node_set_flags NODE_ERP) m)"

definition aid_bit :: "u16 \<Rightarrow> nat" where
  "aid_bit aid = unat (aid AND NOT 0xc000)"

definition free_aid :: "aps \<Rightarrow> nat option" where
  "free_aid s = List.find (\<lambda>aid. \<not> m_aid_bitmap (as_m s) (aid_bit (of_nat aid))) [1..<unat (as_max_aid s)]"

definition assign_aid :: "nat \<Rightarrow> node_ref \<Rightarrow> mlme \<Rightarrow> mlme" where
  "assign_aid aid r m =
     (let associd = of_nat aid OR 0xc000 in
      (upd_node r (\<lambda>n. n\<lparr>bn_associd := associd\<rparr>) m)
        \<lparr>m_aid_bitmap := (m_aid_bitmap m)(aid_bit associd := True)\<rparr>)"

definition ap_send :: "ap_hooks \<Rightarrow> node_ref \<Rightarrow> u8 \<Rightarrow> u32 \<Rightarrow> aps \<Rightarrow> aps" where
  "ap_send H r type arg = on_m (\<lambda>m. snd (send_mgmt (ah_m H) r type arg m))"

definition negotiate_ht :: "node_ref \<Rightarrow> mlme \<Rightarrow> mlme" where
  "negotiate_ht r m = (let (m, n) = ht_negotiate (m, the_node m r) in upd_node r (\<lambda>_. n) m)"

text \<open>The rest of \<^verbatim>\<open>ieee80211_node_join\<close> once the station has an association identifier.\<close>

definition finish_join :: "ap_hooks \<Rightarrow> node_ref \<Rightarrow> u8 \<Rightarrow> bool \<Rightarrow> aps \<Rightarrow> aps option" where
  "finish_join H r resp newassoc s =
     (let s = on_m (negotiate_ht r) s;
          s = (if m_flag (as_m s) F_HTON then on_m (node_join_ht (ah_m H) r) s else s);
          s = ap_log_if (ah_newassoc H) (Ap_New_Assoc r newassoc) s;
          s = set_node_state r STA_ASSOC (ap_send H r resp 0 s)
      in map_option (apsta_event_publish r (if newassoc then Station_Assoc else Station_Reassoc))
           (if \<not> m_flag (as_m s) F_RSNON
            then Some (on_node r (\<lambda>n. n\<lparr>bn_rsncipher := CIPHER_USEGROUP, bn_port_valid := True\<rparr>) s)
            else node_join_rsn H r s))"

definition node_join :: "ap_hooks \<Rightarrow> node_ref \<Rightarrow> u8 \<Rightarrow> aps \<Rightarrow> aps option" where
  "node_join H r resp s =
     (let n = ap_node s r; newassoc = (bn_state n \<noteq> STA_ASSOC) in
      if bn_associd n = 0
      then case free_aid s of
             None \<Rightarrow> ap_node_leave H r (ap_send H r resp (ucast REASON_ASSOC_TOOMANY) s)
           | Some aid \<Rightarrow>
               let s = on_m (assign_aid aid r) s;
                   s = (if is_11g_bss (as_m s) then on_m (node_join_11g (ah_m H) r) s else s)
               in finish_join H r resp newassoc s
      else finish_join H r resp newassoc s)"

section \<open>SA Query\<close>

definition sa_query_request :: "node_ref \<Rightarrow> aps \<Rightarrow> aps" where
  "sa_query_request r s =
     (let s = (if has_flag (bn_flags (ap_node s r)) NODE_SA_QUERY then s
               else (on_node r (\<lambda>n. n\<lparr>bn_flags := (bn_flags n OR NODE_SA_QUERY) AND NOT NODE_SA_QUERY_FAILED\<rparr>) s)
                      \<lparr>as_sa_count := (as_sa_count s)(r := 0)\<rparr>)
      in ap_log (Ap_Sa_Query r)
           (on_rx (upd_rxn r (\<lambda>x. x\<lparr>rn_ba := (rn_ba x)
              \<lparr>ni_sa_query_trid := ni_sa_query_trid (rn_ba x) + 1,
               ni_sa_query_to := timeout_add_msec (ni_sa_query_to (rn_ba x)) 10\<rparr>\<rparr>)) s))"

definition sa_query_timeout :: "node_ref \<Rightarrow> aps \<Rightarrow> aps" where
  "sa_query_timeout r s =
     (let s = s\<lparr>as_sa_count := (as_sa_count s)(r := as_sa_count s r + 1)\<rparr> in
      if 3 \<le> as_sa_count s r
      then on_node r (\<lambda>n. n\<lparr>bn_flags := (bn_flags n AND NOT NODE_SA_QUERY) OR NODE_SA_QUERY_FAILED\<rparr>) s
      else sa_query_request r s)"

section \<open>Association requests\<close>

text \<open>The elements of the request, the last one of each kind; \<open>qi_small\<close> counts vendor elements that are too
  short and an element that is longer than the frame.\<close>

record req_ies =
  qi_ssid :: "u8 list option"
  qi_rates :: "u8 list option"
  qi_xrates :: "u8 list option"
  qi_rsn :: "u8 list option"
  qi_wpa :: "u8 list option"
  qi_wme :: "u8 list option"
  qi_htcaps :: "u8 list option"
  qi_small :: nat

definition no_req :: req_ies where
  "no_req = \<lparr>qi_ssid = None, qi_rates = None, qi_xrates = None, qi_rsn = None, qi_wpa = None, qi_wme = None,
     qi_htcaps = None, qi_small = 0\<rparr>"

definition req_vendor :: "u8 list \<Rightarrow> req_ies \<Rightarrow> req_ies" where
  "req_vendor f q =
     (if byte_at f 1 < 4 then q\<lparr>qi_small := qi_small q + 1\<rparr>
      else if bytes_at f 2 3 \<noteq> MICROSOFT_OUI then q
      else let q = (if byte_at f 5 = 1 then q\<lparr>qi_wpa := Some f\<rparr> else q)
           in if byte_at f 1 = 7 \<and> byte_at f 5 = 2 \<and> byte_at f 6 = 0 then q\<lparr>qi_wme := Some f\<rparr> else q)"

definition req_ie :: "u8 list \<Rightarrow> req_ies \<Rightarrow> req_ies" where
  "req_ie f q =
     (let t = byte_at f 0 in
      if t = 0 then q\<lparr>qi_ssid := Some f\<rparr>
      else if t = 1 then q\<lparr>qi_rates := Some f\<rparr>
      else if t = 50 then q\<lparr>qi_xrates := Some f\<rparr>
      else if t = 48 then q\<lparr>qi_rsn := Some f\<rparr>
      else if t = 45 then q\<lparr>qi_htcaps := Some f\<rparr>
      else if t = ELEMID_VENDOR then req_vendor f q else q)"

definition req_ies_of :: "u8 list \<Rightarrow> req_ies" where
  "req_ies_of frm =
     (let (es, e) = frame_ies frm; q = fold req_ie es no_req
      in if e then q\<lparr>qi_small := qi_small q + 1\<rparr> else q)"

definition ap_log_times :: "nat \<Rightarrow> ap_event \<Rightarrow> aps \<Rightarrow> aps" where
  "ap_log_times k e s = (ap_log e ^^ k) s"

definition zero_rsn :: rsnparams where
  "zero_rsn = \<lparr>rsn_nakms = 0, rsn_akms = 0, rsn_nciphers = 0, rsn_ciphers = 0, rsn_groupcipher = 0,
     rsn_groupmgmtcipher = 0, rsn_caps = 0, rsn_npmkids = 0, rsn_pmkids = []\<rparr>"

text \<open>The policy of an RSN network on the parameters of a request; 0 is acceptance.\<close>

definition rsn_policy :: "u32 \<Rightarrow> bnode \<Rightarrow> rsnparams \<Rightarrow> u16" where
  "rsn_policy flags bss rsn =
     (if rsn_nakms rsn \<noteq> 1 \<or> rsn_akms rsn AND bn_rsnakms bss = 0 then STATUS_BAD_AKMP
      else if rsn_nciphers rsn \<noteq> 1 \<or> rsn_ciphers rsn AND bn_rsnciphers bss = 0 then STATUS_BAD_PAIRWISE_CIPHER
      else if rsn_groupcipher rsn \<noteq> bn_rsngroupcipher bss then STATUS_BAD_GROUP_CIPHER
      else if has_flag (bn_rsncaps bss) RSNCAP_MFPR \<and> \<not> has_flag (rsn_caps rsn) RSNCAP_MFPC then STATUS_MFP_POLICY
      else if has_flag (bn_rsncaps bss) RSNCAP_MFPC \<and>
              rsn_caps rsn AND (RSNCAP_MFPC OR RSNCAP_MFPR) = RSNCAP_MFPR then STATUS_MFP_POLICY
      else if has_flag (rsn_caps rsn) RSNCAP_MFPC \<and>
              (rsn_ciphers rsn \<noteq> CIPHER_CCMP \<or> rsn_groupmgmtcipher rsn \<noteq> bn_rsngroupmgmtcipher bss)
      then STATUS_MFP_POLICY
      else if has_flag flags F_COUNTERM \<and> (rsn_ciphers rsn = CIPHER_TKIP \<or> rsn_groupcipher rsn = CIPHER_TKIP)
      then STATUS_CIPHER_REJ_POLICY
      else 0)"

text \<open>The first cached key that one of the PMKIDs of the request names.\<close>

primrec find_pmkid :: "u32 \<Rightarrow> u8 list \<Rightarrow> pmksa list \<Rightarrow> u8 list \<Rightarrow> nat \<Rightarrow> pmksa option" where
  "find_pmkid akm mac cache ids 0 = None"
| "find_pmkid akm mac cache ids (Suc k) =
     (case pmksa_find akm mac (Some (take PMKID_LEN ids)) cache of
        Some p \<Rightarrow> Some p | None \<Rightarrow> find_pmkid akm mac cache (drop PMKID_LEN ids) k)"

definition use_cached_pmk :: "node_ref \<Rightarrow> rsnparams \<Rightarrow> aps \<Rightarrow> aps" where
  "use_cached_pmk r rsn s =
     (let n = ap_node s r in
      if \<not> is_8021x_akm (bn_rsnakms n) then s
      else case find_pmkid (bn_rsnakms n) (bn_macaddr n) (m_pmksa (as_m s)) (rsn_pmkids rsn) (unat (rsn_npmkids rsn)) of
             None \<Rightarrow> s
           | Some p \<Rightarrow>
               (on_node r (\<lambda>n. n\<lparr>bn_pmkid := pmk_pmkid p, bn_flags := bn_flags n OR NODE_PMK\<rparr>) s)
                 \<lparr>as_pae := (as_pae s)(r := (as_pae s r)\<lparr>pn_pmk := pmk_key p\<rparr>)\<rparr>)"

definition no_rsnprotos :: "node_ref \<Rightarrow> aps \<Rightarrow> aps" where
  "no_rsnprotos r = on_node r (\<lambda>n. n\<lparr>bn_rsnprotos := 0\<rparr>)"

text \<open>The checks of an RSN network on a parsed element: a status and the state.\<close>

definition accept_rsn :: "ap_hooks \<Rightarrow> node_ref \<Rightarrow> rsnparams \<Rightarrow> u8 list option \<Rightarrow> aps \<Rightarrow> u16 \<times> aps" where
  "accept_rsn H r rsn saveie s =
     (let bss = m_bss (as_m s); status = rsn_policy (m_flags (as_m s)) bss rsn in
      if bn_rsnprotos (ap_node s r) = 0 then (STATUS_IE_INVALID, s)
      else if status \<noteq> 0 then (status, no_rsnprotos r s)
      else case saveie of
             None \<Rightarrow> (STATUS_TOOMANY, no_rsnprotos r s)
           | Some ie \<Rightarrow>
               let (err, saved) = save_ie (mh_save_ie (ah_m H)) ie (bn_rsnie (ap_node s r));
                   s = on_node r (\<lambda>n. n\<lparr>bn_rsnie := saved\<rparr>) s
               in if err \<noteq> 0 then (STATUS_TOOMANY, no_rsnprotos r s)
                  else (0, use_cached_pmk r rsn (on_node r (\<lambda>n. n\<lparr>bn_rsnakms := rsn_akms rsn,
                     bn_rsnciphers := rsn_ciphers rsn, bn_rsngroupcipher := bn_rsngroupcipher bss,
                     bn_rsngroupmgmtcipher := bn_rsngroupmgmtcipher bss, bn_rsncaps := rsn_caps rsn\<rparr>) s)))"

text \<open>The element of the request: the RSN one goes before the WPA one.  The result is the status of the
  parser, the parameters, the protocol it stands for, the element and the count of elements too small.\<close>

definition request_rsn :: "req_ies \<Rightarrow> (u16 \<times> rsnparams \<times> u32 \<times> u8 list) option \<times> nat" where
  "request_rsn q =
     (case qi_rsn q of
        Some e \<Rightarrow> let ((st, rsn), k) = parse_rsn e zero_rsn 0 in (Some (st, rsn, PROTO_RSN, e), k)
      | None \<Rightarrow> (case qi_wpa q of
          Some e \<Rightarrow> let ((st, rsn), k) = parse_wpa e zero_rsn 0 in (Some (st, rsn, PROTO_WPA, e), k)
        | None \<Rightarrow> (None, 0)))"

definition clear_security :: "node_ref \<Rightarrow> aps \<Rightarrow> aps" where
  "clear_security r s =
     (on_node r (\<lambda>n. n\<lparr>bn_rsnprotos := 0, bn_rsnakms := 0, bn_rsnciphers := 0, bn_rsngroupcipher := 0,
        bn_rsngroupmgmtcipher := 0, bn_rsncaps := 0\<rparr>) s)\<lparr>as_supported := (as_supported s)(r := (0, 0))\<rparr>"

definition req_qos :: "node_ref \<Rightarrow> bool \<Rightarrow> aps \<Rightarrow> aps" where
  "req_qos r wme s =
     (if m_flag (as_m s) F_QOS
      then on_node r (if wme then node_set_flags NODE_QOS else node_clear_flags NODE_QOS) s else s)"

definition assoc_security :: "ap_hooks \<Rightarrow> node_ref \<Rightarrow> req_ies \<Rightarrow> aps \<Rightarrow> u16 \<times> aps" where
  "assoc_security H r q s =
     (let (parsed, k) = request_rsn q;
          s = ap_log_times k (Ap_Stat As_Elem_Toosmall) (clear_security r s);
          finish = (\<lambda>rsn saveie s. let s = req_qos r (qi_wme q \<noteq> None) s in
             if m_flag (as_m s) F_RSNON then accept_rsn H r rsn saveie s else (0, s))
      in case parsed of
           None \<Rightarrow> finish zero_rsn None s
         | Some (status, rsn, proto, e) \<Rightarrow>
             if status \<noteq> 0 then (status, s)
             else
               let s = s\<lparr>as_supported := (as_supported s)(r := (proto, rsn_akms rsn))\<rparr>
               in if m_flag (as_m s) F_RSNON \<and> has_flag (m_rsnprotos (as_m s)) proto
                  then finish rsn (Some e) (on_node r (\<lambda>n. n\<lparr>bn_rsnprotos := proto\<rparr>) s)
                  else finish rsn None s)"

text \<open>The parameters of the station once the request is accepted.\<close>

definition assoc_params :: "node_ref \<Rightarrow> rxinfo \<Rightarrow> u16 \<Rightarrow> u16 \<Rightarrow> req_ies \<Rightarrow> aps \<Rightarrow> aps" where
  "assoc_params r rxi capinfo bintval q s =
     (let m = as_m s;
          n = (ap_node s r)\<lparr>bn_rstamp := rxi_tstamp rxi, bn_rssi := ucast (rxi_rssi rxi), bn_intval := bintval,
            bn_capinfo := capinfo, bn_chan := bn_chan (m_bss m)\<rparr>;
          n = (case qi_htcaps q of Some e \<Rightarrow> setup_htcaps m (drop 2 e) (byte_at e 1) n | None \<Rightarrow> clear_htcaps n)
      in on_node r (\<lambda>_. n) s)"

text \<open>The checks of the request's contents: a status and the state.\<close>

definition assoc_check :: "ap_hooks \<Rightarrow> node_ref \<Rightarrow> rxinfo \<Rightarrow> u16 \<Rightarrow> u16 \<Rightarrow> req_ies \<Rightarrow> u8 list \<Rightarrow> aps \<Rightarrow> u16 \<times> aps" where
  "assoc_check H r rxi capinfo bintval q rates s =
     (if \<not> has_flag capinfo CAPINFO_ESS then (STATUS_CAPINFO, ap_log (Ap_Stat As_Capmismatch) s)
      else
        let m = as_m s; n = ap_node s r;
            (rate, rs, cut) = setup_rates all_rate_flags (m_sup_rates m (m_chan2mode m (bn_chan n)))
               (m_fixed_rate m) True rates (qi_xrates q);
            s = on_m (log_if cut (Ev_Stat St_Rstoobig)) (on_node r (\<lambda>n. n\<lparr>bn_rates := rs\<rparr>) s)
        in if has_flag rate RATE_BASIC then (STATUS_BASIC_RATE, ap_log (Ap_Stat As_Norate) s)
           else let (status, s) = assoc_security H r q s
                in if status \<noteq> 0 then (status, s) else (0, assoc_params r rxi capinfo bintval q s))"

text \<open>A station that is not authenticated is told so.\<close>

definition refuse_unauth :: "ap_hooks \<Rightarrow> mbuf \<Rightarrow> aps \<Rightarrow> aps" where
  "refuse_unauth H m s =
     (let a = frame_addr2 m;
          (ok, t) = (if find_node (as_m s) a \<noteq> None then (True, as_m s) else dup_bss (ah_m H) a (as_m s));
          s = on_m (\<lambda>_. t) s
      in ap_log (Ap_Stat As_Assoc_Notauth) (if ok then ap_send H (Peer a) ST_DEAUTH REASON_ASSOC_NOT_AUTHED s else s))"

text \<open>An association with management frame protection is only given up after a failed SA Query.\<close>

definition protected_assoc :: "ap_hooks \<Rightarrow> node_ref \<Rightarrow> u8 \<Rightarrow> aps \<Rightarrow> aps option" where
  "protected_assoc H r resp s =
     (if has_flag (bn_flags (ap_node s r)) NODE_SA_QUERY_FAILED
      then ap_node_leave H r (ap_send H r ST_DISASSOC REASON_AUTH_EXPIRE s)
      else
        let s = ap_send H r resp STATUS_TRY_AGAIN_LATER s
        in Some (if has_flag (bn_flags (ap_node s r)) NODE_SA_QUERY then s else sa_query_request r s))"

definition save_request_ies :: "ap_hooks \<Rightarrow> node_ref \<Rightarrow> u8 list \<Rightarrow> aps \<Rightarrow> aps" where
  "save_request_ies H r frm s =
     (if frm = [] then s
      else on_node r (\<lambda>n. n\<lparr>bn_rsnie_tlv := fst (snd (save_ie_tlv (mh_save_ie (ah_m H)) frm (bn_rsnie_tlv n)
             (case bn_rsnie_tlv n of None \<Rightarrow> 0 | Some e \<Rightarrow> of_nat (length e)) (of_nat (length frm))))\<rparr>) s)"

definition recv_assoc_req ::
  "ap_hooks \<Rightarrow> mbuf \<Rightarrow> node_ref \<Rightarrow> rxinfo \<Rightarrow> bool \<Rightarrow> aps \<Rightarrow> aps option" where
  "recv_assoc_req H m r rxi reassoc s =
     (let M = as_m s; bss = m_bss M; resp = (if reassoc then ST_REASSOC_RESP else ST_ASSOC_RESP) in
      if m_opmode M \<noteq> M_HOSTAP \<or> m_state M \<noteq> S_RUN then Some s
      else if length m < FRAME_HDR + (if reassoc then 10 else 4) then Some s
      else if bytes_at m 16 6 \<noteq> bn_bssid bss then Some (ap_log (Ap_Stat As_Assoc_Bss) s)
      else
        let frm = frame_body m;
            ies = drop (if reassoc then 10 else 4) frm;
            q = req_ies_of ies;
            s = ap_log_times (qi_small q) (Ap_Stat As_Elem_Toosmall) (save_request_ies H r ies s)
        in case (qi_rates q, qi_ssid q) of
             (Some rates, Some ssid) \<Rightarrow>
               if RATE_MAXSIZE < unat (byte_at rates 1) then Some s
               else if NWID_LEN < unat (byte_at ssid 1) then Some s
               else if unat (byte_at ssid 1) \<noteq> bn_esslen bss \<or>
                       bytes_at ssid 2 (bn_esslen bss) \<noteq> bytes_at (bn_essid bss) 0 (bn_esslen bss)
               then Some (ap_log (Ap_Stat As_Ssid_Mismatch) s)
               else
                 let n = ap_node s r in
                 if bn_state n \<noteq> STA_AUTH \<and> bn_state n \<noteq> STA_ASSOC then Some (refuse_unauth H m s)
                 else if bn_state n = STA_ASSOC \<and> has_flag (bn_flags n) NODE_MFP then protected_assoc H r resp s
                 else (case assoc_check H r rxi (LE_READ_2 frm) (LE_READ_2 (drop 2 frm)) q rates s of
                         (status, s) \<Rightarrow>
                           if status \<noteq> 0 then ap_node_leave H r (ap_send H r resp (ucast status) s)
                           else node_join H r resp s)
           | _ \<Rightarrow> Some s)"

end
