(* ===== verification/Transmit.thy ===== *)
theory Transmit
  imports ApStations
begin

unbundle bit_operations_syntax

text \<open>
  The transmit path (\<^verbatim>\<open>ieee80211_encap\<close>, \<^verbatim>\<open>ieee80211_classify\<close>, \<^verbatim>\<open>ieee80211_up_to_ac\<close>,
  \<^verbatim>\<open>ieee80211_mgmt_output\<close>, \<^verbatim>\<open>ieee80211_pwrsave\<close> and the control frames of \<^verbatim>\<open>net80211/ieee80211_output.c\<close>;
  \<^verbatim>\<open>ieee80211_find_txnode\<close>, \<^verbatim>\<open>ieee80211_find_rxnode\<close> and \<^verbatim>\<open>ieee80211_notify_dtim\<close> of
  \<^verbatim>\<open>net80211/ieee80211_node.c\<close>): the node of a frame, its header, protection and sequence number, and the
  queues of an access point for stations in power-save mode.
\<close>

abbreviation (input) C_TX_AMPDU :: u32 where "C_TX_AMPDU \<equiv> 0x10000"
abbreviation (input) C_TX_AMPDU_SETUP_IN_RS :: u32 where "C_TX_AMPDU_SETUP_IN_RS \<equiv> 0x100000"
abbreviation (input) NODE_TXMGMTPROT :: u32 where "NODE_TXMGMTPROT \<equiv> 0x40"
abbreviation (input) FC1_ORDER :: u8 where "FC1_ORDER \<equiv> 0x80"
abbreviation (input) QOS_ACK_POLICY_NOACK :: u16 where "QOS_ACK_POLICY_NOACK \<equiv> 0x20"
abbreviation (input) SUBTYPE_QOS :: u8 where "SUBTYPE_QOS \<equiv> 0x80"
abbreviation (input) BA_COMPRESSED :: u16 where "BA_COMPRESSED \<equiv> 4"
abbreviation (input) ETHERTYPE_IP :: u16 where "ETHERTYPE_IP \<equiv> 0x0800"
abbreviation (input) ETHERTYPE_IPV6 :: u16 where "ETHERTYPE_IPV6 \<equiv> 0x86dd"
abbreviation (input) PS_MAX_QUEUE :: nat where "PS_MAX_QUEUE \<equiv> 50"

section \<open>State\<close>

datatype tx_stat = Ts_Nombuf | Ts_Nonode | Ts_Noauth

datatype tx_event = Tx_Stat tx_stat | Tx_Free mbuf | Tx_New_Assoc node_ref | Tx_Start

text \<open>The state of the access point with the sequence counters of the nodes, the queues of management frames
  and of frames for stations that woke up, the bits of the traffic indication map and whether group
  addressed frames wait.\<close>

record txs =
  tx_ap :: aps
  tx_seq :: "node_ref \<Rightarrow> u16"
  tx_mgtq :: "mbuf list"
  tx_pwrsaveq :: "mbuf list"
  tx_tim :: "nat \<Rightarrow> bool"
  tx_mcast :: bool
  tx_log :: "tx_event list"

text \<open>The surroundings: whether the Ethernet header is or can be made contiguous and a header can be put
  before a frame, the bytes on the stack where a header is copied to, whether \<^verbatim>\<open>ic_newassoc\<close> is set, and the
  length of the interface queues.\<close>

record tx_env =
  te_hk :: mlme_hooks
  te_pullup :: bool
  te_prepend :: bool
  te_stack :: "u8 list"
  te_newassoc :: bool
  te_ifq_maxlen :: nat

definition tx_m :: "txs \<Rightarrow> mlme" where
  "tx_m s = as_m (tx_ap s)"

definition tx_node :: "txs \<Rightarrow> node_ref \<Rightarrow> bnode" where
  "tx_node s r = the_node (tx_m s) r"

definition tx_on_m :: "(mlme \<Rightarrow> mlme) \<Rightarrow> txs \<Rightarrow> txs" where
  "tx_on_m f s = s\<lparr>tx_ap := on_m f (tx_ap s)\<rparr>"

definition tx_on_ba :: "node_ref \<Rightarrow> (ba_node \<Rightarrow> ba_node) \<Rightarrow> txs \<Rightarrow> txs" where
  "tx_on_ba r f s = s\<lparr>tx_ap := on_rx (upd_rxn r (\<lambda>x. x\<lparr>rn_ba := f (rn_ba x)\<rparr>)) (tx_ap s)\<rparr>"

definition tx_ba_node :: "txs \<Rightarrow> node_ref \<Rightarrow> ba_node" where
  "tx_ba_node s r = rn_ba (rs_node (as_rx (tx_ap s)) r)"

definition tx_logs :: "tx_event list \<Rightarrow> txs \<Rightarrow> txs" where
  "tx_logs es s = s\<lparr>tx_log := tx_log s @ es\<rparr>"

text \<open>A queue with a limit: the frame, or whether it was dropped.\<close>

definition mq_enqueue :: "nat \<Rightarrow> mbuf \<Rightarrow> mbuf list \<Rightarrow> bool \<times> mbuf list" where
  "mq_enqueue maxlen m q = (if length q < maxlen then (False, q @ [m]) else (True, q))"

section \<open>Access categories\<close>

datatype edca_ac = AC_Be | AC_Bk | AC_Vi | AC_Vo

definition ac_number :: "edca_ac \<Rightarrow> nat" where
  "ac_number c = (case c of AC_Be \<Rightarrow> 0 | AC_Bk \<Rightarrow> 1 | AC_Vi \<Rightarrow> 2 | AC_Vo \<Rightarrow> 3)"

definition up_table :: "nat \<Rightarrow> edca_ac" where
  "up_table up = (if up \<le> 7 then [AC_Be, AC_Bk, AC_Bk, AC_Be, AC_Vi, AC_Vi, AC_Vo, AC_Vo] ! up else AC_Be)"

text \<open>The category without admission control at or below one.\<close>

function lower_ac :: "(edca_ac \<Rightarrow> bool) \<Rightarrow> edca_ac \<Rightarrow> edca_ac" where
  "lower_ac acm c =
     (if c \<noteq> AC_Bk \<and> acm c
      then lower_ac acm (case c of AC_Bk \<Rightarrow> AC_Bk | AC_Be \<Rightarrow> AC_Bk | AC_Vi \<Rightarrow> AC_Be | AC_Vo \<Rightarrow> AC_Vi)
      else c)"
  by pat_completeness auto
termination
  by (relation "measure (\<lambda>(_, c). case c of AC_Bk \<Rightarrow> 0 | AC_Be \<Rightarrow> 1 | AC_Vi \<Rightarrow> 2 | AC_Vo \<Rightarrow> 3)")
    (auto split: edca_ac.splits)

declare lower_ac.simps [simp del]

definition up_to_ac :: "mlme \<Rightarrow> nat \<Rightarrow> edca_ac" where
  "up_to_ac m up =
     (if m_opmode m = M_HOSTAP then up_table up
      else lower_ac (\<lambda>c. ac_acm (m_edca_ac m ! ac_number c) \<noteq> 0) (up_table up))"

text \<open>\<open>copydata\<close> is \<^verbatim>\<open>mbuf_copydata\<close>: what the frame does not have stays as it was on the stack.\<close>

definition copydata :: "mbuf \<Rightarrow> nat \<Rightarrow> nat \<Rightarrow> u8 list \<Rightarrow> u8 list" where
  "copydata m off len stack = (let c = take len (drop off m) in c @ drop (length c) stack)"

definition ds_ac :: "u8 \<Rightarrow> edca_ac" where
  "ds_ac ds =
     (let p = ds AND 0xfc in
      if p = 0x20 then AC_Vi else if p = 0x40 then AC_Bk
      else if p \<in> {0x60, 0x80, 0xa0, 0xc0, 0xe0} then AC_Vo else AC_Be)"

definition BE_READ_4 :: "u8 list \<Rightarrow> u32" where
  "BE_READ_4 p = push_bit 24 (ucast (byte_at p 0)) OR push_bit 16 (ucast (byte_at p 1))
     OR push_bit 8 (ucast (byte_at p 2)) OR ucast (byte_at p 3)"

definition classify :: "u8 list \<Rightarrow> mbuf \<Rightarrow> nat" where
  "classify stack m =
     (if ether_type m = ETHERTYPE_IP
      then let ip = copydata m 14 20 stack
           in if drop_bit 4 (byte_at ip 0) \<noteq> 4 then 0 else ac_number (ds_ac (byte_at ip 1))
      else if ether_type m = ETHERTYPE_IPV6
      then let flow = BE_READ_4 (copydata m 14 40 stack)
           in if drop_bit 28 flow \<noteq> 6 then 0 else ac_number (ds_ac (ucast (drop_bit 20 flow AND 0xff)))
      else 0)"

section \<open>The node of a frame\<close>

definition ref_node :: "node_ref \<Rightarrow> txs \<Rightarrow> txs" where
  "ref_node r = tx_on_m (upd_node r (\<lambda>n. n\<lparr>bn_refcnt := bn_refcnt n + 1\<rparr>))"

text \<open>A node made up for an unknown station of an ad hoc network.\<close>

definition fake_node :: "tx_env \<Rightarrow> u8 list \<Rightarrow> (bnode \<Rightarrow> bnode) \<Rightarrow> txs \<Rightarrow> bool \<times> txs" where
  "fake_node E a f s =
     (let (ok, t) = dup_bss (te_hk E) a (tx_m s);
          s = tx_on_m (\<lambda>_. t) s
      in if \<not> ok then (False, s)
         else let rates = bn_rates (m_bss (tx_m s));
                  s = tx_on_m (upd_node (Peer a) (\<lambda>n. (f n)\<lparr>bn_rates := rates, bn_txrate := 0\<rparr>)) s
              in (True, if te_newassoc E then tx_logs [Tx_New_Assoc (Peer a)] s else s))"

definition find_txnode :: "tx_env \<Rightarrow> u8 list \<Rightarrow> txs \<Rightarrow> node_ref option \<times> txs" where
  "find_txnode E a s =
     (if m_opmode (tx_m s) = M_STA \<or> bit (byte_at a 0) 0 then (Some Bss, ref_node Bss s)
      else if find_node (tx_m s) a \<noteq> None then (Some (Peer a), ref_node (Peer a) s)
      else if m_opmode (tx_m s) \<noteq> M_IBSS \<and> m_opmode (tx_m s) \<noteq> M_AHDEMO then (None, s)
      else case fake_node E a (\<lambda>n. n) s of
             (False, s) \<Rightarrow> (None, s)
           | (True, s) \<Rightarrow> (Some (Peer a), ref_node (Peer a) s))"

text \<open>Whether the node of the sender is kept, and the BSSID of the frame.\<close>

definition needs_rxnode :: "mlme \<Rightarrow> mbuf \<Rightarrow> bool \<times> u8 list option" where
  "needs_rxnode m wh =
     (let mon = (m_opmode m = M_MONITOR); st = frame_subtype wh; dir = byte_at wh 1 AND 3; own = bn_bssid (m_bss m);
          adhoc = (m_opmode m = M_IBSS \<or> m_opmode m = M_AHDEMO)
      in if fc0_type wh = TYPE_CTL then (mon \<and> st = 0xb0, None)
         else if fc0_type wh = TYPE_MGT
         then (mon \<or> st \<noteq> ST_BEACON \<and> st \<noteq> ST_PROBE_RESP \<and> m_opmode m \<noteq> M_STA \<and>
                 (bytes_at wh 16 6 = own \<or> bytes_at wh 16 6 = replicate 6 0xff), Some (bytes_at wh 16 6))
         else if fc0_type wh = TYPE_DATA
         then if dir = DIR_NODS then (mon \<or> adhoc \<and> bytes_at wh 16 6 = own, Some (bytes_at wh 16 6))
              else if dir = DIR_TODS then (mon \<or> m_opmode m = M_HOSTAP \<and> bytes_at wh 4 6 = own, Some (bytes_at wh 4 6))
              else (mon \<or> m_opmode m = M_HOSTAP, Some (frame_addr2 wh))
         else (mon, None))"

definition find_rxnode :: "tx_env \<Rightarrow> mbuf \<Rightarrow> txs \<Rightarrow> node_ref \<times> txs" where
  "find_rxnode E wh s =
     (let (needs, bssid) = needs_rxnode (tx_m s) wh; a = frame_addr2 wh in
      if \<not> needs then (Bss, ref_node Bss s)
      else if find_node (tx_m s) a \<noteq> None then (Peer a, ref_node (Peer a) s)
      else if m_opmode (tx_m s) = M_HOSTAP then (Bss, ref_node Bss s)
      else case fake_node E a (\<lambda>n. n\<lparr>bn_bssid := (case bssid of None \<Rightarrow> replicate 6 0 | Some b \<Rightarrow> b)\<rparr>) s of
             (False, s) \<Rightarrow> (Bss, ref_node Bss s)
           | (True, s) \<Rightarrow> (Peer a, ref_node (Peer a) s))"

section \<open>Power save\<close>

definition set_tim :: "u16 \<Rightarrow> bool \<Rightarrow> txs \<Rightarrow> txs" where
  "set_tim aid b s = s\<lparr>tx_tim := (tx_tim s)(aid_bit aid := b)\<rparr>"

definition save_frame :: "node_ref \<Rightarrow> mbuf \<Rightarrow> txs \<Rightarrow> txs" where
  "save_frame r m s =
     (let (dropped, q) = mq_enqueue PS_MAX_QUEUE m (bn_savedq (tx_node s r));
          s = tx_on_m (upd_node r (\<lambda>n. n\<lparr>bn_savedq := q\<rparr>)) s
      in if dropped then tx_logs [Tx_Free m] s else s)"

text \<open>The result says whether the frame was kept.\<close>

definition pwrsave :: "mbuf \<Rightarrow> node_ref \<Rightarrow> txs \<Rightarrow> bool \<times> txs" where
  "pwrsave m r s =
     (if \<not> has_flag (m_caps (tx_m s)) C_APPMGT then (False, s)
      else if is_mcast m
      then if has_flag (byte_at m 1) FC1_ORDER \<or> count_pssta (tx_ap s) = 0 then (False, s)
           else (True, save_frame r m (s\<lparr>tx_mcast := True\<rparr>))
      else if \<not> rn_doze (rs_node (as_rx (tx_ap s)) r) \<or> fc0_type m = TYPE_CTL then (False, s)
      else (True, save_frame r m (if bn_savedq (tx_node s r) = [] then set_tim (bn_associd (tx_node s r)) True s else s)))"

text \<open>After a DTIM the group addressed frames are moved to the queue; all but the last are marked.\<close>

fun dtim_frames :: "mbuf list \<Rightarrow> mbuf list" where
  "dtim_frames [] = []"
| "dtim_frames [m] = [m]"
| "dtim_frames (m # ms) = m[1 := byte_at m 1 OR FC1_MORE_DATA] # dtim_frames ms"

definition enqueue_pwrsave :: "tx_env \<Rightarrow> mbuf \<Rightarrow> txs \<Rightarrow> txs" where
  "enqueue_pwrsave E m s =
     (let (dropped, q) = mq_enqueue (te_ifq_maxlen E) m (tx_pwrsaveq s)
      in tx_logs (if dropped then [Tx_Free m, Tx_Start] else [Tx_Start]) (s\<lparr>tx_pwrsaveq := q\<rparr>))"

definition notify_dtim :: "tx_env \<Rightarrow> txs \<Rightarrow> txs" where
  "notify_dtim E s =
     (let ms = bn_savedq (m_bss (tx_m s));
          s = tx_on_m (upd_node Bss (\<lambda>n. n\<lparr>bn_savedq := []\<rparr>)) s
      in (fold (enqueue_pwrsave E) (dtim_frames ms) s)\<lparr>tx_mcast := False\<rparr>)"

section \<open>Data frames\<close>

definition can_use_ampdu :: "mlme \<Rightarrow> node_ref \<Rightarrow> bool" where
  "can_use_ampdu m r \<longleftrightarrow>
     has_flag (bn_flags (the_node m r)) NODE_HT \<and> has_flag (m_caps m) C_TX_AMPDU \<and>
     \<not> (m_opmode m = M_STA \<and> r \<noteq> Bss) \<and>
     m_flag m F_RSNON \<and> has_flag (bn_rsnprotos (the_node m r)) PROTO_RSN"

text \<open>The priority when the frame is sent with QoS, and the state: without an agreement one is asked for.\<close>

definition encap_qos :: "tx_env \<Rightarrow> mbuf \<Rightarrow> node_ref \<Rightarrow> txs \<Rightarrow> nat option \<times> txs" where
  "encap_qos E m r s =
     (if m_flag (tx_m s) F_QOS \<and> has_flag (bn_flags (tx_node s r)) NODE_QOS \<and> ether_type m \<noteq> ETHERTYPE_PAE
      then let tid = classify (te_stack E) m in
        if tba_state (the_tx_ba (tx_ba_node s r) (of_nat tid)) = BA_AGREED then (Some tid, s)
        else (None, if \<not> has_flag (m_caps (tx_m s)) C_TX_AMPDU_SETUP_IN_RS \<and> can_use_ampdu (tx_m s) r
                    then tx_on_ba r (node_trigger_addba_req (of_nat tid)) s else s)
      else (None, s))"

text \<open>The SNAP header in place of the end of the Ethernet header.\<close>

definition llc_frame :: "mbuf \<Rightarrow> mbuf" where
  "llc_frame m = [0xaa, 0xaa, 3, 0, 0, 0] @ drop 12 m"

definition tx_seqno :: "nat option \<Rightarrow> node_ref \<Rightarrow> txs \<Rightarrow> u16 \<times> txs" where
  "tx_seqno qos r s =
     (case qos of
        None \<Rightarrow> let q = tx_seq s r in (q, s\<lparr>tx_seq := (tx_seq s)(r := (q + 1) AND 0xfff)\<rparr>)
      | Some tid \<Rightarrow>
          let q = ni_qos_txseqs (tx_ba_node s r) ! tid
          in (q, tx_on_ba r (\<lambda>b. b\<lparr>ni_qos_txseqs := (ni_qos_txseqs b)[tid := (q + 1) AND 0xfff]\<rparr>) s))"

definition encap_addrs :: "txs \<Rightarrow> node_ref \<Rightarrow> mbuf \<Rightarrow> (u8 \<times> u8 list) option" where
  "encap_addrs s r m =
     (let dhost = bytes_at m 0 6; shost = bytes_at m 6 6; n = tx_node s r in
      case m_opmode (tx_m s) of
        M_STA \<Rightarrow> Some (DIR_TODS, bn_bssid n @ shost @ dhost)
      | M_IBSS \<Rightarrow> Some (DIR_NODS, dhost @ shost @ bn_bssid (m_bss (tx_m s)))
      | M_AHDEMO \<Rightarrow> Some (DIR_NODS, dhost @ shost @ bn_bssid (m_bss (tx_m s)))
      | M_HOSTAP \<Rightarrow> Some (DIR_FROMDS, dhost @ bn_bssid n @ shost)
      | _ \<Rightarrow> None)"

definition tx_protects :: "txs \<Rightarrow> node_ref \<Rightarrow> bool" where
  "tx_protects s r \<longleftrightarrow>
     m_flag (tx_m s) F_WEPON \<or> m_flag (tx_m s) F_RSNON \<and> has_flag (bn_flags (tx_node s r)) NODE_TXPROT"

definition qos_bytes :: "txs \<Rightarrow> nat \<Rightarrow> u8 list" where
  "qos_bytes s tid =
     LE_WRITE_2 (of_nat tid OR (if bit (ic_tid_noack (rs_com (as_rx (tx_ap s)))) tid then QOS_ACK_POLICY_NOACK else 0))"

definition encap_header :: "txs \<Rightarrow> node_ref \<Rightarrow> nat option \<Rightarrow> u16 \<Rightarrow> u8 \<Rightarrow> u8 list \<Rightarrow> u8 list" where
  "encap_header s r qos seq dir addrs =
     [TYPE_DATA OR (if qos = None then 0 else SUBTYPE_QOS), dir OR (if tx_protects s r then FC1_PROTECTED else 0), 0, 0]
       @ addrs @ LE_WRITE_2 (push_bit 4 seq) @ (case qos of None \<Rightarrow> [] | Some tid \<Rightarrow> qos_bytes s tid)"

text \<open>What \<^verbatim>\<open>ieee80211_encap\<close> gives back: the frame with the reference to its node, or nothing; and the call that
  the release of a node leaves to be carried out.\<close>

definition encap_drop :: "tx_env \<Rightarrow> tx_event list \<Rightarrow> node_ref option \<Rightarrow> txs
    \<Rightarrow> (mbuf \<times> node_ref) option \<times> mcall option \<times> txs" where
  "encap_drop E es r s =
     (let s = tx_logs es s in
      case r of None \<Rightarrow> (None, None, s)
      | Some r \<Rightarrow> (case release_node (te_hk E) r (tx_m s) of
                     Done t \<Rightarrow> (None, None, tx_on_m (\<lambda>_. t) s)
                   | Call c t \<Rightarrow> (None, Some c, tx_on_m (\<lambda>_. t) s)
                   | Panicked \<Rightarrow> (None, None, s)))"

text \<open>The frame once its node is known and may be sent to.  A frame that is freed in a mode that sends no data is
  named by its body.\<close>

definition encap_node :: "tx_env \<Rightarrow> mbuf \<Rightarrow> node_ref \<Rightarrow> txs \<Rightarrow> (mbuf \<times> node_ref) option \<times> mcall option \<times> txs" where
  "encap_node E m r s =
     (let s = tx_on_m (upd_node r (\<lambda>n. n\<lparr>bn_inact := 0\<rparr>)) s;
          (qos, s) = encap_qos E m r s
      in if \<not> te_prepend E then encap_drop E [Tx_Stat Ts_Nombuf] (Some r) s
         else let (seq, s) = tx_seqno qos r s in
           case encap_addrs s r m of
             None \<Rightarrow> encap_drop E [Tx_Free (llc_frame m)] (Some r) s
           | Some (dir, addrs) \<Rightarrow>
               let f = encap_header s r qos seq dir addrs @ llc_frame m in
               if m_opmode (tx_m s) = M_HOSTAP
               then case pwrsave f r s of (kept, s) \<Rightarrow> if kept then (None, None, s) else (Some (f, r), None, s)
               else (Some (f, r), None, s))"

definition encap :: "tx_env \<Rightarrow> mbuf \<Rightarrow> txs \<Rightarrow> (mbuf \<times> node_ref) option \<times> mcall option \<times> txs" where
  "encap E m s =
     (if length m < 14 \<or> \<not> te_pullup E then encap_drop E [Tx_Stat Ts_Nombuf] None s
      else case find_txnode E (bytes_at m 0 6) s of
             (None, s) \<Rightarrow> encap_drop E [Tx_Stat Ts_Nonode, Tx_Free m] None s
           | (Some r, s) \<Rightarrow>
               if m_opmode (tx_m s) = M_HOSTAP \<and> r \<noteq> Bss \<and> bn_state (tx_node s r) \<noteq> STA_ASSOC
               then encap_drop E [Tx_Stat Ts_Nonode, Tx_Free m] (Some r) s
               else if m_flag (tx_m s) F_RSNON \<and> \<not> bn_port_valid (tx_node s r) \<and> ether_type m \<noteq> ETHERTYPE_PAE
               then encap_drop E [Tx_Stat Ts_Noauth, Tx_Free m] (Some r) s
               else encap_node E m r s)"

section \<open>Management and control frames\<close>

definition mgmt_protects :: "txs \<Rightarrow> node_ref \<Rightarrow> u8 \<Rightarrow> bool" where
  "mgmt_protects s r type \<longleftrightarrow>
     has_flag (m_caps (tx_m s)) C_MFP \<and> type \<in> {ST_DISASSOC, ST_DEAUTH, ST_ACTION} \<and>
     (bit (byte_at (bn_macaddr (tx_node s r)) 0) 0 \<or> has_flag (bn_flags (tx_node s r)) NODE_TXMGMTPROT)"

definition mgmt_header :: "txs \<Rightarrow> node_ref \<Rightarrow> u8 \<Rightarrow> u8 list" where
  "mgmt_header s r type =
     [TYPE_MGT OR type, DIR_NODS OR (if mgmt_protects s r type then FC1_PROTECTED else 0), 0, 0]
       @ bn_macaddr (tx_node s r) @ m_myaddr (tx_m s) @ bn_bssid (tx_node s r) @ LE_WRITE_2 (push_bit 4 (tx_seq s r))"

definition mgmt_output :: "tx_env \<Rightarrow> node_ref \<Rightarrow> mbuf \<Rightarrow> u8 \<Rightarrow> txs \<Rightarrow> int \<times> txs" where
  "mgmt_output E r m type s =
     (let s = tx_on_m (upd_node r (\<lambda>n. n\<lparr>bn_inact := 0\<rparr>)) s in
      if \<not> te_prepend E then (ENOMEM, s)
      else
        let f = mgmt_header s r type @ m;
            s = s\<lparr>tx_seq := (tx_seq s)(r := (tx_seq s r + 1) AND 0xfff)\<rparr>;
            (kept, s) = (if m_opmode (tx_m s) = M_HOSTAP then pwrsave f r s else (False, s))
        in (0, if kept then s
               else let (dropped, q) = mq_enqueue (te_ifq_maxlen E) f (tx_mgtq s)
                    in tx_logs (if dropped then [Tx_Free f, Tx_Start] else [Tx_Start]) (s\<lparr>tx_mgtq := q\<rparr>)))"

definition get_rts :: "bool \<Rightarrow> mbuf \<Rightarrow> u16 \<Rightarrow> mbuf option" where
  "get_rts alloc wh dur =
     (if alloc then Some ([TYPE_CTL OR 0xb0, DIR_NODS] @ LE_WRITE_2 dur @ bytes_at wh 4 6 @ bytes_at wh 10 6) else None)"

definition get_cts_to_self :: "bool \<Rightarrow> mlme \<Rightarrow> u16 \<Rightarrow> mbuf option" where
  "get_cts_to_self alloc m dur =
     (if alloc then Some ([TYPE_CTL OR 0xc0, DIR_NODS] @ LE_WRITE_2 dur @ m_myaddr m) else None)"

definition get_compressed_bar :: "bool \<Rightarrow> mlme \<Rightarrow> node_ref \<Rightarrow> nat \<Rightarrow> u16 \<Rightarrow> mbuf option" where
  "get_compressed_bar alloc m r tid ssn =
     (if alloc
      then Some ([TYPE_CTL OR ST_BAR, DIR_NODS, 0, 0] @ bn_macaddr (the_node m r) @ m_myaddr m
             @ LE_WRITE_2 (BA_COMPRESSED OR push_bit 12 (of_nat tid)) @ LE_WRITE_2 (push_bit 4 ssn))
      else None)"

definition tx_compressed_bar :: "tx_env \<Rightarrow> node_ref \<Rightarrow> nat \<Rightarrow> u16 \<Rightarrow> txs \<Rightarrow> mcall option \<times> txs" where
  "tx_compressed_bar E r tid ssn s =
     (case get_compressed_bar (mh_alloc (te_hk E)) (tx_m s) r tid ssn of
        None \<Rightarrow> (None, s)
      | Some f \<Rightarrow>
          let s = ref_node r s; (dropped, q) = mq_enqueue (te_ifq_maxlen E) f (tx_mgtq s) in
          if \<not> dropped then (None, tx_logs [Tx_Start] (s\<lparr>tx_mgtq := q\<rparr>))
          else snd (encap_drop E [Tx_Free f] (Some r) s))"

end
