(* ===== verification/TransmitProps.thy ===== *)
theory TransmitProps
  imports Transmit CipherReplay ReceiveProps
begin

unbundle bit_operations_syntax

text \<open>
  The transmit path: what is sent is the Ethernet frame in the headers that the receive path takes off, only to
  nodes that may be sent to and protected when the node is, with consecutive sequence numbers; frames for
  stations in power-save mode are kept in order.
\<close>

section \<open>A frame that is sent\<close>

lemma drop_none [simp]: "fst (encap_drop E es r s) = None"
  by (simp add: encap_drop_def Let_def split: option.split outcome.split)

lemma drop_some [simp]: "encap_drop E es r s \<noteq> (Some x, c, t)"
  using drop_none [of E es r s] by (metis fst_conv option.distinct(1))

lemma pwrsave_false: "pwrsave f r s = (False, t) \<Longrightarrow> t = s"
  by (auto simp: pwrsave_def split: if_splits)

text \<open>The state of the node of the frame once it has been looked up.\<close>

definition may_send :: "mbuf \<Rightarrow> node_ref \<Rightarrow> txs \<Rightarrow> bool" where
  "may_send m r s \<longleftrightarrow>
     (m_opmode (tx_m s) = M_HOSTAP \<and> r \<noteq> Bss \<longrightarrow> bn_state (tx_node s r) = STA_ASSOC) \<and>
     (m_flag (tx_m s) F_RSNON \<and> \<not> bn_port_valid (tx_node s r) \<longrightarrow> ether_type m = ETHERTYPE_PAE)"

definition wake :: "node_ref \<Rightarrow> txs \<Rightarrow> txs" where
  "wake r = tx_on_m (upd_node r (\<lambda>n. n\<lparr>bn_inact := 0\<rparr>))"

lemma encap_sent:
  assumes "encap E m s = (Some (f, r), c, s')"
  obtains t qos u seq dir addrs where "14 \<le> length m" "find_txnode E (bytes_at m 0 6) s = (Some r, t)" "may_send m r t"
    "encap_qos E m r (wake r t) = (qos, u)" "tx_seqno qos r u = (seq, s')" "encap_addrs s' r m = Some (dir, addrs)"
    "f = encap_header s' r qos seq dir addrs @ llc_frame m"
proof -
  have len: "14 \<le> length m" using assms by (auto simp: encap_def split: if_splits)
  obtain k t where t: "find_txnode E (bytes_at m 0 6) s = (Some k, t)" "may_send m k t" "encap_node E m k t = (Some (f, r), c, s')"
    using assms by (auto simp: encap_def may_send_def split: if_splits prod.splits option.splits)
  obtain qos u where q: "encap_qos E m k (wake k t) = (qos, u)" by fastforce
  obtain seq v where v: "tx_seqno qos k u = (seq, v)" by fastforce
  have node: "encap_node E m k t = (if \<not> te_prepend E then encap_drop E [Tx_Stat Ts_Nombuf] (Some k) u
      else case encap_addrs v k m of
             None \<Rightarrow> encap_drop E [Tx_Free (llc_frame m)] (Some k) v
           | Some (dir, addrs) \<Rightarrow>
               let f = encap_header v k qos seq dir addrs @ llc_frame m in
               if m_opmode (tx_m v) = M_HOSTAP
               then case pwrsave f k v of (w, s) \<Rightarrow> if w then (None, None, s) else (Some (f, k), None, s)
               else (Some (f, k), None, v))"
    using q v by (simp add: encap_node_def wake_def)
  have prep: "te_prepend E" using t(3) unfolding node by (cases "te_prepend E") simp_all
  obtain dir addrs where a: "encap_addrs v k m = Some (dir, addrs)"
    using t(3) prep unfolding node by (cases "encap_addrs v k m") auto
  let ?f = "encap_header v k qos seq dir addrs @ llc_frame m"
  obtain w x where w: "pwrsave ?f k v = (w, x)" by fastforce
  have "?f = f \<and> k = r \<and> v = s'"
    using t(3) prep a w pwrsave_false [of ?f k v x] unfolding node Let_def
    by (cases w; cases "m_opmode (tx_m v) = M_HOSTAP") simp_all
  then have a2: "f = ?f" and k: "r = k" "s' = v" by metis+
  show thesis
    by (rule that [of t qos u seq dir addrs]) (use len t(1,2) q v a a2 k in simp_all)
qed

section \<open>Fields that the path leaves alone\<close>

text \<open>The security of a node and the configuration, as the steps after the look-up leave them.\<close>

definition sec_view :: "txs \<Rightarrow> node_ref \<Rightarrow> ieee80211_opmode \<times> u32 \<times> u32 \<times> bool \<times> sta_state \<times> u8 list \<times> u8 list" where
  "sec_view s r = (m_opmode (tx_m s), m_flags (tx_m s), bn_flags (tx_node s r), bn_port_valid (tx_node s r),
     bn_state (tx_node s r), bn_bssid (tx_node s r), bn_bssid (m_bss (tx_m s)))"

lemma tx_m_ops [simp]:
  "tx_m (tx_on_ba r g s) = tx_m s" "tx_m (tx_logs es s) = tx_m s" "tx_m (s\<lparr>tx_seq := q\<rparr>) = tx_m s"
  "tx_m (tx_on_m h s) = h (tx_m s)" "tx_m (s\<lparr>tx_mcast := b\<rparr>) = tx_m s" "tx_m (set_tim a b s) = tx_m s"
  "tx_m (s\<lparr>tx_pwrsaveq := p\<rparr>) = tx_m s" "tx_m (s\<lparr>tx_mgtq := p\<rparr>) = tx_m s"
  by (simp_all add: tx_m_def tx_on_ba_def tx_logs_def tx_on_m_def as_m_def on_m_def on_rx_def upd_m_def upd_rxn_def
      set_tim_def)

lemma tx_node_ops [simp]:
  "tx_node (tx_on_ba r' g s) r = tx_node s r" "tx_node (tx_logs es s) r = tx_node s r"
  "tx_node (s\<lparr>tx_seq := q\<rparr>) r = tx_node s r"
  by (simp_all add: tx_node_def)

lemma sec_seqno: "tx_seqno qos r u = (seq, v) \<Longrightarrow> sec_view v r' = sec_view u r'"
  by (auto simp: tx_seqno_def Let_def sec_view_def split: option.splits)

lemma sec_qos: "encap_qos E m r t = (qos, u) \<Longrightarrow> sec_view u r' = sec_view t r'"
  by (auto simp: encap_qos_def Let_def sec_view_def split: if_splits)

lemma sec_wake: "sec_view (wake r t) r = sec_view t r"
proof -
  let ?f = "\<lambda>n. n\<lparr>bn_inact := 0\<rparr>"
  have the: "the_node (upd_node r ?f m) r = ?f (the_node m r) \<or> the_node (upd_node r ?f m) r = the_node m r" for m
    by (cases r) (auto simp: the_node_def node_at_def find_upd_node upd_node_def [of Bss] split: option.split)
  have conf: "m_opmode (upd_node r ?f m) = m_opmode m" "m_flags (upd_node r ?f m) = m_flags m"
    "bn_bssid (m_bss (upd_node r ?f m)) = bn_bssid (m_bss m)" for m
    by (cases r; simp add: upd_node_def)+
  show ?thesis
    using the [of "tx_m t"] by (auto simp: sec_view_def wake_def tx_node_def conf)
qed

lemma may_send_sec: "sec_view t r = sec_view s r \<Longrightarrow> may_send m r t = may_send m r s"
  by (simp add: may_send_def sec_view_def m_flag_def)

section \<open>The header\<close>

text \<open>A sequence number in its field.\<close>

lemma seq_field:
  fixes q :: u16
  assumes "unat q < 4096"
  shows "drop_bit 4 (push_bit 4 q) = q"
proof (rule word_unat_eq_iff [THEN iffD2])
  have "unat (push_bit 4 q) = unat q * 16"
    using assms by (simp add: push_bit_eq_mult unat_word_ariths)
  then show "unat (drop_bit 4 (push_bit 4 q)) = unat q" by (simp add: drop_bit_eq_div unat_div)
qed

lemma addrs_dir:
  "encap_addrs s r m = Some (dir, addrs) \<Longrightarrow> dir \<in> {DIR_NODS, DIR_TODS, DIR_FROMDS}"
  by (auto simp: encap_addrs_def Let_def split: ieee80211_opmode.splits)

definition bssids_ok :: "mlme \<Rightarrow> bool" where
  "bssids_ok m \<longleftrightarrow> length (bn_bssid (m_bss m)) = 6 \<and> (\<forall>n\<in>set (m_tree m). length (bn_bssid n) = 6)"

lemma addrs_length:
  assumes "encap_addrs s r m = Some (dir, addrs)" "length (bn_bssid (tx_node s r)) = 6" "length (bn_bssid (m_bss (tx_m s))) = 6"
  shows "length addrs = 18"
  using assms by (auto simp: encap_addrs_def Let_def split: ieee80211_opmode.splits)

lemma header_bytes:
  fixes dir :: u8
  assumes "dir \<in> {0, 1, 2}"
  shows "(dir OR (if p then 0x40 else 0)) AND 3 = dir" "\<not> has_flag (dir OR (if p then 0x40 else 0)) 0x80"
    "has_flag (dir OR (if p then 0x40 else 0)) 0x40 = p"
  using assms by (auto simp: has_flag_def)

text \<open>A frame of the path, taken apart: its type, its length of header, its addresses and its content.\<close>

lemma sent_header:
  assumes "dir \<in> {DIR_NODS, DIR_TODS, DIR_FROMDS}" "length addrs = 18"
    "f = encap_header s r qos seq dir addrs @ llc_frame m"
  shows "has_qos f = (qos \<noteq> None)" "get_hdrlen f = 24 + (if qos = None then 0 else 2)"
    "byte_at f 1 AND 3 = dir" "has_flag (byte_at f 1) FC1_PROTECTED = tx_protects s r"
    "drop (get_hdrlen f) f = llc_frame m" "bytes_at f 4 18 = addrs" "frame_seq f = drop_bit 4 (push_bit 4 seq)"
    "fc0_type f = TYPE_DATA"
proof -
  have b0: "byte_at f 0 = TYPE_DATA OR (if qos = None then 0 else SUBTYPE_QOS)"
    and b1: "byte_at f 1 = dir OR (if tx_protects s r then FC1_PROTECTED else 0)"
    using assms(3) by (simp_all add: encap_header_def byte_at_def)
  show q: "has_qos f = (qos \<noteq> None)" by (simp add: has_qos_def b0)
  show d: "byte_at f 1 AND 3 = dir" and "has_flag (byte_at f 1) FC1_PROTECTED = tx_protects s r"
    using header_bytes [of dir "tx_protects s r"] assms(1) b1 by simp_all
  have "\<not> has_htc f" using header_bytes(2) [of dir "tx_protects s r"] assms(1) b1 by (simp add: has_htc_def)
  moreover have "\<not> has_addr4 f" using d assms(1) by (auto simp: has_addr4_def)
  ultimately show h: "get_hdrlen f = 24 + (if qos = None then 0 else 2)" by (simp add: get_hdrlen_def q)
  have "length (encap_header s r qos seq dir addrs) = get_hdrlen f"
    using assms(2) by (simp add: h encap_header_def qos_bytes_def split: option.split)
  then show "drop (get_hdrlen f) f = llc_frame m" using assms(3) by simp
  obtain x y where f: "f = ([x, y, 0, 0] @ addrs) @ LE_WRITE_2 (push_bit 4 seq)
      @ (case qos of None \<Rightarrow> [] | Some tid \<Rightarrow> qos_bytes s tid) @ llc_frame m"
    using assms(3) unfolding encap_header_def by (metis append.assoc)
  show "bytes_at f 4 18 = addrs"
    using bytes_at_append_0 [of "[x, y, 0, 0]" 4] assms(2) unfolding f by (simp only: append.assoc) (simp add: bytes_at_take)
  have "drop 22 f = LE_WRITE_2 (push_bit 4 seq) @ (case qos of None \<Rightarrow> [] | Some tid \<Rightarrow> qos_bytes s tid) @ llc_frame m"
    unfolding f using assms(2) by simp
  then show "frame_seq f = drop_bit 4 (push_bit 4 seq)" by (simp only: frame_seq_def LE_READ_WRITE_2)
  show "fc0_type f = TYPE_DATA" by (simp add: fc0_type_def b0)
qed

section \<open>Taking the headers off\<close>

lemma bytes_at_split: "bytes_at p i (j + k) = bytes_at p i j @ bytes_at p (i + j) k"
  by (rule nth_equalityI) (auto simp: bytes_at_def nth_append)

lemma sent_decap:
  assumes "encap_addrs s r m = Some (dir, addrs)" "length addrs = 18" "14 \<le> length m"
    "f = encap_header s r qos seq dir addrs @ llc_frame m"
  shows "decap_ether f (get_hdrlen f) = m"
proof -
  note h = sent_header [OF addrs_dir [OF assms(1)] assms(2,4)]
  let ?d = "bytes_at m 0 6" and ?s = "bytes_at m 6 6" and ?k = "get_hdrlen f"
  have parts: "bytes_at f 4 6 = take 6 addrs" "bytes_at f 10 6 = take 6 (drop 6 addrs)" "bytes_at f 16 6 = drop 12 addrs"
  proof -
    have "addrs = bytes_at f 4 6 @ bytes_at f 10 6 @ bytes_at f 16 6"
      using h(6) bytes_at_split [of f 4 6 12] bytes_at_split [of f 10 6 6] by simp
    moreover have "take 6 (a @ b @ c) = a" "take 6 (drop 6 (a @ b @ c)) = b" "drop 12 (a @ b @ c) = c"
      if "length a = 6" "length b = 6" for a b c :: "u8 list" using that by simp_all
    ultimately show "bytes_at f 4 6 = take 6 addrs" "bytes_at f 10 6 = take 6 (drop 6 addrs)" "bytes_at f 16 6 = drop 12 addrs"
      by (metis length_bytes_at)+
  qed
  have "decap_addrs f = ?d @ ?s"
    using assms(1,2) by (auto simp: decap_addrs_def encap_addrs_def Let_def h(3) parts simp del: One_nat_def split: ieee80211_opmode.splits)
  moreover have "bytes_at f ?k 6 = llc_hdr_mac"
    by (subst bytes_at_drop) (simp add: h(5) llc_frame_def llc_hdr_mac_def bytes_at_eq_take)
  moreover have "bytes_at f (?k + 6) 2 = bytes_at m 12 2"
  proof -
    have "drop (?k + 6) f = drop 6 (drop ?k f)" by (simp only: drop_drop add.commute)
    also have "\<dots> = drop 12 m" unfolding h(5) by (simp add: llc_frame_def)
    finally show ?thesis by (metis bytes_at_drop)
  qed
  moreover have "drop (?k + 8) f = drop 14 m"
  proof -
    have "drop (?k + 8) f = drop 8 (drop ?k f)" by (simp only: drop_drop add.commute)
    also have "\<dots> = drop 14 m" unfolding h(5) by (simp add: llc_frame_def)
    finally show ?thesis .
  qed
  moreover have "?d @ ?s @ bytes_at m 12 2 @ drop 14 m = m"
    using assms(3) bytes_at_split [of m 0 6 8] bytes_at_split [of m 6 6 2] bytes_at_eq_take [of 14 m]
      append_take_drop_id [of 14 m] by simp
  ultimately show ?thesis by (simp add: decap_ether_def)
qed

text \<open>Opening a frame clears its protected bit, which the headers do not depend on.\<close>

lemma decap_clear [simp]:
  "get_hdrlen (clear_protected f) = get_hdrlen f"
  "decap_ether (clear_protected f) (get_hdrlen f) = decap_ether f (get_hdrlen f)"
proof -
  have q: "has_qos (clear_protected f) = has_qos f" "has_addr4 (clear_protected f) = has_addr4 f"
    by (simp_all only: has_qos_def has_addr4_def dir_clear) (simp add: byte_at_clear)
  have "has_flag (x AND NOT 0x40) 0x80 = has_flag x (0x80 :: u8)" for x
  proof -
    have "(x AND NOT 0x40) AND 0x80 = x AND 0x80" by (simp add: and.assoc)
    then show ?thesis by (simp only: has_flag_def)
  qed
  then have "has_htc (clear_protected f) = has_htc f"
    by (simp add: has_htc_def q fc0_type_def byte_at_clear)
  then show "get_hdrlen (clear_protected f) = get_hdrlen f" by (simp only: get_hdrlen_def q)
  have k: "24 \<le> get_hdrlen f" by (simp add: get_hdrlen_def)
  have "decap_addrs (clear_protected f) = decap_addrs f"
    by (simp only: decap_addrs_def dir_clear) (simp add: bytes_at_clear Let_def)
  moreover have "drop (get_hdrlen f + j) (clear_protected f) = drop (get_hdrlen f + j) f" for j
    using k by (simp add: clear_protected_def)
  moreover from this [of 0] have "drop (get_hdrlen f) (clear_protected f) = drop (get_hdrlen f) f" by simp
  moreover have "length (clear_protected f) = length f" by (simp add: clear_protected_def)
  ultimately show "decap_ether (clear_protected f) (get_hdrlen f) = decap_ether f (get_hdrlen f)"
    using k by (simp add: decap_ether_def bytes_at_clear)
qed

section \<open>Addresses of networks\<close>

text \<open>Every BSSID has six bytes, whatever the look-up of a node does to the cache.\<close>

lemma bssids_upd:
  "bssids_ok m \<Longrightarrow> (\<And>n. bn_bssid (f n) = bn_bssid n) \<Longrightarrow> bssids_ok (upd_node r f m)"
  by (cases r) (auto simp: bssids_ok_def upd_node_def tree_update_def)

lemma bssids_fields [simp]:
  "bssids_ok (log_ev e m) = bssids_ok m" "bssids_ok (log_if b e m) = bssids_ok m"
  "bssids_ok (m\<lparr>m_mgt_timer := v\<rparr>) = bssids_ok m" "bssids_ok (m\<lparr>m_protmode := p\<rparr>) = bssids_ok m"
  "bssids_ok (m\<lparr>m_scangen := c\<rparr>) = bssids_ok m"
  by (simp_all add: bssids_ok_def log_ev_def log_if_def)

lemma bssids_free: "bssids_ok m \<Longrightarrow> bssids_ok (free_node H a m)"
  by (auto simp: free_node_def Let_def bssids_ok_def tree_remove_def log_ev_def log_if_def split: option.split)

lemma bssids_send: "bssids_ok m \<Longrightarrow> bssids_ok (snd (send_mgmt H r type arg m))"
  by (auto simp: send_mgmt_def unref_failed_def Let_def split: send_outcome.splits node_ref.splits
      intro!: bssids_upd bssids_free)

lemma bssids_evict: "bssids_ok m \<Longrightarrow> bssids_ok (evict_node H n m)"
  by (auto simp: evict_node_def node_leave_cache_def Let_def intro!: bssids_upd bssids_free bssids_send)

lemma bssids_clean_loop: "bssids_ok m \<Longrightarrow> bssids_ok (fst (clean_nodes_loop H ct gen ns m x y))"
proof (induction ns arbitrary: m x y)
  case (Cons n ns)
  have "bssids_ok (upd_node (Peer (bn_macaddr n)) (\<lambda>n. n\<lparr>bn_scangen := gen\<rparr>) m)"
    by (rule bssids_upd [OF Cons.prems]) simp
  then show ?case
    using Cons bssids_evict [of _ H n] by (auto simp: Let_def split: prod.splits)
qed simp

lemma bssids_clean: "bssids_ok m \<Longrightarrow> bssids_ok (clean_nodes H ct m)"
proof -
  assume ok: "bssids_ok m"
  obtain t x y where t: "clean_nodes_loop H ct (m_scangen m) (m_tree m) (m\<lparr>m_scangen := m_scangen m + 1\<rparr>) 0 0 = (t, x, y)"
    using prod_cases3 by blast
  then have "bssids_ok t"
    using bssids_clean_loop [of "m\<lparr>m_scangen := m_scangen m + 1\<rparr>" H ct "m_scangen m" "m_tree m" 0 0] ok by simp
  then show ?thesis
    using t by (auto simp: clean_nodes_def update_htprot_def Let_def upd_ht_def intro!: bssids_upd)
qed

lemma set_tree_insert: "set (tree_insert n t) \<subseteq> insert n (set t)"
  by (induction t) auto

lemma bssids_dup: "bssids_ok m \<Longrightarrow> bssids_ok (snd (dup_bss H a m))"
proof -
  assume ok: "bssids_ok m"
  obtain b t where h: "alloc_node_helper H m = (b, t)" by fastforce
  then have t: "bssids_ok t"
    using ok bssids_clean [OF ok, of H False] by (simp add: alloc_node_helper_def Let_def split: if_splits)
  have "bssids_ok (setup_node n a t)" if "length (bn_bssid n) = 6" for n
    using t that set_tree_insert [of "n\<lparr>bn_macaddr := a, bn_savedq := [], bn_state := STA_CACHE\<rparr>" "m_tree t"]
    by (auto simp: setup_node_def bssids_ok_def)
  moreover have "length (bn_bssid (m_bss t)) = 6" using t by (simp add: bssids_ok_def)
  ultimately show ?thesis using t by (simp add: dup_bss_def h)
qed

lemma bssids_the: "bssids_ok m \<Longrightarrow> length (bn_bssid (the_node m r)) = 6"
  by (cases r) (auto simp: the_node_def node_at_def bssids_ok_def zero_node_def split: option.split dest: find_node_in)

lemma bssids_txnode:
  assumes "bssids_ok (tx_m s)" "find_txnode E a s = (r, t)"
  shows "bssids_ok (tx_m t)"
proof -
  obtain b m where d: "dup_bss (te_hk E) a (tx_m s) = (b, m)" by fastforce
  then have "bssids_ok m" using bssids_dup [OF assms(1), of "te_hk E" a] by simp
  then show ?thesis
    using assms d
    by (auto simp: find_txnode_def fake_node_def ref_node_def Let_def split: if_splits prod.splits intro!: bssids_upd)
qed

section \<open>Properties of what is sent\<close>

lemma sec_sent:
  assumes "encap_qos E m r (wake r t) = (qos, u)" "tx_seqno qos r u = (seq, s')"
  shows "sec_view s' r = sec_view t r"
  using sec_seqno [OF assms(2)] sec_qos [OF assms(1)] sec_wake by simp

lemma encap_parts:
  assumes "encap E m s = (Some (f, r), c, s')" "bssids_ok (tx_m s)"
  obtains qos seq dir addrs where "14 \<le> length m" "encap_addrs s' r m = Some (dir, addrs)" "length addrs = 18"
    "f = encap_header s' r qos seq dir addrs @ llc_frame m" "may_send m r s'"
proof -
  obtain t qos u seq dir addrs where p: "14 \<le> length m" "find_txnode E (bytes_at m 0 6) s = (Some r, t)" "may_send m r t"
    "encap_qos E m r (wake r t) = (qos, u)" "tx_seqno qos r u = (seq, s')" "encap_addrs s' r m = Some (dir, addrs)"
    "f = encap_header s' r qos seq dir addrs @ llc_frame m" by (rule encap_sent [OF assms(1)])
  have t: "bssids_ok (tx_m t)" by (rule bssids_txnode [OF assms(2) p(2)])
  have sec: "sec_view s' r = sec_view t r" by (rule sec_sent [OF p(4,5)])
  then have "length (bn_bssid (tx_node s' r)) = 6" "length (bn_bssid (m_bss (tx_m s'))) = 6"
    using bssids_the [OF t, of r] t by (simp_all add: sec_view_def tx_node_def bssids_ok_def)
  then have "length addrs = 18" by (rule addrs_length [OF p(6)])
  then show thesis using that p(1,6,7) may_send_sec [OF sec] p(3) by blast
qed

text \<open>C37. Every data frame that is handed to the driver goes to a node that may be sent to: the port is open in an
  RSN network unless the frame is EAPOL, and a station of an access point is associated.  Its protected bit
  is set exactly when WEP is on or the network is RSN and transmissions to the node are protected.\<close>

theorem transmitted_data_controlled:
  assumes "encap E m s = (Some (f, r), c, s')" and "bssids_ok (tx_m s)"
  shows "(m_flag (tx_m s') F_RSNON \<and> \<not> bn_port_valid (tx_node s' r) \<longrightarrow> ether_type m = ETHERTYPE_PAE) \<and>
    (m_opmode (tx_m s') = M_HOSTAP \<and> r \<noteq> Bss \<longrightarrow> bn_state (tx_node s' r) = STA_ASSOC) \<and>
    (has_flag (byte_at f 1) FC1_PROTECTED \<longleftrightarrow> tx_protects s' r)"
proof -
  obtain qos seq dir addrs where p: "encap_addrs s' r m = Some (dir, addrs)" "length addrs = 18"
    "f = encap_header s' r qos seq dir addrs @ llc_frame m" "may_send m r s'"
    using encap_parts [OF assms] by metis
  then show ?thesis using sent_header(4) [OF addrs_dir [OF p(1)] p(2,3)] by (simp add: may_send_def)
qed

text \<open>C36. End to end: the Ethernet frames that the transmit path takes, in any mode and at any times, sealed by one
  end with WEP, TKIP or CCMP, are what the other end has after it opened them and took the headers off.  The two
  ends hold the same key, no receive counter is above the transmit counter (\<^const>\<open>in_step\<close>), memory is
  available, the transmit counter stays below its 48 bits, and under TKIP the frames have one transmitter
  address, which is what a key caches; their priorities may differ.\<close>

theorem transmitted_data_received:
  assumes "\<forall>(m, f) \<in> set xs. \<exists>E s r c s'. bssids_ok (tx_m s) \<and> encap E m s = (Some (f, r), c, s')"
    and "prims_ok pr" and "mem_ok env" and "in_step ta kt kr"
    and "\<forall>(m, f) \<in> set xs. k_cipher kt = CIPHER_TKIP \<longrightarrow> bytes_at f 10 6 = ta"
    and "unat (k_tsc kt) + length xs < 2 ^ 48"
  shows "map (map_sum id (\<lambda>f. decap_ether f (get_hdrlen f))) (stream env pr kt kr (map snd xs)) = map (Inr \<circ> fst) xs"
proof -
  have part: "get_hdrlen f \<le> length f \<and> decap_ether (clear_protected f) (get_hdrlen (clear_protected f)) = m"
    if "(m, f) \<in> set xs" for m f
  proof -
    note mem = that
    obtain E s r c s' where e: "encap E m s = (Some (f, r), c, s')" "bssids_ok (tx_m s)"
      using bspec [OF assms(1) mem] by auto
    obtain qos seq dir addrs where p: "14 \<le> length m" "encap_addrs s' r m = Some (dir, addrs)" "length addrs = 18"
      "f = encap_header s' r qos seq dir addrs @ llc_frame m"
      using encap_parts [OF e] by metis
    note h = sent_header [OF addrs_dir [OF p(2)] p(3,4)]
    have "decap_ether f (get_hdrlen f) = m" by (rule sent_decap [OF p(2,3,1,4)])
    moreover have "get_hdrlen f < length f" using h(5) by (metis drop_all leI length_0_conv llc_frame_def append_is_Nil_conv list.distinct(1))
    ultimately show ?thesis by (simp add: decap_clear)
  qed
  have "stream env pr kt kr (map snd xs) = map (\<lambda>m. Inr (clear_protected m)) (map snd xs)"
    by (rule stream_opens [OF assms(2,3,4)]) (use assms(5,6) part in \<open>auto simp: sealable_def\<close>)
  then show ?thesis using part by (auto simp: comp_def)
qed

section \<open>Access categories\<close>

lemma lower_ac_low: "lower_ac acm AC_Be \<in> {AC_Be, AC_Bk}" "lower_ac acm AC_Bk = AC_Bk"
proof -
  show bk: "lower_ac acm AC_Bk = AC_Bk" by (simp add: lower_ac.simps)
  show "lower_ac acm AC_Be \<in> {AC_Be, AC_Bk}" by (subst lower_ac.simps) (simp add: bk)
qed

lemma classify_range: "classify st m \<in> {0, 1, 2, 3}"
  by (auto simp: classify_def Let_def ac_number_def split: edca_ac.split)

text \<open>C40. The classifier of frames gives back numbers of access categories where user priorities are expected: what it
  takes for video (2) is sent in the background category and what it takes for voice (3) as best effort, in
  every mode and under every admission control; no frame gets into the categories of video or voice.\<close>

theorem classified_traffic_demoted:
  "up_to_ac M (classify st m) \<in> {AC_Be, AC_Bk} \<and>
   (classify st m = ac_number AC_Vi \<longrightarrow> up_to_ac M (classify st m) = AC_Bk)"
proof -
  have be: "up_to_ac M u \<in> {AC_Be, AC_Bk}" if "up_table u = AC_Be" for u
    using lower_ac_low(1) by (simp add: up_to_ac_def that)
  have bk: "up_to_ac M u = AC_Bk" if "up_table u = AC_Bk" for u
    by (simp add: up_to_ac_def that lower_ac_low)
  have "up_table 0 = AC_Be" "up_table 1 = AC_Bk" "up_table 2 = AC_Bk" "up_table 3 = AC_Be"
    by (simp_all add: up_table_def)
  then have "up_to_ac M 0 \<in> {AC_Be, AC_Bk}" "up_to_ac M 1 = AC_Bk" "up_to_ac M 2 = AC_Bk" "up_to_ac M 3 \<in> {AC_Be, AC_Bk}"
    using be bk by blast+
  then show ?thesis using classify_range [of st m] by (auto simp: ac_number_def)
qed

section \<open>Block Ack requests\<close>

text \<open>A Block Ack request that one end sends is read by the other as the priority and the starting sequence number
  that were asked for.\<close>

theorem block_ack_request_received:
  assumes "get_compressed_bar True M r tid ssn = Some f" and "tid < 16" and "unat ssn < 4096"
    and "length (bn_macaddr (the_node M r)) = 6" and "length (m_myaddr M) = 6"
    and "has_flag (ni_flags (fst b)) BlockAck.NODE_HT"
  shows "recv_bar f b = bar_tid (of_nat tid) ssn b"
proof -
  let ?ctl = "BA_COMPRESSED OR push_bit 12 (of_nat tid) :: u16"
  have "tid \<in> set [0..<16]" using assms(2) by simp
  then have ctl: "\<not> has_flag ?ctl BA_MULTI_TID" "ucast (drop_bit 12 ?ctl) = (of_nat tid :: u8)"
    by (auto simp: upt_rec has_flag_def)
  have ssn: "drop_bit 4 (push_bit 4 ssn) = ssn" by (rule seq_field [OF assms(3)])
  have f: "f = ([TYPE_CTL OR ST_BAR, DIR_NODS, 0, 0] @ bn_macaddr (the_node M r) @ m_myaddr M)
      @ LE_WRITE_2 ?ctl @ LE_WRITE_2 (push_bit 4 ssn)"
    using assms(1) by (simp add: get_compressed_bar_def)
  have "drop 16 f = LE_WRITE_2 ?ctl @ LE_WRITE_2 (push_bit 4 ssn)" "length f = 20"
    using assms(4,5) by (simp_all add: f)
  then show ?thesis
    using assms(6) ctl ssn LE_READ_WRITE_2 [of "push_bit 4 ssn" "[]"] by (simp add: recv_bar_def Let_def)
qed

section \<open>Sequence numbers\<close>

text \<open>The sequence counters of the access point of a station: for frames without QoS, and by priority.\<close>

definition counters :: "txs \<Rightarrow> u16 \<times> u16 list" where
  "counters s = (tx_seq s Bss, ni_qos_txseqs (tx_ba_node s Bss))"

definition next_seq :: "u16 \<Rightarrow> u16" where
  "next_seq q = (q + 1) AND 0xfff"

definition advance :: "mbuf \<Rightarrow> u16 \<times> u16 list \<Rightarrow> u16 \<times> u16 list" where
  "advance f c =
     (if has_qos f then (fst c, (snd c)[unat (qos_tid f) := next_seq (snd c ! unat (qos_tid f))])
      else (next_seq (fst c), snd c))"

definition counter_of :: "mbuf \<Rightarrow> u16 \<times> u16 list \<Rightarrow> u16" where
  "counter_of f c = (if has_qos f then snd c ! unat (qos_tid f) else fst c)"

text \<open>A station whose addresses have their lengths and whose counters have their ranges.\<close>

definition addrs_ok :: "mlme \<Rightarrow> bool" where
  "addrs_ok m \<longleftrightarrow> bssids_ok m \<and> length (bn_macaddr (m_bss m)) = 6 \<and> length (m_myaddr m) = 6"

definition tx_ready :: "txs \<Rightarrow> bool" where
  "tx_ready s \<longleftrightarrow> m_opmode (tx_m s) = M_STA \<and> addrs_ok (tx_m s) \<and> unat (tx_seq s Bss) < 4096 \<and>
     length (ni_qos_txseqs (tx_ba_node s Bss)) = 16 \<and> (\<forall>q\<in>set (ni_qos_txseqs (tx_ba_node s Bss)). unat q < 4096)"

lemma counters_ops [simp]:
  "counters (tx_logs es s) = counters s" "counters (tx_on_m f s) = counters s"
  "tx_ba_node (tx_logs es s) r = tx_ba_node s r" "tx_ba_node (tx_on_m f s) r = tx_ba_node s r"
  "tx_seq (tx_on_ba r g s) = tx_seq s" "tx_ba_node (tx_on_ba r g s) r = g (tx_ba_node s r)"
  "tx_ba_node (s\<lparr>tx_seq := v\<rparr>) r = tx_ba_node s r"
  by (simp_all add: counters_def tx_logs_def tx_on_m_def tx_ba_node_def on_m_def upd_m_def tx_on_ba_def on_rx_def upd_rxn_def)

lemma sta_fields: "counters t = counters s \<Longrightarrow> m_opmode (tx_m t) = m_opmode (tx_m s) \<Longrightarrow>
    (addrs_ok (tx_m s) \<Longrightarrow> addrs_ok (tx_m t)) \<Longrightarrow> tx_ready s \<Longrightarrow> tx_ready t"
  by (simp add: tx_ready_def counters_def)

lemma opmode_upd [simp]: "m_opmode (upd_node r f m) = m_opmode m"
  by (cases r) (simp_all add: upd_node_def)

lemma addrs_upd:
  "addrs_ok m \<Longrightarrow> (\<And>n. bn_bssid (f n) = bn_bssid n \<and> bn_macaddr (f n) = bn_macaddr n) \<Longrightarrow> addrs_ok (upd_node r f m)"
  by (cases r) (auto simp: addrs_ok_def bssids_ok_def upd_node_def tree_update_def)

lemma sta_upd: "tx_ready s \<Longrightarrow> (\<And>n. bn_bssid (f n) = bn_bssid n \<and> bn_macaddr (f n) = bn_macaddr n)
    \<Longrightarrow> tx_ready (tx_on_m (upd_node r f) s)"
  by (rule sta_fields [of _ s]) (auto intro: addrs_upd)

lemma sta_drop:
  assumes "tx_ready s" "encap_drop E es (if b then Some Bss else None) s = (x, c, t)"
  shows "tx_ready t \<and> counters t = counters s \<and> x = None"
proof -
  let ?s = "tx_logs es s"
  have s: "tx_ready ?s" by (rule sta_fields [OF _ _ _ assms(1)]) simp_all
  have rel: "tx_ready (tx_on_m (\<lambda>_. m) ?s)" if "m = upd_node Bss f (tx_m s)" "\<And>n. bn_bssid (f n) = bn_bssid n \<and> bn_macaddr (f n) = bn_macaddr n" for m f
    using sta_upd [OF s, of f Bss] that by (simp add: tx_on_m_def as_m_def tx_m_def on_m_def upd_m_def tx_logs_def)
  have comp: "upd_node Bss f (upd_node Bss g m) = upd_node Bss (f \<circ> g) m" for f g m
    by (simp add: upd_node_def)
  show ?thesis
    using assms(2) s
    by (auto simp: encap_drop_def release_node_def Let_def comp split: if_splits intro!: rel)
qed

lemma sta_qos:
  assumes "tx_ready s" "encap_qos E m r s = (qos, t)"
  shows "tx_ready t \<and> counters t = counters s \<and> (\<forall>tid. qos = Some tid \<longrightarrow> tid < 4)"
proof -
  have trig: "ni_qos_txseqs (node_trigger_addba_req tid b) = ni_qos_txseqs b" for tid b
    by (simp add: node_trigger_addba_req_def)
  have "counters (tx_on_ba r (node_trigger_addba_req tid) s) = counters s" for tid
    by (cases "r = Bss") (simp_all add: counters_def trig tx_ba_node_def tx_on_ba_def on_rx_def upd_rxn_def)
  then have "tx_ready (tx_on_ba r (node_trigger_addba_req tid) s) \<and> counters (tx_on_ba r (node_trigger_addba_req tid) s) = counters s" for tid
    using sta_fields [of "tx_on_ba r (node_trigger_addba_req tid) s" s] assms(1) by simp
  then show ?thesis
    using assms classify_range [of "te_stack E" m] by (auto simp: encap_qos_def Let_def split: if_splits)
qed

text \<open>The priority of a QoS frame can be read from it.\<close>

lemma sent_tid:
  assumes "dir \<in> {DIR_NODS, DIR_TODS, DIR_FROMDS}" "length addrs = 18" "tid < 4"
    "f = encap_header s r (Some tid) seq dir addrs @ llc_frame m"
  shows "unat (qos_tid f) = tid"
proof -
  note h = sent_header [OF assms(1,2,4)]
  let ?v = "of_nat tid OR (if bit (ic_tid_noack (rs_com (as_rx (tx_ap s)))) tid then QOS_ACK_POLICY_NOACK else 0) :: u16"
  have "\<not> has_addr4 f" using h(3) assms(1) by (auto simp: has_addr4_def)
  moreover have "drop 24 f = LE_WRITE_2 ?v @ llc_frame m"
    using assms(2) by (simp add: assms(4) encap_header_def qos_bytes_def)
  ultimately have q: "get_qos f = ?v" by (simp add: get_qos_def)
  have "tid \<in> set [0..<4]" using assms(3) by simp
  then have "unat (ucast ((of_nat tid OR x) AND 0xf :: u16) :: u8) = tid" if "x \<in> {0, 0x20}" for x :: u16
    using that by (auto simp: upt_rec)
  then show ?thesis using h(1) by (auto simp: qos_tid_def q)
qed

text \<open>One call: the frame has the number of its counter, which goes on; the others stay.\<close>

lemma sta_next: "unat (next_seq q) = (unat q + 1) mod 4096" if "unat q < 4096" for q :: u16
  using that by (simp add: next_seq_def unat_and_fff unat_word_ariths)

lemma sta_seqno:
  assumes "tx_ready u" "tx_seqno qos Bss u = (seq, s')" "\<forall>tid. qos = Some tid \<longrightarrow> tid < 4"
  shows "tx_ready s' \<and> unat seq < 4096 \<and>
    counters s' = (case qos of None \<Rightarrow> (next_seq (fst (counters u)), snd (counters u))
      | Some tid \<Rightarrow> (fst (counters u), (snd (counters u))[tid := next_seq (snd (counters u) ! tid)])) \<and>
    seq = (case qos of None \<Rightarrow> fst (counters u) | Some tid \<Rightarrow> snd (counters u) ! tid)"
proof -
  have lt: "unat (next_seq q) < 4096" if "unat q < 4096" for q using sta_next [OF that] by simp
  have m: "tx_m s' = tx_m u" using assms(2) by (auto simp: tx_seqno_def Let_def split: option.splits)
  show ?thesis
  proof (cases qos)
    case None
    then have "seq = tx_seq u Bss" "tx_seq s' Bss = next_seq (tx_seq u Bss)" "tx_ba_node s' Bss = tx_ba_node u Bss"
      using assms(2) by (auto simp: tx_seqno_def Let_def next_seq_def)
    then show ?thesis using None assms(1) m lt by (simp add: tx_ready_def counters_def)
  next
    case (Some tid)
    let ?l = "ni_qos_txseqs (tx_ba_node u Bss)"
    have tid: "tid < 4" using assms(3) Some by simp
    have s: "seq = ?l ! tid" "tx_seq s' = tx_seq u" "ni_qos_txseqs (tx_ba_node s' Bss) = ?l[tid := next_seq (?l ! tid)]"
      using assms(2) Some by (auto simp: tx_seqno_def Let_def next_seq_def)
    have l: "length ?l = 16" "\<forall>q\<in>set ?l. unat q < 4096" using assms(1) by (simp_all add: tx_ready_def)
    then have "unat (?l ! tid) < 4096" using tid by simp
    moreover from this have "\<forall>q\<in>set (?l[tid := next_seq (?l ! tid)]). unat q < 4096"
      using l(2) lt set_update_subset_insert [of ?l tid] by blast
    ultimately show ?thesis using Some assms(1) m s l(1) by (simp add: tx_ready_def counters_def)
  qed
qed

lemma sta_encap:
  assumes "encap E m s = (x, c, s')" "tx_ready s"
  shows "tx_ready s' \<and> (case x of None \<Rightarrow> counters s' = counters s
     | Some (f, r) \<Rightarrow> r = Bss \<and> frame_seq f = counter_of f (counters s) \<and> counters s' = advance f (counters s) \<and>
         (has_qos f \<longrightarrow> unat (qos_tid f) < 4))"
proof -
  have find: "find_txnode E (bytes_at m 0 6) s = (Some Bss, ref_node Bss s)"
    using assms(2) by (simp add: find_txnode_def tx_ready_def)
  have ref: "tx_ready (ref_node Bss s)" "counters (ref_node Bss s) = counters s"
    unfolding ref_node_def by (rule sta_upd [OF assms(2)]) simp_all
  have wake: "tx_ready (wake Bss (ref_node Bss s))" "counters (wake Bss (ref_node Bss s)) = counters s"
    using sta_upd [OF ref(1), of "\<lambda>n. n\<lparr>bn_inact := 0\<rparr>"] ref(2) by (simp_all add: wake_def)
  obtain qos u where q: "encap_qos E m Bss (wake Bss (ref_node Bss s)) = (qos, u)" by fastforce
  have u: "tx_ready u" "counters u = counters s" "\<forall>tid. qos = Some tid \<longrightarrow> tid < 4"
    using sta_qos [OF wake(1) q] wake(2) by simp_all
  show ?thesis
  proof (cases x)
    case (Some fr)
    then obtain f r where fr: "encap E m s = (Some (f, r), c, s')" "x = Some (f, r)" using assms(1) by (cases fr) auto
    obtain t qos' u' seq dir addrs where p: "14 \<le> length m" "find_txnode E (bytes_at m 0 6) s = (Some r, t)"
      "encap_qos E m r (wake r t) = (qos', u')" "tx_seqno qos' r u' = (seq, s')" "encap_addrs s' r m = Some (dir, addrs)"
      "f = encap_header s' r qos' seq dir addrs @ llc_frame m"
      using encap_sent [OF fr(1)] by metis
    have eq: "r = Bss" "qos' = qos" "u' = u" using p(2,3) find q by simp_all
    have s': "tx_ready s'" "unat seq < 4096"
      "counters s' = (case qos of None \<Rightarrow> (next_seq (fst (counters u)), snd (counters u))
        | Some tid \<Rightarrow> (fst (counters u), (snd (counters u))[tid := next_seq (snd (counters u) ! tid)]))"
      "seq = (case qos of None \<Rightarrow> fst (counters u) | Some tid \<Rightarrow> snd (counters u) ! tid)"
      using sta_seqno [OF u(1) p(4) [unfolded eq] u(3)] by blast+
    have len: "length addrs = 18"
      by (rule addrs_length [OF p(5)]) (use s'(1) bssids_the in \<open>simp_all add: tx_ready_def addrs_ok_def tx_node_def bssids_ok_def\<close>)
    note h = sent_header [OF addrs_dir [OF p(5)] len p(6) [unfolded eq]]
    have num: "frame_seq f = seq" using h(7) seq_field [OF s'(2)] by simp
    show ?thesis
    proof (cases qos)
      case None
      then show ?thesis using fr(2) eq(1) s' num h(1) u(2) by (simp add: counter_of_def advance_def)
    next
      case (Some tid)
      have "unat (qos_tid f) = tid"
        by (rule sent_tid [OF addrs_dir [OF p(5)] len]) (use u(3) Some p(6) eq in simp_all)
      then show ?thesis using fr(2) eq(1) s' num h(1) u Some by (simp add: counter_of_def advance_def)
    qed
  next
    case None
    have drop: "tx_ready s' \<and> counters s' = counters s"
      if "encap_drop E es (if b then Some Bss else None) v = (x, c, s')" "tx_ready v" "counters v = counters s" for es b v
      using sta_drop [OF that(2,1)] that(3) by simp
    note dropT = drop [where b = True, simplified, unfolded None] and dropF = drop [where b = False, simplified, unfolded None]
    have addr: "encap_addrs v Bss m \<noteq> None \<and> m_opmode (tx_m v) \<noteq> M_HOSTAP" if "tx_ready v" for v
      using that by (simp add: encap_addrs_def tx_ready_def Let_def)
    have node: "encap_node E m Bss (ref_node Bss s) = (None, c, s') \<Longrightarrow> tx_ready s' \<and> counters s' = counters s"
    proof -
      assume e: "encap_node E m Bss (ref_node Bss s) = (None, c, s')"
      obtain seq v where v: "tx_seqno qos Bss u = (seq, v)" by fastforce
      have "tx_ready v" using sta_seqno [OF u(1) v u(3)] by simp
      then have "encap_addrs v Bss m \<noteq> None" "m_opmode (tx_m v) \<noteq> M_HOSTAP" using addr by simp_all
      then have "\<not> te_prepend E"
        using e q v by (auto simp: encap_node_def wake_def Let_def split: option.splits if_splits)
      then have "encap_drop E [Tx_Stat Ts_Nombuf] (Some Bss) u = (None, c, s')"
        using e q by (simp add: encap_node_def wake_def Let_def)
      then show ?thesis using dropT u by blast
    qed
    have "tx_ready s' \<and> counters s' = counters s"
      using assms None find ref addr [OF ref(1)] node
      by (auto simp: encap_def split: if_splits dest: dropT dropF)
    then show ?thesis using None by simp
  qed
qed

text \<open>Management output: what a call queues for the driver, or frees when the queue is full.\<close>

definition mgmt_frames :: "txs \<Rightarrow> txs \<Rightarrow> mbuf list" where
  "mgmt_frames s t = drop (length (tx_mgtq s)) (tx_mgtq t) @
     concat (map (\<lambda>e. case e of Tx_Free f \<Rightarrow> [f] | _ \<Rightarrow> []) (drop (length (tx_log s)) (tx_log t)))"

lemma mgmt_header_fields:
  assumes "ty AND 0xf = 0" "length (bn_macaddr (tx_node s r)) = 6" "length (bn_bssid (tx_node s r)) = 6"
    "length (m_myaddr (tx_m s)) = 6" "unat (tx_seq s r) < 4096"
  shows "\<not> has_qos (mgmt_header s r ty @ m)" "frame_seq (mgmt_header s r ty @ m) = tx_seq s r"
proof -
  have "byte_at (mgmt_header s r ty @ m) 0 = ty" by (simp add: mgmt_header_def byte_at_def)
  moreover have "ty AND 0x8c \<noteq> 0x88"
  proof
    assume "ty AND 0x8c = 0x88"
    then have "(ty AND 0x8c) AND 0xf = 0x88 AND 0xf" by simp
    moreover have "(ty AND 0x8c) AND 0xf = (ty AND 0xf) AND 0x8c" by (simp only: and.assoc and.commute and.left_commute)
    ultimately show False using assms(1) by simp
  qed
  ultimately show "\<not> has_qos (mgmt_header s r ty @ m)" by (simp add: has_qos_def)
  have "drop 22 (mgmt_header s r ty @ m) = LE_WRITE_2 (push_bit 4 (tx_seq s r)) @ m"
    using assms(2-4) by (simp add: mgmt_header_def)
  then show "frame_seq (mgmt_header s r ty @ m) = tx_seq s r"
    using seq_field [OF assms(5)] by (simp only: frame_seq_def LE_READ_WRITE_2)
qed

lemma sta_mgmt:
  assumes "tx_ready s" "mgmt_output E r m ty s = (err, t)" "ty AND 0xf = 0"
  shows "tx_ready t \<and>
    (if r = Bss \<and> te_prepend E
     then \<exists>f. mgmt_frames s t = [f] \<and> \<not> has_qos f \<and> frame_seq f = fst (counters s) \<and> counters t = advance f (counters s)
     else counters t = counters s) \<and> (\<not> te_prepend E \<longrightarrow> mgmt_frames s t = [])"
proof -
  let ?w = "wake r s"
  have w: "tx_ready ?w" "counters ?w = counters s" "tx_mgtq ?w = tx_mgtq s" "tx_log ?w = tx_log s"
    "tx_seq ?w = tx_seq s"
    using sta_upd [OF assms(1), of "\<lambda>n. n\<lparr>bn_inact := 0\<rparr>" r] by (simp_all add: wake_def) (simp_all add: tx_on_m_def)
  show ?thesis
  proof (cases "te_prepend E")
    case False
    then have "t = ?w" using assms(2) by (simp add: mgmt_output_def wake_def)
    then show ?thesis using w False by (simp add: mgmt_frames_def)
  next
    case True
    let ?f = "mgmt_header ?w r ty @ m" and ?q = "\<lambda>s. s\<lparr>tx_seq := (tx_seq s)(r := next_seq (tx_seq s r))\<rparr>"
    have sta: "m_opmode (tx_m (?q ?w)) \<noteq> M_HOSTAP" using w(1) by (simp add: tx_ready_def)
    have t0: "t = (let (dropped, q) = mq_enqueue (te_ifq_maxlen E) ?f (tx_mgtq s)
        in tx_logs (if dropped then [Tx_Free ?f, Tx_Start] else [Tx_Start]) ((?q ?w)\<lparr>tx_mgtq := q\<rparr>))"
      using assms(2) True sta w(3) unfolding mgmt_output_def wake_def [symmetric] by (simp add: Let_def next_seq_def)
    obtain g es where t: "t = tx_logs es ((?q ?w)\<lparr>tx_mgtq := tx_mgtq s @ g\<rparr>)"
      "g @ concat (map (\<lambda>e. case e of Tx_Free f \<Rightarrow> [f] | _ \<Rightarrow> []) es) = [?f]"
    proof (cases "length (tx_mgtq s) < te_ifq_maxlen E")
      case True
      then show thesis using t0 by (intro that [of "[Tx_Start]" "[?f]"]) (simp_all add: mq_enqueue_def)
    next
      case False
      then show thesis using t0 w(3) by (intro that [of "[Tx_Free ?f, Tx_Start]" "[]"]) (simp_all add: mq_enqueue_def)
    qed
    have fr: "mgmt_frames s t = [?f]" using t w by (simp add: mgmt_frames_def tx_logs_def)
    have c: "counters t = (if r = Bss then (next_seq (fst (counters s)), snd (counters s)) else counters s)"
      using t(1) w(2,5) by (auto simp: counters_def tx_logs_def tx_ba_node_def)
    have lt: "unat (next_seq q) < 4096" if "unat q < 4096" for q :: u16
      using sta_next [OF that] by simp
    have m: "tx_m t = tx_m ?w" using t(1) by simp
    have "tx_ready t"
      using w(1) c lt w(2) m by (auto simp: tx_ready_def counters_def split: if_splits)
    moreover have "\<not> has_qos ?f \<and> frame_seq ?f = fst (counters s)" if "r = Bss"
      using mgmt_header_fields [OF assms(3), of ?w Bss m] w(1) that w(5)
      by (simp add: tx_ready_def addrs_ok_def bssids_ok_def tx_node_def the_node_def node_at_def counters_def)
    ultimately show ?thesis using True fr c by (auto simp: advance_def)
  qed
qed

text \<open>A run of the path: data frames, management frames for a node, and other events.  The frames of the run that
  go to the access point: the data frames handed to the driver and the management frames queued for it, or
  freed when that queue is full.\<close>

datatype tx_item = Data_Item mbuf | Mgmt_Item node_ref mbuf u8 | Other_Item "txs \<Rightarrow> txs"

fun sent :: "tx_env \<Rightarrow> tx_item list \<Rightarrow> txs \<Rightarrow> mbuf list" where
  "sent E [] s = []"
| "sent E (Data_Item m # xs) s =
     (case encap E m s of
        (None, _, t) \<Rightarrow> sent E xs t
      | (Some (f, _), _, t) \<Rightarrow> f # sent E xs t)"
| "sent E (Mgmt_Item r m type # xs) s =
     (case mgmt_output E r m type s of (_, t) \<Rightarrow> (if r = Bss then mgmt_frames s t else []) @ sent E xs t)"
| "sent E (Other_Item g # xs) s = sent E xs (g s)"

text \<open>The types of management frames have four bits of subtype; the other events leave the counters of the
  frames without QoS and of one priority.\<close>

definition leaves_counter :: "(u16 \<times> u16 list \<Rightarrow> u16) \<Rightarrow> (txs \<Rightarrow> txs) \<Rightarrow> bool" where
  "leaves_counter get g \<longleftrightarrow> (\<forall>t. tx_ready t \<longrightarrow> tx_ready (g t) \<and> get (counters (g t)) = get (counters t))"

definition item_ok :: "nat \<Rightarrow> tx_item \<Rightarrow> bool" where
  "item_ok tid x \<longleftrightarrow> (case x of
      Data_Item m \<Rightarrow> True
    | Mgmt_Item r m type \<Rightarrow> type AND 0xf = 0
    | Other_Item g \<Rightarrow> leaves_counter fst g \<and> leaves_counter (\<lambda>c. snd c ! tid) g)"

text \<open>The numbers from \<open>q\<close> on.\<close>

definition numbers_from :: "nat \<Rightarrow> nat \<Rightarrow> u16 list" where
  "numbers_from q k = map (\<lambda>i. of_nat ((q + i) mod 4096)) [0..<k]"

lemma numbers_from_Suc: "q < 4096 \<Longrightarrow> numbers_from q (Suc k) = of_nat q # numbers_from ((q + 1) mod 4096) k"
  by (simp add: numbers_from_def upt_conv_Cons map_Suc_upt [symmetric] comp_def mod_Suc_eq mod_add_left_eq del: upt_Suc)

text \<open>A class of frames that share a counter is numbered by it.\<close>

lemma class_numbers:
  assumes "tx_ready s" "\<forall>x \<in> set xs. item_ok tid x" "\<And>g. item_ok tid (Other_Item g) \<Longrightarrow> leaves_counter get g"
    "\<And>f c. P f \<Longrightarrow> (has_qos f \<Longrightarrow> unat (qos_tid f) < length (snd c)) \<Longrightarrow> counter_of f c = get c \<and> get (advance f c) = next_seq (get c)"
    "\<And>f c. \<not> P f \<Longrightarrow> get (advance f c) = get c" "\<And>t. tx_ready t \<Longrightarrow> unat (get (counters t)) < 4096"
  shows "map frame_seq (filter P (sent E xs s)) =
    numbers_from (unat (get (counters s))) (length (filter P (sent E xs s)))"
  using assms(1,2)
proof (induction xs arbitrary: s)
  case (Cons x xs)
  define step where "step \<longleftrightarrow> (\<exists>fs t. sent E (x # xs) s = fs @ sent E xs t \<and> tx_ready t \<and>
    (fs = [] \<and> get (counters t) = get (counters s) \<or>
     (\<exists>f. fs = [f] \<and> frame_seq f = counter_of f (counters s) \<and> counters t = advance f (counters s) \<and>
        (has_qos f \<longrightarrow> unat (qos_tid f) < 4))))"
  have step
  proof (cases x)
    case (Data_Item m)
    obtain w c t where e: "encap E m s = (w, c, t)" by (cases "encap E m s") auto
    then show ?thesis
      using sta_encap [OF e Cons.prems(1)] Data_Item unfolding step_def
      by (intro exI [of _ "case w of None \<Rightarrow> [] | Some (f, _) \<Rightarrow> [f]"] exI [of _ t]) (auto split: option.splits)
  next
    case (Mgmt_Item r m type)
    obtain err t where e: "mgmt_output E r m type s = (err, t)" by (cases "mgmt_output E r m type s")
    have ty: "type AND 0xf = 0" using Cons.prems(2) Mgmt_Item by (simp add: item_ok_def)
    show ?thesis
      using sta_mgmt [OF Cons.prems(1) e ty] Mgmt_Item e unfolding step_def
      by (intro exI [of _ "if r = Bss then mgmt_frames s t else []"] exI [of _ t])
        (auto simp: counter_of_def split: if_splits)
  next
    case (Other_Item g)
    then have "tx_ready (g s)" "get (counters (g s)) = get (counters s)"
      using assms(3) [of g] Cons.prems by (auto simp: leaves_counter_def)
    then show ?thesis using Other_Item unfolding step_def by (intro exI [of _ "[]"] exI [of _ "g s"]) simp
  qed
  then obtain fs t where st: "sent E (x # xs) s = fs @ sent E xs t" "tx_ready t"
    "fs = [] \<and> get (counters t) = get (counters s) \<or>
     (\<exists>f. fs = [f] \<and> frame_seq f = counter_of f (counters s) \<and> counters t = advance f (counters s) \<and>
        (has_qos f \<longrightarrow> unat (qos_tid f) < 4))"
    unfolding step_def by blast
  have IH: "map frame_seq (filter P (sent E xs t)) =
      numbers_from (unat (get (counters t))) (length (filter P (sent E xs t)))"
    using Cons.IH [OF st(2)] Cons.prems(2) by simp
  from st(3) show ?case
  proof (elim disjE conjE exE)
    assume "fs = []" "get (counters t) = get (counters s)"
    then show ?thesis using IH st(1) by simp
  next
    fix f assume f: "fs = [f]" "frame_seq f = counter_of f (counters s)" "counters t = advance f (counters s)"
      "has_qos f \<longrightarrow> unat (qos_tid f) < 4"
    have len: "length (snd (counters s)) = 16" using Cons.prems(1) by (simp add: tx_ready_def counters_def)
    show ?thesis
    proof (cases "P f")
      case True
      have q: "counter_of f (counters s) = get (counters s)" "get (counters t) = next_seq (get (counters s))"
        using assms(4) [OF True, of "counters s"] f(3,4) len by force+
      have "unat (get (counters s)) < 4096" using assms(6) Cons.prems(1) by blast
      then show ?thesis using IH f(1,2) q sta_next by (simp add: st(1) True numbers_from_Suc)
    next
      case False
      then show ?thesis using IH f(1,3) assms(5) by (simp add: st(1))
    qed
  qed
qed (simp add: numbers_from_def)

text \<open>C38. The frames that a station sends to its access point, data and management frames in any order, are numbered
  consecutively modulo 4096: those without QoS, which data and management output share a counter for, by that
  counter, and those of each priority by its own, whatever data frames are dropped in between; a management
  frame that a full queue frees has used up its number.  The station starts with addresses of six bytes and
  counters below 4096, and other events may come in between that leave the two counters, the mode and the
  lengths of the addresses alone; the change to another network does not, and the counter of a priority is set when
  a Block Ack agreement of that priority is made.\<close>

theorem sequence_numbers_consecutive:
  assumes "tx_ready s" and "\<forall>x \<in> set xs. item_ok tid x" and "tid < 16"
  shows "map frame_seq (filter (\<lambda>f. \<not> has_qos f) (sent E xs s)) =
      numbers_from (unat (fst (counters s))) (length (filter (\<lambda>f. \<not> has_qos f) (sent E xs s))) \<and>
    map frame_seq (filter (\<lambda>f. has_qos f \<and> unat (qos_tid f) = tid) (sent E xs s)) =
      numbers_from (unat (snd (counters s) ! tid)) (length (filter (\<lambda>f. has_qos f \<and> unat (qos_tid f) = tid) (sent E xs s)))"
proof
  show "map frame_seq (filter (\<lambda>f. \<not> has_qos f) (sent E xs s)) =
      numbers_from (unat (fst (counters s))) (length (filter (\<lambda>f. \<not> has_qos f) (sent E xs s)))"
    by (rule class_numbers [OF assms(1,2)]) (simp_all add: counter_of_def advance_def item_ok_def, simp add: tx_ready_def counters_def)
  show "map frame_seq (filter (\<lambda>f. has_qos f \<and> unat (qos_tid f) = tid) (sent E xs s)) =
      numbers_from (unat (snd (counters s) ! tid)) (length (filter (\<lambda>f. has_qos f \<and> unat (qos_tid f) = tid) (sent E xs s)))"
    by (rule class_numbers [OF assms(1,2), where get = "\<lambda>c. snd c ! tid"])
      (use assms(3) in \<open>auto simp: counter_of_def advance_def tx_ready_def counters_def item_ok_def\<close>)
qed

section \<open>Power save\<close>

lemma enqueue_all:
  assumes "length (tx_pwrsaveq s) + length ms \<le> te_ifq_maxlen E"
  shows "tx_pwrsaveq (fold (enqueue_pwrsave E) ms s) = tx_pwrsaveq s @ ms"
  using assms
proof (induction ms arbitrary: s)
  case (Cons m ms)
  have "tx_pwrsaveq (enqueue_pwrsave E m s) = tx_pwrsaveq s @ [m]"
    using Cons.prems by (simp add: enqueue_pwrsave_def mq_enqueue_def tx_logs_def)
  then show ?case using Cons by simp
qed simp

lemma fold_keeps_m: "tx_m (fold (enqueue_pwrsave E) ms s) = tx_m s"
  by (induction ms arbitrary: s) (simp_all add: enqueue_pwrsave_def Let_def split: prod.split)

lemma dtim_frames_length [simp]: "length (dtim_frames ms) = length ms"
  by (induction ms rule: dtim_frames.induct) simp_all

lemma dtim_frames_nth:
  "i < length ms \<Longrightarrow> dtim_frames ms ! i =
     (if Suc i = length ms then ms ! i else (ms ! i)[1 := byte_at (ms ! i) 1 OR FC1_MORE_DATA])"
proof (induction ms arbitrary: i rule: dtim_frames.induct)
  case (3 m n ms)
  then show ?case by (cases i) auto
qed simp_all

text \<open>C39. After a DTIM, with room in the queue, the group addressed frames that the access point kept for its dozing
  stations are queued in order behind what is there, all but the last with the more-data bit; none is left
  and the map no longer announces them.\<close>

theorem group_frames_follow_dtim:
  assumes "length (tx_pwrsaveq s) + length (bn_savedq (m_bss (tx_m s))) \<le> te_ifq_maxlen E"
  shows "tx_pwrsaveq (notify_dtim E s) = tx_pwrsaveq s @ map (\<lambda>i. let m = bn_savedq (m_bss (tx_m s)) ! i in
      if Suc i = length (bn_savedq (m_bss (tx_m s))) then m else m[1 := byte_at m 1 OR FC1_MORE_DATA])
      [0..<length (bn_savedq (m_bss (tx_m s)))] \<and>
    bn_savedq (m_bss (tx_m (notify_dtim E s))) = [] \<and> \<not> tx_mcast (notify_dtim E s)"
proof -
  let ?ms = "bn_savedq (m_bss (tx_m s))"
  let ?s = "tx_on_m (upd_node Bss (\<lambda>n. n\<lparr>bn_savedq := []\<rparr>)) s"
  have q: "tx_pwrsaveq ?s = tx_pwrsaveq s" by (simp add: tx_on_m_def)
  have "dtim_frames ?ms = map (\<lambda>i. let m = ?ms ! i in
      if Suc i = length ?ms then m else m[1 := byte_at m 1 OR FC1_MORE_DATA]) [0..<length ?ms]"
    by (rule nth_equalityI) (simp_all add: dtim_frames_nth Let_def)
  then have "tx_pwrsaveq (fold (enqueue_pwrsave E) (dtim_frames ?ms) ?s) = tx_pwrsaveq s @ map (\<lambda>i. let m = ?ms ! i in
      if Suc i = length ?ms then m else m[1 := byte_at m 1 OR FC1_MORE_DATA]) [0..<length ?ms]"
    using enqueue_all [of ?s "dtim_frames ?ms" E] assms q by simp
  moreover have "tx_m (notify_dtim E s) = upd_node Bss (\<lambda>n. n\<lparr>bn_savedq := []\<rparr>) (tx_m s)"
    by (simp add: notify_dtim_def Let_def fold_keeps_m)
  ultimately show ?thesis by (simp add: notify_dtim_def Let_def upd_node_def)
qed

end
