(* ===== verification/ApProps.thy ===== *)
theory ApProps
  imports ApStations MlmeProps
begin

unbundle bit_operations_syntax

text \<open>
  The stations of an access point: association identifiers are unique, a station is associated with an RSN
  network only with parameters its policy allows, and management frame protection is never negotiated.
\<close>

section \<open>Association identifiers\<close>

named_theorems aid "operations that keep the association identifiers"

definition aids :: "bnode list \<Rightarrow> nat list" where
  "aids t = map (\<lambda>n. aid_bit (bn_associd n)) (filter (\<lambda>n. bn_associd n \<noteq> 0) t)"

definition aids_ok :: "nat \<Rightarrow> mlme \<Rightarrow> bool" where
  "aids_ok k m \<longleftrightarrow> cache_ok m \<and> distinct (aids (m_tree m)) \<and>
     (\<forall>i\<in>set (aids (m_tree m)). 0 < i \<and> i < k \<and> m_aid_bitmap m i)"

definition aid_view :: "mlme \<Rightarrow> (u8 list \<times> u16) list \<times> (nat \<Rightarrow> bool) \<times> int" where
  "aid_view m = (map (\<lambda>n. (bn_macaddr n, bn_associd n)) (m_tree m), m_aid_bitmap m, m_nnodes m)"

lemma aids_map: "aids t = map aid_bit (filter ((\<noteq>) 0) (map snd (map (\<lambda>n. (bn_macaddr n, bn_associd n)) t)))"
  by (induction t) (auto simp: aids_def)

lemma aid_viewD:
  assumes "aid_view t = aid_view s"
  shows "aids_ok k t = aids_ok k s"
proof -
  have eq: "map (\<lambda>n. (bn_macaddr n, bn_associd n)) (m_tree t) = map (\<lambda>n. (bn_macaddr n, bn_associd n)) (m_tree s)"
    using assms by (simp add: aid_view_def)
  then have "aids (m_tree t) = aids (m_tree s)" by (simp only: aids_map)
  moreover have "macs t = macs s"
    using arg_cong [OF eq, of "map fst"] by (simp add: macs_def comp_def)
  ultimately show ?thesis
    using assms cache_ok_cong [of t s] by (simp add: aids_ok_def aid_view_def)
qed

lemma aids_congI [aid]: "aids_ok k s \<Longrightarrow> aid_view t = aid_view s \<Longrightarrow> aids_ok k t"
  using aid_viewD by blast

lemma aid_view_fields [simp]:
  "aid_view (log_ev e s) = aid_view s" "aid_view (log_if b e s) = aid_view s"
  "aid_view (m_set_flags f s) = aid_view s" "aid_view (m_clear_flags f s) = aid_view s"
  "aid_view (upd_node Bss g s) = aid_view s" "aid_view (s\<lparr>m_mgt_timer := v\<rparr>) = aid_view s"
  "aid_view (s\<lparr>m_protmode := p\<rparr>) = aid_view s" "aid_view (s\<lparr>m_scangen := c\<rparr>) = aid_view s"
  by (simp_all add: aid_view_def log_ev_def log_if_def m_set_flags_def m_clear_flags_def upd_node_def)

lemma aid_view_upd:
  assumes "\<And>n. bn_macaddr n = a \<Longrightarrow> bn_macaddr (f n) = a \<and> bn_associd (f n) = bn_associd n"
  shows "aid_view (upd_node (Peer a) f s) = aid_view s"
  using assms by (auto simp: aid_view_def upd_node_def tree_update_def)

lemma aid_view_upd_node:
  "(\<And>n. bn_macaddr (f n) = bn_macaddr n) \<Longrightarrow> (\<And>n. bn_associd (f n) = bn_associd n) \<Longrightarrow>
   aid_view (upd_node r f s) = aid_view s"
  by (cases r) (auto intro: aid_view_upd)

lemma aids_upd [aid]:
  "aids_ok k s \<Longrightarrow> (\<And>n. bn_macaddr (f n) = bn_macaddr n) \<Longrightarrow> (\<And>n. bn_associd (f n) = bn_associd n) \<Longrightarrow>
   aids_ok k (upd_node r f s)"
  by (rule aids_congI [OF _ aid_view_upd_node])

lemma aids_logs [simp]:
  "aids_ok k (log_ev e s) = aids_ok k s" "aids_ok k (log_if b e s) = aids_ok k s"
  "aids_ok k (m_set_flags f s) = aids_ok k s" "aids_ok k (m_clear_flags f s) = aids_ok k s"
  "aids_ok k (s\<lparr>m_mgt_timer := v\<rparr>) = aids_ok k s" "aids_ok k (s\<lparr>m_protmode := p\<rparr>) = aids_ok k s"
  "aids_ok k (s\<lparr>m_scangen := c\<rparr>) = aids_ok k s"
  by (rule aid_viewD, simp)+

lemma cache_split:
  assumes "cache_ok s" "find_node s a = Some n"
  obtains xs ys where "m_tree s = xs @ n # ys" "tree_remove a (m_tree s) = xs @ ys" "bn_macaddr n = a"
    "\<And>x. x \<in> set (xs @ ys) \<Longrightarrow> bn_macaddr x \<noteq> a"
proof -
  have mac: "bn_macaddr n = a" by (rule find_node_mac [OF assms(2)])
  obtain xs ys where t: "m_tree s = xs @ n # ys" using find_node_in [OF assms(2)] by (meson split_list)
  have "distinct (map bn_macaddr (m_tree s))" using cache_distinct [OF assms(1)] by (simp add: macs_def)
  then have other: "\<And>x. x \<in> set (xs @ ys) \<Longrightarrow> bn_macaddr x \<noteq> a" using t mac by (auto simp: image_iff)
  then have "tree_remove a (m_tree s) = xs @ ys" using t mac by (auto simp: tree_remove_def)
  then show ?thesis using that t mac other by blast
qed

lemma aids_mem: "k \<in> set t \<Longrightarrow> bn_associd k \<noteq> 0 \<Longrightarrow> aid_bit (bn_associd k) \<in> set (aids t)"
  by (auto simp: aids_def)

lemma aids_append [simp]: "aids (xs @ ys) = aids xs @ aids ys"
  by (simp add: aids_def)

lemma aids_Cons [simp]: "aids (n # ns) = (if bn_associd n \<noteq> 0 then aid_bit (bn_associd n) # aids ns else aids ns)"
  by (simp add: aids_def)

lemma aids_free [aid]:
  assumes "aids_ok k s"
  shows "aids_ok k (free_node H a s)"
proof (cases "find_node s a")
  case None
  then show ?thesis using assms by (simp add: free_node_def)
next
  case (Some n)
  have cache: "cache_ok s" using assms by (simp add: aids_ok_def)
  obtain xs ys where t: "m_tree s = xs @ n # ys" "tree_remove a (m_tree s) = xs @ ys"
    using cache_split [OF cache Some] by metis
  have zero: "aid_bit 0 = 0" by (simp add: aid_bit_def)
  have "m_tree (free_node H a s) = xs @ ys"
    "m_aid_bitmap (free_node H a s) = (m_aid_bitmap s)(aid_bit (bn_associd n) := False)"
    using Some t by (simp_all add: free_node_def Let_def aid_bit_def log_ev_def log_if_def)
  moreover have "aid_bit (bn_associd n) \<notin> set (aids (xs @ ys))"
    using assms t(1) zero by (cases "bn_associd n = 0") (auto simp: aids_ok_def)
  ultimately show ?thesis
    using assms t(1) free_node_ok [OF cache, of H a]
    by (cases "bn_associd n = 0") (auto simp: aids_ok_def)
qed

lemma aids_fold [aid]: "(\<And>x t. aids_ok k t \<Longrightarrow> aids_ok k (f x t)) \<Longrightarrow> aids_ok k s \<Longrightarrow> aids_ok k (fold f xs s)"
  by (induction xs arbitrary: s) auto

lemma aids_insert: "bn_associd n = 0 \<Longrightarrow> aids (tree_insert n t) = aids t"
  by (induction t) auto

lemma aids_add:
  assumes "aids_ok k s" "find_node s (bn_macaddr n) = None" "length (bn_macaddr n) = 6" "bn_associd n = 0"
  shows "aids_ok k (add_node n s)"
proof -
  have "aids (m_tree (add_node n s)) = aids (m_tree s)"
    using assms(4) by (simp add: add_node_tree aids_insert fresh_node_def)
  then show ?thesis
    using assms add_node_ok by (simp add: aids_ok_def add_node_def setup_node_def)
qed

lemma aids_unref [aid]: "aids_ok k s \<Longrightarrow> aids_ok k (unref_failed H r s)"
  by (auto simp: unref_failed_def Let_def split: node_ref.splits intro!: aids_free aids_upd)

lemma aids_send [aid]: "aids_ok k s \<Longrightarrow> aids_ok k (snd (send_mgmt H r type arg s))"
  by (auto simp: send_mgmt_def Let_def split: send_outcome.splits intro!: aids_unref aids_upd)

lemma aids_leave_cache [aid]: "aids_ok k s \<Longrightarrow> aids_ok k (node_leave_cache a s)"
  by (auto simp: node_leave_cache_def intro!: aids_upd)

lemma aids_evict [aid]: "aids_ok k s \<Longrightarrow> aids_ok k (evict_node H n s)"
  by (auto simp: evict_node_def Let_def intro!: aids_free aids_leave_cache aids_send)

lemma aids_clean_loop: "aids_ok k s \<Longrightarrow> aids_ok k (fst (clean_nodes_loop H ct gen ns s x y))"
proof (induction ns arbitrary: s x y)
  case (Cons n ns)
  have "aids_ok k (upd_node (Peer (bn_macaddr n)) (\<lambda>n. n\<lparr>bn_scangen := gen\<rparr>) s)"
    by (rule aids_upd [OF Cons.prems]) simp_all
  then show ?case
    using Cons aids_evict [of k _ H n] by (auto simp: Let_def split: prod.splits)
qed simp

lemma aids_clean [aid]: "aids_ok k s \<Longrightarrow> aids_ok k (clean_nodes H ct s)"
proof -
  assume ok: "aids_ok k s"
  obtain t x y where t: "clean_nodes_loop H ct (m_scangen s) (m_tree s) (s\<lparr>m_scangen := m_scangen s + 1\<rparr>) 0 0 = (t, x, y)"
    using prod_cases3 by blast
  then have "aids_ok k t"
    using aids_clean_loop [of k "s\<lparr>m_scangen := m_scangen s + 1\<rparr>" H ct "m_scangen s" "m_tree s" 0 0] ok by simp
  then show ?thesis
    using t by (auto simp: clean_nodes_def update_htprot_def Let_def upd_ht_def intro!: aids_upd)
qed

lemma aids_helper [aid]: "aids_ok k s \<Longrightarrow> aids_ok k (snd (alloc_node_helper H s))"
  by (auto simp: alloc_node_helper_def Let_def intro: aids_clean)

lemma bytes6: "length (bytes_at p i 6) = 6"
  by (simp add: bytes_at_def)

lemma helper_find_None:
  assumes "find_node s a = None"
  shows "find_node (snd (alloc_node_helper H s)) a = None"
  using assms helper_shrinks [of s H] by (auto simp: shrinks_def find_node_None)

lemma aids_new_node:
  assumes "aids_ok k s" "find_node s a = None" "length a = 6" "alloc_node_helper H s = (ok, t)" "bn_associd n = 0"
  shows "aids_ok k (if ok then setup_node n a t else log_ev e t)"
proof -
  have t: "t = snd (alloc_node_helper H s)" using assms(4) by simp
  have "aids_ok k t" "find_node t a = None"
    unfolding t by (rule aids_helper [OF assms(1)], rule helper_find_None [OF assms(2)])
  then show ?thesis
    using aids_add [of k t "n\<lparr>bn_macaddr := a\<rparr>"] assms(3,5) by (simp add: setup_node_add)
qed

lemma aids_alloc [aid]: "aids_ok k s \<Longrightarrow> find_node s a = None \<Longrightarrow> length a = 6 \<Longrightarrow> aids_ok k (snd (alloc_node H a s))"
  unfolding alloc_node_def
  by (cases "alloc_node_helper H s") (simp add: aids_new_node zero_node_def)

lemma aids_dup [aid]: "aids_ok k s \<Longrightarrow> find_node s a = None \<Longrightarrow> length a = 6 \<Longrightarrow> aids_ok k (snd (dup_bss H a s))"
  unfolding dup_bss_def
  by (cases "alloc_node_helper H s") (simp add: aids_new_node zero_node_def)

lemma aids_inact [aid]: "aids_ok k s \<Longrightarrow> aids_ok k (inact_timeout s)"
  by (erule aids_congI) (simp add: aid_view_def inact_timeout_def comp_def if_distrib cong: if_cong)

lemma aids_cache_timeout [aid]: "aids_ok k s \<Longrightarrow> aids_ok k (node_cache_timeout H s)"
proof -
  assume "aids_ok k s"
  then have "aids_ok k (clean_nodes H True s)" by (rule aids_clean)
  then show ?thesis by (rule aids_congI) (simp add: node_cache_timeout_def aid_view_def Let_def)
qed

lemma aids_release [aid]:
  assumes "aids_ok k s" "release_node H r s = Done t"
  shows "aids_ok k t"
proof -
  have "aids_ok k (upd_node r (\<lambda>n. n\<lparr>bn_refcnt := bn_refcnt n - 1\<rparr>) s)" by (rule aids_upd [OF assms(1)]) simp_all
  then show ?thesis
    using assms(2) by (auto simp: release_node_def Let_def split: if_splits node_ref.splits intro: aids_free)
qed

lemma aids_auth_station:
  assumes "aids_ok k s" "auth_station H m r rxi s = (q, t)"
  shows "aids_ok k t"
proof (cases "r \<noteq> Bss")
  case True
  then show ?thesis using assms by (simp add: auth_station_def)
next
  case False
  let ?a = "frame_addr2 m"
  obtain ok u where u: "(if find_node s ?a \<noteq> None then (True, s) else alloc_node H ?a s) = (ok, u)" by (meson surj_pair)
  have "aids_ok k (snd (alloc_node H ?a s))" if "find_node s ?a = None"
    using aids_alloc [OF assms(1) that] by (simp add: frame_addr2_def bytes6)
  then have "aids_ok k u" using u assms(1) by (auto split: if_splits)
  then show ?thesis
    using assms(2) u False by (auto simp: auth_station_def Let_def split: if_splits intro!: aids_upd)
qed

lemma aids_confirm [aid]: "aids_ok k s \<Longrightarrow> aids_ok k (auth_open_confirm H r seq s)"
  by (auto simp: auth_open_confirm_def intro!: aids_upd aids_send)

lemma aids_auth [aid]:
  assumes "aids_ok k s" "m_opmode s = M_HOSTAP" "recv_auth H m r rxi s = Done t"
  shows "aids_ok k t"
proof -
  let ?s = "s\<lparr>m_deauth_reason := REASON_UNSPECIFIED, m_assoc_status := 0xffff\<rparr>"
  have s: "aids_ok k ?s" by (rule aids_congI [OF assms(1)]) (simp add: aid_view_def)
  have "aids_ok k (auth_open_hostap H m r rxi seq ?s)" for seq
    using aids_auth_station [OF s, of H m r rxi]
    by (auto simp: auth_open_hostap_def Let_def split: prod.split option.split intro!: aids_confirm)
  then show ?thesis
    using assms s by (auto simp: recv_auth_def auth_open_def Let_def split: if_splits intro!: aids_send)
qed

section \<open>The operations of the access point\<close>

lemma as_m_simps [simp]:
  "as_m (on_m f s) = f (as_m s)" "as_m (ap_log e s) = as_m s" "as_m (ap_log_if b e s) = as_m s"
  "as_m (s\<lparr>as_sa_count := c\<rparr>) = as_m s" "as_m (s\<lparr>as_supported := u\<rparr>) = as_m s" "as_m (s\<lparr>as_pae := p\<rparr>) = as_m s"
  "as_m (on_node r g s) = upd_node r g (as_m s)" "as_m (apsta_event_publish r ev s) = as_m s"
  "as_m (s\<lparr>as_pae := p, as_ic := ic, as_log := l\<rparr>) = as_m s"
  by (simp_all add: as_m_def on_m_def on_node_def upd_m_def ap_log_def ap_log_if_def apsta_event_publish_def)

lemma as_m_rx: "rs_m (f (as_rx s)) = rs_m (as_rx s) \<Longrightarrow> as_m (on_rx f s) = as_m s"
  by (simp add: as_m_def on_rx_def)

lemma as_m_rxn [simp]: "as_m (on_rx (upd_rxn r f) s) = as_m s"
  by (rule as_m_rx) (simp add: upd_rxn_def)

lemma max_aid_simps [simp]:
  "as_max_aid (on_m f s) = as_max_aid s" "as_max_aid (ap_log e s) = as_max_aid s"
  "as_max_aid (ap_log_if b e s) = as_max_aid s" "as_max_aid (on_node r g s) = as_max_aid s"
  "as_max_aid (on_rx h s) = as_max_aid s" "as_max_aid (apsta_event_publish r ev s) = as_max_aid s"
  by (simp_all add: on_m_def on_node_def ap_log_def ap_log_if_def on_rx_def apsta_event_publish_def)

lemma aids_pae_back [aid]: "aids_ok k (as_m s) \<Longrightarrow> aids_ok k (as_m (pae_back r p s))"
proof -
  assume ok: "aids_ok k (as_m s)"
  have "aids_ok k (pae_com_out (p_ic p) (as_m s))"
    by (rule aids_congI [OF ok]) (simp add: aid_view_def pae_com_out_def)
  then show ?thesis
    by (auto simp: pae_back_def Let_def pae_out_def intro!: aids_upd)
qed

lemma max_aid_pae_back [simp]: "as_max_aid (pae_back r p s) = as_max_aid s"
  by (simp add: pae_back_def Let_def on_m_def)

lemma aids_slot [simp]: "aids_ok k (set_shortslottime H b s) = aids_ok k s"
  by (simp add: set_shortslottime_def)

lemma aids_leave_11g [aid]: "aids_ok k m \<Longrightarrow> aids_ok k (node_leave_11g H r m)"
  by (simp add: node_leave_11g_def Let_def)

lemma aids_clear_caps [aid]: "aids_ok k m \<Longrightarrow> aids_ok k (upd_node r clear_htcaps m)"
  "aids_ok k m \<Longrightarrow> aids_ok k (upd_node r clear_vhtcaps m)"
  by (auto simp: clear_htcaps_def clear_vhtcaps_def upd_ht_def intro!: aids_upd)

lemma aids_leave_station [aid]:
  assumes "aids_ok k (as_m s)"
  shows "aids_ok k (as_m (leave_station H r s))"
proof -
  have purge: "aids_ok k (upd_node r (\<lambda>n. n\<lparr>bn_savedq := []\<rparr>) (as_m s))"
    by (rule aids_upd [OF assms]) simp_all
  show ?thesis
    using purge
    by (auto simp: leave_station_def Let_def set_node_state_def stop_sa_query_def with_pae_def node_leave_ht_def
        intro!: aids_upd aids_leave_11g aids_clear_caps aids_pae_back)
qed

lemma aids_ap_leave [aid]:
  "aids_ok k (as_m s) \<Longrightarrow> ap_node_leave H r s = Some s' \<Longrightarrow> aids_ok k (as_m s')"
  by (auto simp: ap_node_leave_def Let_def set_node_state_def split: if_splits intro!: aids_upd aids_leave_station)

lemma aids_join_11g [aid]: "aids_ok k m \<Longrightarrow> aids_ok k (node_join_11g H r m)"
  by (auto simp: node_join_11g_def Let_def node_set_flags_def intro!: aids_upd)

lemma aids_join_ht [aid]: "aids_ok k m \<Longrightarrow> aids_ok k (node_join_ht H r m)"
  by (auto simp: node_join_ht_def upd_ht_def intro!: aids_upd)

lemma negotiate_keeps:
  assumes "ht_negotiate (m, n) = (m', n')"
  shows "aid_view m' = aid_view m \<and> bn_macaddr n' = bn_macaddr n \<and> bn_associd n' = bn_associd n"
  using assms
  by (auto simp: ht_negotiate_def ht_negotiate_chw_def node_set_chw_def node_clear_flags_def node_set_flags_def
      node_set_flags_if_def set_center1_def aid_view_def log_ev_def upd_ht_def Let_def
      split: if_splits option.splits prod.splits)

text \<open>A node written back under its own pointer.\<close>

lemma aids_write_back [aid]:
  assumes "aids_ok k m" "bn_macaddr n' = bn_macaddr (the_node m r)" "bn_associd n' = bn_associd (the_node m r)"
    "aid_view m' = aid_view m"
  shows "aids_ok k (upd_node r (\<lambda>_. n') m')"
proof -
  have ok: "aids_ok k m'" by (rule aids_congI [OF assms(1,4)])
  show ?thesis
  proof (cases r)
    case Bss
    then show ?thesis by (rule_tac aids_congI [OF ok]) simp
  next
    case (Peer a)
    have cache: "cache_ok m" using assms(1) by (simp add: aids_ok_def)
    have eq: "map (\<lambda>n. (bn_macaddr n, bn_associd n)) (m_tree m') = map (\<lambda>n. (bn_macaddr n, bn_associd n)) (m_tree m)"
      using assms(4) by (simp add: aid_view_def)
    show ?thesis
    proof (cases "find_node m a")
      case None
      then have "a \<notin> set (macs m')"
        using arg_cong [OF eq, of "map fst"] by (simp add: find_node_None macs_def comp_def)
      then have "map (\<lambda>n. if bn_macaddr n = a then n' else n) (m_tree m') = m_tree m'"
        by (intro map_idI) (auto simp: macs_def)
      then have "upd_node r (\<lambda>_. n') m' = m'"
        using Peer by (simp add: upd_node_def tree_update_def)
      then show ?thesis using ok by simp
    next
      case (Some n)
      have n: "the_node m r = n" "bn_macaddr n = a"
        using Some Peer find_node_mac [OF Some] by (simp_all add: the_node_def node_at_def)
      have "bn_associd x = bn_associd n" if "x \<in> set (m_tree m')" "bn_macaddr x = a" for x
      proof -
        have "(a, bn_associd x) \<in> set (map (\<lambda>n. (bn_macaddr n, bn_associd n)) (m_tree m))"
          unfolding eq [symmetric] using that by force
        then obtain y where "y \<in> set (m_tree m)" "bn_macaddr y = a" "bn_associd y = bn_associd x" by auto
        then show ?thesis using find_node_Some [OF cache, of y] Some by simp
      qed
      then have "aid_view (upd_node (Peer a) (\<lambda>_. n') m') = aid_view m'"
        using assms(2,3) n by (auto simp: aid_view_def upd_node_def tree_update_def)
      then show ?thesis using Peer by (simp add: aids_congI [OF ok])
    qed
  qed
qed

lemma aids_negotiate [aid]: "aids_ok k m \<Longrightarrow> aids_ok k (negotiate_ht r m)"
proof -
  assume ok: "aids_ok k m"
  obtain m' n' where eq: "ht_negotiate (m, the_node m r) = (m', n')" by fastforce
  show ?thesis
    using aids_write_back [OF ok, of n' r m'] negotiate_keeps [OF eq] by (simp add: negotiate_ht_def eq)
qed

lemma aid_bit_of_nat:
  assumes "aid < 0x4000"
  shows "aid_bit (of_nat aid OR 0xc000) = aid" "aid_bit (of_nat aid) = aid" "of_nat aid OR 0xc000 \<noteq> (0 :: u16)"
proof -
  have take: "of_nat aid AND NOT 0xc000 = (of_nat aid :: u16)"
  proof (rule bit_word_eqI)
    fix i :: nat assume i: "i < LENGTH(16)"
    have small: "\<not> bit aid i" if "14 \<le> i"
      using assms that power_increasing [of 14 i "2 :: nat"] by (simp add: bit_iff_odd)
    have c: "bit (0xc000 :: u16) i \<longleftrightarrow> i = 14 \<or> i = 15"
      using i by (cases "i < 14") (auto simp: less_Suc_eq eval_nat_numeral)
    show "bit (of_nat aid AND NOT 0xc000 :: u16) i = bit (of_nat aid :: u16) i"
      using i small c by (auto simp: bit_simps)
  qed
  have strip: "(of_nat aid OR 0xc000) AND NOT 0xc000 = (of_nat aid AND NOT 0xc000 :: u16)"
    by (rule bit_word_eqI) (auto simp: bit_simps)
  have val: "unat (of_nat aid :: u16) = aid" using assms by (simp add: unat_of_nat take_bit_nat_eq_self)
  show "aid_bit (of_nat aid OR 0xc000) = aid" "aid_bit (of_nat aid) = aid"
    using take strip val by (simp_all add: aid_bit_def)
  have "bit (of_nat aid OR 0xc000 :: u16) 15" by (simp add: bit_simps)
  then show "of_nat aid OR 0xc000 \<noteq> (0 :: u16)" by (metis bit_0_eq bot_apply bot_bool_def)
qed

lemma update_split:
  assumes "cache_ok m" "find_node m a = Some n"
  obtains xs ys where "m_tree m = xs @ n # ys" "tree_update a f (m_tree m) = xs @ f n # ys"
proof -
  obtain xs ys where t: "m_tree m = xs @ n # ys" "bn_macaddr n = a" "\<And>x. x \<in> set (xs @ ys) \<Longrightarrow> bn_macaddr x \<noteq> a"
    using cache_split [OF assms] by metis
  then have "tree_update a f (m_tree m) = xs @ f n # ys"
    by (auto simp: tree_update_def intro!: map_idI)
  then show ?thesis using that t(1) by blast
qed

lemma aids_assign [aid]:
  assumes "aids_ok k m" "0 < aid" "aid < k" "k \<le> 0x4000" "\<not> m_aid_bitmap m aid" "bn_associd (the_node m r) = 0"
  shows "aids_ok k (assign_aid aid r m)"
proof -
  let ?x = "of_nat aid OR 0xc000 :: u16"
  have x: "aid_bit ?x = aid" "?x \<noteq> 0" using aid_bit_of_nat assms(3,4) by simp_all
  let ?f = "\<lambda>n. n\<lparr>bn_associd := ?x\<rparr>"
  have cache: "cache_ok m" using assms(1) by (simp add: aids_ok_def)
  have "cache_view (assign_aid aid r m) = cache_view (upd_node r ?f m)"
    by (simp add: assign_aid_def cache_view_def macs_def Let_def)
  also have "\<dots> = cache_view m" by (rule view_upd_node) simp
  finally have cache': "cache_ok (assign_aid aid r m)" using cache cache_viewD by blast
  have bitmap: "m_aid_bitmap (assign_aid aid r m) = (m_aid_bitmap m)(aid := True)"
    by (cases r) (simp_all add: assign_aid_def x upd_node_def)
  have "aids (m_tree (assign_aid aid r m)) = aids (m_tree m) \<or>
      (\<exists>xs ys. aids (m_tree m) = xs @ ys \<and> aids (m_tree (assign_aid aid r m)) = xs @ aid # ys)"
  proof (cases r)
    case Bss
    then show ?thesis by (simp add: assign_aid_def upd_node_def Let_def)
  next
    case (Peer a)
    have tree: "m_tree (assign_aid aid r m) = tree_update a ?f (m_tree m)"
      using Peer by (simp add: assign_aid_def upd_node_def Let_def)
    show ?thesis
    proof (cases "find_node m a")
      case None
      then have "tree_update a ?f (m_tree m) = m_tree m"
        unfolding tree_update_def by (intro map_idI) (auto simp: find_node_None macs_def)
      then show ?thesis using tree by simp
    next
      case (Some n)
      have zero: "bn_associd n = 0" using assms(6) Peer Some by (simp add: the_node_def node_at_def)
      obtain xs ys where "m_tree m = xs @ n # ys" "tree_update a ?f (m_tree m) = xs @ ?f n # ys"
        by (rule update_split [OF cache Some])
      then show ?thesis using tree x zero by auto
    qed
  qed
  then show ?thesis
    using assms(1-3,5) cache' bitmap by (auto simp: aids_ok_def)
qed

lemma free_aidD:
  assumes "free_aid s = Some aid" "unat (as_max_aid s) \<le> 0x4000"
  shows "0 < aid" "aid < unat (as_max_aid s)" "\<not> m_aid_bitmap (as_m s) aid"
proof -
  have "aid \<in> set [1..<unat (as_max_aid s)]" "\<not> m_aid_bitmap (as_m s) (aid_bit (of_nat aid))"
    using assms(1) by (auto simp: free_aid_def find_Some_iff simp del: upt_Suc) 
  then show "0 < aid" "aid < unat (as_max_aid s)" "\<not> m_aid_bitmap (as_m s) aid"
    using aid_bit_of_nat(2) [of aid] assms(2) by auto
qed

lemma aids_ap_send [aid]: "aids_ok k (as_m s) \<Longrightarrow> aids_ok k (as_m (ap_send H r type arg s))"
  by (simp add: ap_send_def aids_send)

lemma aids_join_rsn [aid]: "aids_ok k (as_m s) \<Longrightarrow> node_join_rsn H r s = Some s' \<Longrightarrow> aids_ok k (as_m s')"
  by (auto simp: node_join_rsn_def intro: aids_pae_back)

lemma aids_finish_join [aid]:
  assumes "aids_ok k (as_m s)" "finish_join H r resp newassoc s = Some s'"
  shows "aids_ok k (as_m s')"
proof -
  let ?s1 = "on_m (negotiate_ht r) s"
  let ?s2 = "if m_flag (as_m ?s1) F_HTON then on_m (node_join_ht (ah_m H) r) ?s1 else ?s1"
  let ?s3 = "set_node_state r STA_ASSOC (ap_send H r resp 0 (ap_log_if (ah_newassoc H) (Ap_New_Assoc r newassoc) ?s2))"
  have s1: "aids_ok k (as_m ?s1)" using aids_negotiate [OF assms(1)] by simp
  then have "aids_ok k (as_m ?s2)" by (simp add: aids_join_ht)
  then have s3: "aids_ok k (as_m ?s3)" by (auto simp: set_node_state_def intro!: aids_upd aids_ap_send)
  then have s4: "aids_ok k (as_m (on_node r (\<lambda>n. n\<lparr>bn_rsncipher := CIPHER_USEGROUP, bn_port_valid := True\<rparr>) ?s3))"
    by (auto intro!: aids_upd)
  show ?thesis
    using assms(2) aids_join_rsn [OF s3] s4
    by (auto simp: finish_join_def Let_def split: if_splits)
qed

lemma aids_join [aid]:
  assumes "aids_ok (unat (as_max_aid s)) (as_m s)" "unat (as_max_aid s) \<le> 0x4000" "node_join H r resp s = Some s'"
  shows "aids_ok (unat (as_max_aid s)) (as_m s')"
proof (cases "bn_associd (ap_node s r) = 0")
  case False
  then show ?thesis using assms(3) aids_finish_join [OF assms(1)] by (simp add: node_join_def Let_def)
next
  case True
  show ?thesis
  proof (cases "free_aid s")
    case None
    then show ?thesis
      using assms(1,3) True by (auto simp: node_join_def Let_def intro: aids_ap_leave [OF aids_ap_send])
  next
    case (Some aid)
    have "aids_ok (unat (as_max_aid s)) (as_m (on_m (assign_aid aid r) s))"
      using aids_assign [OF assms(1) free_aidD(1,2) [OF Some assms(2)] assms(2) free_aidD(3) [OF Some assms(2)]] True
      by (simp add: ap_node_def)
    then show ?thesis
      using assms(3) True Some
      by (auto simp: node_join_def Let_def split: if_splits elim!: aids_finish_join [rotated] intro!: aids_join_11g)
  qed
qed

lemma aids_sa_query [aid]: "aids_ok k (as_m s) \<Longrightarrow> aids_ok k (as_m (sa_query_request r s))"
  by (auto simp: sa_query_request_def Let_def intro!: aids_upd)

lemma aids_sa_timeout [aid]: "aids_ok k (as_m s) \<Longrightarrow> aids_ok k (as_m (sa_query_timeout r s))"
  by (auto simp: sa_query_timeout_def Let_def intro!: aids_upd aids_sa_query)

lemma log_times_as_m [simp]: "as_m (ap_log_times j e s) = as_m s" "as_max_aid (ap_log_times j e s) = as_max_aid s"
  unfolding ap_log_times_def by (induction j) simp_all

lemma aids_save_ies [aid]: "aids_ok k (as_m s) \<Longrightarrow> aids_ok k (as_m (save_request_ies H r frm s))"
  by (auto simp: save_request_ies_def intro!: aids_upd)

lemma aids_refuse [aid]:
  assumes "aids_ok k (as_m s)"
  shows "aids_ok k (as_m (refuse_unauth H m s))"
proof -
  let ?a = "frame_addr2 m"
  obtain ok t where t: "(if find_node (as_m s) ?a \<noteq> None then (True, as_m s) else dup_bss (ah_m H) ?a (as_m s)) = (ok, t)"
    by (meson surj_pair)
  have "aids_ok k (snd (dup_bss (ah_m H) ?a (as_m s)))" if "find_node (as_m s) ?a = None"
    using aids_dup [OF assms that] by (simp add: frame_addr2_def bytes6)
  then have "aids_ok k t" using t assms by (auto split: if_splits)
  then show ?thesis
    unfolding refuse_unauth_def Let_def t by (auto intro!: aids_ap_send)
qed

lemma aids_protected [aid]:
  assumes "aids_ok k (as_m s)" "protected_assoc H r resp s = Some s'"
  shows "aids_ok k (as_m s')"
  using assms aids_ap_leave [OF aids_ap_send [OF assms(1)]]
  by (auto simp: protected_assoc_def Let_def split: if_splits intro!: aids_sa_query aids_ap_send)

lemma aids_no_protos [aid]: "aids_ok k (as_m s) \<Longrightarrow> aids_ok k (as_m (no_rsnprotos r s))"
  by (auto simp: no_rsnprotos_def intro!: aids_upd)

lemma aids_cached_pmk [aid]: "aids_ok k (as_m s) \<Longrightarrow> aids_ok k (as_m (use_cached_pmk r rsn s))"
  by (auto simp: use_cached_pmk_def Let_def split: option.split intro!: aids_upd)

lemma aids_accept_rsn [aid]: "aids_ok k (as_m s) \<Longrightarrow> aids_ok k (as_m (snd (accept_rsn H r rsn ie s)))"
  by (auto simp: accept_rsn_def Let_def split: option.split prod.split
      intro!: aids_no_protos aids_cached_pmk aids_upd)

lemma aids_security [aid]:
  assumes "aids_ok k (as_m s)"
  shows "aids_ok k (as_m (snd (assoc_security H r q s)))"
proof -
  have clear: "aids_ok k (as_m (clear_security r s))"
    using assms by (auto simp: clear_security_def intro!: aids_upd)
  have qos: "aids_ok k (as_m (req_qos r b t))" if "aids_ok k (as_m t)" for b t
    using that by (auto simp: req_qos_def node_set_flags_def node_clear_flags_def intro!: aids_upd)
  show ?thesis
    using clear
    by (auto simp: assoc_security_def Let_def split: option.split prod.split
        intro!: aids_accept_rsn qos aids_upd)
qed

lemma ht_caps_keep:
  "bn_macaddr (setup_htcaps m p len n) = bn_macaddr n" "bn_associd (setup_htcaps m p len n) = bn_associd n"
  "bn_macaddr (clear_htcaps n) = bn_macaddr n" "bn_associd (clear_htcaps n) = bn_associd n"
  by (simp_all add: setup_htcaps_def clear_htcaps_def upd_ht_def Let_def)

lemma aids_params [aid]: "aids_ok k (as_m s) \<Longrightarrow> aids_ok k (as_m (assoc_params r rxi c b q s))"
  by (auto simp: assoc_params_def Let_def ap_node_def ht_caps_keep split: option.split
      intro!: aids_write_back [of k "as_m s" _ r])

lemma aids_check [aid]:
  assumes "aids_ok k (as_m s)"
  shows "aids_ok k (as_m (snd (assoc_check H r rxi c b q rates s)))"
proof -
  have rates: "aids_ok k (as_m (on_m (log_if cut e) (on_node r (\<lambda>n. n\<lparr>bn_rates := rs\<rparr>) s)))" for cut e rs
    using assms by (auto intro!: aids_upd)
  have sec: "aids_ok k (as_m t)" if "assoc_security H r q u = (st, t)" "aids_ok k (as_m u)" for st t u
    using aids_security [OF that(2), of H r q] that(1) by simp
  show ?thesis
    using assms rates
    by (auto simp: assoc_check_def Let_def split: prod.split dest!: sec intro!: aids_params)
qed

text \<open>The largest identifier does not change.\<close>

lemma max_aid_more [simp]:
  "as_max_aid (s\<lparr>as_sa_count := c\<rparr>) = as_max_aid s" "as_max_aid (s\<lparr>as_supported := u\<rparr>) = as_max_aid s"
  "as_max_aid (s\<lparr>as_pae := p\<rparr>) = as_max_aid s" "as_max_aid (ap_send H r type arg s) = as_max_aid s"
  "as_max_aid (set_node_state r st s) = as_max_aid s" "as_max_aid (leave_station G r s) = as_max_aid s"
  "as_max_aid (save_request_ies H r frm s) = as_max_aid s" "as_max_aid (no_rsnprotos r s) = as_max_aid s"
  "as_max_aid (use_cached_pmk r rsn s) = as_max_aid s" "as_max_aid (clear_security r s) = as_max_aid s"
  "as_max_aid (req_qos r w s) = as_max_aid s" "as_max_aid (assoc_params r rxi x b q s) = as_max_aid s"
  "as_max_aid (sa_query_request r s) = as_max_aid s" "as_max_aid (refuse_unauth H m s) = as_max_aid s"
  by (simp_all add: ap_send_def set_node_state_def leave_station_def Let_def stop_sa_query_def with_pae_def
      node_leave_ht_def save_request_ies_def no_rsnprotos_def use_cached_pmk_def clear_security_def req_qos_def
      assoc_params_def sa_query_request_def refuse_unauth_def split: option.split prod.split)

lemma max_aid_ops:
  "ap_node_leave H r s = Some s' \<Longrightarrow> as_max_aid s' = as_max_aid s"
  "finish_join H r resp b s = Some s' \<Longrightarrow> as_max_aid s' = as_max_aid s"
  by (auto simp: ap_node_leave_def finish_join_def node_join_rsn_def Let_def split: if_splits)

lemma max_aid_join: "node_join H r resp s = Some s' \<Longrightarrow> as_max_aid s' = as_max_aid s"
  by (auto simp: node_join_def Let_def split: if_splits option.splits dest!: max_aid_ops)

lemma max_aid_check: "as_max_aid (snd (assoc_check H r rxi c b q rates s)) = as_max_aid s"
  by (auto simp: assoc_check_def assoc_security_def accept_rsn_def Let_def split: prod.split option.split)

lemma aids_assoc_req:
  assumes "aids_ok (unat (as_max_aid s)) (as_m s)" "unat (as_max_aid s) \<le> 0x4000"
    "recv_assoc_req H m r rxi reassoc s = Some s'"
  shows "aids_ok (unat (as_max_aid s)) (as_m s') \<and> as_max_aid s' = as_max_aid s"
proof -
  let ?k = "unat (as_max_aid s)"
  let ?frm = "frame_body m"
  let ?ies = "drop (if reassoc then 10 else 4) ?frm"
  let ?q = "req_ies_of ?ies"
  let ?resp = "if reassoc then ST_REASSOC_RESP else ST_ASSOC_RESP"
  let ?t = "ap_log_times (qi_small ?q) (Ap_Stat As_Elem_Toosmall) (save_request_ies H r ?ies s)"
  have t: "aids_ok ?k (as_m ?t)" "as_max_aid ?t = as_max_aid s" using aids_save_ies [OF assms(1)] by simp_all
  have prot: "aids_ok ?k (as_m s') \<and> as_max_aid s' = as_max_aid s" if "protected_assoc H r ?resp ?t = Some s'"
    using aids_protected [OF t(1) that] that
    by (auto simp: protected_assoc_def Let_def split: if_splits dest!: max_aid_ops)
  have check: "aids_ok ?k (as_m s') \<and> as_max_aid s' = as_max_aid s"
    if "assoc_check H r rxi (LE_READ_2 ?frm) (LE_READ_2 (drop 2 ?frm)) ?q rates ?t = (st, u)"
      "(if st \<noteq> 0 then ap_node_leave H r (ap_send H r ?resp (ucast st) u) else node_join H r ?resp u) = Some s'"
    for rates st u
  proof -
    have u: "aids_ok ?k (as_m u)" "as_max_aid u = as_max_aid s"
      using aids_check [OF t(1), of H r rxi] max_aid_check [of H r rxi _ _ ?q rates ?t] that(1) t(2)
      by (metis snd_conv)+
    show ?thesis
    proof (cases "st = 0")
      case True
      then show ?thesis using aids_join [of u H r ?resp s'] max_aid_join [of H r ?resp u s'] u that(2) assms(2) by simp
    next
      case False
      then show ?thesis
        using aids_ap_leave [OF aids_ap_send [OF u(1)]] max_aid_ops(1) that(2) u(2) by fastforce
    qed
  qed
  show ?thesis
    using assms(1,3) t aids_refuse [OF t(1), of H m] prot check
    unfolding recv_assoc_req_def Let_def
    by (auto split: if_splits option.splits prod.splits)
qed

section \<open>Sequences of events\<close>

text \<open>What an access point does with a station: association and authentication requests, a station that
  leaves, the release of a frame's reference, and its timers.\<close>

inductive ap_step :: "ap_hooks \<Rightarrow> aps \<Rightarrow> aps \<Rightarrow> bool" for H where
  assoc: "recv_assoc_req H m r rxi reassoc s = Some s' \<Longrightarrow> ap_step H s s'"
| leave: "ap_node_leave H r s = Some s' \<Longrightarrow> ap_step H s s'"
| auth: "recv_auth (ah_m H) m r rxi (as_m s) = Done t \<Longrightarrow> ap_step H s (on_m (\<lambda>_. t) s)"
| release: "release_node (ah_m H) r (as_m s) = Done t \<Longrightarrow> ap_step H s (on_m (\<lambda>_. t) s)"
| sa_query: "ap_step H s (sa_query_timeout r s)"
| inactivity: "ap_step H s (on_m inact_timeout s)"
| cache: "ap_step H s (on_m (node_cache_timeout (ah_m H)) s)"

inductive ap_reach :: "ap_hooks \<Rightarrow> aps \<Rightarrow> aps \<Rightarrow> bool" for H s0 where
  start: "ap_reach H s0 s0"
| step: "ap_reach H s0 s \<Longrightarrow> ap_step H s s' \<Longrightarrow> ap_reach H s0 s'"

text \<open>None of the events changes the operating mode.\<close>

lemma core_ap [simp]:
  "core (pae_com_out c m) = core m" "core (set_shortslottime H b m) = core m" "core (node_leave_11g H r m) = core m"
  "core (node_join_ht H r m) = core m" "core (node_join_11g H r m) = core m" "core (assign_aid aid r m) = core m"
  "core (negotiate_ht r m) = core m" "core (as_m (pae_back r p s)) = core (as_m s)"
proof -
  show pc: "core (pae_com_out c m) = core m" for c m by (simp add: pae_com_out_def core_def)
  show "core (assign_aid aid r m) = core m"
    using core_upd_node [of r _ m] by (simp add: assign_aid_def Let_def core_def)
  show "core (negotiate_ht r m) = core m"
    using core_ht [of "(m, the_node m r)"]
    by (cases "ht_negotiate (m, the_node m r)") (simp add: negotiate_ht_def del: core_ht)
  show "core (as_m (pae_back r p s)) = core (as_m s)" by (simp add: pae_back_def Let_def pc)
qed (simp_all add: node_leave_11g_def node_join_ht_def node_join_11g_def Let_def)

lemma core_ap_ops [simp]:
  "core (as_m (leave_station G r s)) = core (as_m s)" "core (as_m (set_node_state r st s)) = core (as_m s)"
  "core (as_m (ap_send G r type arg s)) = core (as_m s)" "core (as_m (sa_query_request r s)) = core (as_m s)"
  "core (as_m (sa_query_timeout r s)) = core (as_m s)" "core (as_m (save_request_ies G r frm s)) = core (as_m s)"
  "core (as_m (no_rsnprotos r s)) = core (as_m s)" "core (as_m (use_cached_pmk r rsn s)) = core (as_m s)"
  "core (as_m (clear_security r s)) = core (as_m s)" "core (as_m (req_qos r w s)) = core (as_m s)"
  "core (as_m (assoc_params r rxi x b q s)) = core (as_m s)"
proof -
  show set: "core (as_m (set_node_state r st s)) = core (as_m s)" for r st s by (simp add: set_node_state_def)
  show send: "core (as_m (ap_send G r type arg s)) = core (as_m s)" for G r type arg s by (simp add: ap_send_def)
  show sa: "core (as_m (sa_query_request r s)) = core (as_m s)" for r s by (simp add: sa_query_request_def Let_def)
  show "core (as_m (sa_query_timeout r s)) = core (as_m s)" by (simp add: sa_query_timeout_def Let_def sa)
  show "core (as_m (leave_station G r s)) = core (as_m s)"
    by (simp add: leave_station_def Let_def set stop_sa_query_def with_pae_def node_leave_ht_def)
qed (simp_all add: save_request_ies_def no_rsnprotos_def use_cached_pmk_def clear_security_def req_qos_def
    assoc_params_def Let_def split: option.split)

lemma core_leave: "ap_node_leave H r s = Some s' \<Longrightarrow> core (as_m s') = core (as_m s)"
  by (auto simp: ap_node_leave_def Let_def split: if_splits)

lemma core_finish: "finish_join H r resp b s = Some s' \<Longrightarrow> core (as_m s') = core (as_m s)"
  by (auto simp: finish_join_def node_join_rsn_def Let_def split: if_splits)

lemma core_join: "node_join H r resp s = Some s' \<Longrightarrow> core (as_m s') = core (as_m s)"
  by (auto simp: node_join_def Let_def split: if_splits option.splits dest!: core_leave core_finish)

lemma core_check: "core (as_m (snd (assoc_check H r rxi c b q rates s))) = core (as_m s)"
  by (auto simp: assoc_check_def assoc_security_def accept_rsn_def Let_def split: prod.split option.split)

lemma core_dup_bss [simp]: "core (snd (dup_bss H a s)) = core s"
  using core_alloc(1) [of H s] by (cases "alloc_node_helper H s") (simp add: dup_bss_def del: core_alloc)

lemma core_refuse: "core (as_m (refuse_unauth H m s)) = core (as_m s)"
  using core_dup_bss [of "ah_m H" "frame_addr2 m" "as_m s"]
  by (cases "dup_bss (ah_m H) (frame_addr2 m) (as_m s)") (simp add: refuse_unauth_def Let_def del: core_dup_bss)

lemma core_protected: "protected_assoc H r resp s = Some s' \<Longrightarrow> core (as_m s') = core (as_m s)"
  by (auto simp: protected_assoc_def Let_def split: if_splits dest!: core_leave)

lemma core_assoc_req:
  assumes "recv_assoc_req H m r rxi reassoc s = Some s'"
  shows "core (as_m s') = core (as_m s)"
proof -
  have check: "core (as_m s') = core (as_m s)"
    if "assoc_check H r rxi c b q rates t = (st, u)" "core (as_m t) = core (as_m s)"
      "(if st \<noteq> 0 then ap_node_leave H r (ap_send H r resp a u) else node_join H r resp u) = Some s'"
    for c b q rates t st u resp a
    using core_check [of H r rxi c b q rates t] that
    by (auto split: if_splits dest!: core_leave core_join)
  show ?thesis
    using assms check unfolding recv_assoc_req_def Let_def
    by (auto simp: core_refuse split: if_splits option.splits prod.splits dest!: core_protected)
qed

lemma core_release: "release_node H r s = Done t \<Longrightarrow> core t = core s"
  by (auto simp: release_node_def Let_def split: if_splits node_ref.splits)

lemma core_timers [simp]: "core (inact_timeout s) = core s" "core (node_cache_timeout H s) = core s"
proof -
  show "core (inact_timeout s) = core s" by (simp add: inact_timeout_def core_def)
  have "core (clean_nodes H True s\<lparr>m_node_cache_to := c\<rparr>) = core (clean_nodes H True s)" for c by (simp add: core_def)
  then show "core (node_cache_timeout H s) = core s" by (simp add: node_cache_timeout_def Let_def)
qed

lemma core_ap_step:
  assumes "ap_step H s s'" "m_opmode (as_m s) = M_HOSTAP"
  shows "core (as_m s') = core (as_m s)"
  using assms(1)
proof cases
  case (auth m r rxi t)
  then show ?thesis using keeps_recv_auth [of "as_m s" "ah_m H" m r rxi] assms(2) by simp
qed (auto dest: core_assoc_req core_leave core_release)

lemma ap_step_aids:
  assumes "ap_step H s s'" "m_opmode (as_m s) = M_HOSTAP" "unat (as_max_aid s) \<le> 0x4000"
    "aids_ok (unat (as_max_aid s)) (as_m s)"
  shows "aids_ok (unat (as_max_aid s)) (as_m s') \<and> as_max_aid s' = as_max_aid s"
  using assms(1)
proof cases
  case (auth m r rxi t)
  then show ?thesis using aids_auth [OF assms(4,2)] by simp
next
  case (sa_query r)
  then show ?thesis using aids_sa_timeout [OF assms(4)] by (simp add: sa_query_timeout_def Let_def)
qed (use assms in \<open>auto intro: aids_release aids_inact aids_cache_timeout aids_ap_leave dest: aids_assoc_req max_aid_ops\<close>)

lemma ap_reach_aids:
  assumes "ap_reach H s0 s" "m_opmode (as_m s0) = M_HOSTAP" "unat (as_max_aid s0) \<le> 0x4000"
    "aids_ok (unat (as_max_aid s0)) (as_m s0)"
  shows "aids_ok (unat (as_max_aid s0)) (as_m s) \<and> as_max_aid s = as_max_aid s0 \<and> m_opmode (as_m s) = M_HOSTAP"
  using assms(1)
proof induction
  case start
  then show ?case using assms by simp
next
  case (step s s')
  then have "core (as_m s') = core (as_m s)" by (intro core_ap_step) simp_all
  then show ?case using step assms(3) ap_step_aids [OF step.hyps(2)] coreD(1) by metis
qed

text \<open>C35. Association identifiers are unique: after any sequence of the events of an access point that starts with
  an empty cache (association and authentication requests of any content, stations that leave, releases of nodes, and the
  timers of SA Query, of inactivity and of the cache), every station that has an identifier has one between 1 and the largest, its bit is
  set in the bitmap, and no other node of the cache has the same.\<close>

theorem association_ids_unique:
  assumes "ap_reach H s0 s" and "m_opmode (as_m s0) = M_HOSTAP" and "m_tree (as_m s0) = []"
    and "m_nnodes (as_m s0) = 0" and "unat (as_max_aid s0) \<le> 0x4000"
    and "n \<in> set (m_tree (as_m s))" and "bn_associd n \<noteq> 0"
  shows "0 < aid_bit (bn_associd n) \<and> aid_bit (bn_associd n) < unat (as_max_aid s0) \<and>
    m_aid_bitmap (as_m s) (aid_bit (bn_associd n)) \<and>
    (\<forall>k\<in>set (m_tree (as_m s)). bn_associd k = bn_associd n \<longrightarrow> k = n)"
proof -
  have "aids_ok (unat (as_max_aid s0)) (as_m s0)"
    using assms(3,4) by (simp add: aids_ok_def aids_def cache_ok_def macs_def)
  then have ok: "aids_ok (unat (as_max_aid s0)) (as_m s)" using ap_reach_aids [OF assms(1,2,5)] by simp
  obtain xs ys where t: "m_tree (as_m s) = xs @ n # ys" using assms(6) by (meson split_list)
  have "k = n" if "k \<in> set (m_tree (as_m s))" "bn_associd k = bn_associd n" for k
  proof (rule ccontr)
    assume "k \<noteq> n"
    then have "k \<in> set (xs @ ys)" using that(1) t by auto
    then have "aid_bit (bn_associd k) \<in> set (aids (xs @ ys))"
      by (rule aids_mem) (use that(2) assms(7) in simp)
    then have "aid_bit (bn_associd n) \<in> set (aids (xs @ ys))" using that(2) by simp
    then show False using ok t assms(7) by (auto simp: aids_ok_def)
  qed
  moreover have "aid_bit (bn_associd n) \<in> set (aids (m_tree (as_m s)))" using assms(6,7) by (auto simp: aids_def)
  ultimately show ?thesis using ok by (auto simp: aids_ok_def)
qed

end
