(* ===== verification/ApPolicy.thy ===== *)
theory ApPolicy
  imports ApStations SelectProps
begin

unbundle bit_operations_syntax

text \<open>
  What a station of an RSN network is associated with: the parameters of its request, which the policy of the
  access point allows; its port is closed, and the flag of management frame protection is not touched.
\<close>

section \<open>One node\<close>

text \<open>A node of the tree after an update of it.\<close>

lemma node_after:
  assumes "find_node m a = Some n" "\<And>x. bn_macaddr x = a \<Longrightarrow> bn_macaddr (f x) = a"
  shows "find_node (upd_node (Peer a) f m) a = Some (f n)"
  using find_upd_node [of a f m a] assms by simp

text \<open>The security parameters of a node: AKM, pairwise, group and group management cipher, capabilities, protocol.\<close>

type_synonym sec_params = "u32 \<times> u32 \<times> u32 \<times> u32 \<times> u16 \<times> u32"

definition sec :: "bnode \<Rightarrow> sec_params" where
  "sec n = (bn_rsnakms n, bn_rsnciphers n, bn_rsngroupcipher n, bn_rsngroupmgmtcipher n, bn_rsncaps n, bn_rsnprotos n)"

definition mfp :: "bnode \<Rightarrow> bool" where
  "mfp n \<longleftrightarrow> has_flag (bn_flags n) NODE_MFP"

text \<open>A node that is in the tree, with a property.\<close>

definition node_is :: "u8 list \<Rightarrow> (bnode \<Rightarrow> bool) \<Rightarrow> mlme \<Rightarrow> bool" where
  "node_is a P m \<longleftrightarrow> (\<exists>n. find_node m a = Some n \<and> P n)"

lemma node_is_upd:
  assumes "node_is a P m" "\<And>x. bn_macaddr x = a \<Longrightarrow> bn_macaddr (f x) = a" "\<And>x. bn_macaddr x = a \<Longrightarrow> P x \<Longrightarrow> Q (f x)"
  shows "node_is a Q (upd_node (Peer a) f m)"
  using assms node_after [of m a _ f] find_node_mac by (fastforce simp: node_is_def)

lemma node_is_bss [simp]: "node_is a P (upd_node Bss f m) = node_is a P m"
  by (simp add: node_is_def)

lemma find_fields [simp]:
  "find_node (log_ev e m) a = find_node m a" "find_node (log_if b e m) a = find_node m a"
  "find_node (m_set_flags f m) a = find_node m a" "find_node (m_clear_flags f m) a = find_node m a"
  "find_node (m\<lparr>m_mgt_timer := v\<rparr>) a = find_node m a" "find_node (pae_com_out c m) a = find_node m a"
  "find_node (set_center1 ch fr m) a = find_node m a"
  by (simp_all add: find_node_def log_ev_def log_if_def m_set_flags_def m_clear_flags_def pae_com_out_def
      set_center1_def split: option.split)

lemma node_is_fields [simp]:
  "node_is a P (log_ev e m) = node_is a P m" "node_is a P (log_if b e m) = node_is a P m"
  "node_is a P (m_set_flags f m) = node_is a P m" "node_is a P (m_clear_flags f m) = node_is a P m"
  "node_is a P (m\<lparr>m_mgt_timer := v\<rparr>) = node_is a P m" "node_is a P (pae_com_out c m) = node_is a P m"
  "node_is a P (set_shortslottime H b m) = node_is a P m"
  by (simp_all add: node_is_def set_shortslottime_def)

lemma node_is_the: "node_is a P m \<longleftrightarrow> find_node m a \<noteq> None \<and> P (the_node m (Peer a))"
  by (auto simp: node_is_def the_node_def node_at_def)

lemma node_is_mono: "node_is a P m \<Longrightarrow> (\<And>n. P n \<Longrightarrow> Q n) \<Longrightarrow> node_is a Q m"
  by (auto simp: node_is_def)

text \<open>Sending to a node that is not being collected keeps it.\<close>

lemma node_is_send:
  assumes "node_is a P m" "\<And>n. P n \<Longrightarrow> bn_state n \<noteq> STA_COLLECT"
    "\<And>n g. P n \<Longrightarrow> bn_macaddr (g n) = bn_macaddr n \<Longrightarrow> bn_state (g n) = bn_state n \<Longrightarrow> bn_flags (g n) = bn_flags n \<Longrightarrow>
       sec (g n) = sec n \<Longrightarrow> bn_port_valid (g n) = bn_port_valid n \<Longrightarrow> bn_rsncipher (g n) = bn_rsncipher n \<Longrightarrow>
       P (g n)"
  shows "node_is a P (snd (send_mgmt H (Peer a) type arg m))"
proof -
  have upd: "node_is a P (upd_node (Peer a) g m')" if "node_is a P m'" "\<And>n. bn_macaddr (g n) = bn_macaddr n"
      "\<And>n. bn_state (g n) = bn_state n" "\<And>n. bn_flags (g n) = bn_flags n" "\<And>n. sec (g n) = sec n"
      "\<And>n. bn_port_valid (g n) = bn_port_valid n" "\<And>n. bn_rsncipher (g n) = bn_rsncipher n" for g m'
    by (rule node_is_upd [OF that(1)]) (use that assms(3) in auto)
  have unref: "node_is a P (unref_failed H (Peer a) m')" if m': "node_is a P m'" for m'
  proof -
    have "bn_state (the_node m' (Peer a)) \<noteq> STA_COLLECT" using m' assms(2) by (simp add: node_is_the)
    then show ?thesis
      using m' by (auto simp: unref_failed_def Let_def sec_def split: if_splits intro!: upd)
  qed
  show ?thesis
    using assms(1) by (auto simp: send_mgmt_def Let_def sec_def split: send_outcome.split intro!: upd unref)
qed

section \<open>The policy\<close>

text \<open>The policy on the parameters of a request: one AKM and one pairwise cipher, both among the network's; the group
  cipher of the network; management frame protection where the network requires it, no requirement of it by a
  station that is not capable of it, and, with it, CCMP and the group management cipher of the network; under
  countermeasures no TKIP.\<close>

definition policy_allows :: "u32 \<Rightarrow> bnode \<Rightarrow> rsnparams \<Rightarrow> bool" where
  "policy_allows flags bss rsn \<longleftrightarrow>
     rsn_nakms rsn = 1 \<and> rsn_akms rsn AND bn_rsnakms bss \<noteq> 0 \<and>
     rsn_nciphers rsn = 1 \<and> rsn_ciphers rsn AND bn_rsnciphers bss \<noteq> 0 \<and>
     rsn_groupcipher rsn = bn_rsngroupcipher bss \<and>
     (has_flag (bn_rsncaps bss) RSNCAP_MFPR \<longrightarrow> has_flag (rsn_caps rsn) RSNCAP_MFPC) \<and>
     (has_flag (bn_rsncaps bss) RSNCAP_MFPC \<and> has_flag (rsn_caps rsn) RSNCAP_MFPR
        \<longrightarrow> has_flag (rsn_caps rsn) RSNCAP_MFPC) \<and>
     (has_flag (rsn_caps rsn) RSNCAP_MFPC
        \<longrightarrow> rsn_ciphers rsn = CIPHER_CCMP \<and> rsn_groupmgmtcipher rsn = bn_rsngroupmgmtcipher bss) \<and>
     (has_flag flags F_COUNTERM \<longrightarrow> rsn_ciphers rsn \<noteq> CIPHER_TKIP \<and> rsn_groupcipher rsn \<noteq> CIPHER_TKIP)"

lemma policy_allows: "rsn_policy flags bss rsn = 0 \<Longrightarrow> policy_allows flags bss rsn"
proof -
  assume p: "rsn_policy flags bss rsn = 0"
  have one: "x AND 2 ^ k = (if bit x k then 2 ^ k else 0)" for x :: u16 and k
    by (rule bit_eqI) (auto simp: bit_and_iff bit_exp_iff)
  have bits: "x AND (0x80 OR 0x40) = 0x40" if "has_flag x 0x40" "\<not> has_flag x 0x80" for x :: u16
  proof -
    have "x AND (0x80 OR 0x40) = (x AND 0x80) OR (x AND 0x40)" by (rule bit.conj_disj_distrib)
    also have "\<dots> = 0x40" using that one [of x 6] by (simp add: has_flag_def split: if_splits)
    finally show ?thesis .
  qed
  show ?thesis
    using p bits [of "rsn_caps rsn"] by (auto simp: rsn_policy_def policy_allows_def split: if_splits)
qed

text \<open>What an association gives a node: the parameters of the element of the request, which has one of the
  protocols that are on and which the policy allows, with the group ciphers of the network.\<close>

definition grants :: "u32 \<Rightarrow> u32 \<Rightarrow> bnode \<Rightarrow> req_ies \<Rightarrow> sec_params \<Rightarrow> bool" where
  "grants flags protos bss q p \<longleftrightarrow>
     (\<exists>rsn proto e k. request_rsn q = (Some (0, rsn, proto, e), k) \<and> has_flag protos proto \<and>
        policy_allows flags bss rsn \<and>
        p = (rsn_akms rsn, rsn_ciphers rsn, bn_rsngroupcipher bss, bn_rsngroupmgmtcipher bss, rsn_caps rsn, proto))"

text \<open>What the checks leave of the node: it is still to be associated, and the flag \<open>b\<close> is as it was.\<close>

definition waiting :: "bool \<Rightarrow> bnode \<Rightarrow> bool" where
  "waiting b n \<longleftrightarrow> bn_state n = STA_AUTH \<and> mfp n = b"

definition accepted :: "(sec_params \<Rightarrow> bool) \<Rightarrow> bool \<Rightarrow> bnode \<Rightarrow> bool" where
  "accepted P b n \<longleftrightarrow> waiting b n \<and> P (sec n)"

text \<open>The fields of the interface that matter for the policy.\<close>

definition rsn_conf :: "aps \<Rightarrow> u32 \<times> u32 \<times> bnode" where
  "rsn_conf s = (m_flags (as_m s), m_rsnprotos (as_m s), m_bss (as_m s))"

definition conf_grants :: "aps \<Rightarrow> req_ies \<Rightarrow> sec_params \<Rightarrow> bool" where
  "conf_grants s = grants (m_flags (as_m s)) (m_rsnprotos (as_m s)) (m_bss (as_m s))"

lemma conf_grants_cong: "rsn_conf t = rsn_conf s \<Longrightarrow> conf_grants t = conf_grants s"
  by (simp add: conf_grants_def rsn_conf_def)

lemma rsn_conf_simps [simp]:
  "rsn_conf (on_node (Peer a) f s) = rsn_conf s" "rsn_conf (ap_log e s) = rsn_conf s"
  "rsn_conf (s\<lparr>as_supported := u\<rparr>) = rsn_conf s" "rsn_conf (on_m (log_if b ev) s) = rsn_conf s"
  by (simp_all add: rsn_conf_def as_m_def on_node_def on_m_def upd_m_def upd_node_def ap_log_def log_if_def log_ev_def)

lemma as_m_ops [simp]:
  "as_m (on_m f s) = f (as_m s)" "as_m (ap_log e s) = as_m s" "as_m (ap_log_if b e s) = as_m s"
  "as_m (s\<lparr>as_sa_count := c\<rparr>) = as_m s" "as_m (s\<lparr>as_supported := u\<rparr>) = as_m s" "as_m (s\<lparr>as_pae := p\<rparr>) = as_m s"
  "as_m (on_node r g s) = upd_node r g (as_m s)" "as_m (apsta_event_publish r ev s) = as_m s"
  "as_m (s\<lparr>as_pae := p, as_ic := ic, as_log := l\<rparr>) = as_m s"
  by (simp_all add: as_m_def on_m_def on_node_def upd_m_def ap_log_def ap_log_if_def apsta_event_publish_def)

lemma log_times_conf [simp]: "rsn_conf (ap_log_times j e s) = rsn_conf s" "as_m (ap_log_times j e s) = as_m s"
  unfolding ap_log_times_def by (induction j) simp_all

lemma mfp_flags [simp]: "mfp (n\<lparr>bn_flags := bn_flags n OR NODE_PMK\<rparr>) = mfp n"
  "mfp (node_set_flags NODE_QOS n) = mfp n" "mfp (node_clear_flags NODE_QOS n) = mfp n"
proof -
  have "(x OR 0x100) AND 0x80 = x AND (0x80 :: u32)" "(x OR 2) AND 0x80 = x AND (0x80 :: u32)" for x
    by (simp_all add: bit.conj_disj_distrib2)
  moreover have "(x AND NOT 2) AND 0x80 = x AND (0x80 :: u32)" for x
    by (simp add: and.assoc)
  ultimately show "mfp (n\<lparr>bn_flags := bn_flags n OR NODE_PMK\<rparr>) = mfp n" "mfp (node_set_flags NODE_QOS n) = mfp n"
    "mfp (node_clear_flags NODE_QOS n) = mfp n"
    by (simp_all add: mfp_def has_flag_def node_set_flags_def node_clear_flags_def)
qed

lemma node_flags_keep [simp]:
  "bn_macaddr (node_set_flags f n) = bn_macaddr n" "bn_macaddr (node_clear_flags f n) = bn_macaddr n"
  "bn_state (node_set_flags f n) = bn_state n" "bn_state (node_clear_flags f n) = bn_state n"
  by (simp_all add: node_set_flags_def node_clear_flags_def)

lemma waiting_upd:
  assumes "node_is a (waiting b) (as_m s)" "\<And>n. bn_macaddr (f n) = bn_macaddr n" "\<And>n. bn_state (f n) = bn_state n"
    "\<And>n. mfp (f n) = mfp n"
  shows "node_is a (waiting b) (as_m (on_node (Peer a) f s))"
  using assms node_is_upd [OF assms(1), of f "waiting b"] by (simp add: waiting_def)

lemma cached_pmk_ok:
  assumes "node_is a (accepted P b) (as_m s)"
  shows "node_is a (accepted P b) (as_m (use_cached_pmk (Peer a) rsn s))"
proof -
  have "accepted P b (n\<lparr>bn_pmkid := p, bn_flags := bn_flags n OR NODE_PMK\<rparr>)" if "accepted P b n" for n p
    using that mfp_flags(1) [of "n\<lparr>bn_pmkid := p\<rparr>"] by (simp add: accepted_def waiting_def mfp_def sec_def)
  then have "node_is a (accepted P b)
      (upd_node (Peer a) (\<lambda>n. n\<lparr>bn_pmkid := p, bn_flags := bn_flags n OR NODE_PMK\<rparr>) (as_m s))" for p
    by (intro node_is_upd [OF assms]) simp_all
  then show ?thesis
    using assms by (simp add: use_cached_pmk_def Let_def split: option.split)
qed

definition proposed :: "bool \<Rightarrow> u32 \<Rightarrow> bnode \<Rightarrow> bool" where
  "proposed b proto n \<longleftrightarrow> waiting b n \<and> bn_rsnprotos n = proto"

lemma accept_rsn_ok:
  assumes "node_is a (proposed b proto) (as_m s)" "accept_rsn H (Peer a) rsn ie s = (0, t)"
    "request_rsn q = (Some (0, rsn, proto, e0), k)" "has_flag (m_rsnprotos (as_m s)) proto"
  shows "node_is a (accepted (conf_grants s q) b) (as_m t)"
proof -
  let ?bss = "m_bss (as_m s)" and ?r = "Peer a"
  obtain e err saved where ok: "rsn_policy (m_flags (as_m s)) ?bss rsn = 0" "ie = Some e"
      "save_ie (mh_save_ie (ah_m H)) e (bn_rsnie (ap_node s ?r)) = (err, saved)" "err = 0"
    and t: "t = use_cached_pmk ?r rsn (on_node ?r (\<lambda>n. n\<lparr>bn_rsnakms := rsn_akms rsn,
                     bn_rsnciphers := rsn_ciphers rsn, bn_rsngroupcipher := bn_rsngroupcipher ?bss,
                     bn_rsngroupmgmtcipher := bn_rsngroupmgmtcipher ?bss, bn_rsncaps := rsn_caps rsn\<rparr>)
              (on_node ?r (\<lambda>n. n\<lparr>bn_rsnie := saved\<rparr>) s))"
    using assms(2) by (auto simp: accept_rsn_def Let_def split: if_splits option.splits prod.splits)
  let ?s1 = "on_node ?r (\<lambda>n. n\<lparr>bn_rsnie := saved\<rparr>) s"
  let ?f = "\<lambda>n. n\<lparr>bn_rsnakms := rsn_akms rsn,
                     bn_rsnciphers := rsn_ciphers rsn, bn_rsngroupcipher := bn_rsngroupcipher ?bss,
                     bn_rsngroupmgmtcipher := bn_rsngroupmgmtcipher ?bss, bn_rsncaps := rsn_caps rsn\<rparr>"
  have "node_is a (proposed b proto) (as_m ?s1)"
    unfolding as_m_ops by (rule node_is_upd [OF assms(1)]) (simp_all add: proposed_def waiting_def mfp_def)
  moreover have "accepted (conf_grants s q) b (?f x)" if "proposed b proto x" for x
    using that policy_allows [OF ok(1)] assms(3,4)
    by (auto simp: accepted_def proposed_def waiting_def mfp_def conf_grants_def grants_def sec_def)
  ultimately have s2: "node_is a (accepted (conf_grants s q) b) (as_m (on_node ?r ?f ?s1))"
    unfolding as_m_ops(7) by (elim node_is_upd) simp_all
  show ?thesis unfolding t by (rule cached_pmk_ok [OF s2])
qed

lemma assoc_security_ok:
  assumes "node_is a (waiting b) (as_m s)" "m_flag (as_m s) F_RSNON" "assoc_security H (Peer a) q s = (0, t)"
  shows "node_is a (accepted (conf_grants s q) b) (as_m t)"
proof -
  let ?r = "Peer a"
  have clear: "node_is a (waiting b) (as_m (clear_security ?r s))" "rsn_conf (clear_security ?r s) = rsn_conf s"
    using waiting_upd [OF assms(1)] by (simp_all add: clear_security_def mfp_def)
  have qos: "node_is a (proposed b p) (as_m (req_qos ?r w u))" "rsn_conf (req_qos ?r w u) = rsn_conf u"
    if "node_is a (proposed b p) (as_m u)" for w u p
  proof -
    have f: "bn_rsnprotos (node_set_flags f n) = bn_rsnprotos n" "bn_rsnprotos (node_clear_flags f n) = bn_rsnprotos n"
      for f n by (simp_all add: node_set_flags_def node_clear_flags_def)
    have "node_is a (proposed b p) (upd_node (Peer a) (if w then node_set_flags NODE_QOS else node_clear_flags NODE_QOS) (as_m u))"
      by (rule node_is_upd [OF that]) (auto simp: proposed_def waiting_def f)
    then show "node_is a (proposed b p) (as_m (req_qos ?r w u))" using that by (simp add: req_qos_def)
    show "rsn_conf (req_qos ?r w u) = rsn_conf u" by (simp add: req_qos_def)
  qed
  have none: False if "(let u = req_qos ?r w u in if m_flag (as_m u) F_RSNON then accept_rsn H ?r rsn None u else (0, u)) = (0, t)"
    "rsn_conf u = rsn_conf s" for w u rsn
  proof -
    have "m_flags (as_m (req_qos ?r w u)) = m_flags (as_m s)"
      using that(2) by (simp add: req_qos_def rsn_conf_def upd_node_def)
    then have "m_flag (as_m (req_qos ?r w u)) F_RSNON" using assms(2) by (simp add: m_flag_def)
    then show False using that(1) by (auto simp: accept_rsn_def Let_def split: if_splits)
  qed
  obtain parsed k where pk: "request_rsn q = (parsed, k)" by fastforce
  let ?s1 = "ap_log_times k (Ap_Stat As_Elem_Toosmall) (clear_security ?r s)"
  have s1: "node_is a (waiting b) (as_m ?s1)" "rsn_conf ?s1 = rsn_conf s" using clear by simp_all
  show ?thesis
  proof (cases parsed)
    case None
    then have "(let u = req_qos ?r (qi_wme q \<noteq> None) ?s1 in
        if m_flag (as_m u) F_RSNON then accept_rsn H ?r zero_rsn None u else (0, u)) = (0, t)"
      using assms(3) by (simp add: assoc_security_def pk)
    then show ?thesis using none [OF _ s1(2)] by blast
  next
    case (Some p)
    obtain status rsn proto e where p: "p = (status, rsn, proto, e)" by (cases p)
    let ?s2 = "?s1\<lparr>as_supported := (as_supported ?s1)(?r := (proto, rsn_akms rsn))\<rparr>"
    let ?on = "m_flag (as_m ?s2) F_RSNON \<and> has_flag (m_rsnprotos (as_m ?s2)) proto"
    let ?s3 = "on_node ?r (\<lambda>n. n\<lparr>bn_rsnprotos := proto\<rparr>) ?s2"
    let ?u = "req_qos ?r (qi_wme q \<noteq> None) ?s3"
    have c2: "rsn_conf ?s2 = rsn_conf s" using s1(2) by simp
    have st: "status = 0" using assms(3) by (auto simp: assoc_security_def pk Some p Let_def split: if_splits)
    have on: ?on
    proof (rule ccontr)
      assume "\<not> ?on"
      then have "(let u = req_qos ?r (qi_wme q \<noteq> None) ?s2 in
          if m_flag (as_m u) F_RSNON then accept_rsn H ?r rsn None u else (0, u)) = (0, t)"
        using assms(3) st by (auto simp: assoc_security_def pk Some p Let_def)
      then show False using none [OF _ c2] by blast
    qed
    have "node_is a (proposed b proto) (as_m ?s3)"
      unfolding as_m_ops(7) by (rule node_is_upd [of _ "waiting b"]) (use s1(1) in \<open>simp_all add: proposed_def waiting_def mfp_def\<close>)
    note u = qos [OF this, of "qi_wme q \<noteq> None"]
    have c: "rsn_conf ?u = rsn_conf s" using u(2) c2 by simp
    have "m_flag (as_m ?u) F_RSNON" "has_flag (m_rsnprotos (as_m ?u)) proto"
      using on c c2 by (simp_all add: rsn_conf_def m_flag_def)
    moreover from this have "accept_rsn H ?r rsn (Some e) ?u = (0, t)"
      using assms(3) st on by (simp add: assoc_security_def pk Some p Let_def)
    ultimately show ?thesis
      using accept_rsn_ok [OF u(1)] pk Some p st conf_grants_cong [OF c] by metis
  qed
qed

text \<open>The capabilities element of the request does not concern the policy.\<close>

lemma mfp_ht [simp]: "mfp (setup_htcaps m p len n) = mfp n" "mfp (clear_htcaps n) = mfp n"
proof -
  have bits: "(x OR 0x20000) AND 0x80 = x AND (0x80 :: u32)" for x by (simp add: bit.conj_disj_distrib2)
  show "mfp (setup_htcaps m p len n) = mfp n"
    by (simp add: setup_htcaps_def Let_def mfp_def has_flag_def upd_ht_def bits)
  show "mfp (clear_htcaps n) = mfp n"
    by (simp add: clear_htcaps_def Let_def mfp_def has_flag_def upd_ht_def and.assoc)
qed

lemma sec_ht [simp]: "sec (setup_htcaps m p len n) = sec n" "sec (clear_htcaps n) = sec n"
  "bn_state (setup_htcaps m p len n) = bn_state n" "bn_state (clear_htcaps n) = bn_state n"
  "bn_macaddr (setup_htcaps m p len n) = bn_macaddr n" "bn_macaddr (clear_htcaps n) = bn_macaddr n"
  by (simp_all add: setup_htcaps_def clear_htcaps_def upd_ht_def sec_def Let_def)

lemma accepted_keep:
  "accepted P b n \<Longrightarrow> sec n' = sec n \<Longrightarrow> mfp n' = mfp n \<Longrightarrow> bn_state n' = bn_state n \<Longrightarrow> accepted P b n'"
  by (simp add: accepted_def waiting_def)

lemma params_ok:
  assumes "node_is a (accepted P b) (as_m s)"
  shows "node_is a (accepted P b) (as_m (assoc_params (Peer a) rxi c i q s))"
proof -
  obtain n where n: "find_node (as_m s) a = Some n" "accepted P b n" using assms by (auto simp: node_is_def)
  let ?n = "n\<lparr>bn_rstamp := rxi_tstamp rxi, bn_rssi := ucast (rxi_rssi rxi), bn_intval := i,
            bn_capinfo := c, bn_chan := bn_chan (m_bss (as_m s))\<rparr>"
  have ok: "accepted P b ?n" by (rule accepted_keep [OF n(2)]) (simp_all add: sec_def mfp_def)
  have node: "ap_node s (Peer a) = n" using n(1) by (simp add: ap_node_def the_node_def node_at_def)
  have "bn_macaddr ?n = a" using find_node_mac [OF n(1)] by simp
  moreover have "accepted P b (setup_htcaps m p len ?n)" "accepted P b (clear_htcaps ?n)" for m p len
    by (rule accepted_keep [OF ok]; simp)+
  moreover have "node_is a (accepted P b) (upd_node (Peer a) (\<lambda>_. n') (as_m s))"
    if "bn_macaddr n' = a" "accepted P b n'" for n'
    by (rule node_is_upd [OF assms]) (use that in simp_all)
  ultimately show ?thesis
    by (simp add: assoc_params_def Let_def node split: option.split)
qed

lemma assoc_check_ok:
  assumes "node_is a (waiting b) (as_m s)" "m_flag (as_m s) F_RSNON"
    "assoc_check H (Peer a) rxi c i q rates s = (0, t)"
  shows "node_is a (accepted (conf_grants s q) b) (as_m t)"
proof -
  have upd: "node_is a (waiting b) (as_m (on_m (log_if cut ev) (on_node (Peer a) (\<lambda>n. n\<lparr>bn_rates := rs\<rparr>) s)))"
    "rsn_conf (on_m (log_if cut ev) (on_node (Peer a) (\<lambda>n. n\<lparr>bn_rates := rs\<rparr>) s)) = rsn_conf s" for cut ev rs
    using waiting_upd [OF assms(1), of "\<lambda>n. n\<lparr>bn_rates := rs\<rparr>"] by (simp_all add: mfp_def)
  have sec: "node_is a (accepted (conf_grants s q) b) (as_m v)"
    if "assoc_security H (Peer a) q (on_m (log_if cut ev) (on_node (Peer a) (\<lambda>n. n\<lparr>bn_rates := rs\<rparr>) s)) = (0, v)"
    for cut ev rs v
  proof -
    let ?u = "on_m (log_if cut ev) (on_node (Peer a) (\<lambda>n. n\<lparr>bn_rates := rs\<rparr>) s)"
    have "m_flag (as_m ?u) F_RSNON" using assms(2) upd(2) [of cut ev rs] by (simp add: rsn_conf_def m_flag_def)
    then show ?thesis using assoc_security_ok [OF upd(1) _ that] conf_grants_cong [OF upd(2)] by simp
  qed
  show ?thesis
    using assms(3)
    by (auto simp: assoc_check_def Let_def split: prod.splits if_splits dest!: sec intro!: params_ok)
qed

section \<open>Joining\<close>

text \<open>The checks leave the configuration of the interface alone.\<close>

lemma conf_check: "rsn_conf (snd (assoc_check H (Peer a) rxi c i q rates s)) = rsn_conf s"
proof -
  have "rsn_conf (use_cached_pmk (Peer a) rsn u) = rsn_conf u" "rsn_conf (clear_security (Peer a) u) = rsn_conf u"
    "rsn_conf (req_qos (Peer a) w u) = rsn_conf u" "rsn_conf (no_rsnprotos (Peer a) u) = rsn_conf u" for rsn u w
    by (simp_all add: use_cached_pmk_def clear_security_def req_qos_def no_rsnprotos_def Let_def rsn_conf_def
        upd_node_def split: option.split)
  then show ?thesis
    by (auto simp: assoc_check_def assoc_security_def accept_rsn_def assoc_params_def Let_def
        split: prod.split option.split)
qed

lemma rsnon_conf: "rsn_conf t = rsn_conf s \<Longrightarrow> m_flag (as_m t) f = m_flag (as_m s) f"
  by (simp add: rsn_conf_def m_flag_def)

definition rsnon :: "mlme \<Rightarrow> bool" where
  "rsnon m \<longleftrightarrow> m_flag m F_RSNON"

lemma rsnon_upd [simp]: "rsnon (upd_node r f m) = rsnon m" "rsnon (log_ev e m) = rsnon m" "rsnon (log_if b e m) = rsnon m"
  "rsnon (m\<lparr>m_mgt_timer := v\<rparr>) = rsnon m"
  by (simp_all add: rsnon_def m_flag_def upd_node_def log_ev_def log_if_def split: node_ref.split)

lemma rsnon_flags [simp]:
  "rsnon (m_set_flags F_USEPROT m) = rsnon m" "rsnon (m_clear_flags F_SHPREAMBLE m) = rsnon m"
  "rsnon (set_shortslottime H x m) = rsnon m"
proof -
  have bits: "(u OR 0x100000) AND 0x200000 = u AND (0x200000 :: u32)" "(u OR 0x20000) AND 0x200000 = u AND (0x200000 :: u32)"
    for u by (simp_all add: bit.conj_disj_distrib2)
  have nots: "(u AND NOT 0x40000) AND 0x200000 = u AND (0x200000 :: u32)"
    "(u AND NOT 0x20000) AND 0x200000 = u AND (0x200000 :: u32)" for u by (simp_all add: and.assoc)
  show "rsnon (m_set_flags F_USEPROT m) = rsnon m" "rsnon (m_clear_flags F_SHPREAMBLE m) = rsnon m"
    "rsnon (set_shortslottime H x m) = rsnon m"
    using bits nots
    by (simp_all add: rsnon_def m_flag_def has_flag_def m_set_flags_def m_clear_flags_def set_shortslottime_def
        log_if_def log_ev_def)
qed

lemma rsnon_steps [simp]:
  "rsnon (assign_aid aid r m) = rsnon m" "rsnon (node_join_11g H r m) = rsnon m" "rsnon (node_join_ht H r m) = rsnon m"
  "rsnon (snd (send_mgmt H r type arg m)) = rsnon m"
proof -
  have free: "rsnon (free_node H a m) = rsnon m" for a m
    by (simp add: free_node_def Let_def rsnon_def m_flag_def log_ev_def log_if_def split: option.split)
  show "rsnon (assign_aid aid r m) = rsnon m"
    using rsnon_upd(1) [of r _ m] by (simp add: assign_aid_def Let_def rsnon_def m_flag_def)
  show "rsnon (node_join_11g H r m) = rsnon m" by (simp add: node_join_11g_def Let_def)
  show "rsnon (node_join_ht H r m) = rsnon m" by (simp add: node_join_ht_def)
  show "rsnon (snd (send_mgmt H r type arg m)) = rsnon m"
    by (simp add: send_mgmt_def unref_failed_def Let_def free split: send_outcome.split node_ref.split)
qed

lemma negotiate_node:
  assumes "ht_negotiate (m, n) = (m', n')"
  shows "sec n' = sec n \<and> mfp n' = mfp n \<and> bn_state n' = bn_state n \<and> bn_macaddr n' = bn_macaddr n \<and>
    (\<forall>a. find_node m' a = find_node m a) \<and> rsnon m' = rsnon m"
proof -
  have flags: "mfp (node_set_flags_if b f k) = mfp k" if "f AND 0x80 = 0" for b f k
    using that by (simp add: mfp_def has_flag_def node_set_flags_if_def node_set_flags_def bit.conj_disj_distrib2)
  have clear: "mfp (node_clear_flags f k) = mfp k" if "NOT f AND 0x80 = 0x80" for f k
    using that by (simp add: mfp_def has_flag_def node_clear_flags_def and.assoc)
  have set: "mfp (node_set_flags f k) = mfp k" if "f AND 0x80 = 0" for f k
    using that by (simp add: mfp_def has_flag_def node_set_flags_def bit.conj_disj_distrib2)
  have chw: "mfp (node_set_chw w k) = mfp k" "sec (node_set_chw w k) = sec k" "bn_state (node_set_chw w k) = bn_state k"
    "bn_macaddr (node_set_chw w k) = bn_macaddr k" for w k
    by (simp_all add: node_set_chw_def upd_ht_def mfp_def sec_def)
  have keep: "sec (node_set_flags_if b f k) = sec k" "bn_state (node_set_flags_if b f k) = bn_state k"
    "bn_macaddr (node_set_flags_if b f k) = bn_macaddr k" "sec (node_clear_flags f k) = sec k"
    "sec (node_set_flags f k) = sec k" for b f k
    by (simp_all add: node_set_flags_if_def node_set_flags_def node_clear_flags_def sec_def)
  have on: "rsnon (set_center1 c fr k) = rsnon k" for c fr k
    by (simp add: set_center1_def rsnon_def m_flag_def split: option.split)
  show ?thesis
    using assms
    by (auto simp: ht_negotiate_def ht_negotiate_chw_def Let_def flags clear set chw keep on
        split: if_splits prod.splits)
qed

text \<open>Message 1 of the handshake leaves what the association has set.\<close>

lemma msg1_keeps:
  assumes "send_4way_msg1 H p = Some (e, p')" "pn_rsn_retries (p_ni p) = 0"
  shows "pn_state (p_ni p') = pn_state (p_ni p) \<and> pn_port_valid (p_ni p') = pn_port_valid (p_ni p) \<and>
    pn_rsncipher (p_ni p') = pn_rsncipher (p_ni p) \<and> mn_flags (p_ni p') = mn_flags (p_ni p)"
  using assms
  by (auto simp: send_4way_msg1_def with_retry_def with_eapol_key_def get_eapol_key_def next_replaycnt_def
      send_eapol_key_def emit_def Let_def split: if_splits prod.splits)

lemma join_rsn_node:
  assumes "join_rsn H p = Some p'"
  shows "pn_state (p_ni p') = pn_state (p_ni p) \<and> \<not> pn_port_valid (p_ni p') \<and>
    pn_rsncipher (p_ni p') = mn_rsnciphers (p_ni p) \<and> has_flag (mn_flags (p_ni p')) NODE_MFP = has_flag (mn_flags (p_ni p)) NODE_MFP"
proof -
  have bits: "(u AND NOT 0x18 AND NOT 0x2000) AND 0x80 = u AND (0x80 :: u32)"
    "((u AND NOT 0x18 AND NOT 0x2000) OR 0x100) AND 0x80 = u AND (0x80 :: u32)" for u
    by (simp_all add: and.assoc bit.conj_disj_distrib2)
  show ?thesis
    using assms by (auto simp: join_rsn_def Let_def has_flag_def bits bits [simplified] split: if_splits dest!: msg1_keeps)
qed

definition joined :: "(sec_params \<Rightarrow> bool) \<Rightarrow> bool \<Rightarrow> bnode \<Rightarrow> bool" where
  "joined P b n \<longleftrightarrow> bn_state n = STA_ASSOC \<and> mfp n = b \<and> P (sec n) \<and> \<not> bn_port_valid n \<and>
     bn_rsncipher n = bn_rsnciphers n"

definition assoced :: "(sec_params \<Rightarrow> bool) \<Rightarrow> bool \<Rightarrow> bnode \<Rightarrow> bool" where
  "assoced P b n \<longleftrightarrow> bn_state n = STA_ASSOC \<and> mfp n = b \<and> P (sec n)"

lemma ap_node_find: "find_node (as_m s) a = Some n \<Longrightarrow> ap_node s (Peer a) = n"
  by (simp add: ap_node_def the_node_def node_at_def)

lemma join_rsn_joined:
  assumes "node_is a (assoced P b) (as_m s)" "node_join_rsn H (Peer a) s = Some s'"
  shows "node_is a (joined P b) (as_m s')"
proof -
  obtain n where n: "find_node (as_m s) a = Some n" "assoced P b n" using assms(1) by (auto simp: node_is_def)
  obtain p where p: "join_rsn (ah_pae H) (pae_view s (Peer a)) = Some p" "s' = pae_back (Peer a) p s"
    using assms(2) by (auto simp: node_join_rsn_def)
  have view: "p_ni (pae_view s (Peer a)) = pae_in n (as_pae s (Peer a))"
    by (simp add: pae_view_def ap_node_find [OF n(1)])
  have j: "pn_state (p_ni p) = bn_state n" "\<not> pn_port_valid (p_ni p)" "pn_rsncipher (p_ni p) = bn_rsnciphers n"
      "has_flag (mn_flags (p_ni p)) NODE_MFP = mfp n"
    using join_rsn_node [OF p(1)] by (simp_all add: view pae_in_def mfp_def)
  have "joined P b (pae_out (p_ni p) n)"
    using n(2) j by (simp add: joined_def assoced_def pae_out_def sec_def mfp_def)
  moreover have "find_node (as_m s') a = Some (pae_out (p_ni p) n)"
    using node_after [of "pae_com_out (p_ic p) (as_m s)" a n "pae_out (p_ni p)"] n(1)
    by (simp add: p(2) pae_back_def Let_def pae_out_def)
  ultimately show ?thesis by (auto simp: node_is_def)
qed

lemma negotiate_ok:
  assumes "node_is a (accepted P b) m"
  shows "node_is a (accepted P b) (negotiate_ht (Peer a) m)" "rsnon (negotiate_ht (Peer a) m) = rsnon m"
proof -
  obtain n where n: "find_node m a = Some n" "accepted P b n" using assms by (auto simp: node_is_def)
  have the: "the_node m (Peer a) = n" using n(1) by (simp add: the_node_def node_at_def)
  obtain m' n' where eq: "ht_negotiate (m, n) = (m', n')" by fastforce
  note k = negotiate_node [OF eq]
  have "accepted P b n'" by (rule accepted_keep [OF n(2)]) (use k in simp_all)
  moreover have "bn_macaddr n' = a" using k find_node_mac [OF n(1)] by simp
  ultimately have "find_node (upd_node (Peer a) (\<lambda>_. n') m') a = Some n'"
    using node_after [of m' a n "\<lambda>_. n'"] k n(1) by simp
  then show "node_is a (accepted P b) (negotiate_ht (Peer a) m)"
    using \<open>accepted P b n'\<close> by (simp add: negotiate_ht_def the eq node_is_def)
  show "rsnon (negotiate_ht (Peer a) m) = rsnon m"
    using k by (simp add: negotiate_ht_def the eq)
qed

lemma finish_joined:
  assumes "node_is a (accepted P b) (as_m s)" "rsnon (as_m s)" "finish_join H (Peer a) resp newassoc s = Some s'"
  shows "node_is a (joined P b) (as_m s')"
proof -
  let ?r = "Peer a"
  let ?s1 = "on_m (negotiate_ht ?r) s"
  let ?s2 = "if m_flag (as_m ?s1) F_HTON then on_m (node_join_ht (ah_m H) ?r) ?s1 else ?s1"
  let ?s3 = "ap_send H ?r resp 0 (ap_log_if (ah_newassoc H) (Ap_New_Assoc ?r newassoc) ?s2)"
  let ?s4 = "set_node_state ?r STA_ASSOC ?s3"
  have s2: "node_is a (accepted P b) (as_m ?s2)" "rsnon (as_m ?s2)"
    using negotiate_ok [OF assms(1)] assms(2) by (simp_all add: node_join_ht_def)
  have "node_is a (accepted P b) (snd (send_mgmt (ah_m H) ?r resp 0 (as_m ?s2)))"
    by (rule node_is_send [OF s2(1)]) (auto simp: accepted_def waiting_def mfp_def)
  then have "node_is a (accepted P b) (as_m ?s3)" by (simp add: ap_send_def)
  then have s4: "node_is a (assoced P b) (as_m ?s4)"
    unfolding set_node_state_def as_m_ops
    by (rule node_is_upd) (auto simp: accepted_def waiting_def assoced_def mfp_def sec_def)
  have "rsnon (as_m ?s4)" using s2(2) by (simp add: set_node_state_def ap_send_def)
  then have "map_option (apsta_event_publish ?r (if newassoc then Station_Assoc else Station_Reassoc))
      (node_join_rsn H ?r ?s4) = Some s'"
    using assms(3) by (simp add: finish_join_def Let_def rsnon_def)
  then show ?thesis using join_rsn_joined [OF s4] by auto
qed

text \<open>Giving an identifier and the 2 GHz rules leave what the policy looks at.\<close>

lemma assign_ok:
  assumes "node_is a (accepted P b) m"
  shows "node_is a (accepted P b) (assign_aid aid (Peer a) m)"
proof -
  have "node_is a (accepted P b) (upd_node (Peer a) (\<lambda>n. n\<lparr>bn_associd := v\<rparr>) m)" for v
    by (rule node_is_upd [OF assms]) (simp, erule accepted_keep, simp_all add: sec_def mfp_def)
  then show ?thesis by (simp add: assign_aid_def Let_def node_is_def find_node_def)
qed

lemma join_11g_ok:
  assumes "node_is a (accepted P b) m"
  shows "node_is a (accepted P b) (node_join_11g H (Peer a) m)"
proof -
  have bits: "(x OR 1) AND 0x80 = x AND (0x80 :: u32)" for x by (simp add: bit.conj_disj_distrib2)
  have erp: "node_is a (accepted P b) (upd_node (Peer a) (node_set_flags NODE_ERP) m')"
    if "node_is a (accepted P b) m'" for m'
    by (rule node_is_upd [OF that])
      (simp, erule accepted_keep, simp_all add: sec_def mfp_def node_set_flags_def has_flag_def bits)
  show ?thesis using assms by (simp add: node_join_11g_def Let_def erp)
qed

text \<open>A station that leaves is not associated.\<close>

lemma leave_collects:
  assumes "ap_node_leave H (Peer a) s = Some s'" "find_node (as_m s') a = Some n"
  shows "bn_state n = STA_COLLECT"
proof -
  have set: "bn_state n = STA_COLLECT" if "find_node (as_m (set_node_state (Peer a) STA_COLLECT t)) a = Some n" for t
    using that find_upd_node [of a "\<lambda>n. n\<lparr>bn_state := STA_COLLECT\<rparr>" "as_m t" a]
    by (auto simp: set_node_state_def)
  have "bn_state (ap_node s (Peer a)) = STA_COLLECT \<Longrightarrow> s' = s \<Longrightarrow> bn_state n = STA_COLLECT"
    using assms(2) ap_node_find by auto
  then show ?thesis
    using assms set by (auto simp: ap_node_leave_def leave_station_def Let_def split: if_splits)
qed

lemma join_joined:
  assumes "node_is a (accepted P b) (as_m s)" "rsnon (as_m s)" "node_join H (Peer a) resp s = Some s'"
    "find_node (as_m s') a = Some n" "bn_state n = STA_ASSOC"
  shows "joined P b n"
proof -
  have fin: "joined P b n" if "finish_join H (Peer a) resp na t = Some s'" "node_is a (accepted P b) (as_m t)"
      "rsnon (as_m t)" for na t
    using finish_joined [OF that(2,3,1)] assms(4) by (simp add: node_is_def)
  show ?thesis
  proof (cases "bn_associd (ap_node s (Peer a)) = 0")
    case True
    show ?thesis
    proof (cases "free_aid s")
      case None
      then show ?thesis using True assms(3,5) leave_collects [OF _ assms(4)] by (auto simp: node_join_def Let_def)
    next
      case (Some aid)
      let ?t = "on_m (assign_aid aid (Peer a)) s"
      let ?u = "if is_11g_bss (as_m ?t) then on_m (node_join_11g (ah_m H) (Peer a)) ?t else ?t"
      have "finish_join H (Peer a) resp (bn_state (ap_node s (Peer a)) \<noteq> STA_ASSOC) ?u = Some s'"
        using assms(3) True Some by (simp add: node_join_def Let_def)
      then show ?thesis by (rule fin) (use assms(1,2) assign_ok join_11g_ok in simp_all)
    qed
  next
    case False
    then show ?thesis using assms(1-3) by (intro fin) (simp_all add: node_join_def Let_def)
  qed
qed

text \<open>C34. A station of an access point with an RSN network that goes from authenticated to associated has been
  accepted by the policy: its request has an RSN or WPA element that parses and whose protocol is on, with
  exactly one AKM and one pairwise cipher, both among the network's, and the group cipher of the network; it is
  capable of management frame protection if the network requires it, does not require it without being
  capable, and, if capable, uses CCMP and the group management cipher of the network; under countermeasures
  neither its pairwise nor its group cipher is TKIP.  The node has the parameters of the element and the group
  ciphers of the network, its port is closed until the handshake, its cipher is the one that it asked for, and
  its management frame protection flag is as before.\<close>

theorem association_follows_policy:
  assumes "recv_assoc_req H m (Peer a) rxi reassoc s = Some s'" and "m_flag (as_m s) F_RSNON"
    and "find_node (as_m s) a = Some n" and "bn_state n = STA_AUTH"
    and "find_node (as_m s') a = Some n'" and "bn_state n' = STA_ASSOC"
  shows "\<exists>rsn proto e k.
    request_rsn (req_ies_of (drop (if reassoc then 10 else 4) (frame_body m))) = (Some (0, rsn, proto, e), k) \<and>
    has_flag (m_rsnprotos (as_m s)) proto \<and> policy_allows (m_flags (as_m s)) (m_bss (as_m s)) rsn \<and>
    sec n' = (rsn_akms rsn, rsn_ciphers rsn, bn_rsngroupcipher (m_bss (as_m s)), bn_rsngroupmgmtcipher (m_bss (as_m s)),
      rsn_caps rsn, proto) \<and>
    \<not> bn_port_valid n' \<and> bn_rsncipher n' = rsn_ciphers rsn \<and>
    has_flag (bn_flags n') NODE_MFP = has_flag (bn_flags n) NODE_MFP"
proof -
  let ?b = "has_flag (bn_flags n) NODE_MFP" and ?q = "req_ies_of (drop (if reassoc then 10 else 4) (frame_body m))"
  have wait: "node_is a (waiting ?b) (as_m s)" using assms(3,4) by (simp add: node_is_def waiting_def mfp_def)
  let ?s = "\<lambda>ies k. ap_log_times k (Ap_Stat As_Elem_Toosmall) (save_request_ies H (Peer a) ies s)"
  have conf: "rsn_conf (?s ies k) = rsn_conf s" for ies k by (simp add: save_request_ies_def)
  have w: "node_is a (waiting ?b) (as_m (?s ies k))" for ies k
    using wait by (auto simp: save_request_ies_def mfp_def simp del: as_m_ops(7) intro!: waiting_upd)
  have not: "\<not> node_is a (waiting ?b) (as_m s')"
    using assms(5,6) by (auto simp: node_is_def waiting_def)
  have state: "bn_state (ap_node (?s ies k) (Peer a)) = STA_AUTH" for ies k
    using w [of k ies] ap_node_find by (auto simp: node_is_def waiting_def)
  have check: "joined (conf_grants s q) ?b n'"
    if "assoc_check H (Peer a) rxi c i q rates (?s ies k) = (0, t)" "node_join H (Peer a) resp t = Some s'"
    for c i q rates ies k t resp
  proof -
    have on: "m_flag (as_m (?s ies k)) F_RSNON" using rsnon_conf [OF conf] assms(2) by simp
    have "node_is a (accepted (conf_grants (?s ies k) q) ?b) (as_m t)"
      using assoc_check_ok [OF w on that(1)] .
    then have acc: "node_is a (accepted (conf_grants s q) ?b) (as_m t)" unfolding conf_grants_cong [OF conf] .
    have "rsn_conf t = rsn_conf s" using conf_check [of H a rxi c i q rates "?s ies k"] conf [of k ies] that(1) by simp
    then have "rsnon (as_m t)" using rsnon_conf [of t s] assms(2) by (simp add: rsnon_def)
    then show ?thesis using join_joined [OF acc _ that(2) assms(5,6)] by simp
  qed
  have left: False if "ap_node_leave H (Peer a) t = Some s'" for t
    using leave_collects [OF that assms(5)] assms(6) by simp
  have "joined (conf_grants s ?q) ?b n'"
    using assms(1) not wait unfolding recv_assoc_req_def Let_def
    by (auto simp: state w [simplified] split: if_splits option.splits prod.splits dest: check left)
  then show ?thesis
    by (auto simp: joined_def conf_grants_def grants_def mfp_def sec_def)
qed

end
