(* ===== verification/ApDemo.thy ===== *)
theory ApDemo
  imports ApProps ApPolicy SuppDemo ReceiveProps
begin

unbundle bit_operations_syntax

text \<open>
  An access point at work: a station authenticates and asks for an association with an RSN element; the
  properties of the identifiers and of the policy at that input.
\<close>

definition ap_demo_hooks :: ap_hooks where
  "ap_demo_hooks = \<lparr>ah_m = demo_hk, ah_pae = SuppDemo.demo_hooks, ah_newassoc = True, ah_node_leave = True\<rparr>"

definition ap_demo :: aps where
  "ap_demo = \<lparr>as_rx = (rx_demo 0 False zero_key zero_key)\<lparr>rs_m := demo_mlme\<lparr>m_opmode := M_HOSTAP, m_state := S_RUN,
       m_flags := F_RSNON,
       m_bss := zero_node\<lparr>bn_bssid := [2, 0, 0, 0, 0, 9], bn_esslen := 2, bn_essid := [0x61, 0x62] @ replicate 30 0,
         bn_chan := Some 1, bn_rsnakms := AKM_PSK, bn_rsnciphers := CIPHER_CCMP, bn_rsngroupcipher := CIPHER_CCMP,
         bn_rsnprotos := PROTO_RSN\<rparr>,
       m_tree := [], m_nnodes := 0, m_rsnprotos := PROTO_RSN, m_rsnakms := AKM_PSK, m_rsnciphers := CIPHER_CCMP,
       m_rsngroupcipher := CIPHER_CCMP\<rparr>\<rparr>,
     as_pae = (\<lambda>_. demo_sta_node), as_ic = demo_sta_com, as_max_aid = 64, as_sa_count = (\<lambda>_. 0),
     as_supported = (\<lambda>_. (0, 0)), as_consumer = Some (1, 2), as_log = []\<rparr>"

definition ap_demo_head :: "u8 \<Rightarrow> mbuf" where
  "ap_demo_head st = [st, 0, 0, 0, 2, 0, 0, 0, 0, 9, 2, 0, 0, 0, 0, 3, 2, 0, 0, 0, 0, 9, 0, 0]"

definition ap_demo_auth :: mbuf where
  "ap_demo_auth = ap_demo_head 0xb0 @ [0, 0, 1, 0, 0, 0]"

definition ap_demo_assoc :: mbuf where
  "ap_demo_assoc = ap_demo_head 0 @ [0x11, 0, 10, 0, 0, 2, 0x61, 0x62, 1, 1, 0x0c, 48, 20, 1, 0, 0, 0x0f, 0xac, 4,
     1, 0, 0, 0x0f, 0xac, 4, 1, 0, 0, 0x0f, 0xac, 2, 0, 0]"

definition ap_demo_authed :: aps where
  "ap_demo_authed = (case recv_auth demo_hk ap_demo_auth Bss (rx_demo_info 0) (as_m ap_demo) of
     Done t \<Rightarrow> on_m (\<lambda>_. t) ap_demo | _ \<Rightarrow> ap_demo)"

definition ap_demo_request :: "aps option" where
  "ap_demo_request =
     recv_assoc_req ap_demo_hooks ap_demo_assoc (Peer [2, 0, 0, 0, 0, 3]) (rx_demo_info 0) False ap_demo_authed"

lemma ap_demo_authed_node:
  "map (\<lambda>n. (bn_macaddr n, bn_state n)) (m_tree (as_m ap_demo_authed)) = [([2, 0, 0, 0, 0, 3], STA_AUTH)]"
  "m_flags (as_m ap_demo_authed) = F_RSNON"
  by code_simp+

lemma ap_demo_request_node:
  "map_option (\<lambda>s. map (\<lambda>n. (bn_macaddr n, bn_state n, bn_associd n)) (m_tree (as_m s))) ap_demo_request
   = Some [([2, 0, 0, 0, 0, 3], STA_ASSOC, 0xc001)]"
  by code_simp

lemma ap_demo_auth_done: "case recv_auth demo_hk ap_demo_auth Bss (rx_demo_info 0) (as_m ap_demo) of Done _ \<Rightarrow> True | _ \<Rightarrow> False"
  by code_simp

lemma ap_demo_authed_node':
  obtains n where "find_node (as_m ap_demo_authed) [2, 0, 0, 0, 0, 3] = Some n" "bn_state n = STA_AUTH"
  using ap_demo_authed_node(1) by (auto simp: find_node_def map_eq_Cons_conv)

lemma ap_demo_request_node':
  obtains s n where "ap_demo_request = Some s" "m_tree (as_m s) = [n]" "bn_macaddr n = [2, 0, 0, 0, 0, 3]"
    "bn_state n = STA_ASSOC" "bn_associd n = 0xc001"
  using ap_demo_request_node by (auto simp: map_eq_Cons_conv)

theorem association_ids_unique_witness:
  "\<exists>s n. ap_reach ap_demo_hooks ap_demo s \<and> n \<in> set (m_tree (as_m s)) \<and> bn_associd n = 0xc001 \<and>
     m_aid_bitmap (as_m s) (aid_bit 0xc001)"
proof -
  obtain t where t: "recv_auth (ah_m ap_demo_hooks) ap_demo_auth Bss (rx_demo_info 0) (as_m ap_demo) = Done t"
    using ap_demo_auth_done by (auto simp: ap_demo_hooks_def split: outcome.splits)
  then have authed: "ap_demo_authed = on_m (\<lambda>_. t) ap_demo" by (simp add: ap_demo_authed_def ap_demo_hooks_def)
  obtain s n where s: "ap_demo_request = Some s" and n: "m_tree (as_m s) = [n]" "bn_associd n = 0xc001"
    by (rule ap_demo_request_node')
  have "ap_step ap_demo_hooks ap_demo ap_demo_authed" unfolding authed by (rule ap_step.auth [OF t])
  moreover have "ap_step ap_demo_hooks ap_demo_authed s"
    using s unfolding ap_demo_request_def by (rule ap_step.assoc)
  ultimately have r: "ap_reach ap_demo_hooks ap_demo s" by (meson ap_reach.intros)
  have "m_opmode (as_m ap_demo) = M_HOSTAP" "m_tree (as_m ap_demo) = []" "m_nnodes (as_m ap_demo) = 0"
    "unat (as_max_aid ap_demo) \<le> 0x4000" by (simp_all add: ap_demo_def as_m_def rx_demo_def)
  from association_ids_unique [OF r this, of n] n r show ?thesis by auto
qed

theorem association_follows_policy_witness:
  "\<exists>s n. ap_demo_request = Some s \<and> find_node (as_m s) [2, 0, 0, 0, 0, 3] = Some n \<and>
     (\<exists>rsn. policy_allows F_RSNON (m_bss (as_m ap_demo_authed)) rsn \<and> bn_rsnciphers n = rsn_ciphers rsn) \<and>
     \<not> bn_port_valid n"
proof -
  obtain k where k: "find_node (as_m ap_demo_authed) [2, 0, 0, 0, 0, 3] = Some k" "bn_state k = STA_AUTH"
    by (rule ap_demo_authed_node')
  obtain s n where s: "ap_demo_request = Some s" and n: "m_tree (as_m s) = [n]" "bn_macaddr n = [2, 0, 0, 0, 0, 3]"
    "bn_state n = STA_ASSOC" by (rule ap_demo_request_node')
  have f: "find_node (as_m s) [2, 0, 0, 0, 0, 3] = Some n" using n by (simp add: find_node_def)
  have "m_flag (as_m ap_demo_authed) F_RSNON" by (simp add: m_flag_def has_flag_def ap_demo_authed_node(2))
  from association_follows_policy [OF s [unfolded ap_demo_request_def] this k f n(3)]
  have "(\<exists>rsn. policy_allows F_RSNON (m_bss (as_m ap_demo_authed)) rsn \<and> bn_rsnciphers n = rsn_ciphers rsn) \<and>
      \<not> bn_port_valid n"
    by (auto simp: ap_demo_authed_node(2) sec_def)
  with s f show ?thesis by blast
qed

end
