(* ===== verification/TransmitDemo.thy ===== *)
theory TransmitDemo
  imports TransmitProps ApDemo
begin

unbundle bit_operations_syntax

text \<open>
  The transmit path at work: a station of an RSN network with protected transmissions, and the properties of the
  path at that input.
\<close>

definition tx_demo_env :: tx_env where
  "tx_demo_env = \<lparr>te_hk = demo_hk, te_pullup = True, te_prepend = True, te_stack = replicate 40 0,
     te_newassoc = False, te_ifq_maxlen = 256\<rparr>"

definition tx_demo :: txs where
  "tx_demo = \<lparr>tx_ap = ap_demo\<lparr>as_rx := (rx_demo 0 False zero_key zero_key)\<lparr>rs_m := demo_mlme\<lparr>m_state := S_RUN, m_flags := F_RSNON,
       m_bss := zero_node\<lparr>bn_bssid := [2, 0, 0, 0, 0, 9], bn_flags := NODE_TXPROT, bn_port_valid := True,
         bn_savedq := [[8, 2], [8, 2]], bn_chan := Some 1\<rparr>, m_tree := [], m_nnodes := 0\<rparr>,
       rs_node := (\<lambda>_. \<lparr>rn_rxseq = 0, rn_qos_rxseqs = replicate 16 0, rn_doze = False,
         rn_ba = rx_demo_ba\<lparr>ni_qos_txseqs := replicate 16 0\<rparr>\<rparr>)\<rparr>\<rparr>,
     tx_seq = (\<lambda>_. 4095), tx_mgtq = [], tx_pwrsaveq = [], tx_tim = (\<lambda>_. False), tx_mcast = True, tx_log = []\<rparr>"

text \<open>An Ethernet frame with IPv4 that asks for the precedence of video.\<close>

definition tx_demo_ether :: mbuf where
  "tx_demo_ether = [2, 0, 0, 0, 0, 3, 2, 0, 0, 0, 0, 7, 8, 0, 0x45, 0x20, 0, 20] @ replicate 16 5"

definition tx_demo_frame :: mbuf where
  "tx_demo_frame = [0x08, 0x41, 0, 0, 2, 0, 0, 0, 0, 9, 2, 0, 0, 0, 0, 7, 2, 0, 0, 0, 0, 3, 0xf0, 0xff,
     0xaa, 0xaa, 3, 0, 0, 0, 8, 0, 0x45, 0x20, 0, 20] @ replicate 16 5"

lemma tx_demo_encap: "map_option fst (fst (encap tx_demo_env tx_demo_ether tx_demo)) = Some tx_demo_frame"
  "map_option snd (fst (encap tx_demo_env tx_demo_ether tx_demo)) = Some Bss"
  by code_simp+

lemma tx_demo_sent:
  obtains c s where "encap tx_demo_env tx_demo_ether tx_demo = (Some (tx_demo_frame, Bss), c, s)"
proof -
  obtain x c s where e: "encap tx_demo_env tx_demo_ether tx_demo = (x, c, s)" using prod_cases3 by blast
  then have "x = Some (tx_demo_frame, Bss)" using tx_demo_encap by (cases x) auto
  then show thesis using that e by blast
qed

lemma tx_demo_bssids: "bssids_ok (tx_m tx_demo)"
  by (simp add: bssids_ok_def tx_demo_def tx_m_def as_m_def ap_demo_def rx_demo_def)

theorem transmitted_data_controlled_witness:
  "\<exists>c s. encap tx_demo_env tx_demo_ether tx_demo = (Some (tx_demo_frame, Bss), c, s) \<and> tx_protects s Bss"
proof -
  obtain c s where e: "encap tx_demo_env tx_demo_ether tx_demo = (Some (tx_demo_frame, Bss), c, s)" by (rule tx_demo_sent)
  have "has_flag (byte_at tx_demo_frame 1) FC1_PROTECTED" by (simp add: tx_demo_frame_def has_flag_def)
  then have "tx_protects s Bss" using transmitted_data_controlled [OF e tx_demo_bssids] by blast
  then show ?thesis using e by blast
qed

theorem transmitted_data_received_witness:
  "map (map_sum id (\<lambda>f. decap_ether f (get_hdrlen f)))
     (stream demo_env demo_prims (demo_sw_key CIPHER_CCMP 4 (Ccmp_Ctx [9])) (demo_sw_key CIPHER_CCMP 0 (Ccmp_Ctx [9]))
       [tx_demo_frame, tx_demo_frame]) = [Inr tx_demo_ether, Inr tx_demo_ether]"
proof -
  obtain c s where e: "encap tx_demo_env tx_demo_ether tx_demo = (Some (tx_demo_frame, Bss), c, s)" by (rule tx_demo_sent)
  let ?xs = "[(tx_demo_ether, tx_demo_frame), (tx_demo_ether, tx_demo_frame)]"
  have "\<exists>E s r c s'. bssids_ok (tx_m s) \<and> encap E tx_demo_ether s = (Some (tx_demo_frame, r), c, s')"
    using e tx_demo_bssids by blast
  then have "\<forall>(m, f) \<in> set ?xs. \<exists>E s r c s'. bssids_ok (tx_m s) \<and> encap E m s = (Some (f, r), c, s')"
    by simp
  then have "map (map_sum id (\<lambda>f. decap_ether f (get_hdrlen f)))
     (stream demo_env demo_prims (demo_sw_key CIPHER_CCMP 4 (Ccmp_Ctx [9])) (demo_sw_key CIPHER_CCMP 0 (Ccmp_Ctx [9]))
       (map snd ?xs)) = map (Inr \<circ> fst) ?xs"
    by (rule transmitted_data_received [OF _ demo_prims_ok, where ta = "[]"])
      (simp_all add: mem_ok_def demo_env_def step_defs demo_sw_key_def zero_key_def has_flag_def)
  then show ?thesis by simp
qed

theorem classified_traffic_demoted_witness:
  "classify [] tx_demo_ether = ac_number AC_Vi \<and> up_to_ac demo_mlme (classify [] tx_demo_ether) = AC_Bk"
proof -
  have "classify [] tx_demo_ether = ac_number AC_Vi" by code_simp
  with classified_traffic_demoted [of demo_mlme "[]" tx_demo_ether] show ?thesis by simp
qed

lemma tx_demo_ready: "tx_ready tx_demo"
  by (simp add: tx_ready_def addrs_ok_def tx_m_def as_m_def tx_ba_node_def)
    (simp add: tx_demo_def ap_demo_def rx_demo_def rx_demo_ba_def demo_mlme_def bssids_ok_def zero_node_def)

text \<open>A data frame, a disassociation, a data frame.\<close>

definition tx_demo_items :: "tx_item list" where
  "tx_demo_items = [Data_Item tx_demo_ether, Mgmt_Item Bss [8, 0] ST_DISASSOC, Data_Item tx_demo_ether, Other_Item id]"

lemma tx_demo_run: "length (filter (\<lambda>f. \<not> has_qos f) (sent tx_demo_env tx_demo_items tx_demo)) = 3"
  by code_simp

theorem sequence_numbers_consecutive_witness:
  "map frame_seq (filter (\<lambda>f. \<not> has_qos f) (sent tx_demo_env tx_demo_items tx_demo)) = [4095, 0, 1]"
proof -
  have "\<forall>x \<in> set tx_demo_items. item_ok 0 x" by (simp add: tx_demo_items_def item_ok_def leaves_counter_def)
  moreover have "fst (counters tx_demo) = 4095" by (simp add: counters_def tx_demo_def)
  moreover have "numbers_from 4095 3 = [4095, 0, 1]" by (simp add: numbers_from_def upt_rec)
  ultimately show ?thesis
    using sequence_numbers_consecutive [OF tx_demo_ready, of tx_demo_items 0 tx_demo_env] tx_demo_run
    by simp
qed

theorem group_frames_follow_dtim_witness:
  "tx_pwrsaveq (notify_dtim tx_demo_env tx_demo) = [[8, 0x22], [8, 2]]"
proof -
  have ms: "bn_savedq (m_bss (tx_m tx_demo)) = [[8, 2], [8, 2]]" "tx_pwrsaveq tx_demo = []" "te_ifq_maxlen tx_demo_env = 256"
    by (simp_all add: tx_demo_def tx_m_def as_m_def ap_demo_def rx_demo_def tx_demo_env_def)
  have "length (tx_pwrsaveq tx_demo) + length (bn_savedq (m_bss (tx_m tx_demo))) \<le> te_ifq_maxlen tx_demo_env" by (simp add: ms)
  from group_frames_follow_dtim [OF this] show ?thesis by (simp add: ms upt_rec byte_at_def)
qed

end
