(* ===== verification/PaeLink.thy ===== *)
theory PaeLink
  imports SuppGroup
begin

text \<open>
  How EAPOL-Key frames and group keys of the host change the link: the handlers of a station raise it when the port
  opens, and they ask for a new scan, at most one of the two and as their last step of this kind.  Further, the
  installation of a group key by the host (\<^verbatim>\<open>setGTK\<close> of \<^verbatim>\<open>AirportItlwm.cpp\<close>), which the builds with the supplicant
  of the system use.
\<close>

section \<open>A group key from the host\<close>

definition set_gtk_open :: "pae \<Rightarrow> pae" where
  "set_gtk_open s =
     (let (done, s) = count_key (set_flags NODE_TXRXPROT s) in
      if done
      then let s = clear_assoc_fail (open_port s)
           in if opmode s = M_STA then s\<lparr>p_ic := (p_ic s)\<lparr>pc_rsngroupcipher := mn_rsngroupcipher (p_ni s)\<rparr>\<rparr> else s
      else s)"

definition set_gtk :: "pae_hooks \<Rightarrow> u8 list option \<Rightarrow> u8 \<Rightarrow> u8 list \<Rightarrow> pae \<Rightarrow> pae" where
  "set_gtk H gtk kid rsc s =
     (case gtk of
        None \<Rightarrow> set_gtk_open s
      | Some gtk \<Rightarrow>
          if length gtk \<noteq> cipher_keylen (mn_rsngroupcipher (p_ni s)) then s
          else let (r, s) = install_gtk H kid False rsc (length gtk) gtk s
               in if r \<noteq> Key_Ok then s else set_gtk_open s)"

section \<open>Changes of the link and new scans\<close>

fun marked :: "pae_event \<Rightarrow> bool" where
  "marked Ev_Scan = True"
| "marked (Ev_Link l) = True"
| "marked _ = False"

definition marks :: "pae \<Rightarrow> pae_event list" where
  "marks s = filter marked (p_log s)"

lemma marks_core: "core s' = core s \<Longrightarrow> marks s' = marks s"
proof -
  have "filter marked (filter (\<lambda>e. \<not> is_tx e) l) = filter marked l" for l
  proof (induction l)
    case (Cons e l)
    then show ?case by (cases e) auto
  qed simp
  then have "marks (core t) = marks t" for t by (simp add: marks_def core_def)
  then show "core s' = core s \<Longrightarrow> marks s' = marks s" by metis
qed

lemma marks_emit: "marks (emit e s) = marks s @ (if marked e then [e] else [])"
  by (simp add: marks_def emit_def)

lemma marks_fields [simp]:
  "marks (set_flags f s) = marks s" "marks (clear_flags f s) = marks s" "marks (clear_assoc_fail s) = marks s"
  "marks (note_ptk H key s) = marks s" "marks (note_replaycnt key s) = marks s" "marks (s\<lparr>p_ni := ni\<rparr>) = marks s"
  "marks (s\<lparr>p_ic := ic\<rparr>) = marks s" "marks (msg1_accept H key pmk s) = marks s"
  by (simp_all add: marks_def set_flags_def clear_flags_def clear_assoc_fail_def note_ptk_def note_replaycnt_def
      msg1_accept_def Let_def)

lemma marks_open_port: "marks (open_port s) = marks s \<or> (\<exists>l. marks (open_port s) = marks s @ [Ev_Link l])"
  by (simp add: open_port_def set_link_state_def Let_def marks_emit)

lemma marks_deauth [simp]: "marks (supp_deauth reason s) = marks s @ [Ev_Scan]"
  by (simp add: supp_deauth_def marks_emit)

lemma marks_count: "count_key s = (b, s') \<Longrightarrow> marks s' = marks s"
  by (auto simp: count_key_def Let_def split: if_splits)

lemma marks_installs:
  "install_pairwise H k s = (r, s') \<Longrightarrow> marks s' = marks s" "install_group H i k s = (r, s') \<Longrightarrow> marks s' = marks s"
  by (auto simp: install_pairwise_def install_group_def marks_emit split: prod.splits)

lemma marks_install_gtk: "install_gtk H kid tx rsc len gtk s = (r, s') \<Longrightarrow> marks s' = marks s"
  by (auto simp: install_gtk_def dest: marks_installs split: if_splits)

lemma marks_install_igtk: "install_igtk H igtk s = (r, s') \<Longrightarrow> marks s' = marks s"
  by (auto simp: install_igtk_def Let_def dest: marks_installs split: if_splits)

lemma marks_opt_igtk: "opt_igtk H igtk s = (r, s') \<Longrightarrow> marks s' = marks s"
  by (auto simp: opt_igtk_def dest: marks_install_igtk split: option.splits)

lemma marks_msg3_keys:
  "msg3_install_ptk H key ies s = (r, s') \<Longrightarrow> marks s' = marks s"
  "msg3_install_gtk H key ies s = (r, s') \<Longrightarrow> marks s' = marks s"
  "msg3_install_igtk H ies s = (r, s') \<Longrightarrow> marks s' = marks s"
  by (auto simp: msg3_install_ptk_def msg3_install_gtk_def msg3_install_igtk_def Let_def
      dest: marks_installs marks_install_gtk marks_install_igtk split: if_splits prod.splits option.splits)

lemma marks_msg3_second: "msg3_second ies s = Some s' \<Longrightarrow> marks s' = marks s"
  by (auto simp: msg3_second_def second_rsnie_def Let_def marks_emit split: option.splits if_splits prod.splits)

text \<open>What a handler adds: nothing, a new scan, or a change of the link.\<close>

definition ends :: "pae \<Rightarrow> pae \<Rightarrow> bool" where
  "ends s s' \<longleftrightarrow> marks s' = marks s \<or> marks s' = marks s @ [Ev_Scan] \<or> (\<exists>l. marks s' = marks s @ [Ev_Link l])"

lemma ends_same: "marks s' = marks s \<Longrightarrow> ends s s'"
  by (simp add: ends_def)

lemma ends_deauth: "marks t = marks s \<Longrightarrow> ends s (supp_deauth reason t)"
  by (simp add: ends_def)

lemma ends_fields [simp]:
  "ends s (clear_assoc_fail t) = ends s t" "ends s (t\<lparr>p_ni := ni\<rparr>) = ends s t" "ends s (t\<lparr>p_ic := ic\<rparr>) = ends s t"
  by (simp_all add: ends_def)

lemma ends_port: "marks t = marks s \<Longrightarrow> ends s (open_port t)"
  using marks_open_port [of t] by (auto simp: ends_def)

lemma ends_msg3_open: "marks t = marks s \<Longrightarrow> ends s (msg3_open_port d t)"
proof -
  assume t: "marks t = marks s"
  have "ends s (emit Ev_Handshake_Done u) = ends s u" for u by (simp add: ends_def marks_emit)
  then show ?thesis using t by (simp add: msg3_open_port_def Let_def ends_port ends_same)
qed

lemma ends_msg3_finish: "marks t = marks s \<Longrightarrow> ends s (msg3_finish info d t)"
proof -
  assume t: "marks t = marks s"
  obtain b u where u: "count_key (set_flags NODE_TXRXPROT (if has_flag info EAPOL_KEY_INSTALL then set_flags NODE_TXRXPROT t else t)) = (b, u)"
    by fastforce
  have "marks u = marks s" using marks_count [OF u] t by simp
  then show ?thesis using t u by (simp add: msg3_finish_def Let_def ends_msg3_open ends_same)
qed

lemma ends_msg3_install: "marks t = marks s \<Longrightarrow> ends s (msg3_install H key ies t)"
  by (auto simp: msg3_install_def split: prod.splits dest!: marks_msg3_keys intro: ends_deauth ends_msg3_finish)

lemma ends_msg3:
  assumes "recv_4way_msg3 H key s = Some s'"
  shows "ends s s'"
  using assms
proof (cases rule: msg3_cases)
  case (verified key')
  from verified(5) show ?thesis
  proof (cases rule: msg3_process_cases)
    case (accepted s1 e s2)
    have "marks s2 = marks s"
      using marks_msg3_second [OF accepted(1)] marks_core [OF send_4way_msg4_core [OF accepted(2)]] by simp
    then show ?thesis using accepted(3) ends_same ends_msg3_install by simp
  qed (simp_all add: ends_same ends_deauth)
qed (simp_all add: ends_same marks_emit)

lemma ends_group_done:
  assumes "group_msg1_done H key k t = Some s'" "marks t = marks s"
  shows "ends s s'"
  using assms(1)
proof (rule group_done_cases)
  fix e assume "send_group_msg2 H k ((group_port key t)\<lparr>p_ni := (p_ni (group_port key t))
    \<lparr>pn_replaycnt := ek_replaycnt key\<rparr>\<rparr>) = Some (e, s')"
  from marks_core [OF send_group_msg2_core [OF this]] have m: "marks s' = marks (group_port key t)" by simp
  have "ends s (group_port key t)"
    using assms(2) by (auto simp: group_port_def split: prod.splits dest!: marks_count intro: ends_same ends_port)
  then show ?thesis using m by (simp add: ends_def)
qed

lemma ends_rsn_install:
  assumes "rsn_group_install H key s = Some s'"
  shows "ends s s'"
  using assms
  by (cases rule: rsn_install_cases)
    (auto dest!: marks_install_gtk marks_opt_igtk intro: ends_same ends_deauth ends_group_done)

lemma ends_wpa_install:
  assumes "wpa_group_install H key s = Some s'"
  shows "ends s s'"
  using assms
  by (cases rule: wpa_install_cases) (auto dest!: marks_install_gtk intro: ends_same ends_deauth ends_group_done)

lemma ends_rsn_group: "recv_rsn_group_msg1 H key s = Some s' \<Longrightarrow> ends s s'"
  by (cases rule: rsn_group_cases) (auto simp: ends_same marks_emit dest!: ends_rsn_install)

lemma ends_wpa_group: "recv_wpa_group_msg1 H key s = Some s' \<Longrightarrow> ends s s'"
  by (cases rule: wpa_group_cases) (auto simp: ends_same marks_emit dest!: ends_wpa_install)

lemma ends_msg1: "recv_4way_msg1 H key s = Some s' \<Longrightarrow> marks s' = marks s"
  by (cases rule: msg1_cases) (auto simp: marks_emit dest!: send_4way_msg2_core [THEN marks_core])

text \<open>An uninitialised supplicant leaves the link alone.\<close>

lemma initial_keeps:
  assumes "pn_rsn_supp_state (p_ni s) = SUPP_INITIALIZE"
  shows "recv_4way_msg3 H key s = Some s' \<Longrightarrow> marks s' = marks s"
    "recv_rsn_group_msg1 H key s = Some s' \<Longrightarrow> marks s' = marks s"
    "recv_wpa_group_msg1 H key s = Some s' \<Longrightarrow> marks s' = marks s"
  using assms
  by (auto simp: recv_4way_msg3_def msg3_refused_def recv_rsn_group_msg1_def recv_wpa_group_msg1_def
      group_msg1_refused_def Let_def marks_emit split: if_splits)

text \<open>A received EAPOL frame, unless this is an access point or an ad hoc network.\<close>

lemma eapol_ends:
  assumes "eapol_key_input H sec m s = Some s'" "opmode s \<noteq> M_HOSTAP" "opmode s \<noteq> M_IBSS"
  shows "ends s s' \<and> (pn_rsn_supp_state (p_ni s) = SUPP_INITIALIZE \<longrightarrow> marks s' = marks s)"
proof -
  let ?t = "emit (Ev_Stat Rx_Eapol_Key) s"
  have t: "marks ?t = marks s" "p_ni ?t = p_ni s" "opmode ?t = opmode s"
    by (simp_all add: marks_emit) (simp_all add: emit_def opmode_def)
  have d: "ends ?t s'" "pn_rsn_supp_state (p_ni ?t) = SUPP_INITIALIZE \<Longrightarrow> marks s' = marks ?t"
    if e: "eapol_dispatch H sec key ?t = Some s'" for key
  proof -
    consider "marks s' = marks ?t" | "recv_4way_msg3 H key ?t = Some s'" | "recv_rsn_group_msg1 H key ?t = Some s'"
      | "recv_wpa_group_msg1 H key ?t = Some s'"
      using e assms(2,3) t(3)
      by (auto simp: eapol_dispatch_def Let_def recv_eapol_key_req_def recv_4way_msg2or4_def recv_4way_msg2_def
          recv_4way_msg4_def recv_group_msg2_def marks_emit split: if_splits option.splits dest: ends_msg1)
    note c = this
    show "ends ?t s'" by (rule c) (auto intro: ends_same ends_msg3 ends_rsn_group ends_wpa_group)
    show "marks s' = marks ?t" if "pn_rsn_supp_state (p_ni ?t) = SUPP_INITIALIZE"
      by (rule c) (auto intro: initial_keeps [OF that])
  qed
  moreover have "marks s' = marks s" if "s' = s \<or> s' = ?t \<or> s' = emit (Ev_Stat Rx_Nombuf) s \<or> s' = emit (Ev_Stat Rx_Nombuf) ?t"
    using that t(1) by (auto simp: marks_emit)
  moreover have "(\<exists>key. eapol_dispatch H sec key ?t = Some s') \<or>
      s' = s \<or> s' = ?t \<or> s' = emit (Ev_Stat Rx_Nombuf) s \<or> s' = emit (Ev_Stat Rx_Nombuf) ?t"
    using assms(1) unfolding eapol_key_input_def Let_def by (auto split: if_splits)
  ultimately show ?thesis using d t(1,2) by (auto simp: ends_def)
qed

lemma set_gtk_ends: "ends s (set_gtk H gtk kid rsc s)"
proof -
  have op: "ends s (set_gtk_open t)" if "marks t = marks s" for t
    using that by (auto simp: set_gtk_open_def Let_def split: prod.splits dest!: marks_count intro: ends_same ends_port)
  then show ?thesis
    by (auto simp: set_gtk_def Let_def split: option.splits prod.splits dest!: marks_install_gtk intro: ends_same)
qed

end
