(* ===== verification/LinkState.thy ===== *)
theory LinkState
  imports PaeLink ApDemo
begin

text \<open>
  The link of the interface under everything that can change it: the events of the state machine, EAPOL frames and
  group keys from the host.  The drivers otherwise only take the link down.
\<close>

section \<open>Events of the interface\<close>

text \<open>The state for the handlers of EAPOL frames, with the fields that they share with the state machine brought up
  to date, and what they leave.\<close>

definition eapol_view :: "aps \<Rightarrow> node_ref \<Rightarrow> pae" where
  "eapol_view s r =
     (let p = pae_view s r; n = ap_node s r; m = as_m s
      in p\<lparr>p_ni := (p_ni p)\<lparr>pn_rsn_supp_state := bn_supp_state n, pn_replaycnt_ok := bn_replaycnt_ok n,
               pn_assoc_fail := bn_assoc_fail n\<rparr>,
            p_ic := (p_ic p)\<lparr>pc_link_state := m_link m, pc_pmksa := m_pmksa m, pc_rsnciphers := m_rsnciphers m,
               pc_rsngroupcipher := m_rsngroupcipher m\<rparr>\<rparr>)"

definition eapol_back :: "node_ref \<Rightarrow> pae \<Rightarrow> aps \<Rightarrow> aps" where
  "eapol_back r p s =
     on_m (\<lambda>m. (upd_node r (\<lambda>n. n\<lparr>bn_supp_state := pn_rsn_supp_state (p_ni p), bn_replaycnt_ok := pn_replaycnt_ok (p_ni p),
                  bn_assoc_fail := pn_assoc_fail (p_ni p)\<rparr>) m)\<lparr>m_rsngroupcipher := pc_rsngroupcipher (p_ic p)\<rparr>)
       (pae_back r p s)"

text \<open>What a handler has done to the state machine, carried out in order: changes of the link, deauthentication
  frames, and calls of \<^verbatim>\<open>ieee80211_new_state\<close> with all that follows from them.\<close>

fun replay :: "mlme_hooks \<Rightarrow> node_ref \<Rightarrow> pae_event list \<Rightarrow> mlme \<Rightarrow> outcome option" where
  "replay H r [] m = Some (Done m)"
| "replay H r (e # es) m =
     (case e of
        pae_event.Ev_Link l \<Rightarrow> replay H r es (m_set_link_state l m)
      | Ev_Deauth reason \<Rightarrow> replay H r es (snd (send_mgmt H r ST_DEAUTH (ucast reason) m))
      | Ev_Scan \<Rightarrow> (case run H (Call (New_State S_SCAN None) m) of
                     Some (Done t) \<Rightarrow> replay H r es t
                   | x \<Rightarrow> x)
      | _ \<Rightarrow> replay H r es m)"

datatype if_input = If_Mlme mlme_input | If_Eapol int mbuf node_ref | If_Set_Gtk "u8 list option" u8 "u8 list"

definition if_event :: "mlme_hooks \<Rightarrow> pae_hooks \<Rightarrow> if_input \<Rightarrow> aps \<Rightarrow> outcome option" where
  "if_event H P i s =
     (case i of
        If_Mlme j \<Rightarrow> run H (mlme_input H j (as_m s))
      | If_Eapol pl f r \<Rightarrow>
          (case eapol_key_input P pl f (eapol_view s r) of
             None \<Rightarrow> Some Panicked
           | Some p \<Rightarrow> replay H r (p_log p) (as_m (eapol_back r p s)))
      | If_Set_Gtk gtk kid rsc \<Rightarrow>
          (let p = set_gtk P gtk kid rsc (eapol_view s Bss) in replay H Bss (p_log p) (as_m (eapol_back Bss p s))))"

section \<open>The handlers do not look at the state\<close>

text \<open>A handler of EAPOL frames behaves alike in every state of the state machine.\<close>

lemma eapol_ignores_state: "eapol_view (on_m (\<lambda>m. m\<lparr>m_state := st\<rparr>) s) r = eapol_view s r"
proof -
  have n: "the_node (m\<lparr>m_state := st\<rparr>) r = the_node m r" for m
    by (simp add: the_node_def node_at_def find_node_def split: node_ref.split)
  have m: "as_m (on_m f s) = f (as_m s)" "as_pae (on_m f s) = as_pae s" "as_ic (on_m f s) = as_ic s" for f
    by (simp_all add: as_m_def on_m_def upd_m_def)
  show ?thesis
    by (simp add: eapol_view_def pae_view_def ap_node_def pae_com_in_def Let_def m n)
qed

text \<open>The host's group key raises the link in every state.\<close>

lemma host_key_raises_link:
  assumes "m_opmode (as_m s) = M_STA" "if_event H P (If_Set_Gtk None kid rsc) s = Some (Done m')"
  shows "m_link m' = LINK_UP \<and> m_state m' = m_state (as_m s)"
proof -
  let ?v = "eapol_view s Bss"
  have v: "opmode ?v = M_STA" "p_log ?v = []" "pc_link_state (p_ic ?v) = m_link (as_m s)"
    using assms(1) by (simp_all add: eapol_view_def pae_view_def opmode_def pae_com_in_def Let_def)
  have log: "p_log (set_gtk P None kid rsc ?v) = (if m_link (as_m s) = LINK_UP then [] else [pae_event.Ev_Link LINK_UP])"
    using v by (simp add: set_gtk_def set_gtk_open_def count_key_def open_port_def set_link_state_def clear_assoc_fail_def
        opmode_def set_flags_def emit_def Let_def)
  have core: "MlmeProps.core (as_m (eapol_back r p s)) = MlmeProps.core (as_m s)" for r p
    using core_ap(8) [of r p s] core_upd_node by (simp add: eapol_back_def MlmeProps.core_def)
  then have m: "m_opmode (as_m (eapol_back r p s)) = M_STA" "m_state (as_m (eapol_back r p s)) = m_state (as_m s)"
    "m_link (as_m (eapol_back r p s)) = m_link (as_m s)" for r p
    using assms(1) by (simp_all add: MlmeProps.core_def)
  show ?thesis
    using assms(2) log m by (auto simp: if_event_def Let_def m_set_link_state_def log_ev_def split: if_splits)
qed

section \<open>The link\<close>

lemma back_core: "MlmeProps.core (as_m (eapol_back r p s)) = MlmeProps.core (as_m s)"
  using core_ap(8) [of r p s] core_upd_node by (simp add: eapol_back_def MlmeProps.core_def)

lemma replay_unmarked:
  "filter marked es = [] \<Longrightarrow> replay H r es m = Some (Done m') \<Longrightarrow> MlmeProps.core m' = MlmeProps.core m"
proof (induction es arbitrary: m)
  case (Cons e es)
  then show ?case by (cases e) (auto dest!: Cons.IH)
qed simp

lemma replay_link:
  "filter marked es = [pae_event.Ev_Link l] \<Longrightarrow> replay H r es m = Some (Done m') \<Longrightarrow> m_state m' = m_state m"
proof (induction es arbitrary: m)
  case (Cons e es)
  show ?case
  proof (cases "marked e")
    case True
    then have e: "e = pae_event.Ev_Link l" "filter marked es = []" using Cons.prems(1) by auto
    then show ?thesis
      using Cons.prems(2) replay_unmarked [OF e(2), of H r "m_set_link_state l m" m'] by (auto dest: coreD(2))
  next
    case False
    then have es: "filter marked es = [pae_event.Ev_Link l]" using Cons.prems(1) by simp
    have "m_state (snd (send_mgmt H r type arg m)) = m_state m" for type arg
      using core_send_frame(2) [of H r type arg m] by (rule coreD(2))
    then show ?thesis
      using False Cons.prems(2) Cons.IH [OF es] by (cases e) (auto dest!: Cons.IH [OF es])
  qed
qed simp

lemma run_link: "run H (Call c m) = Some (Done t) \<Longrightarrow> link_ok m \<Longrightarrow> link_ok t"
  using run_out [of H "Call c m" "Done t" link_ok] link_step by auto

lemma replay_scan:
  "filter marked es = [Ev_Scan] \<Longrightarrow> replay H r es m = Some (Done m') \<Longrightarrow> link_ok m \<Longrightarrow> link_ok m'"
proof (induction es arbitrary: m)
  case (Cons e es)
  show ?case
  proof (cases "marked e")
    case True
    then have e: "e = Ev_Scan" "filter marked es = []" using Cons.prems(1) by auto
    then obtain t where t: "run H (Call (New_State S_SCAN None) m) = Some (Done t)" "replay H r es t = Some (Done m')"
      using Cons.prems(2) by (auto split: option.splits outcome.splits)
    then show ?thesis
      using run_link [OF t(1) Cons.prems(3)] replay_unmarked [OF e(2) t(2)] link_ok_core by blast
  next
    case False
    then have es: "filter marked es = [Ev_Scan]" using Cons.prems(1) by simp
    have "link_ok (snd (send_mgmt H r type arg m))" for type arg
      using link_ok_core [OF Cons.prems(3)] by simp
    then show ?thesis
      using False Cons.prems(2,3) Cons.IH [OF es] by (cases e) (auto dest!: Cons.IH [OF es])
  qed
qed simp

text \<open>An access point or an ad hoc network never has its link up.\<close>

lemma m_opmode_link [simp]: "m_opmode (m_set_link_state l s) = m_opmode s"
  by (simp add: m_set_link_state_def log_ev_def Let_def)

lemma opmode_newstate: "out (\<lambda>t. m_opmode t = m_opmode s) (newstate H n mgt s)"
proof -
  define same where "same t \<longleftrightarrow> m_opmode t = m_opmode s" for t :: mlme
  have c: "MlmeProps.core t = MlmeProps.core (enter_state n s) \<Longrightarrow> same t" for t
    unfolding same_def by (metis coreD(1) m_opmode_enter)
  have i: "out same (init_done H t)" if "MlmeProps.core t = MlmeProps.core (enter_state n s)" for t
    using that by (auto simp: init_done_def Let_def intro!: c)
  have "out same (newstate H n mgt s)"
  proof (cases n)
    case S_INIT
    then show ?thesis by (auto simp: newstate_def to_init_def Let_def intro!: i)
  next
    case S_SCAN
    then show ?thesis by (auto simp: newstate_def to_scan_def Let_def intro!: c split: ieee80211_state.split)
  next
    case S_AUTH
    moreover have "same (t\<lparr>m_state := S_RUN\<rparr>) = same t" for t by (simp add: same_def)
    ultimately show ?thesis by (auto simp: newstate_def to_auth_def Let_def intro!: c split: ieee80211_state.split)
  next
    case S_ASSOC
    then show ?thesis by (auto simp: newstate_def to_assoc_def Let_def intro!: c split: ieee80211_state.split)
  next
    case S_RUN
    then show ?thesis
      by (simp add: newstate_def to_run_def Let_def same_def m_opmodes core_upd_node [THEN coreD(1)])
  qed
  then show ?thesis by (simp add: same_def [abs_def])
qed

lemma opmode_step: "out (\<lambda>t. m_opmode t = m_opmode s) (mlme_step H c s)"
proof -
  consider (state) n mgt where "c = New_State n mgt" | (ibss) h where "c = Create_Ibss h"
    | (other) "\<forall>n mgt. c \<noteq> New_State n mgt" "\<forall>h. c \<noteq> Create_Ibss h"
    by blast
  then show ?thesis
  proof cases
    case state
    then show ?thesis by (simp add: mlme_step_def opmode_newstate)
  next
    case ibss
    then show ?thesis
      using out_mono [OF core_create_ibss coreD(1)] by (simp add: mlme_step_def)
  next
    case other
    then show ?thesis by (intro keeps_out [OF keeps_step]) (blast intro: coreD(1))+
  qed
qed

definition never_up :: "mlme \<Rightarrow> bool" where
  "never_up m \<longleftrightarrow> m_opmode m \<in> {M_HOSTAP, M_IBSS} \<and> link_ok m"

lemma never_up_core: "MlmeProps.core t = MlmeProps.core m \<Longrightarrow> never_up t = never_up m"
  using coreD(1) [of t m] link_ok_cong [of t m] by (simp add: never_up_def)

lemma out_and: "out P r \<Longrightarrow> out Q r \<Longrightarrow> out (\<lambda>s. P s \<and> Q s) r"
  by (cases r) auto

lemma never_up_step: "never_up m \<Longrightarrow> out never_up (mlme_step H c m)"
proof -
  assume a: "never_up m"
  have "out (\<lambda>t. m_opmode t = m_opmode m \<and> link_ok t) (mlme_step H c m)"
    using out_and [OF opmode_step link_step] a by (simp add: never_up_def)
  then show ?thesis by (rule out_mono) (use a in \<open>auto simp: never_up_def\<close>)
qed

lemma never_up_run: "run H (Call c m) = Some (Done t) \<Longrightarrow> never_up m \<Longrightarrow> never_up t"
  using run_out [of H "Call c m" "Done t" never_up] never_up_step by auto

lemma never_up_link: "never_up m \<Longrightarrow> never_up (m_set_link_state l m)"
  by (auto simp: never_up_def m_set_link_state_def link_ok_def log_ev_def Let_def)

lemma replay_never_up: "replay H r es m = Some (Done m') \<Longrightarrow> never_up m \<Longrightarrow> never_up m'"
proof (induction es arbitrary: m)
  case (Cons e es)
  have "never_up (snd (send_mgmt H r type arg m))" for type arg
    using never_up_core [of "snd (send_mgmt H r type arg m)" m] Cons.prems(2) by simp
  then show ?case
    using Cons never_up_link [OF Cons.prems(2)] never_up_run [OF _ Cons.prems(2)]
    by (cases e) (auto split: option.splits outcome.splits)
qed simp

lemma view_fields:
  "p_log (eapol_view s r) = []" "opmode (eapol_view s r) = m_opmode (as_m s)"
  "pn_rsn_supp_state (p_ni (eapol_view s r)) = bn_supp_state (ap_node s r)"
  by (simp_all add: eapol_view_def pae_view_def opmode_def pae_com_in_def Let_def)

text \<open>What a handler does leaves the link down outside RUN, unless it has changed the link in another state.\<close>

lemma replay_handler:
  assumes "ends (eapol_view s r) p" "link_ok (as_m s)" "replay H r (p_log p) (as_m (eapol_back r p s)) = Some (Done m')"
    "\<not> link_ok m'"
  shows "m_state (as_m s) \<noteq> S_RUN \<and> marks p \<noteq> []"
proof -
  let ?m = "as_m (eapol_back r p s)"
  have ok: "link_ok ?m" "m_state ?m = m_state (as_m s)"
    using link_ok_cong [OF back_core] assms(2) coreD(2) [OF back_core] by simp_all
  have "filter marked (p_log p) = marks p" by (simp add: marks_def)
  moreover have "marks p = [] \<or> marks p = [Ev_Scan] \<or> (\<exists>l. marks p = [pae_event.Ev_Link l])"
    using assms(1) by (auto simp: ends_def marks_def view_fields)
  ultimately consider "marks p = []" "filter marked (p_log p) = []" | "filter marked (p_log p) = [Ev_Scan]"
    | l where "filter marked (p_log p) = [pae_event.Ev_Link l]" "marks p \<noteq> []" by fastforce
  then show ?thesis
  proof cases
    case 1
    then show ?thesis using replay_unmarked [OF 1(2) assms(3)] link_ok_core [OF ok(1)] assms(4) by blast
  next
    case 2
    then show ?thesis using replay_scan [OF 2 assms(3) ok(1)] assms(4) by blast
  next
    case 3
    then show ?thesis using replay_link [OF 3(1) assms(3)] ok(2) assms(4) by (auto simp: link_ok_def)
  qed
qed

text \<open>C23. The link of an interface is up only in the state RUN, but for the keys.  Whatever event happens (a received
  authentication, association response, deauthentication, disassociation or EAPOL frame, the management timer,
  the release of a node, a call of the host or its group key), if the link was down or the state RUN before, then
  when the calls that follow have been carried out the link is down or the state machine in RUN, with one exception: an EAPOL
  frame for a node whose supplicant has been started, or the group key of the host, that comes in another
  state.  These look at no state before they raise the link.\<close>

theorem link_up_only_in_run:
  assumes "m_link (as_m s) = LINK_UP \<longrightarrow> m_state (as_m s) = S_RUN" "if_event H P i s = Some (Done m')"
  shows "(m_link m' = LINK_UP \<longrightarrow> m_state m' = S_RUN) \<or>
    m_state (as_m s) \<noteq> S_RUN \<and>
      ((\<exists>pl f r. i = If_Eapol pl f r \<and> bn_supp_state (ap_node s r) \<noteq> SUPP_INITIALIZE) \<or>
       (\<exists>gtk kid rsc. i = If_Set_Gtk gtk kid rsc))"
proof (cases "link_ok m'")
  case False
  have ok: "link_ok (as_m s)" using assms(1) by (simp add: link_ok_def)
  show ?thesis
  proof (cases i)
    case (If_Mlme j)
    then have "link_ok m'"
      using assms(2) run_out [of H "mlme_input H j (as_m s)" "Done m'" link_ok, OF _ link_input [OF ok] link_step]
      by (simp add: if_event_def)
    then show ?thesis using False by simp
  next
    case (If_Eapol pl f r)
    then obtain p where p: "eapol_key_input P pl f (eapol_view s r) = Some p"
      "replay H r (p_log p) (as_m (eapol_back r p s)) = Some (Done m')"
      using assms(2) by (auto simp: if_event_def split: option.splits)
    have mode: "opmode (eapol_view s r) \<noteq> M_HOSTAP" "opmode (eapol_view s r) \<noteq> M_IBSS"
    proof -
      have "\<not> never_up (as_m (eapol_back r p s))"
        using replay_never_up [OF p(2)] False by (auto simp: never_up_def)
      then have "\<not> never_up (as_m s)" using never_up_core [OF back_core] by simp
      then show "opmode (eapol_view s r) \<noteq> M_HOSTAP" "opmode (eapol_view s r) \<noteq> M_IBSS"
        using ok by (auto simp: never_up_def view_fields)
    qed
    note e = eapol_ends [OF p(1) mode]
    have "m_state (as_m s) \<noteq> S_RUN" "marks p \<noteq> []" using replay_handler [OF _ ok p(2) False] e by blast+
    moreover have "marks (eapol_view s r) = []" by (simp add: marks_def view_fields)
    ultimately show ?thesis using e If_Eapol by (auto simp: view_fields)
  next
    case (If_Set_Gtk gtk kid rsc)
    then have "replay H Bss (p_log (set_gtk P gtk kid rsc (eapol_view s Bss)))
        (as_m (eapol_back Bss (set_gtk P gtk kid rsc (eapol_view s Bss)) s)) = Some (Done m')"
      using assms(2) by (simp add: if_event_def Let_def)
    from replay_handler [OF set_gtk_ends ok this False] show ?thesis using If_Set_Gtk by blast
  qed
qed (simp add: link_ok_def)

definition link_demo :: aps where
  "link_demo = ap_demo\<lparr>as_rx := (as_rx ap_demo)\<lparr>rs_m := demo_run\<rparr>\<rparr>"

theorem link_up_only_in_run_witness:
  "\<exists>m'. if_event demo_hk demo_hooks (If_Mlme (In_Disassoc (replicate 26 0) Bss)) link_demo = Some (Done m') \<and>
     (m_link m' = LINK_UP \<longrightarrow> m_state m' = S_RUN)"
proof -
  have m: "as_m link_demo = demo_run" by (simp add: link_demo_def as_m_def)
  have "m_opmode demo_run = M_STA" "\<not> roamscanning (log_ev (Ev_Stat St_Disassoc) demo_run)" "m_link demo_run = LINK_UP \<longrightarrow> m_state demo_run = S_RUN"
    by code_simp+
  moreover from this have "\<exists>m'. if_event demo_hk demo_hooks (If_Mlme (In_Disassoc (replicate 26 0) Bss)) link_demo = Some (Done m')"
    by (simp add: if_event_def m mlme_input_def recv_disassoc_def run.simps mlme_step_def newstate_def to_assoc_def
        Let_def m_opmodes)
  ultimately show ?thesis
    using link_up_only_in_run [of link_demo] unfolding m by blast
qed

end
