(* ===== verification/Spec2Isabelle.thy ===== *)
theory Spec2Isabelle
  imports BlockAckFrames Amsdu SuppDemo CipherReplay RateProps RateAdapt MlmeTerm ReceiveProps RaProps TransmitDemo LinkState
begin

text \<open>
  The 802.11 stack of itlwm (\<^verbatim>\<open>src/itl80211/openbsd/net80211\<close> with
  \<^verbatim>\<open>src/itl80211/openbsd/crypto\<close>, C), a port of the stack of OpenBSD to macOS.

  \<^bold>\<open>The program.\<close>  The stack lies between the drivers of the Intel adapters and the network layer of
  macOS.  A driver fills in \<^verbatim>\<open>struct ieee80211com\<close> (capabilities, channels, hooks), hands received
  frames to \<^verbatim>\<open>ieee80211_inputm\<close> and moves the interface with \<^verbatim>\<open>ieee80211_new_state\<close>.  The stack keeps
  one \<^verbatim>\<open>struct ieee80211_node\<close> per station or access point it knows, chooses an access point, runs
  authentication, association and the key handshakes, keeps the Block Ack agreements of a node, and
  reorders, decrypts and takes apart data frames.

  \<^bold>\<open>Parts and theories.\<close>  Each theory follows the order of its source file; a definition has the name of
  the C function without the prefix \<^verbatim>\<open>ieee80211_\<close>.

  \<^item> Prelude: bytes, flags, little- and big-endian access, sequence numbers.  Timeout: \<^verbatim>\<open>timeout.c\<close> and
    \<^verbatim>\<open>CTimeout.cpp\<close>.
  \<^item> Receive reordering (\<^verbatim>\<open>ieee80211_input_ba\<close> to \<^verbatim>\<open>ieee80211_ba_move_window\<close>): Reorder; its correctness in
    ReorderCorrect, ReorderProps (refinement of a plain list of slots, order, conservation) and
    ReorderTimers (frames that wait have a timer).
  \<^item> Block Ack agreements: BlockAck (handlers, requests, timers), BlockAckProps (the agreements of a node as
    a state machine, invariants of the reachable states), BlockAckFrames (the exchange between two stations).
  \<^item> Frames: InfoElem (parsers of information elements), MgmtFrames (builders), MgmtProps (space, round trips,
    reads in bounds), Amsdu (aggregates of MSDUs).
  \<^item> Cryptography: CryptoPrims (HMAC, CMAC, RC4, key wrap, Michael in WepTkip), KeyMgmt with KeyProps (keys,
    derivation, EAPOL-Key MIC and encryption, PMKSA cache), Ccmp, WepTkip, Bip and the dispatch Ciphers;
    CipherProps, CipherStream, CipherReplay (round trips of streams of frames, replay protection).
  \<^item> The handshakes (\<^verbatim>\<open>ieee80211_pae_input.c\<close>, \<^verbatim>\<open>ieee80211_pae_output.c\<close>): Pae, Supplicant, Authenticator, PaeInput;
    SuppProps and SuppGroup (what a received frame may change, replay, installation of keys), Handshake and
    Agreement (two stations running this code agree), SuppDemo (concrete runs).  PaeLink: what the handlers do to the
    link, with the group key that the host hands down (\<^verbatim>\<open>setGTK\<close> of \<^verbatim>\<open>AirportItlwm.cpp\<close>).
  \<^item> Rates: Rates with RateProps (negotiation), RateAdapt (AMRR and RSSADAPT); \<^verbatim>\<open>ieee80211_ra.c\<close>: RaRates (rate sets)
    and RaChoose (reports, probing, choice) with RaProps (no panic for a sound peer, and the report that panics).
  \<^item> The cache of nodes: Nodes with NodeProps.  Modes, channels and configured networks: Scan.  The choice of an
    access point: Select with SelectProps.
  \<^item> The interface: Mlme (\<^verbatim>\<open>ieee80211_newstate\<close>, scanning, joining), HtSetup (HT, VHT and HE elements and
    negotiation), MlmeInput (received management frames, the watchdog); MlmeProps (what the steps leave alone, association)
    and MlmeTerm (the calls an event starts come to an end).  LinkState puts these events, EAPOL frames and the group
    key of the host together: the link is up only in the state RUN, but for the keys, which raise it in any state.
  \<^item> The receive path (\<^verbatim>\<open>ieee80211_inputm\<close> to the delivery): Receive puts the node cache, the Block Ack agreements,
    the ciphers and Amsdu together; ReceiveProps (what is delivered was opened, the port controls delivery,
    protected management frames are verified; a frame that the driver has
    decrypted is taken without a check of its number when the driver has cleared its protected bit).  The frames that the reordering buffer releases are processed
    after the reordering step, by \<open>inputm_body\<close>.
  \<^item> The stations of an access point (\<^verbatim>\<open>ieee80211_recv_assoc_req\<close>, \<^verbatim>\<open>ieee80211_node_join\<close>, \<^verbatim>\<open>ieee80211_node_leave\<close>, SA
    Query, station events): ApStations puts the receive path and the authenticator together; ApProps
    (association identifiers are unique in every reachable state), ApPolicy (an RSN association follows the
    policy), ApDemo (a station that joins).
  \<^item> The transmit path (\<^verbatim>\<open>ieee80211_encap\<close>, classification, look-up of nodes, power save, management output, control
    frames): Transmit; TransmitProps (what is sent is what the receive path takes apart, protection and ports,
    sequence numbers of data and management frames, group addressed frames after a DTIM, Block Ack requests read back), TransmitDemo.

  \<^bold>\<open>State.\<close>  There are several views of the two big structures, each with the fields that its part of the
  code reads and writes: the Block Ack part (\<open>ba_node\<close>, \<open>ba_com\<close>), the port access entity (\<open>pn\<close> and \<open>pc\<close> records)
  and the interface (\<open>bnode\<close>, \<open>mlme\<close>).  The records \<open>rxs\<close>, \<open>aps\<close> and \<open>txs\<close> nest them, and a field that two views share is
  brought up to date before an operation of the other view runs (\<open>ba_view\<close>, \<open>pae_view\<close>).  Effects outside the stack (frames sent, driver hooks, messages to the
  network layer, statistics) are events of a log, in order.

  \<^bold>\<open>Conventions and bounds.\<close>  Integers have the width of the C type where it matters (\<open>u8\<close> to \<open>u64\<close>), the clock
  of the kernel is an unbounded integer.  An mbuf chain is the list of its bytes; reading behind its end
  gives zero, and where the code can do so is the subject of lemmas (\<open>parse_rsn_in_bounds\<close>).  A pointer to
  a channel is an index, the red-black trees are sorted lists, a pointer to a node is \<open>Bss\<close> or the address
  of a node of the tree.  A panic is a value (\<open>Panicked\<close> or \<open>None\<close>).  The functions around
  \<^verbatim>\<open>ieee80211_newstate\<close> call each other in a cycle: each is one step that returns the call it makes last, and
  \<open>run\<close> iterates the steps as a partial function into \<open>option\<close>, so that going round for ever would be \<open>None\<close>;
  \<open>event_handling_ends\<close> shows that it is not.  Other loops are recursive functions with a termination proof;
  there is no fuel.

  \<^bold>\<open>Parameters.\<close>  The block ciphers and hash functions (vendored implementations of published standards),
  driver hooks, random numbers, outcomes of allocations, bytes left on the stack, and build options are arguments; so are
  \<^verbatim>\<open>ieee80211_eapol_key_input\<close> and \<^verbatim>\<open>ic_recv_mgmt\<close> in the receive path, whose models are in PaeInput and MlmeInput.  What a theorem needs of
  them is a premise (an inverse of the block cipher, a driver that leaves the key material alone).

  \<^bold>\<open>Not modelled.\<close>  The hardware drivers (C++, registers, DMA, firmware commands) and the controllers of
  macOS (but for \<^verbatim>\<open>setGTK\<close>); the ioctl interface, the media tables and the printing of debugging messages; probe requests and
  responses and beacons as input; MiRA (\<^verbatim>\<open>ieee80211_mira.c\<close>), the table of regulatory domains and the background scan
  timers; defragmentation, which is compiled out; the hashes and ciphers themselves.  A failed send calls back into \<^verbatim>\<open>ieee80211_node_switch_bss\<close>; the call is recorded as the event
  \<open>Ev_Released\<close> and \<open>In_Release\<close> performs it.  The station's hook \<^verbatim>\<open>ic_newstate\<close> is the default one.  The re-arming of
  \<^verbatim>\<open>if_timer\<close> in the watchdog is left out.  A node that leaves is an event: its Block Ack agreements and keys
  are states of other theories.
\<close>

end
